(* ===== verification/Prelude.thy ===== *)
theory Prelude
  imports Main "HOL-Library.Char_ord" "HOL-Library.Multiset"
begin

section \<open>Prelude: results, loops and strings shared by all components\<close>

text \<open>
  A TypeScript function that may throw is a function into \<open>'e + 'a\<close>: \<open>Inl\<close> carries what was
  thrown, \<open>Inr\<close> the returned value.  \<open>bind_r\<close> sequences two such computations, \<open>throw_if\<close>
  is the guard \<open>if (b) throw e;\<close>, and \<open>map_ix\<close> is \<open>Array.prototype.map\<close> with an index and a
  callback that may throw.  The collection \<open>result_simps\<close> turns a statement about the
  successful outcome of a chain of such steps into the conjunction of its guards.
\<close>

named_theorems result_simps \<open>inversion of successful results\<close>
named_theorems steps \<open>definitions of the operations that a step relation is made of\<close>

subsection \<open>Results\<close>

definition bind_r :: "'e + 'a \<Rightarrow> ('a \<Rightarrow> 'e + 'b) \<Rightarrow> 'e + 'b" where
  "bind_r m f = (case m of Inl e \<Rightarrow> Inl e | Inr a \<Rightarrow> f a)"

definition throw_if :: "bool \<Rightarrow> 'e \<Rightarrow> 'e + unit" where
  "throw_if b e = (if b then Inl e else Inr ())"

lemma bind_r_Inl [simp]: "bind_r (Inl e) f = Inl e"
  by (simp add: bind_r_def)

lemma bind_r_Inr [simp]: "bind_r (Inr a) f = f a"
  by (simp add: bind_r_def)

lemma bind_r_eq_Inr [result_simps]: "bind_r m f = Inr b \<longleftrightarrow> (\<exists>a. m = Inr a \<and> f a = Inr b)"
  by (cases m) auto

lemma bind_r_eq_Inl [result_simps]:
  "bind_r m f = Inl e \<longleftrightarrow> m = Inl e \<or> (\<exists>a. m = Inr a \<and> f a = Inl e)"
  by (cases m) auto

lemma bind_r_assoc: "bind_r (bind_r m f) g = bind_r m (\<lambda>x. bind_r (f x) g)"
  by (cases m) auto

lemma throw_if_True [simp]: "throw_if True e = Inl e"
  by (simp add: throw_if_def)

lemma throw_if_False [simp]: "throw_if False e = Inr ()"
  by (simp add: throw_if_def)

lemma throw_if_eq_Inr [result_simps]: "throw_if b e = Inr u \<longleftrightarrow> \<not> b"
  by (simp add: throw_if_def)

lemma throw_if_eq_Inl [result_simps]: "throw_if b e = Inl e' \<longleftrightarrow> b \<and> e' = e"
  by (auto simp: throw_if_def)

lemma if_Inr_eq_Inr [result_simps]: "(if b then Inr x else Inl e) = Inr y \<longleftrightarrow> b \<and> y = x"
  by auto

lemma if_Inl_eq_Inr [result_simps]: "(if b then Inl e else m) = Inr y \<longleftrightarrow> \<not> b \<and> m = Inr y"
  by auto

lemma bind_r_cong [fundef_cong]:
  "m = m' \<Longrightarrow> (\<And>a. m' = Inr a \<Longrightarrow> f a = f' a) \<Longrightarrow> bind_r m f = bind_r m' f'"
  by (cases m') auto

subsection \<open>Mapping with a callback that may throw\<close>

fun map_ix :: "(nat \<Rightarrow> 'a \<Rightarrow> 'e + 'b) \<Rightarrow> nat \<Rightarrow> 'a list \<Rightarrow> 'e + 'b list" where
  "map_ix f i [] = Inr []"
| "map_ix f i (x # xs) = bind_r (f i x) (\<lambda>y. bind_r (map_ix f (Suc i) xs) (\<lambda>ys. Inr (y # ys)))"

lemma map_ix_length: "map_ix f i xs = Inr ys \<Longrightarrow> length ys = length xs"
  by (induction xs arbitrary: i ys) (auto simp: result_simps)

lemma map_ix_all:
  assumes "map_ix f i xs = Inr ys" and "\<And>i x y. x \<in> set xs \<Longrightarrow> f i x = Inr y \<Longrightarrow> P y"
  shows "\<forall>y \<in> set ys. P y"
  using assms
proof (induction xs arbitrary: i ys)
  case Nil
  then show ?case by simp
next
  case (Cons x xs)
  from Cons.prems(1) obtain y zs where
    y: "f i x = Inr y" and zs: "map_ix f (Suc i) xs = Inr zs" and ys: "ys = y # zs"
    by (auto simp: result_simps)
  have "\<forall>z \<in> set zs. P z"
    using Cons.IH [OF zs] Cons.prems(2) by auto
  with y ys Cons.prems(2) show ?case by auto
qed

lemma map_ix_encoded:
  "(\<And>i x y. x \<in> set xs \<Longrightarrow> f i (g x) = Inr y \<longleftrightarrow> P x \<and> y = x) \<Longrightarrow>
   map_ix f i (map g xs) = Inr ys \<longleftrightarrow> (\<forall>x \<in> set xs. P x) \<and> ys = xs"
  by (induction xs arbitrary: i ys) (auto simp: result_simps)

subsection \<open>Lists\<close>

lemma find_Some_mem: "List.find P xs = Some x \<Longrightarrow> x \<in> set xs \<and> P x"
  by (auto simp: find_Some_iff)

lemma find_throw_eq_Inr [result_simps]:
  "(case List.find P xs of Some x \<Rightarrow> Inl (e x) | None \<Rightarrow> m) = Inr y \<longleftrightarrow> (\<forall>x \<in> set xs. \<not> P x) \<and> m = Inr y"
proof (cases "List.find P xs")
  case None
  then have "\<forall>x \<in> set xs. \<not> P x" by (auto simp: find_None_iff)
  with None show ?thesis by simp
next
  case (Some x)
  with find_Some_mem [OF Some] show ?thesis by auto
qed

lemma find_cong_key:
  "distinct (map k xs) \<Longrightarrow> x \<in> set xs \<Longrightarrow> List.find (\<lambda>y. k y = k x) xs = Some x"
  by (induction xs) (auto simp: rev_image_eqI)

lemma find_None_key: "List.find (\<lambda>y. k y = a) xs = None \<longleftrightarrow> a \<notin> k ` set xs"
  by (auto simp: find_None_iff)

lemma distinct_map_filter_key: "distinct (map k xs) \<Longrightarrow> distinct (map k (filter P xs))"
  by (induction xs) auto

lemma distinct_map_sort_key [simp]: "distinct (map k (sort_key g xs)) \<longleftrightarrow> distinct (map k xs)"
proof -
  have "mset (map k (sort_key g xs)) = mset (map k xs)"
    by simp
  then show ?thesis
    by (metis mset_eq_imp_distinct_iff)
qed

subsection \<open>Decimal numerals, as String(n) prints them\<close>

fun nat_dec :: "nat \<Rightarrow> string" where
  "nat_dec n = (if n < 10 then [char_of (48 + n)] else nat_dec (n div 10) @ [char_of (48 + n mod 10)])"

declare nat_dec.simps [simp del]

definition int_dec :: "int \<Rightarrow> string" where
  "int_dec i = (if i < 0 then CHR ''-'' # nat_dec (nat (- i)) else nat_dec (nat i))"

definition is_digit :: "char \<Rightarrow> bool" where
  "is_digit c \<longleftrightarrow> CHR ''0'' \<le> c \<and> c \<le> CHR ''9''"

text \<open>\<open>digits_val\<close> reads a string of decimal digits, as \<open>Number(s)\<close> does for such a string.\<close>

definition digit_val :: "char \<Rightarrow> nat" where
  "digit_val c = of_char c - 48"

fun digits_val :: "nat \<Rightarrow> string \<Rightarrow> nat" where
  "digits_val acc [] = acc"
| "digits_val acc (c # cs) = digits_val (10 * acc + digit_val c) cs"

lemma digits_val_append: "digits_val acc (xs @ ys) = digits_val (digits_val acc xs) ys"
  by (induction xs arbitrary: acc) auto

lemma of_char_digit: "d < 10 \<Longrightarrow> of_char (char_of (48 + d) :: char) = 48 + (d :: nat)"
  by (simp add: of_char_of)

lemma is_digit_char_of: "d < 10 \<Longrightarrow> is_digit (char_of (48 + d :: nat))"
  by (simp add: is_digit_def less_eq_char_def of_char_of)

lemma nat_dec_digits: "list_all is_digit (nat_dec n)"
proof (induction n rule: nat_dec.induct)
  case (1 n)
  then show ?case
    by (subst nat_dec.simps) (auto simp: is_digit_char_of)
qed

lemma nat_dec_not_Nil [simp]: "nat_dec n \<noteq> []"
  by (subst nat_dec.simps) simp

lemma digits_val_nat_dec: "digits_val 0 (nat_dec n) = n"
proof (induction n rule: nat_dec.induct)
  case (1 n)
  show ?case
  proof (cases "n < 10")
    case True
    then show ?thesis
      by (subst nat_dec.simps) (simp add: digit_val_def of_char_digit)
  next
    case False
    with "1.IH" have "digits_val 0 (nat_dec (n div 10)) = n div 10" by simp
    with False show ?thesis
      by (subst nat_dec.simps) (simp add: digits_val_append digit_val_def of_char_digit)
  qed
qed

lemma nat_dec_inject [simp]: "nat_dec m = nat_dec n \<longleftrightarrow> m = n"
  by (metis digits_val_nat_dec)

lemma int_dec_inject [simp]: "int_dec m = int_dec n \<longleftrightarrow> m = n"
proof -
  have "CHR ''-'' \<notin> set (nat_dec k)" for k
    using nat_dec_digits [of k] by (auto simp: list_all_iff is_digit_def less_eq_char_def)
  then have "nat_dec k \<noteq> CHR ''-'' # xs" for k xs
    by (metis list.set_intros(1))
  then show ?thesis
    by (auto simp: int_dec_def) (metis eq_nat_nat_iff linorder_not_less nat_dec_inject)+
qed

end
