(* ===== verification/Regexps.thy ===== *)
theory Regexps
  imports Prelude
begin

section \<open>Regular expressions\<close>

text \<open>
  The program checks almost every string it accepts with a regular expression.  A pattern of
  the source is written as a value of \<open>rexp\<close>, construct by construct; \<open>rx_test\<close> decides the
  anchored patterns (those between \<open>^\<close> and \<open>$\<close>) and \<open>rx_search\<close> the unanchored ones, both by
  derivatives, so they evaluate.  \<open>rx_lang\<close> is the meaning of a pattern, and the lemmas of
  the last section read the usual shapes (a class repeated, a bounded identifier) off it.
  A back-reference or a look-around never occurs in the modelled files.
\<close>

datatype rexp =
    RNone                               \<comment> \<open>matches nothing\<close>
  | REps                                \<comment> \<open>the empty string\<close>
  | RCls "char \<Rightarrow> bool"                  \<comment> \<open>a character class\<close>
  | RSeq rexp rexp
  | RAlt rexp rexp
  | RStar rexp
  | RRep nat nat rexp                   \<comment> \<open>\<open>r{m,n}\<close>\<close>

subsection \<open>Meaning\<close>

definition conc :: "string set \<Rightarrow> string set \<Rightarrow> string set" where
  "conc A B = {u @ v | u v. u \<in> A \<and> v \<in> B}"

primrec power_lang :: "nat \<Rightarrow> string set \<Rightarrow> string set" where
  "power_lang 0 A = {[]}"
| "power_lang (Suc n) A = conc A (power_lang n A)"

primrec rx_lang :: "rexp \<Rightarrow> string set" where
  "rx_lang RNone = {}"
| "rx_lang REps = {[]}"
| "rx_lang (RCls P) = {[c] | c. P c}"
| "rx_lang (RSeq r s) = conc (rx_lang r) (rx_lang s)"
| "rx_lang (RAlt r s) = rx_lang r \<union> rx_lang s"
| "rx_lang (RStar r) = (\<Union>k. power_lang k (rx_lang r))"
| "rx_lang (RRep m n r) = (\<Union>k \<in> {m..n}. power_lang k (rx_lang r))"

subsection \<open>The matcher\<close>

fun rx_seq :: "rexp \<Rightarrow> rexp \<Rightarrow> rexp" where
  "rx_seq RNone s = RNone"
| "rx_seq REps s = s"
| "rx_seq r s = RSeq r s"

fun rx_alt :: "rexp \<Rightarrow> rexp \<Rightarrow> rexp" where
  "rx_alt RNone s = s"
| "rx_alt r RNone = r"
| "rx_alt r s = RAlt r s"

fun rx_nullable :: "rexp \<Rightarrow> bool" where
  "rx_nullable RNone = False"
| "rx_nullable REps = True"
| "rx_nullable (RCls P) = False"
| "rx_nullable (RSeq r s) = (rx_nullable r \<and> rx_nullable s)"
| "rx_nullable (RAlt r s) = (rx_nullable r \<or> rx_nullable s)"
| "rx_nullable (RStar r) = True"
| "rx_nullable (RRep m n r) = (m \<le> n \<and> (m = 0 \<or> rx_nullable r))"

fun rx_deriv :: "char \<Rightarrow> rexp \<Rightarrow> rexp" where
  "rx_deriv c RNone = RNone"
| "rx_deriv c REps = RNone"
| "rx_deriv c (RCls P) = (if P c then REps else RNone)"
| "rx_deriv c (RSeq r s) =
     (if rx_nullable r then rx_alt (rx_seq (rx_deriv c r) s) (rx_deriv c s)
      else rx_seq (rx_deriv c r) s)"
| "rx_deriv c (RAlt r s) = rx_alt (rx_deriv c r) (rx_deriv c s)"
| "rx_deriv c (RStar r) = rx_seq (rx_deriv c r) (RStar r)"
| "rx_deriv c (RRep m n r) =
     (if n = 0 \<or> n < m then RNone else rx_seq (rx_deriv c r) (RRep (m - 1) (n - 1) r))"

fun rx_test :: "rexp \<Rightarrow> string \<Rightarrow> bool" where
  "rx_test r [] = rx_nullable r"
| "rx_test r (c # cs) = rx_test (rx_deriv c r) cs"

text \<open>An unanchored pattern may start and stop anywhere.\<close>

definition rx_any :: rexp where
  "rx_any = RStar (RCls (\<lambda>_. True))"

definition rx_search :: "rexp \<Rightarrow> string \<Rightarrow> bool" where
  "rx_search r s = rx_test (RSeq rx_any (RSeq r rx_any)) s"

subsection \<open>Abbreviating constructors\<close>

definition rx_opt :: "rexp \<Rightarrow> rexp" where "rx_opt r = RAlt REps r"
definition rx_plus :: "rexp \<Rightarrow> rexp" where "rx_plus r = RSeq r (RStar r)"
definition rx_char :: "char \<Rightarrow> rexp" where "rx_char c = RCls ((=) c)"
definition rx_times :: "nat \<Rightarrow> rexp \<Rightarrow> rexp" where "rx_times n r = RRep n n r"

primrec rx_str :: "string \<Rightarrow> rexp" where
  "rx_str [] = REps"
| "rx_str (c # cs) = RSeq (rx_char c) (rx_str cs)"

primrec rx_alts :: "rexp list \<Rightarrow> rexp" where
  "rx_alts [] = RNone"
| "rx_alts (r # rs) = RAlt r (rx_alts rs)"

definition in_range :: "char \<Rightarrow> char \<Rightarrow> char \<Rightarrow> bool" where
  "in_range a b c \<longleftrightarrow> a \<le> c \<and> c \<le> b"

subsection \<open>The matcher decides the meaning\<close>

lemma rx_seq_lang [simp]: "rx_lang (rx_seq r s) = conc (rx_lang r) (rx_lang s)"
  by (cases r) (auto simp: conc_def)

lemma rx_alt_lang [simp]: "rx_lang (rx_alt r s) = rx_lang r \<union> rx_lang s"
  by (cases "(r, s)" rule: rx_alt.cases) auto

lemma conc_iff: "w \<in> conc A B \<longleftrightarrow> (\<exists>u v. u \<in> A \<and> v \<in> B \<and> w = u @ v)"
  by (auto simp: conc_def)

lemma conc_Nil_iff: "[] \<in> conc A B \<longleftrightarrow> [] \<in> A \<and> [] \<in> B"
  by (auto simp: conc_def)

lemma power_lang_Nil: "[] \<in> power_lang k A \<longleftrightarrow> k = 0 \<or> [] \<in> A"
  by (induction k) (auto simp: conc_Nil_iff)

lemma rx_nullable_lang: "rx_nullable r \<longleftrightarrow> [] \<in> rx_lang r"
  by (induction r) (auto simp: conc_Nil_iff power_lang_Nil Bex_def)

lemma conc_Cons_iff:
  "c # w \<in> conc A B \<longleftrightarrow>
   ([] \<in> A \<and> c # w \<in> B) \<or> (\<exists>u v. c # u \<in> A \<and> v \<in> B \<and> w = u @ v)"
  by (auto simp: conc_def Cons_eq_append_conv)

lemma power_lang_absorb: "[] \<in> A \<Longrightarrow> w \<in> power_lang k A \<Longrightarrow> w \<in> power_lang (k + j) A"
proof (induction j)
  case 0
  then show ?case by simp
next
  case (Suc j)
  then have "[] @ w \<in> conc A (power_lang (k + j) A)" by (auto simp: conc_def)
  then show ?case by simp
qed

lemma power_lang_Cons:
  "c # w \<in> power_lang k A \<Longrightarrow>
   \<exists>u v j. c # u \<in> A \<and> v \<in> power_lang j A \<and> w = u @ v \<and> j < k \<and> (j = k - 1 \<or> [] \<in> A)"
proof (induction k)
  case 0
  then show ?case by simp
next
  case (Suc k)
  then consider (skip) "[] \<in> A" "c # w \<in> power_lang k A"
    | (hit) u v where "c # u \<in> A" "v \<in> power_lang k A" "w = u @ v"
    by (auto simp: conc_Cons_iff)
  then show ?case
  proof cases
    case skip
    then show ?thesis using Suc.IH by (metis less_SucI)
  next
    case hit
    then show ?thesis by force
  qed
qed

lemma power_lang_Cons_pred:
  assumes "c # w \<in> power_lang k A"
  shows "\<exists>u v. c # u \<in> A \<and> v \<in> power_lang (k - 1) A \<and> w = u @ v"
proof -
  from power_lang_Cons [OF assms] obtain u v j where
    *: "c # u \<in> A" "v \<in> power_lang j A" "w = u @ v" "j < k" "j = k - 1 \<or> [] \<in> A"
    by blast
  then have "v \<in> power_lang (k - 1) A"
    using power_lang_absorb [of A v j "k - 1 - j"] by auto
  with * show ?thesis by blast
qed

lemma rx_deriv_lang: "w \<in> rx_lang (rx_deriv c r) \<longleftrightarrow> c # w \<in> rx_lang r"
proof (induction r arbitrary: w)
  case (RSeq r s)
  then show ?case
    by (auto simp: rx_nullable_lang conc_Cons_iff) (auto simp: conc_def)
next
  case (RStar r)
  have "w \<in> conc (rx_lang (rx_deriv c r)) (\<Union>k. power_lang k (rx_lang r)) \<longleftrightarrow>
    (\<exists>u v k. c # u \<in> rx_lang r \<and> v \<in> power_lang k (rx_lang r) \<and> w = u @ v)"
    by (auto simp: conc_def RStar)
  also have "\<dots> \<longleftrightarrow> (\<exists>k. c # w \<in> power_lang k (rx_lang r))"
  proof
    assume "\<exists>u v k. c # u \<in> rx_lang r \<and> v \<in> power_lang k (rx_lang r) \<and> w = u @ v"
    then obtain u v k where "c # u \<in> rx_lang r" "v \<in> power_lang k (rx_lang r)" "w = u @ v"
      by blast
    then have "c # w \<in> power_lang (Suc k) (rx_lang r)"
      by (auto simp: conc_Cons_iff)
    then show "\<exists>k. c # w \<in> power_lang k (rx_lang r)" ..
  qed (blast dest: power_lang_Cons_pred)
  finally show ?case by simp
next
  case (RRep m n r)
  show ?case
  proof (cases "n = 0 \<or> n < m")
    case True
    then show ?thesis by auto
  next
    case False
    have "w \<in> rx_lang (rx_deriv c (RRep m n r)) \<longleftrightarrow>
      (\<exists>k u v. m - 1 \<le> k \<and> k \<le> n - 1 \<and> c # u \<in> rx_lang r \<and> v \<in> power_lang k (rx_lang r) \<and> w = u @ v)"
    proof -
      have "rx_lang (rx_deriv c (RRep m n r)) =
        conc (rx_lang (rx_deriv c r)) (\<Union>k \<in> {m - 1..n - 1}. power_lang k (rx_lang r))"
        using False by auto
      then show ?thesis by (simp only: conc_iff RRep UN_iff Bex_def atLeastAtMost_iff) blast
    qed
    also have "\<dots> \<longleftrightarrow> (\<exists>k. m \<le> k \<and> k \<le> n \<and> c # w \<in> power_lang k (rx_lang r))"
    proof
      assume "\<exists>k u v. m - 1 \<le> k \<and> k \<le> n - 1 \<and> c # u \<in> rx_lang r \<and>
        v \<in> power_lang k (rx_lang r) \<and> w = u @ v"
      then obtain k u v where k: "m - 1 \<le> k" "k \<le> n - 1"
        and uv: "c # u \<in> rx_lang r" "v \<in> power_lang k (rx_lang r)" "w = u @ v" by blast
      from uv have "c # w \<in> power_lang (Suc k) (rx_lang r)" by (auto simp: conc_Cons_iff)
      with k False show "\<exists>k. m \<le> k \<and> k \<le> n \<and> c # w \<in> power_lang k (rx_lang r)"
        by (intro exI [of _ "Suc k"]) auto
    next
      assume "\<exists>k. m \<le> k \<and> k \<le> n \<and> c # w \<in> power_lang k (rx_lang r)"
      then obtain k where k: "m \<le> k" "k \<le> n" and w: "c # w \<in> power_lang k (rx_lang r)" by blast
      from power_lang_Cons_pred [OF w] obtain u v where
        "c # u \<in> rx_lang r" "v \<in> power_lang (k - 1) (rx_lang r)" "w = u @ v" by blast
      with k show "\<exists>k u v. m - 1 \<le> k \<and> k \<le> n - 1 \<and> c # u \<in> rx_lang r \<and>
        v \<in> power_lang k (rx_lang r) \<and> w = u @ v"
        by (intro exI [of _ "k - 1"] exI [of _ u] exI [of _ v]) auto
    qed
    finally show ?thesis by auto
  qed
qed auto

theorem rx_test_correct: "rx_test r s \<longleftrightarrow> s \<in> rx_lang r"
  by (induction s arbitrary: r) (auto simp: rx_nullable_lang rx_deriv_lang)


subsection \<open>Reading the usual shapes\<close>

text \<open>From here on \<open>rx_test\<close> is unfolded by its meaning; the equations still evaluate it.\<close>

declare rx_test.simps [simp del]

lemma power_lang_cls: "power_lang k {[c] | c. P c} = {s. length s = k \<and> list_all P s}"
proof (induction k)
  case 0
  then show ?case by auto
next
  case (Suc k)
  show ?case
    by (auto simp: Suc conc_def length_Suc_conv) (metis append_Cons append_Nil)
qed

lemma rx_test_rep_cls:
  "rx_test (RRep m n (RCls P)) s \<longleftrightarrow> m \<le> length s \<and> length s \<le> n \<and> list_all P s"
  by (auto simp: rx_test_correct power_lang_cls)

lemma rx_test_times_cls: "rx_test (rx_times n (RCls P)) s \<longleftrightarrow> length s = n \<and> list_all P s"
  by (auto simp: rx_times_def rx_test_rep_cls)

lemma rx_test_star_cls: "rx_test (RStar (RCls P)) s \<longleftrightarrow> list_all P s"
  by (auto simp: rx_test_correct power_lang_cls)

lemma rx_test_cls: "rx_test (RCls P) s \<longleftrightarrow> (\<exists>c. s = [c] \<and> P c)"
  by (auto simp: rx_test_correct)

lemma rx_test_seq: "rx_test (RSeq r t) s \<longleftrightarrow> (\<exists>u v. rx_test r u \<and> rx_test t v \<and> s = u @ v)"
  by (simp add: rx_test_correct conc_iff)

lemma rx_test_alt: "rx_test (RAlt r t) s \<longleftrightarrow> rx_test r s \<or> rx_test t s"
  by (simp add: rx_test_correct)

lemma rx_test_opt: "rx_test (rx_opt r) s \<longleftrightarrow> s = [] \<or> rx_test r s"
  by (simp add: rx_opt_def rx_test_correct)

lemma rx_test_seq_cls: "rx_test (RSeq (RCls P) r) s \<longleftrightarrow> (\<exists>c t. s = c # t \<and> P c \<and> rx_test r t)"
  by (auto simp: rx_test_seq rx_test_cls)

lemma rx_test_str: "rx_test (rx_str t) s \<longleftrightarrow> s = t"
proof (induction t arbitrary: s)
  case Nil
  show ?case by (simp add: rx_test_correct)
next
  case (Cons c t)
  then show ?case by (auto simp: rx_char_def rx_test_seq_cls)
qed

lemma rx_test_plus_cls: "rx_test (rx_plus (RCls P)) s \<longleftrightarrow> s \<noteq> [] \<and> list_all P s"
  by (cases s) (auto simp: rx_plus_def rx_test_seq_cls rx_test_star_cls)

lemma rx_search_iff: "rx_search r s \<longleftrightarrow> (\<exists>u v w. s = u @ v @ w \<and> rx_test r v)"
proof -
  have "rx_test rx_any u" for u
    by (simp add: rx_any_def rx_test_star_cls list_all_iff)
  then show ?thesis
    by (auto simp: rx_search_def rx_test_seq)
qed

text \<open>
  The commonest shape of the program: a first character of \<open>P\<close>, then either nothing or at most
  \<open>n\<close> characters of \<open>Q\<close> closed by a character of \<open>P\<close>.
\<close>

definition rx_bounded_id :: "nat \<Rightarrow> (char \<Rightarrow> bool) \<Rightarrow> (char \<Rightarrow> bool) \<Rightarrow> rexp" where
  "rx_bounded_id n P Q = RSeq (RCls P) (rx_opt (RSeq (RRep 0 n (RCls Q)) (RCls P)))"

lemma rx_test_bounded_id:
  assumes "\<And>c. P c \<Longrightarrow> Q c"
  shows "rx_test (rx_bounded_id n P Q) s \<longleftrightarrow>
    s \<noteq> [] \<and> length s \<le> n + 2 \<and> P (hd s) \<and> P (last s) \<and> list_all Q s"
proof
  assume "rx_test (rx_bounded_id n P Q) s"
  then show "s \<noteq> [] \<and> length s \<le> n + 2 \<and> P (hd s) \<and> P (last s) \<and> list_all Q s"
    using assms
    by (auto simp: rx_bounded_id_def rx_test_seq_cls rx_test_opt rx_test_seq rx_test_rep_cls
        rx_test_cls)
next
  assume *: "s \<noteq> [] \<and> length s \<le> n + 2 \<and> P (hd s) \<and> P (last s) \<and> list_all Q s"
  then obtain c t where s: "s = c # t" by (cases s) auto
  show "rx_test (rx_bounded_id n P Q) s"
  proof (cases "t = []")
    case True
    with * s show ?thesis by (auto simp: rx_bounded_id_def rx_test_seq_cls rx_test_opt)
  next
    case False
    have "rx_test (RRep 0 n (RCls Q)) (butlast t)"
      using * s False by (auto simp: rx_test_rep_cls list_all_iff dest: in_set_butlastD)
    moreover have "rx_test (RCls P) [last t]"
      using * s False by (simp add: rx_test_cls)
    moreover have "t = butlast t @ [last t]" using False by simp
    ultimately have "rx_test (RSeq (RRep 0 n (RCls Q)) (RCls P)) t"
      unfolding rx_test_seq by blast
    with * s show ?thesis by (auto simp: rx_bounded_id_def rx_test_seq_cls rx_test_opt)
  qed
qed

end
