(* ===== verification/JsValues.thy ===== *)
theory JsValues
  imports Regexps "HOL-Library.List_Lexorder" "HOL-Library.Product_Lexorder"
begin

section \<open>JavaScript values, JSON text and string order\<close>

text \<open>
  \<open>jsval\<close> is the data a parser of the program receives as \<open>unknown\<close>: what \<open>JSON.parse\<close> can
  return, and \<open>undefined\<close>.  An object is the list of its own properties in enumeration order.
  A number is an integer, a finite non-integral number (kept as the decimal text JavaScript
  prints for it, which is all the program ever does with one), or not finite.  Integers are
  mathematical: they agree with the machine's doubles up to \<open>2^53\<close>.  A string is a list of
  characters below 256, so \<open>length\<close> is the number of UTF-16 units JavaScript counts.
\<close>

datatype jsnum = NInt int | NFrac string | NNaN | NInfinite bool

datatype jsval =
    JUndef
  | JNull
  | JBool bool
  | JNum jsnum
  | JStr string
  | JArr "jsval list"
  | JObj "(string \<times> jsval) list"

type_synonym props = "(string \<times> jsval) list"

text \<open>\<open>value[key]\<close> for an own property; a missing property reads as \<open>undefined\<close>.\<close>

definition js_get :: "props \<Rightarrow> string \<Rightarrow> jsval" where
  "js_get ps k = (case map_of ps k of None \<Rightarrow> JUndef | Some v \<Rightarrow> v)"

definition opt_js :: "('a \<Rightarrow> jsval) \<Rightarrow> 'a option \<Rightarrow> jsval" where
  "opt_js f x = (case x of None \<Rightarrow> JUndef | Some y \<Rightarrow> f y)"

lemma js_get_Cons [simp]: "js_get ((k, v) # ps) k' = (if k' = k then v else js_get ps k')"
  by (simp add: js_get_def)

lemma js_get_Nil [simp]: "js_get [] k = JUndef"
  by (simp add: js_get_def)

lemma opt_js_None [simp]: "opt_js f None = JUndef"
  by (simp add: opt_js_def)

lemma opt_js_Some [simp]: "opt_js f (Some x) = f x"
  by (simp add: opt_js_def)

lemma opt_js_undef: "(\<And>y. f y \<noteq> JUndef) \<Longrightarrow> (opt_js f x = JUndef) \<longleftrightarrow> x = None"
  by (cases x) auto

subsection \<open>JSON text\<close>

definition hex_digit :: "nat \<Rightarrow> char" where
  "hex_digit d = (if d < 10 then char_of (48 + d) else char_of (87 + d))"

definition json_escape :: "char \<Rightarrow> string" where
  "json_escape c =
     (if c = CHR 0x22 then [CHR 0x5C, CHR 0x22]
      else if c = CHR 0x5C then [CHR 0x5C, CHR 0x5C]
      else if c = CHR 0x08 then [CHR 0x5C, CHR ''b'']
      else if c = CHR 0x09 then [CHR 0x5C, CHR ''t'']
      else if c = CHR 0x0A then [CHR 0x5C, CHR ''n'']
      else if c = CHR 0x0C then [CHR 0x5C, CHR ''f'']
      else if c = CHR 0x0D then [CHR 0x5C, CHR ''r'']
      else if c < CHR 0x20
        then [CHR 0x5C, CHR ''u'', CHR ''0'', CHR ''0'',
              hex_digit (of_char c div 16), hex_digit (of_char c mod 16)]
      else [c])"

definition json_string :: "string \<Rightarrow> string" where
  "json_string s = CHR 0x22 # concat (map json_escape s) @ [CHR 0x22]"

definition json_num :: "jsnum \<Rightarrow> string" where
  "json_num n = (case n of NInt i \<Rightarrow> int_dec i | NFrac t \<Rightarrow> t | NNaN \<Rightarrow> ''null'' | NInfinite _ \<Rightarrow> ''null'')"

definition comma_join :: "string list \<Rightarrow> string" where
  "comma_join xs = concat (case xs of [] \<Rightarrow> [] | y # ys \<Rightarrow> y # map (\<lambda>z. CHR '','' # z) ys)"

text \<open>
  \<open>JSON.stringify\<close> of data: \<open>undefined\<close> is dropped from an object and printed as \<open>null\<close> in an
  array.  At the top level it is not a string; the program never stringifies it there.
\<close>

fun json_text :: "jsval \<Rightarrow> string" where
  "json_text JUndef = ''null''"
| "json_text JNull = ''null''"
| "json_text (JBool b) = (if b then ''true'' else ''false'')"
| "json_text (JNum n) = json_num n"
| "json_text (JStr s) = json_string s"
| "json_text (JArr vs) = ''['' @ comma_join (map json_text vs) @ '']''"
| "json_text (JObj ps) =
     ''{'' @ comma_join (map (\<lambda>(k, v). json_string k @ '':'' @ json_text v)
                          (filter (\<lambda>(k, v). v \<noteq> JUndef) ps)) @ ''}''"

subsection \<open>String order\<close>

text \<open>
  \<open>localeCompare\<close> is ICU's root collation.  On ASCII it compares the strings without their
  ignorable control characters by the primary order listed here, letters without regard to
  case, and breaks ties with lower case before upper case.  The program only sorts property
  names and validated identifiers, which are ASCII; other characters follow in code order.
\<close>

definition collation_order :: string where
  "collation_order =
     [CHR 0x09, CHR 0x0A, CHR 0x0B, CHR 0x0C, CHR 0x0D] @ '' _-,;:!?.'' @
     [CHR 0x27, CHR 0x22] @ ''()[]{}@*/'' @ [CHR 0x5C] @ ''&#%'' @ [CHR 0x60] @
     ''^+<=>|~$0123456789abcdefghijklmnopqrstuvwxyz''"

definition is_upper :: "char \<Rightarrow> bool" where
  "is_upper c = in_range CHR ''A'' CHR ''Z'' c"

text \<open>An ASCII letter and its other case differ in bit 5.\<close>

definition to_lower :: "char \<Rightarrow> char" where
  "to_lower c =
     (if is_upper c then (case c of Char b0 b1 b2 b3 b4 b5 b6 b7 \<Rightarrow> Char b0 b1 b2 b3 b4 True b6 b7) else c)"

definition ignorable :: "char \<Rightarrow> bool" where
  "ignorable c \<longleftrightarrow> (c < CHR 0x20 \<and> \<not> in_range CHR 0x09 CHR 0x0D c) \<or> c = CHR 0x7F"

primrec index_from :: "int \<Rightarrow> 'a list \<Rightarrow> 'a \<Rightarrow> int" where
  "index_from i [] a = i"
| "index_from i (x # xs) a = (if x = a then i else index_from (i + 1) xs a)"

definition primary_weight :: "char \<Rightarrow> int" where
  "primary_weight c =
     (if c < CHR 0x80 then index_from 0 collation_order (to_lower c) else of_char c)"

definition locale_key :: "string \<Rightarrow> int list \<times> int list" where
  "locale_key s =
     (let t = filter (\<lambda>c. \<not> ignorable c) s
      in (map primary_weight t, map (\<lambda>c. if is_upper c then 1 else 0) t))"

definition localeCompare :: "string \<Rightarrow> string \<Rightarrow> int" where
  "localeCompare l r =
     (if locale_key l < locale_key r then -1 else if locale_key l = locale_key r then 0 else 1)"

text \<open>\<open>xs.sort((l, r) => f(l).localeCompare(f(r)))\<close>: the sort is stable.\<close>

definition sort_by_locale :: "('a \<Rightarrow> string) \<Rightarrow> 'a list \<Rightarrow> 'a list" where
  "sort_by_locale f xs = sort_key (locale_key \<circ> f) xs"

text \<open>For evaluation, every key is computed once.\<close>

lemma insort_decorated:
  "insort_key fst (k x, x) (map (\<lambda>y. (k y, y)) ys) = map (\<lambda>y. (k y, y)) (insort_key k x ys)"
  by (induction ys) auto

lemma sort_decorated: "sort_key fst (map (\<lambda>y. (k y, y)) ys) = map (\<lambda>y. (k y, y)) (sort_key k ys)"
  by (induction ys) (simp_all add: insort_decorated)

lemma sort_by_locale_code [code]:
  "sort_by_locale f xs = map snd (sort_key fst (map (\<lambda>x. (locale_key (f x), x)) xs))"
  using sort_decorated [of "locale_key \<circ> f" xs] by (simp add: sort_by_locale_def comp_def)

lemma sort_by_locale_set [simp]: "set (sort_by_locale f xs) = set xs"
  by (simp add: sort_by_locale_def)

lemma sort_by_locale_mset [simp]: "mset (sort_by_locale f xs) = mset xs"
  by (simp add: sort_by_locale_def)

lemma sort_by_locale_length [simp]: "length (sort_by_locale f xs) = length xs"
  by (simp add: sort_by_locale_def)

lemma sort_by_locale_distinct [simp]: "distinct (map k (sort_by_locale f xs)) \<longleftrightarrow> distinct (map k xs)"
  by (simp add: sort_by_locale_def)

lemma sort_by_locale_sorted:
  "sorted_wrt (\<lambda>x y. localeCompare (f x) (f y) \<le> 0) (sort_by_locale f xs)"
proof -
  have "sorted (map (locale_key \<circ> f) (sort_by_locale f xs))"
    by (simp add: sort_by_locale_def)
  then have "sorted_wrt (\<lambda>x y. locale_key (f x) \<le> locale_key (f y)) (sort_by_locale f xs)"
    by (simp add: sorted_map)
  then show ?thesis
    by (rule sorted_wrt_mono_rel [rotated]) (auto simp: localeCompare_def)
qed

text \<open>\<open>\s\<close> and the literals of a pattern with the \<open>i\<close> flag.\<close>

definition is_space :: "char \<Rightarrow> bool" where
  "is_space c \<longleftrightarrow> in_range CHR 0x09 CHR 0x0D c \<or> c = CHR '' '' \<or> c = CHR 0xA0"

primrec rx_istr :: "string \<Rightarrow> rexp" where
  "rx_istr [] = REps"
| "rx_istr (c # cs) = RSeq (RCls (\<lambda>d. to_lower d = to_lower c)) (rx_istr cs)"

text \<open>The default \<open>xs.sort()\<close> of strings compares code units.\<close>

definition sort_strings :: "string list \<Rightarrow> string list" where
  "sort_strings xs = sort xs"

subsection \<open>Canonical JSON\<close>

text \<open>
  The broker's \<open>canonicalJson\<close>: JSON text with the properties of every object sorted by
  \<open>localeCompare\<close> and the \<open>undefined\<close> ones dropped.
\<close>

fun canonicalJson :: "jsval \<Rightarrow> string" where
  "canonicalJson (JArr vs) = ''['' @ comma_join (map canonicalJson vs) @ '']''"
| "canonicalJson (JObj ps) =
     ''{'' @ comma_join
       (map (\<lambda>(k, t). json_string k @ '':'' @ t)
          (sort_by_locale fst
            (map (\<lambda>(k, v). (k, canonicalJson v)) (filter (\<lambda>(k, v). v \<noteq> JUndef) ps)))) @ ''}''"
| "canonicalJson v = json_text v"

end
