(* ===== verification/JsObjects.thy ===== *)
theory JsObjects
  imports JsValues
begin

section \<open>JavaScript objects used as dictionaries\<close>

text \<open>
  A \<open>Record<string, T>\<close> is the list of its entries in the order in which \<open>Object.keys\<close>,
  \<open>Object.values\<close> and \<open>Object.entries\<close> enumerate them: the keys that are array indices in
  ascending order, then the others in the order of their insertion.  \<open>obj_set\<close> is \<open>o[k] = v\<close>
  and \<open>obj_del\<close> is \<open>delete o[k]\<close>.
\<close>

type_synonym 'v obj = "(string \<times> 'v) list"

definition obj_get :: "'v obj \<Rightarrow> string \<Rightarrow> 'v option" where
  "obj_get ob k = map_of ob k"

definition obj_keys :: "'v obj \<Rightarrow> string list" where
  "obj_keys ob = map fst ob"

definition obj_values :: "'v obj \<Rightarrow> 'v list" where
  "obj_values ob = map snd ob"

definition array_index :: "string \<Rightarrow> nat option" where
  "array_index k =
     (if k \<noteq> [] \<and> list_all is_digit k \<and> (hd k \<noteq> CHR ''0'' \<or> k = ''0'') \<and> digits_val 0 k < 2 ^ 32 - 1
      then Some (digits_val 0 k) else None)"

fun obj_insert :: "'v obj \<Rightarrow> string \<Rightarrow> 'v \<Rightarrow> 'v obj" where
  "obj_insert [] k v = [(k, v)]"
| "obj_insert ((k', v') # ob) k v =
     (case array_index k of
        None \<Rightarrow> (k', v') # obj_insert ob k v
      | Some i \<Rightarrow>
          (case array_index k' of
             None \<Rightarrow> (k, v) # (k', v') # ob
           | Some j \<Rightarrow> if i < j then (k, v) # (k', v') # ob else (k', v') # obj_insert ob k v))"

fun obj_replace :: "'v obj \<Rightarrow> string \<Rightarrow> 'v \<Rightarrow> 'v obj" where
  "obj_replace [] k v = []"
| "obj_replace ((k', v') # ob) k v =
     (if k' = k then (k, v) # ob else (k', v') # obj_replace ob k v)"

definition obj_set :: "'v obj \<Rightarrow> string \<Rightarrow> 'v \<Rightarrow> 'v obj" where
  "obj_set ob k v = (if k \<in> set (map fst ob) then obj_replace ob k v else obj_insert ob k v)"

definition obj_del :: "'v obj \<Rightarrow> string \<Rightarrow> 'v obj" where
  "obj_del ob k = filter (\<lambda>(k', v). k' \<noteq> k) ob"

subsection \<open>The interface of a dictionary\<close>

text \<open>
  What the components rely on when they keep state under a key: a lookup after a write returns
  the written value at that key and the old one elsewhere, and a well-formed store stays so.
\<close>

locale keyed_store =
  fixes get :: "'s \<Rightarrow> 'k \<Rightarrow> 'v option"
    and put :: "'s \<Rightarrow> 'k \<Rightarrow> 'v \<Rightarrow> 's"
    and fits :: "'k \<Rightarrow> 'v \<Rightarrow> bool"
    and ok :: "'s \<Rightarrow> bool"
  assumes get_put: "ok s \<Longrightarrow> fits k v \<Longrightarrow> get (put s k v) k' = (if k' = k then Some v else get s k')"
    and ok_put: "ok s \<Longrightarrow> fits k v \<Longrightarrow> ok (put s k v)"
begin

lemma get_put_same: "ok s \<Longrightarrow> fits k v \<Longrightarrow> get (put s k v) k = Some v"
  by (simp add: get_put)

lemma get_put_other: "ok s \<Longrightarrow> fits k v \<Longrightarrow> k' \<noteq> k \<Longrightarrow> get (put s k v) k' = get s k'"
  by (simp add: get_put)

lemma get_put_twice:
  "ok s \<Longrightarrow> fits k v \<Longrightarrow> fits k w \<Longrightarrow> get (put (put s k v) k w) k' = get (put s k w) k'"
  by (simp add: get_put ok_put)

lemma put_preserves_all:
  assumes "ok s" "fits k v" "\<And>k' w. get s k' = Some w \<Longrightarrow> P k' w" "P k v"
  shows "get (put s k v) k' = Some w \<Longrightarrow> P k' w"
  using assms by (auto simp: get_put split: if_splits)

end

subsection \<open>Laws of the list representation\<close>

lemma map_of_obj_insert:
  "k \<notin> set (map fst ob) \<Longrightarrow> map_of (obj_insert ob k v) k' = (if k' = k then Some v else map_of ob k')"
  by (induction ob k v rule: obj_insert.induct) (auto split: option.splits)

lemma map_of_obj_replace:
  "k \<in> set (map fst ob) \<Longrightarrow> map_of (obj_replace ob k v) k' = (if k' = k then Some v else map_of ob k')"
  by (induction ob k v rule: obj_replace.induct) (auto simp: rev_image_eqI)

lemma keys_obj_insert: "set (map fst (obj_insert ob k v)) = insert k (set (map fst ob))"
  by (induction ob k v rule: obj_insert.induct) (auto split: option.splits)

lemma keys_obj_replace: "map fst (obj_replace ob k v) = map fst ob"
  by (induction ob k v rule: obj_replace.induct) auto

lemma distinct_obj_insert:
  "distinct (map fst ob) \<Longrightarrow> k \<notin> set (map fst ob) \<Longrightarrow> distinct (map fst (obj_insert ob k v))"
proof (induction ob k v rule: obj_insert.induct)
  case (2 k' v' ob k v)
  moreover have "k' \<notin> set (map fst (obj_insert ob k v))"
    using "2.prems" by (auto simp only: keys_obj_insert) auto
  ultimately show ?case by (auto split: option.splits)
qed simp

lemma obj_get_set: "obj_get (obj_set ob k v) k' = (if k' = k then Some v else obj_get ob k')"
  by (simp add: obj_get_def obj_set_def map_of_obj_insert map_of_obj_replace)

lemma obj_get_set_same [simp]: "obj_get (obj_set ob k v) k = Some v"
  by (simp add: obj_get_set)

lemma obj_get_del: "obj_get (obj_del ob k) k' = (if k' = k then None else obj_get ob k')"
  by (induction ob) (auto simp: obj_get_def obj_del_def)

lemma obj_keys_set: "set (obj_keys (obj_set ob k v)) = insert k (set (obj_keys ob))"
  by (simp add: obj_keys_def obj_set_def keys_obj_replace keys_obj_insert insert_absorb
      del: set_map)

lemma obj_keys_set_present: "k \<in> set (obj_keys ob) \<Longrightarrow> obj_keys (obj_set ob k v) = obj_keys ob"
  by (simp add: obj_keys_def obj_set_def keys_obj_replace)

lemma obj_keys_del: "obj_keys (obj_del ob k) = filter (\<lambda>k'. k' \<noteq> k) (obj_keys ob)"
  by (induction ob) (auto simp: obj_keys_def obj_del_def)

lemma distinct_obj_set:
  "distinct (obj_keys ob) \<Longrightarrow> distinct (obj_keys (obj_set ob k v))"
  using distinct_obj_insert [of ob k v] by (auto simp: obj_keys_def obj_set_def keys_obj_replace)

lemma distinct_obj_del: "distinct (obj_keys ob) \<Longrightarrow> distinct (obj_keys (obj_del ob k))"
  by (simp add: obj_keys_del)

lemma obj_get_keys: "obj_get ob k = None \<longleftrightarrow> k \<notin> set (obj_keys ob)"
  by (auto simp: obj_get_def obj_keys_def map_of_eq_None_iff)

lemma obj_get_mem: "obj_get ob k = Some v \<Longrightarrow> (k, v) \<in> set ob"
  by (auto simp: obj_get_def dest: map_of_SomeD)

lemma obj_mem_get: "distinct (obj_keys ob) \<Longrightarrow> (k, v) \<in> set ob \<longleftrightarrow> obj_get ob k = Some v"
  by (auto simp: obj_get_def obj_keys_def)

interpretation dict: keyed_store obj_get obj_set "\<lambda>k v. True" "\<lambda>ob. distinct (obj_keys ob)"
  by unfold_locales (auto simp: obj_get_set distinct_obj_set)

end
