(* ===== verification/JsDate.thy ===== *)
theory JsDate
  imports JsValues
begin

section \<open>Time stamps\<close>

text \<open>
  The program keeps instants as RFC 3339 strings and compares them with \<open>Date.parse\<close>; a lease
  computes its expiry with \<open>new Date(ms).toISOString()\<close>.  Both are written here for the
  strings that pass the program's own pattern \<open>timestamp_rx\<close>.  \<open>Date_parse\<close> follows
  ECMAScript's \<open>DayFromYear\<close> and, where the standard leaves the choice, V8: a day up to 31 is
  accepted in every month and rolls over, and hour 24 only as \<open>24:00:00\<close>.
\<close>

subsection \<open>The calendar\<close>

definition day_from_year :: "int \<Rightarrow> int" where
  "day_from_year y = 365 * (y - 1970) + (y - 1969) div 4 - (y - 1901) div 100 + (y - 1601) div 400"

definition leap_year :: "int \<Rightarrow> bool" where
  "leap_year y \<longleftrightarrow> y mod 4 = 0 \<and> (y mod 100 \<noteq> 0 \<or> y mod 400 = 0)"

text \<open>Days of the year before month \<open>m\<close> (1 to 12).\<close>

definition month_start :: "bool \<Rightarrow> int \<Rightarrow> int" where
  "month_start leap m =
     (let l = (if leap then 1 else 0) in
      if m \<le> 1 then 0 else if m = 2 then 31 else if m = 3 then 59 + l else if m = 4 then 90 + l
      else if m = 5 then 120 + l else if m = 6 then 151 + l else if m = 7 then 181 + l
      else if m = 8 then 212 + l else if m = 9 then 243 + l else if m = 10 then 273 + l
      else if m = 11 then 304 + l else if m = 12 then 334 + l else 365 + l)"

definition make_day :: "int \<Rightarrow> int \<Rightarrow> int \<Rightarrow> int" where
  "make_day y m d = day_from_year y + month_start (leap_year y) m + d - 1"

text \<open>The year of a day: the estimate by the mean length of a year is off by at most one.\<close>

definition year_from_day :: "int \<Rightarrow> int" where
  "year_from_day n =
     (let y = 1970 + (400 * n) div 146097 in
      if n < day_from_year y then y - 1 else if day_from_year (y + 1) \<le> n then y + 1 else y)"

definition month_from_day :: "bool \<Rightarrow> int \<Rightarrow> int" where
  "month_from_day leap k =
     (if k < month_start leap 2 then 1 else if k < month_start leap 3 then 2
      else if k < month_start leap 4 then 3 else if k < month_start leap 5 then 4
      else if k < month_start leap 6 then 5 else if k < month_start leap 7 then 6
      else if k < month_start leap 8 then 7 else if k < month_start leap 9 then 8
      else if k < month_start leap 10 then 9 else if k < month_start leap 11 then 10
      else if k < month_start leap 12 then 11 else 12)"

lemma div_bounds: "0 < (k :: int) \<Longrightarrow> k * (x div k) \<le> x \<and> x < k * (x div k) + k"
  by (metis add_le_cancel_left add_less_cancel_left mult_div_mod_eq pos_mod_bound pos_mod_sign
      add.right_neutral)

lemma div_succ:
  assumes "0 < (k :: int)"
  shows "(x + 1) div k = x div k + (if (x + 1) mod k = 0 then 1 else 0)"
proof (cases "(x + 1) mod k = 0")
  case True
  then obtain q where q: "x + 1 = k * q" by auto
  then have "x = k * (q - 1) + (k - 1)" by (simp add: algebra_simps)
  then have "x div k = q - 1" using assms int_div_pos_eq [of x k "q - 1" "k - 1"] by simp
  moreover have "(x + 1) div k = q" using q assms by simp
  ultimately show ?thesis using True by simp
next
  case False
  define q where "q = x div k"
  from div_bounds [OF assms, of x] have b: "k * q \<le> x" "x < k * q + k" by (auto simp: q_def)
  have "x + 1 \<noteq> k * q + k" using False by (metis mod_mult_self2 mod_self mult.commute mod_mult_self4)
  then have "(x + 1) div k = q" using b by (intro int_div_pos_eq [of _ _ _ "x + 1 - k * q"]) auto
  with False show ?thesis by (simp add: q_def)
qed

lemma mod_shift: "x = y + c * k \<Longrightarrow> x mod k = y mod (k :: int)"
  by (simp only: mod_mult_self1)

lemma div_step:
  "0 < (k :: int) \<Longrightarrow> z = x + 1 \<Longrightarrow> z = y + c * k \<Longrightarrow>
   z div k = x div k + (if y mod k = 0 then 1 else 0)"
  using div_succ [of k x] mod_shift [of z y c k] by metis

lemma leap_year_cases:
  "(if leap_year y then 1 else 0) =
   (if y mod 4 = 0 then 1 else 0) - (if y mod 100 = 0 then 1 else 0) + (if y mod 400 = 0 then 1 else (0 :: int))"
proof -
  have "y mod 100 = 0 \<Longrightarrow> y mod 4 = 0" "y mod 400 = 0 \<Longrightarrow> y mod 100 = 0"
    using mod_mod_cancel [of 4 100 y] mod_mod_cancel [of 100 400 y] by simp_all
  then show ?thesis
    unfolding leap_year_def
    by (cases "y mod 4 = 0"; cases "y mod 100 = 0"; cases "y mod 400 = 0")
      simp_all
qed

lemma day_from_year_Suc:
  "day_from_year (y + 1) = day_from_year y + (if leap_year y then 366 else 365)"
proof -
  have "(y + 1 - 1969) div 4 = (y - 1969) div 4 + (if y mod 4 = 0 then 1 else 0)"
    by (rule div_step [of 4 _ _ _ "- 492"]) simp_all
  moreover have "(y + 1 - 1901) div 100 = (y - 1901) div 100 + (if y mod 100 = 0 then 1 else 0)"
    by (rule div_step [of 100 _ _ _ "- 19"]) simp_all
  moreover have "(y + 1 - 1601) div 400 = (y - 1601) div 400 + (if y mod 400 = 0 then 1 else 0)"
    by (rule div_step [of 400 _ _ _ "- 4"]) simp_all
  moreover have "(if leap_year y then 366 else 365) = 365 + (if leap_year y then 1 else (0 :: int))"
    by simp
  moreover have "a' = a + p \<Longrightarrow> b' = b + q \<Longrightarrow> c' = c + r \<Longrightarrow> k = 365 + l \<Longrightarrow> l = p - q + r \<Longrightarrow>
    365 * (y + 1 - 1970) + a' - b' + c' = 365 * (y - 1970) + a - b + c + k"
    for a a' b b' c c' p q r k l :: int by simp
  ultimately show ?thesis
    using leap_year_cases [of y] unfolding day_from_year_def by blast
qed

lemma year_from_day_bounds:
  "day_from_year (year_from_day n) \<le> n \<and> n < day_from_year (year_from_day n + 1)"
proof -
  define y where "y = 1970 + (400 * n) div 146097"
  have e: "146097 * (y - 1970) \<le> 400 * n" "400 * n < 146097 * (y - 1970) + 146097"
    using div_bounds [of 146097 "400 * n"] by (auto simp: y_def)
  have "day_from_year (y - 1) \<le> n"
    using e div_bounds [of 4 "y - 1970"] div_bounds [of 100 "y - 1902"] div_bounds [of 400 "y - 1602"]
    by (simp add: day_from_year_def)
  moreover have "n < day_from_year (y + 2)"
    using e div_bounds [of 4 "y - 1967"] div_bounds [of 100 "y - 1899"] div_bounds [of 400 "y - 1599"]
    by (simp add: day_from_year_def)
  ultimately show ?thesis
    by (auto simp: year_from_day_def y_def [symmetric] Let_def add.commute)
qed

lemma month_start_eval [simp]:
  "month_start leap 1 = 0" "month_start leap 2 = 31"
  "month_start leap 3 = (if leap then 60 else 59)" "month_start leap 4 = (if leap then 91 else 90)"
  "month_start leap 5 = (if leap then 121 else 120)" "month_start leap 6 = (if leap then 152 else 151)"
  "month_start leap 7 = (if leap then 182 else 181)" "month_start leap 8 = (if leap then 213 else 212)"
  "month_start leap 9 = (if leap then 244 else 243)" "month_start leap 10 = (if leap then 274 else 273)"
  "month_start leap 11 = (if leap then 305 else 304)" "month_start leap 12 = (if leap then 335 else 334)"
  "month_start leap 13 = (if leap then 366 else 365)"
  by (simp_all add: month_start_def Let_def)

lemma month_from_day_bounds:
  assumes "0 \<le> k" and "k < (if leap then 366 else 365)"
  shows "1 \<le> month_from_day leap k \<and> month_from_day leap k \<le> 12 \<and>
    month_start leap (month_from_day leap k) \<le> k \<and> k < month_start leap (month_from_day leap k + 1) \<and>
    k - month_start leap (month_from_day leap k) < 31"
  using assms by (cases leap) (simp_all add: month_from_day_def)

definition year_of :: "int \<Rightarrow> int" where
  "year_of n = year_from_day n"

definition month_of :: "int \<Rightarrow> int" where
  "month_of n = month_from_day (leap_year (year_of n)) (n - day_from_year (year_of n))"

definition date_of :: "int \<Rightarrow> int" where
  "date_of n =
     n - day_from_year (year_of n) - month_start (leap_year (year_of n)) (month_of n) + 1"

lemma make_day_of:
  "make_day (year_of n) (month_of n) (date_of n) = n \<and>
   1 \<le> month_of n \<and> month_of n \<le> 12 \<and> 1 \<le> date_of n \<and> date_of n \<le> 31"
proof -
  have "0 \<le> n - day_from_year (year_of n)"
    "n - day_from_year (year_of n) < (if leap_year (year_of n) then 366 else 365)"
    using year_from_day_bounds [of n] day_from_year_Suc [of "year_of n"]
    by (auto simp: year_of_def)
  from month_from_day_bounds [OF this] show ?thesis
    by (auto simp: make_day_def date_of_def month_of_def)
qed

subsection \<open>Printing and parsing\<close>

definition pad_digit :: "int \<Rightarrow> char" where
  "pad_digit d = char_of (48 + nat d)"

definition pad2 :: "int \<Rightarrow> string" where
  "pad2 n = [pad_digit (n div 10), pad_digit (n mod 10)]"

definition pad3 :: "int \<Rightarrow> string" where
  "pad3 n = pad_digit (n div 100) # pad2 (n mod 100)"

definition pad4 :: "int \<Rightarrow> string" where
  "pad4 n = pad2 (n div 100) @ pad2 (n mod 100)"

definition pad_year :: "int \<Rightarrow> string" where
  "pad_year y =
     (if 0 \<le> y \<and> y \<le> 9999 then pad4 y
      else (if y < 0 then CHR ''-'' else CHR ''+'') # pad2 (\<bar>y\<bar> div 10000) @ pad4 (\<bar>y\<bar> mod 10000))"

definition toISOString :: "int \<Rightarrow> string" where
  "toISOString t =
     (let n = t div 86400000; ms = t mod 86400000 in
      pad_year (year_of n) @ ''-'' @ pad2 (month_of n) @ ''-'' @ pad2 (date_of n) @ ''T'' @
      pad2 (ms div 3600000) @ '':'' @ pad2 (ms div 60000 mod 60) @ '':'' @
      pad2 (ms div 1000 mod 60) @ ''.'' @ pad3 (ms mod 1000) @ ''Z'')"

definition timestamp_rx :: rexp where
  "timestamp_rx =
     RSeq (rx_times 4 (RCls is_digit)) (RSeq (rx_char CHR ''-'')
     (RSeq (rx_times 2 (RCls is_digit)) (RSeq (rx_char CHR ''-'')
     (RSeq (rx_times 2 (RCls is_digit)) (RSeq (rx_char CHR ''T'')
     (RSeq (rx_times 2 (RCls is_digit)) (RSeq (rx_char CHR '':'')
     (RSeq (rx_times 2 (RCls is_digit)) (RSeq (rx_char CHR '':'')
     (RSeq (rx_times 2 (RCls is_digit))
     (RSeq (rx_opt (RSeq (rx_char CHR ''.'') (rx_times 3 (RCls is_digit)))) (rx_char CHR ''Z''))))))))))))"

definition num_at :: "string \<Rightarrow> nat \<Rightarrow> nat \<Rightarrow> int" where
  "num_at s i k = int (digits_val 0 (take k (drop i s)))"

text \<open>The milliseconds since the epoch, or \<open>None\<close> for \<open>NaN\<close>.\<close>

definition Date_parse :: "string \<Rightarrow> int option" where
  "Date_parse s =
     (let y = num_at s 0 4; m = num_at s 5 2; d = num_at s 8 2;
          hh = num_at s 11 2; mi = num_at s 14 2; ss = num_at s 17 2;
          ms = (if length s = 24 then num_at s 20 3 else 0)
      in if rx_test timestamp_rx s \<and> 1 \<le> m \<and> m \<le> 12 \<and> 1 \<le> d \<and> d \<le> 31 \<and>
            (hh \<le> 23 \<and> mi \<le> 59 \<and> ss \<le> 59 \<or> hh = 24 \<and> mi = 0 \<and> ss = 0 \<and> ms = 0)
         then Some (make_day y m d * 86400000 + hh * 3600000 + mi * 60000 + ss * 1000 + ms)
         else None)"

text \<open>\<open>Date.parse(s)\<close> as a number to compare; only used on validated time stamps.\<close>

definition time_ms :: "string \<Rightarrow> int" where
  "time_ms s = (case Date_parse s of None \<Rightarrow> 0 | Some t \<Rightarrow> t)"

definition is_timestamp :: "string \<Rightarrow> bool" where
  "is_timestamp s \<longleftrightarrow> rx_test timestamp_rx s \<and> Date_parse s \<noteq> None"

subsection \<open>A printed instant parses back\<close>

lemma digit_val_pad: "0 \<le> d \<Longrightarrow> d < 10 \<Longrightarrow> digit_val (pad_digit d) = nat d"
  by (simp add: digit_val_def pad_digit_def of_char_digit nat_less_iff)

lemma is_digit_pad: "0 \<le> d \<Longrightarrow> d < 10 \<Longrightarrow> is_digit (pad_digit d)"
  by (simp add: pad_digit_def is_digit_char_of nat_less_iff)

lemma digits_val_pad2:
  "0 \<le> n \<Longrightarrow> n < 100 \<Longrightarrow> int (digits_val 0 [pad_digit (n div 10), pad_digit (n mod 10)]) = n"
  by (simp add: digit_val_pad pos_imp_zdiv_nonneg_iff)

lemma digits_val_pad3:
  "0 \<le> n \<Longrightarrow> n < 1000 \<Longrightarrow>
   int (digits_val 0 [pad_digit (n div 100), pad_digit (n mod 100 div 10), pad_digit (n mod 100 mod 10)]) = n"
  by (simp add: digit_val_pad pos_imp_zdiv_nonneg_iff)

lemma digits_val_pad4:
  "0 \<le> n \<Longrightarrow> n < 10000 \<Longrightarrow>
   int (digits_val 0 [pad_digit (n div 100 div 10), pad_digit (n div 100 mod 10),
     pad_digit (n mod 100 div 10), pad_digit (n mod 100 mod 10)]) = n"
proof -
  assume n: "0 \<le> n" "n < 10000"
  have "1000 * (n div 100 div 10) + 100 * (n div 100 mod 10) = 100 * (n div 100)"
    using mult_div_mod_eq [of 10 "n div 100"] by linarith
  then show ?thesis
    using n mult_div_mod_eq [of 100 n] by (simp add: digit_val_pad pos_imp_zdiv_nonneg_iff)
qed

lemma rx_test_seqI: "rx_test r u \<Longrightarrow> rx_test t v \<Longrightarrow> rx_test (RSeq r t) (u @ v)"
  by (auto simp: rx_test_seq)

lemma rx_test_char [simp]: "rx_test (rx_char c) [c]"
  by (simp add: rx_char_def rx_test_cls)

lemma rx_test_pad2: "0 \<le> n \<Longrightarrow> n < 100 \<Longrightarrow> rx_test (rx_times 2 (RCls is_digit)) (pad2 n)"
  by (simp add: rx_test_times_cls pad2_def is_digit_pad)

lemma rx_test_pad3: "0 \<le> n \<Longrightarrow> n < 1000 \<Longrightarrow> rx_test (rx_times 3 (RCls is_digit)) (pad3 n)"
  by (simp add: rx_test_times_cls pad2_def pad3_def is_digit_pad)

lemma rx_test_pad4: "0 \<le> n \<Longrightarrow> n < 10000 \<Longrightarrow> rx_test (rx_times 4 (RCls is_digit)) (pad4 n)"
  by (simp add: rx_test_times_cls pad2_def pad4_def is_digit_pad)

definition in_iso_range :: "int \<Rightarrow> bool" where
  "in_iso_range t \<longleftrightarrow> 0 \<le> year_of (t div 86400000) \<and> year_of (t div 86400000) \<le> 9999"

lemma timestamp_rx_toISOString:
  assumes "in_iso_range t"
  shows "rx_test timestamp_rx (toISOString t)"
proof -
  have "0 \<le> t mod 86400000" "t mod 86400000 < 86400000" by auto
  then have b: "t mod 86400000 div 3600000 < 24" "0 \<le> t mod 86400000 div 3600000" by auto
  have "rx_test (rx_opt (RSeq (rx_char CHR ''.'') (rx_times 3 (RCls is_digit))))
    (''.'' @ pad3 (t mod 86400000 mod 1000))"
    unfolding rx_test_opt
    by (rule disjI2, rule rx_test_seqI, simp, rule rx_test_pad3) auto
  then have "rx_test (RSeq (rx_opt (RSeq (rx_char CHR ''.'') (rx_times 3 (RCls is_digit)))) (rx_char CHR ''Z''))
    ((''.'' @ pad3 (t mod 86400000 mod 1000)) @ ''Z'')"
    by (rule rx_test_seqI) simp
  moreover have "rx_test r u \<Longrightarrow> rx_test
     (RSeq (rx_times 4 (RCls is_digit)) (RSeq (rx_char CHR ''-'')
     (RSeq (rx_times 2 (RCls is_digit)) (RSeq (rx_char CHR ''-'')
     (RSeq (rx_times 2 (RCls is_digit)) (RSeq (rx_char CHR ''T'')
     (RSeq (rx_times 2 (RCls is_digit)) (RSeq (rx_char CHR '':'')
     (RSeq (rx_times 2 (RCls is_digit)) (RSeq (rx_char CHR '':'')
     (RSeq (rx_times 2 (RCls is_digit)) r)))))))))))
     (pad4 (year_of (t div 86400000)) @ ''-'' @ pad2 (month_of (t div 86400000)) @ ''-'' @
      pad2 (date_of (t div 86400000)) @ ''T'' @ pad2 (t mod 86400000 div 3600000) @ '':'' @
      pad2 (t mod 86400000 div 60000 mod 60) @ '':'' @ pad2 (t mod 86400000 div 1000 mod 60) @ u)" for r u
    using assms b make_day_of [of "t div 86400000"]
    by (intro rx_test_seqI rx_test_pad2 rx_test_pad4 rx_test_char)
      (auto simp: in_iso_range_def)
  ultimately show ?thesis
    using assms unfolding timestamp_rx_def toISOString_def Let_def in_iso_range_def pad_year_def
    by (simp only: simp_thms if_True append_assoc)
qed

lemma clock_split:
  "(ms :: int) = ms div 3600000 * 3600000 + (ms div 60000 mod 60) * 60000 +
    (ms div 1000 mod 60) * 1000 + ms mod 1000"
proof -
  have "ms div 60000 = ms div 1000 div 60" "ms div 3600000 = ms div 60000 div 60"
    using zdiv_zmult2_eq [of 60 ms 1000] zdiv_zmult2_eq [of 60 ms 60000] by simp_all
  then show ?thesis
    using mult_div_mod_eq [of 1000 ms] mult_div_mod_eq [of 60 "ms div 1000"]
      mult_div_mod_eq [of 60 "ms div 60000"]
    by linarith
qed

theorem Date_parse_toISOString:
  assumes "in_iso_range t"
  shows "Date_parse (toISOString t) = Some t"
proof -
  define n ms where "n = t div 86400000" and "ms = t mod 86400000"
  define s where "s = toISOString t"
  have t: "t = n * 86400000 + ms" "0 \<le> ms" "ms < 86400000"
    by (auto simp: n_def ms_def)
  have y: "0 \<le> year_of n" "year_of n \<le> 9999"
    using assms by (auto simp: in_iso_range_def n_def)
  have h: "0 \<le> ms div 3600000" "ms div 3600000 < 24" using t by auto
  have s: "s = [pad_digit (year_of n div 100 div 10), pad_digit (year_of n div 100 mod 10),
      pad_digit (year_of n mod 100 div 10), pad_digit (year_of n mod 100 mod 10), CHR ''-'',
      pad_digit (month_of n div 10), pad_digit (month_of n mod 10), CHR ''-'',
      pad_digit (date_of n div 10), pad_digit (date_of n mod 10), CHR ''T'',
      pad_digit (ms div 3600000 div 10), pad_digit (ms div 3600000 mod 10), CHR '':'',
      pad_digit (ms div 60000 mod 60 div 10), pad_digit (ms div 60000 mod 60 mod 10), CHR '':'',
      pad_digit (ms div 1000 mod 60 div 10), pad_digit (ms div 1000 mod 60 mod 10), CHR ''.'',
      pad_digit (ms mod 1000 div 100), pad_digit (ms mod 1000 mod 100 div 10),
      pad_digit (ms mod 1000 mod 100 mod 10), CHR ''Z'']"
    using y by (simp add: s_def toISOString_def pad_year_def pad2_def pad3_def pad4_def Let_def
        n_def [symmetric] ms_def [symmetric])
  note md = make_day_of [of n]
  then have b: "0 \<le> month_of n" "month_of n < 100" "0 \<le> date_of n" "date_of n < 100" by auto
  have fields: "num_at s 0 4 = year_of n" "num_at s 5 2 = month_of n" "num_at s 8 2 = date_of n"
    "num_at s 11 2 = ms div 3600000" "num_at s 14 2 = ms div 60000 mod 60"
    "num_at s 17 2 = ms div 1000 mod 60" "num_at s 20 3 = ms mod 1000"
    unfolding num_at_def s
    using y h b
    by (simp_all only: numeral_nat take_Suc_Cons drop_Suc_Cons take_0 drop_0
        digits_val_pad2 digits_val_pad3 digits_val_pad4)
  define hh mi ss x where "hh = ms div 3600000" and "mi = ms div 60000 mod 60"
    and "ss = ms div 1000 mod 60" and "x = ms mod 1000"
  have "ms = hh * 3600000 + mi * 60000 + ss * 1000 + x"
    unfolding hh_def mi_def ss_def x_def by (rule clock_split)
  moreover have "hh \<le> 23" "mi \<le> 59" "ss \<le> 59"
    using h by (simp_all add: hh_def mi_def ss_def)
  moreover have "length s = 24" by (simp add: s)
  ultimately show ?thesis
    using timestamp_rx_toISOString [OF assms] md t(1)
    unfolding Date_parse_def s_def [symmetric] Let_def fields
      hh_def [symmetric] mi_def [symmetric] ss_def [symmetric] x_def [symmetric]
    by simp
qed

corollary is_timestamp_toISOString: "in_iso_range t \<Longrightarrow> is_timestamp (toISOString t)"
  by (simp add: is_timestamp_def Date_parse_toISOString timestamp_rx_toISOString)

corollary time_ms_toISOString: "in_iso_range t \<Longrightarrow> time_ms (toISOString t) = t"
  by (simp add: time_ms_def Date_parse_toISOString)

end
