(* ===== verification/BrokerModel.thy ===== *)
theory BrokerModel
  imports JsObjects JsDate
begin

section \<open>Resource broker: data, validation and parsing\<close>

text \<open>
  The data model of \<open>src/core/resourceBroker.ts\<close>, its field validators, its parsers from
  unknown JSON, and \<open>assertResourceBrokerState\<close>.  An interface is a record without the fields
  whose type is a single literal (\<open>apiVersion\<close>, \<open>kind\<close>, the three \<open>true\<close> flags of
  \<open>lifecycle\<close>); the \<open>enc\<close> functions give the JavaScript value a record stands for, with those
  fields.  A \<open>throw\<close> is a \<open>broker_error\<close>; \<open>Field path fault\<close> is the error of a validator.
\<close>

subsection \<open>Data\<close>

datatype phase =
  Pending | Reconciling | Available | Failed | Drifted | Cancelling | Cancelled | Deleting | Deleted

datatype claim_op = ClaimApply | ClaimCancel | ClaimDelete

datatype output_kind = OutReference | OutValue

datatype scalar = SStr string | SNum jsnum | SBool bool

record resource_claim_request =
  claimId :: string
  tenantId :: string
  generation :: int
  resourceKind :: string
  resourceApiVersion :: string
  desiredStateDigest :: string
  desiredStateRef :: string
  requiredProviderCapabilities :: "string list"
  maxReconcileAttempts :: int

record resource_broker_output =
  out_name :: string
  out_kind :: output_kind
  out_value :: scalar

record provider_lease =
  lease_providerId :: string
  lease_generation :: int
  lease_fenceToken :: string
  lease_attempt :: int
  lease_acquiredAt :: string
  lease_expiresAt :: string

record claim_failure =
  failure_code :: string
  failure_message :: string
  failure_retryable :: bool
  failure_attempt :: int
  failure_occurredAt :: string

record claim_drift =
  drift_observedStateDigest :: string
  drift_detectedAt :: string

record claim_deletion =
  deletion_requestedAt :: string
  deletion_requestedBy :: string
  deletion_approvalEvidenceRef :: string
  deletion_finalizationEvidenceRef :: string

record claim_cancellation =
  cancellation_requestedAt :: string
  cancellation_requestedBy :: string
  cancellation_cleanupEvidenceRef :: "string option"

record resource_claim_state = resource_claim_request +
  phase :: phase
  observedGeneration :: int
  providerResourceRef :: "string option"
  outputs :: "resource_broker_output list"
  lease :: "provider_lease option"
  failure :: "claim_failure option"
  drift :: "claim_drift option"
  deletion :: "claim_deletion option"
  cancellation :: "claim_cancellation option"

record idempotency_record =
  rec_tenantId :: string
  rec_operation :: claim_op
  rec_claimId :: string
  rec_key :: string
  rec_payloadDigest :: string
  rec_capabilityId :: string
  rec_committedRevision :: int

record resource_broker_state =
  revision :: int
  claims :: "resource_claim_state list"
  idempotencyRecords :: "idempotency_record list"
  redeemedCapabilityIds :: "string list"

datatype field_fault =
    NotObject | UnknownField string | FieldRequired string
  | NotIdentifier | NotResourceKind | NotReasonCode | NotBoundedMessage | SecretMaterial
  | NotApiVersion | NotBoundedReference | UnsafeReference "string list" | NotDigest | NotTimestamp
  | NotPositiveInteger | NotNonNegativeInteger | NotBetween int int | NotBoolean | NotTrue
  | NotLiteral string | NotOneOf "string list" | NotArray | NotUnique | NotNonEmptyArray
  | NotSemanticOperation | NotScalar | CannotBeEmpty | MustFollowAcquiredAt

datatype output_fault = OutputForbidden | OutputDuplicated | OutputNotString | OutputCredentials

datatype state_fault =
    ClaimDuplicated | FutureGeneration | InconsistentLease | LacksObservedState | RetainsOutputs
  | RecordDuplicated | RecordUnredeemed | CapabilityDuplicated

datatype guard_fault =
    RevisionConflict int int | ClaimMissing string
  | ContextOperation string | CapabilityUnverified | ContextCrosses
  | IdempotencyReused | CapabilityRedeemed string
  | MustBeginAtOne | TypeChanged | MustAdvanceOne | WorkActive
  | WorkloadUnverified | PhaseRefused phase | DeletionEvidenceMismatch

datatype lease_fault =
    LeaseDuration | LacksCapability "string list" | ActiveLease | AttemptsExhausted
  | StaleFence | LeaseExpired | WrongObservedState | RequiresOutputs | NoDrift

datatype provider_fault =
    DescriptorWeak | DescriptorEmpty | KindUnsupported string
  | InvalidPlan | ResultOutsideClaim | OutputsAfterDestroy
  | IncompleteObserved | PlanningNotDeterministic | ReconcileNotDeterministic
  | ProviderThrew string

datatype broker_error =
    Field string field_fault             \<comment> \<open>path, what is wrong there\<close>
  | Output string output_fault           \<comment> \<open>name of the output\<close>
  | State string state_fault             \<comment> \<open>claim id or record key\<close>
  | Guard guard_fault
  | Lease string lease_fault             \<comment> \<open>claim id\<close>
  | Provider string provider_fault       \<comment> \<open>provider id\<close>
  | ReadOfUndefined string               \<comment> \<open>a TypeError: a property of \<open>undefined\<close> was read\<close>

subsection \<open>The literals of the source\<close>

definition RESOURCE_CLAIM_API_VERSION :: string where
  "RESOURCE_CLAIM_API_VERSION = ''security.deus.dev/resource-broker/v1alpha1''"

definition RESOURCE_BROKER_STATE_API_VERSION :: string where
  "RESOURCE_BROKER_STATE_API_VERSION = ''security.deus.dev/resource-broker-state/v1alpha1''"

definition RESOURCE_PROVIDER_PROTOCOL_VERSION :: string where
  "RESOURCE_PROVIDER_PROTOCOL_VERSION = ''security.deus.dev/resource-provider/v1alpha1''"

primrec phase_name :: "phase \<Rightarrow> string" where
  "phase_name Pending = ''pending''"
| "phase_name Reconciling = ''reconciling''"
| "phase_name Available = ''available''"
| "phase_name Failed = ''failed''"
| "phase_name Drifted = ''drifted''"
| "phase_name Cancelling = ''cancelling''"
| "phase_name Cancelled = ''cancelled''"
| "phase_name Deleting = ''deleting''"
| "phase_name Deleted = ''deleted''"

definition phases :: "phase list" where
  "phases = [Pending, Reconciling, Available, Failed, Drifted, Cancelling, Cancelled, Deleting, Deleted]"

primrec claim_op_name :: "claim_op \<Rightarrow> string" where
  "claim_op_name ClaimApply = ''claim.apply''"
| "claim_op_name ClaimCancel = ''claim.cancel''"
| "claim_op_name ClaimDelete = ''claim.delete''"

definition claim_ops :: "claim_op list" where
  "claim_ops = [ClaimApply, ClaimCancel, ClaimDelete]"

primrec output_kind_name :: "output_kind \<Rightarrow> string" where
  "output_kind_name OutReference = ''reference''"
| "output_kind_name OutValue = ''value''"

definition output_kinds :: "output_kind list" where
  "output_kinds = [OutReference, OutValue]"

subsection \<open>Patterns\<close>

definition broker_alnum :: "char \<Rightarrow> bool" where
  "broker_alnum c \<longleftrightarrow> in_range CHR ''a'' CHR ''z'' c \<or> is_digit c"

definition lower_alnum_punct :: "char \<Rightarrow> bool" where
  "lower_alnum_punct c \<longleftrightarrow> broker_alnum c \<or> c = CHR ''.'' \<or> c = CHR ''_'' \<or> c = CHR ''-''"

definition letter :: "char \<Rightarrow> bool" where
  "letter c \<longleftrightarrow> in_range CHR ''A'' CHR ''Z'' c \<or> in_range CHR ''a'' CHR ''z'' c"

definition identifier_rx :: rexp where
  "identifier_rx = rx_bounded_id 126 broker_alnum lower_alnum_punct"

definition resourceKind_rx :: rexp where
  "resourceKind_rx = RSeq (RCls letter) (RRep 0 126 (RCls (\<lambda>c. letter c \<or> is_digit c)))"

definition reasonCode_rx :: rexp where
  "reasonCode_rx = RSeq (RCls is_upper) (RRep 1 63 (RCls (\<lambda>c. is_upper c \<or> is_digit c \<or> c = CHR ''_'')))"

definition digest_rx :: rexp where
  "digest_rx = rx_times 64 (RCls (\<lambda>c. in_range CHR ''a'' CHR ''f'' c \<or> is_digit c))"

definition api_segment :: rexp where
  "api_segment = rx_plus (RCls (\<lambda>c. broker_alnum c \<or> c = CHR ''.'' \<or> c = CHR ''-''))"

definition apiVersion_rx :: rexp where
  "apiVersion_rx =
     RSeq api_segment (RSeq (rx_char CHR ''/'') (RSeq api_segment (RSeq (rx_str ''/v'')
     (RSeq (rx_plus (RCls is_digit)) (RSeq (rx_opt (RAlt (rx_str ''alpha'') (rx_str ''beta'')))
     (RStar (RCls is_digit)))))))"

definition semantic_rx :: rexp where
  "semantic_rx =
     RSeq (RCls (in_range CHR ''a'' CHR ''z''))
       (RRep 0 127 (RCls (\<lambda>c. letter c \<or> is_digit c \<or> c \<in> set '':._-'')))"

definition secret_assign_rx :: rexp where
  "secret_assign_rx =
     RSeq (rx_alts [rx_istr ''password'', rx_istr ''secret'', rx_istr ''token'', rx_istr ''credential'',
             RSeq (rx_istr ''private'') (RSeq (rx_opt (RCls (\<lambda>c. c \<in> set ''_ -''))) (rx_istr ''key''))])
       (RSeq (RStar (RCls is_space)) (RCls (\<lambda>c. c = CHR ''='' \<or> c = CHR '':'')))"

definition url_credential_rx :: rexp where
  "url_credential_rx =
     RSeq (rx_str ''://'')
       (RSeq (rx_plus (RCls (\<lambda>c. \<not> is_space c \<and> c \<noteq> CHR ''/'' \<and> c \<noteq> CHR ''@'' \<and> c \<noteq> CHR '':'')))
       (RSeq (rx_char CHR '':'')
       (RSeq (rx_plus (RCls (\<lambda>c. \<not> is_space c \<and> c \<noteq> CHR ''/'' \<and> c \<noteq> CHR ''@''))) (rx_char CHR ''@''))))"

definition private_key_rx :: rexp where
  "private_key_rx =
     RSeq (rx_str ''-----BEGIN '')
       (RSeq (RStar (RCls (\<lambda>c. is_upper c \<or> c = CHR '' ''))) (rx_str ''PRIVATE KEY-----''))"

definition access_key_rx :: rexp where
  "access_key_rx = RSeq (rx_str ''AKIA'') (rx_times 16 (RCls (\<lambda>c. is_digit c \<or> is_upper c)))"

definition forbidden_output_rx :: rexp where
  "forbidden_output_rx =
     rx_alts [rx_istr ''password'', rx_istr ''secret'', rx_istr ''token'', rx_istr ''credential'',
       rx_istr ''private-key'']"

text \<open>The first group of \<open>/^([a-z][a-z0-9-]*):\/\/(.+)$/\<close>, whose class excludes the colon.\<close>

definition scheme_char :: "char \<Rightarrow> bool" where
  "scheme_char c \<longleftrightarrow> broker_alnum c \<or> c = CHR ''-''"

definition line_terminator :: "char \<Rightarrow> bool" where
  "line_terminator c \<longleftrightarrow> c = CHR 0x0A \<or> c = CHR 0x0D"

definition uri_scheme :: "string \<Rightarrow> string option" where
  "uri_scheme s =
     (let scheme = takeWhile scheme_char s; rest = dropWhile scheme_char s in
      if scheme \<noteq> [] \<and> in_range CHR ''a'' CHR ''z'' (hd scheme) \<and> take 3 rest = ''://'' \<and>
         drop 3 rest \<noteq> [] \<and> list_all (\<lambda>c. \<not> line_terminator c) (drop 3 rest)
      then Some scheme else None)"

subsection \<open>Field validators\<close>

definition identifier_of :: "jsval \<Rightarrow> string \<Rightarrow> broker_error + string" where
  "identifier_of v path =
     (case v of JStr s \<Rightarrow> if rx_test identifier_rx s then Inr s else Inl (Field path NotIdentifier)
      | _ \<Rightarrow> Inl (Field path NotIdentifier))"

definition resourceKind_of :: "jsval \<Rightarrow> string \<Rightarrow> broker_error + string" where
  "resourceKind_of v path =
     (case v of JStr s \<Rightarrow> if rx_test resourceKind_rx s then Inr s else Inl (Field path NotResourceKind)
      | _ \<Rightarrow> Inl (Field path NotResourceKind))"

definition reasonCode :: "jsval \<Rightarrow> string \<Rightarrow> broker_error + string" where
  "reasonCode v path =
     (case v of JStr s \<Rightarrow> if rx_test reasonCode_rx s then Inr s else Inl (Field path NotReasonCode)
      | _ \<Rightarrow> Inl (Field path NotReasonCode))"

definition has_secret_material :: "string \<Rightarrow> bool" where
  "has_secret_material s \<longleftrightarrow>
     rx_search secret_assign_rx s \<or> rx_search url_credential_rx s \<or>
     rx_search private_key_rx s \<or> rx_search access_key_rx s"

definition safeMessage :: "jsval \<Rightarrow> string \<Rightarrow> broker_error + string" where
  "safeMessage v path =
     (case v of JStr s \<Rightarrow>
        if length s < 1 \<or> length s > 512 then Inl (Field path NotBoundedMessage)
        else if has_secret_material s then Inl (Field path SecretMaterial)
        else Inr s
      | _ \<Rightarrow> Inl (Field path NotBoundedMessage))"

definition apiVersion_of :: "jsval \<Rightarrow> string \<Rightarrow> broker_error + string" where
  "apiVersion_of v path =
     (case v of JStr s \<Rightarrow> if rx_test apiVersion_rx s then Inr s else Inl (Field path NotApiVersion)
      | _ \<Rightarrow> Inl (Field path NotApiVersion))"

definition safe_reference :: "string list \<Rightarrow> string \<Rightarrow> bool" where
  "safe_reference schemes s \<longleftrightarrow>
     (case uri_scheme s of None \<Rightarrow> False | Some scheme \<Rightarrow> scheme \<in> set schemes) \<and> CHR ''@'' \<notin> set s"

definition reference :: "jsval \<Rightarrow> string \<Rightarrow> string list \<Rightarrow> broker_error + string" where
  "reference v path schemes =
     (case v of JStr s \<Rightarrow>
        if length s > 512 then Inl (Field path NotBoundedReference)
        else if safe_reference schemes s then Inr s
        else Inl (Field path (UnsafeReference schemes))
      | _ \<Rightarrow> Inl (Field path NotBoundedReference))"

definition digest :: "jsval \<Rightarrow> string \<Rightarrow> broker_error + string" where
  "digest v path =
     (case v of JStr s \<Rightarrow> if rx_test digest_rx s then Inr s else Inl (Field path NotDigest)
      | _ \<Rightarrow> Inl (Field path NotDigest))"

definition timestamp :: "jsval \<Rightarrow> string \<Rightarrow> broker_error + string" where
  "timestamp v path =
     (case v of JStr s \<Rightarrow> if is_timestamp s then Inr s else Inl (Field path NotTimestamp)
      | _ \<Rightarrow> Inl (Field path NotTimestamp))"

definition positiveInteger :: "jsval \<Rightarrow> string \<Rightarrow> broker_error + int" where
  "positiveInteger v path =
     (case v of JNum (NInt i) \<Rightarrow> if i < 1 then Inl (Field path NotPositiveInteger) else Inr i
      | _ \<Rightarrow> Inl (Field path NotPositiveInteger))"

definition nonNegativeInteger :: "jsval \<Rightarrow> string \<Rightarrow> broker_error + int" where
  "nonNegativeInteger v path =
     (case v of JNum (NInt i) \<Rightarrow> if i < 0 then Inl (Field path NotNonNegativeInteger) else Inr i
      | _ \<Rightarrow> Inl (Field path NotNonNegativeInteger))"

definition boundedInteger :: "jsval \<Rightarrow> string \<Rightarrow> int \<Rightarrow> int \<Rightarrow> broker_error + int" where
  "boundedInteger v path lo hi =
     (case v of JNum (NInt i) \<Rightarrow> if i < lo \<or> i > hi then Inl (Field path (NotBetween lo hi)) else Inr i
      | _ \<Rightarrow> Inl (Field path (NotBetween lo hi)))"

definition boolean :: "jsval \<Rightarrow> string \<Rightarrow> broker_error + bool" where
  "boolean v path = (case v of JBool b \<Rightarrow> Inr b | _ \<Rightarrow> Inl (Field path NotBoolean))"

definition trueLiteral :: "jsval \<Rightarrow> string \<Rightarrow> broker_error + unit" where
  "trueLiteral v path = throw_if (v \<noteq> JBool True) (Field path NotTrue)"

definition literal :: "jsval \<Rightarrow> string \<Rightarrow> string \<Rightarrow> broker_error + unit" where
  "literal v path expected = throw_if (v \<noteq> JStr expected) (Field path (NotLiteral expected))"

text \<open>An enumerated string, returned as the constructor it names.\<close>

definition enumValue :: "jsval \<Rightarrow> string \<Rightarrow> ('a \<Rightarrow> string) \<Rightarrow> 'a list \<Rightarrow> broker_error + 'a" where
  "enumValue v path name values =
     (case v of JStr s \<Rightarrow>
        (case List.find (\<lambda>a. name a = s) values of
           Some a \<Rightarrow> Inr a | None \<Rightarrow> Inl (Field path (NotOneOf (map name values))))
      | _ \<Rightarrow> Inl (Field path (NotOneOf (map name values))))"

definition index_path :: "string \<Rightarrow> nat \<Rightarrow> string" where
  "index_path path i = path @ ''['' @ nat_dec i @ '']''"

definition js_array :: "jsval \<Rightarrow> string \<Rightarrow> (jsval \<Rightarrow> string \<Rightarrow> broker_error + 'a) \<Rightarrow> broker_error + 'a list" where
  "js_array v path parser =
     (case v of JArr vs \<Rightarrow> map_ix (\<lambda>i e. parser e (index_path path i)) 0 vs
      | _ \<Rightarrow> Inl (Field path NotArray))"

definition unique_of ::
  "(jsval \<Rightarrow> string \<Rightarrow> broker_error + string) \<Rightarrow> jsval \<Rightarrow> string \<Rightarrow> broker_error + string list" where
  "unique_of parser v path =
     bind_r (js_array v path parser) (\<lambda>result.
     bind_r (throw_if (\<not> distinct result) (Field path NotUnique)) (\<lambda>_. Inr result))"

definition uniqueIdentifiers :: "jsval \<Rightarrow> string \<Rightarrow> broker_error + string list" where
  "uniqueIdentifiers = unique_of identifier_of"

definition uniqueResourceKinds :: "jsval \<Rightarrow> string \<Rightarrow> broker_error + string list" where
  "uniqueResourceKinds = unique_of resourceKind_of"

definition semanticOperation :: "jsval \<Rightarrow> string \<Rightarrow> broker_error + string" where
  "semanticOperation v path =
     (case v of JStr s \<Rightarrow> if rx_test semantic_rx s then Inr s else Inl (Field path NotSemanticOperation)
      | _ \<Rightarrow> Inl (Field path NotSemanticOperation))"

definition semanticOperations :: "jsval \<Rightarrow> string \<Rightarrow> broker_error + string list" where
  "semanticOperations v path =
     bind_r (throw_if (case v of JArr vs \<Rightarrow> vs = [] | _ \<Rightarrow> True) (Field path NotNonEmptyArray))
       (\<lambda>_. unique_of semanticOperation v path)"

definition scalar_ok :: "scalar \<Rightarrow> bool" where
  "scalar_ok sc =
     (case sc of SStr s \<Rightarrow> length s \<le> 512
      | SNum n \<Rightarrow> (case n of NInt _ \<Rightarrow> True | NFrac _ \<Rightarrow> True | NNaN \<Rightarrow> False | NInfinite _ \<Rightarrow> False)
      | SBool _ \<Rightarrow> True)"

definition enc_scalar :: "scalar \<Rightarrow> jsval" where
  "enc_scalar sc = (case sc of SStr s \<Rightarrow> JStr s | SNum n \<Rightarrow> JNum n | SBool b \<Rightarrow> JBool b)"

definition scalar_of :: "jsval \<Rightarrow> string \<Rightarrow> broker_error + scalar" where
  "scalar_of v path =
     (let checked = (\<lambda>sc. if scalar_ok sc then Inr sc else Inl (Field path NotScalar)) in
      case v of JStr s \<Rightarrow> checked (SStr s) | JNum n \<Rightarrow> checked (SNum n) | JBool b \<Rightarrow> checked (SBool b)
      | _ \<Rightarrow> Inl (Field path NotScalar))"

definition optionalStateField :: "string \<Rightarrow> bool" where
  "optionalStateField k \<longleftrightarrow>
     k \<in> set [''providerResourceRef'', ''lease'', ''failure'', ''drift'', ''deletion'',
             ''cancellation'', ''cleanupEvidenceRef'']"

definition exactObject :: "jsval \<Rightarrow> string \<Rightarrow> string list \<Rightarrow> broker_error + props" where
  "exactObject v path allowed =
     (case v of
        JObj ps \<Rightarrow>
          (case List.find (\<lambda>k. k \<notin> set allowed) (map fst ps) of
             Some k \<Rightarrow> Inl (Field path (UnknownField k))
           | None \<Rightarrow>
               (case List.find (\<lambda>k. k \<notin> set (map fst ps) \<and> \<not> optionalStateField k) allowed of
                  Some k \<Rightarrow> Inl (Field path (FieldRequired k))
                | None \<Rightarrow> Inr ps))
      | _ \<Rightarrow> Inl (Field path NotObject))"

end
