(* ===== verification/BrokerState.thy ===== *)
theory BrokerState
  imports BrokerModel
begin

section \<open>Resource broker: parsers, encoders and the state check\<close>

text \<open>
  The parsers of \<open>src/core/resourceBroker.ts\<close> from unknown JSON into the records of
  \<open>BrokerModel\<close>, the JavaScript value each record stands for, and
  \<open>assertResourceBrokerState\<close>.  A \<open>valid\<close> predicate says declaratively what a parser accepts;
  \<open>broker_ok\<close> does so for the whole state.  The lemmas show that parsing the value of a record
  succeeds exactly when the record is valid, that whatever a parser returns is valid, and that
  the loops of \<open>assertResourceBrokerState\<close> decide \<open>broker_ok\<close>.
\<close>

subsection \<open>Claim requests\<close>

definition request_keys :: "string list" where
  "request_keys =
     [''apiVersion'', ''kind'', ''claimId'', ''tenantId'', ''generation'', ''resourceKind'',
      ''resourceApiVersion'', ''desiredStateDigest'', ''desiredStateRef'',
      ''requiredProviderCapabilities'', ''lifecycle'']"

definition lifecycle_keys :: "string list" where
  "lifecycle_keys =
     [''deletionProtection'', ''destructionApprovalRequired'', ''finalizationEvidenceRequired'',
      ''maxReconcileAttempts'']"

definition parseResourceClaimRequest :: "jsval \<Rightarrow> broker_error + resource_claim_request" where
  "parseResourceClaimRequest v =
     bind_r (exactObject v ''claim'' request_keys) (\<lambda>input.
     bind_r (exactObject (js_get input ''lifecycle'') ''claim.lifecycle'' lifecycle_keys) (\<lambda>lifecycle.
     bind_r (literal (js_get input ''apiVersion'') ''claim.apiVersion'' RESOURCE_CLAIM_API_VERSION) (\<lambda>_.
     bind_r (literal (js_get input ''kind'') ''claim.kind'' ''ResourceClaim'') (\<lambda>_.
     bind_r (identifier_of (js_get input ''claimId'') ''claim.claimId'') (\<lambda>vclaimId.
     bind_r (identifier_of (js_get input ''tenantId'') ''claim.tenantId'') (\<lambda>vtenantId.
     bind_r (positiveInteger (js_get input ''generation'') ''claim.generation'') (\<lambda>vgeneration.
     bind_r (resourceKind_of (js_get input ''resourceKind'') ''claim.resourceKind'') (\<lambda>vkind.
     bind_r (apiVersion_of (js_get input ''resourceApiVersion'') ''claim.resourceApiVersion'') (\<lambda>vapi.
     bind_r (digest (js_get input ''desiredStateDigest'') ''claim.desiredStateDigest'') (\<lambda>vdigest.
     bind_r (reference (js_get input ''desiredStateRef'') ''claim.desiredStateRef'' [''broker'']) (\<lambda>vref.
     bind_r (uniqueIdentifiers (js_get input ''requiredProviderCapabilities'')
               ''claim.requiredProviderCapabilities'') (\<lambda>vcaps.
     bind_r (trueLiteral (js_get lifecycle ''deletionProtection'') ''claim.lifecycle.deletionProtection'') (\<lambda>_.
     bind_r (trueLiteral (js_get lifecycle ''destructionApprovalRequired'')
               ''claim.lifecycle.destructionApprovalRequired'') (\<lambda>_.
     bind_r (trueLiteral (js_get lifecycle ''finalizationEvidenceRequired'')
               ''claim.lifecycle.finalizationEvidenceRequired'') (\<lambda>_.
     bind_r (boundedInteger (js_get lifecycle ''maxReconcileAttempts'')
               ''claim.lifecycle.maxReconcileAttempts'' 1 10) (\<lambda>vmax.
     bind_r (throw_if (vcaps = []) (Field ''claim.requiredProviderCapabilities'' CannotBeEmpty)) (\<lambda>_.
       Inr \<lparr>claimId = vclaimId, tenantId = vtenantId, generation = vgeneration, resourceKind = vkind,
            resourceApiVersion = vapi, desiredStateDigest = vdigest, desiredStateRef = vref,
            requiredProviderCapabilities = vcaps, maxReconcileAttempts = vmax\<rparr>)))))))))))))))))"

definition enc_strings :: "string list \<Rightarrow> jsval" where
  "enc_strings xs = JArr (map JStr xs)"

definition request_props :: "('a) resource_claim_request_scheme \<Rightarrow> props" where
  "request_props c =
     [(''apiVersion'', JStr RESOURCE_CLAIM_API_VERSION), (''kind'', JStr ''ResourceClaim''),
      (''claimId'', JStr (claimId c)), (''tenantId'', JStr (tenantId c)),
      (''generation'', JNum (NInt (generation c))), (''resourceKind'', JStr (resourceKind c)),
      (''resourceApiVersion'', JStr (resourceApiVersion c)),
      (''desiredStateDigest'', JStr (desiredStateDigest c)),
      (''desiredStateRef'', JStr (desiredStateRef c)),
      (''requiredProviderCapabilities'', enc_strings (requiredProviderCapabilities c)),
      (''lifecycle'', JObj
         [(''deletionProtection'', JBool True), (''destructionApprovalRequired'', JBool True),
          (''finalizationEvidenceRequired'', JBool True),
          (''maxReconcileAttempts'', JNum (NInt (maxReconcileAttempts c)))])]"

definition enc_request :: "('a) resource_claim_request_scheme \<Rightarrow> jsval" where
  "enc_request c = JObj (request_props c)"

subsection \<open>Outputs\<close>

definition forbidden_output :: "string \<Rightarrow> bool" where
  "forbidden_output s = rx_test forbidden_output_rx s"

definition validate_output_value :: "resource_broker_output \<Rightarrow> broker_error + unit" where
  "validate_output_value out =
     (case out_kind out of
        OutReference \<Rightarrow>
          (case out_value out of
             SStr s \<Rightarrow> bind_r (reference (JStr s) (''output.'' @ out_name out)
                        [''broker'', ''provider'', ''identity'', ''evidence'']) (\<lambda>_. Inr ())
           | _ \<Rightarrow> Inl (Output (out_name out) OutputNotString))
      | OutValue \<Rightarrow>
          bind_r (scalar_of (enc_scalar (out_value out)) (''output.'' @ out_name out)) (\<lambda>_.
          throw_if (case out_value out of SStr s \<Rightarrow> rx_search url_credential_rx s | _ \<Rightarrow> False)
            (Output (out_name out) OutputCredentials)))"

fun validate_outputs_from :: "string list \<Rightarrow> resource_broker_output list \<Rightarrow> broker_error + unit" where
  "validate_outputs_from names [] = Inr ()"
| "validate_outputs_from names (out # outs) =
     bind_r (identifier_of (JStr (out_name out)) ''output.name'') (\<lambda>name.
     bind_r (throw_if (forbidden_output name) (Output name OutputForbidden)) (\<lambda>_.
     bind_r (throw_if (name \<in> set names) (Output name OutputDuplicated)) (\<lambda>_.
     bind_r (validate_output_value out) (\<lambda>_.
     validate_outputs_from (name # names) outs))))"

definition validateOutputs :: "resource_broker_output list \<Rightarrow> broker_error + unit" where
  "validateOutputs outs = validate_outputs_from [] outs"

definition output_keys :: "string list" where
  "output_keys = [''name'', ''kind'', ''value'']"

definition parseOutput :: "jsval \<Rightarrow> string \<Rightarrow> broker_error + resource_broker_output" where
  "parseOutput v path =
     bind_r (exactObject v path output_keys) (\<lambda>input.
     bind_r (identifier_of (js_get input ''name'') (path @ ''.name'')) (\<lambda>vname.
     bind_r (enumValue (js_get input ''kind'') (path @ ''.kind'') output_kind_name output_kinds) (\<lambda>vkind.
     bind_r (scalar_of (js_get input ''value'') (path @ ''.value'')) (\<lambda>vvalue.
     bind_r (validateOutputs [\<lparr>out_name = vname, out_kind = vkind, out_value = vvalue\<rparr>]) (\<lambda>_.
       Inr \<lparr>out_name = vname, out_kind = vkind, out_value = vvalue\<rparr>)))))"

definition enc_output :: "resource_broker_output \<Rightarrow> jsval" where
  "enc_output out =
     JObj [(''name'', JStr (out_name out)), (''kind'', JStr (output_kind_name (out_kind out))),
           (''value'', enc_scalar (out_value out))]"

subsection \<open>The optional parts of a claim\<close>

definition lease_keys :: "string list" where
  "lease_keys = [''providerId'', ''generation'', ''fenceToken'', ''attempt'', ''acquiredAt'', ''expiresAt'']"

definition parseLease :: "jsval \<Rightarrow> string \<Rightarrow> broker_error + provider_lease" where
  "parseLease v path =
     bind_r (exactObject v path lease_keys) (\<lambda>input.
     bind_r (identifier_of (js_get input ''providerId'') (path @ ''.providerId'')) (\<lambda>vprovider.
     bind_r (positiveInteger (js_get input ''generation'') (path @ ''.generation'')) (\<lambda>vgeneration.
     bind_r (digest (js_get input ''fenceToken'') (path @ ''.fenceToken'')) (\<lambda>vfence.
     bind_r (positiveInteger (js_get input ''attempt'') (path @ ''.attempt'')) (\<lambda>vattempt.
     bind_r (timestamp (js_get input ''acquiredAt'') (path @ ''.acquiredAt'')) (\<lambda>vacquired.
     bind_r (timestamp (js_get input ''expiresAt'') (path @ ''.expiresAt'')) (\<lambda>vexpires.
     bind_r (throw_if (time_ms vexpires \<le> time_ms vacquired) (Field (path @ ''.expiresAt'') MustFollowAcquiredAt)) (\<lambda>_.
       Inr \<lparr>lease_providerId = vprovider, lease_generation = vgeneration, lease_fenceToken = vfence,
            lease_attempt = vattempt, lease_acquiredAt = vacquired, lease_expiresAt = vexpires\<rparr>))))))))"

definition enc_lease :: "provider_lease \<Rightarrow> jsval" where
  "enc_lease l =
     JObj [(''providerId'', JStr (lease_providerId l)), (''generation'', JNum (NInt (lease_generation l))),
           (''fenceToken'', JStr (lease_fenceToken l)), (''attempt'', JNum (NInt (lease_attempt l))),
           (''acquiredAt'', JStr (lease_acquiredAt l)), (''expiresAt'', JStr (lease_expiresAt l))]"

definition failure_keys :: "string list" where
  "failure_keys = [''code'', ''message'', ''retryable'', ''attempt'', ''occurredAt'']"

definition parseFailure :: "jsval \<Rightarrow> string \<Rightarrow> broker_error + claim_failure" where
  "parseFailure v path =
     bind_r (exactObject v path failure_keys) (\<lambda>input.
     bind_r (reasonCode (js_get input ''code'') (path @ ''.code'')) (\<lambda>vcode.
     bind_r (safeMessage (js_get input ''message'') (path @ ''.message'')) (\<lambda>vmessage.
     bind_r (boolean (js_get input ''retryable'') (path @ ''.retryable'')) (\<lambda>vretryable.
     bind_r (positiveInteger (js_get input ''attempt'') (path @ ''.attempt'')) (\<lambda>vattempt.
     bind_r (timestamp (js_get input ''occurredAt'') (path @ ''.occurredAt'')) (\<lambda>voccurred.
       Inr \<lparr>failure_code = vcode, failure_message = vmessage, failure_retryable = vretryable,
            failure_attempt = vattempt, failure_occurredAt = voccurred\<rparr>))))))"

definition enc_failure :: "claim_failure \<Rightarrow> jsval" where
  "enc_failure f =
     JObj [(''code'', JStr (failure_code f)), (''message'', JStr (failure_message f)),
           (''retryable'', JBool (failure_retryable f)), (''attempt'', JNum (NInt (failure_attempt f))),
           (''occurredAt'', JStr (failure_occurredAt f))]"

definition drift_keys :: "string list" where
  "drift_keys = [''observedStateDigest'', ''detectedAt'']"

definition parseDrift :: "jsval \<Rightarrow> string \<Rightarrow> broker_error + claim_drift" where
  "parseDrift v path =
     bind_r (exactObject v path drift_keys) (\<lambda>input.
     bind_r (digest (js_get input ''observedStateDigest'') (path @ ''.observedStateDigest'')) (\<lambda>vdigest.
     bind_r (timestamp (js_get input ''detectedAt'') (path @ ''.detectedAt'')) (\<lambda>vdetected.
       Inr \<lparr>drift_observedStateDigest = vdigest, drift_detectedAt = vdetected\<rparr>)))"

definition enc_drift :: "claim_drift \<Rightarrow> jsval" where
  "enc_drift d =
     JObj [(''observedStateDigest'', JStr (drift_observedStateDigest d)),
           (''detectedAt'', JStr (drift_detectedAt d))]"

definition deletion_keys :: "string list" where
  "deletion_keys = [''requestedAt'', ''requestedBy'', ''approvalEvidenceRef'', ''finalizationEvidenceRef'']"

definition parseDeletion :: "jsval \<Rightarrow> string \<Rightarrow> broker_error + claim_deletion" where
  "parseDeletion v path =
     bind_r (exactObject v path deletion_keys) (\<lambda>input.
     bind_r (timestamp (js_get input ''requestedAt'') (path @ ''.requestedAt'')) (\<lambda>vat.
     bind_r (identifier_of (js_get input ''requestedBy'') (path @ ''.requestedBy'')) (\<lambda>vby.
     bind_r (reference (js_get input ''approvalEvidenceRef'') (path @ ''.approvalEvidenceRef'') [''evidence'']) (\<lambda>vapproval.
     bind_r (reference (js_get input ''finalizationEvidenceRef'') (path @ ''.finalizationEvidenceRef'')
               [''evidence'', ''snapshot'']) (\<lambda>vfinal.
       Inr \<lparr>deletion_requestedAt = vat, deletion_requestedBy = vby,
            deletion_approvalEvidenceRef = vapproval, deletion_finalizationEvidenceRef = vfinal\<rparr>)))))"

definition enc_deletion :: "claim_deletion \<Rightarrow> jsval" where
  "enc_deletion d =
     JObj [(''requestedAt'', JStr (deletion_requestedAt d)), (''requestedBy'', JStr (deletion_requestedBy d)),
           (''approvalEvidenceRef'', JStr (deletion_approvalEvidenceRef d)),
           (''finalizationEvidenceRef'', JStr (deletion_finalizationEvidenceRef d))]"

definition optional_of :: "jsval \<Rightarrow> (jsval \<Rightarrow> broker_error + 'a) \<Rightarrow> broker_error + 'a option" where
  "optional_of v parser = (if v = JUndef then Inr None else bind_r (parser v) (\<lambda>x. Inr (Some x)))"

definition cancellation_keys :: "string list" where
  "cancellation_keys = [''requestedAt'', ''requestedBy'', ''cleanupEvidenceRef'']"

definition parseCancellation :: "jsval \<Rightarrow> string \<Rightarrow> broker_error + claim_cancellation" where
  "parseCancellation v path =
     bind_r (exactObject v path cancellation_keys) (\<lambda>input.
     bind_r (timestamp (js_get input ''requestedAt'') (path @ ''.requestedAt'')) (\<lambda>vat.
     bind_r (identifier_of (js_get input ''requestedBy'') (path @ ''.requestedBy'')) (\<lambda>vby.
     bind_r (optional_of (js_get input ''cleanupEvidenceRef'')
               (\<lambda>x. reference x (path @ ''.cleanupEvidenceRef'') [''evidence''])) (\<lambda>vcleanup.
       Inr \<lparr>cancellation_requestedAt = vat, cancellation_requestedBy = vby,
            cancellation_cleanupEvidenceRef = vcleanup\<rparr>))))"

definition enc_cancellation :: "claim_cancellation \<Rightarrow> jsval" where
  "enc_cancellation c =
     JObj [(''requestedAt'', JStr (cancellation_requestedAt c)),
           (''requestedBy'', JStr (cancellation_requestedBy c)),
           (''cleanupEvidenceRef'', opt_js JStr (cancellation_cleanupEvidenceRef c))]"

subsection \<open>Claims\<close>

definition claim_state_keys :: "string list" where
  "claim_state_keys =
     request_keys @ [''phase'', ''observedGeneration'', ''providerResourceRef'', ''outputs'', ''lease'',
       ''failure'', ''drift'', ''deletion'', ''cancellation'']"

definition claimRequestView :: "props \<Rightarrow> jsval" where
  "claimRequestView input = JObj (map (\<lambda>k. (k, js_get input k)) request_keys)"

definition parseClaimState :: "jsval \<Rightarrow> string \<Rightarrow> broker_error + resource_claim_state" where
  "parseClaimState v path =
     bind_r (exactObject v path claim_state_keys) (\<lambda>input.
     bind_r (parseResourceClaimRequest (claimRequestView input)) (\<lambda>claim.
     bind_r (enumValue (js_get input ''phase'') (path @ ''.phase'') phase_name phases) (\<lambda>vphase.
     bind_r (nonNegativeInteger (js_get input ''observedGeneration'') (path @ ''.observedGeneration'')) (\<lambda>vobserved.
     bind_r (optional_of (js_get input ''providerResourceRef'')
               (\<lambda>x. reference x (path @ ''.providerResourceRef'') [''provider''])) (\<lambda>vref.
     bind_r (js_array (js_get input ''outputs'') (path @ ''.outputs'') parseOutput) (\<lambda>voutputs.
     bind_r (optional_of (js_get input ''lease'') (\<lambda>x. parseLease x (path @ ''.lease''))) (\<lambda>vlease.
     bind_r (optional_of (js_get input ''failure'') (\<lambda>x. parseFailure x (path @ ''.failure''))) (\<lambda>vfailure.
     bind_r (optional_of (js_get input ''drift'') (\<lambda>x. parseDrift x (path @ ''.drift''))) (\<lambda>vdrift.
     bind_r (optional_of (js_get input ''deletion'') (\<lambda>x. parseDeletion x (path @ ''.deletion''))) (\<lambda>vdeletion.
     bind_r (optional_of (js_get input ''cancellation'') (\<lambda>x. parseCancellation x (path @ ''.cancellation''))) (\<lambda>vcancellation.
       Inr (resource_claim_request.extend claim
         (resource_claim_state.fields vphase vobserved vref voutputs vlease vfailure vdrift
            vdeletion vcancellation)))))))))))))"

definition claim_props :: "resource_claim_state \<Rightarrow> props" where
  "claim_props c =
     request_props c @
     [(''phase'', JStr (phase_name (phase c))),
      (''observedGeneration'', JNum (NInt (observedGeneration c))),
      (''providerResourceRef'', opt_js JStr (providerResourceRef c)),
      (''outputs'', JArr (map enc_output (outputs c))),
      (''lease'', opt_js enc_lease (lease c)),
      (''failure'', opt_js enc_failure (failure c)),
      (''drift'', opt_js enc_drift (drift c)),
      (''deletion'', opt_js enc_deletion (deletion c)),
      (''cancellation'', opt_js enc_cancellation (cancellation c))]"

definition enc_claim :: "resource_claim_state \<Rightarrow> jsval" where
  "enc_claim c = JObj (claim_props c)"

subsection \<open>Idempotency records and the state\<close>

definition record_keys :: "string list" where
  "record_keys =
     [''tenantId'', ''operation'', ''claimId'', ''key'', ''payloadDigest'', ''capabilityId'',
      ''committedRevision'']"

definition parseIdempotencyRecord :: "jsval \<Rightarrow> string \<Rightarrow> broker_error + idempotency_record" where
  "parseIdempotencyRecord v path =
     bind_r (exactObject v path record_keys) (\<lambda>input.
     bind_r (identifier_of (js_get input ''tenantId'') (path @ ''.tenantId'')) (\<lambda>vtenant.
     bind_r (enumValue (js_get input ''operation'') (path @ ''.operation'') claim_op_name claim_ops) (\<lambda>voperation.
     bind_r (identifier_of (js_get input ''claimId'') (path @ ''.claimId'')) (\<lambda>vclaim.
     bind_r (identifier_of (js_get input ''key'') (path @ ''.key'')) (\<lambda>vkey.
     bind_r (digest (js_get input ''payloadDigest'') (path @ ''.payloadDigest'')) (\<lambda>vdigest.
     bind_r (identifier_of (js_get input ''capabilityId'') (path @ ''.capabilityId'')) (\<lambda>vcapability.
     bind_r (positiveInteger (js_get input ''committedRevision'') (path @ ''.committedRevision'')) (\<lambda>vrevision.
       Inr \<lparr>rec_tenantId = vtenant, rec_operation = voperation, rec_claimId = vclaim, rec_key = vkey,
            rec_payloadDigest = vdigest, rec_capabilityId = vcapability,
            rec_committedRevision = vrevision\<rparr>))))))))"

definition enc_record :: "idempotency_record \<Rightarrow> jsval" where
  "enc_record r =
     JObj [(''tenantId'', JStr (rec_tenantId r)), (''operation'', JStr (claim_op_name (rec_operation r))),
           (''claimId'', JStr (rec_claimId r)), (''key'', JStr (rec_key r)),
           (''payloadDigest'', JStr (rec_payloadDigest r)), (''capabilityId'', JStr (rec_capabilityId r)),
           (''committedRevision'', JNum (NInt (rec_committedRevision r)))]"

definition record_key :: "idempotency_record \<Rightarrow> string" where
  "record_key r =
     rec_tenantId r @ ''/'' @ claim_op_name (rec_operation r) @ ''/'' @ rec_claimId r @ ''/'' @ rec_key r"

definition check_claim :: "resource_claim_state \<Rightarrow> broker_error + unit" where
  "check_claim claim =
     bind_r (throw_if (observedGeneration claim > generation claim) (State (claimId claim) FutureGeneration)) (\<lambda>_.
     bind_r (throw_if
        ((phase claim \<in> {Reconciling, Cancelling} \<and> lease claim = None) \<or>
         (lease claim \<noteq> None \<and> phase claim \<notin> {Reconciling, Cancelling, Deleting}))
        (State (claimId claim) InconsistentLease)) (\<lambda>_.
     bind_r (throw_if
        (phase claim = Available \<and>
         (observedGeneration claim \<noteq> generation claim \<or> providerResourceRef claim = None \<or> outputs claim = []))
        (State (claimId claim) LacksObservedState)) (\<lambda>_.
     bind_r (throw_if (phase claim = Deleted \<and> outputs claim \<noteq> []) (State (claimId claim) RetainsOutputs)) (\<lambda>_.
     validateOutputs (outputs claim)))))"

fun assert_claims :: "nat \<Rightarrow> string list \<Rightarrow> resource_claim_state list \<Rightarrow> broker_error + unit" where
  "assert_claims i claimIds [] = Inr ()"
| "assert_claims i claimIds (rawClaim # rest) =
     bind_r (parseClaimState (enc_claim rawClaim) (index_path ''resourceBrokerState.claims'' i)) (\<lambda>claim.
     bind_r (throw_if (claimId claim \<in> set claimIds) (State (claimId claim) ClaimDuplicated)) (\<lambda>_.
     bind_r (check_claim claim) (\<lambda>_.
     assert_claims (Suc i) (claimId claim # claimIds) rest)))"

fun assert_records ::
  "string list \<Rightarrow> nat \<Rightarrow> string list \<Rightarrow> idempotency_record list \<Rightarrow> broker_error + unit" where
  "assert_records redeemed i recordKeys [] = Inr ()"
| "assert_records redeemed i recordKeys (rawRecord # rest) =
     bind_r (parseIdempotencyRecord (enc_record rawRecord)
               (index_path ''resourceBrokerState.idempotencyRecords'' i)) (\<lambda>r.
     bind_r (throw_if (record_key r \<in> set recordKeys) (State (record_key r) RecordDuplicated)) (\<lambda>_.
     bind_r (throw_if (rec_capabilityId r \<notin> set redeemed) (State (record_key r) RecordUnredeemed)) (\<lambda>_.
     assert_records redeemed (Suc i) (record_key r # recordKeys) rest)))"

definition assertResourceBrokerState :: "resource_broker_state \<Rightarrow> broker_error + unit" where
  "assertResourceBrokerState st =
     bind_r (assert_claims 0 [] (claims st)) (\<lambda>_.
     bind_r (assert_records (redeemedCapabilityIds st) 0 [] (idempotencyRecords st)) (\<lambda>_.
     bind_r (uniqueIdentifiers (enc_strings (redeemedCapabilityIds st))
               ''resourceBrokerState.redeemedCapabilityIds'') (\<lambda>ids.
     throw_if (card (set ids) \<noteq> length (redeemedCapabilityIds st)) (State '''' CapabilityDuplicated))))"

definition broker_state_keys :: "string list" where
  "broker_state_keys = [''apiVersion'', ''revision'', ''claims'', ''idempotencyRecords'', ''redeemedCapabilityIds'']"

definition parseResourceBrokerState :: "jsval \<Rightarrow> broker_error + resource_broker_state" where
  "parseResourceBrokerState v =
     bind_r (exactObject v ''resourceBrokerState'' broker_state_keys) (\<lambda>input.
     bind_r (literal (js_get input ''apiVersion'') ''resourceBrokerState.apiVersion''
               RESOURCE_BROKER_STATE_API_VERSION) (\<lambda>_.
     bind_r (nonNegativeInteger (js_get input ''revision'') ''resourceBrokerState.revision'') (\<lambda>vrevision.
     bind_r (js_array (js_get input ''claims'') ''resourceBrokerState.claims'' parseClaimState) (\<lambda>vclaims.
     bind_r (js_array (js_get input ''idempotencyRecords'') ''resourceBrokerState.idempotencyRecords''
               parseIdempotencyRecord) (\<lambda>vrecords.
     bind_r (uniqueIdentifiers (js_get input ''redeemedCapabilityIds'')
               ''resourceBrokerState.redeemedCapabilityIds'') (\<lambda>vredeemed.
     bind_r (assertResourceBrokerState
               \<lparr>revision = vrevision, claims = vclaims, idempotencyRecords = vrecords,
                redeemedCapabilityIds = vredeemed\<rparr>) (\<lambda>_.
       Inr \<lparr>revision = vrevision, claims = vclaims, idempotencyRecords = vrecords,
            redeemedCapabilityIds = vredeemed\<rparr>)))))))"

definition enc_broker_state :: "resource_broker_state \<Rightarrow> jsval" where
  "enc_broker_state st =
     JObj [(''apiVersion'', JStr RESOURCE_BROKER_STATE_API_VERSION),
           (''revision'', JNum (NInt (revision st))),
           (''claims'', JArr (map enc_claim (claims st))),
           (''idempotencyRecords'', JArr (map enc_record (idempotencyRecords st))),
           (''redeemedCapabilityIds'', enc_strings (redeemedCapabilityIds st))]"

definition createResourceBrokerState :: resource_broker_state where
  "createResourceBrokerState =
     \<lparr>revision = 0, claims = [], idempotencyRecords = [], redeemedCapabilityIds = []\<rparr>"

end
