(* ===== verification/BrokerValid.thy ===== *)
theory BrokerValid
  imports BrokerState
begin

section \<open>Resource broker: what the validators and parsers accept\<close>

text \<open>
  The declarative counterpart of \<open>BrokerState\<close>: one \<open>valid\<close> predicate per record, the
  inversion of every validator (collection \<open>accepts\<close>), the parsers' round trips through the
  encoders, and \<open>broker_ok\<close>, which \<open>assertResourceBrokerState\<close> decides.
\<close>

named_theorems accepts \<open>what a validator accepts\<close>
named_theorems lookups \<open>reading a property of an encoded record\<close>

subsection \<open>Field validators\<close>

definition is_identifier :: "string \<Rightarrow> bool" where
  "is_identifier s \<longleftrightarrow> rx_test identifier_rx s"

definition is_digest :: "string \<Rightarrow> bool" where
  "is_digest s \<longleftrightarrow> rx_test digest_rx s"

definition is_reference :: "string list \<Rightarrow> string \<Rightarrow> bool" where
  "is_reference schemes s \<longleftrightarrow> length s \<le> 512 \<and> safe_reference schemes s"

definition is_safe_message :: "string \<Rightarrow> bool" where
  "is_safe_message s \<longleftrightarrow> 1 \<le> length s \<and> length s \<le> 512 \<and> \<not> has_secret_material s"

lemma identifier_accepts [accepts]: "identifier_of v p = Inr s \<longleftrightarrow> v = JStr s \<and> is_identifier s"
  by (auto simp: identifier_of_def is_identifier_def split: jsval.splits if_splits)

lemma resourceKind_accepts [accepts]:
  "resourceKind_of v p = Inr s \<longleftrightarrow> v = JStr s \<and> rx_test resourceKind_rx s"
  by (auto simp: resourceKind_of_def split: jsval.splits if_splits)

lemma reasonCode_accepts [accepts]: "reasonCode v p = Inr s \<longleftrightarrow> v = JStr s \<and> rx_test reasonCode_rx s"
  by (auto simp: reasonCode_def split: jsval.splits if_splits)

lemma safeMessage_accepts [accepts]: "safeMessage v p = Inr s \<longleftrightarrow> v = JStr s \<and> is_safe_message s"
  by (auto simp: safeMessage_def is_safe_message_def Suc_le_eq split: jsval.splits if_splits)

lemma apiVersion_accepts [accepts]: "apiVersion_of v p = Inr s \<longleftrightarrow> v = JStr s \<and> rx_test apiVersion_rx s"
  by (auto simp: apiVersion_of_def split: jsval.splits if_splits)

lemma reference_accepts [accepts]:
  "reference v p schemes = Inr s \<longleftrightarrow> v = JStr s \<and> is_reference schemes s"
  by (auto simp: reference_def is_reference_def split: jsval.splits if_splits)

lemma digest_accepts [accepts]: "digest v p = Inr s \<longleftrightarrow> v = JStr s \<and> is_digest s"
  by (auto simp: digest_def is_digest_def split: jsval.splits if_splits)

lemma timestamp_accepts [accepts]: "timestamp v p = Inr s \<longleftrightarrow> v = JStr s \<and> is_timestamp s"
  by (auto simp: timestamp_def split: jsval.splits if_splits)

lemma positiveInteger_accepts [accepts]: "positiveInteger v p = Inr i \<longleftrightarrow> v = JNum (NInt i) \<and> 1 \<le> i"
  by (auto simp: positiveInteger_def split: jsval.splits jsnum.splits if_splits)

lemma nonNegativeInteger_accepts [accepts]:
  "nonNegativeInteger v p = Inr i \<longleftrightarrow> v = JNum (NInt i) \<and> 0 \<le> i"
  by (auto simp: nonNegativeInteger_def split: jsval.splits jsnum.splits if_splits)

lemma boundedInteger_accepts [accepts]:
  "boundedInteger v p lo hi = Inr i \<longleftrightarrow> v = JNum (NInt i) \<and> lo \<le> i \<and> i \<le> hi"
  by (auto simp: boundedInteger_def split: jsval.splits jsnum.splits if_splits)

lemma boolean_accepts [accepts]: "boolean v p = Inr b \<longleftrightarrow> v = JBool b"
  by (auto simp: boolean_def split: jsval.splits)

lemma trueLiteral_accepts [accepts]: "trueLiteral v p = Inr u \<longleftrightarrow> v = JBool True"
  by (auto simp: trueLiteral_def result_simps)

lemma literal_accepts [accepts]: "literal v p expected = Inr u \<longleftrightarrow> v = JStr expected"
  by (auto simp: literal_def result_simps)

lemma semanticOperation_accepts [accepts]:
  "semanticOperation v p = Inr s \<longleftrightarrow> v = JStr s \<and> rx_test semantic_rx s"
  by (auto simp: semanticOperation_def split: jsval.splits if_splits)

lemma scalar_accepts [accepts]: "scalar_of v p = Inr sc \<longleftrightarrow> v = enc_scalar sc \<and> scalar_ok sc"
  by (cases v; cases sc) (auto simp: scalar_of_def enc_scalar_def scalar_ok_def Let_def split: if_splits)

lemma enum_find:
  "inj_on name (set vals) \<Longrightarrow>
   List.find (\<lambda>a. name a = s) vals = Some x \<longleftrightarrow> x \<in> set vals \<and> name x = s"
  by (induction vals) (auto simp: inj_on_def)

lemma enumValue_accepts:
  "inj_on name (set vals) \<Longrightarrow>
   enumValue v p name vals = Inr x \<longleftrightarrow> v = JStr (name x) \<and> x \<in> set vals"
  by (auto simp: enumValue_def enum_find find_None_iff dest: inj_onD split: jsval.splits option.splits)

lemma phase_accepts [accepts]: "enumValue v p phase_name phases = Inr x \<longleftrightarrow> v = JStr (phase_name x)"
proof -
  have inj: "inj_on phase_name (set phases)" "x \<in> set phases"
    by (auto simp: phases_def inj_on_def) (cases x; simp)
  then show ?thesis by (simp add: enumValue_accepts)
qed

lemma claim_op_accepts [accepts]:
  "enumValue v p claim_op_name claim_ops = Inr x \<longleftrightarrow> v = JStr (claim_op_name x)"
proof -
  have inj: "inj_on claim_op_name (set claim_ops)" "x \<in> set claim_ops"
    by (auto simp: claim_ops_def inj_on_def) (cases x; simp)
  then show ?thesis by (simp add: enumValue_accepts)
qed

lemma output_kind_accepts [accepts]:
  "enumValue v p output_kind_name output_kinds = Inr x \<longleftrightarrow> v = JStr (output_kind_name x)"
proof -
  have inj: "inj_on output_kind_name (set output_kinds)" "x \<in> set output_kinds"
    by (auto simp: output_kinds_def inj_on_def) (cases x; simp)
  then show ?thesis by (simp add: enumValue_accepts)
qed

lemma js_array_accepts:
  assumes "\<And>w q x. parser w q = Inr x \<longleftrightarrow> w = enc x \<and> P x"
  shows "js_array v p parser = Inr xs \<longleftrightarrow> v = JArr (map enc xs) \<and> (\<forall>x \<in> set xs. P x)"
proof -
  have "map_ix (\<lambda>i e. parser e (index_path p i)) k vs = Inr xs \<longleftrightarrow>
      vs = map enc xs \<and> (\<forall>x \<in> set xs. P x)" for k vs
    by (induction vs arbitrary: k xs) (auto simp: result_simps assms)
  then show ?thesis
    by (cases v) (auto simp: js_array_def)
qed

lemma uniqueIdentifiers_accepts [accepts]:
  "uniqueIdentifiers v p = Inr xs \<longleftrightarrow>
   v = enc_strings xs \<and> distinct xs \<and> (\<forall>x \<in> set xs. is_identifier x)"
  using js_array_accepts [OF identifier_accepts, where v = v and p = p and xs = xs]
  by (auto simp: uniqueIdentifiers_def unique_of_def result_simps enc_strings_def)

lemma uniqueResourceKinds_accepts [accepts]:
  "uniqueResourceKinds v p = Inr xs \<longleftrightarrow>
   v = enc_strings xs \<and> distinct xs \<and> (\<forall>x \<in> set xs. rx_test resourceKind_rx x)"
  using js_array_accepts [OF resourceKind_accepts, where v = v and p = p and xs = xs]
  by (auto simp: uniqueResourceKinds_def unique_of_def result_simps enc_strings_def)

lemma semanticOperations_accepts [accepts]:
  "semanticOperations v p = Inr xs \<longleftrightarrow>
   v = enc_strings xs \<and> xs \<noteq> [] \<and> distinct xs \<and> (\<forall>x \<in> set xs. rx_test semantic_rx x)"
  using js_array_accepts [OF semanticOperation_accepts, where v = v and p = p and xs = xs]
  by (auto simp: semanticOperations_def unique_of_def result_simps enc_strings_def split: jsval.splits)

lemma exactObject_accepts:
  "exactObject v p allowed = Inr ps \<longleftrightarrow>
   v = JObj ps \<and> set (map fst ps) \<subseteq> set allowed \<and>
   (\<forall>k \<in> set allowed. k \<in> set (map fst ps) \<or> optionalStateField k)"
  by (cases v) (auto simp: exactObject_def result_simps)

lemma exactObject_complete: "map fst ps = allowed \<Longrightarrow> exactObject (JObj ps) p allowed = Inr ps"
  by (auto simp: exactObject_accepts)

lemma optional_of_enc:
  assumes "\<And>y. enc y \<noteq> JUndef" and "\<And>x y. parser (enc x) = Inr y \<longleftrightarrow> P x \<and> y = x"
  shows "optional_of (opt_js enc x) parser = Inr y \<longleftrightarrow> pred_option P x \<and> y = x"
  by (cases x) (auto simp: optional_of_def result_simps assms)

lemma optional_of_Inr:
  "optional_of v parser = Inr y \<longleftrightarrow>
   (case y of None \<Rightarrow> v = JUndef | Some x \<Rightarrow> v \<noteq> JUndef \<and> parser v = Inr x)"
  by (auto simp: optional_of_def result_simps split: option.splits)


subsection \<open>Requests\<close>

definition valid_request :: "('a) resource_claim_request_scheme \<Rightarrow> bool" where
  "valid_request c \<longleftrightarrow>
     is_identifier (claimId c) \<and> is_identifier (tenantId c) \<and> 1 \<le> generation c \<and>
     rx_test resourceKind_rx (resourceKind c) \<and> rx_test apiVersion_rx (resourceApiVersion c) \<and>
     is_digest (desiredStateDigest c) \<and> is_reference [''broker''] (desiredStateRef c) \<and>
     distinct (requiredProviderCapabilities c) \<and>
     (\<forall>k \<in> set (requiredProviderCapabilities c). is_identifier k) \<and>
     requiredProviderCapabilities c \<noteq> [] \<and>
     1 \<le> maxReconcileAttempts c \<and> maxReconcileAttempts c \<le> 10"

lemma request_props_keys [simp]: "map fst (request_props c) = request_keys"
  by (simp add: request_props_def request_keys_def)

lemma enc_strings_inject [simp]: "enc_strings xs = enc_strings ys \<longleftrightarrow> xs = ys"
  by (auto simp: enc_strings_def inj_map_eq_map inj_def)

lemma request_lookups [lookups]:
  "js_get (request_props c) ''apiVersion'' = JStr RESOURCE_CLAIM_API_VERSION"
  "js_get (request_props c) ''kind'' = JStr ''ResourceClaim''"
  "js_get (request_props c) ''claimId'' = JStr (claimId c)"
  "js_get (request_props c) ''tenantId'' = JStr (tenantId c)"
  "js_get (request_props c) ''generation'' = JNum (NInt (generation c))"
  "js_get (request_props c) ''resourceKind'' = JStr (resourceKind c)"
  "js_get (request_props c) ''resourceApiVersion'' = JStr (resourceApiVersion c)"
  "js_get (request_props c) ''desiredStateDigest'' = JStr (desiredStateDigest c)"
  "js_get (request_props c) ''desiredStateRef'' = JStr (desiredStateRef c)"
  "js_get (request_props c) ''requiredProviderCapabilities'' = enc_strings (requiredProviderCapabilities c)"
  "js_get (request_props c) ''lifecycle'' = JObj
     [(''deletionProtection'', JBool True), (''destructionApprovalRequired'', JBool True),
      (''finalizationEvidenceRequired'', JBool True),
      (''maxReconcileAttempts'', JNum (NInt (maxReconcileAttempts c)))]"
  by (simp_all add: request_props_def)

lemma parse_enc_request:
  "parseResourceClaimRequest (enc_request c) = Inr r \<longleftrightarrow>
   valid_request c \<and> r = resource_claim_request.truncate c"
  unfolding parseResourceClaimRequest_def enc_request_def
  by (auto simp: result_simps accepts lookups exactObject_complete lifecycle_keys_def valid_request_def
      resource_claim_request.defs)

lemma parse_request_valid: "parseResourceClaimRequest v = Inr r \<Longrightarrow> valid_request r"
  unfolding parseResourceClaimRequest_def
  by (auto simp: result_simps accepts valid_request_def)

lemma valid_request_truncate [simp]:
  "valid_request (resource_claim_request.truncate c) \<longleftrightarrow> valid_request c"
  by (simp add: valid_request_def resource_claim_request.defs)

subsection \<open>Outputs\<close>

definition output_schemes :: "string list" where
  "output_schemes = [''broker'', ''provider'', ''identity'', ''evidence'']"

definition valid_output :: "resource_broker_output \<Rightarrow> bool" where
  "valid_output out \<longleftrightarrow>
     is_identifier (out_name out) \<and> \<not> forbidden_output (out_name out) \<and>
     (case out_kind out of
        OutReference \<Rightarrow> (case out_value out of SStr s \<Rightarrow> is_reference output_schemes s | _ \<Rightarrow> False)
      | OutValue \<Rightarrow> scalar_ok (out_value out) \<and>
          (case out_value out of SStr s \<Rightarrow> \<not> rx_search url_credential_rx s | _ \<Rightarrow> True))"

definition valid_outputs :: "resource_broker_output list \<Rightarrow> bool" where
  "valid_outputs outs \<longleftrightarrow> distinct (map out_name outs) \<and> (\<forall>out \<in> set outs. valid_output out)"

lemma enc_scalar_inject [simp]: "enc_scalar a = enc_scalar b \<longleftrightarrow> a = b"
  by (cases a; cases b) (auto simp: enc_scalar_def)

lemma validate_output_value_iff:
  "validate_output_value out = Inr u \<longleftrightarrow>
   (case out_kind out of
      OutReference \<Rightarrow> (case out_value out of SStr s \<Rightarrow> is_reference output_schemes s | _ \<Rightarrow> False)
    | OutValue \<Rightarrow> scalar_ok (out_value out) \<and>
        (case out_value out of SStr s \<Rightarrow> \<not> rx_search url_credential_rx s | _ \<Rightarrow> True))"
  by (auto simp: validate_output_value_def output_schemes_def result_simps accepts
      split: output_kind.splits scalar.splits)

lemma validate_outputs_from_iff:
  "validate_outputs_from names outs = Inr u \<longleftrightarrow>
   valid_outputs outs \<and> set names \<inter> out_name ` set outs = {}"
  by (induction names outs rule: validate_outputs_from.induct)
    (auto simp: valid_outputs_def valid_output_def result_simps accepts validate_output_value_iff)

lemma validateOutputs_iff [accepts]: "validateOutputs outs = Inr u \<longleftrightarrow> valid_outputs outs"
  by (simp add: validateOutputs_def validate_outputs_from_iff)

lemma valid_outputs_single [simp]: "valid_outputs [out] \<longleftrightarrow> valid_output out"
  by (simp add: valid_outputs_def)

lemma valid_outputs_Nil [simp]: "valid_outputs []"
  by (simp add: valid_outputs_def)

lemma output_kind_name_inject [simp]: "output_kind_name a = output_kind_name b \<longleftrightarrow> a = b"
  by (cases a; cases b) simp_all

lemma phase_name_inject [simp]: "phase_name a = phase_name b \<longleftrightarrow> a = b"
  by (cases a; cases b) simp_all

lemma claim_op_name_inject [simp]: "claim_op_name a = claim_op_name b \<longleftrightarrow> a = b"
  by (cases a; cases b) simp_all

lemma valid_output_fields:
  "valid_output \<lparr>out_name = n, out_kind = k, out_value = x\<rparr> \<Longrightarrow> is_identifier n \<and> scalar_ok x"
  by (auto simp: valid_output_def scalar_ok_def is_reference_def split: output_kind.splits scalar.splits)

lemma parse_enc_output: "parseOutput (enc_output out) p = Inr out' \<longleftrightarrow> valid_output out \<and> out' = out"
  unfolding parseOutput_def enc_output_def
  by (cases out)
    (auto simp: result_simps accepts exactObject_complete output_keys_def dest: valid_output_fields)

lemma parse_output_valid: "parseOutput v p = Inr out \<Longrightarrow> valid_output out"
  unfolding parseOutput_def by (auto simp: result_simps accepts)

subsection \<open>Leases, failures, drift, deletion, cancellation\<close>

definition valid_lease :: "provider_lease \<Rightarrow> bool" where
  "valid_lease l \<longleftrightarrow>
     is_identifier (lease_providerId l) \<and> 1 \<le> lease_generation l \<and> is_digest (lease_fenceToken l) \<and>
     1 \<le> lease_attempt l \<and> is_timestamp (lease_acquiredAt l) \<and> is_timestamp (lease_expiresAt l) \<and>
     time_ms (lease_acquiredAt l) < time_ms (lease_expiresAt l)"

definition valid_failure :: "claim_failure \<Rightarrow> bool" where
  "valid_failure f \<longleftrightarrow>
     rx_test reasonCode_rx (failure_code f) \<and> is_safe_message (failure_message f) \<and>
     1 \<le> failure_attempt f \<and> is_timestamp (failure_occurredAt f)"

definition valid_drift :: "claim_drift \<Rightarrow> bool" where
  "valid_drift d \<longleftrightarrow> is_digest (drift_observedStateDigest d) \<and> is_timestamp (drift_detectedAt d)"

definition valid_deletion :: "claim_deletion \<Rightarrow> bool" where
  "valid_deletion d \<longleftrightarrow>
     is_timestamp (deletion_requestedAt d) \<and> is_identifier (deletion_requestedBy d) \<and>
     is_reference [''evidence''] (deletion_approvalEvidenceRef d) \<and>
     is_reference [''evidence'', ''snapshot''] (deletion_finalizationEvidenceRef d)"

definition valid_cancellation :: "claim_cancellation \<Rightarrow> bool" where
  "valid_cancellation c \<longleftrightarrow>
     is_timestamp (cancellation_requestedAt c) \<and> is_identifier (cancellation_requestedBy c) \<and>
     pred_option (is_reference [''evidence'']) (cancellation_cleanupEvidenceRef c)"

lemma parse_enc_lease: "parseLease (enc_lease l) p = Inr l' \<longleftrightarrow> valid_lease l \<and> l' = l"
  unfolding parseLease_def enc_lease_def
  by (cases l) (auto simp: result_simps accepts exactObject_complete lease_keys_def valid_lease_def)

lemma parse_lease_valid: "parseLease v p = Inr l \<Longrightarrow> valid_lease l"
  unfolding parseLease_def by (auto simp: result_simps accepts valid_lease_def)

lemma parse_enc_failure: "parseFailure (enc_failure f) p = Inr f' \<longleftrightarrow> valid_failure f \<and> f' = f"
  unfolding parseFailure_def enc_failure_def
  by (cases f) (auto simp: result_simps accepts exactObject_complete failure_keys_def valid_failure_def)

lemma parse_failure_valid: "parseFailure v p = Inr f \<Longrightarrow> valid_failure f"
  unfolding parseFailure_def by (auto simp: result_simps accepts valid_failure_def)

lemma parse_enc_drift: "parseDrift (enc_drift d) p = Inr d' \<longleftrightarrow> valid_drift d \<and> d' = d"
  unfolding parseDrift_def enc_drift_def
  by (cases d) (auto simp: result_simps accepts exactObject_complete drift_keys_def valid_drift_def)

lemma parse_drift_valid: "parseDrift v p = Inr d \<Longrightarrow> valid_drift d"
  unfolding parseDrift_def by (auto simp: result_simps accepts valid_drift_def)

lemma parse_enc_deletion: "parseDeletion (enc_deletion d) p = Inr d' \<longleftrightarrow> valid_deletion d \<and> d' = d"
  unfolding parseDeletion_def enc_deletion_def
  by (cases d) (auto simp: result_simps accepts exactObject_complete deletion_keys_def valid_deletion_def)

lemma parse_deletion_valid: "parseDeletion v p = Inr d \<Longrightarrow> valid_deletion d"
  unfolding parseDeletion_def by (auto simp: result_simps accepts valid_deletion_def)

lemma optional_reference_enc:
  "optional_of (opt_js JStr x) (\<lambda>w. reference w p schemes) = Inr y \<longleftrightarrow>
   pred_option (is_reference schemes) x \<and> y = x"
  by (rule optional_of_enc) (auto simp: accepts)

lemma optional_reference_valid:
  "optional_of v (\<lambda>w. reference w p schemes) = Inr y \<Longrightarrow> pred_option (is_reference schemes) y"
  by (auto simp: optional_of_Inr accepts split: option.splits)

lemma parse_enc_cancellation:
  "parseCancellation (enc_cancellation c) p = Inr c' \<longleftrightarrow> valid_cancellation c \<and> c' = c"
  unfolding parseCancellation_def enc_cancellation_def
  by (cases c)
    (auto simp: result_simps accepts exactObject_complete cancellation_keys_def valid_cancellation_def
      optional_reference_enc)

lemma parse_cancellation_valid: "parseCancellation v p = Inr c \<Longrightarrow> valid_cancellation c"
  unfolding parseCancellation_def
  by (auto simp: result_simps accepts valid_cancellation_def dest: optional_reference_valid)


subsection \<open>Claims\<close>

definition valid_claim :: "resource_claim_state \<Rightarrow> bool" where
  "valid_claim c \<longleftrightarrow>
     valid_request c \<and> 0 \<le> observedGeneration c \<and>
     pred_option (is_reference [''provider'']) (providerResourceRef c) \<and>
     (\<forall>out \<in> set (outputs c). valid_output out) \<and>
     pred_option valid_lease (lease c) \<and> pred_option valid_failure (failure c) \<and>
     pred_option valid_drift (drift c) \<and> pred_option valid_deletion (deletion c) \<and>
     pred_option valid_cancellation (cancellation c)"

lemma js_get_append:
  "js_get (ps @ qs) k = (if k \<in> set (map fst ps) then js_get ps k else js_get qs k)"
  by (induction ps) (auto simp: rev_image_eqI)

lemma claim_props_keys [simp]: "map fst (claim_props c) = claim_state_keys"
  by (simp add: claim_props_def claim_state_keys_def)

lemma claim_request_lookup: "k \<in> set request_keys \<Longrightarrow> js_get (claim_props c) k = js_get (request_props c) k"
  by (simp add: claim_props_def js_get_append del: set_map)

lemma claim_lookups [lookups]:
  "js_get (claim_props c) ''phase'' = JStr (phase_name (phase c))"
  "js_get (claim_props c) ''observedGeneration'' = JNum (NInt (observedGeneration c))"
  "js_get (claim_props c) ''providerResourceRef'' = opt_js JStr (providerResourceRef c)"
  "js_get (claim_props c) ''outputs'' = JArr (map enc_output (outputs c))"
  "js_get (claim_props c) ''lease'' = opt_js enc_lease (lease c)"
  "js_get (claim_props c) ''failure'' = opt_js enc_failure (failure c)"
  "js_get (claim_props c) ''drift'' = opt_js enc_drift (drift c)"
  "js_get (claim_props c) ''deletion'' = opt_js enc_deletion (deletion c)"
  "js_get (claim_props c) ''cancellation'' = opt_js enc_cancellation (cancellation c)"
  by (simp_all add: claim_props_def js_get_append request_keys_def del: set_map)

lemma map_self_lookup: "distinct (map fst ps) \<Longrightarrow> map (\<lambda>k. (k, js_get ps k)) (map fst ps) = ps"
proof (induction ps)
  case (Cons kv ps)
  obtain k v where kv: "kv = (k, v)" by (cases kv)
  have "map (\<lambda>k'. (k', js_get (kv # ps) k')) (map fst ps) = map (\<lambda>k'. (k', js_get ps k')) (map fst ps)"
    using Cons.prems kv by (intro map_cong) auto
  with Cons kv show ?case by simp
qed simp

lemma claimRequestView_enc: "claimRequestView (claim_props c) = enc_request c"
proof -
  have "map (\<lambda>k. (k, js_get (claim_props c) k)) request_keys = map (\<lambda>k. (k, js_get (request_props c) k)) request_keys"
    by (intro map_cong refl) (simp add: claim_request_lookup)
  also have "\<dots> = request_props c"
    using map_self_lookup [of "request_props c"] by (simp add: request_keys_def)
  finally show ?thesis by (simp add: claimRequestView_def enc_request_def)
qed

lemma optional_enc_iff:
  "optional_of (opt_js enc_lease l) (\<lambda>x. parseLease x p) = Inr l' \<longleftrightarrow> pred_option valid_lease l \<and> l' = l"
  "optional_of (opt_js enc_failure f) (\<lambda>x. parseFailure x p) = Inr f' \<longleftrightarrow> pred_option valid_failure f \<and> f' = f"
  "optional_of (opt_js enc_drift d) (\<lambda>x. parseDrift x p) = Inr d' \<longleftrightarrow> pred_option valid_drift d \<and> d' = d"
  "optional_of (opt_js enc_deletion e) (\<lambda>x. parseDeletion x p) = Inr e' \<longleftrightarrow> pred_option valid_deletion e \<and> e' = e"
  "optional_of (opt_js enc_cancellation c) (\<lambda>x. parseCancellation x p) = Inr c' \<longleftrightarrow>
     pred_option valid_cancellation c \<and> c' = c"
  by (rule optional_of_enc, simp add: enc_lease_def enc_failure_def enc_drift_def enc_deletion_def
      enc_cancellation_def, simp add: parse_enc_lease parse_enc_failure parse_enc_drift
      parse_enc_deletion parse_enc_cancellation)+

lemma outputs_enc_iff:
  "js_array (JArr (map enc_output outs)) p parseOutput = Inr outs' \<longleftrightarrow>
   (\<forall>out \<in> set outs. valid_output out) \<and> outs' = outs"
  by (auto simp: js_array_def map_ix_encoded parse_enc_output)

lemma claim_extend_truncate:
  "resource_claim_request.extend (resource_claim_request.truncate c)
     (resource_claim_state.fields (phase c) (observedGeneration c) (providerResourceRef c) (outputs c)
        (lease c) (failure c) (drift c) (deletion c) (cancellation c)) = (c :: resource_claim_state)"
  by (cases c) (simp add: resource_claim_request.defs resource_claim_state.defs)

lemma parse_enc_claim: "parseClaimState (enc_claim c) p = Inr c' \<longleftrightarrow> valid_claim c \<and> c' = c"
  unfolding parseClaimState_def enc_claim_def
  by (auto simp: result_simps exactObject_complete claimRequestView_enc parse_enc_request lookups
      accepts optional_reference_enc outputs_enc_iff optional_enc_iff valid_claim_def
      claim_extend_truncate)

lemma optional_parse_valid:
  assumes "optional_of v f = Inr y" and "\<And>x. f v = Inr x \<Longrightarrow> P x"
  shows "pred_option P y"
  using assms by (auto simp: optional_of_Inr split: option.splits)

lemma js_array_valid:
  assumes "js_array v p f = Inr ys" and "\<And>w q y. f w q = Inr y \<Longrightarrow> P y"
  shows "\<forall>y \<in> set ys. P y"
  using assms by (cases v) (auto simp: js_array_def dest!: map_ix_all [where P = P])

lemma parse_claim_valid:
  assumes "parseClaimState v p = Inr c" shows "valid_claim c"
proof -
  from assms obtain claim vphase vobs vref vouts vlease vfail vdrift vdel vcan input where
    *: "parseResourceClaimRequest (claimRequestView input) = Inr claim"
    "nonNegativeInteger (js_get input ''observedGeneration'') (p @ ''.observedGeneration'') = Inr vobs"
    "optional_of (js_get input ''providerResourceRef'')
       (\<lambda>x. reference x (p @ ''.providerResourceRef'') [''provider'']) = Inr vref"
    "js_array (js_get input ''outputs'') (p @ ''.outputs'') parseOutput = Inr vouts"
    "optional_of (js_get input ''lease'') (\<lambda>x. parseLease x (p @ ''.lease'')) = Inr vlease"
    "optional_of (js_get input ''failure'') (\<lambda>x. parseFailure x (p @ ''.failure'')) = Inr vfail"
    "optional_of (js_get input ''drift'') (\<lambda>x. parseDrift x (p @ ''.drift'')) = Inr vdrift"
    "optional_of (js_get input ''deletion'') (\<lambda>x. parseDeletion x (p @ ''.deletion'')) = Inr vdel"
    "optional_of (js_get input ''cancellation'') (\<lambda>x. parseCancellation x (p @ ''.cancellation'')) = Inr vcan"
    and c: "c = resource_claim_request.extend claim
      (resource_claim_state.fields vphase vobs vref vouts vlease vfail vdrift vdel vcan)"
    unfolding parseClaimState_def by (auto simp: result_simps)
  have "valid_request claim" "0 \<le> vobs" "pred_option (is_reference [''provider'']) vref"
    "\<forall>out \<in> set vouts. valid_output out" "pred_option valid_lease vlease"
    "pred_option valid_failure vfail" "pred_option valid_drift vdrift"
    "pred_option valid_deletion vdel" "pred_option valid_cancellation vcan"
    using * js_array_valid [OF *(4), of valid_output]
    by (auto simp: accepts intro: parse_request_valid optional_reference_valid parse_output_valid elim!: optional_parse_valid
        intro: parse_lease_valid parse_failure_valid parse_drift_valid parse_deletion_valid
          parse_cancellation_valid)
  then show ?thesis
    by (simp add: valid_claim_def valid_request_def c resource_claim_request.defs resource_claim_state.defs)
qed

subsection \<open>Idempotency records\<close>

definition valid_record :: "idempotency_record \<Rightarrow> bool" where
  "valid_record r \<longleftrightarrow>
     is_identifier (rec_tenantId r) \<and> is_identifier (rec_claimId r) \<and> is_identifier (rec_key r) \<and>
     is_digest (rec_payloadDigest r) \<and> is_identifier (rec_capabilityId r) \<and> 1 \<le> rec_committedRevision r"

lemma parse_enc_record: "parseIdempotencyRecord (enc_record r) p = Inr r' \<longleftrightarrow> valid_record r \<and> r' = r"
  unfolding parseIdempotencyRecord_def enc_record_def
  by (cases r) (auto simp: result_simps accepts exactObject_complete record_keys_def valid_record_def)

lemma parse_record_valid: "parseIdempotencyRecord v p = Inr r \<Longrightarrow> valid_record r"
  unfolding parseIdempotencyRecord_def by (auto simp: result_simps accepts valid_record_def)

text \<open>An identifier has no slash, so the joined key determines its parts.\<close>

lemma identifier_iff:
  "is_identifier s \<longleftrightarrow>
   s \<noteq> [] \<and> length s \<le> 128 \<and> broker_alnum (hd s) \<and> broker_alnum (last s) \<and> list_all lower_alnum_punct s"
  unfolding is_identifier_def identifier_rx_def
  by (subst rx_test_bounded_id) (auto simp: lower_alnum_punct_def)

lemma identifier_no_slash: "is_identifier s \<Longrightarrow> CHR ''/'' \<notin> set s"
  by (auto simp: identifier_iff list_all_iff lower_alnum_punct_def broker_alnum_def in_range_def
      is_digit_def less_eq_char_def)

lemma append_sep_eq:
  "c \<notin> set u \<Longrightarrow> c \<notin> set u' \<Longrightarrow> u @ c # v = u' @ c # v' \<longleftrightarrow> u = u' \<and> v = v'"
  by (induction u arbitrary: u') (auto simp: Cons_eq_append_conv, (case_tac u'; auto)+)

lemma op_name_no_slash: "CHR ''/'' \<notin> set (claim_op_name k)"
  by (cases k) simp_all

lemma record_key_eq_iff:
  assumes "valid_record r" "valid_record r'"
  shows "record_key r = record_key r' \<longleftrightarrow>
    rec_tenantId r = rec_tenantId r' \<and> rec_operation r = rec_operation r' \<and>
    rec_claimId r = rec_claimId r' \<and> rec_key r = rec_key r'"
  using assms
  by (simp add: record_key_def valid_record_def identifier_no_slash append_sep_eq op_name_no_slash)

subsection \<open>The state check decides a declarative predicate\<close>

definition claim_consistent :: "resource_claim_state \<Rightarrow> bool" where
  "claim_consistent c \<longleftrightarrow>
     observedGeneration c \<le> generation c \<and>
     (phase c \<in> {Reconciling, Cancelling} \<longrightarrow> lease c \<noteq> None) \<and>
     (lease c \<noteq> None \<longrightarrow> phase c \<in> {Reconciling, Cancelling, Deleting}) \<and>
     (phase c = Available \<longrightarrow>
        observedGeneration c = generation c \<and> providerResourceRef c \<noteq> None \<and> outputs c \<noteq> []) \<and>
     (phase c = Deleted \<longrightarrow> outputs c = []) \<and>
     valid_outputs (outputs c)"

definition broker_ok :: "resource_broker_state \<Rightarrow> bool" where
  "broker_ok st \<longleftrightarrow>
     (\<forall>c \<in> set (claims st). valid_claim c \<and> claim_consistent c) \<and> distinct (map claimId (claims st)) \<and>
     (\<forall>r \<in> set (idempotencyRecords st). valid_record r \<and> rec_capabilityId r \<in> set (redeemedCapabilityIds st)) \<and>
     distinct (map record_key (idempotencyRecords st)) \<and>
     (\<forall>k \<in> set (redeemedCapabilityIds st). is_identifier k) \<and> distinct (redeemedCapabilityIds st)"

lemma check_claim_iff: "check_claim c = Inr u \<longleftrightarrow> claim_consistent c"
  by (auto simp: check_claim_def claim_consistent_def result_simps accepts)

lemma assert_claims_iff:
  "assert_claims i seen cs = Inr u \<longleftrightarrow>
   (\<forall>c \<in> set cs. valid_claim c \<and> claim_consistent c) \<and> distinct (map claimId cs) \<and>
   set seen \<inter> claimId ` set cs = {}"
  by (induction i seen cs rule: assert_claims.induct)
    (auto simp: result_simps parse_enc_claim check_claim_iff)

lemma assert_records_iff:
  "assert_records redeemed i seen rs = Inr u \<longleftrightarrow>
   (\<forall>r \<in> set rs. valid_record r \<and> rec_capabilityId r \<in> set redeemed) \<and>
   distinct (map record_key rs) \<and> set seen \<inter> record_key ` set rs = {}"
  by (induction redeemed i seen rs rule: assert_records.induct)
    (auto simp: result_simps parse_enc_record)

theorem assertResourceBrokerState_iff:
  "assertResourceBrokerState st = Inr u \<longleftrightarrow> broker_ok st"
  unfolding assertResourceBrokerState_def broker_ok_def
  by (auto simp: result_simps assert_claims_iff assert_records_iff accepts distinct_card)

theorem parse_enc_broker_state:
  "parseResourceBrokerState (enc_broker_state st) = Inr st' \<longleftrightarrow> broker_ok st \<and> 0 \<le> revision st \<and> st' = st"
proof -
  have cl: "js_array (JArr (map enc_claim cs)) p parseClaimState = Inr cs' \<longleftrightarrow>
      (\<forall>c \<in> set cs. valid_claim c) \<and> cs' = cs" for cs cs' p
    by (auto simp: js_array_def map_ix_encoded parse_enc_claim)
  have rc: "js_array (JArr (map enc_record rs)) p parseIdempotencyRecord = Inr rs' \<longleftrightarrow>
      (\<forall>r \<in> set rs. valid_record r) \<and> rs' = rs" for rs rs' p
    by (auto simp: js_array_def map_ix_encoded parse_enc_record)
  show ?thesis
    unfolding parseResourceBrokerState_def enc_broker_state_def
    by (cases st)
      (auto simp: result_simps accepts exactObject_complete broker_state_keys_def cl rc
        assertResourceBrokerState_iff broker_ok_def)
qed

theorem parse_broker_state_ok:
  "parseResourceBrokerState v = Inr st \<Longrightarrow> broker_ok st \<and> 0 \<le> revision st"
  unfolding parseResourceBrokerState_def
  by (auto simp: result_simps accepts assertResourceBrokerState_iff)

end
