(* ===== verification/BrokerOps.thy ===== *)
theory BrokerOps
  imports BrokerValid
begin

section \<open>Resource broker: the operations\<close>

text \<open>
  The exported transitions of \<open>src/core/resourceBroker.ts\<close> and the helpers they share, guard by
  guard in the source's order.  \<open>sha\<close> is the parameter for \<open>createHash("sha256")\<close> of
  \<open>node:crypto\<close> (text in, lower-case hexadecimal out).  \<open>structuredClone\<close> is the identity on
  values.  The argument object of an operation is its list of fields; the one that
  \<open>providerClaim\<close> reads is the record \<open>provider_args\<close>.
\<close>

record mutation_context =
  ctx_actorId :: string
  ctx_tenantId :: string
  ctx_operation :: claim_op
  ctx_resourceId :: string
  ctx_capabilityId :: string
  ctx_capabilityVerified :: bool
  ctx_idempotencyKey :: string
  ctx_occurredAt :: string

datatype event_type =
  ClaimAppliedEv | ProviderLeasedEv | ClaimAvailableEv | ClaimFailedEv | ClaimDriftedEv
  | CancellationRequestedEv | ClaimCancelledEv | DeletionRequestedEv | ClaimDeletedEv

record event_extra =
  extra_actorId :: "string option"
  extra_providerId :: "string option"
  extra_fenceToken :: "string option"

record broker_event =
  ev_eventId :: string
  ev_type :: event_type
  ev_revision :: int
  ev_claimId :: string
  ev_tenantId :: string
  ev_generation :: int
  ev_desiredStateDigest :: string
  ev_occurredAt :: string
  ev_extra :: event_extra

record 'r broker_transition =
  tr_state :: resource_broker_state
  tr_result :: 'r
  tr_events :: "broker_event list"
  tr_replayed :: bool

record provider_args =
  pa_claimId :: string
  pa_providerId :: string
  pa_generation :: int
  pa_fenceToken :: string
  pa_workloadIdentityVerified :: bool
  pa_occurredAt :: string

subsection \<open>Helpers\<close>

definition checkedState :: "resource_broker_state \<Rightarrow> int \<Rightarrow> broker_error + resource_broker_state" where
  "checkedState st expectedRevision =
     bind_r (assertResourceBrokerState st) (\<lambda>_.
     bind_r (throw_if (revision st \<noteq> expectedRevision)
               (Guard (RevisionConflict expectedRevision (revision st)))) (\<lambda>_.
       Inr st))"

definition requireClaim :: "resource_broker_state \<Rightarrow> string \<Rightarrow> broker_error + resource_claim_state" where
  "requireClaim st cid =
     (case List.find (\<lambda>candidate. claimId candidate = cid) (claims st) of
        None \<Rightarrow> Inl (Guard (ClaimMissing cid)) | Some claim \<Rightarrow> Inr claim)"

definition upsertClaim :: "resource_claim_state list \<Rightarrow> resource_claim_state \<Rightarrow> resource_claim_state list" where
  "upsertClaim cs claim =
     sort_by_locale claimId (filter (\<lambda>candidate. claimId candidate \<noteq> claimId claim) cs @ [claim])"

definition validateMutationContext ::
  "mutation_context \<Rightarrow> claim_op \<Rightarrow> ('a) resource_claim_request_scheme \<Rightarrow> broker_error + unit" where
  "validateMutationContext ctx op claim =
     bind_r (throw_if (ctx_operation ctx \<noteq> op) (Guard (ContextOperation (claim_op_name op)))) (\<lambda>_.
     bind_r (throw_if (\<not> ctx_capabilityVerified ctx) (Guard CapabilityUnverified)) (\<lambda>_.
     bind_r (identifier_of (JStr (ctx_actorId ctx)) ''context.actorId'') (\<lambda>_.
     bind_r (identifier_of (JStr (ctx_capabilityId ctx)) ''context.capabilityId'') (\<lambda>_.
     bind_r (identifier_of (JStr (ctx_idempotencyKey ctx)) ''context.idempotencyKey'') (\<lambda>_.
     bind_r (timestamp (JStr (ctx_occurredAt ctx)) ''context.occurredAt'') (\<lambda>_.
     throw_if (ctx_tenantId ctx \<noteq> tenantId claim \<or> ctx_resourceId ctx \<noteq> claimId claim)
       (Guard ContextCrosses)))))))"

definition mutationReplay ::
  "resource_broker_state \<Rightarrow> mutation_context \<Rightarrow> claim_op \<Rightarrow> string \<Rightarrow>
   broker_error + resource_claim_state option" where
  "mutationReplay st ctx op payloadDigest =
     (case List.find (\<lambda>r. rec_tenantId r = ctx_tenantId ctx \<and> rec_operation r = op \<and>
                          rec_claimId r = ctx_resourceId ctx \<and> rec_key r = ctx_idempotencyKey ctx)
             (idempotencyRecords st) of
        None \<Rightarrow> Inr None
      | Some existing \<Rightarrow>
          bind_r (throw_if (rec_payloadDigest existing \<noteq> payloadDigest \<or>
                            rec_capabilityId existing \<noteq> ctx_capabilityId ctx)
                    (Guard IdempotencyReused)) (\<lambda>_.
          bind_r (requireClaim st (rec_claimId existing)) (\<lambda>claim. Inr (Some claim))))"

definition commitMutation ::
  "resource_broker_state \<Rightarrow> mutation_context \<Rightarrow> string \<Rightarrow> resource_claim_state list \<Rightarrow>
   broker_error + resource_broker_state" where
  "commitMutation st ctx payloadDigest cs =
     bind_r (throw_if (ctx_capabilityId ctx \<in> set (redeemedCapabilityIds st))
               (Guard (CapabilityRedeemed (ctx_capabilityId ctx)))) (\<lambda>_.
     let next = st\<lparr>revision := revision st + 1,
                   claims := cs,
                   idempotencyRecords := idempotencyRecords st @
                     [\<lparr>rec_tenantId = ctx_tenantId ctx, rec_operation = ctx_operation ctx,
                       rec_claimId = ctx_resourceId ctx, rec_key = ctx_idempotencyKey ctx,
                       rec_payloadDigest = payloadDigest, rec_capabilityId = ctx_capabilityId ctx,
                       rec_committedRevision = revision st + 1\<rparr>],
                   redeemedCapabilityIds := redeemedCapabilityIds st @ [ctx_capabilityId ctx]\<rparr>
     in bind_r (assertResourceBrokerState next) (\<lambda>_. Inr next))"

definition commitState ::
  "resource_broker_state \<Rightarrow> resource_claim_state list \<Rightarrow> broker_error + resource_broker_state" where
  "commitState st cs =
     (let next = st\<lparr>revision := revision st + 1, claims := cs\<rparr>
      in bind_r (assertResourceBrokerState next) (\<lambda>_. Inr next))"

definition providerIdentity :: "string \<Rightarrow> bool \<Rightarrow> broker_error + unit" where
  "providerIdentity provider verified =
     bind_r (identifier_of (JStr provider) ''providerId'') (\<lambda>_.
     throw_if (\<not> verified) (Guard WorkloadUnverified))"

definition providerClaim ::
  "resource_broker_state \<Rightarrow> provider_args \<Rightarrow> phase \<Rightarrow> broker_error + resource_claim_state" where
  "providerClaim st args ph =
     bind_r (requireClaim st (pa_claimId args)) (\<lambda>claim.
     bind_r (providerIdentity (pa_providerId args) (pa_workloadIdentityVerified args)) (\<lambda>_.
     bind_r (timestamp (JStr (pa_occurredAt args)) ''occurredAt'') (\<lambda>_.
     case lease claim of
       None \<Rightarrow> Inl (Lease (claimId claim) StaleFence)
     | Some l \<Rightarrow>
         bind_r (throw_if (phase claim \<noteq> ph \<or> lease_providerId l \<noteq> pa_providerId args \<or>
                           lease_generation l \<noteq> pa_generation args \<or>
                           generation claim \<noteq> pa_generation args \<or>
                           lease_fenceToken l \<noteq> pa_fenceToken args)
                   (Lease (claimId claim) StaleFence)) (\<lambda>_.
         bind_r (throw_if (time_ms (lease_expiresAt l) < time_ms (pa_occurredAt args))
                   (Lease (claimId claim) LeaseExpired)) (\<lambda>_.
           Inr claim)))))"

definition no_extra :: event_extra where
  "no_extra = \<lparr>extra_actorId = None, extra_providerId = None, extra_fenceToken = None\<rparr>"

definition actor_extra :: "string \<Rightarrow> event_extra" where
  "actor_extra actor = no_extra\<lparr>extra_actorId := Some actor\<rparr>"

definition provider_extra :: "string \<Rightarrow> string \<Rightarrow> event_extra" where
  "provider_extra provider fence =
     no_extra\<lparr>extra_providerId := Some provider, extra_fenceToken := Some fence\<rparr>"

primrec event_type_name :: "event_type \<Rightarrow> string" where
  "event_type_name ClaimAppliedEv = ''claim-applied''"
| "event_type_name ProviderLeasedEv = ''provider-leased''"
| "event_type_name ClaimAvailableEv = ''claim-available''"
| "event_type_name ClaimFailedEv = ''claim-failed''"
| "event_type_name ClaimDriftedEv = ''claim-drifted''"
| "event_type_name CancellationRequestedEv = ''cancellation-requested''"
| "event_type_name ClaimCancelledEv = ''claim-cancelled''"
| "event_type_name DeletionRequestedEv = ''deletion-requested''"
| "event_type_name ClaimDeletedEv = ''claim-deleted''"

definition broker_event_of ::
  "(string \<Rightarrow> string) \<Rightarrow> resource_broker_state \<Rightarrow> resource_claim_state \<Rightarrow> event_type \<Rightarrow> string \<Rightarrow>
   event_extra \<Rightarrow> broker_error + broker_event" where
  "broker_event_of sha st claim ty occurred extra =
     bind_r (timestamp (JStr occurred) ''occurredAt'') (\<lambda>at.
     let base = JObj
       [(''apiVersion'', JStr RESOURCE_BROKER_STATE_API_VERSION), (''type'', JStr (event_type_name ty)),
        (''revision'', JNum (NInt (revision st))), (''claimId'', JStr (claimId claim)),
        (''tenantId'', JStr (tenantId claim)), (''generation'', JNum (NInt (generation claim))),
        (''desiredStateDigest'', JStr (desiredStateDigest claim)), (''occurredAt'', JStr at),
        (''actorId'', opt_js JStr (extra_actorId extra)),
        (''providerId'', opt_js JStr (extra_providerId extra)),
        (''fenceToken'', opt_js JStr (extra_fenceToken extra))]
     in Inr \<lparr>ev_eventId = sha (canonicalJson base), ev_type = ty, ev_revision = revision st,
             ev_claimId = claimId claim, ev_tenantId = tenantId claim, ev_generation = generation claim,
             ev_desiredStateDigest = desiredStateDigest claim, ev_occurredAt = at, ev_extra = extra\<rparr>)"

definition broker_transition_of ::
  "resource_broker_state \<Rightarrow> 'r \<Rightarrow> broker_event \<Rightarrow> 'r broker_transition" where
  "broker_transition_of st result ev =
     \<lparr>tr_state = st, tr_result = result, tr_events = [ev], tr_replayed = False\<rparr>"

definition replayTransition ::
  "resource_broker_state \<Rightarrow> resource_claim_state \<Rightarrow> resource_claim_state broker_transition" where
  "replayTransition st claim = \<lparr>tr_state = st, tr_result = claim, tr_events = [], tr_replayed = True\<rparr>"

subsection \<open>Client mutations\<close>

definition apply_guard :: "resource_claim_state option \<Rightarrow> resource_claim_request \<Rightarrow> broker_error + unit" where
  "apply_guard existing claim =
     bind_r (throw_if (existing = None \<and> generation claim \<noteq> 1) (Guard MustBeginAtOne)) (\<lambda>_.
     case existing of
       None \<Rightarrow> Inr ()
     | Some ex \<Rightarrow>
         bind_r (throw_if (tenantId ex \<noteq> tenantId claim \<or> resourceKind ex \<noteq> resourceKind claim \<or>
                           resourceApiVersion ex \<noteq> resourceApiVersion claim) (Guard TypeChanged)) (\<lambda>_.
         bind_r (throw_if (generation claim \<noteq> generation ex + 1) (Guard MustAdvanceOne)) (\<lambda>_.
         throw_if (phase ex \<in> {Reconciling, Cancelling, Deleting}) (Guard WorkActive))))"

definition applied_claim ::
  "resource_claim_state option \<Rightarrow> resource_claim_request \<Rightarrow> resource_claim_state" where
  "applied_claim existing claim =
     resource_claim_request.extend claim
       (resource_claim_state.fields Pending
          (case existing of None \<Rightarrow> 0 | Some ex \<Rightarrow> observedGeneration ex)
          (case existing of None \<Rightarrow> None | Some ex \<Rightarrow> providerResourceRef ex)
          [] None None None None None)"

definition applyResourceClaim ::
  "(string \<Rightarrow> string) \<Rightarrow> resource_broker_state \<Rightarrow> int \<Rightarrow> mutation_context \<Rightarrow> jsval \<Rightarrow>
   broker_error + resource_claim_state broker_transition" where
  "applyResourceClaim sha st0 expectedRevision ctx rawClaim =
     bind_r (checkedState st0 expectedRevision) (\<lambda>st.
     bind_r (parseResourceClaimRequest rawClaim) (\<lambda>claim.
     let payloadDigest = sha (canonicalJson (enc_request claim)) in
     bind_r (mutationReplay st ctx ClaimApply payloadDigest) (\<lambda>replay.
     case replay of
       Some c \<Rightarrow> Inr (replayTransition st c)
     | None \<Rightarrow>
         bind_r (validateMutationContext ctx ClaimApply claim) (\<lambda>_.
         let existing = List.find (\<lambda>candidate. claimId candidate = claimId claim) (claims st) in
         bind_r (apply_guard existing claim) (\<lambda>_.
         let nextClaim = applied_claim existing claim in
         bind_r (commitMutation st ctx payloadDigest (upsertClaim (claims st) nextClaim)) (\<lambda>next.
         bind_r (broker_event_of sha next nextClaim ClaimAppliedEv (ctx_occurredAt ctx)
                   (actor_extra (ctx_actorId ctx))) (\<lambda>ev.
           Inr (broker_transition_of next nextClaim ev))))))))"

definition cancelResourceClaim ::
  "(string \<Rightarrow> string) \<Rightarrow> resource_broker_state \<Rightarrow> int \<Rightarrow> mutation_context \<Rightarrow>
   broker_error + resource_claim_state broker_transition" where
  "cancelResourceClaim sha st0 expectedRevision ctx =
     bind_r (checkedState st0 expectedRevision) (\<lambda>st.
     bind_r (requireClaim st (ctx_resourceId ctx)) (\<lambda>claim.
     let payloadDigest = sha (canonicalJson
           (JObj [(''claimId'', JStr (claimId claim)), (''generation'', JNum (NInt (generation claim)))])) in
     bind_r (mutationReplay st ctx ClaimCancel payloadDigest) (\<lambda>replay.
     case replay of
       Some c \<Rightarrow> Inr (replayTransition st c)
     | None \<Rightarrow>
         bind_r (validateMutationContext ctx ClaimCancel claim) (\<lambda>_.
         bind_r (throw_if (phase claim \<notin> {Pending, Reconciling, Failed, Drifted})
                   (Guard (PhaseRefused (phase claim)))) (\<lambda>_.
         let cancelling = (phase claim = Reconciling);
             cancelled = claim\<lparr>phase := (if cancelling then Cancelling else Cancelled),
                               outputs := [],
                               lease := (if cancelling then lease claim else None),
                               cancellation := Some
                                 \<lparr>cancellation_requestedAt = ctx_occurredAt ctx,
                                  cancellation_requestedBy = ctx_actorId ctx,
                                  cancellation_cleanupEvidenceRef = None\<rparr>\<rparr> in
         bind_r (commitMutation st ctx payloadDigest (upsertClaim (claims st) cancelled)) (\<lambda>next.
         bind_r (broker_event_of sha next cancelled
                   (if cancelling then CancellationRequestedEv else ClaimCancelledEv)
                   (ctx_occurredAt ctx) (actor_extra (ctx_actorId ctx))) (\<lambda>ev.
           Inr (broker_transition_of next cancelled ev))))))))"

definition requestResourceClaimDeletion ::
  "(string \<Rightarrow> string) \<Rightarrow> resource_broker_state \<Rightarrow> int \<Rightarrow> mutation_context \<Rightarrow> string \<Rightarrow> string \<Rightarrow>
   broker_error + resource_claim_state broker_transition" where
  "requestResourceClaimDeletion sha st0 expectedRevision ctx rawApproval rawFinalization =
     bind_r (checkedState st0 expectedRevision) (\<lambda>st.
     bind_r (requireClaim st (ctx_resourceId ctx)) (\<lambda>claim.
     bind_r (reference (JStr rawApproval) ''approvalEvidenceRef'' [''evidence'']) (\<lambda>approval.
     bind_r (reference (JStr rawFinalization) ''finalizationEvidenceRef'' [''evidence'', ''snapshot'']) (\<lambda>finalization.
     let payloadDigest = sha (canonicalJson
           (JObj [(''claimId'', JStr (claimId claim)), (''generation'', JNum (NInt (generation claim))),
                  (''approvalEvidenceRef'', JStr approval),
                  (''finalizationEvidenceRef'', JStr finalization)])) in
     bind_r (mutationReplay st ctx ClaimDelete payloadDigest) (\<lambda>replay.
     case replay of
       Some c \<Rightarrow> Inr (replayTransition st c)
     | None \<Rightarrow>
         bind_r (validateMutationContext ctx ClaimDelete claim) (\<lambda>_.
         bind_r (throw_if (phase claim \<noteq> Available \<and> phase claim \<noteq> Cancelled)
                   (Guard (PhaseRefused (phase claim)))) (\<lambda>_.
         let deleting = claim\<lparr>phase := Deleting,
                              outputs := [],
                              deletion := Some
                                \<lparr>deletion_requestedAt = ctx_occurredAt ctx,
                                 deletion_requestedBy = ctx_actorId ctx,
                                 deletion_approvalEvidenceRef = approval,
                                 deletion_finalizationEvidenceRef = finalization\<rparr>\<rparr> in
         bind_r (commitMutation st ctx payloadDigest (upsertClaim (claims st) deleting)) (\<lambda>next.
         bind_r (broker_event_of sha next deleting DeletionRequestedEv (ctx_occurredAt ctx)
                   (actor_extra (ctx_actorId ctx))) (\<lambda>ev.
           Inr (broker_transition_of next deleting ev))))))))))"

subsection \<open>Provider transitions\<close>

definition next_attempt :: "resource_claim_state \<Rightarrow> int" where
  "next_attempt claim =
     (case lease claim of
        Some l \<Rightarrow> lease_attempt l
      | None \<Rightarrow> (case failure claim of Some f \<Rightarrow> failure_attempt f | None \<Rightarrow> 0)) + 1"

definition fence_text :: "resource_claim_state \<Rightarrow> string \<Rightarrow> int \<Rightarrow> string \<Rightarrow> string" where
  "fence_text claim provider nextRevision occurred = canonicalJson
     (JObj [(''claimId'', JStr (claimId claim)), (''generation'', JNum (NInt (generation claim))),
            (''providerId'', JStr provider), (''attempt'', JNum (NInt (next_attempt claim))),
            (''revision'', JNum (NInt nextRevision)), (''occurredAt'', JStr occurred)])"

definition fence_token :: "(string \<Rightarrow> string) \<Rightarrow> resource_claim_state \<Rightarrow> string \<Rightarrow> int \<Rightarrow> string \<Rightarrow> string" where
  "fence_token sha claim provider nextRevision occurred =
     sha (fence_text claim provider nextRevision occurred)"

definition lease_eligible :: "resource_claim_state \<Rightarrow> bool" where
  "lease_eligible claim \<longleftrightarrow>
     phase claim = Pending \<or> phase claim = Drifted \<or> phase claim = Deleting \<or>
     (phase claim = Failed \<and> (case failure claim of Some f \<Rightarrow> failure_retryable f | None \<Rightarrow> False)) \<or>
     (phase claim = Reconciling \<and> lease claim \<noteq> None)"

definition lease_active :: "resource_claim_state \<Rightarrow> int \<Rightarrow> bool" where
  "lease_active claim now =
     (case lease claim of None \<Rightarrow> False | Some l \<Rightarrow> time_ms (lease_expiresAt l) > now)"

definition valid_duration :: "jsnum \<Rightarrow> bool" where
  "valid_duration d = (case d of NInt i \<Rightarrow> 1 \<le> i \<and> i \<le> 900 | _ \<Rightarrow> False)"

definition seconds_of :: "jsnum \<Rightarrow> int" where
  "seconds_of d = (case d of NInt i \<Rightarrow> i | _ \<Rightarrow> 0)"

definition new_lease ::
  "(string \<Rightarrow> string) \<Rightarrow> resource_broker_state \<Rightarrow> resource_claim_state \<Rightarrow> string \<Rightarrow> string \<Rightarrow> int \<Rightarrow> provider_lease" where
  "new_lease sha st claim provider occurred seconds =
     \<lparr>lease_providerId = provider, lease_generation = generation claim,
      lease_fenceToken = fence_token sha claim provider (revision st + 1) occurred,
      lease_attempt = next_attempt claim, lease_acquiredAt = occurred,
      lease_expiresAt = toISOString (time_ms occurred + seconds * 1000)\<rparr>"

definition leaseResourceClaim ::
  "(string \<Rightarrow> string) \<Rightarrow> resource_broker_state \<Rightarrow> int \<Rightarrow> string \<Rightarrow> string \<Rightarrow> string list \<Rightarrow> bool \<Rightarrow>
   string \<Rightarrow> jsnum \<Rightarrow> broker_error + provider_lease broker_transition" where
  "leaseResourceClaim sha st0 expectedRevision cid provider capabilities verified occurred duration =
     bind_r (checkedState st0 expectedRevision) (\<lambda>st.
     bind_r (requireClaim st cid) (\<lambda>claim.
     bind_r (identifier_of (JStr provider) ''providerId'') (\<lambda>_.
     bind_r (throw_if (\<not> verified) (Guard WorkloadUnverified)) (\<lambda>_.
     bind_r (timestamp (JStr occurred) ''occurredAt'') (\<lambda>_.
     bind_r (throw_if (\<not> valid_duration duration) (Lease (claimId claim) LeaseDuration)) (\<lambda>_.
     let missing = filter (\<lambda>capability. capability \<notin> set capabilities) (requiredProviderCapabilities claim) in
     bind_r (throw_if (missing \<noteq> []) (Lease provider (LacksCapability (sort_strings missing)))) (\<lambda>_.
     bind_r (throw_if (lease_active claim (time_ms occurred)) (Lease (claimId claim) ActiveLease)) (\<lambda>_.
     bind_r (throw_if (\<not> lease_eligible claim) (Guard (PhaseRefused (phase claim)))) (\<lambda>_.
     bind_r (throw_if (next_attempt claim > maxReconcileAttempts claim)
               (Lease (claimId claim) AttemptsExhausted)) (\<lambda>_.
     let vlease = new_lease sha st claim provider occurred (seconds_of duration);
         leased = claim\<lparr>phase := (if phase claim = Deleting then Deleting else Reconciling),
                        lease := Some vlease, failure := None\<rparr> in
     bind_r (commitState st (upsertClaim (claims st) leased)) (\<lambda>next.
     bind_r (broker_event_of sha next leased ProviderLeasedEv occurred
               (provider_extra provider (lease_fenceToken vlease))) (\<lambda>ev.
       Inr (broker_transition_of next vlease ev)))))))))))))"

definition completeResourceClaim ::
  "(string \<Rightarrow> string) \<Rightarrow> resource_broker_state \<Rightarrow> int \<Rightarrow> provider_args \<Rightarrow> string \<Rightarrow> string \<Rightarrow>
   resource_broker_output list \<Rightarrow> broker_error + resource_claim_state broker_transition" where
  "completeResourceClaim sha st0 expectedRevision args observedDigest resourceRef outs =
     bind_r (checkedState st0 expectedRevision) (\<lambda>st.
     bind_r (providerClaim st args Reconciling) (\<lambda>claim.
     bind_r (digest (JStr observedDigest) ''observedStateDigest'') (\<lambda>observed.
     bind_r (throw_if (observed \<noteq> desiredStateDigest claim) (Lease (claimId claim) WrongObservedState)) (\<lambda>_.
     bind_r (reference (JStr resourceRef) ''providerResourceRef'' [''provider'']) (\<lambda>ref.
     bind_r (validateOutputs outs) (\<lambda>_.
     bind_r (throw_if (outs = []) (Lease (claimId claim) RequiresOutputs)) (\<lambda>_.
     let available = claim\<lparr>phase := Available, observedGeneration := generation claim,
                           providerResourceRef := Some ref, outputs := outs,
                           lease := None, failure := None, drift := None\<rparr> in
     bind_r (commitState st (upsertClaim (claims st) available)) (\<lambda>next.
     bind_r (broker_event_of sha next available ClaimAvailableEv (pa_occurredAt args)
               (provider_extra (pa_providerId args) (pa_fenceToken args))) (\<lambda>ev.
       Inr (broker_transition_of next available ev))))))))))"

definition failResourceClaim ::
  "(string \<Rightarrow> string) \<Rightarrow> resource_broker_state \<Rightarrow> int \<Rightarrow> provider_args \<Rightarrow> string \<Rightarrow> string \<Rightarrow> bool \<Rightarrow>
   broker_error + resource_claim_state broker_transition" where
  "failResourceClaim sha st0 expectedRevision args code message retryable =
     bind_r (checkedState st0 expectedRevision) (\<lambda>st.
     bind_r (providerClaim st args Reconciling) (\<lambda>claim.
     bind_r (reasonCode (JStr code) ''code'') (\<lambda>vcode.
     bind_r (safeMessage (JStr message) ''message'') (\<lambda>vmessage.
     bind_r (boolean (JBool retryable) ''retryable'') (\<lambda>vretryable.
     bind_r (case lease claim of None \<Rightarrow> Inl (ReadOfUndefined ''claim.lease'') | Some l \<Rightarrow> Inr (lease_attempt l)) (\<lambda>attempt.
     bind_r (timestamp (JStr (pa_occurredAt args)) ''occurredAt'') (\<lambda>at.
     let failed = claim\<lparr>phase := Failed, lease := None,
                        failure := Some \<lparr>failure_code = vcode, failure_message = vmessage,
                          failure_retryable = vretryable, failure_attempt = attempt,
                          failure_occurredAt = at\<rparr>\<rparr> in
     bind_r (commitState st (upsertClaim (claims st) failed)) (\<lambda>next.
     bind_r (broker_event_of sha next failed ClaimFailedEv (pa_occurredAt args)
               (provider_extra (pa_providerId args) (pa_fenceToken args))) (\<lambda>ev.
       Inr (broker_transition_of next failed ev))))))))))"

definition reportResourceClaimDrift ::
  "(string \<Rightarrow> string) \<Rightarrow> resource_broker_state \<Rightarrow> int \<Rightarrow> string \<Rightarrow> string \<Rightarrow> bool \<Rightarrow> string \<Rightarrow> string \<Rightarrow>
   broker_error + resource_claim_state broker_transition" where
  "reportResourceClaimDrift sha st0 expectedRevision cid provider verified observedDigest occurred =
     bind_r (checkedState st0 expectedRevision) (\<lambda>st.
     bind_r (requireClaim st cid) (\<lambda>claim.
     bind_r (providerIdentity provider verified) (\<lambda>_.
     bind_r (throw_if (phase claim \<noteq> Available) (Guard (PhaseRefused (phase claim)))) (\<lambda>_.
     bind_r (digest (JStr observedDigest) ''observedStateDigest'') (\<lambda>observed.
     bind_r (throw_if (observed = desiredStateDigest claim) (Lease (claimId claim) NoDrift)) (\<lambda>_.
     bind_r (timestamp (JStr occurred) ''occurredAt'') (\<lambda>at.
     let drifted = claim\<lparr>phase := Drifted, outputs := [],
                         drift := Some \<lparr>drift_observedStateDigest = observed, drift_detectedAt = at\<rparr>\<rparr> in
     bind_r (commitState st (upsertClaim (claims st) drifted)) (\<lambda>next.
     bind_r (broker_event_of sha next drifted ClaimDriftedEv occurred
               (no_extra\<lparr>extra_providerId := Some provider\<rparr>)) (\<lambda>ev.
       Inr (broker_transition_of next drifted ev))))))))))"

definition acknowledgeResourceClaimCancellation ::
  "(string \<Rightarrow> string) \<Rightarrow> resource_broker_state \<Rightarrow> int \<Rightarrow> provider_args \<Rightarrow> string \<Rightarrow>
   broker_error + resource_claim_state broker_transition" where
  "acknowledgeResourceClaimCancellation sha st0 expectedRevision args cleanupRef =
     bind_r (checkedState st0 expectedRevision) (\<lambda>st.
     bind_r (providerClaim st args Cancelling) (\<lambda>claim.
     bind_r (reference (JStr cleanupRef) ''cleanupEvidenceRef'' [''evidence'']) (\<lambda>_.
     bind_r (case cancellation claim of None \<Rightarrow> Inl (ReadOfUndefined ''claim.cancellation'') | Some x \<Rightarrow> Inr x) (\<lambda>can.
     let cancelled = claim\<lparr>phase := Cancelled, lease := None, outputs := [],
                           cancellation := Some
                             \<lparr>cancellation_requestedAt = cancellation_requestedAt can,
                              cancellation_requestedBy = cancellation_requestedBy can,
                              cancellation_cleanupEvidenceRef = Some cleanupRef\<rparr>\<rparr> in
     bind_r (commitState st (upsertClaim (claims st) cancelled)) (\<lambda>next.
     bind_r (broker_event_of sha next cancelled ClaimCancelledEv (pa_occurredAt args)
               (provider_extra (pa_providerId args) (pa_fenceToken args))) (\<lambda>ev.
       Inr (broker_transition_of next cancelled ev)))))))"

definition completeResourceClaimDeletion ::
  "(string \<Rightarrow> string) \<Rightarrow> resource_broker_state \<Rightarrow> int \<Rightarrow> provider_args \<Rightarrow> string \<Rightarrow>
   broker_error + resource_claim_state broker_transition" where
  "completeResourceClaimDeletion sha st0 expectedRevision args finalizationRef =
     bind_r (checkedState st0 expectedRevision) (\<lambda>st.
     bind_r (providerClaim st args Deleting) (\<lambda>claim.
     bind_r (reference (JStr finalizationRef) ''finalizationEvidenceRef'' [''evidence'', ''snapshot'']) (\<lambda>finalization.
     bind_r (throw_if (Some finalization \<noteq> map_option deletion_finalizationEvidenceRef (deletion claim))
               (Guard DeletionEvidenceMismatch)) (\<lambda>_.
     let deleted = claim\<lparr>phase := Deleted, observedGeneration := generation claim,
                         providerResourceRef := None, outputs := [], lease := None\<rparr> in
     bind_r (commitState st (upsertClaim (claims st) deleted)) (\<lambda>next.
     bind_r (broker_event_of sha next deleted ClaimDeletedEv (pa_occurredAt args)
               (provider_extra (pa_providerId args) (pa_fenceToken args))) (\<lambda>ev.
       Inr (broker_transition_of next deleted ev)))))))"

end
