(* ===== verification/Versioned.thy ===== *)
theory Versioned
  imports Prelude
begin

section \<open>Versioned stores: the contract of optimistic concurrency\<close>

text \<open>
  The resource broker and the PaaS control plane keep their whole state under a revision number.
  A request names the revision it was computed from; it is refused, answered from the log
  without a change, or committed, which needs the current revision and advances it by one.
  \<open>run c e s\<close> is \<open>None\<close> for a refusal and otherwise the state after request \<open>c\<close> at expected
  revision \<open>e\<close> with a flag that says whether it was committed.  \<open>run_log\<close> serves a list of
  requests in order, keeping the state on a refusal, and counts the commits.
\<close>

fun run_log ::
  "('c \<Rightarrow> int \<Rightarrow> 's \<Rightarrow> ('s \<times> bool) option) \<Rightarrow> ('c \<times> int) list \<Rightarrow> 's \<Rightarrow> 's \<times> nat" where
  "run_log run [] s = (s, 0)"
| "run_log run ((c, e) # rs) s =
     (case run c e s of
        None \<Rightarrow> run_log run rs s
      | Some (s', committed) \<Rightarrow>
          (let (t, n) = run_log run rs s' in (t, if committed then Suc n else n)))"

locale versioned_store =
  fixes revision_of :: "'s \<Rightarrow> int"
    and run :: "'c \<Rightarrow> int \<Rightarrow> 's \<Rightarrow> ('s \<times> bool) option"
  assumes commit_current: "run c e s = Some (s', True) \<Longrightarrow> revision_of s = e"
    and commit_advances: "run c e s = Some (s', True) \<Longrightarrow> revision_of s' = revision_of s + 1"
    and replay_unchanged: "run c e s = Some (s', False) \<Longrightarrow> s' = s"
begin

lemma no_lost_update: "run c e s = Some (s', True) \<Longrightarrow> run d e s' \<noteq> Some (t, True)"
proof
  assume a: "run c e s = Some (s', True)" and b: "run d e s' = Some (t, True)"
  from commit_current [OF a] commit_advances [OF a] have "revision_of s' = e + 1" by simp
  with commit_current [OF b] show False by simp
qed

lemma run_log_revision: "run_log run rs s = (t, n) \<Longrightarrow> revision_of t = revision_of s + int n"
proof (induction rs arbitrary: s t n)
  case Nil
  then show ?case by simp
next
  case (Cons r rs)
  obtain c e where r: "r = (c, e)" by (cases r)
  show ?case
  proof (cases "run c e s")
    case None
    with Cons r show ?thesis by simp
  next
    case (Some x)
    obtain s' b where x: "x = (s', b)" by (cases x)
    obtain t' n' where rest: "run_log run rs s' = (t', n')" by fastforce
    with Cons Some r x have "revision_of t' = revision_of s' + int n'" by blast
    with Cons.prems Some r x rest show ?thesis
      using commit_advances [of c e s s'] replay_unchanged [of c e s s'] by (cases b) auto
  qed
qed

lemma stale_never_commits:
  "run_log run rs s = (t, n) \<Longrightarrow> \<forall>(c, e) \<in> set rs. e < revision_of s \<Longrightarrow> n = 0 \<and> t = s"
proof (induction rs arbitrary: t n)
  case Nil
  then show ?case by simp
next
  case (Cons r rs)
  obtain c e where r: "r = (c, e)" by (cases r)
  obtain t' n' where rest: "run_log run rs s = (t', n')" by fastforce
  from Cons.IH [OF rest] Cons.prems(2) have n': "n' = 0" "t' = s" by auto
  show ?case
  proof (cases "run c e s")
    case None
    with Cons.prems(1) r rest n' show ?thesis by simp
  next
    case (Some x)
    obtain s' b where x: "x = (s', b)" by (cases x)
    have "\<not> b" using Cons.prems(2) r x Some commit_current [of c e s s'] by auto
    with Cons.prems(1) r rest n' x Some replay_unchanged [of c e s s'] show ?thesis by simp
  qed
qed

lemma one_winner:
  "run_log run rs s = (t, n) \<Longrightarrow> \<forall>(c, e) \<in> set rs. e = e0 \<Longrightarrow> n \<le> 1"
proof (induction rs arbitrary: s t n)
  case Nil
  then show ?case by simp
next
  case (Cons r rs)
  obtain c where r: "r = (c, e0)" using Cons.prems(2) by (cases r) auto
  show ?case
  proof (cases "run c e0 s")
    case None
    with Cons r show ?thesis by simp
  next
    case (Some x)
    obtain s' b where x: "x = (s', b)" by (cases x)
    obtain t' n' where rest: "run_log run rs s' = (t', n')" by fastforce
    show ?thesis
    proof (cases b)
      case True
      with Some x have "revision_of s = e0" "revision_of s' = e0 + 1"
        using commit_current [of c e0 s s'] commit_advances [of c e0 s s'] by auto
      then have "\<forall>(c, e) \<in> set rs. e < revision_of s'" using Cons.prems(2) by auto
      from stale_never_commits [OF rest this] have "n' = 0" by simp
      with Cons.prems(1) Some r x rest True show ?thesis by simp
    next
      case False
      with Cons rest Some r x show ?thesis by auto
    qed
  qed
qed

end

end
