(* ===== verification/BrokerSteps.thy ===== *)
theory BrokerSteps
  imports BrokerLifecycle
begin

section \<open>Resource broker: operations as steps\<close>

text \<open>
  \<open>broker_move\<close> lifts the claim state machine to the broker: one claim moves, the revision
  advances, and a client mutation also records its idempotency key and redeems its capability.
  The \<open>_effect\<close> lemmas show, operation by operation, that a successful call is a replay without
  a change or exactly one \<open>broker_move\<close>; \<open>broker_step\<close> collects the operations.
\<close>

definition claim_of :: "resource_broker_state \<Rightarrow> string \<Rightarrow> resource_claim_state option" where
  "claim_of st cid = List.find (\<lambda>c. claimId c = cid) (claims st)"

inductive broker_move :: "resource_broker_state \<Rightarrow> resource_claim_state \<Rightarrow> resource_broker_state \<Rightarrow> bool" where
  client: "claim_move (claim_of st (claimId c)) c \<Longrightarrow> rec_claimId r = claimId c \<Longrightarrow>
     rec_tenantId r = tenantId c \<Longrightarrow> rec_capabilityId r \<notin> set (redeemedCapabilityIds st) \<Longrightarrow>
     rec_committedRevision r = revision st + 1 \<Longrightarrow>
     broker_move st c
       (st\<lparr>revision := revision st + 1, claims := upsertClaim (claims st) c,
           idempotencyRecords := idempotencyRecords st @ [r],
           redeemedCapabilityIds := redeemedCapabilityIds st @ [rec_capabilityId r]\<rparr>)"
| provider: "claim_move (claim_of st (claimId c)) c \<Longrightarrow> claim_of st (claimId c) \<noteq> None \<Longrightarrow>
     broker_move st c (st\<lparr>revision := revision st + 1, claims := upsertClaim (claims st) c\<rparr>)"

inductive_cases broker_moveE: "broker_move st c st'"

definition step_effect ::
  "resource_broker_state \<Rightarrow> int \<Rightarrow> bool \<Rightarrow> resource_broker_state \<Rightarrow> broker_event list \<Rightarrow> bool" where
  "step_effect st e replayed st' evs \<longleftrightarrow>
     broker_ok st \<and> revision st = e \<and> broker_ok st' \<and>
     (if replayed then st' = st \<and> evs = []
      else \<exists>c ev. broker_move st c st' \<and> evs = [ev] \<and> ev_revision ev = revision st' \<and>
             ev_claimId ev = claimId c \<and> ev_tenantId ev = tenantId c \<and> ev_generation ev = generation c)"

subsection \<open>Inversion of the helpers\<close>

lemma checkedState_accepts [accepts]:
  "checkedState st e = Inr st' \<longleftrightarrow> st' = st \<and> broker_ok st \<and> revision st = e"
  by (auto simp: checkedState_def result_simps assertResourceBrokerState_iff)

lemma requireClaim_accepts [accepts]: "requireClaim st cid = Inr c \<longleftrightarrow> claim_of st cid = Some c"
  by (auto simp: requireClaim_def claim_of_def split: option.splits)

lemma claim_of_id: "claim_of st cid = Some c \<Longrightarrow> c \<in> set (claims st) \<and> claimId c = cid"
  unfolding claim_of_def by (drule find_Some_mem) simp

lemma commitState_accepts [accepts]:
  "commitState st cs = Inr st' \<longleftrightarrow> st' = st\<lparr>revision := revision st + 1, claims := cs\<rparr> \<and> broker_ok st'"
  by (auto simp: commitState_def Let_def result_simps assertResourceBrokerState_iff)

definition mutation_record :: "mutation_context \<Rightarrow> string \<Rightarrow> int \<Rightarrow> idempotency_record" where
  "mutation_record ctx dg rev' =
     \<lparr>rec_tenantId = ctx_tenantId ctx, rec_operation = ctx_operation ctx, rec_claimId = ctx_resourceId ctx,
      rec_key = ctx_idempotencyKey ctx, rec_payloadDigest = dg, rec_capabilityId = ctx_capabilityId ctx,
      rec_committedRevision = rev'\<rparr>"

lemma mutation_record_simps [simp]:
  "rec_tenantId (mutation_record ctx dg n) = ctx_tenantId ctx"
  "rec_operation (mutation_record ctx dg n) = ctx_operation ctx"
  "rec_claimId (mutation_record ctx dg n) = ctx_resourceId ctx"
  "rec_key (mutation_record ctx dg n) = ctx_idempotencyKey ctx"
  "rec_payloadDigest (mutation_record ctx dg n) = dg"
  "rec_capabilityId (mutation_record ctx dg n) = ctx_capabilityId ctx"
  "rec_committedRevision (mutation_record ctx dg n) = n"
  by (simp_all add: mutation_record_def)

definition mutated ::
  "resource_broker_state \<Rightarrow> mutation_context \<Rightarrow> string \<Rightarrow> resource_claim_state list \<Rightarrow> resource_broker_state" where
  "mutated st ctx dg cs =
     st\<lparr>revision := revision st + 1, claims := cs,
        idempotencyRecords := idempotencyRecords st @ [mutation_record ctx dg (revision st + 1)],
        redeemedCapabilityIds := redeemedCapabilityIds st @ [ctx_capabilityId ctx]\<rparr>"

lemma commitMutation_accepts [accepts]:
  "commitMutation st ctx dg cs = Inr st' \<longleftrightarrow>
   ctx_capabilityId ctx \<notin> set (redeemedCapabilityIds st) \<and> st' = mutated st ctx dg cs \<and> broker_ok st'"
  by (auto simp: commitMutation_def Let_def result_simps assertResourceBrokerState_iff mutated_def
      mutation_record_def)

lemma providerIdentity_accepts [accepts]:
  "providerIdentity p b = Inr u \<longleftrightarrow> is_identifier p \<and> b"
  by (auto simp: providerIdentity_def result_simps accepts)

definition holds_lease :: "resource_claim_state \<Rightarrow> provider_args \<Rightarrow> bool" where
  "holds_lease c args \<longleftrightarrow>
     is_identifier (pa_providerId args) \<and> pa_workloadIdentityVerified args \<and>
     is_timestamp (pa_occurredAt args) \<and> generation c = pa_generation args \<and>
     (\<exists>l. lease c = Some l \<and> lease_providerId l = pa_providerId args \<and>
          lease_generation l = pa_generation args \<and> lease_fenceToken l = pa_fenceToken args \<and>
          time_ms (pa_occurredAt args) \<le> time_ms (lease_expiresAt l))"

lemma providerClaim_accepts [accepts]:
  "providerClaim st args ph = Inr c \<longleftrightarrow>
   claim_of st (pa_claimId args) = Some c \<and> phase c = ph \<and> holds_lease c args"
  by (auto simp: providerClaim_def holds_lease_def result_simps accepts split: option.splits)

definition context_ok :: "mutation_context \<Rightarrow> claim_op \<Rightarrow> ('a) resource_claim_request_scheme \<Rightarrow> bool" where
  "context_ok ctx op c \<longleftrightarrow>
     ctx_operation ctx = op \<and> ctx_capabilityVerified ctx \<and> is_identifier (ctx_actorId ctx) \<and>
     is_identifier (ctx_capabilityId ctx) \<and> is_identifier (ctx_idempotencyKey ctx) \<and>
     is_timestamp (ctx_occurredAt ctx) \<and> ctx_tenantId ctx = tenantId c \<and> ctx_resourceId ctx = claimId c"

lemma validateMutationContext_accepts [accepts]:
  "validateMutationContext ctx op c = Inr u \<longleftrightarrow> context_ok ctx op c"
  by (auto simp: validateMutationContext_def context_ok_def result_simps accepts)

lemma apply_guard_accepts [accepts]:
  "apply_guard ex r = Inr u \<longleftrightarrow>
   (case ex of
      None \<Rightarrow> generation r = 1
    | Some c \<Rightarrow> tenantId c = tenantId r \<and> resourceKind c = resourceKind r \<and>
        resourceApiVersion c = resourceApiVersion r \<and> generation r = generation c + 1 \<and>
        phase c \<notin> {Reconciling, Cancelling, Deleting})"
  by (auto simp: apply_guard_def result_simps split: option.splits)

lemma broker_event_fields:
  "broker_event_of sha st c ty occ extra = Inr ev \<Longrightarrow>
   is_timestamp occ \<and> ev_revision ev = revision st \<and> ev_claimId ev = claimId c \<and>
   ev_tenantId ev = tenantId c \<and> ev_generation ev = generation c \<and> ev_type ev = ty \<and> ev_occurredAt ev = occ"
  by (auto simp: broker_event_of_def Let_def result_simps accepts)

lemma mutationReplay_cases:
  "mutationReplay st ctx op dg = Inr res \<Longrightarrow>
   (res = None \<and> (\<forall>r \<in> set (idempotencyRecords st).
       \<not> (rec_tenantId r = ctx_tenantId ctx \<and> rec_operation r = op \<and>
          rec_claimId r = ctx_resourceId ctx \<and> rec_key r = ctx_idempotencyKey ctx))) \<or>
   (\<exists>r c. res = Some c \<and> r \<in> set (idempotencyRecords st) \<and> rec_tenantId r = ctx_tenantId ctx \<and>
       rec_operation r = op \<and> rec_claimId r = ctx_resourceId ctx \<and> rec_key r = ctx_idempotencyKey ctx \<and>
       rec_payloadDigest r = dg \<and> rec_capabilityId r = ctx_capabilityId ctx \<and>
       claim_of st (ctx_resourceId ctx) = Some c)"
  unfolding mutationReplay_def
  by (auto simp: result_simps accepts find_None_iff dest!: find_Some_mem split: option.splits)

subsection \<open>The two ways to commit\<close>

lemma replay_or_commit [result_simps]:
  "(case r of Some c \<Rightarrow> Inr (replayTransition st c) | None \<Rightarrow> m) = Inr t \<longleftrightarrow>
   (\<exists>c. r = Some c \<and> t = replayTransition st c) \<or> (r = None \<and> m = Inr t)"
  by (auto split: option.splits)

definition client_commit ::
  "(string \<Rightarrow> string) \<Rightarrow> resource_broker_state \<Rightarrow> mutation_context \<Rightarrow> string \<Rightarrow> resource_claim_state \<Rightarrow>
   event_type \<Rightarrow> resource_claim_state broker_transition \<Rightarrow> bool" where
  "client_commit sha st ctx dg c ty t \<longleftrightarrow>
     ctx_capabilityId ctx \<notin> set (redeemedCapabilityIds st) \<and>
     broker_ok (mutated st ctx dg (upsertClaim (claims st) c)) \<and>
     (\<exists>ev. broker_event_of sha (mutated st ctx dg (upsertClaim (claims st) c)) c ty (ctx_occurredAt ctx)
              (actor_extra (ctx_actorId ctx)) = Inr ev \<and>
           t = broker_transition_of (mutated st ctx dg (upsertClaim (claims st) c)) c ev)"

definition client_outcome ::
  "(string \<Rightarrow> string) \<Rightarrow> resource_broker_state \<Rightarrow> mutation_context \<Rightarrow> claim_op \<Rightarrow> string \<Rightarrow> bool \<Rightarrow>
   resource_claim_state \<Rightarrow> event_type \<Rightarrow> resource_claim_state broker_transition \<Rightarrow> bool" where
  "client_outcome sha st ctx op dg guard c ty t \<longleftrightarrow>
     (\<exists>old. mutationReplay st ctx op dg = Inr (Some old) \<and> t = replayTransition st old) \<or>
     (mutationReplay st ctx op dg = Inr None \<and> guard \<and> client_commit sha st ctx dg c ty t)"

definition advanced :: "resource_broker_state \<Rightarrow> resource_claim_state \<Rightarrow> resource_broker_state" where
  "advanced st c = st\<lparr>revision := revision st + 1, claims := upsertClaim (claims st) c\<rparr>"

definition provider_outcome ::
  "(string \<Rightarrow> string) \<Rightarrow> resource_broker_state \<Rightarrow> resource_claim_state \<Rightarrow> event_type \<Rightarrow> string \<Rightarrow>
   event_extra \<Rightarrow> 'r \<Rightarrow> 'r broker_transition \<Rightarrow> bool" where
  "provider_outcome sha st c ty occ extra res t \<longleftrightarrow>
     broker_ok (advanced st c) \<and>
     (\<exists>ev. broker_event_of sha (advanced st c) c ty occ extra = Inr ev \<and>
           t = broker_transition_of (advanced st c) res ev)"

lemma replay_effect:
  "broker_ok st \<Longrightarrow> step_effect st (revision st) (tr_replayed (replayTransition st c))
     (tr_state (replayTransition st c)) (tr_events (replayTransition st c))"
  by (simp add: step_effect_def replayTransition_def)

lemma client_effect:
  assumes "broker_ok st" "client_outcome sha st ctx op dg guard c ty t"
    "guard \<Longrightarrow> claim_move (claim_of st (claimId c)) c" "guard \<Longrightarrow> context_ok ctx op c"
  shows "step_effect st (revision st) (tr_replayed t) (tr_state t) (tr_events t)"
  using assms(2) unfolding client_outcome_def
proof
  assume "\<exists>old. mutationReplay st ctx op dg = Inr (Some old) \<and> t = replayTransition st old"
  with replay_effect [OF assms(1)] show ?thesis by auto
next
  let ?n = "mutated st ctx dg (upsertClaim (claims st) c)"
  assume a: "mutationReplay st ctx op dg = Inr None \<and> guard \<and> client_commit sha st ctx dg c ty t"
  then have "broker_move st c ?n"
    using broker_move.client [of st c "mutation_record ctx dg (revision st + 1)"] assms(3,4)
    by (simp add: mutated_def context_ok_def client_commit_def)
  with a assms show ?thesis
    by (auto simp: client_commit_def step_effect_def broker_transition_of_def dest!: broker_event_fields)
qed

lemma provider_effect:
  assumes "broker_ok st" "claim_of st (claimId c) = Some b" "claim_move (Some b) c"
    "provider_outcome sha st c ty occ extra res t"
  shows "step_effect st (revision st) (tr_replayed t) (tr_state t) (tr_events t)"
proof -
  have "broker_move st c (advanced st c)"
    using broker_move.provider [of st c] assms by (simp add: advanced_def)
  with assms show ?thesis
    by (auto simp: provider_outcome_def step_effect_def broker_transition_of_def dest!: broker_event_fields)
qed

subsection \<open>When an operation succeeds, and with what\<close>

lemma apply_accepts:
  "applyResourceClaim sha st e ctx v = Inr t \<longleftrightarrow>
   broker_ok st \<and> revision st = e \<and>
   (\<exists>r. parseResourceClaimRequest v = Inr r \<and>
      client_outcome sha st ctx ClaimApply (sha (canonicalJson (enc_request r)))
        (context_ok ctx ClaimApply r \<and> apply_guard (claim_of st (claimId r)) r = Inr ())
        (applied_claim (claim_of st (claimId r)) r) ClaimAppliedEv t)"
  unfolding applyResourceClaim_def claim_of_def [symmetric] client_outcome_def client_commit_def Let_def
  by (simp only: result_simps accepts ex_simps conj_assoc simp_thms sum.inject) blast

definition cancel_digest :: "(string \<Rightarrow> string) \<Rightarrow> resource_claim_state \<Rightarrow> string" where
  "cancel_digest sha c = sha (canonicalJson
     (JObj [(''claimId'', JStr (claimId c)), (''generation'', JNum (NInt (generation c)))]))"

definition cancelled_claim :: "mutation_context \<Rightarrow> resource_claim_state \<Rightarrow> resource_claim_state" where
  "cancelled_claim ctx c =
     c\<lparr>phase := (if phase c = Reconciling then Cancelling else Cancelled), outputs := [],
       lease := (if phase c = Reconciling then lease c else None),
       cancellation := Some \<lparr>cancellation_requestedAt = ctx_occurredAt ctx,
         cancellation_requestedBy = ctx_actorId ctx, cancellation_cleanupEvidenceRef = None\<rparr>\<rparr>"

lemma cancel_accepts:
  "cancelResourceClaim sha st e ctx = Inr t \<longleftrightarrow>
   broker_ok st \<and> revision st = e \<and>
   (\<exists>c. claim_of st (ctx_resourceId ctx) = Some c \<and>
      client_outcome sha st ctx ClaimCancel (cancel_digest sha c)
        (context_ok ctx ClaimCancel c \<and> phase c \<in> {Pending, Reconciling, Failed, Drifted})
        (cancelled_claim ctx c)
        (if phase c = Reconciling then CancellationRequestedEv else ClaimCancelledEv) t)"
  unfolding cancelResourceClaim_def client_outcome_def client_commit_def Let_def
    cancelled_claim_def [symmetric] cancel_digest_def [symmetric]
  by (simp only: result_simps accepts ex_simps conj_assoc simp_thms sum.inject not_not) blast

definition deletion_digest :: "(string \<Rightarrow> string) \<Rightarrow> resource_claim_state \<Rightarrow> string \<Rightarrow> string \<Rightarrow> string" where
  "deletion_digest sha c approval finalization = sha (canonicalJson
     (JObj [(''claimId'', JStr (claimId c)), (''generation'', JNum (NInt (generation c))),
            (''approvalEvidenceRef'', JStr approval), (''finalizationEvidenceRef'', JStr finalization)]))"

definition deleting_claim ::
  "mutation_context \<Rightarrow> string \<Rightarrow> string \<Rightarrow> resource_claim_state \<Rightarrow> resource_claim_state" where
  "deleting_claim ctx approval finalization c =
     c\<lparr>phase := Deleting, outputs := [],
       deletion := Some \<lparr>deletion_requestedAt = ctx_occurredAt ctx, deletion_requestedBy = ctx_actorId ctx,
         deletion_approvalEvidenceRef = approval, deletion_finalizationEvidenceRef = finalization\<rparr>\<rparr>"

lemma deletion_accepts:
  "requestResourceClaimDeletion sha st e ctx approval finalization = Inr t \<longleftrightarrow>
   broker_ok st \<and> revision st = e \<and> is_reference [''evidence''] approval \<and>
   is_reference [''evidence'', ''snapshot''] finalization \<and>
   (\<exists>c. claim_of st (ctx_resourceId ctx) = Some c \<and>
      client_outcome sha st ctx ClaimDelete (deletion_digest sha c approval finalization)
        (context_ok ctx ClaimDelete c \<and> phase c \<in> {Available, Cancelled})
        (deleting_claim ctx approval finalization c) DeletionRequestedEv t)"
  unfolding requestResourceClaimDeletion_def client_outcome_def client_commit_def Let_def
    deleting_claim_def [symmetric] deletion_digest_def [symmetric]
  by (simp only: result_simps accepts ex_simps conj_assoc simp_thms sum.inject jsval.inject de_Morgan_conj not_not insert_iff empty_iff) blast

lemma lease_accepts:
  "leaseResourceClaim sha st e cid p caps verified occ d = Inr t \<longleftrightarrow>
   broker_ok st \<and> revision st = e \<and> is_identifier p \<and> verified \<and> is_timestamp occ \<and> valid_duration d \<and>
   (\<exists>c. claim_of st cid = Some c \<and> set (requiredProviderCapabilities c) \<subseteq> set caps \<and>
      \<not> lease_active c (time_ms occ) \<and> lease_eligible c \<and> next_attempt c \<le> maxReconcileAttempts c \<and>
      provider_outcome sha st (leased_claim c (new_lease sha st c p occ (seconds_of d))) ProviderLeasedEv occ
        (provider_extra p (lease_fenceToken (new_lease sha st c p occ (seconds_of d))))
        (new_lease sha st c p occ (seconds_of d)) t)"
proof -
  have missing: "filter (\<lambda>k. k \<notin> set caps) ks = [] \<longleftrightarrow> set ks \<subseteq> set caps" for ks
    by (auto simp: filter_empty_conv)
  show ?thesis
    unfolding leaseResourceClaim_def provider_outcome_def Let_def leased_claim_def [symmetric]
      advanced_def
    by (simp only: result_simps accepts ex_simps conj_assoc simp_thms sum.inject jsval.inject not_not missing not_less) blast
qed

definition available_claim ::
  "string \<Rightarrow> resource_broker_output list \<Rightarrow> resource_claim_state \<Rightarrow> resource_claim_state" where
  "available_claim ref outs c =
     c\<lparr>phase := Available, observedGeneration := generation c, providerResourceRef := Some ref,
       outputs := outs, lease := None, failure := None, drift := None\<rparr>"

lemma complete_accepts:
  "completeResourceClaim sha st e args dg ref outs = Inr t \<longleftrightarrow>
   broker_ok st \<and> revision st = e \<and> is_digest dg \<and> is_reference [''provider''] ref \<and>
   valid_outputs outs \<and> outs \<noteq> [] \<and>
   (\<exists>c. claim_of st (pa_claimId args) = Some c \<and> phase c = Reconciling \<and> holds_lease c args \<and>
      desiredStateDigest c = dg \<and>
      provider_outcome sha st (available_claim ref outs c) ClaimAvailableEv (pa_occurredAt args)
        (provider_extra (pa_providerId args) (pa_fenceToken args)) (available_claim ref outs c) t)"
  unfolding completeResourceClaim_def provider_outcome_def Let_def available_claim_def [symmetric] advanced_def
  by (simp only: result_simps accepts ex_simps conj_assoc simp_thms sum.inject jsval.inject not_not) blast

definition failed_claim :: "provider_args \<Rightarrow> string \<Rightarrow> string \<Rightarrow> bool \<Rightarrow> int \<Rightarrow> resource_claim_state \<Rightarrow> resource_claim_state" where
  "failed_claim args code message retryable attempt c =
     c\<lparr>phase := Failed, lease := None,
       failure := Some \<lparr>failure_code = code, failure_message = message, failure_retryable = retryable,
         failure_attempt = attempt, failure_occurredAt = pa_occurredAt args\<rparr>\<rparr>"

lemma read_lease_attempt [result_simps]:
  "(case x of None \<Rightarrow> Inl e | Some l \<Rightarrow> Inr (f l)) = Inr y \<longleftrightarrow> (\<exists>l. x = Some l \<and> y = f l)"
  by (auto split: option.splits)

lemma fail_accepts:
  "failResourceClaim sha st e args code message retryable = Inr t \<longleftrightarrow>
   broker_ok st \<and> revision st = e \<and> rx_test reasonCode_rx code \<and> is_safe_message message \<and>
   (\<exists>c l. claim_of st (pa_claimId args) = Some c \<and> phase c = Reconciling \<and> holds_lease c args \<and>
      lease c = Some l \<and>
      provider_outcome sha st (failed_claim args code message retryable (lease_attempt l) c) ClaimFailedEv
        (pa_occurredAt args) (provider_extra (pa_providerId args) (pa_fenceToken args))
        (failed_claim args code message retryable (lease_attempt l) c) t)"
proof -
  have held: "holds_lease c args \<Longrightarrow> is_timestamp (pa_occurredAt args)" for c
    by (simp add: holds_lease_def)
  show ?thesis
    unfolding failResourceClaim_def provider_outcome_def Let_def advanced_def
    by (simp only: result_simps accepts ex_simps conj_assoc simp_thms sum.inject jsval.inject not_not
        failed_claim_def [symmetric]) (blast dest: held)
qed

definition drifted_claim :: "string \<Rightarrow> string \<Rightarrow> resource_claim_state \<Rightarrow> resource_claim_state" where
  "drifted_claim observed occ c =
     c\<lparr>phase := Drifted, outputs := [],
       drift := Some \<lparr>drift_observedStateDigest = observed, drift_detectedAt = occ\<rparr>\<rparr>"

lemma drift_accepts:
  "reportResourceClaimDrift sha st e cid p verified observed occ = Inr t \<longleftrightarrow>
   broker_ok st \<and> revision st = e \<and> is_identifier p \<and> verified \<and> is_digest observed \<and> is_timestamp occ \<and>
   (\<exists>c. claim_of st cid = Some c \<and> phase c = Available \<and> observed \<noteq> desiredStateDigest c \<and>
      provider_outcome sha st (drifted_claim observed occ c) ClaimDriftedEv occ
        (no_extra\<lparr>extra_providerId := Some p\<rparr>) (drifted_claim observed occ c) t)"
  unfolding reportResourceClaimDrift_def provider_outcome_def Let_def advanced_def drifted_claim_def [symmetric]
  by (simp only: result_simps accepts ex_simps conj_assoc simp_thms sum.inject jsval.inject not_not) blast

definition acknowledged_claim ::
  "string \<Rightarrow> claim_cancellation \<Rightarrow> resource_claim_state \<Rightarrow> resource_claim_state" where
  "acknowledged_claim ref k c =
     c\<lparr>phase := Cancelled, lease := None, outputs := [],
       cancellation := Some (k\<lparr>cancellation_cleanupEvidenceRef := Some ref\<rparr>)\<rparr>"

lemma read_option [result_simps]:
  "(case x of None \<Rightarrow> Inl e | Some l \<Rightarrow> Inr l) = Inr y \<longleftrightarrow> x = Some y"
  by (auto split: option.splits)

lemma acknowledge_accepts:
  "acknowledgeResourceClaimCancellation sha st e args ref = Inr t \<longleftrightarrow>
   broker_ok st \<and> revision st = e \<and> is_reference [''evidence''] ref \<and>
   (\<exists>c k. claim_of st (pa_claimId args) = Some c \<and> phase c = Cancelling \<and> holds_lease c args \<and>
      cancellation c = Some k \<and>
      provider_outcome sha st (acknowledged_claim ref k c) ClaimCancelledEv (pa_occurredAt args)
        (provider_extra (pa_providerId args) (pa_fenceToken args)) (acknowledged_claim ref k c) t)"
proof -
  have k: "\<lparr>cancellation_requestedAt = cancellation_requestedAt k,
      cancellation_requestedBy = cancellation_requestedBy k,
      cancellation_cleanupEvidenceRef = Some ref\<rparr> = k\<lparr>cancellation_cleanupEvidenceRef := Some ref\<rparr>" for k
    by (cases k) simp
  show ?thesis
    unfolding acknowledgeResourceClaimCancellation_def provider_outcome_def Let_def advanced_def
      k acknowledged_claim_def [symmetric]
    by (simp only: result_simps accepts ex_simps conj_assoc simp_thms sum.inject jsval.inject not_not) blast
qed

definition deleted_claim :: "resource_claim_state \<Rightarrow> resource_claim_state" where
  "deleted_claim c =
     c\<lparr>phase := Deleted, observedGeneration := generation c, providerResourceRef := None,
       outputs := [], lease := None\<rparr>"

lemma complete_deletion_accepts:
  "completeResourceClaimDeletion sha st e args finalization = Inr t \<longleftrightarrow>
   broker_ok st \<and> revision st = e \<and> is_reference [''evidence'', ''snapshot''] finalization \<and>
   (\<exists>c d. claim_of st (pa_claimId args) = Some c \<and> phase c = Deleting \<and> holds_lease c args \<and>
      deletion c = Some d \<and> deletion_finalizationEvidenceRef d = finalization \<and>
      provider_outcome sha st (deleted_claim c) ClaimDeletedEv (pa_occurredAt args)
        (provider_extra (pa_providerId args) (pa_fenceToken args)) (deleted_claim c) t)"
proof -
  have del: "(Some fin = map_option deletion_finalizationEvidenceRef x) \<longleftrightarrow>
      (\<exists>d. x = Some d \<and> deletion_finalizationEvidenceRef d = fin)" for fin x
    by (cases x) auto
  show ?thesis
    unfolding completeResourceClaimDeletion_def provider_outcome_def Let_def advanced_def
      deleted_claim_def [symmetric]
    by (simp only: result_simps accepts ex_simps conj_assoc simp_thms sum.inject jsval.inject not_not del) blast
qed

subsection \<open>Every operation is a step\<close>

lemma claim_shape [simp]:
  "claimId (cancelled_claim ctx c) = claimId c" "claimId (deleting_claim ctx a f c) = claimId c"
  "claimId (leased_claim c l) = claimId c" "claimId (available_claim ref outs c) = claimId c"
  "claimId (failed_claim args code msg b n c) = claimId c" "claimId (drifted_claim ob occ c) = claimId c"
  "claimId (acknowledged_claim ref k c) = claimId c" "claimId (deleted_claim c) = claimId c"
  "tenantId (cancelled_claim ctx c) = tenantId c" "tenantId (deleting_claim ctx a f c) = tenantId c"
  by (simp_all add: cancelled_claim_def deleting_claim_def leased_claim_def available_claim_def
      failed_claim_def drifted_claim_def acknowledged_claim_def deleted_claim_def)

lemma client_update:
  assumes "broker_ok st" "claim_of st cid = Some c"
    "client_outcome sha st ctx op dg (context_ok ctx op c \<and> G) c' ty t"
    "claimId c' = claimId c" "tenantId c' = tenantId c" "G \<Longrightarrow> claim_move (Some c) c'"
  shows "step_effect st (revision st) (tr_replayed t) (tr_state t) (tr_events t)"
proof -
  from claim_of_id [OF assms(2)] assms(2) have "claim_of st (claimId c') = Some c"
    using assms(4) by simp
  with assms show ?thesis
    by (intro client_effect [OF assms(1,3)]) (auto simp: context_ok_def)
qed

lemma provider_update:
  assumes "broker_ok st" "claim_of st cid = Some c" "claim_move (Some c) c'"
    "provider_outcome sha st c' ty occ extra res t" "claimId c' = claimId c"
  shows "step_effect st (revision st) (tr_replayed t) (tr_state t) (tr_events t)"
  using assms(1-4) claim_of_id [OF assms(2)] assms(5) by (auto intro: provider_effect)

lemma apply_move:
  assumes "valid_request r" "apply_guard (claim_of st (claimId r)) r = Inr ()"
  shows "claim_move (claim_of st (claimId r)) (applied_claim (claim_of st (claimId r)) r)"
  using assms
  by (auto simp: accepts same_type_def split: option.splits dest!: claim_of_id
      intro!: claim_move.create claim_move.advance)

lemma cancel_move:
  "phase c \<in> {Pending, Reconciling, Failed, Drifted} \<Longrightarrow> claim_move (Some c) (cancelled_claim ctx c)"
  using claim_move.cancel_requested [of c "the (cancellation (cancelled_claim ctx c))"]
    claim_move.cancel_now [of c "the (cancellation (cancelled_claim ctx c))"]
  by (auto simp: cancelled_claim_def)

lemma deleting_move:
  "phase c \<in> {Available, Cancelled} \<Longrightarrow> claim_move (Some c) (deleting_claim ctx a f c)"
  unfolding deleting_claim_def by (rule claim_move.request_deletion)

lemma lease_move:
  assumes "lease_eligible c" "\<not> lease_active c (time_ms occ)" "next_attempt c \<le> maxReconcileAttempts c"
  shows "claim_move (Some c) (leased_claim c (new_lease sha st c p occ n))"
  using assms by (intro claim_move.lease) (simp_all add: new_lease_def)

lemma failed_move:
  "phase c = Reconciling \<Longrightarrow> lease c = Some l \<Longrightarrow>
   claim_move (Some c) (failed_claim args code msg b (lease_attempt l) c)"
  unfolding failed_claim_def by (rule claim_move.fail) auto

lemma apply_effect:
  assumes "applyResourceClaim sha st e ctx v = Inr t"
  shows "step_effect st e (tr_replayed t) (tr_state t) (tr_events t)"
proof -
  from assms obtain r where r: "broker_ok st" "revision st = e" "parseResourceClaimRequest v = Inr r" and
    out: "client_outcome sha st ctx ClaimApply (sha (canonicalJson (enc_request r)))
        (context_ok ctx ClaimApply r \<and> apply_guard (claim_of st (claimId r)) r = Inr ())
        (applied_claim (claim_of st (claimId r)) r) ClaimAppliedEv t"
    unfolding apply_accepts by auto
  have "step_effect st (revision st) (tr_replayed t) (tr_state t) (tr_events t)"
    using client_effect [OF r(1) out] apply_move [OF parse_request_valid [OF r(3)]]
    by (auto simp: context_ok_def)
  with r show ?thesis by simp
qed

lemma cancel_effect:
  assumes "cancelResourceClaim sha st e ctx = Inr t"
  shows "step_effect st e (tr_replayed t) (tr_state t) (tr_events t)"
  using assms unfolding cancel_accepts by (auto elim!: client_update intro: cancel_move)

lemma deletion_effect:
  assumes "requestResourceClaimDeletion sha st e ctx a f = Inr t"
  shows "step_effect st e (tr_replayed t) (tr_state t) (tr_events t)"
  using assms unfolding deletion_accepts by (auto elim!: client_update intro: deleting_move)

lemma lease_effect:
  assumes "leaseResourceClaim sha st e cid p caps verified occ d = Inr t"
  shows "step_effect st e (tr_replayed t) (tr_state t) (tr_events t)"
  using assms unfolding lease_accepts by (auto elim!: provider_update intro: lease_move)

lemma complete_effect:
  assumes "completeResourceClaim sha st e args dg ref outs = Inr t"
  shows "step_effect st e (tr_replayed t) (tr_state t) (tr_events t)"
proof -
  have "phase c = Reconciling \<Longrightarrow> valid_outputs outs \<Longrightarrow> outs \<noteq> [] \<Longrightarrow>
      claim_move (Some c) (available_claim ref outs c)" for c
    unfolding available_claim_def by (rule claim_move.complete)
  with assms show ?thesis unfolding complete_accepts by (auto elim!: provider_update)
qed

lemma fail_effect:
  assumes "failResourceClaim sha st e args code message retryable = Inr t"
  shows "step_effect st e (tr_replayed t) (tr_state t) (tr_events t)"
  using assms unfolding fail_accepts by (auto elim!: provider_update intro: failed_move)

lemma drift_effect:
  assumes "reportResourceClaimDrift sha st e cid p verified observed occ = Inr t"
  shows "step_effect st e (tr_replayed t) (tr_state t) (tr_events t)"
proof -
  have "phase c = Available \<Longrightarrow> observed \<noteq> desiredStateDigest c \<Longrightarrow>
      claim_move (Some c) (drifted_claim observed occ c)" for c
    unfolding drifted_claim_def by (rule claim_move.drift) simp_all
  with assms show ?thesis unfolding drift_accepts by (auto elim!: provider_update)
qed

lemma acknowledge_effect:
  assumes "acknowledgeResourceClaimCancellation sha st e args ref = Inr t"
  shows "step_effect st e (tr_replayed t) (tr_state t) (tr_events t)"
proof -
  have "phase c = Cancelling \<Longrightarrow> cancellation c = Some k \<Longrightarrow>
      claim_move (Some c) (acknowledged_claim ref k c)" for c k
    unfolding acknowledged_claim_def by (rule claim_move.acknowledge)
  with assms show ?thesis unfolding acknowledge_accepts by (auto elim!: provider_update)
qed

lemma complete_deletion_effect:
  assumes "completeResourceClaimDeletion sha st e args finalization = Inr t"
  shows "step_effect st e (tr_replayed t) (tr_state t) (tr_events t)"
proof -
  have "phase c = Deleting \<Longrightarrow> deletion c = Some d \<Longrightarrow> claim_move (Some c) (deleted_claim c)" for c d
    unfolding deleted_claim_def by (rule claim_move.complete_deletion)
  with assms show ?thesis unfolding complete_deletion_accepts by (auto elim!: provider_update)
qed

subsection \<open>The broker as one step function\<close>

datatype broker_call =
    ApplyCall mutation_context jsval
  | CancelCall mutation_context
  | DeletionCall mutation_context string string
  | LeaseCall string string "string list" bool string jsnum
  | CompleteCall provider_args string string "resource_broker_output list"
  | FailCall provider_args string string bool
  | DriftCall string string bool string string
  | AcknowledgeCall provider_args string
  | CompleteDeletionCall provider_args string

definition step_of ::
  "broker_error + 'r broker_transition \<Rightarrow> broker_error + (resource_broker_state \<times> bool \<times> broker_event list)" where
  "step_of m = bind_r m (\<lambda>t. Inr (tr_state t, tr_replayed t, tr_events t))"

primrec broker_step ::
  "(string \<Rightarrow> string) \<Rightarrow> broker_call \<Rightarrow> int \<Rightarrow> resource_broker_state \<Rightarrow>
   broker_error + (resource_broker_state \<times> bool \<times> broker_event list)" where
  "broker_step sha (ApplyCall ctx v) e st = step_of (applyResourceClaim sha st e ctx v)"
| "broker_step sha (CancelCall ctx) e st = step_of (cancelResourceClaim sha st e ctx)"
| "broker_step sha (DeletionCall ctx a f) e st = step_of (requestResourceClaimDeletion sha st e ctx a f)"
| "broker_step sha (LeaseCall cid p caps b occ d) e st = step_of (leaseResourceClaim sha st e cid p caps b occ d)"
| "broker_step sha (CompleteCall args dg ref outs) e st = step_of (completeResourceClaim sha st e args dg ref outs)"
| "broker_step sha (FailCall args code msg b) e st = step_of (failResourceClaim sha st e args code msg b)"
| "broker_step sha (DriftCall cid p b dg occ) e st = step_of (reportResourceClaimDrift sha st e cid p b dg occ)"
| "broker_step sha (AcknowledgeCall args ref) e st = step_of (acknowledgeResourceClaimCancellation sha st e args ref)"
| "broker_step sha (CompleteDeletionCall args ref) e st = step_of (completeResourceClaimDeletion sha st e args ref)"

lemma broker_step_effect:
  "broker_step sha call e st = Inr (st', replayed, evs) \<Longrightarrow> step_effect st e replayed st' evs"
  by (cases call)
    (auto simp: step_of_def result_simps dest: apply_effect cancel_effect deletion_effect lease_effect
      complete_effect fail_effect drift_effect acknowledge_effect complete_deletion_effect)

definition broker_run ::
  "(string \<Rightarrow> string) \<Rightarrow> broker_call \<Rightarrow> int \<Rightarrow> resource_broker_state \<Rightarrow> (resource_broker_state \<times> bool) option" where
  "broker_run sha call e st =
     (case broker_step sha call e st of
        Inl _ \<Rightarrow> None | Inr (st', replayed, _) \<Rightarrow> Some (st', \<not> replayed))"

lemma broker_move_revision: "broker_move st c st' \<Longrightarrow> revision st' = revision st + 1"
  by (auto elim: broker_moveE)

interpretation broker: versioned_store revision "broker_run sha" for sha
proof
  fix c e s s'
  assume a: "broker_run sha c e s = Some (s', True)"
  then obtain evs where "broker_step sha c e s = Inr (s', False, evs)"
    by (auto simp: broker_run_def split: sum.splits)
  from broker_step_effect [OF this] show "revision s = e" "revision s' = revision s + 1"
    by (auto simp: step_effect_def broker_move_revision)
next
  fix c e s s'
  assume a: "broker_run sha c e s = Some (s', False)"
  then obtain evs where "broker_step sha c e s = Inr (s', True, evs)"
    by (auto simp: broker_run_def split: sum.splits)
  from broker_step_effect [OF this] show "s' = s" by (simp add: step_effect_def)
qed

end
