(* ===== verification/BrokerInvariant.thy ===== *)
theory BrokerInvariant
  imports BrokerSteps
begin

section \<open>Resource broker: the store of claims and the reachable states\<close>

text \<open>
  \<open>upsertClaim\<close> with the lookup of \<open>requireClaim\<close> is a \<open>keyed_store\<close>.  \<open>broker_reach\<close> are the
  states that the operations produce from \<open>createResourceBrokerState\<close>, and \<open>broker_inv\<close> is what
  they all satisfy: the program's own check, \<open>claim_inv\<close> on every claim, sorted claims, and a log
  with one redeemed capability and one revision per record.
\<close>

subsection \<open>The store of claims\<close>

definition find_claim :: "resource_claim_state list \<Rightarrow> string \<Rightarrow> resource_claim_state option" where
  "find_claim cs cid = List.find (\<lambda>c. claimId c = cid) cs"

lemma find_claim_iff:
  "distinct (map claimId cs) \<Longrightarrow> find_claim cs cid = Some c \<longleftrightarrow> c \<in> set cs \<and> claimId c = cid"
  using find_cong_key [of claimId cs c] by (auto simp: find_claim_def dest: find_Some_mem)

lemma upsert_set: "set (upsertClaim cs c) = insert c {d \<in> set cs. claimId d \<noteq> claimId c}"
  by (auto simp: upsertClaim_def)

lemma upsert_distinct: "distinct (map claimId cs) \<Longrightarrow> distinct (map claimId (upsertClaim cs c))"
  by (auto simp: upsertClaim_def distinct_map_filter_key)

lemma upsert_ids: "claimId ` set (upsertClaim cs c) = insert (claimId c) (claimId ` set cs)"
  by (auto simp: upsert_set)

lemma upsert_sorted:
  "sorted_wrt (\<lambda>x y. localeCompare (claimId x) (claimId y) \<le> 0) (upsertClaim cs c)"
  unfolding upsertClaim_def by (rule sort_by_locale_sorted)

interpretation claim_store: keyed_store find_claim "\<lambda>cs k c. upsertClaim cs c"
  "\<lambda>k c. claimId c = k" "\<lambda>cs. distinct (map claimId cs)"
proof
  fix cs :: "resource_claim_state list" and k and c :: resource_claim_state and k'
  assume d: "distinct (map claimId cs)" and k: "claimId c = k"
  show "distinct (map claimId (upsertClaim cs c))" using d by (rule upsert_distinct)
  have "find_claim (upsertClaim cs c) k' = Some x \<longleftrightarrow> (if k' = k then Some c else find_claim cs k') = Some x" for x
    using find_claim_iff [OF upsert_distinct [OF d]] find_claim_iff [OF d] k
    by (auto simp: upsert_set)
  then show "find_claim (upsertClaim cs c) k' = (if k' = k then Some c else find_claim cs k')"
    by (metis not_Some_eq)
qed

lemma claim_of_find: "claim_of st cid = find_claim (claims st) cid"
  by (simp add: claim_of_def find_claim_def)

lemma broker_move_claims: "broker_move st c st' \<Longrightarrow> claims st' = upsertClaim (claims st) c"
  by (auto elim: broker_moveE)

lemma broker_move_claim: "broker_move st c st' \<Longrightarrow> claim_move (claim_of st (claimId c)) c"
  by (auto elim: broker_moveE)

lemma broker_ok_distinct: "broker_ok st \<Longrightarrow> distinct (map claimId (claims st))"
  by (simp add: broker_ok_def)

lemma claim_of_member: "broker_ok st \<Longrightarrow> c \<in> set (claims st) \<longleftrightarrow> claim_of st (claimId c) = Some c"
  by (simp add: claim_of_find find_claim_iff broker_ok_distinct)

lemma claim_of_move:
  "broker_ok st \<Longrightarrow> broker_move st c st' \<Longrightarrow>
   claim_of st' cid = (if cid = claimId c then Some c else claim_of st cid)"
  by (simp add: claim_of_find broker_move_claims claim_store.get_put broker_ok_distinct)

subsection \<open>The invariant\<close>

definition broker_inv :: "resource_broker_state \<Rightarrow> bool" where
  "broker_inv st \<longleftrightarrow>
     broker_ok st \<and> 0 \<le> revision st \<and> (\<forall>c \<in> set (claims st). claim_inv c) \<and>
     sorted_wrt (\<lambda>x y. localeCompare (claimId x) (claimId y) \<le> 0) (claims st) \<and>
     redeemedCapabilityIds st = map rec_capabilityId (idempotencyRecords st) \<and>
     sorted_wrt (<) (map rec_committedRevision (idempotencyRecords st)) \<and>
     (\<forall>r \<in> set (idempotencyRecords st). rec_committedRevision r \<le> revision st \<and>
        (\<exists>c. claim_of st (rec_claimId r) = Some c \<and> tenantId c = rec_tenantId r))"

inductive broker_reach :: "(string \<Rightarrow> string) \<Rightarrow> resource_broker_state \<Rightarrow> bool" for sha where
  created: "broker_reach sha createResourceBrokerState"
| stepped: "broker_reach sha st \<Longrightarrow> broker_step sha call e st = Inr (st', replayed, evs) \<Longrightarrow> broker_reach sha st'"

lemma broker_inv_created: "broker_inv createResourceBrokerState"
  by (simp add: broker_inv_def broker_ok_def createResourceBrokerState_def)

lemma claim_move_tenant: "claim_move b c \<Longrightarrow> b = Some d \<Longrightarrow> tenantId c = tenantId d"
  using claim_move_identity by blast

lemma broker_inv_records:
  assumes "broker_inv st" "broker_move st c st'" "r \<in> set (idempotencyRecords st)"
  shows "rec_committedRevision r < revision st' \<and>
    (\<exists>d. claim_of st' (rec_claimId r) = Some d \<and> tenantId d = rec_tenantId r)"
proof -
  from assms(1,3) obtain d where d: "claim_of st (rec_claimId r) = Some d" "tenantId d = rec_tenantId r"
    "rec_committedRevision r \<le> revision st" and ok: "broker_ok st"
    by (auto simp: broker_inv_def)
  have "claim_of st' (rec_claimId r) = (if rec_claimId r = claimId c then Some c else Some d)"
    using claim_of_move [OF ok assms(2)] d by simp
  moreover have "rec_claimId r = claimId c \<Longrightarrow> tenantId c = tenantId d"
    using broker_move_claim [OF assms(2)] d claim_move_tenant by metis
  ultimately show ?thesis using d broker_move_revision [OF assms(2)] by auto
qed

lemma broker_inv_move:
  assumes inv: "broker_inv st" and move: "broker_move st c st'" and ok: "broker_ok st'"
  shows "broker_inv st'"
proof -
  from inv have st: "broker_ok st" by (simp add: broker_inv_def)
  have rv: "revision st' = revision st + 1" using move by (rule broker_move_revision)
  have "pred_option claim_inv (claim_of st (claimId c))"
    using inv by (auto simp: broker_inv_def pred_option_def dest!: claim_of_id split: option.splits)
  with broker_move_claim [OF move] have "claim_inv c" by (rule claim_move_inv)
  then have cl: "\<forall>d \<in> set (claims st'). claim_inv d"
    using inv by (auto simp: broker_inv_def broker_move_claims [OF move] upsert_set)
  have so: "sorted_wrt (\<lambda>x y. localeCompare (claimId x) (claimId y) \<le> 0) (claims st')"
    by (simp add: broker_move_claims [OF move] upsert_sorted)
  have recs: "\<forall>r \<in> set (idempotencyRecords st'). rec_committedRevision r \<le> revision st' \<and>
      (\<exists>d. claim_of st' (rec_claimId r) = Some d \<and> tenantId d = rec_tenantId r)"
  proof
    fix r assume "r \<in> set (idempotencyRecords st')"
    then consider "r \<in> set (idempotencyRecords st)"
      | "rec_claimId r = claimId c" "rec_tenantId r = tenantId c" "rec_committedRevision r = revision st + 1"
      using move by (auto elim!: broker_moveE)
    then show "rec_committedRevision r \<le> revision st' \<and>
      (\<exists>d. claim_of st' (rec_claimId r) = Some d \<and> tenantId d = rec_tenantId r)"
    proof cases
      case 1
      with broker_inv_records [OF inv move] show ?thesis by fastforce
    next
      case 2
      with claim_of_move [OF st move] rv show ?thesis by simp
    qed
  qed
  have log: "redeemedCapabilityIds st' = map rec_capabilityId (idempotencyRecords st')"
    "sorted_wrt (<) (map rec_committedRevision (idempotencyRecords st'))"
    using move inv by (auto elim!: broker_moveE simp: broker_inv_def sorted_wrt_append)
  show ?thesis using ok rv inv cl so recs log by (simp add: broker_inv_def)
qed

lemma broker_inv_step:
  assumes "broker_inv st" "broker_step sha call e st = Inr (st', replayed, evs)"
  shows "broker_inv st'"
  using broker_step_effect [OF assms(2)] assms(1) broker_inv_move
  by (auto simp: step_effect_def split: if_splits)

lemma broker_reach_inv: "broker_reach sha st \<Longrightarrow> broker_inv st"
  by (induction rule: broker_reach.induct) (auto intro: broker_inv_created broker_inv_step)

end
