(* ===== verification/BrokerProgress.thy ===== *)
theory BrokerProgress
  imports BrokerInvariant
begin

section \<open>Resource broker: when an operation succeeds\<close>

text \<open>
  Every transition checks the state it is about to return with \<open>assertResourceBrokerState\<close>.  The
  lemmas here show that on a state of the invariant this last check cannot fail: an operation
  succeeds exactly when its own guards hold (\<open>_succeeds\<close>).  \<open>sha_ok\<close> says that the hash is 64
  lower-case hexadecimal digits, as SHA-256 printed in hexadecimal is.
\<close>

definition sha_ok :: "(string \<Rightarrow> string) \<Rightarrow> bool" where
  "sha_ok sha \<longleftrightarrow> (\<forall>x. is_digest (sha x))"

subsection \<open>The committed state is well-formed\<close>

lemma broker_ok_claim:
  "broker_ok st \<Longrightarrow> claim_of st cid = Some c \<Longrightarrow> valid_claim c \<and> claim_consistent c"
  by (auto simp: broker_ok_def dest: claim_of_id)

lemma claims_ok_upsert:
  "broker_ok st \<Longrightarrow> valid_claim c \<Longrightarrow> claim_consistent c \<Longrightarrow>
   (\<forall>d \<in> set (upsertClaim (claims st) c). valid_claim d \<and> claim_consistent d) \<and>
   distinct (map claimId (upsertClaim (claims st) c))"
proof (intro impI conjI ballI)
  fix d assume ok: "broker_ok st" "valid_claim c" "claim_consistent c" and "d \<in> set (upsertClaim (claims st) c)"
  then have "d = c \<or> d \<in> set (claims st)" unfolding upsert_set by blast
  with ok show "valid_claim d" "claim_consistent d" unfolding broker_ok_def by blast+
next
  assume "broker_ok st"
  then show "distinct (map claimId (upsertClaim (claims st) c))"
    by (intro upsert_distinct broker_ok_distinct)
qed

lemma advanced_sel [simp]:
  "claims (advanced st c) = upsertClaim (claims st) c" "revision (advanced st c) = revision st + 1"
  "idempotencyRecords (advanced st c) = idempotencyRecords st"
  "redeemedCapabilityIds (advanced st c) = redeemedCapabilityIds st"
  by (simp_all add: advanced_def)

lemma mutated_sel [simp]:
  "claims (mutated st ctx dg cs) = cs" "revision (mutated st ctx dg cs) = revision st + 1"
  "idempotencyRecords (mutated st ctx dg cs) =
     idempotencyRecords st @ [mutation_record ctx dg (revision st + 1)]"
  "redeemedCapabilityIds (mutated st ctx dg cs) = redeemedCapabilityIds st @ [ctx_capabilityId ctx]"
  by (simp_all add: mutated_def)

lemma broker_ok_parts:
  "broker_ok st \<longleftrightarrow>
   ((\<forall>c \<in> set (claims st). valid_claim c \<and> claim_consistent c) \<and> distinct (map claimId (claims st))) \<and>
   (\<forall>r \<in> set (idempotencyRecords st). valid_record r \<and> rec_capabilityId r \<in> set (redeemedCapabilityIds st)) \<and>
   distinct (map record_key (idempotencyRecords st)) \<and>
   (\<forall>k \<in> set (redeemedCapabilityIds st). is_identifier k) \<and> distinct (redeemedCapabilityIds st)"
  unfolding broker_ok_def by (simp only: conj_assoc)

lemma broker_ok_advanced:
  assumes "broker_ok st" "valid_claim c" "claim_consistent c"
  shows "broker_ok (advanced st c)"
  using claims_ok_upsert [OF assms] assms(1) unfolding broker_ok_parts advanced_sel
  by (elim conjE) (intro conjI; assumption)

definition unrecorded :: "resource_broker_state \<Rightarrow> mutation_context \<Rightarrow> claim_op \<Rightarrow> bool" where
  "unrecorded st ctx op \<longleftrightarrow>
     (\<forall>r \<in> set (idempotencyRecords st).
        \<not> (rec_tenantId r = ctx_tenantId ctx \<and> rec_operation r = op \<and>
           rec_claimId r = ctx_resourceId ctx \<and> rec_key r = ctx_idempotencyKey ctx))"

lemma mutationReplay_None: "mutationReplay st ctx op dg = Inr None \<longleftrightarrow> unrecorded st ctx op"
  unfolding mutationReplay_def unrecorded_def
  by (auto simp: result_simps find_None_iff dest!: find_Some_mem split: option.splits)

lemma broker_ok_mutated:
  assumes ok: "broker_ok st" "0 \<le> revision st" and c: "valid_claim c" "claim_consistent c"
    and ctx: "context_ok ctx op c" and dg: "is_digest dg" and new: "unrecorded st ctx op"
    and cap: "ctx_capabilityId ctx \<notin> set (redeemedCapabilityIds st)"
  shows "broker_ok (mutated st ctx dg (upsertClaim (claims st) c))"
proof -
  let ?r = "mutation_record ctx dg (revision st + 1)"
  have r: "valid_record ?r"
    using ctx dg ok(2) c(1) by (auto simp: valid_record_def context_ok_def valid_claim_def valid_request_def)
  have "record_key ?r \<notin> record_key ` set (idempotencyRecords st)"
  proof
    assume "record_key ?r \<in> record_key ` set (idempotencyRecords st)"
    then obtain x where x: "x \<in> set (idempotencyRecords st)" "record_key ?r = record_key x" by auto
    with ok(1) r have "valid_record x" by (auto simp: broker_ok_def)
    from record_key_eq_iff [OF r this] x new ctx show False
      by (auto simp: unrecorded_def context_ok_def)
  qed
  then have keys: "distinct (map record_key (idempotencyRecords st @ [?r]))"
    using ok(1) by (simp add: broker_ok_def)
  have "is_identifier (ctx_capabilityId ctx)" using ctx by (simp add: context_ok_def)
  with ok(1) cap r have recs:
    "\<forall>x \<in> set (idempotencyRecords st @ [?r]).
       valid_record x \<and> rec_capabilityId x \<in> set (redeemedCapabilityIds st @ [ctx_capabilityId ctx])"
    "\<forall>k \<in> set (redeemedCapabilityIds st @ [ctx_capabilityId ctx]). is_identifier k"
    "distinct (redeemedCapabilityIds st @ [ctx_capabilityId ctx])"
    by (simp_all add: broker_ok_def)
  show ?thesis
    unfolding broker_ok_parts mutated_sel by (intro conjI claims_ok_upsert ok c keys recs)
qed

lemma event_succeeds: "(\<exists>ev. broker_event_of sha st c ty occ extra = Inr ev) \<longleftrightarrow> is_timestamp occ"
  by (auto simp: broker_event_of_def Let_def result_simps accepts)

lemma client_commit_succeeds:
  assumes "broker_ok st" "0 \<le> revision st" "valid_claim c" "claim_consistent c" "context_ok ctx op c"
    "is_digest dg" "unrecorded st ctx op"
  shows "(\<exists>t. client_commit sha st ctx dg c ty t) \<longleftrightarrow> ctx_capabilityId ctx \<notin> set (redeemedCapabilityIds st)"
  using broker_ok_mutated [OF assms] event_succeeds assms(5)
  by (auto simp: client_commit_def context_ok_def)

lemma provider_outcome_succeeds:
  assumes "broker_ok st" "valid_claim c" "claim_consistent c"
  shows "(\<exists>t. provider_outcome sha st c ty occ extra res t) \<longleftrightarrow> is_timestamp occ"
  using broker_ok_advanced [OF assms] event_succeeds by (auto simp: provider_outcome_def)

subsection \<open>The moved claim is well-formed\<close>

lemma applied_claim_ok:
  assumes "valid_request r" "apply_guard ex r = Inr ()" "pred_option (\<lambda>c. valid_claim c \<and> claim_consistent c) ex"
  shows "valid_claim (applied_claim ex r) \<and> claim_consistent (applied_claim ex r)"
proof -
  have "desiredStateRef (applied_claim ex r) = desiredStateRef r"
    by (simp add: applied_claim_def resource_claim_request.defs resource_claim_state.defs)
  with assms show ?thesis
    by (auto simp: valid_claim_def claim_consistent_def accepts valid_request_def split: option.splits)
qed

lemma cancelled_claim_ok:
  assumes "valid_claim c" "claim_consistent c" "context_ok ctx op c"
    "phase c \<in> {Pending, Reconciling, Failed, Drifted}"
  shows "valid_claim (cancelled_claim ctx c) \<and> claim_consistent (cancelled_claim ctx c)"
  using assms
  by (auto simp: valid_claim_def claim_consistent_def cancelled_claim_def context_ok_def
      valid_cancellation_def valid_request_def)

lemma deleting_claim_ok:
  assumes "valid_claim c" "claim_consistent c" "context_ok ctx op c"
    "is_reference [''evidence''] a" "is_reference [''evidence'', ''snapshot''] f"
  shows "valid_claim (deleting_claim ctx a f c) \<and> claim_consistent (deleting_claim ctx a f c)"
  using assms
  by (auto simp: valid_claim_def claim_consistent_def deleting_claim_def context_ok_def
      valid_deletion_def valid_request_def)

lemma next_attempt_pos: "valid_claim c \<Longrightarrow> 1 \<le> next_attempt c"
  by (auto simp: next_attempt_def valid_claim_def valid_lease_def valid_failure_def split: option.splits)

lemma new_lease_ok:
  assumes "valid_claim c" "sha_ok sha" "is_identifier p" "is_timestamp occ" "1 \<le> n"
    "in_iso_range (time_ms occ + n * 1000)"
  shows "valid_lease (new_lease sha st c p occ n)"
proof -
  have g: "1 \<le> generation c" using assms(1) by (simp add: valid_claim_def valid_request_def)
  have f: "is_digest (fence_token sha c p (revision st + 1) occ)"
    using assms(2) by (simp add: sha_ok_def fence_token_def)
  show ?thesis
    using assms g f next_attempt_pos [OF assms(1)]
    by (simp add: valid_lease_def new_lease_def is_timestamp_toISOString time_ms_toISOString)
qed

lemma leased_claim_ok:
  assumes "valid_claim c" "claim_consistent c" "valid_lease l"
  shows "valid_claim (leased_claim c l) \<and> claim_consistent (leased_claim c l)"
  using assms
  by (auto simp: valid_claim_def claim_consistent_def leased_claim_def valid_request_def)

lemma available_claim_ok:
  assumes "valid_claim c" "valid_outputs outs" "outs \<noteq> []" "is_reference [''provider''] ref"
  shows "valid_claim (available_claim ref outs c) \<and> claim_consistent (available_claim ref outs c)"
  using assms
  by (auto simp: valid_claim_def claim_consistent_def available_claim_def valid_request_def valid_outputs_def)

lemma failed_claim_ok:
  assumes "valid_claim c" "claim_consistent c" "lease c = Some l" "rx_test reasonCode_rx code"
    "is_safe_message msg" "is_timestamp (pa_occurredAt args)"
  shows "valid_claim (failed_claim args code msg b (lease_attempt l) c) \<and>
    claim_consistent (failed_claim args code msg b (lease_attempt l) c)"
  using assms
  by (auto simp: valid_claim_def claim_consistent_def failed_claim_def valid_request_def valid_failure_def
      valid_lease_def)

lemma drifted_claim_ok:
  assumes "valid_claim c" "claim_consistent c" "phase c = Available" "is_digest ob" "is_timestamp occ"
  shows "valid_claim (drifted_claim ob occ c) \<and> claim_consistent (drifted_claim ob occ c)"
  using assms
  by (auto simp: valid_claim_def claim_consistent_def drifted_claim_def valid_request_def valid_drift_def)

lemma acknowledged_claim_ok:
  assumes "valid_claim c" "claim_consistent c" "cancellation c = Some k" "is_reference [''evidence''] ref"
  shows "valid_claim (acknowledged_claim ref k c) \<and> claim_consistent (acknowledged_claim ref k c)"
  using assms
  by (auto simp: valid_claim_def claim_consistent_def acknowledged_claim_def valid_request_def
      valid_cancellation_def)

lemma deleted_claim_ok:
  assumes "valid_claim c" "claim_consistent c"
  shows "valid_claim (deleted_claim c) \<and> claim_consistent (deleted_claim c)"
  using assms
  by (auto simp: valid_claim_def claim_consistent_def deleted_claim_def valid_request_def)

subsection \<open>When each operation succeeds\<close>

lemma inv_ok: "broker_inv st \<Longrightarrow> broker_ok st \<and> 0 \<le> revision st"
  by (simp add: broker_inv_def)

lemma client_outcome_succeeds:
  assumes "broker_inv st" "is_digest dg"
    "guard \<Longrightarrow> context_ok ctx op c \<and> valid_claim c \<and> claim_consistent c"
  shows "(\<exists>t. client_outcome sha st ctx op dg guard c ty t) \<longleftrightarrow>
    (\<exists>old. mutationReplay st ctx op dg = Inr (Some old)) \<or>
    (unrecorded st ctx op \<and> guard \<and> ctx_capabilityId ctx \<notin> set (redeemedCapabilityIds st))"
proof -
  have "unrecorded st ctx op \<Longrightarrow> guard \<Longrightarrow>
      (\<exists>t. client_commit sha st ctx dg c ty t) \<longleftrightarrow> ctx_capabilityId ctx \<notin> set (redeemedCapabilityIds st)"
    using client_commit_succeeds [of st c ctx op dg] inv_ok [OF assms(1)] assms(2,3) by blast
  then show ?thesis unfolding client_outcome_def mutationReplay_None by blast
qed

lemma sha_ok_digest [simp]: "sha_ok sha \<Longrightarrow> is_digest (sha x)"
  by (simp add: sha_ok_def)

lemma context_ok_claim:
  "claimId c' = claimId c \<Longrightarrow> tenantId c' = tenantId c \<Longrightarrow> context_ok ctx op c' \<longleftrightarrow> context_ok ctx op c"
  by (simp add: context_ok_def)

lemma claim_of_ok_option:
  "broker_ok st \<Longrightarrow> pred_option (\<lambda>c. valid_claim c \<and> claim_consistent c) (claim_of st cid)"
  using broker_ok_claim by (cases "claim_of st cid") auto

lemma apply_succeeds:
  assumes inv: "broker_inv st" and sha: "sha_ok sha"
  shows "(\<exists>t. applyResourceClaim sha st e ctx v = Inr t) \<longleftrightarrow>
    revision st = e \<and>
    (\<exists>r. parseResourceClaimRequest v = Inr r \<and>
       ((\<exists>old. mutationReplay st ctx ClaimApply (sha (canonicalJson (enc_request r))) = Inr (Some old)) \<or>
        (unrecorded st ctx ClaimApply \<and>
         (context_ok ctx ClaimApply r \<and> apply_guard (claim_of st (claimId r)) r = Inr ()) \<and>
         ctx_capabilityId ctx \<notin> set (redeemedCapabilityIds st))))"
proof -
  have ok: "broker_ok st" using inv_ok [OF inv] by simp
  have "(\<exists>t. client_outcome sha st ctx ClaimApply (sha (canonicalJson (enc_request r)))
        (context_ok ctx ClaimApply r \<and> apply_guard (claim_of st (claimId r)) r = Inr ())
        (applied_claim (claim_of st (claimId r)) r) ClaimAppliedEv t) \<longleftrightarrow>
      (\<exists>old. mutationReplay st ctx ClaimApply (sha (canonicalJson (enc_request r))) = Inr (Some old)) \<or>
      (unrecorded st ctx ClaimApply \<and>
       (context_ok ctx ClaimApply r \<and> apply_guard (claim_of st (claimId r)) r = Inr ()) \<and>
       ctx_capabilityId ctx \<notin> set (redeemedCapabilityIds st))"
    if "parseResourceClaimRequest v = Inr r" for r
    using applied_claim_ok [OF parse_request_valid [OF that] _ claim_of_ok_option [OF ok]] sha
    by (intro client_outcome_succeeds [OF inv]) (auto simp: context_ok_def)
  then show ?thesis unfolding apply_accepts using ok by blast
qed

lemma cancel_succeeds:
  assumes inv: "broker_inv st" and sha: "sha_ok sha"
  shows "(\<exists>t. cancelResourceClaim sha st e ctx = Inr t) \<longleftrightarrow>
    revision st = e \<and>
    (\<exists>c. claim_of st (ctx_resourceId ctx) = Some c \<and>
       ((\<exists>old. mutationReplay st ctx ClaimCancel (cancel_digest sha c) = Inr (Some old)) \<or>
        (unrecorded st ctx ClaimCancel \<and>
         (context_ok ctx ClaimCancel c \<and> phase c \<in> {Pending, Reconciling, Failed, Drifted}) \<and>
         ctx_capabilityId ctx \<notin> set (redeemedCapabilityIds st))))"
proof -
  have ok: "broker_ok st" using inv_ok [OF inv] by simp
  have "(\<exists>t. client_outcome sha st ctx ClaimCancel (cancel_digest sha c)
        (context_ok ctx ClaimCancel c \<and> phase c \<in> {Pending, Reconciling, Failed, Drifted})
        (cancelled_claim ctx c) ty t) \<longleftrightarrow>
      (\<exists>old. mutationReplay st ctx ClaimCancel (cancel_digest sha c) = Inr (Some old)) \<or>
      (unrecorded st ctx ClaimCancel \<and>
       (context_ok ctx ClaimCancel c \<and> phase c \<in> {Pending, Reconciling, Failed, Drifted}) \<and>
       ctx_capabilityId ctx \<notin> set (redeemedCapabilityIds st))"
    if "claim_of st (ctx_resourceId ctx) = Some c" for c ty
    using cancelled_claim_ok broker_ok_claim [OF ok that] sha
    by (intro client_outcome_succeeds [OF inv])
      (auto simp only: cancel_digest_def sha_ok_digest context_ok_claim [OF claim_shape(1,9)])
  then show ?thesis unfolding cancel_accepts using ok by blast
qed

lemma lease_succeeds:
  assumes inv: "broker_inv st" and sha: "sha_ok sha" and
    range: "in_iso_range (time_ms occ + seconds_of d * 1000)"
  shows "(\<exists>t. leaseResourceClaim sha st e cid p caps verified occ d = Inr t) \<longleftrightarrow>
    revision st = e \<and> is_identifier p \<and> verified \<and> is_timestamp occ \<and> valid_duration d \<and>
    (\<exists>c. claim_of st cid = Some c \<and> set (requiredProviderCapabilities c) \<subseteq> set caps \<and>
       \<not> lease_active c (time_ms occ) \<and> lease_eligible c \<and> next_attempt c \<le> maxReconcileAttempts c)"
proof -
  have ok: "broker_ok st" using inv_ok [OF inv] by simp
  have "(\<exists>t. provider_outcome sha st (leased_claim c (new_lease sha st c p occ (seconds_of d))) ProviderLeasedEv
        occ ex (new_lease sha st c p occ (seconds_of d)) t) \<longleftrightarrow> is_timestamp occ"
    if "claim_of st cid = Some c" "is_identifier p" "is_timestamp occ" "valid_duration d" for c ex
  proof -
    have "1 \<le> seconds_of d" using that(4) by (auto simp: valid_duration_def seconds_of_def split: jsnum.splits)
    then show ?thesis
      using leased_claim_ok new_lease_ok sha range that broker_ok_claim [OF ok that(1)]
      by (intro provider_outcome_succeeds [OF ok]) blast+
  qed
  then show ?thesis unfolding lease_accepts using ok by blast
qed

lemma complete_succeeds:
  assumes inv: "broker_inv st"
  shows "(\<exists>t. completeResourceClaim sha st e args dg ref outs = Inr t) \<longleftrightarrow>
    revision st = e \<and> is_digest dg \<and> is_reference [''provider''] ref \<and> valid_outputs outs \<and> outs \<noteq> [] \<and>
    (\<exists>c. claim_of st (pa_claimId args) = Some c \<and> phase c = Reconciling \<and> holds_lease c args \<and>
       desiredStateDigest c = dg)"
proof -
  have ok: "broker_ok st" using inv_ok [OF inv] by simp
  have "(\<exists>t. provider_outcome sha st (available_claim ref outs c) ClaimAvailableEv (pa_occurredAt args) ex
        (available_claim ref outs c) t) \<longleftrightarrow> is_timestamp (pa_occurredAt args)"
    if "claim_of st (pa_claimId args) = Some c" "is_reference [''provider''] ref" "valid_outputs outs" "outs \<noteq> []"
    for c ex
    using available_claim_ok that broker_ok_claim [OF ok that(1)]
    by (intro provider_outcome_succeeds [OF ok]) blast+
  moreover have "holds_lease c args \<Longrightarrow> is_timestamp (pa_occurredAt args)" for c
    by (simp add: holds_lease_def)
  ultimately show ?thesis unfolding complete_accepts using ok by blast
qed

lemma provider_outcome_exists:
  "broker_ok st \<Longrightarrow> valid_claim c \<and> claim_consistent c \<Longrightarrow> is_timestamp occ \<Longrightarrow>
   \<exists>t. provider_outcome sha st c ty occ extra res t"
  by (rule iffD2 [OF provider_outcome_succeeds]) blast+

lemma holds_lease_facts:
  "holds_lease c args \<Longrightarrow> is_timestamp (pa_occurredAt args) \<and> (\<exists>l. lease c = Some l)"
  by (auto simp: holds_lease_def)

lemma deletion_succeeds:
  assumes inv: "broker_inv st" and sha: "sha_ok sha"
  shows "(\<exists>t. requestResourceClaimDeletion sha st e ctx a f = Inr t) \<longleftrightarrow>
    revision st = e \<and> is_reference [''evidence''] a \<and> is_reference [''evidence'', ''snapshot''] f \<and>
    (\<exists>c. claim_of st (ctx_resourceId ctx) = Some c \<and>
       ((\<exists>old. mutationReplay st ctx ClaimDelete (deletion_digest sha c a f) = Inr (Some old)) \<or>
        (unrecorded st ctx ClaimDelete \<and>
         (context_ok ctx ClaimDelete c \<and> phase c \<in> {Available, Cancelled}) \<and>
         ctx_capabilityId ctx \<notin> set (redeemedCapabilityIds st))))"
proof -
  have ok: "broker_ok st" using inv_ok [OF inv] by simp
  have "(\<exists>t. client_outcome sha st ctx ClaimDelete (deletion_digest sha c a f)
        (context_ok ctx ClaimDelete c \<and> phase c \<in> {Available, Cancelled})
        (deleting_claim ctx a f c) ty t) \<longleftrightarrow>
      (\<exists>old. mutationReplay st ctx ClaimDelete (deletion_digest sha c a f) = Inr (Some old)) \<or>
      (unrecorded st ctx ClaimDelete \<and>
       (context_ok ctx ClaimDelete c \<and> phase c \<in> {Available, Cancelled}) \<and>
       ctx_capabilityId ctx \<notin> set (redeemedCapabilityIds st))"
    if "claim_of st (ctx_resourceId ctx) = Some c" "is_reference [''evidence''] a"
      "is_reference [''evidence'', ''snapshot''] f" for c ty
    using deleting_claim_ok [of c ctx ClaimDelete a f] that broker_ok_claim [OF ok that(1)] sha
    by (intro client_outcome_succeeds [OF inv])
      (auto simp only: deletion_digest_def sha_ok_digest context_ok_claim [OF claim_shape(2,10)])
  then show ?thesis unfolding deletion_accepts using ok by blast
qed

lemma fail_succeeds:
  assumes inv: "broker_inv st"
  shows "(\<exists>t. failResourceClaim sha st e args code msg b = Inr t) \<longleftrightarrow>
    revision st = e \<and> rx_test reasonCode_rx code \<and> is_safe_message msg \<and>
    (\<exists>c. claim_of st (pa_claimId args) = Some c \<and> phase c = Reconciling \<and> holds_lease c args)"
proof -
  have ok: "broker_ok st" using inv_ok [OF inv] by simp
  have "\<exists>t. provider_outcome sha st (failed_claim args code msg b (lease_attempt l) c) ClaimFailedEv
        (pa_occurredAt args) ex (failed_claim args code msg b (lease_attempt l) c) t"
    if "claim_of st (pa_claimId args) = Some c" "holds_lease c args" "lease c = Some l"
      "rx_test reasonCode_rx code" "is_safe_message msg" for c l ex
    using that broker_ok_claim [OF ok that(1)] holds_lease_facts [OF that(2)]
    by (intro provider_outcome_exists ok failed_claim_ok) blast+
  then show ?thesis unfolding fail_accepts using ok holds_lease_facts by blast
qed

lemma drift_succeeds:
  assumes inv: "broker_inv st"
  shows "(\<exists>t. reportResourceClaimDrift sha st e cid p verified ob occ = Inr t) \<longleftrightarrow>
    revision st = e \<and> is_identifier p \<and> verified \<and> is_digest ob \<and> is_timestamp occ \<and>
    (\<exists>c. claim_of st cid = Some c \<and> phase c = Available \<and> ob \<noteq> desiredStateDigest c)"
proof -
  have ok: "broker_ok st" using inv_ok [OF inv] by simp
  have "\<exists>t. provider_outcome sha st (drifted_claim ob occ c) ClaimDriftedEv occ ex (drifted_claim ob occ c) t"
    if "claim_of st cid = Some c" "phase c = Available" "is_digest ob" "is_timestamp occ" for c ex
    using that broker_ok_claim [OF ok that(1)]
    by (intro provider_outcome_exists ok drifted_claim_ok) blast+
  then show ?thesis unfolding drift_accepts using ok by blast
qed

lemma acknowledge_succeeds:
  assumes inv: "broker_inv st"
  shows "(\<exists>t. acknowledgeResourceClaimCancellation sha st e args ref = Inr t) \<longleftrightarrow>
    revision st = e \<and> is_reference [''evidence''] ref \<and>
    (\<exists>c. claim_of st (pa_claimId args) = Some c \<and> phase c = Cancelling \<and> holds_lease c args)"
proof -
  have ok: "broker_ok st" using inv_ok [OF inv] by simp
  have canc: "claim_of st cid = Some c \<Longrightarrow> phase c = Cancelling \<Longrightarrow> \<exists>k. cancellation c = Some k" for cid c
    using inv by (auto simp: broker_inv_def claim_inv_def dest!: claim_of_id)
  have "\<exists>t. provider_outcome sha st (acknowledged_claim ref k c) ClaimCancelledEv (pa_occurredAt args) ex
      (acknowledged_claim ref k c) t"
    if "claim_of st (pa_claimId args) = Some c" "holds_lease c args" "cancellation c = Some k"
      "is_reference [''evidence''] ref" for c k ex
    using that broker_ok_claim [OF ok that(1)] holds_lease_facts [OF that(2)]
    by (intro provider_outcome_exists ok acknowledged_claim_ok) blast+
  then show ?thesis unfolding acknowledge_accepts using ok canc by blast
qed

lemma complete_deletion_succeeds:
  assumes inv: "broker_inv st"
  shows "(\<exists>t. completeResourceClaimDeletion sha st e args ref = Inr t) \<longleftrightarrow>
    revision st = e \<and> is_reference [''evidence'', ''snapshot''] ref \<and>
    (\<exists>c d. claim_of st (pa_claimId args) = Some c \<and> phase c = Deleting \<and> holds_lease c args \<and>
       deletion c = Some d \<and> deletion_finalizationEvidenceRef d = ref)"
proof -
  have ok: "broker_ok st" using inv_ok [OF inv] by simp
  have "\<exists>t. provider_outcome sha st (deleted_claim c) ClaimDeletedEv (pa_occurredAt args) ex (deleted_claim c) t"
    if "claim_of st (pa_claimId args) = Some c" "holds_lease c args" for c ex
    using broker_ok_claim [OF ok that(1)] holds_lease_facts [OF that(2)]
    by (intro provider_outcome_exists ok deleted_claim_ok) blast+
  then show ?thesis unfolding complete_deletion_accepts using ok by blast
qed

end
