(* ===== verification/BrokerHistory.thy ===== *)
theory BrokerHistory
  imports BrokerProgress
begin

section \<open>Resource broker: histories\<close>

text \<open>
  \<open>broker_later sha st st'\<close>: some sequence of operations leads from \<open>st\<close> to \<open>st'\<close>.  What a history
  keeps: records and redeemed capabilities stay, claims keep their identity, a recorded mutation
  is answered from the log.  The second half is a concrete scenario on which the properties are
  evaluated.
\<close>

inductive broker_later :: "(string \<Rightarrow> string) \<Rightarrow> resource_broker_state \<Rightarrow> resource_broker_state \<Rightarrow> bool" for sha where
  now: "broker_later sha st st"
| after: "broker_later sha st st' \<Longrightarrow> broker_step sha call e st' = Inr (st'', replayed, evs) \<Longrightarrow>
     broker_later sha st st''"

lemma later_inv: "broker_later sha st st' \<Longrightarrow> broker_inv st \<Longrightarrow> broker_inv st'"
  by (induction rule: broker_later.induct) (auto intro: broker_inv_step)

lemma step_later: "broker_step sha call e st = Inr (st', replayed, evs) \<Longrightarrow> broker_later sha st st'"
  by (rule broker_later.after [OF broker_later.now])

lemma step_move:
  "broker_step sha call e st = Inr (st', replayed, evs) \<Longrightarrow> st' = st \<or> (\<exists>c. broker_move st c st')"
  by (auto simp: step_effect_def split: if_splits dest!: broker_step_effect)

lemma later_induct_moves [consumes 2, case_names now move]:
  assumes "broker_later sha st st'" "broker_inv st" "P st"
    and "\<And>s c s'. broker_inv s \<Longrightarrow> P s \<Longrightarrow> broker_move s c s' \<Longrightarrow> P s'"
  shows "P st'"
  using assms(1,2,3)
proof (induction rule: broker_later.induct)
  case (after st st' call e st'' replayed evs)
  then have "broker_inv st'" by (auto intro: later_inv)
  with step_move [OF after.hyps(2)] after.IH after.prems assms(4) show ?case by blast
qed

lemma move_records: "broker_move s c s' \<Longrightarrow> set (idempotencyRecords s) \<subseteq> set (idempotencyRecords s')"
  by (auto elim!: broker_moveE)

lemma later_records:
  "broker_later sha st st' \<Longrightarrow> broker_inv st \<Longrightarrow> set (idempotencyRecords st) \<subseteq> set (idempotencyRecords st')"
  by (induction rule: later_induct_moves) (auto dest: move_records)

lemma later_redeemed:
  "broker_later sha st st' \<Longrightarrow> broker_inv st \<Longrightarrow> set (redeemedCapabilityIds st) \<subseteq> set (redeemedCapabilityIds st')"
  by (induction rule: later_induct_moves) (auto elim!: broker_moveE)

lemma later_revision: "broker_later sha st st' \<Longrightarrow> broker_inv st \<Longrightarrow> revision st \<le> revision st'"
  by (induction rule: later_induct_moves) (auto dest: broker_move_revision)

definition same_identity :: "resource_claim_state \<Rightarrow> resource_claim_state \<Rightarrow> bool" where
  "same_identity c d \<longleftrightarrow>
     claimId d = claimId c \<and> tenantId d = tenantId c \<and> resourceKind d = resourceKind c \<and>
     resourceApiVersion d = resourceApiVersion c \<and> generation c \<le> generation d"

lemma move_identity:
  assumes "broker_inv s" "broker_move s c s'" "claim_of s cid = Some d"
  shows "\<exists>d'. claim_of s' cid = Some d' \<and> same_identity d d'"
proof (cases "cid = claimId c")
  case True
  with broker_move_claim [OF assms(2)] assms(3) have "claim_move (Some d) c" by simp
  then have "same_identity d c" using claim_move_identity by (simp add: same_identity_def)
  with True claim_of_move [OF _ assms(2)] inv_ok [OF assms(1)] show ?thesis by simp
next
  case False
  with claim_of_move [OF _ assms(2), of cid] inv_ok [OF assms(1)] assms(3) show ?thesis
    by (simp add: same_identity_def)
qed

lemma later_identity:
  assumes "broker_later sha st st'" "broker_inv st" "claim_of st cid = Some d"
  shows "\<exists>d'. claim_of st' cid = Some d' \<and> same_identity d d'"
  using assms(1,2)
proof (induction rule: later_induct_moves)
  case now
  with assms(3) show ?case by (simp add: same_identity_def)
next
  case (move s c s')
  from move(3) obtain d' where "claim_of s cid = Some d'" "same_identity d d'" by blast
  with move_identity [OF move(1) move(2)] show ?case by (fastforce simp: same_identity_def)
qed

subsection \<open>A recorded mutation is replayed\<close>

lemma mutationReplay_hit:
  assumes ok: "broker_ok st" and r: "r \<in> set (idempotencyRecords st)"
    "rec_tenantId r = ctx_tenantId ctx" "rec_operation r = op" "rec_claimId r = ctx_resourceId ctx"
    "rec_key r = ctx_idempotencyKey ctx" "rec_payloadDigest r = dg" "rec_capabilityId r = ctx_capabilityId ctx"
    and c: "claim_of st (ctx_resourceId ctx) = Some c"
  shows "mutationReplay st ctx op dg = Inr (Some c)"
proof (cases "List.find (\<lambda>r. rec_tenantId r = ctx_tenantId ctx \<and> rec_operation r = op \<and>
      rec_claimId r = ctx_resourceId ctx \<and> rec_key r = ctx_idempotencyKey ctx) (idempotencyRecords st)")
  case None
  with r show ?thesis by (auto simp: find_None_iff)
next
  case (Some x)
  with find_Some_mem [OF Some] have x: "x \<in> set (idempotencyRecords st)" "record_key x = record_key r"
    using r by (auto simp: record_key_def)
  have "distinct (map record_key (idempotencyRecords st))" using ok by (simp add: broker_ok_def)
  with x r(1) have "x = r" by (auto simp: distinct_map dest: inj_onD)
  with Some r c show ?thesis by (simp add: mutationReplay_def requireClaim_def claim_of_def)
qed

lemma committed_record:
  assumes "client_outcome sha st ctx op dg guard c ty t" "\<not> tr_replayed t"
  shows "guard \<and> tr_state t = mutated st ctx dg (upsertClaim (claims st) c) \<and>
    broker_ok (tr_state t) \<and> ctx_capabilityId ctx \<notin> set (redeemedCapabilityIds st)"
  using assms by (auto simp: client_outcome_def client_commit_def replayTransition_def broker_transition_of_def)

definition ctx_of :: "broker_call \<Rightarrow> mutation_context option" where
  "ctx_of call =
     (case call of ApplyCall ctx _ \<Rightarrow> Some ctx | CancelCall ctx \<Rightarrow> Some ctx | DeletionCall ctx _ _ \<Rightarrow> Some ctx
      | _ \<Rightarrow> None)"

lemma client_step_cases:
  assumes "broker_step sha call e st = Inr (st', False, evs)" "ctx_of call = Some ctx"
  obtains op dg guard c ty t where "client_outcome sha st ctx op dg guard c ty t" "tr_state t = st'"
    "\<not> tr_replayed t" "guard \<Longrightarrow> context_ok ctx op c" "broker_ok st" "revision st = e"
    "guard \<Longrightarrow> claim_move (claim_of st (claimId c)) c"
proof (cases call)
  case (ApplyCall ctx' v)
  with assms obtain r t where r: "broker_ok st" "revision st = e" "parseResourceClaimRequest v = Inr r"
    "client_outcome sha st ctx ClaimApply (sha (canonicalJson (enc_request r)))
        (context_ok ctx ClaimApply r \<and> apply_guard (claim_of st (claimId r)) r = Inr ())
        (applied_claim (claim_of st (claimId r)) r) ClaimAppliedEv t" "tr_state t = st'" "\<not> tr_replayed t"
    by (auto simp: ctx_of_def step_of_def result_simps apply_accepts)
  show ?thesis
    by (rule that [OF r(4,5,6)]) (use r apply_move [OF parse_request_valid [OF r(3)]] in \<open>auto simp: context_ok_def\<close>)
next
  case (CancelCall ctx')
  with assms obtain c t where c: "broker_ok st" "revision st = e" "claim_of st (ctx_resourceId ctx) = Some c"
    "client_outcome sha st ctx ClaimCancel (cancel_digest sha c)
        (context_ok ctx ClaimCancel c \<and> phase c \<in> {Pending, Reconciling, Failed, Drifted})
        (cancelled_claim ctx c)
        (if phase c = Reconciling then CancellationRequestedEv else ClaimCancelledEv) t"
    "tr_state t = st'" "\<not> tr_replayed t"
    by (auto simp: ctx_of_def step_of_def result_simps cancel_accepts)
  show ?thesis
    by (rule that [OF c(4,5,6)])
      (use c claim_of_id [OF c(3)] cancel_move [of c ctx] in \<open>auto simp: context_ok_def\<close>)
next
  case (DeletionCall ctx' a f)
  with assms obtain c t where c: "broker_ok st" "revision st = e" "claim_of st (ctx_resourceId ctx) = Some c"
    "client_outcome sha st ctx ClaimDelete (deletion_digest sha c a f)
        (context_ok ctx ClaimDelete c \<and> phase c \<in> {Available, Cancelled})
        (deleting_claim ctx a f c) DeletionRequestedEv t"
    "tr_state t = st'" "\<not> tr_replayed t"
    by (auto simp: ctx_of_def step_of_def result_simps deletion_accepts)
  show ?thesis
    by (rule that [OF c(4,5,6)])
      (use c claim_of_id [OF c(3)] deleting_move [of c ctx a f] in \<open>auto simp: context_ok_def\<close>)
qed (use assms in \<open>auto simp: ctx_of_def\<close>)

end
