(* ===== verification/BrokerExamples.thy ===== *)
theory BrokerExamples
  imports BrokerHistory
begin

section \<open>Resource broker: a concrete scenario\<close>

text \<open>
  Inputs on which the properties of the broker are evaluated: one claim in each of the phases that
  matter, the contexts and calls that act on it, and the last 64 hexadecimal characters of a text
  in the place of its SHA-256.
\<close>

definition ex_hex :: "char \<Rightarrow> bool" where
  "ex_hex c \<longleftrightarrow> in_range CHR ''a'' CHR ''f'' c \<or> is_digit c"

definition ex_sha :: "string \<Rightarrow> string" where
  "ex_sha s = take 64 (filter ex_hex (List.rev s) @ replicate 64 CHR ''0'')"

lemma ex_sha_ok: "sha_ok ex_sha"
proof -
  have z: "ex_hex CHR ''0''" by code_simp
  have "ex_hex c" if "c \<in> set (ex_sha x)" for c x
    using that z unfolding ex_sha_def by (auto dest!: in_set_takeD)
  moreover have "length (ex_sha x) = 64" for x
    unfolding ex_sha_def length_take by simp
  ultimately show ?thesis
    by (simp add: sha_ok_def is_digest_def digest_rx_def rx_test_times_cls list_all_iff ex_hex_def [abs_def])
qed

definition ex_t0 :: string where "ex_t0 = ''2026-01-01T00:00:00.000Z''"
definition ex_t1 :: string where "ex_t1 = ''2026-01-01T00:01:00.000Z''"
definition ex_t2 :: string where "ex_t2 = ''2026-01-01T00:02:00.000Z''"
definition ex_t3 :: string where "ex_t3 = ''2026-01-01T00:03:00.000Z''"
definition ex_a64 :: string where "ex_a64 = replicate 64 CHR ''a''"
definition ex_b64 :: string where "ex_b64 = replicate 64 CHR ''b''"

definition ex_request :: "int \<Rightarrow> resource_claim_request" where
  "ex_request gen =
     \<lparr>claimId = ''claim-1'', tenantId = ''tenant-1'', generation = gen, resourceKind = ''ManagedPostgres'',
      resourceApiVersion = ''catalog.example/postgres/v1alpha1'', desiredStateDigest = ex_a64,
      desiredStateRef = ''broker://desired/postgres-1'', requiredProviderCapabilities = [''postgres.managed''],
      maxReconcileAttempts = 2\<rparr>"

definition ex_pending :: resource_claim_state where
  "ex_pending = applied_claim None (ex_request 1)"

definition ex_the_lease :: "int \<Rightarrow> provider_lease" where
  "ex_the_lease n =
     \<lparr>lease_providerId = ''provider-1'', lease_generation = 1, lease_fenceToken = ex_b64, lease_attempt = n,
      lease_acquiredAt = ex_t0, lease_expiresAt = ex_t2\<rparr>"

definition ex_leased :: resource_claim_state where
  "ex_leased = leased_claim ex_pending (ex_the_lease 1)"

definition ex_out :: resource_broker_output where
  "ex_out = \<lparr>out_name = ''endpoint'', out_kind = OutReference, out_value = SStr ''provider://db/postgres-1''\<rparr>"

definition ex_available :: resource_claim_state where
  "ex_available = available_claim ''provider://db/1'' [ex_out] ex_leased"

definition ex_args :: "string \<Rightarrow> provider_args" where
  "ex_args at =
     \<lparr>pa_claimId = ''claim-1'', pa_providerId = ''provider-1'', pa_generation = 1, pa_fenceToken = ex_b64,
      pa_workloadIdentityVerified = True, pa_occurredAt = at\<rparr>"

definition ex_ctx :: "claim_op \<Rightarrow> mutation_context" where
  "ex_ctx op =
     \<lparr>ctx_actorId = ''actor-1'', ctx_tenantId = ''tenant-1'', ctx_operation = op, ctx_resourceId = ''claim-1'',
      ctx_capabilityId = ''cap-1'', ctx_capabilityVerified = True, ctx_idempotencyKey = ''key-1'',
      ctx_occurredAt = ex_t0\<rparr>"

definition ex_cancelling :: resource_claim_state where
  "ex_cancelling = cancelled_claim (ex_ctx ClaimCancel) ex_leased"

definition ex_state :: "resource_claim_state list \<Rightarrow> resource_broker_state" where
  "ex_state cs = \<lparr>revision = 3, claims = cs, idempotencyRecords = [], redeemedCapabilityIds = []\<rparr>"

lemmas ex_defs = ex_pending_def ex_leased_def ex_available_def ex_cancelling_def ex_request_def

lemma ex_request_valid: "valid_request (ex_request 1)" "valid_request (ex_request 2)"
  by code_simp+

lemma ex_parse: "parseResourceClaimRequest (enc_request (ex_request 1)) = Inr (ex_request 1)"
  using ex_request_valid by (simp add: parse_enc_request resource_claim_request.defs ex_request_def)

lemma ex_lease_valid: "valid_lease (ex_the_lease 1)" "valid_lease (ex_the_lease 2)"
  by code_simp+

lemma ex_out_valid: "valid_outputs [ex_out]"
  by code_simp

lemma ex_ref_valid: "is_reference [''provider''] ''provider://db/1''"
  by code_simp

lemma ex_ctx_ok: "context_ok (ex_ctx op) op ex_pending"
proof -
  have "is_identifier ''actor-1''" "is_identifier ''cap-1''" "is_identifier ''key-1''" "is_timestamp ex_t0"
    by code_simp+
  then show ?thesis by (simp add: context_ok_def ex_ctx_def ex_pending_def ex_request_def)
qed

lemma ex_pending_ok: "valid_claim ex_pending \<and> claim_consistent ex_pending"
  unfolding ex_pending_def using ex_request_valid
  by (intro applied_claim_ok) (simp_all add: accepts ex_request_def)

lemma ex_leased_ok: "valid_claim ex_leased \<and> claim_consistent ex_leased"
  unfolding ex_leased_def using ex_pending_ok ex_lease_valid by (intro leased_claim_ok) auto

lemma ex_ctx_ok_leased: "context_ok (ex_ctx op) op ex_leased"
  using ex_ctx_ok [of op] context_ok_claim [of ex_leased ex_pending]
  by (simp add: ex_leased_def leased_claim_def)

lemma ex_available_ok: "valid_claim ex_available \<and> claim_consistent ex_available"
  unfolding ex_available_def using ex_leased_ok ex_out_valid ex_ref_valid
  by (intro available_claim_ok) auto

lemma ex_cancelling_ok: "valid_claim ex_cancelling \<and> claim_consistent ex_cancelling"
  unfolding ex_cancelling_def using ex_leased_ok ex_ctx_ok_leased
  by (intro cancelled_claim_ok) (auto simp: ex_leased_def leased_claim_def ex_pending_def)

lemma ex_inv:
  assumes "valid_claim c \<and> claim_consistent c" "claim_inv c"
  shows "broker_inv (ex_state [c])"
  using assms by (simp add: broker_inv_def broker_ok_def ex_state_def)

lemma ex_empty_inv: "broker_inv (ex_state [])"
  by (simp add: broker_inv_def broker_ok_def ex_state_def)

lemma ex_claims_inv: "claim_inv ex_pending" "claim_inv ex_leased" "claim_inv ex_available" "claim_inv ex_cancelling"
  by (simp_all add: claim_inv_def ex_defs leased_claim_def available_claim_def cancelled_claim_def ex_the_lease_def)

lemma ex_states_inv:
  "broker_inv (ex_state [ex_pending])" "broker_inv (ex_state [ex_leased])"
  "broker_inv (ex_state [ex_available])" "broker_inv (ex_state [ex_cancelling])"
  by (intro ex_inv ex_pending_ok ex_leased_ok ex_available_ok ex_cancelling_ok ex_claims_inv)+

lemma ex_ids: "claimId ex_pending = ''claim-1''" "claimId ex_leased = ''claim-1''"
  "claimId ex_available = ''claim-1''" "claimId ex_cancelling = ''claim-1''"
  by (simp_all add: ex_defs)

lemma ex_claim_of: "claimId c = ''claim-1'' \<Longrightarrow> claim_of (ex_state [c]) ''claim-1'' = Some c"
  by (simp add: claim_of_def ex_state_def)

end
