(* ===== verification/BrokerProps.thy ===== *)
theory BrokerProps
  imports BrokerExamples
begin

section \<open>Resource broker: properties\<close>

text \<open>
  What the broker guarantees, each property with a concrete instance of its hypotheses.
\<close>

subsection \<open>Witness scenario\<close>

lemma ex_lease_call:
  "\<exists>st' evs. broker_step ex_sha (LeaseCall ''claim-1'' ''provider-1'' [''postgres.managed''] True ex_t0 (NInt 120)) 3
     (ex_state [ex_pending]) = Inr (st', False, evs)"
proof -
  have "\<exists>t. leaseResourceClaim ex_sha (ex_state [ex_pending]) 3 ''claim-1'' ''provider-1'' [''postgres.managed''] True
      ex_t0 (NInt 120) = Inr t"
  proof (subst lease_succeeds [OF ex_states_inv(1) ex_sha_ok])
    show "in_iso_range (time_ms ex_t0 + seconds_of (NInt 120) * 1000)" by code_simp
    have "is_identifier ''provider-1''" "is_timestamp ex_t0" "valid_duration (NInt 120)" by code_simp+
    moreover have "\<not> lease_active ex_pending (time_ms ex_t0)" "lease_eligible ex_pending"
      "next_attempt ex_pending \<le> maxReconcileAttempts ex_pending"
      "requiredProviderCapabilities ex_pending = [''postgres.managed'']"
      by (simp_all add: ex_defs lease_active_def lease_eligible_def next_attempt_def)
    ultimately show "revision (ex_state [ex_pending]) = 3 \<and> is_identifier ''provider-1'' \<and> True \<and>
        is_timestamp ex_t0 \<and> valid_duration (NInt 120) \<and>
        (\<exists>c. claim_of (ex_state [ex_pending]) ''claim-1'' = Some c \<and>
           set (requiredProviderCapabilities c) \<subseteq> set [''postgres.managed''] \<and>
           \<not> lease_active c (time_ms ex_t0) \<and> lease_eligible c \<and> next_attempt c \<le> maxReconcileAttempts c)"
      by (simp add: ex_claim_of ex_ids) (simp add: ex_state_def)
  qed
  then obtain t where t: "leaseResourceClaim ex_sha (ex_state [ex_pending]) 3 ''claim-1'' ''provider-1''
      [''postgres.managed''] True ex_t0 (NInt 120) = Inr t" by blast
  moreover have "\<not> tr_replayed t"
    using t by (auto simp: lease_accepts provider_outcome_def broker_transition_of_def)
  ultimately show ?thesis by (simp add: step_of_def)
qed

lemma ex_apply_call:
  "\<exists>t. applyResourceClaim ex_sha (ex_state []) 3 (ex_ctx ClaimApply) (enc_request (ex_request 1)) = Inr t \<and>
     \<not> tr_replayed t"
proof -
  have a: "unrecorded (ex_state []) (ex_ctx ClaimApply) ClaimApply" "claim_of (ex_state []) cid = None"
    "revision (ex_state []) = 3" "redeemedCapabilityIds (ex_state []) = []" "generation (ex_request 1) = 1" for cid
    by (simp_all add: unrecorded_def ex_state_def claim_of_def ex_request_def)
  have c: "context_ok (ex_ctx ClaimApply) ClaimApply (ex_request 1)"
    using ex_ctx_ok [of ClaimApply] by (simp add: ex_pending_def context_ok_def)
  obtain t where t: "applyResourceClaim ex_sha (ex_state []) 3 (ex_ctx ClaimApply) (enc_request (ex_request 1)) = Inr t"
    using apply_succeeds [OF ex_empty_inv ex_sha_ok, of 3 "ex_ctx ClaimApply" "enc_request (ex_request 1)"] a c
    by (auto simp: ex_parse accepts)
  moreover have "\<not> tr_replayed t"
    using t a(1) mutationReplay_None [of "ex_state []" "ex_ctx ClaimApply" ClaimApply]
    by (auto simp: apply_accepts client_outcome_def client_commit_def broker_transition_of_def)
  ultimately show ?thesis by blast
qed

lemma ex_apply_step:
  "\<exists>st' evs. broker_step ex_sha (ApplyCall (ex_ctx ClaimApply) (enc_request (ex_request 1))) 3 (ex_state []) =
     Inr (st', False, evs)"
proof -
  from ex_apply_call obtain t where
    "applyResourceClaim ex_sha (ex_state []) 3 (ex_ctx ClaimApply) (enc_request (ex_request 1)) = Inr t"
    "\<not> tr_replayed t" by blast
  then show ?thesis by (simp add: step_of_def)
qed

subsection \<open>Refinement\<close>

text \<open>C9: every operation of the broker that commits implements one step of the claim state
  machine: exactly one claim moves, every other claim is what it was, the revision was the
  expected one and advances by one, the committed state passes the program's own check, and
  exactly one event is emitted, for that claim at the new revision.\<close>

theorem broker_operation_refines:
  assumes "broker_step sha call e st = Inr (st', False, evs)"
  shows "\<exists>c ev. claim_move (claim_of st (claimId c)) c \<and>
    (\<forall>cid. claim_of st' cid = (if cid = claimId c then Some c else claim_of st cid)) \<and>
    revision st = e \<and> revision st' = e + 1 \<and> assertResourceBrokerState st' = Inr () \<and>
    evs = [ev] \<and> ev_revision ev = e + 1 \<and> ev_claimId ev = claimId c \<and> ev_tenantId ev = tenantId c"
proof -
  from broker_step_effect [OF assms] obtain c ev where *: "broker_ok st" "revision st = e" "broker_ok st'"
    "broker_move st c st'" "evs = [ev]" "ev_revision ev = revision st'" "ev_claimId ev = claimId c"
    "ev_tenantId ev = tenantId c"
    by (auto simp: step_effect_def)
  then show ?thesis
    using broker_move_claim [OF *(4)] claim_of_move [OF *(1,4)] broker_move_revision [OF *(4)]
    by (intro exI [of _ c] exI [of _ ev]) (simp add: assertResourceBrokerState_iff)
qed

theorem broker_operation_refines_witness:
  "\<exists>st' evs c. broker_step ex_sha
     (LeaseCall ''claim-1'' ''provider-1'' [''postgres.managed''] True ex_t0 (NInt 120)) 3
     (ex_state [ex_pending]) = Inr (st', False, evs) \<and>
     claim_of st' (claimId c) = Some c \<and> revision st' = 4"
proof -
  from ex_lease_call obtain st' evs where s: "broker_step ex_sha
     (LeaseCall ''claim-1'' ''provider-1'' [''postgres.managed''] True ex_t0 (NInt 120)) 3
     (ex_state [ex_pending]) = Inr (st', False, evs)" by blast
  from broker_operation_refines [OF this] s show ?thesis by auto
qed

subsection \<open>Reachable states\<close>

text \<open>C2: every state the broker reaches from the empty one satisfies the invariant (each claim
  valid, consistent with its phase and inside its attempt budget, claims sorted and unique, one
  redeemed capability per idempotency record, records in the order of their revisions), and the
  parser reads the state back unchanged from its JSON form.\<close>

theorem broker_reachable_sound:
  assumes "broker_reach sha st"
  shows "broker_inv st \<and> parseResourceBrokerState (enc_broker_state st) = Inr st"
  using broker_reach_inv [OF assms] inv_ok by (auto simp: parse_enc_broker_state)

theorem broker_reachable_sound_witness: "broker_inv createResourceBrokerState"
  using broker_reachable_sound [OF broker_reach.created] by simp

subsection \<open>Concurrency and replay\<close>

text \<open>of any sequence of requests that were all computed from the same revision, in whatever
  order they arrive, at most one commits.\<close>

theorem broker_one_winner:
  assumes "run_log (broker_run sha) rs st = (st', n)" and "\<forall>(c, e) \<in> set rs. e = expected"
  shows "n \<le> 1"
  using assms by (rule broker.one_winner)

theorem broker_one_winner_witness:
  "snd (run_log (broker_run ex_sha) [(CancelCall (ex_ctx ClaimCancel), 3), (CancelCall (ex_ctx ClaimCancel), 3)]
     (ex_state [ex_pending])) \<le> 1"
  by (rule broker_one_winner [where expected = 3 and sha = ex_sha, OF prod.collapse [symmetric]]) simp

text \<open>C27: once an apply has committed, submitting the same request again, at any later state of the
  broker, succeeds, changes nothing, emits no event and returns the claim as it then is.\<close>

theorem broker_apply_idempotent:
  assumes "broker_inv st" "applyResourceClaim sha st e ctx v = Inr t" "\<not> tr_replayed t"
    and later: "broker_later sha (tr_state t) st'"
  shows "\<exists>c. claim_of st' (ctx_resourceId ctx) = Some c \<and>
    applyResourceClaim sha st' (revision st') ctx v = Inr (replayTransition st' c)"
proof -
  from assms(2) obtain r where r: "parseResourceClaimRequest v = Inr r" and
    out: "client_outcome sha st ctx ClaimApply (sha (canonicalJson (enc_request r)))
        (context_ok ctx ClaimApply r \<and> apply_guard (claim_of st (claimId r)) r = Inr ())
        (applied_claim (claim_of st (claimId r)) r) ClaimAppliedEv t"
    unfolding apply_accepts by auto
  let ?dg = "sha (canonicalJson (enc_request r))"
  let ?r = "mutation_record ctx ?dg (revision st + 1)"
  note com = committed_record [OF out assms(3)]
  have inv1: "broker_inv (tr_state t)"
    using broker_inv_step [OF assms(1), of sha "ApplyCall ctx v" e] assms(2)
    by (auto simp: step_of_def)
  then have inv: "broker_inv st'" using later by (rule later_inv [rotated])
  have rec: "?r \<in> set (idempotencyRecords st')"
    using later_records [OF later inv1] com by auto
  then obtain c where c: "claim_of st' (ctx_resourceId ctx) = Some c"
    using inv by (fastforce simp: broker_inv_def)
  have "ctx_operation ctx = ClaimApply" using com by (simp add: context_ok_def)
  then have "mutationReplay st' ctx ClaimApply ?dg = Inr (Some c)"
    using mutationReplay_hit [OF _ rec, of ctx ClaimApply ?dg c] inv_ok [OF inv] c by simp
  with c r inv_ok [OF inv] show ?thesis by (auto simp: apply_accepts client_outcome_def)
qed

theorem broker_apply_idempotent_witness:
  "\<exists>t c. applyResourceClaim ex_sha (ex_state []) 3 (ex_ctx ClaimApply) (enc_request (ex_request 1)) = Inr t \<and>
     applyResourceClaim ex_sha (tr_state t) (revision (tr_state t)) (ex_ctx ClaimApply) (enc_request (ex_request 1)) =
       Inr (replayTransition (tr_state t) c)"
proof -
  from ex_apply_call obtain t where
    t: "applyResourceClaim ex_sha (ex_state []) 3 (ex_ctx ClaimApply) (enc_request (ex_request 1)) = Inr t"
      "\<not> tr_replayed t" by blast
  from broker_apply_idempotent [OF ex_empty_inv t broker_later.now] t show ?thesis by blast
qed

text \<open>C12: a capability authorises one committed mutation: once a client call has committed with it,
  no call that carries it commits again in any later state.\<close>

theorem broker_capability_once:
  assumes "broker_inv st" "broker_step sha call e st = Inr (st', False, evs)" "ctx_of call = Some ctx"
    and later: "broker_later sha st' st''"
    and again: "ctx_of call' = Some ctx'" "ctx_capabilityId ctx' = ctx_capabilityId ctx"
  shows "broker_step sha call' e' st'' \<noteq> Inr (st3, False, evs')"
proof
  assume step: "broker_step sha call' e' st'' = Inr (st3, False, evs')"
  from assms(2,3) obtain op dg guard c ty t where
    first: "client_outcome sha st ctx op dg guard c ty t" "tr_state t = st'" "\<not> tr_replayed t"
    by (rule client_step_cases)
  have "ctx_capabilityId ctx \<in> set (redeemedCapabilityIds st')"
    using committed_record [OF first(1,3)] first(2) by auto
  moreover have "broker_inv st'" using broker_inv_step [OF assms(1,2)] .
  ultimately have used: "ctx_capabilityId ctx \<in> set (redeemedCapabilityIds st'')"
    using later_redeemed [OF later] by blast
  from step again(1) obtain op dg guard c ty t where
    second: "client_outcome sha st'' ctx' op dg guard c ty t" "\<not> tr_replayed t"
    by (rule client_step_cases)
  show False using committed_record [OF second] used again(2) by simp
qed

theorem broker_capability_once_witness:
  "\<exists>st' evs. broker_step ex_sha (ApplyCall (ex_ctx ClaimApply) (enc_request (ex_request 1))) 3 (ex_state []) =
       Inr (st', False, evs) \<and>
     (\<forall>st3 evs'. broker_step ex_sha (CancelCall (ex_ctx ClaimCancel)) 4 st' \<noteq> Inr (st3, False, evs'))"
proof -
  from ex_apply_step obtain st' evs where
    s: "broker_step ex_sha (ApplyCall (ex_ctx ClaimApply) (enc_request (ex_request 1))) 3 (ex_state []) =
       Inr (st', False, evs)"
    by blast
  have "broker_step ex_sha (CancelCall (ex_ctx ClaimCancel)) 4 st' \<noteq> Inr (st3, False, evs')" for st3 evs'
    by (rule broker_capability_once [OF ex_empty_inv s, where ctx = "ex_ctx ClaimApply" and ctx' = "ex_ctx ClaimCancel"])
      (auto simp: ctx_of_def ex_ctx_def intro: broker_later.now)
  with s show ?thesis by blast
qed

subsection \<open>Isolation and fencing\<close>

text \<open>C22: a client call that commits was authorised for its operation, and the only claim it
  changes is the one its context names; that claim belongs to the context's tenant before and
  after the call.\<close>

theorem broker_tenant_isolation:
  assumes "broker_step sha call e st = Inr (st', False, evs)" "ctx_of call = Some ctx"
  shows "ctx_capabilityVerified ctx \<and>
    (\<forall>cid. claim_of st' cid \<noteq> claim_of st cid \<longrightarrow> cid = ctx_resourceId ctx) \<and>
    (\<exists>c. claim_of st' (ctx_resourceId ctx) = Some c \<and> tenantId c = ctx_tenantId ctx) \<and>
    (\<forall>c. claim_of st (ctx_resourceId ctx) = Some c \<longrightarrow> tenantId c = ctx_tenantId ctx)"
proof -
  from assms obtain op dg guard c ty t where out: "client_outcome sha st ctx op dg guard c ty t"
    "tr_state t = st'" "\<not> tr_replayed t" "guard \<Longrightarrow> context_ok ctx op c" "broker_ok st"
    "guard \<Longrightarrow> claim_move (claim_of st (claimId c)) c"
    by (blast elim: client_step_cases)
  have guard: "context_ok ctx op c" "claim_move (claim_of st (claimId c)) c"
    and st': "claims st' = upsertClaim (claims st) c"
    using committed_record [OF out(1,3)] out(2,4,6) by auto
  have "claim_of st' cid = (if cid = claimId c then Some c else claim_of st cid)" for cid
    by (simp add: claim_of_find st' claim_store.get_put broker_ok_distinct [OF out(5)])
  then show ?thesis
    using guard claim_move_tenant [OF guard(2)] by (auto simp: context_ok_def)
qed

theorem broker_tenant_isolation_witness:
  "\<exists>st' evs. broker_step ex_sha (ApplyCall (ex_ctx ClaimApply) (enc_request (ex_request 1))) 3 (ex_state []) =
       Inr (st', False, evs) \<and> claim_of st' ''other'' = claim_of (ex_state []) ''other''"
proof -
  from ex_apply_step obtain st' evs where
    s: "broker_step ex_sha (ApplyCall (ex_ctx ClaimApply) (enc_request (ex_request 1))) 3 (ex_state []) =
       Inr (st', False, evs)" by blast
  from broker_tenant_isolation [OF s, of "ex_ctx ClaimApply"] s show ?thesis
    by (auto simp: ctx_of_def ex_ctx_def)
qed

definition args_of :: "broker_call \<Rightarrow> provider_args option" where
  "args_of call =
     (case call of CompleteCall args _ _ _ \<Rightarrow> Some args | FailCall args _ _ _ \<Rightarrow> Some args
      | AcknowledgeCall args _ \<Rightarrow> Some args | CompleteDeletionCall args _ \<Rightarrow> Some args | _ \<Rightarrow> None)"

text \<open>C6: completing, failing, acknowledging a cancellation and completing a deletion are reserved
  to the holder of the claim's lease: any such call that succeeds came from a verified workload,
  carried the provider, generation and fence token of the lease the claim then had, and happened
  no later than the lease's expiry.\<close>

theorem broker_fencing:
  assumes "broker_step sha call e st = Inr (st', replayed, evs)" "args_of call = Some args"
  shows "\<exists>c l. claim_of st (pa_claimId args) = Some c \<and> lease c = Some l \<and>
    phase c \<in> {Reconciling, Cancelling, Deleting} \<and> pa_workloadIdentityVerified args \<and>
    lease_providerId l = pa_providerId args \<and> lease_fenceToken l = pa_fenceToken args \<and>
    lease_generation l = pa_generation args \<and> generation c = pa_generation args \<and>
    time_ms (pa_occurredAt args) \<le> time_ms (lease_expiresAt l)"
proof -
  have "\<exists>c. claim_of st (pa_claimId args) = Some c \<and> phase c \<in> {Reconciling, Cancelling, Deleting} \<and>
      holds_lease c args"
    using assms
    by (cases call)
      (auto simp: args_of_def step_of_def result_simps complete_accepts fail_accepts acknowledge_accepts
        complete_deletion_accepts)
  then show ?thesis unfolding holds_lease_def by blast
qed

lemma ex_holds: "holds_lease ex_leased (ex_args ex_t1)"
proof -
  have "is_identifier ''provider-1''" "is_timestamp ex_t1" "time_ms ex_t1 \<le> time_ms ex_t2" by code_simp+
  then show ?thesis
    by (simp add: holds_lease_def ex_args_def ex_leased_def leased_claim_def ex_the_lease_def ex_defs)
qed

lemma ex_complete_call:
  "\<exists>st' evs. broker_step ex_sha (CompleteCall (ex_args ex_t1) ex_a64 ''provider://db/1'' [ex_out]) 3
     (ex_state [ex_leased]) = Inr (st', False, evs)"
proof -
  have "is_digest ex_a64" by code_simp
  moreover have "phase ex_leased = Reconciling" "desiredStateDigest ex_leased = ex_a64"
    "revision (ex_state [ex_leased]) = 3" "pa_claimId (ex_args ex_t1) = ''claim-1''"
    by (simp_all add: ex_defs leased_claim_def ex_state_def ex_args_def)
  ultimately obtain t where t: "completeResourceClaim ex_sha (ex_state [ex_leased]) 3 (ex_args ex_t1) ex_a64
      ''provider://db/1'' [ex_out] = Inr t"
    using complete_succeeds [OF ex_states_inv(2), of ex_sha 3 "ex_args ex_t1" ex_a64 "''provider://db/1''" "[ex_out]"]
      ex_holds ex_out_valid ex_ref_valid ex_claim_of [OF ex_ids(2)] by auto
  moreover have "\<not> tr_replayed t"
    using t by (auto simp: complete_accepts provider_outcome_def broker_transition_of_def)
  ultimately show ?thesis by (simp add: step_of_def)
qed

theorem broker_fencing_witness:
  "\<exists>st' evs c l. broker_step ex_sha (CompleteCall (ex_args ex_t1) ex_a64 ''provider://db/1'' [ex_out]) 3
     (ex_state [ex_leased]) = Inr (st', False, evs) \<and>
     claim_of (ex_state [ex_leased]) ''claim-1'' = Some c \<and> lease c = Some l \<and> lease_fenceToken l = ex_b64"
proof -
  from ex_complete_call obtain st' evs where
    s: "broker_step ex_sha (CompleteCall (ex_args ex_t1) ex_a64 ''provider://db/1'' [ex_out]) 3
      (ex_state [ex_leased]) = Inr (st', False, evs)" by blast
  from broker_fencing [OF s, of "ex_args ex_t1"] s show ?thesis
    unfolding args_of_def ex_args_def by auto
qed

lemma last_number_inject:
  assumes "u @ '':'' @ int_dec m @ ''}'' = v @ '':'' @ int_dec n @ ''}''"
  shows "m = n"
proof -
  have dig: "takeWhile (\<lambda>c. c \<noteq> CHR '':'') (List.rev (int_dec i) @ CHR '':'' # w) = List.rev (int_dec i)" for i w
  proof (rule takeWhile_append2 [THEN trans])
    fix x assume "x \<in> set (List.rev (int_dec i))"
    then have "x = CHR ''-'' \<or> is_digit x"
      using nat_dec_digits by (auto simp: int_dec_def list_all_iff split: if_splits)
    then show "x \<noteq> CHR '':''" by (auto simp: is_digit_def less_eq_char_def)
  qed simp
  from assms have "List.rev (u @ CHR '':'' # int_dec m) = List.rev (v @ CHR '':'' # int_dec n)"
    by (intro arg_cong [of _ _ List.rev]) simp
  then have "List.rev (int_dec m) @ CHR '':'' # List.rev u = List.rev (int_dec n) @ CHR '':'' # List.rev v"
    by (simp only: rev_append rev.simps append_assoc append_Cons append_Nil)
  then have "List.rev (int_dec m) = List.rev (int_dec n)" using dig by metis
  then show ?thesis by simp
qed

lemma fence_key_order:
  "sort_by_locale fst
     [(''claimId'', a), (''generation'', b), (''providerId'', c), (''attempt'', d), (''revision'', e), (''occurredAt'', f)] =
   [(''attempt'', d), (''claimId'', a), (''generation'', b), (''occurredAt'', f), (''providerId'', c), (''revision'', e)]"
  for a b c d e f :: string
  by code_simp

lemma fence_text_ends: "\<exists>u. fence_text c p r occ = u @ '':'' @ int_dec r @ ''}''"
  unfolding fence_text_def
  by (simp add: fence_key_order comma_join_def json_num_def json_string_def json_escape_def)

text \<open>the texts whose hash is the fence token of a lease differ whenever the leases were granted
  at different revisions, so two grants share a token only if the hash collides on two texts the
  broker produced.\<close>

theorem fence_text_fresh:
  assumes "r \<noteq> r'"
  shows "fence_text c p r occ \<noteq> fence_text c' p' r' occ'"
  using fence_text_ends [of c p r occ] fence_text_ends [of c' p' r' occ'] last_number_inject assms by metis

theorem fence_text_fresh_witness:
  "fence_text ex_pending ''provider-1'' 4 ex_t0 \<noteq> fence_text ex_pending ''provider-1'' 5 ex_t0"
  by (rule fence_text_fresh) simp

end
