(* ===== verification/BrokerGuarantees.thy ===== *)
theory BrokerGuarantees
  imports BrokerProps
begin

section \<open>Resource broker: leases, phases and outputs\<close>

text \<open>
  What a lease excludes and when it is granted, which call may change a claim in which phase, what
  consumers may read, and the two situations in which the guards leave a claim without a way
  forward.
\<close>

subsection \<open>Which call may change a claim\<close>

definition call_target :: "broker_call \<Rightarrow> string \<Rightarrow> bool" where
  "call_target call cid =
     (case call of
        ApplyCall ctx v \<Rightarrow> ctx_resourceId ctx = cid
      | CancelCall ctx \<Rightarrow> ctx_resourceId ctx = cid
      | DeletionCall ctx a f \<Rightarrow> ctx_resourceId ctx = cid
      | LeaseCall k p caps b occ d \<Rightarrow> k = cid
      | CompleteCall args dg ref outs \<Rightarrow> pa_claimId args = cid
      | FailCall args code msg b \<Rightarrow> pa_claimId args = cid
      | DriftCall k p b dg occ \<Rightarrow> k = cid
      | AcknowledgeCall args ref \<Rightarrow> pa_claimId args = cid
      | CompleteDeletionCall args ref \<Rightarrow> pa_claimId args = cid)"

definition call_allowed :: "broker_call \<Rightarrow> resource_claim_state \<Rightarrow> bool" where
  "call_allowed call c =
     (case call of
        ApplyCall ctx v \<Rightarrow> phase c \<notin> {Reconciling, Cancelling, Deleting}
      | CancelCall ctx \<Rightarrow> phase c \<in> {Pending, Reconciling, Failed, Drifted}
      | DeletionCall ctx a f \<Rightarrow> phase c \<in> {Available, Cancelled}
      | LeaseCall k p caps b occ d \<Rightarrow>
          lease_eligible c \<and> \<not> lease_active c (time_ms occ) \<and> next_attempt c \<le> maxReconcileAttempts c
      | CompleteCall args dg ref outs \<Rightarrow> phase c = Reconciling \<and> holds_lease c args
      | FailCall args code msg b \<Rightarrow> phase c = Reconciling \<and> holds_lease c args
      | DriftCall k p b dg occ \<Rightarrow> phase c = Available
      | AcknowledgeCall args ref \<Rightarrow> phase c = Cancelling \<and> holds_lease c args
      | CompleteDeletionCall args ref \<Rightarrow> phase c = Deleting \<and> holds_lease c args)"

lemma client_touches:
  assumes "client_outcome sha st ctx op dg (context_ok ctx op c0 \<and> G) c' ty t" "tr_state t = st'"
    "\<not> tr_replayed t" "broker_ok st" "claimId c' = claimId c0" "claim_of st' cid \<noteq> claim_of st cid"
  shows "G \<and> ctx_resourceId ctx = cid \<and> claimId c0 = cid"
proof -
  have *: "context_ok ctx op c0" "G" "claims st' = upsertClaim (claims st) c'"
    using committed_record [OF assms(1,3)] assms(2) by auto
  then have "claim_of st' cid = (if cid = claimId c' then Some c' else claim_of st cid)"
    by (simp add: claim_of_find claim_store.get_put broker_ok_distinct [OF assms(4)])
  with * assms(5,6) show ?thesis by (auto simp: context_ok_def split: if_splits)
qed

lemma provider_stepI:
  "claim_of st k = Some c0 \<Longrightarrow> st' = advanced st c' \<Longrightarrow> claimId c' = claimId c0 \<Longrightarrow>
   call_allowed call c0 \<Longrightarrow> call_target call k \<Longrightarrow>
   \<exists>c0 c'. st' = advanced st c' \<and> claimId c' = claimId c0 \<and> claim_of st (claimId c0) = Some c0 \<and>
     call_allowed call c0 \<and> call_target call (claimId c0)"
  using claim_of_id by blast

lemma provider_step:
  assumes "broker_step sha call e st = Inr (st', False, evs)" "ctx_of call = None"
  shows "\<exists>c0 c'. st' = advanced st c' \<and> claimId c' = claimId c0 \<and> claim_of st (claimId c0) = Some c0 \<and>
    call_allowed call c0 \<and> call_target call (claimId c0)"
  using assms
  by (cases call)
    (auto simp: ctx_of_def step_of_def result_simps lease_accepts complete_accepts fail_accepts drift_accepts
      acknowledge_accepts complete_deletion_accepts provider_outcome_def broker_transition_of_def,
     (rule provider_stepI [OF _ refl], assumption, simp, simp add: call_allowed_def, simp add: call_target_def)+)

lemma step_guard:
  assumes step: "broker_step sha call e st = Inr (st', False, evs)" and c: "claim_of st cid = Some c"
    and changed: "claim_of st' cid \<noteq> Some c"
  shows "call_target call cid \<and> call_allowed call c"
proof -
  from step have ok: "broker_ok st" using broker_step_effect by (auto simp: step_effect_def)
  from changed c have ch: "claim_of st' cid \<noteq> claim_of st cid" by simp
  have provider: "call_target call cid \<and> call_allowed call c" if "ctx_of call = None"
  proof -
    from provider_step [OF step that] obtain c0 c' where p: "st' = advanced st c'" "claimId c' = claimId c0"
      "claim_of st (claimId c0) = Some c0" "call_allowed call c0" "call_target call (claimId c0)" by blast
    have "claim_of st' cid = (if cid = claimId c' then Some c' else claim_of st cid)"
      by (simp add: p(1) claim_of_find claim_store.get_put broker_ok_distinct [OF ok])
    with ch p(2) have "cid = claimId c0" by (auto split: if_splits)
    with p c show ?thesis by simp
  qed
  show ?thesis
  proof (cases call)
    case (ApplyCall ctx v)
    with step obtain r t where r: "client_outcome sha st ctx ClaimApply (sha (canonicalJson (enc_request r)))
        (context_ok ctx ClaimApply r \<and> apply_guard (claim_of st (claimId r)) r = Inr ())
        (applied_claim (claim_of st (claimId r)) r) ClaimAppliedEv t" "tr_state t = st'" "\<not> tr_replayed t"
      by (auto simp: step_of_def result_simps apply_accepts)
    have "claimId (applied_claim (claim_of st (claimId r)) r) = claimId r" by simp
    from client_touches [OF r ok this ch] c ApplyCall show ?thesis
      by (auto simp: call_target_def call_allowed_def accepts)
  next
    case (CancelCall ctx)
    with step obtain c0 t where r: "claim_of st (ctx_resourceId ctx) = Some c0"
      "client_outcome sha st ctx ClaimCancel (cancel_digest sha c0)
        (context_ok ctx ClaimCancel c0 \<and> phase c0 \<in> {Pending, Reconciling, Failed, Drifted})
        (cancelled_claim ctx c0)
        (if phase c0 = Reconciling then CancellationRequestedEv else ClaimCancelledEv) t"
      "tr_state t = st'" "\<not> tr_replayed t"
      by (auto simp: step_of_def result_simps cancel_accepts)
    from client_touches [OF r(2-4) ok _ ch] r(1) c CancelCall show ?thesis
      by (auto simp: call_target_def call_allowed_def)
  next
    case (DeletionCall ctx a f)
    with step obtain c0 t where r: "claim_of st (ctx_resourceId ctx) = Some c0"
      "client_outcome sha st ctx ClaimDelete (deletion_digest sha c0 a f)
        (context_ok ctx ClaimDelete c0 \<and> phase c0 \<in> {Available, Cancelled})
        (deleting_claim ctx a f c0) DeletionRequestedEv t"
      "tr_state t = st'" "\<not> tr_replayed t"
      by (auto simp: step_of_def result_simps deletion_accepts)
    from client_touches [OF r(2-4) ok _ ch] r(1) c DeletionCall show ?thesis
      by (auto simp: call_target_def call_allowed_def)
  qed (rule provider, simp add: ctx_of_def)+
qed

text \<open>the phase of a claim decides which calls may change it: a claim is changed only by a call
  that names it and that the state machine allows in the claim's phase, with a free lease and a
  remaining attempt for a new lease, and with the lease's holder for a provider's report.\<close>

theorem broker_phase_guard:
  assumes "broker_step sha call e st = Inr (st', False, evs)" "claim_of st cid = Some c"
    "claim_of st' cid \<noteq> Some c"
  shows "call_target call cid \<and> call_allowed call c"
  using assms by (rule step_guard)

lemma ex_complete_changes:
  "\<exists>st' evs. broker_step ex_sha (CompleteCall (ex_args ex_t1) ex_a64 ''provider://db/1'' [ex_out]) 3
     (ex_state [ex_leased]) = Inr (st', False, evs) \<and> claim_of st' ''claim-1'' \<noteq> Some ex_leased"
proof -
  from ex_complete_call obtain st' evs where
    s: "broker_step ex_sha (CompleteCall (ex_args ex_t1) ex_a64 ''provider://db/1'' [ex_out]) 3
      (ex_state [ex_leased]) = Inr (st', False, evs)" by blast
  then have "st' = advanced (ex_state [ex_leased]) (available_claim ''provider://db/1'' [ex_out] ex_leased)"
    using ex_claim_of [OF ex_ids(2)]
    by (auto simp: step_of_def result_simps complete_accepts provider_outcome_def broker_transition_of_def ex_args_def)
  then have "claim_of st' ''claim-1'' = Some (available_claim ''provider://db/1'' [ex_out] ex_leased)"
    using broker_ok_distinct inv_ok [OF ex_states_inv(2)] ex_ids(2)
    by (simp add: claim_of_find claim_store.get_put)
  moreover have "phase (available_claim ''provider://db/1'' [ex_out] ex_leased) \<noteq> phase ex_leased"
    by (simp add: available_claim_def ex_leased_def leased_claim_def ex_pending_def)
  ultimately have "claim_of st' ''claim-1'' \<noteq> Some ex_leased" by auto
  with s show ?thesis by blast
qed

theorem broker_phase_guard_witness:
  "\<exists>st' evs. broker_step ex_sha (CompleteCall (ex_args ex_t1) ex_a64 ''provider://db/1'' [ex_out]) 3
     (ex_state [ex_leased]) = Inr (st', False, evs) \<and>
   call_allowed (CompleteCall (ex_args ex_t1) ex_a64 ''provider://db/1'' [ex_out]) ex_leased"
proof -
  from ex_complete_changes obtain st' evs where
    s: "broker_step ex_sha (CompleteCall (ex_args ex_t1) ex_a64 ''provider://db/1'' [ex_out]) 3
      (ex_state [ex_leased]) = Inr (st', False, evs)" "claim_of st' ''claim-1'' \<noteq> Some ex_leased" by blast
  from broker_phase_guard [OF s(1) ex_claim_of [OF ex_ids(2)] s(2)] s(1) show ?thesis by blast
qed

subsection \<open>Leases\<close>

text \<open>a lease is granted exactly when the claim exists, is eligible in its phase, has no lease in
  force at that time and an attempt left, and the caller is a verified provider with every required
  capability asking for 1 to 900 whole seconds at a valid time; on a state of the invariant no
  other check of the operation can refuse it.\<close>

theorem broker_lease_granted_iff:
  assumes "broker_inv st" "sha_ok sha" "in_iso_range (time_ms occ + seconds_of d * 1000)"
  shows "(\<exists>t. leaseResourceClaim sha st e cid p caps verified occ d = Inr t) \<longleftrightarrow>
    revision st = e \<and> is_identifier p \<and> verified \<and> is_timestamp occ \<and> valid_duration d \<and>
    (\<exists>c. claim_of st cid = Some c \<and> set (requiredProviderCapabilities c) \<subseteq> set caps \<and>
       \<not> lease_active c (time_ms occ) \<and> lease_eligible c \<and> next_attempt c \<le> maxReconcileAttempts c)"
  using assms by (rule lease_succeeds)

theorem broker_lease_granted_iff_witness:
  "\<not> (\<exists>t. leaseResourceClaim ex_sha (ex_state [ex_leased]) 3 ''claim-1'' ''provider-2'' [''postgres.managed''] True
      ex_t1 (NInt 60) = Inr t)"
proof -
  have r: "in_iso_range (time_ms ex_t1 + seconds_of (NInt 60) * 1000)" "time_ms ex_t1 < time_ms ex_t2" by code_simp+
  have "lease_active ex_leased (time_ms ex_t1)"
    using r by (simp add: ex_leased_def leased_claim_def lease_active_def ex_the_lease_def)
  then show ?thesis
    using broker_lease_granted_iff [OF ex_states_inv(2) ex_sha_ok r(1)] ex_claim_of [OF ex_ids(2)] by simp
qed

text \<open>C32: a granted lease is the claim's lease, runs for exactly the requested number of seconds (1 to
  900) from its acquisition, uses one attempt of the claim's budget, and excludes any other lease
  on the claim until it has expired, whoever asks and whatever the arguments.\<close>

theorem broker_lease_exclusive:
  assumes "leaseResourceClaim sha st e cid p caps verified occ d = Inr t"
    and "in_iso_range (time_ms occ + seconds_of d * 1000)"
  shows "\<exists>c. claim_of (tr_state t) cid = Some c \<and> lease c = Some (tr_result t) \<and>
    lease_providerId (tr_result t) = p \<and>
    time_ms (lease_expiresAt (tr_result t)) = time_ms occ + seconds_of d * 1000 \<and>
    1 \<le> seconds_of d \<and> seconds_of d \<le> 900 \<and> lease_attempt (tr_result t) \<le> maxReconcileAttempts c \<and>
    (\<forall>e' p' caps' b' occ' d' t'. time_ms occ' < time_ms occ + seconds_of d * 1000 \<longrightarrow>
       leaseResourceClaim sha (tr_state t) e' cid p' caps' b' occ' d' \<noteq> Inr t')"
proof -
  let ?l = "\<lambda>c. new_lease sha st c p occ (seconds_of d)"
  from assms(1) obtain c where c: "broker_ok st" "claim_of st cid = Some c" "valid_duration d"
    "next_attempt c \<le> maxReconcileAttempts c" "tr_state t = advanced st (leased_claim c (?l c))" "tr_result t = ?l c"
    by (auto simp: lease_accepts provider_outcome_def broker_transition_of_def)
  have l: "lease_providerId (?l c) = p" "lease_attempt (?l c) = next_attempt c"
    "time_ms (lease_expiresAt (?l c)) = time_ms occ + seconds_of d * 1000"
    using assms(2) by (simp_all add: new_lease_def time_ms_toISOString)
  have now: "claim_of (tr_state t) cid = Some (leased_claim c (?l c))"
    using claim_of_id [OF c(2)] broker_ok_distinct [OF c(1)]
    by (simp add: c(5) claim_of_find claim_store.get_put)
  have d: "1 \<le> seconds_of d" "seconds_of d \<le> 900"
    using c(3) by (auto simp: valid_duration_def seconds_of_def split: jsnum.splits)
  have "leaseResourceClaim sha (tr_state t) e' cid p' caps' b' occ' d' \<noteq> Inr t'"
    if "time_ms occ' < time_ms occ + seconds_of d * 1000" for e' p' caps' b' occ' d' t'
    using that now l(3) unfolding lease_accepts by (auto simp: lease_active_def leased_claim_def)
  with now l d c(4,6) show ?thesis by (auto simp: leased_claim_def)
qed

theorem broker_lease_exclusive_witness:
  "\<exists>t. leaseResourceClaim ex_sha (ex_state [ex_pending]) 3 ''claim-1'' ''provider-1'' [''postgres.managed''] True
      ex_t0 (NInt 120) = Inr t \<and> lease_providerId (tr_result t) = ''provider-1'' \<and>
     (\<forall>t'. leaseResourceClaim ex_sha (tr_state t) 4 ''claim-1'' ''provider-2'' [''postgres.managed''] True
        ex_t1 (NInt 60) \<noteq> Inr t')"
proof -
  from ex_lease_call obtain t where t: "leaseResourceClaim ex_sha (ex_state [ex_pending]) 3 ''claim-1''
      ''provider-1'' [''postgres.managed''] True ex_t0 (NInt 120) = Inr t"
    by (auto simp: step_of_def result_simps)
  have r: "in_iso_range (time_ms ex_t0 + seconds_of (NInt 120) * 1000)"
    "time_ms ex_t1 < time_ms ex_t0 + seconds_of (NInt 120) * 1000" by code_simp+
  from broker_lease_exclusive [OF t r(1)] t r(2) show ?thesis by blast
qed

subsection \<open>What consumers read\<close>

lemma provisioning_steps:
  assumes inv: "broker_inv st" and sha: "sha_ok sha" and c: "claim_of st cid = Some c" "phase c = Pending"
    and p: "is_identifier p" "set (requiredProviderCapabilities c) \<subseteq> set caps" "is_timestamp occ"
      "valid_duration d" "in_iso_range (time_ms occ + seconds_of d * 1000)"
    and fin: "is_timestamp occ'" "time_ms occ' \<le> time_ms occ + seconds_of d * 1000"
      "valid_outputs outs" "outs \<noteq> []" "is_reference [''provider''] ref"
  shows "\<exists>t t'. leaseResourceClaim sha st (revision st) cid p caps True occ d = Inr t \<and>
    completeResourceClaim sha (tr_state t) (revision st + 1)
      \<lparr>pa_claimId = cid, pa_providerId = p, pa_generation = generation c,
       pa_fenceToken = lease_fenceToken (tr_result t), pa_workloadIdentityVerified = True, pa_occurredAt = occ'\<rparr>
      (desiredStateDigest c) ref outs = Inr t' \<and>
    claim_of (tr_state t') cid = Some (tr_result t') \<and> phase (tr_result t') = Available \<and>
    observedGeneration (tr_result t') = generation c \<and> outputs (tr_result t') = outs"
proof -
  let ?l = "new_lease sha st c p occ (seconds_of d)"
  let ?c = "leased_claim c ?l"
  let ?args = "\<lparr>pa_claimId = cid, pa_providerId = p, pa_generation = generation c,
       pa_fenceToken = lease_fenceToken ?l, pa_workloadIdentityVerified = True, pa_occurredAt = occ'\<rparr>"
  have "claim_consistent c" "claim_inv c" "valid_claim c"
    using inv c(1) by (auto simp: broker_inv_def broker_ok_def dest: claim_of_id)
  then have c': "lease c = None" "failure c = None" "1 \<le> maxReconcileAttempts c" "is_digest (desiredStateDigest c)"
    using c(2) by (auto simp: claim_consistent_def claim_inv_def valid_claim_def valid_request_def)
  then have "lease_eligible c" "\<not> lease_active c (time_ms occ)" "next_attempt c \<le> maxReconcileAttempts c"
    using c(2) by (simp_all add: lease_eligible_def lease_active_def next_attempt_def)
  then obtain t where t: "leaseResourceClaim sha st (revision st) cid p caps True occ d = Inr t"
    using lease_succeeds [OF inv sha p(5), of "revision st" cid p caps True] c p by blast
  then have ts: "tr_state t = advanced st ?c" "tr_result t = ?l"
    using c by (auto simp: lease_accepts provider_outcome_def broker_transition_of_def)
  have inv': "broker_inv (tr_state t)"
    using broker_inv_step [OF inv, of sha "LeaseCall cid p caps True occ d" "revision st"] t
    by (auto simp: step_of_def)
  have cid: "claimId c = cid" using claim_of_id [OF c(1)] by simp
  have now: "claim_of (tr_state t) cid = Some ?c"
    using broker_ok_distinct inv_ok [OF inv] cid
    by (simp add: ts claim_of_find claim_store.get_put)
  have held: "holds_lease ?c ?args"
    using fin(1,2) p(1,5) by (auto simp: holds_lease_def leased_claim_def new_lease_def time_ms_toISOString)
  have "\<exists>t'. completeResourceClaim sha (tr_state t) (revision st + 1) ?args (desiredStateDigest c) ref outs = Inr t'"
    using complete_succeeds [OF inv', of sha "revision st + 1" ?args "desiredStateDigest c" ref outs]
      held now fin(3-5) c(2) c'(4) ts by (simp add: leased_claim_def)
  then obtain t' where t': "completeResourceClaim sha (tr_state t) (revision st + 1) ?args (desiredStateDigest c) ref outs = Inr t'"
    by blast
  then have "tr_result t' = available_claim ref outs ?c" "tr_state t' = advanced (tr_state t) (available_claim ref outs ?c)"
    using now by (auto simp: complete_accepts provider_outcome_def broker_transition_of_def)
  moreover have "claim_of (advanced (tr_state t) (available_claim ref outs ?c)) cid = Some (available_claim ref outs ?c)"
    using broker_ok_distinct inv_ok [OF inv'] cid
    by (simp add: claim_of_find claim_store.get_put)
  ultimately show ?thesis
    using t t' ts(2) by (intro exI [of _ t] exI [of _ t']) (simp add: available_claim_def leased_claim_def)
qed

lemma ex_apply_created:
  "\<exists>t. applyResourceClaim ex_sha createResourceBrokerState 0 (ex_ctx ClaimApply) (enc_request (ex_request 1)) = Inr t \<and>
     claim_of (tr_state t) ''claim-1'' = Some ex_pending"
proof -
  let ?s = createResourceBrokerState
  have a: "unrecorded ?s (ex_ctx ClaimApply) ClaimApply" "claim_of ?s cid = None"
    "revision ?s = 0" "redeemedCapabilityIds ?s = []" "generation (ex_request 1) = 1" for cid
    by (simp_all add: unrecorded_def createResourceBrokerState_def claim_of_def ex_request_def)
  have c: "context_ok (ex_ctx ClaimApply) ClaimApply (ex_request 1)"
    using ex_ctx_ok [of ClaimApply] by (simp add: ex_pending_def context_ok_def)
  obtain t where t: "applyResourceClaim ex_sha ?s 0 (ex_ctx ClaimApply) (enc_request (ex_request 1)) = Inr t"
    using apply_succeeds [OF broker_inv_created ex_sha_ok, of 0 "ex_ctx ClaimApply" "enc_request (ex_request 1)"] a c
    by (auto simp: ex_parse accepts)
  have "claims (tr_state t) = upsertClaim (claims ?s) ex_pending"
    using t a mutationReplay_None [of ?s "ex_ctx ClaimApply" ClaimApply]
    by (auto simp: apply_accepts client_outcome_def client_commit_def broker_transition_of_def ex_parse ex_pending_def)
  then have "claim_of (tr_state t) ''claim-1'' = Some ex_pending"
    by (simp add: claim_of_find createResourceBrokerState_def claim_store.get_put ex_ids)
  with t show ?thesis by blast
qed

lemma ex_reach_available:
  "\<exists>st c. broker_reach ex_sha st \<and> claim_of st ''claim-1'' = Some c \<and> outputs c = [ex_out]"
proof -
  from ex_apply_created obtain t where
    t: "applyResourceClaim ex_sha createResourceBrokerState 0 (ex_ctx ClaimApply) (enc_request (ex_request 1)) = Inr t"
      "claim_of (tr_state t) ''claim-1'' = Some ex_pending" by blast
  have r1: "broker_reach ex_sha (tr_state t)"
    by (rule broker_reach.stepped [OF broker_reach.created, of ex_sha "ApplyCall (ex_ctx ClaimApply) (enc_request (ex_request 1))" 0])
      (simp add: step_of_def t(1))
  have r: "is_identifier ''provider-1''" "is_timestamp ex_t0" "valid_duration (NInt 120)"
    "in_iso_range (time_ms ex_t0 + seconds_of (NInt 120) * 1000)" "is_timestamp ex_t1"
    "time_ms ex_t1 \<le> time_ms ex_t0 + seconds_of (NInt 120) * 1000" by code_simp+
  have p: "phase ex_pending = Pending" "set (requiredProviderCapabilities ex_pending) \<subseteq> set [''postgres.managed'']"
    by (simp_all add: ex_defs)
  from provisioning_steps [OF broker_reach_inv [OF r1] ex_sha_ok t(2) p(1) r(1) p(2) r(2,3,4,5,6) ex_out_valid _ ex_ref_valid]
  obtain t1 t2 args where
    l: "leaseResourceClaim ex_sha (tr_state t) (revision (tr_state t)) ''claim-1'' ''provider-1'' [''postgres.managed''] True
        ex_t0 (NInt 120) = Inr t1"
    and d: "completeResourceClaim ex_sha (tr_state t1) (revision (tr_state t) + 1) args (desiredStateDigest ex_pending)
        ''provider://db/1'' [ex_out] = Inr t2" "claim_of (tr_state t2) ''claim-1'' = Some (tr_result t2)"
      "outputs (tr_result t2) = [ex_out]" by blast
  have r2: "broker_reach ex_sha (tr_state t1)"
    by (rule broker_reach.stepped [OF r1, of "LeaseCall ''claim-1'' ''provider-1'' [''postgres.managed''] True ex_t0 (NInt 120)"
            "revision (tr_state t)"])
      (simp add: step_of_def l)
  have "broker_reach ex_sha (tr_state t2)"
    by (rule broker_reach.stepped [OF r2, of "CompleteCall args (desiredStateDigest ex_pending) ''provider://db/1'' [ex_out]"
            "revision (tr_state t) + 1"])
      (simp add: step_of_def d(1))
  with d show ?thesis by blast
qed

text \<open>in every reachable state a claim shows outputs only while it is available, and then a
  provider has reported exactly the current generation, a provider resource is recorded, and no
  lease, failure or drift is left.\<close>

theorem broker_outputs_only_available:
  assumes "broker_reach sha st" "c \<in> set (claims st)" "outputs c \<noteq> []"
  shows "phase c = Available \<and> observedGeneration c = generation c \<and> providerResourceRef c \<noteq> None \<and>
    lease c = None \<and> failure c = None"
proof -
  have "broker_inv st" using assms(1) by (rule broker_reach_inv)
  with assms(2) have "claim_inv c" "claim_consistent c" by (auto simp: broker_inv_def broker_ok_def)
  with assms(3) show ?thesis by (auto simp: claim_inv_def claim_consistent_def)
qed

theorem broker_outputs_only_available_witness:
  "\<exists>st c. broker_reach ex_sha st \<and> c \<in> set (claims st) \<and> outputs c = [ex_out] \<and> phase c = Available"
proof -
  from ex_reach_available obtain st c where r: "broker_reach ex_sha st" "claim_of st ''claim-1'' = Some c"
    "outputs c = [ex_out]" by blast
  from broker_outputs_only_available [OF r(1), of c] claim_of_id [OF r(2)] r show ?thesis by auto
qed

text \<open>a pending claim can always be provisioned: a verified provider with the required
  capabilities obtains a lease, and reporting the desired state under that lease before it expires
  makes the claim available with the reported outputs for its current generation.\<close>

theorem broker_provisioning:
  assumes "broker_inv st" "sha_ok sha" "claim_of st cid = Some c" "phase c = Pending"
    and "is_identifier p" "set (requiredProviderCapabilities c) \<subseteq> set caps" "is_timestamp occ"
      "valid_duration d" "in_iso_range (time_ms occ + seconds_of d * 1000)"
    and "is_timestamp occ'" "time_ms occ' \<le> time_ms occ + seconds_of d * 1000"
      "valid_outputs outs" "outs \<noteq> []" "is_reference [''provider''] ref"
  shows "\<exists>t t'. leaseResourceClaim sha st (revision st) cid p caps True occ d = Inr t \<and>
    completeResourceClaim sha (tr_state t) (revision st + 1)
      \<lparr>pa_claimId = cid, pa_providerId = p, pa_generation = generation c,
       pa_fenceToken = lease_fenceToken (tr_result t), pa_workloadIdentityVerified = True, pa_occurredAt = occ'\<rparr>
      (desiredStateDigest c) ref outs = Inr t' \<and>
    claim_of (tr_state t') cid = Some (tr_result t') \<and> phase (tr_result t') = Available \<and>
    observedGeneration (tr_result t') = generation c \<and> outputs (tr_result t') = outs"
  using assms by (rule provisioning_steps)

theorem broker_provisioning_witness:
  "\<exists>t t' args. leaseResourceClaim ex_sha (ex_state [ex_pending]) 3 ''claim-1'' ''provider-1'' [''postgres.managed''] True
      ex_t0 (NInt 120) = Inr t \<and>
     completeResourceClaim ex_sha (tr_state t) 4 args (desiredStateDigest ex_pending) ''provider://db/1'' [ex_out] = Inr t' \<and>
     phase (tr_result t') = Available \<and>
     claim_of (tr_state t') ''claim-1'' = Some (tr_result t') \<and> outputs (tr_result t') = [ex_out]"
proof -
  have r: "is_identifier ''provider-1''" "is_timestamp ex_t0" "valid_duration (NInt 120)"
    "in_iso_range (time_ms ex_t0 + seconds_of (NInt 120) * 1000)" "is_timestamp ex_t1"
    "time_ms ex_t1 \<le> time_ms ex_t0 + seconds_of (NInt 120) * 1000" by code_simp+
  have p: "phase ex_pending = Pending" "set (requiredProviderCapabilities ex_pending) \<subseteq> set [''postgres.managed'']"
    "revision (ex_state [ex_pending]) = 3"
    by (simp_all add: ex_defs ex_state_def)
  from broker_provisioning [OF ex_states_inv(1) ex_sha_ok ex_claim_of [OF ex_ids(1)] p(1) r(1) p(2) r(2,3,4,5,6)
      ex_out_valid _ ex_ref_valid] p(3)
  show ?thesis by auto
qed

subsection \<open>Claims without a way forward\<close>

text \<open>a claim whose cancellation was requested is left only by the lease holder's acknowledgement
  before the lease expires: after the expiry no operation changes it again, since a new lease,
  a second cancellation, a deletion and an update are all refused in that phase.\<close>

theorem broker_cancelling_exit:
  assumes "broker_step sha call e st = Inr (st', replayed, evs)" "claim_of st cid = Some c" "phase c = Cancelling"
    and "lease c = Some l" "claim_of st' cid \<noteq> Some c"
  shows "\<exists>args ref. call = AcknowledgeCall args ref \<and> pa_claimId args = cid \<and>
    lease_fenceToken l = pa_fenceToken args \<and> time_ms (pa_occurredAt args) \<le> time_ms (lease_expiresAt l)"
proof -
  have "\<not> replayed" using broker_step_effect [OF assms(1)] assms(2,5) by (auto simp: step_effect_def)
  with step_guard [of sha call e st st' evs cid c] assms
  have "call_target call cid" "call_allowed call c" by auto
  with assms(3,4) show ?thesis
    by (cases call) (auto simp: call_target_def call_allowed_def lease_eligible_def holds_lease_def)
qed

lemma ex_acknowledge_call:
  "\<exists>st' evs. broker_step ex_sha (AcknowledgeCall (ex_args ex_t1) ''evidence://cleanup/1'') 3 (ex_state [ex_cancelling]) =
     Inr (st', False, evs) \<and> claim_of st' ''claim-1'' \<noteq> Some ex_cancelling"
proof -
  have r: "is_reference [''evidence''] ''evidence://cleanup/1''" by code_simp
  have c: "phase ex_cancelling = Cancelling" "revision (ex_state [ex_cancelling]) = 3" "pa_claimId (ex_args ex_t1) = ''claim-1''"
    by (simp_all add: ex_cancelling_def ex_leased_def cancelled_claim_def leased_claim_def ex_pending_def ex_state_def ex_args_def)
  have h: "holds_lease ex_cancelling (ex_args ex_t1)"
    using ex_holds by (simp add: holds_lease_def ex_cancelling_def cancelled_claim_def ex_leased_def leased_claim_def ex_pending_def)
  obtain t where t: "acknowledgeResourceClaimCancellation ex_sha (ex_state [ex_cancelling]) 3 (ex_args ex_t1)
      ''evidence://cleanup/1'' = Inr t"
    using acknowledge_succeeds [OF ex_states_inv(4), of ex_sha 3 "ex_args ex_t1" "''evidence://cleanup/1''"]
      r c h ex_claim_of [OF ex_ids(4)] by auto
  then obtain k where k: "tr_state t = advanced (ex_state [ex_cancelling]) (acknowledged_claim ''evidence://cleanup/1'' k ex_cancelling)"
    "\<not> tr_replayed t"
    using c ex_claim_of [OF ex_ids(4)] by (auto simp: acknowledge_accepts provider_outcome_def broker_transition_of_def)
  have "claim_of (tr_state t) ''claim-1'' = Some (acknowledged_claim ''evidence://cleanup/1'' k ex_cancelling)"
    using broker_ok_distinct inv_ok [OF ex_states_inv(4)] ex_ids(4)
    by (simp add: k claim_of_find claim_store.get_put)
  moreover have "phase (acknowledged_claim ''evidence://cleanup/1'' k ex_cancelling) \<noteq> phase ex_cancelling"
    using c(1) by (simp add: acknowledged_claim_def)
  ultimately have "claim_of (tr_state t) ''claim-1'' \<noteq> Some ex_cancelling" by auto
  with t k(2) show ?thesis by (simp add: step_of_def)
qed

theorem broker_cancelling_exit_witness:
  "\<exists>st' evs. broker_step ex_sha (AcknowledgeCall (ex_args ex_t1) ''evidence://cleanup/1'') 3 (ex_state [ex_cancelling]) =
     Inr (st', False, evs) \<and> pa_claimId (ex_args ex_t1) = ''claim-1'' \<and>
     time_ms (pa_occurredAt (ex_args ex_t1)) \<le> time_ms (lease_expiresAt (ex_the_lease 1))"
proof -
  from ex_acknowledge_call obtain st' evs where
    s: "broker_step ex_sha (AcknowledgeCall (ex_args ex_t1) ''evidence://cleanup/1'') 3 (ex_state [ex_cancelling]) =
      Inr (st', False, evs)" "claim_of st' ''claim-1'' \<noteq> Some ex_cancelling" by blast
  have c: "phase ex_cancelling = Cancelling" "lease ex_cancelling = Some (ex_the_lease 1)"
    by (simp_all add: ex_cancelling_def ex_leased_def cancelled_claim_def leased_claim_def ex_pending_def)
  from broker_cancelling_exit [OF s(1) ex_claim_of [OF ex_ids(4)] c s(2)] s(1) show ?thesis by blast
qed

text \<open>a claim that is being deleted, holds no lease and has used its last attempt is stuck: no
  operation, at any later time, changes it again.  Such a claim is reachable, since a cancelled
  claim keeps its last failure and the deletion needs one more lease.\<close>

theorem broker_deleting_exhausted_stuck:
  assumes "broker_inv st" "claim_of st cid = Some c" "phase c = Deleting" "lease c = None"
    "maxReconcileAttempts c < next_attempt c" and later: "broker_later sha st st'"
  shows "claim_of st' cid = Some c"
  using later assms(1,2)
proof (induction rule: broker_later.induct)
  case (now st)
  then show ?case by simp
next
  case (after st st' call e st'' replayed evs)
  then have c: "claim_of st' cid = Some c" by simp
  show ?case
  proof (rule ccontr)
    assume "claim_of st'' cid \<noteq> Some c"
    moreover from this have "\<not> replayed"
      using broker_step_effect [OF after.hyps(2)] c by (auto simp: step_effect_def)
    ultimately have "call_allowed call c" using step_guard [of sha call e st' st'' evs cid c] after.hyps(2) c by auto
    with assms(3-5) show False
      by (cases call) (auto simp: call_allowed_def holds_lease_def)
  qed
qed

definition ex_stuck :: resource_claim_state where
  "ex_stuck = deleting_claim (ex_ctx ClaimDelete) ''evidence://approval/1'' ''evidence://final/1''
     (cancelled_claim (ex_ctx ClaimCancel)
        (failed_claim (ex_args ex_t1) ''PROVIDER_DOWN'' ''Unavailable'' True 2 (leased_claim ex_pending (ex_the_lease 2))))"

lemma ex_stuck_inv: "broker_inv (ex_state [ex_stuck])"
proof -
  let ?l = "leased_claim ex_pending (ex_the_lease 2)"
  let ?f = "failed_claim (ex_args ex_t1) ''PROVIDER_DOWN'' ''Unavailable'' True 2 ?l"
  have r: "rx_test reasonCode_rx ''PROVIDER_DOWN''" "is_safe_message ''Unavailable''"
    "is_timestamp (pa_occurredAt (ex_args ex_t1))" "is_reference [''evidence''] ''evidence://approval/1''"
    "is_reference [''evidence'', ''snapshot''] ''evidence://final/1''" by code_simp+
  have l: "valid_claim ?l \<and> claim_consistent ?l" "lease ?l = Some (ex_the_lease 2)"
    using leased_claim_ok [of ex_pending "ex_the_lease 2"] ex_pending_ok ex_lease_valid
    by (blast, simp add: leased_claim_def)
  have f: "valid_claim ?f \<and> claim_consistent ?f"
    using failed_claim_ok [of ?l "ex_the_lease 2"] l r by (simp add: ex_the_lease_def)
  have ctx: "context_ok (ex_ctx op) op ?f" for op
    using ex_ctx_ok [of op] by (simp add: context_ok_def leased_claim_def failed_claim_def)
  have k: "valid_claim (cancelled_claim (ex_ctx ClaimCancel) ?f) \<and> claim_consistent (cancelled_claim (ex_ctx ClaimCancel) ?f)"
    using f ctx by (intro cancelled_claim_ok) (auto simp: failed_claim_def)
  have "valid_claim ex_stuck \<and> claim_consistent ex_stuck"
    unfolding ex_stuck_def using k r ctx [of ClaimDelete]
    by (intro deleting_claim_ok) (auto simp: context_ok_def)
  moreover have "claim_inv ex_stuck"
    by (simp add: claim_inv_def ex_stuck_def deleting_claim_def cancelled_claim_def failed_claim_def leased_claim_def
        ex_pending_def ex_request_def)
  ultimately show ?thesis by (rule ex_inv)
qed

theorem broker_deleting_exhausted_stuck_witness:
  "broker_later ex_sha (ex_state [ex_stuck]) (ex_state [ex_stuck]) \<and> phase ex_stuck = Deleting \<and>
   claim_of (ex_state [ex_stuck]) ''claim-1'' = Some ex_stuck"
proof -
  have s: "claimId ex_stuck = ''claim-1''" "phase ex_stuck = Deleting" "lease ex_stuck = None"
    "maxReconcileAttempts ex_stuck < next_attempt ex_stuck"
    by (simp_all add: ex_stuck_def deleting_claim_def cancelled_claim_def failed_claim_def leased_claim_def
        ex_pending_def ex_request_def next_attempt_def)
  from broker_deleting_exhausted_stuck [OF ex_stuck_inv ex_claim_of [OF s(1)] s(2-4) broker_later.now] s(2)
  show ?thesis by (simp add: broker_later.now)
qed

subsection \<open>Identity and persistence\<close>

text \<open>claims are never removed, and through every history a claim keeps its identifier, tenant,
  resource kind and API version while its generation never decreases.\<close>

theorem broker_identity_stable:
  assumes "broker_inv st" "broker_later sha st st'" "claim_of st cid = Some c"
  shows "\<exists>c'. claim_of st' cid = Some c' \<and> claimId c' = claimId c \<and> tenantId c' = tenantId c \<and>
    resourceKind c' = resourceKind c \<and> resourceApiVersion c' = resourceApiVersion c \<and> generation c \<le> generation c'"
  using later_identity [OF assms(2,1,3)] by (simp add: same_identity_def)

theorem broker_identity_stable_witness:
  "\<exists>st' evs c'. broker_step ex_sha (CompleteCall (ex_args ex_t1) ex_a64 ''provider://db/1'' [ex_out]) 3
     (ex_state [ex_leased]) = Inr (st', False, evs) \<and> claim_of st' ''claim-1'' = Some c' \<and> tenantId c' = tenantId ex_leased"
proof -
  from ex_complete_call obtain st' evs where
    s: "broker_step ex_sha (CompleteCall (ex_args ex_t1) ex_a64 ''provider://db/1'' [ex_out]) 3
      (ex_state [ex_leased]) = Inr (st', False, evs)" by blast
  from broker_identity_stable [OF ex_states_inv(2) step_later [OF s] ex_claim_of [OF ex_ids(2)]] s
  show ?thesis by blast
qed

text \<open>C18: what the state parser accepts is exactly the JSON form of a state that passes the
  program's check, and nothing is lost: encoding the parsed state and parsing it again gives it back.\<close>

theorem broker_state_parser:
  "(parseResourceBrokerState v = Inr st \<longrightarrow>
      assertResourceBrokerState st = Inr () \<and> parseResourceBrokerState (enc_broker_state st) = Inr st) \<and>
   (assertResourceBrokerState st = Inr () \<and> 0 \<le> revision st \<longrightarrow>
      parseResourceBrokerState (enc_broker_state st) = Inr st)"
  using parse_broker_state_ok [of v st]
  by (simp add: assertResourceBrokerState_iff parse_enc_broker_state)

theorem broker_state_parser_witness:
  "parseResourceBrokerState (enc_broker_state (ex_state [ex_leased])) = Inr (ex_state [ex_leased])"
proof -
  have "assertResourceBrokerState (ex_state [ex_leased]) = Inr () \<and> 0 \<le> revision (ex_state [ex_leased])"
    using inv_ok [OF ex_states_inv(2)] by (simp add: assertResourceBrokerState_iff)
  then show ?thesis
    using broker_state_parser [of "enc_broker_state (ex_state [ex_leased])" "ex_state [ex_leased]"] by blast
qed

end
