(* ===== verification/ResourceProvider.thy ===== *)
theory ResourceProvider
  imports BrokerGuarantees
begin

section \<open>Resource providers\<close>

text \<open>
  The provider side of \<open>src/core/resourceBroker.ts\<close>: what the broker accepts from an adapter.  An
  adapter is code the broker does not control, so it is a parameter: a descriptor value and two
  calls that may throw, answer anything, and change a state \<open>'s\<close> of their own between calls.
  A computation that calls an adapter passes that state along (\<open>bind_s\<close>).  The fake provider is
  the instance the source defines.
\<close>

subsection \<open>Data\<close>

datatype provider_operation = Reconcile | Destroy

primrec provider_operation_name :: "provider_operation \<Rightarrow> string" where
  "provider_operation_name Reconcile = ''reconcile''"
| "provider_operation_name Destroy = ''destroy''"

definition provider_operations :: "provider_operation list" where
  "provider_operations = [Reconcile, Destroy]"

record provider_descriptor =
  pd_id :: string
  pd_resourceKinds :: "string list"
  pd_capabilities :: "string list"

record provider_request =
  pq_claim :: resource_claim_request
  pq_operation :: provider_operation
  pq_fenceToken :: string

record provider_plan =
  pp_providerId :: string
  pp_claimId :: string
  pp_generation :: int
  pp_desiredStateDigest :: string
  pp_operation :: provider_operation
  pp_semanticOperations :: "string list"
  pp_planDigest :: string

record provider_result =
  pr_providerId :: string
  pr_claimId :: string
  pr_generation :: int
  pr_fenceToken :: string
  pr_operation :: provider_operation
  pr_observedStateDigest :: string
  pr_providerResourceRef :: "string option"
  pr_outputs :: "resource_broker_output list"

record 's provider_adapter =
  ad_descriptor :: jsval
  ad_plan :: "provider_request \<Rightarrow> 's \<Rightarrow> (broker_error + jsval) \<times> 's"
  ad_execute :: "provider_request \<Rightarrow> 's \<Rightarrow> (broker_error + jsval) \<times> 's"

record conformance_evidence =
  ce_providerId :: string
  ce_claimId :: string
  ce_planDigest :: string

subsection \<open>Computations that call an adapter\<close>

definition bind_s ::
  "('s \<Rightarrow> ('e + 'a) \<times> 's) \<Rightarrow> ('a \<Rightarrow> 's \<Rightarrow> ('e + 'b) \<times> 's) \<Rightarrow> 's \<Rightarrow> ('e + 'b) \<times> 's" where
  "bind_s m f s = (case m s of (Inl e, s') \<Rightarrow> (Inl e, s') | (Inr a, s') \<Rightarrow> f a s')"

definition pure_s :: "'e + 'a \<Rightarrow> 's \<Rightarrow> ('e + 'a) \<times> 's" where
  "pure_s m s = (m, s)"

lemma bind_s_eq_Inr [result_simps]:
  "bind_s m f s = (Inr b, s'') \<longleftrightarrow> (\<exists>a s'. m s = (Inr a, s') \<and> f a s' = (Inr b, s''))"
  by (auto simp: bind_s_def split: prod.splits sum.splits)

lemma pure_s_eq [result_simps]: "pure_s m s = (r, s') \<longleftrightarrow> m = r \<and> s' = s"
  by (auto simp: pure_s_def)

subsection \<open>Validation\<close>

definition descriptor_keys :: "string list" where
  "descriptor_keys =
     [''id'', ''protocolVersion'', ''resourceKinds'', ''capabilities'', ''mutationMode'',
      ''acceptsProviderCredentials'', ''outputMode'', ''deterministicPlanning'']"

definition validateProviderDescriptor :: "jsval \<Rightarrow> broker_error + provider_descriptor" where
  "validateProviderDescriptor descriptor =
     bind_r (exactObject descriptor ''provider'' descriptor_keys) (\<lambda>input.
     bind_r (throw_if
       (js_get input ''protocolVersion'' \<noteq> JStr RESOURCE_PROVIDER_PROTOCOL_VERSION \<or>
        js_get input ''mutationMode'' \<noteq> JStr ''broker-only'' \<or>
        js_get input ''acceptsProviderCredentials'' \<noteq> JBool False \<or>
        js_get input ''outputMode'' \<noteq> JStr ''reference-only'' \<or>
        js_get input ''deterministicPlanning'' \<noteq> JBool True) (Provider '''' DescriptorWeak)) (\<lambda>_.
     bind_r (uniqueResourceKinds (js_get input ''resourceKinds'') ''provider.resourceKinds'') (\<lambda>kinds.
     bind_r (uniqueIdentifiers (js_get input ''capabilities'') ''provider.capabilities'') (\<lambda>capabilities.
     bind_r (throw_if (kinds = [] \<or> capabilities = []) (Provider '''' DescriptorEmpty)) (\<lambda>_.
     bind_r (identifier_of (js_get input ''id'') ''provider.id'') (\<lambda>vid.
       Inr \<lparr>pd_id = vid, pd_resourceKinds = kinds, pd_capabilities = capabilities\<rparr>))))))"

definition enc_provider_request :: "provider_request \<Rightarrow> jsval" where
  "enc_provider_request q =
     JObj [(''claim'', enc_request (pq_claim q)), (''operation'', JStr (provider_operation_name (pq_operation q))),
           (''fenceToken'', JStr (pq_fenceToken q))]"

definition validateProviderRequest :: "provider_descriptor \<Rightarrow> jsval \<Rightarrow> broker_error + provider_request" where
  "validateProviderRequest descriptor request =
     bind_r (exactObject request ''providerRequest'' [''claim'', ''operation'', ''fenceToken'']) (\<lambda>input.
     bind_r (parseResourceClaimRequest (js_get input ''claim'')) (\<lambda>claim.
     bind_r (throw_if (resourceKind claim \<notin> set (pd_resourceKinds descriptor))
               (Provider (pd_id descriptor) (KindUnsupported (resourceKind claim)))) (\<lambda>_.
     let missing = filter (\<lambda>capability. capability \<notin> set (pd_capabilities descriptor))
                     (requiredProviderCapabilities claim) in
     bind_r (throw_if (missing \<noteq> []) (Lease (pd_id descriptor) (LacksCapability (sort_strings missing)))) (\<lambda>_.
     bind_r (enumValue (js_get input ''operation'') ''provider.operation'' provider_operation_name
               provider_operations) (\<lambda>operation.
     bind_r (digest (js_get input ''fenceToken'') ''provider.fenceToken'') (\<lambda>fence.
       Inr \<lparr>pq_claim = claim, pq_operation = operation, pq_fenceToken = fence\<rparr>))))))"

subsection \<open>Planning\<close>

definition plan_keys :: "string list" where
  "plan_keys =
     [''providerId'', ''claimId'', ''generation'', ''desiredStateDigest'', ''operation'', ''semanticOperations'']"

definition plan_props :: "provider_plan \<Rightarrow> props" where
  "plan_props p =
     [(''providerId'', JStr (pp_providerId p)), (''claimId'', JStr (pp_claimId p)),
      (''generation'', JNum (NInt (pp_generation p))),
      (''desiredStateDigest'', JStr (pp_desiredStateDigest p)),
      (''operation'', JStr (provider_operation_name (pp_operation p))),
      (''semanticOperations'', enc_strings (pp_semanticOperations p))]"

definition enc_plan :: "provider_plan \<Rightarrow> jsval" where
  "enc_plan p = JObj (plan_props p @ [(''planDigest'', JStr (pp_planDigest p))])"

definition parsePlan :: "jsval \<Rightarrow> broker_error + provider_plan" where
  "parsePlan v =
     bind_r (exactObject v ''providerPlan'' (plan_keys @ [''planDigest''])) (\<lambda>raw.
     bind_r (identifier_of (js_get raw ''providerId'') ''providerPlan.providerId'') (\<lambda>provider.
     bind_r (identifier_of (js_get raw ''claimId'') ''providerPlan.claimId'') (\<lambda>claim.
     bind_r (positiveInteger (js_get raw ''generation'') ''providerPlan.generation'') (\<lambda>gen.
     bind_r (digest (js_get raw ''desiredStateDigest'') ''providerPlan.desiredStateDigest'') (\<lambda>desired.
     bind_r (enumValue (js_get raw ''operation'') ''providerPlan.operation'' provider_operation_name
               provider_operations) (\<lambda>operation.
     bind_r (semanticOperations (js_get raw ''semanticOperations'') ''providerPlan.semanticOperations'') (\<lambda>ops.
     bind_r (digest (js_get raw ''planDigest'') ''providerPlan.planDigest'') (\<lambda>dg.
       Inr \<lparr>pp_providerId = provider, pp_claimId = claim, pp_generation = gen, pp_desiredStateDigest = desired,
            pp_operation = operation, pp_semanticOperations = ops, pp_planDigest = dg\<rparr>))))))))"

definition planWithResourceProvider ::
  "(string \<Rightarrow> string) \<Rightarrow> 's provider_adapter \<Rightarrow> jsval \<Rightarrow> 's \<Rightarrow> (broker_error + provider_plan) \<times> 's" where
  "planWithResourceProvider sha adapter request =
     bind_s (pure_s (validateProviderDescriptor (ad_descriptor adapter))) (\<lambda>descriptor.
     bind_s (pure_s (validateProviderRequest descriptor request)) (\<lambda>normalized.
     bind_s (ad_plan adapter normalized) (\<lambda>raw.
     bind_s (pure_s (parsePlan raw)) (\<lambda>plan.
     let expected = sha (canonicalJson (JObj (plan_props plan))) in
     bind_s (pure_s (throw_if
       (pp_providerId plan \<noteq> pd_id descriptor \<or> pp_claimId plan \<noteq> claimId (pq_claim normalized) \<or>
        pp_generation plan \<noteq> generation (pq_claim normalized) \<or>
        pp_desiredStateDigest plan \<noteq> desiredStateDigest (pq_claim normalized) \<or>
        pp_operation plan \<noteq> pq_operation normalized \<or> pp_planDigest plan \<noteq> expected \<or>
        pp_semanticOperations plan = []) (Provider (pd_id descriptor) InvalidPlan))) (\<lambda>_.
       pure_s (Inr plan))))))"

subsection \<open>Execution\<close>

definition result_keys :: "string list" where
  "result_keys =
     [''providerId'', ''claimId'', ''generation'', ''fenceToken'', ''operation'', ''observedStateDigest'',
      ''providerResourceRef'', ''outputs'']"

definition enc_result :: "provider_result \<Rightarrow> jsval" where
  "enc_result r = JObj
     [(''providerId'', JStr (pr_providerId r)), (''claimId'', JStr (pr_claimId r)),
      (''generation'', JNum (NInt (pr_generation r))), (''fenceToken'', JStr (pr_fenceToken r)),
      (''operation'', JStr (provider_operation_name (pr_operation r))),
      (''observedStateDigest'', JStr (pr_observedStateDigest r)),
      (''providerResourceRef'', case pr_providerResourceRef r of None \<Rightarrow> JNull | Some s \<Rightarrow> JStr s),
      (''outputs'', JArr (map enc_output (pr_outputs r)))]"

definition parseResult :: "jsval \<Rightarrow> broker_error + provider_result" where
  "parseResult v =
     bind_r (exactObject v ''providerResult'' result_keys) (\<lambda>raw.
     bind_r (identifier_of (js_get raw ''providerId'') ''providerResult.providerId'') (\<lambda>provider.
     bind_r (identifier_of (js_get raw ''claimId'') ''providerResult.claimId'') (\<lambda>claim.
     bind_r (positiveInteger (js_get raw ''generation'') ''providerResult.generation'') (\<lambda>gen.
     bind_r (digest (js_get raw ''fenceToken'') ''providerResult.fenceToken'') (\<lambda>fence.
     bind_r (enumValue (js_get raw ''operation'') ''providerResult.operation'' provider_operation_name
               provider_operations) (\<lambda>operation.
     bind_r (digest (js_get raw ''observedStateDigest'') ''providerResult.observedStateDigest'') (\<lambda>observed.
     bind_r (if js_get raw ''providerResourceRef'' = JNull then Inr None
             else bind_r (reference (js_get raw ''providerResourceRef'') ''providerResult.providerResourceRef''
                            [''provider'']) (\<lambda>s. Inr (Some s))) (\<lambda>ref.
     bind_r (js_array (js_get raw ''outputs'') ''providerResult.outputs'' parseOutput) (\<lambda>outs.
       Inr \<lparr>pr_providerId = provider, pr_claimId = claim, pr_generation = gen, pr_fenceToken = fence,
            pr_operation = operation, pr_observedStateDigest = observed, pr_providerResourceRef = ref,
            pr_outputs = outs\<rparr>)))))))))"

definition check_result ::
  "provider_descriptor \<Rightarrow> provider_request \<Rightarrow> provider_result \<Rightarrow> broker_error + unit" where
  "check_result descriptor normalized result =
     bind_r (throw_if
       (pr_providerId result \<noteq> pd_id descriptor \<or> pr_claimId result \<noteq> claimId (pq_claim normalized) \<or>
        pr_generation result \<noteq> generation (pq_claim normalized) \<or>
        pr_fenceToken result \<noteq> pq_fenceToken normalized \<or> pr_operation result \<noteq> pq_operation normalized \<or>
        pr_observedStateDigest result \<noteq> desiredStateDigest (pq_claim normalized))
       (Provider (pd_id descriptor) ResultOutsideClaim)) (\<lambda>_.
     bind_r (validateOutputs (pr_outputs result)) (\<lambda>_.
     if pq_operation normalized = Destroy then
       throw_if (pr_providerResourceRef result \<noteq> None \<or> pr_outputs result \<noteq> [])
         (Provider (pd_id descriptor) OutputsAfterDestroy)
     else
       (case pr_providerResourceRef result of
          None \<Rightarrow> Inl (Provider (pd_id descriptor) IncompleteObserved)
        | Some ref \<Rightarrow>
            bind_r (throw_if (ref = [] \<or> pr_outputs result = [])
                      (Provider (pd_id descriptor) IncompleteObserved)) (\<lambda>_.
            bind_r (reference (JStr ref) ''providerResourceRef'' [''provider'']) (\<lambda>_. Inr ())))))"

definition executeWithResourceProvider ::
  "'s provider_adapter \<Rightarrow> jsval \<Rightarrow> 's \<Rightarrow> (broker_error + provider_result) \<times> 's" where
  "executeWithResourceProvider adapter request =
     bind_s (pure_s (validateProviderDescriptor (ad_descriptor adapter))) (\<lambda>descriptor.
     bind_s (pure_s (validateProviderRequest descriptor request)) (\<lambda>normalized.
     bind_s (ad_execute adapter normalized) (\<lambda>raw.
     bind_s (pure_s (parseResult raw)) (\<lambda>result.
     bind_s (pure_s (check_result descriptor normalized result)) (\<lambda>_.
       pure_s (Inr result))))))"

subsection \<open>Conformance\<close>

definition evaluateResourceProviderConformance ::
  "(string \<Rightarrow> string) \<Rightarrow> 's provider_adapter \<Rightarrow> jsval \<Rightarrow> 's \<Rightarrow> (broker_error + conformance_evidence) \<times> 's" where
  "evaluateResourceProviderConformance sha adapter claim =
     bind_s (pure_s (validateProviderDescriptor (ad_descriptor adapter))) (\<lambda>descriptor.
     bind_s (pure_s (parseResourceClaimRequest claim)) (\<lambda>normalizedClaim.
     let request = \<lparr>pq_claim = normalizedClaim, pq_operation = Reconcile, pq_fenceToken = replicate 64 CHR ''f''\<rparr> in
     bind_s (planWithResourceProvider sha adapter (enc_provider_request request)) (\<lambda>firstPlan.
     bind_s (planWithResourceProvider sha adapter (enc_provider_request request)) (\<lambda>secondPlan.
     bind_s (pure_s (throw_if (canonicalJson (enc_plan firstPlan) \<noteq> canonicalJson (enc_plan secondPlan))
               (Provider (pd_id descriptor) PlanningNotDeterministic))) (\<lambda>_.
     bind_s (executeWithResourceProvider adapter (enc_provider_request request)) (\<lambda>firstResult.
     bind_s (executeWithResourceProvider adapter (enc_provider_request request)) (\<lambda>secondResult.
     bind_s (pure_s (throw_if (canonicalJson (enc_result firstResult) \<noteq> canonicalJson (enc_result secondResult))
               (Provider (pd_id descriptor) ReconcileNotDeterministic))) (\<lambda>_.
     bind_s (executeWithResourceProvider adapter (enc_provider_request (request\<lparr>pq_operation := Destroy\<rparr>))) (\<lambda>_.
       pure_s (Inr \<lparr>ce_providerId = pd_id descriptor, ce_claimId = claimId normalizedClaim,
                    ce_planDigest = pp_planDigest firstPlan\<rparr>))))))))))"

definition resourceClaimRequestDigest :: "(string \<Rightarrow> string) \<Rightarrow> jsval \<Rightarrow> broker_error + string" where
  "resourceClaimRequestDigest sha claim =
     bind_r (parseResourceClaimRequest claim) (\<lambda>r. Inr (sha (canonicalJson (enc_request r))))"

subsection \<open>The fake provider\<close>

definition fake_capabilities :: "string list" where
  "fake_capabilities =
     [''private-network'', ''explicit-source-boundaries'', ''customer-managed-encryption'', ''multi-zone'',
      ''point-in-time-recovery'', ''workload-identity'', ''reference-only-outputs'']"

definition enc_descriptor :: "provider_descriptor \<Rightarrow> jsval" where
  "enc_descriptor d = JObj
     [(''id'', JStr (pd_id d)), (''protocolVersion'', JStr RESOURCE_PROVIDER_PROTOCOL_VERSION),
      (''resourceKinds'', enc_strings (pd_resourceKinds d)), (''capabilities'', enc_strings (pd_capabilities d)),
      (''mutationMode'', JStr ''broker-only''), (''acceptsProviderCredentials'', JBool False),
      (''outputMode'', JStr ''reference-only''), (''deterministicPlanning'', JBool True)]"

definition fake_plan ::
  "(string \<Rightarrow> string) \<Rightarrow> provider_descriptor \<Rightarrow> provider_request \<Rightarrow> broker_error + jsval" where
  "fake_plan sha descriptor request =
     bind_r (validateProviderRequest descriptor (enc_provider_request request)) (\<lambda>normalized.
     let plan = \<lparr>pp_providerId = pd_id descriptor, pp_claimId = claimId (pq_claim normalized),
                 pp_generation = generation (pq_claim normalized),
                 pp_desiredStateDigest = desiredStateDigest (pq_claim normalized),
                 pp_operation = pq_operation normalized,
                 pp_semanticOperations =
                   (if pq_operation normalized = Destroy then [''delete:'' @ resourceKind (pq_claim normalized)]
                    else [''ensure:'' @ resourceKind (pq_claim normalized)]),
                 pp_planDigest = []\<rparr>
     in Inr (enc_plan (plan\<lparr>pp_planDigest := sha (canonicalJson (JObj (plan_props plan)))\<rparr>)))"

definition fake_execute ::
  "provider_descriptor \<Rightarrow> string list \<Rightarrow> provider_request \<Rightarrow> broker_error + jsval" where
  "fake_execute descriptor failures request =
     bind_r (validateProviderRequest descriptor (enc_provider_request request)) (\<lambda>normalized.
     bind_r (throw_if (claimId (pq_claim normalized) \<in> set failures)
               (Provider (pd_id descriptor) (ProviderThrew ''FAKE_PROVIDER_FAILURE''))) (\<lambda>_.
     let destroying = (pq_operation normalized = Destroy) in
       Inr (enc_result
         \<lparr>pr_providerId = pd_id descriptor, pr_claimId = claimId (pq_claim normalized),
          pr_generation = generation (pq_claim normalized), pr_fenceToken = pq_fenceToken normalized,
          pr_operation = pq_operation normalized,
          pr_observedStateDigest = desiredStateDigest (pq_claim normalized),
          pr_providerResourceRef =
            (if destroying then None
             else Some (''provider://'' @ pd_id descriptor @ ''/'' @ tenantId (pq_claim normalized) @ ''/'' @
                        claimId (pq_claim normalized))),
          pr_outputs =
            (if destroying then []
             else [\<lparr>out_name = ''resource'', out_kind = OutReference,
                    out_value = SStr (''broker://'' @ claimId (pq_claim normalized) @ ''/resource'')\<rparr>])\<rparr>)))"

definition createFakeResourceProvider ::
  "(string \<Rightarrow> string) \<Rightarrow> string option \<Rightarrow> string list option \<Rightarrow> string list option \<Rightarrow> string list \<Rightarrow>
   's provider_adapter" where
  "createFakeResourceProvider sha pid kinds capabilities failures =
     (let descriptor =
        \<lparr>pd_id = (case pid of None \<Rightarrow> ''fake-provider'' | Some s \<Rightarrow> s),
         pd_resourceKinds = (case kinds of None \<Rightarrow> [''ManagedPostgres''] | Some ks \<Rightarrow> ks),
         pd_capabilities = (case capabilities of None \<Rightarrow> fake_capabilities | Some cs \<Rightarrow> cs)\<rparr>
      in \<lparr>ad_descriptor = enc_descriptor descriptor,
          ad_plan = (\<lambda>request. pure_s (fake_plan sha descriptor request)),
          ad_execute = (\<lambda>request. pure_s (fake_execute descriptor failures request))\<rparr>)"

end
