(* ===== verification/ProviderProps.thy ===== *)
theory ProviderProps
  imports ResourceProvider
begin

section \<open>Resource providers: properties\<close>

text \<open>
  What the broker may rely on after talking to an adapter it does not trust, and that the fake
  provider passes the conformance evaluation.
\<close>

subsection \<open>What the validators accept\<close>

lemma provider_operation_accepts [accepts]:
  "enumValue v p provider_operation_name provider_operations = Inr x \<longleftrightarrow> v = JStr (provider_operation_name x)"
proof -
  have inj: "inj_on provider_operation_name (set provider_operations)" "x \<in> set provider_operations"
    by (auto simp: provider_operations_def inj_on_def) (cases x; simp)
  then show ?thesis by (simp add: enumValue_accepts)
qed

lemma provider_operation_name_inject [simp]:
  "provider_operation_name a = provider_operation_name b \<longleftrightarrow> a = b"
  by (cases a; cases b) simp_all

definition valid_descriptor :: "provider_descriptor \<Rightarrow> bool" where
  "valid_descriptor d \<longleftrightarrow>
     is_identifier (pd_id d) \<and> pd_resourceKinds d \<noteq> [] \<and> pd_capabilities d \<noteq> [] \<and>
     distinct (pd_resourceKinds d) \<and> (\<forall>k \<in> set (pd_resourceKinds d). rx_test resourceKind_rx k) \<and>
     distinct (pd_capabilities d) \<and> (\<forall>k \<in> set (pd_capabilities d). is_identifier k)"

lemma descriptor_enc: "validateProviderDescriptor (enc_descriptor d) = Inr d' \<longleftrightarrow> valid_descriptor d \<and> d' = d"
  unfolding validateProviderDescriptor_def enc_descriptor_def
  by (cases d) (auto simp: result_simps accepts exactObject_complete descriptor_keys_def valid_descriptor_def)

lemma descriptor_valid: "validateProviderDescriptor v = Inr d \<Longrightarrow> valid_descriptor d"
  unfolding validateProviderDescriptor_def by (auto simp: result_simps accepts valid_descriptor_def)

definition serves :: "provider_descriptor \<Rightarrow> provider_request \<Rightarrow> bool" where
  "serves d q \<longleftrightarrow>
     valid_request (pq_claim q) \<and> resourceKind (pq_claim q) \<in> set (pd_resourceKinds d) \<and>
     set (requiredProviderCapabilities (pq_claim q)) \<subseteq> set (pd_capabilities d) \<and> is_digest (pq_fenceToken q)"

lemma provider_request_enc:
  "validateProviderRequest d (enc_provider_request q) = Inr q' \<longleftrightarrow> serves d q \<and> q' = q"
proof -
  have missing: "filter (\<lambda>k. k \<notin> set caps) ks = [] \<longleftrightarrow> set ks \<subseteq> set caps" for ks caps :: "string list"
    by (auto simp: filter_empty_conv)
  have trunc: "resource_claim_request.truncate c = c" for c :: resource_claim_request
    by (cases c) (simp add: resource_claim_request.defs)
  show ?thesis
    unfolding validateProviderRequest_def enc_provider_request_def
    by (cases q)
      (auto simp: result_simps accepts exactObject_complete Let_def parse_enc_request missing trunc serves_def)
qed

definition valid_plan :: "provider_plan \<Rightarrow> bool" where
  "valid_plan p \<longleftrightarrow>
     is_identifier (pp_providerId p) \<and> is_identifier (pp_claimId p) \<and> 1 \<le> pp_generation p \<and>
     is_digest (pp_desiredStateDigest p) \<and> pp_semanticOperations p \<noteq> [] \<and>
     distinct (pp_semanticOperations p) \<and> (\<forall>s \<in> set (pp_semanticOperations p). rx_test semantic_rx s) \<and>
     is_digest (pp_planDigest p)"

lemma plan_enc: "parsePlan (enc_plan p) = Inr p' \<longleftrightarrow> valid_plan p \<and> p' = p"
  unfolding parsePlan_def enc_plan_def plan_props_def
  by (cases p) (auto simp: result_simps accepts exactObject_complete plan_keys_def valid_plan_def)

lemma plan_valid: "parsePlan v = Inr p \<Longrightarrow> valid_plan p"
  unfolding parsePlan_def by (auto simp: result_simps accepts valid_plan_def)

definition valid_result :: "provider_result \<Rightarrow> bool" where
  "valid_result r \<longleftrightarrow>
     is_identifier (pr_providerId r) \<and> is_identifier (pr_claimId r) \<and> 1 \<le> pr_generation r \<and>
     is_digest (pr_fenceToken r) \<and> is_digest (pr_observedStateDigest r) \<and>
     pred_option (is_reference [''provider'']) (pr_providerResourceRef r) \<and>
     (\<forall>out \<in> set (pr_outputs r). valid_output out)"

lemma null_or_reference:
  "(if v = JNull then Inr None else bind_r (reference v p [''provider'']) (\<lambda>s. Inr (Some s))) = Inr x \<longleftrightarrow>
   (case x of None \<Rightarrow> v = JNull | Some s \<Rightarrow> v = JStr s \<and> is_reference [''provider''] s)"
  by (auto simp: result_simps accepts split: option.splits)

lemma result_enc: "parseResult (enc_result r) = Inr r' \<longleftrightarrow> valid_result r \<and> r' = r"
  unfolding parseResult_def enc_result_def
  by (cases r)
    (auto simp: result_simps accepts exactObject_complete result_keys_def valid_result_def null_or_reference
      outputs_enc_iff split: option.splits)

lemma result_valid: "parseResult v = Inr r \<Longrightarrow> valid_result r"
  unfolding parseResult_def
  by (auto simp: result_simps accepts valid_result_def null_or_reference intro: parse_output_valid
      dest!: js_array_valid [where P = valid_output] split: option.splits)

definition result_fits :: "provider_descriptor \<Rightarrow> provider_request \<Rightarrow> provider_result \<Rightarrow> bool" where
  "result_fits d q r \<longleftrightarrow>
     pr_providerId r = pd_id d \<and> pr_claimId r = claimId (pq_claim q) \<and> pr_generation r = generation (pq_claim q) \<and>
     pr_fenceToken r = pq_fenceToken q \<and> pr_operation r = pq_operation q \<and>
     pr_observedStateDigest r = desiredStateDigest (pq_claim q) \<and> valid_outputs (pr_outputs r) \<and>
     (if pq_operation q = Destroy then pr_providerResourceRef r = None \<and> pr_outputs r = []
      else \<exists>ref. pr_providerResourceRef r = Some ref \<and> ref \<noteq> [] \<and> is_reference [''provider''] ref \<and>
             pr_outputs r \<noteq> [])"

lemma check_result_accepts [accepts]: "check_result d q r = Inr u \<longleftrightarrow> result_fits d q r"
  by (auto simp: check_result_def result_fits_def result_simps accepts split: option.splits)

subsection \<open>Talking to an adapter\<close>

lemma plan_accepts:
  "planWithResourceProvider sha ad (enc_provider_request q) s = (Inr p, s') \<longleftrightarrow>
   (\<exists>d raw. validateProviderDescriptor (ad_descriptor ad) = Inr d \<and> serves d q \<and>
      ad_plan ad q s = (Inr raw, s') \<and> parsePlan raw = Inr p \<and>
      pp_providerId p = pd_id d \<and> pp_claimId p = claimId (pq_claim q) \<and> pp_generation p = generation (pq_claim q) \<and>
      pp_desiredStateDigest p = desiredStateDigest (pq_claim q) \<and> pp_operation p = pq_operation q \<and>
      pp_planDigest p = sha (canonicalJson (JObj (plan_props p))) \<and> pp_semanticOperations p \<noteq> [])"
  unfolding planWithResourceProvider_def Let_def
  by (auto simp: result_simps provider_request_enc)

lemma execute_accepts:
  "executeWithResourceProvider ad (enc_provider_request q) s = (Inr r, s') \<longleftrightarrow>
   (\<exists>d raw. validateProviderDescriptor (ad_descriptor ad) = Inr d \<and> serves d q \<and>
      ad_execute ad q s = (Inr raw, s') \<and> parseResult raw = Inr r \<and> result_fits d q r)"
  unfolding executeWithResourceProvider_def
  by (auto simp: result_simps provider_request_enc accepts)

subsection \<open>The fake provider\<close>

definition path_char :: "char \<Rightarrow> bool" where
  "path_char c \<longleftrightarrow> lower_alnum_punct c \<or> c = CHR ''/''"

lemma path_char_plain: "path_char c \<Longrightarrow> \<not> line_terminator c \<and> c \<noteq> CHR ''@''"
  by (auto simp: path_char_def lower_alnum_punct_def broker_alnum_def in_range_def is_digit_def
      line_terminator_def less_eq_char_def)

lemma uri_scheme_path:
  "list_all path_char s \<Longrightarrow> s \<noteq> [] \<Longrightarrow> uri_scheme (''provider://'' @ s) = Some ''provider''"
  "list_all path_char s \<Longrightarrow> s \<noteq> [] \<Longrightarrow> uri_scheme (''broker://'' @ s) = Some ''broker''"
  using path_char_plain
  by (auto simp: uri_scheme_def scheme_char_def broker_alnum_def in_range_def is_digit_def Let_def list_all_iff)

lemma reference_path:
  assumes "list_all path_char s" "s \<noteq> []" "length s \<le> 500"
  shows "is_reference [''provider''] (''provider://'' @ s)" "is_reference output_schemes (''broker://'' @ s)"
  using assms uri_scheme_path [OF assms(1,2)] path_char_plain
  by (auto simp: is_reference_def safe_reference_def output_schemes_def list_all_iff)

lemma identifier_path: "is_identifier s \<Longrightarrow> list_all path_char s \<and> s \<noteq> [] \<and> length s \<le> 128"
  by (auto simp: identifier_iff list_all_iff path_char_def)

lemma semantic_operation_of_kind:
  assumes "rx_test resourceKind_rx k" "length k \<le> 121"
  shows "rx_test semantic_rx (''ensure:'' @ k)" "rx_test semantic_rx (''delete:'' @ k)"
proof -
  have "list_all (\<lambda>c. letter c \<or> is_digit c) k"
    using assms(1) by (auto simp: resourceKind_rx_def rx_test_seq_cls rx_test_rep_cls)
  then have "list_all (\<lambda>c. letter c \<or> is_digit c \<or> c \<in> set '':._-'') k" by (auto simp: list_all_iff)
  with assms(2) show "rx_test semantic_rx (''ensure:'' @ k)" "rx_test semantic_rx (''delete:'' @ k)"
    by (simp_all add: semantic_rx_def rx_test_seq_cls rx_test_rep_cls letter_def in_range_def less_eq_char_def)
qed

definition fake :: "(string \<Rightarrow> string) \<Rightarrow> provider_descriptor \<Rightarrow> string list \<Rightarrow> unit provider_adapter" where
  "fake sha d failures =
     createFakeResourceProvider sha (Some (pd_id d)) (Some (pd_resourceKinds d)) (Some (pd_capabilities d)) failures"

lemma fake_parts:
  "ad_descriptor (fake sha d failures) = enc_descriptor d"
  "ad_plan (fake sha d failures) q = pure_s (fake_plan sha d q)"
  "ad_execute (fake sha d failures) q = pure_s (fake_execute d failures q)"
  by (cases d, simp add: fake_def createFakeResourceProvider_def Let_def)+

lemma plan_props_digest [simp]: "plan_props (p\<lparr>pp_planDigest := x\<rparr>) = plan_props p"
  by (simp add: plan_props_def)

lemma fake_plan_succeeds:
  assumes "valid_descriptor d" "serves d q" "sha_ok sha" "length (resourceKind (pq_claim q)) \<le> 121"
  shows "\<exists>p. planWithResourceProvider sha (fake sha d failures) (enc_provider_request q) s = (Inr p, s)"
proof -
  let ?c = "pq_claim q"
  define p0 where "p0 = \<lparr>pp_providerId = pd_id d, pp_claimId = claimId ?c, pp_generation = generation ?c,
      pp_desiredStateDigest = desiredStateDigest ?c, pp_operation = pq_operation q,
      pp_semanticOperations = (if pq_operation q = Destroy then [''delete:'' @ resourceKind ?c] else [''ensure:'' @ resourceKind ?c]),
      pp_planDigest = []\<rparr>"
  define dg where "dg = sha (canonicalJson (JObj (plan_props p0)))"
  define p where "p = p0\<lparr>pp_planDigest := dg\<rparr>"
  have plan: "fake_plan sha d q = Inr (enc_plan p)"
    using assms(2) provider_request_enc [of d q q]
    by (simp add: fake_plan_def Let_def p_def p0_def dg_def del: canonicalJson.simps)
  have sel: "pp_providerId p = pd_id d" "pp_claimId p = claimId ?c" "pp_generation p = generation ?c"
    "pp_desiredStateDigest p = desiredStateDigest ?c" "pp_operation p = pq_operation q" "pp_planDigest p = dg"
    "pp_semanticOperations p = [''delete:'' @ resourceKind ?c] \<or> pp_semanticOperations p = [''ensure:'' @ resourceKind ?c]"
    by (simp_all add: p_def p0_def)
  have dg: "dg = sha (canonicalJson (JObj (plan_props p)))" "is_digest dg"
    using assms(3) by (simp_all add: dg_def p_def del: canonicalJson.simps)
  have "rx_test resourceKind_rx (resourceKind ?c)" using assms(2) by (simp add: serves_def valid_request_def)
  then have ops: "\<forall>op \<in> set (pp_semanticOperations p). rx_test semantic_rx op"
    using semantic_operation_of_kind assms(4) sel(7) by auto
  have "valid_plan p"
    using assms(1,2) ops dg(2) sel unfolding valid_plan_def
    by (auto simp: valid_descriptor_def serves_def valid_request_def)
  then have "parsePlan (enc_plan p) = Inr p" by (simp only: plan_enc)
  with plan sel dg(1) assms(1,2) show ?thesis
    by (intro exI [of _ p], unfold plan_accepts fake_parts descriptor_enc pure_s_def)
      (intro exI [of _ d] exI [of _ "enc_plan p"], auto simp del: canonicalJson.simps)
qed

lemma fake_execute_succeeds:
  assumes "valid_descriptor d" "serves d q" "claimId (pq_claim q) \<notin> set failures"
  shows "\<exists>r. executeWithResourceProvider (fake sha d failures) (enc_provider_request q) s = (Inr r, s)"
proof -
  let ?c = "pq_claim q"
  define r where "r = \<lparr>pr_providerId = pd_id d, pr_claimId = claimId ?c, pr_generation = generation ?c,
      pr_fenceToken = pq_fenceToken q, pr_operation = pq_operation q, pr_observedStateDigest = desiredStateDigest ?c,
      pr_providerResourceRef = (if pq_operation q = Destroy then None
         else Some (''provider://'' @ pd_id d @ ''/'' @ tenantId ?c @ ''/'' @ claimId ?c)),
      pr_outputs = (if pq_operation q = Destroy then []
         else [\<lparr>out_name = ''resource'', out_kind = OutReference, out_value = SStr (''broker://'' @ claimId ?c @ ''/resource'')\<rparr>])\<rparr>"
  have exec: "fake_execute d failures q = Inr (enc_result r)"
    using assms(2,3) provider_request_enc [of d q q] by (simp add: fake_execute_def Let_def r_def)
  have ids: "is_identifier (pd_id d)" "is_identifier (tenantId ?c)" "is_identifier (claimId ?c)"
    using assms(1,2) by (auto simp: valid_descriptor_def serves_def valid_request_def)
  have paths: "list_all path_char (pd_id d @ ''/'' @ tenantId ?c @ ''/'' @ claimId ?c)"
    "length (pd_id d @ ''/'' @ tenantId ?c @ ''/'' @ claimId ?c) \<le> 500"
    "list_all path_char (claimId ?c @ ''/resource'')" "length (claimId ?c @ ''/resource'') \<le> 500"
    using identifier_path [OF ids(1)] identifier_path [OF ids(2)] identifier_path [OF ids(3)]
    by (auto simp: path_char_def lower_alnum_punct_def broker_alnum_def in_range_def less_eq_char_def)
  have ref: "is_reference [''provider''] (''provider://'' @ pd_id d @ ''/'' @ tenantId ?c @ ''/'' @ claimId ?c)"
    using reference_path(1) [OF paths(1) _ paths(2)] by simp
  have "is_identifier ''resource''" "\<not> forbidden_output ''resource''" by code_simp+
  then have out: "valid_output \<lparr>out_name = ''resource'', out_kind = OutReference,
      out_value = SStr (''broker://'' @ claimId ?c @ ''/resource'')\<rparr>"
    using reference_path(2) [OF paths(3) _ paths(4)] by (simp add: valid_output_def)
  have "valid_result r" using ids assms(2) ref out
    by (auto simp: valid_result_def r_def serves_def valid_request_def)
  moreover have "result_fits d q r"
    using ref out by (auto simp: result_fits_def r_def)
  ultimately show ?thesis
    using exec assms(1,2)
    by (intro exI [of _ r], unfold execute_accepts fake_parts descriptor_enc pure_s_def)
      (intro exI [of _ d] exI [of _ "enc_result r"], auto simp: result_enc)
qed

subsection \<open>Properties\<close>

text \<open>whatever an adapter answers, a plan that the broker accepts is for exactly the request it
  asked about: the adapter's validated descriptor supports the kind and every required capability,
  the plan names this provider, claim, generation, desired state and operation, is not empty, and
  its digest is the hash of its own canonical form.\<close>

theorem provider_plan_sound:
  assumes "planWithResourceProvider sha ad (enc_provider_request q) s = (Inr p, s')"
  shows "\<exists>d. validateProviderDescriptor (ad_descriptor ad) = Inr d \<and>
    resourceKind (pq_claim q) \<in> set (pd_resourceKinds d) \<and>
    set (requiredProviderCapabilities (pq_claim q)) \<subseteq> set (pd_capabilities d) \<and>
    pp_providerId p = pd_id d \<and> pp_claimId p = claimId (pq_claim q) \<and> pp_generation p = generation (pq_claim q) \<and>
    pp_desiredStateDigest p = desiredStateDigest (pq_claim q) \<and> pp_operation p = pq_operation q \<and>
    pp_semanticOperations p \<noteq> [] \<and> pp_planDigest p = sha (canonicalJson (JObj (plan_props p)))"
proof -
  from assms obtain d raw where "validateProviderDescriptor (ad_descriptor ad) = Inr d" "serves d q"
    "pp_providerId p = pd_id d" "pp_claimId p = claimId (pq_claim q)" "pp_generation p = generation (pq_claim q)"
    "pp_desiredStateDigest p = desiredStateDigest (pq_claim q)" "pp_operation p = pq_operation q"
    "pp_planDigest p = sha (canonicalJson (JObj (plan_props p)))" "pp_semanticOperations p \<noteq> []"
    unfolding plan_accepts by blast
  then show ?thesis unfolding serves_def by blast
qed

definition ex_descriptor :: provider_descriptor where
  "ex_descriptor = \<lparr>pd_id = ''provider-1'', pd_resourceKinds = [''ManagedPostgres''], pd_capabilities = [''postgres.managed'']\<rparr>"

definition ex_provider_request :: "provider_operation \<Rightarrow> provider_request" where
  "ex_provider_request op = \<lparr>pq_claim = ex_request 1, pq_operation = op, pq_fenceToken = ex_b64\<rparr>"

lemma ex_descriptor_valid: "valid_descriptor ex_descriptor"
  by code_simp

lemma ex_serves: "serves ex_descriptor (ex_provider_request op)"
proof -
  have "is_digest ex_b64" by code_simp
  then show ?thesis
    using ex_request_valid(1) by (simp add: serves_def ex_descriptor_def ex_provider_request_def) (simp add: ex_request_def)
qed

lemma ex_kind_short: "length (resourceKind (pq_claim (ex_provider_request op))) \<le> 121"
  by (simp add: ex_provider_request_def ex_request_def)

theorem provider_plan_sound_witness:
  "\<exists>p. planWithResourceProvider ex_sha (fake ex_sha ex_descriptor []) (enc_provider_request (ex_provider_request Reconcile)) () =
     (Inr p, ()) \<and> pp_claimId p = ''claim-1'' \<and> pp_semanticOperations p \<noteq> []"
proof -
  obtain p where p: "planWithResourceProvider ex_sha (fake ex_sha ex_descriptor [])
      (enc_provider_request (ex_provider_request Reconcile)) () = (Inr p, ())"
    using fake_plan_succeeds [OF ex_descriptor_valid ex_serves ex_sha_ok ex_kind_short] by blast
  from provider_plan_sound [OF p] p show ?thesis
    by (auto simp: ex_provider_request_def ex_request_def)
qed

lemma executed_result_completes:
  assumes inv: "broker_inv st" and c: "claim_of st (pa_claimId args) = Some c" "phase c = Reconciling" "holds_lease c args"
    and run: "executeWithResourceProvider ad (enc_provider_request
        \<lparr>pq_claim = resource_claim_request.truncate c, pq_operation = Reconcile, pq_fenceToken = pa_fenceToken args\<rparr>) s = (Inr r, s')"
  shows "\<exists>ref t. pr_providerResourceRef r = Some ref \<and>
    completeResourceClaim sha st (revision st) args (pr_observedStateDigest r) ref (pr_outputs r) = Inr t"
proof -
  from run obtain d ref where fits: "pr_providerResourceRef r = Some ref" "is_reference [''provider''] ref"
    "valid_outputs (pr_outputs r)" "pr_outputs r \<noteq> []" "pr_observedStateDigest r = desiredStateDigest c"
    unfolding execute_accepts result_fits_def by (auto simp: resource_claim_request.defs)
  have "is_digest (desiredStateDigest c)"
    using inv c(1) by (auto simp: broker_inv_def broker_ok_def valid_claim_def valid_request_def dest!: claim_of_id)
  then show ?thesis
    using complete_succeeds [OF inv, of sha "revision st" args "pr_observedStateDigest r" ref "pr_outputs r"] fits c
    by auto
qed

text \<open>C36: a result that the broker accepts from any adapter for a leased claim completes that claim:
  handing the observed digest, the resource reference and the outputs of the result to the broker
  under the same lease before it expires succeeds.\<close>

theorem provider_result_completes_claim:
  assumes "broker_inv st" "claim_of st (pa_claimId args) = Some c" "phase c = Reconciling" "holds_lease c args"
    and "executeWithResourceProvider ad (enc_provider_request
        \<lparr>pq_claim = resource_claim_request.truncate c, pq_operation = Reconcile, pq_fenceToken = pa_fenceToken args\<rparr>) s = (Inr r, s')"
  shows "\<exists>ref t. pr_providerResourceRef r = Some ref \<and>
    completeResourceClaim sha st (revision st) args (pr_observedStateDigest r) ref (pr_outputs r) = Inr t"
  using assms by (rule executed_result_completes)

theorem provider_result_completes_claim_witness:
  "\<exists>r ref t. executeWithResourceProvider (fake ex_sha ex_descriptor []) (enc_provider_request (ex_provider_request Reconcile)) () =
       (Inr r, ()) \<and> pr_providerResourceRef r = Some ref \<and>
     completeResourceClaim ex_sha (ex_state [ex_leased]) (revision (ex_state [ex_leased])) (ex_args ex_t1)
       (pr_observedStateDigest r) ref (pr_outputs r) = Inr t"
proof -
  have c: "claim_of (ex_state [ex_leased]) (pa_claimId (ex_args ex_t1)) = Some ex_leased" "phase ex_leased = Reconciling"
    using ex_claim_of [OF ex_ids(2)] by (simp_all add: ex_args_def ex_leased_def leased_claim_def ex_pending_def)
  have q: "\<lparr>pq_claim = resource_claim_request.truncate ex_leased, pq_operation = Reconcile,
      pq_fenceToken = pa_fenceToken (ex_args ex_t1)\<rparr> = ex_provider_request Reconcile"
    by (simp add: ex_provider_request_def ex_args_def ex_leased_def leased_claim_def ex_pending_def applied_claim_def
        resource_claim_request.defs resource_claim_state.defs)
  obtain r where r: "executeWithResourceProvider (fake ex_sha ex_descriptor [])
      (enc_provider_request (ex_provider_request Reconcile)) () = (Inr r, ())"
    using fake_execute_succeeds [OF ex_descriptor_valid ex_serves] by fastforce
  from provider_result_completes_claim [OF ex_states_inv(2) c ex_holds r [folded q]] r show ?thesis by blast
qed

text \<open>the fake provider passes the conformance evaluation for every valid claim whose kind and
  capabilities it declares, unless it was told to fail that claim (kinds of up to 121 characters,
  since a semantic operation has at most 128).\<close>

theorem fake_provider_conforms:
  fixes r :: resource_claim_request
  assumes "valid_descriptor d" "sha_ok sha" "valid_request r" "resourceKind r \<in> set (pd_resourceKinds d)"
    and "set (requiredProviderCapabilities r) \<subseteq> set (pd_capabilities d)" "claimId r \<notin> set failures"
    and "length (resourceKind r) \<le> 121"
  shows "\<exists>ev. evaluateResourceProviderConformance sha (fake sha d failures) (enc_request r) () = (Inr ev, ()) \<and>
    ce_providerId ev = pd_id d \<and> ce_claimId ev = claimId r"
proof -
  let ?q = "\<lambda>op. \<lparr>pq_claim = r, pq_operation = op, pq_fenceToken = replicate 64 CHR ''f''\<rparr>"
  have f: "is_digest (replicate 64 CHR ''f'')" by code_simp
  have parse: "parseResourceClaimRequest (enc_request r) = Inr r"
    using assms(3) by (cases r) (simp add: parse_enc_request resource_claim_request.defs)
  have serves: "serves d (?q op)" for op using assms(3-5) f by (simp add: serves_def)
  obtain p where p: "planWithResourceProvider sha (fake sha d failures) (enc_provider_request (?q Reconcile)) () = (Inr p, ())"
    using fake_plan_succeeds [OF assms(1) serves assms(2)] assms(7) by fastforce
  obtain x where x: "executeWithResourceProvider (fake sha d failures) (enc_provider_request (?q Reconcile)) () = (Inr x, ())"
    using fake_execute_succeeds [OF assms(1) serves] assms(6) by fastforce
  obtain y where y: "executeWithResourceProvider (fake sha d failures) (enc_provider_request (?q Destroy)) () = (Inr y, ())"
    using fake_execute_succeeds [OF assms(1) serves] assms(6) by fastforce
  have d: "validateProviderDescriptor (ad_descriptor (fake sha d failures)) = Inr d"
    using assms(1) by (simp add: fake_parts descriptor_enc)
  show ?thesis
    unfolding evaluateResourceProviderConformance_def Let_def
    by (simp add: bind_s_def pure_s_def d parse p x y del: canonicalJson.simps)
qed

theorem fake_provider_conforms_witness:
  "\<exists>ev. evaluateResourceProviderConformance ex_sha (fake ex_sha ex_descriptor [''claim-2'']) (enc_request (ex_request 1)) () =
     (Inr ev, ()) \<and> ce_claimId ev = ''claim-1''"
proof -
  have "resourceKind (ex_request 1) \<in> set (pd_resourceKinds ex_descriptor)"
    "set (requiredProviderCapabilities (ex_request 1)) \<subseteq> set (pd_capabilities ex_descriptor)"
    "claimId (ex_request 1) \<notin> set [''claim-2'']" "length (resourceKind (ex_request 1)) \<le> 121"
    "claimId (ex_request 1) = ''claim-1''"
    by (simp_all add: ex_request_def ex_descriptor_def)
  with fake_provider_conforms [OF ex_descriptor_valid ex_sha_ok ex_request_valid(1)] show ?thesis by metis
qed

end
