(* ===== verification/JsParse.thy ===== *)
theory JsParse
  imports JsObjects
begin

section \<open>Parsing unknown values with error messages\<close>

text \<open>
  The PaaS modules of \<open>src/core\<close> read unknown JSON with the same small validators, repeated in
  each module.  They are stated once here; a validator's error is the message it throws.  The
  collection \<open>reads\<close> says what each of them accepts, as an equation on the successful result.
\<close>

named_theorems reads \<open>what a validator accepts\<close>

subsection \<open>Strings\<close>

text \<open>\<open>value.trim().length > 0\<close> and \<open>!value.includes("*")\<close>.\<close>

definition nonEmpty :: "string \<Rightarrow> bool" where
  "nonEmpty s \<longleftrightarrow> list_ex (\<lambda>c. \<not> is_space c) s"

definition boundedResource :: "string \<Rightarrow> bool" where
  "boundedResource s \<longleftrightarrow> nonEmpty s \<and> CHR ''*'' \<notin> set s"

text \<open>An optional string where the source tests its type or its truth value.\<close>

definition nonEmpty_opt :: "string option \<Rightarrow> bool" where
  "nonEmpty_opt x = (case x of None \<Rightarrow> False | Some s \<Rightarrow> nonEmpty s)"

definition truthy :: "string option \<Rightarrow> bool" where
  "truthy x = (case x of None \<Rightarrow> False | Some s \<Rightarrow> s \<noteq> [])"

lemma nonEmpty_not_Nil: "nonEmpty s \<Longrightarrow> s \<noteq> []"
  by (auto simp: nonEmpty_def)

definition lower_alnum :: "char \<Rightarrow> bool" where
  "lower_alnum c \<longleftrightarrow> in_range CHR ''a'' CHR ''z'' c \<or> in_range CHR ''0'' CHR ''9'' c"

definition dns_char :: "char \<Rightarrow> bool" where
  "dns_char c \<longleftrightarrow> lower_alnum c \<or> c = CHR ''.'' \<or> c = CHR ''-''"

definition lower_hex :: "char \<Rightarrow> bool" where
  "lower_hex c \<longleftrightarrow> in_range CHR ''a'' CHR ''f'' c \<or> in_range CHR ''0'' CHR ''9'' c"

text \<open>
  \<open>/^[a-z0-9](?:[a-z0-9.-]*[a-z0-9])?$/\<close>, \<open>/^[a-z0-9](?:[a-z0-9.-]{0,61}[a-z0-9])?$/\<close>,
  \<open>/^[a-f0-9]{40,64}$/\<close>, \<open>/^[a-f0-9]{64}$/\<close> and \<open>/^sha256:[a-f0-9]{64}$/\<close>.
\<close>

definition name_rx :: rexp where
  "name_rx = RSeq (RCls lower_alnum) (rx_opt (RSeq (RStar (RCls dns_char)) (RCls lower_alnum)))"

definition jobId_rx :: rexp where
  "jobId_rx = RSeq (RCls lower_alnum) (rx_opt (RSeq (RRep 0 61 (RCls dns_char)) (RCls lower_alnum)))"

definition revision_rx :: rexp where
  "revision_rx = RRep 40 64 (RCls lower_hex)"

definition fingerprint_rx :: rexp where
  "fingerprint_rx = rx_times 64 (RCls lower_hex)"

definition artifact_rx :: rexp where
  "artifact_rx = RSeq (rx_str ''sha256:'') (rx_times 64 (RCls lower_hex))"

lemma jobId_not_Nil: "rx_test jobId_rx s \<Longrightarrow> s \<noteq> []"
  by (auto simp: jobId_rx_def rx_test_seq_cls simp del: rx_test.simps)

lemma name_not_Nil: "rx_test name_rx s \<Longrightarrow> s \<noteq> []"
  by (auto simp: name_rx_def rx_test_seq_cls simp del: rx_test.simps)

lemma lower_alnum_not_space: "lower_alnum c \<Longrightarrow> \<not> is_space c"
  by (auto simp: lower_alnum_def is_space_def in_range_def less_eq_char_def)

lemma name_nonEmpty: "rx_test name_rx s \<Longrightarrow> nonEmpty s"
  by (auto simp: name_rx_def rx_test_seq_cls nonEmpty_def lower_alnum_not_space)

lemma jobId_nonEmpty: "rx_test jobId_rx s \<Longrightarrow> nonEmpty s"
  by (auto simp: jobId_rx_def rx_test_seq_cls nonEmpty_def lower_alnum_not_space)

lemma lower_hex_not_space: "lower_hex c \<Longrightarrow> \<not> is_space c"
  by (auto simp: lower_hex_def is_space_def in_range_def less_eq_char_def)

lemma hex_nonEmpty: "list_all lower_hex s \<Longrightarrow> s \<noteq> [] \<Longrightarrow> nonEmpty s"
  by (cases s) (auto simp: nonEmpty_def lower_hex_not_space)

lemma revision_nonEmpty: "rx_test revision_rx s \<Longrightarrow> nonEmpty s"
  by (rule hex_nonEmpty) (auto simp: revision_rx_def rx_test_rep_cls)

lemma fingerprint_nonEmpty: "rx_test fingerprint_rx s \<Longrightarrow> nonEmpty s"
  by (rule hex_nonEmpty) (auto simp: fingerprint_rx_def rx_test_times_cls)

lemma artifact_nonEmpty: "rx_test artifact_rx s \<Longrightarrow> nonEmpty s"
proof -
  assume "rx_test artifact_rx s"
  then have "\<exists>t. s = CHR ''s'' # t"
    unfolding artifact_rx_def by (subst (asm) rx_test_seq) (auto simp only: rx_test_str append_Cons)
  moreover have "\<not> is_space CHR ''s''"
    by code_simp
  ultimately show ?thesis
    by (auto simp: nonEmpty_def)
qed

subsection \<open>Validators\<close>

definition quote_path :: "string \<Rightarrow> nat \<Rightarrow> string" where
  "quote_path p i = p @ ''['' @ nat_dec i @ '']''"

definition join_names :: "string list \<Rightarrow> string" where
  "join_names xs = concat (case xs of [] \<Rightarrow> [] | y # ys \<Rightarrow> y # map (\<lambda>z. '', '' @ z) ys)"

text \<open>An object with the required properties and no property that is not declared.\<close>

definition read_object :: "jsval \<Rightarrow> string \<Rightarrow> string list \<Rightarrow> string list \<Rightarrow> string + props" where
  "read_object v path required optional =
     (case v of
        JObj ps \<Rightarrow>
          (let unknown = filter (\<lambda>k. k \<notin> set (required @ optional)) (map fst ps);
               missing = filter (\<lambda>k. k \<notin> set (map fst ps)) required
           in bind_r (throw_if (unknown \<noteq> [])
                  (path @ '' has unknown field '' @ CHR 0x27 # hd (sort_strings unknown) @ [CHR 0x27, CHR ''.''])) (\<lambda>_.
              bind_r (throw_if (missing \<noteq> [])
                  (path @ '' is missing required field '' @ CHR 0x27 # hd missing @ [CHR 0x27, CHR ''.''])) (\<lambda>_.
              Inr ps)))
      | _ \<Rightarrow> Inl (path @ '' must be an object.''))"

definition read_string :: "jsval \<Rightarrow> string \<Rightarrow> string + string" where
  "read_string v path =
     (case v of
        JStr s \<Rightarrow> if nonEmpty s then Inr s else Inl (path @ '' must be a non-empty string.'')
      | _ \<Rightarrow> Inl (path @ '' must be a non-empty string.''))"

definition read_pattern :: "jsval \<Rightarrow> string \<Rightarrow> rexp \<Rightarrow> string \<Rightarrow> string + string" where
  "read_pattern v path rx message =
     bind_r (read_string v path) (\<lambda>s. if rx_test rx s then Inr s else Inl (path @ message))"

definition read_resource :: "jsval \<Rightarrow> string \<Rightarrow> string + string" where
  "read_resource v path =
     bind_r (read_string v path) (\<lambda>s.
       if CHR ''*'' \<in> set s then Inl (path @ '' must be an exact resource without wildcards.'') else Inr s)"

definition read_integer :: "jsval \<Rightarrow> int \<Rightarrow> string \<Rightarrow> string + int" where
  "read_integer v minimum message =
     (case v of
        JNum (NInt i) \<Rightarrow> if minimum \<le> i then Inr i else Inl message
      | _ \<Rightarrow> Inl message)"

definition read_boolean :: "jsval \<Rightarrow> string \<Rightarrow> string + bool" where
  "read_boolean v path = (case v of JBool b \<Rightarrow> Inr b | _ \<Rightarrow> Inl (path @ '' must be boolean.''))"

definition read_enum :: "jsval \<Rightarrow> string \<Rightarrow> ('a \<Rightarrow> string) \<Rightarrow> 'a list \<Rightarrow> string + 'a" where
  "read_enum v path name allowed =
     (let message = path @ '' must be one of: '' @ join_names (map name allowed) @ ''.''
      in case v of
           JStr s \<Rightarrow> (case List.find (\<lambda>a. name a = s) allowed of Some a \<Rightarrow> Inr a | None \<Rightarrow> Inl message)
         | _ \<Rightarrow> Inl message)"

subsection \<open>What they accept\<close>

lemma read_string_iff [reads]: "read_string v path = Inr s \<longleftrightarrow> v = JStr s \<and> nonEmpty s"
  by (auto simp: read_string_def split: jsval.splits if_splits)

lemma read_pattern_iff [reads]:
  "read_pattern v path rx m = Inr s \<longleftrightarrow> v = JStr s \<and> nonEmpty s \<and> rx_test rx s"
  by (auto simp: read_pattern_def reads result_simps split: if_splits)

lemma read_resource_iff [reads]: "read_resource v path = Inr s \<longleftrightarrow> v = JStr s \<and> boundedResource s"
  by (auto simp: read_resource_def boundedResource_def reads result_simps split: if_splits)

lemma read_integer_iff [reads]: "read_integer v lo m = Inr i \<longleftrightarrow> v = JNum (NInt i) \<and> lo \<le> i"
  by (auto simp: read_integer_def split: jsval.splits jsnum.splits if_splits)

lemma read_boolean_iff [reads]: "read_boolean v path = Inr b \<longleftrightarrow> v = JBool b"
  by (auto simp: read_boolean_def split: jsval.splits)

lemma find_name:
  "inj_on name (set vals) \<Longrightarrow> List.find (\<lambda>a. name a = s) vals = Some x \<longleftrightarrow> x \<in> set vals \<and> name x = s"
  by (induction vals) (auto simp: inj_on_def)

lemma read_enum_iff:
  "inj_on name (set vals) \<Longrightarrow> read_enum v path name vals = Inr x \<longleftrightarrow> v = JStr (name x) \<and> x \<in> set vals"
  by (auto simp: read_enum_def Let_def find_name find_None_iff dest: inj_onD
      split: jsval.splits option.splits)

lemma read_object_iff [reads]:
  "read_object v path req opt = Inr ps \<longleftrightarrow>
   v = JObj ps \<and> set (map fst ps) \<subseteq> set req \<union> set opt \<and> set req \<subseteq> set (map fst ps)"
  by (cases v) (auto simp: read_object_def Let_def result_simps filter_empty_conv)

subsection \<open>Arrays\<close>

definition read_list :: "jsval \<Rightarrow> string \<Rightarrow> (jsval \<Rightarrow> string \<Rightarrow> string + 'a) \<Rightarrow> string + 'a list" where
  "read_list v path parse =
     (case v of JArr vs \<Rightarrow> map_ix (\<lambda>i w. parse w (quote_path path i)) 0 vs | _ \<Rightarrow> Inl (path @ '' must be an array.''))"

lemma read_list_enc:
  assumes "\<And>x y p. x \<in> set xs \<Longrightarrow> parse (enc x) p = Inr y \<longleftrightarrow> P x \<and> y = x"
  shows "read_list (JArr (map enc xs)) path parse = Inr ys \<longleftrightarrow> list_all P xs \<and> ys = xs"
proof -
  have "map_ix (\<lambda>i w. parse w (quote_path path i)) 0 (map enc xs) = Inr ys \<longleftrightarrow> (\<forall>x \<in> set xs. P x) \<and> ys = xs"
    by (rule map_ix_encoded) (simp add: assms)
  then show ?thesis by (simp add: read_list_def list_all_iff)
qed

lemma read_list_sound:
  "read_list v path parse = Inr xs \<Longrightarrow> (\<And>w p x. parse w p = Inr x \<Longrightarrow> P x) \<Longrightarrow> list_all P xs"
proof -
  assume r: "read_list v path parse = Inr xs" and P: "\<And>w p x. parse w p = Inr x \<Longrightarrow> P x"
  from r obtain vs where "map_ix (\<lambda>i w. parse w (quote_path path i)) 0 vs = Inr xs"
    by (auto simp: read_list_def split: jsval.splits)
  from map_ix_all [OF this, of P] P show ?thesis by (auto simp: list_all_iff)
qed

lemma strings_enc:
  assumes "\<And>s p y. parse (JStr s) p = Inr y \<longleftrightarrow> P s \<and> y = s"
  shows "read_list (JArr (map JStr xs)) q parse = Inr ys \<longleftrightarrow> list_all P xs \<and> ys = xs"
  by (rule read_list_enc) (rule assms)

subsection \<open>Dictionaries\<close>

text \<open>\<open>Object.fromEntries\<close>, and \<open>Object.entries\<close> mapped with a parser and put together again.\<close>

definition obj_from_entries :: "(string \<times> 'v) list \<Rightarrow> 'v obj" where
  "obj_from_entries es = foldl (\<lambda>ob (k, v). obj_set ob k v) [] es"

definition read_entry :: "(jsval \<Rightarrow> string \<Rightarrow> string + 'a) \<Rightarrow> string \<Rightarrow> nat \<Rightarrow> string \<times> jsval \<Rightarrow> string + (string \<times> 'a)" where
  "read_entry parse path i e = bind_r (parse (snd e) (path @ ''.'' @ fst e)) (\<lambda>x. Inr (fst e, x))"

definition read_record :: "jsval \<Rightarrow> string \<Rightarrow> (jsval \<Rightarrow> string \<Rightarrow> string + 'a) \<Rightarrow> string + 'a obj" where
  "read_record v path parse =
     (case v of
        JObj ps \<Rightarrow>
          bind_r (map_ix (read_entry parse path) 0 ps) (\<lambda>es. Inr (obj_from_entries es))
      | _ \<Rightarrow> Inl (path @ '' must be an object.''))"

definition enc_obj :: "('v \<Rightarrow> jsval) \<Rightarrow> 'v obj \<Rightarrow> jsval" where
  "enc_obj enc ob = JObj (map (\<lambda>(k, v). (k, enc v)) ob)"

text \<open>
  A dictionary in the order in which JavaScript enumerates it: no key twice, the keys that are
  array indices first and ascending.
\<close>

definition key_before :: "string \<Rightarrow> string \<Rightarrow> bool" where
  "key_before k k' \<longleftrightarrow>
     (case (array_index k, array_index k') of
        (Some i, Some j) \<Rightarrow> i < j
      | (Some i, None) \<Rightarrow> True
      | (None, Some j) \<Rightarrow> False
      | (None, None) \<Rightarrow> k \<noteq> k')"

definition obj_wf :: "'v obj \<Rightarrow> bool" where
  "obj_wf ob \<longleftrightarrow> sorted_wrt key_before (obj_keys ob)"

lemma key_before_neq: "key_before k k' \<Longrightarrow> k \<noteq> k'"
  by (auto simp: key_before_def split: option.splits)

lemma sorted_before_distinct: "sorted_wrt key_before ks \<Longrightarrow> distinct ks"
  by (induction ks) (auto dest: key_before_neq)

lemma obj_wf_distinct: "obj_wf ob \<Longrightarrow> distinct (obj_keys ob)"
  by (simp add: obj_wf_def sorted_before_distinct)

lemma obj_wf_Nil [simp]: "obj_wf []"
  by (simp add: obj_wf_def obj_keys_def)

lemma nat_dec_digits_val:
  "list_all is_digit s \<Longrightarrow> s \<noteq> [] \<Longrightarrow> hd s \<noteq> CHR ''0'' \<or> s = ''0'' \<Longrightarrow>
   nat_dec (digits_val 0 s) = s \<and> (hd s \<noteq> CHR ''0'' \<longrightarrow> 1 \<le> digits_val 0 s)"
proof (induction s rule: rev_induct)
  case Nil
  then show ?case by simp
next
  case (snoc c xs)
  have c: "is_digit c" using snoc.prems(1) by simp
  then have d: "digit_val c < 10" "char_of (48 + digit_val c) = c"
    by (auto simp: is_digit_def digit_val_def less_eq_char_def)
  show ?case
  proof (cases "xs = []")
    case True
    have "char_of (48 :: nat) = CHR ''0''"
      by code_simp
    then have "c \<noteq> CHR ''0'' \<Longrightarrow> digit_val c \<noteq> 0"
      using d(2) by (metis add.right_neutral)
    with True d show ?thesis by (subst nat_dec.simps) auto
  next
    case False
    with snoc have "nat_dec (digits_val 0 xs) = xs \<and> 1 \<le> digits_val 0 xs"
      by (cases xs) auto
    with d False show ?thesis
      by (subst nat_dec.simps) (auto simp: digits_val_append)
  qed
qed

lemma array_index_inj: "array_index k = Some i \<Longrightarrow> array_index k' = Some i \<Longrightarrow> k = k'"
  using nat_dec_digits_val [of k] nat_dec_digits_val [of k']
  by (auto simp: array_index_def split: if_splits)

lemma key_before_insert:
  "sorted_wrt key_before (map fst ob) \<Longrightarrow> k \<notin> set (map fst ob) \<Longrightarrow>
   sorted_wrt key_before (map fst (obj_insert ob k v))"
proof (induction ob k v rule: obj_insert.induct)
  case (1 k v)
  then show ?case by simp
next
  case (2 k' v' ob k v)
  have keys: "set (map fst (obj_insert ob k v)) = insert k (set (map fst ob))"
    by (rule keys_obj_insert)
  have later: "\<forall>x \<in> set (map fst ob). key_before k' x" and kk: "k \<noteq> k'"
    using 2(3,4) by auto
  have before: "key_before k' k \<Longrightarrow> sorted_wrt key_before (map fst (obj_insert ob k v)) \<Longrightarrow>
      sorted_wrt key_before (map fst ((k', v') # obj_insert ob k v))"
    using later keys by (simp del: set_map)
  have front: "key_before k k' \<Longrightarrow> array_index k \<noteq> None \<Longrightarrow>
      sorted_wrt key_before (map fst ((k, v) # (k', v') # ob))"
  proof -
    assume first: "key_before k k'" "array_index k \<noteq> None"
    have "key_before k x" if "x \<in> set (map fst ob)" for x
    proof -
      have "key_before k' x" using later that by blast
      with first show ?thesis by (auto simp: key_before_def split: option.splits)
    qed
    with 2(3) first(1) show ?thesis by auto
  qed
  show ?case
  proof (cases "array_index k")
    case None
    have kb: "key_before k' k"
      using None kk by (auto simp: key_before_def split: option.splits)
    have "sorted_wrt key_before (map fst (obj_insert ob k v))"
      using 2 None by simp
    from before [OF kb this] None show ?thesis by simp
  next
    case (Some i)
    show ?thesis
    proof (cases "array_index k'")
      case None
      with Some have "key_before k k'" by (simp add: key_before_def)
      from front [OF this] Some None show ?thesis by simp
    next
      case j: (Some j)
      show ?thesis
      proof (cases "i < j")
        case True
        with Some j have "key_before k k'" by (simp add: key_before_def)
        from front [OF this] Some j True show ?thesis by simp
      next
        case False
        have "i \<noteq> j" using kk Some j array_index_inj [of k i k'] by auto
        with False Some j have kb: "key_before k' k" by (simp add: key_before_def)
        have "sorted_wrt key_before (map fst (obj_insert ob k v))"
          using 2 Some j False by simp
        from before [OF kb this] False Some j show ?thesis by simp
      qed
    qed
  qed
qed

lemma obj_wf_set [intro]: "obj_wf ob \<Longrightarrow> obj_wf (obj_set ob k v)"
  by (auto simp: obj_wf_def obj_keys_def obj_set_def keys_obj_replace key_before_insert)

lemma obj_wf_del [intro]: "obj_wf ob \<Longrightarrow> obj_wf (obj_del ob k)"
  by (simp add: obj_wf_def obj_keys_del sorted_wrt_filter)

lemma obj_wf_from_entries: "obj_wf (obj_from_entries es)"
proof -
  have "obj_wf ob \<Longrightarrow> obj_wf (foldl (\<lambda>ob (k, v). obj_set ob k v) ob es)" for ob
    by (induction es arbitrary: ob) (auto intro: obj_wf_set)
  then show ?thesis by (simp add: obj_from_entries_def)
qed

lemma obj_insert_last:
  "\<forall>k' \<in> set (map fst ob). key_before k' k \<Longrightarrow> obj_insert ob k v = ob @ [(k, v)]"
proof (induction ob)
  case Nil
  then show ?case by simp
next
  case (Cons e ob)
  obtain k' v' where e: "e = (k', v')" by (cases e)
  from Cons e have "key_before k' k" "obj_insert ob k v = ob @ [(k, v)]" by auto
  with e show ?case by (auto simp: key_before_def split: option.splits)
qed

lemma obj_from_entries_wf: "obj_wf es \<Longrightarrow> obj_from_entries es = es"
proof -
  have "sorted_wrt key_before (map fst (ob @ es)) \<Longrightarrow>
        foldl (\<lambda>ob (k, v). obj_set ob k v) ob es = ob @ es" for ob :: "'v obj" and es
  proof (induction es arbitrary: ob)
    case Nil
    then show ?case by simp
  next
    case (Cons e es)
    obtain k v where e: "e = (k, v)" by (cases e)
    have before: "\<forall>k' \<in> set (map fst ob). key_before k' k"
      using Cons.prems e by (auto simp: sorted_wrt_append)
    then have "k \<notin> set (map fst ob)" by (auto dest: key_before_neq)
    with before have "obj_set ob k v = ob @ [(k, v)]"
      by (simp add: obj_set_def obj_insert_last)
    with Cons e show ?case by simp
  qed
  from this [of "[]" es] show "obj_wf es \<Longrightarrow> obj_from_entries es = es"
    by (simp add: obj_from_entries_def obj_wf_def obj_keys_def)
qed

subsection \<open>Reading dictionaries\<close>

lemma obj_values_set: "set (obj_values (obj_set ob k v)) \<subseteq> insert v (set (obj_values ob))"
proof -
  have "set (map snd (obj_insert ob k v)) \<subseteq> insert v (set (map snd ob))"
    by (induction ob k v rule: obj_insert.induct) (auto split: option.splits)
  moreover have "set (map snd (obj_replace ob k v)) \<subseteq> insert v (set (map snd ob))"
    by (induction ob k v rule: obj_replace.induct) auto
  ultimately show ?thesis by (simp add: obj_values_def obj_set_def del: set_map)
qed

lemma obj_values_from_entries: "set (obj_values (obj_from_entries es)) \<subseteq> snd ` set es"
proof -
  have "set (obj_values (foldl (\<lambda>ob (k, v). obj_set ob k v) ob es)) \<subseteq> set (obj_values ob) \<union> snd ` set es"
    for ob
  proof (induction es arbitrary: ob)
    case Nil
    then show ?case by simp
  next
    case (Cons e es)
    obtain k v where e: "e = (k, v)" by (cases e)
    from Cons [of "obj_set ob k v"] obj_values_set [of ob k v] e show ?case by auto
  qed
  from this [of "[]"] show ?thesis by (simp add: obj_from_entries_def obj_values_def)
qed

lemma read_record_valid:
  assumes "read_record v path parse = Inr ob" and "\<And>w q x. parse w q = Inr x \<Longrightarrow> P x"
  shows "obj_wf ob \<and> (\<forall>x \<in> set (obj_values ob). P x)"
proof -
  from assms(1) obtain ps es where
    "map_ix (read_entry parse path) 0 ps = Inr es"
    and ob: "ob = obj_from_entries es"
    by (auto simp: read_record_def result_simps split: jsval.splits)
  from this(1) have "\<forall>e \<in> set es. P (snd e)"
    by (rule map_ix_all) (auto simp: read_entry_def result_simps dest: assms(2))
  with obj_values_from_entries [of es] ob show ?thesis
    by (auto simp: obj_wf_from_entries)
qed

lemma read_record_enc:
  assumes "\<And>q x y. parse (enc x) q = Inr y \<longleftrightarrow> P x \<and> y = x" and "obj_wf ob"
  shows "read_record (enc_obj enc ob) path parse = Inr ob' \<longleftrightarrow> (\<forall>x \<in> set (obj_values ob). P x) \<and> ob' = ob"
proof -
  have "map_ix (read_entry parse path) 0 (map (\<lambda>(k, v). (k, enc v)) ob) = Inr es \<longleftrightarrow>
        (\<forall>e \<in> set ob. P (snd e)) \<and> es = ob" for es
    by (rule map_ix_encoded) (auto simp: read_entry_def result_simps assms(1) split: prod.splits)
  with assms(2) show ?thesis
    by (auto simp: read_record_def enc_obj_def result_simps obj_from_entries_wf obj_values_def)
qed

end
