(* ===== verification/PaasIntent.thy ===== *)
theory PaasIntent
  imports JsParse
begin

section \<open>PaaS security intent: data\<close>

text \<open>
  The types of \<open>src/core/paas.ts\<close>: the declared tenants with their quotas, the endpoints with
  their authentication and authorization mode, and the rest of the intent that the control plane
  and the authorizer read.  An interface is a record without \<open>apiVersion\<close>, whose type is a single
  literal; a union of string literals is a datatype with a function that gives the literals.
\<close>

datatype paas_operation =
    OpBuild | OpDeploy | OpCancel | OpRollback | OpReadState | OpReadFile | OpWriteFile
  | OpExecCommand | OpOpenTerminal | OpPushArtifact | OpPullArtifact | OpInvokeAgent

datatype execution_target = ControlPlane | TenantSandbox | Host

datatype identity_role =
  RoleControlPlane | RoleBuilder | RoleDeployer | RoleEgress | RoleRegistry | RoleRuntime | RoleAudit

datatype endpoint_exposure = Private | Public

datatype endpoint_authentication = AuthNone | AuthOidc | AuthMtls | AuthOidcMtls

datatype endpoint_authorization = ModeNone | ModeRbac | ModeCapability

record paas_tenant =
  tq_tenantId :: string
  tq_maxConcurrentBuilds :: int
  tq_maxConcurrentDeployments :: int
  tq_maxCpu :: string
  tq_maxMemory :: string
  tq_maxStorage :: string
  tq_maxExecutionMinutes :: int

record paas_endpoint =
  ep_id :: string
  ep_exposure :: endpoint_exposure
  ep_authentication :: endpoint_authentication
  ep_authorization :: endpoint_authorization
  ep_tenantBindingRequired :: bool
  ep_directHostExecution :: bool
  ep_executionTarget :: execution_target
  ep_operations :: "paas_operation list"

record paas_access_control =
  ac_denyByDefault :: bool
  ac_trustedCapabilityIssuers :: "string list"
  ac_maxCapabilityTtlSeconds :: int
  ac_oneUseMutations :: bool
  ac_idempotencyKeys :: bool

record paas_identity =
  pid_id :: string
  pid_role :: identity_role
  pid_shortLived :: bool
  pid_tenantScoped :: bool

datatype sandbox_trust = Trusted | Untrusted

datatype sandbox_isolation = Container | Microvm | DedicatedVm

datatype sandbox_egress = EgressNone | EgressBrokered | EgressDirect

record paas_sandbox =
  sb_trust :: sandbox_trust
  sb_isolation :: sandbox_isolation
  sb_ephemeral :: bool
  sb_privileged :: bool
  sb_hostNetwork :: bool
  sb_hostPid :: bool
  sb_hostPathMounts :: bool
  sb_containerSocket :: bool
  sb_ambientCloudCredentials :: bool
  sb_egress :: sandbox_egress
  sb_perTenant :: bool
  sb_maxLifetimeMinutes :: int

record paas_scheduling =
  sch_perTenantQueues :: bool
  sch_fairScheduling :: bool
  sch_cancellation :: bool
  sch_timeouts :: bool
  sch_maxGlobalConcurrency :: int

record paas_supply_chain =
  sc_digestPinned :: bool
  sc_signatureVerification :: bool
  sc_provenanceVerification :: bool
  sc_sbomRequired :: bool
  sc_immutableArtifacts :: bool
  sc_retentionDays :: int

record paas_deployment_state =
  ds_durable :: bool
  ds_encrypted :: bool
  ds_idempotencyKeys :: bool
  ds_perTenantLocks :: bool
  ds_rollback :: bool
  ds_backup :: bool
  ds_restoreTests :: bool
  ds_regionalRecovery :: bool

record paas_audit =
  au_immutable :: bool
  au_retentionDays :: int
  au_requiredFields :: "string list"
  au_denialEvents :: bool

record paas_intent =
  in_name :: string
  in_environment :: string
  in_tenants :: "paas_tenant list"
  in_endpoints :: "paas_endpoint list"
  in_accessControl :: paas_access_control
  in_identities :: "paas_identity list"
  in_builder :: paas_sandbox
  in_runtime :: paas_sandbox
  in_scheduling :: paas_scheduling
  in_supplyChain :: paas_supply_chain
  in_deploymentState :: paas_deployment_state
  in_audit :: paas_audit

subsection \<open>The literals of the unions\<close>

definition operations :: "paas_operation list" where
  "operations =
     [OpBuild, OpDeploy, OpCancel, OpRollback, OpReadState, OpReadFile, OpWriteFile,
      OpExecCommand, OpOpenTerminal, OpPushArtifact, OpPullArtifact, OpInvokeAgent]"

fun operation_name :: "paas_operation \<Rightarrow> string" where
  "operation_name OpBuild = ''build''"
| "operation_name OpDeploy = ''deploy''"
| "operation_name OpCancel = ''cancel''"
| "operation_name OpRollback = ''rollback''"
| "operation_name OpReadState = ''read-state''"
| "operation_name OpReadFile = ''read-file''"
| "operation_name OpWriteFile = ''write-file''"
| "operation_name OpExecCommand = ''exec-command''"
| "operation_name OpOpenTerminal = ''open-terminal''"
| "operation_name OpPushArtifact = ''push-artifact''"
| "operation_name OpPullArtifact = ''pull-artifact''"
| "operation_name OpInvokeAgent = ''invoke-agent''"

fun target_name :: "execution_target \<Rightarrow> string" where
  "target_name ControlPlane = ''control-plane''"
| "target_name TenantSandbox = ''tenant-sandbox''"
| "target_name Host = ''host''"

lemma operation_in [simp]: "x \<in> set operations"
  by (cases x) (simp_all add: operations_def)

lemma operation_name_inj [simp]: "operation_name x = operation_name y \<longleftrightarrow> x = y"
  by (cases x; cases y; simp)

lemma target_name_inj [simp]: "target_name x = target_name y \<longleftrightarrow> x = y"
  by (cases x; cases y; simp)

lemma read_operation [reads]:
  "read_enum v path operation_name operations = Inr x \<longleftrightarrow> v = JStr (operation_name x)"
  by (simp add: read_enum_iff inj_on_def)

text \<open>\<open>intent.tenants.find((t) => t.tenantId === id)\<close>\<close>

definition find_tenant :: "paas_intent \<Rightarrow> string \<Rightarrow> paas_tenant option" where
  "find_tenant intent t = List.find (\<lambda>c. tq_tenantId c = t) (in_tenants intent)"

definition tenant_ids :: "paas_intent \<Rightarrow> string list" where
  "tenant_ids intent = map tq_tenantId (in_tenants intent)"

lemma find_tenant_Some: "find_tenant intent t = Some q \<Longrightarrow> q \<in> set (in_tenants intent) \<and> tq_tenantId q = t"
  by (auto simp: find_tenant_def dest: find_Some_mem)

lemma find_tenant_None: "find_tenant intent t = None \<longleftrightarrow> t \<notin> set (tenant_ids intent)"
  by (auto simp: find_tenant_def tenant_ids_def find_None_iff)

lemma find_tenant_ex: "t \<in> set (tenant_ids intent) \<Longrightarrow> \<exists>q. find_tenant intent t = Some q"
  using find_tenant_None [of intent t] by (cases "find_tenant intent t") auto

lemma find_tenant_unique:
  "distinct (tenant_ids intent) \<Longrightarrow> q \<in> set (in_tenants intent) \<Longrightarrow> find_tenant intent (tq_tenantId q) = Some q"
  by (simp add: find_tenant_def tenant_ids_def find_cong_key)

end
