(* ===== verification/PaasModel.thy ===== *)
theory PaasModel
  imports PaasIntent
begin

section \<open>PaaS control plane: data and the state check\<close>

text \<open>
  The data of \<open>src/core/paasControlState.ts\<close>, its small helpers, and \<open>stateInvariantError\<close>, the
  check that every operation makes of the state it is given.  A dictionary of the state is an
  \<open>obj\<close>, in enumeration order.  A number of a command is a \<open>jsnum\<close> because the operations check
  it; a number of the state is an integer.  SHA-256 is the parameter \<open>sha\<close>, from the text to the
  hexadecimal digest.  A job id named like a member of \<open>Object.prototype\<close> reads as missing here.
\<close>

subsection \<open>Data\<close>

datatype paas_job_operation = JobBuild | JobDeploy | JobRollback

datatype paas_job_status = Queued | Running | JobCancelling | Succeeded | JobFailed | JobCancelled | TimedOut

datatype paas_worker_role = Builder | Deployer

datatype paas_cancel_reason = ByUser | ByDeadline

datatype paas_idem_action = ActEnqueue | ActCancel

record paas_job =
  job_id :: string
  job_tenantId :: string
  job_operation :: paas_job_operation
  job_resource :: string
  job_sourceRevision :: "string option"
  job_artifactDigest :: "string option"
  job_status :: paas_job_status
  job_workerRole :: paas_worker_role
  job_idempotencyKey :: string
  job_capabilityId :: "string option"
  job_createdAt :: int
  job_updatedAt :: int
  job_deadlineAt :: int
  job_startedAt :: "int option"
  job_completedAt :: "int option"
  job_attempt :: int
  job_maxAttempts :: int
  job_lastErrorCode :: "string option"
  job_cancellationReason :: "paas_cancel_reason option"
  job_cleanupEvidence :: "string option"
  job_resultArtifactDigest :: "string option"

record paas_deployment =
  dep_tenantId :: string
  dep_resource :: string
  dep_activeArtifactDigest :: string
  dep_previousArtifactDigests :: "string list"
  dep_generation :: int
  dep_updatedAt :: int
  dep_sourceJobId :: string

record paas_idempotency =
  idem_action :: paas_idem_action
  idem_tenantId :: string
  idem_idempotencyKey :: string
  idem_fingerprint :: string
  idem_jobId :: string

record paas_redemption =
  red_capabilityId :: string
  red_tenantId :: string
  red_jobId :: string
  red_redeemedAt :: int

record paas_control_state =
  st_revision :: int
  st_lastScheduledTenant :: "string option"
  st_jobs :: "paas_job obj"
  st_tenantQueues :: "string list obj"
  st_idempotency :: "paas_idempotency obj"
  st_redeemedCapabilities :: "paas_redemption obj"
  st_resourceLocks :: "string obj"
  st_deployments :: "paas_deployment obj"

datatype paas_event_type =
    EvEnqueued | EvCapabilityRedeemed | EvStarted | EvRetryQueued | EvSucceeded | EvFailed
  | EvCancellationRequested | EvCancelled | EvTimedOut | EvPromoted | EvRolledBack

record paas_event =
  ev_type :: paas_event_type
  ev_stateRevision :: int
  ev_at :: int
  ev_tenantId :: string
  ev_jobId :: string
  ev_resource :: string

datatype paas_code =
    ACCEPTED | DEDUPLICATED | NO_CHANGE | STATE_REVISION_CONFLICT | STATE_INVARIANT_VIOLATION
  | COMMAND_INVALID | AUTHORIZATION_DENIED | AUTHORIZATION_BINDING_INVALID | TENANT_UNKNOWN
  | JOB_ALREADY_EXISTS | JOB_NOT_FOUND | JOB_NOT_RUNNING | JOB_DEADLINE_EXCEEDED
  | JOB_NOT_CANCELLABLE | IDEMPOTENCY_CONFLICT | CAPABILITY_REPLAYED | ROLLBACK_TARGET_UNKNOWN
  | WORKER_IDENTITY_MISMATCH | CLEANUP_EVIDENCE_REQUIRED

record paas_transition =
  tr_accepted :: bool
  tr_code :: paas_code
  tr_state :: paas_control_state
  tr_events :: "paas_event list"
  tr_jobId :: "string option"

text \<open>The decision of \<open>src/core/paasAuthorization.ts\<close> that a command carries.\<close>

datatype paas_reason =
    REQUEST_INVALID | ENDPOINT_UNKNOWN | OPERATION_UNDECLARED | AUTH_TENANT_UNKNOWN | TENANT_MISMATCH
  | AUTHENTICATION_INSUFFICIENT | EXECUTION_TARGET_INVALID | HOST_EXECUTION_DENIED
  | IDEMPOTENCY_KEY_MISSING | SOURCE_REVISION_MISSING | ARTIFACT_DIGEST_MISSING
  | CAPABILITY_MISSING | CAPABILITY_INVALID | CAPABILITY_UNVERIFIED | CAPABILITY_ISSUER_UNTRUSTED
  | CAPABILITY_SUBJECT_MISMATCH | CAPABILITY_TENANT_MISMATCH | CAPABILITY_AUDIENCE_MISMATCH
  | CAPABILITY_OPERATION_DENIED | CAPABILITY_RESOURCE_DENIED | CAPABILITY_TIME_INVALID
  | CAPABILITY_TTL_EXCEEDED | AUTH_CAPABILITY_REPLAYED | CAPABILITY_NOT_ONE_USE
  | RBAC_GRANT_MISSING | AUTHORIZATION_MODE_UNSAFE

record paas_audit_record =
  aud_actor :: string
  aud_tenant :: string
  aud_requestId :: string
  aud_operation :: paas_operation
  aud_endpoint :: string
  aud_resource :: string
  aud_executionTarget :: execution_target
  aud_sourceRevision :: "string option"
  aud_artifactDigest :: "string option"
  aud_allow :: bool
  aud_decisionEpochSeconds :: jsnum
  aud_reasonCodes :: "paas_reason list"
  aud_capabilityId :: "string option"
  aud_idempotencyKey :: "string option"

record paas_decision =
  dec_allowed :: bool
  dec_evaluatedAt :: jsnum
  dec_reasonCodes :: "paas_reason list"
  dec_capabilityToRedeem :: "string option"
  dec_audit :: paas_audit_record

record paas_enqueue =
  enq_expectedRevision :: int
  enq_jobId :: string
  enq_tenantId :: string
  enq_operation :: paas_job_operation
  enq_resource :: string
  enq_idempotencyKey :: string
  enq_requestedAt :: jsnum
  enq_maxAttempts :: jsnum
  enq_sourceRevision :: "string option"
  enq_artifactDigest :: "string option"
  enq_authorization :: paas_decision

record paas_schedule =
  sched_expectedRevision :: int
  sched_now :: jsnum
  sched_maxStarts :: "jsnum option"

datatype paas_outcome = OutcomeSucceeded | OutcomeFailed

record paas_complete =
  cmp_expectedRevision :: int
  cmp_jobId :: string
  cmp_tenantId :: string
  cmp_workerRole :: paas_worker_role
  cmp_completedAt :: jsnum
  cmp_outcome :: paas_outcome
  cmp_retryable :: "bool option"
  cmp_errorCode :: "string option"
  cmp_resultArtifactDigest :: "string option"

record paas_cancel =
  can_expectedRevision :: int
  can_jobId :: string
  can_tenantId :: string
  can_idempotencyKey :: string
  can_requestedAt :: jsnum
  can_authorization :: paas_decision

record paas_acknowledge =
  ack_expectedRevision :: int
  ack_jobId :: string
  ack_tenantId :: string
  ack_workerRole :: paas_worker_role
  ack_acknowledgedAt :: jsnum
  ack_cleanupEvidence :: string

subsection \<open>Helpers\<close>

definition validEpoch :: "jsnum \<Rightarrow> bool" where
  "validEpoch n = (case n of NInt i \<Rightarrow> 0 \<le> i | _ \<Rightarrow> False)"

definition isInteger :: "jsnum \<Rightarrow> bool" where
  "isInteger n = (case n of NInt i \<Rightarrow> True | _ \<Rightarrow> False)"

text \<open>The integer of a number that was checked to be one.\<close>

definition num_int :: "jsnum \<Rightarrow> int" where
  "num_int n = (case n of NInt i \<Rightarrow> i | _ \<Rightarrow> 0)"

definition epoch_opt :: "int option \<Rightarrow> bool" where
  "epoch_opt t = (case t of None \<Rightarrow> False | Some i \<Rightarrow> 0 \<le> i)"

definition validDigest :: "string option \<Rightarrow> bool" where
  "validDigest d = (case d of None \<Rightarrow> False | Some s \<Rightarrow> rx_test artifact_rx s)"

definition paas_digest :: "(string \<Rightarrow> string) \<Rightarrow> jsval \<Rightarrow> string" where
  "paas_digest sha v = sha (json_text v)"

definition stateKey :: "(string \<Rightarrow> string) \<Rightarrow> string list \<Rightarrow> string" where
  "stateKey sha parts = paas_digest sha (JArr (map JStr parts))"

definition resourceKey :: "(string \<Rightarrow> string) \<Rightarrow> string \<Rightarrow> string \<Rightarrow> string" where
  "resourceKey sha t r = stateKey sha [''resource'', t, r]"

definition job_active :: "paas_job \<Rightarrow> bool" where
  "job_active j \<longleftrightarrow> job_status j = Running \<or> job_status j = JobCancelling"

definition job_terminal :: "paas_job \<Rightarrow> bool" where
  "job_terminal j \<longleftrightarrow> job_status j \<in> {Succeeded, JobFailed, JobCancelled, TimedOut}"

definition job_lock :: "(string \<Rightarrow> string) \<Rightarrow> paas_job \<Rightarrow> string" where
  "job_lock sha j = resourceKey sha (job_tenantId j) (job_resource j)"

definition activeJobs :: "paas_job obj \<Rightarrow> paas_job list" where
  "activeJobs jobs = filter job_active (obj_values jobs)"

definition active_builds :: "paas_job obj \<Rightarrow> string \<Rightarrow> int" where
  "active_builds jobs t =
     int (length (filter (\<lambda>j. job_tenantId j = t \<and> job_operation j = JobBuild) (activeJobs jobs)))"

definition active_deploys :: "paas_job obj \<Rightarrow> string \<Rightarrow> int" where
  "active_deploys jobs t =
     int (length (filter (\<lambda>j. job_tenantId j = t \<and> job_operation j \<noteq> JobBuild) (activeJobs jobs)))"

subsection \<open>The state check\<close>

text \<open>
  A loop that returns at the first fault is \<open>first_fault\<close>, a sequence of such checks \<open>or_else\<close>;
  the result is the message of the fault, \<open>None\<close> for \<open>null\<close>.
\<close>

fun first_fault :: "('a \<Rightarrow> string option) \<Rightarrow> 'a list \<Rightarrow> string option" where
  "first_fault f [] = None"
| "first_fault f (x # xs) = (case f x of Some e \<Rightarrow> Some e | None \<Rightarrow> first_fault f xs)"

definition or_else :: "string option \<Rightarrow> string option \<Rightarrow> string option" where
  "or_else a b = (case a of Some e \<Rightarrow> Some e | None \<Rightarrow> b)"

definition fault_if :: "bool \<Rightarrow> string \<Rightarrow> string option" where
  "fault_if b e = (if b then Some e else None)"

definition quoted :: "string \<Rightarrow> string" where
  "quoted s = CHR 0x27 # s @ [CHR 0x27]"

definition queued_ids :: "paas_control_state \<Rightarrow> string list" where
  "queued_ids st = concat (obj_values (st_tenantQueues st))"

definition queue_entry_fault :: "paas_control_state \<Rightarrow> string \<times> string list \<Rightarrow> string option" where
  "queue_entry_fault st e =
     first_fault (\<lambda>i.
       fault_if (case obj_get (st_jobs st) i of
                   None \<Rightarrow> True
                 | Some j \<Rightarrow> job_tenantId j \<noteq> fst e \<or> job_status j \<noteq> Queued)
         (''queue '' @ quoted (fst e) @ '' contains an invalid job '' @ quoted i)) (snd e)"

definition job_fields_bad :: "paas_intent \<Rightarrow> string \<Rightarrow> paas_job \<Rightarrow> bool" where
  "job_fields_bad intent k j \<longleftrightarrow>
     k \<noteq> job_id j \<or>
     (case find_tenant intent (job_tenantId j) of
        None \<Rightarrow> True
      | Some q \<Rightarrow>
          \<not> rx_test jobId_rx (job_id j) \<or>
          \<not> boundedResource (job_resource j) \<or>
          \<not> nonEmpty (job_idempotencyKey j) \<or>
          job_createdAt j < 0 \<or>
          job_updatedAt j < 0 \<or>
          job_deadlineAt j < 0 \<or>
          job_deadlineAt j \<le> job_createdAt j \<or>
          job_deadlineAt j - job_createdAt j > tq_maxExecutionMinutes q * 60 \<or>
          job_updatedAt j < job_createdAt j \<or>
          job_attempt j < 0 \<or>
          job_maxAttempts j < 1 \<or>
          job_maxAttempts j > 5 \<or>
          (job_operation j = JobBuild \<and>
            \<not> rx_test revision_rx (case job_sourceRevision j of None \<Rightarrow> [] | Some s \<Rightarrow> s)) \<or>
          (job_operation j \<noteq> JobBuild \<and> \<not> validDigest (job_artifactDigest j)) \<or>
          (job_operation j = JobBuild \<and> job_workerRole j \<noteq> Builder) \<or>
          (job_operation j \<noteq> JobBuild \<and> job_workerRole j \<noteq> Deployer))"

definition job_times_bad :: "paas_job \<Rightarrow> bool" where
  "job_times_bad j \<longleftrightarrow>
     (job_active j \<and> \<not> epoch_opt (job_startedAt j)) \<or>
     (job_terminal j \<and> \<not> epoch_opt (job_completedAt j)) \<or>
     (case job_startedAt j of None \<Rightarrow> False | Some t \<Rightarrow> t < job_createdAt j) \<or>
     (case job_completedAt j of None \<Rightarrow> False | Some t \<Rightarrow> t < job_createdAt j)"

definition job_entry_fault ::
  "(string \<Rightarrow> string) \<Rightarrow> paas_intent \<Rightarrow> paas_control_state \<Rightarrow> string \<times> paas_job \<Rightarrow> string option" where
  "job_entry_fault sha intent st e =
     (let j = snd e in
      or_else (fault_if (job_fields_bad intent (fst e) j)
                 (''job '' @ quoted (job_id j) @ '' has invalid durable fields''))
      (or_else (fault_if ((job_status j = Queued) \<noteq> (job_id j \<in> set (queued_ids st)))
                 (''job '' @ quoted (job_id j) @ '' queue membership does not match its status''))
      (or_else (fault_if (job_times_bad j)
                 (''job '' @ quoted (job_id j) @ '' lifecycle timestamps are incomplete''))
      (fault_if (job_active j \<and> obj_get (st_resourceLocks st) (job_lock sha j) \<noteq> Some (job_id j))
                 (''active job '' @ quoted (job_id j) @ '' does not own its resource lock'')))))"

definition lock_entry_fault ::
  "(string \<Rightarrow> string) \<Rightarrow> paas_control_state \<Rightarrow> string \<times> string \<Rightarrow> string option" where
  "lock_entry_fault sha st e =
     fault_if (case obj_get (st_jobs st) (snd e) of
                 None \<Rightarrow> True
               | Some j \<Rightarrow> (job_status j \<noteq> Running \<and> job_status j \<noteq> JobCancelling) \<or> job_lock sha j \<noteq> fst e)
       (''resource lock '' @ quoted (fst e) @ '' does not reference its active job'')"

definition tenant_fault :: "paas_control_state \<Rightarrow> paas_tenant \<Rightarrow> string option" where
  "tenant_fault st q =
     fault_if (active_builds (st_jobs st) (tq_tenantId q) > tq_maxConcurrentBuilds q \<or>
               active_deploys (st_jobs st) (tq_tenantId q) > tq_maxConcurrentDeployments q)
       (''tenant '' @ quoted (tq_tenantId q) @ '' concurrency exceeds its quota'')"

definition idem_entry_fault ::
  "(string \<Rightarrow> string) \<Rightarrow> paas_control_state \<Rightarrow> string \<times> paas_idempotency \<Rightarrow> string option" where
  "idem_entry_fault sha st e =
     (let r = snd e in
      fault_if (case obj_get (st_jobs st) (idem_jobId r) of
                  None \<Rightarrow> True
                | Some j \<Rightarrow> idem_tenantId r \<noteq> job_tenantId j \<or>
                            stateKey sha [idem_tenantId r, idem_idempotencyKey r] \<noteq> fst e)
        (''idempotency record references missing job '' @ quoted (idem_jobId r)))"

definition redemption_entry_fault ::
  "(string \<Rightarrow> string) \<Rightarrow> paas_control_state \<Rightarrow> string \<times> paas_redemption \<Rightarrow> string option" where
  "redemption_entry_fault sha st e =
     (let r = snd e in
      fault_if (case obj_get (st_jobs st) (red_jobId r) of
                  None \<Rightarrow> True
                | Some j \<Rightarrow> red_tenantId r \<noteq> job_tenantId j \<or> stateKey sha [red_capabilityId r] \<noteq> fst e)
        (''capability redemption references missing job '' @ quoted (red_jobId r)))"

definition deployment_entry_fault ::
  "(string \<Rightarrow> string) \<Rightarrow> paas_intent \<Rightarrow> paas_control_state \<Rightarrow> string \<times> paas_deployment \<Rightarrow> string option" where
  "deployment_entry_fault sha intent st e =
     (let d = snd e in
      fault_if (dep_tenantId d \<notin> set (tenant_ids intent) \<or>
                \<not> boundedResource (dep_resource d) \<or>
                resourceKey sha (dep_tenantId d) (dep_resource d) \<noteq> fst e \<or>
                \<not> validDigest (Some (dep_activeArtifactDigest d)) \<or>
                list_ex (\<lambda>a. \<not> validDigest (Some a)) (dep_previousArtifactDigests d) \<or>
                length (dep_previousArtifactDigests d) > 20 \<or>
                dep_activeArtifactDigest d \<in> set (dep_previousArtifactDigests d) \<or>
                \<not> distinct (dep_previousArtifactDigests d) \<or>
                dep_generation d < 1 \<or>
                (case obj_get (st_jobs st) (dep_sourceJobId d) of
                   None \<Rightarrow> True
                 | Some j \<Rightarrow> job_status j \<noteq> Succeeded \<or> job_tenantId j \<noteq> dep_tenantId d \<or>
                             job_resource j \<noteq> dep_resource d \<or>
                             job_artifactDigest j \<noteq> Some (dep_activeArtifactDigest d)))
        (''deployment '' @ quoted (fst e) @ '' has invalid durable fields''))"

definition stateInvariantError ::
  "(string \<Rightarrow> string) \<Rightarrow> paas_control_state \<Rightarrow> paas_intent \<Rightarrow> string option" where
  "stateInvariantError sha st intent =
     or_else (fault_if (st_revision st < 0) ''invalid API version or revision'')
     (or_else (fault_if (sort_strings (obj_keys (st_tenantQueues st)) \<noteq> sort_strings (tenant_ids intent))
                 ''tenant queues do not match the security intent'')
     (or_else (fault_if (case st_lastScheduledTenant st of None \<Rightarrow> False
                         | Some t \<Rightarrow> t \<notin> set (tenant_ids intent))
                 ''last scheduled tenant is not declared'')
     (or_else (fault_if (\<not> distinct (queued_ids st)) ''a job appears in more than one queue position'')
     (or_else (first_fault (queue_entry_fault st) (st_tenantQueues st))
     (or_else (first_fault (job_entry_fault sha intent st) (st_jobs st))
     (or_else (first_fault (lock_entry_fault sha st) (st_resourceLocks st))
     (or_else (fault_if (int (length (activeJobs (st_jobs st))) > sch_maxGlobalConcurrency (in_scheduling intent))
                 ''global concurrency exceeds the security intent'')
     (or_else (first_fault (tenant_fault st) (in_tenants intent))
     (or_else (first_fault (idem_entry_fault sha st) (st_idempotency st))
     (or_else (first_fault (redemption_entry_fault sha st) (st_redeemedCapabilities st))
     (first_fault (deployment_entry_fault sha intent st) (st_deployments st))))))))))))"

definition assertPaasControlState ::
  "(string \<Rightarrow> string) \<Rightarrow> paas_control_state \<Rightarrow> paas_intent \<Rightarrow> string + unit" where
  "assertPaasControlState sha st intent =
     (case stateInvariantError sha st intent of
        Some e \<Rightarrow> Inl (''Invalid PaaS control state: '' @ e)
      | None \<Rightarrow> Inr ())"

definition createPaasControlState :: "paas_intent \<Rightarrow> paas_control_state" where
  "createPaasControlState intent =
     \<lparr>st_revision = 0, st_lastScheduledTenant = None, st_jobs = [],
      st_tenantQueues = obj_from_entries (map (\<lambda>t. (tq_tenantId t, [])) (in_tenants intent)),
      st_idempotency = [], st_redeemedCapabilities = [], st_resourceLocks = [], st_deployments = []\<rparr>"

end
