(* ===== verification/PaasOps.thy ===== *)
theory PaasOps
  imports PaasModel
begin

section \<open>PaaS control plane: transitions\<close>

text \<open>
  The six transitions of \<open>src/core/paasControlState.ts\<close>.  Each takes the state and gives a
  transition with the next state, its events and a code; the source works on a
  \<open>structuredClone\<close>, so the given state is never changed.  A read of a property of
  \<open>undefined\<close> is \<open>Inl TypeError\<close>.  The source changes a job of \<open>next.jobs\<close> in place; here the
  changed job is written back under its key.
\<close>

datatype js_fault = TypeError

subsection \<open>Results\<close>

definition paas_accepted ::
  "paas_control_state \<Rightarrow> paas_event list \<Rightarrow> string option \<Rightarrow> paas_transition" where
  "paas_accepted st evs i =
     \<lparr>tr_accepted = True, tr_code = ACCEPTED, tr_state = st, tr_events = evs,
      tr_jobId = (if truthy i then i else None)\<rparr>"

definition paas_rejected :: "paas_control_state \<Rightarrow> paas_code \<Rightarrow> paas_transition" where
  "paas_rejected st code =
     \<lparr>tr_accepted = False, tr_code = code, tr_state = st, tr_events = [], tr_jobId = None\<rparr>"

definition paas_unchanged :: "paas_control_state \<Rightarrow> paas_code \<Rightarrow> string option \<Rightarrow> paas_transition" where
  "paas_unchanged st code i =
     \<lparr>tr_accepted = True, tr_code = code, tr_state = st, tr_events = [], tr_jobId = i\<rparr>"

definition finalize :: "paas_control_state \<Rightarrow> int \<Rightarrow> paas_control_state" where
  "finalize st rv = st\<lparr>st_revision := rv\<rparr>"

definition paas_event_of :: "paas_event_type \<Rightarrow> int \<Rightarrow> int \<Rightarrow> paas_job \<Rightarrow> paas_event" where
  "paas_event_of ty rv at j =
     \<lparr>ev_type = ty, ev_stateRevision = rv, ev_at = at, ev_tenantId = job_tenantId j,
      ev_jobId = job_id j, ev_resource = job_resource j\<rparr>"

definition put_job :: "paas_control_state \<Rightarrow> string \<Rightarrow> paas_job \<Rightarrow> paas_control_state" where
  "put_job st k j = st\<lparr>st_jobs := obj_set (st_jobs st) k j\<rparr>"

text \<open>\<open>next.tenantQueues[t]\<close> where the source calls a method of it, and \<open>push\<close>.\<close>

definition the_queue :: "paas_control_state \<Rightarrow> string \<Rightarrow> js_fault + string list" where
  "the_queue st t = (case obj_get (st_tenantQueues st) t of None \<Rightarrow> Inl TypeError | Some q \<Rightarrow> Inr q)"

definition set_queue :: "paas_control_state \<Rightarrow> string \<Rightarrow> string list \<Rightarrow> paas_control_state" where
  "set_queue st t q = st\<lparr>st_tenantQueues := obj_set (st_tenantQueues st) t q\<rparr>"

definition push_queue :: "paas_control_state \<Rightarrow> string \<Rightarrow> string \<Rightarrow> js_fault + paas_control_state" where
  "push_queue st t i = bind_r (the_queue st t) (\<lambda>q. Inr (set_queue st t (q @ [i])))"

definition release_lock :: "(string \<Rightarrow> string) \<Rightarrow> paas_control_state \<Rightarrow> paas_job \<Rightarrow> paas_control_state" where
  "release_lock sha st j = st\<lparr>st_resourceLocks := obj_del (st_resourceLocks st) (job_lock sha j)\<rparr>"

subsection \<open>Commands\<close>

definition validEnqueueCommand :: "paas_enqueue \<Rightarrow> bool" where
  "validEnqueueCommand c \<longleftrightarrow>
     rx_test jobId_rx (enq_jobId c) \<and>
     nonEmpty (enq_tenantId c) \<and>
     boundedResource (enq_resource c) \<and>
     nonEmpty (enq_idempotencyKey c) \<and>
     validEpoch (enq_requestedAt c) \<and>
     isInteger (enq_maxAttempts c) \<and>
     1 \<le> num_int (enq_maxAttempts c) \<and>
     num_int (enq_maxAttempts c) \<le> 5 \<and>
     (if enq_operation c = JobBuild
      then rx_test revision_rx (case enq_sourceRevision c of None \<Rightarrow> [] | Some s \<Rightarrow> s)
      else validDigest (enq_artifactDigest c))"

datatype auth_command = EnqueueCommand paas_enqueue | CancelCommand paas_cancel

fun command_requestedAt :: "auth_command \<Rightarrow> jsnum" where
  "command_requestedAt (EnqueueCommand c) = enq_requestedAt c"
| "command_requestedAt (CancelCommand c) = can_requestedAt c"

fun command_tenantId :: "auth_command \<Rightarrow> string" where
  "command_tenantId (EnqueueCommand c) = enq_tenantId c"
| "command_tenantId (CancelCommand c) = can_tenantId c"

fun command_idempotencyKey :: "auth_command \<Rightarrow> string" where
  "command_idempotencyKey (EnqueueCommand c) = enq_idempotencyKey c"
| "command_idempotencyKey (CancelCommand c) = can_idempotencyKey c"

fun command_resource :: "auth_command \<Rightarrow> paas_job option \<Rightarrow> string option" where
  "command_resource (EnqueueCommand c) j = Some (enq_resource c)"
| "command_resource (CancelCommand c) j = map_option job_resource j"

fun command_sourceRevision :: "auth_command \<Rightarrow> string option" where
  "command_sourceRevision (EnqueueCommand c) = enq_sourceRevision c"
| "command_sourceRevision (CancelCommand c) = None"

fun command_artifactDigest :: "auth_command \<Rightarrow> string option" where
  "command_artifactDigest (EnqueueCommand c) = enq_artifactDigest c"
| "command_artifactDigest (CancelCommand c) = None"

fun job_paas_operation :: "paas_job_operation \<Rightarrow> paas_operation" where
  "job_paas_operation JobBuild = OpBuild"
| "job_paas_operation JobDeploy = OpDeploy"
| "job_paas_operation JobRollback = OpRollback"

definition authorizationBinds ::
  "paas_decision \<Rightarrow> auth_command \<Rightarrow> paas_operation \<Rightarrow> paas_job option \<Rightarrow> bool" where
  "authorizationBinds d c operation job \<longleftrightarrow>
     dec_allowed d \<and>
     dec_evaluatedAt d = command_requestedAt c \<and>
     aud_decisionEpochSeconds (dec_audit d) = command_requestedAt c \<and>
     aud_allow (dec_audit d) \<and>
     aud_tenant (dec_audit d) = command_tenantId c \<and>
     aud_operation (dec_audit d) = operation \<and>
     Some (aud_resource (dec_audit d)) = command_resource c job \<and>
     aud_idempotencyKey (dec_audit d) = Some (command_idempotencyKey c) \<and>
     aud_sourceRevision (dec_audit d) = command_sourceRevision c \<and>
     aud_artifactDigest (dec_audit d) = command_artifactDigest c \<and>
     (dec_capabilityToRedeem d = None \<or> aud_capabilityId (dec_audit d) = dec_capabilityToRedeem d)"

definition js_opt :: "string option \<Rightarrow> jsval" where
  "js_opt x = (case x of None \<Rightarrow> JNull | Some s \<Rightarrow> JStr s)"

fun job_operation_name :: "paas_job_operation \<Rightarrow> string" where
  "job_operation_name JobBuild = ''build''"
| "job_operation_name JobDeploy = ''deploy''"
| "job_operation_name JobRollback = ''rollback''"

definition enqueueFingerprint :: "(string \<Rightarrow> string) \<Rightarrow> paas_enqueue \<Rightarrow> string" where
  "enqueueFingerprint sha c = paas_digest sha (JObj
     [(''action'', JStr ''enqueue''), (''tenantId'', JStr (enq_tenantId c)),
      (''operation'', JStr (job_operation_name (enq_operation c))),
      (''resource'', JStr (enq_resource c)), (''sourceRevision'', js_opt (enq_sourceRevision c)),
      (''artifactDigest'', js_opt (enq_artifactDigest c))])"

definition cancelFingerprint :: "(string \<Rightarrow> string) \<Rightarrow> paas_cancel \<Rightarrow> paas_job \<Rightarrow> string" where
  "cancelFingerprint sha c j = paas_digest sha (JObj
     [(''action'', JStr ''cancel''), (''tenantId'', JStr (can_tenantId c)),
      (''jobId'', JStr (can_jobId c)), (''resource'', JStr (job_resource j))])"

definition knownRollbackTarget :: "(string \<Rightarrow> string) \<Rightarrow> paas_control_state \<Rightarrow> paas_enqueue \<Rightarrow> bool" where
  "knownRollbackTarget sha st c \<longleftrightarrow>
     (case (obj_get (st_deployments st) (resourceKey sha (enq_tenantId c) (enq_resource c)),
            enq_artifactDigest c) of
        (Some d, Some a) \<Rightarrow> a \<noteq> [] \<and> a \<in> set (dep_previousArtifactDigests d)
      | _ \<Rightarrow> False)"

subsection \<open>Enqueue\<close>

text \<open>
  \<open>state.jobs[id]\<close> is also truthy for the members that every object inherits; the only one of
  these names that passes the job id pattern is \<open>constructor\<close>.
\<close>

definition job_name_taken :: "paas_control_state \<Rightarrow> string \<Rightarrow> bool" where
  "job_name_taken st i \<longleftrightarrow> obj_get (st_jobs st) i \<noteq> None \<or> i = ''constructor''"

definition enqueued_job :: "paas_enqueue \<Rightarrow> paas_tenant \<Rightarrow> paas_job" where
  "enqueued_job c q =
     \<lparr>job_id = enq_jobId c, job_tenantId = enq_tenantId c, job_operation = enq_operation c,
      job_resource = enq_resource c,
      job_sourceRevision = (if truthy (enq_sourceRevision c) then enq_sourceRevision c else None),
      job_artifactDigest = (if truthy (enq_artifactDigest c) then enq_artifactDigest c else None),
      job_status = Queued,
      job_workerRole = (if enq_operation c = JobBuild then Builder else Deployer),
      job_idempotencyKey = enq_idempotencyKey c,
      job_capabilityId = (let cap = dec_capabilityToRedeem (enq_authorization c)
                          in if truthy cap then cap else None),
      job_createdAt = num_int (enq_requestedAt c), job_updatedAt = num_int (enq_requestedAt c),
      job_deadlineAt = num_int (enq_requestedAt c) + tq_maxExecutionMinutes q * 60,
      job_startedAt = None, job_completedAt = None, job_attempt = 0,
      job_maxAttempts = num_int (enq_maxAttempts c), job_lastErrorCode = None,
      job_cancellationReason = None, job_cleanupEvidence = None, job_resultArtifactDigest = None\<rparr>"

definition put_idempotency ::
  "(string \<Rightarrow> string) \<Rightarrow> paas_control_state \<Rightarrow> paas_idem_action \<Rightarrow> string \<Rightarrow> string \<Rightarrow> string \<Rightarrow> string \<Rightarrow>
   paas_control_state" where
  "put_idempotency sha st act t key fp i =
     st\<lparr>st_idempotency := obj_set (st_idempotency st) (stateKey sha [t, key])
          \<lparr>idem_action = act, idem_tenantId = t, idem_idempotencyKey = key, idem_fingerprint = fp,
           idem_jobId = i\<rparr>\<rparr>"

definition redeem ::
  "(string \<Rightarrow> string) \<Rightarrow> paas_control_state \<Rightarrow> string option \<Rightarrow> string \<Rightarrow> string \<Rightarrow> int \<Rightarrow> paas_control_state" where
  "redeem sha st cap t i now =
     (case cap of
        None \<Rightarrow> st
      | Some k \<Rightarrow>
          if k = [] \<or> stateKey sha [k] = [] then st
          else st\<lparr>st_redeemedCapabilities := obj_set (st_redeemedCapabilities st) (stateKey sha [k])
                   \<lparr>red_capabilityId = k, red_tenantId = t, red_jobId = i, red_redeemedAt = now\<rparr>\<rparr>)"

definition redeems :: "(string \<Rightarrow> string) \<Rightarrow> string option \<Rightarrow> bool" where
  "redeems sha cap \<longleftrightarrow> truthy cap \<and> stateKey sha [the cap] \<noteq> []"

definition capability_replayed :: "(string \<Rightarrow> string) \<Rightarrow> paas_control_state \<Rightarrow> string option \<Rightarrow> bool" where
  "capability_replayed sha st cap \<longleftrightarrow>
     redeems sha cap \<and> obj_get (st_redeemedCapabilities st) (stateKey sha [the cap]) \<noteq> None"

definition enqueuePaasJob ::
  "(string \<Rightarrow> string) \<Rightarrow> paas_control_state \<Rightarrow> paas_intent \<Rightarrow> paas_enqueue \<Rightarrow> js_fault + paas_transition" where
  "enqueuePaasJob sha st intent c =
     (if stateInvariantError sha st intent \<noteq> None then Inr (paas_rejected st STATE_INVARIANT_VIOLATION)
      else if \<not> validEnqueueCommand c then Inr (paas_rejected st COMMAND_INVALID)
      else case find_tenant intent (enq_tenantId c) of
        None \<Rightarrow> Inr (paas_rejected st TENANT_UNKNOWN)
      | Some q \<Rightarrow>
          if \<not> authorizationBinds (enq_authorization c) (EnqueueCommand c)
                 (job_paas_operation (enq_operation c)) None
          then Inr (paas_rejected st
                 (if dec_allowed (enq_authorization c) then AUTHORIZATION_BINDING_INVALID
                  else AUTHORIZATION_DENIED))
          else
            (let fingerprint = enqueueFingerprint sha c;
                 idempotencyKey = stateKey sha [enq_tenantId c, enq_idempotencyKey c];
                 cap = dec_capabilityToRedeem (enq_authorization c);
                 revision = st_revision st + 1;
                 now = num_int (enq_requestedAt c);
                 job = enqueued_job c q
             in case obj_get (st_idempotency st) idempotencyKey of
                  Some r \<Rightarrow>
                    if idem_action r = ActEnqueue \<and> idem_fingerprint r = fingerprint
                    then Inr (paas_unchanged st DEDUPLICATED (Some (idem_jobId r)))
                    else Inr (paas_rejected st IDEMPOTENCY_CONFLICT)
                | None \<Rightarrow>
                    if enq_expectedRevision c \<noteq> st_revision st
                    then Inr (paas_rejected st STATE_REVISION_CONFLICT)
                    else if job_name_taken st (enq_jobId c)
                    then Inr (paas_rejected st JOB_ALREADY_EXISTS)
                    else if enq_operation c = JobRollback \<and> \<not> knownRollbackTarget sha st c
                    then Inr (paas_rejected st ROLLBACK_TARGET_UNKNOWN)
                    else if capability_replayed sha st cap
                    then Inr (paas_rejected st CAPABILITY_REPLAYED)
                    else
                      bind_r (push_queue (put_job st (enq_jobId c) job) (enq_tenantId c) (enq_jobId c)) (\<lambda>next.
                      Inr (paas_accepted
                        (finalize
                          (redeem sha
                            (put_idempotency sha next ActEnqueue (enq_tenantId c) (enq_idempotencyKey c)
                              fingerprint (enq_jobId c))
                            cap (enq_tenantId c) (enq_jobId c) now) revision)
                        (paas_event_of EvEnqueued revision now job
                          # (if redeems sha cap then [paas_event_of EvCapabilityRedeemed revision now job] else []))
                        (Some (enq_jobId c))))))"

subsection \<open>Scheduling\<close>

definition timed_out_job :: "int \<Rightarrow> paas_job \<Rightarrow> paas_job" where
  "timed_out_job now j =
     j\<lparr>job_status := TimedOut, job_cancellationReason := Some ByDeadline, job_updatedAt := now,
       job_completedAt := Some now\<rparr>"

fun expire_queue ::
  "int \<Rightarrow> int \<Rightarrow> string list \<Rightarrow> paas_control_state \<Rightarrow> paas_event list \<Rightarrow>
   js_fault + string list \<times> paas_control_state \<times> paas_event list" where
  "expire_queue now rv [] st evs = Inr ([], st, evs)"
| "expire_queue now rv (i # q) st evs =
     (case obj_get (st_jobs st) i of
        None \<Rightarrow> Inl TypeError
      | Some j \<Rightarrow>
          if job_deadlineAt j \<le> now
          then expire_queue now rv q (put_job st i (timed_out_job now j))
                 (evs @ [paas_event_of EvTimedOut rv now (timed_out_job now j)])
          else bind_r (expire_queue now rv q st evs) (\<lambda>(retained, st', evs'). Inr (i # retained, st', evs')))"

fun expire_queues ::
  "int \<Rightarrow> int \<Rightarrow> (string \<times> string list) list \<Rightarrow> paas_control_state \<Rightarrow> paas_event list \<Rightarrow>
   js_fault + paas_control_state \<times> paas_event list" where
  "expire_queues now rv [] st evs = Inr (st, evs)"
| "expire_queues now rv ((t, q) # rest) st evs =
     bind_r (expire_queue now rv q st evs) (\<lambda>(retained, st', evs').
     expire_queues now rv rest (set_queue st' t retained) evs')"

definition expireQueuedJobs ::
  "paas_control_state \<Rightarrow> int \<Rightarrow> int \<Rightarrow> js_fault + paas_control_state \<times> paas_event list" where
  "expireQueuedJobs st now rv = expire_queues now rv (st_tenantQueues st) st []"

definition at_quota :: "paas_job obj \<Rightarrow> paas_tenant \<Rightarrow> paas_job \<Rightarrow> bool" where
  "at_quota jobs q j \<longleftrightarrow>
     (if job_operation j = JobBuild
      then tq_maxConcurrentBuilds q \<le> active_builds jobs (tq_tenantId q)
      else tq_maxConcurrentDeployments q \<le> active_deploys jobs (tq_tenantId q))"

text \<open>The body of the loop over the tenants, and the loop.\<close>

definition tenant_eligible ::
  "(string \<Rightarrow> string) \<Rightarrow> paas_control_state \<Rightarrow> paas_intent \<Rightarrow> string \<Rightarrow> js_fault + bool" where
  "tenant_eligible sha st intent t =
     (case obj_get (st_tenantQueues st) t of
        Some (i # q) \<Rightarrow>
          if i = [] then Inr False
          else (case (obj_get (st_jobs st) i, find_tenant intent t) of
            (Some j, Some tq) \<Rightarrow>
              Inr (\<not> at_quota (st_jobs st) tq j \<and>
                   \<not> truthy (obj_get (st_resourceLocks st) (job_lock sha j)))
          | _ \<Rightarrow> Inl TypeError)
      | _ \<Rightarrow> Inr False)"

fun first_eligible ::
  "(string \<Rightarrow> string) \<Rightarrow> paas_control_state \<Rightarrow> paas_intent \<Rightarrow> string list \<Rightarrow> js_fault + string option" where
  "first_eligible sha st intent [] = Inr None"
| "first_eligible sha st intent (t # ts) =
     bind_r (tenant_eligible sha st intent t) (\<lambda>b.
     if b then Inr (Some t) else first_eligible sha st intent ts)"

definition nextEligibleTenant ::
  "(string \<Rightarrow> string) \<Rightarrow> paas_control_state \<Rightarrow> paas_intent \<Rightarrow> string list \<Rightarrow> js_fault + string option" where
  "nextEligibleTenant sha st intent tenantIds =
     (let n = length tenantIds;
          start = (case st_lastScheduledTenant st of
                     Some t \<Rightarrow>
                       if t = [] then 0
                       else if t \<in> set tenantIds then (nat (index_from 0 tenantIds t) + 1) mod n else 0 mod n
                   | None \<Rightarrow> 0)
      in first_eligible sha st intent (map (\<lambda>offset. tenantIds ! ((start + offset) mod n)) [0..<n]))"

definition started_job :: "int \<Rightarrow> paas_job \<Rightarrow> paas_job" where
  "started_job now j =
     j\<lparr>job_status := Running, job_startedAt := Some now, job_updatedAt := now,
       job_attempt := job_attempt j + 1\<rparr>"

text \<open>
  The body of the \<open>while\<close> loop for the eligible tenant \<open>t\<close>, \<open>None\<close> for its second \<open>break\<close>.
\<close>

definition start_job ::
  "(string \<Rightarrow> string) \<Rightarrow> int \<Rightarrow> int \<Rightarrow> string \<Rightarrow> paas_control_state \<Rightarrow>
   js_fault + (paas_control_state \<times> paas_event) option" where
  "start_job sha now rv t st =
     bind_r (the_queue st t) (\<lambda>queue.
     case queue of
       [] \<Rightarrow> Inr None
     | i # q \<Rightarrow>
         if i = [] then Inr None
         else (case obj_get (st_jobs st) i of
           None \<Rightarrow> Inl TypeError
         | Some j \<Rightarrow>
             (let job = started_job now j;
                  st1 = put_job (set_queue st t q) i job
              in Inr (Some
                   (st1\<lparr>st_resourceLocks := obj_set (st_resourceLocks st1) (job_lock sha job) (job_id job),
                        st_lastScheduledTenant := Some t\<rparr>,
                    paas_event_of EvStarted rv now job)))))"

text \<open>
  The \<open>while\<close> loop: its first argument is the number of starts left, \<open>maxStarts - started\<close>.
\<close>

fun start_jobs ::
  "nat \<Rightarrow> (string \<Rightarrow> string) \<Rightarrow> paas_intent \<Rightarrow> string list \<Rightarrow> int \<Rightarrow> int \<Rightarrow> paas_control_state \<Rightarrow>
   paas_event list \<Rightarrow> js_fault + paas_control_state \<times> paas_event list" where
  "start_jobs 0 sha intent tenantIds now rv st evs = Inr (st, evs)"
| "start_jobs (Suc left) sha intent tenantIds now rv st evs =
     (if int (length (activeJobs (st_jobs st))) < sch_maxGlobalConcurrency (in_scheduling intent)
      then bind_r (nextEligibleTenant sha st intent tenantIds) (\<lambda>tenant.
           case tenant of
             None \<Rightarrow> Inr (st, evs)
           | Some t \<Rightarrow>
               if t = [] then Inr (st, evs)
               else bind_r (start_job sha now rv t st) (\<lambda>started.
                 case started of
                   None \<Rightarrow> Inr (st, evs)
                 | Some (st', ev) \<Rightarrow>
                     start_jobs left sha intent tenantIds now rv st' (evs @ [ev])))
      else Inr (st, evs))"

definition schedulePaasJobs ::
  "(string \<Rightarrow> string) \<Rightarrow> paas_control_state \<Rightarrow> paas_intent \<Rightarrow> paas_schedule \<Rightarrow> js_fault + paas_transition" where
  "schedulePaasJobs sha st intent c =
     (let revision = st_revision st + 1;
          now = num_int (sched_now c);
          maxStarts = (case sched_maxStarts c of
                         None \<Rightarrow> NInt (sch_maxGlobalConcurrency (in_scheduling intent)) | Some n \<Rightarrow> n)
      in if stateInvariantError sha st intent \<noteq> None then Inr (paas_rejected st STATE_INVARIANT_VIOLATION)
         else if sched_expectedRevision c \<noteq> st_revision st \<or> \<not> validEpoch (sched_now c)
         then Inr (paas_rejected st
                (if sched_expectedRevision c \<noteq> st_revision st then STATE_REVISION_CONFLICT
                 else COMMAND_INVALID))
         else if \<not> isInteger maxStarts \<or> num_int maxStarts < 1
         then Inr (paas_rejected st COMMAND_INVALID)
         else bind_r (expireQueuedJobs st now revision) (\<lambda>(next, expired).
              bind_r (start_jobs (nat (num_int maxStarts)) sha intent
                        (sort_by_locale (\<lambda>t. t) (tenant_ids intent)) now revision next expired) (\<lambda>(final, events).
              if events = [] then Inr (paas_unchanged st NO_CHANGE None)
              else Inr (paas_accepted (finalize final revision) events None))))"

subsection \<open>Completion\<close>

definition promoted_history :: "paas_deployment option \<Rightarrow> string \<Rightarrow> string list" where
  "promoted_history current artifact =
     (case current of
        None \<Rightarrow> []
      | Some d \<Rightarrow>
          take 20
            (if dep_activeArtifactDigest d = artifact then dep_previousArtifactDigests d
             else dep_activeArtifactDigest d
                    # filter (\<lambda>a. a \<noteq> artifact) (dep_previousArtifactDigests d)))"

definition promoteDeployment ::
  "(string \<Rightarrow> string) \<Rightarrow> paas_control_state \<Rightarrow> paas_job \<Rightarrow> int \<Rightarrow> paas_control_state" where
  "promoteDeployment sha st j now =
     (let artifact = (case job_artifactDigest j of None \<Rightarrow> [] | Some a \<Rightarrow> a);
          current = obj_get (st_deployments st) (job_lock sha j)
      in st\<lparr>st_deployments := obj_set (st_deployments st) (job_lock sha j)
            \<lparr>dep_tenantId = job_tenantId j, dep_resource = job_resource j,
             dep_activeArtifactDigest = artifact,
             dep_previousArtifactDigests = promoted_history current artifact,
             dep_generation = (case current of None \<Rightarrow> 0 | Some d \<Rightarrow> dep_generation d) + 1,
             dep_updatedAt = now, dep_sourceJobId = job_id j\<rparr>\<rparr>)"

definition retry_job :: "int \<Rightarrow> string option \<Rightarrow> paas_job \<Rightarrow> paas_job" where
  "retry_job at err j =
     j\<lparr>job_updatedAt := at, job_startedAt := None, job_lastErrorCode := err, job_status := Queued\<rparr>"

definition failed_job :: "int \<Rightarrow> string option \<Rightarrow> paas_job \<Rightarrow> paas_job" where
  "failed_job at err j =
     j\<lparr>job_updatedAt := at, job_startedAt := None, job_lastErrorCode := err, job_status := JobFailed,
       job_completedAt := Some at\<rparr>"

definition succeeded_job :: "int \<Rightarrow> string option \<Rightarrow> paas_job \<Rightarrow> paas_job" where
  "succeeded_job at result j =
     j\<lparr>job_updatedAt := at, job_startedAt := None, job_status := Succeeded, job_completedAt := Some at,
       job_resultArtifactDigest := (if truthy result then result else job_resultArtifactDigest j)\<rparr>"

text \<open>What \<open>completePaasJob\<close> does after its guards.\<close>

definition complete_effect ::
  "(string \<Rightarrow> string) \<Rightarrow> paas_control_state \<Rightarrow> paas_complete \<Rightarrow> paas_job \<Rightarrow> js_fault + paas_transition" where
  "complete_effect sha st c j =
     (let at = num_int (cmp_completedAt c);
          revision = st_revision st + 1;
          next = release_lock sha st j
      in case cmp_outcome c of
           OutcomeFailed \<Rightarrow>
             if cmp_retryable c = Some True \<and> job_attempt j < job_maxAttempts j \<and> at < job_deadlineAt j
             then (let job = retry_job at (cmp_errorCode c) j
                   in bind_r (push_queue (put_job next (cmp_jobId c) job) (job_tenantId job) (job_id job)) (\<lambda>next2.
                      Inr (paas_accepted (finalize next2 revision)
                        [paas_event_of EvRetryQueued revision at job] (Some (job_id job)))))
             else (let job = failed_job at (cmp_errorCode c) j
                   in Inr (paas_accepted (finalize (put_job next (cmp_jobId c) job) revision)
                        [paas_event_of EvFailed revision at job] (Some (job_id job))))
         | OutcomeSucceeded \<Rightarrow>
             (let job = succeeded_job at (cmp_resultArtifactDigest c) j;
                  next2 = put_job next (cmp_jobId c) job
              in if job_operation job = JobDeploy \<or> job_operation job = JobRollback
                 then Inr (paas_accepted (finalize (promoteDeployment sha next2 job at) revision)
                        [paas_event_of EvSucceeded revision at job,
                         paas_event_of (if job_operation job = JobDeploy then EvPromoted else EvRolledBack)
                           revision at job] (Some (job_id job)))
                 else Inr (paas_accepted (finalize next2 revision)
                        [paas_event_of EvSucceeded revision at job] (Some (job_id job)))))"

definition completePaasJob ::
  "(string \<Rightarrow> string) \<Rightarrow> paas_control_state \<Rightarrow> paas_intent \<Rightarrow> paas_complete \<Rightarrow> js_fault + paas_transition" where
  "completePaasJob sha st intent c =
     (if stateInvariantError sha st intent \<noteq> None then Inr (paas_rejected st STATE_INVARIANT_VIOLATION)
      else if cmp_expectedRevision c \<noteq> st_revision st then Inr (paas_rejected st STATE_REVISION_CONFLICT)
      else if \<not> validEpoch (cmp_completedAt c) then Inr (paas_rejected st COMMAND_INVALID)
      else case obj_get (st_jobs st) (cmp_jobId c) of
        None \<Rightarrow> Inr (paas_rejected st JOB_NOT_FOUND)
      | Some j \<Rightarrow>
          (let at = num_int (cmp_completedAt c)
           in if job_tenantId j \<noteq> cmp_tenantId c then Inr (paas_rejected st JOB_NOT_FOUND)
              else if job_status j \<noteq> Running then Inr (paas_rejected st JOB_NOT_RUNNING)
              else if job_workerRole j \<noteq> cmp_workerRole c
              then Inr (paas_rejected st WORKER_IDENTITY_MISMATCH)
              else if job_deadlineAt j \<le> at \<or>
                      at < (case job_startedAt j of None \<Rightarrow> 0 | Some t \<Rightarrow> t)
              then Inr (paas_rejected st JOB_DEADLINE_EXCEEDED)
              else if cmp_outcome c = OutcomeSucceeded \<and> job_operation j = JobBuild \<and>
                      \<not> validDigest (cmp_resultArtifactDigest c)
              then Inr (paas_rejected st COMMAND_INVALID)
              else if cmp_outcome c = OutcomeFailed \<and>
                      (\<not> nonEmpty_opt (cmp_errorCode c) \<or> truthy (cmp_resultArtifactDigest c))
              then Inr (paas_rejected st COMMAND_INVALID)
              else complete_effect sha st c j))"

subsection \<open>Cancellation\<close>

definition cancelled_queued_job :: "int \<Rightarrow> paas_job \<Rightarrow> paas_job" where
  "cancelled_queued_job at j =
     j\<lparr>job_updatedAt := at, job_cancellationReason := Some ByUser, job_status := JobCancelled,
       job_completedAt := Some at\<rparr>"

definition cancelling_job :: "int \<Rightarrow> paas_cancel_reason \<Rightarrow> paas_job \<Rightarrow> paas_job" where
  "cancelling_job at reason j =
     j\<lparr>job_updatedAt := at, job_cancellationReason := Some reason, job_status := JobCancelling\<rparr>"

text \<open>What \<open>cancelPaasJob\<close> does after its guards.\<close>

definition cancel_effect ::
  "(string \<Rightarrow> string) \<Rightarrow> paas_control_state \<Rightarrow> paas_cancel \<Rightarrow> paas_job \<Rightarrow> js_fault + paas_transition" where
  "cancel_effect sha st c j =
     (let at = num_int (can_requestedAt c);
          cap = dec_capabilityToRedeem (can_authorization c);
          revision = st_revision st + 1;
          redeemed = (if redeems sha cap then [paas_event_of EvCapabilityRedeemed revision at j] else []);
          next = redeem sha
            (put_idempotency sha st ActCancel (can_tenantId c) (can_idempotencyKey c)
              (cancelFingerprint sha c j) (job_id j))
            cap (can_tenantId c) (job_id j) at
      in if job_status j = Queued
         then bind_r (the_queue next (job_tenantId j)) (\<lambda>queue.
              (let job = cancelled_queued_job at j
               in Inr (paas_accepted
                    (finalize
                      (put_job
                        (set_queue next (job_tenantId j) (filter (\<lambda>i. i \<noteq> job_id j) queue))
                        (job_id j) job) revision)
                    (redeemed @ [paas_event_of EvCancelled revision at job])
                    (Some (job_id j)))))
         else (let job = cancelling_job at ByUser j
               in Inr (paas_accepted (finalize (put_job next (job_id j) job) revision)
                    (redeemed @ [paas_event_of EvCancellationRequested revision at job])
                    (Some (job_id j)))))"

definition cancelPaasJob ::
  "(string \<Rightarrow> string) \<Rightarrow> paas_control_state \<Rightarrow> paas_intent \<Rightarrow> paas_cancel \<Rightarrow> js_fault + paas_transition" where
  "cancelPaasJob sha st intent c =
     (if stateInvariantError sha st intent \<noteq> None then Inr (paas_rejected st STATE_INVARIANT_VIOLATION)
      else case obj_get (st_jobs st) (can_jobId c) of
        None \<Rightarrow> Inr (paas_rejected st JOB_NOT_FOUND)
      | Some j \<Rightarrow>
          if job_tenantId j \<noteq> can_tenantId c then Inr (paas_rejected st JOB_NOT_FOUND)
          else if \<not> validEpoch (can_requestedAt c) \<or> \<not> nonEmpty (can_idempotencyKey c) \<or>
                  num_int (can_requestedAt c) < job_createdAt j
          then Inr (paas_rejected st COMMAND_INVALID)
          else if \<not> authorizationBinds (can_authorization c) (CancelCommand c) OpCancel (Some j)
          then Inr (paas_rejected st
                 (if dec_allowed (can_authorization c) then AUTHORIZATION_BINDING_INVALID
                  else AUTHORIZATION_DENIED))
          else case obj_get (st_idempotency st) (stateKey sha [can_tenantId c, can_idempotencyKey c]) of
            Some r \<Rightarrow>
              if idem_action r = ActCancel \<and> idem_fingerprint r = cancelFingerprint sha c j
              then Inr (paas_unchanged st DEDUPLICATED (Some (job_id j)))
              else Inr (paas_rejected st IDEMPOTENCY_CONFLICT)
          | None \<Rightarrow>
              if can_expectedRevision c \<noteq> st_revision st
              then Inr (paas_rejected st STATE_REVISION_CONFLICT)
              else if job_status j \<noteq> Queued \<and> job_status j \<noteq> Running
              then Inr (paas_rejected st JOB_NOT_CANCELLABLE)
              else if capability_replayed sha st (dec_capabilityToRedeem (can_authorization c))
              then Inr (paas_rejected st CAPABILITY_REPLAYED)
              else cancel_effect sha st c j)"

definition cleaned_job :: "int \<Rightarrow> string \<Rightarrow> paas_job \<Rightarrow> paas_job" where
  "cleaned_job at evidence j =
     j\<lparr>job_status := (if job_cancellationReason j = Some ByDeadline then TimedOut else JobCancelled),
       job_updatedAt := at, job_completedAt := Some at, job_cleanupEvidence := Some evidence,
       job_startedAt := None\<rparr>"

definition acknowledgePaasJobCancellation ::
  "(string \<Rightarrow> string) \<Rightarrow> paas_control_state \<Rightarrow> paas_intent \<Rightarrow> paas_acknowledge \<Rightarrow> js_fault + paas_transition" where
  "acknowledgePaasJobCancellation sha st intent c =
     (if stateInvariantError sha st intent \<noteq> None then Inr (paas_rejected st STATE_INVARIANT_VIOLATION)
      else if ack_expectedRevision c \<noteq> st_revision st then Inr (paas_rejected st STATE_REVISION_CONFLICT)
      else case obj_get (st_jobs st) (ack_jobId c) of
        None \<Rightarrow> Inr (paas_rejected st JOB_NOT_FOUND)
      | Some j \<Rightarrow>
          (let at = num_int (ack_acknowledgedAt c);
               revision = st_revision st + 1;
               job = cleaned_job at (ack_cleanupEvidence c) j
           in if job_tenantId j \<noteq> ack_tenantId c then Inr (paas_rejected st JOB_NOT_FOUND)
              else if job_status j \<noteq> JobCancelling then Inr (paas_rejected st JOB_NOT_CANCELLABLE)
              else if job_workerRole j \<noteq> ack_workerRole c
              then Inr (paas_rejected st WORKER_IDENTITY_MISMATCH)
              else if \<not> validEpoch (ack_acknowledgedAt c) \<or> \<not> nonEmpty (ack_cleanupEvidence c) \<or>
                      at < job_updatedAt j
              then Inr (paas_rejected st CLEANUP_EVIDENCE_REQUIRED)
              else Inr (paas_accepted
                     (finalize (put_job (release_lock sha st j) (job_id j) job) revision)
                     [paas_event_of (if job_status job = TimedOut then EvTimedOut else EvCancelled)
                        revision at job] (Some (job_id j)))))"

subsection \<open>Expiry\<close>

definition overdue :: "int \<Rightarrow> paas_job \<Rightarrow> bool" where
  "overdue now j \<longleftrightarrow> job_status j = Running \<and> job_deadlineAt j \<le> now"

text \<open>The loop over \<open>Object.values(next.jobs)\<close>.\<close>

definition sweep_jobs :: "int \<Rightarrow> paas_job obj \<Rightarrow> paas_job obj" where
  "sweep_jobs now jobs =
     map (\<lambda>(k, j). (k, if overdue now j then cancelling_job now ByDeadline j else j)) jobs"

definition sweep_events :: "int \<Rightarrow> int \<Rightarrow> paas_job obj \<Rightarrow> paas_event list" where
  "sweep_events now rv jobs =
     map (\<lambda>j. paas_event_of EvCancellationRequested rv now (cancelling_job now ByDeadline j))
       (filter (overdue now) (obj_values jobs))"

definition sweepExpiredPaasJobs ::
  "(string \<Rightarrow> string) \<Rightarrow> paas_control_state \<Rightarrow> paas_intent \<Rightarrow> paas_schedule \<Rightarrow> js_fault + paas_transition" where
  "sweepExpiredPaasJobs sha st intent c =
     (let revision = st_revision st + 1; now = num_int (sched_now c)
      in if stateInvariantError sha st intent \<noteq> None then Inr (paas_rejected st STATE_INVARIANT_VIOLATION)
         else if sched_expectedRevision c \<noteq> st_revision st
         then Inr (paas_rejected st STATE_REVISION_CONFLICT)
         else if \<not> validEpoch (sched_now c) then Inr (paas_rejected st COMMAND_INVALID)
         else bind_r (expireQueuedJobs st now revision) (\<lambda>(next, expired).
              let events = expired @ sweep_events now revision (st_jobs next)
              in if events = [] then Inr (paas_unchanged st NO_CHANGE None)
                 else Inr (paas_accepted
                        (finalize (next\<lparr>st_jobs := sweep_jobs now (st_jobs next)\<rparr>) revision) events None)))"

end
