(* ===== verification/PaasCheck.thy ===== *)
theory PaasCheck
  imports PaasOps
begin

section \<open>PaaS control plane: what the state check decides\<close>

text \<open>
  \<open>paas_sound\<close> states declaratively, by lookups, what a consistent control state is: sound jobs,
  queues that hold exactly the queued jobs, locks that are held exactly by the active jobs,
  quotas that are kept, and records that refer to existing jobs.  \<open>state_check_iff\<close> shows that the
  loops of \<open>stateInvariantError\<close> decide it on dictionaries in enumeration order.
\<close>

subsection \<open>The parts of a sound state\<close>

definition job_sound :: "paas_intent \<Rightarrow> string \<Rightarrow> paas_job \<Rightarrow> bool" where
  "job_sound intent k j \<longleftrightarrow> \<not> job_fields_bad intent k j \<and> \<not> job_times_bad j"

definition jobs_sound :: "paas_intent \<Rightarrow> paas_job obj \<Rightarrow> bool" where
  "jobs_sound intent jobs \<longleftrightarrow> (\<forall>k j. obj_get jobs k = Some j \<longrightarrow> job_sound intent k j)"

definition queues_sound :: "paas_intent \<Rightarrow> paas_job obj \<Rightarrow> string list obj \<Rightarrow> bool" where
  "queues_sound intent jobs queues \<longleftrightarrow>
     distinct (tenant_ids intent) \<and> set (obj_keys queues) = set (tenant_ids intent) \<and>
     distinct (concat (obj_values queues)) \<and>
     (\<forall>t q i. obj_get queues t = Some q \<and> i \<in> set q \<longrightarrow>
        (\<exists>j. obj_get jobs i = Some j \<and> job_tenantId j = t \<and> job_status j = Queued)) \<and>
     (\<forall>k j. obj_get jobs k = Some j \<and> job_status j = Queued \<longrightarrow> k \<in> set (concat (obj_values queues)))"

definition locks_sound :: "(string \<Rightarrow> string) \<Rightarrow> paas_job obj \<Rightarrow> string obj \<Rightarrow> bool" where
  "locks_sound sha jobs locks \<longleftrightarrow>
     (\<forall>k j. obj_get jobs k = Some j \<and> job_active j \<longrightarrow> obj_get locks (job_lock sha j) = Some k) \<and>
     (\<forall>l i. obj_get locks l = Some i \<longrightarrow> (\<exists>j. obj_get jobs i = Some j \<and> job_active j \<and> job_lock sha j = l))"

definition quotas_kept :: "paas_intent \<Rightarrow> paas_job obj \<Rightarrow> bool" where
  "quotas_kept intent jobs \<longleftrightarrow>
     int (length (activeJobs jobs)) \<le> sch_maxGlobalConcurrency (in_scheduling intent) \<and>
     (\<forall>q \<in> set (in_tenants intent).
        active_builds jobs (tq_tenantId q) \<le> tq_maxConcurrentBuilds q \<and>
        active_deploys jobs (tq_tenantId q) \<le> tq_maxConcurrentDeployments q)"

definition deployment_sound ::
  "(string \<Rightarrow> string) \<Rightarrow> paas_intent \<Rightarrow> paas_job obj \<Rightarrow> string \<Rightarrow> paas_deployment \<Rightarrow> bool" where
  "deployment_sound sha intent jobs k d \<longleftrightarrow>
     dep_tenantId d \<in> set (tenant_ids intent) \<and> boundedResource (dep_resource d) \<and>
     resourceKey sha (dep_tenantId d) (dep_resource d) = k \<and>
     validDigest (Some (dep_activeArtifactDigest d)) \<and>
     (\<forall>a \<in> set (dep_previousArtifactDigests d). validDigest (Some a)) \<and>
     length (dep_previousArtifactDigests d) \<le> 20 \<and>
     distinct (dep_activeArtifactDigest d # dep_previousArtifactDigests d) \<and>
     1 \<le> dep_generation d \<and>
     (\<exists>j. obj_get jobs (dep_sourceJobId d) = Some j \<and> job_status j = Succeeded \<and>
          job_tenantId j = dep_tenantId d \<and> job_resource j = dep_resource d \<and>
          job_artifactDigest j = Some (dep_activeArtifactDigest d))"

definition records_sound ::
  "(string \<Rightarrow> string) \<Rightarrow> paas_intent \<Rightarrow> paas_job obj \<Rightarrow> paas_idempotency obj \<Rightarrow> paas_redemption obj \<Rightarrow>
   paas_deployment obj \<Rightarrow> bool" where
  "records_sound sha intent jobs idem caps deps \<longleftrightarrow>
     (\<forall>k r. obj_get idem k = Some r \<longrightarrow>
        (\<exists>j. obj_get jobs (idem_jobId r) = Some j \<and> idem_tenantId r = job_tenantId j) \<and>
        stateKey sha [idem_tenantId r, idem_idempotencyKey r] = k) \<and>
     (\<forall>k r. obj_get caps k = Some r \<longrightarrow>
        (\<exists>j. obj_get jobs (red_jobId r) = Some j \<and> red_tenantId r = job_tenantId j) \<and>
        stateKey sha [red_capabilityId r] = k) \<and>
     (\<forall>k d. obj_get deps k = Some d \<longrightarrow> deployment_sound sha intent jobs k d)"

definition paas_objects :: "paas_control_state \<Rightarrow> bool" where
  "paas_objects st \<longleftrightarrow>
     obj_wf (st_jobs st) \<and> obj_wf (st_tenantQueues st) \<and> obj_wf (st_idempotency st) \<and>
     obj_wf (st_redeemedCapabilities st) \<and> obj_wf (st_resourceLocks st) \<and> obj_wf (st_deployments st)"

definition paas_sound :: "(string \<Rightarrow> string) \<Rightarrow> paas_intent \<Rightarrow> paas_control_state \<Rightarrow> bool" where
  "paas_sound sha intent st \<longleftrightarrow>
     0 \<le> st_revision st \<and>
     (\<forall>t. st_lastScheduledTenant st = Some t \<longrightarrow> t \<in> set (tenant_ids intent)) \<and>
     jobs_sound intent (st_jobs st) \<and>
     queues_sound intent (st_jobs st) (st_tenantQueues st) \<and>
     locks_sound sha (st_jobs st) (st_resourceLocks st) \<and>
     quotas_kept intent (st_jobs st) \<and>
     records_sound sha intent (st_jobs st) (st_idempotency st) (st_redeemedCapabilities st)
       (st_deployments st)"

text \<open>A state the operations may be given: dictionaries of JavaScript that pass the check.\<close>

definition paas_ok :: "(string \<Rightarrow> string) \<Rightarrow> paas_intent \<Rightarrow> paas_control_state \<Rightarrow> bool" where
  "paas_ok sha intent st \<longleftrightarrow> paas_objects st \<and> paas_sound sha intent st"

subsection \<open>The loops of the check\<close>

lemma first_fault_None: "first_fault f xs = None \<longleftrightarrow> (\<forall>x \<in> set xs. f x = None)"
  by (induction xs) (auto split: option.splits)

lemma or_else_None: "or_else a b = None \<longleftrightarrow> a = None \<and> b = None"
  by (auto simp: or_else_def split: option.splits)

lemma fault_if_None: "fault_if b e = None \<longleftrightarrow> \<not> b"
  by (simp add: fault_if_def)

lemmas fault_simps = first_fault_None or_else_None fault_if_None

lemma case_None_True: "(case x of None \<Rightarrow> True | Some j \<Rightarrow> P j) \<longleftrightarrow> (\<forall>j. x = Some j \<longrightarrow> P j)"
  by (cases x) auto

lemma not_case_None_True: "\<not> (case x of None \<Rightarrow> True | Some j \<Rightarrow> P j) \<longleftrightarrow> (\<exists>j. x = Some j \<and> \<not> P j)"
  by (cases x) auto

lemma obj_all_iff:
  "obj_wf ob \<Longrightarrow> (\<forall>e \<in> set ob. P (fst e) (snd e)) \<longleftrightarrow> (\<forall>k v. obj_get ob k = Some v \<longrightarrow> P k v)"
  using obj_mem_get [OF obj_wf_distinct, of ob] by (metis fst_conv prod.collapse snd_conv)

lemma sorted_keys_eq:
  "distinct xs \<Longrightarrow> sort_strings xs = sort_strings ys \<longleftrightarrow> distinct ys \<and> set xs = set ys"
proof
  assume d: "distinct xs" and e: "sort_strings xs = sort_strings ys"
  then have "mset (sort xs) = mset (sort ys)" by (simp add: sort_strings_def)
  then have "mset xs = mset ys" by simp
  with d show "distinct ys \<and> set xs = set ys"
    by (metis mset_eq_imp_distinct_iff mset_eq_setD)
next
  assume "distinct xs" "distinct ys \<and> set xs = set ys"
  then show "sort_strings xs = sort_strings ys"
    unfolding sort_strings_def by (metis sorted_list_of_set_sort_remdups distinct_remdups_id)
qed

lemma in_queues_iff:
  "obj_wf queues \<Longrightarrow> i \<in> set (concat (obj_values queues)) \<longleftrightarrow> (\<exists>t q. obj_get queues t = Some q \<and> i \<in> set q)"
  using obj_mem_get [OF obj_wf_distinct, of queues] by (force simp: obj_values_def)

lemma jobs_check_iff:
  assumes "paas_objects st"
    and q: "\<forall>t q i. obj_get (st_tenantQueues st) t = Some q \<and> i \<in> set q \<longrightarrow>
        (\<exists>j. obj_get (st_jobs st) i = Some j \<and> job_tenantId j = t \<and> job_status j = Queued)"
  shows "first_fault (job_entry_fault sha intent st) (st_jobs st) = None \<longleftrightarrow>
    jobs_sound intent (st_jobs st) \<and>
    (\<forall>k j. obj_get (st_jobs st) k = Some j \<and> job_status j = Queued \<longrightarrow> k \<in> set (queued_ids st)) \<and>
    (\<forall>k j. obj_get (st_jobs st) k = Some j \<and> job_active j \<longrightarrow>
       obj_get (st_resourceLocks st) (job_lock sha j) = Some k)"
proof -
  have wf: "obj_wf (st_jobs st)" "obj_wf (st_tenantQueues st)"
    using assms(1) by (auto simp: paas_objects_def)
  have *: "job_entry_fault sha intent st (k, j) = None \<longleftrightarrow>
      job_sound intent k j \<and> (job_status j = Queued \<longrightarrow> k \<in> set (queued_ids st)) \<and>
      (job_active j \<longrightarrow> obj_get (st_resourceLocks st) (job_lock sha j) = Some k)"
    if "obj_get (st_jobs st) k = Some j" for k j
  proof -
    have bk: "k \<in> set (queued_ids st) \<Longrightarrow> job_status j = Queued"
      using that q in_queues_iff [OF wf(2), of k] unfolding queued_ids_def
      by (metis option.inject)
    have id: "\<not> job_fields_bad intent k j \<Longrightarrow> job_id j = k"
      by (auto simp: job_fields_bad_def)
    show ?thesis
      unfolding job_entry_fault_def job_sound_def Let_def fst_conv snd_conv fault_simps
      using bk id by metis
  qed
  have "first_fault (job_entry_fault sha intent st) (st_jobs st) = None \<longleftrightarrow>
      (\<forall>k j. obj_get (st_jobs st) k = Some j \<longrightarrow> job_entry_fault sha intent st (k, j) = None)"
    using obj_all_iff [OF wf(1), of "\<lambda>k j. job_entry_fault sha intent st (k, j) = None"]
    by (simp add: first_fault_None)
  also have "\<dots> \<longleftrightarrow> jobs_sound intent (st_jobs st) \<and>
    (\<forall>k j. obj_get (st_jobs st) k = Some j \<and> job_status j = Queued \<longrightarrow> k \<in> set (queued_ids st)) \<and>
    (\<forall>k j. obj_get (st_jobs st) k = Some j \<and> job_active j \<longrightarrow>
       obj_get (st_resourceLocks st) (job_lock sha j) = Some k)"
    using * by (auto simp: jobs_sound_def)
  finally show ?thesis .
qed

lemma queue_check_iff:
  "paas_objects st \<Longrightarrow> first_fault (queue_entry_fault st) (st_tenantQueues st) = None \<longleftrightarrow>
   (\<forall>t q i. obj_get (st_tenantQueues st) t = Some q \<and> i \<in> set q \<longrightarrow>
      (\<exists>j. obj_get (st_jobs st) i = Some j \<and> job_tenantId j = t \<and> job_status j = Queued))"
  using obj_all_iff [of "st_tenantQueues st" "\<lambda>t q. queue_entry_fault st (t, q) = None"]
  by (auto simp: paas_objects_def queue_entry_fault_def fault_simps not_case_None_True)

lemma lock_check_iff:
  "paas_objects st \<Longrightarrow> first_fault (lock_entry_fault sha st) (st_resourceLocks st) = None \<longleftrightarrow>
   (\<forall>l i. obj_get (st_resourceLocks st) l = Some i \<longrightarrow>
      (\<exists>j. obj_get (st_jobs st) i = Some j \<and> job_active j \<and> job_lock sha j = l))"
  using obj_all_iff [of "st_resourceLocks st" "\<lambda>l i. lock_entry_fault sha st (l, i) = None"]
  by (auto simp: paas_objects_def lock_entry_fault_def fault_simps not_case_None_True job_active_def)

lemma idem_check_iff:
  "paas_objects st \<Longrightarrow> first_fault (idem_entry_fault sha st) (st_idempotency st) = None \<longleftrightarrow>
   (\<forall>k r. obj_get (st_idempotency st) k = Some r \<longrightarrow>
      (\<exists>j. obj_get (st_jobs st) (idem_jobId r) = Some j \<and> idem_tenantId r = job_tenantId j) \<and>
      stateKey sha [idem_tenantId r, idem_idempotencyKey r] = k)"
  using obj_all_iff [of "st_idempotency st" "\<lambda>k r. idem_entry_fault sha st (k, r) = None"]
  by (simp add: paas_objects_def idem_entry_fault_def fault_simps not_case_None_True Let_def) metis

lemma redemption_check_iff:
  "paas_objects st \<Longrightarrow> first_fault (redemption_entry_fault sha st) (st_redeemedCapabilities st) = None \<longleftrightarrow>
   (\<forall>k r. obj_get (st_redeemedCapabilities st) k = Some r \<longrightarrow>
      (\<exists>j. obj_get (st_jobs st) (red_jobId r) = Some j \<and> red_tenantId r = job_tenantId j) \<and>
      stateKey sha [red_capabilityId r] = k)"
  using obj_all_iff [of "st_redeemedCapabilities st" "\<lambda>k r. redemption_entry_fault sha st (k, r) = None"]
  by (simp add: paas_objects_def redemption_entry_fault_def fault_simps not_case_None_True Let_def) metis

lemma deployment_check_iff:
  "paas_objects st \<Longrightarrow> first_fault (deployment_entry_fault sha intent st) (st_deployments st) = None \<longleftrightarrow>
   (\<forall>k d. obj_get (st_deployments st) k = Some d \<longrightarrow> deployment_sound sha intent (st_jobs st) k d)"
proof -
  assume wf: "paas_objects st"
  have "deployment_entry_fault sha intent st (k, d) = None \<longleftrightarrow> deployment_sound sha intent (st_jobs st) k d"
    for k d
    unfolding deployment_entry_fault_def deployment_sound_def Let_def fault_simps fst_conv snd_conv
      de_Morgan_disj not_case_None_True list_ex_iff
    by (auto simp: not_less)
  with wf show ?thesis
    using obj_all_iff [of "st_deployments st" "\<lambda>k d. deployment_entry_fault sha intent st (k, d) = None"]
    by (simp add: paas_objects_def first_fault_None)
qed

lemma quota_check_iff:
  "int (length (activeJobs (st_jobs st))) \<le> sch_maxGlobalConcurrency (in_scheduling intent) \<and>
   first_fault (tenant_fault st) (in_tenants intent) = None \<longleftrightarrow> quotas_kept intent (st_jobs st)"
  by (auto simp: quotas_kept_def tenant_fault_def fault_simps not_less)

lemma state_check_iff:
  assumes "paas_objects st"
  shows "stateInvariantError sha st intent = None \<longleftrightarrow> paas_sound sha intent st"
proof -
  note iffs = queue_check_iff [OF assms] lock_check_iff [OF assms] idem_check_iff [OF assms]
    redemption_check_iff [OF assms] deployment_check_iff [OF assms]
  have regroup: "(Q \<Longrightarrow> F = (A \<and> B \<and> C)) \<Longrightarrow> N = N' \<Longrightarrow>
      (r \<and> (d \<and> s) \<and> l \<and> N \<and> Q \<and> F \<and> L \<and> u \<and> I \<and> P \<and> D) =
      (r \<and> l \<and> A \<and> (d \<and> s \<and> N' \<and> Q \<and> B) \<and> (C \<and> L) \<and> u \<and> (I \<and> P \<and> D))"
    for Q F A B C N N' r d s l L u I P D
    by blast
  have keys: "(sort_strings (obj_keys (st_tenantQueues st)) = sort_strings (tenant_ids intent)) \<longleftrightarrow>
      distinct (tenant_ids intent) \<and> set (obj_keys (st_tenantQueues st)) = set (tenant_ids intent)"
    using assms by (intro sorted_keys_eq obj_wf_distinct) (auto simp: paas_objects_def)
  have last: "\<not> (case st_lastScheduledTenant st of None \<Rightarrow> False | Some t \<Rightarrow> t \<notin> set (tenant_ids intent)) \<longleftrightarrow>
      (\<forall>t. st_lastScheduledTenant st = Some t \<longrightarrow> t \<in> set (tenant_ids intent))"
    by (cases "st_lastScheduledTenant st") auto
  have "stateInvariantError sha st intent = None \<longleftrightarrow>
    0 \<le> st_revision st \<and>
    (distinct (tenant_ids intent) \<and> set (obj_keys (st_tenantQueues st)) = set (tenant_ids intent)) \<and>
    (\<forall>t. st_lastScheduledTenant st = Some t \<longrightarrow> t \<in> set (tenant_ids intent)) \<and>
    distinct (queued_ids st) \<and>
    first_fault (queue_entry_fault st) (st_tenantQueues st) = None \<and>
    first_fault (job_entry_fault sha intent st) (st_jobs st) = None \<and>
    first_fault (lock_entry_fault sha st) (st_resourceLocks st) = None \<and>
    quotas_kept intent (st_jobs st) \<and>
    first_fault (idem_entry_fault sha st) (st_idempotency st) = None \<and>
    first_fault (redemption_entry_fault sha st) (st_redeemedCapabilities st) = None \<and>
    first_fault (deployment_entry_fault sha intent st) (st_deployments st) = None"
    unfolding stateInvariantError_def or_else_None fault_if_None quota_check_iff [symmetric]
    by (simp only: not_less not_not keys last) blast
  also have "\<dots> \<longleftrightarrow> paas_sound sha intent st"
    unfolding paas_sound_def queues_sound_def locks_sound_def records_sound_def iffs
    by (rule regroup) (use jobs_check_iff [OF assms, of sha intent] in \<open>simp_all only: queued_ids_def\<close>)
  finally show ?thesis .
qed

lemma paas_ok_check: "paas_ok sha intent st \<Longrightarrow> stateInvariantError sha st intent = None"
  by (simp add: paas_ok_def state_check_iff)

lemma checked_ok: "paas_objects st \<Longrightarrow> stateInvariantError sha st intent = None \<Longrightarrow> paas_ok sha intent st"
  by (simp add: paas_ok_def state_check_iff)

subsection \<open>What follows from soundness\<close>

lemma paas_okD:
  assumes "paas_ok sha intent st"
  shows "obj_wf (st_jobs st)" "obj_wf (st_tenantQueues st)" "jobs_sound intent (st_jobs st)"
    "queues_sound intent (st_jobs st) (st_tenantQueues st)"
    "locks_sound sha (st_jobs st) (st_resourceLocks st)" "quotas_kept intent (st_jobs st)"
    "records_sound sha intent (st_jobs st) (st_idempotency st) (st_redeemedCapabilities st) (st_deployments st)"
  using assms by (auto simp: paas_ok_def paas_objects_def paas_sound_def)

lemma job_soundD:
  assumes "job_sound intent k j"
  shows "job_id j = k" "rx_test jobId_rx k" "k \<noteq> []" "0 \<le> job_createdAt j"
    "job_createdAt j \<le> job_updatedAt j" "job_createdAt j < job_deadlineAt j"
    "boundedResource (job_resource j)" "0 \<le> job_attempt j" "1 \<le> job_maxAttempts j" "job_maxAttempts j \<le> 5"
    "job_active j \<Longrightarrow> \<exists>t. job_startedAt j = Some t \<and> job_createdAt j \<le> t"
    "job_operation j \<noteq> JobBuild \<Longrightarrow> validDigest (job_artifactDigest j)"
    "job_tenantId j \<in> set (tenant_ids intent)"
proof -
  from assms obtain q where q: "find_tenant intent (job_tenantId j) = Some q"
    by (cases "find_tenant intent (job_tenantId j)") (auto simp: job_sound_def job_fields_bad_def)
  show "job_tenantId j \<in> set (tenant_ids intent)"
    using q find_tenant_None [of intent "job_tenantId j"] by auto
  show "k \<noteq> []"
    using assms q jobId_not_Nil by (auto simp: job_sound_def job_fields_bad_def)
qed (use assms in \<open>auto simp: job_sound_def job_fields_bad_def job_times_bad_def epoch_opt_def
      not_less not_le split: option.splits\<close>)

lemma find_job_key: "jobs_sound intent jobs \<Longrightarrow> obj_get jobs k = Some j \<Longrightarrow> job_id j = k"
  by (rule job_soundD(1) [of intent]) (simp add: jobs_sound_def)

end
