(* ===== verification/PaasJobs.thy ===== *)
theory PaasJobs
  imports PaasCheck
begin

section \<open>PaaS control plane: the life of a job\<close>

text \<open>
  The abstract specification of a job: \<open>job_move\<close> is the state machine a job follows, one rule
  per way in which a transition changes a job.  A move keeps what a job was enqueued as, never
  leaves a terminal status, and decreases \<open>job_rank\<close>, so a job makes finitely many moves.  The
  second part holds the laws of the dictionaries that the state is made of: changing the value of
  one key, changing all of them, and counting the jobs with a property.
\<close>

subsection \<open>The state machine\<close>

inductive job_move :: "paas_job \<Rightarrow> paas_job \<Rightarrow> bool" where
  move_start: "job_status j = Queued \<Longrightarrow> job_move j (started_job now j)"
| move_expire: "job_status j = Queued \<Longrightarrow> job_deadlineAt j \<le> now \<Longrightarrow> job_move j (timed_out_job now j)"
| move_cancel_queued: "job_status j = Queued \<Longrightarrow> job_move j (cancelled_queued_job at j)"
| move_retry: "job_status j = Running \<Longrightarrow> job_attempt j < job_maxAttempts j \<Longrightarrow> at < job_deadlineAt j \<Longrightarrow>
    job_move j (retry_job at err j)"
| move_fail: "job_status j = Running \<Longrightarrow> at < job_deadlineAt j \<Longrightarrow> job_move j (failed_job at err j)"
| move_succeed: "job_status j = Running \<Longrightarrow> at < job_deadlineAt j \<Longrightarrow> job_move j (succeeded_job at res j)"
| move_cancel: "job_status j = Running \<Longrightarrow> job_move j (cancelling_job at reason j)"
| move_cleaned: "job_status j = JobCancelling \<Longrightarrow> job_move j (cleaned_job at evidence j)"

inductive_cases job_moveE: "job_move j j'"

lemmas job_updates =
  started_job_def timed_out_job_def cancelled_queued_job_def retry_job_def failed_job_def
  succeeded_job_def cancelling_job_def cleaned_job_def

definition job_kept :: "paas_job \<Rightarrow> paas_job \<Rightarrow> bool" where
  "job_kept j j' \<longleftrightarrow>
     job_id j' = job_id j \<and> job_tenantId j' = job_tenantId j \<and> job_operation j' = job_operation j \<and>
     job_resource j' = job_resource j \<and> job_sourceRevision j' = job_sourceRevision j \<and>
     job_artifactDigest j' = job_artifactDigest j \<and> job_workerRole j' = job_workerRole j \<and>
     job_idempotencyKey j' = job_idempotencyKey j \<and> job_capabilityId j' = job_capabilityId j \<and>
     job_createdAt j' = job_createdAt j \<and> job_deadlineAt j' = job_deadlineAt j \<and>
     job_maxAttempts j' = job_maxAttempts j"

lemma job_kept_updates [simp]:
  "job_kept j (started_job now j)" "job_kept j (timed_out_job now j)" "job_kept j (cancelled_queued_job now j)"
  "job_kept j (retry_job now err j)" "job_kept j (failed_job now err j)" "job_kept j (succeeded_job now res j)"
  "job_kept j (cancelling_job now reason j)" "job_kept j (cleaned_job now ev j)" "job_kept j j"
  by (simp_all add: job_kept_def job_updates)

lemma job_status_updates [simp]:
  "job_status (started_job now j) = Running" "job_status (timed_out_job now j) = TimedOut"
  "job_status (cancelled_queued_job now j) = JobCancelled" "job_status (retry_job now err j) = Queued"
  "job_status (failed_job now err j) = JobFailed" "job_status (succeeded_job now res j) = Succeeded"
  "job_status (cancelling_job now reason j) = JobCancelling"
  "job_status (cleaned_job now ev j) = (if job_cancellationReason j = Some ByDeadline then TimedOut else JobCancelled)"
  by (simp_all add: job_updates)

lemma job_move_kept: "job_move j j' \<Longrightarrow> job_kept j j'"
  by (cases rule: job_move.cases) auto

lemma job_kept_trans: "job_kept a b \<Longrightarrow> job_kept b c \<Longrightarrow> job_kept a c"
  by (simp add: job_kept_def)

lemma job_kept_lock: "job_kept j j' \<Longrightarrow> job_lock sha j' = job_lock sha j"
  by (simp add: job_kept_def job_lock_def)

lemma terminal_no_move: "job_terminal j \<Longrightarrow> \<not> job_move j j'"
  by (auto simp: job_terminal_def elim!: job_moveE)

lemma status_cases: "job_status j = Queued \<or> job_active j \<or> job_terminal j"
  by (cases "job_status j") (auto simp: job_active_def job_terminal_def)

subsection \<open>Attempts and the number of moves\<close>

definition attempts_ok :: "paas_job \<Rightarrow> bool" where
  "attempts_ok j \<longleftrightarrow>
     0 \<le> job_attempt j \<and> job_attempt j \<le> job_maxAttempts j \<and>
     (job_status j = Queued \<longrightarrow> job_attempt j < job_maxAttempts j)"

lemma attempts_ok_move: "attempts_ok j \<Longrightarrow> job_move j j' \<Longrightarrow> attempts_ok j'"
  by (auto simp: attempts_ok_def job_updates elim!: job_moveE split: if_splits)

definition job_rank :: "paas_job \<Rightarrow> int" where
  "job_rank j = 2 * (job_maxAttempts j - job_attempt j) +
     (case job_status j of Queued \<Rightarrow> 1 | Running \<Rightarrow> 2 | JobCancelling \<Rightarrow> 1 | _ \<Rightarrow> 0)"

lemma job_rank_nonneg: "attempts_ok j \<Longrightarrow> 0 \<le> job_rank j"
  by (auto simp: attempts_ok_def job_rank_def split: paas_job_status.splits)

lemma job_rank_move: "attempts_ok j \<Longrightarrow> job_move j j' \<Longrightarrow> job_rank j' < job_rank j"
  by (auto simp: attempts_ok_def job_rank_def job_updates elim!: job_moveE)

lemma job_moves_bounded:
  "(job_move ^^ n) j j' \<Longrightarrow> attempts_ok j \<Longrightarrow> int n + job_rank j' \<le> job_rank j \<and> attempts_ok j'"
proof (induction n arbitrary: j')
  case 0
  then show ?case by simp
next
  case (Suc n)
  then obtain m where m: "(job_move ^^ n) j m" "job_move m j'" by auto
  with Suc job_rank_move [of m j'] attempts_ok_move [of m j'] show ?case by fastforce
qed

subsection \<open>Dictionaries\<close>

lemma obj_split:
  assumes "obj_get ob k = Some v"
  obtains xs ys where "ob = xs @ (k, v) # ys" "\<And>w. obj_set ob k w = xs @ (k, w) # ys"
proof -
  have "\<exists>xs ys. ob = xs @ (k, v) # ys \<and> (\<forall>w. obj_replace ob k w = xs @ (k, w) # ys)"
    using assms
  proof (induction ob)
    case Nil
    then show ?case by (simp add: obj_get_def)
  next
    case (Cons e ob)
    obtain k' v' where e: "e = (k', v')" by (cases e)
    show ?case
    proof (cases "k' = k")
      case True
      with Cons.prems e have "v' = v" by (simp add: obj_get_def)
      with True e have "e # ob = [] @ (k, v) # ob \<and> (\<forall>w. obj_replace (e # ob) k w = [] @ (k, w) # ob)"
        by simp
      then show ?thesis by blast
    next
      case False
      with Cons e obtain xs ys where
        o: "ob = xs @ (k, v) # ys" "\<And>w. obj_replace ob k w = xs @ (k, w) # ys"
        by (auto simp: obj_get_def)
      have "obj_replace (e # ob) k w = ((k', v') # xs) @ (k, w) # ys" for w
        using o(2) [of w] False e by simp
      moreover have "e # ob = ((k', v') # xs) @ (k, v) # ys"
        using o(1) e by simp
      ultimately have "e # ob = ((k', v') # xs) @ (k, v) # ys \<and>
          (\<forall>w. obj_replace (e # ob) k w = ((k', v') # xs) @ (k, w) # ys)"
        by blast
      then show ?thesis by blast
    qed
  qed
  moreover have "k \<in> set (map fst ob)"
    using assms by (force simp: obj_get_def dest: map_of_SomeD)
  ultimately show ?thesis
    using that by (auto simp: obj_set_def)
qed

definition obj_map :: "('v \<Rightarrow> 'v) \<Rightarrow> 'v obj \<Rightarrow> 'v obj" where
  "obj_map f ob = map (\<lambda>(k, v). (k, f v)) ob"

lemma obj_get_map: "obj_get (obj_map f ob) k = map_option f (obj_get ob k)"
  by (induction ob) (auto simp: obj_map_def obj_get_def)

lemma obj_keys_map: "obj_keys (obj_map f ob) = obj_keys ob"
  by (simp add: obj_map_def obj_keys_def comp_def case_prod_beta)

lemma obj_wf_map: "obj_wf ob \<Longrightarrow> obj_wf (obj_map f ob)"
  by (simp add: obj_wf_def obj_keys_map)

lemma obj_values_map: "obj_values (obj_map f ob) = map f (obj_values ob)"
  by (simp add: obj_map_def obj_values_def case_prod_beta)

lemma obj_set_map:
  assumes "distinct (obj_keys ob)" "obj_get ob k = Some v"
  shows "obj_set ob k w = map (\<lambda>(k', v'). (k', if k' = k then w else v')) ob"
proof -
  have "obj_replace ob k w = map (\<lambda>(k', v'). (k', if k' = k then w else v')) ob"
    using assms(1)
  proof (induction ob k w rule: obj_replace.induct)
    case (1 k v)
    then show ?case by simp
  next
    case (2 k' v' ob k v)
    have "k' = k \<Longrightarrow> map (\<lambda>(k', v'). (k', if k' = k then v else v')) ob = ob"
      using "2.prems" by (intro map_idI) (force simp: obj_keys_def)
    with 2 show ?case by (auto simp: obj_keys_def)
  qed
  moreover have "k \<in> set (map fst ob)"
    using assms(2) by (force simp: obj_get_def dest: map_of_SomeD)
  ultimately show ?thesis by (simp add: obj_set_def)
qed

definition count_if :: "('v \<Rightarrow> bool) \<Rightarrow> 'v obj \<Rightarrow> nat" where
  "count_if P ob = length (filter P (obj_values ob))"

lemma count_if_replace:
  "obj_get ob k = Some v \<Longrightarrow>
   count_if P (obj_set ob k w) + (if P v then 1 else 0) = count_if P ob + (if P w then 1 else 0)"
  by (rule obj_split [of ob k v]) (simp_all add: count_if_def obj_values_def)

lemma count_if_insert:
  assumes "obj_get ob k = None"
  shows "count_if P (obj_set ob k w) = count_if P ob + (if P w then 1 else 0)"
proof -
  have "length (filter P (map snd (obj_insert ob k w))) = length (filter P (map snd ob)) + (if P w then 1 else 0)"
    by (induction ob k w rule: obj_insert.induct) (auto split: option.splits)
  with assms show ?thesis
    by (auto simp: count_if_def obj_values_def obj_set_def obj_get_def map_of_eq_None_iff)
qed

lemma count_if_map:
  "(\<And>k v. obj_get ob k = Some v \<Longrightarrow> P (f v) = P v) \<Longrightarrow> distinct (obj_keys ob) \<Longrightarrow>
   count_if P (obj_map f ob) = count_if P ob"
proof -
  assume same: "\<And>k v. obj_get ob k = Some v \<Longrightarrow> P (f v) = P v" and d: "distinct (obj_keys ob)"
  have "\<forall>v \<in> set (obj_values ob). P (f v) = P v"
    using same obj_mem_get [OF d] by (auto simp: obj_values_def)
  then have "filter (P \<circ> f) (obj_values ob) = filter P (obj_values ob)"
    by (intro filter_cong) auto
  then show ?thesis by (simp add: count_if_def obj_values_map filter_map)
qed

lemma active_count: "length (activeJobs jobs) = count_if job_active jobs"
  by (simp add: activeJobs_def count_if_def)

lemma active_builds_count:
  "active_builds jobs t = int (count_if (\<lambda>j. job_active j \<and> job_tenantId j = t \<and> job_operation j = JobBuild) jobs)"
  by (simp add: active_builds_def activeJobs_def count_if_def conj_commute conj_left_commute)

lemma active_deploys_count:
  "active_deploys jobs t = int (count_if (\<lambda>j. job_active j \<and> job_tenantId j = t \<and> job_operation j \<noteq> JobBuild) jobs)"
  by (simp add: active_deploys_def activeJobs_def count_if_def conj_commute conj_left_commute)

lemmas active_counts = active_count active_builds_count active_deploys_count

subsection \<open>Jobs of two states\<close>

text \<open>
  Every job of the first state is in the second, where it is the same or has made one move.
\<close>

definition jobs_evolve :: "paas_job obj \<Rightarrow> paas_job obj \<Rightarrow> bool" where
  "jobs_evolve jobs jobs' \<longleftrightarrow>
     (\<forall>k j. obj_get jobs k = Some j \<longrightarrow> (\<exists>j'. obj_get jobs' k = Some j' \<and> (j' = j \<or> job_move j j')))"

lemma jobs_evolve_refl [simp]: "jobs_evolve jobs jobs"
  by (simp add: jobs_evolve_def)

lemma jobs_evolve_set:
  "obj_get jobs k = Some j \<Longrightarrow> job_move j j' \<Longrightarrow> jobs_evolve jobs (obj_set jobs k j')"
  by (auto simp: jobs_evolve_def obj_get_set)

lemma jobs_evolve_new: "obj_get jobs k = None \<Longrightarrow> jobs_evolve jobs (obj_set jobs k j)"
  by (auto simp: jobs_evolve_def obj_get_set)

lemma jobs_evolve_map:
  "(\<And>k j. obj_get jobs k = Some j \<Longrightarrow> f j = j \<or> job_move j (f j)) \<Longrightarrow> jobs_evolve jobs (obj_map f jobs)"
  by (auto simp: jobs_evolve_def obj_get_map)

lemma jobs_evolve_kept:
  "jobs_evolve jobs jobs' \<Longrightarrow> obj_get jobs k = Some j \<Longrightarrow> \<exists>j'. obj_get jobs' k = Some j' \<and> job_kept j j'"
  by (auto simp: jobs_evolve_def dest: job_move_kept) (metis job_kept_updates(9) job_move_kept)

lemma jobs_evolve_terminal:
  "jobs_evolve jobs jobs' \<Longrightarrow> obj_get jobs k = Some j \<Longrightarrow> job_terminal j \<Longrightarrow> obj_get jobs' k = Some j"
  using terminal_no_move by (fastforce simp: jobs_evolve_def)

end
