(* ===== verification/PaasKeep.thy ===== *)
theory PaasKeep
  imports PaasJobs
begin

section \<open>PaaS control plane: changes that keep a state sound\<close>

text \<open>
  One lemma for each part of a sound state and each way in which a transition changes it: a job
  enters, moves, starts (and takes its lock) or stops (and gives it back), a queue grows or
  shrinks, and many jobs move at once.  The collection \<open>keeps\<close> holds them for the operations.
\<close>

named_theorems keeps \<open>changes that keep a part of the state sound\<close>

subsection \<open>Jobs\<close>

lemma jobs_sound_set [keeps]:
  "jobs_sound intent jobs \<Longrightarrow> job_sound intent k j \<Longrightarrow> jobs_sound intent (obj_set jobs k j)"
  by (auto simp: jobs_sound_def obj_get_set)

lemma jobs_sound_map [keeps]:
  "jobs_sound intent jobs \<Longrightarrow>
   (\<And>k j. obj_get jobs k = Some j \<Longrightarrow> job_sound intent k j \<Longrightarrow> job_sound intent k (f j)) \<Longrightarrow>
   jobs_sound intent (obj_map f jobs)"
  by (auto simp: jobs_sound_def obj_get_map)

lemma jobs_soundD: "jobs_sound intent jobs \<Longrightarrow> obj_get jobs k = Some j \<Longrightarrow> job_sound intent k j"
  by (simp add: jobs_sound_def)

lemma job_fields_move:
  assumes "\<not> job_fields_bad intent k j" "job_kept j j'" "job_createdAt j \<le> job_updatedAt j'"
    "job_attempt j \<le> job_attempt j'"
  shows "\<not> job_fields_bad intent k j'"
proof -
  from assms(1) obtain q where q: "find_tenant intent (job_tenantId j) = Some q"
    by (cases "find_tenant intent (job_tenantId j)") (auto simp: job_fields_bad_def)
  with assms show ?thesis
    unfolding job_fields_bad_def job_kept_def by (simp del: rx_test.simps)
qed

lemma job_sound_move:
  assumes "job_sound intent k j" "job_move j j'" "job_createdAt j \<le> job_updatedAt j'"
  shows "job_sound intent k j'"
proof -
  have attempt: "job_attempt j \<le> job_attempt j'"
    using assms(2) by (cases rule: job_move.cases) (simp_all add: job_updates)
  have times: "\<not> job_times_bad j'"
  proof -
    have "0 \<le> job_createdAt j" "\<not> job_times_bad j"
      using assms(1) job_soundD(4) by (auto simp: job_sound_def)
    with assms(2,3) show ?thesis
      by (cases rule: job_move.cases)
        (auto simp: job_times_bad_def job_active_def job_terminal_def job_updates epoch_opt_def
          split: option.splits if_splits)
  qed
  from assms(1) job_fields_move [OF _ job_move_kept [OF assms(2)] assms(3) attempt] times
  show ?thesis by (simp add: job_sound_def)
qed

subsection \<open>Queues\<close>

lemma queue_member:
  "obj_get queues t = Some q \<Longrightarrow> i \<in> set q \<Longrightarrow> i \<in> set (concat (obj_values queues))"
  using obj_get_mem [of queues t q] by (force simp: obj_values_def)

lemma queues_sound_neutral [keeps]:
  "queues_sound intent jobs queues \<Longrightarrow> obj_get jobs k = Some j \<Longrightarrow> job_status j \<noteq> Queued \<Longrightarrow>
   job_status j' \<noteq> Queued \<Longrightarrow> queues_sound intent (obj_set jobs k j') queues"
  by (auto simp: queues_sound_def obj_get_set) (metis option.inject)+

lemma distinct_queue_update:
  assumes "distinct (concat (obj_values queues))" "obj_get queues t = Some q" "distinct q'"
    "\<forall>i \<in> set q' - set q. i \<notin> set (concat (obj_values queues))"
  shows "distinct (concat (obj_values (obj_set queues t q')))"
proof (rule obj_split [OF assms(2)])
  fix xs ys
  assume ob: "queues = xs @ (t, q) # ys" and set: "\<And>w. obj_set queues t w = xs @ (t, w) # ys"
  have "distinct (concat (map snd xs) @ q @ concat (map snd ys))"
    using assms(1) by (simp add: ob obj_values_def)
  moreover have "\<forall>i \<in> set q' - set q. i \<notin> set (concat (map snd xs) @ q @ concat (map snd ys))"
    using assms(4) by (simp add: ob obj_values_def)
  ultimately have "distinct (concat (map snd xs) @ q' @ concat (map snd ys))"
    using assms(3) by (simp only: distinct_append set_append) blast
  then show ?thesis by (simp add: set obj_values_def)
qed

lemma queue_distinct:
  "distinct (concat (obj_values queues)) \<Longrightarrow> obj_get queues t = Some q \<Longrightarrow> distinct q"
  by (rule obj_split [of queues t q]) (simp_all add: obj_values_def)

lemma queues_soundD:
  assumes "queues_sound intent jobs queues"
  shows "distinct (concat (obj_values queues))"
    "obj_get queues t = Some q \<Longrightarrow> i \<in> set q \<Longrightarrow>
       \<exists>j. obj_get jobs i = Some j \<and> job_tenantId j = t \<and> job_status j = Queued"
    "obj_get jobs k = Some j \<Longrightarrow> job_status j = Queued \<Longrightarrow> k \<in> set (concat (obj_values queues))"
    "distinct (tenant_ids intent)" "set (obj_keys queues) = set (tenant_ids intent)"
  using assms unfolding queues_sound_def by blast+

lemma members_queue_update:
  assumes "obj_wf queues" "obj_get queues t = Some q"
  shows "i \<in> set (concat (obj_values (obj_set queues t q'))) \<longleftrightarrow>
    i \<in> set q' \<or> (\<exists>u r. u \<noteq> t \<and> obj_get queues u = Some r \<and> i \<in> set r)"
  using in_queues_iff [OF obj_wf_set [OF assms(1)], of i t q'] by (auto simp: obj_get_set split: if_splits)

lemma queues_sound_push [keeps]:
  assumes sound: "queues_sound intent jobs queues" and wf: "obj_wf queues"
    and q: "obj_get queues t = Some q" and j: "job_tenantId j = t" "job_status j = Queued"
    and new: "\<And>j. obj_get jobs i = Some j \<Longrightarrow> job_status j \<noteq> Queued"
  shows "queues_sound intent (obj_set jobs i j) (obj_set queues t (q @ [i]))"
proof -
  have out: "i \<notin> set (concat (obj_values queues))"
    using sound new unfolding queues_sound_def in_queues_iff [OF wf] by (metis option.inject)
  have qd: "distinct (q @ [i])"
    using out queue_member [OF q, of i] queue_distinct [OF queues_soundD(1) [OF sound] q] by auto
  have "distinct (concat (obj_values (obj_set queues t (q @ [i]))))"
    using sound out by (intro distinct_queue_update [OF _ q qd]) (auto simp: queues_sound_def)
  moreover have "i' \<in> set (concat (obj_values (obj_set queues t (q @ [i])))) \<longleftrightarrow>
      i' = i \<or> i' \<in> set (concat (obj_values queues))" for i'
    unfolding members_queue_update [OF wf q] in_queues_iff [OF wf] using q by simp (metis option.inject)
  moreover have "set (obj_keys (obj_set queues t (q @ [i]))) = set (obj_keys queues)"
    using q obj_get_keys [of queues t] by (auto simp: obj_keys_set)
  ultimately show ?thesis
    using sound out j q unfolding queues_sound_def in_queues_iff [OF wf]
    by (auto simp: obj_get_set split: if_splits)
qed

lemma queues_sound_remove [keeps]:
  assumes sound: "queues_sound intent jobs queues" and wf: "obj_wf queues"
    and q: "obj_get queues t = Some q" and i: "obj_get jobs i = Some j0" "job_tenantId j0 = t"
    and j: "job_status j \<noteq> Queued"
  shows "queues_sound intent (obj_set jobs i j) (obj_set queues t (filter (\<lambda>k. k \<noteq> i) q))"
proof -
  let ?q = "filter (\<lambda>k. k \<noteq> i) q"
  have qd: "distinct ?q"
    using queue_distinct [OF queues_soundD(1) [OF sound] q] by simp
  have "distinct (concat (obj_values (obj_set queues t ?q)))"
    using sound by (intro distinct_queue_update [OF _ q qd]) (auto simp: queues_sound_def)
  moreover have "i' \<in> set (concat (obj_values (obj_set queues t ?q))) \<longleftrightarrow>
      i' \<noteq> i \<and> i' \<in> set (concat (obj_values queues))" for i'
  proof -
    have "obj_get queues u = Some r \<Longrightarrow> i \<in> set r \<Longrightarrow> u = t" for u r
      using queues_soundD(2) [OF sound, of u r i] i by auto
    then show ?thesis
      unfolding members_queue_update [OF wf q] in_queues_iff [OF wf] using q by simp (metis option.inject)
  qed
  moreover have "set (obj_keys (obj_set queues t ?q)) = set (obj_keys queues)"
    using q obj_get_keys [of queues t] by (auto simp: obj_keys_set)
  moreover have "\<exists>j'. obj_get (obj_set jobs i j) k = Some j' \<and> job_tenantId j' = u \<and> job_status j' = Queued"
    if "obj_get (obj_set queues t ?q) u = Some r" "k \<in> set r" for u r k
  proof -
    have "k \<noteq> i"
    proof (cases "u = t")
      case True
      with that show ?thesis by (auto simp: obj_get_set)
    next
      case False
      with that have "obj_get queues u = Some r" by (simp add: obj_get_set)
      from queues_soundD(2) [OF sound this that(2)] i False show ?thesis by auto
    qed
    moreover have "\<exists>j'. obj_get jobs k = Some j' \<and> job_tenantId j' = u \<and> job_status j' = Queued"
      using that q queues_soundD(2) [OF sound, of u _ k] by (auto simp: obj_get_set split: if_splits)
    ultimately show ?thesis by (simp add: obj_get_set)
  qed
  ultimately show ?thesis
    using sound j unfolding queues_sound_def
    by (simp add: obj_get_set del: set_concat)
qed

lemma queues_sound_map [keeps]:
  assumes "queues_sound intent jobs queues"
    and "\<And>k j. obj_get jobs k = Some j \<Longrightarrow>
      job_tenantId (f j) = job_tenantId j \<and> (job_status (f j) = Queued \<longleftrightarrow> job_status j = Queued)"
  shows "queues_sound intent (obj_map f jobs) queues"
proof -
  have "\<exists>j'. obj_get (obj_map f jobs) i = Some j' \<and> job_tenantId j' = t \<and> job_status j' = Queued"
    if "obj_get queues t = Some q" "i \<in> set q" for t q i
  proof -
    from queues_soundD(2) [OF assms(1) that] obtain j where
      "obj_get jobs i = Some j" "job_tenantId j = t" "job_status j = Queued" by blast
    with assms(2) show ?thesis by (simp add: obj_get_map)
  qed
  moreover have "k \<in> set (concat (obj_values queues))"
    if "obj_get (obj_map f jobs) k = Some j'" "job_status j' = Queued" for k j'
    using that assms by (auto simp: obj_get_map queues_sound_def)
  ultimately show ?thesis
    using assms(1) by (simp add: queues_sound_def del: set_concat)
qed

subsection \<open>Locks\<close>

lemma locks_sound_keep [keeps]:
  assumes "locks_sound sha jobs locks" "obj_get jobs k = Some j" "job_kept j j'"
    "job_active j' = job_active j"
  shows "locks_sound sha (obj_set jobs k j') locks"
  using assms job_kept_lock [OF assms(3), of sha]
  by (auto simp: locks_sound_def obj_get_set) (metis option.inject)+

lemma locks_sound_new [keeps]:
  assumes "locks_sound sha jobs locks" "obj_get jobs k = None" "\<not> job_active j"
  shows "locks_sound sha (obj_set jobs k j) locks"
  using assms by (auto simp: locks_sound_def obj_get_set) (metis option.distinct(1))+

lemma locks_sound_map [keeps]:
  assumes s: "locks_sound sha jobs locks"
    and f: "\<And>k j. obj_get jobs k = Some j \<Longrightarrow> job_kept j (f j) \<and> job_active (f j) = job_active j"
  shows "locks_sound sha (obj_map f jobs) locks"
proof -
  have lock: "job_lock sha (f j) = job_lock sha j" "job_active (f j) = job_active j"
    if "obj_get jobs k = Some j" for k j
    using f [OF that] by (simp_all add: job_kept_lock)
  have "obj_get locks (job_lock sha j') = Some k" if "obj_get (obj_map f jobs) k = Some j'" "job_active j'" for k j'
  proof -
    from that(1) obtain j where "obj_get jobs k = Some j" "j' = f j" by (auto simp: obj_get_map)
    with that(2) s lock show ?thesis by (simp add: locks_sound_def)
  qed
  moreover have "\<exists>j'. obj_get (obj_map f jobs) i = Some j' \<and> job_active j' \<and> job_lock sha j' = l"
    if "obj_get locks l = Some i" for l i
  proof -
    from s that obtain j where "obj_get jobs i = Some j" "job_active j" "job_lock sha j = l"
      unfolding locks_sound_def by blast
    with lock show ?thesis by (simp add: obj_get_map)
  qed
  ultimately show ?thesis unfolding locks_sound_def by blast
qed

lemma locks_sound_acquire [keeps]:
  assumes s: "locks_sound sha jobs locks" and "obj_get jobs k = Some j" "\<not> job_active j" "job_kept j j'"
    "job_active j'" and free: "obj_get locks (job_lock sha j) = None" and l: "l = job_lock sha j'"
  shows "locks_sound sha (obj_set jobs k j') (obj_set locks l k)"
proof -
  have l': "l = job_lock sha j" using l job_kept_lock [OF assms(4), of sha] by simp
  have "job_lock sha i \<noteq> l" if "obj_get jobs k' = Some i" "job_active i" for k' i
    using s free that l' unfolding locks_sound_def by (metis option.distinct(1))
  moreover have "l2 = l \<or> obj_get jobs k2 \<noteq> Some j" if "obj_get locks l2 = Some k2" for l2 k2
    using s that assms(3) unfolding locks_sound_def by (metis option.inject)
  ultimately show ?thesis
    using assms unfolding locks_sound_def obj_get_set
    by (auto split: if_splits)
qed

lemma locks_sound_release [keeps]:
  assumes s: "locks_sound sha jobs locks" and "obj_get jobs k = Some j" "job_active j" "job_kept j j'"
    "\<not> job_active j'"
  shows "locks_sound sha (obj_set jobs k j') (obj_del locks (job_lock sha j))"
proof -
  have own: "obj_get locks (job_lock sha j) = Some k"
    using s assms(2,3) by (simp add: locks_sound_def)
  have "job_lock sha i \<noteq> job_lock sha j" if "obj_get jobs k' = Some i" "job_active i" "k' \<noteq> k" for k' i
    using s own that by (metis locks_sound_def option.inject)
  moreover have "k2 \<noteq> k" if "obj_get locks l2 = Some k2" "l2 \<noteq> job_lock sha j" for l2 k2
    using s that assms(2) unfolding locks_sound_def by (metis option.inject)
  ultimately show ?thesis
    using assms unfolding locks_sound_def obj_get_set obj_get_del
    by (auto split: if_splits)
qed

subsection \<open>Quotas\<close>

lemma quotas_kept_set [keeps]:
  assumes "quotas_kept intent jobs" "obj_get jobs k = Some j" "job_kept j j'"
    "job_active j' \<longrightarrow> job_active j"
  shows "quotas_kept intent (obj_set jobs k j')"
proof -
  have less: "count_if P (obj_set jobs k j') \<le> count_if P jobs" if "P j' \<longrightarrow> P j" for P
    using count_if_replace [OF assms(2), of P j'] that by (auto split: if_splits)
  have "count_if job_active (obj_set jobs k j') \<le> count_if job_active jobs"
    using assms(4) by (rule less)
  moreover have "active_builds (obj_set jobs k j') t \<le> active_builds jobs t"
    "active_deploys (obj_set jobs k j') t \<le> active_deploys jobs t" for t
    unfolding active_counts of_nat_le_iff using assms(3,4)
    by (intro less, simp add: job_kept_def)+
  ultimately show ?thesis
    using assms(1) unfolding quotas_kept_def active_count by (meson of_nat_mono order_trans)
qed

lemma quotas_kept_new [keeps]:
  "quotas_kept intent jobs \<Longrightarrow> obj_get jobs k = None \<Longrightarrow> \<not> job_active j \<Longrightarrow>
   quotas_kept intent (obj_set jobs k j)"
  by (simp add: quotas_kept_def active_counts count_if_insert)

lemma quotas_kept_map [keeps]:
  assumes "quotas_kept intent jobs" "obj_wf jobs"
    and same: "\<And>k j. obj_get jobs k = Some j \<Longrightarrow> job_kept j (f j) \<and> job_active (f j) = job_active j"
  shows "quotas_kept intent (obj_map f jobs)"
proof -
  have eq: "count_if P (obj_map f jobs) = count_if P jobs"
    if "\<And>k j. obj_get jobs k = Some j \<Longrightarrow> P (f j) = P j" for P
    using that obj_wf_distinct [OF assms(2)] by (rule count_if_map)
  have "count_if job_active (obj_map f jobs) = count_if job_active jobs"
    using same by (intro eq) auto
  moreover have "active_builds (obj_map f jobs) t = active_builds jobs t"
    "active_deploys (obj_map f jobs) t = active_deploys jobs t" for t
    unfolding active_counts of_nat_eq_iff using same
    by (intro eq, fastforce simp: job_kept_def)+
  ultimately show ?thesis
    using assms(1) by (simp add: quotas_kept_def active_count)
qed

lemma quotas_kept_start [keeps]:
  assumes k: "quotas_kept intent jobs" and j: "obj_get jobs k = Some j" "\<not> job_active j" "job_kept j j'"
    "job_active j'"
    and room: "int (length (activeJobs jobs)) < sch_maxGlobalConcurrency (in_scheduling intent)"
    and q: "find_tenant intent (job_tenantId j) = Some q" "\<not> at_quota jobs q j"
    and d: "distinct (tenant_ids intent)"
  shows "quotas_kept intent (obj_set jobs k j')"
proof -
  have same: "job_tenantId j' = job_tenantId j" "job_operation j' = job_operation j"
    using j(3) by (simp_all add: job_kept_def)
  have up: "count_if P (obj_set jobs k j') = count_if P jobs + (if P j' then 1 else 0)" if "\<not> P j" for P
    using count_if_replace [OF j(1), of P j'] that by simp
  have "length (activeJobs (obj_set jobs k j')) = Suc (length (activeJobs jobs))"
    using up [of job_active] j by (simp add: active_count)
  moreover have "active_builds (obj_set jobs k j') t =
      active_builds jobs t + (if job_tenantId j = t \<and> job_operation j = JobBuild then 1 else 0)"
    "active_deploys (obj_set jobs k j') t =
      active_deploys jobs t + (if job_tenantId j = t \<and> job_operation j \<noteq> JobBuild then 1 else 0)" for t
    using j same unfolding active_counts by (subst up, simp, simp)+
  moreover have "r = q" if "r \<in> set (in_tenants intent)" "tq_tenantId r = job_tenantId j" for r
    using find_tenant_unique [OF d that(1)] that(2) q(1) by simp
  moreover have "tq_tenantId q = job_tenantId j"
    using find_tenant_Some [OF q(1)] by simp
  ultimately show ?thesis
    using k room q(2) by (fastforce simp: quotas_kept_def at_quota_def split: if_splits)
qed

subsection \<open>Records\<close>

lemma deployment_sound_evolve:
  assumes "deployment_sound sha intent jobs k d" "jobs_evolve jobs jobs'"
  shows "deployment_sound sha intent jobs' k d"
  using assms jobs_evolve_terminal [OF assms(2)]
  by (fastforce simp: deployment_sound_def job_terminal_def)

lemma records_sound_evolve [keeps]:
  assumes "records_sound sha intent jobs idem caps deps" "jobs_evolve jobs jobs'"
  shows "records_sound sha intent jobs' idem caps deps"
proof -
  have ref: "(\<exists>j. obj_get jobs i = Some j \<and> t = job_tenantId j) \<Longrightarrow>
      (\<exists>j. obj_get jobs' i = Some j \<and> t = job_tenantId j)" for i t
    using jobs_evolve_kept [OF assms(2)] by (metis job_kept_def)
  have "\<forall>k d. obj_get deps k = Some d \<longrightarrow> deployment_sound sha intent jobs' k d"
    using assms deployment_sound_evolve unfolding records_sound_def by blast
  moreover have "\<forall>k r. obj_get idem k = Some r \<longrightarrow>
        (\<exists>j. obj_get jobs' (idem_jobId r) = Some j \<and> idem_tenantId r = job_tenantId j) \<and>
        stateKey sha [idem_tenantId r, idem_idempotencyKey r] = k"
    using assms(1) ref unfolding records_sound_def by blast
  moreover have "\<forall>k r. obj_get caps k = Some r \<longrightarrow>
        (\<exists>j. obj_get jobs' (red_jobId r) = Some j \<and> red_tenantId r = job_tenantId j) \<and>
        stateKey sha [red_capabilityId r] = k"
    using assms(1) ref unfolding records_sound_def by blast
  ultimately show ?thesis unfolding records_sound_def by blast
qed

lemma records_sound_idem [keeps]:
  assumes "records_sound sha intent jobs idem caps deps" "obj_get jobs i = Some j" "job_tenantId j = t"
  shows "records_sound sha intent jobs
    (obj_set idem (stateKey sha [t, key])
      \<lparr>idem_action = act, idem_tenantId = t, idem_idempotencyKey = key, idem_fingerprint = fp, idem_jobId = i\<rparr>)
    caps deps"
  using assms by (auto simp: records_sound_def obj_get_set)

lemma records_sound_redeem [keeps]:
  assumes "records_sound sha intent jobs idem caps deps" "obj_get jobs i = Some j" "job_tenantId j = t"
  shows "records_sound sha intent jobs idem
    (obj_set caps (stateKey sha [c])
      \<lparr>red_capabilityId = c, red_tenantId = t, red_jobId = i, red_redeemedAt = now\<rparr>) deps"
  using assms by (auto simp: records_sound_def obj_get_set)

lemma records_sound_deploy [keeps]:
  "records_sound sha intent jobs idem caps deps \<Longrightarrow> deployment_sound sha intent jobs k d \<Longrightarrow>
   records_sound sha intent jobs idem caps (obj_set deps k d)"
  by (auto simp: records_sound_def obj_get_set)

end
