(* ===== verification/PaasSteps.thy ===== *)
theory PaasSteps
  imports PaasKeep
begin

section \<open>PaaS control plane: when a transition commits\<close>

text \<open>
  For each transition, the conjunction of the guards under which it is accepted with a new state
  and that state (collection \<open>commits\<close>), and the closed form of the loops of the scheduler: on a
  sound state no loop fails, and expiry changes all overdue queued jobs at once.
\<close>

named_theorems commits \<open>when a transition commits\<close>

subsection \<open>Transitions and states\<close>

lemma transition_simps [simp]:
  "tr_code (paas_rejected st code) = code" "tr_state (paas_rejected st code) = st"
  "tr_events (paas_rejected st code) = []" "tr_accepted (paas_rejected st code) = False"
  "tr_code (paas_unchanged st code i) = code" "tr_state (paas_unchanged st code i) = st"
  "tr_events (paas_unchanged st code i) = []" "tr_accepted (paas_unchanged st code i) = True"
  "tr_code (paas_accepted st evs i) = ACCEPTED" "tr_state (paas_accepted st evs i) = st"
  "tr_events (paas_accepted st evs i) = evs" "tr_accepted (paas_accepted st evs i) = True"
  by (simp_all add: paas_rejected_def paas_unchanged_def paas_accepted_def)

lemma finalize_simps [simp]:
  "st_revision (finalize st r) = r" "st_jobs (finalize st r) = st_jobs st"
  "st_tenantQueues (finalize st r) = st_tenantQueues st" "st_idempotency (finalize st r) = st_idempotency st"
  "st_redeemedCapabilities (finalize st r) = st_redeemedCapabilities st"
  "st_resourceLocks (finalize st r) = st_resourceLocks st" "st_deployments (finalize st r) = st_deployments st"
  "st_lastScheduledTenant (finalize st r) = st_lastScheduledTenant st"
  by (simp_all add: finalize_def)

lemma put_job_simps [simp]:
  "st_revision (put_job st k j) = st_revision st" "st_jobs (put_job st k j) = obj_set (st_jobs st) k j"
  "st_tenantQueues (put_job st k j) = st_tenantQueues st" "st_idempotency (put_job st k j) = st_idempotency st"
  "st_redeemedCapabilities (put_job st k j) = st_redeemedCapabilities st"
  "st_resourceLocks (put_job st k j) = st_resourceLocks st" "st_deployments (put_job st k j) = st_deployments st"
  "st_lastScheduledTenant (put_job st k j) = st_lastScheduledTenant st"
  by (simp_all add: put_job_def)

lemma set_queue_simps [simp]:
  "st_revision (set_queue st t q) = st_revision st" "st_jobs (set_queue st t q) = st_jobs st"
  "st_tenantQueues (set_queue st t q) = obj_set (st_tenantQueues st) t q"
  "st_idempotency (set_queue st t q) = st_idempotency st"
  "st_redeemedCapabilities (set_queue st t q) = st_redeemedCapabilities st"
  "st_resourceLocks (set_queue st t q) = st_resourceLocks st" "st_deployments (set_queue st t q) = st_deployments st"
  "st_lastScheduledTenant (set_queue st t q) = st_lastScheduledTenant st"
  by (simp_all add: set_queue_def)

lemma release_lock_simps [simp]:
  "st_revision (release_lock sha st j) = st_revision st" "st_jobs (release_lock sha st j) = st_jobs st"
  "st_tenantQueues (release_lock sha st j) = st_tenantQueues st"
  "st_idempotency (release_lock sha st j) = st_idempotency st"
  "st_redeemedCapabilities (release_lock sha st j) = st_redeemedCapabilities st"
  "st_resourceLocks (release_lock sha st j) = obj_del (st_resourceLocks st) (job_lock sha j)"
  "st_deployments (release_lock sha st j) = st_deployments st"
  "st_lastScheduledTenant (release_lock sha st j) = st_lastScheduledTenant st"
  by (simp_all add: release_lock_def)

lemma put_idempotency_simps [simp]:
  "st_revision (put_idempotency sha st a t k f i) = st_revision st"
  "st_jobs (put_idempotency sha st a t k f i) = st_jobs st"
  "st_tenantQueues (put_idempotency sha st a t k f i) = st_tenantQueues st"
  "st_idempotency (put_idempotency sha st a t k f i) = obj_set (st_idempotency st) (stateKey sha [t, k])
     \<lparr>idem_action = a, idem_tenantId = t, idem_idempotencyKey = k, idem_fingerprint = f, idem_jobId = i\<rparr>"
  "st_redeemedCapabilities (put_idempotency sha st a t k f i) = st_redeemedCapabilities st"
  "st_resourceLocks (put_idempotency sha st a t k f i) = st_resourceLocks st"
  "st_deployments (put_idempotency sha st a t k f i) = st_deployments st"
  "st_lastScheduledTenant (put_idempotency sha st a t k f i) = st_lastScheduledTenant st"
  by (simp_all add: put_idempotency_def)

lemma redeem_simps [simp]:
  "st_revision (redeem sha st cap t i now) = st_revision st" "st_jobs (redeem sha st cap t i now) = st_jobs st"
  "st_tenantQueues (redeem sha st cap t i now) = st_tenantQueues st"
  "st_idempotency (redeem sha st cap t i now) = st_idempotency st"
  "st_redeemedCapabilities (redeem sha st cap t i now) =
     (if redeems sha cap
      then obj_set (st_redeemedCapabilities st) (stateKey sha [the cap])
        \<lparr>red_capabilityId = the cap, red_tenantId = t, red_jobId = i, red_redeemedAt = now\<rparr>
      else st_redeemedCapabilities st)"
  "st_resourceLocks (redeem sha st cap t i now) = st_resourceLocks st"
  "st_deployments (redeem sha st cap t i now) = st_deployments st"
  "st_lastScheduledTenant (redeem sha st cap t i now) = st_lastScheduledTenant st"
  by (simp_all add: redeem_def redeems_def truthy_def split: option.splits)

lemma promote_simps [simp]:
  "st_revision (promoteDeployment sha st j now) = st_revision st"
  "st_jobs (promoteDeployment sha st j now) = st_jobs st"
  "st_tenantQueues (promoteDeployment sha st j now) = st_tenantQueues st"
  "st_idempotency (promoteDeployment sha st j now) = st_idempotency st"
  "st_redeemedCapabilities (promoteDeployment sha st j now) = st_redeemedCapabilities st"
  "st_resourceLocks (promoteDeployment sha st j now) = st_resourceLocks st"
  "st_lastScheduledTenant (promoteDeployment sha st j now) = st_lastScheduledTenant st"
  by (simp_all add: promoteDeployment_def Let_def)

text \<open>\<open>committed m tr\<close>: the computation returns \<open>tr\<close>, and \<open>tr\<close> has a new state.\<close>

definition committed :: "js_fault + paas_transition \<Rightarrow> paas_transition \<Rightarrow> bool" where
  "committed m tr \<longleftrightarrow> m = Inr tr \<and> tr_code tr = ACCEPTED"

lemma committed_simps:
  "committed (Inl e) tr \<longleftrightarrow> False"
  "committed (Inr (paas_accepted st evs i)) tr \<longleftrightarrow> tr = paas_accepted st evs i"
  "committed (Inr (paas_rejected st code)) tr \<longleftrightarrow> code = ACCEPTED \<and> tr = paas_rejected st code"
  "committed (Inr (paas_unchanged st code i)) tr \<longleftrightarrow> code = ACCEPTED \<and> tr = paas_unchanged st code i"
  "committed (if b then m else m') tr \<longleftrightarrow> (b \<and> committed m tr) \<or> (\<not> b \<and> committed m' tr)"
  "committed (bind_r r f) tr \<longleftrightarrow> (\<exists>a. r = Inr a \<and> committed (f a) tr)"
  "committed (case x of None \<Rightarrow> m | Some y \<Rightarrow> g y) tr \<longleftrightarrow>
     (x = None \<and> committed m tr) \<or> (\<exists>y. x = Some y \<and> committed (g y) tr)"
  "committed (case out of OutcomeSucceeded \<Rightarrow> m | OutcomeFailed \<Rightarrow> m') tr \<longleftrightarrow>
     (out = OutcomeSucceeded \<and> committed m tr) \<or> (out = OutcomeFailed \<and> committed m' tr)"
  by (auto simp: committed_def bind_r_eq_Inr split: option.splits paas_outcome.splits)

lemma code_if_neq [simp]:
  "a \<noteq> ACCEPTED \<Longrightarrow> b \<noteq> ACCEPTED \<Longrightarrow> (if x then a else b) \<noteq> ACCEPTED"
  by simp

lemma the_queue_Inr: "the_queue st t = Inr q \<longleftrightarrow> obj_get (st_tenantQueues st) t = Some q"
  by (auto simp: the_queue_def split: option.splits)

lemma push_queue_Inr:
  "push_queue st t i = Inr st' \<longleftrightarrow>
   (\<exists>q. obj_get (st_tenantQueues st) t = Some q \<and> st' = set_queue st t (q @ [i]))"
  by (auto simp: push_queue_def bind_r_eq_Inr the_queue_Inr)

lemmas commit_simps = committed_simps paas_code.distinct code_if_neq simp_thms the_queue_Inr push_queue_Inr

subsection \<open>Enqueue\<close>

definition enqueue_allowed ::
  "(string \<Rightarrow> string) \<Rightarrow> paas_control_state \<Rightarrow> paas_intent \<Rightarrow> paas_enqueue \<Rightarrow> paas_tenant \<Rightarrow> bool" where
  "enqueue_allowed sha st intent c q \<longleftrightarrow>
     stateInvariantError sha st intent = None \<and> validEnqueueCommand c \<and>
     find_tenant intent (enq_tenantId c) = Some q \<and>
     authorizationBinds (enq_authorization c) (EnqueueCommand c) (job_paas_operation (enq_operation c)) None \<and>
     obj_get (st_idempotency st) (stateKey sha [enq_tenantId c, enq_idempotencyKey c]) = None \<and>
     enq_expectedRevision c = st_revision st \<and> \<not> job_name_taken st (enq_jobId c) \<and>
     (enq_operation c = JobRollback \<longrightarrow> knownRollbackTarget sha st c) \<and>
     \<not> capability_replayed sha st (dec_capabilityToRedeem (enq_authorization c))"

definition enqueue_state ::
  "(string \<Rightarrow> string) \<Rightarrow> paas_control_state \<Rightarrow> paas_enqueue \<Rightarrow> paas_tenant \<Rightarrow> string list \<Rightarrow> paas_control_state" where
  "enqueue_state sha st c q queue =
     finalize
       (redeem sha
         (put_idempotency sha
           (set_queue (put_job st (enq_jobId c) (enqueued_job c q)) (enq_tenantId c) (queue @ [enq_jobId c]))
           ActEnqueue (enq_tenantId c) (enq_idempotencyKey c) (enqueueFingerprint sha c) (enq_jobId c))
         (dec_capabilityToRedeem (enq_authorization c)) (enq_tenantId c) (enq_jobId c)
         (num_int (enq_requestedAt c)))
       (st_revision st + 1)"

definition enqueue_events ::
  "(string \<Rightarrow> string) \<Rightarrow> paas_control_state \<Rightarrow> paas_enqueue \<Rightarrow> paas_tenant \<Rightarrow> paas_event list" where
  "enqueue_events sha st c q =
     paas_event_of EvEnqueued (st_revision st + 1) (num_int (enq_requestedAt c)) (enqueued_job c q)
     # (if redeems sha (dec_capabilityToRedeem (enq_authorization c))
        then [paas_event_of EvCapabilityRedeemed (st_revision st + 1) (num_int (enq_requestedAt c)) (enqueued_job c q)]
        else [])"

lemma enqueue_commits [commits]:
  "committed (enqueuePaasJob sha st intent c) tr \<longleftrightarrow>
   (\<exists>q queue. enqueue_allowed sha st intent c q \<and> obj_get (st_tenantQueues st) (enq_tenantId c) = Some queue \<and>
     tr = paas_accepted (enqueue_state sha st c q queue) (enqueue_events sha st c q) (Some (enq_jobId c)))"
  by (simp only: enqueuePaasJob_def Let_def enqueue_allowed_def enqueue_state_def enqueue_events_def
      commit_simps put_job_simps) blast

lemma enqueue_refused:
  "enqueuePaasJob sha st intent c = Inr tr \<Longrightarrow> tr_code tr \<noteq> ACCEPTED \<Longrightarrow> tr_state tr = st \<and> tr_events tr = []"
  unfolding enqueuePaasJob_def Let_def
  by (auto simp: result_simps split: if_splits option.splits)

subsection \<open>Completion\<close>

definition complete_allowed ::
  "(string \<Rightarrow> string) \<Rightarrow> paas_control_state \<Rightarrow> paas_intent \<Rightarrow> paas_complete \<Rightarrow> paas_job \<Rightarrow> bool" where
  "complete_allowed sha st intent c j \<longleftrightarrow>
     stateInvariantError sha st intent = None \<and> cmp_expectedRevision c = st_revision st \<and>
     validEpoch (cmp_completedAt c) \<and> obj_get (st_jobs st) (cmp_jobId c) = Some j \<and>
     job_tenantId j = cmp_tenantId c \<and> job_status j = Running \<and> job_workerRole j = cmp_workerRole c \<and>
     num_int (cmp_completedAt c) < job_deadlineAt j \<and>
     (case job_startedAt j of None \<Rightarrow> 0 | Some t \<Rightarrow> t) \<le> num_int (cmp_completedAt c) \<and>
     (cmp_outcome c = OutcomeSucceeded \<and> job_operation j = JobBuild \<longrightarrow> validDigest (cmp_resultArtifactDigest c)) \<and>
     (cmp_outcome c = OutcomeFailed \<longrightarrow> nonEmpty_opt (cmp_errorCode c) \<and> \<not> truthy (cmp_resultArtifactDigest c))"

definition complete_retries :: "paas_complete \<Rightarrow> paas_job \<Rightarrow> bool" where
  "complete_retries c j \<longleftrightarrow>
     cmp_outcome c = OutcomeFailed \<and> cmp_retryable c = Some True \<and> job_attempt j < job_maxAttempts j"

definition completed_job :: "paas_complete \<Rightarrow> paas_job \<Rightarrow> paas_job" where
  "completed_job c j =
     (let at = num_int (cmp_completedAt c)
      in if cmp_outcome c = OutcomeSucceeded then succeeded_job at (cmp_resultArtifactDigest c) j
         else if complete_retries c j then retry_job at (cmp_errorCode c) j
         else failed_job at (cmp_errorCode c) j)"

definition complete_state ::
  "(string \<Rightarrow> string) \<Rightarrow> paas_control_state \<Rightarrow> paas_complete \<Rightarrow> paas_job \<Rightarrow> string list \<Rightarrow> paas_control_state" where
  "complete_state sha st c j queue =
     (let job = completed_job c j;
          next = put_job (release_lock sha st j) (cmp_jobId c) job
      in finalize
           (if complete_retries c j then set_queue next (job_tenantId j) (queue @ [job_id j])
            else if cmp_outcome c = OutcomeSucceeded \<and> job_operation j \<noteq> JobBuild
            then promoteDeployment sha next job (num_int (cmp_completedAt c))
            else next) (st_revision st + 1))"

lemma succeeded_op [simp]: "job_operation (succeeded_job at res j) = job_operation j"
  by (simp add: succeeded_job_def)

lemma retry_id [simp]: "job_tenantId (retry_job at err j) = job_tenantId j" "job_id (retry_job at err j) = job_id j"
  by (simp_all add: retry_job_def)

lemma not_build: "job_operation j \<noteq> JobBuild \<longleftrightarrow> job_operation j = JobDeploy \<or> job_operation j = JobRollback"
  by (cases "job_operation j") auto

lemma complete_guards:
  "committed (completePaasJob sha st intent c) tr \<longleftrightarrow>
   (\<exists>j. complete_allowed sha st intent c j \<and> committed (complete_effect sha st c j) tr)"
  by (simp only: completePaasJob_def Let_def complete_allowed_def commit_simps not_le not_less
      de_Morgan_disj) blast

lemma complete_commits [commits]:
  assumes "committed (completePaasJob sha st intent c) tr"
  shows "\<exists>j queue. complete_allowed sha st intent c j \<and>
     (complete_retries c j \<longrightarrow> obj_get (st_tenantQueues st) (job_tenantId j) = Some queue) \<and>
     tr_state tr = complete_state sha st c j queue \<and> tr_events tr \<noteq> []"
proof -
  from assms obtain j where j: "complete_allowed sha st intent c j" "committed (complete_effect sha st c j) tr"
    unfolding complete_guards by blast
  have late: "num_int (cmp_completedAt c) < job_deadlineAt j"
    using j(1) by (simp add: complete_allowed_def)
  show ?thesis
    using j(2)
    by (intro exI [of _ j])
      (auto simp: j(1) late complete_effect_def complete_state_def completed_job_def complete_retries_def Let_def
        commit_simps not_build)
qed

lemma complete_refused:
  "completePaasJob sha st intent c = Inr tr \<Longrightarrow> tr_code tr \<noteq> ACCEPTED \<Longrightarrow> tr_state tr = st \<and> tr_events tr = []"
  unfolding completePaasJob_def complete_effect_def Let_def
  by (auto simp: result_simps split: if_splits option.splits paas_outcome.splits)

subsection \<open>Cancellation\<close>

definition cancel_allowed ::
  "(string \<Rightarrow> string) \<Rightarrow> paas_control_state \<Rightarrow> paas_intent \<Rightarrow> paas_cancel \<Rightarrow> paas_job \<Rightarrow> bool" where
  "cancel_allowed sha st intent c j \<longleftrightarrow>
     stateInvariantError sha st intent = None \<and> obj_get (st_jobs st) (can_jobId c) = Some j \<and>
     job_tenantId j = can_tenantId c \<and> validEpoch (can_requestedAt c) \<and> nonEmpty (can_idempotencyKey c) \<and>
     job_createdAt j \<le> num_int (can_requestedAt c) \<and>
     authorizationBinds (can_authorization c) (CancelCommand c) OpCancel (Some j) \<and>
     obj_get (st_idempotency st) (stateKey sha [can_tenantId c, can_idempotencyKey c]) = None \<and>
     can_expectedRevision c = st_revision st \<and> (job_status j = Queued \<or> job_status j = Running) \<and>
     \<not> capability_replayed sha st (dec_capabilityToRedeem (can_authorization c))"

definition cancelled_job :: "paas_cancel \<Rightarrow> paas_job \<Rightarrow> paas_job" where
  "cancelled_job c j =
     (if job_status j = Queued then cancelled_queued_job (num_int (can_requestedAt c)) j
      else cancelling_job (num_int (can_requestedAt c)) ByUser j)"

definition cancel_state ::
  "(string \<Rightarrow> string) \<Rightarrow> paas_control_state \<Rightarrow> paas_cancel \<Rightarrow> paas_job \<Rightarrow> string list \<Rightarrow> paas_control_state" where
  "cancel_state sha st c j queue =
     (let next = redeem sha
            (put_idempotency sha st ActCancel (can_tenantId c) (can_idempotencyKey c)
              (cancelFingerprint sha c j) (job_id j))
            (dec_capabilityToRedeem (can_authorization c)) (can_tenantId c) (job_id j)
            (num_int (can_requestedAt c))
      in finalize
           (put_job
             (if job_status j = Queued
              then set_queue next (job_tenantId j) (filter (\<lambda>i. i \<noteq> job_id j) queue) else next)
             (job_id j) (cancelled_job c j)) (st_revision st + 1))"

lemma cancel_guards:
  "committed (cancelPaasJob sha st intent c) tr \<longleftrightarrow>
   (\<exists>j. cancel_allowed sha st intent c j \<and> committed (cancel_effect sha st c j) tr)"
  by (simp only: cancelPaasJob_def Let_def cancel_allowed_def commit_simps not_le not_less
      de_Morgan_disj) blast

lemma cancel_commits [commits]:
  assumes "committed (cancelPaasJob sha st intent c) tr"
  shows "\<exists>j queue. cancel_allowed sha st intent c j \<and>
     (job_status j = Queued \<longrightarrow> obj_get (st_tenantQueues st) (job_tenantId j) = Some queue) \<and>
     tr_state tr = cancel_state sha st c j queue \<and> tr_events tr \<noteq> []"
proof -
  from assms obtain j where j: "cancel_allowed sha st intent c j" "committed (cancel_effect sha st c j) tr"
    unfolding cancel_guards by blast
  show ?thesis
    using j(2)
    by (intro exI [of _ j])
      (auto simp: j(1) cancel_effect_def cancel_state_def cancelled_job_def Let_def commit_simps)
qed

lemma cancel_refused:
  "cancelPaasJob sha st intent c = Inr tr \<Longrightarrow> tr_code tr \<noteq> ACCEPTED \<Longrightarrow> tr_state tr = st \<and> tr_events tr = []"
  unfolding cancelPaasJob_def cancel_effect_def Let_def
  by (auto simp: result_simps split: if_splits option.splits)

definition acknowledge_allowed ::
  "(string \<Rightarrow> string) \<Rightarrow> paas_control_state \<Rightarrow> paas_intent \<Rightarrow> paas_acknowledge \<Rightarrow> paas_job \<Rightarrow> bool" where
  "acknowledge_allowed sha st intent c j \<longleftrightarrow>
     stateInvariantError sha st intent = None \<and> ack_expectedRevision c = st_revision st \<and>
     obj_get (st_jobs st) (ack_jobId c) = Some j \<and> job_tenantId j = ack_tenantId c \<and>
     job_status j = JobCancelling \<and> job_workerRole j = ack_workerRole c \<and>
     validEpoch (ack_acknowledgedAt c) \<and> nonEmpty (ack_cleanupEvidence c) \<and>
     job_updatedAt j \<le> num_int (ack_acknowledgedAt c)"

definition acknowledge_state ::
  "(string \<Rightarrow> string) \<Rightarrow> paas_control_state \<Rightarrow> paas_acknowledge \<Rightarrow> paas_job \<Rightarrow> paas_control_state" where
  "acknowledge_state sha st c j =
     finalize (put_job (release_lock sha st j) (job_id j)
       (cleaned_job (num_int (ack_acknowledgedAt c)) (ack_cleanupEvidence c) j)) (st_revision st + 1)"

lemma acknowledge_commits [commits]:
  "committed (acknowledgePaasJobCancellation sha st intent c) tr \<Longrightarrow>
   \<exists>j. acknowledge_allowed sha st intent c j \<and> tr_state tr = acknowledge_state sha st c j \<and> tr_events tr \<noteq> []"
  by (simp only: acknowledgePaasJobCancellation_def Let_def acknowledge_allowed_def acknowledge_state_def
      commit_simps not_less de_Morgan_disj) force

lemma acknowledge_refused:
  "acknowledgePaasJobCancellation sha st intent c = Inr tr \<Longrightarrow> tr_code tr \<noteq> ACCEPTED \<Longrightarrow>
   tr_state tr = st \<and> tr_events tr = []"
  unfolding acknowledgePaasJobCancellation_def Let_def
  by (auto simp: result_simps split: if_splits option.splits)

end
