(* ===== verification/PaasExpiry.thy ===== *)
theory PaasExpiry
  imports PaasSteps
begin

section \<open>PaaS control plane: expiry and the sweep\<close>

text \<open>
  The closed form of \<open>expireQueuedJobs\<close>: on a sound state its two nested loops end without a
  fault and change all overdue queued jobs at once.  The sweep then changes all overdue running
  jobs.  Both results are sound again.
\<close>

subsection \<open>One queue\<close>

definition late :: "int \<Rightarrow> paas_job obj \<Rightarrow> string \<Rightarrow> bool" where
  "late now jobs i \<longleftrightarrow> (case obj_get jobs i of None \<Rightarrow> False | Some j \<Rightarrow> job_deadlineAt j \<le> now)"

definition keyed :: "paas_job obj \<Rightarrow> bool" where
  "keyed jobs \<longleftrightarrow> distinct (obj_keys jobs) \<and> (\<forall>k j. obj_get jobs k = Some j \<longrightarrow> job_id j = k)"

definition expire_set :: "int \<Rightarrow> string set \<Rightarrow> paas_job obj \<Rightarrow> paas_job obj" where
  "expire_set now S jobs =
     obj_map (\<lambda>j. if job_id j \<in> S \<and> job_deadlineAt j \<le> now then timed_out_job now j else j) jobs"

lemma obj_map_cong: "(\<And>k v. (k, v) \<in> set ob \<Longrightarrow> f v = g v) \<Longrightarrow> obj_map f ob = obj_map g ob"
  by (auto simp: obj_map_def)

lemma obj_map_comp: "obj_map f (obj_map g ob) = obj_map (f \<circ> g) ob"
  by (simp add: obj_map_def case_prod_beta)

lemma timed_out_simps [simp]:
  "job_id (timed_out_job now j) = job_id j" "job_deadlineAt (timed_out_job now j) = job_deadlineAt j"
  "job_updatedAt (timed_out_job now j) = now" "job_tenantId (timed_out_job now j) = job_tenantId j"
  "timed_out_job now (timed_out_job now j) = timed_out_job now j"
  by (simp_all add: timed_out_job_def)

lemma expire_set_empty [simp]: "expire_set now {} jobs = jobs"
  by (simp add: expire_set_def obj_map_def case_prod_beta)

lemma expire_one:
  assumes "keyed jobs" "obj_get jobs i = Some j" "job_deadlineAt j \<le> now"
  shows "obj_set jobs i (timed_out_job now j) = expire_set now {i} jobs"
proof -
  have d: "distinct (obj_keys jobs)" using assms(1) by (simp add: keyed_def)
  have "(if k = i then timed_out_job now j else v) =
      (if job_id v \<in> {i} \<and> job_deadlineAt v \<le> now then timed_out_job now v else v)"
    if "(k, v) \<in> set jobs" for k v
    using that assms obj_mem_get [OF d, of k v] by (auto simp: keyed_def)
  then show ?thesis
    unfolding obj_set_map [OF d assms(2)] expire_set_def obj_map_def by auto
qed

lemma expire_set_Un: "i \<notin> S \<Longrightarrow> expire_set now S (expire_set now {i} jobs) = expire_set now (insert i S) jobs"
  unfolding expire_set_def obj_map_comp by (rule obj_map_cong) auto

lemma keyed_expire_set: "keyed jobs \<Longrightarrow> keyed (expire_set now S jobs)"
  by (auto simp: keyed_def expire_set_def obj_keys_map obj_get_map)

lemma expire_set_other: "keyed jobs \<Longrightarrow> k \<notin> S \<Longrightarrow> obj_get (expire_set now S jobs) k = obj_get jobs k"
  by (cases "obj_get jobs k") (auto simp: expire_set_def obj_get_map keyed_def)

definition expire_events :: "int \<Rightarrow> int \<Rightarrow> paas_job obj \<Rightarrow> string list \<Rightarrow> paas_event list" where
  "expire_events now rv jobs q =
     map (\<lambda>i. paas_event_of EvTimedOut rv now (timed_out_job now (the (obj_get jobs i)))) (filter (late now jobs) q)"

lemma late_cong: "obj_get jobs i = obj_get jobs' i \<Longrightarrow> late now jobs i = late now jobs' i"
  by (simp add: late_def)

lemma expire_events_cong:
  "(\<And>i. i \<in> set q \<Longrightarrow> obj_get jobs i = obj_get jobs' i) \<Longrightarrow>
   expire_events now rv jobs q = expire_events now rv jobs' q"
  unfolding expire_events_def by (intro map_cong filter_cong) (auto dest: late_cong)

lemma retain_cong:
  "(\<And>i. i \<in> set q \<Longrightarrow> obj_get jobs i = obj_get jobs' i) \<Longrightarrow>
   filter (\<lambda>i. \<not> late now jobs i) q = filter (\<lambda>i. \<not> late now jobs' i) q"
  by (intro filter_cong) (auto dest: late_cong)

lemma expire_queue_closed:
  "keyed (st_jobs st) \<Longrightarrow> distinct q \<Longrightarrow> \<forall>i \<in> set q. obj_get (st_jobs st) i \<noteq> None \<Longrightarrow>
   expire_queue now rv q st evs =
     Inr (filter (\<lambda>i. \<not> late now (st_jobs st) i) q, st\<lparr>st_jobs := expire_set now (set q) (st_jobs st)\<rparr>,
          evs @ expire_events now rv (st_jobs st) q)"
proof (induction q arbitrary: st evs)
  case Nil
  then show ?case by (simp add: expire_events_def)
next
  case (Cons i q)
  then obtain j where j: "obj_get (st_jobs st) i = Some j" by auto
  show ?case
  proof (cases "job_deadlineAt j \<le> now")
    case True
    let ?st = "put_job st i (timed_out_job now j)"
    have jobs: "st_jobs ?st = expire_set now {i} (st_jobs st)"
      using expire_one [OF Cons.prems(1) j True] by simp
    have same: "obj_get (st_jobs ?st) k = obj_get (st_jobs st) k" if "k \<in> set q" for k
      unfolding jobs using that Cons.prems(1,2) by (intro expire_set_other) auto
    have eqs: "filter (\<lambda>i. \<not> late now (st_jobs ?st) i) q = filter (\<lambda>i. \<not> late now (st_jobs st) i) q"
      "expire_events now rv (st_jobs ?st) q = expire_events now rv (st_jobs st) q"
      using same by (rule retain_cong, simp)(use same in \<open>rule expire_events_cong, simp\<close>)
    have kd: "keyed (st_jobs ?st)"
      unfolding jobs using Cons.prems(1) by (rule keyed_expire_set)
    have upd: "?st\<lparr>st_jobs := expire_set now (set q) (st_jobs ?st)\<rparr> =
        st\<lparr>st_jobs := expire_set now (set (i # q)) (st_jobs st)\<rparr>"
      using Cons.prems(2) unfolding jobs by (simp add: expire_set_Un put_job_def)
    have "expire_queue now rv q ?st (evs @ [paas_event_of EvTimedOut rv now (timed_out_job now j)]) =
      Inr (filter (\<lambda>i. \<not> late now (st_jobs ?st) i) q, ?st\<lparr>st_jobs := expire_set now (set q) (st_jobs ?st)\<rparr>,
          (evs @ [paas_event_of EvTimedOut rv now (timed_out_job now j)]) @ expire_events now rv (st_jobs ?st) q)"
      using Cons.prems same kd by (intro Cons.IH) auto
    then have main: "expire_queue now rv q ?st (evs @ [paas_event_of EvTimedOut rv now (timed_out_job now j)]) =
      Inr (filter (\<lambda>i. \<not> late now (st_jobs st) i) q, st\<lparr>st_jobs := expire_set now (set (i # q)) (st_jobs st)\<rparr>,
          (evs @ [paas_event_of EvTimedOut rv now (timed_out_job now j)]) @ expire_events now rv (st_jobs st) q)"
      unfolding eqs upd .
    show ?thesis
      using j True main by (simp add: late_def expire_events_def)
  next
    case False
    have "expire_set now (insert i S) (st_jobs st) = expire_set now S (st_jobs st)" for S
      unfolding expire_set_def
    proof (rule obj_map_cong)
      fix k v assume "(k, v) \<in> set (st_jobs st)"
      then have "obj_get (st_jobs st) k = Some v"
        using Cons.prems(1) obj_mem_get [of "st_jobs st" k v] by (simp add: keyed_def)
      with j False Cons.prems(1) show
        "(if job_id v \<in> insert i S \<and> job_deadlineAt v \<le> now then timed_out_job now v else v) =
         (if job_id v \<in> S \<and> job_deadlineAt v \<le> now then timed_out_job now v else v)"
        by (auto simp: keyed_def)
    qed
    with Cons j False show ?thesis
      by (simp add: late_def expire_events_def)
  qed
qed

subsection \<open>All queues\<close>

definition retain :: "int \<Rightarrow> paas_job obj \<Rightarrow> string list \<Rightarrow> string list" where
  "retain now jobs q = filter (\<lambda>i. \<not> late now jobs i) q"

definition set_queues :: "string list obj \<Rightarrow> (string \<times> string list) list \<Rightarrow> string list obj" where
  "set_queues qs es = foldl (\<lambda>qs (t, q). obj_set qs t q) qs es"

lemma set_queues_map:
  "distinct (obj_keys (pre @ es)) \<Longrightarrow> set_queues (pre @ es) (obj_map f es) = pre @ obj_map f es"
proof (induction es arbitrary: pre)
  case Nil
  then show ?case by (simp add: set_queues_def obj_map_def)
next
  case (Cons e es)
  obtain t q where e: "e = (t, q)" by (cases e)
  have "obj_replace (pre @ (t, q) # es) t (f q) = pre @ (t, f q) # es"
    using Cons.prems e by (induction pre) (auto simp: obj_keys_def)
  then have one: "obj_set (pre @ (t, q) # es) t (f q) = (pre @ [(t, f q)]) @ es"
    by (simp add: obj_set_def)
  have "distinct (obj_keys ((pre @ [(t, f q)]) @ es))"
    using Cons.prems e by (simp add: obj_keys_def)
  from Cons.IH [OF this] show ?case
    using e one by (simp add: set_queues_def obj_map_def)
qed

lemma expire_queues_closed:
  "keyed (st_jobs st) \<Longrightarrow> distinct (concat (map snd es)) \<Longrightarrow>
   \<forall>i \<in> set (concat (map snd es)). obj_get (st_jobs st) i \<noteq> None \<Longrightarrow>
   expire_queues now rv es st evs =
     Inr (st\<lparr>st_jobs := expire_set now (set (concat (map snd es))) (st_jobs st),
             st_tenantQueues := set_queues (st_tenantQueues st) (obj_map (retain now (st_jobs st)) es)\<rparr>,
          evs @ expire_events now rv (st_jobs st) (concat (map snd es)))"
proof (induction es arbitrary: st evs)
  case Nil
  then show ?case by (simp add: expire_events_def set_queues_def obj_map_def)
next
  case (Cons e es)
  obtain t q where e: "e = (t, q)" by (cases e)
  let ?rest = "concat (map snd es)"
  let ?st = "set_queue (st\<lparr>st_jobs := expire_set now (set q) (st_jobs st)\<rparr>) t (retain now (st_jobs st) q)"
  have q: "expire_queue now rv q st evs = Inr (retain now (st_jobs st) q,
      st\<lparr>st_jobs := expire_set now (set q) (st_jobs st)\<rparr>, evs @ expire_events now rv (st_jobs st) q)"
    using Cons.prems e unfolding retain_def by (intro expire_queue_closed) auto
  have same: "obj_get (st_jobs ?st) k = obj_get (st_jobs st) k" if "k \<in> set ?rest" for k
  proof -
    have "k \<notin> set q" using that Cons.prems(2) e by auto
    with Cons.prems(1) show ?thesis by (simp add: expire_set_other)
  qed
  have keyed: "keyed (st_jobs ?st)" using Cons.prems(1) by (simp add: keyed_expire_set)
  have ih: "expire_queues now rv es ?st (evs @ expire_events now rv (st_jobs st) q) =
     Inr (?st\<lparr>st_jobs := expire_set now (set ?rest) (st_jobs ?st),
             st_tenantQueues := set_queues (st_tenantQueues ?st) (obj_map (retain now (st_jobs ?st)) es)\<rparr>,
          (evs @ expire_events now rv (st_jobs st) q) @ expire_events now rv (st_jobs ?st) ?rest)"
    using Cons.prems e same keyed by (intro Cons.IH) auto
  have events: "expire_events now rv (st_jobs ?st) ?rest = expire_events now rv (st_jobs st) ?rest"
    by (rule expire_events_cong) (rule same)
  have jobs: "expire_set now (set ?rest) (st_jobs ?st) = expire_set now (set (q @ ?rest)) (st_jobs st)"
  proof -
    have disj: "set q \<inter> set ?rest = {}" using Cons.prems(2) e by auto
    show ?thesis
      unfolding set_queue_simps expire_set_def select_convs update_convs obj_map_comp
      using disj by (auto simp: expire_set_def obj_map_comp intro!: obj_map_cong)
  qed
  have queues: "obj_map (retain now (st_jobs ?st)) es = obj_map (retain now (st_jobs st)) es"
  proof (rule obj_map_cong)
    fix k v assume "(k, v) \<in> set es"
    then have "\<And>i. i \<in> set v \<Longrightarrow> i \<in> set ?rest" by force
    then show "retain now (st_jobs ?st) v = retain now (st_jobs st) v"
      unfolding retain_def [of now _ v] by (intro retain_cong same)
  qed
  have "expire_queues now rv (e # es) st evs = expire_queues now rv es ?st (evs @ expire_events now rv (st_jobs st) q)"
    using q e by simp
  also have "\<dots> = Inr (st\<lparr>st_jobs := expire_set now (set (q @ ?rest)) (st_jobs st),
             st_tenantQueues := set_queues (st_tenantQueues ?st) (obj_map (retain now (st_jobs st)) es)\<rparr>,
          (evs @ expire_events now rv (st_jobs st) q) @ expire_events now rv (st_jobs st) ?rest)"
    unfolding ih events jobs queues by (simp add: set_queue_def)
  finally show ?case
    using e by (simp add: set_queues_def obj_map_def expire_events_def set_queue_def)
qed

subsection \<open>Expiry of a sound state\<close>

definition expired :: "int \<Rightarrow> paas_job \<Rightarrow> paas_job" where
  "expired now j = (if job_status j = Queued \<and> job_deadlineAt j \<le> now then timed_out_job now j else j)"

definition expired_state :: "int \<Rightarrow> paas_control_state \<Rightarrow> paas_control_state" where
  "expired_state now st =
     st\<lparr>st_jobs := obj_map (expired now) (st_jobs st),
        st_tenantQueues := obj_map (retain now (st_jobs st)) (st_tenantQueues st)\<rparr>"

lemma paas_ok_keyed: "paas_ok sha intent st \<Longrightarrow> keyed (st_jobs st)"
  using paas_okD(1,3) [of sha intent st] obj_wf_distinct find_job_key by (auto simp: keyed_def)

lemma queued_iff_queue:
  assumes "paas_ok sha intent st" "obj_get (st_jobs st) k = Some j"
  shows "k \<in> set (queued_ids st) \<longleftrightarrow> job_status j = Queued"
proof -
  note q = paas_okD(4) [OF assms(1)]
  show ?thesis
    using queues_soundD(3) [OF q assms(2)] queues_soundD(2) [OF q] assms(2)
      in_queues_iff [OF paas_okD(2) [OF assms(1)], of k]
    unfolding queued_ids_def by (metis option.inject)
qed

lemma expire_closed:
  assumes ok: "paas_ok sha intent st"
  shows "expireQueuedJobs st now rv = Inr (expired_state now st, expire_events now rv (st_jobs st) (queued_ids st))"
proof -
  note q = paas_okD(4) [OF ok] and wf = paas_okD(2) [OF ok]
  have ids: "concat (map snd (st_tenantQueues st)) = queued_ids st"
    by (simp add: queued_ids_def obj_values_def)
  have jobs: "expire_set now (set (queued_ids st)) (st_jobs st) = obj_map (expired now) (st_jobs st)"
    unfolding expire_set_def
  proof (rule obj_map_cong)
    fix k v assume "(k, v) \<in> set (st_jobs st)"
    then have v: "obj_get (st_jobs st) k = Some v"
      using paas_ok_keyed [OF ok] obj_mem_get [of "st_jobs st" k v] by (simp add: keyed_def)
    then have "job_id v = k" using paas_ok_keyed [OF ok] by (simp add: keyed_def)
    with queued_iff_queue [OF ok v] show
      "(if job_id v \<in> set (queued_ids st) \<and> job_deadlineAt v \<le> now then timed_out_job now v else v) = expired now v"
      by (simp add: expired_def)
  qed
  have members: "obj_get (st_jobs st) i \<noteq> None" if "i \<in> set (queued_ids st)" for i
    using that in_queues_iff [OF wf, of i] queues_soundD(2) [OF q]
    unfolding queued_ids_def by (metis option.distinct(1))
  have queues: "set_queues (st_tenantQueues st) (obj_map (retain now (st_jobs st)) (st_tenantQueues st)) =
      obj_map (retain now (st_jobs st)) (st_tenantQueues st)"
    using set_queues_map [of "[]"] obj_wf_distinct [OF wf] by simp
  have "distinct (queued_ids st)"
    using queues_soundD(1) [OF q] by (simp add: queued_ids_def)
  then show ?thesis
    unfolding expireQueuedJobs_def expired_state_def
    using expire_queues_closed [OF paas_ok_keyed [OF ok], of "st_tenantQueues st" now rv "[]"] members
    by (simp add: ids jobs queues)
qed

text \<open>When nothing is overdue, expiry changes nothing.\<close>

lemma expired_nothing:
  assumes ok: "paas_ok sha intent st" and none: "expire_events now rv (st_jobs st) (queued_ids st) = []"
  shows "expired_state now st = st"
proof -
  have late: "\<not> late now (st_jobs st) i" if "i \<in> set (queued_ids st)" for i
    using none that by (simp add: expire_events_def filter_empty_conv)
  have jobs: "expired now v = v" if kv: "(k, v) \<in> set (st_jobs st)" for k v
  proof -
    from kv have v: "obj_get (st_jobs st) k = Some v"
      using paas_ok_keyed [OF ok] obj_mem_get [of "st_jobs st" k v] by (simp add: keyed_def)
    with queued_iff_queue [OF ok v] late [of k] show ?thesis by (auto simp: expired_def late_def)
  qed
  have queues: "retain now (st_jobs st) q = q" if tq: "(t, q) \<in> set (st_tenantQueues st)" for t q
    unfolding retain_def
  proof (rule filter_True, rule ballI)
    fix i assume "i \<in> set q"
    with tq have "i \<in> set (queued_ids st)" by (force simp: queued_ids_def obj_values_def)
    with late show "\<not> late now (st_jobs st) i" by blast
  qed
  have "obj_map (expired now) (st_jobs st) = st_jobs st"
    unfolding obj_map_def using jobs by (intro map_idI) auto
  moreover have "obj_map (retain now (st_jobs st)) (st_tenantQueues st) = st_tenantQueues st"
    unfolding obj_map_def using queues by (intro map_idI) auto
  ultimately show ?thesis by (simp add: expired_state_def)
qed

lemma expired_cases: "expired now j = j \<or> job_move j (expired now j)"
  by (auto simp: expired_def intro: job_move.intros)

lemma expired_same:
  "job_kept j (expired now j)" "job_active (expired now j) = job_active j"
  by (auto simp: expired_def job_active_def)

lemma expired_sound: "job_sound intent k j \<Longrightarrow> job_sound intent k (expired now j)"
proof (cases "job_status j = Queued \<and> job_deadlineAt j \<le> now")
  case True
  assume s: "job_sound intent k j"
  from True have "job_move j (timed_out_job now j)" by (intro move_expire) auto
  from job_sound_move [OF s this] job_soundD(6) [OF s] True show ?thesis
    by (simp add: expired_def)
qed (auto simp: expired_def)

lemma queues_sound_expired:
  assumes s: "queues_sound intent jobs queues" and wf: "obj_wf queues"
  shows "queues_sound intent (obj_map (expired now) jobs) (obj_map (retain now jobs) queues)"
proof -
  have vals: "concat (obj_values (obj_map (retain now jobs) queues)) = retain now jobs (concat (obj_values queues))"
    by (simp add: obj_values_map retain_def [abs_def] filter_concat)
  have late: "late now jobs i \<longleftrightarrow> job_deadlineAt j \<le> now" if "obj_get jobs i = Some j" for i j
    using that by (simp add: late_def)
  have "\<exists>j. obj_get (obj_map (expired now) jobs) i = Some j \<and> job_tenantId j = t \<and> job_status j = Queued"
    if "obj_get (obj_map (retain now jobs) queues) t = Some r" "i \<in> set r" for t r i
  proof -
    from that obtain q where q: "obj_get queues t = Some q" "i \<in> set q" "\<not> late now jobs i"
      by (auto simp: obj_get_map retain_def)
    from queues_soundD(2) [OF s q(1,2)] obtain j where
      "obj_get jobs i = Some j" "job_tenantId j = t" "job_status j = Queued" by blast
    with q(3) late show ?thesis by (auto simp: obj_get_map expired_def)
  qed
  moreover have "k \<in> set (concat (obj_values (obj_map (retain now jobs) queues)))"
    if "obj_get (obj_map (expired now) jobs) k = Some j'" "job_status j' = Queued" for k j'
  proof -
    from that obtain j where j: "obj_get jobs k = Some j" "j' = expired now j" by (auto simp: obj_get_map)
    with that(2) have "job_status j = Queued" "\<not> job_deadlineAt j \<le> now"
      by (auto simp: expired_def split: if_splits)
    with j(1) late queues_soundD(3) [OF s j(1)] show ?thesis
      unfolding vals by (simp add: retain_def del: set_concat)
  qed
  moreover have "distinct (concat (obj_values (obj_map (retain now jobs) queues)))"
    unfolding vals retain_def using queues_soundD(1) [OF s] by simp
  ultimately show ?thesis
    using queues_soundD(4,5) [OF s] unfolding queues_sound_def obj_keys_map by blast
qed

lemma expired_state_ok: "paas_ok sha intent st \<Longrightarrow> paas_ok sha intent (expired_state now st)"
proof -
  assume ok: "paas_ok sha intent st"
  note p = paas_okD [OF ok]
  have evolve: "jobs_evolve (st_jobs st) (obj_map (expired now) (st_jobs st))"
    by (rule jobs_evolve_map) (rule expired_cases)
  have "paas_sound sha intent (expired_state now st)"
    using ok p(3,5,6) queues_sound_expired [OF p(4,2)] records_sound_evolve [OF p(7) evolve]
      jobs_sound_map [OF p(3) expired_sound] locks_sound_map [OF p(5)] quotas_kept_map [OF p(6,1)]
    by (simp add: paas_sound_def paas_ok_def expired_state_def expired_same)
  with ok show ?thesis
    by (simp add: paas_ok_def paas_objects_def expired_state_def obj_wf_map)
qed

subsection \<open>The sweep\<close>

definition swept :: "int \<Rightarrow> paas_job \<Rightarrow> paas_job" where
  "swept now j = (if overdue now j then cancelling_job now ByDeadline j else j)"

lemma sweep_jobs_map: "sweep_jobs now jobs = obj_map (swept now) jobs"
  by (simp add: sweep_jobs_def obj_map_def swept_def)

lemma swept_cases: "swept now j = j \<or> job_move j (swept now j)"
  by (auto simp: swept_def overdue_def intro: job_move.intros)

lemma swept_same:
  "job_kept j (swept now j)" "job_active (swept now j) = job_active j"
  "job_status (swept now j) = Queued \<longleftrightarrow> job_status j = Queued"
  by (auto simp: swept_def overdue_def job_active_def)

lemma swept_sound: "job_sound intent k j \<Longrightarrow> job_sound intent k (swept now j)"
proof (cases "overdue now j")
  case True
  assume s: "job_sound intent k j"
  from True have "job_move j (cancelling_job now ByDeadline j)"
    by (intro move_cancel) (simp add: overdue_def)
  from job_sound_move [OF s this] job_soundD(6) [OF s] True show ?thesis
    by (simp add: swept_def overdue_def cancelling_job_def)
qed (simp add: swept_def)

lemma swept_ok:
  assumes ok: "paas_ok sha intent st"
  shows "paas_ok sha intent (st\<lparr>st_jobs := obj_map (swept now) (st_jobs st)\<rparr>)"
proof -
  note p = paas_okD [OF ok]
  have evolve: "jobs_evolve (st_jobs st) (obj_map (swept now) (st_jobs st))"
    by (rule jobs_evolve_map) (rule swept_cases)
  have tenant: "job_tenantId (swept now j) = job_tenantId j" for j
    using swept_same(1) [of j now] by (simp add: job_kept_def)
  have "paas_sound sha intent (st\<lparr>st_jobs := obj_map (swept now) (st_jobs st)\<rparr>)"
    using ok p(3,5,6) queues_sound_map [OF p(4)] records_sound_evolve [OF p(7) evolve]
      jobs_sound_map [OF p(3) swept_sound] locks_sound_map [OF p(5)] quotas_kept_map [OF p(6,1)]
    by (simp add: paas_sound_def paas_ok_def swept_same tenant)
  with ok show ?thesis
    by (simp add: paas_ok_def paas_objects_def obj_wf_map)
qed

end
