(* ===== verification/PaasScheduler.thy ===== *)
theory PaasScheduler
  imports PaasExpiry
begin

section \<open>PaaS control plane: the scheduler\<close>

text \<open>
  \<open>nextEligibleTenant\<close> finds the first eligible tenant in the cyclic order after the tenant that
  was scheduled last; \<open>start_job\<close> starts the head of its queue.  On a sound state neither fails,
  the started state is sound, and the loop ends only when its starts are used up, the global
  limit is reached or no tenant is eligible.
\<close>

subsection \<open>Choosing a tenant\<close>

text \<open>What makes a tenant eligible: the head of its queue could run now.\<close>

definition can_start :: "(string \<Rightarrow> string) \<Rightarrow> paas_control_state \<Rightarrow> paas_intent \<Rightarrow> string \<Rightarrow> bool" where
  "can_start sha st intent t \<longleftrightarrow>
     (\<exists>i q j tq. obj_get (st_tenantQueues st) t = Some (i # q) \<and> obj_get (st_jobs st) i = Some j \<and>
        find_tenant intent t = Some tq \<and> \<not> at_quota (st_jobs st) tq j \<and>
        obj_get (st_resourceLocks st) (job_lock sha j) = None)"

lemma lock_truthy:
  assumes ok: "paas_ok sha intent st"
  shows "truthy (obj_get (st_resourceLocks st) l) \<longleftrightarrow> obj_get (st_resourceLocks st) l \<noteq> None"
proof (cases "obj_get (st_resourceLocks st) l")
  case (Some i)
  with paas_okD(5) [OF ok] obtain j where "obj_get (st_jobs st) i = Some j"
    unfolding locks_sound_def by blast
  with paas_okD(3) [OF ok] job_soundD(3) [of intent i j] Some show ?thesis
    by (auto simp: truthy_def jobs_sound_def)
qed (simp add: truthy_def)

lemma head_job:
  assumes ok: "paas_ok sha intent st" and q: "obj_get (st_tenantQueues st) t = Some (i # q)"
  obtains j where "obj_get (st_jobs st) i = Some j" "job_tenantId j = t" "job_status j = Queued" "i \<noteq> []"
    "job_sound intent i j" "job_id j = i"
proof -
  from queues_soundD(2) [OF paas_okD(4) [OF ok] q, of i] obtain j where
    j: "obj_get (st_jobs st) i = Some j" "job_tenantId j = t" "job_status j = Queued" by auto
  have s: "job_sound intent i j" using paas_okD(3) [OF ok] j(1) by (simp add: jobs_sound_def)
  from that [OF j job_soundD(3) [OF s] s job_soundD(1) [OF s]] show ?thesis .
qed

lemma queue_tenant:
  assumes ok: "paas_ok sha intent st" and q: "obj_get (st_tenantQueues st) t = Some q"
  shows "\<exists>tq. find_tenant intent t = Some tq"
  using queues_soundD(5) [OF paas_okD(4) [OF ok]] q obj_get_keys [of "st_tenantQueues st" t] find_tenant_ex
  by auto

lemma eligible_iff:
  assumes ok: "paas_ok sha intent st"
  shows "tenant_eligible sha st intent t = Inr (can_start sha st intent t)"
proof (cases "obj_get (st_tenantQueues st) t")
  case None
  then show ?thesis by (auto simp: tenant_eligible_def can_start_def)
next
  case (Some queue)
  show ?thesis
  proof (cases queue)
    case Nil
    with Some show ?thesis by (auto simp: tenant_eligible_def can_start_def)
  next
    case (Cons i q)
    with Some have q: "obj_get (st_tenantQueues st) t = Some (i # q)" by simp
    from head_job [OF ok q] obtain j where j: "obj_get (st_jobs st) i = Some j" "i \<noteq> []" by metis
    from queue_tenant [OF ok q] obtain tq where "find_tenant intent t = Some tq" by blast
    with q j lock_truthy [OF ok] show ?thesis
      by (simp add: tenant_eligible_def can_start_def)
  qed
qed

lemma first_eligible_closed:
  "paas_ok sha intent st \<Longrightarrow> first_eligible sha st intent ts = Inr (List.find (can_start sha st intent) ts)"
  by (induction ts) (simp_all add: eligible_iff)

text \<open>The tenants in the order in which they are tried.\<close>

definition rotation :: "string option \<Rightarrow> string list \<Rightarrow> string list" where
  "rotation lst ts =
     (let start = (case lst of None \<Rightarrow> 0
                   | Some t \<Rightarrow> if t \<in> set ts then (nat (index_from 0 ts t) + 1) mod length ts else 0)
      in map (\<lambda>offset. ts ! ((start + offset) mod length ts)) [0..<length ts])"

lemma index_from_shift: "index_from (i + k) ts t = index_from i ts t + k"
  by (induction ts arbitrary: i) (auto simp: algebra_simps, metis add.commute add.left_commute)

lemma index_from_nth: "t \<in> set ts \<Longrightarrow> 0 \<le> index_from 0 ts t \<and> index_from 0 ts t < int (length ts) \<and>
   ts ! nat (index_from 0 ts t) = t"
proof (induction ts)
  case Nil
  then show ?case by simp
next
  case (Cons u ts)
  have shift: "index_from 1 ts t = index_from 0 ts t + 1"
    using index_from_shift [of 0 1 ts t] by simp
  show ?case
  proof (cases "u = t")
    case False
    with Cons have "0 \<le> index_from 0 ts t \<and> index_from 0 ts t < int (length ts) \<and>
        ts ! nat (index_from 0 ts t) = t" by auto
    with False shift show ?thesis by (simp add: nat_add_distrib)
  qed simp
qed

lemma nat_mod_shift: "nat (index_from 0 ts t) + 1 = Suc (nat (index_from 0 ts t))"
  by simp

lemma rotate_as_map: "ts \<noteq> [] \<Longrightarrow> map (\<lambda>k. ts ! ((s + k) mod length ts)) [0..<length ts] = rotate s ts"
  by (rule nth_equalityI) (simp_all add: nth_rotate)

lemma rotation_rotate:
  "rotation lst ts =
   (case lst of None \<Rightarrow> ts
    | Some t \<Rightarrow> if t \<in> set ts then rotate (Suc (nat (index_from 0 ts t))) ts else ts)"
proof (cases "ts = []")
  case True
  then show ?thesis by (simp add: rotation_def split: option.splits)
next
  case False
  have mod: "map (\<lambda>k. ts ! ((s mod length ts + k) mod length ts)) [0..<length ts] = rotate s ts" for s
    using rotate_as_map [OF False, of s] by (simp add: mod_add_left_eq)
  show ?thesis
    using mod [of 0] mod [of "Suc (nat (index_from 0 ts (the lst)))"] False
    by (auto simp: rotation_def Let_def split: option.splits)
qed

lemma set_rotation [simp]: "set (rotation lst ts) = set ts"
  by (simp add: rotation_rotate split: option.splits)

lemma length_rotation [simp]: "length (rotation lst ts) = length ts"
  by (simp add: rotation_rotate split: option.splits)

lemma next_tenant_closed:
  assumes ok: "paas_ok sha intent st"
  shows "nextEligibleTenant sha st intent ts =
    Inr (List.find (can_start sha st intent)
      (if st_lastScheduledTenant st = Some [] then ts else rotation (st_lastScheduledTenant st) ts))"
proof (cases "ts = []")
  case True
  then show ?thesis
    by (simp add: nextEligibleTenant_def Let_def rotation_def first_eligible_closed [OF ok] split: option.splits)
next
  case False
  have id: "map (\<lambda>offset. ts ! (offset mod length ts)) [0..<length ts] = ts"
    using rotate_as_map [OF False, of 0] by simp
  then show ?thesis
    unfolding nextEligibleTenant_def Let_def first_eligible_closed [OF ok]
    by (auto simp: rotation_def Let_def split: option.splits)
qed

subsection \<open>Starting a job\<close>

definition started_state ::
  "(string \<Rightarrow> string) \<Rightarrow> int \<Rightarrow> string \<Rightarrow> string \<Rightarrow> string list \<Rightarrow> paas_job \<Rightarrow> paas_control_state \<Rightarrow>
   paas_control_state" where
  "started_state sha now t i q j st =
     st\<lparr>st_jobs := obj_set (st_jobs st) i (started_job now j),
        st_tenantQueues := obj_set (st_tenantQueues st) t q,
        st_resourceLocks := obj_set (st_resourceLocks st) (job_lock sha j) i,
        st_lastScheduledTenant := Some t\<rparr>"

lemma start_job_closed:
  assumes "obj_get (st_tenantQueues st) t = Some (i # q)" "obj_get (st_jobs st) i = Some j" "i \<noteq> []"
    "job_id j = i"
  shows "start_job sha now rv t st =
    Inr (Some (started_state sha now t i q j st, paas_event_of EvStarted rv now (started_job now j)))"
proof -
  have "job_lock sha (started_job now j) = job_lock sha j" "job_id (started_job now j) = i"
    using assms(4) by (simp_all add: started_job_def job_lock_def)
  with assms show ?thesis
    by (simp add: start_job_def the_queue_def Let_def started_state_def put_job_def set_queue_def)
qed

lemma started_state_ok:
  assumes ok: "paas_ok sha intent st" and q: "obj_get (st_tenantQueues st) t = Some (i # q)"
    and j: "obj_get (st_jobs st) i = Some j"
    and tq: "find_tenant intent t = Some tq" "\<not> at_quota (st_jobs st) tq j"
    and free: "obj_get (st_resourceLocks st) (job_lock sha j) = None"
    and room: "int (length (activeJobs (st_jobs st))) < sch_maxGlobalConcurrency (in_scheduling intent)"
    and time: "job_createdAt j \<le> now"
  shows "paas_ok sha intent (started_state sha now t i q j st)"
proof -
  note p = paas_okD [OF ok]
  from head_job [OF ok q] j have h: "job_tenantId j = t" "job_status j = Queued" "job_sound intent i j"
    by (metis option.inject)+
  have move: "job_move j (started_job now j)" using h(2) by (rule move_start)
  have kept: "job_kept j (started_job now j)" by simp
  have inactive: "\<not> job_active j" "job_active (started_job now j)"
    using h(2) by (simp_all add: job_active_def)
  have tail: "filter (\<lambda>k. k \<noteq> i) (i # q) = q"
    using queue_distinct [OF queues_soundD(1) [OF p(4)] q] by (auto intro: filter_True)
  have sound: "job_sound intent i (started_job now j)"
    using job_sound_move [OF h(3) move] time by (simp add: started_job_def)
  have lock: "job_lock sha j = job_lock sha (started_job now j)"
    using job_kept_lock [OF kept, of sha] by simp
  have "jobs_sound intent (obj_set (st_jobs st) i (started_job now j))"
    by (rule jobs_sound_set [OF p(3) sound])
  moreover have "queues_sound intent (obj_set (st_jobs st) i (started_job now j)) (obj_set (st_tenantQueues st) t q)"
    using queues_sound_remove [OF p(4,2) q j h(1), of "started_job now j"] tail by simp
  moreover have "locks_sound sha (obj_set (st_jobs st) i (started_job now j))
      (obj_set (st_resourceLocks st) (job_lock sha j) i)"
    by (rule locks_sound_acquire [OF p(5) j inactive(1) kept inactive(2) free lock])
  moreover have "quotas_kept intent (obj_set (st_jobs st) i (started_job now j))"
    using tq h(1) by (intro quotas_kept_start [OF p(6) j inactive(1) kept inactive(2) room]
        queues_soundD(4) [OF p(4)]) auto
  moreover have "records_sound sha intent (obj_set (st_jobs st) i (started_job now j)) (st_idempotency st)
      (st_redeemedCapabilities st) (st_deployments st)"
    by (rule records_sound_evolve [OF p(7) jobs_evolve_set [OF j move]])
  moreover have "t \<in> set (tenant_ids intent)"
    using tq(1) find_tenant_None [of intent t] by auto
  ultimately show ?thesis
    using ok by (auto simp: paas_ok_def paas_objects_def paas_sound_def started_state_def)
qed

subsection \<open>The loop\<close>

text \<open>
  What holds between two rounds: the state is sound, every job has made at most one move since
  \<open>jobs\<close>, and the queued ones none.
\<close>

definition round_ok :: "(string \<Rightarrow> string) \<Rightarrow> paas_intent \<Rightarrow> int \<Rightarrow> paas_job obj \<Rightarrow> paas_control_state \<Rightarrow> bool" where
  "round_ok sha intent now jobs st \<longleftrightarrow>
     paas_ok sha intent st \<and> jobs_evolve jobs (st_jobs st) \<and>
     (\<forall>k j. obj_get (st_jobs st) k = Some j \<and> job_status j = Queued \<longrightarrow>
        obj_get jobs k = Some j \<and> job_createdAt j \<le> now)"

lemma round_ok_start:
  assumes r: "round_ok sha intent now jobs st" and q: "obj_get (st_tenantQueues st) t = Some (i # q)"
    and j: "obj_get (st_jobs st) i = Some j"
    and tq: "find_tenant intent t = Some tq" "\<not> at_quota (st_jobs st) tq j"
    and free: "obj_get (st_resourceLocks st) (job_lock sha j) = None"
    and room: "int (length (activeJobs (st_jobs st))) < sch_maxGlobalConcurrency (in_scheduling intent)"
  shows "round_ok sha intent now jobs (started_state sha now t i q j st)"
proof -
  have ok: "paas_ok sha intent st" using r by (simp add: round_ok_def)
  from head_job [OF ok q] j have queued: "job_status j = Queued" by (metis option.inject)
  with r j have before: "obj_get jobs i = Some j" "job_createdAt j \<le> now" by (auto simp: round_ok_def)
  have "paas_ok sha intent (started_state sha now t i q j st)"
    by (rule started_state_ok [OF ok q j tq free room before(2)])
  moreover have "jobs_evolve jobs (obj_set (st_jobs st) i (started_job now j))"
    using r before(1) move_start [OF queued] by (auto simp: round_ok_def jobs_evolve_def obj_get_set)
  moreover have "obj_get jobs k = Some j' \<and> job_createdAt j' \<le> now"
    if "obj_get (obj_set (st_jobs st) i (started_job now j)) k = Some j'" "job_status j' = Queued" for k j'
    using that r by (auto simp: round_ok_def obj_get_set split: if_splits)
  ultimately show ?thesis
    by (simp add: round_ok_def started_state_def) blast
qed

definition no_more_starts ::
  "(string \<Rightarrow> string) \<Rightarrow> paas_intent \<Rightarrow> string list \<Rightarrow> paas_control_state \<Rightarrow> bool" where
  "no_more_starts sha intent ts st \<longleftrightarrow>
     sch_maxGlobalConcurrency (in_scheduling intent) \<le> int (length (activeJobs (st_jobs st))) \<or>
     (\<forall>t \<in> set ts. \<not> can_start sha st intent t) \<or>
     can_start sha st intent []"

lemma start_jobs_closed:
  assumes "round_ok sha intent now jobs st"
  shows "\<exists>st' new. start_jobs n sha intent ts now rv st evs = Inr (st', evs @ new) \<and>
    round_ok sha intent now jobs st' \<and> length new \<le> n \<and>
    (new = [] \<longrightarrow> st' = st) \<and> st_revision st' = st_revision st \<and>
    st_idempotency st' = st_idempotency st \<and> st_redeemedCapabilities st' = st_redeemedCapabilities st \<and>
    st_deployments st' = st_deployments st \<and>
    length (activeJobs (st_jobs st')) = length (activeJobs (st_jobs st)) + length new \<and>
    (length new < n \<longrightarrow> no_more_starts sha intent ts st')"
  using assms
proof (induction n arbitrary: st evs)
  case 0
  then show ?case by simp
next
  case (Suc n)
  have ok: "paas_ok sha intent st" using Suc.prems by (simp add: round_ok_def)
  let ?order = "if st_lastScheduledTenant st = Some [] then ts else rotation (st_lastScheduledTenant st) ts"
  have next_t: "nextEligibleTenant sha st intent ts = Inr (List.find (can_start sha st intent) ?order)"
    by (rule next_tenant_closed [OF ok])
  have order: "set ?order = set ts" by simp
  show ?case
  proof (cases "int (length (activeJobs (st_jobs st))) < sch_maxGlobalConcurrency (in_scheduling intent)")
    case False
    with Suc.prems show ?thesis by (simp add: no_more_starts_def)
  next
    case room: True
    show ?thesis
    proof (cases "List.find (can_start sha st intent) ?order")
      case None
      then have "\<forall>t \<in> set ts. \<not> can_start sha st intent t"
        using order by (metis find_None_iff)
      with None room Suc.prems next_t show ?thesis by (simp add: no_more_starts_def)
    next
      case (Some t)
      have can: "can_start sha st intent t" using find_Some_mem [OF Some] by blast
      then obtain i q j tq where *: "obj_get (st_tenantQueues st) t = Some (i # q)" "obj_get (st_jobs st) i = Some j"
        "find_tenant intent t = Some tq" "\<not> at_quota (st_jobs st) tq j"
        "obj_get (st_resourceLocks st) (job_lock sha j) = None"
        unfolding can_start_def by blast
      from head_job [OF ok *(1)] *(2) have h: "i \<noteq> []" "job_id j = i" "job_status j = Queued"
        by (metis option.inject)+
      show ?thesis
      proof (cases "t = []")
        case True
        with Some can room Suc.prems next_t show ?thesis by (simp add: no_more_starts_def)
      next
        case False
        let ?st = "started_state sha now t i q j st"
        let ?ev = "paas_event_of EvStarted rv now (started_job now j)"
        have r: "round_ok sha intent now jobs ?st"
          by (rule round_ok_start [OF Suc.prems *(1,2,3,4,5) room])
        have step: "start_jobs (Suc n) sha intent ts now rv st evs =
            start_jobs n sha intent ts now rv ?st (evs @ [?ev])"
          using room next_t Some False start_job_closed [OF *(1,2) h(1,2)] by simp
        have count: "length (activeJobs (st_jobs ?st)) = Suc (length (activeJobs (st_jobs st)))"
          using count_if_replace [OF *(2), of job_active "started_job now j"] h(3)
          by (simp add: active_count started_state_def job_active_def)
        from Suc.IH [OF r, of "evs @ [?ev]"] obtain st' new where
          ih: "start_jobs n sha intent ts now rv ?st (evs @ [?ev]) = Inr (st', (evs @ [?ev]) @ new)"
            "round_ok sha intent now jobs st'" "length new \<le> n" "new = [] \<longrightarrow> st' = ?st"
            "st_revision st' = st_revision ?st" "st_idempotency st' = st_idempotency ?st"
            "st_redeemedCapabilities st' = st_redeemedCapabilities ?st"
            "st_deployments st' = st_deployments ?st"
            "length (activeJobs (st_jobs st')) = length (activeJobs (st_jobs ?st)) + length new"
            "length new < n \<longrightarrow> no_more_starts sha intent ts st'"
          by blast
        show ?thesis
          unfolding step
          by (rule exI [of _ st'], rule exI [of _ "?ev # new"])
            (use ih count in \<open>simp add: started_state_def\<close>)
      qed
    qed
  qed
qed

end
