(* ===== verification/PaasInvariant.thy ===== *)
theory PaasInvariant
  imports PaasScheduler Versioned
begin

section \<open>PaaS control plane: every transition keeps the state sound\<close>

text \<open>
  For each of the six transitions: on a sound state it returns, and when it commits, the new
  state is sound, its revision is the next one, and every job is unchanged or has made one move
  of the state machine \<open>job_move\<close>.  \<open>paas_run\<close> is the transition a command asks for; the section
  ends with the states reachable by commands.
\<close>

subsection \<open>What a committed transition is\<close>

definition paas_step ::
  "(string \<Rightarrow> string) \<Rightarrow> paas_intent \<Rightarrow> paas_control_state \<Rightarrow> paas_control_state \<Rightarrow> bool" where
  "paas_step sha intent st st' \<longleftrightarrow>
     paas_ok sha intent st' \<and> st_revision st' = st_revision st + 1 \<and> jobs_evolve (st_jobs st) (st_jobs st')"

lemma paas_okI:
  assumes "paas_ok sha intent st" "0 \<le> st_revision st'"
    "st_lastScheduledTenant st' = st_lastScheduledTenant st"
    "obj_wf (st_jobs st')" "obj_wf (st_tenantQueues st')" "obj_wf (st_idempotency st')"
    "obj_wf (st_redeemedCapabilities st')" "obj_wf (st_resourceLocks st')" "obj_wf (st_deployments st')"
    "jobs_sound intent (st_jobs st')" "queues_sound intent (st_jobs st') (st_tenantQueues st')"
    "locks_sound sha (st_jobs st') (st_resourceLocks st')" "quotas_kept intent (st_jobs st')"
    "records_sound sha intent (st_jobs st') (st_idempotency st') (st_redeemedCapabilities st') (st_deployments st')"
  shows "paas_ok sha intent st'"
  using assms by (simp add: paas_ok_def paas_objects_def paas_sound_def)

lemma paas_ok_objects:
  assumes "paas_ok sha intent st"
  shows "obj_wf (st_jobs st)" "obj_wf (st_tenantQueues st)" "obj_wf (st_idempotency st)"
    "obj_wf (st_redeemedCapabilities st)" "obj_wf (st_resourceLocks st)" "obj_wf (st_deployments st)"
    "0 \<le> st_revision st"
  using assms by (simp_all add: paas_ok_def paas_objects_def paas_sound_def)

lemma tenant_queue:
  assumes ok: "paas_ok sha intent st" and t: "find_tenant intent t = Some q"
  shows "\<exists>queue. obj_get (st_tenantQueues st) t = Some queue"
  using queues_soundD(5) [OF paas_okD(4) [OF ok]] t obj_get_keys [of "st_tenantQueues st" t]
    find_tenant_None [of intent t]
  by (cases "obj_get (st_tenantQueues st) t") auto

lemma job_queue:
  assumes ok: "paas_ok sha intent st" and j: "obj_get (st_jobs st) i = Some j"
  shows "\<exists>queue. obj_get (st_tenantQueues st) (job_tenantId j) = Some queue"
  using job_soundD(13) [OF jobs_soundD [OF paas_okD(3) [OF ok] j]] find_tenant_ex
    tenant_queue [OF ok] by blast

subsection \<open>Enqueue\<close>

definition intent_ok :: "paas_intent \<Rightarrow> bool" where
  "intent_ok intent \<longleftrightarrow> (\<forall>q \<in> set (in_tenants intent). 1 \<le> tq_maxExecutionMinutes q)"

lemma validEpochD: "validEpoch n \<Longrightarrow> 0 \<le> num_int n"
  by (auto simp: validEpoch_def num_int_def split: jsnum.splits)

lemma enqueued_job_sound:
  assumes "validEnqueueCommand c" "find_tenant intent (enq_tenantId c) = Some q" "intent_ok intent"
  shows "job_sound intent (enq_jobId c) (enqueued_job c q)"
proof -
  have min: "1 \<le> tq_maxExecutionMinutes q"
    using assms(2,3) find_tenant_Some by (auto simp: intent_ok_def)
  have now: "0 \<le> num_int (enq_requestedAt c)"
    using assms(1) validEpochD by (simp add: validEnqueueCommand_def)
  have rx: "enq_operation c = JobBuild \<Longrightarrow> enq_sourceRevision c = Some s \<Longrightarrow> rx_test revision_rx s" for s
    using assms(1) by (simp add: validEnqueueCommand_def)
  have src: "enq_operation c = JobBuild \<Longrightarrow> enq_sourceRevision c \<noteq> None \<and> truthy (enq_sourceRevision c)"
  proof -
    have "\<not> rx_test revision_rx []" by (simp add: revision_rx_def rx_test_rep_cls del: rx_test.simps)
    then show "enq_operation c = JobBuild \<Longrightarrow> ?thesis"
      using assms(1) by (auto simp: validEnqueueCommand_def truthy_def split: option.splits simp del: rx_test.simps)
  qed
  have art: "enq_operation c \<noteq> JobBuild \<Longrightarrow> validDigest (enq_artifactDigest c) \<and> truthy (enq_artifactDigest c)"
    using assms(1) artifact_nonEmpty nonEmpty_not_Nil
    by (auto simp: validEnqueueCommand_def validDigest_def truthy_def split: option.splits)
  have "\<not> job_fields_bad intent (enq_jobId c) (enqueued_job c q)"
    using assms min now rx src art
    by (auto simp: job_fields_bad_def enqueued_job_def validEnqueueCommand_def split: option.splits
        simp del: rx_test.simps)
  moreover have "\<not> job_times_bad (enqueued_job c q)"
    by (simp add: job_times_bad_def enqueued_job_def job_active_def job_terminal_def)
  ultimately show ?thesis by (simp add: job_sound_def)
qed

lemma enqueued_simps [simp]:
  "job_tenantId (enqueued_job c q) = enq_tenantId c" "job_status (enqueued_job c q) = Queued"
  "\<not> job_active (enqueued_job c q)" "job_id (enqueued_job c q) = enq_jobId c"
  by (simp_all add: enqueued_job_def job_active_def)

lemma enqueue_step:
  assumes ok: "paas_ok sha intent st" and i: "intent_ok intent"
    and a: "enqueue_allowed sha st intent c q" and queue: "obj_get (st_tenantQueues st) (enq_tenantId c) = Some queue"
  shows "paas_step sha intent st (enqueue_state sha st c q queue)"
proof -
  note p = paas_okD [OF ok] and w = paas_ok_objects [OF ok]
  let ?jobs = "obj_set (st_jobs st) (enq_jobId c) (enqueued_job c q)"
  have v: "validEnqueueCommand c" "find_tenant intent (enq_tenantId c) = Some q"
    using a by (simp_all add: enqueue_allowed_def)
  have fresh: "obj_get (st_jobs st) (enq_jobId c) = None"
    using a by (simp add: enqueue_allowed_def job_name_taken_def)
  have job: "obj_get ?jobs (enq_jobId c) = Some (enqueued_job c q)" by simp
  have evolve: "jobs_evolve (st_jobs st) ?jobs" by (rule jobs_evolve_new [OF fresh])
  have recs: "records_sound sha intent ?jobs (st_idempotency st) (st_redeemedCapabilities st) (st_deployments st)"
    by (rule records_sound_evolve [OF p(7) evolve])
  have "paas_ok sha intent (enqueue_state sha st c q queue)"
  proof (rule paas_okI [OF ok])
    show "queues_sound intent (st_jobs (enqueue_state sha st c q queue))
        (st_tenantQueues (enqueue_state sha st c q queue))"
      using queues_sound_push [OF p(4,2) queue, of "enqueued_job c q" "enq_jobId c"] fresh
      by (simp add: enqueue_state_def)
    show "records_sound sha intent (st_jobs (enqueue_state sha st c q queue))
        (st_idempotency (enqueue_state sha st c q queue))
        (st_redeemedCapabilities (enqueue_state sha st c q queue)) (st_deployments (enqueue_state sha st c q queue))"
      using records_sound_idem [OF recs job] records_sound_redeem [OF records_sound_idem [OF recs job] job]
      by (simp add: enqueue_state_def)
  qed (use w p fresh enqueued_job_sound [OF v i] in
      \<open>auto simp: enqueue_state_def intro: keeps\<close>)
  with evolve show ?thesis by (simp add: paas_step_def enqueue_state_def)
qed

lemma enqueue_returns:
  assumes "paas_ok sha intent st"
  shows "\<exists>tr. enqueuePaasJob sha st intent c = Inr tr"
proof (cases "enqueuePaasJob sha st intent c")
  case (Inl e)
  then have "\<exists>q. find_tenant intent (enq_tenantId c) = Some q \<and> obj_get (st_tenantQueues st) (enq_tenantId c) = None"
    unfolding enqueuePaasJob_def Let_def push_queue_def the_queue_def
    by (auto split: if_splits option.splits)
  with tenant_queue [OF assms] show ?thesis by fastforce
qed simp

subsection \<open>Completion\<close>

lemma promoted_history_sound:
  assumes "\<forall>d. current = Some d \<longrightarrow>
      validDigest (Some (dep_activeArtifactDigest d)) \<and>
      (\<forall>a \<in> set (dep_previousArtifactDigests d). validDigest (Some a)) \<and>
      distinct (dep_activeArtifactDigest d # dep_previousArtifactDigests d)"
  shows "length (promoted_history current art) \<le> 20 \<and> distinct (art # promoted_history current art) \<and>
    (\<forall>a \<in> set (promoted_history current art). validDigest (Some a))"
proof (cases current)
  case None
  then show ?thesis by (simp add: promoted_history_def)
next
  case (Some d)
  let ?h = "if dep_activeArtifactDigest d = art then dep_previousArtifactDigests d
     else dep_activeArtifactDigest d # filter (\<lambda>a. a \<noteq> art) (dep_previousArtifactDigests d)"
  have "distinct (art # ?h)" "\<forall>a \<in> set ?h. validDigest (Some a)"
    using assms Some by auto
  moreover have "set (take 20 ?h) \<subseteq> set ?h" by (rule set_take_subset)
  ultimately show ?thesis
    using Some by (auto simp: promoted_history_def simp del: set_take_subset)
qed

lemma promote_records:
  assumes r: "records_sound sha intent jobs idem caps (st_deployments st)"
    and j: "obj_get jobs k = Some j" "job_status j = Succeeded" "job_sound intent k j" "job_operation j \<noteq> JobBuild"
  shows "records_sound sha intent jobs idem caps (st_deployments (promoteDeployment sha st j now))"
proof -
  from job_soundD(12) [OF j(3,4)] obtain art where
    art: "job_artifactDigest j = Some art" "validDigest (Some art)"
    by (cases "job_artifactDigest j") (auto simp: validDigest_def)
  let ?cur = "obj_get (st_deployments st) (job_lock sha j)"
  have cur: "?cur = Some d \<Longrightarrow> deployment_sound sha intent jobs (job_lock sha j) d" for d
    using r by (simp add: records_sound_def)
  have h: "length (promoted_history ?cur art) \<le> 20 \<and> distinct (art # promoted_history ?cur art) \<and>
    (\<forall>a \<in> set (promoted_history ?cur art). validDigest (Some a))"
    using cur by (intro promoted_history_sound) (auto simp: deployment_sound_def)
  have g: "1 \<le> (case ?cur of None \<Rightarrow> 0 | Some d \<Rightarrow> dep_generation d) + 1"
    using cur by (cases ?cur) (auto simp: deployment_sound_def)
  show ?thesis
    unfolding promoteDeployment_def Let_def art(1)
    by (simp, rule records_sound_deploy [OF r])
      (use h g art j job_soundD(1,7,13) [OF j(3)] in \<open>simp add: deployment_sound_def job_lock_def\<close>)
qed

lemma completed_move:
  assumes "complete_allowed sha st intent c j"
  shows "job_move j (completed_job c j)" "job_updatedAt (completed_job c j) = num_int (cmp_completedAt c)"
    "\<not> job_active (completed_job c j)"
    "job_status (completed_job c j) = Queued \<longleftrightarrow> complete_retries c j"
    "job_status (completed_job c j) = Succeeded \<longleftrightarrow> cmp_outcome c = OutcomeSucceeded"
proof -
  have late: "num_int (cmp_completedAt c) < job_deadlineAt j" and run: "job_status j = Running"
    using assms by (simp_all add: complete_allowed_def)
  show "job_move j (completed_job c j)"
    using late run by (auto simp: completed_job_def Let_def complete_retries_def
        intro: move_succeed move_retry move_fail)
  show "job_updatedAt (completed_job c j) = num_int (cmp_completedAt c)"
    by (simp add: completed_job_def Let_def job_updates)
  show "\<not> job_active (completed_job c j)"
    by (simp add: completed_job_def Let_def job_active_def)
  show "job_status (completed_job c j) = Queued \<longleftrightarrow> complete_retries c j"
    by (simp add: completed_job_def Let_def complete_retries_def)
  show "job_status (completed_job c j) = Succeeded \<longleftrightarrow> cmp_outcome c = OutcomeSucceeded"
    by (simp add: completed_job_def Let_def)
qed

lemma complete_step:
  assumes ok: "paas_ok sha intent st" and a: "complete_allowed sha st intent c j"
    and queue: "complete_retries c j \<longrightarrow> obj_get (st_tenantQueues st) (job_tenantId j) = Some queue"
  shows "paas_step sha intent st (complete_state sha st c j queue)"
proof -
  note p = paas_okD [OF ok] and w = paas_ok_objects [OF ok] and m = completed_move [OF a]
  let ?k = "cmp_jobId c" and ?job = "completed_job c j" and ?st = "complete_state sha st c j queue"
  let ?jobs = "obj_set (st_jobs st) ?k ?job"
  have j: "obj_get (st_jobs st) ?k = Some j" "job_status j = Running" "job_active j"
    using a by (auto simp: complete_allowed_def job_active_def)
  have sj: "job_sound intent ?k j" by (rule jobs_soundD [OF p(3) j(1)])
  have kept: "job_kept j ?job" by (rule job_move_kept [OF m(1)])
  have same: "job_id j = ?k" "job_id ?job = ?k" "job_tenantId ?job = job_tenantId j" "job_operation ?job = job_operation j"
    using kept job_soundD(1) [OF sj] by (simp_all add: job_kept_def)
  have late: "job_createdAt j \<le> num_int (cmp_completedAt c)"
    using a job_soundD(11) [OF sj j(3)] by (auto simp: complete_allowed_def)
  have sound: "job_sound intent ?k ?job"
    using job_sound_move [OF sj m(1)] m(2) late by simp
  have evolve: "jobs_evolve (st_jobs st) ?jobs" by (rule jobs_evolve_set [OF j(1) m(1)])
  have recs: "records_sound sha intent ?jobs (st_idempotency st) (st_redeemedCapabilities st) (st_deployments st)"
    by (rule records_sound_evolve [OF p(7) evolve])
  have jobs: "st_jobs ?st = ?jobs" by (simp add: complete_state_def Let_def)
  have "paas_ok sha intent ?st"
  proof (rule paas_okI [OF ok])
    show "queues_sound intent (st_jobs ?st) (st_tenantQueues ?st)"
    proof (cases "complete_retries c j")
      case True
      with queue queues_sound_push [OF p(4,2), of "job_tenantId j" queue ?job ?k] same m(4) j show ?thesis
        by (simp add: complete_state_def Let_def)
    next
      case False
      with queues_sound_neutral [OF p(4) j(1), of ?job] j(2) m(4) show ?thesis
        by (simp add: complete_state_def Let_def)
    qed
    show "locks_sound sha (st_jobs ?st) (st_resourceLocks ?st)"
      using locks_sound_release [OF p(5) j(1,3) kept m(3)] by (simp add: complete_state_def Let_def)
    show "quotas_kept intent (st_jobs ?st)"
      unfolding jobs using m(3) by (intro quotas_kept_set [OF p(6) j(1) kept]) simp
    show "jobs_sound intent (st_jobs ?st)"
      unfolding jobs by (rule jobs_sound_set [OF p(3) sound])
    show "records_sound sha intent (st_jobs ?st) (st_idempotency ?st) (st_redeemedCapabilities ?st) (st_deployments ?st)"
      using recs promote_records [of sha intent ?jobs "st_idempotency st" "st_redeemedCapabilities st"
          "put_job (release_lock sha st j) ?k ?job" ?k ?job] sound m(5) same(4)
      by (simp add: complete_state_def Let_def complete_retries_def)
  qed (use w in \<open>auto simp: complete_state_def Let_def promoteDeployment_def\<close>)
  with evolve jobs show ?thesis by (simp add: paas_step_def) (simp add: complete_state_def Let_def)
qed

lemma complete_returns:
  assumes ok: "paas_ok sha intent st"
  shows "\<exists>tr. completePaasJob sha st intent c = Inr tr"
proof (cases "completePaasJob sha st intent c")
  case (Inl e)
  then have "\<exists>j. obj_get (st_jobs st) (cmp_jobId c) = Some j \<and> complete_effect sha st c j = Inl e"
    unfolding completePaasJob_def Let_def by (auto split: if_splits option.splits)
  then obtain j where j: "obj_get (st_jobs st) (cmp_jobId c) = Some j" "complete_effect sha st c j = Inl e" by blast
  then have "obj_get (st_tenantQueues st) (job_tenantId j) = None"
    unfolding complete_effect_def Let_def push_queue_def the_queue_def
    by (auto split: if_splits option.splits paas_outcome.splits)
  with job_queue [OF ok j(1)] show ?thesis by simp
qed simp

subsection \<open>Cancellation\<close>

lemma cancelled_move:
  assumes "cancel_allowed sha st intent c j"
  shows "job_move j (cancelled_job c j)" "job_updatedAt (cancelled_job c j) = num_int (can_requestedAt c)"
    "job_active (cancelled_job c j) = job_active j" "job_status (cancelled_job c j) \<noteq> Queued"
proof -
  have st: "job_status j = Queued \<or> job_status j = Running"
    using assms by (simp add: cancel_allowed_def)
  then show "job_move j (cancelled_job c j)"
    by (auto simp: cancelled_job_def intro: move_cancel_queued move_cancel)
  show "job_updatedAt (cancelled_job c j) = num_int (can_requestedAt c)"
    by (simp add: cancelled_job_def job_updates)
  show "job_active (cancelled_job c j) = job_active j" "job_status (cancelled_job c j) \<noteq> Queued"
    using st by (auto simp: cancelled_job_def job_active_def)
qed

lemma cancel_step:
  assumes ok: "paas_ok sha intent st" and a: "cancel_allowed sha st intent c j"
    and queue: "job_status j = Queued \<longrightarrow> obj_get (st_tenantQueues st) (job_tenantId j) = Some queue"
  shows "paas_step sha intent st (cancel_state sha st c j queue)"
proof -
  note p = paas_okD [OF ok] and w = paas_ok_objects [OF ok] and m = cancelled_move [OF a]
  let ?k = "can_jobId c" and ?job = "cancelled_job c j" and ?st = "cancel_state sha st c j queue"
  let ?jobs = "obj_set (st_jobs st) ?k ?job"
  have j: "obj_get (st_jobs st) ?k = Some j" "job_tenantId j = can_tenantId c"
    using a by (auto simp: cancel_allowed_def)
  have sj: "job_sound intent ?k j" by (rule jobs_soundD [OF p(3) j(1)])
  have id: "job_id j = ?k" by (rule job_soundD(1) [OF sj])
  have kept: "job_kept j ?job" by (rule job_move_kept [OF m(1)])
  have sound: "job_sound intent ?k ?job"
    using job_sound_move [OF sj m(1)] m(2) a by (simp add: cancel_allowed_def)
  have evolve: "jobs_evolve (st_jobs st) ?jobs" by (rule jobs_evolve_set [OF j(1) m(1)])
  have recs: "records_sound sha intent ?jobs (st_idempotency st) (st_redeemedCapabilities st) (st_deployments st)"
    by (rule records_sound_evolve [OF p(7) evolve])
  have job: "obj_get ?jobs ?k = Some ?job" "job_tenantId ?job = can_tenantId c"
    using kept j(2) by (simp_all add: job_kept_def)
  have jobs: "st_jobs ?st = ?jobs" by (simp add: cancel_state_def Let_def id)
  have "paas_ok sha intent ?st"
  proof (rule paas_okI [OF ok])
    show "queues_sound intent (st_jobs ?st) (st_tenantQueues ?st)"
    proof (cases "job_status j = Queued")
      case True
      with queue queues_sound_remove [OF p(4,2) _ j(1) refl m(4), of queue] show ?thesis
        by (simp add: cancel_state_def Let_def id)
    next
      case False
      with queues_sound_neutral [OF p(4) j(1) _ m(4)] show ?thesis
        by (simp add: cancel_state_def Let_def id)
    qed
    show "locks_sound sha (st_jobs ?st) (st_resourceLocks ?st)"
      using locks_sound_keep [OF p(5) j(1) kept m(3)] by (simp add: cancel_state_def Let_def id)
    show "quotas_kept intent (st_jobs ?st)"
      unfolding jobs using m(3) by (intro quotas_kept_set [OF p(6) j(1) kept]) simp
    show "jobs_sound intent (st_jobs ?st)"
      unfolding jobs by (rule jobs_sound_set [OF p(3) sound])
    show "records_sound sha intent (st_jobs ?st) (st_idempotency ?st) (st_redeemedCapabilities ?st) (st_deployments ?st)"
      using records_sound_idem [OF recs job] records_sound_redeem [OF records_sound_idem [OF recs job] job]
      by (simp add: cancel_state_def Let_def id)
  qed (use w in \<open>auto simp: cancel_state_def Let_def\<close>)
  with evolve jobs show ?thesis by (simp add: paas_step_def) (simp add: cancel_state_def Let_def)
qed

lemma cancel_returns:
  assumes ok: "paas_ok sha intent st"
  shows "\<exists>tr. cancelPaasJob sha st intent c = Inr tr"
proof (cases "cancelPaasJob sha st intent c")
  case (Inl e)
  then have "\<exists>j. obj_get (st_jobs st) (can_jobId c) = Some j \<and> cancel_effect sha st c j = Inl e"
    unfolding cancelPaasJob_def by (auto split: if_splits option.splits)
  then obtain j where j: "obj_get (st_jobs st) (can_jobId c) = Some j" "cancel_effect sha st c j = Inl e" by blast
  then have "obj_get (st_tenantQueues st) (job_tenantId j) = None"
    unfolding cancel_effect_def Let_def the_queue_def
    by (auto split: if_splits option.splits)
  with job_queue [OF ok j(1)] show ?thesis by simp
qed simp

lemma acknowledge_step:
  assumes ok: "paas_ok sha intent st" and a: "acknowledge_allowed sha st intent c j"
  shows "paas_step sha intent st (acknowledge_state sha st c j)"
proof -
  note p = paas_okD [OF ok] and w = paas_ok_objects [OF ok]
  let ?k = "ack_jobId c" and ?st = "acknowledge_state sha st c j"
  let ?job = "cleaned_job (num_int (ack_acknowledgedAt c)) (ack_cleanupEvidence c) j"
  let ?jobs = "obj_set (st_jobs st) ?k ?job"
  have j: "obj_get (st_jobs st) ?k = Some j" "job_status j = JobCancelling" "job_active j"
    using a by (auto simp: acknowledge_allowed_def job_active_def)
  have move: "job_move j ?job" by (rule move_cleaned [OF j(2)])
  have sj: "job_sound intent ?k j" by (rule jobs_soundD [OF p(3) j(1)])
  have id: "job_id j = ?k" by (rule job_soundD(1) [OF sj])
  have kept: "job_kept j ?job" by (rule job_move_kept [OF move])
  have time: "job_createdAt j \<le> job_updatedAt ?job"
    using a job_soundD(5) [OF sj] by (simp add: acknowledge_allowed_def cleaned_job_def)
  have sound: "job_sound intent ?k ?job" by (rule job_sound_move [OF sj move time])
  have evolve: "jobs_evolve (st_jobs st) ?jobs" by (rule jobs_evolve_set [OF j(1) move])
  have stop: "\<not> job_active ?job" "job_status ?job \<noteq> Queued" "job_status j \<noteq> Queued"
    using j(2) by (auto simp: job_active_def)
  have state: "st_jobs ?st = ?jobs" "st_tenantQueues ?st = st_tenantQueues st"
    "st_resourceLocks ?st = obj_del (st_resourceLocks st) (job_lock sha j)"
    "st_idempotency ?st = st_idempotency st" "st_redeemedCapabilities ?st = st_redeemedCapabilities st"
    "st_deployments ?st = st_deployments st"
    by (simp_all add: acknowledge_state_def id)
  have "paas_ok sha intent ?st"
  proof (rule paas_okI [OF ok])
    show "quotas_kept intent (st_jobs ?st)"
      unfolding state using stop by (intro quotas_kept_set [OF p(6) j(1) kept]) simp
  qed (unfold state, use w jobs_sound_set [OF p(3) sound] queues_sound_neutral [OF p(4) j(1) stop(3,2)]
      locks_sound_release [OF p(5) j(1,3) kept stop(1)] records_sound_evolve [OF p(7) evolve] in
      \<open>auto simp: acknowledge_state_def\<close>)
  with evolve state(1) show ?thesis by (simp add: paas_step_def) (simp add: acknowledge_state_def)
qed

lemma acknowledge_returns: "\<exists>tr. acknowledgePaasJobCancellation sha st intent c = Inr tr"
  unfolding acknowledgePaasJobCancellation_def Let_def by (auto split: option.splits)

end
