(* ===== verification/PaasRuns.thy ===== *)
theory PaasRuns
  imports PaasInvariant
begin

section \<open>PaaS control plane: commands, runs and reachable states\<close>

text \<open>
  \<open>paas_run\<close> is the transition a command asks for.  \<open>paas_run_step\<close> puts the lemmas of the six
  transitions together: on a sound state it returns; a refusal or a replay keeps the state; a
  commit is a \<open>paas_step\<close>.  \<open>paas_reach\<close> are the states that commands reach from the initial
  state, with a clock that does not run behind the queued jobs.
\<close>

datatype paas_command =
    CmdEnqueue paas_enqueue
  | CmdSchedule paas_schedule
  | CmdComplete paas_complete
  | CmdCancel paas_cancel
  | CmdAcknowledge paas_acknowledge
  | CmdSweep paas_schedule

fun paas_run ::
  "(string \<Rightarrow> string) \<Rightarrow> paas_intent \<Rightarrow> paas_command \<Rightarrow> paas_control_state \<Rightarrow> js_fault + paas_transition" where
  "paas_run sha intent (CmdEnqueue c) st = enqueuePaasJob sha st intent c"
| "paas_run sha intent (CmdSchedule c) st = schedulePaasJobs sha st intent c"
| "paas_run sha intent (CmdComplete c) st = completePaasJob sha st intent c"
| "paas_run sha intent (CmdCancel c) st = cancelPaasJob sha st intent c"
| "paas_run sha intent (CmdAcknowledge c) st = acknowledgePaasJobCancellation sha st intent c"
| "paas_run sha intent (CmdSweep c) st = sweepExpiredPaasJobs sha st intent c"

text \<open>
  The scheduler does not compare its time with the jobs' creation; a scheduler whose clock is
  behind that of the enqueued jobs would start a job before it was created.
\<close>

definition clock_ok :: "paas_command \<Rightarrow> paas_control_state \<Rightarrow> bool" where
  "clock_ok c st \<longleftrightarrow>
     (case c of
        CmdSchedule s \<Rightarrow>
          (\<forall>k j. obj_get (st_jobs st) k = Some j \<and> job_status j = Queued \<longrightarrow> job_createdAt j \<le> num_int (sched_now s))
      | _ \<Rightarrow> True)"

subsection \<open>Scheduling and sweeping\<close>

lemma expired_state_round:
  assumes ok: "paas_ok sha intent st"
    and clock: "\<forall>k j. obj_get (st_jobs st) k = Some j \<and> job_status j = Queued \<longrightarrow> job_createdAt j \<le> now"
  shows "round_ok sha intent now (st_jobs st) (expired_state now st)"
proof -
  have "obj_get (st_jobs st) k = Some j \<and> job_createdAt j \<le> now"
    if "obj_get (obj_map (expired now) (st_jobs st)) k = Some j" "job_status j = Queued" for k j
    using that clock by (auto simp: obj_get_map expired_def split: if_splits)
  then show ?thesis
    using expired_state_ok [OF ok] jobs_evolve_map [of "st_jobs st" "expired now"] expired_cases
    by (simp add: round_ok_def expired_state_def) blast
qed

lemma paas_step_finalize:
  "paas_ok sha intent st' \<Longrightarrow> 0 \<le> st_revision st \<Longrightarrow> jobs_evolve (st_jobs st) (st_jobs st') \<Longrightarrow>
   paas_step sha intent st (finalize st' (st_revision st + 1))"
  by (simp add: paas_step_def paas_ok_def paas_objects_def paas_sound_def)

definition schedule_starts :: "paas_intent \<Rightarrow> paas_schedule \<Rightarrow> jsnum" where
  "schedule_starts intent c =
     (case sched_maxStarts c of None \<Rightarrow> NInt (sch_maxGlobalConcurrency (in_scheduling intent)) | Some n \<Rightarrow> n)"

definition schedule_allowed ::
  "(string \<Rightarrow> string) \<Rightarrow> paas_control_state \<Rightarrow> paas_intent \<Rightarrow> paas_schedule \<Rightarrow> bool" where
  "schedule_allowed sha st intent c \<longleftrightarrow>
     stateInvariantError sha st intent = None \<and> sched_expectedRevision c = st_revision st \<and>
     validEpoch (sched_now c) \<and> isInteger (schedule_starts intent c) \<and> 1 \<le> num_int (schedule_starts intent c)"

lemma schedule_refused:
  "\<not> schedule_allowed sha st intent c \<Longrightarrow>
   \<exists>code. schedulePaasJobs sha st intent c = Inr (paas_rejected st code) \<and> code \<noteq> ACCEPTED"
  by (auto simp: schedulePaasJobs_def schedule_allowed_def schedule_starts_def Let_def)

lemma schedule_closed:
  assumes a: "schedule_allowed sha st intent c" and ok: "paas_ok sha intent st"
    and clock: "clock_ok (CmdSchedule c) st"
  shows "\<exists>st' events. schedulePaasJobs sha st intent c =
      Inr (if events = [] then paas_unchanged st NO_CHANGE None
           else paas_accepted (finalize st' (st_revision st + 1)) events None) \<and>
    round_ok sha intent (num_int (sched_now c)) (st_jobs st) st' \<and>
    (events = [] \<longrightarrow> st' = st) \<and>
    st_revision st' = st_revision st \<and> st_idempotency st' = st_idempotency st \<and>
    st_redeemedCapabilities st' = st_redeemedCapabilities st \<and> st_deployments st' = st_deployments st \<and>
    (length (activeJobs (st_jobs st')) < length (activeJobs (st_jobs st)) + nat (num_int (schedule_starts intent c)) \<longrightarrow>
       no_more_starts sha intent (sort_by_locale (\<lambda>t. t) (tenant_ids intent)) st') \<and>
    length (activeJobs (st_jobs st')) \<le> length (activeJobs (st_jobs st)) + nat (num_int (schedule_starts intent c))"
proof -
  let ?now = "num_int (sched_now c)" and ?n = "nat (num_int (schedule_starts intent c))"
  let ?ts = "sort_by_locale (\<lambda>t. t) (tenant_ids intent)"
  let ?evs = "expire_events ?now (st_revision st + 1) (st_jobs st) (queued_ids st)"
  have r: "round_ok sha intent ?now (st_jobs st) (expired_state ?now st)"
    using clock by (intro expired_state_round [OF ok]) (simp add: clock_ok_def)
  have active: "length (activeJobs (st_jobs (expired_state ?now st))) = length (activeJobs (st_jobs st))"
    using count_if_map [of "st_jobs st" job_active "expired ?now"] obj_wf_distinct [OF paas_okD(1) [OF ok]]
    by (simp add: active_count expired_state_def expired_same)
  from start_jobs_closed [OF r, of ?n ?ts "st_revision st + 1" ?evs] obtain st' new where
    s: "start_jobs ?n sha intent ?ts ?now (st_revision st + 1) (expired_state ?now st) ?evs = Inr (st', ?evs @ new)"
      "round_ok sha intent ?now (st_jobs st) st'" "length new \<le> ?n"
      "new = [] \<longrightarrow> st' = expired_state ?now st"
      "st_revision st' = st_revision (expired_state ?now st)"
      "st_idempotency st' = st_idempotency (expired_state ?now st)"
      "st_redeemedCapabilities st' = st_redeemedCapabilities (expired_state ?now st)"
      "st_deployments st' = st_deployments (expired_state ?now st)"
      "length (activeJobs (st_jobs st')) = length (activeJobs (st_jobs (expired_state ?now st))) + length new"
      "length new < ?n \<longrightarrow> no_more_starts sha intent ?ts st'"
    by blast
  have "schedulePaasJobs sha st intent c =
      Inr (if ?evs @ new = [] then paas_unchanged st NO_CHANGE None
           else paas_accepted (finalize st' (st_revision st + 1)) (?evs @ new) None)"
    using a s(1)
    by (simp add: schedulePaasJobs_def schedule_allowed_def Let_def expire_closed [OF ok]
        schedule_starts_def [symmetric] del: append_is_Nil_conv)
  moreover have "?evs @ new = [] \<longrightarrow> st' = st"
    using s(4) expired_nothing [OF ok, of ?now "st_revision st + 1"] by simp
  ultimately show ?thesis
    using s active by (intro exI [of _ st'] exI [of _ "?evs @ new"]) (simp add: expired_state_def)
qed

definition swept_state :: "int \<Rightarrow> paas_control_state \<Rightarrow> paas_control_state" where
  "swept_state now st =
     (expired_state now st)\<lparr>st_jobs := obj_map (swept now) (obj_map (expired now) (st_jobs st))\<rparr>"

lemma swept_state_ok: "paas_ok sha intent st \<Longrightarrow> paas_ok sha intent (swept_state now st)"
  using swept_ok [OF expired_state_ok, of sha intent st now now]
  by (simp add: swept_state_def expired_state_def)

lemma swept_state_evolve: "jobs_evolve (st_jobs st) (st_jobs (swept_state now st))"
proof -
  have "swept now (expired now j) = j \<or> job_move j (swept now (expired now j))" for j
    using swept_cases [of now j] expired_cases [of now j]
    by (auto simp: swept_def expired_def overdue_def)
  then show ?thesis
    unfolding swept_state_def obj_map_comp by (simp add: jobs_evolve_map)
qed

definition sweep_allowed ::
  "(string \<Rightarrow> string) \<Rightarrow> paas_control_state \<Rightarrow> paas_intent \<Rightarrow> paas_schedule \<Rightarrow> bool" where
  "sweep_allowed sha st intent c \<longleftrightarrow>
     stateInvariantError sha st intent = None \<and> sched_expectedRevision c = st_revision st \<and>
     validEpoch (sched_now c)"

lemma sweep_refused:
  "\<not> sweep_allowed sha st intent c \<Longrightarrow>
   \<exists>code. sweepExpiredPaasJobs sha st intent c = Inr (paas_rejected st code) \<and> code \<noteq> ACCEPTED"
  by (auto simp: sweepExpiredPaasJobs_def sweep_allowed_def Let_def)

lemma sweep_closed:
  assumes a: "sweep_allowed sha st intent c" and ok: "paas_ok sha intent st"
  shows "\<exists>events. sweepExpiredPaasJobs sha st intent c =
      Inr (if events = [] then paas_unchanged st NO_CHANGE None
           else paas_accepted (finalize (swept_state (num_int (sched_now c)) st) (st_revision st + 1)) events None)"
  using a
  by (simp add: sweepExpiredPaasJobs_def sweep_allowed_def Let_def expire_closed [OF ok] sweep_jobs_map
      swept_state_def expired_state_def del: append_is_Nil_conv) blast

subsection \<open>Every command\<close>

definition paas_outcome_ok ::
  "(string \<Rightarrow> string) \<Rightarrow> paas_intent \<Rightarrow> paas_control_state \<Rightarrow> paas_transition \<Rightarrow> bool" where
  "paas_outcome_ok sha intent st tr \<longleftrightarrow>
     (tr_code tr = ACCEPTED \<longrightarrow> paas_step sha intent st (tr_state tr) \<and> tr_events tr \<noteq> []) \<and>
     (tr_code tr \<noteq> ACCEPTED \<longrightarrow> tr_state tr = st \<and> tr_events tr = [])"

lemma paas_run_step:
  assumes ok: "paas_ok sha intent st" and i: "intent_ok intent" and clock: "clock_ok c st"
  shows "\<exists>tr. paas_run sha intent c st = Inr tr \<and> paas_outcome_ok sha intent st tr"
proof -
  have rev: "0 \<le> st_revision st" by (rule paas_ok_objects(7) [OF ok])
  show ?thesis
  proof (cases c)
    case (CmdEnqueue x)
    from enqueue_returns [OF ok] obtain tr where tr: "enqueuePaasJob sha st intent x = Inr tr" by blast
    have "tr_code tr = ACCEPTED \<Longrightarrow> paas_step sha intent st (tr_state tr) \<and> tr_events tr \<noteq> []"
      using enqueue_commits [of sha st intent x tr] tr enqueue_step [OF ok i]
      by (auto simp: committed_def enqueue_events_def)
    with CmdEnqueue tr enqueue_refused [OF tr] show ?thesis by (simp add: paas_outcome_ok_def)
  next
    case (CmdSchedule x)
    show ?thesis
    proof (cases "schedule_allowed sha st intent x")
      case False
      with CmdSchedule schedule_refused [OF False] show ?thesis by (auto simp: paas_outcome_ok_def)
    next
      case True
      from schedule_closed [OF True ok] clock CmdSchedule obtain st' events where
        s: "schedulePaasJobs sha st intent x = Inr (if events = [] then paas_unchanged st NO_CHANGE None
             else paas_accepted (finalize st' (st_revision st + 1)) events None)"
          "round_ok sha intent (num_int (sched_now x)) (st_jobs st) st'" by blast
      with CmdSchedule paas_step_finalize [of sha intent st' st] rev show ?thesis
        by (simp add: paas_outcome_ok_def round_ok_def)
    qed
  next
    case (CmdComplete x)
    from complete_returns [OF ok] obtain tr where tr: "completePaasJob sha st intent x = Inr tr" by blast
    have "tr_code tr = ACCEPTED \<Longrightarrow> paas_step sha intent st (tr_state tr) \<and> tr_events tr \<noteq> []"
      using complete_commits [of sha st intent x tr] tr complete_step [OF ok]
      by (auto simp: committed_def)
    with CmdComplete tr complete_refused [OF tr] show ?thesis by (simp add: paas_outcome_ok_def)
  next
    case (CmdCancel x)
    from cancel_returns [OF ok] obtain tr where tr: "cancelPaasJob sha st intent x = Inr tr" by blast
    have "tr_code tr = ACCEPTED \<Longrightarrow> paas_step sha intent st (tr_state tr) \<and> tr_events tr \<noteq> []"
      using cancel_commits [of sha st intent x tr] tr cancel_step [OF ok]
      by (auto simp: committed_def)
    with CmdCancel tr cancel_refused [OF tr] show ?thesis by (simp add: paas_outcome_ok_def)
  next
    case (CmdAcknowledge x)
    from acknowledge_returns obtain tr where tr: "acknowledgePaasJobCancellation sha st intent x = Inr tr" by blast
    have "tr_code tr = ACCEPTED \<Longrightarrow> paas_step sha intent st (tr_state tr) \<and> tr_events tr \<noteq> []"
      using acknowledge_commits [of sha st intent x tr] tr acknowledge_step [OF ok]
      by (auto simp: committed_def)
    with CmdAcknowledge tr acknowledge_refused [OF tr] show ?thesis by (simp add: paas_outcome_ok_def)
  next
    case (CmdSweep x)
    show ?thesis
    proof (cases "sweep_allowed sha st intent x")
      case False
      with CmdSweep sweep_refused [OF False] show ?thesis by (auto simp: paas_outcome_ok_def)
    next
      case True
      from sweep_closed [OF True ok] obtain events where
        "sweepExpiredPaasJobs sha st intent x = Inr (if events = [] then paas_unchanged st NO_CHANGE None
           else paas_accepted (finalize (swept_state (num_int (sched_now x)) st) (st_revision st + 1)) events None)"
        by blast
      with CmdSweep paas_step_finalize [OF swept_state_ok [OF ok] rev swept_state_evolve] show ?thesis
        by (simp add: paas_outcome_ok_def)
    qed
  qed
qed

subsection \<open>The initial state\<close>

definition limits_ok :: "paas_intent \<Rightarrow> bool" where
  "limits_ok intent \<longleftrightarrow>
     distinct (tenant_ids intent) \<and> 0 \<le> sch_maxGlobalConcurrency (in_scheduling intent) \<and>
     (\<forall>q \<in> set (in_tenants intent). 0 \<le> tq_maxConcurrentBuilds q \<and> 0 \<le> tq_maxConcurrentDeployments q)"

lemma obj_get_from_entries_const:
  "obj_get (obj_from_entries (map (\<lambda>t. (f t, v)) xs)) k = (if k \<in> f ` set xs then Some v else None)"
proof -
  have "obj_get (foldl (\<lambda>ob (k, v). obj_set ob k v) ob (map (\<lambda>t. (f t, v)) xs)) k =
      (if k \<in> f ` set xs then Some v else obj_get ob k)" for ob
    by (induction xs arbitrary: ob) (auto simp: obj_get_set)
  from this [of "[]"] show ?thesis by (simp add: obj_from_entries_def obj_get_def)
qed

lemma create_ok:
  assumes "limits_ok intent"
  shows "paas_ok sha intent (createPaasControlState intent)"
proof -
  let ?qs = "obj_from_entries (map (\<lambda>t. (tq_tenantId t, [])) (in_tenants intent)) :: string list obj"
  have get: "obj_get ?qs t = (if t \<in> set (tenant_ids intent) then Some [] else None)" for t
    using obj_get_from_entries_const [of tq_tenantId "[]" "in_tenants intent" t] by (simp add: tenant_ids_def)
  have wf: "obj_wf ?qs" by (rule obj_wf_from_entries)
  have keys: "set (obj_keys ?qs) = set (tenant_ids intent)"
  proof -
    have "t \<in> set (obj_keys ?qs) \<longleftrightarrow> t \<in> set (tenant_ids intent)" for t
      using get [of t] obj_get_keys [of ?qs t] by (cases "t \<in> set (tenant_ids intent)") simp_all
    then show ?thesis by blast
  qed
  have empty: "concat (obj_values ?qs) = []"
  proof -
    have "i \<notin> set (concat (obj_values ?qs))" for i
      unfolding in_queues_iff [OF wf] get by simp
    then show ?thesis by (cases "concat (obj_values ?qs)") auto
  qed
  have none: "obj_get [] k = None" for k by (simp add: obj_get_def)
  have "queues_sound intent [] ?qs"
    unfolding queues_sound_def empty get using assms keys by (simp add: limits_ok_def none)
  with assms wf show ?thesis
    by (simp add: paas_ok_def paas_objects_def paas_sound_def createPaasControlState_def jobs_sound_def none
        locks_sound_def quotas_kept_def records_sound_def limits_ok_def activeJobs_def active_builds_def
        active_deploys_def obj_values_def)
qed

subsection \<open>Reachable states\<close>

inductive paas_reach :: "(string \<Rightarrow> string) \<Rightarrow> paas_intent \<Rightarrow> paas_control_state \<Rightarrow> bool"
  for sha intent where
  reach_create: "paas_reach sha intent (createPaasControlState intent)"
| reach_run: "paas_reach sha intent st \<Longrightarrow> clock_ok c st \<Longrightarrow> paas_run sha intent c st = Inr tr \<Longrightarrow>
    paas_reach sha intent (tr_state tr)"

lemma paas_reach_ok:
  "paas_reach sha intent st \<Longrightarrow> limits_ok intent \<Longrightarrow> intent_ok intent \<Longrightarrow> paas_ok sha intent st"
proof (induction rule: paas_reach.induct)
  case reach_create
  then show ?case by (intro create_ok)
next
  case (reach_run st c tr)
  then have ok: "paas_ok sha intent st" by blast
  from paas_run_step [OF ok reach_run.prems(2) reach_run.hyps(2)] reach_run.hyps(3) ok show ?case
    by (cases "tr_code tr = ACCEPTED") (auto simp: paas_outcome_ok_def paas_step_def)
qed

text \<open>The jobs of a later state: each has made some moves.\<close>

definition jobs_progress :: "paas_job obj \<Rightarrow> paas_job obj \<Rightarrow> bool" where
  "jobs_progress jobs jobs' \<longleftrightarrow>
     (\<forall>k j. obj_get jobs k = Some j \<longrightarrow> (\<exists>j'. obj_get jobs' k = Some j' \<and> job_move\<^sup>*\<^sup>* j j'))"

lemma jobs_progress_trans:
  "jobs_progress a b \<Longrightarrow> jobs_evolve b c \<Longrightarrow> jobs_progress a c"
  unfolding jobs_progress_def jobs_evolve_def
proof (intro allI impI)
  fix k j
  assume p: "\<forall>k j. obj_get a k = Some j \<longrightarrow> (\<exists>j'. obj_get b k = Some j' \<and> job_move\<^sup>*\<^sup>* j j')"
    and e: "\<forall>k j. obj_get b k = Some j \<longrightarrow> (\<exists>j'. obj_get c k = Some j' \<and> (j' = j \<or> job_move j j'))"
    and "obj_get a k = Some j"
  with p obtain m where m: "obj_get b k = Some m" "job_move\<^sup>*\<^sup>* j m" by blast
  with e obtain j' where "obj_get c k = Some j'" "j' = m \<or> job_move m j'" by blast
  with m(2) show "\<exists>j'. obj_get c k = Some j' \<and> job_move\<^sup>*\<^sup>* j j'"
    by (auto intro: rtranclp.rtrancl_into_rtrancl)
qed

subsection \<open>The versioned store\<close>

text \<open>
  The control plane as a versioned store: a command is served at the revision it names.
\<close>

fun command_at :: "paas_command \<Rightarrow> int \<Rightarrow> paas_command" where
  "command_at (CmdEnqueue c) e = CmdEnqueue (c\<lparr>enq_expectedRevision := e\<rparr>)"
| "command_at (CmdSchedule c) e = CmdSchedule (c\<lparr>sched_expectedRevision := e\<rparr>)"
| "command_at (CmdComplete c) e = CmdComplete (c\<lparr>cmp_expectedRevision := e\<rparr>)"
| "command_at (CmdCancel c) e = CmdCancel (c\<lparr>can_expectedRevision := e\<rparr>)"
| "command_at (CmdAcknowledge c) e = CmdAcknowledge (c\<lparr>ack_expectedRevision := e\<rparr>)"
| "command_at (CmdSweep c) e = CmdSweep (c\<lparr>sched_expectedRevision := e\<rparr>)"

definition paas_serve ::
  "(string \<Rightarrow> string) \<Rightarrow> paas_intent \<Rightarrow> paas_command \<Rightarrow> int \<Rightarrow> paas_control_state \<Rightarrow>
   (paas_control_state \<times> bool) option" where
  "paas_serve sha intent c e st =
     (case paas_run sha intent (command_at c e) st of
        Inl _ \<Rightarrow> None
      | Inr tr \<Rightarrow>
          if tr_accepted tr then Some (tr_state tr, tr_code tr = ACCEPTED) else None)"

lemma schedule_commits [commits]:
  "committed (schedulePaasJobs sha st intent c) tr \<Longrightarrow>
   sched_expectedRevision c = st_revision st \<and> st_revision (tr_state tr) = st_revision st + 1"
  unfolding schedulePaasJobs_def Let_def
  by (auto simp: committed_simps split: prod.splits if_splits)

lemma sweep_commits [commits]:
  "committed (sweepExpiredPaasJobs sha st intent c) tr \<Longrightarrow>
   sched_expectedRevision c = st_revision st \<and> st_revision (tr_state tr) = st_revision st + 1"
  unfolding sweepExpiredPaasJobs_def Let_def
  by (auto simp: committed_simps split: prod.splits if_splits)

lemma schedule_same:
  "schedulePaasJobs sha st intent c = Inr tr \<Longrightarrow> tr_code tr \<noteq> ACCEPTED \<Longrightarrow> tr_state tr = st"
  unfolding schedulePaasJobs_def Let_def
  by (auto simp: result_simps split: prod.splits if_splits)

lemma sweep_same:
  "sweepExpiredPaasJobs sha st intent c = Inr tr \<Longrightarrow> tr_code tr \<noteq> ACCEPTED \<Longrightarrow> tr_state tr = st"
  unfolding sweepExpiredPaasJobs_def Let_def
  by (auto simp: result_simps split: prod.splits if_splits)

lemma serve_commit:
  assumes "committed (paas_run sha intent (command_at c e) st) tr"
  shows "st_revision st = e \<and> st_revision (tr_state tr) = st_revision st + 1"
proof (cases c)
  case (CmdEnqueue x)
  with assms show ?thesis
    by (auto simp: enqueue_commits enqueue_allowed_def enqueue_state_def)
next
  case (CmdSchedule x)
  with assms schedule_commits [of sha st intent "x\<lparr>sched_expectedRevision := e\<rparr>" tr] show ?thesis by simp
next
  case (CmdComplete x)
  with assms complete_commits [of sha st intent "x\<lparr>cmp_expectedRevision := e\<rparr>" tr] show ?thesis
    by (auto simp: complete_allowed_def complete_state_def Let_def)
next
  case (CmdCancel x)
  with assms cancel_commits [of sha st intent "x\<lparr>can_expectedRevision := e\<rparr>" tr] show ?thesis
    by (auto simp: cancel_allowed_def cancel_state_def Let_def)
next
  case (CmdAcknowledge x)
  with assms acknowledge_commits [of sha st intent "x\<lparr>ack_expectedRevision := e\<rparr>" tr] show ?thesis
    by (auto simp: acknowledge_allowed_def acknowledge_state_def)
next
  case (CmdSweep x)
  with assms sweep_commits [of sha st intent "x\<lparr>sched_expectedRevision := e\<rparr>" tr] show ?thesis by simp
qed

lemma run_same:
  "paas_run sha intent c st = Inr tr \<Longrightarrow> tr_code tr \<noteq> ACCEPTED \<Longrightarrow> tr_state tr = st"
  using enqueue_refused schedule_same complete_refused cancel_refused acknowledge_refused sweep_same
  by (cases c) auto

interpretation paas: versioned_store st_revision "paas_serve sha intent"
proof
  fix c e s s'
  assume "paas_serve sha intent c e s = Some (s', True)"
  then obtain tr where tr: "committed (paas_run sha intent (command_at c e) s) tr" "s' = tr_state tr"
    by (auto simp: paas_serve_def committed_def split: sum.splits if_splits)
  from serve_commit [OF tr(1)] tr(2)
  show "st_revision s = e" "st_revision s' = st_revision s + 1" by auto
next
  fix c e s s'
  assume "paas_serve sha intent c e s = Some (s', False)"
  then show "s' = s"
    by (auto simp: paas_serve_def dest: run_same split: sum.splits if_splits)
qed

end
