(* ===== verification/PaasHistory.thy ===== *)
theory PaasHistory
  imports PaasRuns
begin

section \<open>PaaS control plane: what later states remember\<close>

text \<open>
  Properties of runs of several commands: idempotency records and redemptions are never lost or
  changed, jobs are never removed, only an enqueue adds one, and attempts stay within their
  limit, so the number of times a job changes is bounded.
\<close>

subsection \<open>One command\<close>

lemma enqueue_keeps:
  assumes a: "enqueue_allowed sha st intent c q"
  shows "obj_get (st_idempotency st) k = Some r \<Longrightarrow>
      obj_get (st_idempotency (enqueue_state sha st c q queue)) k = Some r"
    "obj_get (st_redeemedCapabilities st) k = Some s \<Longrightarrow>
      obj_get (st_redeemedCapabilities (enqueue_state sha st c q queue)) k = Some s"
  using a by (auto simp: enqueue_allowed_def enqueue_state_def obj_get_set capability_replayed_def)

lemma cancel_keeps:
  assumes a: "cancel_allowed sha st intent c j"
  shows "obj_get (st_idempotency st) k = Some r \<Longrightarrow>
      obj_get (st_idempotency (cancel_state sha st c j queue)) k = Some r"
    "obj_get (st_redeemedCapabilities st) k = Some s \<Longrightarrow>
      obj_get (st_redeemedCapabilities (cancel_state sha st c j queue)) k = Some s"
  using a by (auto simp: cancel_allowed_def cancel_state_def Let_def obj_get_set capability_replayed_def)

lemma complete_keeps:
  "st_idempotency (complete_state sha st c j queue) = st_idempotency st"
  "st_redeemedCapabilities (complete_state sha st c j queue) = st_redeemedCapabilities st"
  by (simp_all add: complete_state_def Let_def)

lemma acknowledge_keeps:
  "st_idempotency (acknowledge_state sha st c j) = st_idempotency st"
  "st_redeemedCapabilities (acknowledge_state sha st c j) = st_redeemedCapabilities st"
  by (simp_all add: acknowledge_state_def)

lemma schedule_keeps:
  assumes ok: "paas_ok sha intent st" and clock: "clock_ok (CmdSchedule c) st"
    and run: "schedulePaasJobs sha st intent c = Inr tr"
  shows "st_idempotency (tr_state tr) = st_idempotency st \<and>
    st_redeemedCapabilities (tr_state tr) = st_redeemedCapabilities st \<and>
    st_deployments (tr_state tr) = st_deployments st"
proof (cases "schedule_allowed sha st intent c")
  case False
  with schedule_refused [OF False] run show ?thesis by auto
next
  case True
  from schedule_closed [OF True ok clock] run show ?thesis by auto
qed

lemma sweep_keeps:
  assumes ok: "paas_ok sha intent st" and run: "sweepExpiredPaasJobs sha st intent c = Inr tr"
  shows "st_idempotency (tr_state tr) = st_idempotency st \<and>
    st_redeemedCapabilities (tr_state tr) = st_redeemedCapabilities st \<and>
    st_deployments (tr_state tr) = st_deployments st"
proof (cases "sweep_allowed sha st intent c")
  case False
  with sweep_refused [OF False] run show ?thesis by auto
next
  case True
  from sweep_closed [OF True ok] run show ?thesis by (auto simp: swept_state_def expired_state_def)
qed

lemma run_keeps:
  assumes ok: "paas_ok sha intent st" and clock: "clock_ok c st" and run: "paas_run sha intent c st = Inr tr"
  shows "obj_get (st_idempotency st) k = Some r \<Longrightarrow> obj_get (st_idempotency (tr_state tr)) k = Some r"
    "obj_get (st_redeemedCapabilities st) k = Some s \<Longrightarrow> obj_get (st_redeemedCapabilities (tr_state tr)) k = Some s"
proof -
  have "(obj_get (st_idempotency st) k = Some r \<longrightarrow> obj_get (st_idempotency (tr_state tr)) k = Some r) \<and>
    (obj_get (st_redeemedCapabilities st) k = Some s \<longrightarrow> obj_get (st_redeemedCapabilities (tr_state tr)) k = Some s)"
  proof (cases "tr_code tr = ACCEPTED")
    case False
    with run_same [OF run] show ?thesis by simp
  next
    case True
    with run have com: "committed (paas_run sha intent c st) tr" by (simp add: committed_def)
    show ?thesis
    proof (cases c)
      case (CmdEnqueue x)
      with com enqueue_commits [of sha st intent x tr] enqueue_keeps show ?thesis by auto
    next
      case (CmdSchedule x)
      with schedule_keeps [OF ok, of x tr] clock run show ?thesis by simp
    next
      case (CmdComplete x)
      with com complete_commits [of sha st intent x tr] show ?thesis by (auto simp: complete_keeps)
    next
      case (CmdCancel x)
      with com cancel_commits [of sha st intent x tr] cancel_keeps show ?thesis by auto
    next
      case (CmdAcknowledge x)
      with com acknowledge_commits [of sha st intent x tr] show ?thesis by (auto simp: acknowledge_keeps)
    next
      case (CmdSweep x)
      with sweep_keeps [OF ok, of x tr] run show ?thesis by simp
    qed
  qed
  then show "obj_get (st_idempotency st) k = Some r \<Longrightarrow> obj_get (st_idempotency (tr_state tr)) k = Some r"
    "obj_get (st_redeemedCapabilities st) k = Some s \<Longrightarrow> obj_get (st_redeemedCapabilities (tr_state tr)) k = Some s"
    by auto
qed

text \<open>A job of the new state is a job of the old one, unchanged or moved, or was enqueued.\<close>

lemma obj_keys_evolved:
  "obj_get (obj_set jobs k j) i = Some j' \<Longrightarrow> obj_get jobs k \<noteq> None \<Longrightarrow> obj_get jobs i \<noteq> None"
  by (auto simp: obj_get_set split: if_splits)

lemma start_job_inv:
  assumes "start_job sha now rv t st = Inr (Some (st', ev))"
  shows "\<exists>k q j. obj_get (st_tenantQueues st) t = Some (k # q) \<and> obj_get (st_jobs st) k = Some j \<and>
    st_jobs st' = obj_set (st_jobs st) k (started_job now j) \<and> st_lastScheduledTenant st' = Some t"
proof -
  from assms obtain queue where queue: "obj_get (st_tenantQueues st) t = Some queue"
    by (cases "obj_get (st_tenantQueues st) t") (auto simp: start_job_def the_queue_def)
  with assms obtain k q where k: "queue = k # q" "k \<noteq> []"
    by (cases queue) (auto simp: start_job_def the_queue_def split: if_splits)
  with assms queue obtain j where j: "obj_get (st_jobs st) k = Some j"
    by (cases "obj_get (st_jobs st) k") (auto simp: start_job_def the_queue_def)
  with assms queue k have "st_jobs st' = obj_set (st_jobs st) k (started_job now j)" "st_lastScheduledTenant st' = Some t"
    by (auto simp: start_job_def the_queue_def Let_def)
  with queue k j show ?thesis by blast
qed

lemma start_job_keys:
  "start_job sha now rv t st = Inr (Some (st', ev)) \<Longrightarrow> obj_get (st_jobs st') i \<noteq> None \<Longrightarrow>
   obj_get (st_jobs st) i \<noteq> None"
  by (drule start_job_inv) (auto simp: obj_get_set split: if_splits)

lemma start_jobs_keys:
  "start_jobs n sha intent ts now rv st evs = Inr (st', evs') \<Longrightarrow>
   obj_get (st_jobs st') i \<noteq> None \<Longrightarrow> obj_get (st_jobs st) i \<noteq> None"
proof (induction n arbitrary: st evs)
  case (Suc n)
  show ?case
  proof (rule ccontr)
    assume new: "\<not> obj_get (st_jobs st) i \<noteq> None"
    with Suc.prems have more: "st' \<noteq> st" by auto
    then obtain t where t: "nextEligibleTenant sha st intent ts = Inr (Some t)"
      "bind_r (start_job sha now rv t st) (\<lambda>started. case started of
         None \<Rightarrow> Inr (st, evs)
       | Some (st2, ev) \<Rightarrow> start_jobs n sha intent ts now rv st2 (evs @ [ev])) = Inr (st', evs')"
      using Suc.prems(1)
      by (cases "nextEligibleTenant sha st intent ts") (auto split: if_splits option.splits)
    with more obtain st2 ev where
      s: "start_job sha now rv t st = Inr (Some (st2, ev))"
        "start_jobs n sha intent ts now rv st2 (evs @ [ev]) = Inr (st', evs')"
      by (cases "start_job sha now rv t st") (auto split: option.splits)
    from start_job_keys [OF s(1) Suc.IH [OF s(2) Suc.prems(2)]] new show False by simp
  qed
qed simp

lemma schedule_keys:
  assumes ok: "paas_ok sha intent st" and run: "schedulePaasJobs sha st intent x = Inr tr"
    and i: "obj_get (st_jobs (tr_state tr)) i \<noteq> None"
  shows "obj_get (st_jobs st) i \<noteq> None"
proof (cases "schedule_allowed sha st intent x")
  case False
  with schedule_refused [OF False] run i show ?thesis by auto
next
  case True
  let ?start = "start_jobs (nat (num_int (schedule_starts intent x))) sha intent
       (sort_by_locale (\<lambda>t. t) (tenant_ids intent)) (num_int (sched_now x)) (st_revision st + 1)
       (expired_state (num_int (sched_now x)) st)
       (expire_events (num_int (sched_now x)) (st_revision st + 1) (st_jobs st) (queued_ids st))"
  have "bind_r ?start (\<lambda>(final, events).
      if events = [] then Inr (paas_unchanged st NO_CHANGE None)
      else Inr (paas_accepted (finalize final (st_revision st + 1)) events None)) = Inr tr"
    using run True
    by (simp add: schedulePaasJobs_def schedule_allowed_def Let_def expire_closed [OF ok]
        schedule_starts_def [symmetric])
  then obtain final events where
    s: "?start = Inr (final, events)" "tr_state tr = st \<or> st_jobs (tr_state tr) = st_jobs final"
    by (cases ?start) (auto split: if_splits)
  from s(2) show ?thesis
  proof
    assume "st_jobs (tr_state tr) = st_jobs final"
    with i start_jobs_keys [OF s(1), of i] show ?thesis by (simp add: expired_state_def obj_get_map)
  qed (use i in simp)
qed

lemma sweep_keys:
  assumes ok: "paas_ok sha intent st" and run: "sweepExpiredPaasJobs sha st intent x = Inr tr"
    and i: "obj_get (st_jobs (tr_state tr)) i \<noteq> None"
  shows "obj_get (st_jobs st) i \<noteq> None"
proof (cases "sweep_allowed sha st intent x")
  case False
  with sweep_refused [OF False] run i show ?thesis by auto
next
  case True
  from sweep_closed [OF True ok] run have "tr_state tr = st \<or>
      st_jobs (tr_state tr) = st_jobs (swept_state (num_int (sched_now x)) st)"
    by (auto split: if_splits)
  with i show ?thesis by (auto simp: swept_state_def obj_get_map)
qed

lemma enqueue_origin:
  assumes com: "committed (enqueuePaasJob sha st intent x) tr"
    and j: "obj_get (st_jobs (tr_state tr)) k = Some j" and new: "obj_get (st_jobs st) k = None"
  shows "k = enq_jobId x \<and> validEnqueueCommand x \<and> (\<exists>q. j = enqueued_job x q)"
proof -
  from com enqueue_commits obtain q queue where
    q: "enqueue_allowed sha st intent x q" "tr_state tr = enqueue_state sha st x q queue" by fastforce
  have "st_jobs (tr_state tr) = obj_set (st_jobs st) (enq_jobId x) (enqueued_job x q)"
    unfolding q(2) enqueue_state_def by simp
  with j new q(1) show ?thesis by (auto simp: obj_get_set enqueue_allowed_def split: if_splits)
qed

lemma run_job_origin:
  assumes ok: "paas_ok sha intent st" and run: "paas_run sha intent c st = Inr tr"
    and j: "obj_get (st_jobs (tr_state tr)) k = Some j" and new: "obj_get (st_jobs st) k = None"
  shows "\<exists>x q. c = CmdEnqueue x \<and> k = enq_jobId x \<and> j = enqueued_job x q \<and> validEnqueueCommand x"
proof -
  have com: "committed (paas_run sha intent c st) tr"
    using run run_same [OF run] j new by (cases "tr_code tr = ACCEPTED") (simp_all add: committed_def)
  show ?thesis
  proof (cases c)
    case (CmdEnqueue x)
    with com enqueue_origin [of sha st intent x tr k j] j new show ?thesis by auto
  next
    case (CmdSchedule x)
    with schedule_keys [OF ok, of x tr k] run j new show ?thesis by simp
  next
    case (CmdSweep x)
    with sweep_keys [OF ok, of x tr k] run j new show ?thesis by simp
  next
    case (CmdComplete x)
    from com CmdComplete complete_commits [of sha st intent x tr] obtain y queue where
      y: "complete_allowed sha st intent x y" "tr_state tr = complete_state sha st x y queue" by auto
    have "st_jobs (tr_state tr) = obj_set (st_jobs st) (cmp_jobId x) (completed_job x y)"
      unfolding y(2) by (simp add: complete_state_def Let_def)
    with y(1) j new show ?thesis
      by (cases "k = cmp_jobId x") (simp_all add: complete_allowed_def obj_get_set)
  next
    case (CmdCancel x)
    from com CmdCancel cancel_commits [of sha st intent x tr] obtain y queue where
      y: "cancel_allowed sha st intent x y" "tr_state tr = cancel_state sha st x y queue" by auto
    have found: "obj_get (st_jobs st) (can_jobId x) = Some y" using y(1) by (simp add: cancel_allowed_def)
    have "job_id y = can_jobId x" by (rule job_soundD(1) [OF jobs_soundD [OF paas_okD(3) [OF ok] found]])
    then have "st_jobs (tr_state tr) = obj_set (st_jobs st) (can_jobId x) (cancelled_job x y)"
      unfolding y(2) by (simp add: cancel_state_def Let_def)
    with found j new show ?thesis
      by (cases "k = can_jobId x") (simp_all add: obj_get_set)
  next
    case (CmdAcknowledge x)
    from com CmdAcknowledge acknowledge_commits [of sha st intent x tr] obtain y where
      y: "acknowledge_allowed sha st intent x y" "tr_state tr = acknowledge_state sha st x y" by auto
    have found: "obj_get (st_jobs st) (ack_jobId x) = Some y" using y(1) by (simp add: acknowledge_allowed_def)
    have "job_id y = ack_jobId x" by (rule job_soundD(1) [OF jobs_soundD [OF paas_okD(3) [OF ok] found]])
    with found have "obj_get (st_jobs (tr_state tr)) k \<noteq> None \<Longrightarrow> obj_get (st_jobs st) k \<noteq> None"
      unfolding y(2) by (simp add: acknowledge_state_def obj_get_set split: if_splits)
    with j new show ?thesis by simp
  qed
qed

subsection \<open>Later states\<close>

inductive paas_later ::
  "(string \<Rightarrow> string) \<Rightarrow> paas_intent \<Rightarrow> paas_control_state \<Rightarrow> paas_control_state \<Rightarrow> bool"
  for sha intent st where
  later_refl: "paas_later sha intent st st"
| later_run: "paas_later sha intent st u \<Longrightarrow> clock_ok c u \<Longrightarrow> paas_run sha intent c u = Inr tr \<Longrightarrow>
    paas_later sha intent st (tr_state tr)"

lemma run_ok:
  assumes ok: "paas_ok sha intent st" and i: "intent_ok intent" and clock: "clock_ok c st"
    and run: "paas_run sha intent c st = Inr tr"
  shows "paas_ok sha intent (tr_state tr)" "jobs_evolve (st_jobs st) (st_jobs (tr_state tr))"
proof -
  from paas_run_step [OF ok i clock] run have "paas_outcome_ok sha intent st tr" by auto
  with ok show "paas_ok sha intent (tr_state tr)" "jobs_evolve (st_jobs st) (st_jobs (tr_state tr))"
    by (cases "tr_code tr = ACCEPTED"; simp add: paas_outcome_ok_def paas_step_def)+
qed

lemma later_ok:
  "paas_later sha intent st u \<Longrightarrow> paas_ok sha intent st \<Longrightarrow> intent_ok intent \<Longrightarrow> paas_ok sha intent u"
  by (induction rule: paas_later.induct) (auto intro: run_ok)

lemma later_keeps:
  assumes "paas_later sha intent st u" "paas_ok sha intent st" "intent_ok intent"
  shows "(obj_get (st_idempotency st) k = Some r \<longrightarrow> obj_get (st_idempotency u) k = Some r) \<and>
    (obj_get (st_redeemedCapabilities st) k = Some s \<longrightarrow> obj_get (st_redeemedCapabilities u) k = Some s)"
  using assms
proof (induction rule: paas_later.induct)
  case later_refl
  then show ?case by simp
next
  case (later_run u c tr)
  have ok: "paas_ok sha intent u" using later_ok [OF later_run.hyps(1) later_run.prems] .
  from later_run run_keeps [OF ok later_run.hyps(2,3)] show ?case by blast
qed

lemma later_jobs:
  assumes "paas_later sha intent st u" "paas_ok sha intent st" "intent_ok intent"
  shows "jobs_progress (st_jobs st) (st_jobs u)"
  using assms
proof (induction rule: paas_later.induct)
  case later_refl
  then show ?case by (simp add: jobs_progress_def)
next
  case (later_run u c tr)
  have ok: "paas_ok sha intent u" using later_ok [OF later_run.hyps(1) later_run.prems] .
  from later_run run_ok(2) [OF ok later_run.prems(2) later_run.hyps(2,3)] show ?case
    by (blast intro: jobs_progress_trans)
qed

subsection \<open>Attempts\<close>

definition attempts_kept :: "paas_job obj \<Rightarrow> bool" where
  "attempts_kept jobs \<longleftrightarrow> (\<forall>k j. obj_get jobs k = Some j \<longrightarrow> attempts_ok j)"

lemma enqueued_attempts: "validEnqueueCommand c \<Longrightarrow> attempts_ok (enqueued_job c q)"
  by (simp add: attempts_ok_def enqueued_job_def validEnqueueCommand_def)

lemma run_attempts:
  assumes ok: "paas_ok sha intent st" and i: "intent_ok intent" and clock: "clock_ok c st"
    and run: "paas_run sha intent c st = Inr tr" and a: "attempts_kept (st_jobs st)"
  shows "attempts_kept (st_jobs (tr_state tr))"
  unfolding attempts_kept_def
proof (intro allI impI)
  fix k j assume j: "obj_get (st_jobs (tr_state tr)) k = Some j"
  show "attempts_ok j"
  proof (cases "obj_get (st_jobs st) k")
    case None
    with run_job_origin [OF ok run j] enqueued_attempts show ?thesis by auto
  next
    case (Some j0)
    with run_ok(2) [OF ok i clock run] obtain j' where
      "obj_get (st_jobs (tr_state tr)) k = Some j'" "j' = j0 \<or> job_move j0 j'"
      unfolding jobs_evolve_def by blast
    with j have "j = j0 \<or> job_move j0 j" by simp
    moreover have "attempts_ok j0" using a Some by (simp add: attempts_kept_def)
    ultimately show ?thesis by (auto intro: attempts_ok_move)
  qed
qed

lemma reach_attempts:
  "paas_reach sha intent st \<Longrightarrow> limits_ok intent \<Longrightarrow> intent_ok intent \<Longrightarrow> attempts_kept (st_jobs st)"
proof (induction rule: paas_reach.induct)
  case reach_create
  then show ?case by (simp add: attempts_kept_def createPaasControlState_def obj_get_def)
next
  case (reach_run st c tr)
  then show ?case
    by (intro run_attempts [OF paas_reach_ok [OF reach_run.hyps(1) reach_run.prems] reach_run.prems(2)
          reach_run.hyps(2,3)]) blast
qed

text \<open>How often the job \<open>k\<close> changes along a list of states.\<close>

fun job_changes :: "string \<Rightarrow> paas_control_state list \<Rightarrow> nat" where
  "job_changes k (st # st' # sts) =
     (if obj_get (st_jobs st) k = obj_get (st_jobs st') k then 0 else 1) + job_changes k (st' # sts)"
| "job_changes k sts = 0"

text \<open>A list of states each of which a command reaches from the one before.\<close>

fun paas_chain :: "(string \<Rightarrow> string) \<Rightarrow> paas_intent \<Rightarrow> paas_control_state list \<Rightarrow> bool" where
  "paas_chain sha intent (st # st' # sts) \<longleftrightarrow>
     (\<exists>c tr. clock_ok c st \<and> paas_run sha intent c st = Inr tr \<and> tr_state tr = st') \<and>
     paas_chain sha intent (st' # sts)"
| "paas_chain sha intent sts \<longleftrightarrow> True"

lemma changes_bounded:
  assumes "paas_chain sha intent (st # sts)" "paas_ok sha intent st" "intent_ok intent"
    "obj_get (st_jobs st) k = Some j" "attempts_ok j"
  shows "int (job_changes k (st # sts)) \<le> job_rank j"
  using assms
proof (induction sts arbitrary: st j)
  case Nil
  then show ?case by (simp add: job_rank_nonneg)
next
  case (Cons u sts)
  from Cons.prems(1) obtain c tr where
    r: "clock_ok c st" "paas_run sha intent c st = Inr tr" "tr_state tr = u" by auto
  have u: "paas_ok sha intent u" "jobs_evolve (st_jobs st) (st_jobs u)"
    using run_ok [OF Cons.prems(2,3) r(1,2)] r(3) by simp_all
  from u(2) Cons.prems(4) obtain j' where j': "obj_get (st_jobs u) k = Some j'" "j' = j \<or> job_move j j'"
    by (auto simp: jobs_evolve_def)
  have ok: "attempts_ok j'" using j'(2) Cons.prems(5) attempts_ok_move by blast
  have ih: "int (job_changes k (u # sts)) \<le> job_rank j'"
    using Cons.IH [OF _ u(1) Cons.prems(3) j'(1) ok] Cons.prems(1) by simp
  show ?case
  proof (cases "j' = j")
    case True
    with ih Cons.prems(4) j'(1) show ?thesis by simp
  next
    case False
    with j'(2) job_rank_move [OF Cons.prems(5)] have "job_rank j' < job_rank j" by blast
    with ih show ?thesis by simp
  qed
qed

end
