(* ===== verification/PaasParse.thy ===== *)
theory PaasParse
  imports PaasCheck
begin

section \<open>PaaS control plane: parsing a stored state\<close>

text \<open>
  \<open>parsePaasControlState\<close> of \<open>src/core/paasControlState.ts\<close> with its record parsers, and the
  JavaScript value each record stands for.  A \<open>storable\<close> predicate per record says what its parser
  accepts beyond the types; the lemmas show that parsing the value of a record succeeds exactly
  when the record is storable, and gives the record back.
\<close>

subsection \<open>Literals\<close>

fun status_name :: "paas_job_status \<Rightarrow> string" where
  "status_name Queued = ''queued''"
| "status_name Running = ''running''"
| "status_name JobCancelling = ''cancelling''"
| "status_name Succeeded = ''succeeded''"
| "status_name JobFailed = ''failed''"
| "status_name JobCancelled = ''cancelled''"
| "status_name TimedOut = ''timed-out''"

fun role_name :: "paas_worker_role \<Rightarrow> string" where
  "role_name Builder = ''builder''"
| "role_name Deployer = ''deployer''"

fun reason_name :: "paas_cancel_reason \<Rightarrow> string" where
  "reason_name ByUser = ''user''"
| "reason_name ByDeadline = ''deadline''"

fun action_name :: "paas_idem_action \<Rightarrow> string" where
  "action_name ActEnqueue = ''enqueue''"
| "action_name ActCancel = ''cancel''"

definition PAAS_CONTROL_STATE_API_VERSION :: string where
  "PAAS_CONTROL_STATE_API_VERSION = ''security.deus.dev/paas-control-state/v1alpha1''"

subsection \<open>Field parsers\<close>

definition statePattern :: "jsval \<Rightarrow> string \<Rightarrow> rexp \<Rightarrow> string + string" where
  "statePattern v path rx = read_pattern v path rx '' has an invalid format.''"

definition stateName :: "jsval \<Rightarrow> string \<Rightarrow> string + string" where
  "stateName v path = statePattern v path name_rx"

definition stateJobId :: "jsval \<Rightarrow> string \<Rightarrow> string + string" where
  "stateJobId v path = statePattern v path jobId_rx"

definition stateInteger :: "jsval \<Rightarrow> string \<Rightarrow> int \<Rightarrow> string + int" where
  "stateInteger v path minimum =
     read_integer v minimum (path @ '' must be an integer greater than or equal to '' @ int_dec minimum @ ''.'')"

definition stateStringArray :: "jsval \<Rightarrow> string \<Rightarrow> bool \<Rightarrow> rexp option \<Rightarrow> string + string list" where
  "stateStringArray v path allowEmpty rx =
     (case v of
        JArr vs \<Rightarrow>
          bind_r (throw_if (\<not> allowEmpty \<and> vs = []) (path @ '' must be an array.'')) (\<lambda>_.
          bind_r (map_ix (\<lambda>i e. case rx of
                     Some r \<Rightarrow> statePattern e (quote_path path i) r
                   | None \<Rightarrow> read_string e (quote_path path i)) 0 vs) (\<lambda>parsed.
          bind_r (throw_if (\<not> distinct parsed) (path @ '' must not contain duplicates.'')) (\<lambda>_.
          Inr parsed)))
      | _ \<Rightarrow> Inl (path @ '' must be an array.''))"

text \<open>\<open>if (!(field in input)) return;\<close> and then the parser of the field.\<close>

definition assignOptional :: "props \<Rightarrow> string \<Rightarrow> string \<Rightarrow> (jsval \<Rightarrow> string \<Rightarrow> string + 'a) \<Rightarrow> string + 'a option" where
  "assignOptional input field path parse =
     (if field \<in> set (map fst input)
      then bind_r (parse (js_get input field) (path @ ''.'' @ field)) (\<lambda>x. Inr (Some x))
      else Inr None)"

lemma statePattern_iff [reads]: "statePattern v path rx = Inr s \<longleftrightarrow> v = JStr s \<and> nonEmpty s \<and> rx_test rx s"
  by (simp add: statePattern_def reads)

lemma stateName_iff [reads]: "stateName v path = Inr s \<longleftrightarrow> v = JStr s \<and> rx_test name_rx s"
  using name_nonEmpty by (auto simp: stateName_def reads)

lemma stateJobId_iff [reads]: "stateJobId v path = Inr s \<longleftrightarrow> v = JStr s \<and> rx_test jobId_rx s"
  using jobId_nonEmpty by (auto simp: stateJobId_def reads)

lemma stateInteger_iff [reads]: "stateInteger v path lo = Inr i \<longleftrightarrow> v = JNum (NInt i) \<and> lo \<le> i"
  by (simp add: stateInteger_def reads)

lemma stateStringArray_enc [reads]:
  "stateStringArray (JArr (map JStr xs)) path True rx = Inr ys \<longleftrightarrow>
   ys = xs \<and> distinct xs \<and> (\<forall>x \<in> set xs. nonEmpty x \<and> (\<forall>r. rx = Some r \<longrightarrow> rx_test r x))"
proof -
  have "map_ix (\<lambda>i e. case rx of Some r \<Rightarrow> statePattern e (quote_path path i) r
            | None \<Rightarrow> read_string e (quote_path path i)) 0 (map JStr xs) = Inr zs \<longleftrightarrow>
      (\<forall>x \<in> set xs. nonEmpty x \<and> (\<forall>r. rx = Some r \<longrightarrow> rx_test r x)) \<and> zs = xs" for zs
    by (rule map_ix_encoded) (auto simp: reads split: option.splits)
  then show ?thesis
    by (auto simp: stateStringArray_def result_simps)
qed

lemma stateStringArray_array: "stateStringArray v path e rx = Inr ys \<Longrightarrow> \<exists>vs. v = JArr vs"
  by (cases v) (auto simp: stateStringArray_def)

lemma assignOptional_iff:
  assumes "(field \<in> set (map fst input)) = (x \<noteq> None)" "\<And>y. x = Some y \<Longrightarrow> js_get input field = enc y"
    and "\<And>y z q. parse (enc y) q = Inr z \<longleftrightarrow> P y \<and> z = y"
  shows "assignOptional input field path parse = Inr x' \<longleftrightarrow> x' = x \<and> (\<forall>y. x = Some y \<longrightarrow> P y)"
  using assms by (cases x) (auto simp: assignOptional_def result_simps)

lemma enum_readers [reads]:
  "read_enum v path job_operation_name [JobBuild, JobDeploy, JobRollback] = Inr x1 \<longleftrightarrow> v = JStr (job_operation_name x1)"
  "read_enum v path status_name [Queued, Running, JobCancelling, Succeeded, JobFailed, JobCancelled, TimedOut] = Inr x2 \<longleftrightarrow>
     v = JStr (status_name x2)"
  "read_enum v path role_name [Builder, Deployer] = Inr x3 \<longleftrightarrow> v = JStr (role_name x3)"
  "read_enum v path reason_name [ByUser, ByDeadline] = Inr x4 \<longleftrightarrow> v = JStr (reason_name x4)"
  "read_enum v path action_name [ActEnqueue, ActCancel] = Inr x5 \<longleftrightarrow> v = JStr (action_name x5)"
proof -
  show "read_enum v path job_operation_name [JobBuild, JobDeploy, JobRollback] = Inr x1 \<longleftrightarrow>
      v = JStr (job_operation_name x1)"
    by (subst read_enum_iff) (auto simp: inj_on_def, cases x1, auto)
  show "read_enum v path status_name [Queued, Running, JobCancelling, Succeeded, JobFailed, JobCancelled, TimedOut] = Inr x2 \<longleftrightarrow>
     v = JStr (status_name x2)"
    by (subst read_enum_iff) (auto simp: inj_on_def, cases x2, auto)
  show "read_enum v path role_name [Builder, Deployer] = Inr x3 \<longleftrightarrow> v = JStr (role_name x3)"
    by (subst read_enum_iff) (auto simp: inj_on_def, cases x3, auto)
  show "read_enum v path reason_name [ByUser, ByDeadline] = Inr x4 \<longleftrightarrow> v = JStr (reason_name x4)"
    by (subst read_enum_iff) (auto simp: inj_on_def, cases x4, auto)
  show "read_enum v path action_name [ActEnqueue, ActCancel] = Inr x5 \<longleftrightarrow> v = JStr (action_name x5)"
    by (subst read_enum_iff) (auto simp: inj_on_def, cases x5, auto)
qed

subsection \<open>Jobs\<close>

definition job_required :: "string list" where
  "job_required =
     [''id'', ''tenantId'', ''operation'', ''resource'', ''status'', ''workerRole'', ''idempotencyKey'',
      ''createdAtEpochSeconds'', ''updatedAtEpochSeconds'', ''deadlineAtEpochSeconds'', ''attempt'', ''maxAttempts'']"

definition job_optional :: "string list" where
  "job_optional =
     [''sourceRevision'', ''artifactDigest'', ''capabilityId'', ''startedAtEpochSeconds'',
      ''completedAtEpochSeconds'', ''lastErrorCode'', ''cancellationReason'', ''cleanupEvidence'',
      ''resultArtifactDigest'']"

definition parseStateJob :: "jsval \<Rightarrow> string \<Rightarrow> string + paas_job" where
  "parseStateJob v path =
     bind_r (read_object v path job_required job_optional) (\<lambda>input.
     bind_r (stateJobId (js_get input ''id'') (path @ ''.id'')) (\<lambda>vid.
     bind_r (stateName (js_get input ''tenantId'') (path @ ''.tenantId'')) (\<lambda>vtenant.
     bind_r (read_enum (js_get input ''operation'') (path @ ''.operation'') job_operation_name
               [JobBuild, JobDeploy, JobRollback]) (\<lambda>voperation.
     bind_r (read_resource (js_get input ''resource'') (path @ ''.resource'')) (\<lambda>vresource.
     bind_r (read_enum (js_get input ''status'') (path @ ''.status'') status_name
               [Queued, Running, JobCancelling, Succeeded, JobFailed, JobCancelled, TimedOut]) (\<lambda>vstatus.
     bind_r (read_enum (js_get input ''workerRole'') (path @ ''.workerRole'') role_name [Builder, Deployer]) (\<lambda>vrole.
     bind_r (read_string (js_get input ''idempotencyKey'') (path @ ''.idempotencyKey'')) (\<lambda>vkey.
     bind_r (stateInteger (js_get input ''createdAtEpochSeconds'') (path @ ''.createdAtEpochSeconds'') 0) (\<lambda>vcreated.
     bind_r (stateInteger (js_get input ''updatedAtEpochSeconds'') (path @ ''.updatedAtEpochSeconds'') 0) (\<lambda>vupdated.
     bind_r (stateInteger (js_get input ''deadlineAtEpochSeconds'') (path @ ''.deadlineAtEpochSeconds'') 0) (\<lambda>vdeadline.
     bind_r (stateInteger (js_get input ''attempt'') (path @ ''.attempt'') 0) (\<lambda>vattempt.
     bind_r (stateInteger (js_get input ''maxAttempts'') (path @ ''.maxAttempts'') 1) (\<lambda>vmax.
     bind_r (assignOptional input ''sourceRevision'' path (\<lambda>e p. statePattern e p revision_rx)) (\<lambda>vrevision.
     bind_r (assignOptional input ''artifactDigest'' path (\<lambda>e p. statePattern e p artifact_rx)) (\<lambda>vartifact.
     bind_r (assignOptional input ''capabilityId'' path read_string) (\<lambda>vcap.
     bind_r (assignOptional input ''startedAtEpochSeconds'' path (\<lambda>e p. stateInteger e p 0)) (\<lambda>vstarted.
     bind_r (assignOptional input ''completedAtEpochSeconds'' path (\<lambda>e p. stateInteger e p 0)) (\<lambda>vcompleted.
     bind_r (assignOptional input ''lastErrorCode'' path read_string) (\<lambda>verror.
     bind_r (assignOptional input ''cancellationReason'' path
               (\<lambda>e p. read_enum e p reason_name [ByUser, ByDeadline])) (\<lambda>vreason.
     bind_r (assignOptional input ''cleanupEvidence'' path read_string) (\<lambda>vevidence.
     bind_r (assignOptional input ''resultArtifactDigest'' path (\<lambda>e p. statePattern e p artifact_rx)) (\<lambda>vresult.
       Inr \<lparr>job_id = vid, job_tenantId = vtenant, job_operation = voperation, job_resource = vresource,
            job_sourceRevision = vrevision, job_artifactDigest = vartifact, job_status = vstatus,
            job_workerRole = vrole, job_idempotencyKey = vkey, job_capabilityId = vcap,
            job_createdAt = vcreated, job_updatedAt = vupdated, job_deadlineAt = vdeadline,
            job_startedAt = vstarted, job_completedAt = vcompleted, job_attempt = vattempt,
            job_maxAttempts = vmax, job_lastErrorCode = verror, job_cancellationReason = vreason,
            job_cleanupEvidence = vevidence, job_resultArtifactDigest = vresult\<rparr>))))))))))))))))))))))"

definition opt_prop :: "string \<Rightarrow> ('a \<Rightarrow> jsval) \<Rightarrow> 'a option \<Rightarrow> props" where
  "opt_prop k enc x = (case x of None \<Rightarrow> [] | Some v \<Rightarrow> [(k, enc v)])"

definition num :: "int \<Rightarrow> jsval" where
  "num i = JNum (NInt i)"

definition job_props :: "paas_job \<Rightarrow> props" where
  "job_props j =
     [(''id'', JStr (job_id j)), (''tenantId'', JStr (job_tenantId j)),
      (''operation'', JStr (job_operation_name (job_operation j))), (''resource'', JStr (job_resource j))] @
     opt_prop ''sourceRevision'' JStr (job_sourceRevision j) @
     opt_prop ''artifactDigest'' JStr (job_artifactDigest j) @
     [(''status'', JStr (status_name (job_status j))), (''workerRole'', JStr (role_name (job_workerRole j))),
      (''idempotencyKey'', JStr (job_idempotencyKey j))] @
     opt_prop ''capabilityId'' JStr (job_capabilityId j) @
     [(''createdAtEpochSeconds'', num (job_createdAt j)), (''updatedAtEpochSeconds'', num (job_updatedAt j)),
      (''deadlineAtEpochSeconds'', num (job_deadlineAt j)), (''attempt'', num (job_attempt j)),
      (''maxAttempts'', num (job_maxAttempts j))] @
     opt_prop ''startedAtEpochSeconds'' num (job_startedAt j) @
     opt_prop ''completedAtEpochSeconds'' num (job_completedAt j) @
     opt_prop ''lastErrorCode'' JStr (job_lastErrorCode j) @
     opt_prop ''cancellationReason'' (\<lambda>r. JStr (reason_name r)) (job_cancellationReason j) @
     opt_prop ''cleanupEvidence'' JStr (job_cleanupEvidence j) @
     opt_prop ''resultArtifactDigest'' JStr (job_resultArtifactDigest j)"

definition enc_job :: "paas_job \<Rightarrow> jsval" where
  "enc_job j = JObj (job_props j)"

definition opt_all :: "('a \<Rightarrow> bool) \<Rightarrow> 'a option \<Rightarrow> bool" where
  "opt_all P x \<longleftrightarrow> (\<forall>y. x = Some y \<longrightarrow> P y)"

definition storable_job :: "paas_job \<Rightarrow> bool" where
  "storable_job j \<longleftrightarrow>
     rx_test jobId_rx (job_id j) \<and> rx_test name_rx (job_tenantId j) \<and> boundedResource (job_resource j) \<and>
     nonEmpty (job_idempotencyKey j) \<and> 0 \<le> job_createdAt j \<and> 0 \<le> job_updatedAt j \<and> 0 \<le> job_deadlineAt j \<and>
     0 \<le> job_attempt j \<and> 1 \<le> job_maxAttempts j \<and>
     opt_all (rx_test revision_rx) (job_sourceRevision j) \<and> opt_all (rx_test artifact_rx) (job_artifactDigest j) \<and>
     opt_all nonEmpty (job_capabilityId j) \<and> opt_all (\<lambda>t. 0 \<le> t) (job_startedAt j) \<and>
     opt_all (\<lambda>t. 0 \<le> t) (job_completedAt j) \<and> opt_all nonEmpty (job_lastErrorCode j) \<and>
     opt_all nonEmpty (job_cleanupEvidence j) \<and> opt_all (rx_test artifact_rx) (job_resultArtifactDigest j)"

lemma js_get_app: "js_get (a @ b) k = (if k \<in> set (map fst a) then js_get a k else js_get b k)"
proof (induction a)
  case (Cons e a)
  then show ?case by (cases e) (simp del: set_map)
qed simp

lemma opt_prop_keys [simp]: "set (map fst (opt_prop k enc x)) = (if x = None then {} else {k})"
  by (cases x) (simp_all add: opt_prop_def)

lemma opt_prop_get [simp]: "x \<noteq> None \<Longrightarrow> js_get (opt_prop k enc x) k = enc (the x)"
  by (auto simp: opt_prop_def)

lemma opt_prop_fst [simp]: "k' \<in> fst ` set (opt_prop k enc x) \<longleftrightarrow> x \<noteq> None \<and> k' = k"
  by (auto simp: opt_prop_def split: option.splits)

lemma job_lookups:
  "js_get (job_props j) ''id'' = JStr (job_id j)" "js_get (job_props j) ''tenantId'' = JStr (job_tenantId j)"
  "js_get (job_props j) ''operation'' = JStr (job_operation_name (job_operation j))"
  "js_get (job_props j) ''resource'' = JStr (job_resource j)"
  "js_get (job_props j) ''status'' = JStr (status_name (job_status j))"
  "js_get (job_props j) ''workerRole'' = JStr (role_name (job_workerRole j))"
  "js_get (job_props j) ''idempotencyKey'' = JStr (job_idempotencyKey j)"
  "js_get (job_props j) ''createdAtEpochSeconds'' = num (job_createdAt j)"
  "js_get (job_props j) ''updatedAtEpochSeconds'' = num (job_updatedAt j)"
  "js_get (job_props j) ''deadlineAtEpochSeconds'' = num (job_deadlineAt j)"
  "js_get (job_props j) ''attempt'' = num (job_attempt j)"
  "js_get (job_props j) ''maxAttempts'' = num (job_maxAttempts j)"
  by (simp_all add: job_props_def js_get_app)

definition opt_key :: "string \<Rightarrow> 'a option \<Rightarrow> string set" where
  "opt_key k x = (if x = None then {} else {k})"

lemma opt_key_mem [simp]: "k' \<in> opt_key k x \<longleftrightarrow> k' = k \<and> x \<noteq> None"
  by (simp add: opt_key_def)

lemma opt_key_sub [simp]: "opt_key k x \<subseteq> S \<longleftrightarrow> x = None \<or> k \<in> S"
  by (cases x) (simp_all add: opt_key_def)

lemma job_keys:
  "set (map fst (job_props j)) =
     {''id'', ''tenantId'', ''operation'', ''resource''} \<union> (opt_key ''sourceRevision'' (job_sourceRevision j) \<union>
     (opt_key ''artifactDigest'' (job_artifactDigest j) \<union> ({''status'', ''workerRole'', ''idempotencyKey''} \<union>
     (opt_key ''capabilityId'' (job_capabilityId j) \<union>
     ({''createdAtEpochSeconds'', ''updatedAtEpochSeconds'', ''deadlineAtEpochSeconds'', ''attempt'', ''maxAttempts''} \<union>
     (opt_key ''startedAtEpochSeconds'' (job_startedAt j) \<union> (opt_key ''completedAtEpochSeconds'' (job_completedAt j) \<union>
     (opt_key ''lastErrorCode'' (job_lastErrorCode j) \<union> (opt_key ''cancellationReason'' (job_cancellationReason j) \<union>
     (opt_key ''cleanupEvidence'' (job_cleanupEvidence j) \<union>
      opt_key ''resultArtifactDigest'' (job_resultArtifactDigest j)))))))))))"
  unfolding job_props_def map_append set_append opt_prop_keys opt_key_def by simp

lemma job_optionals:
  "(''sourceRevision'' \<in> set (map fst (job_props j))) = (job_sourceRevision j \<noteq> None)"
  "(''artifactDigest'' \<in> set (map fst (job_props j))) = (job_artifactDigest j \<noteq> None)"
  "(''capabilityId'' \<in> set (map fst (job_props j))) = (job_capabilityId j \<noteq> None)"
  "(''startedAtEpochSeconds'' \<in> set (map fst (job_props j))) = (job_startedAt j \<noteq> None)"
  "(''completedAtEpochSeconds'' \<in> set (map fst (job_props j))) = (job_completedAt j \<noteq> None)"
  "(''lastErrorCode'' \<in> set (map fst (job_props j))) = (job_lastErrorCode j \<noteq> None)"
  "(''cancellationReason'' \<in> set (map fst (job_props j))) = (job_cancellationReason j \<noteq> None)"
  "(''cleanupEvidence'' \<in> set (map fst (job_props j))) = (job_cleanupEvidence j \<noteq> None)"
  "(''resultArtifactDigest'' \<in> set (map fst (job_props j))) = (job_resultArtifactDigest j \<noteq> None)"
  unfolding job_keys by simp_all

lemma job_optional_values:
  "job_sourceRevision j = Some s \<Longrightarrow> js_get (job_props j) ''sourceRevision'' = JStr s"
  "job_artifactDigest j = Some s \<Longrightarrow> js_get (job_props j) ''artifactDigest'' = JStr s"
  "job_capabilityId j = Some s \<Longrightarrow> js_get (job_props j) ''capabilityId'' = JStr s"
  "job_startedAt j = Some t \<Longrightarrow> js_get (job_props j) ''startedAtEpochSeconds'' = num t"
  "job_completedAt j = Some t \<Longrightarrow> js_get (job_props j) ''completedAtEpochSeconds'' = num t"
  "job_lastErrorCode j = Some s \<Longrightarrow> js_get (job_props j) ''lastErrorCode'' = JStr s"
  "job_cancellationReason j = Some r \<Longrightarrow> js_get (job_props j) ''cancellationReason'' = JStr (reason_name r)"
  "job_cleanupEvidence j = Some s \<Longrightarrow> js_get (job_props j) ''cleanupEvidence'' = JStr s"
  "job_resultArtifactDigest j = Some s \<Longrightarrow> js_get (job_props j) ''resultArtifactDigest'' = JStr s"
  by (simp_all add: job_props_def js_get_app)

lemma job_optional_parsed:
  "assignOptional (job_props j) ''sourceRevision'' path (\<lambda>e p. statePattern e p revision_rx) = Inr x1 \<longleftrightarrow>
     x1 = job_sourceRevision j \<and> opt_all (rx_test revision_rx) (job_sourceRevision j)"
  "assignOptional (job_props j) ''artifactDigest'' path (\<lambda>e p. statePattern e p artifact_rx) = Inr x1 \<longleftrightarrow>
     x1 = job_artifactDigest j \<and> opt_all (rx_test artifact_rx) (job_artifactDigest j)"
  "assignOptional (job_props j) ''capabilityId'' path read_string = Inr x1 \<longleftrightarrow>
     x1 = job_capabilityId j \<and> opt_all nonEmpty (job_capabilityId j)"
  "assignOptional (job_props j) ''startedAtEpochSeconds'' path (\<lambda>e p. stateInteger e p 0) = Inr x2 \<longleftrightarrow>
     x2 = job_startedAt j \<and> opt_all (\<lambda>t. 0 \<le> t) (job_startedAt j)"
  "assignOptional (job_props j) ''completedAtEpochSeconds'' path (\<lambda>e p. stateInteger e p 0) = Inr x2 \<longleftrightarrow>
     x2 = job_completedAt j \<and> opt_all (\<lambda>t. 0 \<le> t) (job_completedAt j)"
  "assignOptional (job_props j) ''lastErrorCode'' path read_string = Inr x1 \<longleftrightarrow>
     x1 = job_lastErrorCode j \<and> opt_all nonEmpty (job_lastErrorCode j)"
  "assignOptional (job_props j) ''cancellationReason'' path (\<lambda>e p. read_enum e p reason_name [ByUser, ByDeadline]) =
     Inr x3 \<longleftrightarrow> x3 = job_cancellationReason j"
  "assignOptional (job_props j) ''cleanupEvidence'' path read_string = Inr x1 \<longleftrightarrow>
     x1 = job_cleanupEvidence j \<and> opt_all nonEmpty (job_cleanupEvidence j)"
  "assignOptional (job_props j) ''resultArtifactDigest'' path (\<lambda>e p. statePattern e p artifact_rx) = Inr x1 \<longleftrightarrow>
     x1 = job_resultArtifactDigest j \<and> opt_all (rx_test artifact_rx) (job_resultArtifactDigest j)"
proof -
  note opt = assignOptional_iff [where enc = JStr, OF job_optionals(1) job_optional_values(1)]
    assignOptional_iff [where enc = JStr, OF job_optionals(2) job_optional_values(2)]
    assignOptional_iff [where enc = JStr, OF job_optionals(3) job_optional_values(3)]
    assignOptional_iff [where enc = num, OF job_optionals(4) job_optional_values(4)]
    assignOptional_iff [where enc = num, OF job_optionals(5) job_optional_values(5)]
    assignOptional_iff [where enc = JStr, OF job_optionals(6) job_optional_values(6)]
    assignOptional_iff [where enc = "\<lambda>r. JStr (reason_name r)", OF job_optionals(7) job_optional_values(7)]
    assignOptional_iff [where enc = JStr, OF job_optionals(8) job_optional_values(8)]
    assignOptional_iff [where enc = JStr, OF job_optionals(9) job_optional_values(9)]
  have rev: "statePattern (JStr y) q revision_rx = Inr z \<longleftrightarrow> rx_test revision_rx y \<and> z = y" for y z q
    using revision_nonEmpty by (auto simp: reads)
  have art: "statePattern (JStr y) q artifact_rx = Inr z \<longleftrightarrow> rx_test artifact_rx y \<and> z = y" for y z q
    using artifact_nonEmpty by (auto simp: reads)
  have str: "read_string (JStr y) q = Inr z \<longleftrightarrow> nonEmpty y \<and> z = y" for y z q
    by (auto simp: reads)
  have int: "stateInteger (num y) q 0 = Inr z \<longleftrightarrow> 0 \<le> y \<and> z = y" for y z q
    by (auto simp: reads num_def)
  have enum: "read_enum (JStr (reason_name y)) q reason_name [ByUser, ByDeadline] = Inr z \<longleftrightarrow> True \<and> z = y" for y z q
    by (cases y; cases z) (auto simp: reads)
  show "assignOptional (job_props j) ''sourceRevision'' path (\<lambda>e p. statePattern e p revision_rx) = Inr x1 \<longleftrightarrow>
     x1 = job_sourceRevision j \<and> opt_all (rx_test revision_rx) (job_sourceRevision j)"
    unfolding opt_all_def by (rule opt(1) [OF _ rev])
  show "assignOptional (job_props j) ''artifactDigest'' path (\<lambda>e p. statePattern e p artifact_rx) = Inr x1 \<longleftrightarrow>
     x1 = job_artifactDigest j \<and> opt_all (rx_test artifact_rx) (job_artifactDigest j)"
    unfolding opt_all_def by (rule opt(2) [OF _ art])
  show "assignOptional (job_props j) ''capabilityId'' path read_string = Inr x1 \<longleftrightarrow>
     x1 = job_capabilityId j \<and> opt_all nonEmpty (job_capabilityId j)"
    unfolding opt_all_def by (rule opt(3) [OF _ str])
  show "assignOptional (job_props j) ''startedAtEpochSeconds'' path (\<lambda>e p. stateInteger e p 0) = Inr x2 \<longleftrightarrow>
     x2 = job_startedAt j \<and> opt_all (\<lambda>t. 0 \<le> t) (job_startedAt j)"
    unfolding opt_all_def by (rule opt(4) [OF _ int])
  show "assignOptional (job_props j) ''completedAtEpochSeconds'' path (\<lambda>e p. stateInteger e p 0) = Inr x2 \<longleftrightarrow>
     x2 = job_completedAt j \<and> opt_all (\<lambda>t. 0 \<le> t) (job_completedAt j)"
    unfolding opt_all_def by (rule opt(5) [OF _ int])
  show "assignOptional (job_props j) ''lastErrorCode'' path read_string = Inr x1 \<longleftrightarrow>
     x1 = job_lastErrorCode j \<and> opt_all nonEmpty (job_lastErrorCode j)"
    unfolding opt_all_def by (rule opt(6) [OF _ str])
  show "assignOptional (job_props j) ''cancellationReason'' path (\<lambda>e p. read_enum e p reason_name [ByUser, ByDeadline]) =
     Inr x3 \<longleftrightarrow> x3 = job_cancellationReason j"
    using opt(7) [where parse = "\<lambda>e p. read_enum e p reason_name [ByUser, ByDeadline]" and P = "\<lambda>_. True"]
      enum by simp
  show "assignOptional (job_props j) ''cleanupEvidence'' path read_string = Inr x1 \<longleftrightarrow>
     x1 = job_cleanupEvidence j \<and> opt_all nonEmpty (job_cleanupEvidence j)"
    unfolding opt_all_def by (rule opt(8) [OF _ str])
  show "assignOptional (job_props j) ''resultArtifactDigest'' path (\<lambda>e p. statePattern e p artifact_rx) = Inr x1 \<longleftrightarrow>
     x1 = job_resultArtifactDigest j \<and> opt_all (rx_test artifact_rx) (job_resultArtifactDigest j)"
    unfolding opt_all_def by (rule opt(9) [OF _ art])
qed

lemma job_object: "read_object (enc_job j) path job_required job_optional = Inr ps \<longleftrightarrow> ps = job_props j"
proof -
  have "set (map fst (job_props j)) \<subseteq> set job_required \<union> set job_optional"
    unfolding job_keys job_required_def job_optional_def by simp
  moreover have "set job_required \<subseteq> set (map fst (job_props j))"
    unfolding job_keys job_required_def by simp
  ultimately show ?thesis
    by (simp only: enc_job_def read_object_iff jsval.inject) blast
qed

lemma job_operation_name_inj [simp]: "job_operation_name a = job_operation_name b \<longleftrightarrow> a = b"
  by (cases a; cases b; simp)

lemma status_name_inj [simp]: "status_name a = status_name b \<longleftrightarrow> a = b"
  by (cases a; cases b; simp)

lemma role_name_inj [simp]: "role_name a = role_name b \<longleftrightarrow> a = b"
  by (cases a; cases b; simp)

lemma action_name_inj [simp]: "action_name a = action_name b \<longleftrightarrow> a = b"
  by (cases a; cases b; simp)

lemmas field_reads = stateJobId_iff stateName_iff enum_readers read_resource_iff read_string_iff
  stateInteger_iff statePattern_iff num_def jsval.inject jsnum.inject job_operation_name_inj
  status_name_inj role_name_inj action_name_inj

lemma parse_enc_job: "parseStateJob (enc_job j) path = Inr j' \<longleftrightarrow> storable_job j \<and> j' = j"
  unfolding parseStateJob_def bind_r_eq_Inr job_object
  by (simp only: simp_thms ex_simps job_lookups field_reads storable_job_def sum.inject conj_assoc
      job_optional_parsed) auto

subsection \<open>Idempotency records, redemptions and deployments\<close>

definition parsePaasIdempotency :: "jsval \<Rightarrow> string \<Rightarrow> string + paas_idempotency" where
  "parsePaasIdempotency v path =
     bind_r (read_object v path [''action'', ''tenantId'', ''idempotencyKey'', ''fingerprint'', ''jobId''] []) (\<lambda>input.
     bind_r (read_enum (js_get input ''action'') (path @ ''.action'') action_name [ActEnqueue, ActCancel]) (\<lambda>vaction.
     bind_r (stateName (js_get input ''tenantId'') (path @ ''.tenantId'')) (\<lambda>vtenant.
     bind_r (read_string (js_get input ''idempotencyKey'') (path @ ''.idempotencyKey'')) (\<lambda>vkey.
     bind_r (statePattern (js_get input ''fingerprint'') (path @ ''.fingerprint'') fingerprint_rx) (\<lambda>vfingerprint.
     bind_r (stateJobId (js_get input ''jobId'') (path @ ''.jobId'')) (\<lambda>vjob.
       Inr \<lparr>idem_action = vaction, idem_tenantId = vtenant, idem_idempotencyKey = vkey,
            idem_fingerprint = vfingerprint, idem_jobId = vjob\<rparr>))))))"

definition enc_idempotency :: "paas_idempotency \<Rightarrow> jsval" where
  "enc_idempotency r =
     JObj [(''action'', JStr (action_name (idem_action r))), (''tenantId'', JStr (idem_tenantId r)),
           (''idempotencyKey'', JStr (idem_idempotencyKey r)), (''fingerprint'', JStr (idem_fingerprint r)),
           (''jobId'', JStr (idem_jobId r))]"

definition storable_idempotency :: "paas_idempotency \<Rightarrow> bool" where
  "storable_idempotency r \<longleftrightarrow>
     rx_test name_rx (idem_tenantId r) \<and> nonEmpty (idem_idempotencyKey r) \<and>
     rx_test fingerprint_rx (idem_fingerprint r) \<and> rx_test jobId_rx (idem_jobId r)"

definition parseCapabilityRedemption :: "jsval \<Rightarrow> string \<Rightarrow> string + paas_redemption" where
  "parseCapabilityRedemption v path =
     bind_r (read_object v path [''capabilityId'', ''tenantId'', ''jobId'', ''redeemedAtEpochSeconds''] []) (\<lambda>input.
     bind_r (read_string (js_get input ''capabilityId'') (path @ ''.capabilityId'')) (\<lambda>vcap.
     bind_r (stateName (js_get input ''tenantId'') (path @ ''.tenantId'')) (\<lambda>vtenant.
     bind_r (stateJobId (js_get input ''jobId'') (path @ ''.jobId'')) (\<lambda>vjob.
     bind_r (stateInteger (js_get input ''redeemedAtEpochSeconds'') (path @ ''.redeemedAtEpochSeconds'') 0) (\<lambda>vat.
       Inr \<lparr>red_capabilityId = vcap, red_tenantId = vtenant, red_jobId = vjob, red_redeemedAt = vat\<rparr>)))))"

definition enc_redemption :: "paas_redemption \<Rightarrow> jsval" where
  "enc_redemption r =
     JObj [(''capabilityId'', JStr (red_capabilityId r)), (''tenantId'', JStr (red_tenantId r)),
           (''jobId'', JStr (red_jobId r)), (''redeemedAtEpochSeconds'', num (red_redeemedAt r))]"

definition storable_redemption :: "paas_redemption \<Rightarrow> bool" where
  "storable_redemption r \<longleftrightarrow>
     nonEmpty (red_capabilityId r) \<and> rx_test name_rx (red_tenantId r) \<and> rx_test jobId_rx (red_jobId r) \<and>
     0 \<le> red_redeemedAt r"

definition parseDeploymentRecord :: "jsval \<Rightarrow> string \<Rightarrow> string + paas_deployment" where
  "parseDeploymentRecord v path =
     bind_r (read_object v path
               [''tenantId'', ''resource'', ''activeArtifactDigest'', ''previousArtifactDigests'', ''generation'',
                ''updatedAtEpochSeconds'', ''sourceJobId''] []) (\<lambda>input.
     bind_r (stateName (js_get input ''tenantId'') (path @ ''.tenantId'')) (\<lambda>vtenant.
     bind_r (read_resource (js_get input ''resource'') (path @ ''.resource'')) (\<lambda>vresource.
     bind_r (statePattern (js_get input ''activeArtifactDigest'') (path @ ''.activeArtifactDigest'') artifact_rx) (\<lambda>vactive.
     bind_r (stateStringArray (js_get input ''previousArtifactDigests'') (path @ ''.previousArtifactDigests'')
               True (Some artifact_rx)) (\<lambda>vprevious.
     bind_r (stateInteger (js_get input ''generation'') (path @ ''.generation'') 1) (\<lambda>vgeneration.
     bind_r (stateInteger (js_get input ''updatedAtEpochSeconds'') (path @ ''.updatedAtEpochSeconds'') 0) (\<lambda>vupdated.
     bind_r (stateJobId (js_get input ''sourceJobId'') (path @ ''.sourceJobId'')) (\<lambda>vjob.
       Inr \<lparr>dep_tenantId = vtenant, dep_resource = vresource, dep_activeArtifactDigest = vactive,
            dep_previousArtifactDigests = vprevious, dep_generation = vgeneration, dep_updatedAt = vupdated,
            dep_sourceJobId = vjob\<rparr>))))))))"

definition enc_deployment :: "paas_deployment \<Rightarrow> jsval" where
  "enc_deployment d =
     JObj [(''tenantId'', JStr (dep_tenantId d)), (''resource'', JStr (dep_resource d)),
           (''activeArtifactDigest'', JStr (dep_activeArtifactDigest d)),
           (''previousArtifactDigests'', JArr (map JStr (dep_previousArtifactDigests d))),
           (''generation'', num (dep_generation d)), (''updatedAtEpochSeconds'', num (dep_updatedAt d)),
           (''sourceJobId'', JStr (dep_sourceJobId d))]"

definition storable_deployment :: "paas_deployment \<Rightarrow> bool" where
  "storable_deployment d \<longleftrightarrow>
     rx_test name_rx (dep_tenantId d) \<and> boundedResource (dep_resource d) \<and>
     rx_test artifact_rx (dep_activeArtifactDigest d) \<and> distinct (dep_previousArtifactDigests d) \<and>
     (\<forall>a \<in> set (dep_previousArtifactDigests d). rx_test artifact_rx a) \<and> 1 \<le> dep_generation d \<and>
     0 \<le> dep_updatedAt d \<and> rx_test jobId_rx (dep_sourceJobId d)"

lemma read_object_props:
  "set (map fst ps) = set req \<Longrightarrow> read_object (JObj ps) path req [] = Inr ps' \<longleftrightarrow> ps' = ps"
  by (auto simp: read_object_iff)

lemma parse_enc_idempotency:
  "parsePaasIdempotency (enc_idempotency r) path = Inr r' \<longleftrightarrow> storable_idempotency r \<and> r' = r"
  using fingerprint_nonEmpty [of "idem_fingerprint r"]
  unfolding parsePaasIdempotency_def enc_idempotency_def bind_r_eq_Inr
  by (subst read_object_props, simp) (auto simp: field_reads storable_idempotency_def simp del: rx_test.simps)

lemma parse_enc_redemption:
  "parseCapabilityRedemption (enc_redemption r) path = Inr r' \<longleftrightarrow> storable_redemption r \<and> r' = r"
  unfolding parseCapabilityRedemption_def enc_redemption_def bind_r_eq_Inr
  by (subst read_object_props, simp) (auto simp: field_reads storable_redemption_def simp del: rx_test.simps)

lemma parse_enc_deployment:
  "parseDeploymentRecord (enc_deployment d) path = Inr d' \<longleftrightarrow> storable_deployment d \<and> d' = d"
proof -
  have art: "(\<forall>x \<in> set xs. nonEmpty x \<and> rx_test artifact_rx x) \<longleftrightarrow> (\<forall>x \<in> set xs. rx_test artifact_rx x)" for xs
    using artifact_nonEmpty by blast
  show ?thesis
    using artifact_nonEmpty [of "dep_activeArtifactDigest d"]
    unfolding parseDeploymentRecord_def enc_deployment_def bind_r_eq_Inr
    by (subst read_object_props, simp)
      (auto simp: field_reads stateStringArray_enc art storable_deployment_def simp del: rx_test.simps)
qed

subsection \<open>The state\<close>

definition state_keys :: "string list" where
  "state_keys =
     [''apiVersion'', ''revision'', ''lastScheduledTenant'', ''jobs'', ''tenantQueues'', ''idempotency'',
      ''redeemedCapabilities'', ''resourceLocks'', ''deployments'']"

definition stateLastTenant :: "jsval \<Rightarrow> string + string option" where
  "stateLastTenant v =
     (if v = JNull then Inr None else bind_r (stateName v ''lastScheduledTenant'') (\<lambda>t. Inr (Some t)))"

definition parsePaasControlState ::
  "(string \<Rightarrow> string) \<Rightarrow> jsval \<Rightarrow> paas_intent \<Rightarrow> string + paas_control_state" where
  "parsePaasControlState sha v intent =
     bind_r (read_object v ''paasControlState'' state_keys []) (\<lambda>root.
     bind_r (read_string (js_get root ''apiVersion'') ''apiVersion'') (\<lambda>vapi.
     bind_r (throw_if (vapi \<noteq> PAAS_CONTROL_STATE_API_VERSION)
               (''paasControlState.apiVersion must be '' @ quoted PAAS_CONTROL_STATE_API_VERSION @ ''.'')) (\<lambda>_.
     bind_r (stateInteger (js_get root ''revision'') ''revision'' 0) (\<lambda>vrevision.
     bind_r (stateLastTenant (js_get root ''lastScheduledTenant'')) (\<lambda>vlast.
     bind_r (read_record (js_get root ''jobs'') ''jobs'' parseStateJob) (\<lambda>vjobs.
     bind_r (read_record (js_get root ''tenantQueues'') ''tenantQueues'' (\<lambda>e p. stateStringArray e p True None)) (\<lambda>vqueues.
     bind_r (read_record (js_get root ''idempotency'') ''idempotency'' parsePaasIdempotency) (\<lambda>videm.
     bind_r (read_record (js_get root ''redeemedCapabilities'') ''redeemedCapabilities'' parseCapabilityRedemption) (\<lambda>vcaps.
     bind_r (read_record (js_get root ''resourceLocks'') ''resourceLocks'' read_string) (\<lambda>vlocks.
     bind_r (read_record (js_get root ''deployments'') ''deployments'' parseDeploymentRecord) (\<lambda>vdeployments.
     (let st = \<lparr>st_revision = vrevision, st_lastScheduledTenant = vlast, st_jobs = vjobs,
                st_tenantQueues = vqueues, st_idempotency = videm, st_redeemedCapabilities = vcaps,
                st_resourceLocks = vlocks, st_deployments = vdeployments\<rparr>
      in bind_r (assertPaasControlState sha st intent) (\<lambda>_. Inr st)))))))))))))"

definition enc_paas_state :: "paas_control_state \<Rightarrow> jsval" where
  "enc_paas_state st =
     JObj [(''apiVersion'', JStr PAAS_CONTROL_STATE_API_VERSION), (''revision'', num (st_revision st)),
           (''lastScheduledTenant'', js_opt (st_lastScheduledTenant st)),
           (''jobs'', enc_obj enc_job (st_jobs st)),
           (''tenantQueues'', enc_obj (\<lambda>q. JArr (map JStr q)) (st_tenantQueues st)),
           (''idempotency'', enc_obj enc_idempotency (st_idempotency st)),
           (''redeemedCapabilities'', enc_obj enc_redemption (st_redeemedCapabilities st)),
           (''resourceLocks'', enc_obj JStr (st_resourceLocks st)),
           (''deployments'', enc_obj enc_deployment (st_deployments st))]"

text \<open>What a sound state lacks for being parsed: the formats of the fields the check leaves out.\<close>

definition paas_storable :: "paas_control_state \<Rightarrow> bool" where
  "paas_storable st \<longleftrightarrow>
     opt_all (rx_test name_rx) (st_lastScheduledTenant st) \<and>
     (\<forall>j \<in> set (obj_values (st_jobs st)). storable_job j) \<and>
     (\<forall>q \<in> set (obj_values (st_tenantQueues st)). distinct q \<and> (\<forall>i \<in> set q. nonEmpty i)) \<and>
     (\<forall>r \<in> set (obj_values (st_idempotency st)). storable_idempotency r) \<and>
     (\<forall>r \<in> set (obj_values (st_redeemedCapabilities st)). storable_redemption r) \<and>
     (\<forall>i \<in> set (obj_values (st_resourceLocks st)). nonEmpty i) \<and>
     (\<forall>d \<in> set (obj_values (st_deployments st)). storable_deployment d)"

lemma last_tenant_parsed:
  "stateLastTenant (js_opt x) = Inr y \<longleftrightarrow> y = x \<and> opt_all (rx_test name_rx) x"
  by (cases x) (auto simp: stateLastTenant_def js_opt_def result_simps reads opt_all_def simp del: rx_test.simps)

lemma api_version_nonEmpty [simp]: "nonEmpty PAAS_CONTROL_STATE_API_VERSION"
  by code_simp

lemma parse_enc_state:
  assumes w: "paas_objects st"
  shows "parsePaasControlState sha (enc_paas_state st) intent = Inr st' \<longleftrightarrow>
    paas_storable st \<and> paas_sound sha intent st \<and> st' = st"
proof -
  have wf: "obj_wf (st_jobs st)" "obj_wf (st_tenantQueues st)" "obj_wf (st_idempotency st)"
    "obj_wf (st_redeemedCapabilities st)" "obj_wf (st_resourceLocks st)" "obj_wf (st_deployments st)"
    using w by (simp_all add: paas_objects_def)
  have queue: "stateStringArray (JArr (map JStr q)) p True None = Inr y \<longleftrightarrow>
      (distinct q \<and> (\<forall>i \<in> set q. nonEmpty i)) \<and> y = q" for q p y
    by (auto simp: stateStringArray_enc)
  have lock: "read_string (JStr i) p = Inr y \<longleftrightarrow> nonEmpty i \<and> y = i" for i p y
    by (auto simp: reads)
  have recs:
    "read_record (enc_obj enc_job (st_jobs st)) p parseStateJob = Inr x1 \<longleftrightarrow>
       (\<forall>j \<in> set (obj_values (st_jobs st)). storable_job j) \<and> x1 = st_jobs st"
    "read_record (enc_obj (\<lambda>q. JArr (map JStr q)) (st_tenantQueues st)) p (\<lambda>e p. stateStringArray e p True None) =
       Inr x2 \<longleftrightarrow>
       (\<forall>q \<in> set (obj_values (st_tenantQueues st)). distinct q \<and> (\<forall>i \<in> set q. nonEmpty i)) \<and>
       x2 = st_tenantQueues st"
    "read_record (enc_obj enc_idempotency (st_idempotency st)) p parsePaasIdempotency = Inr x3 \<longleftrightarrow>
       (\<forall>r \<in> set (obj_values (st_idempotency st)). storable_idempotency r) \<and> x3 = st_idempotency st"
    "read_record (enc_obj enc_redemption (st_redeemedCapabilities st)) p parseCapabilityRedemption = Inr x4 \<longleftrightarrow>
       (\<forall>r \<in> set (obj_values (st_redeemedCapabilities st)). storable_redemption r) \<and> x4 = st_redeemedCapabilities st"
    "read_record (enc_obj JStr (st_resourceLocks st)) p read_string = Inr x5 \<longleftrightarrow>
       (\<forall>i \<in> set (obj_values (st_resourceLocks st)). nonEmpty i) \<and> x5 = st_resourceLocks st"
    "read_record (enc_obj enc_deployment (st_deployments st)) p parseDeploymentRecord = Inr x6 \<longleftrightarrow>
       (\<forall>d \<in> set (obj_values (st_deployments st)). storable_deployment d) \<and> x6 = st_deployments st"
    for p x1 x2 x3 x4 x5 x6
    by (rule read_record_enc [OF parse_enc_job wf(1)], rule read_record_enc [OF queue wf(2)],
        rule read_record_enc [OF parse_enc_idempotency wf(3)], rule read_record_enc [OF parse_enc_redemption wf(4)],
        rule read_record_enc [OF lock wf(5)], rule read_record_enc [OF parse_enc_deployment wf(6)])
  have check: "assertPaasControlState sha st intent = Inr u \<longleftrightarrow> paas_sound sha intent st" for u
    using state_check_iff [OF w, of sha intent] by (auto simp: assertPaasControlState_def split: option.splits)
  have rev: "paas_sound sha intent st \<Longrightarrow> 0 \<le> st_revision st"
    by (simp add: paas_sound_def)
  have eta: "\<lparr>st_revision = st_revision st, st_lastScheduledTenant = st_lastScheduledTenant st,
      st_jobs = st_jobs st, st_tenantQueues = st_tenantQueues st, st_idempotency = st_idempotency st,
      st_redeemedCapabilities = st_redeemedCapabilities st, st_resourceLocks = st_resourceLocks st,
      st_deployments = st_deployments st\<rparr> = st"
    by simp
  show ?thesis
    unfolding parsePaasControlState_def enc_paas_state_def bind_r_eq_Inr Let_def
    by (subst read_object_props, simp add: state_keys_def)
      (use check rev in \<open>auto simp: recs last_tenant_parsed field_reads result_simps paas_storable_def eta\<close>)
qed

lemma parsed_state_ok:
  assumes "parsePaasControlState sha v intent = Inr st"
  shows "paas_ok sha intent st"
proof -
  have wf: "read_record w p parse = Inr ob \<Longrightarrow> obj_wf ob" for w p ob and parse :: "jsval \<Rightarrow> string \<Rightarrow> string + 'b"
    using read_record_valid [of w p parse ob "\<lambda>_. True"] by blast
  have "paas_objects st \<and> stateInvariantError sha st intent = None"
    using assms unfolding parsePaasControlState_def bind_r_eq_Inr Let_def paas_objects_def
    by (elim exE conjE) (auto simp: assertPaasControlState_def dest!: wf split: option.splits)
  then show ?thesis using checked_ok by blast
qed

end
