(* ===== verification/PaasAuth.thy ===== *)
theory PaasAuth
  imports PaasParse
begin

section \<open>PaaS authorization\<close>

text \<open>
  \<open>src/core/paasAuthorization.ts\<close>: the request and its parser, and \<open>authorizePaasRequest\<close>, which
  collects the reasons to deny a request and allows it when there is none.  The times of a
  request and the clock are integers, as the parser guarantees for the request, so the
  \<open>Number.isInteger\<close> tests of the authorizer hold; a field whose type is a single literal
  (\<open>apiVersion\<close>) is left out.  \<open>authorized\<close> is the abstract specification: the conditions under
  which a request is allowed, without reference to the reasons or to the helpers of the authorizer.
\<close>

subsection \<open>Data\<close>

datatype auth_method = Oidc | Mtls

record paas_actor =
  actor_id :: string
  actor_tenantId :: string
  actor_authenticationMethods :: "auth_method list"

record paas_capability =
  cap_id :: string
  cap_issuer :: string
  cap_subject :: string
  cap_tenantId :: string
  cap_audience :: string
  cap_operations :: "paas_operation list"
  cap_resources :: "string list"
  cap_issuedAt :: int
  cap_notBefore :: int
  cap_expiresAt :: int
  cap_cryptographicallyVerified :: bool
  cap_oneUse :: bool

record paas_grant =
  gr_id :: string
  gr_subject :: string
  gr_tenantId :: string
  gr_endpointId :: string
  gr_operations :: "paas_operation list"
  gr_resources :: "string list"
  gr_expiresAt :: "int option"

record paas_request =
  rq_requestId :: string
  rq_endpointId :: string
  rq_actor :: paas_actor
  rq_tenantId :: string
  rq_operation :: paas_operation
  rq_resource :: string
  rq_executionTarget :: execution_target
  rq_idempotencyKey :: "string option"
  rq_sourceRevision :: "string option"
  rq_artifactDigest :: "string option"
  rq_capability :: "paas_capability option"

record paas_auth_state =
  as_now :: int
  as_redeemedCapabilityIds :: "string list"
  as_rbacGrants :: "paas_grant list option"

definition readOnlyOperations :: "paas_operation list" where
  "readOnlyOperations = [OpReadState, OpReadFile, OpPullArtifact]"

definition sourceRevisionOperations :: "paas_operation list" where
  "sourceRevisionOperations = [OpBuild]"

definition artifactDigestOperations :: "paas_operation list" where
  "artifactDigestOperations = [OpDeploy, OpRollback, OpPushArtifact, OpPullArtifact]"

subsection \<open>Parsing a request\<close>

definition PAAS_AUTHORIZATION_REQUEST_API_VERSION :: string where
  "PAAS_AUTHORIZATION_REQUEST_API_VERSION = ''security.deus.dev/paas-authorization-request/v1alpha1''"

definition authorizationName :: "jsval \<Rightarrow> string \<Rightarrow> string + string" where
  "authorizationName v path = read_pattern v path name_rx '' must be a lowercase DNS-style name.''"

definition authorizationPattern :: "jsval \<Rightarrow> string \<Rightarrow> rexp \<Rightarrow> string + string" where
  "authorizationPattern v path rx = read_pattern v path rx '' has an invalid format.''"

definition authorizationEpoch :: "jsval \<Rightarrow> string \<Rightarrow> string + int" where
  "authorizationEpoch v path = read_integer v 0 (path @ '' must be a non-negative integer.'')"

definition authorizationArray ::
  "jsval \<Rightarrow> string \<Rightarrow> (jsval \<Rightarrow> nat \<Rightarrow> string + 'a) \<Rightarrow> string + 'a list" where
  "authorizationArray v path parse =
     (case v of
        JArr vs \<Rightarrow>
          bind_r (throw_if (vs = []) (path @ '' must be a non-empty array.'')) (\<lambda>_.
          bind_r (map_ix (\<lambda>i e. parse e i) 0 vs) (\<lambda>parsed.
          bind_r (throw_if (\<not> distinct parsed) (path @ '' must not contain duplicates.'')) (\<lambda>_.
          Inr parsed)))
      | _ \<Rightarrow> Inl (path @ '' must be a non-empty array.''))"

fun method_name :: "auth_method \<Rightarrow> string" where
  "method_name Oidc = ''oidc''"
| "method_name Mtls = ''mtls''"

definition parseActor :: "jsval \<Rightarrow> string + paas_actor" where
  "parseActor v =
     bind_r (read_object v ''actor'' [''id'', ''tenantId'', ''authenticationMethods''] []) (\<lambda>input.
     bind_r (read_string (js_get input ''id'') ''actor.id'') (\<lambda>vid.
     bind_r (authorizationName (js_get input ''tenantId'') ''actor.tenantId'') (\<lambda>vtenant.
     bind_r (authorizationArray (js_get input ''authenticationMethods'') ''actor.authenticationMethods''
               (\<lambda>e i. read_enum e (quote_path ''actor.authenticationMethods'' i) method_name [Oidc, Mtls])) (\<lambda>vmethods.
       Inr \<lparr>actor_id = vid, actor_tenantId = vtenant, actor_authenticationMethods = vmethods\<rparr>))))"

definition parsePaasCapability :: "jsval \<Rightarrow> string + paas_capability" where
  "parsePaasCapability v =
     bind_r (read_object v ''capability''
               [''id'', ''issuer'', ''subject'', ''tenantId'', ''audience'', ''operations'', ''resources'',
                ''issuedAtEpochSeconds'', ''notBeforeEpochSeconds'', ''expiresAtEpochSeconds'',
                ''cryptographicallyVerified'', ''oneUse''] []) (\<lambda>input.
     bind_r (read_string (js_get input ''id'') ''capability.id'') (\<lambda>vid.
     bind_r (authorizationName (js_get input ''issuer'') ''capability.issuer'') (\<lambda>vissuer.
     bind_r (read_string (js_get input ''subject'') ''capability.subject'') (\<lambda>vsubject.
     bind_r (authorizationName (js_get input ''tenantId'') ''capability.tenantId'') (\<lambda>vtenant.
     bind_r (authorizationName (js_get input ''audience'') ''capability.audience'') (\<lambda>vaudience.
     bind_r (authorizationArray (js_get input ''operations'') ''capability.operations''
               (\<lambda>e i. read_enum e (quote_path ''capability.operations'' i) operation_name operations)) (\<lambda>voperations.
     bind_r (authorizationArray (js_get input ''resources'') ''capability.resources''
               (\<lambda>e i. read_resource e (quote_path ''capability.resources'' i))) (\<lambda>vresources.
     bind_r (authorizationEpoch (js_get input ''issuedAtEpochSeconds'') ''capability.issuedAtEpochSeconds'') (\<lambda>vissued.
     bind_r (authorizationEpoch (js_get input ''notBeforeEpochSeconds'') ''capability.notBeforeEpochSeconds'') (\<lambda>vbefore.
     bind_r (authorizationEpoch (js_get input ''expiresAtEpochSeconds'') ''capability.expiresAtEpochSeconds'') (\<lambda>vexpires.
     bind_r (read_boolean (js_get input ''cryptographicallyVerified'') ''capability.cryptographicallyVerified'') (\<lambda>vverified.
     bind_r (read_boolean (js_get input ''oneUse'') ''capability.oneUse'') (\<lambda>vone.
       Inr \<lparr>cap_id = vid, cap_issuer = vissuer, cap_subject = vsubject, cap_tenantId = vtenant,
            cap_audience = vaudience, cap_operations = voperations, cap_resources = vresources,
            cap_issuedAt = vissued, cap_notBefore = vbefore, cap_expiresAt = vexpires,
            cap_cryptographicallyVerified = vverified, cap_oneUse = vone\<rparr>)))))))))))))"

definition request_required :: "string list" where
  "request_required =
     [''apiVersion'', ''requestId'', ''endpointId'', ''actor'', ''tenantId'', ''operation'', ''resource'',
      ''executionTarget'']"

definition request_optional :: "string list" where
  "request_optional = [''idempotencyKey'', ''sourceRevision'', ''artifactDigest'', ''capability'']"

definition parsePaasAuthorizationRequest :: "jsval \<Rightarrow> string + paas_request" where
  "parsePaasAuthorizationRequest v =
     bind_r (read_object v ''paasAuthorizationRequest'' request_required request_optional) (\<lambda>root.
     bind_r (read_string (js_get root ''apiVersion'') ''apiVersion'') (\<lambda>vapi.
     bind_r (throw_if (vapi \<noteq> PAAS_AUTHORIZATION_REQUEST_API_VERSION)
               (''paasAuthorizationRequest.apiVersion must be '' @ quoted PAAS_AUTHORIZATION_REQUEST_API_VERSION @ ''.'')) (\<lambda>_.
     bind_r (read_string (js_get root ''requestId'') ''requestId'') (\<lambda>vrequest.
     bind_r (authorizationName (js_get root ''endpointId'') ''endpointId'') (\<lambda>vendpoint.
     bind_r (parseActor (js_get root ''actor'')) (\<lambda>vactor.
     bind_r (authorizationName (js_get root ''tenantId'') ''tenantId'') (\<lambda>vtenant.
     bind_r (read_enum (js_get root ''operation'') ''operation'' operation_name operations) (\<lambda>voperation.
     bind_r (read_resource (js_get root ''resource'') ''resource'') (\<lambda>vresource.
     bind_r (read_enum (js_get root ''executionTarget'') ''executionTarget'' target_name
               [ControlPlane, TenantSandbox, Host]) (\<lambda>vtarget.
     bind_r (if ''idempotencyKey'' \<in> set (map fst root)
             then bind_r (read_string (js_get root ''idempotencyKey'') ''idempotencyKey'') (\<lambda>x. Inr (Some x))
             else Inr None) (\<lambda>vkey.
     bind_r (if ''sourceRevision'' \<in> set (map fst root)
             then bind_r (authorizationPattern (js_get root ''sourceRevision'') ''sourceRevision'' revision_rx) (\<lambda>x. Inr (Some x))
             else Inr None) (\<lambda>vrevision.
     bind_r (if ''artifactDigest'' \<in> set (map fst root)
             then bind_r (authorizationPattern (js_get root ''artifactDigest'') ''artifactDigest'' artifact_rx) (\<lambda>x. Inr (Some x))
             else Inr None) (\<lambda>vartifact.
     bind_r (if ''capability'' \<in> set (map fst root)
             then bind_r (parsePaasCapability (js_get root ''capability'')) (\<lambda>x. Inr (Some x))
             else Inr None) (\<lambda>vcap.
       Inr \<lparr>rq_requestId = vrequest, rq_endpointId = vendpoint, rq_actor = vactor, rq_tenantId = vtenant,
            rq_operation = voperation, rq_resource = vresource, rq_executionTarget = vtarget,
            rq_idempotencyKey = vkey, rq_sourceRevision = vrevision, rq_artifactDigest = vartifact,
            rq_capability = vcap\<rparr>))))))))))))))"

subsection \<open>The decision\<close>

text \<open>\<open>deny(code)\<close> adds a reason once.\<close>

definition deny_if :: "bool \<Rightarrow> paas_reason \<Rightarrow> paas_reason list \<Rightarrow> paas_reason list" where
  "deny_if b code reasons = (if b \<and> code \<notin> set reasons then reasons @ [code] else reasons)"

definition authenticationSatisfies :: "endpoint_authentication \<Rightarrow> paas_actor \<Rightarrow> bool" where
  "authenticationSatisfies required actor =
     (let methods = set (actor_authenticationMethods actor)
      in case required of
           AuthOidc \<Rightarrow> Oidc \<in> methods
         | AuthMtls \<Rightarrow> Mtls \<in> methods
         | AuthOidcMtls \<Rightarrow> Oidc \<in> methods \<and> Mtls \<in> methods
         | AuthNone \<Rightarrow> False)"

definition hasRbacGrant :: "paas_request \<Rightarrow> paas_auth_state \<Rightarrow> bool" where
  "hasRbacGrant rq st =
     list_ex (\<lambda>g.
       nonEmpty (gr_id g) \<and>
       gr_subject g = actor_id (rq_actor rq) \<and>
       gr_tenantId g = rq_tenantId rq \<and>
       gr_endpointId g = rq_endpointId rq \<and>
       rq_operation rq \<in> set (gr_operations g) \<and>
       rq_resource rq \<in> set (gr_resources g) \<and>
       list_all boundedResource (gr_resources g) \<and>
       (case gr_expiresAt g of None \<Rightarrow> True | Some t \<Rightarrow> as_now st < t))
       (case as_rbacGrants st of None \<Rightarrow> [] | Some gs \<Rightarrow> gs)"

definition evaluateCapability ::
  "paas_intent \<Rightarrow> paas_request \<Rightarrow> paas_auth_state \<Rightarrow> bool \<Rightarrow> paas_reason list \<Rightarrow> paas_reason list" where
  "evaluateCapability intent rq st mutating reasons =
     (case rq_capability rq of
        None \<Rightarrow> deny_if True CAPABILITY_MISSING reasons
      | Some cap \<Rightarrow>
          (let r1 = deny_if (\<not> nonEmpty (cap_id cap) \<or> \<not> nonEmpty (cap_issuer cap) \<or>
                      \<not> nonEmpty (cap_subject cap) \<or> \<not> nonEmpty (cap_tenantId cap) \<or>
                      \<not> nonEmpty (cap_audience cap) \<or> cap_operations cap = [] \<or> cap_resources cap = [])
                      CAPABILITY_INVALID reasons;
               r2 = deny_if (\<not> cap_cryptographicallyVerified cap) CAPABILITY_UNVERIFIED r1;
               r3 = deny_if (cap_issuer cap \<notin> set (ac_trustedCapabilityIssuers (in_accessControl intent)))
                      CAPABILITY_ISSUER_UNTRUSTED r2;
               r4 = deny_if (cap_subject cap \<noteq> actor_id (rq_actor rq)) CAPABILITY_SUBJECT_MISMATCH r3;
               r5 = deny_if (cap_tenantId cap \<noteq> rq_tenantId rq) CAPABILITY_TENANT_MISMATCH r4;
               r6 = deny_if (cap_audience cap \<noteq> rq_endpointId rq) CAPABILITY_AUDIENCE_MISMATCH r5;
               r7 = deny_if (rq_operation rq \<notin> set (cap_operations cap)) CAPABILITY_OPERATION_DENIED r6;
               r8 = deny_if (rq_resource rq \<notin> set (cap_resources cap) \<or>
                      list_ex (\<lambda>r. \<not> boundedResource r) (cap_resources cap)) CAPABILITY_RESOURCE_DENIED r7;
               r9 = deny_if (cap_issuedAt cap < 0 \<or> cap_notBefore cap < cap_issuedAt cap \<or>
                      cap_expiresAt cap \<le> cap_notBefore cap \<or> as_now st < cap_notBefore cap \<or>
                      cap_expiresAt cap \<le> as_now st) CAPABILITY_TIME_INVALID r8;
               r10 = deny_if (ac_maxCapabilityTtlSeconds (in_accessControl intent) <
                      cap_expiresAt cap - cap_issuedAt cap) CAPABILITY_TTL_EXCEEDED r9;
               r11 = deny_if (cap_id cap \<in> set (as_redeemedCapabilityIds st)) AUTH_CAPABILITY_REPLAYED r10
           in deny_if (mutating \<and> ac_oneUseMutations (in_accessControl intent) \<and> \<not> cap_oneUse cap)
                CAPABILITY_NOT_ONE_USE r11))"

text \<open>The reasons to deny a request, in the order in which the source finds them.\<close>

definition request_reasons :: "paas_intent \<Rightarrow> paas_request \<Rightarrow> paas_auth_state \<Rightarrow> paas_reason list" where
  "request_reasons intent rq st =
     (let endpoint = List.find (\<lambda>e. ep_id e = rq_endpointId rq) (in_endpoints intent);
          mutating = (rq_operation rq \<notin> set readOnlyOperations);
          r1 = deny_if (\<not> nonEmpty (rq_requestId rq) \<or> \<not> nonEmpty (actor_id (rq_actor rq)) \<or>
                 \<not> nonEmpty (actor_tenantId (rq_actor rq)) \<or> \<not> nonEmpty (rq_tenantId rq) \<or>
                 \<not> boundedResource (rq_resource rq) \<or> as_now st < 0) REQUEST_INVALID [];
          r2 = (case endpoint of
                  None \<Rightarrow> deny_if True ENDPOINT_UNKNOWN r1
                | Some e \<Rightarrow>
                    deny_if (rq_executionTarget rq \<noteq> ep_executionTarget e) EXECUTION_TARGET_INVALID
                    (deny_if (rq_executionTarget rq = Host) HOST_EXECUTION_DENIED
                    (deny_if (\<not> authenticationSatisfies (ep_authentication e) (rq_actor rq)) AUTHENTICATION_INSUFFICIENT
                    (deny_if (rq_operation rq \<notin> set (ep_operations e)) OPERATION_UNDECLARED r1))));
          r3 = deny_if (\<not> list_ex (\<lambda>t. tq_tenantId t = rq_tenantId rq) (in_tenants intent)) AUTH_TENANT_UNKNOWN r2;
          r4 = deny_if (actor_tenantId (rq_actor rq) \<noteq> rq_tenantId rq \<or>
                 (case endpoint of None \<Rightarrow> False
                  | Some e \<Rightarrow> ep_tenantBindingRequired e \<and> rq_tenantId rq = [])) TENANT_MISMATCH r3;
          r5 = deny_if (mutating \<and> ac_idempotencyKeys (in_accessControl intent) \<and>
                 \<not> nonEmpty_opt (rq_idempotencyKey rq)) IDEMPOTENCY_KEY_MISSING r4;
          r6 = deny_if (rq_operation rq \<in> set sourceRevisionOperations \<and>
                 \<not> rx_test revision_rx (case rq_sourceRevision rq of None \<Rightarrow> [] | Some s \<Rightarrow> s)) SOURCE_REVISION_MISSING r5;
          r7 = deny_if (rq_operation rq \<in> set artifactDigestOperations \<and>
                 \<not> rx_test artifact_rx (case rq_artifactDigest rq of None \<Rightarrow> [] | Some s \<Rightarrow> s)) ARTIFACT_DIGEST_MISSING r6
      in case endpoint of
           None \<Rightarrow> r7
         | Some e \<Rightarrow>
             (case ep_authorization e of
                ModeCapability \<Rightarrow> evaluateCapability intent rq st mutating r7
              | ModeRbac \<Rightarrow> deny_if (\<not> hasRbacGrant rq st) RBAC_GRANT_MISSING r7
              | ModeNone \<Rightarrow> deny_if True AUTHORIZATION_MODE_UNSAFE r7))"

definition authorizePaasRequest :: "paas_intent \<Rightarrow> paas_request \<Rightarrow> paas_auth_state \<Rightarrow> paas_decision" where
  "authorizePaasRequest intent rq st =
     (let reasons = request_reasons intent rq st;
          allowed = (reasons = [])
      in \<lparr>dec_allowed = allowed, dec_evaluatedAt = NInt (as_now st), dec_reasonCodes = reasons,
          dec_capabilityToRedeem =
            (case rq_capability rq of
               Some cap \<Rightarrow> if allowed \<and> cap_oneUse cap then Some (cap_id cap) else None
             | None \<Rightarrow> None),
          dec_audit =
            \<lparr>aud_actor = actor_id (rq_actor rq), aud_tenant = rq_tenantId rq, aud_requestId = rq_requestId rq,
             aud_operation = rq_operation rq, aud_endpoint = rq_endpointId rq, aud_resource = rq_resource rq,
             aud_executionTarget = rq_executionTarget rq, aud_sourceRevision = rq_sourceRevision rq,
             aud_artifactDigest = rq_artifactDigest rq, aud_allow = allowed,
             aud_decisionEpochSeconds = NInt (as_now st), aud_reasonCodes = reasons,
             aud_capabilityId = map_option cap_id (rq_capability rq),
             aud_idempotencyKey = rq_idempotencyKey rq\<rparr>\<rparr>)"

subsection \<open>The specification\<close>

text \<open>
  The rule, without the authorizer's helper functions: what is a name and a bounded resource, which
  operations change nothing, the formats of a revision and a digest, which methods of
  authentication an endpoint asks for (both for \<open>oidc+mtls\<close>; an endpoint without authentication
  can never be used), and when a capability or a role grant covers a request.
\<close>

definition spec_name :: "string \<Rightarrow> bool" where
  "spec_name s \<longleftrightarrow> (\<exists>c \<in> set s. \<not> is_space c)"

definition spec_resource :: "string \<Rightarrow> bool" where
  "spec_resource s \<longleftrightarrow> spec_name s \<and> CHR ''*'' \<notin> set s"

definition spec_changes :: "paas_operation \<Rightarrow> bool" where
  "spec_changes op \<longleftrightarrow> op \<noteq> OpReadState \<and> op \<noteq> OpReadFile \<and> op \<noteq> OpPullArtifact"

definition spec_hex :: "string \<Rightarrow> bool" where
  "spec_hex s \<longleftrightarrow>
     (\<forall>c \<in> set s. CHR ''0'' \<le> c \<and> c \<le> CHR ''9'' \<or> CHR ''a'' \<le> c \<and> c \<le> CHR ''f'')"

fun required_methods :: "endpoint_authentication \<Rightarrow> auth_method set option" where
  "required_methods AuthOidc = Some {Oidc}"
| "required_methods AuthMtls = Some {Mtls}"
| "required_methods AuthOidcMtls = Some {Oidc, Mtls}"
| "required_methods AuthNone = None"

definition capability_grants ::
  "paas_intent \<Rightarrow> paas_request \<Rightarrow> paas_auth_state \<Rightarrow> paas_capability \<Rightarrow> bool" where
  "capability_grants intent rq st cap \<longleftrightarrow>
     spec_name (cap_id cap) \<and> spec_name (cap_issuer cap) \<and> cap_cryptographicallyVerified cap \<and>
     cap_issuer cap \<in> set (ac_trustedCapabilityIssuers (in_accessControl intent)) \<and>
     cap_subject cap = actor_id (rq_actor rq) \<and> cap_tenantId cap = rq_tenantId rq \<and>
     cap_audience cap = rq_endpointId rq \<and> spec_name (rq_endpointId rq) \<and>
     rq_operation rq \<in> set (cap_operations cap) \<and> rq_resource rq \<in> set (cap_resources cap) \<and>
     (\<forall>r \<in> set (cap_resources cap). spec_resource r) \<and>
     0 \<le> cap_issuedAt cap \<and> cap_issuedAt cap \<le> cap_notBefore cap \<and>
     cap_notBefore cap \<le> as_now st \<and> as_now st < cap_expiresAt cap \<and>
     cap_expiresAt cap - cap_issuedAt cap \<le> ac_maxCapabilityTtlSeconds (in_accessControl intent) \<and>
     cap_id cap \<notin> set (as_redeemedCapabilityIds st) \<and>
     (spec_changes (rq_operation rq) \<and> ac_oneUseMutations (in_accessControl intent) \<longrightarrow> cap_oneUse cap)"

definition role_grants :: "paas_request \<Rightarrow> paas_auth_state \<Rightarrow> paas_grant \<Rightarrow> bool" where
  "role_grants rq st g \<longleftrightarrow>
     spec_name (gr_id g) \<and> gr_subject g = actor_id (rq_actor rq) \<and> gr_tenantId g = rq_tenantId rq \<and>
     gr_endpointId g = rq_endpointId rq \<and> rq_operation rq \<in> set (gr_operations g) \<and>
     rq_resource rq \<in> set (gr_resources g) \<and> (\<forall>r \<in> set (gr_resources g). spec_resource r) \<and>
     (\<forall>t. gr_expiresAt g = Some t \<longrightarrow> as_now st < t)"

definition authorized :: "paas_intent \<Rightarrow> paas_request \<Rightarrow> paas_auth_state \<Rightarrow> bool" where
  "authorized intent rq st \<longleftrightarrow>
     spec_name (rq_requestId rq) \<and> spec_name (actor_id (rq_actor rq)) \<and> spec_name (rq_tenantId rq) \<and>
     spec_resource (rq_resource rq) \<and> 0 \<le> as_now st \<and>
     actor_tenantId (rq_actor rq) = rq_tenantId rq \<and>
     (\<exists>q \<in> set (in_tenants intent). tq_tenantId q = rq_tenantId rq) \<and>
     (spec_changes (rq_operation rq) \<and> ac_idempotencyKeys (in_accessControl intent) \<longrightarrow>
        (\<exists>key. rq_idempotencyKey rq = Some key \<and> spec_name key)) \<and>
     (rq_operation rq = OpBuild \<longrightarrow>
        (\<exists>r. rq_sourceRevision rq = Some r \<and> 40 \<le> length r \<and> length r \<le> 64 \<and> spec_hex r)) \<and>
     (rq_operation rq \<in> {OpDeploy, OpRollback, OpPushArtifact, OpPullArtifact} \<longrightarrow>
        (\<exists>d. rq_artifactDigest rq = Some (''sha256:'' @ d) \<and> length d = 64 \<and> spec_hex d)) \<and>
     (\<exists>before e after. in_endpoints intent = before @ e # after \<and> ep_id e = rq_endpointId rq \<and>
        (\<forall>e' \<in> set before. ep_id e' \<noteq> rq_endpointId rq) \<and>
        rq_operation rq \<in> set (ep_operations e) \<and>
        (\<exists>ms. required_methods (ep_authentication e) = Some ms \<and> ms \<subseteq> set (actor_authenticationMethods (rq_actor rq))) \<and>
        rq_executionTarget rq = ep_executionTarget e \<and> rq_executionTarget rq \<noteq> Host \<and>
        (ep_authorization e = ModeCapability \<and> (\<exists>cap. rq_capability rq = Some cap \<and> capability_grants intent rq st cap) \<or>
         ep_authorization e = ModeRbac \<and> (\<exists>gs. as_rbacGrants st = Some gs \<and> (\<exists>g \<in> set gs. role_grants rq st g))))"

subsection \<open>The decision meets the specification\<close>

lemma spec_name_iff: "spec_name s \<longleftrightarrow> nonEmpty s"
  by (simp add: spec_name_def nonEmpty_def list_ex_iff)

lemma spec_resource_iff: "spec_resource s \<longleftrightarrow> boundedResource s"
  by (simp add: spec_resource_def boundedResource_def spec_name_iff)

lemma spec_changes_iff: "spec_changes op \<longleftrightarrow> op \<notin> set readOnlyOperations"
  by (simp add: spec_changes_def readOnlyOperations_def)

lemma spec_hex_iff: "spec_hex s \<longleftrightarrow> list_all lower_hex s"
  by (auto simp: spec_hex_def list_all_iff lower_hex_def in_range_def)

lemma spec_revision_iff:
  "(\<exists>r. v = Some r \<and> 40 \<le> length r \<and> length r \<le> 64 \<and> spec_hex r) \<longleftrightarrow>
   rx_test revision_rx (case v of None \<Rightarrow> [] | Some s \<Rightarrow> s)"
  by (cases v) (simp_all add: spec_hex_iff revision_rx_def rx_test_rep_cls conj_ac)

lemma spec_digest_iff:
  "(\<exists>d. v = Some (''sha256:'' @ d) \<and> length d = 64 \<and> spec_hex d) \<longleftrightarrow>
   rx_test artifact_rx (case v of None \<Rightarrow> [] | Some s \<Rightarrow> s)"
proof (cases v)
  case None
  have "\<not> rx_test artifact_rx []" unfolding artifact_rx_def rx_test_seq rx_test_str by simp
  with None show ?thesis by simp
next
  case (Some s)
  have "(\<exists>d. s = ''sha256:'' @ d \<and> length d = 64 \<and> list_all lower_hex d) \<longleftrightarrow> rx_test artifact_rx s"
    unfolding artifact_rx_def rx_test_seq rx_test_str rx_test_times_cls by blast
  with Some show ?thesis by (simp only: spec_hex_iff option.case option.inject)
qed

lemma spec_methods_iff:
  "(\<exists>ms. required_methods m = Some ms \<and> ms \<subseteq> set (actor_authenticationMethods a)) \<longleftrightarrow> authenticationSatisfies m a"
  by (cases m) (simp_all add: authenticationSatisfies_def Let_def)

lemma spec_roles_iff:
  "(\<exists>gs. as_rbacGrants st = Some gs \<and> (\<exists>g \<in> set gs. role_grants rq st g)) \<longleftrightarrow> hasRbacGrant rq st"
proof -
  have expiry: "(\<forall>t. x = Some t \<longrightarrow> n < t) \<longleftrightarrow> (case x of None \<Rightarrow> True | Some t \<Rightarrow> n < t)" for x and n :: int
    by (cases x) simp_all
  show ?thesis
    by (cases "as_rbacGrants st")
      (simp_all add: hasRbacGrant_def role_grants_def list_ex_iff list_all_iff spec_name_iff spec_resource_iff expiry)
qed

lemma find_first_split:
  "List.find P xs = Some e \<longleftrightarrow> P e \<and> (\<exists>before after. xs = before @ e # after \<and> (\<forall>x \<in> set before. \<not> P x))"
proof (induction xs)
  case (Cons x xs)
  have "(\<exists>before after. x # xs = before @ e # after \<and> (\<forall>y \<in> set before. \<not> P y)) \<longleftrightarrow>
      x = e \<or> \<not> P x \<and> (\<exists>us after. xs = us @ e # after \<and> (\<forall>y \<in> set us. \<not> P y))" (is "?L \<longleftrightarrow> ?R")
  proof
    assume ?L
    then obtain us after where "x # xs = us @ e # after" "\<forall>y \<in> set us. \<not> P y" by blast
    then show ?R by (cases us) auto
  next
    assume ?R
    then show ?L
    proof
      assume "x = e"
      then show ?L by (intro exI [of _ "[]"] exI [of _ xs]) simp
    next
      assume "\<not> P x \<and> (\<exists>us after. xs = us @ e # after \<and> (\<forall>y \<in> set us. \<not> P y))"
      then obtain us after where "\<not> P x" "xs = us @ e # after" "\<forall>y \<in> set us. \<not> P y" by blast
      then show ?L by (intro exI [of _ "x # us"] exI [of _ after]) simp
    qed
  qed
  with Cons show ?case by auto
qed simp

lemma first_endpoint:
  "(\<exists>before e after. xs = before @ e # after \<and> f e = i \<and> (\<forall>e' \<in> set before. f e' \<noteq> i) \<and> Q e) \<longleftrightarrow>
   (\<exists>e. List.find (\<lambda>e. f e = i) xs = Some e \<and> Q e)"
  unfolding find_first_split by blast

lemma authorized_closed:
  "authorized intent rq st \<longleftrightarrow>
     nonEmpty (rq_requestId rq) \<and> nonEmpty (actor_id (rq_actor rq)) \<and> nonEmpty (rq_tenantId rq) \<and>
     boundedResource (rq_resource rq) \<and> 0 \<le> as_now st \<and>
     actor_tenantId (rq_actor rq) = rq_tenantId rq \<and> rq_tenantId rq \<in> set (tenant_ids intent) \<and>
     (rq_operation rq \<notin> set readOnlyOperations \<and> ac_idempotencyKeys (in_accessControl intent) \<longrightarrow>
        nonEmpty_opt (rq_idempotencyKey rq)) \<and>
     (rq_operation rq = OpBuild \<longrightarrow>
        rx_test revision_rx (case rq_sourceRevision rq of None \<Rightarrow> [] | Some s \<Rightarrow> s)) \<and>
     (rq_operation rq \<in> {OpDeploy, OpRollback, OpPushArtifact, OpPullArtifact} \<longrightarrow>
        rx_test artifact_rx (case rq_artifactDigest rq of None \<Rightarrow> [] | Some s \<Rightarrow> s)) \<and>
     (\<exists>e. List.find (\<lambda>e. ep_id e = rq_endpointId rq) (in_endpoints intent) = Some e \<and>
        rq_operation rq \<in> set (ep_operations e) \<and>
        authenticationSatisfies (ep_authentication e) (rq_actor rq) \<and>
        rq_executionTarget rq = ep_executionTarget e \<and> rq_executionTarget rq \<noteq> Host \<and>
        (case ep_authorization e of
           ModeCapability \<Rightarrow> (\<exists>cap. rq_capability rq = Some cap \<and> capability_grants intent rq st cap)
         | ModeRbac \<Rightarrow> hasRbacGrant rq st
         | ModeNone \<Rightarrow> False))"
proof -
  have tenants: "(\<exists>q \<in> set (in_tenants intent). tq_tenantId q = t) \<longleftrightarrow> t \<in> set (tenant_ids intent)" for t
    by (auto simp: tenant_ids_def)
  have key: "(\<exists>key. v = Some key \<and> spec_name key) \<longleftrightarrow> nonEmpty_opt v" for v
    by (cases v) (simp_all add: nonEmpty_opt_def spec_name_iff)
  have mode: "(m = ModeCapability \<and> A \<or> m = ModeRbac \<and> B) \<longleftrightarrow>
      (case m of ModeCapability \<Rightarrow> A | ModeRbac \<Rightarrow> B | ModeNone \<Rightarrow> False)" for m A B
    by (cases m) simp_all
  show ?thesis
    unfolding authorized_def first_endpoint spec_methods_iff spec_roles_iff spec_revision_iff spec_digest_iff spec_name_iff
      spec_resource_iff spec_changes_iff tenants key [unfolded spec_name_iff] mode
    by (rule refl)
qed

lemma deny_if_Nil: "deny_if b code reasons = [] \<longleftrightarrow> \<not> b \<and> reasons = []"
  by (auto simp: deny_if_def)

lemma deny_if_distinct: "distinct reasons \<Longrightarrow> distinct (deny_if b code reasons)"
  by (simp add: deny_if_def)

lemma reasons_distinct: "distinct (dec_reasonCodes (authorizePaasRequest intent rq st))"
proof -
  have capability: "distinct rs \<Longrightarrow> distinct (evaluateCapability intent rq st m rs)" for m rs
    unfolding evaluateCapability_def Let_def by (auto intro!: deny_if_distinct split: option.split)
  have "distinct (request_reasons intent rq st)"
    unfolding request_reasons_def Let_def
    by (auto intro!: deny_if_distinct capability split: option.split endpoint_authorization.split)
  then show ?thesis by (simp add: authorizePaasRequest_def Let_def)
qed

lemma capability_reasons:
  assumes "nonEmpty (actor_id (rq_actor rq))" "nonEmpty (rq_tenantId rq)"
  shows "evaluateCapability intent rq st (rq_operation rq \<notin> set readOnlyOperations) rs = [] \<longleftrightarrow>
    rs = [] \<and> (\<exists>cap. rq_capability rq = Some cap \<and> capability_grants intent rq st cap)"
proof (cases "rq_capability rq")
  case None
  then show ?thesis by (simp add: evaluateCapability_def deny_if_Nil)
next
  case (Some cap)
  have "rq_operation rq \<in> set (cap_operations cap) \<Longrightarrow> cap_operations cap \<noteq> []"
    "rq_resource rq \<in> set (cap_resources cap) \<Longrightarrow> cap_resources cap \<noteq> []" by auto
  with assms show ?thesis
    by (simp only: evaluateCapability_def Some option.case Let_def deny_if_Nil capability_grants_def
        spec_name_iff spec_resource_iff spec_changes_iff list_ex_iff option.inject) (auto simp: not_less not_le)
qed

lemma allowed_iff: "dec_allowed (authorizePaasRequest intent rq st) \<longleftrightarrow> authorized intent rq st"
proof -
  have tenants: "list_ex (\<lambda>t. tq_tenantId t = rq_tenantId rq) (in_tenants intent) \<longleftrightarrow>
      rq_tenantId rq \<in> set (tenant_ids intent)"
    by (auto simp: list_ex_iff tenant_ids_def intro: rev_image_eqI)
  have empty: "nonEmpty (rq_tenantId rq) \<Longrightarrow> rq_tenantId rq \<noteq> []"
    by (rule nonEmpty_not_Nil)
  have "dec_allowed (authorizePaasRequest intent rq st) \<longleftrightarrow> request_reasons intent rq st = []"
    by (simp add: authorizePaasRequest_def Let_def)
  also have "\<dots> \<longleftrightarrow> authorized intent rq st"
  proof (cases "List.find (\<lambda>e. ep_id e = rq_endpointId rq) (in_endpoints intent)")
    case None
    then show ?thesis by (simp add: request_reasons_def Let_def authorized_closed deny_if_Nil)
  next
    case (Some e)
    show ?thesis
    proof (cases "nonEmpty (actor_id (rq_actor rq)) \<and> nonEmpty (rq_tenantId rq)")
      case True
      then have ne: "nonEmpty (actor_id (rq_actor rq))" "nonEmpty (rq_tenantId rq)" by auto
      have ops: "rq_operation rq \<in> set sourceRevisionOperations \<longleftrightarrow> rq_operation rq = OpBuild"
        "rq_operation rq \<in> set artifactDigestOperations \<longleftrightarrow>
          rq_operation rq \<in> {OpDeploy, OpRollback, OpPushArtifact, OpPullArtifact}"
        by (simp_all add: sourceRevisionOperations_def artifactDigestOperations_def)
      note simps = request_reasons_def Let_def authorized_closed Some option.case option.inject deny_if_Nil tenants ops
        capability_reasons [OF ne] not_less empty [OF ne(2)] ne simp_thms endpoint_authorization.case
      show ?thesis
        by (cases "ep_authorization e"; simp only: simps de_Morgan_disj not_not) (use ne(2) in metis)+
    next
      case False
      have "request_reasons intent rq st \<noteq> []"
        using Some False
        by (cases "ep_authorization e"; cases "rq_capability rq")
          (auto simp: request_reasons_def Let_def deny_if_Nil evaluateCapability_def)
      with False show ?thesis by (auto simp: authorized_closed)
    qed
  qed
  finally show ?thesis .
qed

lemma decision_fields [simp]:
  "dec_evaluatedAt (authorizePaasRequest intent rq st) = NInt (as_now st)"
  "aud_decisionEpochSeconds (dec_audit (authorizePaasRequest intent rq st)) = NInt (as_now st)"
  "aud_tenant (dec_audit (authorizePaasRequest intent rq st)) = rq_tenantId rq"
  "aud_operation (dec_audit (authorizePaasRequest intent rq st)) = rq_operation rq"
  "aud_resource (dec_audit (authorizePaasRequest intent rq st)) = rq_resource rq"
  "aud_idempotencyKey (dec_audit (authorizePaasRequest intent rq st)) = rq_idempotencyKey rq"
  "aud_sourceRevision (dec_audit (authorizePaasRequest intent rq st)) = rq_sourceRevision rq"
  "aud_artifactDigest (dec_audit (authorizePaasRequest intent rq st)) = rq_artifactDigest rq"
  "aud_capabilityId (dec_audit (authorizePaasRequest intent rq st)) = map_option cap_id (rq_capability rq)"
  "aud_allow (dec_audit (authorizePaasRequest intent rq st)) = dec_allowed (authorizePaasRequest intent rq st)"
  by (simp_all add: authorizePaasRequest_def Let_def)

lemma decision_redeems:
  "dec_capabilityToRedeem (authorizePaasRequest intent rq st) =
     (case rq_capability rq of
        Some cap \<Rightarrow> if authorized intent rq st \<and> cap_oneUse cap then Some (cap_id cap) else None
      | None \<Rightarrow> None)"
  unfolding allowed_iff [symmetric] by (simp add: authorizePaasRequest_def Let_def split: option.split)

end
