(* ===== verification/PaasExamples.thy ===== *)
theory PaasExamples
  imports PaasHistory PaasAuth
begin

section \<open>PaaS control plane: a concrete scenario\<close>

text \<open>
  Inputs on which the properties of the PaaS control plane are evaluated: an intent with two
  tenants and one endpoint, a build and a deployment of one tenant, and the states they go
  through.  The text itself stands for its SHA-256.
\<close>

subsection \<open>Intent and commands\<close>

definition px_sha :: "string \<Rightarrow> string" where
  "px_sha s = s"

definition px_digest :: string where
  "px_digest = ''sha256:'' @ replicate 64 CHR ''a''"

definition px_revision :: string where
  "px_revision = replicate 40 CHR ''b''"

definition px_tenant :: "string \<Rightarrow> paas_tenant" where
  "px_tenant t =
     \<lparr>tq_tenantId = t, tq_maxConcurrentBuilds = 1, tq_maxConcurrentDeployments = 1, tq_maxCpu = ''4'',
      tq_maxMemory = ''8Gi'', tq_maxStorage = ''50Gi'', tq_maxExecutionMinutes = 30\<rparr>"

definition px_endpoint :: paas_endpoint where
  "px_endpoint =
     \<lparr>ep_id = ''control-api'', ep_exposure = Private, ep_authentication = AuthOidc,
      ep_authorization = ModeCapability, ep_tenantBindingRequired = True, ep_directHostExecution = False,
      ep_executionTarget = ControlPlane, ep_operations = [OpBuild, OpDeploy, OpCancel]\<rparr>"

definition px_sandbox :: paas_sandbox where
  "px_sandbox =
     \<lparr>sb_trust = Untrusted, sb_isolation = Microvm, sb_ephemeral = True, sb_privileged = False,
      sb_hostNetwork = False, sb_hostPid = False, sb_hostPathMounts = False, sb_containerSocket = False,
      sb_ambientCloudCredentials = False, sb_egress = EgressBrokered, sb_perTenant = True,
      sb_maxLifetimeMinutes = 60\<rparr>"

definition px_intent :: paas_intent where
  "px_intent =
     \<lparr>in_name = ''paas'', in_environment = ''prod'', in_tenants = [px_tenant ''acme'', px_tenant ''globex''],
      in_endpoints = [px_endpoint],
      in_accessControl =
        \<lparr>ac_denyByDefault = True, ac_trustedCapabilityIssuers = [''issuer''], ac_maxCapabilityTtlSeconds = 300,
         ac_oneUseMutations = True, ac_idempotencyKeys = True\<rparr>,
      in_identities = [], in_builder = px_sandbox, in_runtime = px_sandbox,
      in_scheduling =
        \<lparr>sch_perTenantQueues = True, sch_fairScheduling = True, sch_cancellation = True, sch_timeouts = True,
         sch_maxGlobalConcurrency = 2\<rparr>,
      in_supplyChain =
        \<lparr>sc_digestPinned = True, sc_signatureVerification = True, sc_provenanceVerification = True,
         sc_sbomRequired = True, sc_immutableArtifacts = True, sc_retentionDays = 90\<rparr>,
      in_deploymentState =
        \<lparr>ds_durable = True, ds_encrypted = True, ds_idempotencyKeys = True, ds_perTenantLocks = True,
         ds_rollback = True, ds_backup = True, ds_restoreTests = True, ds_regionalRecovery = True\<rparr>,
      in_audit = \<lparr>au_immutable = True, au_retentionDays = 365, au_requiredFields = [], au_denialEvents = True\<rparr>\<rparr>"

definition px_decision ::
  "paas_operation \<Rightarrow> string \<Rightarrow> string \<Rightarrow> int \<Rightarrow> string option \<Rightarrow> string option \<Rightarrow> string option \<Rightarrow> paas_decision" where
  "px_decision op r key at source artifact cap =
     \<lparr>dec_allowed = True, dec_evaluatedAt = NInt at, dec_reasonCodes = [], dec_capabilityToRedeem = cap,
      dec_audit =
        \<lparr>aud_actor = ''user-1'', aud_tenant = ''acme'', aud_requestId = ''req-1'', aud_operation = op,
         aud_endpoint = ''control-api'', aud_resource = r, aud_executionTarget = ControlPlane,
         aud_sourceRevision = source, aud_artifactDigest = artifact, aud_allow = True,
         aud_decisionEpochSeconds = NInt at, aud_reasonCodes = [], aud_capabilityId = cap,
         aud_idempotencyKey = Some key\<rparr>\<rparr>"

definition px_build :: paas_enqueue where
  "px_build =
     \<lparr>enq_expectedRevision = 0, enq_jobId = ''build-1'', enq_tenantId = ''acme'', enq_operation = JobBuild,
      enq_resource = ''repo'', enq_idempotencyKey = ''key-1'', enq_requestedAt = NInt 100, enq_maxAttempts = NInt 2,
      enq_sourceRevision = Some px_revision, enq_artifactDigest = None,
      enq_authorization = px_decision OpBuild ''repo'' ''key-1'' 100 (Some px_revision) None (Some ''cap-1'')\<rparr>"

definition px_deploy :: paas_enqueue where
  "px_deploy =
     \<lparr>enq_expectedRevision = 1, enq_jobId = ''deploy-1'', enq_tenantId = ''acme'', enq_operation = JobDeploy,
      enq_resource = ''app'', enq_idempotencyKey = ''key-2'', enq_requestedAt = NInt 100, enq_maxAttempts = NInt 1,
      enq_sourceRevision = None, enq_artifactDigest = Some px_digest,
      enq_authorization = px_decision OpDeploy ''app'' ''key-2'' 100 None (Some px_digest) (Some ''cap-2'')\<rparr>"

definition px_complete :: paas_complete where
  "px_complete =
     \<lparr>cmp_expectedRevision = 3, cmp_jobId = ''deploy-1'', cmp_tenantId = ''acme'', cmp_workerRole = Deployer,
      cmp_completedAt = NInt 300, cmp_outcome = OutcomeSucceeded, cmp_retryable = None, cmp_errorCode = None,
      cmp_resultArtifactDigest = None\<rparr>"

definition px_cancel :: paas_cancel where
  "px_cancel =
     \<lparr>can_expectedRevision = 3, can_jobId = ''build-1'', can_tenantId = ''acme'', can_idempotencyKey = ''key-3'',
      can_requestedAt = NInt 300, can_authorization = px_decision OpCancel ''repo'' ''key-3'' 300 None None (Some ''cap-3'')\<rparr>"

definition px_schedule :: "int \<Rightarrow> int \<Rightarrow> paas_schedule" where
  "px_schedule rv now = \<lparr>sched_expectedRevision = rv, sched_now = NInt now, sched_maxStarts = None\<rparr>"

subsection \<open>States\<close>

definition px0 :: paas_control_state where "px0 = createPaasControlState px_intent"
definition px1 :: paas_control_state where "px1 = enqueue_state px_sha px0 px_build (px_tenant ''acme'') []"
definition px2 :: paas_control_state where
  "px2 = enqueue_state px_sha px1 px_deploy (px_tenant ''acme'') [''build-1'']"

abbreviation px_build_job :: paas_job where "px_build_job \<equiv> enqueued_job px_build (px_tenant ''acme'')"
abbreviation px_deploy_job :: paas_job where "px_deploy_job \<equiv> enqueued_job px_deploy (px_tenant ''acme'')"

text \<open>After a round of the scheduler at 200: both jobs run.\<close>

definition px_mid :: paas_control_state where
  "px_mid = started_state px_sha 200 ''acme'' ''build-1'' [''deploy-1''] px_build_job px2"

definition px3 :: paas_control_state where
  "px3 = finalize (started_state px_sha 200 ''acme'' ''deploy-1'' [] px_deploy_job px_mid) 3"

definition px4 :: paas_control_state where
  "px4 = complete_state px_sha px3 px_complete (started_job 200 px_deploy_job) []"

definition px5 :: paas_control_state where
  "px5 = cancel_state px_sha px3 px_cancel (started_job 200 px_build_job) []"

subsection \<open>The intent\<close>

lemma px_find [simp]:
  "find_tenant px_intent t =
     (if t = ''acme'' then Some (px_tenant ''acme'') else if t = ''globex'' then Some (px_tenant ''globex'') else None)"
  by (simp add: find_tenant_def px_intent_def px_tenant_def)

lemma px_ids [simp]: "tenant_ids px_intent = [''acme'', ''globex'']"
  by (simp add: tenant_ids_def px_intent_def px_tenant_def)

lemma px_tenant_simps [simp]:
  "tq_tenantId (px_tenant t) = t" "tq_maxConcurrentBuilds (px_tenant t) = 1"
  "tq_maxConcurrentDeployments (px_tenant t) = 1" "tq_maxExecutionMinutes (px_tenant t) = 30"
  by (simp_all add: px_tenant_def)

lemma px_limits [simp]: "limits_ok px_intent" "intent_ok px_intent"
  by (simp_all add: limits_ok_def intent_ok_def) (simp_all add: px_intent_def)

lemma px_global [simp]: "sch_maxGlobalConcurrency (in_scheduling px_intent) = 2"
  by (simp add: px_intent_def)

lemma px_texts [simp]:
  "rx_test jobId_rx ''build-1''" "rx_test jobId_rx ''deploy-1''" "rx_test revision_rx px_revision"
  "rx_test artifact_rx px_digest" "nonEmpty ''acme''" "nonEmpty ''repo''" "nonEmpty ''app''" "nonEmpty ''key-1''"
  "nonEmpty ''key-2''" "nonEmpty ''key-3''" "boundedResource ''repo''" "boundedResource ''app''"
  "px_digest \<noteq> []" "px_revision \<noteq> []"
  by code_simp+

lemma px_keys [simp]:
  "stateKey px_sha [''acme'', ''key-1''] = ''[\"acme\",\"key-1\"]''"
  "stateKey px_sha [''acme'', ''key-2''] = ''[\"acme\",\"key-2\"]''"
  "stateKey px_sha [''acme'', ''key-3''] = ''[\"acme\",\"key-3\"]''"
  "stateKey px_sha [''cap-1''] = ''[\"cap-1\"]''" "stateKey px_sha [''cap-2''] = ''[\"cap-2\"]''"
  "stateKey px_sha [''cap-3''] = ''[\"cap-3\"]''"
  "resourceKey px_sha ''acme'' ''repo'' = ''[\"resource\",\"acme\",\"repo\"]''"
  "resourceKey px_sha ''acme'' ''app'' = ''[\"resource\",\"acme\",\"app\"]''"
  by code_simp+

subsection \<open>The states are sound\<close>

lemmas px_command_defs = px_build_def px_deploy_def px_complete_def px_cancel_def px_decision_def

lemma px_valid [simp]: "validEnqueueCommand px_build" "validEnqueueCommand px_deploy"
  by (simp_all add: validEnqueueCommand_def px_build_def px_deploy_def validEpoch_def isInteger_def num_int_def
      validDigest_def del: rx_test.simps)

lemma px_binds [simp]:
  "authorizationBinds (enq_authorization px_build) (EnqueueCommand px_build) OpBuild None"
  "authorizationBinds (enq_authorization px_deploy) (EnqueueCommand px_deploy) OpDeploy None"
  "job_resource j = ''repo'' \<Longrightarrow>
   authorizationBinds (can_authorization px_cancel) (CancelCommand px_cancel) OpCancel (Some j)"
  by (simp_all add: authorizationBinds_def px_command_defs)

lemma px0_simps [simp]:
  "st_revision px0 = 0" "st_lastScheduledTenant px0 = None" "obj_get (st_jobs px0) k = None"
  "obj_get (st_tenantQueues px0) t = (if t = ''acme'' \<or> t = ''globex'' then Some [] else None)"
  "obj_get (st_idempotency px0) k = None" "obj_get (st_redeemedCapabilities px0) k = None"
  "obj_get (st_resourceLocks px0) k = None" "obj_get (st_deployments px0) k = None"
  by (simp_all add: px0_def createPaasControlState_def obj_get_from_entries_const)
    (simp_all add: obj_get_def px_intent_def px_tenant_def)

lemma px_build_simps [simp]:
  "enq_jobId px_build = ''build-1''" "enq_tenantId px_build = ''acme''" "enq_idempotencyKey px_build = ''key-1''"
  "enq_operation px_build = JobBuild" "enq_expectedRevision px_build = 0" "enq_requestedAt px_build = NInt 100"
  "dec_capabilityToRedeem (enq_authorization px_build) = Some ''cap-1''" "enq_resource px_build = ''repo''"
  "enq_maxAttempts px_build = NInt 2"
  "enq_jobId px_deploy = ''deploy-1''" "enq_tenantId px_deploy = ''acme''" "enq_idempotencyKey px_deploy = ''key-2''"
  "enq_operation px_deploy = JobDeploy" "enq_expectedRevision px_deploy = 1" "enq_requestedAt px_deploy = NInt 100"
  "dec_capabilityToRedeem (enq_authorization px_deploy) = Some ''cap-2''" "enq_resource px_deploy = ''app''"
  "enq_artifactDigest px_deploy = Some px_digest" "enq_maxAttempts px_deploy = NInt 1"
  by (simp_all add: px_build_def px_deploy_def px_decision_def)

lemma px0_ok [simp]: "paas_ok px_sha px_intent px0"
  unfolding px0_def by (rule create_ok) simp

lemmas px_guards = capability_replayed_def redeems_def truthy_def job_name_taken_def paas_ok_check

lemma px_build_allowed: "enqueue_allowed px_sha px0 px_intent px_build (px_tenant ''acme'')"
  unfolding enqueue_allowed_def paas_ok_check [OF px0_ok]
  by (simp add: px_guards del: rx_test.simps)

lemma px1_ok [simp]: "paas_ok px_sha px_intent px1"
  using enqueue_step [OF px0_ok px_limits(2) px_build_allowed, of "[]"] by (simp add: paas_step_def px1_def)

lemma px1_simps [simp]:
  "st_revision px1 = 1" "st_lastScheduledTenant px1 = None"
  "obj_get (st_jobs px1) k = (if k = ''build-1'' then Some px_build_job else None)"
  "obj_get (st_tenantQueues px1) t =
     (if t = ''acme'' then Some [''build-1''] else if t = ''globex'' then Some [] else None)"
  "obj_get (st_idempotency px1) (stateKey px_sha [''acme'', ''key-2'']) = None"
  "obj_get (st_redeemedCapabilities px1) (stateKey px_sha [''cap-2'']) = None"
  "obj_get (st_idempotency px1) ''[\"acme\",\"key-2\"]'' = None"
  "obj_get (st_redeemedCapabilities px1) ''[\"cap-2\"]'' = None"
  "obj_get (st_resourceLocks px1) k = None" "obj_get (st_deployments px1) k = None"
  by (simp_all add: px1_def enqueue_state_def redeems_def truthy_def obj_get_set put_idempotency_def)

lemma px_deploy_allowed: "enqueue_allowed px_sha px1 px_intent px_deploy (px_tenant ''acme'')"
  unfolding enqueue_allowed_def paas_ok_check [OF px1_ok]
  by (simp add: px_guards del: rx_test.simps)

lemma px2_ok [simp]: "paas_ok px_sha px_intent px2"
  using enqueue_step [OF px1_ok px_limits(2) px_deploy_allowed, of "[''build-1'']"] by (simp add: paas_step_def px2_def)

lemma px2_simps [simp]:
  "st_revision px2 = 2" "st_lastScheduledTenant px2 = None"
  "obj_get (st_jobs px2) k = (if k = ''deploy-1'' then Some px_deploy_job
     else if k = ''build-1'' then Some px_build_job else None)"
  "obj_get (st_tenantQueues px2) t =
     (if t = ''acme'' then Some [''build-1'', ''deploy-1''] else if t = ''globex'' then Some [] else None)"
  "obj_get (st_resourceLocks px2) k = None" "obj_get (st_deployments px2) k = None"
  by (simp_all add: px2_def enqueue_state_def redeems_def truthy_def obj_get_set)

lemma px_index [simp]: "array_index ''build-1'' = None" "array_index ''deploy-1'' = None"
  by code_simp+

lemma px2_jobs: "st_jobs px2 = [(''build-1'', px_build_job), (''deploy-1'', px_deploy_job)]"
  by (simp add: px2_def px1_def px0_def createPaasControlState_def enqueue_state_def obj_set_def)

lemma px_job_simps [simp]:
  "job_operation px_build_job = JobBuild" "job_resource px_build_job = ''repo''" "job_createdAt px_build_job = 100"
  "job_operation px_deploy_job = JobDeploy" "job_resource px_deploy_job = ''app''" "job_createdAt px_deploy_job = 100"
  "job_deadlineAt px_build_job = 1900" "job_deadlineAt px_deploy_job = 1900"
  "job_attempt px_build_job = 0" "job_maxAttempts px_build_job = 2"
  "job_attempt px_deploy_job = 0" "job_maxAttempts px_deploy_job = 1"
  "job_artifactDigest px_deploy_job = Some px_digest"
  by (simp_all add: enqueued_job_def num_int_def truthy_def)

lemma px2_active [simp]: "activeJobs (st_jobs px2) = []"
  by (simp add: activeJobs_def px2_jobs obj_values_def job_active_def)

lemma px_mid_active [simp]: "activeJobs (st_jobs px_mid) = [started_job 200 px_build_job]"
  by (simp add: px_mid_def activeJobs_def started_state_def px2_jobs obj_values_def obj_set_def job_active_def)

lemma px_mid_ok [simp]: "paas_ok px_sha px_intent px_mid"
  unfolding px_mid_def
  by (rule started_state_ok [OF px2_ok, of _ _ _ _ "px_tenant ''acme''"])
    (simp_all add: at_quota_def active_builds_def)

lemma px_mid_simps [simp]:
  "st_revision px_mid = 2" "st_lastScheduledTenant px_mid = Some ''acme''"
  "obj_get (st_jobs px_mid) k = (if k = ''build-1'' then Some (started_job 200 px_build_job)
     else if k = ''deploy-1'' then Some px_deploy_job else None)"
  "obj_get (st_tenantQueues px_mid) t =
     (if t = ''acme'' then Some [''deploy-1''] else if t = ''globex'' then Some [] else None)"
  "obj_get (st_resourceLocks px_mid) k = (if k = job_lock px_sha px_build_job then Some ''build-1'' else None)"
  "obj_get (st_deployments px_mid) k = None" "st_idempotency px_mid = st_idempotency px2"
  "st_redeemedCapabilities px_mid = st_redeemedCapabilities px2"
  by (simp_all add: px_mid_def started_state_def obj_get_set)

lemma px_deploy_starts: "paas_ok px_sha px_intent (started_state px_sha 200 ''acme'' ''deploy-1'' [] px_deploy_job px_mid)"
  by (rule started_state_ok [OF px_mid_ok, of _ _ _ _ "px_tenant ''acme''"])
    (simp_all add: at_quota_def active_deploys_def job_lock_def started_job_def)

lemma px3_ok [simp]: "paas_ok px_sha px_intent px3"
  using px_deploy_starts by (simp add: px3_def paas_ok_def paas_objects_def paas_sound_def)

lemma px3_simps [simp]:
  "st_revision px3 = 3" "st_lastScheduledTenant px3 = Some ''acme''"
  "obj_get (st_jobs px3) k = (if k = ''deploy-1'' then Some (started_job 200 px_deploy_job)
     else if k = ''build-1'' then Some (started_job 200 px_build_job) else None)"
  "obj_get (st_tenantQueues px3) t = (if t = ''acme'' \<or> t = ''globex'' then Some [] else None)"
  "obj_get (st_deployments px3) k = None" "st_idempotency px3 = st_idempotency px2"
  "st_redeemedCapabilities px3 = st_redeemedCapabilities px2"
  by (simp_all add: px3_def started_state_def obj_get_set)

subsection \<open>Commands on these states\<close>

lemma px_complete_allowed: "complete_allowed px_sha px3 px_intent px_complete (started_job 200 px_deploy_job)"
  unfolding complete_allowed_def paas_ok_check [OF px3_ok]
  by (simp add: px_complete_def validEpoch_def num_int_def) (simp add: started_job_def enqueued_job_def num_int_def)

lemma px3_keys [simp]:
  "obj_get (st_idempotency px2) ''[\"acme\",\"key-3\"]'' = None"
  "obj_get (st_redeemedCapabilities px2) ''[\"cap-3\"]'' = None"
  by (simp_all add: px2_def px1_def enqueue_state_def redeems_def truthy_def obj_get_set put_idempotency_def)

lemma px_cancel_allowed: "cancel_allowed px_sha px3 px_intent px_cancel (started_job 200 px_build_job)"
proof -
  have "job_resource (started_job 200 px_build_job) = ''repo''" by (simp add: started_job_def)
  from px_binds(3) [OF this] show ?thesis
    unfolding cancel_allowed_def paas_ok_check [OF px3_ok]
    by (simp add: px_cancel_def px_decision_def validEpoch_def num_int_def px_guards)
      (simp add: started_job_def enqueued_job_def num_int_def)
qed

lemma px4_ok [simp]: "paas_ok px_sha px_intent px4"
  using complete_step [OF px3_ok px_complete_allowed, of "[]"]
  by (simp add: paas_step_def px4_def complete_retries_def px_complete_def)

lemma px5_ok [simp]: "paas_ok px_sha px_intent px5"
  using cancel_step [OF px3_ok px_cancel_allowed, of "[]"] by (simp add: paas_step_def px5_def)

lemma committed_run: "committed m tr \<Longrightarrow> m = Inr tr \<and> tr_code tr = ACCEPTED"
  by (simp add: committed_def)

lemma px_run_build:
  "enqueuePaasJob px_sha px0 px_intent px_build =
     Inr (paas_accepted px1 (enqueue_events px_sha px0 px_build (px_tenant ''acme'')) (Some ''build-1''))"
proof -
  have "committed (enqueuePaasJob px_sha px0 px_intent px_build)
      (paas_accepted px1 (enqueue_events px_sha px0 px_build (px_tenant ''acme'')) (Some ''build-1''))"
    unfolding enqueue_commits px1_def using px_build_allowed by (auto intro!: exI [of _ "[]"])
  then show ?thesis by (simp add: committed_def)
qed

lemma px_run_complete: "\<exists>evs i. completePaasJob px_sha px3 px_intent px_complete = Inr (paas_accepted px4 evs i)"
proof -
  let ?j = "started_job 200 px_deploy_job"
  have o: "cmp_outcome px_complete = OutcomeSucceeded" by (simp add: px_complete_def)
  have d: "job_operation ?j = JobDeploy" by (simp add: started_job_def)
  have "\<exists>evs i. complete_effect px_sha px3 px_complete ?j = Inr (paas_accepted px4 evs i)"
    by (simp add: complete_effect_def px4_def complete_state_def completed_job_def complete_retries_def o d Let_def
        del: px3_simps) blast
  then show ?thesis
    using px_complete_allowed complete_guards [of px_sha px3 px_intent px_complete]
    by (force simp: committed_simps committed_def)
qed

lemma px_run_cancel: "\<exists>evs i. cancelPaasJob px_sha px3 px_intent px_cancel = Inr (paas_accepted px5 evs i)"
proof -
  let ?j = "started_job 200 px_build_job"
  have "\<exists>evs i. cancel_effect px_sha px3 px_cancel ?j = Inr (paas_accepted px5 evs i)"
    by (simp add: cancel_effect_def px5_def cancel_state_def cancelled_job_def Let_def del: px3_simps) blast
  then show ?thesis
    using px_cancel_allowed cancel_guards [of px_sha px3 px_intent px_cancel]
    by (force simp: committed_simps committed_def)
qed

subsection \<open>A round of the scheduler and the run\<close>

lemma px2_queues: "st_tenantQueues px2 = [(''acme'', [''build-1'', ''deploy-1'']), (''globex'', [])]"
proof -
  have "array_index ''globex'' = None" by code_simp
  then show ?thesis
    by (simp add: px2_def px1_def px0_def createPaasControlState_def px_intent_def enqueue_state_def obj_set_def
        obj_from_entries_def)
qed

lemma px_sorted [simp]: "sort_by_locale (\<lambda>t. t) [''acme'', ''globex''] = [''acme'', ''globex'']"
  by code_simp

lemma px2_expiry: "expireQueuedJobs px2 200 rv = Inr (px2, [])"
proof -
  have ids: "queued_ids px2 = [''build-1'', ''deploy-1'']"
    by (simp add: queued_ids_def px2_queues obj_values_def)
  have none: "expire_events 200 rv (st_jobs px2) (queued_ids px2) = []"
    unfolding ids by (simp add: expire_events_def late_def)
  then show ?thesis
    using expire_closed [OF px2_ok, of 200 rv] expired_nothing [OF px2_ok none] by simp
qed

lemma px2_next: "nextEligibleTenant px_sha px2 px_intent [''acme'', ''globex''] = Inr (Some ''acme'')"
proof -
  have "can_start px_sha px2 px_intent ''acme''"
    unfolding can_start_def by (simp add: at_quota_def active_builds_def)
  then show ?thesis
    unfolding next_tenant_closed [OF px2_ok] by (simp add: rotation_rotate)
qed

lemma px_mid_next: "nextEligibleTenant px_sha px_mid px_intent [''acme'', ''globex''] = Inr (Some ''acme'')"
proof -
  have "can_start px_sha px_mid px_intent ''acme''"
    unfolding can_start_def by (simp add: at_quota_def active_deploys_def started_job_def job_lock_def)
  moreover have "\<not> can_start px_sha px_mid px_intent ''globex''"
    unfolding can_start_def by simp
  ultimately show ?thesis
    unfolding next_tenant_closed [OF px_mid_ok] by (simp add: rotation_rotate)
qed

lemma px_run_schedule:
  "\<exists>evs. schedulePaasJobs px_sha px2 px_intent (px_schedule 2 200) = Inr (paas_accepted px3 evs None)"
proof -
  have s1: "start_job px_sha 200 3 ''acme'' px2 =
      Inr (Some (px_mid, paas_event_of EvStarted 3 200 (started_job 200 px_build_job)))"
    unfolding px_mid_def by (rule start_job_closed) simp_all
  have s2: "start_job px_sha 200 3 ''acme'' px_mid =
      Inr (Some (started_state px_sha 200 ''acme'' ''deploy-1'' [] px_deploy_job px_mid,
        paas_event_of EvStarted 3 200 (started_job 200 px_deploy_job)))"
    by (rule start_job_closed) simp_all
  have two: "(2 :: nat) = Suc (Suc 0)" by simp
  have "start_jobs 2 px_sha px_intent [''acme'', ''globex''] 200 3 px2 [] =
      Inr (started_state px_sha 200 ''acme'' ''deploy-1'' [] px_deploy_job px_mid,
        [paas_event_of EvStarted 3 200 (started_job 200 px_build_job),
         paas_event_of EvStarted 3 200 (started_job 200 px_deploy_job)])"
    unfolding two by (simp add: px2_next px_mid_next s1 s2)
  then show ?thesis
    by (simp add: schedulePaasJobs_def paas_ok_check [OF px2_ok] px_schedule_def Let_def validEpoch_def isInteger_def
        num_int_def px2_expiry px3_def) blast
qed

lemma px_run_deploy:
  "enqueuePaasJob px_sha px1 px_intent px_deploy =
     Inr (paas_accepted px2 (enqueue_events px_sha px1 px_deploy (px_tenant ''acme'')) (Some ''deploy-1''))"
proof -
  have "committed (enqueuePaasJob px_sha px1 px_intent px_deploy)
      (paas_accepted px2 (enqueue_events px_sha px1 px_deploy (px_tenant ''acme'')) (Some ''deploy-1''))"
    unfolding enqueue_commits px2_def using px_deploy_allowed by (auto intro!: exI [of _ "[''build-1'']"])
  then show ?thesis by (simp add: committed_def)
qed

lemma px_clock [simp]: "clock_ok (CmdEnqueue e) st" "clock_ok (CmdComplete f) st" "clock_ok (CmdCancel g) st"
  "clock_ok (CmdSchedule (px_schedule 2 200)) px2"
  by (simp_all add: clock_ok_def px_schedule_def num_int_def)

lemma px_steps:
  "\<exists>c tr. clock_ok c px0 \<and> paas_run px_sha px_intent c px0 = Inr tr \<and> tr_state tr = px1"
  "\<exists>c tr. clock_ok c px1 \<and> paas_run px_sha px_intent c px1 = Inr tr \<and> tr_state tr = px2"
  "\<exists>c tr. clock_ok c px2 \<and> paas_run px_sha px_intent c px2 = Inr tr \<and> tr_state tr = px3"
  "\<exists>c tr. clock_ok c px3 \<and> paas_run px_sha px_intent c px3 = Inr tr \<and> tr_state tr = px4"
  "\<exists>c tr. clock_ok c px3 \<and> paas_run px_sha px_intent c px3 = Inr tr \<and> tr_state tr = px5"
  using px_run_build px_run_deploy px_run_schedule px_run_complete px_run_cancel
    px_clock(1) [of px_build px0] px_clock(1) [of px_deploy px1] px_clock(2) [of px_complete px3]
    px_clock(3) [of px_cancel px3] px_clock(4) paas_run.simps transition_simps(10)
  by metis+

lemma px_reach: "paas_reach px_sha px_intent px1" "paas_reach px_sha px_intent px2" "paas_reach px_sha px_intent px3"
  "paas_reach px_sha px_intent px4" "paas_reach px_sha px_intent px5"
proof -
  show r1: "paas_reach px_sha px_intent px1"
    using reach_run [OF reach_create [of px_sha px_intent]] px_steps(1) unfolding px0_def by metis
  show r2: "paas_reach px_sha px_intent px2" using reach_run [OF r1] px_steps(2) by metis
  show r3: "paas_reach px_sha px_intent px3" using reach_run [OF r2] px_steps(3) by metis
  show "paas_reach px_sha px_intent px4" "paas_reach px_sha px_intent px5"
    using reach_run [OF r3] px_steps(4,5) by metis+
qed

lemma px_later: "paas_later px_sha px_intent px1 px2" "paas_later px_sha px_intent px3 px4"
  "paas_later px_sha px_intent px3 px5"
  using later_run [OF later_refl [of px_sha px_intent px1]] px_steps(2)
    later_run [OF later_refl [of px_sha px_intent px3]] px_steps(4,5) by metis+

lemma px_checked [simp]:
  "paas_objects px1" "paas_objects px2" "paas_objects px3" "paas_objects px4"
  "stateInvariantError px_sha px1 px_intent = None" "stateInvariantError px_sha px2 px_intent = None"
  "stateInvariantError px_sha px3 px_intent = None" "stateInvariantError px_sha px4 px_intent = None"
  using px1_ok px2_ok px3_ok px4_ok paas_ok_check by (auto simp: paas_ok_def)

subsection \<open>A job of each tenant\<close>

definition px_other :: paas_enqueue where
  "px_other = px_build\<lparr>enq_expectedRevision := 1, enq_jobId := ''build-2'', enq_tenantId := ''globex'',
     enq_idempotencyKey := ''key-2'',
     enq_authorization := (px_decision OpBuild ''repo'' ''key-2'' 100 (Some px_revision) None None)
       \<lparr>dec_audit := (dec_audit (px_decision OpBuild ''repo'' ''key-2'' 100 (Some px_revision) None None))
          \<lparr>aud_tenant := ''globex''\<rparr>\<rparr>\<rparr>"

abbreviation px_other_job :: paas_job where "px_other_job \<equiv> enqueued_job px_other (px_tenant ''globex'')"

definition px_both :: paas_control_state where
  "px_both = enqueue_state px_sha px1 px_other (px_tenant ''globex'') []"

lemma px_other_texts [simp]:
  "rx_test jobId_rx ''build-2''" "nonEmpty ''globex''" "array_index ''build-2'' = None"
  "stateKey px_sha [''globex'', ''key-2''] = ''[\"globex\",\"key-2\"]''"
  by code_simp+

lemma px_other_allowed: "enqueue_allowed px_sha px1 px_intent px_other (px_tenant ''globex'')"
  unfolding enqueue_allowed_def paas_ok_check [OF px1_ok]
  by (simp add: px_guards px_other_def validEnqueueCommand_def validEpoch_def isInteger_def num_int_def
      authorizationBinds_def px_decision_def del: rx_test.simps)
    (simp add: px_build_def px1_def enqueue_state_def obj_get_set redeems_def)

lemma px_both_ok [simp]: "paas_ok px_sha px_intent px_both"
  using enqueue_step [OF px1_ok px_limits(2) px_other_allowed, of "[]"]
  by (simp add: paas_step_def px_both_def px_other_def)

lemma px_both_simps [simp]:
  "st_lastScheduledTenant px_both = None"
  "obj_get (st_jobs px_both) k = (if k = ''build-2'' then Some px_other_job
     else if k = ''build-1'' then Some px_build_job else None)"
  "obj_get (st_tenantQueues px_both) t =
     (if t = ''globex'' then Some [''build-2''] else if t = ''acme'' then Some [''build-1''] else None)"
  "obj_get (st_resourceLocks px_both) k = None" "activeJobs (st_jobs px_both) = []"
  by (simp_all add: px_both_def enqueue_state_def obj_get_set px_other_def)
    (simp add: px1_def px0_def createPaasControlState_def enqueue_state_def obj_set_def activeJobs_def obj_values_def
      job_active_def)

lemma px_other_job_op [simp]: "job_operation px_other_job = JobBuild"
  by (simp add: enqueued_job_def px_other_def)

subsection \<open>A round of the scheduler with a clock that is behind\<close>

lemma early_unchecked:
  assumes "obj_get (st_jobs st) k = Some j" "job_times_bad j"
  shows "stateInvariantError sha st intent \<noteq> None"
proof -
  have mem: "(k, j) \<in> set (st_jobs st)" using assms(1) by (auto simp: obj_get_def dest: map_of_SomeD)
  have bad: "job_entry_fault sha intent st (k, j) \<noteq> None"
    using assms(2) by (simp add: job_entry_fault_def Let_def fault_simps)
  have "first_fault (job_entry_fault sha intent st) (st_jobs st) \<noteq> None"
    using bspec [OF _ mem, of "\<lambda>e. job_entry_fault sha intent st e = None"] bad
    unfolding first_fault_None by blast
  then show ?thesis unfolding stateInvariantError_def or_else_None by simp
qed

lemma px_run_early:
  "\<exists>st' evs. schedulePaasJobs px_sha px2 px_intent (px_schedule 2 50) = Inr (paas_accepted st' evs None) \<and>
     obj_get (st_jobs st') ''build-1'' = Some (started_job 50 px_build_job)"
proof -
  have ids: "queued_ids px2 = [''build-1'', ''deploy-1'']"
    by (simp add: queued_ids_def px2_queues obj_values_def)
  have none: "expire_events 50 3 (st_jobs px2) (queued_ids px2) = []"
    unfolding ids by (simp add: expire_events_def late_def)
  have expiry: "expireQueuedJobs px2 50 3 = Inr (px2, [])"
    using expire_closed [OF px2_ok, of 50 3] expired_nothing [OF px2_ok none] none by simp
  let ?st = "started_state px_sha 50 ''acme'' ''build-1'' [''deploy-1''] px_build_job px2"
  have start: "start_job px_sha 50 3 ''acme'' px2 =
      Inr (Some (?st, paas_event_of EvStarted 3 50 (started_job 50 px_build_job)))"
    by (rule start_job_closed) simp_all
  let ?ts = "[''acme'', ''globex'']" and ?ev = "paas_event_of EvStarted 3 50 (started_job 50 px_build_job)"
  have active: "activeJobs (st_jobs ?st) = [started_job 50 px_build_job]"
    by (simp add: activeJobs_def started_state_def px2_jobs obj_values_def obj_set_def job_active_def)
  have "tenant_eligible px_sha ?st px_intent ''globex'' = Inr False"
    by (simp add: tenant_eligible_def started_state_def obj_get_set)
  moreover have "tenant_eligible px_sha ?st px_intent ''acme'' = Inr True"
    using active
    by (simp add: tenant_eligible_def started_state_def obj_get_set at_quota_def active_deploys_def job_lock_def)
      (simp add: started_job_def truthy_def)
  ultimately have next_t: "nextEligibleTenant px_sha ?st px_intent ?ts = Inr (Some ''acme'')"
    by (simp add: nextEligibleTenant_def started_state_def Let_def upt_rec)
  let ?st2 = "started_state px_sha 50 ''acme'' ''deploy-1'' [] px_deploy_job ?st"
  have start2: "start_job px_sha 50 3 ''acme'' ?st =
      Inr (Some (?st2, paas_event_of EvStarted 3 50 (started_job 50 px_deploy_job)))"
    by (rule start_job_closed) (simp_all add: started_state_def obj_get_set)
  have two: "(2 :: nat) = Suc (Suc 0)" by simp
  have "start_jobs 2 px_sha px_intent ?ts 50 3 px2 [] =
      Inr (?st2, [?ev, paas_event_of EvStarted 3 50 (started_job 50 px_deploy_job)])"
    unfolding two by (simp add: px2_next next_t start start2 active)
  then have "schedulePaasJobs px_sha px2 px_intent (px_schedule 2 50) =
      Inr (paas_accepted (finalize ?st2 3) [?ev, paas_event_of EvStarted 3 50 (started_job 50 px_deploy_job)] None)"
    by (simp add: schedulePaasJobs_def paas_ok_check [OF px2_ok] px_schedule_def Let_def validEpoch_def isInteger_def
        num_int_def expiry)
  moreover have "obj_get (st_jobs (finalize ?st2 3)) ''build-1'' = Some (started_job 50 px_build_job)"
    by (simp add: started_state_def obj_get_set)
  ultimately show ?thesis by blast
qed

subsection \<open>A request to the authorizer\<close>

definition px_capability :: paas_capability where
  "px_capability =
     \<lparr>cap_id = ''cap-1'', cap_issuer = ''issuer'', cap_subject = ''user-1'', cap_tenantId = ''acme'',
      cap_audience = ''control-api'', cap_operations = [OpBuild], cap_resources = [''repo''], cap_issuedAt = 50,
      cap_notBefore = 60, cap_expiresAt = 200, cap_cryptographicallyVerified = True, cap_oneUse = True\<rparr>"

definition px_request :: paas_request where
  "px_request =
     \<lparr>rq_requestId = ''req-1'', rq_endpointId = ''control-api'',
      rq_actor = \<lparr>actor_id = ''user-1'', actor_tenantId = ''acme'', actor_authenticationMethods = [Oidc]\<rparr>,
      rq_tenantId = ''acme'', rq_operation = OpBuild, rq_resource = ''repo'', rq_executionTarget = ControlPlane,
      rq_idempotencyKey = Some ''key-1'', rq_sourceRevision = Some px_revision, rq_artifactDigest = None,
      rq_capability = Some px_capability\<rparr>"

definition px_auth :: paas_auth_state where
  "px_auth = \<lparr>as_now = 100, as_redeemedCapabilityIds = [], as_rbacGrants = None\<rparr>"

lemma px_allowed: "dec_allowed (authorizePaasRequest px_intent px_request px_auth)"
  by code_simp

lemma px_decided: "authorizePaasRequest px_intent px_request px_auth = enq_authorization px_build"
  by code_simp

lemma px_run_authorized:
  "\<exists>tr. enqueuePaasJob px_sha px0 px_intent
      (px_build\<lparr>enq_authorization := authorizePaasRequest px_intent px_request px_auth\<rparr>) = Inr tr \<and>
     tr_code tr = ACCEPTED \<and> tr_state tr = px1"
  unfolding px_decided using px_run_build by simp

end
