(* ===== verification/PaasLaws.thy ===== *)
theory PaasLaws
  imports PaasHistory
begin

section \<open>PaaS control plane: laws across commands\<close>

text \<open>
  What the properties of the control plane rest on beyond a single transition: one active job per
  resource, commands that do not touch other tenants, capabilities and idempotency keys that
  later states remember, where the digests of a deployment record come from, the turn of a
  tenant in the rotation of the scheduler, and the two commands that end an overdue job.
\<close>

lemma paas_later_trans:
  "paas_later sha intent u w \<Longrightarrow> paas_later sha intent st u \<Longrightarrow> paas_later sha intent st w"
  by (induction rule: paas_later.induct) (auto intro: later_run)

subsection \<open>Refusals\<close>

text \<open>A transition that is not committed is a rejection or a replay.\<close>

definition refusal :: "paas_control_state \<Rightarrow> paas_transition \<Rightarrow> bool" where
  "refusal st tr \<longleftrightarrow>
     (\<exists>code. tr = paas_rejected st code \<and> code \<notin> {ACCEPTED, DEDUPLICATED, NO_CHANGE}) \<or>
     (\<exists>code i. tr = paas_unchanged st code i \<and> code \<in> {DEDUPLICATED, NO_CHANGE})"

lemma refusal_simps:
  "refusal st (paas_rejected st code) \<longleftrightarrow> code \<notin> {ACCEPTED, DEDUPLICATED, NO_CHANGE}"
  "refusal st (paas_unchanged st code i) \<longleftrightarrow> code \<in> {DEDUPLICATED, NO_CHANGE}"
  by (auto simp: refusal_def paas_rejected_def paas_unchanged_def)

text \<open>What a computation gives: a fault, a committed transition or a refusal.\<close>

definition fair_result :: "paas_control_state \<Rightarrow> js_fault + paas_transition \<Rightarrow> bool" where
  "fair_result st m \<longleftrightarrow> (\<forall>tr. m = Inr tr \<longrightarrow> tr_code tr = ACCEPTED \<or> refusal st tr)"

lemma fair_result_simps:
  "fair_result st (Inl e)" "fair_result st (Inr (paas_accepted st' evs i))"
  "fair_result st (Inr (paas_rejected st code)) \<longleftrightarrow> code = ACCEPTED \<or> code \<notin> {ACCEPTED, DEDUPLICATED, NO_CHANGE}"
  "fair_result st (Inr (paas_unchanged st code i)) \<longleftrightarrow> code = ACCEPTED \<or> code \<in> {DEDUPLICATED, NO_CHANGE}"
  by (simp_all add: fair_result_def refusal_simps)

lemma fair_result_intros:
  "(b \<Longrightarrow> fair_result st m) \<Longrightarrow> (\<not> b \<Longrightarrow> fair_result st m') \<Longrightarrow> fair_result st (if b then m else m')"
  "(\<And>a. fair_result st (f a)) \<Longrightarrow> fair_result st (bind_r r f)"
  "fair_result st m \<Longrightarrow> (\<And>y. fair_result st (g y)) \<Longrightarrow> fair_result st (case x of None \<Rightarrow> m | Some y \<Rightarrow> g y)"
  "fair_result st m \<Longrightarrow> fair_result st m' \<Longrightarrow>
   fair_result st (case out of OutcomeSucceeded \<Rightarrow> m | OutcomeFailed \<Rightarrow> m')"
  "(\<And>a b. fair_result st (h a b)) \<Longrightarrow> fair_result st (case p of (a, b) \<Rightarrow> h a b)"
  by (auto simp: fair_result_def bind_r_eq_Inr split: option.splits paas_outcome.splits prod.splits)

lemma run_fair: "fair_result st (paas_run sha intent c st)"
  by (cases c; simp only: paas_run.simps enqueuePaasJob_def schedulePaasJobs_def completePaasJob_def
      complete_effect_def cancelPaasJob_def cancel_effect_def acknowledgePaasJobCancellation_def
      sweepExpiredPaasJobs_def Let_def)
    (intro fair_result_intros; simp add: fair_result_simps)+

lemma run_refused:
  "paas_run sha intent c st = Inr tr \<Longrightarrow> tr_code tr \<noteq> ACCEPTED \<Longrightarrow>
   tr_events tr = [] \<and> (tr_accepted tr \<longleftrightarrow> tr_code tr \<in> {DEDUPLICATED, NO_CHANGE})"
  using run_fair [of st sha intent c] by (auto simp: fair_result_def refusal_def)

subsection \<open>One active job per resource\<close>

lemma one_active:
  assumes ok: "paas_ok sha intent st"
    and a: "obj_get (st_jobs st) a = Some ja" "job_active ja" and b: "obj_get (st_jobs st) b = Some jb" "job_active jb"
    and same: "job_tenantId ja = job_tenantId jb" "job_resource ja = job_resource jb"
  shows "a = b"
proof -
  have "job_lock sha ja = job_lock sha jb" using same by (simp add: job_lock_def)
  with paas_okD(5) [OF ok] a b show ?thesis unfolding locks_sound_def by (metis option.inject)
qed

subsection \<open>Tenants\<close>

text \<open>The tenant a command names; the scheduler and the sweep act for all of them.\<close>

fun command_tenant :: "paas_command \<Rightarrow> string option" where
  "command_tenant (CmdEnqueue c) = Some (enq_tenantId c)"
| "command_tenant (CmdSchedule c) = None"
| "command_tenant (CmdComplete c) = Some (cmp_tenantId c)"
| "command_tenant (CmdCancel c) = Some (can_tenantId c)"
| "command_tenant (CmdAcknowledge c) = Some (ack_tenantId c)"
| "command_tenant (CmdSweep c) = None"

definition others_kept :: "string \<Rightarrow> paas_control_state \<Rightarrow> paas_control_state \<Rightarrow> bool" where
  "others_kept t st st' \<longleftrightarrow>
     (\<forall>k j. obj_get (st_jobs st) k = Some j \<and> job_tenantId j \<noteq> t \<longrightarrow> obj_get (st_jobs st') k = Some j) \<and>
     (\<forall>u. u \<noteq> t \<longrightarrow> obj_get (st_tenantQueues st') u = obj_get (st_tenantQueues st) u)"

lemma others_kept_refl [simp]: "others_kept t st st"
  by (simp add: others_kept_def)

lemma enqueue_others:
  "enqueue_allowed sha st intent c q \<Longrightarrow> others_kept (enq_tenantId c) st (enqueue_state sha st c q queue)"
  by (auto simp: others_kept_def enqueue_allowed_def enqueue_state_def obj_get_set job_name_taken_def)

lemma complete_others:
  "complete_allowed sha st intent c j \<Longrightarrow> others_kept (cmp_tenantId c) st (complete_state sha st c j queue)"
  by (auto simp: others_kept_def complete_allowed_def complete_state_def Let_def obj_get_set)

lemma cancel_others:
  assumes "paas_ok sha intent st" "cancel_allowed sha st intent c j"
  shows "others_kept (can_tenantId c) st (cancel_state sha st c j queue)"
proof -
  have found: "obj_get (st_jobs st) (can_jobId c) = Some j" using assms(2) by (simp add: cancel_allowed_def)
  have "job_id j = can_jobId c" by (rule find_job_key [OF paas_okD(3) [OF assms(1)] found])
  with assms(2) found show ?thesis
    by (auto simp: others_kept_def cancel_allowed_def cancel_state_def Let_def obj_get_set)
qed

lemma acknowledge_others:
  assumes "paas_ok sha intent st" "acknowledge_allowed sha st intent c j"
  shows "others_kept (ack_tenantId c) st (acknowledge_state sha st c j)"
proof -
  have found: "obj_get (st_jobs st) (ack_jobId c) = Some j" using assms(2) by (simp add: acknowledge_allowed_def)
  have "job_id j = ack_jobId c" by (rule find_job_key [OF paas_okD(3) [OF assms(1)] found])
  with assms(2) found show ?thesis
    by (auto simp: others_kept_def acknowledge_allowed_def acknowledge_state_def obj_get_set)
qed

lemma run_others:
  assumes ok: "paas_ok sha intent st" and run: "paas_run sha intent c st = Inr tr"
    and t: "command_tenant c = Some t"
  shows "others_kept t st (tr_state tr)"
proof (cases "tr_code tr = ACCEPTED")
  case False
  with run_same [OF run] show ?thesis by simp
next
  case True
  with run have com: "committed (paas_run sha intent c st) tr" by (simp add: committed_def)
  show ?thesis
  proof (cases c)
    case (CmdEnqueue x)
    with com t enqueue_commits [of sha st intent x tr] enqueue_others show ?thesis by fastforce
  next
    case (CmdComplete x)
    with com t complete_commits [of sha st intent x tr] complete_others show ?thesis by fastforce
  next
    case (CmdCancel x)
    with com t cancel_commits [of sha st intent x tr] cancel_others [OF ok] show ?thesis by fastforce
  next
    case (CmdAcknowledge x)
    with com t acknowledge_commits [of sha st intent x tr] acknowledge_others [OF ok] show ?thesis by fastforce
  qed (use t in simp_all)
qed

subsection \<open>Capabilities and idempotency keys\<close>

fun command_capability :: "paas_command \<Rightarrow> string option" where
  "command_capability (CmdEnqueue c) = dec_capabilityToRedeem (enq_authorization c)"
| "command_capability (CmdCancel c) = dec_capabilityToRedeem (can_authorization c)"
| "command_capability _ = None"

lemma redeemed_recorded:
  assumes com: "committed (paas_run sha intent c st) tr" and cap: "redeems sha (command_capability c)"
  shows "\<exists>r. obj_get (st_redeemedCapabilities (tr_state tr)) (stateKey sha [the (command_capability c)]) = Some r"
proof (cases c)
  case (CmdEnqueue x)
  with com cap enqueue_commits [of sha st intent x tr] show ?thesis
    by (auto simp: enqueue_state_def obj_get_set)
next
  case (CmdCancel x)
  with com cap cancel_commits [of sha st intent x tr] show ?thesis
    by (auto simp: cancel_state_def Let_def obj_get_set)
qed (use cap in \<open>simp_all add: redeems_def truthy_def\<close>)

lemma replayed_refused:
  assumes "capability_replayed sha st (command_capability c)"
  shows "\<not> committed (paas_run sha intent c st) tr"
proof (cases c)
  case (CmdEnqueue x)
  with assms show ?thesis by (auto simp: enqueue_commits enqueue_allowed_def)
next
  case (CmdCancel x)
  with assms cancel_commits [of sha st intent x tr] show ?thesis by (auto simp: cancel_allowed_def)
qed (use assms in \<open>simp_all add: capability_replayed_def redeems_def truthy_def\<close>)

text \<open>The record of an enqueue that was accepted or deduplicated, and what a repetition finds.\<close>

definition enqueue_recorded :: "(string \<Rightarrow> string) \<Rightarrow> paas_enqueue \<Rightarrow> string option \<Rightarrow> paas_control_state \<Rightarrow> bool" where
  "enqueue_recorded sha c i st \<longleftrightarrow>
     (\<exists>r. obj_get (st_idempotency st) (stateKey sha [enq_tenantId c, enq_idempotencyKey c]) = Some r \<and>
        idem_action r = ActEnqueue \<and> idem_fingerprint r = enqueueFingerprint sha c \<and> i = Some (idem_jobId r))"

definition enqueue_authentic :: "paas_intent \<Rightarrow> paas_enqueue \<Rightarrow> bool" where
  "enqueue_authentic intent c \<longleftrightarrow>
     validEnqueueCommand c \<and> find_tenant intent (enq_tenantId c) \<noteq> None \<and>
     authorizationBinds (enq_authorization c) (EnqueueCommand c) (job_paas_operation (enq_operation c)) None"

lemma enqueue_accepts:
  assumes run: "enqueuePaasJob sha st intent c = Inr tr" and acc: "tr_accepted tr"
  shows "enqueue_authentic intent c \<and> enqueue_recorded sha c (tr_jobId tr) (tr_state tr)"
proof (cases "tr_code tr = ACCEPTED")
  case True
  with run enqueue_commits [of sha st intent c tr] obtain q queue where
    q: "enqueue_allowed sha st intent c q"
      "tr = paas_accepted (enqueue_state sha st c q queue) (enqueue_events sha st c q) (Some (enq_jobId c))"
    by (auto simp: committed_def)
  have "enq_jobId c \<noteq> []" using q(1) jobId_not_Nil by (simp add: enqueue_allowed_def validEnqueueCommand_def del: rx_test.simps)
  with q show ?thesis
    by (simp add: enqueue_allowed_def enqueue_authentic_def enqueue_recorded_def enqueue_state_def obj_get_set
        paas_accepted_def truthy_def)
next
  case False
  have "\<exists>r. enqueue_authentic intent c \<and> tr = paas_unchanged st DEDUPLICATED (Some (idem_jobId r)) \<and>
      obj_get (st_idempotency st) (stateKey sha [enq_tenantId c, enq_idempotencyKey c]) = Some r \<and>
      idem_action r = ActEnqueue \<and> idem_fingerprint r = enqueueFingerprint sha c"
    using run acc False unfolding enqueuePaasJob_def Let_def enqueue_authentic_def
    by (auto simp: result_simps split: if_splits option.splits)
  then show ?thesis by (auto simp: enqueue_recorded_def paas_unchanged_def)
qed

lemma enqueue_repeated:
  assumes ok: "paas_ok sha intent st" and auth: "enqueue_authentic intent c" and rec: "enqueue_recorded sha c i st"
  shows "enqueuePaasJob sha st intent (c\<lparr>enq_expectedRevision := e\<rparr>) = Inr (paas_unchanged st DEDUPLICATED i)"
proof -
  let ?c = "c\<lparr>enq_expectedRevision := e\<rparr>"
  have "enqueue_authentic intent ?c" "enqueueFingerprint sha ?c = enqueueFingerprint sha c"
    using auth
    by (simp_all add: enqueue_authentic_def validEnqueueCommand_def authorizationBinds_def enqueueFingerprint_def
        del: rx_test.simps)
  with rec show ?thesis
    by (auto simp: enqueuePaasJob_def paas_ok_check [OF ok] enqueue_authentic_def enqueue_recorded_def Let_def)
qed

subsection \<open>Where the digests of a deployment come from\<close>

text \<open>A deployment or rollback of the resource with the key \<open>k\<close> has succeeded with the digest \<open>a\<close>.\<close>

definition deployed_from :: "(string \<Rightarrow> string) \<Rightarrow> paas_job obj \<Rightarrow> string \<Rightarrow> string \<Rightarrow> bool" where
  "deployed_from sha jobs k a \<longleftrightarrow>
     (\<exists>i j. obj_get jobs i = Some j \<and> job_status j = Succeeded \<and> job_operation j \<noteq> JobBuild \<and>
        job_lock sha j = k \<and> job_artifactDigest j = Some a)"

definition history_sound :: "(string \<Rightarrow> string) \<Rightarrow> paas_control_state \<Rightarrow> bool" where
  "history_sound sha st \<longleftrightarrow>
     (\<forall>k d. obj_get (st_deployments st) k = Some d \<longrightarrow>
        (\<forall>a \<in> set (dep_activeArtifactDigest d # dep_previousArtifactDigests d).
           deployed_from sha (st_jobs st) k a))"

lemma deployed_from_evolve: "jobs_evolve jobs jobs' \<Longrightarrow> deployed_from sha jobs k a \<Longrightarrow> deployed_from sha jobs' k a"
  using jobs_evolve_terminal unfolding deployed_from_def job_terminal_def by fastforce

lemma history_sound_same:
  "history_sound sha st \<Longrightarrow> st_deployments st' = st_deployments st \<Longrightarrow> jobs_evolve (st_jobs st) (st_jobs st') \<Longrightarrow>
   history_sound sha st'"
  using deployed_from_evolve [of "st_jobs st" "st_jobs st'" sha] by (simp add: history_sound_def)

lemma history_complete:
  assumes ok: "paas_ok sha intent st" and h: "history_sound sha st" and a: "complete_allowed sha st intent c j"
    and e: "jobs_evolve (st_jobs st) (st_jobs (complete_state sha st c j queue))"
  shows "history_sound sha (complete_state sha st c j queue)"
proof (cases "cmp_outcome c = OutcomeSucceeded \<and> job_operation j \<noteq> JobBuild")
  case False
  then have "st_deployments (complete_state sha st c j queue) = st_deployments st"
    by (auto simp: complete_state_def Let_def complete_retries_def)
  with history_sound_same [OF h _ e] show ?thesis by simp
next
  case True
  let ?job = "completed_job c j" and ?l = "job_lock sha j"
  have found: "obj_get (st_jobs st) (cmp_jobId c) = Some j" using a by (simp add: complete_allowed_def)
  have kept: "job_kept j ?job" by (rule job_move_kept [OF completed_move(1) [OF a]])
  have lock: "job_lock sha ?job = ?l" by (rule job_kept_lock [OF kept])
  obtain art where art: "job_artifactDigest j = Some art"
    using job_soundD(12) [OF jobs_soundD [OF paas_okD(3) [OF ok] found]] True
    by (cases "job_artifactDigest j") (auto simp: validDigest_def)
  have state: "st_jobs (complete_state sha st c j queue) = obj_set (st_jobs st) (cmp_jobId c) ?job"
    by (simp add: complete_state_def Let_def)
  have "job_status ?job = Succeeded" using completed_move(5) [OF a] True by simp
  then have new: "deployed_from sha (st_jobs (complete_state sha st c j queue)) ?l art"
    unfolding deployed_from_def state using kept True art lock
    by (intro exI [of _ "cmp_jobId c"] exI [of _ ?job]) (simp add: job_kept_def)
  have deps: "obj_get (st_deployments (complete_state sha st c j queue)) k =
      (if k = ?l then Some \<lparr>dep_tenantId = job_tenantId ?job, dep_resource = job_resource ?job,
             dep_activeArtifactDigest = art,
             dep_previousArtifactDigests = promoted_history (obj_get (st_deployments st) ?l) art,
             dep_generation = (case obj_get (st_deployments st) ?l of None \<Rightarrow> 0 | Some d \<Rightarrow> dep_generation d) + 1,
             dep_updatedAt = num_int (cmp_completedAt c), dep_sourceJobId = job_id ?job\<rparr>
       else obj_get (st_deployments st) k)" for k
    using True kept art lock
    by (simp add: complete_state_def Let_def complete_retries_def promoteDeployment_def obj_get_set job_kept_def)
  have old: "deployed_from sha (st_jobs (complete_state sha st c j queue)) k b"
    if "obj_get (st_deployments st) k = Some d" "b \<in> set (dep_activeArtifactDigest d # dep_previousArtifactDigests d)"
    for k d b
    using deployed_from_evolve [OF e] h that unfolding history_sound_def by blast
  have prev: "deployed_from sha (st_jobs (complete_state sha st c j queue)) ?l b"
    if b: "b \<in> set (promoted_history (obj_get (st_deployments st) ?l) art)" for b
  proof -
    from b obtain d where d: "obj_get (st_deployments st) ?l = Some d"
      by (cases "obj_get (st_deployments st) ?l") (simp_all add: promoted_history_def)
    with b have "b \<in> set (dep_activeArtifactDigest d # dep_previousArtifactDigests d)"
      by (auto simp: promoted_history_def dest!: in_set_takeD split: if_splits)
    with old d show ?thesis by blast
  qed
  show ?thesis
    unfolding history_sound_def
  proof (intro allI impI ballI)
    fix k d b
    assume d: "obj_get (st_deployments (complete_state sha st c j queue)) k = Some d"
      and b: "b \<in> set (dep_activeArtifactDigest d # dep_previousArtifactDigests d)"
    show "deployed_from sha (st_jobs (complete_state sha st c j queue)) k b"
    proof (cases "k = ?l")
      case True
      with d b deps [of k] have "b = art \<or> b \<in> set (promoted_history (obj_get (st_deployments st) ?l) art)"
        by auto
      with new prev True show ?thesis by auto
    next
      case False
      with d deps [of k] have "obj_get (st_deployments st) k = Some d" by simp
      with old b show ?thesis by blast
    qed
  qed
qed

lemma run_history:
  assumes ok: "paas_ok sha intent st" and i: "intent_ok intent" and clock: "clock_ok c st"
    and run: "paas_run sha intent c st = Inr tr" and h: "history_sound sha st"
  shows "history_sound sha (tr_state tr)"
proof (cases "tr_code tr = ACCEPTED")
  case False
  with run_same [OF run] h show ?thesis by simp
next
  case True
  with run have com: "committed (paas_run sha intent c st) tr" by (simp add: committed_def)
  note e = run_ok(2) [OF ok i clock run]
  show ?thesis
  proof (cases c)
    case (CmdComplete x)
    from com CmdComplete complete_commits [of sha st intent x tr] obtain j queue where
      "complete_allowed sha st intent x j" "tr_state tr = complete_state sha st x j queue" by auto
    with history_complete [OF ok h] e show ?thesis by simp
  next
    case (CmdEnqueue x)
    with com enqueue_commits [of sha st intent x tr] have "st_deployments (tr_state tr) = st_deployments st"
      by (auto simp: enqueue_state_def)
    with history_sound_same [OF h _ e] show ?thesis by simp
  next
    case (CmdCancel x)
    with com cancel_commits [of sha st intent x tr] have "st_deployments (tr_state tr) = st_deployments st"
      by (auto simp: cancel_state_def Let_def)
    with history_sound_same [OF h _ e] show ?thesis by simp
  next
    case (CmdAcknowledge x)
    with com acknowledge_commits [of sha st intent x tr] have "st_deployments (tr_state tr) = st_deployments st"
      by (auto simp: acknowledge_state_def)
    with history_sound_same [OF h _ e] show ?thesis by simp
  next
    case (CmdSchedule x)
    with schedule_keeps [OF ok, of x tr] clock run history_sound_same [OF h _ e] show ?thesis by simp
  next
    case (CmdSweep x)
    with sweep_keeps [OF ok, of x tr] run history_sound_same [OF h _ e] show ?thesis by simp
  qed
qed

lemma reach_history:
  "paas_reach sha intent st \<Longrightarrow> limits_ok intent \<Longrightarrow> intent_ok intent \<Longrightarrow> history_sound sha st"
proof (induction rule: paas_reach.induct)
  case reach_create
  then show ?case by (simp add: history_sound_def createPaasControlState_def obj_get_def)
next
  case (reach_run st c tr)
  then show ?case
    by (intro run_history [OF paas_reach_ok [OF reach_run.hyps(1) reach_run.prems] reach_run.prems(2)
          reach_run.hyps(2,3)]) blast
qed

subsection \<open>The turn of a tenant\<close>

text \<open>How many tenants the scheduler tries before \<open>t\<close>.\<close>

definition tenant_turn :: "string list \<Rightarrow> paas_control_state \<Rightarrow> string \<Rightarrow> nat" where
  "tenant_turn ts st t = nat (index_from 0 (rotation (st_lastScheduledTenant st) ts) t)"

lemma index_nth: "distinct xs \<Longrightarrow> i < length xs \<Longrightarrow> nat (index_from 0 xs (xs ! i)) = i"
  using index_from_nth [of "xs ! i" xs] nth_eq_iff_index_eq [of xs "nat (index_from 0 xs (xs ! i))" i]
  by (simp add: nat_less_iff)

lemma turn_nth: "t \<in> set xs \<Longrightarrow> nat (index_from 0 xs t) < length xs \<and> xs ! nat (index_from 0 xs t) = t"
  using index_from_nth [of t xs] by (simp add: nat_less_iff)

text \<open>The rotation after the \<open>i\<close>-th tenant of a rotation starts with the one after it.\<close>

lemma rotation_next:
  assumes d: "distinct ts" and i: "i < length ts"
  shows "rotation (Some (rotation lst ts ! i)) ts = rotate (Suc i) (rotation lst ts)"
proof -
  have "\<exists>s. rotation lst ts = rotate s ts"
  proof (cases "\<exists>t. lst = Some t \<and> t \<in> set ts")
    case True
    then show ?thesis by (auto simp: rotation_rotate simp del: rotate_Suc)
  next
    case False
    then have "rotation lst ts = rotate 0 ts" by (auto simp: rotation_rotate split: option.splits)
    then show ?thesis by blast
  qed
  then obtain s where s: "rotation lst ts = rotate s ts" by blast
  have u: "rotate s ts ! i = ts ! ((s + i) mod length ts)" using i by (simp add: nth_rotate)
  have bound: "(s + i) mod length ts < length ts" using i by (intro mod_less_divisor) auto
  have "nat (index_from 0 ts (rotate s ts ! i)) = (s + i) mod length ts"
    unfolding u by (rule index_nth [OF d bound])
  moreover have "rotate s ts ! i \<in> set ts" using i nth_mem [of i "rotate s ts"] by simp
  ultimately have "rotation (Some (rotate s ts ! i)) ts = rotate (Suc ((s + i) mod length ts)) ts"
    by (simp add: rotation_rotate del: rotate_Suc)
  also have "\<dots> = rotate (Suc i) (rotate s ts)"
    unfolding rotate_rotate rotate_conv_mod [of "Suc ((s + i) mod length ts)"] rotate_conv_mod [of "Suc i + s"]
    by (simp add: mod_Suc_eq add.commute)
  finally show ?thesis using s by simp
qed

lemma find_first:
  "List.find P xs = Some u \<Longrightarrow> \<exists>i < length xs. xs ! i = u \<and> (\<forall>k < i. \<not> P (xs ! k))"
  by (auto simp: find_Some_iff)

lemma turn_decreases:
  assumes d: "distinct ts" and f: "List.find P (rotation lst ts) = Some u" and t: "t \<in> set ts" "P t" "t \<noteq> u"
  shows "nat (index_from 0 (rotation (Some u) ts) t) < nat (index_from 0 (rotation lst ts) t)"
proof -
  let ?r = "rotation lst ts"
  have dr: "distinct ?r" using d by (simp add: rotation_rotate split: option.splits)
  from find_first [OF f] obtain i where i: "i < length ts" "?r ! i = u" "\<forall>k < i. \<not> P (?r ! k)" by auto
  let ?m = "nat (index_from 0 ?r t)"
  have m: "?m < length ts" "?r ! ?m = t" using turn_nth [of t ?r] t(1) by simp_all
  have "\<not> ?m < i" "?m \<noteq> i" using i m t by metis+
  then have less: "i < ?m" by simp
  have next_r: "rotation (Some u) ts = rotate (Suc i) ?r" using rotation_next [OF d i(1), of lst] i(2) by simp
  have "rotate (Suc i) ?r ! (?m - Suc i) = t"
    using less m by (simp add: nth_rotate del: rotate_Suc)
  with index_nth [of "rotate (Suc i) ?r" "?m - Suc i"] dr less m have
    "nat (index_from 0 (rotation (Some u) ts) t) = ?m - Suc i"
    unfolding next_r by (simp del: rotate_Suc)
  with less show ?thesis by simp
qed

subsection \<open>Ending a job\<close>

lemma sweep_jobs_at:
  assumes ok: "paas_ok sha intent st" and a: "sweep_allowed sha st intent c"
    and j: "obj_get (st_jobs st) k = Some j" and late: "job_deadlineAt j \<le> num_int (sched_now c)"
    and open_job: "job_status j = Queued \<or> job_status j = Running"
  shows "\<exists>tr. sweepExpiredPaasJobs sha st intent c = Inr tr \<and> tr_code tr = ACCEPTED \<and>
    obj_get (st_jobs (tr_state tr)) k = Some (swept (num_int (sched_now c)) (expired (num_int (sched_now c)) j))"
proof -
  let ?now = "num_int (sched_now c)"
  let ?evs = "expire_events ?now (st_revision st + 1) (st_jobs st) (queued_ids st)"
  let ?evs2 = "sweep_events ?now (st_revision st + 1) (st_jobs (expired_state ?now st))"
  have events: "?evs @ ?evs2 \<noteq> []"
  proof (cases "job_status j = Queued")
    case True
    with queued_iff_queue [OF ok j] late j have "k \<in> set (filter (PaasExpiry.late ?now (st_jobs st)) (queued_ids st))"
      by (simp add: PaasExpiry.late_def)
    then have "?evs \<noteq> []" unfolding expire_events_def by (metis empty_iff empty_set map_is_Nil_conv)
    then show ?thesis by simp
  next
    case False
    with open_job have run: "job_status j = Running" by simp
    have "obj_get (st_jobs (expired_state ?now st)) k = Some j"
      using j run by (simp add: expired_state_def obj_get_map expired_def)
    then have "j \<in> set (obj_values (st_jobs (expired_state ?now st)))"
      by (force simp: obj_values_def obj_get_def dest: map_of_SomeD)
    with run late have "j \<in> set (filter (overdue ?now) (obj_values (st_jobs (expired_state ?now st))))"
      by (simp add: overdue_def)
    then have "?evs2 \<noteq> []" unfolding sweep_events_def by (metis empty_iff empty_set map_is_Nil_conv)
    then show ?thesis by simp
  qed
  have "sweepExpiredPaasJobs sha st intent c =
      Inr (paas_accepted (finalize (swept_state ?now st) (st_revision st + 1)) (?evs @ ?evs2) None)"
    using a events
    by (simp add: sweepExpiredPaasJobs_def sweep_allowed_def Let_def expire_closed [OF ok] sweep_jobs_map
        swept_state_def expired_state_def del: append_is_Nil_conv)
  with j show ?thesis by (simp add: swept_state_def expired_state_def obj_get_map)
qed

text \<open>The command of a sweep at a time, and of the worker that acknowledges a cancellation.\<close>

definition sweep_at :: "paas_control_state \<Rightarrow> int \<Rightarrow> paas_schedule" where
  "sweep_at st now = \<lparr>sched_expectedRevision = st_revision st, sched_now = NInt now, sched_maxStarts = None\<rparr>"

definition worker_acknowledges :: "paas_control_state \<Rightarrow> paas_job \<Rightarrow> int \<Rightarrow> string \<Rightarrow> paas_acknowledge" where
  "worker_acknowledges st j t evidence =
     \<lparr>ack_expectedRevision = st_revision st, ack_jobId = job_id j, ack_tenantId = job_tenantId j,
      ack_workerRole = job_workerRole j, ack_acknowledgedAt = NInt t, ack_cleanupEvidence = evidence\<rparr>"

text \<open>A job has ended with a status and holds no lock.\<close>

definition ended :: "paas_control_state \<Rightarrow> string \<Rightarrow> paas_job_status \<Rightarrow> bool" where
  "ended st k s \<longleftrightarrow>
     (\<exists>j. obj_get (st_jobs st) k = Some j \<and> job_status j = s) \<and> (\<forall>l. obj_get (st_resourceLocks st) l \<noteq> Some k)"

lemma terminal_ended:
  assumes ok: "paas_ok sha intent st" and j: "obj_get (st_jobs st) k = Some j" "job_terminal j"
  shows "ended st k (job_status j)"
proof -
  have "obj_get (st_resourceLocks st) l \<noteq> Some k" for l
  proof
    assume "obj_get (st_resourceLocks st) l = Some k"
    with paas_okD(5) [OF ok] obtain j' where "obj_get (st_jobs st) k = Some j'" "job_active j'"
      unfolding locks_sound_def by blast
    with j show False by (auto simp: job_active_def job_terminal_def)
  qed
  with j show ?thesis by (auto simp: ended_def)
qed

lemma acknowledge_ends:
  assumes ok: "paas_ok sha intent st" and i: "intent_ok intent"
    and j: "obj_get (st_jobs st) k = Some j" "job_status j = JobCancelling"
    and t: "job_updatedAt j \<le> t" "nonEmpty evidence"
  shows "\<exists>tr. acknowledgePaasJobCancellation sha st intent (worker_acknowledges st j t evidence) = Inr tr \<and>
    tr_code tr = ACCEPTED \<and>
    ended (tr_state tr) k (if job_cancellationReason j = Some ByDeadline then TimedOut else JobCancelled)"
proof -
  let ?c = "worker_acknowledges st j t evidence" and ?j = "cleaned_job t evidence j"
  note s = jobs_soundD [OF paas_okD(3) [OF ok] j(1)]
  have id: "job_id j = k" by (rule job_soundD(1) [OF s])
  have "0 \<le> t" using job_soundD(4,5) [OF s] t(1) by simp
  then obtain evs where run: "acknowledgePaasJobCancellation sha st intent ?c =
      Inr (paas_accepted (acknowledge_state sha st ?c j) evs (Some (job_id j)))"
    using j t id by (simp add: acknowledgePaasJobCancellation_def paas_ok_check [OF ok] Let_def validEpoch_def num_int_def
        acknowledge_state_def worker_acknowledges_def)
  have at: "obj_get (st_jobs (acknowledge_state sha st ?c j)) k = Some ?j"
    using id by (simp add: acknowledge_state_def num_int_def worker_acknowledges_def)
  have "paas_run sha intent (CmdAcknowledge ?c) st = Inr (paas_accepted (acknowledge_state sha st ?c j) evs (Some (job_id j)))"
    using run by simp
  from run_ok(1) [OF ok i _ this] have "paas_ok sha intent (acknowledge_state sha st ?c j)"
    by (simp add: clock_ok_def)
  from terminal_ended [OF this at] have
    "ended (acknowledge_state sha st ?c j) k (if job_cancellationReason j = Some ByDeadline then TimedOut else JobCancelled)"
    by (simp add: job_terminal_def cleaned_job_def)
  with run show ?thesis by simp
qed

lemma sweep_ends:
  assumes ok: "paas_ok sha intent st" and i: "intent_ok intent" and j: "obj_get (st_jobs st) k = Some j"
    and late: "job_deadlineAt j \<le> now" and open_job: "job_status j = Queued \<or> job_status j = Running"
  shows "\<exists>tr. sweepExpiredPaasJobs sha st intent (sweep_at st now) = Inr tr \<and> tr_code tr = ACCEPTED \<and>
    paas_ok sha intent (tr_state tr) \<and>
    obj_get (st_jobs (tr_state tr)) k = Some (if job_status j = Queued then timed_out_job now j else cancelling_job now ByDeadline j)"
proof -
  note s = jobs_soundD [OF paas_okD(3) [OF ok] j]
  have "sweep_allowed sha st intent (sweep_at st now)"
    using job_soundD(4,6) [OF s] late by (simp add: sweep_allowed_def sweep_at_def paas_ok_check [OF ok] validEpoch_def)
  from sweep_jobs_at [OF ok this j _ open_job] late obtain tr where
    tr: "sweepExpiredPaasJobs sha st intent (sweep_at st now) = Inr tr" "tr_code tr = ACCEPTED"
      "obj_get (st_jobs (tr_state tr)) k = Some (swept now (expired now j))"
    by (auto simp: sweep_at_def num_int_def)
  have "paas_run sha intent (CmdSweep (sweep_at st now)) st = Inr tr" using tr(1) by simp
  from run_ok(1) [OF ok i _ this] have "paas_ok sha intent (tr_state tr)" by (simp add: clock_ok_def)
  moreover have "swept now (expired now j) = (if job_status j = Queued then timed_out_job now j else cancelling_job now ByDeadline j)"
    using late open_job by (auto simp: swept_def expired_def overdue_def timed_out_job_def)
  ultimately show ?thesis using tr by simp
qed

lemma job_can_end:
  assumes ok: "paas_ok sha intent st" and i: "intent_ok intent" and j: "obj_get (st_jobs st) k = Some j"
    and t: "job_deadlineAt j \<le> now" "now \<le> t" "job_updatedAt j \<le> t" "nonEmpty evidence"
  shows "(job_terminal j \<longrightarrow> ended st k (job_status j)) \<and>
    (job_status j = Queued \<longrightarrow>
      (\<exists>tr. sweepExpiredPaasJobs sha st intent (sweep_at st now) = Inr tr \<and> tr_code tr = ACCEPTED \<and>
         ended (tr_state tr) k TimedOut)) \<and>
    (job_status j = Running \<longrightarrow>
      (\<exists>tr j' tr'. sweepExpiredPaasJobs sha st intent (sweep_at st now) = Inr tr \<and> tr_code tr = ACCEPTED \<and>
         obj_get (st_jobs (tr_state tr)) k = Some j' \<and>
         acknowledgePaasJobCancellation sha (tr_state tr) intent (worker_acknowledges (tr_state tr) j' t evidence) = Inr tr' \<and>
         tr_code tr' = ACCEPTED \<and> ended (tr_state tr') k TimedOut)) \<and>
    (job_status j = JobCancelling \<longrightarrow>
      (\<exists>tr. acknowledgePaasJobCancellation sha st intent (worker_acknowledges st j t evidence) = Inr tr \<and>
         tr_code tr = ACCEPTED \<and>
         ended (tr_state tr) k (if job_cancellationReason j = Some ByDeadline then TimedOut else JobCancelled)))"
proof (intro conjI impI)
  assume "job_terminal j"
  then show "ended st k (job_status j)" by (rule terminal_ended [OF ok j])
next
  assume q: "job_status j = Queued"
  with sweep_ends [OF ok i j t(1)] obtain tr where
    tr: "sweepExpiredPaasJobs sha st intent (sweep_at st now) = Inr tr" "tr_code tr = ACCEPTED"
      "paas_ok sha intent (tr_state tr)" "obj_get (st_jobs (tr_state tr)) k = Some (timed_out_job now j)" by auto
  from terminal_ended [OF tr(3,4)] have "ended (tr_state tr) k TimedOut"
    by (simp add: timed_out_job_def job_terminal_def)
  with tr(1,2) show "\<exists>tr. sweepExpiredPaasJobs sha st intent (sweep_at st now) = Inr tr \<and> tr_code tr = ACCEPTED \<and>
         ended (tr_state tr) k TimedOut" by blast
next
  assume r: "job_status j = Running"
  let ?j = "cancelling_job now ByDeadline j"
  from r sweep_ends [OF ok i j t(1)] obtain tr where
    tr: "sweepExpiredPaasJobs sha st intent (sweep_at st now) = Inr tr" "tr_code tr = ACCEPTED"
      "paas_ok sha intent (tr_state tr)" "obj_get (st_jobs (tr_state tr)) k = Some ?j" by auto
  have "job_status ?j = JobCancelling" "job_updatedAt ?j \<le> t" "job_cancellationReason ?j = Some ByDeadline"
    using t(2) by (simp_all add: cancelling_job_def)
  with acknowledge_ends [OF tr(3) i tr(4) _ _ t(4)] tr show
    "\<exists>tr j' tr'. sweepExpiredPaasJobs sha st intent (sweep_at st now) = Inr tr \<and> tr_code tr = ACCEPTED \<and>
         obj_get (st_jobs (tr_state tr)) k = Some j' \<and>
         acknowledgePaasJobCancellation sha (tr_state tr) intent (worker_acknowledges (tr_state tr) j' t evidence) = Inr tr' \<and>
         tr_code tr' = ACCEPTED \<and> ended (tr_state tr') k TimedOut" by fastforce
next
  assume "job_status j = JobCancelling"
  from acknowledge_ends [OF ok i j this t(3,4)] show
    "\<exists>tr. acknowledgePaasJobCancellation sha st intent (worker_acknowledges st j t evidence) = Inr tr \<and>
         tr_code tr = ACCEPTED \<and>
         ended (tr_state tr) k (if job_cancellationReason j = Some ByDeadline then TimedOut else JobCancelled)" .
qed

end
