(* ===== verification/PaasClock.thy ===== *)
theory PaasClock
  imports PaasHistory
begin

section \<open>PaaS control plane: a scheduler whose clock is behind\<close>

text \<open>
  The scheduler does not compare its time with the creation of the queued jobs.  What it decides
  does not depend on the times of the jobs: two states that differ only in the times at which jobs
  started and were last changed lead to the same choices (\<open>start_jobs_untimed\<close>).  So the scheduler
  returns with any clock, although the state it returns may fail the state check.
\<close>

subsection \<open>Jobs without their running times\<close>

definition untimed_job :: "paas_job \<Rightarrow> paas_job" where
  "untimed_job j = j\<lparr>job_startedAt := None, job_updatedAt := 0\<rparr>"

definition untimed :: "paas_control_state \<Rightarrow> paas_control_state" where
  "untimed st = st\<lparr>st_jobs := obj_map untimed_job (st_jobs st)\<rparr>"

lemma untimed_job_simps [simp]:
  "job_status (untimed_job j) = job_status j" "job_operation (untimed_job j) = job_operation j"
  "job_tenantId (untimed_job j) = job_tenantId j" "job_resource (untimed_job j) = job_resource j"
  "job_id (untimed_job j) = job_id j" "job_active (untimed_job j) = job_active j"
  "job_lock sha (untimed_job j) = job_lock sha j"
  by (simp_all add: untimed_job_def job_active_def job_lock_def)

lemma untimed_started: "untimed_job i = untimed_job j \<Longrightarrow> untimed_job (started_job now i) = untimed_job (started_job now' j)"
  by (cases i; cases j) (simp add: untimed_job_def started_job_def)

lemma count_untimed: "(\<And>j. P (untimed_job j) = P j) \<Longrightarrow> count_if P (obj_map untimed_job jobs) = count_if P jobs"
  by (simp add: count_if_def obj_values_map filter_map comp_def)

lemma counts_untimed:
  "length (activeJobs (obj_map untimed_job jobs)) = length (activeJobs jobs)"
  "at_quota (obj_map untimed_job jobs) q (untimed_job j) = at_quota jobs q j"
  by (simp_all add: at_quota_def active_counts count_untimed)

lemma tenant_eligible_untimed: "tenant_eligible sha (untimed st) intent t = tenant_eligible sha st intent t"
  by (auto simp: tenant_eligible_def untimed_def obj_get_map counts_untimed split: option.splits list.splits)

lemma next_tenant_untimed: "nextEligibleTenant sha (untimed st) intent ts = nextEligibleTenant sha st intent ts"
proof -
  have "first_eligible sha (untimed st) intent us = first_eligible sha st intent us" for us
  proof (induction us)
    case (Cons t us)
    show ?case unfolding first_eligible.simps tenant_eligible_untimed Cons.IH ..
  qed simp
  then show ?thesis by (simp add: nextEligibleTenant_def untimed_def)
qed

lemma obj_map_set: "obj_map f (obj_set ob k v) = obj_set (obj_map f ob) k (f v)"
proof -
  have "map fst (obj_map f ob) = map fst ob" by (simp add: obj_map_def comp_def case_prod_beta)
  moreover have "obj_map f (obj_replace ob k v) = obj_replace (obj_map f ob) k (f v)"
    by (induction ob) (auto simp: obj_map_def)
  moreover have "obj_map f (obj_insert ob k v) = obj_insert (obj_map f ob) k (f v)"
    by (induction ob) (auto simp: obj_map_def split: option.splits)
  ultimately show ?thesis by (simp add: obj_set_def)
qed

definition untimed_start :: "(paas_control_state \<times> paas_event) option \<Rightarrow> paas_control_state option" where
  "untimed_start = map_option (\<lambda>x. untimed (fst x))"

lemma start_job_untimed:
  assumes "untimed u = untimed st"
  shows "map_sum id untimed_start (start_job sha now rv t u) = map_sum id untimed_start (start_job sha now' rv t st)"
proof -
  from assms have jobs: "obj_map untimed_job (st_jobs u) = obj_map untimed_job (st_jobs st)"
    and rest: "st_tenantQueues u = st_tenantQueues st" "st_resourceLocks u = st_resourceLocks st"
      "u\<lparr>st_jobs := js\<rparr> = st\<lparr>st_jobs := js\<rparr>" for js
    by (cases u; cases st; simp add: untimed_def)+
  have get: "map_option untimed_job (obj_get (st_jobs u) i) = map_option untimed_job (obj_get (st_jobs st) i)" for i
    using arg_cong [OF jobs, of "\<lambda>ob. obj_get ob i"] by (simp add: obj_get_map)
  show ?thesis
  proof (cases "obj_get (st_tenantQueues st) t")
    case None
    with rest(1) show ?thesis by (simp add: start_job_def the_queue_def)
  next
    case (Some queue)
    show ?thesis
    proof (cases "queue = [] \<or> hd queue = []")
      case True
      with Some rest(1) show ?thesis by (cases queue) (auto simp: start_job_def the_queue_def)
    next
      case False
      then obtain i q where q: "queue = i # q" "i \<noteq> []" by (cases queue) auto
      show ?thesis
      proof (cases "obj_get (st_jobs st) i")
        case None
        with get [of i] have "obj_get (st_jobs u) i = None" by simp
        with None Some q rest(1) show ?thesis by (simp add: start_job_def the_queue_def)
      next
        case (Some j)
        with get [of i] obtain j' where j': "obj_get (st_jobs u) i = Some j'" "untimed_job j' = untimed_job j" by auto
        have "job_id j' = job_id j" "job_lock sha j' = job_lock sha j"
          using arg_cong [OF j'(2), of job_id] arg_cong [OF j'(2), of "job_lock sha"] by simp_all
        moreover have "job_lock sha (started_job n k) = job_lock sha k" "job_id (started_job n k) = job_id k" for n k
          by (simp_all add: started_job_def job_lock_def)
        ultimately show ?thesis
          using Some j'(1) \<open>obj_get (st_tenantQueues st) t = Some queue\<close> q rest jobs untimed_started [OF j'(2), of now now']
          by (cases u; cases st) (simp add: start_job_def the_queue_def Let_def untimed_start_def untimed_def put_job_def
              set_queue_def obj_map_set)
      qed
    qed
  qed
qed

lemma start_jobs_untimed:
  assumes "untimed u = untimed st" "start_jobs n sha intent ts now' rv st evs' = Inr r"
  shows "\<exists>r'. start_jobs n sha intent ts now rv u evs = Inr r' \<and> untimed (fst r') = untimed (fst r)"
  using assms
proof (induction n arbitrary: u st evs evs')
  case 0
  then show ?case by auto
next
  case (Suc n)
  have active: "length (activeJobs (st_jobs u)) = length (activeJobs (st_jobs st))"
    using arg_cong [OF Suc.prems(1), of "\<lambda>s. length (activeJobs (st_jobs s))"] by (simp add: untimed_def counts_untimed)
  have turn: "nextEligibleTenant sha u intent ts = nextEligibleTenant sha st intent ts"
    using arg_cong [OF Suc.prems(1), of "\<lambda>s. nextEligibleTenant sha s intent ts"] by (simp only: next_tenant_untimed)
  show ?case
  proof (cases "int (length (activeJobs (st_jobs st))) < sch_maxGlobalConcurrency (in_scheduling intent)")
    case False
    with Suc.prems active show ?thesis by auto
  next
    case True
    with Suc.prems(2) obtain tenant where tenant: "nextEligibleTenant sha st intent ts = Inr tenant"
      by (cases "nextEligibleTenant sha st intent ts") auto
    show ?thesis
    proof (cases "tenant = None \<or> tenant = Some []")
      case True
      with Suc.prems active turn tenant show ?thesis by auto
    next
      case False
      then obtain t where t: "tenant = Some t" "t \<noteq> []" by auto
      with Suc.prems(2) True tenant obtain started where started: "start_job sha now' rv t st = Inr started"
        by (cases "start_job sha now' rv t st") auto
      with start_job_untimed [OF Suc.prems(1), of sha now rv t now'] obtain started' where
        started': "start_job sha now rv t u = Inr started'" "untimed_start started' = untimed_start started"
        by (cases "start_job sha now rv t u") auto
      show ?thesis
      proof (cases started)
        case None
        with started' have "started' = None" by (simp add: untimed_start_def)
        with Suc.prems True active turn tenant t started started' None show ?thesis by auto
      next
        case (Some p)
        obtain s ev where p: "p = (s, ev)" by fastforce
        from Some started' p obtain s' ev' where s': "started' = Some (s', ev')" "untimed s' = untimed s"
          by (auto simp: untimed_start_def)
        have "start_jobs n sha intent ts now' rv s (evs' @ [ev]) = Inr r"
          using Suc.prems(2) True tenant t started Some p by simp
        from Suc.IH [OF s'(2) this, of "evs @ [ev']"] show ?thesis
          using True active turn tenant t started' s' by simp
      qed
    qed
  qed
qed

subsection \<open>The scheduler returns with any clock\<close>

lemma latest: "\<exists>n. \<forall>x \<in> set xs. f x \<le> (n :: int)"
proof (induction xs)
  case (Cons x xs)
  then obtain n where "\<forall>y \<in> set xs. f y \<le> n" by blast
  then show ?case by (intro exI [of _ "max n (f x)"]) auto
qed simp

lemma untimed_objects: "untimed u = untimed st \<Longrightarrow> paas_objects st \<Longrightarrow> paas_objects u"
proof -
  assume eq: "untimed u = untimed st" and o: "paas_objects st"
  have "obj_wf (obj_map untimed_job (st_jobs u)) = obj_wf (obj_map untimed_job (st_jobs st))"
    using arg_cong [OF eq, of st_jobs] by (simp add: untimed_def)
  moreover have "obj_wf (obj_map untimed_job jobs) = obj_wf jobs" for jobs
    by (simp add: obj_wf_def obj_keys_def obj_map_def comp_def case_prod_beta)
  ultimately have "obj_wf (st_jobs u) = obj_wf (st_jobs st)" by simp
  moreover have "st_tenantQueues u = st_tenantQueues st" "st_idempotency u = st_idempotency st"
    "st_redeemedCapabilities u = st_redeemedCapabilities st" "st_resourceLocks u = st_resourceLocks st"
    "st_deployments u = st_deployments st"
    using eq by (cases u; cases st; simp add: untimed_def)+
  ultimately show ?thesis using o by (simp add: paas_objects_def)
qed

lemma schedule_returns:
  assumes ok: "paas_ok sha intent st"
  shows "\<exists>tr. schedulePaasJobs sha st intent c = Inr tr \<and> paas_objects (tr_state tr)"
proof (cases "schedule_allowed sha st intent c")
  case False
  have "paas_objects st" using ok by (simp add: paas_ok_def)
  with schedule_refused [OF False] show ?thesis by auto
next
  case True
  let ?now = "num_int (sched_now c)" and ?n = "nat (num_int (schedule_starts intent c))"
  let ?ts = "sort_by_locale (\<lambda>t. t) (tenant_ids intent)"
  let ?evs = "expire_events ?now (st_revision st + 1) (st_jobs st) (queued_ids st)"
  let ?u = "expired_state ?now st"
  have ok': "paas_ok sha intent ?u" by (rule expired_state_ok [OF ok])
  obtain late where late: "\<forall>j \<in> set (obj_values (st_jobs st)). job_createdAt j \<le> late"
    using latest [of "obj_values (st_jobs st)" job_createdAt] by blast
  have created: "job_createdAt j \<le> late" if "obj_get (st_jobs st) k = Some j" for k j
  proof -
    have "(k, j) \<in> set (st_jobs st)" using that unfolding obj_get_def by (rule map_of_SomeD)
    then have "j \<in> set (obj_values (st_jobs st))" unfolding obj_values_def set_map by (metis image_eqI snd_conv)
    with late show ?thesis by blast
  qed
  have "obj_get (st_jobs st) k = Some j \<and> job_createdAt j \<le> late"
    if "obj_get (st_jobs ?u) k = Some j" "job_status j = Queued" for k j
  proof -
    from that(1) obtain i where i: "obj_get (st_jobs st) k = Some i" "j = expired ?now i"
      by (auto simp: expired_state_def obj_get_map)
    with that(2) have "j = i" by (auto simp: expired_def timed_out_job_def split: if_splits)
    with i(1) created show ?thesis by blast
  qed
  moreover have "jobs_evolve (st_jobs st) (st_jobs ?u)"
    using jobs_evolve_map [of "st_jobs st" "expired ?now"] expired_cases by (simp add: expired_state_def)
  ultimately have "round_ok sha intent late (st_jobs st) ?u" using ok' unfolding round_ok_def by blast
  from start_jobs_closed [OF this, of ?n ?ts "st_revision st + 1" ?evs] obtain st' new where
    s: "start_jobs ?n sha intent ?ts late (st_revision st + 1) ?u ?evs = Inr (st', ?evs @ new)"
      "round_ok sha intent late (st_jobs st) st'" by blast
  from start_jobs_untimed [OF refl s(1), of ?now ?evs] obtain r' where
    r': "start_jobs ?n sha intent ?ts ?now (st_revision st + 1) ?u ?evs = Inr r'" "untimed (fst r') = untimed st'"
    unfolding fst_conv by blast
  obtain s' evs' where "r' = (s', evs')" by (rule prod.exhaust)
  with r' have s': "start_jobs ?n sha intent ?ts ?now (st_revision st + 1) ?u ?evs = Inr (s', evs')"
    "untimed s' = untimed st'" by (simp_all only: fst_conv)
  have "paas_objects s'" using untimed_objects [OF s'(2)] s(2) by (simp add: round_ok_def paas_ok_def)
  then have "paas_objects (finalize s' rv)" for rv by (simp add: paas_objects_def finalize_def)
  moreover have "paas_objects st" using ok by (simp add: paas_ok_def)
  moreover have "schedulePaasJobs sha st intent c =
      Inr (if evs' = [] then paas_unchanged st NO_CHANGE None
           else paas_accepted (finalize s' (st_revision st + 1)) evs' None)"
    using True s'(1)
    by (simp add: schedulePaasJobs_def schedule_allowed_def Let_def expire_closed [OF ok] schedule_starts_def [symmetric])
  ultimately show ?thesis by simp
qed

subsection \<open>Every state that commands reach, with any clock\<close>

inductive paas_reach_any :: "(string \<Rightarrow> string) \<Rightarrow> paas_intent \<Rightarrow> paas_control_state \<Rightarrow> bool"
  for sha intent where
  any_create: "paas_reach_any sha intent (createPaasControlState intent)"
| any_run: "paas_reach_any sha intent st \<Longrightarrow> paas_run sha intent c st = Inr tr \<Longrightarrow>
    paas_reach_any sha intent (tr_state tr)"

lemma reach_any: "paas_reach sha intent st \<Longrightarrow> paas_reach_any sha intent st"
  by (induction rule: paas_reach.induct) (auto intro: paas_reach_any.intros)

lemma run_unchecked:
  "stateInvariantError sha st intent \<noteq> None \<Longrightarrow>
   paas_run sha intent c st = Inr (paas_rejected st STATE_INVARIANT_VIOLATION)"
  by (cases c) (auto simp: enqueuePaasJob_def schedulePaasJobs_def completePaasJob_def cancelPaasJob_def
      acknowledgePaasJobCancellation_def sweepExpiredPaasJobs_def Let_def)

lemma run_returns:
  assumes ok: "paas_ok sha intent st" and i: "intent_ok intent"
  shows "\<exists>tr. paas_run sha intent c st = Inr tr \<and> paas_objects (tr_state tr)"
proof (cases "clock_ok c st")
  case True
  from paas_run_step [OF ok i True] obtain tr where tr: "paas_run sha intent c st = Inr tr" by blast
  from run_ok(1) [OF ok i True tr] tr show ?thesis by (auto simp: paas_ok_def)
next
  case False
  then obtain x where "c = CmdSchedule x" by (cases c) (auto simp: clock_ok_def)
  with schedule_returns [OF ok] show ?thesis by simp
qed

lemma reach_any_objects:
  "paas_reach_any sha intent st \<Longrightarrow> limits_ok intent \<Longrightarrow> intent_ok intent \<Longrightarrow> paas_objects st"
proof (induction rule: paas_reach_any.induct)
  case any_create
  then show ?case using create_ok [of intent sha] by (simp add: paas_ok_def)
next
  case (any_run st c tr)
  then have o: "paas_objects st" by blast
  show ?case
  proof (cases "stateInvariantError sha st intent")
    case None
    from run_returns [OF checked_ok [OF o None] any_run.prems(2), of c] any_run.hyps(2) show ?thesis by auto
  next
    case (Some e)
    with run_unchecked [of sha st intent c] any_run.hyps(2) o show ?thesis by auto
  qed
qed

lemma reach_any_returns:
  assumes "paas_reach_any sha intent st" "limits_ok intent" "intent_ok intent"
  shows "\<exists>tr. paas_run sha intent c st = Inr tr"
proof (cases "stateInvariantError sha st intent")
  case None
  from run_returns [OF checked_ok [OF reach_any_objects [OF assms] None] assms(3)] show ?thesis by blast
next
  case (Some e)
  with run_unchecked [of sha st intent c] show ?thesis by auto
qed

end
