(* ===== verification/PaasProps.thy ===== *)
theory PaasProps
  imports PaasExamples PaasLaws PaasClock
begin

section \<open>PaaS control plane: properties\<close>

text \<open>
  The properties of the control plane, of the parser of its state and of the authorizer, each
  with a witness on the scenario of \<open>PaasExamples\<close>.
\<close>

subsection \<open>Every reachable state\<close>

text \<open>C1: From the initial state no operation ever throws, whatever the commands and the clocks of the schedulers: on every
  state that commands reach, every further command returns a transition.  Such a state either passes the state check, or every
  command on it is refused with \<open>STATE_INVARIANT_VIOLATION\<close> and changes nothing.  The second case needs a scheduler whose
  clock is behind the creation of a queued job, which \<open>schedulePaasJobs\<close> does not compare: every state that is reached with
  the hypothesis \<open>clock_ok\<close> on each command (\<open>paas_reach\<close>) passes the check.  The intent has
  distinct tenants, non-negative limits and positive execution times.  Times and revisions are exact integers here, as
  they are in JavaScript up to \<open>2 ^ 53\<close>; larger times pass \<open>validEpoch\<close> but are rounded.\<close>

theorem paas_reachable_checked:
  assumes "paas_reach_any sha intent st" "limits_ok intent" "intent_ok intent"
  shows "(\<forall>c. \<exists>tr. paas_run sha intent c st = Inr tr) \<and>
    (assertPaasControlState sha st intent = Inr () \<or>
     (\<forall>c. paas_run sha intent c st = Inr (paas_rejected st STATE_INVARIANT_VIOLATION))) \<and>
    (paas_reach sha intent st \<longrightarrow> assertPaasControlState sha st intent = Inr ())"
proof (intro conjI)
  show "\<forall>c. \<exists>tr. paas_run sha intent c st = Inr tr"
    using reach_any_returns [OF assms] by blast
  show "assertPaasControlState sha st intent = Inr () \<or>
     (\<forall>c. paas_run sha intent c st = Inr (paas_rejected st STATE_INVARIANT_VIOLATION))"
    using run_unchecked [of sha st intent] by (cases "stateInvariantError sha st intent") (auto simp: assertPaasControlState_def)
  show "paas_reach sha intent st \<longrightarrow> assertPaasControlState sha st intent = Inr ()"
    using paas_reach_ok [OF _ assms(2,3)] by (auto simp: assertPaasControlState_def paas_ok_check)
qed

theorem paas_reachable_checked_witness:
  "assertPaasControlState px_sha px4 px_intent = Inr () \<and>
   (\<exists>tr. paas_run px_sha px_intent (CmdSchedule (px_schedule 4 50)) px4 = Inr tr)"
  using paas_reachable_checked [OF reach_any [OF px_reach(4)] px_limits] px_reach(4) by blast

text \<open>C10: The jobs follow the state machine: a transition on a checked state, of a scheduler only with a clock that is not
  behind the queued jobs, keeps every job or moves it by one step
  of \<open>job_move\<close>, and only an enqueue adds a job, which is queued and not yet attempted.\<close>

theorem paas_run_refines:
  assumes "paas_objects st" "stateInvariantError sha st intent = None" "intent_ok intent" "clock_ok c st"
    "paas_run sha intent c st = Inr tr"
  shows "(\<forall>k j. obj_get (st_jobs st) k = Some j \<longrightarrow>
       (\<exists>j'. obj_get (st_jobs (tr_state tr)) k = Some j' \<and> (j' = j \<or> job_move j j'))) \<and>
    (\<forall>k j. obj_get (st_jobs st) k = None \<and> obj_get (st_jobs (tr_state tr)) k = Some j \<longrightarrow>
       (\<exists>x. c = CmdEnqueue x) \<and> job_id j = k \<and> job_status j = Queued \<and> job_attempt j = 0)"
proof -
  have ok: "paas_ok sha intent st" by (rule checked_ok [OF assms(1,2)])
  have "(\<exists>x. c = CmdEnqueue x) \<and> job_id j = k \<and> job_status j = Queued \<and> job_attempt j = 0"
    if "obj_get (st_jobs st) k = None" "obj_get (st_jobs (tr_state tr)) k = Some j" for k j
    using run_job_origin [OF ok assms(5) that(2,1)] by (auto simp: enqueued_job_def)
  with run_ok(2) [OF ok assms(3-5)] show ?thesis unfolding jobs_evolve_def by blast
qed

theorem paas_run_refines_witness:
  "\<exists>j. obj_get (st_jobs px4) ''deploy-1'' = Some j \<and> job_move (started_job 200 px_deploy_job) j"
proof -
  obtain evs i where run: "paas_run px_sha px_intent (CmdComplete px_complete) px3 = Inr (paas_accepted px4 evs i)"
    using px_run_complete by auto
  let ?j = "started_job 200 px_deploy_job"
  have found: "obj_get (st_jobs px3) ''deploy-1'' = Some ?j" by simp
  obtain j where j: "obj_get (st_jobs px4) ''deploy-1'' = Some j" "j = ?j \<or> job_move ?j j"
    using paas_run_refines [OF px_checked(3,7) px_limits(2) px_clock(2) run, THEN conjunct1, rule_format, OF found]
    unfolding transition_simps by blast
  have "st_jobs px4 = obj_set (st_jobs px3) ''deploy-1'' (completed_job px_complete ?j)"
    unfolding px4_def complete_state_def Let_def by (simp add: px_complete_def)
  with j(1) have "job_status j = Succeeded" by (auto simp: completed_job_def px_complete_def Let_def)
  with j show ?thesis by auto
qed

text \<open>C29: A job changes finitely often: along any run of commands its entry changes at most two times for each attempt
  it has left, and two times more; with the limit of five attempts, at most twelve times.\<close>

theorem paas_changes_bounded:
  assumes "paas_reach sha intent st" "limits_ok intent" "intent_ok intent" "paas_chain sha intent (st # sts)"
    "obj_get (st_jobs st) k = Some j"
  shows "int (job_changes k (st # sts)) \<le> 2 * (job_maxAttempts j - job_attempt j) + 2 \<and>
    job_changes k (st # sts) \<le> 12"
proof -
  have ok: "paas_ok sha intent st" by (rule paas_reach_ok [OF assms(1-3)])
  have a: "attempts_ok j" using reach_attempts [OF assms(1-3)] assms(5) by (simp add: attempts_kept_def)
  have changes: "int (job_changes k (st # sts)) \<le> job_rank j"
    by (rule changes_bounded [OF assms(4) ok assms(3,5) a])
  have rank: "job_rank j \<le> 2 * (job_maxAttempts j - job_attempt j) + 2"
    by (simp add: job_rank_def split: paas_job_status.splits)
  have "0 \<le> job_attempt j" using a by (simp add: attempts_ok_def)
  moreover have "job_maxAttempts j \<le> 5"
    by (rule job_soundD(10) [OF jobs_soundD [OF paas_okD(3) [OF ok] assms(5)]])
  ultimately have "job_rank j \<le> 12" using rank by simp
  with changes rank show ?thesis by simp
qed

theorem paas_changes_bounded_witness: "job_changes ''deploy-1'' [px2, px3, px4] \<le> 12"
proof -
  have chain: "paas_chain px_sha px_intent [px2, px3, px4]" using px_steps(3,4) by simp
  show ?thesis using paas_changes_bounded [OF px_reach(2) px_limits chain, of "''deploy-1''"] by simp
qed

subsection \<open>Concurrency\<close>

text \<open>C4: Mutual exclusion: in a reachable state, two different active jobs differ in their tenant or in their
  resource.\<close>

theorem paas_mutual_exclusion:
  assumes "paas_reach sha intent st" "limits_ok intent" "intent_ok intent"
    "obj_get (st_jobs st) a = Some ja" "obj_get (st_jobs st) b = Some jb" "a \<noteq> b"
    "job_active ja" "job_active jb"
  shows "(job_tenantId ja, job_resource ja) \<noteq> (job_tenantId jb, job_resource jb)"
  using one_active [OF paas_reach_ok [OF assms(1-3)] assms(4,7,5,8)] assms(6) by auto

theorem paas_mutual_exclusion_witness:
  "(job_tenantId (started_job 200 px_build_job), job_resource (started_job 200 px_build_job)) \<noteq>
   (job_tenantId (started_job 200 px_deploy_job), job_resource (started_job 200 px_deploy_job))"
  by (rule paas_mutual_exclusion [OF px_reach(3) px_limits, of "''build-1''" _ "''deploy-1''"])
    (simp_all add: job_active_def)

text \<open>C15: Quotas: in a reachable state the active jobs keep the global limit, and those of each tenant its limits of
  builds and of deployments.\<close>

theorem paas_quota:
  assumes "paas_reach sha intent st" "limits_ok intent" "intent_ok intent"
  shows "int (length (activeJobs (st_jobs st))) \<le> sch_maxGlobalConcurrency (in_scheduling intent) \<and>
    (\<forall>q \<in> set (in_tenants intent).
       active_builds (st_jobs st) (tq_tenantId q) \<le> tq_maxConcurrentBuilds q \<and>
       active_deploys (st_jobs st) (tq_tenantId q) \<le> tq_maxConcurrentDeployments q)"
  using paas_okD(6) [OF paas_reach_ok [OF assms]] by (simp add: quotas_kept_def)

theorem paas_quota_witness: "length (activeJobs (st_jobs px3)) \<le> 2"
  using paas_quota [OF px_reach(3) px_limits] by simp

text \<open>Optimistic concurrency: of any commands that name the same revision at most one is committed, and the
  revision advances by the number of commits.\<close>

theorem paas_one_winner:
  assumes "run_log (paas_serve sha intent) (map (\<lambda>c. (c, e)) cs) st = (st', n)"
  shows "n \<le> 1 \<and> st_revision st' = st_revision st + int n"
  using paas.one_winner [OF assms, of e] paas.run_log_revision [OF assms] by auto

theorem paas_one_winner_witness:
  "snd (run_log (paas_serve px_sha px_intent) [(CmdEnqueue px_build, 0), (CmdEnqueue px_deploy, 0)] px0) \<le> 1"
  using paas_one_winner [of px_sha px_intent 0 "[CmdEnqueue px_build, CmdEnqueue px_deploy]" px0,
      OF prod.collapse [symmetric]] by simp

subsection \<open>Commands across time\<close>

text \<open>C26: Idempotency: an enqueue that was accepted, or answered as a duplicate, is answered as a duplicate with the same
  job id, and without a change, whenever it is sent again, at whatever revision.\<close>

theorem paas_enqueue_idempotent:
  assumes "paas_objects st" "stateInvariantError sha st intent = None" "intent_ok intent"
    "enqueuePaasJob sha st intent c = Inr tr" "tr_accepted tr" "paas_later sha intent (tr_state tr) u"
  shows "enqueuePaasJob sha u intent (c\<lparr>enq_expectedRevision := e\<rparr>) = Inr (paas_unchanged u DEDUPLICATED (tr_jobId tr))"
proof -
  have ok: "paas_ok sha intent (tr_state tr)"
    using run_ok(1) [OF checked_ok [OF assms(1,2)] assms(3), of "CmdEnqueue c"] assms(4) by (simp add: clock_ok_def)
  have rec: "enqueue_authentic intent c" "enqueue_recorded sha c (tr_jobId tr) (tr_state tr)"
    using enqueue_accepts [OF assms(4,5)] by auto
  have "enqueue_recorded sha c (tr_jobId tr) u"
    using rec(2) later_keeps [OF assms(6) ok assms(3)] unfolding enqueue_recorded_def by blast
  with enqueue_repeated [OF later_ok [OF assms(6) ok assms(3)] rec(1)] show ?thesis by blast
qed

theorem paas_enqueue_idempotent_witness:
  "enqueuePaasJob px_sha px2 px_intent (px_build\<lparr>enq_expectedRevision := 2\<rparr>) =
     Inr (paas_unchanged px2 DEDUPLICATED (Some ''build-1''))"
proof -
  have o: "paas_objects px0" "stateInvariantError px_sha px0 px_intent = None"
    using px0_ok paas_ok_check [OF px0_ok] by (simp_all add: paas_ok_def)
  show ?thesis
    using paas_enqueue_idempotent [OF o px_limits(2) px_run_build, of px2 2] px_later(1)
    by (simp add: paas_accepted_def truthy_def)
qed

text \<open>C20: A capability is redeemed once: after a command that redeemed it was committed, no enqueue or cancellation with
  the same capability is ever committed again.\<close>

theorem paas_capability_once:
  assumes "paas_objects st" "stateInvariantError sha st intent = None" "intent_ok intent" "clock_ok c st"
    "paas_run sha intent c st = Inr tr" "tr_code tr = ACCEPTED" "redeems sha (command_capability c)"
    "paas_later sha intent (tr_state tr) u" "command_capability d = command_capability c"
    "paas_run sha intent d u = Inr tr2"
  shows "tr_code tr2 \<noteq> ACCEPTED \<and> tr_state tr2 = u"
proof -
  have ok: "paas_ok sha intent (tr_state tr)"
    by (rule run_ok(1) [OF checked_ok [OF assms(1,2)] assms(3-5)])
  obtain r where "obj_get (st_redeemedCapabilities (tr_state tr)) (stateKey sha [the (command_capability c)]) = Some r"
    using redeemed_recorded [of sha intent c st tr] assms(5-7) by (auto simp: committed_def)
  with later_keeps [OF assms(8) ok assms(3)] have
    "obj_get (st_redeemedCapabilities u) (stateKey sha [the (command_capability d)]) = Some r"
    unfolding assms(9) by blast
  with assms(7,9) have "capability_replayed sha u (command_capability d)" by (simp add: capability_replayed_def)
  from replayed_refused [OF this, of intent tr2] assms(10) have "tr_code tr2 \<noteq> ACCEPTED"
    by (simp add: committed_def)
  with run_same [OF assms(10)] show ?thesis by blast
qed

theorem paas_capability_once_witness:
  "\<exists>tr. paas_run px_sha px_intent
      (CmdEnqueue (px_build\<lparr>enq_jobId := ''build-2'', enq_idempotencyKey := ''key-9''\<rparr>)) px2 = Inr tr \<and> tr_state tr = px2"
proof -
  let ?d = "CmdEnqueue (px_build\<lparr>enq_jobId := ''build-2'', enq_idempotencyKey := ''key-9''\<rparr>)"
  have o: "paas_objects px0" "stateInvariantError px_sha px0 px_intent = None"
    using px0_ok paas_ok_check [OF px0_ok] by (simp_all add: paas_ok_def)
  have run: "paas_run px_sha px_intent (CmdEnqueue px_build) px0 =
      Inr (paas_accepted px1 (enqueue_events px_sha px0 px_build (px_tenant ''acme'')) (Some ''build-1''))"
    using px_run_build by simp
  have red: "redeems px_sha (command_capability (CmdEnqueue px_build))" by (simp add: redeems_def truthy_def)
  obtain tr where tr: "paas_run px_sha px_intent ?d px2 = Inr tr"
    using enqueue_returns [OF px2_ok] by auto
  from paas_capability_once [OF o px_limits(2) px_clock(1) run _ red, of px2 ?d tr] tr px_later(1) show ?thesis
    by simp
qed

text \<open>C13: Tenants are isolated: a command that names a tenant changes no job and no queue of another tenant.\<close>

theorem paas_tenant_isolation:
  assumes "paas_objects st" "stateInvariantError sha st intent = None" "paas_run sha intent c st = Inr tr"
    "command_tenant c = Some t"
  shows "(\<forall>k j. obj_get (st_jobs st) k = Some j \<and> job_tenantId j \<noteq> t \<longrightarrow> obj_get (st_jobs (tr_state tr)) k = Some j) \<and>
    (\<forall>u. u \<noteq> t \<longrightarrow> obj_get (st_tenantQueues (tr_state tr)) u = obj_get (st_tenantQueues st) u)"
  using run_others [OF checked_ok [OF assms(1,2)] assms(3,4)] by (simp add: others_kept_def)

theorem paas_tenant_isolation_witness: "obj_get (st_tenantQueues px5) ''globex'' = Some []"
proof -
  obtain evs i where run: "paas_run px_sha px_intent (CmdCancel px_cancel) px3 = Inr (paas_accepted px5 evs i)"
    using px_run_cancel by auto
  have "command_tenant (CmdCancel px_cancel) = Some ''acme''" by (simp add: px_cancel_def)
  from paas_tenant_isolation [OF px_checked(3,7) run this] show ?thesis by simp
qed

subsection \<open>Scheduling\<close>

text \<open>The scheduler is work-conserving: on a checked state it always returns; it starts at most the given number of
  jobs, and when it starts fewer, the global limit is reached or no tenant has a job that could start.\<close>

theorem paas_schedule_conserves:
  assumes "paas_objects st" "stateInvariantError sha st intent = None" "clock_ok (CmdSchedule c) st"
    "sched_expectedRevision c = st_revision st" "validEpoch (sched_now c)" "sched_maxStarts c = Some (NInt (int n))"
    "1 \<le> n" "[] \<notin> set (tenant_ids intent)"
  shows "\<exists>tr. schedulePaasJobs sha st intent c = Inr tr \<and> tr_accepted tr \<and>
    length (activeJobs (st_jobs (tr_state tr))) \<le> length (activeJobs (st_jobs st)) + n \<and>
    (length (activeJobs (st_jobs (tr_state tr))) < length (activeJobs (st_jobs st)) + n \<longrightarrow>
       sch_maxGlobalConcurrency (in_scheduling intent) \<le> int (length (activeJobs (st_jobs (tr_state tr)))) \<or>
       (\<forall>t. \<not> can_start sha (tr_state tr) intent t))"
proof -
  have ok: "paas_ok sha intent st" by (rule checked_ok [OF assms(1,2)])
  have n: "num_int (schedule_starts intent c) = int n" using assms(6) by (simp add: schedule_starts_def num_int_def)
  have a: "schedule_allowed sha st intent c"
    using assms by (simp add: schedule_allowed_def schedule_starts_def isInteger_def num_int_def)
  from schedule_closed [OF a ok assms(3)] obtain st' events where
    s: "schedulePaasJobs sha st intent c =
      Inr (if events = [] then paas_unchanged st NO_CHANGE None
           else paas_accepted (finalize st' (st_revision st + 1)) events None)"
    "round_ok sha intent (num_int (sched_now c)) (st_jobs st) st'" "events = [] \<longrightarrow> st' = st"
    "length (activeJobs (st_jobs st')) < length (activeJobs (st_jobs st)) + n \<longrightarrow>
       no_more_starts sha intent (sort_by_locale (\<lambda>t. t) (tenant_ids intent)) st'"
    "length (activeJobs (st_jobs st')) \<le> length (activeJobs (st_jobs st)) + n"
    unfolding n nat_int by blast
  let ?tr = "if events = [] then paas_unchanged st NO_CHANGE None
     else paas_accepted (finalize st' (st_revision st + 1)) events None"
  have same: "st_jobs (tr_state ?tr) = st_jobs st'" "can_start sha (tr_state ?tr) intent t = can_start sha st' intent t" for t
    using s(3) by (auto simp: can_start_def)
  have ok': "paas_ok sha intent st'" using s(2) by (simp add: round_ok_def)
  have only: "can_start sha st' intent t \<Longrightarrow> t \<in> set (tenant_ids intent)" for t
    using find_tenant_None [of intent t] by (auto simp: can_start_def)
  have "tr_accepted ?tr" by simp
  with s same only assms(8) show ?thesis
    unfolding no_more_starts_def sort_by_locale_set by (intro exI [of _ ?tr]) metis
qed

theorem paas_schedule_conserves_witness:
  "\<exists>tr. schedulePaasJobs px_sha px2 px_intent (px_schedule 2 200\<lparr>sched_maxStarts := Some (NInt 1)\<rparr>) = Inr tr \<and>
     length (activeJobs (st_jobs (tr_state tr))) \<le> 1"
proof -
  let ?c = "px_schedule 2 200\<lparr>sched_maxStarts := Some (NInt 1)\<rparr>"
  have "clock_ok (CmdSchedule ?c) px2" by (simp add: clock_ok_def px_schedule_def num_int_def)
  from paas_schedule_conserves [OF px_checked(2,6) this, of 1] show ?thesis
    by (auto simp: px_schedule_def validEpoch_def)
qed

text \<open>C30: The scheduler is fair: while a tenant has a job that could start, every start of another tenant's job brings
  it strictly nearer to the front of the rotation, where it starts behind at most all the other tenants.\<close>

theorem paas_fair:
  assumes "paas_objects st" "stateInvariantError sha st intent = None" "distinct ts" "[] \<notin> set (tenant_ids intent)"
    "nextEligibleTenant sha st intent ts = Inr (Some u)" "start_job sha now rv u st = Inr (Some (st', ev))"
    "t \<in> set ts" "can_start sha st intent t" "t \<noteq> u"
  shows "tenant_turn ts st' t < tenant_turn ts st t \<and> tenant_turn ts st t < length ts"
proof -
  have ok: "paas_ok sha intent st" by (rule checked_ok [OF assms(1,2)])
  have last_t: "st_lastScheduledTenant st \<noteq> Some []"
    using ok assms(4) by (auto simp: paas_ok_def paas_sound_def)
  have "List.find (can_start sha st intent) (rotation (st_lastScheduledTenant st) ts) = Some u"
    using assms(5) last_t by (simp add: next_tenant_closed [OF ok])
  from turn_decreases [where P = "can_start sha st intent", OF assms(3) this assms(7,8,9)] have
    "nat (index_from 0 (rotation (Some u) ts) t) < tenant_turn ts st t" by (simp add: tenant_turn_def)
  moreover have "st_lastScheduledTenant st' = Some u"
    using start_job_inv [OF assms(6)] by blast
  moreover have "tenant_turn ts st t < length ts"
    using turn_nth [of t "rotation (st_lastScheduledTenant st) ts"] assms(7) by (simp add: tenant_turn_def)
  ultimately show ?thesis by (simp add: tenant_turn_def)
qed

theorem paas_fair_witness:
  "tenant_turn [''acme'', ''globex''] (started_state px_sha 200 ''acme'' ''build-1'' [] px_build_job px_both) ''globex'' < 1"
proof -
  let ?ts = "[''acme'', ''globex'']"
  have can: "can_start px_sha px_both px_intent t" if "t \<in> set ?ts" for t
    using that unfolding can_start_def by (auto simp: at_quota_def active_builds_def)
  have o: "paas_objects px_both" "stateInvariantError px_sha px_both px_intent = None"
    using px_both_ok paas_ok_check [OF px_both_ok] by (simp_all add: paas_ok_def)
  have first: "nextEligibleTenant px_sha px_both px_intent ?ts = Inr (Some ''acme'')"
    unfolding next_tenant_closed [OF px_both_ok] using can by (simp add: rotation_rotate)
  have start: "start_job px_sha 200 3 ''acme'' px_both =
      Inr (Some (started_state px_sha 200 ''acme'' ''build-1'' [] px_build_job px_both,
        paas_event_of EvStarted 3 200 (started_job 200 px_build_job)))"
    by (rule start_job_closed) simp_all
  have "tenant_turn ?ts px_both ''globex'' = 1" by (simp add: tenant_turn_def rotation_rotate)
  with paas_fair [OF o _ _ first start, of "''globex''"] can show ?thesis by simp
qed

text \<open>C31: Every job of a checked state ends, and gives back its lock, with at most two commands, which are named here: one
  sweep at or after its deadline times out a queued job; a running job is cancelled by that sweep and timed out by the
  acknowledgement of its worker on the next state; a job that is already being cancelled ends with the acknowledgement
  alone, as timed out or as cancelled by its recorded reason.  Each of these commands is accepted, and a job that has ended holds
  no lock.\<close>

theorem paas_job_can_end:
  assumes "paas_objects st" "stateInvariantError sha st intent = None" "intent_ok intent" "obj_get (st_jobs st) k = Some j"
    "job_deadlineAt j \<le> now" "now \<le> t" "job_updatedAt j \<le> t" "nonEmpty evidence"
  shows "(job_terminal j \<longrightarrow> ended st k (job_status j)) \<and>
    (job_status j = Queued \<longrightarrow>
      (\<exists>tr. sweepExpiredPaasJobs sha st intent (sweep_at st now) = Inr tr \<and> tr_code tr = ACCEPTED \<and>
         ended (tr_state tr) k TimedOut)) \<and>
    (job_status j = Running \<longrightarrow>
      (\<exists>tr j' tr'. sweepExpiredPaasJobs sha st intent (sweep_at st now) = Inr tr \<and> tr_code tr = ACCEPTED \<and>
         obj_get (st_jobs (tr_state tr)) k = Some j' \<and>
         acknowledgePaasJobCancellation sha (tr_state tr) intent (worker_acknowledges (tr_state tr) j' t evidence) = Inr tr' \<and>
         tr_code tr' = ACCEPTED \<and> ended (tr_state tr') k TimedOut)) \<and>
    (job_status j = JobCancelling \<longrightarrow>
      (\<exists>tr. acknowledgePaasJobCancellation sha st intent (worker_acknowledges st j t evidence) = Inr tr \<and>
         tr_code tr = ACCEPTED \<and>
         ended (tr_state tr) k (if job_cancellationReason j = Some ByDeadline then TimedOut else JobCancelled)))"
  by (rule job_can_end [OF checked_ok [OF assms(1,2)] assms(3-8)])

theorem paas_job_can_end_witness:
  "(\<exists>tr. sweepExpiredPaasJobs px_sha px2 px_intent (sweep_at px2 9000) = Inr tr \<and> ended (tr_state tr) ''build-1'' TimedOut) \<and>
   (\<exists>tr j' tr'. sweepExpiredPaasJobs px_sha px3 px_intent (sweep_at px3 9000) = Inr tr \<and>
      acknowledgePaasJobCancellation px_sha (tr_state tr) px_intent (worker_acknowledges (tr_state tr) j' 9001 ''ok'') = Inr tr' \<and>
      ended (tr_state tr') ''build-1'' TimedOut)"
proof
  have e: "nonEmpty ''ok''" by code_simp
  have q: "obj_get (st_jobs px2) ''build-1'' = Some px_build_job" "job_status px_build_job = Queued"
    "job_deadlineAt px_build_job \<le> 9000" "job_updatedAt px_build_job \<le> 9001"
    by (simp_all add: enqueued_job_def px_build_def num_int_def)
  from paas_job_can_end [OF px_checked(2,6) px_limits(2) q(1,3) _ q(4) e] q(2) show
    "\<exists>tr. sweepExpiredPaasJobs px_sha px2 px_intent (sweep_at px2 9000) = Inr tr \<and> ended (tr_state tr) ''build-1'' TimedOut"
    by auto
  let ?j = "started_job 200 px_build_job"
  have r: "obj_get (st_jobs px3) ''build-1'' = Some ?j" "job_status ?j = Running"
    "job_deadlineAt ?j \<le> 9000" "job_updatedAt ?j \<le> 9001"
    using q by (simp_all add: started_job_def)
  from paas_job_can_end [OF px_checked(3,7) px_limits(2) r(1,3) _ r(4) e] r(2) show
    "\<exists>tr j' tr'. sweepExpiredPaasJobs px_sha px3 px_intent (sweep_at px3 9000) = Inr tr \<and>
      acknowledgePaasJobCancellation px_sha (tr_state tr) px_intent (worker_acknowledges (tr_state tr) j' 9001 ''ok'') = Inr tr' \<and>
      ended (tr_state tr') ''build-1'' TimedOut" by auto
qed

subsection \<open>Deployments\<close>

text \<open>A successful deployment or rollback makes its artifact the active one of its resource, puts the artifact that
  was active at the head of the history, which stays free of duplicates and at most twenty long, advances the
  generation by one and gives the lock of the resource back.\<close>

theorem paas_deployment_promoted:
  assumes "paas_objects st" "stateInvariantError sha st intent = None" "completePaasJob sha st intent c = Inr tr"
    "tr_code tr = ACCEPTED" "cmp_outcome c = OutcomeSucceeded" "obj_get (st_jobs st) (cmp_jobId c) = Some j"
    "job_operation j \<noteq> JobBuild"
  shows "\<exists>d. obj_get (st_deployments (tr_state tr)) (job_lock sha j) = Some d \<and>
    Some (dep_activeArtifactDigest d) = job_artifactDigest j \<and> dep_sourceJobId d = cmp_jobId c \<and>
    length (dep_previousArtifactDigests d) \<le> 20 \<and> distinct (dep_activeArtifactDigest d # dep_previousArtifactDigests d) \<and>
    (case obj_get (st_deployments st) (job_lock sha j) of
       None \<Rightarrow> dep_generation d = 1 \<and> dep_previousArtifactDigests d = []
     | Some before \<Rightarrow>
         dep_generation d = dep_generation before + 1 \<and>
         (dep_activeArtifactDigest d \<noteq> dep_activeArtifactDigest before \<longrightarrow>
            (\<exists>rest. dep_previousArtifactDigests d = dep_activeArtifactDigest before # rest))) \<and>
    obj_get (st_resourceLocks (tr_state tr)) (job_lock sha j) = None"
proof -
  have ok: "paas_ok sha intent st" by (rule checked_ok [OF assms(1,2)])
  from complete_commits [of sha st intent c tr] assms(3,4) obtain j' queue where
    a: "complete_allowed sha st intent c j'" "tr_state tr = complete_state sha st c j' queue"
    by (auto simp: committed_def)
  have found: "obj_get (st_jobs st) (cmp_jobId c) = Some j'" using a(1) by (simp add: complete_allowed_def)
  with assms(6) have j: "j' = j" by simp
  note s = jobs_soundD [OF paas_okD(3) [OF ok] assms(6)]
  obtain art where art: "job_artifactDigest j = Some art"
    using job_soundD(12) [OF s assms(7)] by (cases "job_artifactDigest j") (auto simp: validDigest_def)
  have kept: "job_kept j (completed_job c j)" using job_move_kept [OF completed_move(1)] a(1) j by simp
  let ?before = "obj_get (st_deployments st) (job_lock sha j)"
  let ?d = "\<lparr>dep_tenantId = job_tenantId j, dep_resource = job_resource j, dep_activeArtifactDigest = art,
     dep_previousArtifactDigests = promoted_history ?before art,
     dep_generation = (case ?before of None \<Rightarrow> 0 | Some d \<Rightarrow> dep_generation d) + 1,
     dep_updatedAt = num_int (cmp_completedAt c), dep_sourceJobId = job_id j\<rparr>"
  have d: "obj_get (st_deployments (tr_state tr)) (job_lock sha j) = Some ?d"
    using a(2) j art kept job_kept_lock [OF kept, of sha] assms(5,7)
    by (simp add: complete_state_def Let_def complete_retries_def promoteDeployment_def job_kept_def)
  have h: "length (promoted_history ?before art) \<le> 20 \<and> distinct (art # promoted_history ?before art)"
  proof -
    have cur: "?before = Some x \<Longrightarrow> deployment_sound sha intent (st_jobs st) (job_lock sha j) x" for x
      using paas_okD(7) [OF ok] by (simp add: records_sound_def)
    then have "\<forall>x. ?before = Some x \<longrightarrow> validDigest (Some (dep_activeArtifactDigest x)) \<and>
        (\<forall>a \<in> set (dep_previousArtifactDigests x). validDigest (Some a)) \<and>
        distinct (dep_activeArtifactDigest x # dep_previousArtifactDigests x)"
      unfolding deployment_sound_def by blast
    from promoted_history_sound [OF this] show ?thesis by blast
  qed
  have unlocked: "st_resourceLocks (complete_state sha st c j queue) = obj_del (st_resourceLocks st) (job_lock sha j)"
    by (simp add: complete_state_def Let_def)
  have l: "obj_get (st_resourceLocks (tr_state tr)) (job_lock sha j) = None"
    unfolding a(2) j unlocked by (simp add: obj_get_del)
  have history: "case ?before of
       None \<Rightarrow> dep_generation ?d = 1 \<and> dep_previousArtifactDigests ?d = []
     | Some before \<Rightarrow>
         dep_generation ?d = dep_generation before + 1 \<and>
         (dep_activeArtifactDigest ?d \<noteq> dep_activeArtifactDigest before \<longrightarrow>
            (\<exists>rest. dep_previousArtifactDigests ?d = dep_activeArtifactDigest before # rest))"
    by (cases ?before) (simp_all add: promoted_history_def numeral_eq_Suc)
  show ?thesis
    by (rule exI [of _ ?d]) (use d h l art job_soundD(1) [OF s] history in simp)
qed

theorem paas_deployment_promoted_witness:
  "\<exists>d. obj_get (st_deployments px4) (job_lock px_sha px_deploy_job) = Some d \<and> dep_activeArtifactDigest d = px_digest \<and>
     dep_generation d = 1"
proof -
  let ?j = "started_job 200 px_deploy_job"
  obtain evs i where run: "completePaasJob px_sha px3 px_intent px_complete = Inr (paas_accepted px4 evs i)"
    using px_run_complete by blast
  have c: "cmp_outcome px_complete = OutcomeSucceeded" "cmp_jobId px_complete = ''deploy-1''"
    by (simp_all add: px_complete_def)
  have j: "obj_get (st_jobs px3) (cmp_jobId px_complete) = Some ?j" "job_operation ?j \<noteq> JobBuild"
    "job_lock px_sha ?j = job_lock px_sha px_deploy_job" "job_artifactDigest ?j = Some px_digest"
    by (simp_all add: c started_job_def job_lock_def)
  from paas_deployment_promoted [OF px_checked(3,7) run _ c(1) j(1,2)] j(3,4) show ?thesis by auto
qed

text \<open>C37: Where digests come from: in a reachable state, every digest of a deployment record, active or previous, is the
  artifact of a deployment or rollback of that resource that has succeeded; so is the target of every rollback that
  the control plane accepts as known.\<close>

theorem paas_deployment_history:
  assumes "paas_reach sha intent st" "limits_ok intent" "intent_ok intent"
  shows "(\<forall>k d a. obj_get (st_deployments st) k = Some d \<and>
       a \<in> set (dep_activeArtifactDigest d # dep_previousArtifactDigests d) \<longrightarrow> deployed_from sha (st_jobs st) k a) \<and>
    (\<forall>c. knownRollbackTarget sha st c \<longrightarrow>
       (\<exists>a. enq_artifactDigest c = Some a \<and>
          deployed_from sha (st_jobs st) (resourceKey sha (enq_tenantId c) (enq_resource c)) a))"
proof -
  have h: "history_sound sha st" by (rule reach_history [OF assms])
  then have "knownRollbackTarget sha st c \<Longrightarrow> \<exists>a. enq_artifactDigest c = Some a \<and>
      deployed_from sha (st_jobs st) (resourceKey sha (enq_tenantId c) (enq_resource c)) a" for c
    by (auto simp: history_sound_def knownRollbackTarget_def split: option.splits)
  with h show ?thesis unfolding history_sound_def by blast
qed

theorem paas_deployment_history_witness:
  "deployed_from px_sha (st_jobs px4) (job_lock px_sha px_deploy_job) px_digest"
proof -
  let ?j = "started_job 200 px_deploy_job"
  have "job_lock px_sha (completed_job px_complete ?j) = job_lock px_sha px_deploy_job"
    "job_artifactDigest (completed_job px_complete ?j) = Some px_digest" "job_operation ?j \<noteq> JobBuild"
    by (simp_all add: completed_job_def Let_def px_complete_def job_lock_def succeeded_job_def started_job_def)
  then have "\<exists>d. obj_get (st_deployments px4) (job_lock px_sha px_deploy_job) = Some d \<and>
      dep_activeArtifactDigest d = px_digest"
    by (simp add: px4_def complete_state_def Let_def complete_retries_def promoteDeployment_def)
      (simp add: px_complete_def)
  then obtain d where d: "obj_get (st_deployments px4) (job_lock px_sha px_deploy_job) = Some d"
    "dep_activeArtifactDigest d = px_digest" by blast
  from paas_deployment_history [OF px_reach(4) px_limits, THEN conjunct1, rule_format, OF conjI, OF d(1)] d(2)
  show ?thesis by simp
qed

subsection \<open>Refusals and the stored state\<close>

text \<open>Errors have no effect: a transition that is not committed keeps the state and emits no event, it counts as
  accepted only as a duplicate or when there was nothing to do, and a state that fails the check is refused by every
  command.\<close>

theorem paas_refusal_changes_nothing:
  assumes "paas_run sha intent c st = Inr tr" "tr_code tr \<noteq> ACCEPTED"
  shows "tr_state tr = st \<and> tr_events tr = [] \<and> (tr_accepted tr \<longleftrightarrow> tr_code tr \<in> {DEDUPLICATED, NO_CHANGE}) \<and>
    (stateInvariantError sha st intent \<noteq> None \<longrightarrow> tr = paas_rejected st STATE_INVARIANT_VIOLATION)"
  using run_same [OF assms] run_refused [OF assms] run_unchecked [of sha st intent c] assms(1) by auto

theorem paas_refusal_changes_nothing_witness:
  "\<exists>tr. paas_run px_sha px_intent (CmdEnqueue (px_deploy\<lparr>enq_expectedRevision := 7\<rparr>)) px1 = Inr tr \<and>
     tr_state tr = px1 \<and> tr_events tr = [] \<and> \<not> tr_accepted tr"
proof -
  let ?c = "px_deploy\<lparr>enq_expectedRevision := 7\<rparr>"
  have auth: "validEnqueueCommand ?c" "authorizationBinds (enq_authorization ?c) (EnqueueCommand ?c) OpDeploy None"
    using px_valid(2) px_binds(2) by (simp_all add: validEnqueueCommand_def authorizationBinds_def del: rx_test.simps)
  have run: "paas_run px_sha px_intent (CmdEnqueue ?c) px1 = Inr (paas_rejected px1 STATE_REVISION_CONFLICT)"
    using auth by (simp add: enqueuePaasJob_def Let_def)
  from paas_refusal_changes_nothing [OF run] run show ?thesis by simp
qed

text \<open>C17: Round trip of the stored state: the encoding of a state parses exactly when its fields have the stored formats
  and it passes the check, and then to the same state.\<close>

theorem paas_state_roundtrip:
  assumes "paas_objects st"
  shows "parsePaasControlState sha (enc_paas_state st) intent = Inr st' \<longleftrightarrow>
    paas_storable st \<and> stateInvariantError sha st intent = None \<and> st' = st"
  using parse_enc_state [OF assms] state_check_iff [OF assms] by simp

theorem paas_state_roundtrip_witness:
  "parsePaasControlState px_sha (enc_paas_state px0) px_intent = Inr px0"
proof -
  have o: "paas_objects px0" "stateInvariantError px_sha px0 px_intent = None"
    using px0_ok paas_ok_check [OF px0_ok] by (simp_all add: paas_ok_def)
  have "array_index ''globex'' = None" by code_simp
  then have "paas_storable px0"
    by (simp add: paas_storable_def px0_def createPaasControlState_def px_intent_def obj_from_entries_def obj_set_def
        obj_values_def opt_all_def)
  with paas_state_roundtrip [OF o(1)] o(2) show ?thesis by simp
qed

text \<open>A worker can store what cannot be read back: when it completes a deployment or a rollback with a result digest
  that is not a digest, the transition is accepted and the new state passes the check, but its encoding does not
  parse.\<close>

theorem paas_result_unreadable:
  assumes "paas_objects st" "stateInvariantError sha st intent = None" "intent_ok intent"
    "completePaasJob sha st intent c = Inr tr" "tr_code tr = ACCEPTED" "cmp_outcome c = OutcomeSucceeded"
    "cmp_resultArtifactDigest c = Some s" "s \<noteq> []" "\<not> rx_test artifact_rx s"
  shows "stateInvariantError sha (tr_state tr) intent = None \<and>
    (\<exists>e. parsePaasControlState sha (enc_paas_state (tr_state tr)) intent = Inl e)"
proof -
  have ok: "paas_ok sha intent st" by (rule checked_ok [OF assms(1,2)])
  have ok': "paas_ok sha intent (tr_state tr)"
    using run_ok(1) [OF ok assms(3), of "CmdComplete c"] assms(4) by (simp add: clock_ok_def)
  from complete_commits [of sha st intent c tr] assms(4,5) obtain j queue where
    a: "tr_state tr = complete_state sha st c j queue" by (auto simp: committed_def)
  let ?j = "completed_job c j"
  have "obj_get (st_jobs (tr_state tr)) (cmp_jobId c) = Some ?j"
    unfolding a by (simp add: complete_state_def Let_def)
  then have mem: "?j \<in> set (obj_values (st_jobs (tr_state tr)))"
    by (force simp: obj_values_def obj_get_def dest: map_of_SomeD)
  have "job_resultArtifactDigest ?j = Some s"
    using assms(6-8) by (simp add: completed_job_def Let_def succeeded_job_def truthy_def)
  then have "\<not> storable_job ?j"
    using assms(9) by (simp add: storable_job_def opt_all_def del: rx_test.simps)
  with mem have bad: "\<not> paas_storable (tr_state tr)" by (auto simp: paas_storable_def)
  have "paas_objects (tr_state tr)" using ok' by (simp add: paas_ok_def)
  from parse_enc_state [OF this, of sha intent] bad have
    "parsePaasControlState sha (enc_paas_state (tr_state tr)) intent \<noteq> Inr st'" for st' by simp
  with paas_ok_check [OF ok'] show ?thesis
    by (cases "parsePaasControlState sha (enc_paas_state (tr_state tr)) intent") auto
qed

theorem paas_result_unreadable_witness:
  "\<exists>tr e. completePaasJob px_sha px3 px_intent (px_complete\<lparr>cmp_resultArtifactDigest := Some ''latest''\<rparr>) = Inr tr \<and>
     parsePaasControlState px_sha (enc_paas_state (tr_state tr)) px_intent = Inl e"
proof -
  let ?c = "px_complete\<lparr>cmp_resultArtifactDigest := Some ''latest''\<rparr>" and ?j = "started_job 200 px_deploy_job"
  have "complete_allowed px_sha px3 px_intent ?c ?j"
    using px_complete_allowed by (auto simp: complete_allowed_def px_complete_def started_job_def)
  moreover have o: "cmp_outcome ?c = OutcomeSucceeded" by (simp add: px_complete_def)
  moreover have "\<exists>tr. committed (complete_effect px_sha px3 ?c ?j) tr"
    using o by (auto simp: complete_effect_def Let_def committed_simps)
  ultimately obtain tr where tr: "completePaasJob px_sha px3 px_intent ?c = Inr tr" "tr_code tr = ACCEPTED"
    using complete_guards [of px_sha px3 px_intent ?c] by (auto simp: committed_def)
  have "\<not> rx_test artifact_rx ''latest''" by code_simp
  with paas_result_unreadable [OF px_checked(3,7) px_limits(2) tr o] tr(1) show ?thesis by auto
qed

text \<open>The scheduler trusts its clock: on a state that passes the check, a round at a time before the creation of a
  queued job is accepted and starts the job, and then every command on the new state is refused because the state
  fails its own check.\<close>

theorem paas_schedule_early:
  "stateInvariantError px_sha px2 px_intent = None \<and>
   (\<exists>tr. schedulePaasJobs px_sha px2 px_intent (px_schedule 2 50) = Inr tr \<and> tr_code tr = ACCEPTED \<and>
      (\<forall>c. paas_run px_sha px_intent c (tr_state tr) = Inr (paas_rejected (tr_state tr) STATE_INVARIANT_VIOLATION)))"
proof -
  obtain st' evs where run: "schedulePaasJobs px_sha px2 px_intent (px_schedule 2 50) = Inr (paas_accepted st' evs None)"
    "obj_get (st_jobs st') ''build-1'' = Some (started_job 50 px_build_job)"
    using px_run_early by blast
  have "job_times_bad (started_job 50 px_build_job)" by (simp add: job_times_bad_def started_job_def)
  with early_unchecked [OF run(2)] have "stateInvariantError px_sha st' px_intent \<noteq> None" by blast
  with run(1) run_unchecked show ?thesis by fastforce
qed

subsection \<open>Authorization\<close>

text \<open>C24: The authorizer decides its specification \<open>authorized\<close>, which names no helper of the code.  It allows a request exactly
  when: the request, the actor and the tenant are named, the resource has no wildcard and the clock is not negative; the actor
  belongs to the tenant, and the tenant is declared; a change has an idempotency key where the intent asks for keys, a build a
  revision of 40 to 64 hexadecimal digits, a deployment, rollback, push or pull a SHA-256 digest; the first endpoint with the
  requested identifier offers the operation, its methods of authentication, both for \<open>oidc+mtls\<close>, are among those of the actor,
  and its execution target, never the host, is the requested one; and, as the endpoint's mode asks, there is a grant of the
  actor for tenant, endpoint, operation and resource that has not expired, or the request carries a verified capability of a
  trusted issuer for exactly this actor, tenant, endpoint, operation and resource, valid now, no longer than the intent permits,
  not redeemed, and one-use for a change where the intent asks for that.  Every denial has a reason, no reason is given
  twice, and a capability is handed out to be redeemed exactly with a permission, for a one-use capability.\<close>

theorem paas_authorizer_decides:
  "(dec_allowed (authorizePaasRequest intent rq st) \<longleftrightarrow> authorized intent rq st) \<and>
   (dec_reasonCodes (authorizePaasRequest intent rq st) = [] \<longleftrightarrow> authorized intent rq st) \<and>
   distinct (dec_reasonCodes (authorizePaasRequest intent rq st)) \<and>
   (dec_capabilityToRedeem (authorizePaasRequest intent rq st) = Some i \<longleftrightarrow>
      authorized intent rq st \<and> (\<exists>cap. rq_capability rq = Some cap \<and> cap_oneUse cap \<and> cap_id cap = i))"
proof -
  have "dec_reasonCodes (authorizePaasRequest intent rq st) = [] \<longleftrightarrow> dec_allowed (authorizePaasRequest intent rq st)"
    by (simp add: authorizePaasRequest_def Let_def)
  then show ?thesis
    using reasons_distinct [of intent rq st] unfolding allowed_iff decision_redeems by (auto split: option.splits)
qed

text \<open>C25: Authorizer and control plane agree: an enqueue with the authorizer's decision on a request is committed only
  when that request was authorized, at the time, for the tenant, operation, resource, key and artifacts of the command;
  and a one-use capability that the request carried is then recorded as redeemed.\<close>

theorem paas_enqueue_authorized:
  assumes "enq_authorization c = authorizePaasRequest intent rq ast" "enqueuePaasJob sha st intent c = Inr tr"
    "tr_code tr = ACCEPTED"
  shows "authorized intent rq ast \<and> enq_requestedAt c = NInt (as_now ast) \<and> rq_tenantId rq = enq_tenantId c \<and>
    rq_operation rq = job_paas_operation (enq_operation c) \<and> rq_resource rq = enq_resource c \<and>
    rq_idempotencyKey rq = Some (enq_idempotencyKey c) \<and> rq_sourceRevision rq = enq_sourceRevision c \<and>
    rq_artifactDigest rq = enq_artifactDigest c \<and>
    (\<forall>cap. rq_capability rq = Some cap \<and> cap_oneUse cap \<and> redeems sha (Some (cap_id cap)) \<longrightarrow>
       obj_get (st_redeemedCapabilities (tr_state tr)) (stateKey sha [cap_id cap]) \<noteq> None)"
proof -
  have com: "committed (paas_run sha intent (CmdEnqueue c) st) tr" using assms(2,3) by (simp add: committed_def)
  with enqueue_commits [of sha st intent c tr] have
    "authorizationBinds (enq_authorization c) (EnqueueCommand c) (job_paas_operation (enq_operation c)) None"
    by (auto simp: enqueue_allowed_def)
  then have bind: "authorized intent rq ast" "enq_requestedAt c = NInt (as_now ast)" "rq_tenantId rq = enq_tenantId c"
    "rq_operation rq = job_paas_operation (enq_operation c)" "rq_resource rq = enq_resource c"
    "rq_idempotencyKey rq = Some (enq_idempotencyKey c)" "rq_sourceRevision rq = enq_sourceRevision c"
    "rq_artifactDigest rq = enq_artifactDigest c"
    unfolding authorizationBinds_def assms(1) by (simp_all add: allowed_iff)
  have "obj_get (st_redeemedCapabilities (tr_state tr)) (stateKey sha [cap_id cap]) \<noteq> None"
    if "rq_capability rq = Some cap" "cap_oneUse cap" "redeems sha (Some (cap_id cap))" for cap
  proof -
    have cap: "command_capability (CmdEnqueue c) = Some (cap_id cap)"
      using that(1,2) bind(1) by (simp add: assms(1) decision_redeems)
    with redeemed_recorded [OF com] that(3) show ?thesis by auto
  qed
  with bind show ?thesis by blast
qed

theorem paas_enqueue_authorized_witness:
  "authorized px_intent px_request px_auth \<and>
   obj_get (st_redeemedCapabilities px1) (stateKey px_sha [''cap-1'']) \<noteq> None"
proof -
  let ?c = "px_build\<lparr>enq_authorization := authorizePaasRequest px_intent px_request px_auth\<rparr>"
  obtain tr where tr: "enqueuePaasJob px_sha px0 px_intent ?c = Inr tr" "tr_code tr = ACCEPTED" "tr_state tr = px1"
    using px_run_authorized by blast
  have "rq_capability px_request = Some px_capability" "cap_oneUse px_capability" "cap_id px_capability = ''cap-1''"
    "redeems px_sha (Some ''cap-1'')"
    by (simp_all add: px_request_def px_capability_def redeems_def truthy_def)
  with paas_enqueue_authorized [OF _ tr(1,2), of px_request px_auth] tr(3) show ?thesis by auto
qed

end
