(* ===== verification/JsCollections.thy ===== *)
theory JsCollections
  imports JsObjects "HOL-Library.AList"
begin

section \<open>Arrays, maps and sets of JavaScript\<close>

text \<open>
  The collection idioms of the blueprint analysis: \<open>js_uniq\<close> is \<open>[...new Set(xs)]\<close>, \<open>index_by\<close> is
  \<open>new Map(xs.map((x) => [key(x), x]))\<close> read with \<open>get\<close> (the last entry of a key wins), \<open>groupBy\<close>
  the grouping loop with \<open>groups.set(k, [...(groups.get(k) ?? []), x])\<close>, and \<open>map_set\<close> is \<open>Map.set\<close> on
  the entries in insertion order.  Each comes with its specification.
\<close>

definition or_empty :: "'a list option \<Rightarrow> 'a list" where
  "or_empty x = (case x of None \<Rightarrow> [] | Some xs \<Rightarrow> xs)"

definition squote :: "string \<Rightarrow> string" where
  "squote s = CHR 0x27 # s @ [CHR 0x27]"

fun join_with :: "string \<Rightarrow> string list \<Rightarrow> string" where
  "join_with sep [] = []"
| "join_with sep [x] = x"
| "join_with sep (x # y # xs) = x @ sep @ join_with sep (y # xs)"

definition ends_with :: "string \<Rightarrow> string \<Rightarrow> bool" where
  "ends_with s t \<longleftrightarrow> length t \<le> length s \<and> drop (length s - length t) s = t"

definition starts_with :: "string \<Rightarrow> string \<Rightarrow> bool" where
  "starts_with s t \<longleftrightarrow> take (length t) s = t"

lemma ends_with_iff: "ends_with s t \<longleftrightarrow> (\<exists>u. s = u @ t)"
  by (auto simp: ends_with_def) (metis append_take_drop_id)

lemma starts_with_iff: "starts_with s t \<longleftrightarrow> (\<exists>u. s = t @ u)"
  by (auto simp: starts_with_def) (metis append_take_drop_id)

lemma or_empty_simps [simp]: "or_empty None = []" "or_empty (Some xs) = xs"
  by (simp_all add: or_empty_def)

subsection \<open>Sets\<close>

fun uniq_from :: "'a list \<Rightarrow> 'a list \<Rightarrow> 'a list" where
  "uniq_from seen [] = []"
| "uniq_from seen (x # xs) = (if x \<in> set seen then uniq_from seen xs else x # uniq_from (x # seen) xs)"

definition js_uniq :: "'a list \<Rightarrow> 'a list" where
  "js_uniq xs = uniq_from [] xs"

lemma uniq_from_set: "set (uniq_from seen xs) = set xs - set seen"
  by (induction seen xs rule: uniq_from.induct) auto

lemma uniq_from_distinct: "distinct (uniq_from seen xs)"
  by (induction seen xs rule: uniq_from.induct) (auto simp: uniq_from_set)

lemma js_uniq_set [simp]: "set (js_uniq xs) = set xs"
  by (simp add: js_uniq_def uniq_from_set)

lemma js_uniq_distinct [simp]: "distinct (js_uniq xs)"
  by (simp add: js_uniq_def uniq_from_distinct)

lemma js_uniq_Nil [simp]: "js_uniq xs = [] \<longleftrightarrow> xs = []"
  by (metis js_uniq_set set_empty)

text \<open>\<open>duplicateValues\<close>: the values that occur a second time, in the order of their second occurrence.\<close>

fun dup_from :: "string list \<Rightarrow> string list \<Rightarrow> string list" where
  "dup_from seen [] = []"
| "dup_from seen (x # xs) = (if x \<in> set seen then x # dup_from seen xs else dup_from (x # seen) xs)"

definition duplicateValues :: "string list \<Rightarrow> string list" where
  "duplicateValues xs = js_uniq (dup_from [] xs)"

lemma dup_from_Nil: "dup_from seen xs = [] \<longleftrightarrow> distinct xs \<and> set xs \<inter> set seen = {}"
  by (induction seen xs rule: dup_from.induct) auto

lemma duplicateValues_Nil: "duplicateValues xs = [] \<longleftrightarrow> distinct xs"
  by (simp add: duplicateValues_def dup_from_Nil)

lemma dup_from_mem: "x \<in> set (dup_from seen xs) \<longleftrightarrow> (if x \<in> set seen then 1 else 2) \<le> count_list xs x"
proof (induction seen xs rule: dup_from.induct)
  case (2 seen y xs)
  have "0 < count_list xs x \<longleftrightarrow> x \<in> set xs" by (metis count_list_0_iff gr0I less_numeral_extra(3))
  with 2 show ?case by (auto split: if_splits)
qed auto

lemma duplicateValues_mem: "x \<in> set (duplicateValues xs) \<longleftrightarrow> 2 \<le> count_list xs x"
  by (simp add: duplicateValues_def dup_from_mem)

subsection \<open>Maps\<close>

definition index_by :: "('a \<Rightarrow> string) \<Rightarrow> 'a list \<Rightarrow> string \<Rightarrow> 'a option" where
  "index_by key xs k = map_of (rev (map (\<lambda>x. (key x, x)) xs)) k"

definition groupBy :: "('a \<Rightarrow> string) \<Rightarrow> 'a list \<Rightarrow> string \<Rightarrow> 'a list option" where
  "groupBy key xs = foldl (\<lambda>groups x. groups(key x \<mapsto> or_empty (groups (key x)) @ [x])) Map.empty xs"

definition map_set :: "('k \<times> 'v) list \<Rightarrow> 'k \<Rightarrow> 'v \<Rightarrow> ('k \<times> 'v) list" where
  "map_set m k v = AList.update k v m"

lemma index_by_Some: "index_by key xs k = Some x \<Longrightarrow> x \<in> set xs \<and> key x = k"
  unfolding index_by_def by (auto dest: map_of_SomeD)

lemma index_by_None: "index_by key xs k = None \<longleftrightarrow> k \<notin> key ` set xs"
  by (auto simp: index_by_def map_of_eq_None_iff image_image)

lemma index_by_unique: "distinct (map key xs) \<Longrightarrow> x \<in> set xs \<Longrightarrow> index_by key xs (key x) = Some x"
  unfolding index_by_def by (rule map_of_is_SomeI) (auto simp: rev_map [symmetric] comp_def)

lemma groupBy_filter: "or_empty (groupBy key xs k) = filter (\<lambda>x. key x = k) xs"
proof (induction xs rule: rev_induct)
  case Nil
  then show ?case by (simp add: groupBy_def)
next
  case (snoc x xs)
  have "groupBy key (xs @ [x]) = (groupBy key xs)(key x \<mapsto> or_empty (groupBy key xs (key x)) @ [x])"
    by (simp add: groupBy_def)
  with snoc show ?case by simp
qed

lemma map_set_get [simp]: "map_of (map_set m k v) k' = (if k' = k then Some v else map_of m k')"
  by (simp add: map_set_def update_conv')

end
