(* ===== verification/PaasSecurity.thy ===== *)
theory PaasSecurity
  imports PaasIntent JsCollections
begin

section \<open>PaaS security intent: parser and evaluation\<close>

text \<open>
  \<open>parsePaasSecurityIntent\<close>, \<open>evaluatePaasSecurityIntent\<close> and \<open>createSecurePaasSecurityIntent\<close> of
  \<open>src/core/paas.ts\<close>.  The parser reads every property, in the order of the source, and then asserts
  that the evaluation finds no violation.  A violation is a record; a check is the list of what it pushes.
\<close>

subsection \<open>Literals\<close>

definition PAAS_SECURITY_API_VERSION :: string where
  "PAAS_SECURITY_API_VERSION = ''security.deus.dev/paas-security/v1alpha1''"

definition requiredRoles :: "identity_role list" where
  "requiredRoles = [RoleControlPlane, RoleBuilder, RoleDeployer, RoleEgress, RoleRegistry, RoleRuntime, RoleAudit]"

primrec identity_role_name :: "identity_role \<Rightarrow> string" where
  "identity_role_name RoleControlPlane = ''control-plane''"
| "identity_role_name RoleBuilder = ''builder''"
| "identity_role_name RoleDeployer = ''deployer''"
| "identity_role_name RoleEgress = ''egress''"
| "identity_role_name RoleRegistry = ''registry''"
| "identity_role_name RoleRuntime = ''runtime''"
| "identity_role_name RoleAudit = ''audit''"

primrec exposure_name :: "endpoint_exposure \<Rightarrow> string" where
  "exposure_name Private = ''private''"
| "exposure_name Public = ''public''"

primrec authentication_name :: "endpoint_authentication \<Rightarrow> string" where
  "authentication_name AuthNone = ''none''"
| "authentication_name AuthOidc = ''oidc''"
| "authentication_name AuthMtls = ''mtls''"
| "authentication_name AuthOidcMtls = ''oidc+mtls''"

primrec authorization_name :: "endpoint_authorization \<Rightarrow> string" where
  "authorization_name ModeNone = ''none''"
| "authorization_name ModeRbac = ''rbac''"
| "authorization_name ModeCapability = ''capability''"

primrec trust_name :: "sandbox_trust \<Rightarrow> string" where
  "trust_name Trusted = ''trusted''"
| "trust_name Untrusted = ''untrusted''"

primrec isolation_name :: "sandbox_isolation \<Rightarrow> string" where
  "isolation_name Container = ''container''"
| "isolation_name Microvm = ''microvm''"
| "isolation_name DedicatedVm = ''dedicated-vm''"

primrec egress_name :: "sandbox_egress \<Rightarrow> string" where
  "egress_name EgressNone = ''none''"
| "egress_name EgressBrokered = ''brokered''"
| "egress_name EgressDirect = ''direct''"

definition sandboxOperations :: "paas_operation list" where
  "sandboxOperations = [OpReadFile, OpWriteFile, OpExecCommand, OpOpenTerminal, OpInvokeAgent]"

definition requiredAuditFields :: "string list" where
  "requiredAuditFields =
     [''actor'', ''tenant'', ''request-id'', ''operation'', ''source-revision'', ''artifact-digest'',
      ''authorization-decision'', ''decision-epoch-seconds'']"

definition tenantScopedRoles :: "identity_role list" where
  "tenantScopedRoles = [RoleBuilder, RoleDeployer, RoleEgress, RoleRuntime]"

subsection \<open>Evaluation\<close>

datatype paas_severity = PaasCritical | PaasHigh | PaasMedium

primrec paas_severity_name :: "paas_severity \<Rightarrow> string" where
  "paas_severity_name PaasCritical = ''critical''"
| "paas_severity_name PaasHigh = ''high''"
| "paas_severity_name PaasMedium = ''medium''"

record paas_violation =
  pv_code :: string
  pv_severity :: paas_severity
  pv_message :: string
  pv_path :: "string option"

text \<open>\<open>if (b) violations.push(violation(\<dots>))\<close>\<close>

definition paas_report ::
  "bool \<Rightarrow> string \<Rightarrow> paas_severity \<Rightarrow> string \<Rightarrow> string option \<Rightarrow> paas_violation list"
where
  "paas_report b code severity message path =
     (if b then [\<lparr>pv_code = code, pv_severity = severity, pv_message = message,
                  pv_path = (if path = Some [] then None else path)\<rparr>] else [])"

definition duplicates :: "string list \<Rightarrow> string list" where
  "duplicates xs = sort_strings (duplicateValues xs)"

definition quota_violations :: "paas_tenant \<Rightarrow> paas_violation list" where
  "quota_violations t =
     paas_report (tq_maxConcurrentBuilds t < 1 \<or> tq_maxConcurrentDeployments t < 1 \<or> tq_maxExecutionMinutes t < 1 \<or>
         \<not> nonEmpty (tq_maxCpu t) \<or> \<not> nonEmpty (tq_maxMemory t) \<or> \<not> nonEmpty (tq_maxStorage t))
       ''PAAS_TENANT_QUOTA_INVALID'' PaasCritical
       (''Tenant '' @ squote (tq_tenantId t) @
        '' must have positive concurrency, lifetime, CPU, memory, and storage bounds.'')
       (Some (''tenants.'' @ tq_tenantId t))"

definition endpoint_violations :: "paas_endpoint \<Rightarrow> paas_violation list" where
  "endpoint_violations e =
     (let path = Some (''endpoints.'' @ ep_id e); q = squote (ep_id e) in
      paas_report (ep_authentication e = AuthNone) ''PAAS_ENDPOINT_UNAUTHENTICATED'' PaasCritical
        (''Endpoint '' @ q @ '' permits unauthenticated access.'') path @
      paas_report (ep_authorization e = ModeNone) ''PAAS_ENDPOINT_UNAUTHORIZED'' PaasCritical
        (''Endpoint '' @ q @ '' has no authorization decision point.'') path @
      paas_report (ep_exposure e = Public \<and> ep_authentication e \<noteq> AuthOidcMtls) ''PAAS_PUBLIC_ENDPOINT_WEAK_AUTH'' PaasCritical
        (''Public endpoint '' @ q @ '' requires both OIDC and mTLS.'') path @
      paas_report (\<not> ep_tenantBindingRequired e) ''PAAS_ENDPOINT_TENANT_UNBOUND'' PaasCritical
        (''Endpoint '' @ q @ '' does not bind authorization to a tenant.'') path @
      paas_report (ep_directHostExecution e) ''PAAS_ENDPOINT_HOST_EXECUTION'' PaasCritical
        (''Endpoint '' @ q @ '' can execute directly on the host.'') path @
      paas_report (list_ex (\<lambda>op. op \<in> set sandboxOperations) (ep_operations e) \<and> ep_executionTarget e \<noteq> TenantSandbox)
        ''PAAS_ENDPOINT_SANDBOX_BYPASS'' PaasCritical
        (''Endpoint '' @ q @ '' exposes file, command, terminal, or agent operations outside a tenant sandbox.'') path @
      paas_report (ep_operations e = []) ''PAAS_ENDPOINT_OPERATION_UNBOUNDED'' PaasHigh
        (''Endpoint '' @ q @ '' has no explicit operation allowlist.'') path)"

definition role_violations :: "paas_identity list \<Rightarrow> identity_role \<Rightarrow> paas_violation list" where
  "role_violations identities role =
     (case filter (\<lambda>i. pid_role i = role) identities of
        [i] \<Rightarrow>
          (let path = Some (''identities.'' @ pid_id i) in
           paas_report (\<not> pid_shortLived i) ''PAAS_IDENTITY_LONG_LIVED'' PaasCritical
             (''PaaS role '' @ squote (identity_role_name role) @ '' uses a long-lived identity.'') path @
           paas_report (role \<in> set tenantScopedRoles \<and> \<not> pid_tenantScoped i) ''PAAS_IDENTITY_TENANT_UNBOUND'' PaasCritical
             (''PaaS role '' @ squote (identity_role_name role) @ '' must derive a tenant-scoped workload identity.'') path)
      | _ \<Rightarrow>
          paas_report True ''PAAS_IDENTITY_ROLE_CARDINALITY'' PaasCritical
            (''PaaS role '' @ squote (identity_role_name role) @ '' requires exactly one distinct identity.'') None)"

definition evaluateSandbox :: "string \<Rightarrow> paas_sandbox \<Rightarrow> paas_violation list" where
  "evaluateSandbox name s =
     paas_report (sb_trust s = Untrusted \<and> sb_isolation s \<noteq> Microvm \<and> sb_isolation s \<noteq> DedicatedVm)
       ''PAAS_SANDBOX_WEAK_ISOLATION'' PaasCritical
       (name @ '' sandbox requires a microVM or dedicated VM for untrusted execution.'') (Some name) @
     paas_report (sb_privileged s) ''PAAS_SANDBOX_PRIVILEGED'' PaasCritical
       (name @ '' sandbox cannot be privileged.'') (Some name) @
     paas_report (sb_hostNetwork s \<or> sb_hostPid s \<or> sb_hostPathMounts s \<or> sb_containerSocket s)
       ''PAAS_SANDBOX_HOST_ACCESS'' PaasCritical
       (name @ '' sandbox cannot access host namespaces, host paths, or the container socket.'') (Some name) @
     paas_report (sb_ambientCloudCredentials s) ''PAAS_SANDBOX_AMBIENT_CREDENTIALS'' PaasCritical
       (name @ '' sandbox cannot receive ambient cloud credentials.'') (Some name) @
     paas_report (sb_egress s = EgressDirect) ''PAAS_SANDBOX_DIRECT_EGRESS'' PaasCritical
       (name @ '' sandbox egress must be absent or brokered.'') (Some name) @
     paas_report (\<not> sb_ephemeral s \<or> \<not> sb_perTenant s \<or> sb_maxLifetimeMinutes s < 1)
       ''PAAS_SANDBOX_LIFECYCLE_UNBOUNDED'' PaasCritical
       (name @ '' sandbox must be ephemeral, tenant-bound, and time-bounded.'') (Some name)"

text \<open>The checks of \<open>evaluatePaasSecurityIntent\<close> on one part of the intent each.\<close>

definition tenants_violations :: "paas_tenant list \<Rightarrow> paas_violation list" where
  "tenants_violations ts =
     concat (map (\<lambda>d. paas_report True ''PAAS_DUPLICATE_TENANT'' PaasCritical
       (''Tenant '' @ squote d @ '' is declared more than once.'') None) (duplicates (map tq_tenantId ts))) @
     paas_report (ts = []) ''PAAS_TENANT_QUOTA_MISSING'' PaasCritical ''At least one tenant quota is required.'' None @
     concat (map quota_violations ts)"

definition endpoints_violations :: "paas_endpoint list \<Rightarrow> paas_violation list" where
  "endpoints_violations es =
     concat (map (\<lambda>d. paas_report True ''PAAS_DUPLICATE_ENDPOINT'' PaasCritical
       (''PaaS endpoint '' @ squote d @ '' is declared more than once.'') None) (duplicates (map ep_id es))) @
     concat (map endpoint_violations es) @
     concat (map (\<lambda>op. paas_report (op \<notin> set (concat (map ep_operations es))) ''PAAS_OPERATION_MISSING'' PaasHigh
       (''PaaS operation '' @ squote (operation_name op) @ '' has no governed endpoint.'') None) operations)"

definition access_violations :: "paas_access_control \<Rightarrow> paas_violation list" where
  "access_violations a =
     paas_report (\<not> ac_denyByDefault a \<or> ac_trustedCapabilityIssuers a = [] \<or> ac_maxCapabilityTtlSeconds a > 900 \<or>
         \<not> ac_oneUseMutations a \<or> \<not> ac_idempotencyKeys a)
       ''PAAS_ACCESS_CONTROL_WEAK'' PaasCritical
       ''Access control must deny by default, trust an explicit issuer set, cap capabilities at 15 minutes, and require one-use/idempotent mutations.''
       (Some ''accessControl'')"

definition identities_violations :: "paas_identity list \<Rightarrow> paas_violation list" where
  "identities_violations is =
     concat (map (\<lambda>d. paas_report True ''PAAS_IDENTITY_REUSED'' PaasCritical
       (''PaaS identity '' @ squote d @ '' is reused across trust roles.'') None) (duplicates (map pid_id is))) @
     concat (map (role_violations is) requiredRoles)"

definition sandboxes_violations :: "paas_sandbox \<Rightarrow> paas_sandbox \<Rightarrow> paas_violation list" where
  "sandboxes_violations builder runtime =
     evaluateSandbox ''builder'' builder @ evaluateSandbox ''runtime'' runtime @
     paas_report (sb_trust builder \<noteq> Untrusted) ''PAAS_BUILDER_TRUST_INVALID'' PaasCritical
       ''Customer-controlled builds must always be treated as untrusted.'' None"

definition operations_violations ::
  "paas_scheduling \<Rightarrow> paas_supply_chain \<Rightarrow> paas_deployment_state \<Rightarrow> paas_audit \<Rightarrow> paas_violation list"
where
  "operations_violations s c d a =
     (let missing = filter (\<lambda>f. f \<notin> set (au_requiredFields a)) requiredAuditFields in
      paas_report (\<not> sch_perTenantQueues s \<or> \<not> sch_fairScheduling s \<or> \<not> sch_cancellation s \<or> \<not> sch_timeouts s \<or>
          sch_maxGlobalConcurrency s < 1)
        ''PAAS_SCHEDULER_UNBOUNDED'' PaasCritical
        ''Scheduling requires bounded global concurrency, per-tenant queues, fairness, cancellation, and timeouts.'' None @
      paas_report (\<not> sc_digestPinned c \<or> \<not> sc_signatureVerification c \<or> \<not> sc_provenanceVerification c \<or>
          \<not> sc_sbomRequired c \<or> \<not> sc_immutableArtifacts c \<or> sc_retentionDays c < 30)
        ''PAAS_SUPPLY_CHAIN_WEAK'' PaasCritical
        ''Artifacts require digests, signatures, provenance, SBOMs, immutability, and at least 30 days retention.'' None @
      paas_report (\<not> ds_durable d \<or> \<not> ds_encrypted d \<or> \<not> ds_idempotencyKeys d \<or> \<not> ds_perTenantLocks d \<or> \<not> ds_rollback d)
        ''PAAS_STATE_UNSAFE'' PaasCritical
        ''Deployment state requires durability, encryption, idempotency, tenant locks, and rollback.'' None @
      paas_report (\<not> ds_backup d \<or> \<not> ds_restoreTests d \<or> \<not> ds_regionalRecovery d)
        ''PAAS_RECOVERY_UNPROVEN'' PaasHigh
        ''Deployment state requires backups, restore testing, and regional recovery.'' None @
      paas_report (\<not> au_immutable a \<or> \<not> au_denialEvents a \<or> au_retentionDays a < 365)
        ''PAAS_AUDIT_WEAK'' PaasCritical
        ''PaaS audit evidence must be immutable, include denials, and be retained for at least 365 days.'' None @
      paas_report (missing \<noteq> []) ''PAAS_AUDIT_FIELDS_MISSING'' PaasCritical
        (''PaaS audit evidence is missing fields: '' @ join_with '', '' missing @ ''.'') None)"

definition evaluatePaasSecurityIntent :: "paas_intent \<Rightarrow> paas_violation list" where
  "evaluatePaasSecurityIntent x =
     tenants_violations (in_tenants x) @ endpoints_violations (in_endpoints x) @ access_violations (in_accessControl x) @
     identities_violations (in_identities x) @ sandboxes_violations (in_builder x) (in_runtime x) @
     operations_violations (in_scheduling x) (in_supplyChain x) (in_deploymentState x) (in_audit x)"

definition assertPaasSecurityIntent :: "paas_intent \<Rightarrow> string + unit" where
  "assertPaasSecurityIntent x =
     (let vs = evaluatePaasSecurityIntent x in
      throw_if (vs \<noteq> [])
        (''PaaS security intent '' @ squote (in_name x) @ '' violates security invariants:'' @ [CHR 0x0A] @
         join_with [CHR 0x0A]
           (map (\<lambda>v. ''- ['' @ paas_severity_name (pv_severity v) @ ''] '' @ pv_code v @ '': '' @ pv_message v) vs)))"

subsection \<open>Readers\<close>

definition read_name :: "jsval \<Rightarrow> string \<Rightarrow> string + string" where
  "read_name v path = read_pattern v path name_rx '' must be a lowercase DNS-style name.''"

definition read_positive_integer :: "jsval \<Rightarrow> string \<Rightarrow> string + int" where
  "read_positive_integer v path = read_integer v 1 (path @ '' must be a positive integer.'')"

definition uniqueStrings :: "'a list \<Rightarrow> string \<Rightarrow> string + 'a list" where
  "uniqueStrings xs path = (if distinct xs then Inr xs else Inl (path @ '' must not contain duplicates.''))"

definition read_fields :: "props \<Rightarrow> string \<Rightarrow> string list \<Rightarrow> string + bool list" where
  "read_fields ps path names = map_ix (\<lambda>_ f. read_boolean (js_get ps f) (path @ ''.'' @ f)) 0 names"

definition parseTenantQuota :: "jsval \<Rightarrow> string \<Rightarrow> string + paas_tenant" where
  "parseTenantQuota v path =
     bind_r (read_object v path [''tenantId'', ''maxConcurrentBuilds'', ''maxConcurrentDeployments'', ''maxCpu'', ''maxMemory'',
       ''maxStorage'', ''maxExecutionMinutes''] []) (\<lambda>ps.
     bind_r (read_name (js_get ps ''tenantId'') (path @ ''.tenantId'')) (\<lambda>i.
     bind_r (read_positive_integer (js_get ps ''maxConcurrentBuilds'') (path @ ''.maxConcurrentBuilds'')) (\<lambda>b.
     bind_r (read_positive_integer (js_get ps ''maxConcurrentDeployments'') (path @ ''.maxConcurrentDeployments'')) (\<lambda>d.
     bind_r (read_string (js_get ps ''maxCpu'') (path @ ''.maxCpu'')) (\<lambda>cpu.
     bind_r (read_string (js_get ps ''maxMemory'') (path @ ''.maxMemory'')) (\<lambda>m.
     bind_r (read_string (js_get ps ''maxStorage'') (path @ ''.maxStorage'')) (\<lambda>s.
     bind_r (read_positive_integer (js_get ps ''maxExecutionMinutes'') (path @ ''.maxExecutionMinutes'')) (\<lambda>e.
     Inr \<lparr>tq_tenantId = i, tq_maxConcurrentBuilds = b, tq_maxConcurrentDeployments = d, tq_maxCpu = cpu, tq_maxMemory = m,
          tq_maxStorage = s, tq_maxExecutionMinutes = e\<rparr>))))))))"

definition parseEndpoint :: "jsval \<Rightarrow> string \<Rightarrow> string + paas_endpoint" where
  "parseEndpoint v path =
     bind_r (read_object v path [''id'', ''exposure'', ''authentication'', ''authorization'', ''tenantBindingRequired'',
       ''directHostExecution'', ''executionTarget'', ''operations''] []) (\<lambda>ps.
     bind_r (read_name (js_get ps ''id'') (path @ ''.id'')) (\<lambda>i.
     bind_r (read_enum (js_get ps ''exposure'') (path @ ''.exposure'') exposure_name [Private, Public]) (\<lambda>x.
     bind_r (read_enum (js_get ps ''authentication'') (path @ ''.authentication'') authentication_name
       [AuthNone, AuthOidc, AuthMtls, AuthOidcMtls]) (\<lambda>a.
     bind_r (read_enum (js_get ps ''authorization'') (path @ ''.authorization'') authorization_name
       [ModeNone, ModeRbac, ModeCapability]) (\<lambda>z.
     bind_r (read_boolean (js_get ps ''tenantBindingRequired'') (path @ ''.tenantBindingRequired'')) (\<lambda>t.
     bind_r (read_boolean (js_get ps ''directHostExecution'') (path @ ''.directHostExecution'')) (\<lambda>h.
     bind_r (read_enum (js_get ps ''executionTarget'') (path @ ''.executionTarget'') target_name [ControlPlane, TenantSandbox]) (\<lambda>g.
     bind_r (read_list (js_get ps ''operations'') (path @ ''.operations'') (\<lambda>w p. read_enum w p operation_name operations)) (\<lambda>os.
     bind_r (uniqueStrings os (path @ ''.operations'')) (\<lambda>ops.
     Inr \<lparr>ep_id = i, ep_exposure = x, ep_authentication = a, ep_authorization = z, ep_tenantBindingRequired = t,
          ep_directHostExecution = h, ep_executionTarget = g, ep_operations = ops\<rparr>))))))))))"

definition parseAccessControl :: "jsval \<Rightarrow> string + paas_access_control" where
  "parseAccessControl v =
     (let path = ''accessControl'' in
     bind_r (read_object v path [''denyByDefault'', ''trustedCapabilityIssuers'', ''maxCapabilityTtlSeconds'', ''oneUseMutations'',
       ''idempotencyKeys''] []) (\<lambda>ps.
     bind_r (read_boolean (js_get ps ''denyByDefault'') (path @ ''.denyByDefault'')) (\<lambda>d.
     bind_r (read_list (js_get ps ''trustedCapabilityIssuers'') (path @ ''.trustedCapabilityIssuers'') read_name) (\<lambda>is.
     bind_r (uniqueStrings is (path @ ''.trustedCapabilityIssuers'')) (\<lambda>issuers.
     bind_r (read_positive_integer (js_get ps ''maxCapabilityTtlSeconds'') (path @ ''.maxCapabilityTtlSeconds'')) (\<lambda>ttl.
     bind_r (read_boolean (js_get ps ''oneUseMutations'') (path @ ''.oneUseMutations'')) (\<lambda>u.
     bind_r (read_boolean (js_get ps ''idempotencyKeys'') (path @ ''.idempotencyKeys'')) (\<lambda>k.
     Inr \<lparr>ac_denyByDefault = d, ac_trustedCapabilityIssuers = issuers, ac_maxCapabilityTtlSeconds = ttl,
          ac_oneUseMutations = u, ac_idempotencyKeys = k\<rparr>))))))))"

definition parsePaasIdentity :: "jsval \<Rightarrow> string \<Rightarrow> string + paas_identity" where
  "parsePaasIdentity v path =
     bind_r (read_object v path [''id'', ''role'', ''shortLived'', ''tenantScoped''] []) (\<lambda>ps.
     bind_r (read_name (js_get ps ''id'') (path @ ''.id'')) (\<lambda>i.
     bind_r (read_enum (js_get ps ''role'') (path @ ''.role'') identity_role_name requiredRoles) (\<lambda>r.
     bind_r (read_boolean (js_get ps ''shortLived'') (path @ ''.shortLived'')) (\<lambda>s.
     bind_r (read_boolean (js_get ps ''tenantScoped'') (path @ ''.tenantScoped'')) (\<lambda>t.
     Inr \<lparr>pid_id = i, pid_role = r, pid_shortLived = s, pid_tenantScoped = t\<rparr>)))))"

definition parseSandbox :: "jsval \<Rightarrow> string \<Rightarrow> string + paas_sandbox" where
  "parseSandbox v path =
     bind_r (read_object v path [''trust'', ''isolation'', ''ephemeral'', ''privileged'', ''hostNetwork'', ''hostPid'',
       ''hostPathMounts'', ''containerSocket'', ''ambientCloudCredentials'', ''egress'', ''perTenant'', ''maxLifetimeMinutes''] []) (\<lambda>ps.
     bind_r (read_enum (js_get ps ''trust'') (path @ ''.trust'') trust_name [Trusted, Untrusted]) (\<lambda>t.
     bind_r (read_enum (js_get ps ''isolation'') (path @ ''.isolation'') isolation_name [Container, Microvm, DedicatedVm]) (\<lambda>i.
     bind_r (read_boolean (js_get ps ''ephemeral'') (path @ ''.ephemeral'')) (\<lambda>e.
     bind_r (read_boolean (js_get ps ''privileged'') (path @ ''.privileged'')) (\<lambda>p.
     bind_r (read_boolean (js_get ps ''hostNetwork'') (path @ ''.hostNetwork'')) (\<lambda>n.
     bind_r (read_boolean (js_get ps ''hostPid'') (path @ ''.hostPid'')) (\<lambda>hp.
     bind_r (read_boolean (js_get ps ''hostPathMounts'') (path @ ''.hostPathMounts'')) (\<lambda>hm.
     bind_r (read_boolean (js_get ps ''containerSocket'') (path @ ''.containerSocket'')) (\<lambda>cs.
     bind_r (read_boolean (js_get ps ''ambientCloudCredentials'') (path @ ''.ambientCloudCredentials'')) (\<lambda>ac.
     bind_r (read_enum (js_get ps ''egress'') (path @ ''.egress'') egress_name [EgressNone, EgressBrokered, EgressDirect]) (\<lambda>eg.
     bind_r (read_boolean (js_get ps ''perTenant'') (path @ ''.perTenant'')) (\<lambda>pt.
     bind_r (read_positive_integer (js_get ps ''maxLifetimeMinutes'') (path @ ''.maxLifetimeMinutes'')) (\<lambda>l.
     Inr \<lparr>sb_trust = t, sb_isolation = i, sb_ephemeral = e, sb_privileged = p, sb_hostNetwork = n, sb_hostPid = hp,
          sb_hostPathMounts = hm, sb_containerSocket = cs, sb_ambientCloudCredentials = ac, sb_egress = eg,
          sb_perTenant = pt, sb_maxLifetimeMinutes = l\<rparr>)))))))))))))"

definition parseScheduling :: "jsval \<Rightarrow> string + paas_scheduling" where
  "parseScheduling v =
     (let path = ''scheduling'' in
     bind_r (read_object v path [''perTenantQueues'', ''fairScheduling'', ''cancellation'', ''timeouts'', ''maxGlobalConcurrency''] []) (\<lambda>ps.
     bind_r (read_boolean (js_get ps ''perTenantQueues'') (path @ ''.perTenantQueues'')) (\<lambda>q.
     bind_r (read_boolean (js_get ps ''fairScheduling'') (path @ ''.fairScheduling'')) (\<lambda>f.
     bind_r (read_boolean (js_get ps ''cancellation'') (path @ ''.cancellation'')) (\<lambda>c.
     bind_r (read_boolean (js_get ps ''timeouts'') (path @ ''.timeouts'')) (\<lambda>t.
     bind_r (read_positive_integer (js_get ps ''maxGlobalConcurrency'') (path @ ''.maxGlobalConcurrency'')) (\<lambda>m.
     Inr \<lparr>sch_perTenantQueues = q, sch_fairScheduling = f, sch_cancellation = c, sch_timeouts = t, sch_maxGlobalConcurrency = m\<rparr>)))))))"

definition parseSupplyChain :: "jsval \<Rightarrow> string + paas_supply_chain" where
  "parseSupplyChain v =
     (let path = ''supplyChain'' in
     bind_r (read_object v path [''digestPinned'', ''signatureVerification'', ''provenanceVerification'', ''sbomRequired'',
       ''immutableArtifacts'', ''retentionDays''] []) (\<lambda>ps.
     bind_r (read_boolean (js_get ps ''digestPinned'') (path @ ''.digestPinned'')) (\<lambda>d.
     bind_r (read_boolean (js_get ps ''signatureVerification'') (path @ ''.signatureVerification'')) (\<lambda>s.
     bind_r (read_boolean (js_get ps ''provenanceVerification'') (path @ ''.provenanceVerification'')) (\<lambda>p.
     bind_r (read_boolean (js_get ps ''sbomRequired'') (path @ ''.sbomRequired'')) (\<lambda>b.
     bind_r (read_boolean (js_get ps ''immutableArtifacts'') (path @ ''.immutableArtifacts'')) (\<lambda>i.
     bind_r (read_positive_integer (js_get ps ''retentionDays'') (path @ ''.retentionDays'')) (\<lambda>r.
     Inr \<lparr>sc_digestPinned = d, sc_signatureVerification = s, sc_provenanceVerification = p, sc_sbomRequired = b,
          sc_immutableArtifacts = i, sc_retentionDays = r\<rparr>))))))))"

definition deployment_fields :: "string list" where
  "deployment_fields =
     [''durable'', ''encrypted'', ''idempotencyKeys'', ''perTenantLocks'', ''rollback'', ''backup'', ''restoreTests'', ''regionalRecovery'']"

definition parseDeploymentState :: "jsval \<Rightarrow> string + paas_deployment_state" where
  "parseDeploymentState v =
     (let path = ''deploymentState'' in
     bind_r (read_object v path deployment_fields []) (\<lambda>ps.
     bind_r (read_fields ps path deployment_fields) (\<lambda>bs.
     Inr \<lparr>ds_durable = bs ! 0, ds_encrypted = bs ! 1, ds_idempotencyKeys = bs ! 2, ds_perTenantLocks = bs ! 3,
          ds_rollback = bs ! 4, ds_backup = bs ! 5, ds_restoreTests = bs ! 6, ds_regionalRecovery = bs ! 7\<rparr>)))"

definition parseAudit :: "jsval \<Rightarrow> string + paas_audit" where
  "parseAudit v =
     (let path = ''audit'' in
     bind_r (read_object v path [''immutable'', ''retentionDays'', ''requiredFields'', ''denialEvents''] []) (\<lambda>ps.
     bind_r (read_boolean (js_get ps ''immutable'') (path @ ''.immutable'')) (\<lambda>i.
     bind_r (read_positive_integer (js_get ps ''retentionDays'') (path @ ''.retentionDays'')) (\<lambda>r.
     bind_r (read_list (js_get ps ''requiredFields'') (path @ ''.requiredFields'') read_string) (\<lambda>fs.
     bind_r (uniqueStrings fs (path @ ''.requiredFields'')) (\<lambda>required.
     bind_r (read_boolean (js_get ps ''denialEvents'') (path @ ''.denialEvents'')) (\<lambda>d.
     Inr \<lparr>au_immutable = i, au_retentionDays = r, au_requiredFields = required, au_denialEvents = d\<rparr>)))))))"

definition intent_keys :: "string list" where
  "intent_keys =
     [''apiVersion'', ''name'', ''environment'', ''tenants'', ''endpoints'', ''accessControl'', ''identities'', ''builder'',
      ''runtime'', ''scheduling'', ''supplyChain'', ''deploymentState'', ''audit'']"

definition parsePaasSecurityIntent :: "jsval \<Rightarrow> string + paas_intent" where
  "parsePaasSecurityIntent v =
     bind_r (read_object v ''paasSecurityIntent'' intent_keys []) (\<lambda>root.
     bind_r (read_string (js_get root ''apiVersion'') ''apiVersion'') (\<lambda>apiVersion.
     bind_r (throw_if (apiVersion \<noteq> PAAS_SECURITY_API_VERSION)
       (''paasSecurityIntent.apiVersion must be '' @ squote PAAS_SECURITY_API_VERSION @ ''.'')) (\<lambda>_.
     bind_r (read_name (js_get root ''name'') ''name'') (\<lambda>name.
     bind_r (read_name (js_get root ''environment'') ''environment'') (\<lambda>environment.
     bind_r (read_list (js_get root ''tenants'') ''tenants'' parseTenantQuota) (\<lambda>tenants.
     bind_r (read_list (js_get root ''endpoints'') ''endpoints'' parseEndpoint) (\<lambda>endpoints.
     bind_r (parseAccessControl (js_get root ''accessControl'')) (\<lambda>accessControl.
     bind_r (read_list (js_get root ''identities'') ''identities'' parsePaasIdentity) (\<lambda>identities.
     bind_r (parseSandbox (js_get root ''builder'') ''builder'') (\<lambda>builder.
     bind_r (parseSandbox (js_get root ''runtime'') ''runtime'') (\<lambda>runtime.
     bind_r (parseScheduling (js_get root ''scheduling'')) (\<lambda>scheduling.
     bind_r (parseSupplyChain (js_get root ''supplyChain'')) (\<lambda>supplyChain.
     bind_r (parseDeploymentState (js_get root ''deploymentState'')) (\<lambda>deploymentState.
     bind_r (parseAudit (js_get root ''audit'')) (\<lambda>audit.
     let intent =
       \<lparr>in_name = name, in_environment = environment, in_tenants = tenants, in_endpoints = endpoints,
        in_accessControl = accessControl, in_identities = identities, in_builder = builder, in_runtime = runtime,
        in_scheduling = scheduling, in_supplyChain = supplyChain, in_deploymentState = deploymentState, in_audit = audit\<rparr>
     in bind_r (assertPaasSecurityIntent intent) (\<lambda>_. Inr intent))))))))))))))))"

subsection \<open>The secure intent\<close>

definition secureSandbox :: "sandbox_trust \<Rightarrow> sandbox_isolation \<Rightarrow> int \<Rightarrow> paas_sandbox" where
  "secureSandbox trust isolation maxLifetimeMinutes =
     \<lparr>sb_trust = trust, sb_isolation = isolation, sb_ephemeral = True, sb_privileged = False, sb_hostNetwork = False,
      sb_hostPid = False, sb_hostPathMounts = False, sb_containerSocket = False, sb_ambientCloudCredentials = False,
      sb_egress = EgressBrokered, sb_perTenant = True, sb_maxLifetimeMinutes = maxLifetimeMinutes\<rparr>"

definition secure_endpoint :: "string \<Rightarrow> execution_target \<Rightarrow> paas_operation list \<Rightarrow> paas_endpoint" where
  "secure_endpoint i target ops =
     \<lparr>ep_id = i, ep_exposure = Private, ep_authentication = AuthMtls, ep_authorization = ModeCapability,
      ep_tenantBindingRequired = True, ep_directHostExecution = False, ep_executionTarget = target, ep_operations = ops\<rparr>"

definition createSecurePaasSecurityIntent :: "string list \<Rightarrow> paas_intent" where
  "createSecurePaasSecurityIntent tenantIds =
     \<lparr>in_name = ''codefly-multi-tenant-paas'', in_environment = ''production'',
      in_tenants = map (\<lambda>t. \<lparr>tq_tenantId = t, tq_maxConcurrentBuilds = 4, tq_maxConcurrentDeployments = 2, tq_maxCpu = ''16'',
        tq_maxMemory = ''32Gi'', tq_maxStorage = ''200Gi'', tq_maxExecutionMinutes = 30\<rparr>) tenantIds,
      in_endpoints =
        [secure_endpoint ''codefly-api'' ControlPlane [OpBuild, OpDeploy, OpCancel, OpRollback, OpReadState],
         secure_endpoint ''codefly-workspace-api'' TenantSandbox [OpReadFile, OpWriteFile],
         secure_endpoint ''codefly-exec-api'' TenantSandbox [OpExecCommand, OpOpenTerminal],
         secure_endpoint ''codefly-registry-api'' ControlPlane [OpPushArtifact, OpPullArtifact],
         secure_endpoint ''codefly-agent-api'' TenantSandbox [OpInvokeAgent]],
      in_accessControl =
        \<lparr>ac_denyByDefault = True, ac_trustedCapabilityIssuers = [''codefly-control-plane''], ac_maxCapabilityTtlSeconds = 300,
         ac_oneUseMutations = True, ac_idempotencyKeys = True\<rparr>,
      in_identities = map (\<lambda>r. \<lparr>pid_id = ''codefly-'' @ identity_role_name r, pid_role = r, pid_shortLived = True,
        pid_tenantScoped = (r \<in> set tenantScopedRoles)\<rparr>) requiredRoles,
      in_builder = secureSandbox Untrusted Microvm 30, in_runtime = secureSandbox Trusted Container 1440,
      in_scheduling =
        \<lparr>sch_perTenantQueues = True, sch_fairScheduling = True, sch_cancellation = True, sch_timeouts = True,
         sch_maxGlobalConcurrency = 32\<rparr>,
      in_supplyChain =
        \<lparr>sc_digestPinned = True, sc_signatureVerification = True, sc_provenanceVerification = True, sc_sbomRequired = True,
         sc_immutableArtifacts = True, sc_retentionDays = 365\<rparr>,
      in_deploymentState =
        \<lparr>ds_durable = True, ds_encrypted = True, ds_idempotencyKeys = True, ds_perTenantLocks = True, ds_rollback = True,
         ds_backup = True, ds_restoreTests = True, ds_regionalRecovery = True\<rparr>,
      in_audit =
        \<lparr>au_immutable = True, au_retentionDays = 2555, au_requiredFields = requiredAuditFields, au_denialEvents = True\<rparr>\<rparr>"

end
