(* ===== verification/PaasSecurityLaws.thy ===== *)
theory PaasSecurityLaws
  imports PaasSecurity
begin

section \<open>PaaS security intent: what the parser and the evaluation accept\<close>

text \<open>
  \<open>secure_intent\<close> states, without violations or their order, what the evaluation decides; \<open>ok_intent\<close> what
  the readers demand of the values; \<open>enc_<part>\<close> is the JavaScript value of a part.
\<close>

subsection \<open>What the evaluation decides\<close>

lemma paas_report_Nil [simp]: "paas_report b code sev m p = [] \<longleftrightarrow> \<not> b"
  by (simp add: paas_report_def)

lemma duplicates_Nil [simp]: "duplicates xs = [] \<longleftrightarrow> distinct xs"
proof -
  have "set (duplicates xs) = set (duplicateValues xs)" by (simp add: duplicates_def sort_strings_def)
  then have "duplicates xs = [] \<longleftrightarrow> duplicateValues xs = []" by (metis set_empty)
  then show ?thesis by (simp add: duplicateValues_Nil)
qed

lemma reports_Nil [simp]:
  "concat (map (\<lambda>d. paas_report True c s (m d) p) xs) = [] \<longleftrightarrow> xs = []"
  by (cases xs) simp_all

definition secure_tenants :: "paas_tenant list \<Rightarrow> bool" where
  "secure_tenants ts \<longleftrightarrow>
     ts \<noteq> [] \<and> distinct (map tq_tenantId ts) \<and>
     (\<forall>t \<in> set ts. 1 \<le> tq_maxConcurrentBuilds t \<and> 1 \<le> tq_maxConcurrentDeployments t \<and> 1 \<le> tq_maxExecutionMinutes t \<and>
        nonEmpty (tq_maxCpu t) \<and> nonEmpty (tq_maxMemory t) \<and> nonEmpty (tq_maxStorage t))"

definition secure_endpoints :: "paas_endpoint list \<Rightarrow> bool" where
  "secure_endpoints es \<longleftrightarrow>
     distinct (map ep_id es) \<and> (\<forall>op. \<exists>e \<in> set es. op \<in> set (ep_operations e)) \<and>
     (\<forall>e \<in> set es. ep_authentication e \<noteq> AuthNone \<and> ep_authorization e \<noteq> ModeNone \<and>
        (ep_exposure e = Public \<longrightarrow> ep_authentication e = AuthOidcMtls) \<and> ep_tenantBindingRequired e \<and>
        \<not> ep_directHostExecution e \<and> ep_operations e \<noteq> [] \<and>
        (\<forall>op \<in> set (ep_operations e). op \<in> set sandboxOperations \<longrightarrow> ep_executionTarget e = TenantSandbox))"

definition secure_access :: "paas_access_control \<Rightarrow> bool" where
  "secure_access a \<longleftrightarrow>
     ac_denyByDefault a \<and> ac_trustedCapabilityIssuers a \<noteq> [] \<and> ac_maxCapabilityTtlSeconds a \<le> 900 \<and>
     ac_oneUseMutations a \<and> ac_idempotencyKeys a"

text \<open>One identity for every role, no identity for two.\<close>

definition secure_identities :: "paas_identity list \<Rightarrow> bool" where
  "secure_identities is \<longleftrightarrow>
     distinct (map pid_id is) \<and> distinct (map pid_role is) \<and> (\<forall>r. r \<in> pid_role ` set is) \<and>
     (\<forall>i \<in> set is. pid_shortLived i \<and> (pid_role i \<in> set tenantScopedRoles \<longrightarrow> pid_tenantScoped i))"

definition secure_sandbox :: "paas_sandbox \<Rightarrow> bool" where
  "secure_sandbox s \<longleftrightarrow>
     (sb_trust s = Untrusted \<longrightarrow> sb_isolation s = Microvm \<or> sb_isolation s = DedicatedVm) \<and> \<not> sb_privileged s \<and>
     \<not> sb_hostNetwork s \<and> \<not> sb_hostPid s \<and> \<not> sb_hostPathMounts s \<and> \<not> sb_containerSocket s \<and>
     \<not> sb_ambientCloudCredentials s \<and> sb_egress s \<noteq> EgressDirect \<and> sb_ephemeral s \<and> sb_perTenant s \<and>
     1 \<le> sb_maxLifetimeMinutes s"

definition secure_operations ::
  "paas_scheduling \<Rightarrow> paas_supply_chain \<Rightarrow> paas_deployment_state \<Rightarrow> paas_audit \<Rightarrow> bool"
where
  "secure_operations s c d a \<longleftrightarrow>
     (sch_perTenantQueues s \<and> sch_fairScheduling s \<and> sch_cancellation s \<and> sch_timeouts s \<and> 1 \<le> sch_maxGlobalConcurrency s) \<and>
     (sc_digestPinned c \<and> sc_signatureVerification c \<and> sc_provenanceVerification c \<and> sc_sbomRequired c \<and>
      sc_immutableArtifacts c \<and> 30 \<le> sc_retentionDays c) \<and>
     (ds_durable d \<and> ds_encrypted d \<and> ds_idempotencyKeys d \<and> ds_perTenantLocks d \<and> ds_rollback d \<and> ds_backup d \<and>
      ds_restoreTests d \<and> ds_regionalRecovery d) \<and>
     (au_immutable a \<and> au_denialEvents a \<and> 365 \<le> au_retentionDays a \<and> set requiredAuditFields \<subseteq> set (au_requiredFields a))"

definition secure_intent :: "paas_intent \<Rightarrow> bool" where
  "secure_intent x \<longleftrightarrow>
     secure_tenants (in_tenants x) \<and> secure_endpoints (in_endpoints x) \<and> secure_access (in_accessControl x) \<and>
     secure_identities (in_identities x) \<and> secure_sandbox (in_builder x) \<and> secure_sandbox (in_runtime x) \<and>
     sb_trust (in_builder x) = Untrusted \<and>
     secure_operations (in_scheduling x) (in_supplyChain x) (in_deploymentState x) (in_audit x)"

lemma tenants_decide: "tenants_violations ts = [] \<longleftrightarrow> secure_tenants ts"
  by (auto simp: tenants_violations_def secure_tenants_def quota_violations_def not_less)

lemma endpoint_decide:
  "endpoint_violations e = [] \<longleftrightarrow>
     ep_authentication e \<noteq> AuthNone \<and> ep_authorization e \<noteq> ModeNone \<and>
     (ep_exposure e = Public \<longrightarrow> ep_authentication e = AuthOidcMtls) \<and> ep_tenantBindingRequired e \<and>
     \<not> ep_directHostExecution e \<and> ep_operations e \<noteq> [] \<and>
     (\<forall>op \<in> set (ep_operations e). op \<in> set sandboxOperations \<longrightarrow> ep_executionTarget e = TenantSandbox)"
  by (auto simp: endpoint_violations_def Let_def list_ex_iff)

lemma endpoints_decide: "endpoints_violations es = [] \<longleftrightarrow> secure_endpoints es"
  by (auto simp: endpoints_violations_def secure_endpoints_def endpoint_decide)

lemma access_decide: "access_violations a = [] \<longleftrightarrow> secure_access a"
  by (auto simp: access_violations_def secure_access_def not_less)

lemma requiredRoles_all [simp]: "r \<in> set requiredRoles" "set requiredRoles = UNIV"
  by (cases r; simp add: requiredRoles_def) (auto simp: requiredRoles_def intro: identity_role.exhaust)

lemma role_decide:
  "role_violations is r = [] \<longleftrightarrow>
     (\<exists>i. filter (\<lambda>i. pid_role i = r) is = [i] \<and> pid_shortLived i \<and> (r \<in> set tenantScopedRoles \<longrightarrow> pid_tenantScoped i))"
  by (auto simp: role_violations_def Let_def split: list.split)

lemma count_distinct: "(\<And>r. count_list ys r \<le> 1) \<Longrightarrow> distinct ys"
proof (induction ys)
  case (Cons y ys)
  have "count_list ys r \<le> 1" for r using Cons.prems [of r] by (simp split: if_splits)
  moreover have "count_list ys y = 0" using Cons.prems [of y] by simp
  ultimately show ?case using Cons.IH by (simp add: count_list_0_iff)
qed simp

lemma one_each:
  "(\<forall>r. \<exists>i. filter (\<lambda>i. f i = r) xs = [i] \<and> P i) \<longleftrightarrow> distinct (map f xs) \<and> (\<forall>r. r \<in> f ` set xs) \<and> (\<forall>i \<in> set xs. P i)"
  (is "?L \<longleftrightarrow> ?R")
proof
  assume L: ?L
  have "count_list (map f xs) r = 1" for r
  proof -
    from L obtain i where "filter (\<lambda>i. f i = r) xs = [i]" by blast
    moreover have "length (filter (\<lambda>i. f i = r) xs) = count_list (map f xs) r" by (induction xs) auto
    ultimately show ?thesis by simp
  qed
  then have "distinct (map f xs)" by (intro count_distinct) simp
  moreover have "r \<in> f ` set xs" for r
    using L by (metis (mono_tags, lifting) filter_eq_Cons_iff image_iff in_set_conv_decomp)
  moreover have "P i" if "i \<in> set xs" for i
  proof -
    from L obtain j where "filter (\<lambda>k. f k = f i) xs = [j]" "P j" by blast
    moreover from that have "i \<in> set (filter (\<lambda>k. f k = f i) xs)" by simp
    ultimately show ?thesis by simp
  qed
  ultimately show ?R by blast
next
  assume R: ?R
  show ?L
  proof
    fix r
    from R obtain i where i: "i \<in> set xs" "r = f i" by blast
    then obtain as bs where xs: "xs = as @ i # bs" by (auto simp: in_set_conv_decomp)
    with R have "f i \<notin> f ` set as" "f i \<notin> f ` set bs" by simp_all
    then have "\<forall>k \<in> set as. f k \<noteq> r" "\<forall>k \<in> set bs. f k \<noteq> r" unfolding i(2) by (metis imageI)+
    then have "filter (\<lambda>k. f k = r) xs = [i]" by (simp add: xs i(2))
    with R i(1) show "\<exists>i. filter (\<lambda>i. f i = r) xs = [i] \<and> P i" by blast
  qed
qed

lemma identities_decide: "identities_violations is = [] \<longleftrightarrow> secure_identities is"
proof -
  have role: "pid_role i = r" if "filter (\<lambda>i. pid_role i = r) is = [i]" for r i
  proof -
    have "i \<in> set (filter (\<lambda>i. pid_role i = r) is)" using that by simp
    then show ?thesis by simp
  qed
  have same: "(filter (\<lambda>i. pid_role i = r) is = [i] \<and> pid_shortLived i \<and> (r \<in> set tenantScopedRoles \<longrightarrow> pid_tenantScoped i)) \<longleftrightarrow>
      (filter (\<lambda>i. pid_role i = r) is = [i] \<and> pid_shortLived i \<and> (pid_role i \<in> set tenantScopedRoles \<longrightarrow> pid_tenantScoped i))"
    for r i using role [of r i] by (cases "filter (\<lambda>i. pid_role i = r) is = [i]") simp_all
  have "(\<forall>r. role_violations is r = []) \<longleftrightarrow> distinct (map pid_role is) \<and> (\<forall>r. r \<in> pid_role ` set is) \<and>
      (\<forall>i \<in> set is. pid_shortLived i \<and> (pid_role i \<in> set tenantScopedRoles \<longrightarrow> pid_tenantScoped i))"
    unfolding role_decide same by (rule one_each)
  moreover have "identities_violations is = [] \<longleftrightarrow> distinct (map pid_id is) \<and> (\<forall>r. role_violations is r = [])"
    by (simp add: identities_violations_def)
  ultimately show ?thesis unfolding secure_identities_def by (simp only:)
qed

lemma sandbox_decide: "evaluateSandbox name s = [] \<longleftrightarrow> secure_sandbox s"
  by (auto simp: evaluateSandbox_def secure_sandbox_def not_less)

lemma operations_decide: "operations_violations s c d a = [] \<longleftrightarrow> secure_operations s c d a"
  by (auto simp: operations_violations_def secure_operations_def Let_def not_less filter_empty_conv)

theorem evaluation_decides: "evaluatePaasSecurityIntent x = [] \<longleftrightarrow> secure_intent x"
  by (auto simp: evaluatePaasSecurityIntent_def secure_intent_def tenants_decide endpoints_decide access_decide
      identities_decide sandboxes_violations_def sandbox_decide operations_decide)

lemma assert_intent_iff: "assertPaasSecurityIntent x = Inr u \<longleftrightarrow> secure_intent x"
  by (simp add: assertPaasSecurityIntent_def Let_def evaluation_decides throw_if_eq_Inr)

subsection \<open>Readers\<close>

lemma names_inj [simp]:
  "identity_role_name a = identity_role_name b \<longleftrightarrow> a = b" "exposure_name c = exposure_name d \<longleftrightarrow> c = d"
  "authentication_name e = authentication_name f \<longleftrightarrow> e = f" "authorization_name g = authorization_name h \<longleftrightarrow> g = h"
  "trust_name i = trust_name j \<longleftrightarrow> i = j" "isolation_name k = isolation_name l \<longleftrightarrow> k = l" "egress_name m = egress_name n \<longleftrightarrow> m = n"
  by (cases a; cases b; simp) ((cases c; cases d; simp), (cases e; cases f; simp), (cases g; cases h; simp),
    (cases i; cases j; simp), (cases k; cases l; simp), (cases m; cases n; simp))

lemma read_name_iff [reads]: "read_name v path = Inr s \<longleftrightarrow> v = JStr s \<and> rx_test name_rx s"
  using name_nonEmpty by (auto simp: read_name_def reads)

lemma read_positive_integer_iff [reads]: "read_positive_integer v path = Inr i \<longleftrightarrow> v = JNum (NInt i) \<and> 1 \<le> i"
  by (simp add: read_positive_integer_def reads)

lemma uniqueStrings_iff [reads]: "uniqueStrings xs path = Inr ys \<longleftrightarrow> distinct xs \<and> ys = xs"
  by (auto simp: uniqueStrings_def)

lemma read_enums [reads]:
  "read_enum v p identity_role_name requiredRoles = Inr r \<longleftrightarrow> v = JStr (identity_role_name r)"
  "read_enum v p exposure_name [Private, Public] = Inr x \<longleftrightarrow> v = JStr (exposure_name x)"
  "read_enum v p authentication_name [AuthNone, AuthOidc, AuthMtls, AuthOidcMtls] = Inr a \<longleftrightarrow> v = JStr (authentication_name a)"
  "read_enum v p authorization_name [ModeNone, ModeRbac, ModeCapability] = Inr z \<longleftrightarrow> v = JStr (authorization_name z)"
  "read_enum v p trust_name [Trusted, Untrusted] = Inr t \<longleftrightarrow> v = JStr (trust_name t)"
  "read_enum v p isolation_name [Container, Microvm, DedicatedVm] = Inr i \<longleftrightarrow> v = JStr (isolation_name i)"
  "read_enum v p egress_name [EgressNone, EgressBrokered, EgressDirect] = Inr e \<longleftrightarrow> v = JStr (egress_name e)"
  "read_enum v p target_name [ControlPlane, TenantSandbox] = Inr g \<longleftrightarrow> v = JStr (target_name g) \<and> g \<noteq> Host"
  by (simp_all add: read_enum_iff inj_on_def) ((cases x; simp), (cases a; simp), (cases z; simp), (cases t; simp), (cases i; simp),
    (cases e; simp), (cases g; simp))

subsection \<open>Parts\<close>

definition enc_quota :: "paas_tenant \<Rightarrow> jsval" where
  "enc_quota x = JObj
     [(''tenantId'', JStr (tq_tenantId x)), (''maxConcurrentBuilds'', JNum (NInt (tq_maxConcurrentBuilds x))),
      (''maxConcurrentDeployments'', JNum (NInt (tq_maxConcurrentDeployments x))), (''maxCpu'', JStr (tq_maxCpu x)),
      (''maxMemory'', JStr (tq_maxMemory x)), (''maxStorage'', JStr (tq_maxStorage x)),
      (''maxExecutionMinutes'', JNum (NInt (tq_maxExecutionMinutes x)))]"

definition ok_quota :: "paas_tenant \<Rightarrow> bool" where
  "ok_quota x \<longleftrightarrow>
     rx_test name_rx (tq_tenantId x) \<and> 1 \<le> tq_maxConcurrentBuilds x \<and> 1 \<le> tq_maxConcurrentDeployments x \<and>
     nonEmpty (tq_maxCpu x) \<and> nonEmpty (tq_maxMemory x) \<and> nonEmpty (tq_maxStorage x) \<and> 1 \<le> tq_maxExecutionMinutes x"

definition enc_endpoint :: "paas_endpoint \<Rightarrow> jsval" where
  "enc_endpoint x = JObj
     [(''id'', JStr (ep_id x)), (''exposure'', JStr (exposure_name (ep_exposure x))),
      (''authentication'', JStr (authentication_name (ep_authentication x))),
      (''authorization'', JStr (authorization_name (ep_authorization x))),
      (''tenantBindingRequired'', JBool (ep_tenantBindingRequired x)), (''directHostExecution'', JBool (ep_directHostExecution x)),
      (''executionTarget'', JStr (target_name (ep_executionTarget x))),
      (''operations'', JArr (map (\<lambda>op. JStr (operation_name op)) (ep_operations x)))]"

definition ok_endpoint :: "paas_endpoint \<Rightarrow> bool" where
  "ok_endpoint x \<longleftrightarrow> rx_test name_rx (ep_id x) \<and> ep_executionTarget x \<noteq> Host \<and> distinct (ep_operations x)"

definition enc_access :: "paas_access_control \<Rightarrow> jsval" where
  "enc_access x = JObj
     [(''denyByDefault'', JBool (ac_denyByDefault x)),
      (''trustedCapabilityIssuers'', JArr (map JStr (ac_trustedCapabilityIssuers x))),
      (''maxCapabilityTtlSeconds'', JNum (NInt (ac_maxCapabilityTtlSeconds x))),
      (''oneUseMutations'', JBool (ac_oneUseMutations x)), (''idempotencyKeys'', JBool (ac_idempotencyKeys x))]"

definition ok_access :: "paas_access_control \<Rightarrow> bool" where
  "ok_access x \<longleftrightarrow>
     list_all (rx_test name_rx) (ac_trustedCapabilityIssuers x) \<and> distinct (ac_trustedCapabilityIssuers x) \<and>
     1 \<le> ac_maxCapabilityTtlSeconds x"

definition enc_identity :: "paas_identity \<Rightarrow> jsval" where
  "enc_identity x = JObj
     [(''id'', JStr (pid_id x)), (''role'', JStr (identity_role_name (pid_role x))), (''shortLived'', JBool (pid_shortLived x)),
      (''tenantScoped'', JBool (pid_tenantScoped x))]"

definition enc_sandbox :: "paas_sandbox \<Rightarrow> jsval" where
  "enc_sandbox x = JObj
     [(''trust'', JStr (trust_name (sb_trust x))), (''isolation'', JStr (isolation_name (sb_isolation x))),
      (''ephemeral'', JBool (sb_ephemeral x)), (''privileged'', JBool (sb_privileged x)),
      (''hostNetwork'', JBool (sb_hostNetwork x)), (''hostPid'', JBool (sb_hostPid x)),
      (''hostPathMounts'', JBool (sb_hostPathMounts x)), (''containerSocket'', JBool (sb_containerSocket x)),
      (''ambientCloudCredentials'', JBool (sb_ambientCloudCredentials x)), (''egress'', JStr (egress_name (sb_egress x))),
      (''perTenant'', JBool (sb_perTenant x)), (''maxLifetimeMinutes'', JNum (NInt (sb_maxLifetimeMinutes x)))]"

definition enc_scheduling :: "paas_scheduling \<Rightarrow> jsval" where
  "enc_scheduling x = JObj
     [(''perTenantQueues'', JBool (sch_perTenantQueues x)), (''fairScheduling'', JBool (sch_fairScheduling x)),
      (''cancellation'', JBool (sch_cancellation x)), (''timeouts'', JBool (sch_timeouts x)),
      (''maxGlobalConcurrency'', JNum (NInt (sch_maxGlobalConcurrency x)))]"

definition enc_supply_chain :: "paas_supply_chain \<Rightarrow> jsval" where
  "enc_supply_chain x = JObj
     [(''digestPinned'', JBool (sc_digestPinned x)), (''signatureVerification'', JBool (sc_signatureVerification x)),
      (''provenanceVerification'', JBool (sc_provenanceVerification x)), (''sbomRequired'', JBool (sc_sbomRequired x)),
      (''immutableArtifacts'', JBool (sc_immutableArtifacts x)), (''retentionDays'', JNum (NInt (sc_retentionDays x)))]"

definition enc_deployment_state :: "paas_deployment_state \<Rightarrow> jsval" where
  "enc_deployment_state x = JObj (zip deployment_fields
     (map JBool [ds_durable x, ds_encrypted x, ds_idempotencyKeys x, ds_perTenantLocks x, ds_rollback x, ds_backup x,
       ds_restoreTests x, ds_regionalRecovery x]))"

definition enc_audit :: "paas_audit \<Rightarrow> jsval" where
  "enc_audit x = JObj
     [(''immutable'', JBool (au_immutable x)), (''retentionDays'', JNum (NInt (au_retentionDays x))),
      (''requiredFields'', JArr (map JStr (au_requiredFields x))), (''denialEvents'', JBool (au_denialEvents x))]"

definition ok_audit :: "paas_audit \<Rightarrow> bool" where
  "ok_audit x \<longleftrightarrow> 1 \<le> au_retentionDays x \<and> list_all nonEmpty (au_requiredFields x) \<and> distinct (au_requiredFields x)"

lemma quota_enc: "parseTenantQuota (enc_quota x) p = Inr y \<longleftrightarrow> ok_quota x \<and> y = x"
  by (cases x) (auto simp: parseTenantQuota_def enc_quota_def ok_quota_def reads bind_r_eq_Inr)

lemma quota_sound: "parseTenantQuota v p = Inr x \<Longrightarrow> ok_quota x"
  unfolding parseTenantQuota_def bind_r_eq_Inr ok_quota_def by (elim exE conjE) (simp add: reads, clarsimp)

lemma operations_enc:
  "read_list (JArr (map (\<lambda>op. JStr (operation_name op)) ops)) q (\<lambda>w p. read_enum w p operation_name operations) = Inr os \<longleftrightarrow> os = ops"
  by (subst read_list_enc [where P = "\<lambda>_. True"]) (auto simp: read_operation list_all_iff)

lemma endpoint_enc: "parseEndpoint (enc_endpoint x) p = Inr y \<longleftrightarrow> ok_endpoint x \<and> y = x"
  by (cases x) (auto simp: parseEndpoint_def enc_endpoint_def ok_endpoint_def reads operations_enc bind_r_eq_Inr)

lemma endpoint_sound: "parseEndpoint v p = Inr x \<Longrightarrow> ok_endpoint x"
  unfolding parseEndpoint_def bind_r_eq_Inr ok_endpoint_def by (elim exE conjE) (simp add: reads, clarsimp)

lemma names_enc: "read_list (JArr (map JStr xs)) q read_name = Inr ys \<longleftrightarrow> list_all (rx_test name_rx) xs \<and> ys = xs"
  by (rule strings_enc) (auto simp: reads)

lemma texts_enc: "read_list (JArr (map JStr xs)) q read_string = Inr ys \<longleftrightarrow> list_all nonEmpty xs \<and> ys = xs"
  by (rule strings_enc) (auto simp: reads)

lemma access_enc: "parseAccessControl (enc_access x) = Inr y \<longleftrightarrow> ok_access x \<and> y = x"
  by (cases x) (auto simp: parseAccessControl_def enc_access_def ok_access_def reads names_enc bind_r_eq_Inr Let_def)

lemma access_sound: "parseAccessControl v = Inr x \<Longrightarrow> ok_access x"
  unfolding parseAccessControl_def Let_def bind_r_eq_Inr ok_access_def
  by (elim exE conjE) (drule read_list_sound [where P = "rx_test name_rx"], simp add: reads, simp add: reads, clarsimp)

lemma paas_identity_enc: "parsePaasIdentity (enc_identity x) p = Inr y \<longleftrightarrow> rx_test name_rx (pid_id x) \<and> y = x"
  by (cases x) (auto simp: parsePaasIdentity_def enc_identity_def reads bind_r_eq_Inr)

lemma paas_identity_sound: "parsePaasIdentity v p = Inr x \<Longrightarrow> rx_test name_rx (pid_id x)"
  unfolding parsePaasIdentity_def bind_r_eq_Inr by (elim exE conjE) (simp add: reads, clarsimp)

lemma paas_sandbox_enc: "parseSandbox (enc_sandbox x) p = Inr y \<longleftrightarrow> 1 \<le> sb_maxLifetimeMinutes x \<and> y = x"
  by (cases x) (auto simp: parseSandbox_def enc_sandbox_def reads bind_r_eq_Inr)

lemma paas_sandbox_sound: "parseSandbox v p = Inr x \<Longrightarrow> 1 \<le> sb_maxLifetimeMinutes x"
  unfolding parseSandbox_def bind_r_eq_Inr by (elim exE conjE) (simp add: reads, clarsimp)

lemma scheduling_enc: "parseScheduling (enc_scheduling x) = Inr y \<longleftrightarrow> 1 \<le> sch_maxGlobalConcurrency x \<and> y = x"
  by (cases x) (auto simp: parseScheduling_def enc_scheduling_def reads bind_r_eq_Inr Let_def)

lemma scheduling_sound: "parseScheduling v = Inr x \<Longrightarrow> 1 \<le> sch_maxGlobalConcurrency x"
  unfolding parseScheduling_def Let_def bind_r_eq_Inr by (elim exE conjE) (simp add: reads, clarsimp)

lemma supply_chain_enc: "parseSupplyChain (enc_supply_chain x) = Inr y \<longleftrightarrow> 1 \<le> sc_retentionDays x \<and> y = x"
  by (cases x) (auto simp: parseSupplyChain_def enc_supply_chain_def reads bind_r_eq_Inr Let_def)

lemma supply_chain_sound: "parseSupplyChain v = Inr x \<Longrightarrow> 1 \<le> sc_retentionDays x"
  unfolding parseSupplyChain_def Let_def bind_r_eq_Inr by (elim exE conjE) (simp add: reads, clarsimp)

lemma deployment_state_enc: "parseDeploymentState (enc_deployment_state x) = Inr y \<longleftrightarrow> y = x"
  by (cases x) (auto simp: parseDeploymentState_def enc_deployment_state_def deployment_fields_def read_fields_def reads
      bind_r_eq_Inr Let_def)

lemma audit_enc: "parseAudit (enc_audit x) = Inr y \<longleftrightarrow> ok_audit x \<and> y = x"
  by (cases x) (auto simp: parseAudit_def enc_audit_def ok_audit_def reads texts_enc bind_r_eq_Inr Let_def)

lemma audit_sound: "parseAudit v = Inr x \<Longrightarrow> ok_audit x"
  unfolding parseAudit_def Let_def bind_r_eq_Inr ok_audit_def
  by (elim exE conjE) (drule read_list_sound [where P = nonEmpty], simp add: reads, simp add: reads, clarsimp)

subsection \<open>Intents\<close>

definition intent_props :: "paas_intent \<Rightarrow> props" where
  "intent_props x =
     [(''apiVersion'', JStr PAAS_SECURITY_API_VERSION), (''name'', JStr (in_name x)), (''environment'', JStr (in_environment x)),
      (''tenants'', JArr (map enc_quota (in_tenants x))), (''endpoints'', JArr (map enc_endpoint (in_endpoints x))),
      (''accessControl'', enc_access (in_accessControl x)), (''identities'', JArr (map enc_identity (in_identities x))),
      (''builder'', enc_sandbox (in_builder x)), (''runtime'', enc_sandbox (in_runtime x)),
      (''scheduling'', enc_scheduling (in_scheduling x)), (''supplyChain'', enc_supply_chain (in_supplyChain x)),
      (''deploymentState'', enc_deployment_state (in_deploymentState x)), (''audit'', enc_audit (in_audit x))]"

definition enc_intent :: "paas_intent \<Rightarrow> jsval" where
  "enc_intent x = JObj (intent_props x)"

definition ok_intent :: "paas_intent \<Rightarrow> bool" where
  "ok_intent x \<longleftrightarrow>
     rx_test name_rx (in_name x) \<and> rx_test name_rx (in_environment x) \<and> list_all ok_quota (in_tenants x) \<and>
     list_all ok_endpoint (in_endpoints x) \<and> ok_access (in_accessControl x) \<and>
     list_all (\<lambda>i. rx_test name_rx (pid_id i)) (in_identities x) \<and> 1 \<le> sb_maxLifetimeMinutes (in_builder x) \<and>
     1 \<le> sb_maxLifetimeMinutes (in_runtime x) \<and> 1 \<le> sch_maxGlobalConcurrency (in_scheduling x) \<and>
     1 \<le> sc_retentionDays (in_supplyChain x) \<and> ok_audit (in_audit x)"

lemma intent_read:
  "read_object (JObj (intent_props x)) path intent_keys [] = Inr (intent_props x)"
  "js_get (intent_props x) ''apiVersion'' = JStr PAAS_SECURITY_API_VERSION" "js_get (intent_props x) ''name'' = JStr (in_name x)"
  "js_get (intent_props x) ''environment'' = JStr (in_environment x)"
  "js_get (intent_props x) ''tenants'' = JArr (map enc_quota (in_tenants x))"
  "js_get (intent_props x) ''endpoints'' = JArr (map enc_endpoint (in_endpoints x))"
  "js_get (intent_props x) ''accessControl'' = enc_access (in_accessControl x)"
  "js_get (intent_props x) ''identities'' = JArr (map enc_identity (in_identities x))"
  "js_get (intent_props x) ''builder'' = enc_sandbox (in_builder x)" "js_get (intent_props x) ''runtime'' = enc_sandbox (in_runtime x)"
  "js_get (intent_props x) ''scheduling'' = enc_scheduling (in_scheduling x)"
  "js_get (intent_props x) ''supplyChain'' = enc_supply_chain (in_supplyChain x)"
  "js_get (intent_props x) ''deploymentState'' = enc_deployment_state (in_deploymentState x)"
  "js_get (intent_props x) ''audit'' = enc_audit (in_audit x)"
  by (simp_all add: intent_props_def read_object_iff intent_keys_def)

lemma intent_lists:
  "read_list (JArr (map enc_quota ts)) q parseTenantQuota = Inr a \<longleftrightarrow> list_all ok_quota ts \<and> a = ts"
  "read_list (JArr (map enc_endpoint es)) q parseEndpoint = Inr b \<longleftrightarrow> list_all ok_endpoint es \<and> b = es"
  "read_list (JArr (map enc_identity is)) q parsePaasIdentity = Inr c \<longleftrightarrow> list_all (\<lambda>i. rx_test name_rx (pid_id i)) is \<and> c = is"
  by (rule read_list_enc, rule quota_enc endpoint_enc paas_identity_enc)+

lemma api_version_read: "read_string (JStr PAAS_SECURITY_API_VERSION) q = Inr s \<longleftrightarrow> s = PAAS_SECURITY_API_VERSION"
proof -
  have "nonEmpty PAAS_SECURITY_API_VERSION" by code_simp
  then show ?thesis by (auto simp: reads)
qed

theorem intent_enc: "parsePaasSecurityIntent (enc_intent x) = Inr y \<longleftrightarrow> ok_intent x \<and> secure_intent x \<and> y = x"
  unfolding parsePaasSecurityIntent_def enc_intent_def intent_read bind_r_Inr Let_def
  by (simp only: bind_r_eq_Inr intent_read throw_if_eq_Inr api_version_read read_name_iff intent_lists access_enc
      paas_sandbox_enc scheduling_enc supply_chain_enc deployment_state_enc audit_enc assert_intent_iff jsval.inject sum.inject
      ex_simps simp_thms conj_assoc) (cases x, auto simp: ok_intent_def)

theorem intent_sound:
  assumes "parsePaasSecurityIntent v = Inr x"
  shows "ok_intent x \<and> secure_intent x"
proof -
  have lists: "read_list w p parseTenantQuota = Inr a \<Longrightarrow> list_all ok_quota a"
    "read_list w p parseEndpoint = Inr b \<Longrightarrow> list_all ok_endpoint b"
    "read_list w p parsePaasIdentity = Inr c \<Longrightarrow> list_all (\<lambda>i. rx_test name_rx (pid_id i)) c" for w p a b c
    by (erule read_list_sound, erule quota_sound endpoint_sound paas_identity_sound)+
  from assms show ?thesis
    unfolding parsePaasSecurityIntent_def Let_def bind_r_eq_Inr assert_intent_iff ok_intent_def
    by (elim exE conjE) (drule lists(1), drule lists(2), drule lists(3), drule access_sound, drule paas_sandbox_sound,
      drule paas_sandbox_sound, drule scheduling_sound, drule supply_chain_sound, drule audit_sound, simp add: reads, clarsimp)
qed

end
