(* ===== verification/PaasSecurityProps.thy ===== *)
theory PaasSecurityProps
  imports PaasSecurityLaws PaasExamples PaasLaws
begin

section \<open>PaaS security intent: properties\<close>

text \<open>
  The parser and the evaluation of an intent, and what an accepted intent means for the two modules that
  take it as an argument, the control plane and the authorizer.
\<close>

subsection \<open>Parser and evaluation\<close>

text \<open>The evaluation of an intent finds no violation exactly when the intent is secure: tenants with unique names
  and positive bounds, every operation behind an authenticated, authorized, tenant-bound endpoint and the dangerous ones
  only in a tenant sandbox, one short-lived identity per role, contained sandboxes, and the supply-chain, state, recovery
  and audit requirements.\<close>

theorem paas_intent_decides: "evaluatePaasSecurityIntent x = [] \<longleftrightarrow> secure_intent x"
  by (rule evaluation_decides)

text \<open>The parser of intents reads the object of an intent back exactly when its values are well formed and the intent
  is secure, and it never returns an intent that is not both.\<close>

theorem paas_intent_parser:
  "(parsePaasSecurityIntent (enc_intent x) = Inr y \<longleftrightarrow> ok_intent x \<and> secure_intent x \<and> y = x) \<and>
   (parsePaasSecurityIntent v = Inr z \<longrightarrow> ok_intent z \<and> secure_intent z)"
  using intent_enc intent_sound by blast

lemma secure_parts:
  "secure_endpoints (in_endpoints (createSecurePaasSecurityIntent ts))" "secure_access (in_accessControl (createSecurePaasSecurityIntent ts))"
  "secure_identities (in_identities (createSecurePaasSecurityIntent ts))"
  "list_all ok_endpoint (in_endpoints (createSecurePaasSecurityIntent ts))" "ok_access (in_accessControl (createSecurePaasSecurityIntent ts))"
  "list_all (\<lambda>i. rx_test name_rx (pid_id i)) (in_identities (createSecurePaasSecurityIntent ts))"
  "ok_audit (in_audit (createSecurePaasSecurityIntent ts))" "rx_test name_rx (in_name (createSecurePaasSecurityIntent ts))"
  "rx_test name_rx (in_environment (createSecurePaasSecurityIntent ts))"
proof -
  have "endpoints_violations (in_endpoints (createSecurePaasSecurityIntent ts)) = []"
    "access_violations (in_accessControl (createSecurePaasSecurityIntent ts)) = []"
    "identities_violations (in_identities (createSecurePaasSecurityIntent ts)) = []"
    unfolding createSecurePaasSecurityIntent_def paas_intent.select_convs by code_simp+
  then show "secure_endpoints (in_endpoints (createSecurePaasSecurityIntent ts))"
    "secure_access (in_accessControl (createSecurePaasSecurityIntent ts))"
    "secure_identities (in_identities (createSecurePaasSecurityIntent ts))"
    by (simp_all only: endpoints_decide access_decide identities_decide)
  show "list_all ok_endpoint (in_endpoints (createSecurePaasSecurityIntent ts))" "ok_access (in_accessControl (createSecurePaasSecurityIntent ts))"
    "list_all (\<lambda>i. rx_test name_rx (pid_id i)) (in_identities (createSecurePaasSecurityIntent ts))"
    "ok_audit (in_audit (createSecurePaasSecurityIntent ts))" "rx_test name_rx (in_name (createSecurePaasSecurityIntent ts))"
    "rx_test name_rx (in_environment (createSecurePaasSecurityIntent ts))"
    unfolding createSecurePaasSecurityIntent_def paas_intent.select_convs by code_simp+
qed

lemma secure_created:
  "ok_intent (createSecurePaasSecurityIntent ts) \<and> secure_intent (createSecurePaasSecurityIntent ts) \<longleftrightarrow>
     ts \<noteq> [] \<and> distinct ts \<and> list_all (rx_test name_rx) ts"
proof -
  have texts: "nonEmpty ''16''" "nonEmpty ''32Gi''" "nonEmpty ''200Gi''" by code_simp+
  have quotas: "list_all ok_quota (in_tenants (createSecurePaasSecurityIntent ts)) \<longleftrightarrow> list_all (rx_test name_rx) ts"
    "secure_tenants (in_tenants (createSecurePaasSecurityIntent ts)) \<longleftrightarrow> ts \<noteq> [] \<and> distinct ts"
    using texts by (simp_all add: createSecurePaasSecurityIntent_def ok_quota_def secure_tenants_def list_all_iff comp_def)
  have rest: "secure_sandbox (in_builder (createSecurePaasSecurityIntent ts))" "secure_sandbox (in_runtime (createSecurePaasSecurityIntent ts))"
    "sb_trust (in_builder (createSecurePaasSecurityIntent ts)) = Untrusted" "1 \<le> sb_maxLifetimeMinutes (in_builder (createSecurePaasSecurityIntent ts))"
    "1 \<le> sb_maxLifetimeMinutes (in_runtime (createSecurePaasSecurityIntent ts))"
    "1 \<le> sch_maxGlobalConcurrency (in_scheduling (createSecurePaasSecurityIntent ts))"
    "1 \<le> sc_retentionDays (in_supplyChain (createSecurePaasSecurityIntent ts))"
    "secure_operations (in_scheduling (createSecurePaasSecurityIntent ts)) (in_supplyChain (createSecurePaasSecurityIntent ts))
       (in_deploymentState (createSecurePaasSecurityIntent ts)) (in_audit (createSecurePaasSecurityIntent ts))"
    by (simp_all add: createSecurePaasSecurityIntent_def secureSandbox_def secure_sandbox_def secure_operations_def)
  show ?thesis
    unfolding ok_intent_def secure_intent_def quotas using secure_parts [of ts] rest by auto
qed

text \<open>The intent that the module builds for a list of tenants is accepted by its own parser exactly when there is a
  tenant, no tenant is named twice and every name is a lower-case DNS-style name.\<close>

theorem secure_intent_created:
  "parsePaasSecurityIntent (enc_intent (createSecurePaasSecurityIntent ts)) = Inr (createSecurePaasSecurityIntent ts) \<longleftrightarrow>
     ts \<noteq> [] \<and> distinct ts \<and> list_all (rx_test name_rx) ts"
  using secure_created [of ts] by (simp add: intent_enc)

subsection \<open>A declared platform\<close>

definition acme_intent :: paas_intent where
  "acme_intent = createSecurePaasSecurityIntent [''acme'']"

lemma acme_parsed: "parsePaasSecurityIntent (enc_intent acme_intent) = Inr acme_intent"
proof -
  have "rx_test name_rx ''acme''" by code_simp
  then have "ok_intent acme_intent \<and> secure_intent acme_intent"
    using secure_created [of "[''acme'']"] by (simp add: acme_intent_def)
  then show ?thesis by (simp add: intent_enc)
qed

lemma declared_limits: "secure_intent intent \<Longrightarrow> limits_ok intent \<and> intent_ok intent"
  by (force simp: secure_intent_def secure_tenants_def secure_operations_def limits_ok_def intent_ok_def tenant_ids_def)

theorem paas_intent_parser_witness: "ok_intent acme_intent \<and> secure_intent acme_intent"
  using paas_intent_parser [of acme_intent acme_intent "enc_intent acme_intent" acme_intent] acme_parsed by blast

text \<open>The control plane of an accepted intent is sound: every state that its commands reach passes the state check,
  every command is answered, and the active jobs keep the declared limits; the hypotheses of the properties of the control
  plane hold for every intent that the parser returns.\<close>

theorem declared_control_plane:
  assumes "parsePaasSecurityIntent v = Inr intent" "paas_reach sha intent st"
  shows "assertPaasControlState sha st intent = Inr () \<and>
    int (length (activeJobs (st_jobs st))) \<le> sch_maxGlobalConcurrency (in_scheduling intent) \<and>
    (\<forall>q \<in> set (in_tenants intent). active_builds (st_jobs st) (tq_tenantId q) \<le> tq_maxConcurrentBuilds q) \<and>
    (\<forall>c. clock_ok c st \<longrightarrow> (\<exists>tr. paas_run sha intent c st = Inr tr))"
proof -
  have limits: "limits_ok intent" "intent_ok intent"
    using intent_sound [OF assms(1)] declared_limits by blast+
  have ok: "paas_ok sha intent st" by (rule paas_reach_ok [OF assms(2) limits])
  have "assertPaasControlState sha st intent = Inr ()"
    using ok by (auto simp: assertPaasControlState_def paas_ok_check)
  moreover have "\<forall>c. clock_ok c st \<longrightarrow> (\<exists>tr. paas_run sha intent c st = Inr tr)"
    using paas_run_step [OF ok limits(2)] by auto
  ultimately show ?thesis using paas_okD(6) [OF ok] by (simp add: quotas_kept_def)
qed

theorem declared_control_plane_witness:
  "assertPaasControlState px_sha (createPaasControlState acme_intent) acme_intent = Inr ()"
  using declared_control_plane [OF acme_parsed reach_create] by blast





end
