(* ===== verification/Blueprint.thy ===== *)
theory Blueprint
  imports JsParse JsCollections
begin

section \<open>The cloud-neutral platform blueprint\<close>

text \<open>
  \<open>src/core/model.ts\<close>: every interface is a record, every union of string literals a datatype.
  A property declared optional is an \<open>option\<close>.  The numbers of a blueprint are integers, which is
  what the schema parser of \<open>BlueprintSchema\<close> guarantees.  The property \<open>apiVersion\<close> has a literal
  type with one value and is not kept.  A tenant scope is compared as JSON text by the policies;
  \<open>scope_js\<close> is that JSON, with the properties in the order of the declaration.

  \<open><enum>_text\<close> is the string literal of a constructor, \<open>all_<enum>\<close> the list of literals in the
  order in which the parser of \<open>src/core/schema.ts\<close> lists them.
\<close>

subsection \<open>String literal unions\<close>

datatype isolation_tier =
    TierPooled | TierDedicatedData | TierDedicatedNetwork | TierDedicatedAccount

primrec isolation_tier_text :: "isolation_tier \<Rightarrow> string" where
  "isolation_tier_text TierPooled = ''pooled''"
| "isolation_tier_text TierDedicatedData = ''dedicated-data''"
| "isolation_tier_text TierDedicatedNetwork = ''dedicated-network''"
| "isolation_tier_text TierDedicatedAccount = ''dedicated-account''"

definition all_isolation_tier :: "isolation_tier list" where
  "all_isolation_tier = [TierPooled, TierDedicatedData, TierDedicatedNetwork, TierDedicatedAccount]"

datatype zone_kind =
    ZoneEdge | ZoneControlPlane | ZoneWorkload | ZoneExecution | ZoneData | ZoneSecurity
  | ZoneEgress | ZoneExternal

primrec zone_kind_text :: "zone_kind \<Rightarrow> string" where
  "zone_kind_text ZoneEdge = ''edge''"
| "zone_kind_text ZoneControlPlane = ''control-plane''"
| "zone_kind_text ZoneWorkload = ''workload''"
| "zone_kind_text ZoneExecution = ''execution''"
| "zone_kind_text ZoneData = ''data''"
| "zone_kind_text ZoneSecurity = ''security''"
| "zone_kind_text ZoneEgress = ''egress''"
| "zone_kind_text ZoneExternal = ''external''"

definition all_zone_kind :: "zone_kind list" where
  "all_zone_kind = [ZoneEdge, ZoneControlPlane, ZoneWorkload, ZoneExecution, ZoneData, ZoneSecurity, ZoneEgress, ZoneExternal]"

datatype data_classification =
    ClassPublic | ClassInternal | ClassConfidential | ClassRegulated

primrec data_classification_text :: "data_classification \<Rightarrow> string" where
  "data_classification_text ClassPublic = ''public''"
| "data_classification_text ClassInternal = ''internal''"
| "data_classification_text ClassConfidential = ''confidential''"
| "data_classification_text ClassRegulated = ''regulated''"

definition all_data_classification :: "data_classification list" where
  "all_data_classification = [ClassPublic, ClassInternal, ClassConfidential, ClassRegulated]"

datatype flow_protocol =
    ProtoTcp | ProtoUdp | ProtoIcmp | ProtoHttps | ProtoAny

primrec flow_protocol_text :: "flow_protocol \<Rightarrow> string" where
  "flow_protocol_text ProtoTcp = ''tcp''"
| "flow_protocol_text ProtoUdp = ''udp''"
| "flow_protocol_text ProtoIcmp = ''icmp''"
| "flow_protocol_text ProtoHttps = ''https''"
| "flow_protocol_text ProtoAny = ''any''"

definition all_flow_protocol :: "flow_protocol list" where
  "all_flow_protocol = [ProtoTcp, ProtoUdp, ProtoIcmp, ProtoHttps, ProtoAny]"

datatype flow_authorization =
    FlowDirect | FlowBrokered

primrec flow_authorization_text :: "flow_authorization \<Rightarrow> string" where
  "flow_authorization_text FlowDirect = ''direct''"
| "flow_authorization_text FlowBrokered = ''brokered''"

definition all_flow_authorization :: "flow_authorization list" where
  "all_flow_authorization = [FlowDirect, FlowBrokered]"

datatype workload_orchestrator =
    ManagedKubernetes | Serverless | OrchMicrovm | OrchExternalSandbox

primrec workload_orchestrator_text :: "workload_orchestrator \<Rightarrow> string" where
  "workload_orchestrator_text ManagedKubernetes = ''managed-kubernetes''"
| "workload_orchestrator_text Serverless = ''serverless''"
| "workload_orchestrator_text OrchMicrovm = ''microvm''"
| "workload_orchestrator_text OrchExternalSandbox = ''external-sandbox''"

definition all_workload_orchestrator :: "workload_orchestrator list" where
  "all_workload_orchestrator = [ManagedKubernetes, Serverless, OrchMicrovm, OrchExternalSandbox]"

datatype runtime_isolation =
    IsoProcess | IsoContainer | IsoMicrovm | IsoDedicatedVm

primrec runtime_isolation_text :: "runtime_isolation \<Rightarrow> string" where
  "runtime_isolation_text IsoProcess = ''process''"
| "runtime_isolation_text IsoContainer = ''container''"
| "runtime_isolation_text IsoMicrovm = ''microvm''"
| "runtime_isolation_text IsoDedicatedVm = ''dedicated-vm''"

definition all_runtime_isolation :: "runtime_isolation list" where
  "all_runtime_isolation = [IsoProcess, IsoContainer, IsoMicrovm, IsoDedicatedVm]"

datatype execution_trust =
    ExecTrusted | ExecSemiTrusted | ExecUntrusted

primrec execution_trust_text :: "execution_trust \<Rightarrow> string" where
  "execution_trust_text ExecTrusted = ''trusted''"
| "execution_trust_text ExecSemiTrusted = ''semi-trusted''"
| "execution_trust_text ExecUntrusted = ''untrusted''"

definition all_execution_trust :: "execution_trust list" where
  "all_execution_trust = [ExecTrusted, ExecSemiTrusted, ExecUntrusted]"

datatype credential_mode =
    CredAmbient | CredWorkloadIdentity | CredBrokered

primrec credential_mode_text :: "credential_mode \<Rightarrow> string" where
  "credential_mode_text CredAmbient = ''ambient''"
| "credential_mode_text CredWorkloadIdentity = ''workload-identity''"
| "credential_mode_text CredBrokered = ''brokered''"

definition all_credential_mode :: "credential_mode list" where
  "all_credential_mode = [CredAmbient, CredWorkloadIdentity, CredBrokered]"

datatype data_service =
    ObjectService | RelationalService

primrec data_service_text :: "data_service \<Rightarrow> string" where
  "data_service_text ObjectService = ''object''"
| "data_service_text RelationalService = ''relational''"

definition all_data_service :: "data_service list" where
  "all_data_service = [ObjectService, RelationalService]"

datatype identity_kind =
    IdWorkforce | IdWorkload | IdAutomation | IdVendor

primrec identity_kind_text :: "identity_kind \<Rightarrow> string" where
  "identity_kind_text IdWorkforce = ''workforce''"
| "identity_kind_text IdWorkload = ''workload''"
| "identity_kind_text IdAutomation = ''automation''"
| "identity_kind_text IdVendor = ''vendor''"

definition all_identity_kind :: "identity_kind list" where
  "all_identity_kind = [IdWorkforce, IdWorkload, IdAutomation, IdVendor]"

datatype grant_effect =
    EffectAllow | EffectDeny

primrec grant_effect_text :: "grant_effect \<Rightarrow> string" where
  "grant_effect_text EffectAllow = ''allow''"
| "grant_effect_text EffectDeny = ''deny''"

definition all_grant_effect :: "grant_effect list" where
  "all_grant_effect = [EffectAllow, EffectDeny]"

datatype dependency_protocol =
    DepHttps | DepGrpc

primrec dependency_protocol_text :: "dependency_protocol \<Rightarrow> string" where
  "dependency_protocol_text DepHttps = ''https''"
| "dependency_protocol_text DepGrpc = ''grpc''"

definition all_dependency_protocol :: "dependency_protocol list" where
  "all_dependency_protocol = [DepHttps, DepGrpc]"

datatype dependency_authorization =
    DepWorkloadIdentity | DepCapability

primrec dependency_authorization_text :: "dependency_authorization \<Rightarrow> string" where
  "dependency_authorization_text DepWorkloadIdentity = ''workload-identity''"
| "dependency_authorization_text DepCapability = ''capability''"

definition all_dependency_authorization :: "dependency_authorization list" where
  "all_dependency_authorization = [DepWorkloadIdentity, DepCapability]"

datatype ingress_mode =
    IngressNone | IngressPrivate | IngressPublic

primrec ingress_mode_text :: "ingress_mode \<Rightarrow> string" where
  "ingress_mode_text IngressNone = ''none''"
| "ingress_mode_text IngressPrivate = ''private''"
| "ingress_mode_text IngressPublic = ''public''"

definition all_ingress_mode :: "ingress_mode list" where
  "all_ingress_mode = [IngressNone, IngressPrivate, IngressPublic]"

datatype platform_capability =
    PrivateNetwork | CentralizedEgress | ManagedFirewall | PrivateControlPlane | WorkloadIdentity
  | CustomerManagedEncryption | ImmutableAuditLog | DedicatedAccountBoundary | MicrovmRuntime
  | ExternalSandbox | ServerlessRuntime

primrec platform_capability_text :: "platform_capability \<Rightarrow> string" where
  "platform_capability_text PrivateNetwork = ''private-network''"
| "platform_capability_text CentralizedEgress = ''centralized-egress''"
| "platform_capability_text ManagedFirewall = ''managed-firewall''"
| "platform_capability_text PrivateControlPlane = ''private-control-plane''"
| "platform_capability_text WorkloadIdentity = ''workload-identity''"
| "platform_capability_text CustomerManagedEncryption = ''customer-managed-encryption''"
| "platform_capability_text ImmutableAuditLog = ''immutable-audit-log''"
| "platform_capability_text DedicatedAccountBoundary = ''dedicated-account-boundary''"
| "platform_capability_text MicrovmRuntime = ''microvm-runtime''"
| "platform_capability_text ExternalSandbox = ''external-sandbox''"
| "platform_capability_text ServerlessRuntime = ''serverless-runtime''"

definition all_platform_capability :: "platform_capability list" where
  "all_platform_capability = [PrivateNetwork, CentralizedEgress, ManagedFirewall, PrivateControlPlane, WorkloadIdentity, CustomerManagedEncryption, ImmutableAuditLog, DedicatedAccountBoundary, MicrovmRuntime, ExternalSandbox, ServerlessRuntime]"

text \<open>The literals of a union are distinct, and the list holds all of them.\<close>

lemma isolation_tier_texts: "inj_on isolation_tier_text (set all_isolation_tier)" "x \<in> set all_isolation_tier"
  by (simp_all add: all_isolation_tier_def) (cases x; simp)

lemma zone_kind_texts: "inj_on zone_kind_text (set all_zone_kind)" "x \<in> set all_zone_kind"
  by (simp_all add: all_zone_kind_def) (cases x; simp)

lemma data_classification_texts: "inj_on data_classification_text (set all_data_classification)" "x \<in> set all_data_classification"
  by (simp_all add: all_data_classification_def) (cases x; simp)

lemma flow_protocol_texts: "inj_on flow_protocol_text (set all_flow_protocol)" "x \<in> set all_flow_protocol"
  by (simp_all add: all_flow_protocol_def) (cases x; simp)

lemma flow_authorization_texts: "inj_on flow_authorization_text (set all_flow_authorization)" "x \<in> set all_flow_authorization"
  by (simp_all add: all_flow_authorization_def) (cases x; simp)

lemma workload_orchestrator_texts: "inj_on workload_orchestrator_text (set all_workload_orchestrator)" "x \<in> set all_workload_orchestrator"
  by (simp_all add: all_workload_orchestrator_def) (cases x; simp)

lemma runtime_isolation_texts: "inj_on runtime_isolation_text (set all_runtime_isolation)" "x \<in> set all_runtime_isolation"
  by (simp_all add: all_runtime_isolation_def) (cases x; simp)

lemma execution_trust_texts: "inj_on execution_trust_text (set all_execution_trust)" "x \<in> set all_execution_trust"
  by (simp_all add: all_execution_trust_def) (cases x; simp)

lemma credential_mode_texts: "inj_on credential_mode_text (set all_credential_mode)" "x \<in> set all_credential_mode"
  by (simp_all add: all_credential_mode_def) (cases x; simp)

lemma data_service_texts: "inj_on data_service_text (set all_data_service)" "x \<in> set all_data_service"
  by (simp_all add: all_data_service_def) (cases x; simp)

lemma identity_kind_texts: "inj_on identity_kind_text (set all_identity_kind)" "x \<in> set all_identity_kind"
  by (simp_all add: all_identity_kind_def) (cases x; simp)

lemma grant_effect_texts: "inj_on grant_effect_text (set all_grant_effect)" "x \<in> set all_grant_effect"
  by (simp_all add: all_grant_effect_def) (cases x; simp)

lemma dependency_protocol_texts: "inj_on dependency_protocol_text (set all_dependency_protocol)" "x \<in> set all_dependency_protocol"
  by (simp_all add: all_dependency_protocol_def) (cases x; simp)

lemma dependency_authorization_texts: "inj_on dependency_authorization_text (set all_dependency_authorization)" "x \<in> set all_dependency_authorization"
  by (simp_all add: all_dependency_authorization_def) (cases x; simp)

lemma ingress_mode_texts: "inj_on ingress_mode_text (set all_ingress_mode)" "x \<in> set all_ingress_mode"
  by (simp_all add: all_ingress_mode_def) (cases x; simp)

lemma platform_capability_texts: "inj_on platform_capability_text (set all_platform_capability)" "x \<in> set all_platform_capability"
  by (simp_all add: all_platform_capability_def) (cases x; simp)

lemmas enum_texts =
  isolation_tier_texts
  zone_kind_texts
  data_classification_texts
  flow_protocol_texts
  flow_authorization_texts
  workload_orchestrator_texts
  runtime_isolation_texts
  execution_trust_texts
  credential_mode_texts
  data_service_texts
  identity_kind_texts
  grant_effect_texts
  dependency_protocol_texts
  dependency_authorization_texts
  ingress_mode_texts
  platform_capability_texts

subsection \<open>Interfaces\<close>

datatype tenant_scope = PlatformScope | PooledScope "string list" | DedicatedScope string

primrec scope_js :: "tenant_scope \<Rightarrow> jsval" where
  "scope_js PlatformScope = JObj [(''mode'', JStr ''platform'')]"
| "scope_js (PooledScope ts) = JObj [(''mode'', JStr ''pooled''), (''tenantIds'', JArr (map JStr ts))]"
| "scope_js (DedicatedScope t) = JObj [(''mode'', JStr ''dedicated''), (''tenantId'', JStr t)]"

definition platformTenantScope :: tenant_scope where
  "platformTenantScope = PlatformScope"

record security_posture =
  sp_forbidPublicControlPlanes :: bool
  sp_requireInspectedEgress :: bool
  sp_requireImmutableAudit :: bool
  sp_minimumAuditRetentionDays :: int

record trust_zone =
  tz_id :: string
  tz_kind :: zone_kind
  tz_publicAccess :: bool
  tz_tenantScope :: tenant_scope
  tz_isolationBoundary :: "string option"

record network_domain =
  nd_id :: string
  nd_zoneId :: string
  nd_cidrs :: "string list"
  nd_availabilityZoneCount :: int
  nd_directInternetAccess :: bool
  nd_inspectedEgress :: bool

record network_flow =
  nf_id :: string
  nf_fromZoneId :: string
  nf_toZoneId :: string
  nf_protocol :: flow_protocol
  nf_ports :: "int list option"
  nf_purpose :: string
  nf_authorization :: flow_authorization
  nf_viaZoneIds :: "string list option"
  nf_externalDestinations :: "string list option"

record workload_plane =
  wp_id :: string
  wp_zoneId :: string
  wp_tenantScope :: tenant_scope
  wp_executionTrust :: execution_trust
  wp_orchestrator :: workload_orchestrator
  wp_runtimeIsolation :: runtime_isolation
  wp_controlPlanePublic :: bool
  wp_workloadIdentity :: bool
  wp_credentialMode :: credential_mode
  wp_maxExecutionMinutes :: "int option"

record encryption_requirement =
  er_customerManagedKey :: bool
  er_dedicatedPerTenant :: bool
  er_rotationRequired :: bool

record recovery_requirement =
  rr_backupRequired :: bool
  rr_rpoMinutes :: int
  rr_rtoMinutes :: int
  rr_multiAzRequired :: bool
  rr_deletionProtectionRequired :: bool
  rr_finalSnapshotRequired :: bool
  rr_restoreTestIntervalDays :: int

record data_boundary =
  db_id :: string
  db_zoneId :: string
  db_classification :: data_classification
  db_tenantScope :: tenant_scope
  db_services :: "data_service list"
  db_encryption :: encryption_requirement
  db_recovery :: recovery_requirement
  db_retentionDays :: int
  db_versioningRequired :: bool
  db_replicationRequired :: bool
  db_objectAuditRequired :: bool
  db_deletionEvidenceRequired :: bool
  db_exportEvidenceRequired :: bool

record platform_identity =
  idn_id :: string
  idn_kind :: identity_kind
  idn_tenantId :: "string option"
  idn_shortLived :: bool

record identity_delegation =
  dg_id :: string
  dg_fromIdentityId :: string
  dg_toIdentityId :: string
  dg_conditions :: "string obj option"

record access_exception =
  ax_owner :: string
  ax_reason :: string
  ax_expiresAt :: string
  ax_auditRequirementId :: string

record identity_grant =
  gr_id :: string
  gr_identityId :: string
  gr_resourceIds :: "string list"
  gr_actions :: "string list"
  gr_effect :: grant_effect
  gr_tenantId :: "string option"
  gr_conditions :: "string obj option"
  gr_exception :: "access_exception option"

record evidence_sink =
  es_id :: string
  es_immutable :: bool
  es_retentionDays :: int
  es_tenantScope :: tenant_scope

record evidence_requirement =
  eq_id :: string
  eq_sourceIds :: "string list"
  eq_sinkId :: string
  eq_eventTypes :: "string list"

record tenant_placement =
  tp_tenantId :: string
  tp_isolationTier :: isolation_tier
  tp_zoneIds :: "string list"
  tp_dataBoundaryIds :: "string list"
  tp_identityIds :: "string list"

record application_dependency =
  ad_deploymentId :: string
  ad_fromComponentId :: string
  ad_toComponentId :: string
  ad_protocol :: dependency_protocol
  ad_authorization :: dependency_authorization
  ad_audience :: string
  ad_actions :: "string list"

record component_dependency =
  cd_fromComponentId :: string
  cd_toComponentId :: string
  cd_protocol :: dependency_protocol
  cd_authorization :: dependency_authorization
  cd_audience :: string
  cd_actions :: "string list"

record availability =
  av_minimumReplicas :: int
  av_maximumUnavailable :: int

record application_component =
  cp_id :: string
  cp_workloadPlaneId :: string
  cp_serviceIdentityId :: string
  cp_dataBoundaryIds :: "string list"
  cp_ingress :: ingress_mode
  cp_availability :: availability

record release_policy =
  rl_digestPinnedImages :: bool
  rl_signatureVerification :: bool
  rl_provenanceVerification :: bool
  rl_rollbackRequired :: bool

record application_deployment =
  ap_id :: string
  ap_workloadPlaneId :: string
  ap_serviceIdentityId :: string
  ap_tenantScope :: tenant_scope
  ap_dataBoundaryIds :: "string list"
  ap_ingress :: ingress_mode
  ap_components :: "application_component list"
  ap_componentDependencies :: "component_dependency list"
  ap_dependencies :: "application_dependency list"
  ap_availability :: availability
  ap_release :: release_policy

record platform_blueprint =
  bp_name :: string
  bp_environment :: string
  bp_posture :: security_posture
  bp_requiredCapabilities :: "platform_capability list"
  bp_trustZones :: "trust_zone list"
  bp_networkDomains :: "network_domain list"
  bp_flows :: "network_flow list"
  bp_workloadPlanes :: "workload_plane list"
  bp_applications :: "application_deployment list"
  bp_tenants :: "tenant_placement list"
  bp_dataBoundaries :: "data_boundary list"
  bp_identities :: "platform_identity list"
  bp_identityDelegations :: "identity_delegation list"
  bp_grants :: "identity_grant list"
  bp_evidenceSinks :: "evidence_sink list"
  bp_evidenceRequirements :: "evidence_requirement list"

end
