(* ===== verification/JsonText.thy ===== *)
theory JsonText
  imports JsObjects
begin

section \<open>JSON text is injective\<close>

text \<open>
  Several modules hash, sign or compare the JSON text of a value.  The lemmas here show that the text
  determines the value: for strings and arrays of strings, for the scalars an object of the program
  has, and for an object with a known list of properties, whose values are printed in the order of the
  sorted property names.  \<open>stableJson\<close> is the function that the infrastructure modules hash.
\<close>

subsection \<open>Strings\<close>

lemma hex_digit_inj: "a < 16 \<Longrightarrow> b < 16 \<Longrightarrow> hex_digit a = hex_digit b \<Longrightarrow> a = b"
proof -
  have code: "of_char (hex_digit d) = (if d < 10 then 48 + d else 87 + d)" if "d < 16" for d :: nat
    using that by (cases "d < 10") (simp_all only: hex_digit_def if_True if_False of_char_of, simp_all)
  assume "a < 16" "b < 16" and eq: "hex_digit a = hex_digit b"
  have "(if a < 10 then 48 + a else 87 + a) = (if b < 10 then 48 + b else 87 + b)"
    unfolding code [OF \<open>a < 16\<close>, symmetric] code [OF \<open>b < 16\<close>, symmetric] eq ..
  then show "a = b" by (simp split: if_splits)
qed

lemma hex_pair_inj:
  fixes c d :: char
  assumes "hex_digit (of_char c div 16) = hex_digit (of_char d div 16)"
    and "hex_digit (of_char c mod 16) = hex_digit (of_char d mod 16)"
  shows "c = d"
proof -
  have "(of_char c :: nat) div 16 < 16" "(of_char d :: nat) div 16 < 16"
    by (rule less_mult_imp_div_less, simp add: nat_of_char_less_256)+
  with assms have "(of_char c :: nat) div 16 = of_char d div 16" "(of_char c :: nat) mod 16 = of_char d mod 16"
    by (auto intro: hex_digit_inj)
  then have "(of_char c :: nat) = of_char d" by (metis div_mult_mod_eq)
  then show ?thesis by simp
qed

lemma json_escape_inj: "json_escape c @ u = json_escape d @ v \<Longrightarrow> c = d \<and> u = v"
  unfolding json_escape_def by (auto dest: hex_pair_inj split: if_splits)

lemma json_escape_quote: "json_escape c @ u \<noteq> CHR 0x22 # v"
  unfolding json_escape_def by (auto split: if_splits)

lemma json_body_inj:
  "concat (map json_escape s) @ CHR 0x22 # u = concat (map json_escape t) @ CHR 0x22 # v \<Longrightarrow> s = t \<and> u = v"
proof (induction s arbitrary: t)
  case Nil
  show ?case
  proof (cases t)
    case Nil
    with Nil.prems show ?thesis by simp
  next
    case (Cons d t')
    with Nil.prems json_escape_quote [of d "concat (map json_escape t') @ CHR 0x22 # v" u] show ?thesis by simp
  qed
next
  case (Cons c s)
  then obtain d t' where t: "t = d # t'"
    using json_escape_quote [of c "concat (map json_escape s) @ CHR 0x22 # u" v] by (cases t) auto
  from Cons.prems have "c = d \<and> concat (map json_escape s) @ CHR 0x22 # u = concat (map json_escape t') @ CHR 0x22 # v"
    unfolding t by (intro json_escape_inj) simp
  with Cons.IH t show ?case by blast
qed

lemma json_string_inj: "json_string s @ u = json_string t @ v \<Longrightarrow> s = t \<and> u = v"
  by (auto simp: json_string_def dest!: json_body_inj)

lemma json_strings_inj:
  assumes "comma_join (map json_string xs) @ CHR '']'' # u = comma_join (map json_string ys) @ CHR '']'' # v"
  shows "xs = ys \<and> u = v"
proof -
  have tail: "concat (map (\<lambda>z. CHR '','' # z) (map json_string xs)) @ CHR '']'' # u =
      concat (map (\<lambda>z. CHR '','' # z) (map json_string ys)) @ CHR '']'' # v \<Longrightarrow> xs = ys \<and> u = v" for xs ys
  proof (induction xs arbitrary: ys)
    case Nil
    then show ?case by (cases ys) auto
  next
    case (Cons x xs)
    then obtain y ys' where ys: "ys = y # ys'" by (cases ys) auto
    from Cons.prems have "x = y \<and> concat (map (\<lambda>z. CHR '','' # z) (map json_string xs)) @ CHR '']'' # u =
        concat (map (\<lambda>z. CHR '','' # z) (map json_string ys')) @ CHR '']'' # v"
      unfolding ys by (intro json_string_inj) simp
    with Cons.IH ys show ?case by blast
  qed
  show ?thesis
  proof (cases xs)
    case Nil
    with assms show ?thesis by (cases ys) (auto simp: comma_join_def json_string_def)
  next
    case (Cons x xs')
    show ?thesis
    proof (cases ys)
      case Nil
      with assms Cons show ?thesis by (auto simp: comma_join_def json_string_def)
    next
      case (Cons y ys')
      with assms \<open>xs = x # xs'\<close> have "x = y \<and> concat (map (\<lambda>z. CHR '','' # z) (map json_string xs')) @ CHR '']'' # u =
        concat (map (\<lambda>z. CHR '','' # z) (map json_string ys')) @ CHR '']'' # v"
        by (intro json_string_inj) (simp add: comma_join_def)
      with tail Cons \<open>xs = x # xs'\<close> show ?thesis by blast
    qed
  qed
qed

subsection \<open>Canonical text of the infrastructure modules\<close>

text \<open>
  \<open>stableJson\<close> of \<open>src/core/infrastructureController.ts\<close>: the properties of every object sorted by
  \<open>localeCompare\<close>.  \<open>JSON.stringify(undefined)\<close> is \<open>undefined\<close>, which a template prints as such and
  \<open>join\<close> as the empty string.
\<close>

fun stableJson :: "jsval \<Rightarrow> string" where
  "stableJson (JArr vs) = ''['' @ comma_join (map (\<lambda>v. if v = JUndef then [] else stableJson v) vs) @ '']''"
| "stableJson (JObj ps) =
     ''{'' @ comma_join
       (map (\<lambda>(k, t). json_string k @ '':'' @ t)
          (sort_by_locale fst (map (\<lambda>(k, v). (k, stableJson v)) ps))) @ ''}''"
| "stableJson JUndef = ''undefined''"
| "stableJson v = json_text v"

text \<open>The values of a flat object: everything but nested objects, and arrays only of strings.\<close>

fun leaf :: "jsval \<Rightarrow> bool" where
  "leaf JNull = True"
| "leaf (JBool b) = True"
| "leaf (JNum (NInt i)) = True"
| "leaf (JStr s) = True"
| "leaf (JArr vs) = list_all (\<lambda>v. \<exists>s. v = JStr s) vs"
| "leaf v = False"

definition delimiter :: "char \<Rightarrow> bool" where
  "delimiter c \<longleftrightarrow> c = CHR '','' \<or> c = CHR ''}'' \<or> c = CHR '']''"

lemma digits_stop:
  assumes "list_all is_digit xs" "list_all is_digit ys" "\<not> is_digit d" "\<not> is_digit e"
    and "xs @ d # r = ys @ e # s"
  shows "xs = ys \<and> d # r = e # s"
proof -
  have "takeWhile is_digit (xs @ d # r) = xs" "takeWhile is_digit (ys @ e # s) = ys"
    using assms(1-4) by (auto simp: takeWhile_append list_all_iff)
  with assms(5) show ?thesis by simp
qed

lemma delimiter_not_digit: "delimiter d \<Longrightarrow> \<not> is_digit d"
  by (auto simp: delimiter_def is_digit_def less_eq_char_def)

lemma nat_dec_head: "nat_dec n = c # cs \<Longrightarrow> is_digit c"
  using nat_dec_digits [of n] by auto

lemma int_dec_stop:
  assumes "int_dec i @ d # r = int_dec j @ e # s" "delimiter d" "delimiter e"
  shows "i = j \<and> d # r = e # s"
proof -
  have minus: "\<not> is_digit CHR ''-''" by (simp add: is_digit_def less_eq_char_def)
  have head: "nat_dec n @ u \<noteq> CHR ''-'' # v" for n u v
    using nat_dec_head [of n] minus by (cases "nat_dec n") auto
  have "nat_dec m @ d # r = nat_dec n @ e # s \<Longrightarrow> m = n \<and> d # r = e # s" for m n
    using digits_stop [OF nat_dec_digits nat_dec_digits] assms(2,3) delimiter_not_digit nat_dec_inject by blast
  note nats = this
  note heads = head [of "nat i" "d # r" "nat_dec (nat (- j)) @ e # s"]
    head [of "nat j" "e # s" "nat_dec (nat (- i)) @ d # r"]
  show ?thesis
  proof (cases "i < 0")
    case True
    then have j: "j < 0" using assms(1) heads(2) by (auto simp: int_dec_def split: if_splits)
    with True assms(1) nats [of "nat (- i)" "nat (- j)"] show ?thesis by (auto simp: int_dec_def)
  next
    case False
    then have j: "\<not> j < 0" using assms(1) heads(1) by (auto simp: int_dec_def split: if_splits)
    with False assms(1) nats [of "nat i" "nat j"] show ?thesis by (auto simp: int_dec_def)
  qed
qed

lemma leaf_strings: "list_all (\<lambda>v. \<exists>s. v = JStr s) vs \<longleftrightarrow> (\<exists>xs. vs = map JStr xs)"
proof
  show "list_all (\<lambda>v. \<exists>s. v = JStr s) vs \<Longrightarrow> \<exists>xs. vs = map JStr xs"
  proof (induction vs)
    case (Cons v vs)
    then obtain s xs where "v = JStr s" "vs = map JStr xs" by auto
    then have "v # vs = map JStr (s # xs)" by simp
    then show ?case by (rule exI)
  qed simp
qed (auto simp: list_all_iff)

lemma stable_strings: "stableJson (JArr (map JStr xs)) = ''['' @ comma_join (map json_string xs) @ '']''"
  by (simp add: comp_def)

lemma int_dec_first: "\<exists>c cs. int_dec i = c # cs \<and> (c = CHR ''-'' \<or> is_digit c)"
proof (cases "nat_dec (nat i)")
  case Nil
  then show ?thesis by simp
next
  case (Cons c cs)
  then show ?thesis using nat_dec_head [OF Cons] by (auto simp: int_dec_def)
qed

text \<open>The first character of the text tells which kind of value follows.\<close>

definition leaf_kind :: "jsval \<Rightarrow> nat" where
  "leaf_kind v = (case v of JNull \<Rightarrow> 0 | JBool b \<Rightarrow> if b then 1 else 2 | JNum n \<Rightarrow> 3 | JStr s \<Rightarrow> 4 | _ \<Rightarrow> 5)"

definition char_kind :: "char \<Rightarrow> nat" where
  "char_kind c =
     (if c = CHR ''n'' then 0 else if c = CHR ''t'' then 1 else if c = CHR ''f'' then 2
      else if c = CHR ''-'' \<or> is_digit c then 3 else if c = CHR 0x22 then 4 else 5)"

lemma char_kind_digit: "is_digit c \<Longrightarrow> char_kind c = 3"
  by (auto simp: char_kind_def is_digit_def less_eq_char_def)

lemma leaf_kind_text: "leaf v \<Longrightarrow> \<exists>c cs. stableJson v = c # cs \<and> char_kind c = leaf_kind v"
proof (cases v rule: leaf.cases)
  case (3 i)
  then show ?thesis
    using int_dec_first [of i] by (auto simp: json_num_def leaf_kind_def char_kind_digit) (auto simp: char_kind_def)
qed (auto simp: leaf_kind_def char_kind_def json_string_def is_digit_def less_eq_char_def)

lemma leaf_text_stop:
  assumes "leaf v" "leaf w" "delimiter d" "delimiter e" "stableJson v @ d # r = stableJson w @ e # s"
  shows "v = w \<and> d # r = e # s"
proof -
  have kind: "leaf_kind v = leaf_kind w"
    using leaf_kind_text [OF assms(1)] leaf_kind_text [OF assms(2)] assms(5) by auto
  show ?thesis
  proof (cases v rule: leaf.cases)
    case 1
    with assms kind show ?thesis by (cases w rule: leaf.cases) (auto simp: leaf_kind_def split: if_splits)
  next
    case 2
    with assms kind show ?thesis
      by (cases w rule: leaf.cases) (auto simp: leaf_kind_def split: if_splits)
  next
    case (3 i)
    with kind assms(2) obtain j where "w = JNum (NInt j)"
      by (cases w rule: leaf.cases) (auto simp: leaf_kind_def split: if_splits)
    with 3 assms show ?thesis using int_dec_stop by (auto simp: json_num_def)
  next
    case (4 t)
    with kind assms(2) obtain u where w: "w = JStr u"
      by (cases w rule: leaf.cases) (auto simp: leaf_kind_def split: if_splits)
    have "json_string t @ d # r = json_string u @ e # s"
      using assms(5) unfolding 4 w by simp
    from json_string_inj [OF this] 4 w show ?thesis by blast
  next
    case (5 vs)
    with kind assms(2) obtain ws where ws: "w = JArr ws"
      by (cases w rule: leaf.cases) (auto simp: leaf_kind_def split: if_splits)
    have "\<exists>xs. vs = map JStr xs" "\<exists>ys. ws = map JStr ys"
      using assms(1,2) unfolding 5 ws leaf.simps leaf_strings .
    then obtain xs ys where vw: "v = JArr (map JStr xs)" "w = JArr (map JStr ys)"
      unfolding 5 ws by blast
    have "comma_join (map json_string xs) @ CHR '']'' # d # r = comma_join (map json_string ys) @ CHR '']'' # e # s"
      using assms(5) unfolding vw stable_strings by simp
    from json_strings_inj [OF this] vw show ?thesis by blast
  qed (use assms in auto)
qed

subsection \<open>Flat objects with known properties\<close>

lemma insort_key_map: "insort_key f (g x) (map g xs) = map g (insort_key (\<lambda>y. f (g y)) x xs)"
  by (induction xs) auto

lemma sort_key_map: "sort_key f (map g xs) = map g (sort_key (\<lambda>y. f (g y)) xs)"
  by (induction xs) (simp_all add: insort_key_map)

text \<open>The order of the properties, which depends on their names only.\<close>

definition key_order :: "string list \<Rightarrow> nat list" where
  "key_order ks = sort_key (locale_key \<circ> (\<lambda>i. ks ! i)) [0..<length ks]"

lemma set_key_order [simp]: "set (key_order ks) = {0..<length ks}"
  by (simp add: key_order_def)

lemma zip_as_map: "length ks = length vs \<Longrightarrow> zip ks vs = map (\<lambda>i. (ks ! i, vs ! i)) [0..<length ks]"
  by (rule nth_equalityI) auto

lemma sort_zip:
  assumes "length ks = length vs"
  shows "sort_by_locale fst (map (\<lambda>(k, v). (k, f v)) (zip ks vs)) = map (\<lambda>i. (ks ! i, f (vs ! i))) (key_order ks)"
  using assms by (simp add: zip_as_map sort_by_locale_def sort_key_map comp_def key_order_def)

definition entry_texts :: "string list \<Rightarrow> jsval list \<Rightarrow> nat list \<Rightarrow> string list" where
  "entry_texts ks vs idx = map (\<lambda>i. json_string (ks ! i) @ '':'' @ stableJson (vs ! i)) idx"

lemma stable_object:
  "length ks = length vs \<Longrightarrow> stableJson (JObj (zip ks vs)) = ''{'' @ comma_join (entry_texts ks vs (key_order ks)) @ ''}''"
  by (simp add: sort_zip entry_texts_def comp_def)

lemma comma_join_Cons: "comma_join (x # xs) = x @ concat (map (\<lambda>z. CHR '','' # z) xs)"
  by (simp add: comma_join_def)

lemma entry_tail_inj:
  assumes "\<forall>i \<in> set idx. leaf (vs ! i) \<and> leaf (ws ! i)"
    and "concat (map (\<lambda>z. CHR '','' # z) (entry_texts ks vs idx)) @ ''}'' =
         concat (map (\<lambda>z. CHR '','' # z) (entry_texts ks ws idx)) @ ''}''"
  shows "\<forall>i \<in> set idx. vs ! i = ws ! i"
  using assms
proof (induction idx)
  case Nil
  then show ?case by simp
next
  case (Cons i idx)
  have follow: "\<exists>d r. delimiter d \<and> concat (map (\<lambda>z. CHR '','' # z) zs) @ ''}'' = d # r" for zs :: "string list"
    by (cases zs) (auto simp: delimiter_def)
  obtain d r where d: "delimiter d" "concat (map (\<lambda>z. CHR '','' # z) (entry_texts ks vs idx)) @ ''}'' = d # r"
    using follow by blast
  obtain e s where e: "delimiter e" "concat (map (\<lambda>z. CHR '','' # z) (entry_texts ks ws idx)) @ ''}'' = e # s"
    using follow by blast
  have "stableJson (vs ! i) @ d # r = stableJson (ws ! i) @ e # s"
    using Cons.prems(2) unfolding d(2) [symmetric] e(2) [symmetric] by (simp add: entry_texts_def)
  from leaf_text_stop [OF _ _ d(1) e(1) this] Cons.prems(1) have "vs ! i = ws ! i \<and> d # r = e # s" by simp
  with Cons d(2) e(2) show ?case by simp
qed

theorem stable_object_inj:
  assumes "length ks = length vs" "length ks = length ws" "list_all leaf vs" "list_all leaf ws"
    and "stableJson (JObj (zip ks vs)) = stableJson (JObj (zip ks ws))"
  shows "vs = ws"
proof -
  have leaves: "\<forall>i \<in> set (key_order ks). leaf (vs ! i) \<and> leaf (ws ! i)"
    using assms(1-4) by (auto simp: list_all_length)
  have join: "comma_join xs = comma_join ys \<Longrightarrow> xs = [] \<longleftrightarrow> ys = [] \<Longrightarrow>
      concat (map (\<lambda>z. CHR '','' # z) xs) @ ''}'' = concat (map (\<lambda>z. CHR '','' # z) ys) @ ''}''" for xs ys :: "string list"
    by (cases xs; cases ys) (auto simp: comma_join_Cons)
  have "comma_join (entry_texts ks vs (key_order ks)) = comma_join (entry_texts ks ws (key_order ks))"
    using assms(5) by (simp only: stable_object [OF assms(1)] stable_object [OF assms(2)] append_same_eq same_append_eq)
  moreover have "entry_texts ks vs (key_order ks) = [] \<longleftrightarrow> entry_texts ks ws (key_order ks) = []"
    by (simp add: entry_texts_def)
  ultimately have "\<forall>i \<in> set (key_order ks). vs ! i = ws ! i"
    by (intro entry_tail_inj [OF leaves] join)
  with assms(1,2) show ?thesis by (auto intro: nth_equalityI)
qed

end
