(* ===== verification/PolicyBase.thy ===== *)
theory PolicyBase
  imports Blueprint JsonText
begin

section \<open>Violations, and the helpers of the blueprint policies\<close>

text \<open>
  The data of \<open>src/core/policy.ts\<close> and its helper functions.  A policy pushes violations onto a
  list in a fixed order: \<open>flag b v\<close> is \<open>if (b) violations.push(v)\<close>.  Tenant scopes and lists of
  identifiers are compared as JSON text; the lemmas \<open>scope_text_eq\<close> and \<open>strings_text_eq\<close> show that
  this is equality.
\<close>

datatype violation_severity = SevCritical | SevHigh | SevMedium

record blueprint_violation =
  bv_code :: string
  bv_severity :: violation_severity
  bv_message :: string
  bv_path :: "string option"

primrec severity_text :: "violation_severity \<Rightarrow> string" where
  "severity_text SevCritical = ''critical''"
| "severity_text SevHigh = ''high''"
| "severity_text SevMedium = ''medium''"

definition violation :: "string \<Rightarrow> violation_severity \<Rightarrow> string \<Rightarrow> blueprint_violation" where
  "violation code severity message =
     \<lparr>bv_code = code, bv_severity = severity, bv_message = message, bv_path = None\<rparr>"

definition flag :: "bool \<Rightarrow> 'a \<Rightarrow> 'a list" where
  "flag b v = (if b then [v] else [])"

lemma flag_simps [simp]: "flag True v = [v]" "flag False v = []" "flag b v = [] \<longleftrightarrow> \<not> b"
  "set (flag b v) = (if b then {v} else {})"
  by (simp_all add: flag_def)

definition scopeContainsTenant :: "tenant_scope option \<Rightarrow> string \<Rightarrow> bool" where
  "scopeContainsTenant scope t =
     (case scope of
        None \<Rightarrow> False
      | Some PlatformScope \<Rightarrow> False
      | Some (DedicatedScope u) \<Rightarrow> u = t
      | Some (PooledScope us) \<Rightarrow> t \<in> set us)"

primrec tenantIdsFromScope :: "tenant_scope \<Rightarrow> string list" where
  "tenantIdsFromScope PlatformScope = []"
| "tenantIdsFromScope (PooledScope ts) = ts"
| "tenantIdsFromScope (DedicatedScope t) = [t]"

definition violation_key :: "blueprint_violation \<Rightarrow> string" where
  "violation_key v = bv_code v @ '':'' @ (case bv_path v of None \<Rightarrow> bv_message v | Some p \<Rightarrow> p)"

fun dedup_from :: "string list \<Rightarrow> blueprint_violation list \<Rightarrow> blueprint_violation list" where
  "dedup_from seen [] = []"
| "dedup_from seen (v # vs) =
     (if violation_key v \<in> set seen then dedup_from seen vs else v # dedup_from (violation_key v # seen) vs)"

definition deduplicateViolations :: "blueprint_violation list \<Rightarrow> blueprint_violation list" where
  "deduplicateViolations vs = dedup_from [] vs"

lemma dedup_from_Nil: "dedup_from seen vs = [] \<longleftrightarrow> violation_key ` set vs \<subseteq> set seen"
  by (induction seen vs rule: dedup_from.induct) auto

lemma deduplicateViolations_Nil [simp]: "deduplicateViolations vs = [] \<longleftrightarrow> vs = []"
  by (simp add: deduplicateViolations_def dedup_from_Nil)

lemma scope_contains_iff: "scopeContainsTenant (Some s) t \<longleftrightarrow> t \<in> set (tenantIdsFromScope s)"
  by (cases s) (auto simp: scopeContainsTenant_def)

lemma scope_contains_None [simp]: "\<not> scopeContainsTenant None t"
  by (simp add: scopeContainsTenant_def)

definition same_scope :: "tenant_scope \<Rightarrow> tenant_scope \<Rightarrow> bool" where
  "same_scope a b \<longleftrightarrow> json_text (scope_js a) = json_text (scope_js b)"

definition same_strings :: "string list \<Rightarrow> string list \<Rightarrow> bool" where
  "same_strings xs ys \<longleftrightarrow> json_text (JArr (map JStr xs)) = json_text (JArr (map JStr ys))"

subsection \<open>Equality of JSON text\<close>

lemma strings_text: "json_text (JArr (map JStr xs)) = ''['' @ comma_join (map json_string xs) @ '']''"
  by (simp add: comp_def)

lemma strings_text_eq [simp]: "same_strings xs ys \<longleftrightarrow> xs = ys"
  unfolding same_strings_def strings_text using json_strings_inj [of xs "[]" ys "[]"] by auto

lemma scope_text:
  "json_text (scope_js PlatformScope) = ''{'' @ json_string ''mode'' @ '':'' @ json_string ''platform'' @ ''}''"
  "json_text (scope_js (PooledScope ts)) = ''{'' @ json_string ''mode'' @ '':'' @ json_string ''pooled'' @ '','' @
     json_string ''tenantIds'' @ '':'' @ ''['' @ comma_join (map json_string ts) @ '']'' @ ''}''"
  "json_text (scope_js (DedicatedScope t)) = ''{'' @ json_string ''mode'' @ '':'' @ json_string ''dedicated'' @ '','' @
     json_string ''tenantId'' @ '':'' @ json_string t @ ''}''"
  by (simp_all add: comma_join_def comp_def)

lemma scope_text_eq [simp]: "same_scope a b \<longleftrightarrow> a = b"
proof -
  have mode: "json_string m @ u = json_string m' @ v \<Longrightarrow> m \<noteq> m' \<Longrightarrow> False" for m m' u v
    using json_string_inj by blast
  have ends: "json_string s = json_string t \<Longrightarrow> s = t"
    "comma_join (map json_string xs) = comma_join (map json_string ys) \<Longrightarrow> xs = ys" for s t xs ys
    using json_string_inj [of s "[]" t "[]"] json_strings_inj [of xs "[]" ys "[]"] by auto
  have "same_scope a b \<Longrightarrow> a = b"
    unfolding same_scope_def
    by (cases a; cases b) (auto simp only: scope_text append_assoc same_append_eq append.simps
        append_same_eq dest: mode ends)
  then show ?thesis by (auto simp: same_scope_def)
qed

end
