(* ===== verification/Cidr.thy ===== *)
theory Cidr
  imports JsCollections "HOL-Library.Word"
begin

section \<open>IPv4 address blocks\<close>

text \<open>
  \<open>src/cidr.ts\<close>.  An address is a 32-bit word where the source uses the operators \<open>>>>\<close> and
  \<open>&\<close>, which work on unsigned 32-bit integers, and a natural number where it uses ordinary
  arithmetic.  \<open>cidr_addresses\<close> is the meaning of a block: the addresses it stands for.
\<close>

unbundle bit_operations_syntax

subsection \<open>Splitting and joining\<close>

text \<open>\<open>value.split(sep)\<close> for a separator of one character, and \<open>parts.join(sep)\<close>.\<close>

fun js_split :: "char \<Rightarrow> string \<Rightarrow> string list" where
  "js_split sep [] = [[]]"
| "js_split sep (c # cs) =
     (if c = sep then [] # js_split sep cs
      else (c # hd (js_split sep cs)) # tl (js_split sep cs))"

fun js_join :: "char \<Rightarrow> string list \<Rightarrow> string" where
  "js_join sep [] = []"
| "js_join sep [x] = x"
| "js_join sep (x # y # xs) = x @ sep # js_join sep (y # xs)"

lemma js_split_not_Nil [simp]: "js_split sep s \<noteq> []"
  by (cases s) auto

lemma js_split_plain: "sep \<notin> set x \<Longrightarrow> js_split sep x = [x]"
  by (induction x) auto

lemma js_split_append: "sep \<notin> set x \<Longrightarrow> js_split sep (x @ sep # s) = x # js_split sep s"
  by (induction x) auto

lemma js_split_join: "\<forall>x \<in> set xs. sep \<notin> set x \<Longrightarrow> xs \<noteq> [] \<Longrightarrow> js_split sep (js_join sep xs) = xs"
  by (induction sep xs rule: js_join.induct) (auto simp: js_split_plain js_split_append)

subsection \<open>Addresses\<close>

definition digits_rx :: "nat \<Rightarrow> rexp" where
  "digits_rx n = RRep 1 n (RCls is_digit)"

definition bad_address :: "string \<Rightarrow> string" where
  "bad_address ip = ''Invalid IPv4 address '' @ [CHR 0x27] @ ip @ [CHR 0x27, CHR ''.'']"

definition ip_octet :: "string \<Rightarrow> string \<Rightarrow> string + nat" where
  "ip_octet ip part =
     bind_r (throw_if (\<not> rx_test (digits_rx 3) part) (bad_address ip)) (\<lambda>_.
     bind_r (throw_if (255 < digits_val 0 part) (bad_address ip)) (\<lambda>_.
     Inr (digits_val 0 part)))"

definition ipToNumber :: "string \<Rightarrow> string + 32 word" where
  "ipToNumber ip =
     (let parts = js_split CHR ''.'' ip
      in bind_r (throw_if (length parts \<noteq> 4) (bad_address ip)) (\<lambda>_.
         bind_r (map_ix (\<lambda>_ part. ip_octet ip part) 0 parts) (\<lambda>octets.
         Inr (foldl (\<lambda>acc oct. word_of_nat (unat acc * 256 + oct)) 0 octets))))"

definition numberToIp :: "nat \<Rightarrow> string" where
  "numberToIp value =
     js_join CHR ''.''
       (map (\<lambda>shift. nat_dec (unat (drop_bit shift (word_of_nat value :: 32 word) AND 255))) [24, 16, 8, 0])"

subsection \<open>Blocks\<close>

record parsed_cidr =
  pc_cidr :: string
  pc_networkAddress :: nat
  pc_broadcastAddress :: nat
  pc_prefix :: nat

definition parseCidr :: "string \<Rightarrow> string + parsed_cidr" where
  "parseCidr value =
     (let parts = js_split CHR ''/'' value
      in bind_r (throw_if (length parts \<noteq> 2 \<or> \<not> rx_test (digits_rx 2) (parts ! 1))
                  (''Invalid IPv4 CIDR '' @ squote value @ ''.'')) (\<lambda>_.
         bind_r (ipToNumber (parts ! 0)) (\<lambda>address.
         (let prefix = digits_val 0 (parts ! 1)
          in bind_r (throw_if (32 < prefix) (''Invalid IPv4 CIDR prefix '' @ squote value @ ''.'')) (\<lambda>_.
             (let size = 2 ^ (32 - prefix);
                  networkAddress = unat address div size * size
              in bind_r (throw_if (unat address \<noteq> networkAddress)
                          (''IPv4 CIDR '' @ squote value @ '' is not aligned to its network boundary.'')) (\<lambda>_.
                 Inr \<lparr>pc_cidr = numberToIp networkAddress @ ''/'' @ nat_dec prefix,
                      pc_networkAddress = networkAddress, pc_broadcastAddress = networkAddress + size - 1,
                      pc_prefix = prefix\<rparr>)))))))"

definition natural_arg :: "jsnum \<Rightarrow> string \<Rightarrow> string + nat" where
  "natural_arg n msg = (case n of NInt i \<Rightarrow> if i < 0 then Inl msg else Inr (nat i) | _ \<Rightarrow> Inl msg)"

definition cidrSubnet :: "string \<Rightarrow> jsnum \<Rightarrow> jsnum \<Rightarrow> string + string" where
  "cidrSubnet baseCidr newBits netNum =
     bind_r (parseCidr baseCidr) (\<lambda>parsed.
     bind_r (natural_arg newBits (''newBits must be a non-negative integer for '' @ baseCidr @ ''.'')) (\<lambda>bits.
     bind_r (natural_arg netNum (''netNum must be a non-negative integer for '' @ baseCidr @ ''.'')) (\<lambda>num.
     (let newPrefix = pc_prefix parsed + bits
      in bind_r (throw_if (32 < newPrefix)
                  (''Invalid subnet prefix '' @ nat_dec newPrefix @ '' for '' @ baseCidr)) (\<lambda>_.
         bind_r (throw_if (2 ^ bits \<le> num)
                  (''Subnet number '' @ nat_dec num @ '' is outside '' @ baseCidr @ ''; expected less than '' @
                   nat_dec (2 ^ bits) @ ''.'')) (\<lambda>_.
         Inr (numberToIp (pc_networkAddress parsed + 2 ^ (32 - newPrefix) * num) @ ''/'' @ nat_dec newPrefix)))))))"

definition cidrsOverlap :: "string \<Rightarrow> string \<Rightarrow> string + bool" where
  "cidrsOverlap lft rgt =
     bind_r (parseCidr lft) (\<lambda>a.
     bind_r (parseCidr rgt) (\<lambda>b.
     Inr (pc_networkAddress a \<le> pc_broadcastAddress b \<and> pc_networkAddress b \<le> pc_broadcastAddress a)))"

definition cidr_addresses :: "parsed_cidr \<Rightarrow> nat set" where
  "cidr_addresses p = {pc_networkAddress p..pc_broadcastAddress p}"

subsection \<open>Reading what was printed\<close>

lemma octet_value:
  "unat (drop_bit n w AND 255 :: 32 word) = unat w div 2 ^ n mod 256"
proof -
  have "(255 :: 32 word) = mask 8" by (simp add: mask_eq_exp_minus_1)
  then have "unat (drop_bit n w AND 255) = unat (take_bit 8 (drop_bit n w))"
    by (simp only: take_bit_eq_mask)
  also have "\<dots> = take_bit 8 (drop_bit n (unat w))"
    by (simp only: unsigned_take_bit_eq unat_drop_bit_eq)
  finally show ?thesis by (simp add: drop_bit_eq_div take_bit_eq_mod)
qed

lemma unat_address: "a < 2 ^ 32 \<Longrightarrow> unat (word_of_nat a :: 32 word) = a"
  by (simp add: unat_of_nat)

lemma numberToIp_octets:
  "a < 2 ^ 32 \<Longrightarrow> numberToIp a = js_join CHR ''.'' (map (\<lambda>n. nat_dec (a div 2 ^ n mod 256)) [24, 16, 8, 0])"
  by (simp add: numberToIp_def octet_value unat_address del: word_of_nat_eq_iff)

lemma nat_dec_length: "n < 10 ^ k \<Longrightarrow> 0 < k \<Longrightarrow> length (nat_dec n) \<le> k"
proof (induction n arbitrary: k rule: nat_dec.induct)
  case (1 n)
  show ?case
  proof (cases "n < 10")
    case True
    then show ?thesis using "1.prems" by (subst nat_dec.simps) simp
  next
    case False
    with "1.prems" obtain k' where k': "k = Suc k'" "0 < k'"
      by (cases k; cases "k - 1") auto
    with "1.prems" have "n div 10 < 10 ^ k'" by (simp add: less_mult_imp_div_less mult.commute)
    with "1.IH" [OF False _ k'(2)] have "length (nat_dec (n div 10)) \<le> k'" by blast
    with False k' show ?thesis by (subst nat_dec.simps) simp
  qed
qed

lemma digits_accept: "n < 10 ^ k \<Longrightarrow> 0 < k \<Longrightarrow> rx_test (digits_rx k) (nat_dec n)"
proof -
  assume "n < 10 ^ k" "0 < k"
  then have "length (nat_dec n) \<le> k" by (rule nat_dec_length)
  moreover have "0 < length (nat_dec n)" by simp
  ultimately show ?thesis
    using nat_dec_digits [of n] by (simp add: digits_rx_def rx_test_rep_cls Suc_le_eq)
qed

lemma digits_no_sep: "\<not> is_digit c \<Longrightarrow> c \<notin> set (nat_dec n)"
  using nat_dec_digits [of n] by (auto simp: list_all_iff)

lemma sep_not_digit: "\<not> is_digit CHR ''.''" "\<not> is_digit CHR ''/''"
  by code_simp+

lemma octet_accept: "n < 256 \<Longrightarrow> ip_octet ip (nat_dec n) = Inr n"
  using digits_accept [of n 3] by (simp add: ip_octet_def digits_val_nat_dec)

lemma octets_value:
  assumes "a < 2 ^ 32"
  shows "((a div 2 ^ 24 mod 256 * 256 + a div 2 ^ 16 mod 256) * 256 + a div 2 ^ 8 mod 256) * 256 + a div 2 ^ 0 mod 256 = (a :: nat)"
proof -
  have d: "a div 2 ^ 16 = a div 2 ^ 8 div 256" "a div 2 ^ 24 = a div 2 ^ 16 div 256" "a div 2 ^ 8 = a div 256"
    by (simp_all add: div_mult2_eq [symmetric])
  have "a div 2 ^ 24 < 256" using assms by (simp add: less_mult_imp_div_less)
  then show ?thesis unfolding d by simp
qed

lemma ip_roundtrip:
  assumes "a < 2 ^ 32"
  shows "ipToNumber (numberToIp a) = Inr (word_of_nat a)"
proof -
  let ?os = "map (\<lambda>n. a div 2 ^ n mod 256) [24, 16, 8, 0]"
  have parts: "js_split CHR ''.'' (numberToIp a) = map nat_dec ?os"
    unfolding numberToIp_octets [OF assms]
    using js_split_join [of "map nat_dec ?os" "CHR ''.''"] digits_no_sep [OF sep_not_digit(1)]
    by (simp add: comp_def del: js_join.simps js_split.simps)
  have octets: "map_ix (\<lambda>_ part. ip_octet ip part) 0 (map nat_dec ?os) = Inr ?os" for ip
    by (simp add: octet_accept)
  have step: "word_of_nat (unat (word_of_nat x :: 32 word) * 256 + y) = (word_of_nat (x * 256 + y) :: 32 word)" for x y
    by simp
  have fold: "foldl (\<lambda>acc oct. word_of_nat (unat acc * 256 + oct)) (0 :: 32 word) [x, y, z, u] =
      word_of_nat (((x * 256 + y) * 256 + z) * 256 + u)" for x y z u
    unfolding foldl.simps unsigned_0 step by simp
  show ?thesis
    unfolding ipToNumber_def Let_def parts octets using octets_value [OF assms] fold
    by (simp only: list.map length_map bind_r_Inr throw_if_False) simp
qed

subsection \<open>Blocks and the addresses they stand for\<close>

text \<open>What the parser guarantees of a block.\<close>

definition block_ok :: "parsed_cidr \<Rightarrow> bool" where
  "block_ok p \<longleftrightarrow>
     pc_prefix p \<le> 32 \<and> 2 ^ (32 - pc_prefix p) dvd pc_networkAddress p \<and>
     pc_networkAddress p + 2 ^ (32 - pc_prefix p) \<le> 2 ^ 32 \<and>
     pc_broadcastAddress p = pc_networkAddress p + 2 ^ (32 - pc_prefix p) - 1 \<and>
     pc_cidr p = numberToIp (pc_networkAddress p) @ ''/'' @ nat_dec (pc_prefix p)"

definition block_at :: "nat \<Rightarrow> nat \<Rightarrow> parsed_cidr" where
  "block_at net prefix =
     \<lparr>pc_cidr = numberToIp net @ ''/'' @ nat_dec prefix, pc_networkAddress = net,
      pc_broadcastAddress = net + 2 ^ (32 - prefix) - 1, pc_prefix = prefix\<rparr>"

lemma block_at_simps [simp]:
  "pc_cidr (block_at net prefix) = numberToIp net @ ''/'' @ nat_dec prefix"
  "pc_networkAddress (block_at net prefix) = net" "pc_prefix (block_at net prefix) = prefix"
  "pc_broadcastAddress (block_at net prefix) = net + 2 ^ (32 - prefix) - 1"
  by (simp_all add: block_at_def)

lemma block_ok_at: "block_ok p \<Longrightarrow> p = block_at (pc_networkAddress p) (pc_prefix p)"
  by (cases p) (simp add: block_ok_def block_at_def)

lemma aligned_end:
  "(d :: nat) dvd a \<Longrightarrow> d dvd n \<Longrightarrow> a < n \<Longrightarrow> a + d \<le> n"
  by (auto simp: dvd_def) (metis Suc_leI mult_Suc_right mult_le_mono2 mult_less_cancel1 add.commute)

lemma parse_ok: "parseCidr s = Inr p \<Longrightarrow> block_ok p"
proof -
  assume "parseCidr s = Inr p"
  then obtain w :: "32 word" and prefix where
    p: "prefix \<le> 32" "unat w = unat w div 2 ^ (32 - prefix) * 2 ^ (32 - prefix)" "p = block_at (unat w) prefix"
    by (auto simp: parseCidr_def Let_def result_simps block_at_def simp del: rx_test.simps)
  have "2 ^ (32 - prefix) dvd unat w" using p(2) by (metis dvd_triv_right)
  moreover have "unat w < 2 ^ 32" using unsigned_less [of w] by simp
  moreover have "(2 :: nat) ^ (32 - prefix) dvd 2 ^ 32" by (intro le_imp_power_dvd) simp
  ultimately have "unat w + 2 ^ (32 - prefix) \<le> 2 ^ 32" by (intro aligned_end)
  with p(1,3) \<open>2 ^ (32 - prefix) dvd unat w\<close> show ?thesis by (simp add: block_ok_def)
qed

lemma slash_free: "a < 2 ^ 32 \<Longrightarrow> CHR ''/'' \<notin> set (numberToIp a)"
proof -
  assume "a < 2 ^ 32"
  have "CHR ''/'' \<notin> set (js_join CHR ''.'' (map nat_dec ns))" for ns
    using digits_no_sep [OF sep_not_digit(2)] by (induction ns rule: induct_list012) auto
  from this [of "map (\<lambda>n. a div 2 ^ n mod 256) [24, 16, 8, 0]"] show ?thesis
    unfolding numberToIp_octets [OF \<open>a < 2 ^ 32\<close>] by (simp add: comp_def del: js_join.simps)
qed

lemma parse_block:
  assumes "block_ok (block_at net prefix)"
  shows "parseCidr (numberToIp net @ ''/'' @ nat_dec prefix) = Inr (block_at net prefix)"
proof -
  have b: "prefix \<le> 32" "2 ^ (32 - prefix) dvd net" "net < 2 ^ 32"
    using assms by (simp_all add: block_ok_def) (metis add_lessD1 le_neq_implies_less less_add_same_cancel1 order_less_le_trans zero_less_numeral zero_less_power)
  have split: "js_split CHR ''/'' (numberToIp net @ ''/'' @ nat_dec prefix) = [numberToIp net, nat_dec prefix]"
    using js_split_append [OF slash_free [OF b(3)]] js_split_plain digits_no_sep [OF sep_not_digit(2)] by simp
  have digits: "rx_test (digits_rx 2) (nat_dec prefix)" using digits_accept [of prefix 2] b(1) by simp
  have aligned: "net div 2 ^ (32 - prefix) * 2 ^ (32 - prefix) = net" using b(2) by simp
  show ?thesis
    unfolding parseCidr_def Let_def split
    using b digits ip_roundtrip [OF b(3)] aligned
    by (simp add: digits_val_nat_dec unat_address block_at_def del: rx_test.simps)
qed

lemma block_reparsed: "block_ok p \<Longrightarrow> parseCidr (pc_cidr p) = Inr p"
  using parse_block [of "pc_networkAddress p" "pc_prefix p"] block_ok_at [of p] by (metis block_at_simps(1))

lemma div_between: "0 < d \<Longrightarrow> (x :: nat) div d = k \<longleftrightarrow> d * k \<le> x \<and> x < d * k + d"
  using div_nat_eqI [of d k x] div_times_less_eq_dividend [of x d] dividend_less_div_times [of d x]
  by (auto simp: mult.commute)

lemma block_addresses:
  assumes "block_ok p"
  shows "cidr_addresses p = {x. x div 2 ^ (32 - pc_prefix p) = pc_networkAddress p div 2 ^ (32 - pc_prefix p)}"
proof -
  define d :: nat where "d = 2 ^ (32 - pc_prefix p)"
  have pos: "0 < d" by (simp add: d_def)
  from assms obtain k where k: "pc_networkAddress p = d * k" "pc_broadcastAddress p = pc_networkAddress p + d - 1"
    unfolding block_ok_def d_def [symmetric] by (auto elim: dvdE)
  have "x \<in> cidr_addresses p \<longleftrightarrow> x div d = k" for x
    unfolding div_between [OF pos] cidr_addresses_def k using pos by auto
  then have "cidr_addresses p = {x. x div d = k}" by blast
  moreover have "pc_networkAddress p div d = k" unfolding k(1) using pos by simp
  ultimately show ?thesis unfolding d_def by simp
qed

lemma blocks_nested:
  assumes "block_ok p" "block_ok q" "x \<in> cidr_addresses p" "x \<in> cidr_addresses q" "pc_prefix p \<le> pc_prefix q"
  shows "cidr_addresses q \<subseteq> cidr_addresses p"
proof -
  let ?i = "32 - pc_prefix p" and ?j = "32 - pc_prefix q"
  have e: "(2 :: nat) ^ ?i = 2 ^ ?j * 2 ^ (?i - ?j)" using assms(5) by (simp add: power_add [symmetric])
  have up: "y div 2 ^ ?j = z div 2 ^ ?j \<Longrightarrow> y div 2 ^ ?i = z div 2 ^ ?i" for y z :: nat
    unfolding e div_mult2_eq by simp
  show ?thesis
  proof
    fix y assume "y \<in> cidr_addresses q"
    with assms(2,4) have "y div 2 ^ ?j = x div 2 ^ ?j" by (simp add: block_addresses)
    from up [OF this] assms(1,3) show "y \<in> cidr_addresses p" by (simp add: block_addresses)
  qed
qed

lemma addresses_not_empty: "block_ok p \<Longrightarrow> pc_networkAddress p \<in> cidr_addresses p"
  by (simp add: block_addresses)

lemma overlap_intersect:
  assumes "block_ok p" "block_ok q"
  shows "pc_networkAddress p \<le> pc_broadcastAddress q \<and> pc_networkAddress q \<le> pc_broadcastAddress p \<longleftrightarrow>
    cidr_addresses p \<inter> cidr_addresses q \<noteq> {}"
  using addresses_not_empty [OF assms(1)] addresses_not_empty [OF assms(2)]
  by (auto simp: cidr_addresses_def disjoint_iff intro: le_cases [of "pc_networkAddress p" "pc_networkAddress q"])

subsection \<open>Subnets\<close>

text \<open>The \<open>n\<close>-th block of the blocks that divide \<open>p\<close> by \<open>bits\<close> further bits.\<close>

definition subnet_of :: "parsed_cidr \<Rightarrow> nat \<Rightarrow> nat \<Rightarrow> parsed_cidr" where
  "subnet_of p bits n =
     block_at (pc_networkAddress p + 2 ^ (32 - (pc_prefix p + bits)) * n) (pc_prefix p + bits)"

lemma two_pos: "(0 :: nat) < 2"
  by simp

lemma subnet_size:
  "pc_prefix p + bits \<le> 32 \<Longrightarrow> (2 :: nat) ^ (32 - pc_prefix p) = 2 ^ (32 - (pc_prefix p + bits)) * 2 ^ bits"
  by (simp add: power_add [symmetric])

lemma subnet_ok:
  assumes "block_ok p" "pc_prefix p + bits \<le> 32" "n < 2 ^ bits"
  shows "block_ok (subnet_of p bits n)"
proof -
  let ?d = "(2 :: nat) ^ (32 - (pc_prefix p + bits))"
  have e: "2 ^ (32 - pc_prefix p) = ?d * 2 ^ bits" by (rule subnet_size [OF assms(2)])
  have "?d dvd pc_networkAddress p" using assms(1) e unfolding block_ok_def by (metis dvd_mult_left)
  moreover have "?d * n + ?d \<le> ?d * 2 ^ bits"
    using assms(3) by (metis Suc_leI add.commute mult_Suc_right mult_le_mono2)
  ultimately show ?thesis
    using assms(1,2) e by (simp add: block_ok_def subnet_of_def)
qed

lemma subnet_addresses:
  assumes "block_ok p" "pc_prefix p + bits \<le> 32" "n < 2 ^ bits"
  shows "cidr_addresses (subnet_of p bits n) =
    {x. x div 2 ^ (32 - (pc_prefix p + bits)) = pc_networkAddress p div 2 ^ (32 - (pc_prefix p + bits)) + n}"
proof -
  let ?d = "(2 :: nat) ^ (32 - (pc_prefix p + bits))"
  have "?d dvd pc_networkAddress p"
    using assms(1) subnet_size [OF assms(2)] unfolding block_ok_def by (metis dvd_mult_left)
  then have "(pc_networkAddress p + ?d * n) div ?d = pc_networkAddress p div ?d + n" by simp
  then show ?thesis
    unfolding block_addresses [OF subnet_ok [OF assms]] by (simp add: subnet_of_def add.commute)
qed

text \<open>The subnets of a block partition it.\<close>

lemma subnets_disjoint:
  assumes "block_ok p" "pc_prefix p + bits \<le> 32" "n < 2 ^ bits" "m < 2 ^ bits" "n \<noteq> m"
  shows "cidr_addresses (subnet_of p bits n) \<inter> cidr_addresses (subnet_of p bits m) = {}"
  using assms(5) by (auto simp: subnet_addresses [OF assms(1,2,3)] subnet_addresses [OF assms(1,2,4)])

lemma subnets_cover:
  assumes "block_ok p" "pc_prefix p + bits \<le> 32"
  shows "(\<Union>n < 2 ^ bits. cidr_addresses (subnet_of p bits n)) = cidr_addresses p"
proof -
  let ?d = "(2 :: nat) ^ (32 - (pc_prefix p + bits))" and ?net = "pc_networkAddress p"
  have e: "(2 :: nat) ^ (32 - pc_prefix p) = ?d * 2 ^ bits" by (rule subnet_size [OF assms(2)])
  obtain k where "?net = ?d * 2 ^ bits * k" using assms(1) e by (auto simp: block_ok_def elim: dvdE)
  then have k: "?net = ?d * (2 ^ bits * k)" by simp
  then have base: "?net div ?d = 2 ^ bits * k" "?net div (?d * 2 ^ bits) = k"
    by (simp_all add: div_mult2_eq)
  have "x \<in> cidr_addresses p \<longleftrightarrow> x div ?d div 2 ^ bits = k" for x
    using base(2) unfolding block_addresses [OF assms(1)] e by (simp add: div_mult2_eq)
  moreover have "(\<exists>n < 2 ^ bits. x div ?d = 2 ^ bits * k + n) \<longleftrightarrow> x div ?d div 2 ^ bits = k" for x
  proof -
    have "y div 2 ^ bits = k \<longleftrightarrow> (\<exists>n < 2 ^ bits. y = 2 ^ bits * k + n)" for y :: nat
      unfolding div_between [OF zero_less_power [OF two_pos]]
      by (auto simp: le_iff_add)
    then show ?thesis by simp
  qed
  moreover have "(\<exists>n < 2 ^ bits. x \<in> cidr_addresses (subnet_of p bits n)) \<longleftrightarrow>
      (\<exists>n < 2 ^ bits. x div ?d = 2 ^ bits * k + n)" for x
    unfolding base(1) [symmetric] using subnet_addresses [OF assms] by auto
  ultimately have "x \<in> cidr_addresses p \<longleftrightarrow> (\<exists>n < 2 ^ bits. x \<in> cidr_addresses (subnet_of p bits n))" for x
    by simp
  then show ?thesis by blast
qed

lemma subnet_result:
  assumes "parseCidr base = Inr p"
  shows "cidrSubnet base (NInt (int bits)) (NInt (int n)) = Inr s \<longleftrightarrow>
    pc_prefix p + bits \<le> 32 \<and> n < 2 ^ bits \<and> s = pc_cidr (subnet_of p bits n)"
  using assms by (auto simp: cidrSubnet_def natural_arg_def Let_def result_simps subnet_of_def)

subsection \<open>Properties\<close>

text \<open>A block that the parser returns is aligned and lies in the 32-bit address space; its canonical text parses to the
  same block, so parsing is idempotent.\<close>

theorem cidr_parse_canonical:
  assumes "parseCidr s = Inr p"
  shows "parseCidr (pc_cidr p) = Inr p \<and> pc_prefix p \<le> 32 \<and>
    2 ^ (32 - pc_prefix p) dvd pc_networkAddress p \<and> card (cidr_addresses p) = 2 ^ (32 - pc_prefix p) \<and>
    cidr_addresses p \<subseteq> {0..<2 ^ 32}"
proof -
  note ok = parse_ok [OF assms]
  have "pc_broadcastAddress p < 2 ^ 32"
    using ok zero_less_power [OF two_pos, of "32 - pc_prefix p"] unfolding block_ok_def by linarith
  then have "cidr_addresses p \<subseteq> {0..<2 ^ 32}" by (auto simp: cidr_addresses_def)
  moreover have "card (cidr_addresses p) = 2 ^ (32 - pc_prefix p)"
    using ok zero_less_power [OF two_pos, of "32 - pc_prefix p"] unfolding block_ok_def cidr_addresses_def
    by (simp add: Suc_diff_le)
  ultimately show ?thesis using block_reparsed [OF ok] ok by (simp add: block_ok_def)
qed

lemma cidr_block_texts:
  "pc_cidr (block_at 167837696 16) = ''10.1.0.0/16''" "pc_cidr (block_at 167870464 17) = ''10.1.128.0/17''"
  by (simp_all add: numberToIp_octets nat_dec.simps char_of_def bit_0)

lemma cidr_examples:
  "parseCidr ''10.1.0.0/16'' = Inr (block_at 167837696 16)"
  "parseCidr ''10.1.128.0/17'' = Inr (block_at 167870464 17)"
  using block_reparsed [of "block_at 167837696 16"] block_reparsed [of "block_at 167870464 17"]
  unfolding cidr_block_texts by (simp_all add: block_ok_def)

theorem cidr_parse_canonical_witness: "parseCidr (pc_cidr (block_at 167837696 16)) = Inr (block_at 167837696 16)"
  using cidr_parse_canonical [OF cidr_examples(1)] by blast

text \<open>Two blocks overlap exactly when they have an address in common, and then one of them contains the other.\<close>

theorem cidrs_overlap_iff:
  assumes "parseCidr a = Inr p" "parseCidr b = Inr q"
  shows "cidrsOverlap a b = Inr (cidr_addresses p \<inter> cidr_addresses q \<noteq> {}) \<and>
    (cidr_addresses p \<inter> cidr_addresses q \<noteq> {} \<longrightarrow>
       cidr_addresses p \<subseteq> cidr_addresses q \<or> cidr_addresses q \<subseteq> cidr_addresses p)"
proof -
  note ok = parse_ok [OF assms(1)] parse_ok [OF assms(2)]
  have "cidr_addresses p \<subseteq> cidr_addresses q \<or> cidr_addresses q \<subseteq> cidr_addresses p"
    if x: "x \<in> cidr_addresses p" "x \<in> cidr_addresses q" for x
    using blocks_nested [OF ok x] blocks_nested [OF ok(2,1) x(2,1)] by (meson nat_le_linear)
  then have nested: "cidr_addresses p \<inter> cidr_addresses q \<noteq> {} \<longrightarrow>
      cidr_addresses p \<subseteq> cidr_addresses q \<or> cidr_addresses q \<subseteq> cidr_addresses p" by blast
  have "cidrsOverlap a b = Inr (cidr_addresses p \<inter> cidr_addresses q \<noteq> {})"
    unfolding cidrsOverlap_def assms bind_r_Inr overlap_intersect [OF ok] by (rule refl)
  with nested show ?thesis by simp
qed

theorem cidrs_overlap_iff_witness: "cidrsOverlap ''10.1.0.0/16'' ''10.1.128.0/17'' = Inr True"
proof -
  note parsed = cidr_examples
  have "167870464 \<in> cidr_addresses (block_at 167837696 16) \<inter> cidr_addresses (block_at 167870464 17)"
    by (simp add: cidr_addresses_def)
  then have "cidr_addresses (block_at 167837696 16) \<inter> cidr_addresses (block_at 167870464 17) \<noteq> {}" by blast
  with cidrs_overlap_iff [OF parsed] show ?thesis by simp
qed

text \<open>C14: Subnets partition their block: for every number of further bits that leaves a prefix of at most 32, exactly the
  numbers below the power of two give a subnet, whose text parses; the subnets are pairwise disjoint and together
  they are the block.\<close>

theorem cidr_subnets_partition:
  assumes "parseCidr base = Inr p" "pc_prefix p + bits \<le> 32"
  shows "\<exists>sub. (\<forall>n s. cidrSubnet base (NInt (int bits)) (NInt (int n)) = Inr s \<longleftrightarrow> n < 2 ^ bits \<and> s = pc_cidr (sub n)) \<and>
    (\<forall>n < 2 ^ bits. parseCidr (pc_cidr (sub n)) = Inr (sub n) \<and> pc_prefix (sub n) = pc_prefix p + bits) \<and>
    (\<forall>n < 2 ^ bits. \<forall>m < 2 ^ bits. n \<noteq> m \<longrightarrow> cidr_addresses (sub n) \<inter> cidr_addresses (sub m) = {}) \<and>
    (\<Union>n < 2 ^ bits. cidr_addresses (sub n)) = cidr_addresses p"
proof -
  note ok = parse_ok [OF assms(1)]
  have "pc_prefix (subnet_of p bits n) = pc_prefix p + bits" for n by (simp add: subnet_of_def)
  then show ?thesis
    using subnet_result [OF assms(1), of bits] assms(2) block_reparsed [OF subnet_ok [OF ok assms(2)]]
      subnets_disjoint [OF ok assms(2)] subnets_cover [OF ok assms(2)]
    by (intro exI [of _ "subnet_of p bits"]) simp
qed

theorem cidr_subnets_partition_witness:
  "\<exists>sub. (\<Union>n < (2 :: nat) ^ 2. cidr_addresses (sub n)) = cidr_addresses (block_at 167837696 16)"
  using cidr_subnets_partition [OF cidr_examples(1), of 2] by auto

end
