(* ===== verification/StructuralPolicy.thy ===== *)
theory StructuralPolicy
  imports PolicyBase Cidr
begin

section \<open>The structural policy: identifiers, references and address blocks\<close>

text \<open>
  \<open>structuralIntegrityPolicy\<close> of \<open>src/core/policy.ts\<close>.  One definition per loop of the source, in the
  source's order.  \<open>structural_ok\<close> is what its silence means in terms of the lists of identifiers that
  the code builds; \<open>well_formed_blueprint\<close> is the specification, which counts identifiers and looks up
  references in the blueprint itself.
\<close>

abbreviation critical :: "string \<Rightarrow> string \<Rightarrow> blueprint_violation" where
  "critical code message \<equiv> violation code SevCritical message"

abbreviation high :: "string \<Rightarrow> string \<Rightarrow> blueprint_violation" where
  "high code message \<equiv> violation code SevHigh message"

definition resource_ids :: "platform_blueprint \<Rightarrow> string list" where
  "resource_ids bp =
     map tz_id (bp_trustZones bp) @ map nd_id (bp_networkDomains bp) @ map wp_id (bp_workloadPlanes bp) @
     map ap_id (bp_applications bp) @ map tp_tenantId (bp_tenants bp) @ map db_id (bp_dataBoundaries bp) @
     map idn_id (bp_identities bp) @ map es_id (bp_evidenceSinks bp)"

definition all_ids :: "platform_blueprint \<Rightarrow> string list" where
  "all_ids bp =
     resource_ids bp @ map nf_id (bp_flows bp) @ map gr_id (bp_grants bp) @ map dg_id (bp_identityDelegations bp) @
     map eq_id (bp_evidenceRequirements bp)"

definition zone_ids :: "platform_blueprint \<Rightarrow> string set" where
  "zone_ids bp = set (map tz_id (bp_trustZones bp))"

definition identity_ids :: "platform_blueprint \<Rightarrow> string set" where
  "identity_ids bp = set (map idn_id (bp_identities bp))"

definition domain_violations :: "string set \<Rightarrow> network_domain \<Rightarrow> blueprint_violation list" where
  "domain_violations zones d =
     flag (nd_zoneId d \<notin> zones) (critical ''CORE_UNKNOWN_ZONE''
       (''Network domain '' @ squote (nd_id d) @ '' references unknown zone '' @ squote (nd_zoneId d) @ ''.'')) @
     flag (nd_availabilityZoneCount d < 1) (high ''CORE_INVALID_RESILIENCE''
       (''Network domain '' @ squote (nd_id d) @ '' must use at least one availability zone.'')) @
     concat (map (\<lambda>cidr. case parseCidr cidr of
         Inl e \<Rightarrow> [critical ''CORE_INVALID_CIDR'' e]
       | Inr _ \<Rightarrow> []) (nd_cidrs d))"

text \<open>The allocations with the domain they belong to, and the pairs \<open>left < right\<close>.\<close>

definition allocations :: "platform_blueprint \<Rightarrow> (string \<times> string) list" where
  "allocations bp = concat (map (\<lambda>d. map (\<lambda>cidr. (nd_id d, cidr)) (nd_cidrs d)) (bp_networkDomains bp))"

definition overlap_violation :: "string \<times> string \<Rightarrow> string \<times> string \<Rightarrow> blueprint_violation" where
  "overlap_violation lft rgt =
     critical ''CORE_OVERLAPPING_CIDR''
       (''Network domains '' @ squote (fst lft) @ '' ('' @ snd lft @ '') and '' @ squote (fst rgt) @ '' ('' @ snd rgt @
        '') overlap.'')"

fun overlap_violations :: "(string \<times> string) list \<Rightarrow> blueprint_violation list" where
  "overlap_violations [] = []"
| "overlap_violations (lft # rest) =
     concat (map (\<lambda>rgt. case cidrsOverlap (snd lft) (snd rgt) of
         Inl _ \<Rightarrow> []
       | Inr b \<Rightarrow> flag b (overlap_violation lft rgt)) rest) @ overlap_violations rest"

definition flow_violations :: "string set \<Rightarrow> network_flow \<Rightarrow> blueprint_violation list" where
  "flow_violations zones f =
     flag (nf_fromZoneId f \<notin> zones \<or> nf_toZoneId f \<notin> zones) (critical ''CORE_INVALID_FLOW''
       (''Flow '' @ squote (nf_id f) @ '' references an unknown source or destination zone.'')) @
     concat (map (\<lambda>via. flag (via \<notin> zones) (critical ''CORE_INVALID_FLOW_HOP''
       (''Flow '' @ squote (nf_id f) @ '' references unknown transit zone '' @ squote via @ ''.''))) (or_empty (nf_viaZoneIds f)))"

definition workload_zone_violations :: "string set \<Rightarrow> workload_plane \<Rightarrow> blueprint_violation list" where
  "workload_zone_violations zones w =
     flag (wp_zoneId w \<notin> zones) (critical ''CORE_UNKNOWN_WORKLOAD_ZONE''
       (''Workload plane '' @ squote (wp_id w) @ '' references unknown zone '' @ squote (wp_zoneId w) @ ''.''))"

definition grant_reference_violations :: "string set \<Rightarrow> string set \<Rightarrow> identity_grant \<Rightarrow> blueprint_violation list" where
  "grant_reference_violations identities resources g =
     flag (gr_identityId g \<notin> identities) (critical ''CORE_UNKNOWN_IDENTITY''
       (''Grant '' @ squote (gr_id g) @ '' references unknown identity '' @ squote (gr_identityId g) @ ''.'')) @
     concat (map (\<lambda>r. flag (r \<notin> resources) (critical ''CORE_UNKNOWN_RESOURCE''
       (''Grant '' @ squote (gr_id g) @ '' references unknown resource '' @ squote r @ ''.''))) (gr_resourceIds g))"

definition delegation_violations :: "string set \<Rightarrow> identity_delegation \<Rightarrow> blueprint_violation list" where
  "delegation_violations identities d =
     flag (dg_fromIdentityId d \<notin> identities) (critical ''CORE_UNKNOWN_DELEGATION_SOURCE''
       (''Identity delegation '' @ squote (dg_id d) @ '' references unknown source identity '' @
        squote (dg_fromIdentityId d) @ ''.'')) @
     flag (dg_toIdentityId d \<notin> identities) (critical ''CORE_UNKNOWN_DELEGATION_TARGET''
       (''Identity delegation '' @ squote (dg_id d) @ '' references unknown target identity '' @
        squote (dg_toIdentityId d) @ ''.''))"

definition requirement_violations :: "string set \<Rightarrow> evidence_requirement \<Rightarrow> blueprint_violation list" where
  "requirement_violations resources r =
     flag (eq_sinkId r \<notin> resources) (critical ''CORE_UNKNOWN_EVIDENCE_SINK''
       (''Evidence requirement '' @ squote (eq_id r) @ '' references unknown sink '' @ squote (eq_sinkId r) @ ''.'')) @
     concat (map (\<lambda>s. flag (s \<notin> resources) (critical ''CORE_UNKNOWN_EVIDENCE_SOURCE''
       (''Evidence requirement '' @ squote (eq_id r) @ '' references unknown source '' @ squote s @ ''.''))) (eq_sourceIds r))"

definition structuralIntegrityPolicy :: "platform_blueprint \<Rightarrow> blueprint_violation list" where
  "structuralIntegrityPolicy bp =
     (let zones = zone_ids bp; resources = set (resource_ids bp); identities = identity_ids bp
      in map (\<lambda>i. critical ''CORE_DUPLICATE_ID'' (''Identifier '' @ squote i @ '' is not globally unique.''))
           (duplicateValues (all_ids bp)) @
         concat (map (domain_violations zones) (bp_networkDomains bp)) @
         overlap_violations (allocations bp) @
         concat (map (flow_violations zones) (bp_flows bp)) @
         concat (map (workload_zone_violations zones) (bp_workloadPlanes bp)) @
         concat (map (grant_reference_violations identities resources) (bp_grants bp)) @
         concat (map (delegation_violations identities) (bp_identityDelegations bp)) @
         concat (map (requirement_violations resources) (bp_evidenceRequirements bp)))"

subsection \<open>What an accepted blueprint satisfies\<close>

definition blocks_disjoint :: "string list \<Rightarrow> bool" where
  "blocks_disjoint cs \<longleftrightarrow>
     (\<forall>i < length cs. \<forall>j < i. \<forall>p q. parseCidr (cs ! j) = Inr p \<longrightarrow> parseCidr (cs ! i) = Inr q \<longrightarrow>
        cidr_addresses p \<inter> cidr_addresses q = {})"

definition structural_ok :: "platform_blueprint \<Rightarrow> bool" where
  "structural_ok bp \<longleftrightarrow>
     distinct (all_ids bp) \<and>
     (\<forall>d \<in> set (bp_networkDomains bp). nd_zoneId d \<in> zone_ids bp \<and> 1 \<le> nd_availabilityZoneCount d) \<and>
     (\<forall>c \<in> set (map snd (allocations bp)). \<exists>p. parseCidr c = Inr p) \<and>
     blocks_disjoint (map snd (allocations bp)) \<and>
     (\<forall>f \<in> set (bp_flows bp). nf_fromZoneId f \<in> zone_ids bp \<and> nf_toZoneId f \<in> zone_ids bp \<and>
        set (or_empty (nf_viaZoneIds f)) \<subseteq> zone_ids bp) \<and>
     (\<forall>w \<in> set (bp_workloadPlanes bp). wp_zoneId w \<in> zone_ids bp) \<and>
     (\<forall>g \<in> set (bp_grants bp). gr_identityId g \<in> identity_ids bp \<and> set (gr_resourceIds g) \<subseteq> set (resource_ids bp)) \<and>
     (\<forall>d \<in> set (bp_identityDelegations bp). dg_fromIdentityId d \<in> identity_ids bp \<and> dg_toIdentityId d \<in> identity_ids bp) \<and>
     (\<forall>r \<in> set (bp_evidenceRequirements bp). eq_sinkId r \<in> set (resource_ids bp) \<and> set (eq_sourceIds r) \<subseteq> set (resource_ids bp))"

lemma concat_map_empty: "concat (map f xs) = [] \<longleftrightarrow> (\<forall>x \<in> set xs. f x = [])"
  by simp

lemma domain_violations_Nil:
  "domain_violations zones d = [] \<longleftrightarrow>
     nd_zoneId d \<in> zones \<and> 1 \<le> nd_availabilityZoneCount d \<and> (\<forall>c \<in> set (nd_cidrs d). \<exists>p. parseCidr c = Inr p)"
proof -
  have "(case parseCidr c of Inl e \<Rightarrow> [critical ''CORE_INVALID_CIDR'' e] | Inr _ \<Rightarrow> []) = [] \<longleftrightarrow> (\<exists>p. parseCidr c = Inr p)" for c
    by (cases "parseCidr c") auto
  then show ?thesis by (auto simp: domain_violations_def concat_map_empty)
qed

lemma cidrsOverlap_cases:
  "(case cidrsOverlap a b of Inl _ \<Rightarrow> [] | Inr x \<Rightarrow> flag x v) = [] \<longleftrightarrow>
     (\<forall>p q. parseCidr a = Inr p \<longrightarrow> parseCidr b = Inr q \<longrightarrow> cidr_addresses p \<inter> cidr_addresses q = {})"
proof (cases "parseCidr a")
  case (Inr p)
  show ?thesis
  proof (cases "parseCidr b")
    case (Inr q)
    have "cidrsOverlap a b = Inr (cidr_addresses p \<inter> cidr_addresses q \<noteq> {})"
      unfolding cidrsOverlap_def \<open>parseCidr a = Inr p\<close> Inr bind_r_Inr
      overlap_intersect [OF parse_ok [OF \<open>parseCidr a = Inr p\<close>] parse_ok [OF Inr]] by (rule refl)
    with Inr \<open>parseCidr a = Inr p\<close> show ?thesis by simp
  qed (simp add: cidrsOverlap_def \<open>parseCidr a = Inr p\<close>)
qed (simp add: cidrsOverlap_def)

lemma blocks_disjoint_Cons:
  "blocks_disjoint (c # cs) \<longleftrightarrow>
     (\<forall>d \<in> set cs. \<forall>p q. parseCidr c = Inr p \<longrightarrow> parseCidr d = Inr q \<longrightarrow> cidr_addresses p \<inter> cidr_addresses q = {}) \<and>
     blocks_disjoint cs"
  unfolding blocks_disjoint_def all_set_conv_all_nth length_Cons All_less_Suc2 nth_Cons_0 nth_Cons_Suc by blast

lemma overlap_violations_Nil: "overlap_violations as = [] \<longleftrightarrow> blocks_disjoint (map snd as)"
proof (induction as)
  case Nil
  then show ?case by (simp add: blocks_disjoint_def)
next
  case (Cons a as)
  then show ?case
    unfolding overlap_violations.simps append_is_Nil_conv concat_map_empty cidrsOverlap_cases list.map blocks_disjoint_Cons
    by simp
qed

lemma structural_iff: "structuralIntegrityPolicy bp = [] \<longleftrightarrow> structural_ok bp"
proof -
  have dup: "duplicateValues (all_ids bp) = [] \<longleftrightarrow> distinct (all_ids bp)" by (rule duplicateValues_Nil)
  have cidrs: "(\<forall>d \<in> set (bp_networkDomains bp). \<forall>c \<in> set (nd_cidrs d). \<exists>p. parseCidr c = Inr p) \<longleftrightarrow>
      (\<forall>c \<in> set (map snd (allocations bp)). \<exists>p. parseCidr c = Inr p)"
    by (auto simp: allocations_def)
  have flows: "flow_violations z f = [] \<longleftrightarrow> nf_fromZoneId f \<in> z \<and> nf_toZoneId f \<in> z \<and> set (or_empty (nf_viaZoneIds f)) \<subseteq> z" for z f
    by (auto simp: flow_violations_def)
  have grants: "grant_reference_violations is rs g = [] \<longleftrightarrow> gr_identityId g \<in> is \<and> set (gr_resourceIds g) \<subseteq> rs" for "is" rs g
    by (auto simp: grant_reference_violations_def)
  have reqs: "requirement_violations rs r = [] \<longleftrightarrow> eq_sinkId r \<in> rs \<and> set (eq_sourceIds r) \<subseteq> rs" for rs r
    by (auto simp: requirement_violations_def)
  show ?thesis
    unfolding structuralIntegrityPolicy_def structural_ok_def Let_def append_is_Nil_conv list.map_disc_iff dup
      concat_map_empty domain_violations_Nil overlap_violations_Nil flows grants reqs cidrs [symmetric]
    by (auto simp: workload_zone_violations_def delegation_violations_def)
qed

subsection \<open>The specification\<close>

text \<open>
  How often a blueprint declares an identifier, over its twelve kinds of declarations, and what a
  reference can name: a zone, an identity, or a resource, which is a declaration of one of eight
  kinds (flows, grants, delegations and evidence requirements are not resources).
\<close>

definition times_declared :: "platform_blueprint \<Rightarrow> string \<Rightarrow> nat" where
  "times_declared bp i =
     length (filter (\<lambda>z. tz_id z = i) (bp_trustZones bp)) + length (filter (\<lambda>d. nd_id d = i) (bp_networkDomains bp)) +
     length (filter (\<lambda>f. nf_id f = i) (bp_flows bp)) + length (filter (\<lambda>w. wp_id w = i) (bp_workloadPlanes bp)) +
     length (filter (\<lambda>a. ap_id a = i) (bp_applications bp)) + length (filter (\<lambda>t. tp_tenantId t = i) (bp_tenants bp)) +
     length (filter (\<lambda>b. db_id b = i) (bp_dataBoundaries bp)) + length (filter (\<lambda>p. idn_id p = i) (bp_identities bp)) +
     length (filter (\<lambda>g. gr_id g = i) (bp_grants bp)) + length (filter (\<lambda>d. dg_id d = i) (bp_identityDelegations bp)) +
     length (filter (\<lambda>k. es_id k = i) (bp_evidenceSinks bp)) + length (filter (\<lambda>r. eq_id r = i) (bp_evidenceRequirements bp))"

definition zone_exists :: "platform_blueprint \<Rightarrow> string \<Rightarrow> bool" where
  "zone_exists bp i \<longleftrightarrow> (\<exists>z \<in> set (bp_trustZones bp). tz_id z = i)"

definition identity_exists :: "platform_blueprint \<Rightarrow> string \<Rightarrow> bool" where
  "identity_exists bp i \<longleftrightarrow> (\<exists>p \<in> set (bp_identities bp). idn_id p = i)"

definition resource_exists :: "platform_blueprint \<Rightarrow> string \<Rightarrow> bool" where
  "resource_exists bp i \<longleftrightarrow>
     zone_exists bp i \<or> identity_exists bp i \<or>
     (\<exists>d \<in> set (bp_networkDomains bp). nd_id d = i) \<or> (\<exists>w \<in> set (bp_workloadPlanes bp). wp_id w = i) \<or>
     (\<exists>a \<in> set (bp_applications bp). ap_id a = i) \<or> (\<exists>t \<in> set (bp_tenants bp). tp_tenantId t = i) \<or>
     (\<exists>b \<in> set (bp_dataBoundaries bp). db_id b = i) \<or> (\<exists>k \<in> set (bp_evidenceSinks bp). es_id k = i)"

definition well_formed_blueprint :: "platform_blueprint \<Rightarrow> bool" where
  "well_formed_blueprint bp \<longleftrightarrow>
     (\<forall>i. times_declared bp i \<le> 1) \<and>
     (\<forall>d \<in> set (bp_networkDomains bp). zone_exists bp (nd_zoneId d) \<and> 1 \<le> nd_availabilityZoneCount d \<and>
        (\<forall>c \<in> set (nd_cidrs d). \<exists>p. parseCidr c = Inr p)) \<and>
     blocks_disjoint (concat (map nd_cidrs (bp_networkDomains bp))) \<and>
     (\<forall>f \<in> set (bp_flows bp). zone_exists bp (nf_fromZoneId f) \<and> zone_exists bp (nf_toZoneId f) \<and>
        (\<forall>via. nf_viaZoneIds f = Some via \<longrightarrow> (\<forall>z \<in> set via. zone_exists bp z))) \<and>
     (\<forall>w \<in> set (bp_workloadPlanes bp). zone_exists bp (wp_zoneId w)) \<and>
     (\<forall>g \<in> set (bp_grants bp). identity_exists bp (gr_identityId g) \<and> (\<forall>r \<in> set (gr_resourceIds g). resource_exists bp r)) \<and>
     (\<forall>d \<in> set (bp_identityDelegations bp). identity_exists bp (dg_fromIdentityId d) \<and> identity_exists bp (dg_toIdentityId d)) \<and>
     (\<forall>r \<in> set (bp_evidenceRequirements bp). resource_exists bp (eq_sinkId r) \<and>
        (\<forall>x \<in> set (eq_sourceIds r). resource_exists bp x))"

lemma count_list_filter: "length (filter (\<lambda>x. f x = i) xs) = count_list (map f xs) i"
  by (induction xs) auto

lemma distinct_count_le: "distinct xs \<longleftrightarrow> (\<forall>x. count_list xs x \<le> 1)"
proof (induction xs)
  case (Cons a xs)
  have "(\<forall>x. count_list (a # xs) x \<le> 1) \<longleftrightarrow> count_list xs a = 0 \<and> (\<forall>x. count_list xs x \<le> 1)"
    by (auto simp: le_Suc_eq)
  with Cons show ?case by (simp add: count_list_0_iff)
qed simp

lemma declared_once: "distinct (all_ids bp) \<longleftrightarrow> (\<forall>i. times_declared bp i \<le> 1)"
proof -
  have "times_declared bp i = count_list (all_ids bp) i" for i
    unfolding times_declared_def count_list_filter by (simp add: all_ids_def resource_ids_def)
  then show ?thesis unfolding distinct_count_le by simp
qed

lemma reference_exists:
  "i \<in> zone_ids bp \<longleftrightarrow> zone_exists bp i" "i \<in> identity_ids bp \<longleftrightarrow> identity_exists bp i"
  "i \<in> set (resource_ids bp) \<longleftrightarrow> resource_exists bp i"
  by (auto simp: zone_ids_def identity_ids_def resource_ids_def zone_exists_def identity_exists_def resource_exists_def)

lemma well_formed_iff: "structuralIntegrityPolicy bp = [] \<longleftrightarrow> well_formed_blueprint bp"
proof -
  have cidrs: "map snd (allocations bp) = concat (map nd_cidrs (bp_networkDomains bp))"
    by (simp add: allocations_def map_concat comp_def)
  have via: "set (or_empty v) \<subseteq> zone_ids bp \<longleftrightarrow> (\<forall>via. v = Some via \<longrightarrow> (\<forall>z \<in> set via. zone_exists bp z))" for v
    by (cases v) (auto simp: or_empty_def reference_exists)
  show ?thesis
    unfolding structural_iff structural_ok_def well_formed_blueprint_def declared_once cidrs via
    unfolding reference_exists subset_iff
    by auto
qed

end
