(* ===== verification/SecurityGraph.thy ===== *)
theory SecurityGraph
  imports Blueprint
begin

section \<open>The security graph of a blueprint\<close>

text \<open>
  \<open>src/core/graph.ts\<close>.  \<open>nodes\<close> is a JavaScript \<open>Map\<close>, kept as its entries in insertion order;
  \<open>edges\<close> is the array of edges in the order in which \<open>buildSecurityGraph\<close> pushes them.  The
  nodes and the edges are collected independently of each other, so each is given by itself.
\<close>

datatype security_node_kind =
    NodeTrustZone | NodeNetworkDomain | NodeWorkloadPlane | NodeApplication | NodeApplicationComponent
  | NodeTenant | NodeDataBoundary | NodeIdentity | NodeEvidenceSink

datatype security_edge_kind =
    EdgeContains | EdgePlacedIn | EdgeCanReach | EdgeCanAccess | EdgeDelegatesTo | EdgeAuditsTo
  | EdgeRunsOn | EdgeUsesIdentity | EdgeUsesData | EdgePartOf | EdgeCalls

record security_node =
  sn_id :: string
  sn_kind :: security_node_kind
  sn_tenantIds :: "string list"

record security_edge =
  se_id :: string
  se_kind :: security_edge_kind
  se_from :: string
  se_to :: string
  se_brokered :: "bool option"
  se_sourceId :: "string option"

record security_graph =
  sg_nodes :: "(string \<times> security_node) list"
  sg_edges :: "security_edge list"

primrec tenantIds :: "tenant_scope \<Rightarrow> string list" where
  "tenantIds PlatformScope = []"
| "tenantIds (PooledScope ts) = ts"
| "tenantIds (DedicatedScope t) = [t]"

definition plain_edge :: "string \<Rightarrow> security_edge_kind \<Rightarrow> string \<Rightarrow> string \<Rightarrow> security_edge" where
  "plain_edge i k a b = \<lparr>se_id = i, se_kind = k, se_from = a, se_to = b, se_brokered = None, se_sourceId = None\<rparr>"

definition brokered_edge :: "string \<Rightarrow> security_edge_kind \<Rightarrow> string \<Rightarrow> string \<Rightarrow> bool \<Rightarrow> security_edge" where
  "brokered_edge i k a b br = (plain_edge i k a b)\<lparr>se_brokered := Some br\<rparr>"

definition node_of :: "string \<Rightarrow> security_node_kind \<Rightarrow> string list \<Rightarrow> security_node" where
  "node_of i k ts = \<lparr>sn_id = i, sn_kind = k, sn_tenantIds = ts\<rparr>"

subsection \<open>Nodes\<close>

definition componentId :: "application_deployment \<Rightarrow> string \<Rightarrow> string" where
  "componentId ap c = ap_id ap @ ''/'' @ c"

definition application_nodes :: "application_deployment \<Rightarrow> security_node list" where
  "application_nodes ap =
     node_of (ap_id ap) NodeApplication (tenantIds (ap_tenantScope ap)) #
     map (\<lambda>c. node_of (componentId ap (cp_id c)) NodeApplicationComponent (tenantIds (ap_tenantScope ap)))
       (ap_components ap)"

definition blueprint_nodes :: "platform_blueprint \<Rightarrow> security_node list" where
  "blueprint_nodes bp =
     map (\<lambda>z. node_of (tz_id z) NodeTrustZone (tenantIds (tz_tenantScope z))) (bp_trustZones bp) @
     map (\<lambda>d. node_of (nd_id d) NodeNetworkDomain []) (bp_networkDomains bp) @
     map (\<lambda>w. node_of (wp_id w) NodeWorkloadPlane (tenantIds (wp_tenantScope w))) (bp_workloadPlanes bp) @
     concat (map application_nodes (bp_applications bp)) @
     map (\<lambda>t. node_of (tp_tenantId t) NodeTenant [tp_tenantId t]) (bp_tenants bp) @
     map (\<lambda>b. node_of (db_id b) NodeDataBoundary (tenantIds (db_tenantScope b))) (bp_dataBoundaries bp) @
     map (\<lambda>i. node_of (idn_id i) NodeIdentity (if truthy (idn_tenantId i) then [the (idn_tenantId i)] else []))
       (bp_identities bp) @
     map (\<lambda>s. node_of (es_id s) NodeEvidenceSink (tenantIds (es_tenantScope s))) (bp_evidenceSinks bp)"

definition addNode :: "(string \<times> security_node) list \<Rightarrow> security_node \<Rightarrow> (string \<times> security_node) list" where
  "addNode nodes n = map_set nodes (sn_id n) n"

subsection \<open>Edges\<close>

definition component_edges :: "application_deployment \<Rightarrow> application_component \<Rightarrow> security_edge list" where
  "component_edges ap c =
     (let cid = componentId ap (cp_id c)
      in [plain_edge (''component:'' @ cid @ '':application:'' @ ap_id ap) EdgePartOf cid (ap_id ap),
          plain_edge (''component:'' @ cid @ '':workload:'' @ cp_workloadPlaneId c) EdgeRunsOn cid (cp_workloadPlaneId c),
          plain_edge (''component:'' @ cid @ '':identity:'' @ cp_serviceIdentityId c) EdgeUsesIdentity cid
            (cp_serviceIdentityId c)] @
         map (\<lambda>b. plain_edge (''component:'' @ cid @ '':data:'' @ b) EdgeUsesData cid b) (cp_dataBoundaryIds c))"

definition application_edges :: "application_deployment \<Rightarrow> security_edge list" where
  "application_edges ap =
     (let a = ap_id ap
      in [plain_edge (''application:'' @ a @ '':workload:'' @ ap_workloadPlaneId ap) EdgeRunsOn a (ap_workloadPlaneId ap),
          plain_edge (''application:'' @ a @ '':identity:'' @ ap_serviceIdentityId ap) EdgeUsesIdentity a
            (ap_serviceIdentityId ap)] @
         map (\<lambda>b. plain_edge (''application:'' @ a @ '':data:'' @ b) EdgeUsesData a b) (ap_dataBoundaryIds ap) @
         concat (map (component_edges ap) (ap_components ap)) @
         map (\<lambda>d. brokered_edge (''component:'' @ a @ ''/'' @ cd_fromComponentId d @ '':calls:'' @ a @ ''/'' @
                      cd_toComponentId d) EdgeCalls
                    (a @ ''/'' @ cd_fromComponentId d) (a @ ''/'' @ cd_toComponentId d) True)
           (ap_componentDependencies ap) @
         map (\<lambda>d. brokered_edge (''component:'' @ a @ ''/'' @ ad_fromComponentId d @ '':calls:'' @ ad_deploymentId d @
                      ''/'' @ ad_toComponentId d) EdgeCalls
                    (a @ ''/'' @ ad_fromComponentId d) (ad_deploymentId d @ ''/'' @ ad_toComponentId d) True)
           (ap_dependencies ap))"

text \<open>A flow gives one edge for each hop, in order.\<close>

definition flow_hops :: "network_flow \<Rightarrow> string list" where
  "flow_hops f = nf_fromZoneId f # or_empty (nf_viaZoneIds f) @ [nf_toZoneId f]"

definition flow_edges :: "network_flow \<Rightarrow> security_edge list" where
  "flow_edges f =
     (let hops = flow_hops f
      in map (\<lambda>index.
            \<lparr>se_id = (if length hops = 2 then nf_id f else nf_id f @ '':hop-'' @ nat_dec (index + 1)),
             se_kind = EdgeCanReach, se_from = hops ! index, se_to = hops ! (index + 1),
             se_brokered = Some (nf_authorization f = FlowBrokered), se_sourceId = Some (nf_id f)\<rparr>)
          [0..<length hops - 1])"

definition grant_edges :: "identity_grant \<Rightarrow> security_edge list" where
  "grant_edges g =
     (if gr_effect g \<noteq> EffectAllow then []
      else map (\<lambda>r. brokered_edge (gr_id g @ '':'' @ r) EdgeCanAccess (gr_identityId g) r
                  (Option.bind (gr_conditions g) (\<lambda>c. obj_get c ''brokered'') = Some ''true''))
             (gr_resourceIds g))"

definition blueprint_edges :: "platform_blueprint \<Rightarrow> security_edge list" where
  "blueprint_edges bp =
     map (\<lambda>d. plain_edge (''domain:'' @ nd_id d @ '':zone:'' @ nd_zoneId d) EdgePlacedIn (nd_id d) (nd_zoneId d))
       (bp_networkDomains bp) @
     map (\<lambda>w. plain_edge (''workload:'' @ wp_id w @ '':zone:'' @ wp_zoneId w) EdgePlacedIn (wp_id w) (wp_zoneId w))
       (bp_workloadPlanes bp) @
     concat (map application_edges (bp_applications bp)) @
     concat (map (\<lambda>t. map (\<lambda>z. plain_edge (''tenant:'' @ tp_tenantId t @ '':zone:'' @ z) EdgePlacedIn (tp_tenantId t) z)
                        (tp_zoneIds t)) (bp_tenants bp)) @
     map (\<lambda>b. plain_edge (''data:'' @ db_id b @ '':zone:'' @ db_zoneId b) EdgePlacedIn (db_id b) (db_zoneId b))
       (bp_dataBoundaries bp) @
     map (\<lambda>d. plain_edge (dg_id d) EdgeDelegatesTo (dg_fromIdentityId d) (dg_toIdentityId d)) (bp_identityDelegations bp) @
     concat (map flow_edges (bp_flows bp)) @
     concat (map grant_edges (bp_grants bp)) @
     concat (map (\<lambda>r. map (\<lambda>s. plain_edge (eq_id r @ '':'' @ s) EdgeAuditsTo s (eq_sinkId r)) (eq_sourceIds r))
       (bp_evidenceRequirements bp))"

definition buildSecurityGraph :: "platform_blueprint \<Rightarrow> security_graph" where
  "buildSecurityGraph bp =
     \<lparr>sg_nodes = foldl addNode [] (blueprint_nodes bp), sg_edges = blueprint_edges bp\<rparr>"

subsection \<open>What the graph holds\<close>

lemma plain_edge_simps [simp]:
  "se_id (plain_edge i k a b) = i" "se_kind (plain_edge i k a b) = k" "se_from (plain_edge i k a b) = a"
  "se_to (plain_edge i k a b) = b" "se_brokered (plain_edge i k a b) = None" "se_sourceId (plain_edge i k a b) = None"
  by (simp_all add: plain_edge_def)

lemma brokered_edge_simps [simp]:
  "se_id (brokered_edge i k a b br) = i" "se_kind (brokered_edge i k a b br) = k" "se_from (brokered_edge i k a b br) = a"
  "se_to (brokered_edge i k a b br) = b" "se_brokered (brokered_edge i k a b br) = Some br"
  "se_sourceId (brokered_edge i k a b br) = None"
  by (simp_all add: brokered_edge_def)

text \<open>The edges of a kind are those of one section of the blueprint.\<close>

definition edges_of :: "security_edge_kind \<Rightarrow> platform_blueprint \<Rightarrow> security_edge list" where
  "edges_of k bp = filter (\<lambda>e. se_kind e = k) (sg_edges (buildSecurityGraph bp))"

lemma filter_none: "(\<And>x. x \<in> set xs \<Longrightarrow> \<not> P x) \<Longrightarrow> filter P xs = []"
  by (simp add: filter_empty_conv)

lemma component_edge_kind: "e \<in> set (component_edges ap c) \<Longrightarrow> se_kind e \<in> {EdgePartOf, EdgeRunsOn, EdgeUsesIdentity, EdgeUsesData}"
  by (auto simp: component_edges_def Let_def)

lemma application_edge_kind:
  "e \<in> set (application_edges ap) \<Longrightarrow> se_kind e \<in> {EdgePartOf, EdgeRunsOn, EdgeUsesIdentity, EdgeUsesData, EdgeCalls}"
  by (auto simp: application_edges_def Let_def dest!: component_edge_kind)

lemma flow_edge_kind: "e \<in> set (flow_edges f) \<Longrightarrow> se_kind e = EdgeCanReach"
  by (auto simp: flow_edges_def Let_def)

lemma grant_edge_kind: "e \<in> set (grant_edges g) \<Longrightarrow> se_kind e = EdgeCanAccess"
  by (auto simp: grant_edges_def split: if_splits)

lemma concat_map_Nil: "(\<And>x. x \<in> set xs \<Longrightarrow> f x = []) \<Longrightarrow> concat (map f xs) = []"
  by simp

lemma concat_Nils [simp]: "concat (map (\<lambda>x. []) xs) = []"
  by (rule concat_map_Nil) simp

lemma can_reach_edges: "edges_of EdgeCanReach bp = concat (map flow_edges (bp_flows bp))"
proof -
  let ?P = "\<lambda>e. se_kind e = EdgeCanReach"
  have "concat (map (\<lambda>f. filter ?P (flow_edges f)) (bp_flows bp)) = concat (map flow_edges (bp_flows bp))"
    by (intro arg_cong [of _ _ concat] map_cong refl filter_True) (auto dest: flow_edge_kind)
  moreover have "concat (map (\<lambda>a. filter ?P (application_edges a)) (bp_applications bp)) = []"
    by (intro concat_map_Nil filter_none) (auto dest!: application_edge_kind)
  moreover have "concat (map (\<lambda>g. filter ?P (grant_edges g)) (bp_grants bp)) = []"
    by (intro concat_map_Nil filter_none) (auto dest!: grant_edge_kind)
  ultimately show ?thesis
    unfolding edges_of_def buildSecurityGraph_def blueprint_edges_def
    by (simp add: filter_map comp_def filter_concat del: concat_eq_Nil_conv)
qed

lemma hop_edge:
  "e \<in> set (flow_edges f) \<longleftrightarrow> (\<exists>i < length (flow_hops f) - 1.
     se_from e = flow_hops f ! i \<and> se_to e = flow_hops f ! Suc i \<and>
     e = flow_edges f ! i)"
  by (auto simp: flow_edges_def Let_def image_iff)

lemma flow_edges_length: "length (flow_edges f) = Suc (length (or_empty (nf_viaZoneIds f)))"
  by (simp add: flow_edges_def flow_hops_def)

text \<open>Every declared element has a node, and with distinct identifiers the node is its own.\<close>

lemma add_nodes: "map_of (foldl addNode m ns) k = (case index_by sn_id ns k of Some n \<Rightarrow> Some n | None \<Rightarrow> map_of m k)"
proof (induction ns rule: rev_induct)
  case (snoc n ns)
  then show ?case by (auto simp: addNode_def index_by_def)
qed (simp add: index_by_def)

lemma graph_node:
  "map_of (sg_nodes (buildSecurityGraph bp)) k = index_by sn_id (blueprint_nodes bp) k"
  by (simp add: buildSecurityGraph_def add_nodes split: option.splits)

end
