(* ===== verification/Reachability.thy ===== *)
theory Reachability
  imports SecurityGraph "HOL-Library.Multiset"
begin

section \<open>Network reachability\<close>

text \<open>
  \<open>src/core/reachability.ts\<close>.  \<open>findNetworkPaths\<close> searches the \<open>can-reach\<close> edges breadth first and
  reports every simple path up to a depth; it throws when there are more than \<open>maxPaths\<close>.
  \<open>visit_edges\<close> is the inner loop over the edges of the zone at the head of the queue,
  \<open>search_paths\<close> the outer loop.  The outer loop ends because an entry of depth \<open>k\<close> is replaced by at
  most as many entries of depth \<open>k + 1\<close> as there are edges, and the depth is bounded: the measure
  gives an entry the weight \<open>(edges + 1) ^ (maxDepth - k)\<close>.
\<close>

record network_path =
  np_fromZoneId :: string
  np_toZoneId :: string
  np_zoneIds :: "string list"
  np_edgeIds :: "string list"
  np_flowIds :: "string list"
  np_brokeredAtSource :: bool

record path_options =
  po_toZoneId :: "string option"
  po_maxDepth :: "int option"
  po_maxPaths :: "int option"

text \<open>The constants of a search: the start, the options with their defaults, and the edges.\<close>

record path_search =
  ps_from :: string
  ps_target :: "string option"
  ps_maxDepth :: int
  ps_maxPaths :: int
  ps_edges :: "security_edge list"

type_synonym walk = "string list \<times> security_edge list"

definition path_of :: "path_search \<Rightarrow> walk \<Rightarrow> network_path" where
  "path_of c w =
     \<lparr>np_fromZoneId = ps_from c, np_toZoneId = se_to (last (snd w)), np_zoneIds = fst w,
      np_edgeIds = map se_id (snd w),
      np_flowIds = js_uniq (map (\<lambda>e. case se_sourceId e of None \<Rightarrow> se_id e | Some i \<Rightarrow> i) (snd w)),
      np_brokeredAtSource = (case snd w of [] \<Rightarrow> False | e # _ \<Rightarrow> se_brokered e = Some True)\<rparr>"

definition extend_walk :: "walk \<Rightarrow> security_edge \<Rightarrow> walk" where
  "extend_walk w e = (fst w @ [se_to e], snd w @ [e])"

definition reports :: "path_search \<Rightarrow> security_edge \<Rightarrow> bool" where
  "reports c e \<longleftrightarrow> \<not> truthy (ps_target c) \<or> ps_target c = Some (se_to e)"

definition follows :: "path_search \<Rightarrow> security_edge \<Rightarrow> bool" where
  "follows c e \<longleftrightarrow> \<not> truthy (ps_target c) \<or> ps_target c \<noteq> Some (se_to e)"

definition too_many_paths :: "path_search \<Rightarrow> string" where
  "too_many_paths c =
     ''Network reachability analysis exceeded '' @ int_dec (ps_maxPaths c) @ '' paths from '' @ squote (ps_from c) @
     ''; raise the reviewed limit or reduce graph complexity.''"

fun visit_edges ::
  "path_search \<Rightarrow> walk \<Rightarrow> security_edge list \<Rightarrow> network_path list \<times> walk list \<Rightarrow> string + network_path list \<times> walk list"
where
  "visit_edges c w [] acc = Inr acc"
| "visit_edges c w (e # es) (paths, queue) =
     (if se_to e \<in> set (fst w) then visit_edges c w es (paths, queue)
      else bind_r
        (if reports c e
         then bind_r (throw_if (ps_maxPaths c \<le> int (length paths)) (too_many_paths c)) (\<lambda>_.
              Inr (paths @ [path_of c (extend_walk w e)]))
         else Inr paths) (\<lambda>paths.
        visit_edges c w es (paths, if follows c e then queue @ [extend_walk w e] else queue)))"

definition adjacent :: "path_search \<Rightarrow> walk \<Rightarrow> security_edge list" where
  "adjacent c w = or_empty (groupBy se_from (ps_edges c) (last (fst w)))"

subsection \<open>What the inner loop does\<close>

definition fresh_edges :: "path_search \<Rightarrow> walk \<Rightarrow> security_edge list" where
  "fresh_edges c w = filter (\<lambda>e. se_to e \<notin> set (fst w)) (adjacent c w)"

definition emitted :: "path_search \<Rightarrow> walk \<Rightarrow> network_path list" where
  "emitted c w =
     (if ps_maxDepth c \<le> int (length (snd w)) then []
      else map (\<lambda>e. path_of c (extend_walk w e)) (filter (reports c) (fresh_edges c w)))"

definition followed :: "path_search \<Rightarrow> walk \<Rightarrow> walk list" where
  "followed c w =
     (if ps_maxDepth c \<le> int (length (snd w)) then []
      else map (extend_walk w) (filter (follows c) (fresh_edges c w)))"

definition within_limit :: "path_search \<Rightarrow> network_path list \<Rightarrow> network_path list \<Rightarrow> string + network_path list" where
  "within_limit c ps new =
     (if new \<noteq> [] \<and> ps_maxPaths c < int (length ps + length new) then Inl (too_many_paths c) else Inr (ps @ new))"

lemma within_limit_append:
  "within_limit c ps (xs @ ys) = bind_r (within_limit c ps xs) (\<lambda>ps. within_limit c ps ys)"
  by (auto simp: within_limit_def)

lemma within_limit_Cons:
  "within_limit c ps (p # ys) =
     bind_r (throw_if (ps_maxPaths c \<le> int (length ps)) (too_many_paths c)) (\<lambda>_. within_limit c (ps @ [p]) ys)"
  by (auto simp: within_limit_def throw_if_def)

lemma within_limit_Nil [simp]: "within_limit c ps [] = Inr ps"
  by (simp add: within_limit_def)

lemma visit_edges_result:
  "visit_edges c w es (ps, q) =
     bind_r (within_limit c ps (map (\<lambda>e. path_of c (extend_walk w e))
               (filter (reports c) (filter (\<lambda>e. se_to e \<notin> set (fst w)) es)))) (\<lambda>ps.
     Inr (ps, q @ map (extend_walk w) (filter (follows c) (filter (\<lambda>e. se_to e \<notin> set (fst w)) es))))"
proof (induction es arbitrary: ps q)
  case (Cons e es)
  consider "se_to e \<in> set (fst w)" | "se_to e \<notin> set (fst w)" "reports c e" | "se_to e \<notin> set (fst w)" "\<not> reports c e"
    by blast
  then show ?case
    by cases (simp_all add: Cons.IH within_limit_Cons bind_r_assoc)
qed simp

lemma visit_adjacent:
  "\<not> ps_maxDepth c \<le> int (length (snd w)) \<Longrightarrow>
   visit_edges c w (adjacent c w) (ps, q) = bind_r (within_limit c ps (emitted c w)) (\<lambda>ps. Inr (ps, q @ followed c w))"
  by (simp add: visit_edges_result emitted_def followed_def fresh_edges_def)

subsection \<open>The loop ends\<close>

definition walk_weight :: "path_search \<Rightarrow> walk \<Rightarrow> nat" where
  "walk_weight c w = Suc (length (ps_edges c)) ^ nat (ps_maxDepth c - int (length (snd w)))"

definition queue_weight :: "path_search \<Rightarrow> walk list \<Rightarrow> nat" where
  "queue_weight c q = sum_list (map (walk_weight c) q)"

lemma walk_weight_pos: "0 < walk_weight c w"
  by (simp add: walk_weight_def)

lemma queue_weight_simps [simp]:
  "queue_weight c [] = 0" "queue_weight c (w # q) = walk_weight c w + queue_weight c q"
  "queue_weight c (q @ q') = queue_weight c q + queue_weight c q'"
  by (simp_all add: queue_weight_def)

lemma adjacent_mem: "e \<in> set (adjacent c w) \<longleftrightarrow> e \<in> set (ps_edges c) \<and> se_from e = last (fst w)"
  by (simp add: adjacent_def groupBy_filter)

lemma followed_length: "length (followed c w) \<le> length (ps_edges c)"
  unfolding followed_def fresh_edges_def adjacent_def groupBy_filter
  by (auto intro: order_trans [OF length_filter_le])

lemma followed_depth: "w' \<in> set (followed c w) \<Longrightarrow> length (snd w') = Suc (length (snd w))"
  by (auto simp: followed_def extend_walk_def split: if_splits)

lemma followed_weight: "queue_weight c (followed c w) < walk_weight c w"
proof (cases "ps_maxDepth c \<le> int (length (snd w))")
  case True
  then have "followed c w = []" by (simp add: followed_def)
  then show ?thesis by (simp add: walk_weight_pos)
next
  case False
  define k where "k = nat (ps_maxDepth c - int (length (snd w)) - 1)"
  define n where "n = length (ps_edges c)"
  have "nat (ps_maxDepth c - int (length (snd w))) = Suc k"
    using False by (simp add: k_def)
  then have w: "walk_weight c w = Suc n ^ Suc k"
    by (simp only: walk_weight_def n_def)
  have "map (walk_weight c) (followed c w) = map (\<lambda>_. Suc n ^ k) (followed c w)"
    by (rule map_cong) (auto simp: walk_weight_def followed_depth k_def n_def algebra_simps)
  then have "queue_weight c (followed c w) = length (followed c w) * Suc n ^ k"
    unfolding queue_weight_def by (simp only: sum_list_triv) simp
  also have "\<dots> \<le> n * Suc n ^ k" using followed_length [of c w] by (simp add: n_def)
  also have "\<dots> < Suc n ^ Suc k" by simp
  finally show ?thesis unfolding w .
qed

function search_paths :: "path_search \<Rightarrow> walk list \<Rightarrow> network_path list \<Rightarrow> string + network_path list" where
  "search_paths c [] paths = Inr paths"
| "search_paths c (w # queue) paths =
     (if ps_maxDepth c \<le> int (length (snd w)) then search_paths c queue paths
      else bind_r (visit_edges c w (adjacent c w) (paths, queue)) (\<lambda>(paths, queue). search_paths c queue paths))"
  by pat_completeness auto
termination
proof (relation "measure (\<lambda>(c, q, ps). queue_weight c q)")
  fix c w queue paths r ps' q'
  assume "\<not> ps_maxDepth c \<le> int (length (snd (w :: walk)))"
    and "visit_edges c w (adjacent c w) (paths, queue) = Inr r" and "(ps', q') = r"
  then have "q' = queue @ followed c w"
    by (auto simp: visit_adjacent result_simps)
  then show "((c, q', ps'), c, w # queue, paths) \<in> measure (\<lambda>(c, q, ps). queue_weight c q)"
    using followed_weight [of c w] by simp
qed (simp_all add: walk_weight_pos)

definition path_search_of :: "platform_blueprint \<Rightarrow> string \<Rightarrow> path_options \<Rightarrow> path_search" where
  "path_search_of bp from opts =
     \<lparr>ps_from = from, ps_target = po_toZoneId opts,
      ps_maxDepth = (case po_maxDepth opts of None \<Rightarrow> max (int (length (bp_trustZones bp))) 1 | Some d \<Rightarrow> d),
      ps_maxPaths = (case po_maxPaths opts of None \<Rightarrow> 1000 | Some n \<Rightarrow> n),
      ps_edges = edges_of EdgeCanReach bp\<rparr>"

definition findNetworkPaths :: "platform_blueprint \<Rightarrow> string \<Rightarrow> path_options \<Rightarrow> string + network_path list" where
  "findNetworkPaths bp from opts = search_paths (path_search_of bp from opts) [([from], [])] []"

definition no_path_options :: path_options where
  "no_path_options = \<lparr>po_toZoneId = None, po_maxDepth = None, po_maxPaths = None\<rparr>"

subsection \<open>The paths in the order of the search\<close>

function walks_from :: "path_search \<Rightarrow> walk list \<Rightarrow> network_path list" where
  "walks_from c [] = []"
| "walks_from c (w # queue) = emitted c w @ walks_from c (queue @ followed c w)"
  by pat_completeness auto
termination
  by (relation "measure (\<lambda>(c, q). queue_weight c q)") (simp_all add: followed_weight)

lemma search_paths_result: "search_paths c q ps = within_limit c ps (walks_from c q)"
proof (induction c q ps rule: search_paths.induct)
  case (2 c w queue paths)
  show ?case
  proof (cases "ps_maxDepth c \<le> int (length (snd w))")
    case True
    then have "emitted c w = []" "followed c w = []" by (simp_all add: emitted_def followed_def)
    with 2 True show ?thesis by simp
  next
    case False
    note step = visit_adjacent [OF False, of paths queue]
    have "within_limit c paths (emitted c w) = Inr ps \<Longrightarrow>
        search_paths c (queue @ followed c w) ps = within_limit c ps (walks_from c (queue @ followed c w))" for ps
      using "2.IH"(2) [OF False] step by simp
    with False step show ?thesis
      by (cases "within_limit c paths (emitted c w)") (simp_all add: within_limit_append)
  qed
qed simp

lemma find_paths_result:
  "findNetworkPaths bp s opts = within_limit (path_search_of bp s opts) [] (walks_from (path_search_of bp s opts) [([s], [])])"
  by (simp add: findNetworkPaths_def search_paths_result)


subsection \<open>Simple walks\<close>

text \<open>
  The declarative meaning: a simple walk along the edges visits no zone twice.  A search reports
  the walks of at least one and at most \<open>maxDepth\<close> edges; with a target it reports those that end
  there, and a walk is never continued beyond the target.
\<close>

inductive simple_walk :: "security_edge set \<Rightarrow> string \<Rightarrow> walk \<Rightarrow> bool" for E s where
  start: "simple_walk E s ([s], [])"
| extend: "simple_walk E s w \<Longrightarrow> e \<in> E \<Longrightarrow> se_from e = last (fst w) \<Longrightarrow> se_to e \<notin> set (fst w) \<Longrightarrow>
    simple_walk E s (extend_walk w e)"

inductive_cases simple_walk_cases: "simple_walk E s w"

lemma extend_walk_simps [simp]: "fst (extend_walk w e) = fst w @ [se_to e]" "snd (extend_walk w e) = snd w @ [e]"
  by (simp_all add: extend_walk_def)

lemma extend_walk_inject [simp]: "extend_walk w e = extend_walk w' e' \<longleftrightarrow> w = w' \<and> e = e'"
  by (auto simp: extend_walk_def prod_eq_iff)

lemma simple_walk_distinct: "simple_walk E s w \<Longrightarrow> distinct (fst w)"
  by (induction rule: simple_walk.induct) auto

lemma simple_walk_zones: "simple_walk E s w \<Longrightarrow> fst w = s # map se_to (snd w)"
  by (induction rule: simple_walk.induct) auto

lemma simple_walk_edges: "simple_walk E s w \<Longrightarrow> set (snd w) \<subseteq> E"
  by (induction rule: simple_walk.induct) auto

lemma simple_walk_extend_iff:
  "simple_walk E s (extend_walk w e) \<longleftrightarrow>
     simple_walk E s w \<and> e \<in> E \<and> se_from e = last (fst w) \<and> se_to e \<notin> set (fst w)"
proof
  assume "simple_walk E s (extend_walk w e)"
  then show "simple_walk E s w \<and> e \<in> E \<and> se_from e = last (fst w) \<and> se_to e \<notin> set (fst w)"
  proof (cases rule: simple_walk.cases)
    case start
    then show ?thesis by (simp add: extend_walk_def)
  next
    case (extend w' e')
    then show ?thesis by simp
  qed
qed (blast intro: simple_walk.extend)

text \<open>The walks the search puts into its queue.\<close>

definition queued_walk :: "path_search \<Rightarrow> walk \<Rightarrow> bool" where
  "queued_walk c w \<longleftrightarrow>
     simple_walk (set (ps_edges c)) (ps_from c) w \<and> (snd w = [] \<or> int (length (snd w)) \<le> ps_maxDepth c) \<and>
     (\<forall>e \<in> set (snd w). follows c e)"

definition reported_walk :: "path_search \<Rightarrow> walk \<Rightarrow> bool" where
  "reported_walk c w \<longleftrightarrow>
     simple_walk (set (ps_edges c)) (ps_from c) w \<and> snd w \<noteq> [] \<and> int (length (snd w)) \<le> ps_maxDepth c \<and>
     (\<forall>e \<in> set (butlast (snd w)). follows c e) \<and> reports c (last (snd w))"

lemma queued_start: "queued_walk c ([ps_from c], [])"
  by (simp add: queued_walk_def simple_walk.start)

lemma followed_iff:
  "w' \<in> set (followed c w) \<longleftrightarrow>
     int (length (snd w)) < ps_maxDepth c \<and>
     (\<exists>e \<in> set (ps_edges c). se_from e = last (fst w) \<and> se_to e \<notin> set (fst w) \<and> follows c e \<and> w' = extend_walk w e)"
  by (auto simp: followed_def fresh_edges_def adjacent_mem)

lemma emitted_iff:
  "p \<in> set (emitted c w) \<longleftrightarrow>
     int (length (snd w)) < ps_maxDepth c \<and>
     (\<exists>e \<in> set (ps_edges c). se_from e = last (fst w) \<and> se_to e \<notin> set (fst w) \<and> reports c e \<and> p = path_of c (extend_walk w e))"
  by (auto simp: emitted_def fresh_edges_def adjacent_mem)

abbreviation descends :: "path_search \<Rightarrow> (walk \<times> walk) set" where
  "descends c \<equiv> {(w, w'). w' \<in> set (followed c w)}\<^sup>*"

lemma walks_from_set: "set (walks_from c q) = (\<Union>w \<in> set q. \<Union>w' \<in> {w'. (w, w') \<in> descends c}. set (emitted c w'))"
proof (induction c q rule: walks_from.induct)
  case (2 c w queue)
  have "{w'. (w, w') \<in> descends c} = insert w (\<Union>v \<in> set (followed c w). {w'. (v, w') \<in> descends c})"
    by (auto intro: converse_rtrancl_into_rtrancl elim: converse_rtranclE)
  with 2 show ?case by auto
qed simp

lemma descends_queued: "(([ps_from c], []), w) \<in> descends c \<longleftrightarrow> queued_walk c w"
proof
  assume "(([ps_from c], []), w) \<in> descends c"
  then show "queued_walk c w"
  proof (induction rule: rtrancl_induct)
    case base
    show ?case by (rule queued_start)
  next
    case (step w w')
    then show ?case by (auto simp: followed_iff queued_walk_def simple_walk_extend_iff)
  qed
next
  assume "queued_walk c w"
  then have "simple_walk (set (ps_edges c)) (ps_from c) w" by (simp add: queued_walk_def)
  then show "(([ps_from c], []), w) \<in> descends c" using \<open>queued_walk c w\<close>
  proof (induction rule: simple_walk.induct)
    case start
    show ?case by simp
  next
    case (extend w e)
    from extend.prems have "queued_walk c w" by (auto simp: queued_walk_def simple_walk_extend_iff)
    moreover have "extend_walk w e \<in> set (followed c w)"
      using extend by (auto simp: followed_iff queued_walk_def)
    ultimately show ?case using extend.IH by (auto intro: rtrancl_into_rtrancl)
  qed
qed

lemma reported_walks: "set (walks_from c [([ps_from c], [])]) = path_of c ` {w. reported_walk c w}"
proof -
  have "reported_walk c v \<longleftrightarrow> (\<exists>w e. v = extend_walk w e \<and> queued_walk c w \<and> int (length (snd w)) < ps_maxDepth c \<and>
      e \<in> set (ps_edges c) \<and> se_from e = last (fst w) \<and> se_to e \<notin> set (fst w) \<and> reports c e)" for v
  proof
    assume r: "reported_walk c v"
    then have "simple_walk (set (ps_edges c)) (ps_from c) v" "snd v \<noteq> []" by (simp_all add: reported_walk_def)
    then obtain w e where "v = extend_walk w e" by (auto elim: simple_walk_cases)
    with r show "\<exists>w e. v = extend_walk w e \<and> queued_walk c w \<and> int (length (snd w)) < ps_maxDepth c \<and>
      e \<in> set (ps_edges c) \<and> se_from e = last (fst w) \<and> se_to e \<notin> set (fst w) \<and> reports c e"
      by (auto simp: reported_walk_def queued_walk_def simple_walk_extend_iff)
  next
    assume "\<exists>w e. v = extend_walk w e \<and> queued_walk c w \<and> int (length (snd w)) < ps_maxDepth c \<and>
      e \<in> set (ps_edges c) \<and> se_from e = last (fst w) \<and> se_to e \<notin> set (fst w) \<and> reports c e"
    then show "reported_walk c v"
      by (auto simp: reported_walk_def queued_walk_def simple_walk_extend_iff)
  qed
  then have "p \<in> path_of c ` {v. reported_walk c v} \<longleftrightarrow> (\<exists>w. queued_walk c w \<and> p \<in> set (emitted c w))" for p
    unfolding emitted_iff image_iff Bex_def mem_Collect_eq by metis
  moreover have "set (walks_from c [([ps_from c], [])]) = (\<Union>w \<in> {w. queued_walk c w}. set (emitted c w))"
    unfolding walks_from_set by (simp only: list.set UN_insert UN_empty Un_empty_right descends_queued)
  ultimately show ?thesis by blast
qed

text \<open>The search is breadth first: shorter paths come before longer ones.\<close>

definition depths_close :: "walk list \<Rightarrow> bool" where
  "depths_close q \<longleftrightarrow> sorted (map (length \<circ> snd) q) \<and> (\<forall>w \<in> set q. length (snd w) \<le> Suc (length (snd (hd q))))"

lemma emitted_depth: "p \<in> set (emitted c w) \<Longrightarrow> length (np_edgeIds p) = Suc (length (snd w))"
  by (auto simp: emitted_iff path_of_def)

lemma sorted_constant: "(\<And>x. x \<in> set xs \<Longrightarrow> f x = (k :: nat)) \<Longrightarrow> sorted (map f xs)"
  by (induction xs) auto

lemma depths_close_step:
  assumes "depths_close (w # queue)"
  shows "depths_close (queue @ followed c w)"
    and "v \<in> set (queue @ followed c w) \<Longrightarrow> length (snd w) \<le> length (snd v)"
proof -
  have new: "length (snd v) = Suc (length (snd w))" if "v \<in> set (followed c w)" for v
    using that by (rule followed_depth)
  have old: "length (snd w) \<le> length (snd v) \<and> length (snd v) \<le> Suc (length (snd w))" if "v \<in> set queue" for v
    using that assms by (auto simp: depths_close_def)
  show low: "v \<in> set (queue @ followed c w) \<Longrightarrow> length (snd w) \<le> length (snd v)" for v
    using new [of v] old [of v] by auto
  have "sorted (map (length \<circ> snd) (followed c w))"
    by (rule sorted_constant) (simp add: new)
  moreover have "sorted (map (length \<circ> snd) queue)" using assms by (simp add: depths_close_def)
  ultimately have "sorted (map (length \<circ> snd) (queue @ followed c w))"
    using old new by (auto simp: sorted_append)
  moreover have "length (snd v) \<le> Suc (length (snd (hd (queue @ followed c w))))" if v: "v \<in> set (queue @ followed c w)" for v
  proof -
    have "hd (queue @ followed c w) \<in> set (queue @ followed c w)" using v by (intro hd_in_set) auto
    from low [OF this] show ?thesis using v new [of v] old [of v] by auto
  qed
  ultimately show "depths_close (queue @ followed c w)" by (simp add: depths_close_def)
qed

lemma walks_from_sorted:
  "depths_close q \<Longrightarrow> sorted (map (length \<circ> np_edgeIds) (walks_from c q)) \<and>
    (\<forall>p \<in> set (walks_from c q). Suc (length (snd (hd q))) \<le> length (np_edgeIds p))"
proof (induction c q rule: walks_from.induct)
  case (2 c w queue)
  let ?q = "queue @ followed c w"
  note step = depths_close_step [OF "2.prems"]
  have tail: "Suc (length (snd w)) \<le> length (np_edgeIds p)" if p: "p \<in> set (walks_from c ?q)" for p
  proof -
    have "?q \<noteq> []" using p by auto
    then have "length (snd w) \<le> length (snd (hd ?q))" using step(2) hd_in_set by blast
    with "2.IH" [OF step(1)] p show ?thesis by fastforce
  qed
  have "sorted (map (length \<circ> np_edgeIds) (emitted c w))"
    by (rule sorted_constant) (simp add: emitted_depth)
  moreover have "sorted (map (length \<circ> np_edgeIds) (walks_from c ?q))"
    using "2.IH" [OF step(1)] by blast
  moreover have "\<forall>x \<in> set (emitted c w). \<forall>y \<in> set (walks_from c ?q). length (np_edgeIds x) \<le> length (np_edgeIds y)"
    using emitted_depth [of _ c w] tail by simp
  ultimately have "sorted (map (length \<circ> np_edgeIds) (walks_from c (w # queue)))"
    by (simp add: sorted_append)
  moreover have "\<forall>p \<in> set (walks_from c (w # queue)). Suc (length (snd w)) \<le> length (np_edgeIds p)"
    using emitted_depth [of _ c w] tail by auto
  ultimately show ?case unfolding list.sel by (rule conjI)
qed simp

subsection \<open>How often a walk is found\<close>

text \<open>
  The walks that a search wants, without reference to how it proceeds: a simple walk along the
  hops of the flows, of at least one and at most as many edges as the bound, which ends at the
  target if there is one.  A walk is found once for every choice of its edges from the edge list;
  \<open>walk_copies\<close> is this number, one for a wanted walk when no edge occurs twice in the list.
\<close>

definition wanted_walk :: "platform_blueprint \<Rightarrow> string \<Rightarrow> path_options \<Rightarrow> walk \<Rightarrow> bool" where
  "wanted_walk bp s opts w \<longleftrightarrow>
     simple_walk (set (edges_of EdgeCanReach bp)) s w \<and> snd w \<noteq> [] \<and>
     (case po_maxDepth opts of
        Some d \<Rightarrow> int (length (snd w)) \<le> d
      | None \<Rightarrow> length (snd w) \<le> 1 \<or> length (snd w) \<le> length (bp_trustZones bp)) \<and>
     (\<forall>target. po_toZoneId opts = Some target \<and> target \<noteq> [] \<longrightarrow> last (fst w) = target)"

definition walk_copies :: "platform_blueprint \<Rightarrow> walk \<Rightarrow> nat" where
  "walk_copies bp w = prod_list (map (count_list (edges_of EdgeCanReach bp)) (snd w))"

lemma reported_wanted: "reported_walk (path_search_of bp s opts) w \<longleftrightarrow> wanted_walk bp s opts w"
proof -
  let ?c = "path_search_of bp s opts"
  have target: "ps_target ?c = po_toZoneId opts" "ps_edges ?c = edges_of EdgeCanReach bp" "ps_from ?c = s"
    by (simp_all add: path_search_of_def)
  have depth: "int (length (snd w)) \<le> ps_maxDepth ?c \<longleftrightarrow>
      (case po_maxDepth opts of
        Some d \<Rightarrow> int (length (snd w)) \<le> d
      | None \<Rightarrow> length (snd w) \<le> 1 \<or> length (snd w) \<le> length (bp_trustZones bp))"
    by (auto simp: path_search_of_def split: option.split)
  have ends: "(\<forall>e \<in> set (butlast (snd w)). follows ?c e) \<and> reports ?c (last (snd w)) \<longleftrightarrow>
      (\<forall>target. po_toZoneId opts = Some target \<and> target \<noteq> [] \<longrightarrow> last (fst w) = target)"
    if w: "simple_walk E s w" "snd w \<noteq> []" for E
  proof -
    have zones: "fst w = s # map se_to (butlast (snd w)) @ [se_to (last (snd w))]"
      using simple_walk_zones [OF w(1)] w(2) by (metis append_butlast_last_id list.simps(9) map_append list.map(1))
    moreover have "distinct (fst w)" by (rule simple_walk_distinct [OF w(1)])
    ultimately have "last (fst w) = se_to (last (snd w))" "\<forall>e \<in> set (butlast (snd w)). se_to e \<noteq> se_to (last (snd w))"
      by (auto, metis imageI)
    then show ?thesis by (cases "po_toZoneId opts") (auto simp: reports_def follows_def target truthy_def)
  qed
  show ?thesis unfolding reported_walk_def wanted_walk_def depth [symmetric] target using ends by blast
qed

lemma walk_copies_distinct:
  assumes "distinct (edges_of EdgeCanReach bp)" "wanted_walk bp s opts w"
  shows "walk_copies bp w = 1"
proof -
  have "count_list xs x = 1" if "distinct xs" "x \<in> set xs" for xs :: "security_edge list" and x
    using that by (induction xs) (auto simp: count_notin)
  moreover have "set (snd w) \<subseteq> set (edges_of EdgeCanReach bp)"
    using assms(2) simple_walk_edges unfolding wanted_walk_def by blast
  ultimately have "\<forall>e \<in> set (snd w). count_list (edges_of EdgeCanReach bp) e = 1" using assms(1) by blast
  moreover have "\<forall>e \<in> set es. f e = (1 :: nat) \<Longrightarrow> prod_list (map f es) = 1" for f and es :: "security_edge list"
    by (induction es) auto
  ultimately show ?thesis unfolding walk_copies_def by blast
qed

text \<open>The entries that the loop takes from the queue, and the walks it reports for each.\<close>

function visited :: "path_search \<Rightarrow> walk list \<Rightarrow> walk list" where
  "visited c [] = []"
| "visited c (w # queue) = w # visited c (queue @ followed c w)"
  by pat_completeness auto
termination
  by (relation "measure (\<lambda>(c, q). queue_weight c q)") (simp_all add: followed_weight)

definition emitted_walks :: "path_search \<Rightarrow> walk \<Rightarrow> walk list" where
  "emitted_walks c w =
     (if ps_maxDepth c \<le> int (length (snd w)) then []
      else map (extend_walk w) (filter (reports c) (fresh_edges c w)))"

definition found_walks :: "path_search \<Rightarrow> walk list" where
  "found_walks c = concat (map (emitted_walks c) (visited c [([ps_from c], [])]))"

lemma walks_from_visited: "walks_from c q = map (path_of c) (concat (map (emitted_walks c) (visited c q)))"
  by (induction c q rule: walks_from.induct) (simp_all add: emitted_walks_def emitted_def comp_def)

lemma visited_mset: "mset (visited c q) = mset q + mset (concat (map (followed c) (visited c q)))"
  by (induction c q rule: visited.induct) (simp_all add: ac_simps)

lemma count_list_mset: "count_list xs x = count (mset xs) x"
  by (induction xs) simp_all

lemma count_extensions:
  "count_list (if b then [] else map (extend_walk u) (filter P (fresh_edges c u))) (extend_walk w e) =
     (if u = w \<and> \<not> b \<and> P e \<and> se_from e = last (fst w) \<and> se_to e \<notin> set (fst w) then count_list (ps_edges c) e else 0)"
proof -
  have map: "count_list (map (extend_walk u) es) (extend_walk w e) = (if u = w then count_list es e else 0)" for es
    by (induction es) auto
  have filter: "count_list (filter Q es) e = (if Q e then count_list es e else 0)" for Q es
    by (induction es) auto
  show ?thesis
    by (cases b) (simp_all add: map filter fresh_edges_def adjacent_def groupBy_filter)
qed

lemma count_concat: "count_list (concat (map f xs)) v = sum_list (map (\<lambda>u. count_list (f u) v) xs)"
  by (induction xs) simp_all

lemma sum_single: "sum_list (map (\<lambda>u. if u = w \<and> b then k else (0 :: nat)) xs) = (if b then count_list xs w * k else 0)"
  by (induction xs) auto

lemma count_visited_extend:
  assumes "extend_walk w e \<notin> set q"
  shows "count_list (visited c q) (extend_walk w e) =
    (if int (length (snd w)) < ps_maxDepth c \<and> follows c e \<and> se_from e = last (fst w) \<and> se_to e \<notin> set (fst w)
     then count_list (visited c q) w * count_list (ps_edges c) e else 0)"
proof -
  have "count_list (visited c q) (extend_walk w e) = count_list (concat (map (followed c) (visited c q))) (extend_walk w e)"
    using assms by (simp only: count_list_mset visited_mset [of c q] count_union) (simp add: count_eq_zero_iff)
  also have "\<dots> = sum_list (map (\<lambda>u. if u = w \<and> (\<not> ps_maxDepth c \<le> int (length (snd w)) \<and> follows c e \<and>
      se_from e = last (fst w) \<and> se_to e \<notin> set (fst w)) then count_list (ps_edges c) e else 0) (visited c q))"
    unfolding count_concat followed_def count_extensions
    by (rule arg_cong [where f = sum_list], rule map_cong) auto
  finally show ?thesis unfolding sum_single by (simp add: not_le)
qed

lemma visited_shape: "w \<in> set (visited c [([ps_from c], [])]) \<Longrightarrow> queued_walk c w"
proof -
  have all: "\<forall>v \<in> set q. queued_walk c v \<Longrightarrow> \<forall>v \<in> set (visited c q). queued_walk c v" for q
  proof (induction c q rule: visited.induct)
    case (2 c w queue)
    have w: "queued_walk c w" using "2.prems" by simp
    have "queued_walk c v" if "v \<in> set (followed c w)" for v
      using that w by (auto simp: followed_iff queued_walk_def simple_walk_extend_iff)
    with "2.prems" have "\<forall>v \<in> set (queue @ followed c w). queued_walk c v" by auto
    from "2.IH" [OF this] w show ?case by simp
  qed simp
  show "w \<in> set (visited c [([ps_from c], [])]) \<Longrightarrow> queued_walk c w"
    using all [of "[([ps_from c], [])]"] queued_start by auto
qed

lemma count_visited:
  "queued_walk c w \<Longrightarrow>
   count_list (visited c [([ps_from c], [])]) w = prod_list (map (count_list (ps_edges c)) (snd w))"
proof -
  assume q: "queued_walk c w"
  then have "simple_walk (set (ps_edges c)) (ps_from c) w" by (simp add: queued_walk_def)
  then show ?thesis using q
  proof (induction rule: simple_walk.induct)
    case start
    have "count_list (concat (map (followed c) us)) ([ps_from c], []) = 0" for us
      by (induction us) (auto simp: followed_def count_list_0_iff extend_walk_def)
    then show ?case
      by (simp only: count_list_mset visited_mset [of c "[([ps_from c], [])]"] count_union)
        (simp add: count_eq_zero_iff count_list_0_iff)
  next
    case (extend w e)
    then have "queued_walk c w" by (auto simp: queued_walk_def simple_walk_extend_iff)
    moreover have "extend_walk w e \<notin> set [([ps_from c], [])]" by (simp add: extend_walk_def)
    ultimately show ?case
      using extend count_visited_extend [of w e "[([ps_from c], [])]" c]
      by (simp add: queued_walk_def simple_walk_extend_iff)
  qed
qed

lemma count_found:
  "count_list (found_walks c) w =
     (if reported_walk c w then prod_list (map (count_list (ps_edges c)) (snd w)) else 0)"
proof (cases "\<exists>v e. w = extend_walk v e")
  case False
  then have "w \<notin> set (found_walks c)" by (auto simp: found_walks_def emitted_walks_def split: if_splits)
  moreover have "\<not> reported_walk c w"
    using False by (auto simp: reported_walk_def elim: simple_walk_cases)
  ultimately show ?thesis by (simp add: count_list_0_iff)
next
  case True
  then obtain v e where w: "w = extend_walk v e" by blast
  let ?V = "visited c [([ps_from c], [])]"
  let ?b = "\<not> ps_maxDepth c \<le> int (length (snd v)) \<and> reports c e \<and> se_from e = last (fst v) \<and> se_to e \<notin> set (fst v)"
  have "count_list (found_walks c) w =
      sum_list (map (\<lambda>u. if u = v \<and> ?b then count_list (ps_edges c) e else 0) ?V)"
    unfolding found_walks_def w count_concat emitted_walks_def count_extensions
    by (rule arg_cong [where f = sum_list], rule map_cong) auto
  also have "\<dots> = (if ?b then count_list ?V v * count_list (ps_edges c) e else 0)"
    by (rule sum_single)
  finally have count: "count_list (found_walks c) w = (if ?b then count_list ?V v * count_list (ps_edges c) e else 0)" .
  show ?thesis
  proof (cases "queued_walk c v")
    case True
    then have "reported_walk c w \<longleftrightarrow> ?b \<and> e \<in> set (ps_edges c)"
      unfolding w by (auto simp: reported_walk_def queued_walk_def simple_walk_extend_iff)
    moreover have "e \<notin> set (ps_edges c) \<Longrightarrow> count_list (ps_edges c) e = 0" by (simp add: count_list_0_iff)
    ultimately show ?thesis unfolding count count_visited [OF True] by (auto simp: w)
  next
    case False
    then have "v \<notin> set ?V" using visited_shape by blast
    then have "count_list ?V v = 0" by (rule count_notin)
    moreover have "\<not> reported_walk c w"
      using False unfolding w by (auto simp: reported_walk_def queued_walk_def simple_walk_extend_iff)
    ultimately show ?thesis unfolding count by simp
  qed
qed

lemma visited_depth:
  "depths_close q \<Longrightarrow> sorted (map (length \<circ> snd) (concat (map (emitted_walks c) (visited c q))))"
proof -
  assume "depths_close q"
  then have "sorted (map (length \<circ> np_edgeIds) (map (path_of c) (concat (map (emitted_walks c) (visited c q)))))"
    using walks_from_sorted [of q c] unfolding walks_from_visited by blast
  moreover have "(length \<circ> np_edgeIds) \<circ> path_of c = length \<circ> snd" by (auto simp: path_of_def)
  ultimately show ?thesis by (simp only: map_map)
qed

lemma find_paths_found:
  "findNetworkPaths bp s opts =
     (let c = path_search_of bp s opts; ws = found_walks c
      in if ws \<noteq> [] \<and> ps_maxPaths c < int (length ws) then Inl (too_many_paths c) else Inr (map (path_of c) ws))"
  and count_found_wanted:
  "count_list (found_walks (path_search_of bp s opts)) w = (if wanted_walk bp s opts w then walk_copies bp w else 0)"
  and found_sorted: "sorted (map (\<lambda>w. length (snd w)) (found_walks (path_search_of bp s opts)))"
proof -
  have start: "ps_from (path_search_of bp s opts) = s" by (simp add: path_search_of_def)
  show "findNetworkPaths bp s opts =
     (let c = path_search_of bp s opts; ws = found_walks c
      in if ws \<noteq> [] \<and> ps_maxPaths c < int (length ws) then Inl (too_many_paths c) else Inr (map (path_of c) ws))"
    unfolding find_paths_result walks_from_visited found_walks_def start Let_def within_limit_def by simp
  show "count_list (found_walks (path_search_of bp s opts)) w = (if wanted_walk bp s opts w then walk_copies bp w else 0)"
    unfolding count_found reported_wanted walk_copies_def by (simp add: path_search_of_def)
  show "sorted (map (\<lambda>w. length (snd w)) (found_walks (path_search_of bp s opts)))"
    using visited_depth [of "[([s], [])]" "path_search_of bp s opts"]
    by (simp add: found_walks_def start depths_close_def comp_def)
qed

subsection \<open>Walks between zones\<close>

text \<open>
  Reachability over the edges into a set of zones, as a relation, and the simple walk that any such
  connection can be shortened to.
\<close>

definition hop_rel :: "security_edge set \<Rightarrow> string set \<Rightarrow> (string \<times> string) set" where
  "hop_rel E Z = {(a, b). b \<in> Z \<and> (\<exists>e \<in> E. se_from e = a \<and> se_to e = b)}"

lemma walk_prefix:
  "simple_walk E s w \<Longrightarrow> z \<in> set (fst w) \<Longrightarrow>
   \<exists>v. simple_walk E s v \<and> last (fst v) = z \<and> set (fst v) \<subseteq> set (fst w) \<and> (snd v \<noteq> [] \<longrightarrow> hd (snd v) = hd (snd w))"
proof (induction rule: simple_walk.induct)
  case start
  then show ?case by (intro exI [of _ "([s], [])"]) (simp add: simple_walk.start)
next
  case (extend w e)
  show ?case
  proof (cases "z \<in> set (fst w)")
    case True
    with extend.IH obtain v where v: "simple_walk E s v" "last (fst v) = z" "set (fst v) \<subseteq> set (fst w)"
      "snd v \<noteq> [] \<longrightarrow> hd (snd v) = hd (snd w)" by blast
    have "snd v \<noteq> [] \<longrightarrow> snd w \<noteq> []"
      using v(1,3) simple_walk_zones [OF v(1)] simple_walk_zones [OF extend.hyps(1)] simple_walk_distinct [OF v(1)]
      by (cases "snd w"; cases "snd v") auto
    with v show ?thesis by (intro exI [of _ v]) (auto simp: hd_append)
  next
    case False
    with extend have "last (fst (extend_walk w e)) = z" by simp
    with extend show ?thesis
      by (intro exI [of _ "extend_walk w e"]) (auto intro: simple_walk.extend)
  qed
qed

lemma connected_simple_walk:
  assumes "(s, d) \<in> (hop_rel E Z)\<^sup>*"
  shows "\<exists>w. simple_walk E s w \<and> last (fst w) = d \<and> set (fst w) \<subseteq> insert s Z"
  using assms
proof (induction rule: rtrancl_induct)
  case base
  show ?case by (intro exI [of _ "([s], [])"]) (simp add: simple_walk.start)
next
  case (step y z)
  then obtain w e where w: "simple_walk E s w" "last (fst w) = y" "set (fst w) \<subseteq> insert s Z"
    and e: "e \<in> E" "se_from e = y" "se_to e = z" "z \<in> Z" by (auto simp: hop_rel_def)
  show ?case
  proof (cases "z \<in> set (fst w)")
    case True
    from walk_prefix [OF w(1) this] w(3) show ?thesis by blast
  next
    case False
    with w e show ?thesis
      by (intro exI [of _ "extend_walk w e"]) (auto intro: simple_walk.extend)
  qed
qed

lemma simple_walk_connected:
  "simple_walk E s w \<Longrightarrow> set (fst w) \<subseteq> insert s Z \<Longrightarrow> (s, last (fst w)) \<in> (hop_rel E Z)\<^sup>*"
proof (induction rule: simple_walk.induct)
  case (extend w e)
  have "s \<in> set (fst w)" using simple_walk_zones [OF extend.hyps(1)] by simp
  with extend have "(last (fst w), se_to e) \<in> hop_rel E Z" by (auto simp: hop_rel_def)
  with extend show ?case by (auto intro: rtrancl_into_rtrancl)
qed simp

end
