(* ===== verification/NetworkPolicy.thy ===== *)
theory NetworkPolicy
  imports StructuralPolicy Reachability
begin

section \<open>The network and workload policies\<close>

text \<open>
  \<open>networkBoundaryPolicy\<close>, \<open>transitiveNetworkPolicy\<close>, \<open>workloadPlanePolicy\<close> and
  \<open>workloadCapabilities\<close> of \<open>src/core/policy.ts\<close>.  A zone kind reached through an optional chain
  \<open>zone?.kind\<close> is an option.  The transitive policy calls \<open>findNetworkPaths\<close>, whose exception it does
  not catch, so it is a function into a sum.
\<close>

definition zone_of :: "platform_blueprint \<Rightarrow> string \<Rightarrow> trust_zone option" where
  "zone_of bp = index_by tz_id (bp_trustZones bp)"

definition kind_of :: "platform_blueprint \<Rightarrow> string \<Rightarrow> zone_kind option" where
  "kind_of bp z = map_option tz_kind (zone_of bp z)"

subsection \<open>Direct flows\<close>

definition public_zone_violations :: "trust_zone \<Rightarrow> blueprint_violation list" where
  "public_zone_violations z =
     flag ((tz_kind z = ZoneControlPlane \<or> tz_kind z = ZoneData) \<and> tz_publicAccess z)
       (critical ''NET_PUBLIC_TRUSTED_ZONE'' (''Trusted zone '' @ squote (tz_id z) @ '' must not be public.''))"

definition internet_violations :: "platform_blueprint \<Rightarrow> network_domain \<Rightarrow> blueprint_violation list" where
  "internet_violations bp d =
     flag (nd_directInternetAccess d \<and> kind_of bp (nd_zoneId d) \<noteq> Some ZoneEgress \<and> kind_of bp (nd_zoneId d) \<noteq> Some ZoneEdge)
       (critical ''NET_DIRECT_INTERNET''
         (''Network domain '' @ squote (nd_id d) @ '' has direct internet access outside an edge or egress zone.''))"

definition egress_violations :: "platform_blueprint \<Rightarrow> network_flow \<Rightarrow> blueprint_violation list" where
  "egress_violations bp f =
     (if kind_of bp (nf_toZoneId f) \<noteq> Some ZoneExternal then []
      else
        flag (or_empty (nf_externalDestinations f) = []) (critical ''NET_EMPTY_EGRESS_ALLOWLIST''
          (''External flow '' @ squote (nf_id f) @ '' must declare approved destinations.'')) @
        flag (\<not> (\<exists>z \<in> set (or_empty (nf_viaZoneIds f)).
                  \<exists>d \<in> set (or_empty (groupBy nd_zoneId (bp_networkDomains bp) z)). nd_inspectedEgress d))
          (critical ''NET_UNINSPECTED_EGRESS''
            (''External flow '' @ squote (nf_id f) @ '' does not traverse an inspected egress zone.'')))"

definition execution_violations :: "platform_blueprint \<Rightarrow> network_flow \<Rightarrow> blueprint_violation list" where
  "execution_violations bp f =
     (case kind_of bp (nf_toZoneId f) of
        None \<Rightarrow> []
      | Some k \<Rightarrow>
          flag (kind_of bp (nf_fromZoneId f) = Some ZoneExecution \<and> (k = ZoneControlPlane \<or> k = ZoneData) \<and>
                nf_authorization f \<noteq> FlowBrokered)
            (critical ''NET_EXECUTION_BYPASS''
              (''Execution flow '' @ squote (nf_id f) @ '' into '' @ squote (zone_kind_text k) @ '' must be brokered.'')))"

definition networkBoundaryPolicy :: "platform_blueprint \<Rightarrow> blueprint_violation list" where
  "networkBoundaryPolicy bp =
     (if sp_forbidPublicControlPlanes (bp_posture bp) then concat (map public_zone_violations (bp_trustZones bp)) else []) @
     concat (map (internet_violations bp) (bp_networkDomains bp)) @
     (if sp_requireInspectedEgress (bp_posture bp)
      then flag (\<not> (\<exists>d \<in> set (bp_networkDomains bp). nd_inspectedEgress d)) (critical ''NET_INSPECTION_MISSING''
             ''The blueprint requires inspected egress but declares no inspected network domain.'') @
           concat (map (egress_violations bp) (bp_flows bp))
      else []) @
     concat (map (execution_violations bp) (bp_flows bp))"

subsection \<open>Transitive paths\<close>

definition inspected_zones :: "platform_blueprint \<Rightarrow> string set" where
  "inspected_zones bp = nd_zoneId ` set (filter nd_inspectedEgress (bp_networkDomains bp))"

definition path_violation :: "string \<Rightarrow> network_path \<Rightarrow> string \<Rightarrow> blueprint_violation" where
  "path_violation code p message = (critical code message)\<lparr>bv_path := Some (join_with '' -> '' (np_zoneIds p))\<rparr>"

definition path_violations :: "platform_blueprint \<Rightarrow> trust_zone \<Rightarrow> network_path \<Rightarrow> blueprint_violation list" where
  "path_violations bp source p =
     (case zone_of bp (np_toZoneId p) of
        None \<Rightarrow> []
      | Some destination \<Rightarrow>
          flag (tz_kind source = ZoneExecution \<and>
                (tz_kind destination = ZoneControlPlane \<or> tz_kind destination = ZoneData) \<and>
                \<not> np_brokeredAtSource p \<and> 2 < length (np_zoneIds p))
            (path_violation ''NET_TRANSITIVE_EXECUTION_BYPASS'' p
              (''Execution zone '' @ squote (tz_id source) @ '' reaches trusted zone '' @ squote (tz_id destination) @
               '' through an unbrokered transitive path.'')) @
          flag (sp_requireInspectedEgress (bp_posture bp) \<and> tz_kind destination = ZoneExternal \<and>
                \<not> (\<exists>z \<in> set (np_zoneIds p). z \<in> inspected_zones bp))
            (path_violation ''NET_TRANSITIVE_UNINSPECTED_EGRESS'' p
              (''Zone '' @ squote (tz_id source) @ '' reaches external zone '' @ squote (tz_id destination) @
               '' without traversing inspected egress.'')) @
          (let sourceTenants = tenantIdsFromScope (tz_tenantScope source);
               destinationTenants = tenantIdsFromScope (tz_tenantScope destination)
           in flag (sourceTenants \<noteq> [] \<and> destinationTenants \<noteq> [] \<and>
                    \<not> (\<exists>t \<in> set sourceTenants. t \<in> set destinationTenants))
                (path_violation ''NET_CROSS_TENANT_PATH'' p
                  (''Network path crosses from tenant-scoped zone '' @ squote (tz_id source) @ '' to '' @
                   squote (tz_id destination) @ ''.''))))"

fun transitive_loop :: "platform_blueprint \<Rightarrow> trust_zone list \<Rightarrow> blueprint_violation list \<Rightarrow> string + blueprint_violation list" where
  "transitive_loop bp [] acc = Inr acc"
| "transitive_loop bp (source # zs) acc =
     bind_r (findNetworkPaths bp (tz_id source) no_path_options) (\<lambda>paths.
     transitive_loop bp zs (acc @ concat (map (path_violations bp source) paths)))"

definition transitiveNetworkPolicy :: "platform_blueprint \<Rightarrow> string + blueprint_violation list" where
  "transitiveNetworkPolicy bp =
     bind_r (transitive_loop bp (bp_trustZones bp) []) (\<lambda>vs. Inr (deduplicateViolations vs))"

subsection \<open>Workload planes\<close>

definition workloadCapabilities :: "workload_plane \<Rightarrow> platform_capability list" where
  "workloadCapabilities w =
     flag (wp_workloadIdentity w) WorkloadIdentity @
     flag (wp_orchestrator w = ManagedKubernetes \<and> \<not> wp_controlPlanePublic w) PrivateControlPlane @
     flag (wp_orchestrator w = OrchMicrovm \<or> wp_runtimeIsolation w = IsoMicrovm) MicrovmRuntime @
     flag (wp_orchestrator w = OrchExternalSandbox) ExternalSandbox @
     flag (wp_orchestrator w = Serverless) ServerlessRuntime"

text \<open>\<open>!workload.maxExecutionMinutes\<close>: absent or zero.\<close>

definition unset_number :: "int option \<Rightarrow> bool" where
  "unset_number x = (case x of None \<Rightarrow> True | Some n \<Rightarrow> n = 0)"

definition workload_violations :: "platform_blueprint \<Rightarrow> workload_plane \<Rightarrow> blueprint_violation list" where
  "workload_violations bp w =
     (let name = squote (wp_id w)
      in flag (sp_forbidPublicControlPlanes (bp_posture bp) \<and> wp_controlPlanePublic w)
           (critical ''WORKLOAD_PUBLIC_CONTROL_PLANE'' (''Workload plane '' @ name @ '' must not expose its control plane publicly.'')) @
         flag (\<not> wp_workloadIdentity w)
           (critical ''WORKLOAD_IDENTITY_MISSING'' (''Workload plane '' @ name @ '' must use workload identity.'')) @
         (if wp_executionTrust w = ExecUntrusted
          then
            flag (kind_of bp (wp_zoneId w) \<noteq> Some ZoneExecution)
              (critical ''WORKLOAD_UNTRUSTED_ZONE''
                (''Untrusted workload plane '' @ name @ '' must be placed in an execution trust zone.'')) @
            flag (wp_credentialMode w \<noteq> CredBrokered)
              (critical ''WORKLOAD_UNBROKERED_CREDENTIALS'' (''Untrusted workload plane '' @ name @ '' must use brokered credentials.'')) @
            flag (wp_runtimeIsolation w \<noteq> IsoMicrovm \<and> wp_runtimeIsolation w \<noteq> IsoDedicatedVm)
              (critical ''WORKLOAD_WEAK_RUNTIME_ISOLATION''
                (''Untrusted workload plane '' @ name @ '' requires microVM or dedicated-VM isolation.'')) @
            flag (unset_number (wp_maxExecutionMinutes w))
              (high ''WORKLOAD_UNBOUNDED_EXECUTION''
                (''Untrusted workload plane '' @ name @ '' must declare a maximum execution duration.''))
          else
            flag (wp_credentialMode w = CredAmbient)
              (critical ''WORKLOAD_AMBIENT_CREDENTIALS'' (''Workload plane '' @ name @ '' must not use ambient credentials.''))) @
         concat (map (\<lambda>c. flag (c \<notin> set (bp_requiredCapabilities bp))
             (critical ''WORKLOAD_CAPABILITY_UNDECLARED''
               (''Workload plane '' @ name @ '' requires capability '' @ squote (platform_capability_text c) @
                '', but the blueprint does not declare it.''))) (workloadCapabilities w)))"

definition workloadPlanePolicy :: "platform_blueprint \<Rightarrow> blueprint_violation list" where
  "workloadPlanePolicy bp = concat (map (workload_violations bp) (bp_workloadPlanes bp))"

end
