(* ===== verification/ApplicationPolicy.thy ===== *)
theory ApplicationPolicy
  imports StructuralPolicy
begin

section \<open>The application deployment policy\<close>

text \<open>
  \<open>applicationDeploymentPolicy\<close> of \<open>src/core/policy.ts\<close>, one definition per loop or group of checks, in
  the order in which the source pushes the violations.
\<close>

definition plane_of :: "platform_blueprint \<Rightarrow> string \<Rightarrow> workload_plane option" where
  "plane_of bp = index_by wp_id (bp_workloadPlanes bp)"

definition identity_of :: "platform_blueprint \<Rightarrow> string \<Rightarrow> platform_identity option" where
  "identity_of bp = index_by idn_id (bp_identities bp)"

definition boundary_of :: "platform_blueprint \<Rightarrow> string \<Rightarrow> data_boundary option" where
  "boundary_of bp = index_by db_id (bp_dataBoundaries bp)"

definition application_of :: "platform_blueprint \<Rightarrow> string \<Rightarrow> application_deployment option" where
  "application_of bp = index_by ap_id (bp_applications bp)"

text \<open>\<open>!identity || identity.kind !== "workload" || !identity.shortLived\<close>\<close>

definition weak_service_identity :: "platform_identity option \<Rightarrow> bool" where
  "weak_service_identity x =
     (case x of None \<Rightarrow> True | Some i \<Rightarrow> idn_kind i \<noteq> IdWorkload \<or> \<not> idn_shortLived i)"

definition weak_availability :: "int \<Rightarrow> availability \<Rightarrow> bool" where
  "weak_availability lo a \<longleftrightarrow> av_minimumReplicas a < lo \<or> av_minimumReplicas a \<le> av_maximumUnavailable a"

definition shared_violations :: "platform_blueprint \<Rightarrow> blueprint_violation list" where
  "shared_violations bp =
     map (\<lambda>i. critical ''APP_SHARED_SERVICE_IDENTITY''
         (''Service identity '' @ squote i @ '' cannot be shared by multiple application deployments.''))
       (duplicateValues (map ap_serviceIdentityId (bp_applications bp))) @
     map (\<lambda>b. critical ''APP_SHARED_DATA_BOUNDARY''
         (''Data boundary '' @ squote b @ '' cannot be implicitly shared by multiple application deployments.''))
       (duplicateValues (concat (map ap_dataBoundaryIds (bp_applications bp)))) @
     map (\<lambda>i. critical ''APP_SHARED_COMPONENT_IDENTITY''
         (''Component service identity '' @ squote i @ '' cannot be shared by multiple application components.''))
       (duplicateValues (concat (map (\<lambda>a. map cp_serviceIdentityId (ap_components a)) (bp_applications bp)))) @
     map (\<lambda>b. critical ''APP_SHARED_COMPONENT_DATA''
         (''Data boundary '' @ squote b @ '' cannot be implicitly shared by multiple application components.''))
       (duplicateValues (concat (map (\<lambda>a. concat (map cp_dataBoundaryIds (ap_components a))) (bp_applications bp))))"

definition application_posture_violations :: "platform_blueprint \<Rightarrow> application_deployment \<Rightarrow> blueprint_violation list" where
  "application_posture_violations bp a =
     (case plane_of bp (ap_workloadPlaneId a) of
        None \<Rightarrow> [critical ''APP_UNKNOWN_WORKLOAD_PLANE''
          (''Application '' @ squote (ap_id a) @ '' references unknown workload plane '' @ squote (ap_workloadPlaneId a) @ ''.'')]
      | Some w \<Rightarrow> flag (\<not> same_scope (wp_tenantScope w) (ap_tenantScope a)) (critical ''APP_SCOPE_MISMATCH''
          (''Application '' @ squote (ap_id a) @ '' and its workload plane have different tenant scopes.''))) @
     flag (weak_service_identity (identity_of bp (ap_serviceIdentityId a))) (critical ''APP_IDENTITY_POSTURE''
       (''Application '' @ squote (ap_id a) @ '' requires a short-lived workload service identity.'')) @
     map (\<lambda>c. critical ''APP_DUPLICATE_COMPONENT''
         (''Application '' @ squote (ap_id a) @ '' has duplicate component '' @ squote c @ ''.''))
       (duplicateValues (map cp_id (ap_components a))) @
     flag (\<not> same_strings (sort_strings (js_uniq (concat (map cp_dataBoundaryIds (ap_components a)))))
                (sort_strings (ap_dataBoundaryIds a)))
       (critical ''APP_COMPONENT_DATA_COVERAGE''
         (''Application '' @ squote (ap_id a) @ '' data boundaries must exactly equal component-owned data boundaries.''))"

definition component_violations :: "platform_blueprint \<Rightarrow> application_deployment \<Rightarrow> application_component \<Rightarrow> blueprint_violation list" where
  "component_violations bp a c =
     (let name = ''Application '' @ squote (ap_id a) @ '' component '' @ squote (cp_id c)
      in flag (case plane_of bp (cp_workloadPlaneId c) of
              None \<Rightarrow> True
            | Some w \<Rightarrow> \<not> same_scope (wp_tenantScope w) (ap_tenantScope a))
           (critical ''APP_COMPONENT_WORKLOAD_POSTURE'' (name @ '' requires a matching workload plane.'')) @
         flag (weak_service_identity (identity_of bp (cp_serviceIdentityId c)))
           (critical ''APP_COMPONENT_IDENTITY_POSTURE'' (name @ '' requires a short-lived workload identity.'')) @
         flag (weak_availability 1 (cp_availability c))
           (high ''APP_COMPONENT_AVAILABILITY_POSTURE''
             (name @ '' must retain at least one available replica during disruption.'')) @
         concat (map (\<lambda>b. flag (case boundary_of bp b of
              None \<Rightarrow> True
            | Some d \<Rightarrow> \<not> same_scope (db_tenantScope d) (ap_tenantScope a))
             (critical ''APP_COMPONENT_DATA_POSTURE'' (name @ '' has invalid data boundary '' @ squote b @ ''.'')))
           (cp_dataBoundaryIds c)))"

definition application_data_violations :: "platform_blueprint \<Rightarrow> application_deployment \<Rightarrow> blueprint_violation list" where
  "application_data_violations bp a =
     concat (map (\<lambda>b. case boundary_of bp b of
         None \<Rightarrow> [critical ''APP_UNKNOWN_DATA_BOUNDARY''
           (''Application '' @ squote (ap_id a) @ '' references unknown data boundary '' @ squote b @ ''.'')]
       | Some d \<Rightarrow> flag (\<not> same_scope (db_tenantScope d) (ap_tenantScope a)) (critical ''APP_DATA_SCOPE_MISMATCH''
           (''Application '' @ squote (ap_id a) @ '' cannot attach data boundary '' @ squote b @
            '' with a different tenant scope.'')))
       (ap_dataBoundaryIds a))"

text \<open>The loop over the component dependencies, with the keys seen so far.\<close>

definition dependency_key :: "component_dependency \<Rightarrow> string" where
  "dependency_key d = cd_fromComponentId d @ '':'' @ cd_toComponentId d @ '':'' @ cd_audience d"

fun component_dependency_violations ::
  "application_deployment \<Rightarrow> string list \<Rightarrow> component_dependency list \<Rightarrow> blueprint_violation list"
where
  "component_dependency_violations a keys [] = []"
| "component_dependency_violations a keys (d # ds) =
     flag (cd_fromComponentId d = cd_toComponentId d \<or>
           cd_fromComponentId d \<notin> set (map cp_id (ap_components a)) \<or>
           cd_toComponentId d \<notin> set (map cp_id (ap_components a)) \<or>
           cd_actions d = [] \<or> cd_audience d = [] \<or> dependency_key d \<in> set keys)
       (critical ''APP_COMPONENT_DEPENDENCY_INVALID''
         (''Application '' @ squote (ap_id a) @ '' has an invalid component dependency '' @ squote (cd_fromComponentId d) @
          '' -> '' @ squote (cd_toComponentId d) @ ''.'')) @
     component_dependency_violations a (dependency_key d # keys) ds"

definition application_release_violations :: "application_deployment \<Rightarrow> blueprint_violation list" where
  "application_release_violations a =
     flag (weak_availability 2 (ap_availability a)) (high ''APP_AVAILABILITY_POSTURE''
       (''Application '' @ squote (ap_id a) @ '' must retain at least one available replica during disruption.'')) @
     flag (\<not> rl_digestPinnedImages (ap_release a) \<or> \<not> rl_signatureVerification (ap_release a) \<or>
           \<not> rl_provenanceVerification (ap_release a) \<or> \<not> rl_rollbackRequired (ap_release a))
       (critical ''APP_RELEASE_POSTURE''
         (''Application '' @ squote (ap_id a) @
          '' requires digest pinning, signature and provenance verification, and rollback.''))"

definition dependency_violations :: "platform_blueprint \<Rightarrow> application_deployment \<Rightarrow> blueprint_violation list" where
  "dependency_violations bp a =
     concat (map (\<lambda>d.
       flag (ad_deploymentId d = ap_id a \<or>
             (case application_of bp (ad_deploymentId d) of
                None \<Rightarrow> True
              | Some target \<Rightarrow>
                  ad_fromComponentId d \<notin> set (map cp_id (ap_components a)) \<or>
                  \<not> (\<exists>c \<in> set (ap_components target). cp_id c = ad_toComponentId d) \<or>
                  ad_actions d = [] \<or> ad_audience d = []))
         (critical ''APP_DEPENDENCY_INVALID''
           (''Application '' @ squote (ap_id a) @ '' has an invalid dependency on '' @ squote (ad_deploymentId d) @ ''.'')))
       (ap_dependencies a))"

definition application_evidence_violations :: "platform_blueprint \<Rightarrow> application_deployment \<Rightarrow> blueprint_violation list" where
  "application_evidence_violations bp a =
     flag (List.find (\<lambda>r. ap_id a \<in> set (eq_sourceIds r) \<and> ''deployment'' \<in> set (eq_eventTypes r) \<and>
                          ''authorization'' \<in> set (eq_eventTypes r)) (bp_evidenceRequirements bp) = None)
       (high ''APP_EVIDENCE_MISSING''
         (''Application '' @ squote (ap_id a) @ '' requires deployment and authorization evidence.''))"

definition application_violations :: "platform_blueprint \<Rightarrow> application_deployment \<Rightarrow> blueprint_violation list" where
  "application_violations bp a =
     application_posture_violations bp a @
     concat (map (component_violations bp a) (ap_components a)) @
     application_data_violations bp a @
     component_dependency_violations a [] (ap_componentDependencies a) @
     application_release_violations a @
     dependency_violations bp a @
     application_evidence_violations bp a"

definition applicationDeploymentPolicy :: "platform_blueprint \<Rightarrow> blueprint_violation list" where
  "applicationDeploymentPolicy bp =
     shared_violations bp @ concat (map (application_violations bp) (bp_applications bp))"

end
