(* ===== verification/Entitlements.thy ===== *)
theory Entitlements
  imports Blueprint
begin

section \<open>Effective entitlements\<close>

text \<open>
  \<open>src/core/entitlements.ts\<close>.  \<open>analyzeEntitlements\<close> follows the delegations from every identity
  and decides each allow grant that is found against all deny grants found for the same
  principal.  \<open>reachable_loop\<close> is the search of \<open>reachableIdentities\<close>; it throws when it has more
  than 1000 delegation paths, which is also why it ends.
\<close>

record reachable_identity =
  ri_identityId :: string
  ri_viaIdentityIds :: "string list"
  ri_delegationIds :: "string list"
  ri_delegationConditions :: "string obj list"

record effective_entitlement =
  en_principalId :: string
  en_effectiveIdentityId :: string
  en_viaIdentityIds :: "string list"
  en_delegationIds :: "string list"
  en_delegationConditions :: "string obj list"
  en_grantId :: string
  en_resourceId :: string
  en_action :: string
  en_tenantId :: "string option"
  en_decision :: grant_effect
  en_deniedByGrantIds :: "string list"
  en_grantConditions :: "string obj option"

definition resourceMatches :: "string list \<Rightarrow> string \<Rightarrow> bool" where
  "resourceMatches resources requested \<longleftrightarrow> ''*'' \<in> set resources \<or> requested \<in> set resources"

definition actionMatches :: "string list \<Rightarrow> string \<Rightarrow> bool" where
  "actionMatches actions requested \<longleftrightarrow>
     (\<exists>action \<in> set actions.
        if action = ''*'' \<or> action = ''*:*'' \<or> action = requested then True
        else if \<not> ends_with action '':*'' then False
        else starts_with requested (butlast action))"

subsection \<open>Identities reachable by delegation\<close>

definition delegations_of :: "identity_delegation list \<Rightarrow> string \<Rightarrow> identity_delegation list" where
  "delegations_of ds i = or_empty (groupBy dg_fromIdentityId ds i)"

definition delegate_to :: "reachable_identity \<Rightarrow> identity_delegation \<Rightarrow> reachable_identity" where
  "delegate_to r d =
     \<lparr>ri_identityId = dg_toIdentityId d, ri_viaIdentityIds = ri_viaIdentityIds r @ [dg_toIdentityId d],
      ri_delegationIds = ri_delegationIds r @ [dg_id d],
      ri_delegationConditions = ri_delegationConditions r @ [or_empty (dg_conditions d)]\<rparr>"

definition delegated :: "identity_delegation list \<Rightarrow> reachable_identity \<Rightarrow> reachable_identity list" where
  "delegated ds r =
     map (delegate_to r)
       (filter (\<lambda>d. dg_toIdentityId d \<notin> set (ri_viaIdentityIds r)) (delegations_of ds (ri_identityId r)))"

definition max_delegation_paths :: nat where
  "max_delegation_paths = 1000"

definition too_many_delegations :: "string \<Rightarrow> string" where
  "too_many_delegations i =
     ''Entitlement analysis exceeded '' @ nat_dec max_delegation_paths @ '' delegation paths from '' @ squote i @
     ''; reduce graph complexity before deployment.''"

function reachable_loop ::
  "string \<Rightarrow> identity_delegation list \<Rightarrow> reachable_identity list \<Rightarrow> reachable_identity list \<Rightarrow>
   string + reachable_identity list"
where
  "reachable_loop i ds [] reachable = Inr reachable"
| "reachable_loop i ds (r # queue) reachable =
     (if max_delegation_paths \<le> length reachable then Inl (too_many_delegations i)
      else reachable_loop i ds (queue @ delegated ds r) (reachable @ [r]))"
  by pat_completeness auto
termination
  by (relation "measure (\<lambda>(i, ds, q, rs). Suc max_delegation_paths - length rs)") auto

definition self_identity :: "string \<Rightarrow> reachable_identity" where
  "self_identity i =
     \<lparr>ri_identityId = i, ri_viaIdentityIds = [i], ri_delegationIds = [], ri_delegationConditions = []\<rparr>"

definition reachableIdentities :: "string \<Rightarrow> identity_delegation list \<Rightarrow> string + reachable_identity list" where
  "reachableIdentities i ds = reachable_loop i ds [self_identity i] []"

subsection \<open>Entitlements of a principal\<close>

definition grants_of :: "identity_grant list \<Rightarrow> string \<Rightarrow> identity_grant list" where
  "grants_of gs i = or_empty (groupBy gr_identityId gs i)"

definition denies_of :: "identity_grant list \<Rightarrow> reachable_identity list \<Rightarrow> identity_grant list" where
  "denies_of gs reachable =
     concat (map (\<lambda>r. filter (\<lambda>g. gr_effect g = EffectDeny) (grants_of gs (ri_identityId r))) reachable)"

definition denied_by :: "identity_grant list \<Rightarrow> string \<Rightarrow> string \<Rightarrow> string list" where
  "denied_by denies resource action =
     js_uniq (map gr_id (filter (\<lambda>deny. resourceMatches (gr_resourceIds deny) resource \<and>
                                          actionMatches (gr_actions deny) action) denies))"

definition entitlement_of ::
  "string \<Rightarrow> identity_grant list \<Rightarrow> reachable_identity \<Rightarrow> identity_grant \<Rightarrow> string \<Rightarrow> string \<Rightarrow> effective_entitlement"
where
  "entitlement_of who denies r allow resource action =
     (let deniedBy = denied_by denies resource action
      in \<lparr>en_principalId = who, en_effectiveIdentityId = ri_identityId r,
          en_viaIdentityIds = ri_viaIdentityIds r, en_delegationIds = ri_delegationIds r,
          en_delegationConditions = ri_delegationConditions r, en_grantId = gr_id allow, en_resourceId = resource,
          en_action = action, en_tenantId = gr_tenantId allow,
          en_decision = (if deniedBy \<noteq> [] then EffectDeny else EffectAllow), en_deniedByGrantIds = deniedBy,
          en_grantConditions = gr_conditions allow\<rparr>)"

definition principal_entitlements ::
  "identity_grant list \<Rightarrow> string \<Rightarrow> reachable_identity list \<Rightarrow> effective_entitlement list"
where
  "principal_entitlements gs who reachable =
     concat (map (\<lambda>r.
       concat (map (\<lambda>allow.
         concat (map (\<lambda>resource.
           map (entitlement_of who (denies_of gs reachable) r allow resource) (gr_actions allow))
           (gr_resourceIds allow)))
         (filter (\<lambda>g. gr_effect g = EffectAllow) (grants_of gs (ri_identityId r)))))
       reachable)"

fun entitlements_loop :: "platform_blueprint \<Rightarrow> platform_identity list \<Rightarrow> effective_entitlement list \<Rightarrow>
  string + effective_entitlement list"
where
  "entitlements_loop bp [] acc = Inr acc"
| "entitlements_loop bp (p # ps) acc =
     bind_r (reachableIdentities (idn_id p) (bp_identityDelegations bp)) (\<lambda>reachable.
     entitlements_loop bp ps (acc @ principal_entitlements (bp_grants bp) (idn_id p) reachable))"

definition analyzeEntitlements :: "platform_blueprint \<Rightarrow> string + effective_entitlement list" where
  "analyzeEntitlements bp = entitlements_loop bp (bp_identities bp) []"

subsection \<open>Delegation paths\<close>

text \<open>
  A delegation path from an identity visits no identity twice; \<open>reachableIdentities\<close> finds exactly
  these, and throws exactly when there are more than 1000 of them.
\<close>

inductive delegation_path :: "identity_delegation list \<Rightarrow> string \<Rightarrow> reachable_identity \<Rightarrow> bool" for ds i where
  start: "delegation_path ds i (self_identity i)"
| extend: "delegation_path ds i r \<Longrightarrow> d \<in> set ds \<Longrightarrow> dg_fromIdentityId d = ri_identityId r \<Longrightarrow>
    dg_toIdentityId d \<notin> set (ri_viaIdentityIds r) \<Longrightarrow> delegation_path ds i (delegate_to r d)"

lemma delegated_iff:
  "r' \<in> set (delegated ds r) \<longleftrightarrow>
     (\<exists>d \<in> set ds. dg_fromIdentityId d = ri_identityId r \<and> dg_toIdentityId d \<notin> set (ri_viaIdentityIds r) \<and>
        r' = delegate_to r d)"
  by (auto simp: delegated_def delegations_of_def groupBy_filter)

lemma reachable_loop_sound:
  "reachable_loop i ds q acc = Inr rs \<Longrightarrow> \<forall>r \<in> set q. delegation_path ds i r \<Longrightarrow>
   \<forall>r \<in> set acc. delegation_path ds i r \<Longrightarrow> \<forall>r \<in> set rs. delegation_path ds i r"
proof (induction i ds q acc rule: reachable_loop.induct)
  case (2 i ds r queue acc)
  from "2.prems"(1) have rest: "\<not> max_delegation_paths \<le> length acc"
    "reachable_loop i ds (queue @ delegated ds r) (acc @ [r]) = Inr rs" by (auto split: if_splits)
  have "\<forall>r' \<in> set (delegated ds r). delegation_path ds i r'"
    using "2.prems"(2) by (auto simp: delegated_iff intro: delegation_path.extend)
  with "2.prems" show ?case by (intro "2.IH" [OF rest]) auto
qed simp

lemma reachable_loop_closed:
  "reachable_loop i ds q acc = Inr rs \<Longrightarrow> \<forall>r \<in> set acc. set (delegated ds r) \<subseteq> set acc \<union> set q \<Longrightarrow>
   set acc \<union> set q \<subseteq> set rs \<and> (\<forall>r \<in> set rs. set (delegated ds r) \<subseteq> set rs)"
proof (induction i ds q acc rule: reachable_loop.induct)
  case (2 i ds r queue acc)
  then have "reachable_loop i ds (queue @ delegated ds r) (acc @ [r]) = Inr rs" "\<not> max_delegation_paths \<le> length acc"
    by (auto split: if_splits)
  moreover have "\<forall>r' \<in> set (acc @ [r]). set (delegated ds r') \<subseteq> set (acc @ [r]) \<union> set (queue @ delegated ds r)"
    using "2.prems"(2) by auto
  ultimately show ?case using "2.IH" by simp
qed simp

lemma reachable_iff:
  assumes "reachableIdentities i ds = Inr rs"
  shows "r \<in> set rs \<longleftrightarrow> delegation_path ds i r"
proof
  assume "r \<in> set rs"
  with reachable_loop_sound [OF assms [unfolded reachableIdentities_def]] show "delegation_path ds i r"
    by (simp add: delegation_path.start)
next
  have closed: "self_identity i \<in> set rs" "\<And>r. r \<in> set rs \<Longrightarrow> set (delegated ds r) \<subseteq> set rs"
    using reachable_loop_closed [OF assms [unfolded reachableIdentities_def]] by auto
  assume "delegation_path ds i r"
  then show "r \<in> set rs"
  proof (induction rule: delegation_path.induct)
    case (extend r d)
    then have "delegate_to r d \<in> set (delegated ds r)" by (auto simp: delegated_iff)
    with closed(2) [OF extend.IH] show ?case by blast
  qed (rule closed(1))
qed

text \<open>A connection over delegations can be shortened to such a path.\<close>

definition delegates :: "identity_delegation list \<Rightarrow> (string \<times> string) set" where
  "delegates ds = {(a, b). \<exists>d \<in> set ds. dg_fromIdentityId d = a \<and> dg_toIdentityId d = b}"

lemma delegate_to_simps [simp]:
  "ri_identityId (delegate_to r d) = dg_toIdentityId d"
  "ri_viaIdentityIds (delegate_to r d) = ri_viaIdentityIds r @ [dg_toIdentityId d]"
  by (simp_all add: delegate_to_def)

lemma self_identity_simps [simp]: "ri_identityId (self_identity i) = i" "ri_viaIdentityIds (self_identity i) = [i]"
  by (simp_all add: self_identity_def)

lemma path_last: "delegation_path ds i r \<Longrightarrow> ri_viaIdentityIds r \<noteq> [] \<and> last (ri_viaIdentityIds r) = ri_identityId r"
  by (induction rule: delegation_path.induct) auto

lemma path_prefix:
  "delegation_path ds i r \<Longrightarrow> j \<in> set (ri_viaIdentityIds r) \<Longrightarrow> \<exists>r'. delegation_path ds i r' \<and> ri_identityId r' = j"
proof (induction rule: delegation_path.induct)
  case start
  then show ?case by (intro exI [of _ "self_identity i"]) (simp add: delegation_path.start)
next
  case (extend r d)
  then show ?case
    by (cases "j = dg_toIdentityId d")
      (auto intro: exI [of _ "delegate_to r d"] delegation_path.extend)
qed

lemma delegation_reach: "(i, j) \<in> (delegates ds)\<^sup>* \<longleftrightarrow> (\<exists>r. delegation_path ds i r \<and> ri_identityId r = j)"
proof
  assume "(i, j) \<in> (delegates ds)\<^sup>*"
  then show "\<exists>r. delegation_path ds i r \<and> ri_identityId r = j"
  proof (induction rule: rtrancl_induct)
    case base
    show ?case by (intro exI [of _ "self_identity i"]) (simp add: delegation_path.start)
  next
    case (step j k)
    then obtain r d where r: "delegation_path ds i r" "ri_identityId r = j"
      and d: "d \<in> set ds" "dg_fromIdentityId d = j" "dg_toIdentityId d = k" by (auto simp: delegates_def)
    show ?case
    proof (cases "k \<in> set (ri_viaIdentityIds r)")
      case True
      with r(1) show ?thesis by (rule path_prefix)
    next
      case False
      with r d show ?thesis by (intro exI [of _ "delegate_to r d"]) (auto intro: delegation_path.extend)
    qed
  qed
next
  assume "\<exists>r. delegation_path ds i r \<and> ri_identityId r = j"
  then obtain r where "delegation_path ds i r" "ri_identityId r = j" by blast
  then show "(i, j) \<in> (delegates ds)\<^sup>*"
  proof (induction arbitrary: j rule: delegation_path.induct)
    case (extend r d)
    then have "(ri_identityId r, dg_toIdentityId d) \<in> delegates ds" by (auto simp: delegates_def)
    with extend show ?case by (auto intro: rtrancl_into_rtrancl)
  qed simp
qed

subsection \<open>Decisions\<close>

lemma grants_of_iff: "g \<in> set (grants_of gs i) \<longleftrightarrow> g \<in> set gs \<and> gr_identityId g = i"
  by (simp add: grants_of_def groupBy_filter)

lemma denies_iff:
  "g \<in> set (denies_of gs rs) \<longleftrightarrow> g \<in> set gs \<and> gr_effect g = EffectDeny \<and> (\<exists>r \<in> set rs. ri_identityId r = gr_identityId g)"
  by (auto simp: denies_of_def grants_of_iff) metis

lemma principal_entitlements_iff:
  "e \<in> set (principal_entitlements gs p rs) \<longleftrightarrow>
     (\<exists>r \<in> set rs. \<exists>g \<in> set gs. gr_effect g = EffectAllow \<and> gr_identityId g = ri_identityId r \<and>
        (\<exists>resource \<in> set (gr_resourceIds g). \<exists>action \<in> set (gr_actions g).
           e = entitlement_of p (denies_of gs rs) r g resource action))"
  by (auto simp: principal_entitlements_def grants_of_iff)

lemma entitlements_loop_iff:
  "entitlements_loop bp ps acc = Inr es \<Longrightarrow>
   e \<in> set es \<longleftrightarrow> e \<in> set acc \<or> (\<exists>p \<in> set ps. \<exists>rs. reachableIdentities (idn_id p) (bp_identityDelegations bp) = Inr rs \<and>
      e \<in> set (principal_entitlements (bp_grants bp) (idn_id p) rs))"
  by (induction bp ps acc rule: entitlements_loop.induct) (auto simp: result_simps)

lemma entitlements_loop_reachable:
  "entitlements_loop bp ps acc = Inr es \<Longrightarrow> p \<in> set ps \<Longrightarrow>
   \<exists>rs. reachableIdentities (idn_id p) (bp_identityDelegations bp) = Inr rs"
  by (induction bp ps acc rule: entitlements_loop.induct) (auto simp: result_simps)

lemma denied_by_iff:
  "denied_by denies resource action = [] \<longleftrightarrow>
     \<not> (\<exists>g \<in> set denies. resourceMatches (gr_resourceIds g) resource \<and> actionMatches (gr_actions g) action)"
  by (auto simp: denied_by_def filter_empty_conv)

lemma entitlement_of_simps [simp]:
  "en_principalId (entitlement_of p ds r g res act) = p" "en_grantId (entitlement_of p ds r g res act) = gr_id g"
  "en_resourceId (entitlement_of p ds r g res act) = res" "en_action (entitlement_of p ds r g res act) = act"
  "en_effectiveIdentityId (entitlement_of p ds r g res act) = ri_identityId r"
  "en_viaIdentityIds (entitlement_of p ds r g res act) = ri_viaIdentityIds r"
  "en_decision (entitlement_of p ds r g res act) = EffectAllow \<longleftrightarrow> denied_by ds res act = []"
  "en_deniedByGrantIds (entitlement_of p ds r g res act) = denied_by ds res act"
  by (simp_all add: entitlement_of_def Let_def)

text \<open>The declarative decision for a principal: some identity it can act as allows the action, and none denies it.\<close>

definition may_act :: "platform_blueprint \<Rightarrow> string \<Rightarrow> identity_grant \<Rightarrow> string \<Rightarrow> string \<Rightarrow> bool" where
  "may_act bp p g resource action \<longleftrightarrow>
     g \<in> set (bp_grants bp) \<and> gr_effect g = EffectAllow \<and> resource \<in> set (gr_resourceIds g) \<and>
     action \<in> set (gr_actions g) \<and> (p, gr_identityId g) \<in> (delegates (bp_identityDelegations bp))\<^sup>*"

definition denied_for :: "platform_blueprint \<Rightarrow> string \<Rightarrow> string \<Rightarrow> string \<Rightarrow> bool" where
  "denied_for bp p resource action \<longleftrightarrow>
     (\<exists>g \<in> set (bp_grants bp). gr_effect g = EffectDeny \<and> resourceMatches (gr_resourceIds g) resource \<and>
        actionMatches (gr_actions g) action \<and> (p, gr_identityId g) \<in> (delegates (bp_identityDelegations bp))\<^sup>*)"

lemma entitlement_exists:
  assumes "analyzeEntitlements bp = Inr es" "p \<in> set (bp_identities bp)" "may_act bp (idn_id p) g resource action"
  shows "\<exists>e \<in> set es. en_principalId e = idn_id p \<and> en_grantId e = gr_id g \<and> en_resourceId e = resource \<and>
    en_action e = action \<and> en_effectiveIdentityId e = gr_identityId g \<and>
    (en_decision e = EffectAllow \<longleftrightarrow> \<not> denied_for bp (idn_id p) resource action)"
proof -
  note loop = assms(1) [unfolded analyzeEntitlements_def]
  from entitlements_loop_reachable [OF loop assms(2)] obtain rs
    where rs: "reachableIdentities (idn_id p) (bp_identityDelegations bp) = Inr rs" by blast
  from assms(3) obtain r where r: "r \<in> set rs" "ri_identityId r = gr_identityId g"
    by (auto simp: may_act_def delegation_reach reachable_iff [OF rs])
  let ?e = "entitlement_of (idn_id p) (denies_of (bp_grants bp) rs) r g resource action"
  have "?e \<in> set (principal_entitlements (bp_grants bp) (idn_id p) rs)"
    using assms(3) r unfolding principal_entitlements_iff may_act_def by metis
  with assms(2) rs have "?e \<in> set es" unfolding entitlements_loop_iff [OF loop] by blast
  moreover have "denied_by (denies_of (bp_grants bp) rs) resource action = [] \<longleftrightarrow> \<not> denied_for bp (idn_id p) resource action"
    unfolding denied_by_iff denied_for_def Bex_def denies_iff reachable_iff [OF rs] delegation_reach by metis
  ultimately show ?thesis using r(2) by (intro bexI [of _ ?e]) simp_all
qed

lemma entitlement_sound:
  assumes "analyzeEntitlements bp = Inr es" "e \<in> set es"
  shows "\<exists>p \<in> set (bp_identities bp). \<exists>g. en_principalId e = idn_id p \<and> en_grantId e = gr_id g \<and>
    may_act bp (idn_id p) g (en_resourceId e) (en_action e) \<and>
    (en_decision e = EffectAllow \<longleftrightarrow> \<not> denied_for bp (idn_id p) (en_resourceId e) (en_action e))"
proof -
  note loop = assms(1) [unfolded analyzeEntitlements_def]
  from assms(2) obtain p rs where p: "p \<in> set (bp_identities bp)"
    and rs: "reachableIdentities (idn_id p) (bp_identityDelegations bp) = Inr rs"
    and e: "e \<in> set (principal_entitlements (bp_grants bp) (idn_id p) rs)"
    by (auto simp: entitlements_loop_iff [OF loop])
  from e obtain r g resource action where g: "r \<in> set rs" "g \<in> set (bp_grants bp)" "gr_effect g = EffectAllow"
    "gr_identityId g = ri_identityId r" "resource \<in> set (gr_resourceIds g)" "action \<in> set (gr_actions g)"
    "e = entitlement_of (idn_id p) (denies_of (bp_grants bp) rs) r g resource action"
    unfolding principal_entitlements_iff by blast
  have "may_act bp (idn_id p) g resource action"
    using g by (auto simp: may_act_def delegation_reach reachable_iff [OF rs])
  moreover have "denied_by (denies_of (bp_grants bp) rs) resource action = [] \<longleftrightarrow> \<not> denied_for bp (idn_id p) resource action"
    unfolding denied_by_iff denied_for_def Bex_def denies_iff reachable_iff [OF rs] delegation_reach by metis
  ultimately show ?thesis using p g(7) by (intro bexI [OF _ p] exI [of _ g]) simp
qed

end
