(* ===== verification/TenantPolicy.thy ===== *)
theory TenantPolicy
  imports NetworkPolicy ApplicationPolicy Entitlements
begin

section \<open>The tenant, data, identity and evidence policies\<close>

text \<open>
  \<open>tenantIsolationPolicy\<close>, \<open>dataProtectionPolicy\<close>, \<open>identityPolicy\<close> and \<open>evidencePolicy\<close> of
  \<open>src/core/policy.ts\<close>.  \<open>Date.parse\<close> accepts more formats than ECMAScript specifies, so it is the
  argument \<open>date_parse\<close> (\<open>None\<close> for \<open>NaN\<close>); \<open>now\<close> is \<open>Date.now()\<close>.
\<close>

subsection \<open>Tenants\<close>

definition tenant_reference_violations :: "platform_blueprint \<Rightarrow> tenant_placement \<Rightarrow> blueprint_violation list" where
  "tenant_reference_violations bp t =
     flag (tp_zoneIds t = [] \<or> tp_dataBoundaryIds t = []) (critical ''TENANT_INCOMPLETE_PLACEMENT''
       (''Tenant '' @ squote (tp_tenantId t) @ '' must have compute/network and data placement.'')) @
     concat (map (\<lambda>z. flag (\<not> scopeContainsTenant (map_option tz_tenantScope (zone_of bp z)) (tp_tenantId t))
         (critical ''TENANT_ZONE_SCOPE_MISMATCH''
           (''Zone '' @ squote z @ '' does not include tenant '' @ squote (tp_tenantId t) @ ''.''))) (tp_zoneIds t)) @
     concat (map (\<lambda>d. flag (\<not> scopeContainsTenant (map_option db_tenantScope (boundary_of bp d)) (tp_tenantId t))
         (critical ''TENANT_DATA_SCOPE_MISMATCH''
           (''Data boundary '' @ squote d @ '' does not include tenant '' @ squote (tp_tenantId t) @ ''.'')))
       (tp_dataBoundaryIds t)) @
     concat (map (\<lambda>i. flag (Option.bind (identity_of bp i) idn_tenantId \<noteq> Some (tp_tenantId t))
         (critical ''TENANT_IDENTITY_SCOPE_MISMATCH''
           (''Identity '' @ squote i @ '' is not scoped to tenant '' @ squote (tp_tenantId t) @ ''.''))) (tp_identityIds t))"

definition undedicated_zone :: "trust_zone option \<Rightarrow> bool" where
  "undedicated_zone x =
     (case x of
        None \<Rightarrow> True
      | Some z \<Rightarrow> \<not> truthy (tz_isolationBoundary z) \<or>
          (case tz_tenantScope z of DedicatedScope _ \<Rightarrow> False | _ \<Rightarrow> True))"

definition shared_key :: "data_boundary option \<Rightarrow> bool" where
  "shared_key x = (case x of None \<Rightarrow> True | Some d \<Rightarrow> \<not> er_dedicatedPerTenant (db_encryption d))"

definition tenant_violations :: "platform_blueprint \<Rightarrow> tenant_placement \<Rightarrow> blueprint_violation list" where
  "tenant_violations bp t =
     tenant_reference_violations bp t @
     (if tp_isolationTier t = TierDedicatedAccount
      then
        flag (\<exists>z \<in> set (map (zone_of bp) (tp_zoneIds t)). undedicated_zone z) (critical ''TENANT_ACCOUNT_BOUNDARY_MISSING''
          (''Dedicated-account tenant '' @ squote (tp_tenantId t) @
           '' must use dedicated zones with explicit isolation boundaries.'')) @
        flag (\<exists>d \<in> set (map (boundary_of bp) (tp_dataBoundaryIds t)). shared_key d) (critical ''TENANT_DEDICATED_KEY_MISSING''
          (''Dedicated-account tenant '' @ squote (tp_tenantId t) @ '' must use tenant-dedicated encryption.''))
      else [])"

definition tenantIsolationPolicy :: "platform_blueprint \<Rightarrow> blueprint_violation list" where
  "tenantIsolationPolicy bp = concat (map (tenant_violations bp) (bp_tenants bp))"

subsection \<open>Data boundaries\<close>

definition dataViolations :: "data_boundary \<Rightarrow> blueprint_violation list" where
  "dataViolations d =
     (let name = squote (db_id d)
      in flag (db_services d = []) (high ''DATA_SERVICE_MISSING''
           (''Data boundary '' @ name @ '' must declare at least one data service.'')) @
         flag (rr_backupRequired (db_recovery d) \<and> rr_restoreTestIntervalDays (db_recovery d) < 1)
           (critical ''DATA_RESTORE_TEST_MISSING''
             (''Data boundary '' @ name @ '' cannot require backups without a restore-test cadence.'')) @
         (if db_classification d = ClassPublic \<or> db_classification d = ClassInternal then []
          else
            flag (\<not> er_customerManagedKey (db_encryption d) \<or> \<not> er_rotationRequired (db_encryption d))
              (critical ''DATA_ENCRYPTION_POSTURE'' (''Data boundary '' @ name @ '' requires a rotating customer-managed key.'')) @
            flag (db_classification d = ClassRegulated \<and> \<not> er_dedicatedPerTenant (db_encryption d))
              (critical ''DATA_REGULATED_SHARED_KEY'' (''Regulated data boundary '' @ name @ '' requires tenant-dedicated encryption.'')) @
            flag (\<not> db_deletionEvidenceRequired d)
              (high ''DATA_DELETION_EVIDENCE'' (''Data boundary '' @ name @ '' must emit deletion evidence.'')) @
            flag (ObjectService \<in> set (db_services d) \<and> \<not> db_versioningRequired d \<or> db_retentionDays d < 1)
              (high ''DATA_RETENTION_POSTURE''
                (''Data boundary '' @ name @ '' requires versioning and a positive retention period.'')) @
            flag (ObjectService \<in> set (db_services d) \<and> \<not> db_objectAuditRequired d)
              (critical ''DATA_OBJECT_AUDIT_MISSING'' (''Data boundary '' @ name @ '' must require object-level access evidence.'')) @
            flag (\<not> db_exportEvidenceRequired d)
              (high ''DATA_EXPORT_EVIDENCE'' (''Data boundary '' @ name @ '' must emit export evidence.'')) @
            flag (\<not> rr_backupRequired (db_recovery d) \<or> \<not> rr_deletionProtectionRequired (db_recovery d) \<or>
                  \<not> rr_finalSnapshotRequired (db_recovery d) \<or> \<not> rr_multiAzRequired (db_recovery d))
              (critical ''DATA_RECOVERY_POSTURE''
                (''Confidential data boundary '' @ name @ '' requires protected backups, multi-AZ availability, deletion protection, '' @
                 ''and a final recovery point.''))))"

definition dataProtectionPolicy :: "platform_blueprint \<Rightarrow> blueprint_violation list" where
  "dataProtectionPolicy bp = concat (map dataViolations (bp_dataBoundaries bp))"

subsection \<open>Identities, delegations and grants\<close>

text \<open>\<open>tenantScopesByResource\<close>: a later \<open>set\<close> of the same key wins.\<close>

definition tenantScopesByResource :: "platform_blueprint \<Rightarrow> string \<Rightarrow> string list option" where
  "tenantScopesByResource bp =
     (let entries = map (\<lambda>d. (db_id d, tenantIdsFromScope (db_tenantScope d))) (bp_dataBoundaries bp) @
                    map (\<lambda>w. (wp_id w, tenantIdsFromScope (wp_tenantScope w))) (bp_workloadPlanes bp) @
                    map (\<lambda>z. (tz_id z, tenantIdsFromScope (tz_tenantScope z))) (bp_trustZones bp)
      in foldl (\<lambda>scopes (k, ts). scopes(k \<mapsto> ts)) Map.empty entries)"

definition validAccessException ::
  "(string \<Rightarrow> int option) \<Rightarrow> int \<Rightarrow> access_exception \<Rightarrow> string \<Rightarrow> platform_blueprint \<Rightarrow> bool"
where
  "validAccessException date_parse now x resource bp =
     (if (case date_parse (ax_expiresAt x) of None \<Rightarrow> False | Some t \<Rightarrow> t \<le> now) then False
      else \<exists>r \<in> set (bp_evidenceRequirements bp). eq_id r = ax_auditRequirementId x \<and> resource \<in> set (eq_sourceIds r))"

definition grant_scope_violations :: "platform_blueprint \<Rightarrow> identity_grant \<Rightarrow> blueprint_violation list" where
  "grant_scope_violations bp g =
     (if gr_effect g \<noteq> EffectAllow \<or> \<not> truthy (gr_tenantId g) then []
      else
        flag (Option.bind (List.find (\<lambda>i. idn_id i = gr_identityId g) (bp_identities bp)) idn_tenantId \<noteq> gr_tenantId g)
          (critical ''IDENTITY_GRANT_SCOPE_MISMATCH''
            (''Grant '' @ squote (gr_id g) @ '' tenant scope does not match identity '' @ squote (gr_identityId g) @ ''.'')) @
        concat (map (\<lambda>r. case boundary_of bp r of
            None \<Rightarrow> []
          | Some d \<Rightarrow> flag (\<not> scopeContainsTenant (Some (db_tenantScope d)) (the (gr_tenantId g)))
              (critical ''IDENTITY_CROSS_TENANT_GRANT''
                (''Grant '' @ squote (gr_id g) @ '' crosses the tenant boundary for '' @ squote (the (gr_tenantId g)) @ ''.'')))
          (gr_resourceIds g)))"

definition entitlement_violations ::
  "(string \<Rightarrow> int option) \<Rightarrow> int \<Rightarrow> platform_blueprint \<Rightarrow> effective_entitlement \<Rightarrow> blueprint_violation list"
where
  "entitlement_violations date_parse now bp e =
     (let principalTenant = Option.bind (identity_of bp (en_principalId e)) idn_tenantId;
          targetTenants = or_empty (tenantScopesByResource bp (en_resourceId e))
      in if en_decision e \<noteq> EffectAllow \<or> \<not> truthy principalTenant \<or> targetTenants = [] \<or>
            the principalTenant \<in> set targetTenants
         then []
         else if (case Option.bind (index_by gr_id (bp_grants bp) (en_grantId e)) gr_exception of
                    None \<Rightarrow> False
                  | Some x \<Rightarrow> validAccessException date_parse now x (en_resourceId e) bp)
         then []
         else [critical ''IDENTITY_CROSS_TENANT_PATH''
           (''Identity '' @ squote (en_principalId e) @ '' reaches tenant-scoped resource '' @ squote (en_resourceId e) @
            '' through '' @ join_with '' -> '' (en_viaIdentityIds e) @ ''.'')])"

text \<open>\<open>!delegation.conditions?.audience\<close>\<close>

definition condition_unset :: "identity_delegation \<Rightarrow> string \<Rightarrow> bool" where
  "condition_unset d k \<longleftrightarrow> \<not> truthy (Option.bind (dg_conditions d) (\<lambda>c. obj_get c k))"

definition vendor_violations :: "platform_blueprint \<Rightarrow> identity_delegation \<Rightarrow> blueprint_violation list" where
  "vendor_violations bp d =
     flag (map_option idn_kind (identity_of bp (dg_fromIdentityId d)) = Some IdVendor \<and>
           (condition_unset d ''audience'' \<or> condition_unset d ''externalSubject''))
       (critical ''IDENTITY_VENDOR_CONFUSED_DEPUTY''
         (''Vendor delegation '' @ squote (dg_id d) @ '' must bind both audience and externalSubject.''))"

definition wildcard_violations :: "identity_grant \<Rightarrow> blueprint_violation list" where
  "wildcard_violations g =
     flag (gr_effect g = EffectAllow \<and>
           (\<exists>a \<in> set (gr_actions g). a = ''*'' \<or> a = ''*:*'' \<or> ends_with a '':*''))
       (critical ''IDENTITY_WILDCARD_GRANT''
         (''Allow grant '' @ squote (gr_id g) @ '' must not use wildcard actions.''))"

definition identityPolicy :: "(string \<Rightarrow> int option) \<Rightarrow> int \<Rightarrow> platform_blueprint \<Rightarrow> string + blueprint_violation list" where
  "identityPolicy date_parse now bp =
     bind_r (analyzeEntitlements bp) (\<lambda>entitlements.
     Inr (concat (map (\<lambda>i. flag (\<not> idn_shortLived i) (critical ''IDENTITY_LONG_LIVED''
            (''Identity '' @ squote (idn_id i) @ '' must use short-lived credentials.''))) (bp_identities bp)) @
          concat (map (grant_scope_violations bp) (bp_grants bp)) @
          concat (map (entitlement_violations date_parse now bp) entitlements) @
          concat (map (vendor_violations bp) (bp_identityDelegations bp)) @
          concat (map wildcard_violations (bp_grants bp))))"

subsection \<open>Evidence\<close>

definition sink_violations :: "platform_blueprint \<Rightarrow> evidence_requirement \<Rightarrow> blueprint_violation list" where
  "sink_violations bp r =
     (case index_by es_id (bp_evidenceSinks bp) (eq_sinkId r) of
        None \<Rightarrow> [critical ''EVIDENCE_UNKNOWN_SINK''
          (''Evidence requirement '' @ squote (eq_id r) @ '' references unknown sink '' @ squote (eq_sinkId r) @ ''.'')]
      | Some s \<Rightarrow>
          flag (\<not> es_immutable s \<or> es_retentionDays s < sp_minimumAuditRetentionDays (bp_posture bp))
            (critical ''EVIDENCE_WEAK_SINK''
              (''Evidence sink '' @ squote (es_id s) @ '' must be immutable and retain evidence for at least '' @
               int_dec (sp_minimumAuditRetentionDays (bp_posture bp)) @ '' days.'')))"

definition evidencePolicy :: "platform_blueprint \<Rightarrow> blueprint_violation list" where
  "evidencePolicy bp =
     (if \<not> sp_requireImmutableAudit (bp_posture bp) then []
      else
        flag (bp_evidenceSinks bp = []) (critical ''EVIDENCE_SINK_MISSING''
          ''The blueprint requires immutable audit evidence but declares no evidence sink.'') @
        concat (map (sink_violations bp) (bp_evidenceRequirements bp)) @
        concat (map (\<lambda>d. flag (db_classification d \<noteq> ClassPublic \<and>
                               db_id d \<notin> set (concat (map eq_sourceIds (bp_evidenceRequirements bp))))
            (critical ''EVIDENCE_DATA_NOT_COVERED''
              (''Data boundary '' @ squote (db_id d) @ '' is not connected to an evidence requirement.'')))
          (bp_dataBoundaries bp)))"

subsection \<open>The policy engine\<close>

record blueprint_policy =
  pol_id :: string
  pol_evaluate :: "platform_blueprint \<Rightarrow> string + blueprint_violation list"

definition pure_policy :: "string \<Rightarrow> (platform_blueprint \<Rightarrow> blueprint_violation list) \<Rightarrow> blueprint_policy" where
  "pure_policy i f = \<lparr>pol_id = i, pol_evaluate = (\<lambda>bp. Inr (f bp))\<rparr>"

definition defaultBlueprintPolicies :: "(string \<Rightarrow> int option) \<Rightarrow> int \<Rightarrow> blueprint_policy list" where
  "defaultBlueprintPolicies date_parse now =
     [pure_policy ''structural-integrity'' structuralIntegrityPolicy,
      pure_policy ''network-boundaries'' networkBoundaryPolicy,
      \<lparr>pol_id = ''transitive-network-boundaries'', pol_evaluate = transitiveNetworkPolicy\<rparr>,
      pure_policy ''workload-planes'' workloadPlanePolicy,
      pure_policy ''application-deployments'' applicationDeploymentPolicy,
      pure_policy ''tenant-isolation'' tenantIsolationPolicy,
      pure_policy ''data-protection'' dataProtectionPolicy,
      \<lparr>pol_id = ''identity'', pol_evaluate = identityPolicy date_parse now\<rparr>,
      pure_policy ''evidence'' evidencePolicy]"

definition evaluateBlueprint :: "platform_blueprint \<Rightarrow> blueprint_policy list \<Rightarrow> string + blueprint_violation list" where
  "evaluateBlueprint bp policies =
     bind_r (map_ix (\<lambda>_ p. pol_evaluate p bp) 0 policies) (\<lambda>vss. Inr (concat vss))"

definition violation_line :: "blueprint_violation \<Rightarrow> string" where
  "violation_line v = ''- ['' @ severity_text (bv_severity v) @ ''] '' @ bv_code v @ '': '' @ bv_message v"

definition assertBlueprint :: "platform_blueprint \<Rightarrow> blueprint_policy list \<Rightarrow> string + unit" where
  "assertBlueprint bp policies =
     bind_r (evaluateBlueprint bp policies) (\<lambda>violations.
       if violations = [] then Inr ()
       else Inl (''Cloud-neutral platform blueprint '' @ squote (bp_name bp) @ '' violates security invariants:'' @
                 [CHR 0x0A] @ join_with [CHR 0x0A] (map violation_line violations)))"

definition internetFacingDomains :: "platform_blueprint \<Rightarrow> network_domain list" where
  "internetFacingDomains bp = filter nd_directInternetAccess (bp_networkDomains bp)"

end
