(* ===== verification/BlueprintGuarantees.thy ===== *)
theory BlueprintGuarantees
  imports TenantPolicy
begin

section \<open>What the default policies guarantee\<close>

text \<open>
  The lemmas behind the properties of the blueprint analysis.  An accepted blueprint is one for
  which \<open>evaluateBlueprint\<close> returns no violation; \<open>accepted_iff\<close> takes it apart.  The network lemmas lift
  the check of the enumerated simple paths to arbitrary connections, which needs that the depth of
  the enumeration loses nothing: a simple path visits every declared zone at most once.
\<close>

definition accepted :: "(string \<Rightarrow> int option) \<Rightarrow> int \<Rightarrow> platform_blueprint \<Rightarrow> bool" where
  "accepted date_parse now bp \<longleftrightarrow> evaluateBlueprint bp (defaultBlueprintPolicies date_parse now) = Inr []"

lemma accepted_iff:
  "accepted dp now bp \<longleftrightarrow>
     structuralIntegrityPolicy bp = [] \<and> networkBoundaryPolicy bp = [] \<and> transitiveNetworkPolicy bp = Inr [] \<and>
     workloadPlanePolicy bp = [] \<and> applicationDeploymentPolicy bp = [] \<and> tenantIsolationPolicy bp = [] \<and>
     dataProtectionPolicy bp = [] \<and> identityPolicy dp now bp = Inr [] \<and> evidencePolicy bp = []"
  unfolding accepted_def evaluateBlueprint_def defaultBlueprintPolicies_def pure_policy_def
  by (cases "transitiveNetworkPolicy bp"; cases "identityPolicy dp now bp") auto

lemma assert_iff: "assertBlueprint bp (defaultBlueprintPolicies dp now) = Inr () \<longleftrightarrow> accepted dp now bp"
  unfolding assertBlueprint_def accepted_def
  by (cases "evaluateBlueprint bp (defaultBlueprintPolicies dp now)") auto

subsection \<open>Zones\<close>

abbreviation reach_edges :: "platform_blueprint \<Rightarrow> security_edge set" where
  "reach_edges bp \<equiv> set (edges_of EdgeCanReach bp)"

lemma all_ids_distinct:
  assumes "structural_ok bp"
  shows "distinct (map tz_id (bp_trustZones bp))" "distinct (map db_id (bp_dataBoundaries bp))"
    "distinct (map idn_id (bp_identities bp))" "distinct (map es_id (bp_evidenceSinks bp))"
    "distinct (map gr_id (bp_grants bp))" "distinct (map wp_id (bp_workloadPlanes bp))"
  using assms by (simp_all add: structural_ok_def all_ids_def resource_ids_def)

lemma zone_of_mem: "structural_ok bp \<Longrightarrow> z \<in> set (bp_trustZones bp) \<Longrightarrow> zone_of bp (tz_id z) = Some z"
  unfolding zone_of_def by (rule index_by_unique) (rule all_ids_distinct)

lemma zone_of_Some: "zone_of bp i = Some z \<Longrightarrow> z \<in> set (bp_trustZones bp) \<and> tz_id z = i"
  unfolding zone_of_def by (rule index_by_Some)

lemma reach_edge_zones:
  assumes "structural_ok bp" "e \<in> reach_edges bp"
  shows "se_from e \<in> zone_ids bp \<and> se_to e \<in> zone_ids bp"
proof -
  obtain f i where f: "f \<in> set (bp_flows bp)" "i < length (flow_hops f) - 1"
    "se_from e = flow_hops f ! i" "se_to e = flow_hops f ! Suc i"
    using assms(2) by (auto simp: can_reach_edges hop_edge)
  then have "{se_from e, se_to e} \<subseteq> set (flow_hops f)" by (auto intro: nth_mem)
  moreover have "set (flow_hops f) \<subseteq> zone_ids bp"
    using assms(1) f(1) by (auto simp: structural_ok_def flow_hops_def)
  ultimately show ?thesis by blast
qed

lemma walk_in_zones:
  assumes "structural_ok bp"
  shows "simple_walk (reach_edges bp) s w \<Longrightarrow> s \<in> zone_ids bp \<Longrightarrow> set (fst w) \<subseteq> zone_ids bp"
  by (induction rule: simple_walk.induct) (auto dest: reach_edge_zones [OF assms])

lemma walk_depth:
  assumes "structural_ok bp" "simple_walk (reach_edges bp) s w" "s \<in> zone_ids bp"
  shows "length (snd w) < length (bp_trustZones bp)"
proof -
  have "length (fst w) = card (set (fst w))" using simple_walk_distinct [OF assms(2)] by (rule distinct_card [symmetric])
  also have "\<dots> \<le> card (zone_ids bp)" using walk_in_zones [OF assms] by (intro card_mono) (simp_all add: zone_ids_def)
  also have "\<dots> \<le> length (bp_trustZones bp)" unfolding zone_ids_def by (metis card_length length_map)
  finally show ?thesis using simple_walk_zones [OF assms(2)] by simp
qed

subsection \<open>The enumerated paths are all simple walks\<close>

lemma default_search [simp]:
  "ps_from (path_search_of bp s no_path_options) = s" "ps_target (path_search_of bp s no_path_options) = None"
  "ps_edges (path_search_of bp s no_path_options) = edges_of EdgeCanReach bp"
  "ps_maxDepth (path_search_of bp s no_path_options) = max (int (length (bp_trustZones bp))) 1"
  "follows (path_search_of bp s no_path_options) e" "reports (path_search_of bp s no_path_options) e"
  by (simp_all add: path_search_of_def no_path_options_def follows_def reports_def truthy_def)

lemma path_of_walk:
  assumes "simple_walk E s w" "snd w \<noteq> []"
  shows "np_toZoneId (path_of c w) = last (fst w)" "np_zoneIds (path_of c w) = fst w"
    "np_brokeredAtSource (path_of c w) \<longleftrightarrow> se_brokered (hd (snd w)) = Some True"
  using simple_walk_zones [OF assms(1)] assms(2)
  by (auto simp: path_of_def last_map split: list.splits)

lemma walk_reported:
  assumes "structural_ok bp" "findNetworkPaths bp s no_path_options = Inr ps" "s \<in> zone_ids bp"
    and "simple_walk (reach_edges bp) s w" "snd w \<noteq> []"
  shows "path_of (path_search_of bp s no_path_options) w \<in> set ps"
proof -
  let ?c = "path_search_of bp s no_path_options"
  have "ps = walks_from ?c [([ps_from ?c], [])]"
    using assms(2) by (auto simp: find_paths_result within_limit_def split: if_splits)
  moreover have "reported_walk ?c w"
    using assms walk_depth [OF assms(1,4,3)] by (simp add: reported_walk_def)
  ultimately show ?thesis using reported_walks [of ?c] by blast
qed

lemma transitive_loop_Nil:
  "transitive_loop bp zs acc = Inr vs \<Longrightarrow>
   vs = [] \<longleftrightarrow> acc = [] \<and> (\<forall>z \<in> set zs. \<exists>ps. findNetworkPaths bp (tz_id z) no_path_options = Inr ps \<and>
     (\<forall>p \<in> set ps. path_violations bp z p = []))"
  by (induction bp zs acc rule: transitive_loop.induct) (auto simp: result_simps)

lemma transitive_Nil:
  assumes "transitiveNetworkPolicy bp = Inr []" "z \<in> set (bp_trustZones bp)"
  shows "\<exists>ps. findNetworkPaths bp (tz_id z) no_path_options = Inr ps \<and> (\<forall>p \<in> set ps. path_violations bp z p = [])"
  using assms transitive_loop_Nil [of bp "bp_trustZones bp" "[]" "[]"]
  by (auto simp: transitiveNetworkPolicy_def result_simps)

lemma accepted_structural: "accepted dp now bp \<Longrightarrow> structural_ok bp"
  by (simp add: accepted_iff structural_iff)

lemma accepted_walk:
  assumes "accepted dp now bp" "source \<in> set (bp_trustZones bp)" "destination \<in> set (bp_trustZones bp)"
    and "simple_walk (reach_edges bp) (tz_id source) w" "last (fst w) = tz_id destination" "snd w \<noteq> []"
  shows "tz_kind source = ZoneExecution \<Longrightarrow> tz_kind destination = ZoneControlPlane \<or> tz_kind destination = ZoneData \<Longrightarrow>
      2 \<le> length (snd w) \<Longrightarrow> se_brokered (hd (snd w)) = Some True"
    and "sp_requireInspectedEgress (bp_posture bp) \<Longrightarrow> tz_kind destination = ZoneExternal \<Longrightarrow>
      set (fst w) \<inter> inspected_zones bp \<noteq> {}"
    and "tenantIdsFromScope (tz_tenantScope source) \<noteq> [] \<Longrightarrow> tenantIdsFromScope (tz_tenantScope destination) \<noteq> [] \<Longrightarrow>
      set (tenantIdsFromScope (tz_tenantScope source)) \<inter> set (tenantIdsFromScope (tz_tenantScope destination)) \<noteq> {}"
proof -
  note ok = accepted_structural [OF assms(1)]
  let ?p = "path_of (path_search_of bp (tz_id source) no_path_options) w"
  from assms(1,2) transitive_Nil obtain ps where ps: "findNetworkPaths bp (tz_id source) no_path_options = Inr ps"
    "\<forall>p \<in> set ps. path_violations bp source p = []" unfolding accepted_iff by blast
  have "tz_id source \<in> zone_ids bp" using assms(2) by (simp add: zone_ids_def)
  from walk_reported [OF ok ps(1) this assms(4,6)] ps(2) have none: "path_violations bp source ?p = []" by blast
  note shape = path_of_walk [OF assms(4,6), of "path_search_of bp (tz_id source) no_path_options"]
  have len: "2 < length (fst w) \<longleftrightarrow> 2 \<le> length (snd w)" using simple_walk_zones [OF assms(4)] by auto
  note facts = none [unfolded path_violations_def shape assms(5) zone_of_mem [OF ok assms(3)] Let_def option.case
    append_is_Nil_conv flag_simps(3) len]
  show "tz_kind source = ZoneExecution \<Longrightarrow> tz_kind destination = ZoneControlPlane \<or> tz_kind destination = ZoneData \<Longrightarrow>
      2 \<le> length (snd w) \<Longrightarrow> se_brokered (hd (snd w)) = Some True"
    using facts by blast
  show "sp_requireInspectedEgress (bp_posture bp) \<Longrightarrow> tz_kind destination = ZoneExternal \<Longrightarrow>
      set (fst w) \<inter> inspected_zones bp \<noteq> {}"
    using facts by blast
  show "tenantIdsFromScope (tz_tenantScope source) \<noteq> [] \<Longrightarrow> tenantIdsFromScope (tz_tenantScope destination) \<noteq> [] \<Longrightarrow>
      set (tenantIdsFromScope (tz_tenantScope source)) \<inter> set (tenantIdsFromScope (tz_tenantScope destination)) \<noteq> {}"
    using facts by blast
qed

lemma walk_moves: "simple_walk E s w \<Longrightarrow> last (fst w) \<noteq> s \<Longrightarrow> snd w \<noteq> []"
  using simple_walk_zones [of E s w] by auto

subsection \<open>Identities\<close>

text \<open>The declared tenants of a zone, a workload plane or a data boundary.\<close>

definition declared_scope :: "platform_blueprint \<Rightarrow> string \<Rightarrow> tenant_scope \<Rightarrow> bool" where
  "declared_scope bp r s \<longleftrightarrow>
     (\<exists>d \<in> set (bp_dataBoundaries bp). db_id d = r \<and> db_tenantScope d = s) \<or>
     (\<exists>w \<in> set (bp_workloadPlanes bp). wp_id w = r \<and> wp_tenantScope w = s) \<or>
     (\<exists>z \<in> set (bp_trustZones bp). tz_id z = r \<and> tz_tenantScope z = s)"

lemma foldl_upd: "foldl (\<lambda>m (k, v). m(k \<mapsto> v)) Map.empty es = map_of (rev es)"
  by (induction es rule: rev_induct) auto

lemma distinct_reorder: "distinct (z @ n @ w @ a @ t @ d @ rest) \<Longrightarrow> distinct (d @ w @ z)"
  by auto

lemma resource_scope:
  assumes "structural_ok bp" "declared_scope bp r s"
  shows "tenantScopesByResource bp r = Some (tenantIdsFromScope s)"
proof -
  define es where "es = map (\<lambda>d. (db_id d, tenantIdsFromScope (db_tenantScope d))) (bp_dataBoundaries bp) @
    map (\<lambda>w. (wp_id w, tenantIdsFromScope (wp_tenantScope w))) (bp_workloadPlanes bp) @
    map (\<lambda>z. (tz_id z, tenantIdsFromScope (tz_tenantScope z))) (bp_trustZones bp)"
  have "distinct (all_ids bp)" using assms(1) by (simp add: structural_ok_def)
  then have "distinct (map db_id (bp_dataBoundaries bp) @ map wp_id (bp_workloadPlanes bp) @ map tz_id (bp_trustZones bp))"
    unfolding all_ids_def resource_ids_def append_assoc by (rule distinct_reorder)
  then have "distinct (map fst es)"
    by (simp add: es_def comp_def)
  then have "distinct (map fst (rev es))"
    by (simp only: rev_map [symmetric] distinct_rev)
  moreover have "(r, tenantIdsFromScope s) \<in> set (rev es)"
    using assms(2) unfolding declared_scope_def es_def by auto
  ultimately show ?thesis
    unfolding tenantScopesByResource_def Let_def foldl_upd es_def [symmetric] by (rule map_of_is_SomeI)
qed

lemma identity_of_mem: "structural_ok bp \<Longrightarrow> i \<in> set (bp_identities bp) \<Longrightarrow> identity_of bp (idn_id i) = Some i"
  unfolding identity_of_def by (rule index_by_unique) (rule all_ids_distinct)

lemma grant_mem: "structural_ok bp \<Longrightarrow> g \<in> set (bp_grants bp) \<Longrightarrow> index_by gr_id (bp_grants bp) (gr_id g) = Some g"
  by (rule index_by_unique) (rule all_ids_distinct)

text \<open>
  An exception holds while its expiry, if that parses at all, is ahead, and its audit requirement covers
  the resource.  As in \<open>validAccessException\<close>, an expiry that does not parse counts as unexpired.
\<close>

definition exception_holds :: "(string \<Rightarrow> int option) \<Rightarrow> int \<Rightarrow> platform_blueprint \<Rightarrow> identity_grant \<Rightarrow> string \<Rightarrow> bool" where
  "exception_holds dp now bp g r \<longleftrightarrow>
     (\<exists>x. gr_exception g = Some x \<and> (\<forall>t. dp (ax_expiresAt x) = Some t \<longrightarrow> now < t) \<and>
        (\<exists>q \<in> set (bp_evidenceRequirements bp). eq_id q = ax_auditRequirementId x \<and> r \<in> set (eq_sourceIds q)))"

lemma exception_valid:
  "validAccessException dp now x r bp \<longleftrightarrow> (\<forall>t. dp (ax_expiresAt x) = Some t \<longrightarrow> now < t) \<and>
     (\<exists>q \<in> set (bp_evidenceRequirements bp). eq_id q = ax_auditRequirementId x \<and> r \<in> set (eq_sourceIds q))"
  by (auto simp: validAccessException_def split: option.splits)

lemma identity_entitlements:
  assumes "identityPolicy dp now bp = Inr []"
  shows "\<exists>es. analyzeEntitlements bp = Inr es \<and> (\<forall>e \<in> set es. entitlement_violations dp now bp e = [])"
  using assms by (auto simp: identityPolicy_def result_simps)

lemma accepted_entitlement:
  assumes "accepted dp now bp" "p \<in> set (bp_identities bp)" "idn_tenantId p = Some t" "t \<noteq> []"
    and "may_act bp (idn_id p) g r a" "\<not> denied_for bp (idn_id p) r a"
    and "declared_scope bp r s" "tenantIdsFromScope s \<noteq> []"
  shows "t \<in> set (tenantIdsFromScope s) \<or> exception_holds dp now bp g r"
proof -
  note ok = accepted_structural [OF assms(1)]
  from assms(1) identity_entitlements obtain es where es: "analyzeEntitlements bp = Inr es"
    "\<forall>e \<in> set es. entitlement_violations dp now bp e = []" unfolding accepted_iff by blast
  from entitlement_exists [OF es(1) assms(2,5)] assms(6) obtain e where e: "e \<in> set es" "en_principalId e = idn_id p"
    "en_grantId e = gr_id g" "en_resourceId e = r" "en_decision e = EffectAllow" by blast
  have g: "index_by gr_id (bp_grants bp) (gr_id g) = Some g"
    using assms(5) ok by (intro grant_mem) (simp_all add: may_act_def)
  have "entitlement_violations dp now bp e = []" using es(2) e(1) by blast
  then show ?thesis
    unfolding entitlement_violations_def e(2-5) identity_of_mem [OF ok assms(2)] resource_scope [OF ok assms(7)] g Let_def
    using assms(3,4,8)
    by (auto simp: truthy_def exception_holds_def exception_valid split: if_splits option.splits)
qed

subsection \<open>Workloads, tenants, data\<close>

lemma workload_untrusted:
  assumes "workload_violations bp w = []" "wp_executionTrust w = ExecUntrusted"
  shows "kind_of bp (wp_zoneId w) = Some ZoneExecution \<and> wp_credentialMode w = CredBrokered \<and>
    wp_runtimeIsolation w \<in> {IsoMicrovm, IsoDedicatedVm} \<and> (\<exists>n. wp_maxExecutionMinutes w = Some n \<and> n \<noteq> 0) \<and>
    wp_workloadIdentity w \<and> WorkloadIdentity \<in> set (bp_requiredCapabilities bp)"
  using assms by (auto simp: workload_violations_def Let_def unset_number_def workloadCapabilities_def split: option.splits)

lemma accepted_workload:
  assumes "accepted dp now bp" "w \<in> set (bp_workloadPlanes bp)"
  shows "workload_violations bp w = []"
  using assms unfolding accepted_iff by (simp add: workloadPlanePolicy_def)

lemma accepted_execution_flow:
  assumes "accepted dp now bp" "f \<in> set (bp_flows bp)" "kind_of bp (nf_fromZoneId f) = Some ZoneExecution"
    and "kind_of bp (nf_toZoneId f) \<in> {Some ZoneControlPlane, Some ZoneData}"
  shows "nf_authorization f = FlowBrokered"
proof -
  have "execution_violations bp f = []"
    using assms(1,2) by (simp add: accepted_iff networkBoundaryPolicy_def)
  with assms(3,4) show ?thesis by (auto simp: execution_violations_def)
qed

lemma accepted_tenant:
  assumes "accepted dp now bp" "t \<in> set (bp_tenants bp)"
  shows "tenant_violations bp t = []"
  using assms unfolding accepted_iff by (simp add: tenantIsolationPolicy_def)

lemma tenant_zone:
  assumes "tenant_violations bp t = []" "z \<in> set (tp_zoneIds t)"
  shows "\<exists>s. zone_of bp z = Some s \<and> tp_tenantId t \<in> set (tenantIdsFromScope (tz_tenantScope s))"
proof -
  have "scopeContainsTenant (map_option tz_tenantScope (zone_of bp z)) (tp_tenantId t)"
    using assms by (auto simp: tenant_violations_def tenant_reference_violations_def)
  then show ?thesis by (cases "zone_of bp z") (auto simp: scope_contains_iff)
qed

lemma tenant_boundary:
  assumes "tenant_violations bp t = []" "d \<in> set (tp_dataBoundaryIds t)"
  shows "\<exists>b. boundary_of bp d = Some b \<and> tp_tenantId t \<in> set (tenantIdsFromScope (db_tenantScope b))"
proof -
  have "scopeContainsTenant (map_option db_tenantScope (boundary_of bp d)) (tp_tenantId t)"
    using assms by (auto simp: tenant_violations_def tenant_reference_violations_def)
  then show ?thesis by (cases "boundary_of bp d") (auto simp: scope_contains_iff)
qed

lemma tenant_dedicated_zone:
  assumes "tenant_violations bp t = []" "tp_isolationTier t = TierDedicatedAccount" "z \<in> set (tp_zoneIds t)"
  shows "\<exists>s. zone_of bp z = Some s \<and> tz_tenantScope s = DedicatedScope (tp_tenantId t) \<and> truthy (tz_isolationBoundary s)"
proof -
  obtain s where s: "zone_of bp z = Some s" "tp_tenantId t \<in> set (tenantIdsFromScope (tz_tenantScope s))"
    using tenant_zone [OF assms(1,3)] by blast
  moreover have "\<not> undedicated_zone (zone_of bp z)" using assms by (auto simp: tenant_violations_def)
  ultimately show ?thesis by (cases "tz_tenantScope s") (auto simp: undedicated_zone_def)
qed

lemma tenant_dedicated_key:
  assumes "tenant_violations bp t = []" "tp_isolationTier t = TierDedicatedAccount" "d \<in> set (tp_dataBoundaryIds t)"
  shows "\<exists>b. boundary_of bp d = Some b \<and> tp_tenantId t \<in> set (tenantIdsFromScope (db_tenantScope b)) \<and>
    er_dedicatedPerTenant (db_encryption b)"
proof -
  obtain b where "boundary_of bp d = Some b" "tp_tenantId t \<in> set (tenantIdsFromScope (db_tenantScope b))"
    using tenant_boundary [OF assms(1,3)] by blast
  moreover have "\<not> shared_key (boundary_of bp d)" using assms by (auto simp: tenant_violations_def)
  ultimately show ?thesis by (auto simp: shared_key_def)
qed

lemma accepted_evidence:
  assumes "accepted dp now bp" "sp_requireImmutableAudit (bp_posture bp)" "d \<in> set (bp_dataBoundaries bp)"
    and "db_classification d \<noteq> ClassPublic"
  shows "\<exists>r \<in> set (bp_evidenceRequirements bp). \<exists>s \<in> set (bp_evidenceSinks bp). db_id d \<in> set (eq_sourceIds r) \<and>
    eq_sinkId r = es_id s \<and> es_immutable s \<and> sp_minimumAuditRetentionDays (bp_posture bp) \<le> es_retentionDays s"
proof -
  have e: "evidencePolicy bp = []" using assms(1) by (simp add: accepted_iff)
  then obtain r where r: "r \<in> set (bp_evidenceRequirements bp)" "db_id d \<in> set (eq_sourceIds r)"
    using assms(2-4) by (auto simp: evidencePolicy_def)
  have "sink_violations bp r = []" using e assms(2) r(1) by (simp add: evidencePolicy_def)
  then obtain s where "index_by es_id (bp_evidenceSinks bp) (eq_sinkId r) = Some s" "es_immutable s"
    "sp_minimumAuditRetentionDays (bp_posture bp) \<le> es_retentionDays s"
    by (auto simp: sink_violations_def split: option.splits)
  with r index_by_Some [of es_id "bp_evidenceSinks bp" "eq_sinkId r" s] show ?thesis by metis
qed

end
