(* ===== verification/BlueprintExamples.thy ===== *)
theory BlueprintExamples
  imports BlueprintGuarantees JsDate
begin

section \<open>Two example blueprints\<close>

text \<open>
  \<open>bx\<close> is a small platform that the default policies accept: an untrusted execution plane of a
  dedicated tenant that reaches the control plane through a broker, its data zone behind it, and an
  inspected egress.  \<open>gap\<close> differs from a rejected blueprint only in that the control plane is a
  transit hop.  Both are concrete values on which the properties of the analysis are applied.
\<close>

definition acme :: tenant_scope where
  "acme = DedicatedScope ''acme''"

definition zone :: "string \<Rightarrow> zone_kind \<Rightarrow> tenant_scope \<Rightarrow> trust_zone" where
  "zone i k s = \<lparr>tz_id = i, tz_kind = k, tz_publicAccess = False, tz_tenantScope = s, tz_isolationBoundary = Some ''account''\<rparr>"

definition flow :: "string \<Rightarrow> string \<Rightarrow> string \<Rightarrow> flow_authorization \<Rightarrow> string list option \<Rightarrow> network_flow" where
  "flow i a b auth via =
     \<lparr>nf_id = i, nf_fromZoneId = a, nf_toZoneId = b, nf_protocol = ProtoHttps, nf_ports = Some [443], nf_purpose = ''api'',
      nf_authorization = auth, nf_viaZoneIds = via, nf_externalDestinations = Some [''api.example.com'']\<rparr>"

definition bx_plane :: workload_plane where
  "bx_plane = \<lparr>wp_id = ''plane'', wp_zoneId = ''exec'', wp_tenantScope = acme, wp_executionTrust = ExecUntrusted,
     wp_orchestrator = OrchMicrovm, wp_runtimeIsolation = IsoMicrovm, wp_controlPlanePublic = False,
     wp_workloadIdentity = True, wp_credentialMode = CredBrokered, wp_maxExecutionMinutes = Some 30\<rparr>"

definition bx_boundary :: data_boundary where
  "bx_boundary = \<lparr>db_id = ''store'', db_zoneId = ''data'', db_classification = ClassRegulated, db_tenantScope = acme,
     db_services = [ObjectService],
     db_encryption = \<lparr>er_customerManagedKey = True, er_dedicatedPerTenant = True, er_rotationRequired = True\<rparr>,
     db_recovery = \<lparr>rr_backupRequired = True, rr_rpoMinutes = 15, rr_rtoMinutes = 60, rr_multiAzRequired = True,
       rr_deletionProtectionRequired = True, rr_finalSnapshotRequired = True, rr_restoreTestIntervalDays = 30\<rparr>,
     db_retentionDays = 365, db_versioningRequired = True, db_replicationRequired = True, db_objectAuditRequired = True,
     db_deletionEvidenceRequired = True, db_exportEvidenceRequired = True\<rparr>"

definition bx_agent :: platform_identity where
  "bx_agent = \<lparr>idn_id = ''agent'', idn_kind = IdWorkload, idn_tenantId = Some ''acme'', idn_shortLived = True\<rparr>"

definition bx_grant :: identity_grant where
  "bx_grant = \<lparr>gr_id = ''read'', gr_identityId = ''agent'', gr_resourceIds = [''store''], gr_actions = [''object:get''],
     gr_effect = EffectAllow, gr_tenantId = Some ''acme'', gr_conditions = None, gr_exception = None\<rparr>"

definition bx_component :: application_component where
  "bx_component = \<lparr>cp_id = ''web'', cp_workloadPlaneId = ''plane'', cp_serviceIdentityId = ''agent'',
     cp_dataBoundaryIds = [''store''], cp_ingress = IngressNone,
     cp_availability = \<lparr>av_minimumReplicas = 2, av_maximumUnavailable = 1\<rparr>\<rparr>"

definition bx_application :: application_deployment where
  "bx_application = \<lparr>ap_id = ''app'', ap_workloadPlaneId = ''plane'', ap_serviceIdentityId = ''agent'', ap_tenantScope = acme,
     ap_dataBoundaryIds = [''store''], ap_ingress = IngressNone, ap_components = [bx_component],
     ap_componentDependencies = [], ap_dependencies = [],
     ap_availability = \<lparr>av_minimumReplicas = 2, av_maximumUnavailable = 1\<rparr>,
     ap_release = \<lparr>rl_digestPinnedImages = True, rl_signatureVerification = True, rl_provenanceVerification = True,
       rl_rollbackRequired = True\<rparr>\<rparr>"

definition bx_tenant :: tenant_placement where
  "bx_tenant = \<lparr>tp_tenantId = ''acme'', tp_isolationTier = TierDedicatedAccount, tp_zoneIds = [''exec'', ''data''],
     tp_dataBoundaryIds = [''store''], tp_identityIds = [''agent'']\<rparr>"

definition bx_zones :: "trust_zone list" where
  "bx_zones = [zone ''exec'' ZoneExecution acme, zone ''control'' ZoneControlPlane PlatformScope,
     zone ''data'' ZoneData acme, zone ''egress'' ZoneEgress PlatformScope, zone ''internet'' ZoneExternal PlatformScope]"

definition bx :: platform_blueprint where
  "bx = \<lparr>bp_name = ''example'', bp_environment = ''test'',
     bp_posture = \<lparr>sp_forbidPublicControlPlanes = True, sp_requireInspectedEgress = True, sp_requireImmutableAudit = True,
       sp_minimumAuditRetentionDays = 365\<rparr>,
     bp_requiredCapabilities = [WorkloadIdentity, MicrovmRuntime],
     bp_trustZones = bx_zones,
     bp_networkDomains =
       [\<lparr>nd_id = ''edge'', nd_zoneId = ''egress'', nd_cidrs = [''10.1.0.0/16''], nd_availabilityZoneCount = 2,
         nd_directInternetAccess = True, nd_inspectedEgress = True\<rparr>,
        \<lparr>nd_id = ''inner'', nd_zoneId = ''exec'', nd_cidrs = [''10.2.0.0/16''], nd_availabilityZoneCount = 3,
         nd_directInternetAccess = False, nd_inspectedEgress = False\<rparr>],
     bp_flows = [flow ''call'' ''exec'' ''control'' FlowBrokered None, flow ''query'' ''control'' ''data'' FlowDirect None,
       flow ''out'' ''exec'' ''internet'' FlowDirect (Some [''egress''])],
     bp_workloadPlanes = [bx_plane], bp_applications = [bx_application], bp_tenants = [bx_tenant],
     bp_dataBoundaries = [bx_boundary],
     bp_identities = [bx_agent, \<lparr>idn_id = ''deployer'', idn_kind = IdAutomation, idn_tenantId = None, idn_shortLived = True\<rparr>],
     bp_identityDelegations =
       [\<lparr>dg_id = ''assume'', dg_fromIdentityId = ''deployer'', dg_toIdentityId = ''agent'', dg_conditions = None\<rparr>],
     bp_grants = [bx_grant, \<lparr>gr_id = ''keep'', gr_identityId = ''agent'', gr_resourceIds = [''store''], gr_actions = [''object:delete''],
       gr_effect = EffectDeny, gr_tenantId = None, gr_conditions = None, gr_exception = None\<rparr>],
     bp_evidenceSinks = [\<lparr>es_id = ''sink'', es_immutable = True, es_retentionDays = 400, es_tenantScope = PlatformScope\<rparr>],
     bp_evidenceRequirements = [\<lparr>eq_id = ''audit'', eq_sourceIds = [''store'', ''app''], eq_sinkId = ''sink'',
       eq_eventTypes = [''deployment'', ''authorization'']\<rparr>]\<rparr>"

subsection \<open>The default policies accept the first\<close>

lemma second_block: "parseCidr ''10.2.0.0/16'' = Inr (block_at 167903232 16)"
proof -
  have "pc_cidr (block_at 167903232 16) = ''10.2.0.0/16''"
    by (simp add: numberToIp_octets nat_dec.simps char_of_def bit_0)
  with block_reparsed [of "block_at 167903232 16"] show ?thesis by (simp add: block_ok_def)
qed

lemma bx_allocations: "allocations bx = [(''edge'', ''10.1.0.0/16''), (''inner'', ''10.2.0.0/16'')]"
  by code_simp

lemma bx_structural: "structuralIntegrityPolicy bx = []"
proof -
  have "blocks_disjoint []" by (simp add: blocks_disjoint_def)
  then have "blocks_disjoint [''10.1.0.0/16'', ''10.2.0.0/16'']"
    by (simp add: blocks_disjoint_Cons second_block cidr_examples cidr_addresses_def)
  moreover have "distinct (all_ids bx)" by code_simp
  moreover have "\<forall>d \<in> set (bp_networkDomains bx). nd_zoneId d \<in> zone_ids bx \<and> 1 \<le> nd_availabilityZoneCount d" by code_simp
  moreover have "\<forall>f \<in> set (bp_flows bx). nf_fromZoneId f \<in> zone_ids bx \<and> nf_toZoneId f \<in> zone_ids bx \<and>
        set (or_empty (nf_viaZoneIds f)) \<subseteq> zone_ids bx" by code_simp
  moreover have "\<forall>w \<in> set (bp_workloadPlanes bx). wp_zoneId w \<in> zone_ids bx" by code_simp
  moreover have "\<forall>g \<in> set (bp_grants bx). gr_identityId g \<in> identity_ids bx \<and> set (gr_resourceIds g) \<subseteq> set (resource_ids bx)"
    by code_simp
  moreover have "\<forall>d \<in> set (bp_identityDelegations bx). dg_fromIdentityId d \<in> identity_ids bx \<and> dg_toIdentityId d \<in> identity_ids bx"
    by code_simp
  moreover have "\<forall>r \<in> set (bp_evidenceRequirements bx). eq_sinkId r \<in> set (resource_ids bx) \<and> set (eq_sourceIds r) \<subseteq> set (resource_ids bx)"
    by code_simp
  ultimately show ?thesis
    unfolding structural_iff structural_ok_def bx_allocations by (simp add: second_block cidr_examples)
qed

lemma bx_policies:
  "networkBoundaryPolicy bx = []" "transitiveNetworkPolicy bx = Inr []" "workloadPlanePolicy bx = []"
  "applicationDeploymentPolicy bx = []" "tenantIsolationPolicy bx = []" "dataProtectionPolicy bx = []"
  "identityPolicy Date_parse 0 bx = Inr []" "evidencePolicy bx = []"
  by code_simp+

lemma bx_accepted: "accepted Date_parse 0 bx"
  by (simp add: accepted_iff bx_structural bx_policies)

subsection \<open>A transit hop into the control plane\<close>

text \<open>
  One unbrokered flow from the execution zone to a workload zone that passes through the control
  plane.
\<close>

definition gap :: platform_blueprint where
  "gap = bx\<lparr>bp_name := ''gap'', bp_trustZones := bx_zones @ [zone ''worker'' ZoneWorkload acme],
     bp_flows := [flow ''relay'' ''exec'' ''worker'' FlowDirect (Some [''control''])]\<rparr>"

lemma gap_structural: "structuralIntegrityPolicy gap = []"
proof -
  have "allocations gap = allocations bx" "bp_networkDomains gap = bp_networkDomains bx"
    by (simp_all add: gap_def allocations_def)
  moreover have "structural_ok bx" using bx_structural by (simp add: structural_iff)
  moreover have "distinct (all_ids gap)" by code_simp
  moreover have "\<forall>d \<in> set (bp_networkDomains gap). nd_zoneId d \<in> zone_ids gap \<and> 1 \<le> nd_availabilityZoneCount d" by code_simp
  moreover have "\<forall>f \<in> set (bp_flows gap). nf_fromZoneId f \<in> zone_ids gap \<and> nf_toZoneId f \<in> zone_ids gap \<and>
        set (or_empty (nf_viaZoneIds f)) \<subseteq> zone_ids gap" by code_simp
  moreover have "\<forall>w \<in> set (bp_workloadPlanes gap). wp_zoneId w \<in> zone_ids gap" by code_simp
  moreover have "\<forall>g \<in> set (bp_grants gap). gr_identityId g \<in> identity_ids gap \<and> set (gr_resourceIds g) \<subseteq> set (resource_ids gap)"
    by code_simp
  moreover have "\<forall>d \<in> set (bp_identityDelegations gap). dg_fromIdentityId d \<in> identity_ids gap \<and> dg_toIdentityId d \<in> identity_ids gap"
    by code_simp
  moreover have "\<forall>r \<in> set (bp_evidenceRequirements gap). eq_sinkId r \<in> set (resource_ids gap) \<and> set (eq_sourceIds r) \<subseteq> set (resource_ids gap)"
    by code_simp
  ultimately show ?thesis
    unfolding structural_iff structural_ok_def by simp
qed

lemma gap_policies:
  "networkBoundaryPolicy gap = []" "transitiveNetworkPolicy gap = Inr []" "workloadPlanePolicy gap = []"
  "applicationDeploymentPolicy gap = []" "tenantIsolationPolicy gap = []" "dataProtectionPolicy gap = []"
  "identityPolicy Date_parse 0 gap = Inr []" "evidencePolicy gap = []"
  by code_simp+

lemma gap_accepted: "accepted Date_parse 0 gap"
  by (simp add: accepted_iff gap_structural gap_policies)

end
