(* ===== verification/BlueprintProps.thy ===== *)
theory BlueprintProps
  imports BlueprintExamples
begin

section \<open>Properties of the blueprint analysis\<close>

text \<open>
  The claims about \<open>src/core/graph.ts\<close>, \<open>reachability.ts\<close>, \<open>entitlements.ts\<close> and \<open>policy.ts\<close>, each applied to
  one of the example blueprints.
\<close>

subsection \<open>Network\<close>

text \<open>C8: \<open>findNetworkPaths\<close> finds a list of walks in which every wanted walk (a simple walk along the hops of the flows
  with at most \<open>maxDepth\<close> edges that ends at the target, if one is given) stands once for each choice of its edges from the edge
  list, hence exactly once when no edge is listed twice, and no other walk at all.  It throws exactly when this list is longer
  than the limit, and otherwise returns the paths of these walks, one for each, shortest first.\<close>

theorem find_paths_exact:
  "\<exists>ws. (\<forall>w. count_list ws w = (if wanted_walk bp s opts w then walk_copies bp w else 0)) \<and>
     sorted (map (\<lambda>w. length (snd w)) ws) \<and>
     findNetworkPaths bp s opts =
       (let c = path_search_of bp s opts; limit = (case po_maxPaths opts of None \<Rightarrow> 1000 | Some n \<Rightarrow> n)
        in if ws \<noteq> [] \<and> limit < int (length ws) then Inl (too_many_paths c) else Inr (map (path_of c) ws))"
proof -
  have limit: "ps_maxPaths (path_search_of bp s opts) = (case po_maxPaths opts of None \<Rightarrow> 1000 | Some n \<Rightarrow> n)"
    by (simp add: path_search_of_def)
  show ?thesis
    by (intro exI [of _ "found_walks (path_search_of bp s opts)"] conjI allI count_found_wanted found_sorted)
      (simp add: find_paths_found Let_def limit)
qed

text \<open>C3: In an accepted blueprint no chain of network hops, however long, connects two tenant-scoped zones that have no
  tenant in common.\<close>

theorem accepted_tenant_network:
  assumes "accepted date_parse now bp" "source \<in> set (bp_trustZones bp)" "destination \<in> set (bp_trustZones bp)"
    and "(tz_id source, tz_id destination) \<in> (hop_rel (reach_edges bp) UNIV)\<^sup>*"
    and "tenantIds (tz_tenantScope source) \<noteq> []" "tenantIds (tz_tenantScope destination) \<noteq> []"
  shows "set (tenantIds (tz_tenantScope source)) \<inter> set (tenantIds (tz_tenantScope destination)) \<noteq> {}"
proof -
  have ids: "tenantIds s = tenantIdsFromScope s" for s by (cases s) simp_all
  show ?thesis
  proof (cases "tz_id source = tz_id destination")
    case True
    with zone_of_mem [OF accepted_structural [OF assms(1)]] assms(2,3) have "source = destination" by (metis option.inject)
    with assms(5) show ?thesis by simp
  next
    case False
    from connected_simple_walk [OF assms(4)] obtain w where
      w: "simple_walk (reach_edges bp) (tz_id source) w" "last (fst w) = tz_id destination" by blast
    with False walk_moves have "snd w \<noteq> []" by metis
    from accepted_walk(3) [OF assms(1-3) w this] assms(5,6) show ?thesis by (simp add: ids)
  qed
qed

lemma bx_hop: "(''exec'', ''control'') \<in> hop_rel (reach_edges bx) UNIV" "(''control'', ''data'') \<in> hop_rel (reach_edges bx) UNIV"
  by (simp_all add: hop_rel_def can_reach_edges bx_def flow_def flow_edges_def flow_hops_def)

theorem accepted_tenant_network_witness:
  "set (tenantIds (tz_tenantScope (zone ''exec'' ZoneExecution acme))) \<inter>
   set (tenantIds (tz_tenantScope (zone ''data'' ZoneData acme))) \<noteq> {}"
proof (rule accepted_tenant_network [OF bx_accepted])
  show "(tz_id (zone ''exec'' ZoneExecution acme), tz_id (zone ''data'' ZoneData acme)) \<in> (hop_rel (reach_edges bx) UNIV)\<^sup>*"
    using bx_hop by (auto simp: zone_def)
qed (simp_all add: bx_def bx_zones_def zone_def acme_def)

text \<open>C16: In an accepted blueprint that requires inspected egress, every chain of hops from a zone to an external zone passes
  through a zone with inspected egress.\<close>

theorem accepted_inspected_egress:
  assumes "accepted date_parse now bp" "sp_requireInspectedEgress (bp_posture bp)"
    and "source \<in> set (bp_trustZones bp)" "destination \<in> set (bp_trustZones bp)" "tz_kind destination = ZoneExternal"
    and "tz_kind source \<noteq> ZoneExternal" "tz_id source \<notin> inspected_zones bp"
  shows "(tz_id source, tz_id destination) \<notin> (hop_rel (reach_edges bp) (- inspected_zones bp))\<^sup>*"
proof
  assume "(tz_id source, tz_id destination) \<in> (hop_rel (reach_edges bp) (- inspected_zones bp))\<^sup>*"
  from connected_simple_walk [OF this] obtain w where
    w: "simple_walk (reach_edges bp) (tz_id source) w" "last (fst w) = tz_id destination"
    and avoid: "set (fst w) \<subseteq> insert (tz_id source) (- inspected_zones bp)" by blast
  have "tz_id source \<noteq> tz_id destination"
    using zone_of_mem [OF accepted_structural [OF assms(1)]] assms(3-6) by (metis option.inject)
  with w walk_moves have "snd w \<noteq> []" by metis
  from accepted_walk(2) [OF assms(1,3,4) w this assms(2,5)] avoid assms(7) show False by blast
qed

theorem accepted_inspected_egress_witness:
  "(''exec'', ''internet'') \<notin> (hop_rel (reach_edges bx) (- inspected_zones bx))\<^sup>*"
  using accepted_inspected_egress [OF bx_accepted, of "zone ''exec'' ZoneExecution acme" "zone ''internet'' ZoneExternal PlatformScope"]
  by (simp add: bx_def bx_zones_def zone_def inspected_zones_def)

text \<open>C23: In an accepted blueprint an untrusted workload runs in an execution zone in a microVM or a dedicated VM, with brokered
  credentials and a bounded execution time; every flow from that zone that ends in a control-plane or data zone is
  brokered, and so is the first hop of every simple path of at least two hops to such a zone.\<close>

theorem accepted_untrusted_contained:
  assumes "accepted date_parse now bp" "w \<in> set (bp_workloadPlanes bp)" "wp_executionTrust w = ExecUntrusted"
  shows "\<exists>z. zone_of bp (wp_zoneId w) = Some z \<and> tz_kind z = ZoneExecution \<and> wp_credentialMode w = CredBrokered \<and>
    wp_runtimeIsolation w \<in> {IsoMicrovm, IsoDedicatedVm} \<and> (\<exists>n. wp_maxExecutionMinutes w = Some n \<and> n \<noteq> 0) \<and>
    (\<forall>f \<in> set (bp_flows bp). nf_fromZoneId f = tz_id z \<longrightarrow>
       kind_of bp (nf_toZoneId f) \<in> {Some ZoneControlPlane, Some ZoneData} \<longrightarrow> nf_authorization f = FlowBrokered) \<and>
    (\<forall>v destination. simple_walk (reach_edges bp) (tz_id z) v \<longrightarrow> 2 \<le> length (snd v) \<longrightarrow>
       zone_of bp (last (fst v)) = Some destination \<longrightarrow> tz_kind destination \<in> {ZoneControlPlane, ZoneData} \<longrightarrow>
       se_brokered (hd (snd v)) = Some True)"
proof -
  have w: "kind_of bp (wp_zoneId w) = Some ZoneExecution" "wp_credentialMode w = CredBrokered"
    "wp_runtimeIsolation w \<in> {IsoMicrovm, IsoDedicatedVm}" "\<exists>n. wp_maxExecutionMinutes w = Some n \<and> n \<noteq> 0"
    using workload_untrusted [OF accepted_workload [OF assms(1,2)] assms(3)] by blast+
  then obtain z where z: "zone_of bp (wp_zoneId w) = Some z" "tz_kind z = ZoneExecution" by (auto simp: kind_of_def)
  note mem = zone_of_Some [OF z(1)]
  have "nf_authorization f = FlowBrokered" if "f \<in> set (bp_flows bp)" "nf_fromZoneId f = tz_id z"
    "kind_of bp (nf_toZoneId f) \<in> {Some ZoneControlPlane, Some ZoneData}" for f
    using accepted_execution_flow [OF assms(1) that(1) _ that(3)] that(2) w(1) mem by simp
  moreover have "se_brokered (hd (snd v)) = Some True" if "simple_walk (reach_edges bp) (tz_id z) v" "2 \<le> length (snd v)"
    "zone_of bp (last (fst v)) = Some destination" "tz_kind destination \<in> {ZoneControlPlane, ZoneData}" for v destination
  proof -
    have "snd v \<noteq> []" using that(2) by auto
    with zone_of_Some [OF that(3)] that(4)
    show ?thesis by (intro accepted_walk(1) [OF assms(1) conjunct1 [OF mem] _ that(1) _ _ z(2) _ that(2)]) auto
  qed
  ultimately show ?thesis using w(2-4) z by (intro exI [of _ z]) blast
qed

theorem accepted_untrusted_contained_witness:
  "\<exists>z. zone_of bx ''exec'' = Some z \<and> tz_kind z = ZoneExecution"
  using accepted_untrusted_contained [OF bx_accepted, of bx_plane] by (auto simp: bx_def bx_plane_def)

text \<open>The policies do not cover a control plane that is a transit hop: an accepted blueprint has an unbrokered edge from an
  execution zone straight into the control plane, because the flow ends elsewhere and the path to the hop has only two zones.\<close>

theorem transit_hop_unbrokered:
  "\<exists>e source destination. accepted Date_parse 0 gap \<and> e \<in> reach_edges gap \<and>
     zone_of gap (se_from e) = Some source \<and> tz_kind source = ZoneExecution \<and>
     zone_of gap (se_to e) = Some destination \<and> tz_kind destination = ZoneControlPlane \<and> se_brokered e = Some False"
proof -
  let ?e = "\<lparr>se_id = ''relay:hop-1'', se_kind = EdgeCanReach, se_from = ''exec'', se_to = ''control'',
    se_brokered = Some False, se_sourceId = Some ''relay''\<rparr>"
  have "?e = hd (flow_edges (flow ''relay'' ''exec'' ''worker'' FlowDirect (Some [''control''])))" by code_simp
  then have "?e \<in> reach_edges gap" by (simp add: can_reach_edges gap_def flow_edges_def flow_hops_def flow_def)
  moreover have "zone_of gap ''exec'' = Some (zone ''exec'' ZoneExecution acme)"
    "zone_of gap ''control'' = Some (zone ''control'' ZoneControlPlane PlatformScope)" by code_simp+
  ultimately show ?thesis using gap_accepted
    by (intro exI [of _ ?e] exI [of _ "zone ''exec'' ZoneExecution acme"] exI [of _ "zone ''control'' ZoneControlPlane PlatformScope"])
      (simp add: zone_def)
qed

subsection \<open>Identities\<close>

text \<open>C5: \<open>analyzeEntitlements\<close> decides the declarative access rule.  It has an entitlement for a principal, a grant, a
  resource and an action exactly when the grant allows that action on the resource to an identity the principal can reach
  over any chain of delegations; and the decision of every such entitlement is \<open>allow\<close> exactly when no deny grant of any
  reachable identity matches.\<close>

theorem entitlements_decide:
  assumes "analyzeEntitlements bp = Inr es" "p \<in> set (bp_identities bp)"
  shows "((\<exists>e \<in> set es. en_principalId e = idn_id p \<and> en_grantId e = i \<and> en_resourceId e = r \<and> en_action e = a) \<longleftrightarrow>
      (\<exists>g. gr_id g = i \<and> may_act bp (idn_id p) g r a)) \<and>
    (\<forall>e \<in> set es. en_decision e = EffectAllow \<longleftrightarrow> \<not> denied_for bp (en_principalId e) (en_resourceId e) (en_action e))"
proof
  show "(\<exists>e \<in> set es. en_principalId e = idn_id p \<and> en_grantId e = i \<and> en_resourceId e = r \<and> en_action e = a) \<longleftrightarrow>
      (\<exists>g. gr_id g = i \<and> may_act bp (idn_id p) g r a)"
    using entitlement_exists [OF assms] entitlement_sound [OF assms(1)] by metis
  show "\<forall>e \<in> set es. en_decision e = EffectAllow \<longleftrightarrow> \<not> denied_for bp (en_principalId e) (en_resourceId e) (en_action e)"
    using entitlement_sound [OF assms(1)] by metis
qed

lemma bx_entitlements: "\<exists>es. analyzeEntitlements bx = Inr es"
  using identity_entitlements [OF bx_policies(7)] by blast

lemma bx_deployer: "(''deployer'', ''agent'') \<in> (delegates (bp_identityDelegations bx))\<^sup>*"
  by (rule r_into_rtrancl) (simp add: delegates_def bx_def)

theorem entitlements_decide_witness:
  "\<exists>es. analyzeEntitlements bx = Inr es \<and> (\<exists>e \<in> set es. en_principalId e = ''deployer'' \<and> en_grantId e = ''read'' \<and>
     en_resourceId e = ''store'' \<and> en_action e = ''object:get'')"
proof -
  obtain es where es: "analyzeEntitlements bx = Inr es" using bx_entitlements by blast
  let ?p = "\<lparr>idn_id = ''deployer'', idn_kind = IdAutomation, idn_tenantId = None, idn_shortLived = True\<rparr>"
  have "may_act bx ''deployer'' bx_grant ''store'' ''object:get''"
    using bx_deployer by (simp add: may_act_def bx_grant_def) (simp add: bx_def bx_grant_def)
  then have "\<exists>g. gr_id g = ''read'' \<and> may_act bx ''deployer'' g ''store'' ''object:get''"
    by (intro exI [of _ bx_grant]) (simp add: bx_grant_def)
  moreover have "?p \<in> set (bp_identities bx)" by (simp add: bx_def)
  ultimately show ?thesis using conjunct1 [OF entitlements_decide [OF es, of ?p]] es by auto
qed

text \<open>C7: In an accepted blueprint an identity of a tenant that can act, over any chain of delegations and not denied, on a zone,
  workload plane or data boundary with tenants, is of one of these tenants, unless the grant carries an exception that has not
  expired (an expiry that does not parse counts as not expired, as in the code) and whose audit requirement covers the
  resource.\<close>

theorem accepted_tenant_access:
  assumes "accepted date_parse now bp" "p \<in> set (bp_identities bp)" "idn_tenantId p = Some t" "t \<noteq> []"
    and "may_act bp (idn_id p) g r a" "\<not> denied_for bp (idn_id p) r a"
    and "declared_scope bp r s" "tenantIdsFromScope s \<noteq> []"
  shows "t \<in> set (tenantIdsFromScope s) \<or> exception_holds date_parse now bp g r"
  by (rule accepted_entitlement [OF assms])

theorem accepted_tenant_access_witness:
  "''acme'' \<in> set (tenantIdsFromScope acme) \<or> exception_holds Date_parse 0 bx bx_grant ''store''"
proof (rule accepted_tenant_access [OF bx_accepted, where p = bx_agent and a = "''object:get''"])
  show "\<not> denied_for bx (idn_id bx_agent) ''store'' ''object:get''"
  proof -
    have "\<not> actionMatches [''object:delete''] ''object:get''" by code_simp
    then show ?thesis by (simp add: denied_for_def bx_def bx_grant_def)
  qed
qed (simp_all add: bx_def bx_agent_def may_act_def bx_grant_def declared_scope_def bx_boundary_def acme_def)

subsection \<open>Structure, tenants, data\<close>

text \<open>C19: The structural policy is silent exactly on the blueprints in which no identifier is declared twice, over all twelve
  kinds of declarations; every network domain has an existing zone and at least one availability zone; the zones of the flows
  (source, destination and transit) and of the workload planes exist; the identity and the resources of every grant, both
  identities of every delegation, and the sink and sources of every evidence requirement exist; and all address blocks of the
  network domains parse and any two of them are disjoint as sets of addresses.  The references of applications, tenants and data
  boundaries are no subject of this policy.\<close>

theorem structural_policy_decides: "structuralIntegrityPolicy bp = [] \<longleftrightarrow> well_formed_blueprint bp"
  by (rule well_formed_iff)

text \<open>C28: In an accepted blueprint the zones of a dedicated-account tenant are dedicated to that tenant, with an isolation
  boundary; its data boundaries have keys of their own; and no chain of hops leads from its zones to a zone of another tenant
  only.\<close>

theorem accepted_dedicated_tenant:
  assumes "accepted date_parse now bp" "t \<in> set (bp_tenants bp)" "tp_isolationTier t = TierDedicatedAccount"
  shows "(\<forall>d \<in> set (tp_dataBoundaryIds t). \<exists>b. boundary_of bp d = Some b \<and> er_dedicatedPerTenant (db_encryption b) \<and>
       tp_tenantId t \<in> set (tenantIdsFromScope (db_tenantScope b))) \<and>
    (\<forall>i \<in> set (tp_zoneIds t). \<exists>z. zone_of bp i = Some z \<and> tz_tenantScope z = DedicatedScope (tp_tenantId t) \<and>
       truthy (tz_isolationBoundary z) \<and>
       (\<forall>destination \<in> set (bp_trustZones bp). (i, tz_id destination) \<in> (hop_rel (reach_edges bp) UNIV)\<^sup>* \<longrightarrow>
          tz_tenantScope destination = PlatformScope \<or> tz_tenantScope destination = PooledScope [] \<or>
          tp_tenantId t \<in> set (tenantIdsFromScope (tz_tenantScope destination))))"
proof (intro conjI ballI)
  fix d assume "d \<in> set (tp_dataBoundaryIds t)"
  from tenant_dedicated_key [OF accepted_tenant [OF assms(1,2)] assms(3) this]
  show "\<exists>b. boundary_of bp d = Some b \<and> er_dedicatedPerTenant (db_encryption b) \<and>
      tp_tenantId t \<in> set (tenantIdsFromScope (db_tenantScope b))" by blast
next
  fix i assume "i \<in> set (tp_zoneIds t)"
  from tenant_dedicated_zone [OF accepted_tenant [OF assms(1,2)] assms(3) this] obtain z where
    z: "zone_of bp i = Some z" "tz_tenantScope z = DedicatedScope (tp_tenantId t)" "truthy (tz_isolationBoundary z)" by blast
  note mem = zone_of_Some [OF z(1)]
  have "tz_tenantScope destination = PlatformScope \<or> tz_tenantScope destination = PooledScope [] \<or>
      tp_tenantId t \<in> set (tenantIdsFromScope (tz_tenantScope destination))"
    if d: "destination \<in> set (bp_trustZones bp)" "(i, tz_id destination) \<in> (hop_rel (reach_edges bp) UNIV)\<^sup>*" for destination
  proof (cases "tz_id destination = i")
    case True
    with mem d(1) zone_of_mem [OF accepted_structural [OF assms(1)]] have "destination = z" by (metis option.inject)
    with z(2) show ?thesis by simp
  next
    case False
    from connected_simple_walk [OF d(2)] obtain w where
      w: "simple_walk (reach_edges bp) i w" "last (fst w) = tz_id destination" by blast
    with False walk_moves have "snd w \<noteq> []" by metis
    with w mem have "tenantIdsFromScope (tz_tenantScope destination) \<noteq> [] \<Longrightarrow>
        set (tenantIdsFromScope (tz_tenantScope z)) \<inter> set (tenantIdsFromScope (tz_tenantScope destination)) \<noteq> {}"
      by (intro accepted_walk(3) [OF assms(1) conjunct1 [OF mem] d(1)]) (simp_all add: z(2))
    with z(2) show ?thesis by (cases "tz_tenantScope destination") auto
  qed
  with z show "\<exists>z. zone_of bp i = Some z \<and> tz_tenantScope z = DedicatedScope (tp_tenantId t) \<and>
       truthy (tz_isolationBoundary z) \<and>
       (\<forall>destination \<in> set (bp_trustZones bp). (i, tz_id destination) \<in> (hop_rel (reach_edges bp) UNIV)\<^sup>* \<longrightarrow>
          tz_tenantScope destination = PlatformScope \<or> tz_tenantScope destination = PooledScope [] \<or>
          tp_tenantId t \<in> set (tenantIdsFromScope (tz_tenantScope destination)))" by blast
qed

theorem accepted_dedicated_tenant_witness: "\<exists>z. zone_of bx ''exec'' = Some z \<and> tz_tenantScope z = DedicatedScope ''acme''"
  using accepted_dedicated_tenant [OF bx_accepted, of bx_tenant] by (auto simp: bx_def bx_tenant_def)

text \<open>In an accepted blueprint that requires immutable audit, every data boundary that is not public is a source of an
  evidence requirement whose sink is declared, immutable and retains evidence for the required time.\<close>

theorem accepted_data_audited:
  assumes "accepted date_parse now bp" "sp_requireImmutableAudit (bp_posture bp)" "d \<in> set (bp_dataBoundaries bp)"
    and "db_classification d \<noteq> ClassPublic"
  shows "\<exists>r \<in> set (bp_evidenceRequirements bp). \<exists>s \<in> set (bp_evidenceSinks bp). db_id d \<in> set (eq_sourceIds r) \<and>
    eq_sinkId r = es_id s \<and> es_immutable s \<and> sp_minimumAuditRetentionDays (bp_posture bp) \<le> es_retentionDays s"
  by (rule accepted_evidence [OF assms])

theorem accepted_data_audited_witness:
  "\<exists>r \<in> set (bp_evidenceRequirements bx). ''store'' \<in> set (eq_sourceIds r)"
  using accepted_data_audited [OF bx_accepted, of bx_boundary] by (auto simp: bx_def bx_boundary_def)

subsection \<open>Applications\<close>

lemma distinct_concat_owner:
  "distinct (concat (map f xs)) \<Longrightarrow> x \<in> set xs \<Longrightarrow> y \<in> set xs \<Longrightarrow> b \<in> set (f x) \<Longrightarrow> b \<in> set (f y) \<Longrightarrow> x = y"
  by (induction xs) auto

lemma accepted_application:
  assumes "accepted dp now bp" "a \<in> set (bp_applications bp)"
  shows "application_posture_violations bp a = []" "application_data_violations bp a = []" "application_release_violations a = []"
    "application_evidence_violations bp a = []"
  using assms unfolding accepted_iff by (simp_all add: applicationDeploymentPolicy_def application_violations_def)

lemma accepted_shared:
  assumes "accepted dp now bp"
  shows "distinct (concat (map ap_dataBoundaryIds (bp_applications bp)))" "distinct (map ap_serviceIdentityId (bp_applications bp))"
  using assms unfolding accepted_iff by (simp_all add: applicationDeploymentPolicy_def shared_violations_def duplicateValues_Nil)

text \<open>In an accepted blueprint a data boundary belongs to at most one application and has the tenant scope of that
  application and of its workload plane; the boundaries of an application are exactly those of its components; no two
  applications share a service identity, and every application has deployment and authorization evidence.\<close>

theorem accepted_application_data:
  assumes "accepted date_parse now bp" "a \<in> set (bp_applications bp)"
  shows "(\<forall>b \<in> set (ap_dataBoundaryIds a).
       (\<exists>d w. boundary_of bp b = Some d \<and> plane_of bp (ap_workloadPlaneId a) = Some w \<and>
          db_tenantScope d = ap_tenantScope a \<and> wp_tenantScope w = ap_tenantScope a) \<and>
       (\<forall>a' \<in> set (bp_applications bp). b \<in> set (ap_dataBoundaryIds a') \<longrightarrow> a' = a)) \<and>
    set (ap_dataBoundaryIds a) = (\<Union>c \<in> set (ap_components a). set (cp_dataBoundaryIds c)) \<and>
    (\<forall>a' \<in> set (bp_applications bp). ap_serviceIdentityId a' = ap_serviceIdentityId a \<longrightarrow> a' = a) \<and>
    (\<exists>r \<in> set (bp_evidenceRequirements bp). ap_id a \<in> set (eq_sourceIds r) \<and>
       {''deployment'', ''authorization''} \<subseteq> set (eq_eventTypes r))"
proof (intro conjI ballI impI)
  note none = accepted_application [OF assms]
  fix b assume b: "b \<in> set (ap_dataBoundaryIds a)"
  from none(1) obtain w where w: "plane_of bp (ap_workloadPlaneId a) = Some w" "wp_tenantScope w = ap_tenantScope a"
    by (auto simp: application_posture_violations_def split: option.splits)
  from none(2) b obtain d where "boundary_of bp b = Some d" "db_tenantScope d = ap_tenantScope a"
    by (auto simp: application_data_violations_def split: option.splits)
  with w show "\<exists>d w. boundary_of bp b = Some d \<and> plane_of bp (ap_workloadPlaneId a) = Some w \<and>
      db_tenantScope d = ap_tenantScope a \<and> wp_tenantScope w = ap_tenantScope a" by blast
  fix a' assume "a' \<in> set (bp_applications bp)" "b \<in> set (ap_dataBoundaryIds a')"
  with b assms(2) show "a' = a" by (intro distinct_concat_owner [OF accepted_shared(1) [OF assms(1)]])
next
  have "sort_strings (js_uniq (concat (map cp_dataBoundaryIds (ap_components a)))) = sort_strings (ap_dataBoundaryIds a)"
    using accepted_application(1) [OF assms] by (simp add: application_posture_violations_def)
  from arg_cong [OF this, of set] show "set (ap_dataBoundaryIds a) = (\<Union>c \<in> set (ap_components a). set (cp_dataBoundaryIds c))"
    by (simp add: sort_strings_def)
next
  fix a' assume "a' \<in> set (bp_applications bp)" "ap_serviceIdentityId a' = ap_serviceIdentityId a"
  with accepted_shared(2) [OF assms(1)] assms(2) show "a' = a" by (auto simp: distinct_map inj_on_def)
next
  show "\<exists>r \<in> set (bp_evidenceRequirements bp). ap_id a \<in> set (eq_sourceIds r) \<and>
       {''deployment'', ''authorization''} \<subseteq> set (eq_eventTypes r)"
    using accepted_application(4) [OF assms] by (auto simp: application_evidence_violations_def find_None_iff)
qed

theorem accepted_application_data_witness: "set (ap_dataBoundaryIds bx_application) = set (cp_dataBoundaryIds bx_component)"
  using accepted_application_data [OF bx_accepted, of bx_application] by (simp add: bx_def bx_application_def)

end
