(* ===== verification/BlueprintSchema.thy ===== *)
theory BlueprintSchema
  imports Blueprint
begin

section \<open>The blueprint parser\<close>

text \<open>
  \<open>src/core/schema.ts\<close>: the parser of an untrusted value into a blueprint, with every field in the
  order in which the source reads it, so that the first error is the source's first error.
  \<open>date_parse\<close> is \<open>Date.parse\<close>, whose accepted formats are up to the implementation; \<open>None\<close> is
  \<open>NaN\<close>.  The inline readers of components, dependencies and nested objects have names of their own;
  \<open><record>_fields\<close> reads the fields of an object that was checked before.
\<close>

datatype schema_error = BlueprintSchemaError (error_path: string) (error_message: string)

definition forbiddenSecretKeys :: "string list" where
  "forbiddenSecretKeys =
     [''password'', ''privateKey'', ''secret'', ''secretMaterial'', ''secretString'', ''secretValue'', ''token'']"

definition currentBlueprintApiVersion :: string where
  "currentBlueprintApiVersion = ''security.deus.dev/v1alpha1''"

definition MAX_SAFE_INTEGER :: int where
  "MAX_SAFE_INTEGER = 9007199254740991"

subsection \<open>Field readers\<close>

definition schemaRecord :: "jsval \<Rightarrow> string \<Rightarrow> schema_error + props" where
  "schemaRecord v path = (case v of JObj ps \<Rightarrow> Inr ps | _ \<Rightarrow> Inl (BlueprintSchemaError path ''must be an object''))"

definition rejectUnknown :: "props \<Rightarrow> string \<Rightarrow> string list \<Rightarrow> schema_error + unit" where
  "rejectUnknown input path allowed =
     (let unknown = filter (\<lambda>k. k \<notin> set allowed) (map fst input)
      in throw_if (0 < length unknown)
           (BlueprintSchemaError path
             (''contains unknown field'' @ (if length unknown = 1 then '''' else ''s'') @ '': '' @ join_with '', '' unknown)))"

definition schemaObject :: "jsval \<Rightarrow> string \<Rightarrow> string list \<Rightarrow> schema_error + props" where
  "schemaObject v path allowed =
     bind_r (schemaRecord v path) (\<lambda>input. bind_r (rejectUnknown input path allowed) (\<lambda>_. Inr input))"

definition schemaArray :: "jsval \<Rightarrow> string \<Rightarrow> (jsval \<Rightarrow> string \<Rightarrow> schema_error + 'a) \<Rightarrow> schema_error + 'a list" where
  "schemaArray v path parse =
     (case v of
        JArr vs \<Rightarrow> map_ix (\<lambda>index entry. parse entry (quote_path path index)) 0 vs
      | _ \<Rightarrow> Inl (BlueprintSchemaError path ''must be an array''))"

definition nonEmptyString :: "jsval \<Rightarrow> string \<Rightarrow> schema_error + string" where
  "nonEmptyString v path =
     (case v of
        JStr s \<Rightarrow> if nonEmpty s then Inr s else Inl (BlueprintSchemaError path ''must be a non-empty string'')
      | _ \<Rightarrow> Inl (BlueprintSchemaError path ''must be a non-empty string''))"

definition stringArray :: "jsval \<Rightarrow> string \<Rightarrow> schema_error + string list" where
  "stringArray v path = schemaArray v path nonEmptyString"

definition optional_value :: "(jsval \<Rightarrow> schema_error + 'a) \<Rightarrow> jsval \<Rightarrow> schema_error + 'a option" where
  "optional_value parse v = (if v = JUndef then Inr None else bind_r (parse v) (\<lambda>x. Inr (Some x)))"

definition optionalStringArray :: "jsval \<Rightarrow> string \<Rightarrow> schema_error + string list option" where
  "optionalStringArray v path = optional_value (\<lambda>v. stringArray v path) v"

definition optionalString :: "jsval \<Rightarrow> string \<Rightarrow> schema_error + string option" where
  "optionalString v path = optional_value (\<lambda>v. nonEmptyString v path) v"

definition schemaBoolean :: "jsval \<Rightarrow> string \<Rightarrow> schema_error + bool" where
  "schemaBoolean v path = (case v of JBool b \<Rightarrow> Inr b | _ \<Rightarrow> Inl (BlueprintSchemaError path ''must be a boolean''))"

definition schemaInteger :: "jsval \<Rightarrow> string \<Rightarrow> int \<Rightarrow> int \<Rightarrow> schema_error + int" where
  "schemaInteger v path lo hi =
     (let message = ''must be an integer between '' @ int_dec lo @ '' and '' @ int_dec hi
      in case v of
           JNum (NInt i) \<Rightarrow> if i < lo \<or> hi < i then Inl (BlueprintSchemaError path message) else Inr i
         | _ \<Rightarrow> Inl (BlueprintSchemaError path message))"

definition optionalInteger :: "jsval \<Rightarrow> string \<Rightarrow> int \<Rightarrow> schema_error + int option" where
  "optionalInteger v path lo = optional_value (\<lambda>v. schemaInteger v path lo MAX_SAFE_INTEGER) v"

definition optionalIntegerArray :: "jsval \<Rightarrow> string \<Rightarrow> int \<Rightarrow> int \<Rightarrow> schema_error + int list option" where
  "optionalIntegerArray v path lo hi =
     optional_value (\<lambda>v. schemaArray v path (\<lambda>entry entryPath. schemaInteger entry entryPath lo hi)) v"

definition schemaLiteral :: "jsval \<Rightarrow> string \<Rightarrow> string \<Rightarrow> schema_error + string" where
  "schemaLiteral v expected path =
     (if v \<noteq> JStr expected then Inl (BlueprintSchemaError path (''must equal '' @ squote expected)) else Inr expected)"

definition enumeration :: "jsval \<Rightarrow> string \<Rightarrow> ('a \<Rightarrow> string) \<Rightarrow> 'a list \<Rightarrow> schema_error + 'a" where
  "enumeration v path name vals =
     (let message = ''must be one of: '' @ join_with '', '' (map name vals)
      in case v of
           JStr s \<Rightarrow> (case List.find (\<lambda>a. name a = s) vals of
               None \<Rightarrow> Inl (BlueprintSchemaError path message)
             | Some a \<Rightarrow> Inr a)
         | _ \<Rightarrow> Inl (BlueprintSchemaError path message))"

definition record_entry :: "string \<Rightarrow> nat \<Rightarrow> string \<times> jsval \<Rightarrow> schema_error + (string \<times> string)" where
  "record_entry path i e = bind_r (nonEmptyString (snd e) (path @ ''.'' @ fst e)) (\<lambda>s. Inr (fst e, s))"

definition optionalStringRecord :: "jsval \<Rightarrow> string \<Rightarrow> schema_error + string obj option" where
  "optionalStringRecord v path =
     optional_value (\<lambda>v.
       bind_r (schemaRecord v path) (\<lambda>input.
       bind_r (map_ix (record_entry path) 0 input) (\<lambda>entries. Inr (obj_from_entries entries)))) v"

definition isoTimestamp :: "(string \<Rightarrow> int option) \<Rightarrow> jsval \<Rightarrow> string \<Rightarrow> schema_error + string" where
  "isoTimestamp date_parse v path =
     bind_r (nonEmptyString v path) (\<lambda>timestamp.
     bind_r (throw_if (date_parse timestamp = None) (BlueprintSchemaError path ''must be an ISO-8601 timestamp'')) (\<lambda>_.
     Inr timestamp))"

definition parseCapability :: "jsval \<Rightarrow> string \<Rightarrow> schema_error + platform_capability" where
  "parseCapability v path = enumeration v path platform_capability_text all_platform_capability"

datatype scope_mode = ModePlatform | ModePooled | ModeDedicated

primrec scope_mode_text :: "scope_mode \<Rightarrow> string" where
  "scope_mode_text ModePlatform = ''platform''"
| "scope_mode_text ModePooled = ''pooled''"
| "scope_mode_text ModeDedicated = ''dedicated''"

definition parseTenantScope :: "jsval \<Rightarrow> string \<Rightarrow> schema_error + tenant_scope" where
  "parseTenantScope v path =
     bind_r (schemaRecord v path) (\<lambda>input.
     bind_r (enumeration (js_get input ''mode'') (path @ ''.mode'') scope_mode_text [ModePlatform, ModePooled, ModeDedicated]) (\<lambda>mode.
     case mode of
       ModePlatform \<Rightarrow> bind_r (rejectUnknown input path [''mode'']) (\<lambda>_. Inr PlatformScope)
     | ModePooled \<Rightarrow>
         bind_r (rejectUnknown input path [''mode'', ''tenantIds'']) (\<lambda>_.
         bind_r (stringArray (js_get input ''tenantIds'') (path @ ''.tenantIds'')) (\<lambda>ts. Inr (PooledScope ts)))
     | ModeDedicated \<Rightarrow>
         bind_r (rejectUnknown input path [''mode'', ''tenantId'']) (\<lambda>_.
         bind_r (nonEmptyString (js_get input ''tenantId'') (path @ ''.tenantId'')) (\<lambda>t. Inr (DedicatedScope t)))))"

text \<open>\<open>stringArray(input.services).map(enumeration)\<close>: all entries are strings before the first is looked up.\<close>

definition parseServices :: "jsval \<Rightarrow> string \<Rightarrow> schema_error + data_service list" where
  "parseServices v path =
     bind_r (stringArray v path) (\<lambda>services.
     map_ix (\<lambda>index service. enumeration (JStr service) (quote_path path index) data_service_text all_data_service) 0 services)"

subsection \<open>Secret material\<close>

text \<open>The recursive search for forbidden keys: over the elements of an array, over the entries of an object.\<close>

fun rejectSecretMaterial :: "jsval \<Rightarrow> string \<Rightarrow> schema_error + unit"
  and reject_elements :: "jsval list \<Rightarrow> string \<Rightarrow> nat \<Rightarrow> schema_error + unit"
  and reject_entries :: "(string \<times> jsval) list \<Rightarrow> string \<Rightarrow> schema_error + unit"
where
  "rejectSecretMaterial (JArr vs) path = reject_elements vs path 0"
| "rejectSecretMaterial (JObj ps) path = reject_entries ps path"
| "rejectSecretMaterial v path = Inr ()"
| "reject_elements [] path index = Inr ()"
| "reject_elements (v # vs) path index =
     bind_r (rejectSecretMaterial v (quote_path path index)) (\<lambda>_. reject_elements vs path (Suc index))"
| "reject_entries [] path = Inr ()"
| "reject_entries ((key, v) # ps) path =
     bind_r (throw_if (key \<in> set forbiddenSecretKeys)
       (BlueprintSchemaError (path @ ''.'' @ key)
         ''secret material is not permitted; use a provider-managed secret reference'')) (\<lambda>_.
     bind_r (rejectSecretMaterial v (path @ ''.'' @ key)) (\<lambda>_. reject_entries ps path))"

subsection \<open>The interfaces\<close>

definition parsePosture ::
  "jsval \<Rightarrow> string \<Rightarrow> schema_error + security_posture"
where
  "parsePosture v path =
     bind_r (schemaObject v path [''forbidPublicControlPlanes'', ''requireInspectedEgress'', ''requireImmutableAudit'',
         ''minimumAuditRetentionDays'']) (\<lambda>input.
     bind_r (schemaBoolean (js_get input ''forbidPublicControlPlanes'') (path @ ''.forbidPublicControlPlanes'')) (\<lambda>v_forbidPublicControlPlanes.
     bind_r (schemaBoolean (js_get input ''requireInspectedEgress'') (path @ ''.requireInspectedEgress'')) (\<lambda>v_requireInspectedEgress.
     bind_r (schemaBoolean (js_get input ''requireImmutableAudit'') (path @ ''.requireImmutableAudit'')) (\<lambda>v_requireImmutableAudit.
     bind_r (schemaInteger (js_get input ''minimumAuditRetentionDays'') (path @ ''.minimumAuditRetentionDays'') 0 MAX_SAFE_INTEGER) (\<lambda>v_minimumAuditRetentionDays.
     Inr \<lparr>sp_forbidPublicControlPlanes = v_forbidPublicControlPlanes,
       sp_requireInspectedEgress = v_requireInspectedEgress,
       sp_requireImmutableAudit = v_requireImmutableAudit,
       sp_minimumAuditRetentionDays = v_minimumAuditRetentionDays\<rparr>)))))"

definition parseTrustZone ::
  "jsval \<Rightarrow> string \<Rightarrow> schema_error + trust_zone"
where
  "parseTrustZone v path =
     bind_r (schemaObject v path [''id'', ''kind'', ''publicAccess'', ''tenantScope'', ''isolationBoundary'']) (\<lambda>input.
     bind_r (nonEmptyString (js_get input ''id'') (path @ ''.id'')) (\<lambda>v_id.
     bind_r (enumeration (js_get input ''kind'') (path @ ''.kind'') zone_kind_text all_zone_kind) (\<lambda>v_kind.
     bind_r (schemaBoolean (js_get input ''publicAccess'') (path @ ''.publicAccess'')) (\<lambda>v_publicAccess.
     bind_r (parseTenantScope (js_get input ''tenantScope'') (path @ ''.tenantScope'')) (\<lambda>v_tenantScope.
     bind_r (optionalString (js_get input ''isolationBoundary'') (path @ ''.isolationBoundary'')) (\<lambda>v_isolationBoundary.
     Inr \<lparr>tz_id = v_id, tz_kind = v_kind, tz_publicAccess = v_publicAccess,
       tz_tenantScope = v_tenantScope, tz_isolationBoundary = v_isolationBoundary\<rparr>))))))"

definition parseNetworkDomain ::
  "jsval \<Rightarrow> string \<Rightarrow> schema_error + network_domain"
where
  "parseNetworkDomain v path =
     bind_r (schemaObject v path [''id'', ''zoneId'', ''cidrs'', ''availabilityZoneCount'', ''directInternetAccess'',
         ''inspectedEgress'']) (\<lambda>input.
     bind_r (nonEmptyString (js_get input ''id'') (path @ ''.id'')) (\<lambda>v_id.
     bind_r (nonEmptyString (js_get input ''zoneId'') (path @ ''.zoneId'')) (\<lambda>v_zoneId.
     bind_r (stringArray (js_get input ''cidrs'') (path @ ''.cidrs'')) (\<lambda>v_cidrs.
     bind_r (schemaInteger (js_get input ''availabilityZoneCount'') (path @ ''.availabilityZoneCount'') 1 MAX_SAFE_INTEGER) (\<lambda>v_availabilityZoneCount.
     bind_r (schemaBoolean (js_get input ''directInternetAccess'') (path @ ''.directInternetAccess'')) (\<lambda>v_directInternetAccess.
     bind_r (schemaBoolean (js_get input ''inspectedEgress'') (path @ ''.inspectedEgress'')) (\<lambda>v_inspectedEgress.
     Inr \<lparr>nd_id = v_id, nd_zoneId = v_zoneId, nd_cidrs = v_cidrs,
       nd_availabilityZoneCount = v_availabilityZoneCount,
       nd_directInternetAccess = v_directInternetAccess,
       nd_inspectedEgress = v_inspectedEgress\<rparr>)))))))"

definition parseFlow ::
  "jsval \<Rightarrow> string \<Rightarrow> schema_error + network_flow"
where
  "parseFlow v path =
     bind_r (schemaObject v path [''id'', ''fromZoneId'', ''toZoneId'', ''protocol'', ''ports'', ''purpose'',
         ''authorization'', ''viaZoneIds'', ''externalDestinations'']) (\<lambda>input.
     bind_r (nonEmptyString (js_get input ''id'') (path @ ''.id'')) (\<lambda>v_id.
     bind_r (nonEmptyString (js_get input ''fromZoneId'') (path @ ''.fromZoneId'')) (\<lambda>v_fromZoneId.
     bind_r (nonEmptyString (js_get input ''toZoneId'') (path @ ''.toZoneId'')) (\<lambda>v_toZoneId.
     bind_r (enumeration (js_get input ''protocol'') (path @ ''.protocol'') flow_protocol_text all_flow_protocol) (\<lambda>v_protocol.
     bind_r (optionalIntegerArray (js_get input ''ports'') (path @ ''.ports'') 1 65535) (\<lambda>v_ports.
     bind_r (nonEmptyString (js_get input ''purpose'') (path @ ''.purpose'')) (\<lambda>v_purpose.
     bind_r (enumeration (js_get input ''authorization'') (path @ ''.authorization'') flow_authorization_text all_flow_authorization) (\<lambda>v_authorization.
     bind_r (optionalStringArray (js_get input ''viaZoneIds'') (path @ ''.viaZoneIds'')) (\<lambda>v_viaZoneIds.
     bind_r (optionalStringArray (js_get input ''externalDestinations'') (path @ ''.externalDestinations'')) (\<lambda>v_externalDestinations.
     Inr \<lparr>nf_id = v_id, nf_fromZoneId = v_fromZoneId, nf_toZoneId = v_toZoneId,
       nf_protocol = v_protocol, nf_ports = v_ports, nf_purpose = v_purpose,
       nf_authorization = v_authorization, nf_viaZoneIds = v_viaZoneIds,
       nf_externalDestinations = v_externalDestinations\<rparr>))))))))))"

definition parseWorkloadPlane ::
  "jsval \<Rightarrow> string \<Rightarrow> schema_error + workload_plane"
where
  "parseWorkloadPlane v path =
     bind_r (schemaObject v path [''id'', ''zoneId'', ''tenantScope'', ''executionTrust'', ''orchestrator'',
         ''runtimeIsolation'', ''controlPlanePublic'', ''workloadIdentity'',
         ''credentialMode'', ''maxExecutionMinutes'']) (\<lambda>input.
     bind_r (nonEmptyString (js_get input ''id'') (path @ ''.id'')) (\<lambda>v_id.
     bind_r (nonEmptyString (js_get input ''zoneId'') (path @ ''.zoneId'')) (\<lambda>v_zoneId.
     bind_r (parseTenantScope (js_get input ''tenantScope'') (path @ ''.tenantScope'')) (\<lambda>v_tenantScope.
     bind_r (enumeration (js_get input ''executionTrust'') (path @ ''.executionTrust'') execution_trust_text all_execution_trust) (\<lambda>v_executionTrust.
     bind_r (enumeration (js_get input ''orchestrator'') (path @ ''.orchestrator'') workload_orchestrator_text all_workload_orchestrator) (\<lambda>v_orchestrator.
     bind_r (enumeration (js_get input ''runtimeIsolation'') (path @ ''.runtimeIsolation'') runtime_isolation_text all_runtime_isolation) (\<lambda>v_runtimeIsolation.
     bind_r (schemaBoolean (js_get input ''controlPlanePublic'') (path @ ''.controlPlanePublic'')) (\<lambda>v_controlPlanePublic.
     bind_r (schemaBoolean (js_get input ''workloadIdentity'') (path @ ''.workloadIdentity'')) (\<lambda>v_workloadIdentity.
     bind_r (enumeration (js_get input ''credentialMode'') (path @ ''.credentialMode'') credential_mode_text all_credential_mode) (\<lambda>v_credentialMode.
     bind_r (optionalInteger (js_get input ''maxExecutionMinutes'') (path @ ''.maxExecutionMinutes'') 1) (\<lambda>v_maxExecutionMinutes.
     Inr \<lparr>wp_id = v_id, wp_zoneId = v_zoneId, wp_tenantScope = v_tenantScope,
       wp_executionTrust = v_executionTrust, wp_orchestrator = v_orchestrator,
       wp_runtimeIsolation = v_runtimeIsolation,
       wp_controlPlanePublic = v_controlPlanePublic,
       wp_workloadIdentity = v_workloadIdentity, wp_credentialMode = v_credentialMode,
       wp_maxExecutionMinutes = v_maxExecutionMinutes\<rparr>)))))))))))"

definition availability_fields ::
  "props \<Rightarrow> string \<Rightarrow> schema_error + availability"
where
  "availability_fields input path =
     bind_r (schemaInteger (js_get input ''minimumReplicas'') (path @ ''.minimumReplicas'') 1 MAX_SAFE_INTEGER) (\<lambda>v_minimumReplicas.
     bind_r (schemaInteger (js_get input ''maximumUnavailable'') (path @ ''.maximumUnavailable'') 0 MAX_SAFE_INTEGER) (\<lambda>v_maximumUnavailable.
     Inr \<lparr>av_minimumReplicas = v_minimumReplicas, av_maximumUnavailable = v_maximumUnavailable\<rparr>))"

definition release_policy_fields ::
  "props \<Rightarrow> string \<Rightarrow> schema_error + release_policy"
where
  "release_policy_fields input path =
     bind_r (schemaBoolean (js_get input ''digestPinnedImages'') (path @ ''.digestPinnedImages'')) (\<lambda>v_digestPinnedImages.
     bind_r (schemaBoolean (js_get input ''signatureVerification'') (path @ ''.signatureVerification'')) (\<lambda>v_signatureVerification.
     bind_r (schemaBoolean (js_get input ''provenanceVerification'') (path @ ''.provenanceVerification'')) (\<lambda>v_provenanceVerification.
     bind_r (schemaBoolean (js_get input ''rollbackRequired'') (path @ ''.rollbackRequired'')) (\<lambda>v_rollbackRequired.
     Inr \<lparr>rl_digestPinnedImages = v_digestPinnedImages,
       rl_signatureVerification = v_signatureVerification,
       rl_provenanceVerification = v_provenanceVerification,
       rl_rollbackRequired = v_rollbackRequired\<rparr>))))"

definition parseComponent ::
  "jsval \<Rightarrow> string \<Rightarrow> schema_error + application_component"
where
  "parseComponent v path =
     bind_r (schemaObject v path [''id'', ''workloadPlaneId'', ''serviceIdentityId'', ''dataBoundaryIds'', ''ingress'',
         ''availability'']) (\<lambda>input.
     bind_r (schemaObject (js_get input ''availability'') (path @ ''.availability'') [''minimumReplicas'', ''maximumUnavailable'']) (\<lambda>v_availability.
     bind_r (nonEmptyString (js_get input ''id'') (path @ ''.id'')) (\<lambda>v_id.
     bind_r (nonEmptyString (js_get input ''workloadPlaneId'') (path @ ''.workloadPlaneId'')) (\<lambda>v_workloadPlaneId.
     bind_r (nonEmptyString (js_get input ''serviceIdentityId'') (path @ ''.serviceIdentityId'')) (\<lambda>v_serviceIdentityId.
     bind_r (stringArray (js_get input ''dataBoundaryIds'') (path @ ''.dataBoundaryIds'')) (\<lambda>v_dataBoundaryIds.
     bind_r (enumeration (js_get input ''ingress'') (path @ ''.ingress'') ingress_mode_text all_ingress_mode) (\<lambda>v_ingress.
     bind_r (availability_fields v_availability (path @ ''.availability'')) (\<lambda>v_availability.
     Inr \<lparr>cp_id = v_id, cp_workloadPlaneId = v_workloadPlaneId,
       cp_serviceIdentityId = v_serviceIdentityId, cp_dataBoundaryIds = v_dataBoundaryIds,
       cp_ingress = v_ingress, cp_availability = v_availability\<rparr>))))))))"

definition parseComponentDependency ::
  "jsval \<Rightarrow> string \<Rightarrow> schema_error + component_dependency"
where
  "parseComponentDependency v path =
     bind_r (schemaObject v path [''fromComponentId'', ''toComponentId'', ''protocol'', ''authorization'', ''audience'',
         ''actions'']) (\<lambda>input.
     bind_r (nonEmptyString (js_get input ''fromComponentId'') (path @ ''.fromComponentId'')) (\<lambda>v_fromComponentId.
     bind_r (nonEmptyString (js_get input ''toComponentId'') (path @ ''.toComponentId'')) (\<lambda>v_toComponentId.
     bind_r (enumeration (js_get input ''protocol'') (path @ ''.protocol'') dependency_protocol_text all_dependency_protocol) (\<lambda>v_protocol.
     bind_r (enumeration (js_get input ''authorization'') (path @ ''.authorization'') dependency_authorization_text all_dependency_authorization) (\<lambda>v_authorization.
     bind_r (nonEmptyString (js_get input ''audience'') (path @ ''.audience'')) (\<lambda>v_audience.
     bind_r (stringArray (js_get input ''actions'') (path @ ''.actions'')) (\<lambda>v_actions.
     Inr \<lparr>cd_fromComponentId = v_fromComponentId, cd_toComponentId = v_toComponentId,
       cd_protocol = v_protocol, cd_authorization = v_authorization,
       cd_audience = v_audience, cd_actions = v_actions\<rparr>)))))))"

definition parseDependency ::
  "jsval \<Rightarrow> string \<Rightarrow> schema_error + application_dependency"
where
  "parseDependency v path =
     bind_r (schemaObject v path [''deploymentId'', ''fromComponentId'', ''toComponentId'', ''protocol'',
         ''authorization'', ''audience'', ''actions'']) (\<lambda>input.
     bind_r (nonEmptyString (js_get input ''deploymentId'') (path @ ''.deploymentId'')) (\<lambda>v_deploymentId.
     bind_r (nonEmptyString (js_get input ''fromComponentId'') (path @ ''.fromComponentId'')) (\<lambda>v_fromComponentId.
     bind_r (nonEmptyString (js_get input ''toComponentId'') (path @ ''.toComponentId'')) (\<lambda>v_toComponentId.
     bind_r (enumeration (js_get input ''protocol'') (path @ ''.protocol'') dependency_protocol_text all_dependency_protocol) (\<lambda>v_protocol.
     bind_r (enumeration (js_get input ''authorization'') (path @ ''.authorization'') dependency_authorization_text all_dependency_authorization) (\<lambda>v_authorization.
     bind_r (nonEmptyString (js_get input ''audience'') (path @ ''.audience'')) (\<lambda>v_audience.
     bind_r (stringArray (js_get input ''actions'') (path @ ''.actions'')) (\<lambda>v_actions.
     Inr \<lparr>ad_deploymentId = v_deploymentId, ad_fromComponentId = v_fromComponentId,
       ad_toComponentId = v_toComponentId, ad_protocol = v_protocol,
       ad_authorization = v_authorization, ad_audience = v_audience, ad_actions = v_actions\<rparr>))))))))"

definition parseApplicationDeployment ::
  "jsval \<Rightarrow> string \<Rightarrow> schema_error + application_deployment"
where
  "parseApplicationDeployment v path =
     bind_r (schemaObject v path [''id'', ''workloadPlaneId'', ''serviceIdentityId'', ''tenantScope'',
         ''dataBoundaryIds'', ''ingress'', ''components'', ''componentDependencies'',
         ''dependencies'', ''availability'', ''release'']) (\<lambda>input.
     bind_r (schemaObject (js_get input ''availability'') (path @ ''.availability'') [''minimumReplicas'', ''maximumUnavailable'']) (\<lambda>v_availability.
     bind_r (schemaObject (js_get input ''release'') (path @ ''.release'') [''digestPinnedImages'', ''signatureVerification'', ''provenanceVerification'',
         ''rollbackRequired'']) (\<lambda>v_release.
     bind_r (nonEmptyString (js_get input ''id'') (path @ ''.id'')) (\<lambda>v_id.
     bind_r (nonEmptyString (js_get input ''workloadPlaneId'') (path @ ''.workloadPlaneId'')) (\<lambda>v_workloadPlaneId.
     bind_r (nonEmptyString (js_get input ''serviceIdentityId'') (path @ ''.serviceIdentityId'')) (\<lambda>v_serviceIdentityId.
     bind_r (parseTenantScope (js_get input ''tenantScope'') (path @ ''.tenantScope'')) (\<lambda>v_tenantScope.
     bind_r (stringArray (js_get input ''dataBoundaryIds'') (path @ ''.dataBoundaryIds'')) (\<lambda>v_dataBoundaryIds.
     bind_r (enumeration (js_get input ''ingress'') (path @ ''.ingress'') ingress_mode_text all_ingress_mode) (\<lambda>v_ingress.
     bind_r (schemaArray (js_get input ''components'') (path @ ''.components'') parseComponent) (\<lambda>v_components.
     bind_r (schemaArray (js_get input ''componentDependencies'') (path @ ''.componentDependencies'') parseComponentDependency) (\<lambda>v_componentDependencies.
     bind_r (schemaArray (js_get input ''dependencies'') (path @ ''.dependencies'') parseDependency) (\<lambda>v_dependencies.
     bind_r (availability_fields v_availability (path @ ''.availability'')) (\<lambda>v_availability.
     bind_r (release_policy_fields v_release (path @ ''.release'')) (\<lambda>v_release.
     Inr \<lparr>ap_id = v_id, ap_workloadPlaneId = v_workloadPlaneId,
       ap_serviceIdentityId = v_serviceIdentityId, ap_tenantScope = v_tenantScope,
       ap_dataBoundaryIds = v_dataBoundaryIds, ap_ingress = v_ingress,
       ap_components = v_components, ap_componentDependencies = v_componentDependencies,
       ap_dependencies = v_dependencies, ap_availability = v_availability,
       ap_release = v_release\<rparr>))))))))))))))"

definition parseTenant ::
  "jsval \<Rightarrow> string \<Rightarrow> schema_error + tenant_placement"
where
  "parseTenant v path =
     bind_r (schemaObject v path [''tenantId'', ''isolationTier'', ''zoneIds'', ''dataBoundaryIds'', ''identityIds'']) (\<lambda>input.
     bind_r (nonEmptyString (js_get input ''tenantId'') (path @ ''.tenantId'')) (\<lambda>v_tenantId.
     bind_r (enumeration (js_get input ''isolationTier'') (path @ ''.isolationTier'') isolation_tier_text all_isolation_tier) (\<lambda>v_isolationTier.
     bind_r (stringArray (js_get input ''zoneIds'') (path @ ''.zoneIds'')) (\<lambda>v_zoneIds.
     bind_r (stringArray (js_get input ''dataBoundaryIds'') (path @ ''.dataBoundaryIds'')) (\<lambda>v_dataBoundaryIds.
     bind_r (stringArray (js_get input ''identityIds'') (path @ ''.identityIds'')) (\<lambda>v_identityIds.
     Inr \<lparr>tp_tenantId = v_tenantId, tp_isolationTier = v_isolationTier, tp_zoneIds = v_zoneIds,
       tp_dataBoundaryIds = v_dataBoundaryIds, tp_identityIds = v_identityIds\<rparr>))))))"

definition encryption_requirement_fields ::
  "props \<Rightarrow> string \<Rightarrow> schema_error + encryption_requirement"
where
  "encryption_requirement_fields input path =
     bind_r (schemaBoolean (js_get input ''customerManagedKey'') (path @ ''.customerManagedKey'')) (\<lambda>v_customerManagedKey.
     bind_r (schemaBoolean (js_get input ''dedicatedPerTenant'') (path @ ''.dedicatedPerTenant'')) (\<lambda>v_dedicatedPerTenant.
     bind_r (schemaBoolean (js_get input ''rotationRequired'') (path @ ''.rotationRequired'')) (\<lambda>v_rotationRequired.
     Inr \<lparr>er_customerManagedKey = v_customerManagedKey,
       er_dedicatedPerTenant = v_dedicatedPerTenant, er_rotationRequired = v_rotationRequired\<rparr>)))"

definition recovery_requirement_fields ::
  "props \<Rightarrow> string \<Rightarrow> schema_error + recovery_requirement"
where
  "recovery_requirement_fields input path =
     bind_r (schemaBoolean (js_get input ''backupRequired'') (path @ ''.backupRequired'')) (\<lambda>v_backupRequired.
     bind_r (schemaInteger (js_get input ''rpoMinutes'') (path @ ''.rpoMinutes'') 1 MAX_SAFE_INTEGER) (\<lambda>v_rpoMinutes.
     bind_r (schemaInteger (js_get input ''rtoMinutes'') (path @ ''.rtoMinutes'') 1 MAX_SAFE_INTEGER) (\<lambda>v_rtoMinutes.
     bind_r (schemaBoolean (js_get input ''multiAzRequired'') (path @ ''.multiAzRequired'')) (\<lambda>v_multiAzRequired.
     bind_r (schemaBoolean (js_get input ''deletionProtectionRequired'') (path @ ''.deletionProtectionRequired'')) (\<lambda>v_deletionProtectionRequired.
     bind_r (schemaBoolean (js_get input ''finalSnapshotRequired'') (path @ ''.finalSnapshotRequired'')) (\<lambda>v_finalSnapshotRequired.
     bind_r (schemaInteger (js_get input ''restoreTestIntervalDays'') (path @ ''.restoreTestIntervalDays'') 1 MAX_SAFE_INTEGER) (\<lambda>v_restoreTestIntervalDays.
     Inr \<lparr>rr_backupRequired = v_backupRequired, rr_rpoMinutes = v_rpoMinutes,
       rr_rtoMinutes = v_rtoMinutes, rr_multiAzRequired = v_multiAzRequired,
       rr_deletionProtectionRequired = v_deletionProtectionRequired,
       rr_finalSnapshotRequired = v_finalSnapshotRequired,
       rr_restoreTestIntervalDays = v_restoreTestIntervalDays\<rparr>)))))))"

definition parseDataBoundary ::
  "jsval \<Rightarrow> string \<Rightarrow> schema_error + data_boundary"
where
  "parseDataBoundary v path =
     bind_r (schemaObject v path [''id'', ''zoneId'', ''classification'', ''tenantScope'', ''services'', ''encryption'',
         ''recovery'', ''retentionDays'', ''versioningRequired'', ''replicationRequired'',
         ''objectAuditRequired'', ''deletionEvidenceRequired'', ''exportEvidenceRequired'']) (\<lambda>input.
     bind_r (schemaObject (js_get input ''encryption'') (path @ ''.encryption'') [''customerManagedKey'', ''dedicatedPerTenant'', ''rotationRequired'']) (\<lambda>v_encryption.
     bind_r (schemaObject (js_get input ''recovery'') (path @ ''.recovery'') [''backupRequired'', ''rpoMinutes'', ''rtoMinutes'', ''multiAzRequired'',
         ''deletionProtectionRequired'', ''finalSnapshotRequired'', ''restoreTestIntervalDays'']) (\<lambda>v_recovery.
     bind_r (nonEmptyString (js_get input ''id'') (path @ ''.id'')) (\<lambda>v_id.
     bind_r (nonEmptyString (js_get input ''zoneId'') (path @ ''.zoneId'')) (\<lambda>v_zoneId.
     bind_r (enumeration (js_get input ''classification'') (path @ ''.classification'') data_classification_text all_data_classification) (\<lambda>v_classification.
     bind_r (parseTenantScope (js_get input ''tenantScope'') (path @ ''.tenantScope'')) (\<lambda>v_tenantScope.
     bind_r (parseServices (js_get input ''services'') (path @ ''.services'')) (\<lambda>v_services.
     bind_r (encryption_requirement_fields v_encryption (path @ ''.encryption'')) (\<lambda>v_encryption.
     bind_r (recovery_requirement_fields v_recovery (path @ ''.recovery'')) (\<lambda>v_recovery.
     bind_r (schemaInteger (js_get input ''retentionDays'') (path @ ''.retentionDays'') 1 MAX_SAFE_INTEGER) (\<lambda>v_retentionDays.
     bind_r (schemaBoolean (js_get input ''versioningRequired'') (path @ ''.versioningRequired'')) (\<lambda>v_versioningRequired.
     bind_r (schemaBoolean (js_get input ''replicationRequired'') (path @ ''.replicationRequired'')) (\<lambda>v_replicationRequired.
     bind_r (schemaBoolean (js_get input ''objectAuditRequired'') (path @ ''.objectAuditRequired'')) (\<lambda>v_objectAuditRequired.
     bind_r (schemaBoolean (js_get input ''deletionEvidenceRequired'') (path @ ''.deletionEvidenceRequired'')) (\<lambda>v_deletionEvidenceRequired.
     bind_r (schemaBoolean (js_get input ''exportEvidenceRequired'') (path @ ''.exportEvidenceRequired'')) (\<lambda>v_exportEvidenceRequired.
     Inr \<lparr>db_id = v_id, db_zoneId = v_zoneId, db_classification = v_classification,
       db_tenantScope = v_tenantScope, db_services = v_services,
       db_encryption = v_encryption, db_recovery = v_recovery,
       db_retentionDays = v_retentionDays, db_versioningRequired = v_versioningRequired,
       db_replicationRequired = v_replicationRequired,
       db_objectAuditRequired = v_objectAuditRequired,
       db_deletionEvidenceRequired = v_deletionEvidenceRequired,
       db_exportEvidenceRequired = v_exportEvidenceRequired\<rparr>))))))))))))))))"

definition parseIdentity ::
  "jsval \<Rightarrow> string \<Rightarrow> schema_error + platform_identity"
where
  "parseIdentity v path =
     bind_r (schemaObject v path [''id'', ''kind'', ''tenantId'', ''shortLived'']) (\<lambda>input.
     bind_r (nonEmptyString (js_get input ''id'') (path @ ''.id'')) (\<lambda>v_id.
     bind_r (enumeration (js_get input ''kind'') (path @ ''.kind'') identity_kind_text all_identity_kind) (\<lambda>v_kind.
     bind_r (optionalString (js_get input ''tenantId'') (path @ ''.tenantId'')) (\<lambda>v_tenantId.
     bind_r (schemaBoolean (js_get input ''shortLived'') (path @ ''.shortLived'')) (\<lambda>v_shortLived.
     Inr \<lparr>idn_id = v_id, idn_kind = v_kind, idn_tenantId = v_tenantId,
       idn_shortLived = v_shortLived\<rparr>)))))"

definition parseIdentityDelegation ::
  "jsval \<Rightarrow> string \<Rightarrow> schema_error + identity_delegation"
where
  "parseIdentityDelegation v path =
     bind_r (schemaObject v path [''id'', ''fromIdentityId'', ''toIdentityId'', ''conditions'']) (\<lambda>input.
     bind_r (nonEmptyString (js_get input ''id'') (path @ ''.id'')) (\<lambda>v_id.
     bind_r (nonEmptyString (js_get input ''fromIdentityId'') (path @ ''.fromIdentityId'')) (\<lambda>v_fromIdentityId.
     bind_r (nonEmptyString (js_get input ''toIdentityId'') (path @ ''.toIdentityId'')) (\<lambda>v_toIdentityId.
     bind_r (optionalStringRecord (js_get input ''conditions'') (path @ ''.conditions'')) (\<lambda>v_conditions.
     Inr \<lparr>dg_id = v_id, dg_fromIdentityId = v_fromIdentityId, dg_toIdentityId = v_toIdentityId,
       dg_conditions = v_conditions\<rparr>)))))"

definition parseAccessException ::
  "(string \<Rightarrow> int option) \<Rightarrow> jsval \<Rightarrow> string \<Rightarrow> schema_error + access_exception"
where
  "parseAccessException date_parse v path =
     bind_r (schemaObject v path [''owner'', ''reason'', ''expiresAt'', ''auditRequirementId'']) (\<lambda>input.
     bind_r (nonEmptyString (js_get input ''owner'') (path @ ''.owner'')) (\<lambda>v_owner.
     bind_r (nonEmptyString (js_get input ''reason'') (path @ ''.reason'')) (\<lambda>v_reason.
     bind_r (isoTimestamp date_parse (js_get input ''expiresAt'') (path @ ''.expiresAt'')) (\<lambda>v_expiresAt.
     bind_r (nonEmptyString (js_get input ''auditRequirementId'') (path @ ''.auditRequirementId'')) (\<lambda>v_auditRequirementId.
     Inr \<lparr>ax_owner = v_owner, ax_reason = v_reason, ax_expiresAt = v_expiresAt,
       ax_auditRequirementId = v_auditRequirementId\<rparr>)))))"

definition optionalException ::
  "(string \<Rightarrow> int option) \<Rightarrow> jsval \<Rightarrow> string \<Rightarrow> schema_error + access_exception option"
where
  "optionalException date_parse v path =
     (if v = JUndef then Inr None else bind_r (parseAccessException date_parse v path) (\<lambda>x. Inr (Some x)))"

definition parseGrant ::
  "(string \<Rightarrow> int option) \<Rightarrow> jsval \<Rightarrow> string \<Rightarrow> schema_error + identity_grant"
where
  "parseGrant date_parse v path =
     bind_r (schemaObject v path [''id'', ''identityId'', ''resourceIds'', ''actions'', ''effect'', ''tenantId'',
         ''conditions'', ''exception'']) (\<lambda>input.
     bind_r (nonEmptyString (js_get input ''id'') (path @ ''.id'')) (\<lambda>v_id.
     bind_r (nonEmptyString (js_get input ''identityId'') (path @ ''.identityId'')) (\<lambda>v_identityId.
     bind_r (stringArray (js_get input ''resourceIds'') (path @ ''.resourceIds'')) (\<lambda>v_resourceIds.
     bind_r (stringArray (js_get input ''actions'') (path @ ''.actions'')) (\<lambda>v_actions.
     bind_r (enumeration (js_get input ''effect'') (path @ ''.effect'') grant_effect_text all_grant_effect) (\<lambda>v_effect.
     bind_r (optionalString (js_get input ''tenantId'') (path @ ''.tenantId'')) (\<lambda>v_tenantId.
     bind_r (optionalStringRecord (js_get input ''conditions'') (path @ ''.conditions'')) (\<lambda>v_conditions.
     bind_r (optionalException date_parse (js_get input ''exception'') (path @ ''.exception'')) (\<lambda>v_exception.
     Inr \<lparr>gr_id = v_id, gr_identityId = v_identityId, gr_resourceIds = v_resourceIds,
       gr_actions = v_actions, gr_effect = v_effect, gr_tenantId = v_tenantId,
       gr_conditions = v_conditions, gr_exception = v_exception\<rparr>)))))))))"

definition parseEvidenceSink ::
  "jsval \<Rightarrow> string \<Rightarrow> schema_error + evidence_sink"
where
  "parseEvidenceSink v path =
     bind_r (schemaObject v path [''id'', ''immutable'', ''retentionDays'', ''tenantScope'']) (\<lambda>input.
     bind_r (nonEmptyString (js_get input ''id'') (path @ ''.id'')) (\<lambda>v_id.
     bind_r (schemaBoolean (js_get input ''immutable'') (path @ ''.immutable'')) (\<lambda>v_immutable.
     bind_r (schemaInteger (js_get input ''retentionDays'') (path @ ''.retentionDays'') 0 MAX_SAFE_INTEGER) (\<lambda>v_retentionDays.
     bind_r (parseTenantScope (js_get input ''tenantScope'') (path @ ''.tenantScope'')) (\<lambda>v_tenantScope.
     Inr \<lparr>es_id = v_id, es_immutable = v_immutable, es_retentionDays = v_retentionDays,
       es_tenantScope = v_tenantScope\<rparr>)))))"

definition parseEvidenceRequirement ::
  "jsval \<Rightarrow> string \<Rightarrow> schema_error + evidence_requirement"
where
  "parseEvidenceRequirement v path =
     bind_r (schemaObject v path [''id'', ''sourceIds'', ''sinkId'', ''eventTypes'']) (\<lambda>input.
     bind_r (nonEmptyString (js_get input ''id'') (path @ ''.id'')) (\<lambda>v_id.
     bind_r (stringArray (js_get input ''sourceIds'') (path @ ''.sourceIds'')) (\<lambda>v_sourceIds.
     bind_r (nonEmptyString (js_get input ''sinkId'') (path @ ''.sinkId'')) (\<lambda>v_sinkId.
     bind_r (stringArray (js_get input ''eventTypes'') (path @ ''.eventTypes'')) (\<lambda>v_eventTypes.
     Inr \<lparr>eq_id = v_id, eq_sourceIds = v_sourceIds, eq_sinkId = v_sinkId,
       eq_eventTypes = v_eventTypes\<rparr>)))))"

definition parsePlatformBlueprint ::
  "(string \<Rightarrow> int option) \<Rightarrow> jsval \<Rightarrow> schema_error + platform_blueprint"
where
  "parsePlatformBlueprint date_parse v =
     (let path = ''platformBlueprint'' in bind_r (rejectSecretMaterial v path) (\<lambda>_.
     bind_r (schemaObject v path [''apiVersion'', ''name'', ''environment'', ''posture'', ''requiredCapabilities'',
         ''trustZones'', ''networkDomains'', ''flows'', ''workloadPlanes'', ''applications'',
         ''tenants'', ''dataBoundaries'', ''identities'', ''identityDelegations'', ''grants'',
         ''evidenceSinks'', ''evidenceRequirements'']) (\<lambda>input.
     bind_r (schemaLiteral (js_get input ''apiVersion'') currentBlueprintApiVersion (path @ ''.apiVersion'')) (\<lambda>_.
     bind_r (nonEmptyString (js_get input ''name'') (path @ ''.name'')) (\<lambda>v_name.
     bind_r (nonEmptyString (js_get input ''environment'') (path @ ''.environment'')) (\<lambda>v_environment.
     bind_r (parsePosture (js_get input ''posture'') (path @ ''.posture'')) (\<lambda>v_posture.
     bind_r (schemaArray (js_get input ''requiredCapabilities'') (path @ ''.requiredCapabilities'') parseCapability) (\<lambda>v_requiredCapabilities.
     bind_r (schemaArray (js_get input ''trustZones'') (path @ ''.trustZones'') parseTrustZone) (\<lambda>v_trustZones.
     bind_r (schemaArray (js_get input ''networkDomains'') (path @ ''.networkDomains'') parseNetworkDomain) (\<lambda>v_networkDomains.
     bind_r (schemaArray (js_get input ''flows'') (path @ ''.flows'') parseFlow) (\<lambda>v_flows.
     bind_r (schemaArray (js_get input ''workloadPlanes'') (path @ ''.workloadPlanes'') parseWorkloadPlane) (\<lambda>v_workloadPlanes.
     bind_r (schemaArray (js_get input ''applications'') (path @ ''.applications'') parseApplicationDeployment) (\<lambda>v_applications.
     bind_r (schemaArray (js_get input ''tenants'') (path @ ''.tenants'') parseTenant) (\<lambda>v_tenants.
     bind_r (schemaArray (js_get input ''dataBoundaries'') (path @ ''.dataBoundaries'') parseDataBoundary) (\<lambda>v_dataBoundaries.
     bind_r (schemaArray (js_get input ''identities'') (path @ ''.identities'') parseIdentity) (\<lambda>v_identities.
     bind_r (schemaArray (js_get input ''identityDelegations'') (path @ ''.identityDelegations'') parseIdentityDelegation) (\<lambda>v_identityDelegations.
     bind_r (schemaArray (js_get input ''grants'') (path @ ''.grants'') (parseGrant date_parse)) (\<lambda>v_grants.
     bind_r (schemaArray (js_get input ''evidenceSinks'') (path @ ''.evidenceSinks'') parseEvidenceSink) (\<lambda>v_evidenceSinks.
     bind_r (schemaArray (js_get input ''evidenceRequirements'') (path @ ''.evidenceRequirements'') parseEvidenceRequirement) (\<lambda>v_evidenceRequirements.
     Inr \<lparr>bp_name = v_name, bp_environment = v_environment, bp_posture = v_posture,
       bp_requiredCapabilities = v_requiredCapabilities, bp_trustZones = v_trustZones,
       bp_networkDomains = v_networkDomains, bp_flows = v_flows,
       bp_workloadPlanes = v_workloadPlanes, bp_applications = v_applications,
       bp_tenants = v_tenants, bp_dataBoundaries = v_dataBoundaries,
       bp_identities = v_identities, bp_identityDelegations = v_identityDelegations,
       bp_grants = v_grants, bp_evidenceSinks = v_evidenceSinks,
       bp_evidenceRequirements = v_evidenceRequirements\<rparr>))))))))))))))))))))"

subsection \<open>Loading and migrating\<close>

text \<open>
  \<open>src/core/migrations.ts\<close>: a blueprint of the current version is parsed; one of the previous version is
  completed first.  \<open>{...source, k: v}\<close> keeps the place of an existing key, as \<open>obj_set\<close> does.
\<close>

record migration_report =
  mr_sourceVersion :: string
  mr_targetVersion :: string
  mr_migrated :: bool
  mr_changes :: "string list"

record loaded_blueprint =
  lb_blueprint :: platform_blueprint
  lb_migrationReport :: migration_report

definition or_no_elements :: "jsval \<Rightarrow> jsval" where
  "or_no_elements v = (if v = JUndef \<or> v = JNull then JArr [] else v)"

definition migrate_v1alpha0 :: "props \<Rightarrow> props" where
  "migrate_v1alpha0 source =
     obj_set (obj_set (obj_set (obj_set source ''apiVersion'' (JStr currentBlueprintApiVersion))
       ''workloadPlanes'' (or_no_elements (js_get source ''workloadPlanes'')))
       ''applications'' (or_no_elements (js_get source ''applications'')))
       ''identityDelegations'' (or_no_elements (js_get source ''identityDelegations''))"

definition loadPlatformBlueprint :: "(string \<Rightarrow> int option) \<Rightarrow> jsval \<Rightarrow> schema_error + loaded_blueprint" where
  "loadPlatformBlueprint date_parse v =
     bind_r (schemaRecord v ''platformBlueprint'') (\<lambda>source.
     case js_get source ''apiVersion'' of
       JStr sourceVersion \<Rightarrow>
         if sourceVersion = currentBlueprintApiVersion
         then bind_r (parsePlatformBlueprint date_parse v) (\<lambda>b.
              Inr \<lparr>lb_blueprint = b, lb_migrationReport =
                \<lparr>mr_sourceVersion = sourceVersion, mr_targetVersion = currentBlueprintApiVersion, mr_migrated = False,
                 mr_changes = []\<rparr>\<rparr>)
         else if sourceVersion = ''security.deus.dev/v1alpha0''
         then bind_r (parsePlatformBlueprint date_parse (JObj (migrate_v1alpha0 source))) (\<lambda>b.
              Inr \<lparr>lb_blueprint = b, lb_migrationReport =
                \<lparr>mr_sourceVersion = sourceVersion, mr_targetVersion = currentBlueprintApiVersion, mr_migrated = True,
                 mr_changes =
                   [''Added workloadPlanes as an empty collection when absent.'',
                    ''Added applications as an empty collection when absent.'',
                    ''Added identityDelegations as an empty collection when absent.'',
                    ''Updated apiVersion to '' @ currentBlueprintApiVersion @ ''.'']\<rparr>\<rparr>)
         else Inl (BlueprintSchemaError ''platformBlueprint.apiVersion''
                (''unsupported version '' @ squote sourceVersion @
                 ''; supported versions are security.deus.dev/v1alpha0 and '' @ currentBlueprintApiVersion))
     | _ \<Rightarrow> Inl (BlueprintSchemaError ''platformBlueprint.apiVersion'' ''must be a version string''))"


end
