(* ===== verification/SchemaLaws.thy ===== *)
theory SchemaLaws
  imports BlueprintSchema
begin

section \<open>What the blueprint parser accepts\<close>

text \<open>
  \<open>enc_<record>\<close> is the JavaScript object that a record stands for, \<open>ok_<record>\<close> the constraints the
  parser enforces on it.  For every record two lemmas: the parser reads the object of a record back
  exactly when the constraints hold (\<open>read_\<dots>\<close>), and whatever it returns satisfies them
  (\<open>sound_\<dots>\<close>).  \<open>secret_free\<close> is the meaning of the recursive search for secret material.
\<close>

named_theorems schema_iff \<open>what the field readers accept\<close>
named_theorems schema_enc \<open>readers applied to encoded records\<close>
named_theorems schema_sound \<open>what a successful reader guarantees\<close>

definition int_between :: "int \<Rightarrow> int \<Rightarrow> int \<Rightarrow> bool" where
  "int_between lo hi i \<longleftrightarrow> lo \<le> i \<and> i \<le> hi"

primrec ok_scope :: "tenant_scope \<Rightarrow> bool" where
  "ok_scope PlatformScope = True"
| "ok_scope (PooledScope ts) = list_all nonEmpty ts"
| "ok_scope (DedicatedScope t) = nonEmpty t"

definition ok_conditions :: "string obj \<Rightarrow> bool" where
  "ok_conditions c \<longleftrightarrow> obj_wf c \<and> list_all (\<lambda>e. nonEmpty (snd e)) c"

definition clean_conditions :: "string obj option \<Rightarrow> bool" where
  "clean_conditions c \<longleftrightarrow> set (map fst (or_empty c)) \<inter> set forbiddenSecretKeys = {}"

primrec the_obj :: "jsval \<Rightarrow> props" where
  "the_obj (JObj ps) = ps"
| "the_obj JUndef = []" | "the_obj JNull = []" | "the_obj (JBool b) = []" | "the_obj (JNum n) = []"
| "the_obj (JStr s) = []" | "the_obj (JArr vs) = []"

subsection \<open>The constraints of the records\<close>

definition enc_security_posture :: "security_posture \<Rightarrow> jsval" where
  "enc_security_posture x = JObj
     [(''forbidPublicControlPlanes'', JBool (sp_forbidPublicControlPlanes x)),
      (''requireInspectedEgress'', JBool (sp_requireInspectedEgress x)),
      (''requireImmutableAudit'', JBool (sp_requireImmutableAudit x)),
      (''minimumAuditRetentionDays'', JNum (NInt (sp_minimumAuditRetentionDays x)))]"

definition ok_security_posture :: "security_posture \<Rightarrow> bool" where
  "ok_security_posture x \<longleftrightarrow>
     int_between 0 MAX_SAFE_INTEGER (sp_minimumAuditRetentionDays x)"

definition enc_trust_zone :: "trust_zone \<Rightarrow> jsval" where
  "enc_trust_zone x = JObj
     [(''id'', JStr (tz_id x)),
      (''kind'', JStr (zone_kind_text (tz_kind x))),
      (''publicAccess'', JBool (tz_publicAccess x)),
      (''tenantScope'', scope_js (tz_tenantScope x)),
      (''isolationBoundary'', opt_js JStr (tz_isolationBoundary x))]"

definition ok_trust_zone :: "trust_zone \<Rightarrow> bool" where
  "ok_trust_zone x \<longleftrightarrow>
     nonEmpty (tz_id x) \<and>
     ok_scope (tz_tenantScope x) \<and>
     pred_option nonEmpty (tz_isolationBoundary x)"

definition enc_network_domain :: "network_domain \<Rightarrow> jsval" where
  "enc_network_domain x = JObj
     [(''id'', JStr (nd_id x)),
      (''zoneId'', JStr (nd_zoneId x)),
      (''cidrs'', JArr (map JStr (nd_cidrs x))),
      (''availabilityZoneCount'', JNum (NInt (nd_availabilityZoneCount x))),
      (''directInternetAccess'', JBool (nd_directInternetAccess x)),
      (''inspectedEgress'', JBool (nd_inspectedEgress x))]"

definition ok_network_domain :: "network_domain \<Rightarrow> bool" where
  "ok_network_domain x \<longleftrightarrow>
     nonEmpty (nd_id x) \<and>
     nonEmpty (nd_zoneId x) \<and>
     list_all nonEmpty (nd_cidrs x) \<and>
     int_between 1 MAX_SAFE_INTEGER (nd_availabilityZoneCount x)"

definition enc_network_flow :: "network_flow \<Rightarrow> jsval" where
  "enc_network_flow x = JObj
     [(''id'', JStr (nf_id x)),
      (''fromZoneId'', JStr (nf_fromZoneId x)),
      (''toZoneId'', JStr (nf_toZoneId x)),
      (''protocol'', JStr (flow_protocol_text (nf_protocol x))),
      (''ports'', opt_js (\<lambda>xs. JArr (map (\<lambda>i. JNum (NInt i)) xs)) (nf_ports x)),
      (''purpose'', JStr (nf_purpose x)),
      (''authorization'', JStr (flow_authorization_text (nf_authorization x))),
      (''viaZoneIds'', opt_js (\<lambda>xs. JArr (map JStr xs)) (nf_viaZoneIds x)),
      (''externalDestinations'', opt_js (\<lambda>xs. JArr (map JStr xs)) (nf_externalDestinations x))]"

definition ok_network_flow :: "network_flow \<Rightarrow> bool" where
  "ok_network_flow x \<longleftrightarrow>
     nonEmpty (nf_id x) \<and>
     nonEmpty (nf_fromZoneId x) \<and>
     nonEmpty (nf_toZoneId x) \<and>
     pred_option (list_all (int_between 1 65535)) (nf_ports x) \<and>
     nonEmpty (nf_purpose x) \<and>
     pred_option (list_all nonEmpty) (nf_viaZoneIds x) \<and>
     pred_option (list_all nonEmpty) (nf_externalDestinations x)"

definition enc_workload_plane :: "workload_plane \<Rightarrow> jsval" where
  "enc_workload_plane x = JObj
     [(''id'', JStr (wp_id x)),
      (''zoneId'', JStr (wp_zoneId x)),
      (''tenantScope'', scope_js (wp_tenantScope x)),
      (''executionTrust'', JStr (execution_trust_text (wp_executionTrust x))),
      (''orchestrator'', JStr (workload_orchestrator_text (wp_orchestrator x))),
      (''runtimeIsolation'', JStr (runtime_isolation_text (wp_runtimeIsolation x))),
      (''controlPlanePublic'', JBool (wp_controlPlanePublic x)),
      (''workloadIdentity'', JBool (wp_workloadIdentity x)),
      (''credentialMode'', JStr (credential_mode_text (wp_credentialMode x))),
      (''maxExecutionMinutes'', opt_js (\<lambda>i. JNum (NInt i)) (wp_maxExecutionMinutes x))]"

definition ok_workload_plane :: "workload_plane \<Rightarrow> bool" where
  "ok_workload_plane x \<longleftrightarrow>
     nonEmpty (wp_id x) \<and>
     nonEmpty (wp_zoneId x) \<and>
     ok_scope (wp_tenantScope x) \<and>
     pred_option (int_between 1 MAX_SAFE_INTEGER) (wp_maxExecutionMinutes x)"

definition enc_availability :: "availability \<Rightarrow> jsval" where
  "enc_availability x = JObj
     [(''minimumReplicas'', JNum (NInt (av_minimumReplicas x))),
      (''maximumUnavailable'', JNum (NInt (av_maximumUnavailable x)))]"

definition ok_availability :: "availability \<Rightarrow> bool" where
  "ok_availability x \<longleftrightarrow>
     int_between 1 MAX_SAFE_INTEGER (av_minimumReplicas x) \<and>
     int_between 0 MAX_SAFE_INTEGER (av_maximumUnavailable x)"

definition enc_release_policy :: "release_policy \<Rightarrow> jsval" where
  "enc_release_policy x = JObj
     [(''digestPinnedImages'', JBool (rl_digestPinnedImages x)),
      (''signatureVerification'', JBool (rl_signatureVerification x)),
      (''provenanceVerification'', JBool (rl_provenanceVerification x)),
      (''rollbackRequired'', JBool (rl_rollbackRequired x))]"

definition enc_application_component :: "application_component \<Rightarrow> jsval" where
  "enc_application_component x = JObj
     [(''id'', JStr (cp_id x)),
      (''workloadPlaneId'', JStr (cp_workloadPlaneId x)),
      (''serviceIdentityId'', JStr (cp_serviceIdentityId x)),
      (''dataBoundaryIds'', JArr (map JStr (cp_dataBoundaryIds x))),
      (''ingress'', JStr (ingress_mode_text (cp_ingress x))),
      (''availability'', enc_availability (cp_availability x))]"

definition ok_application_component :: "application_component \<Rightarrow> bool" where
  "ok_application_component x \<longleftrightarrow>
     nonEmpty (cp_id x) \<and>
     nonEmpty (cp_workloadPlaneId x) \<and>
     nonEmpty (cp_serviceIdentityId x) \<and>
     list_all nonEmpty (cp_dataBoundaryIds x) \<and>
     ok_availability (cp_availability x)"

definition enc_component_dependency :: "component_dependency \<Rightarrow> jsval" where
  "enc_component_dependency x = JObj
     [(''fromComponentId'', JStr (cd_fromComponentId x)),
      (''toComponentId'', JStr (cd_toComponentId x)),
      (''protocol'', JStr (dependency_protocol_text (cd_protocol x))),
      (''authorization'', JStr (dependency_authorization_text (cd_authorization x))),
      (''audience'', JStr (cd_audience x)),
      (''actions'', JArr (map JStr (cd_actions x)))]"

definition ok_component_dependency :: "component_dependency \<Rightarrow> bool" where
  "ok_component_dependency x \<longleftrightarrow>
     nonEmpty (cd_fromComponentId x) \<and>
     nonEmpty (cd_toComponentId x) \<and>
     nonEmpty (cd_audience x) \<and>
     list_all nonEmpty (cd_actions x)"

definition enc_application_dependency :: "application_dependency \<Rightarrow> jsval" where
  "enc_application_dependency x = JObj
     [(''deploymentId'', JStr (ad_deploymentId x)),
      (''fromComponentId'', JStr (ad_fromComponentId x)),
      (''toComponentId'', JStr (ad_toComponentId x)),
      (''protocol'', JStr (dependency_protocol_text (ad_protocol x))),
      (''authorization'', JStr (dependency_authorization_text (ad_authorization x))),
      (''audience'', JStr (ad_audience x)),
      (''actions'', JArr (map JStr (ad_actions x)))]"

definition ok_application_dependency :: "application_dependency \<Rightarrow> bool" where
  "ok_application_dependency x \<longleftrightarrow>
     nonEmpty (ad_deploymentId x) \<and>
     nonEmpty (ad_fromComponentId x) \<and>
     nonEmpty (ad_toComponentId x) \<and>
     nonEmpty (ad_audience x) \<and>
     list_all nonEmpty (ad_actions x)"

definition enc_application_deployment :: "application_deployment \<Rightarrow> jsval" where
  "enc_application_deployment x = JObj
     [(''id'', JStr (ap_id x)),
      (''workloadPlaneId'', JStr (ap_workloadPlaneId x)),
      (''serviceIdentityId'', JStr (ap_serviceIdentityId x)),
      (''tenantScope'', scope_js (ap_tenantScope x)),
      (''dataBoundaryIds'', JArr (map JStr (ap_dataBoundaryIds x))),
      (''ingress'', JStr (ingress_mode_text (ap_ingress x))),
      (''components'', JArr (map enc_application_component (ap_components x))),
      (''componentDependencies'', JArr (map enc_component_dependency (ap_componentDependencies x))),
      (''dependencies'', JArr (map enc_application_dependency (ap_dependencies x))),
      (''availability'', enc_availability (ap_availability x)),
      (''release'', enc_release_policy (ap_release x))]"

definition ok_application_deployment :: "application_deployment \<Rightarrow> bool" where
  "ok_application_deployment x \<longleftrightarrow>
     nonEmpty (ap_id x) \<and>
     nonEmpty (ap_workloadPlaneId x) \<and>
     nonEmpty (ap_serviceIdentityId x) \<and>
     ok_scope (ap_tenantScope x) \<and>
     list_all nonEmpty (ap_dataBoundaryIds x) \<and>
     list_all ok_application_component (ap_components x) \<and>
     list_all ok_component_dependency (ap_componentDependencies x) \<and>
     list_all ok_application_dependency (ap_dependencies x) \<and>
     ok_availability (ap_availability x)"

definition enc_tenant_placement :: "tenant_placement \<Rightarrow> jsval" where
  "enc_tenant_placement x = JObj
     [(''tenantId'', JStr (tp_tenantId x)),
      (''isolationTier'', JStr (isolation_tier_text (tp_isolationTier x))),
      (''zoneIds'', JArr (map JStr (tp_zoneIds x))),
      (''dataBoundaryIds'', JArr (map JStr (tp_dataBoundaryIds x))),
      (''identityIds'', JArr (map JStr (tp_identityIds x)))]"

definition ok_tenant_placement :: "tenant_placement \<Rightarrow> bool" where
  "ok_tenant_placement x \<longleftrightarrow>
     nonEmpty (tp_tenantId x) \<and>
     list_all nonEmpty (tp_zoneIds x) \<and>
     list_all nonEmpty (tp_dataBoundaryIds x) \<and>
     list_all nonEmpty (tp_identityIds x)"

definition enc_encryption_requirement :: "encryption_requirement \<Rightarrow> jsval" where
  "enc_encryption_requirement x = JObj
     [(''customerManagedKey'', JBool (er_customerManagedKey x)),
      (''dedicatedPerTenant'', JBool (er_dedicatedPerTenant x)),
      (''rotationRequired'', JBool (er_rotationRequired x))]"

definition enc_recovery_requirement :: "recovery_requirement \<Rightarrow> jsval" where
  "enc_recovery_requirement x = JObj
     [(''backupRequired'', JBool (rr_backupRequired x)),
      (''rpoMinutes'', JNum (NInt (rr_rpoMinutes x))),
      (''rtoMinutes'', JNum (NInt (rr_rtoMinutes x))),
      (''multiAzRequired'', JBool (rr_multiAzRequired x)),
      (''deletionProtectionRequired'', JBool (rr_deletionProtectionRequired x)),
      (''finalSnapshotRequired'', JBool (rr_finalSnapshotRequired x)),
      (''restoreTestIntervalDays'', JNum (NInt (rr_restoreTestIntervalDays x)))]"

definition ok_recovery_requirement :: "recovery_requirement \<Rightarrow> bool" where
  "ok_recovery_requirement x \<longleftrightarrow>
     int_between 1 MAX_SAFE_INTEGER (rr_rpoMinutes x) \<and>
     int_between 1 MAX_SAFE_INTEGER (rr_rtoMinutes x) \<and>
     int_between 1 MAX_SAFE_INTEGER (rr_restoreTestIntervalDays x)"

definition enc_data_boundary :: "data_boundary \<Rightarrow> jsval" where
  "enc_data_boundary x = JObj
     [(''id'', JStr (db_id x)),
      (''zoneId'', JStr (db_zoneId x)),
      (''classification'', JStr (data_classification_text (db_classification x))),
      (''tenantScope'', scope_js (db_tenantScope x)),
      (''services'', JArr (map (\<lambda>s. JStr (data_service_text s)) (db_services x))),
      (''encryption'', enc_encryption_requirement (db_encryption x)),
      (''recovery'', enc_recovery_requirement (db_recovery x)),
      (''retentionDays'', JNum (NInt (db_retentionDays x))),
      (''versioningRequired'', JBool (db_versioningRequired x)),
      (''replicationRequired'', JBool (db_replicationRequired x)),
      (''objectAuditRequired'', JBool (db_objectAuditRequired x)),
      (''deletionEvidenceRequired'', JBool (db_deletionEvidenceRequired x)),
      (''exportEvidenceRequired'', JBool (db_exportEvidenceRequired x))]"

definition ok_data_boundary :: "data_boundary \<Rightarrow> bool" where
  "ok_data_boundary x \<longleftrightarrow>
     nonEmpty (db_id x) \<and>
     nonEmpty (db_zoneId x) \<and>
     ok_scope (db_tenantScope x) \<and>
     ok_recovery_requirement (db_recovery x) \<and>
     int_between 1 MAX_SAFE_INTEGER (db_retentionDays x)"

definition enc_platform_identity :: "platform_identity \<Rightarrow> jsval" where
  "enc_platform_identity x = JObj
     [(''id'', JStr (idn_id x)),
      (''kind'', JStr (identity_kind_text (idn_kind x))),
      (''tenantId'', opt_js JStr (idn_tenantId x)),
      (''shortLived'', JBool (idn_shortLived x))]"

definition ok_platform_identity :: "platform_identity \<Rightarrow> bool" where
  "ok_platform_identity x \<longleftrightarrow>
     nonEmpty (idn_id x) \<and>
     pred_option nonEmpty (idn_tenantId x)"

definition enc_identity_delegation :: "identity_delegation \<Rightarrow> jsval" where
  "enc_identity_delegation x = JObj
     [(''id'', JStr (dg_id x)),
      (''fromIdentityId'', JStr (dg_fromIdentityId x)),
      (''toIdentityId'', JStr (dg_toIdentityId x)),
      (''conditions'', opt_js (enc_obj JStr) (dg_conditions x))]"

definition ok_identity_delegation :: "identity_delegation \<Rightarrow> bool" where
  "ok_identity_delegation x \<longleftrightarrow>
     nonEmpty (dg_id x) \<and>
     nonEmpty (dg_fromIdentityId x) \<and>
     nonEmpty (dg_toIdentityId x) \<and>
     pred_option ok_conditions (dg_conditions x)"

definition enc_access_exception :: "access_exception \<Rightarrow> jsval" where
  "enc_access_exception x = JObj
     [(''owner'', JStr (ax_owner x)),
      (''reason'', JStr (ax_reason x)),
      (''expiresAt'', JStr (ax_expiresAt x)),
      (''auditRequirementId'', JStr (ax_auditRequirementId x))]"

definition ok_access_exception :: "(string \<Rightarrow> int option) \<Rightarrow> access_exception \<Rightarrow> bool" where
  "ok_access_exception date_parse x \<longleftrightarrow>
     nonEmpty (ax_owner x) \<and>
     nonEmpty (ax_reason x) \<and>
     nonEmpty (ax_expiresAt x) \<and> date_parse (ax_expiresAt x) \<noteq> None \<and>
     nonEmpty (ax_auditRequirementId x)"

definition enc_identity_grant :: "identity_grant \<Rightarrow> jsval" where
  "enc_identity_grant x = JObj
     [(''id'', JStr (gr_id x)),
      (''identityId'', JStr (gr_identityId x)),
      (''resourceIds'', JArr (map JStr (gr_resourceIds x))),
      (''actions'', JArr (map JStr (gr_actions x))),
      (''effect'', JStr (grant_effect_text (gr_effect x))),
      (''tenantId'', opt_js JStr (gr_tenantId x)),
      (''conditions'', opt_js (enc_obj JStr) (gr_conditions x)),
      (''exception'', opt_js enc_access_exception (gr_exception x))]"

definition ok_identity_grant :: "(string \<Rightarrow> int option) \<Rightarrow> identity_grant \<Rightarrow> bool" where
  "ok_identity_grant date_parse x \<longleftrightarrow>
     nonEmpty (gr_id x) \<and>
     nonEmpty (gr_identityId x) \<and>
     list_all nonEmpty (gr_resourceIds x) \<and>
     list_all nonEmpty (gr_actions x) \<and>
     pred_option nonEmpty (gr_tenantId x) \<and>
     pred_option ok_conditions (gr_conditions x) \<and>
     pred_option (ok_access_exception date_parse) (gr_exception x)"

definition enc_evidence_sink :: "evidence_sink \<Rightarrow> jsval" where
  "enc_evidence_sink x = JObj
     [(''id'', JStr (es_id x)),
      (''immutable'', JBool (es_immutable x)),
      (''retentionDays'', JNum (NInt (es_retentionDays x))),
      (''tenantScope'', scope_js (es_tenantScope x))]"

definition ok_evidence_sink :: "evidence_sink \<Rightarrow> bool" where
  "ok_evidence_sink x \<longleftrightarrow>
     nonEmpty (es_id x) \<and>
     int_between 0 MAX_SAFE_INTEGER (es_retentionDays x) \<and>
     ok_scope (es_tenantScope x)"

definition enc_evidence_requirement :: "evidence_requirement \<Rightarrow> jsval" where
  "enc_evidence_requirement x = JObj
     [(''id'', JStr (eq_id x)),
      (''sourceIds'', JArr (map JStr (eq_sourceIds x))),
      (''sinkId'', JStr (eq_sinkId x)),
      (''eventTypes'', JArr (map JStr (eq_eventTypes x)))]"

definition ok_evidence_requirement :: "evidence_requirement \<Rightarrow> bool" where
  "ok_evidence_requirement x \<longleftrightarrow>
     nonEmpty (eq_id x) \<and>
     list_all nonEmpty (eq_sourceIds x) \<and>
     nonEmpty (eq_sinkId x) \<and>
     list_all nonEmpty (eq_eventTypes x)"

definition enc_platform_blueprint :: "platform_blueprint \<Rightarrow> jsval" where
  "enc_platform_blueprint x = JObj
     [(''apiVersion'', JStr currentBlueprintApiVersion),
      (''name'', JStr (bp_name x)),
      (''environment'', JStr (bp_environment x)),
      (''posture'', enc_security_posture (bp_posture x)),
      (''requiredCapabilities'', JArr (map (\<lambda>c. JStr (platform_capability_text c)) (bp_requiredCapabilities x))),
      (''trustZones'', JArr (map enc_trust_zone (bp_trustZones x))),
      (''networkDomains'', JArr (map enc_network_domain (bp_networkDomains x))),
      (''flows'', JArr (map enc_network_flow (bp_flows x))),
      (''workloadPlanes'', JArr (map enc_workload_plane (bp_workloadPlanes x))),
      (''applications'', JArr (map enc_application_deployment (bp_applications x))),
      (''tenants'', JArr (map enc_tenant_placement (bp_tenants x))),
      (''dataBoundaries'', JArr (map enc_data_boundary (bp_dataBoundaries x))),
      (''identities'', JArr (map enc_platform_identity (bp_identities x))),
      (''identityDelegations'', JArr (map enc_identity_delegation (bp_identityDelegations x))),
      (''grants'', JArr (map enc_identity_grant (bp_grants x))),
      (''evidenceSinks'', JArr (map enc_evidence_sink (bp_evidenceSinks x))),
      (''evidenceRequirements'', JArr (map enc_evidence_requirement (bp_evidenceRequirements x)))]"

definition ok_platform_blueprint :: "(string \<Rightarrow> int option) \<Rightarrow> platform_blueprint \<Rightarrow> bool" where
  "ok_platform_blueprint date_parse x \<longleftrightarrow>
     nonEmpty (bp_name x) \<and>
     nonEmpty (bp_environment x) \<and>
     ok_security_posture (bp_posture x) \<and>
     list_all ok_trust_zone (bp_trustZones x) \<and>
     list_all ok_network_domain (bp_networkDomains x) \<and>
     list_all ok_network_flow (bp_flows x) \<and>
     list_all ok_workload_plane (bp_workloadPlanes x) \<and>
     list_all ok_application_deployment (bp_applications x) \<and>
     list_all ok_tenant_placement (bp_tenants x) \<and>
     list_all ok_data_boundary (bp_dataBoundaries x) \<and>
     list_all ok_platform_identity (bp_identities x) \<and>
     list_all ok_identity_delegation (bp_identityDelegations x) \<and>
     list_all (ok_identity_grant date_parse) (bp_grants x) \<and>
     list_all ok_evidence_sink (bp_evidenceSinks x) \<and>
     list_all ok_evidence_requirement (bp_evidenceRequirements x) \<and>
     list_all (\<lambda>d. clean_conditions (dg_conditions d)) (bp_identityDelegations x) \<and>
     list_all (\<lambda>g. clean_conditions (gr_conditions g)) (bp_grants x)"

subsection \<open>Field readers\<close>

lemma nonEmptyString_iff [schema_iff, schema_enc]: "nonEmptyString v path = Inr s \<longleftrightarrow> v = JStr s \<and> nonEmpty s"
  by (cases v) (auto simp: nonEmptyString_def)

lemma schemaBoolean_iff [schema_iff, schema_enc]: "schemaBoolean v path = Inr b \<longleftrightarrow> v = JBool b"
  by (cases v) (auto simp: schemaBoolean_def)

lemma schemaInteger_iff [schema_iff, schema_enc]:
  "schemaInteger v path lo hi = Inr i \<longleftrightarrow> v = JNum (NInt i) \<and> int_between lo hi i"
  by (auto simp: schemaInteger_def Let_def int_between_def split: jsval.splits jsnum.splits)

lemma schemaRecord_iff [schema_iff]: "schemaRecord v path = Inr ps \<longleftrightarrow> v = JObj ps"
  by (cases v) (auto simp: schemaRecord_def)

lemma rejectUnknown_iff [schema_iff]: "rejectUnknown ps path allowed = Inr u \<longleftrightarrow> set (map fst ps) \<subseteq> set allowed"
  by (auto simp: rejectUnknown_def Let_def result_simps filter_empty_conv)

lemma schemaObject_iff [schema_iff]:
  "schemaObject v path allowed = Inr ps \<longleftrightarrow> v = JObj ps \<and> set (map fst ps) \<subseteq> set allowed"
  by (auto simp: schemaObject_def schema_iff result_simps)

lemma schemaObject_JObj [schema_enc]:
  "schemaObject (JObj qs) path allowed = Inr ps \<longleftrightarrow> ps = qs \<and> set (map fst qs) \<subseteq> set allowed"
  by (auto simp: schema_iff)

lemma schemaLiteral_iff [schema_iff, schema_enc]: "schemaLiteral v s path = Inr t \<longleftrightarrow> v = JStr s \<and> t = s"
  by (auto simp: schemaLiteral_def)

lemma enumeration_iff:
  "inj_on name (set vals) \<Longrightarrow> enumeration v path name vals = Inr x \<longleftrightarrow> v = JStr (name x) \<and> x \<in> set vals"
  by (auto simp: enumeration_def Let_def find_name find_None_iff dest: inj_onD split: jsval.splits option.splits)

lemma enumeration_all:
  "inj_on name (set vals) \<Longrightarrow> (\<And>x. x \<in> set vals) \<Longrightarrow> enumeration v path name vals = Inr x \<longleftrightarrow> v = JStr (name x)"
  by (simp add: enumeration_iff)

lemmas enumerations [schema_iff, schema_enc] =
  enumeration_all [OF isolation_tier_texts] enumeration_all [OF zone_kind_texts] enumeration_all [OF data_classification_texts]
  enumeration_all [OF flow_protocol_texts] enumeration_all [OF flow_authorization_texts]
  enumeration_all [OF workload_orchestrator_texts] enumeration_all [OF runtime_isolation_texts]
  enumeration_all [OF execution_trust_texts] enumeration_all [OF credential_mode_texts] enumeration_all [OF data_service_texts]
  enumeration_all [OF identity_kind_texts] enumeration_all [OF grant_effect_texts] enumeration_all [OF dependency_protocol_texts]
  enumeration_all [OF dependency_authorization_texts] enumeration_all [OF ingress_mode_texts]
  enumeration_all [OF platform_capability_texts]

lemmas text_inject [schema_enc] =
  inj_on_eq_iff [OF isolation_tier_texts(1) isolation_tier_texts(2) isolation_tier_texts(2)]
  inj_on_eq_iff [OF zone_kind_texts(1) zone_kind_texts(2) zone_kind_texts(2)]
  inj_on_eq_iff [OF data_classification_texts(1) data_classification_texts(2) data_classification_texts(2)]
  inj_on_eq_iff [OF flow_protocol_texts(1) flow_protocol_texts(2) flow_protocol_texts(2)]
  inj_on_eq_iff [OF flow_authorization_texts(1) flow_authorization_texts(2) flow_authorization_texts(2)]
  inj_on_eq_iff [OF workload_orchestrator_texts(1) workload_orchestrator_texts(2) workload_orchestrator_texts(2)]
  inj_on_eq_iff [OF runtime_isolation_texts(1) runtime_isolation_texts(2) runtime_isolation_texts(2)]
  inj_on_eq_iff [OF execution_trust_texts(1) execution_trust_texts(2) execution_trust_texts(2)]
  inj_on_eq_iff [OF credential_mode_texts(1) credential_mode_texts(2) credential_mode_texts(2)]
  inj_on_eq_iff [OF data_service_texts(1) data_service_texts(2) data_service_texts(2)]
  inj_on_eq_iff [OF identity_kind_texts(1) identity_kind_texts(2) identity_kind_texts(2)]
  inj_on_eq_iff [OF grant_effect_texts(1) grant_effect_texts(2) grant_effect_texts(2)]
  inj_on_eq_iff [OF dependency_protocol_texts(1) dependency_protocol_texts(2) dependency_protocol_texts(2)]
  inj_on_eq_iff [OF dependency_authorization_texts(1) dependency_authorization_texts(2) dependency_authorization_texts(2)]
  inj_on_eq_iff [OF ingress_mode_texts(1) ingress_mode_texts(2) ingress_mode_texts(2)]
  inj_on_eq_iff [OF platform_capability_texts(1) platform_capability_texts(2) platform_capability_texts(2)]

lemma schemaArray_enc:
  assumes "\<And>x q y. x \<in> set xs \<Longrightarrow> parse (enc x) q = Inr y \<longleftrightarrow> P x \<and> y = x"
  shows "schemaArray (JArr (map enc xs)) path parse = Inr ys \<longleftrightarrow> list_all P xs \<and> ys = xs"
  unfolding schemaArray_def jsval.case list_all_iff by (rule map_ix_encoded) (simp add: assms)

lemma schemaArray_sound:
  assumes "schemaArray v path parse = Inr xs" and "\<And>w q x. parse w q = Inr x \<Longrightarrow> P x"
  shows "list_all P xs"
proof -
  obtain vs where "map_ix (\<lambda>index entry. parse entry (quote_path path index)) 0 vs = Inr xs"
    using assms(1) by (auto simp: schemaArray_def split: jsval.splits)
  from map_ix_all [OF this, of P] assms(2) show ?thesis by (auto simp: list_all_iff)
qed

lemma stringArray_enc [schema_enc]: "stringArray (JArr (map JStr xs)) path = Inr ys \<longleftrightarrow> list_all nonEmpty xs \<and> ys = xs"
  unfolding stringArray_def by (rule schemaArray_enc) (auto simp: schema_iff)

lemma stringArray_sound [schema_sound]: "stringArray v path = Inr xs \<Longrightarrow> list_all nonEmpty xs"
  unfolding stringArray_def by (erule schemaArray_sound) (simp add: schema_iff)

lemma optional_enc:
  assumes "\<And>x y. parse (enc x) = Inr y \<longleftrightarrow> P x \<and> y = x" and "\<And>x. enc x \<noteq> JUndef"
  shows "optional_value parse (opt_js enc x) = Inr y \<longleftrightarrow> pred_option P x \<and> y = x"
  using assms by (cases x) (auto simp: optional_value_def result_simps)

lemma optional_sound:
  assumes "optional_value parse v = Inr y" and "\<And>x. parse v = Inr x \<Longrightarrow> P x"
  shows "pred_option P y"
  using assms by (auto simp: optional_value_def result_simps split: if_splits)

lemma optionalString_enc [schema_enc]: "optionalString (opt_js JStr x) path = Inr y \<longleftrightarrow> pred_option nonEmpty x \<and> y = x"
  unfolding optionalString_def by (rule optional_enc) (auto simp: schema_iff)

lemma optionalInteger_enc [schema_enc]:
  "optionalInteger (opt_js (\<lambda>i. JNum (NInt i)) x) path lo = Inr y \<longleftrightarrow> pred_option (int_between lo MAX_SAFE_INTEGER) x \<and> y = x"
  unfolding optionalInteger_def by (rule optional_enc) (auto simp: schema_iff)

lemma optionalStringArray_enc [schema_enc]:
  "optionalStringArray (opt_js (\<lambda>xs. JArr (map JStr xs)) x) path = Inr y \<longleftrightarrow> pred_option (list_all nonEmpty) x \<and> y = x"
  unfolding optionalStringArray_def by (rule optional_enc) (auto simp: schema_enc)

lemma integers_enc: "schemaArray (JArr (map (\<lambda>i. JNum (NInt i)) xs)) path (\<lambda>e q. schemaInteger e q lo hi) = Inr ys \<longleftrightarrow>
    list_all (int_between lo hi) xs \<and> ys = xs"
  by (rule schemaArray_enc) (auto simp: schema_iff)

lemma optionalIntegerArray_enc [schema_enc]:
  "optionalIntegerArray (opt_js (\<lambda>xs. JArr (map (\<lambda>i. JNum (NInt i)) xs)) x) path lo hi = Inr y \<longleftrightarrow>
     pred_option (list_all (int_between lo hi)) x \<and> y = x"
  unfolding optionalIntegerArray_def by (rule optional_enc) (auto simp: integers_enc)

lemma optionalString_sound [schema_sound]: "optionalString v path = Inr y \<Longrightarrow> pred_option nonEmpty y"
  unfolding optionalString_def by (erule optional_sound) (simp add: schema_iff)

lemma optionalInteger_sound [schema_sound]: "optionalInteger v path lo = Inr y \<Longrightarrow> pred_option (int_between lo MAX_SAFE_INTEGER) y"
  unfolding optionalInteger_def by (erule optional_sound) (simp add: schema_iff)

lemma optionalStringArray_sound [schema_sound]: "optionalStringArray v path = Inr y \<Longrightarrow> pred_option (list_all nonEmpty) y"
  unfolding optionalStringArray_def by (erule optional_sound) (rule stringArray_sound)

lemma optionalIntegerArray_sound [schema_sound]:
  "optionalIntegerArray v path lo hi = Inr y \<Longrightarrow> pred_option (list_all (int_between lo hi)) y"
  unfolding optionalIntegerArray_def by (erule optional_sound, erule schemaArray_sound) (simp add: schema_iff)

lemma isoTimestamp_iff [schema_iff, schema_enc]:
  "isoTimestamp dp v path = Inr s \<longleftrightarrow> v = JStr s \<and> nonEmpty s \<and> dp s \<noteq> None"
  by (auto simp: isoTimestamp_def schema_iff result_simps)

lemma capabilities_enc [schema_enc]:
  "schemaArray (JArr (map (\<lambda>c. JStr (platform_capability_text c)) xs)) path parseCapability = Inr ys \<longleftrightarrow> ys = xs"
proof -
  have "schemaArray (JArr (map (\<lambda>c. JStr (platform_capability_text c)) xs)) path parseCapability = Inr ys \<longleftrightarrow>
      list_all (\<lambda>_. True) xs \<and> ys = xs"
    by (rule schemaArray_enc) (auto simp: parseCapability_def schema_iff dest: inj_onD [OF platform_capability_texts(1)]
        intro: platform_capability_texts(2))
  then show ?thesis by (simp add: list_all_iff)
qed

lemma services_enc [schema_enc]: "parseServices (JArr (map (\<lambda>s. JStr (data_service_text s)) xs)) path = Inr ys \<longleftrightarrow> ys = xs"
proof -
  have "nonEmpty ''object''" "nonEmpty ''relational''" by code_simp+
  then have "nonEmpty (data_service_text s)" for s by (cases s) simp_all
  then have strings: "stringArray (JArr (map (\<lambda>s. JStr (data_service_text s)) xs)) path = Inr ts \<longleftrightarrow> ts = map data_service_text xs" for ts
    using stringArray_enc [of "map data_service_text xs" path ts] by (simp add: comp_def list_all_iff)
  have "map_ix (\<lambda>index service. enumeration (JStr service) (quote_path path index) data_service_text all_data_service) 0
        (map data_service_text xs) = Inr ys \<longleftrightarrow> (\<forall>x \<in> set xs. True) \<and> ys = xs"
    by (rule map_ix_encoded) (auto simp: schema_iff dest: inj_onD [OF data_service_texts(1)] intro: data_service_texts(2))
  with strings show ?thesis by (simp add: parseServices_def result_simps)
qed

lemma scope_modes:
  "enumeration v path scope_mode_text [ModePlatform, ModePooled, ModeDedicated] = Inr m \<longleftrightarrow> v = JStr (scope_mode_text m)"
proof (rule enumeration_all)
  show "m \<in> set [ModePlatform, ModePooled, ModeDedicated]" for m by (cases m) simp_all
qed simp

lemma scope_enc [schema_enc]: "parseTenantScope (scope_js s) path = Inr t \<longleftrightarrow> ok_scope s \<and> t = s"
proof -
  have mode: "scope_mode_text m = ''platform'' \<longleftrightarrow> m = ModePlatform" "scope_mode_text m = ''pooled'' \<longleftrightarrow> m = ModePooled"
    "scope_mode_text m = ''dedicated'' \<longleftrightarrow> m = ModeDedicated" for m by (cases m; simp)+
  show ?thesis
    by (cases s) (auto simp: parseTenantScope_def schema_iff schema_enc result_simps scope_modes mode eq_commute [of _ "scope_mode_text _"])
qed

lemma scope_sound [schema_sound]: "parseTenantScope v path = Inr s \<Longrightarrow> ok_scope s"
proof -
  assume "parseTenantScope v path = Inr s"
  then obtain ps m where "(case m of
       ModePlatform \<Rightarrow> bind_r (rejectUnknown ps path [''mode'']) (\<lambda>_. Inr PlatformScope)
     | ModePooled \<Rightarrow>
         bind_r (rejectUnknown ps path [''mode'', ''tenantIds'']) (\<lambda>_.
         bind_r (stringArray (js_get ps ''tenantIds'') (path @ ''.tenantIds'')) (\<lambda>ts. Inr (PooledScope ts)))
     | ModeDedicated \<Rightarrow>
         bind_r (rejectUnknown ps path [''mode'', ''tenantId'']) (\<lambda>_.
         bind_r (nonEmptyString (js_get ps ''tenantId'') (path @ ''.tenantId'')) (\<lambda>t. Inr (DedicatedScope t)))) = Inr s"
    unfolding parseTenantScope_def result_simps by blast
  then show ?thesis
    by (cases m) (auto simp: result_simps schema_iff dest: stringArray_sound)
qed

lemma record_entries_enc:
  "map_ix (record_entry path) 0 (map (\<lambda>(k, s). (k, JStr s)) c) = Inr es \<longleftrightarrow> (\<forall>e \<in> set c. nonEmpty (snd e)) \<and> es = c"
  by (rule map_ix_encoded) (auto simp: record_entry_def schema_iff result_simps split: prod.splits)

lemma conditions_enc [schema_enc]:
  assumes "pred_option obj_wf x"
  shows "optionalStringRecord (opt_js (enc_obj JStr) x) path = Inr y \<longleftrightarrow> pred_option ok_conditions x \<and> y = x"
  using assms
  by (cases x) (auto simp: optionalStringRecord_def optional_value_def enc_obj_def schema_iff result_simps record_entries_enc
      ok_conditions_def list_all_iff obj_from_entries_wf)

lemma conditions_sound [schema_sound]: "optionalStringRecord v path = Inr y \<Longrightarrow> pred_option ok_conditions y"
  unfolding optionalStringRecord_def
proof (erule optional_sound)
  fix w c
  assume "bind_r (schemaRecord w path) (\<lambda>input. bind_r (map_ix (record_entry path) 0 input) (\<lambda>es. Inr (obj_from_entries es))) = Inr c"
  then obtain ps es where es: "map_ix (record_entry path) 0 ps = Inr es" "c = obj_from_entries es"
    by (auto simp: result_simps)
  from es(1) have "\<forall>e \<in> set es. nonEmpty (snd e)"
    by (rule map_ix_all) (auto simp: record_entry_def schema_iff result_simps)
  then have "\<forall>s \<in> set (obj_values c). nonEmpty s" using obj_values_from_entries [of es] es(2) by auto
  then show "ok_conditions c"
    unfolding ok_conditions_def list_all_iff es(2) using obj_wf_from_entries by (auto simp: obj_values_def)
qed

subsection \<open>Records\<close>

lemma read_security_posture [schema_enc]: "parsePosture (enc_security_posture x) path = Inr y \<longleftrightarrow> ok_security_posture x \<and> y = x"
  by (cases x) (auto simp: parsePosture_def enc_security_posture_def ok_security_posture_def schema_enc bind_r_eq_Inr)

lemma sound_security_posture [schema_sound]: "parsePosture v path = Inr y \<Longrightarrow> ok_security_posture y"
  by (auto simp: parsePosture_def ok_security_posture_def schema_iff bind_r_eq_Inr intro: schema_sound)

lemma read_trust_zone [schema_enc]: "parseTrustZone (enc_trust_zone x) path = Inr y \<longleftrightarrow> ok_trust_zone x \<and> y = x"
  by (cases x) (auto simp: parseTrustZone_def enc_trust_zone_def ok_trust_zone_def schema_enc bind_r_eq_Inr)

lemma sound_trust_zone [schema_sound]: "parseTrustZone v path = Inr y \<Longrightarrow> ok_trust_zone y"
  by (auto simp: parseTrustZone_def ok_trust_zone_def schema_iff bind_r_eq_Inr intro: schema_sound)

lemma array_trust_zone [schema_enc]:
  "schemaArray (JArr (map enc_trust_zone xs)) path parseTrustZone = Inr ys \<longleftrightarrow> list_all ok_trust_zone xs \<and> ys = xs"
  by (rule schemaArray_enc) (simp add: read_trust_zone)

lemma sound_array_trust_zone [schema_sound]: "schemaArray v path parseTrustZone = Inr xs \<Longrightarrow> list_all ok_trust_zone xs"
  by (erule schemaArray_sound) (rule sound_trust_zone)

lemma read_network_domain [schema_enc]: "parseNetworkDomain (enc_network_domain x) path = Inr y \<longleftrightarrow> ok_network_domain x \<and> y = x"
  by (cases x) (auto simp: parseNetworkDomain_def enc_network_domain_def ok_network_domain_def schema_enc bind_r_eq_Inr)

lemma sound_network_domain [schema_sound]: "parseNetworkDomain v path = Inr y \<Longrightarrow> ok_network_domain y"
  by (auto simp: parseNetworkDomain_def ok_network_domain_def schema_iff bind_r_eq_Inr intro: schema_sound)

lemma array_network_domain [schema_enc]:
  "schemaArray (JArr (map enc_network_domain xs)) path parseNetworkDomain = Inr ys \<longleftrightarrow> list_all ok_network_domain xs \<and> ys = xs"
  by (rule schemaArray_enc) (simp add: read_network_domain)

lemma sound_array_network_domain [schema_sound]: "schemaArray v path parseNetworkDomain = Inr xs \<Longrightarrow> list_all ok_network_domain xs"
  by (erule schemaArray_sound) (rule sound_network_domain)

lemma read_network_flow [schema_enc]: "parseFlow (enc_network_flow x) path = Inr y \<longleftrightarrow> ok_network_flow x \<and> y = x"
  by (cases x) (auto simp: parseFlow_def enc_network_flow_def ok_network_flow_def schema_enc bind_r_eq_Inr)

lemma sound_network_flow [schema_sound]: "parseFlow v path = Inr y \<Longrightarrow> ok_network_flow y"
  by (auto simp: parseFlow_def ok_network_flow_def schema_iff bind_r_eq_Inr intro: schema_sound)

lemma array_network_flow [schema_enc]:
  "schemaArray (JArr (map enc_network_flow xs)) path parseFlow = Inr ys \<longleftrightarrow> list_all ok_network_flow xs \<and> ys = xs"
  by (rule schemaArray_enc) (simp add: read_network_flow)

lemma sound_array_network_flow [schema_sound]: "schemaArray v path parseFlow = Inr xs \<Longrightarrow> list_all ok_network_flow xs"
  by (erule schemaArray_sound) (rule sound_network_flow)

lemma read_workload_plane [schema_enc]: "parseWorkloadPlane (enc_workload_plane x) path = Inr y \<longleftrightarrow> ok_workload_plane x \<and> y = x"
  by (cases x) (auto simp: parseWorkloadPlane_def enc_workload_plane_def ok_workload_plane_def schema_enc bind_r_eq_Inr)

lemma sound_workload_plane [schema_sound]: "parseWorkloadPlane v path = Inr y \<Longrightarrow> ok_workload_plane y"
  by (auto simp: parseWorkloadPlane_def ok_workload_plane_def schema_iff bind_r_eq_Inr intro: schema_sound)

lemma array_workload_plane [schema_enc]:
  "schemaArray (JArr (map enc_workload_plane xs)) path parseWorkloadPlane = Inr ys \<longleftrightarrow> list_all ok_workload_plane xs \<and> ys = xs"
  by (rule schemaArray_enc) (simp add: read_workload_plane)

lemma sound_array_workload_plane [schema_sound]: "schemaArray v path parseWorkloadPlane = Inr xs \<Longrightarrow> list_all ok_workload_plane xs"
  by (erule schemaArray_sound) (rule sound_workload_plane)

lemma read_availability [schema_enc]: "availability_fields (the_obj (enc_availability x)) path = Inr y \<longleftrightarrow> ok_availability x \<and> y = x"
  by (cases x) (auto simp: availability_fields_def enc_availability_def ok_availability_def schema_enc bind_r_eq_Inr)

lemma object_availability [schema_enc]:
  "schemaObject (enc_availability x) path
     [''minimumReplicas'', ''maximumUnavailable''] = Inr ps \<longleftrightarrow> ps = the_obj (enc_availability x)"
  by (auto simp: enc_availability_def schema_iff)

lemma sound_availability [schema_sound]: "availability_fields input path = Inr y \<Longrightarrow> ok_availability y"
  by (auto simp: availability_fields_def ok_availability_def schema_iff bind_r_eq_Inr intro: schema_sound)

lemma read_release_policy [schema_enc]: "release_policy_fields (the_obj (enc_release_policy x)) path = Inr y \<longleftrightarrow> y = x"
  by (cases x) (auto simp: release_policy_fields_def enc_release_policy_def schema_enc bind_r_eq_Inr)

lemma object_release_policy [schema_enc]:
  "schemaObject (enc_release_policy x) path
     [''digestPinnedImages'', ''signatureVerification'', ''provenanceVerification'',
         ''rollbackRequired''] = Inr ps \<longleftrightarrow> ps = the_obj (enc_release_policy x)"
  by (auto simp: enc_release_policy_def schema_iff)

lemma read_application_component [schema_enc]: "parseComponent (enc_application_component x) path = Inr y \<longleftrightarrow> ok_application_component x \<and> y = x"
  by (cases x) (auto simp: parseComponent_def enc_application_component_def ok_application_component_def schema_enc bind_r_eq_Inr)

lemma sound_application_component [schema_sound]: "parseComponent v path = Inr y \<Longrightarrow> ok_application_component y"
  by (auto simp: parseComponent_def ok_application_component_def schema_iff bind_r_eq_Inr intro: schema_sound)

lemma array_application_component [schema_enc]:
  "schemaArray (JArr (map enc_application_component xs)) path parseComponent = Inr ys \<longleftrightarrow> list_all ok_application_component xs \<and> ys = xs"
  by (rule schemaArray_enc) (simp add: read_application_component)

lemma sound_array_application_component [schema_sound]: "schemaArray v path parseComponent = Inr xs \<Longrightarrow> list_all ok_application_component xs"
  by (erule schemaArray_sound) (rule sound_application_component)

lemma read_component_dependency [schema_enc]: "parseComponentDependency (enc_component_dependency x) path = Inr y \<longleftrightarrow> ok_component_dependency x \<and> y = x"
  by (cases x) (auto simp: parseComponentDependency_def enc_component_dependency_def ok_component_dependency_def schema_enc bind_r_eq_Inr)

lemma sound_component_dependency [schema_sound]: "parseComponentDependency v path = Inr y \<Longrightarrow> ok_component_dependency y"
  by (auto simp: parseComponentDependency_def ok_component_dependency_def schema_iff bind_r_eq_Inr intro: schema_sound)

lemma array_component_dependency [schema_enc]:
  "schemaArray (JArr (map enc_component_dependency xs)) path parseComponentDependency = Inr ys \<longleftrightarrow> list_all ok_component_dependency xs \<and> ys = xs"
  by (rule schemaArray_enc) (simp add: read_component_dependency)

lemma sound_array_component_dependency [schema_sound]: "schemaArray v path parseComponentDependency = Inr xs \<Longrightarrow> list_all ok_component_dependency xs"
  by (erule schemaArray_sound) (rule sound_component_dependency)

lemma read_application_dependency [schema_enc]: "parseDependency (enc_application_dependency x) path = Inr y \<longleftrightarrow> ok_application_dependency x \<and> y = x"
  by (cases x) (auto simp: parseDependency_def enc_application_dependency_def ok_application_dependency_def schema_enc bind_r_eq_Inr)

lemma sound_application_dependency [schema_sound]: "parseDependency v path = Inr y \<Longrightarrow> ok_application_dependency y"
  by (auto simp: parseDependency_def ok_application_dependency_def schema_iff bind_r_eq_Inr intro: schema_sound)

lemma array_application_dependency [schema_enc]:
  "schemaArray (JArr (map enc_application_dependency xs)) path parseDependency = Inr ys \<longleftrightarrow> list_all ok_application_dependency xs \<and> ys = xs"
  by (rule schemaArray_enc) (simp add: read_application_dependency)

lemma sound_array_application_dependency [schema_sound]: "schemaArray v path parseDependency = Inr xs \<Longrightarrow> list_all ok_application_dependency xs"
  by (erule schemaArray_sound) (rule sound_application_dependency)

lemma read_application_deployment [schema_enc]: "parseApplicationDeployment (enc_application_deployment x) path = Inr y \<longleftrightarrow> ok_application_deployment x \<and> y = x"
  by (cases x) (auto simp: parseApplicationDeployment_def enc_application_deployment_def ok_application_deployment_def schema_enc bind_r_eq_Inr)

lemma sound_application_deployment [schema_sound]: "parseApplicationDeployment v path = Inr y \<Longrightarrow> ok_application_deployment y"
  by (auto simp: parseApplicationDeployment_def ok_application_deployment_def schema_iff bind_r_eq_Inr intro: schema_sound)

lemma array_application_deployment [schema_enc]:
  "schemaArray (JArr (map enc_application_deployment xs)) path parseApplicationDeployment = Inr ys \<longleftrightarrow> list_all ok_application_deployment xs \<and> ys = xs"
  by (rule schemaArray_enc) (simp add: read_application_deployment)

lemma sound_array_application_deployment [schema_sound]: "schemaArray v path parseApplicationDeployment = Inr xs \<Longrightarrow> list_all ok_application_deployment xs"
  by (erule schemaArray_sound) (rule sound_application_deployment)

lemma read_tenant_placement [schema_enc]: "parseTenant (enc_tenant_placement x) path = Inr y \<longleftrightarrow> ok_tenant_placement x \<and> y = x"
  by (cases x) (auto simp: parseTenant_def enc_tenant_placement_def ok_tenant_placement_def schema_enc bind_r_eq_Inr)

lemma sound_tenant_placement [schema_sound]: "parseTenant v path = Inr y \<Longrightarrow> ok_tenant_placement y"
  by (auto simp: parseTenant_def ok_tenant_placement_def schema_iff bind_r_eq_Inr intro: schema_sound)

lemma array_tenant_placement [schema_enc]:
  "schemaArray (JArr (map enc_tenant_placement xs)) path parseTenant = Inr ys \<longleftrightarrow> list_all ok_tenant_placement xs \<and> ys = xs"
  by (rule schemaArray_enc) (simp add: read_tenant_placement)

lemma sound_array_tenant_placement [schema_sound]: "schemaArray v path parseTenant = Inr xs \<Longrightarrow> list_all ok_tenant_placement xs"
  by (erule schemaArray_sound) (rule sound_tenant_placement)

lemma read_encryption_requirement [schema_enc]: "encryption_requirement_fields (the_obj (enc_encryption_requirement x)) path = Inr y \<longleftrightarrow> y = x"
  by (cases x) (auto simp: encryption_requirement_fields_def enc_encryption_requirement_def schema_enc bind_r_eq_Inr)

lemma object_encryption_requirement [schema_enc]:
  "schemaObject (enc_encryption_requirement x) path
     [''customerManagedKey'', ''dedicatedPerTenant'', ''rotationRequired''] = Inr ps \<longleftrightarrow> ps = the_obj (enc_encryption_requirement x)"
  by (auto simp: enc_encryption_requirement_def schema_iff)

lemma read_recovery_requirement [schema_enc]: "recovery_requirement_fields (the_obj (enc_recovery_requirement x)) path = Inr y \<longleftrightarrow> ok_recovery_requirement x \<and> y = x"
  by (cases x) (auto simp: recovery_requirement_fields_def enc_recovery_requirement_def ok_recovery_requirement_def schema_enc bind_r_eq_Inr)

lemma object_recovery_requirement [schema_enc]:
  "schemaObject (enc_recovery_requirement x) path
     [''backupRequired'', ''rpoMinutes'', ''rtoMinutes'', ''multiAzRequired'',
         ''deletionProtectionRequired'', ''finalSnapshotRequired'', ''restoreTestIntervalDays''] = Inr ps \<longleftrightarrow> ps = the_obj (enc_recovery_requirement x)"
  by (auto simp: enc_recovery_requirement_def schema_iff)

lemma sound_recovery_requirement [schema_sound]: "recovery_requirement_fields input path = Inr y \<Longrightarrow> ok_recovery_requirement y"
  by (auto simp: recovery_requirement_fields_def ok_recovery_requirement_def schema_iff bind_r_eq_Inr intro: schema_sound)

lemma read_data_boundary [schema_enc]: "parseDataBoundary (enc_data_boundary x) path = Inr y \<longleftrightarrow> ok_data_boundary x \<and> y = x"
  by (cases x) (auto simp: parseDataBoundary_def enc_data_boundary_def ok_data_boundary_def schema_enc bind_r_eq_Inr)

lemma sound_data_boundary [schema_sound]: "parseDataBoundary v path = Inr y \<Longrightarrow> ok_data_boundary y"
  by (auto simp: parseDataBoundary_def ok_data_boundary_def schema_iff bind_r_eq_Inr intro: schema_sound)

lemma array_data_boundary [schema_enc]:
  "schemaArray (JArr (map enc_data_boundary xs)) path parseDataBoundary = Inr ys \<longleftrightarrow> list_all ok_data_boundary xs \<and> ys = xs"
  by (rule schemaArray_enc) (simp add: read_data_boundary)

lemma sound_array_data_boundary [schema_sound]: "schemaArray v path parseDataBoundary = Inr xs \<Longrightarrow> list_all ok_data_boundary xs"
  by (erule schemaArray_sound) (rule sound_data_boundary)

lemma read_platform_identity [schema_enc]: "parseIdentity (enc_platform_identity x) path = Inr y \<longleftrightarrow> ok_platform_identity x \<and> y = x"
  by (cases x) (auto simp: parseIdentity_def enc_platform_identity_def ok_platform_identity_def schema_enc bind_r_eq_Inr)

lemma sound_platform_identity [schema_sound]: "parseIdentity v path = Inr y \<Longrightarrow> ok_platform_identity y"
  by (auto simp: parseIdentity_def ok_platform_identity_def schema_iff bind_r_eq_Inr intro: schema_sound)

lemma array_platform_identity [schema_enc]:
  "schemaArray (JArr (map enc_platform_identity xs)) path parseIdentity = Inr ys \<longleftrightarrow> list_all ok_platform_identity xs \<and> ys = xs"
  by (rule schemaArray_enc) (simp add: read_platform_identity)

lemma sound_array_platform_identity [schema_sound]: "schemaArray v path parseIdentity = Inr xs \<Longrightarrow> list_all ok_platform_identity xs"
  by (erule schemaArray_sound) (rule sound_platform_identity)

lemma read_identity_delegation [schema_enc]: "pred_option obj_wf (dg_conditions x) \<Longrightarrow> parseIdentityDelegation (enc_identity_delegation x) path = Inr y \<longleftrightarrow> ok_identity_delegation x \<and> y = x"
  by (cases x) (auto simp: parseIdentityDelegation_def enc_identity_delegation_def ok_identity_delegation_def schema_enc bind_r_eq_Inr)

lemma sound_identity_delegation [schema_sound]: "parseIdentityDelegation v path = Inr y \<Longrightarrow> ok_identity_delegation y"
  by (auto simp: parseIdentityDelegation_def ok_identity_delegation_def schema_iff bind_r_eq_Inr intro: schema_sound)

lemma array_identity_delegation [schema_enc]:
  "\<forall>x \<in> set xs. pred_option obj_wf (dg_conditions x) \<Longrightarrow> schemaArray (JArr (map enc_identity_delegation xs)) path parseIdentityDelegation = Inr ys \<longleftrightarrow> list_all ok_identity_delegation xs \<and> ys = xs"
  by (rule schemaArray_enc) (simp add: read_identity_delegation)

lemma sound_array_identity_delegation [schema_sound]: "schemaArray v path parseIdentityDelegation = Inr xs \<Longrightarrow> list_all ok_identity_delegation xs"
  by (erule schemaArray_sound) (rule sound_identity_delegation)

lemma read_access_exception [schema_enc]: "parseAccessException date_parse (enc_access_exception x) path = Inr y \<longleftrightarrow> ok_access_exception date_parse x \<and> y = x"
  by (cases x) (auto simp: parseAccessException_def enc_access_exception_def ok_access_exception_def schema_enc bind_r_eq_Inr)

lemma sound_access_exception [schema_sound]: "parseAccessException date_parse v path = Inr y \<Longrightarrow> ok_access_exception date_parse y"
  by (auto simp: parseAccessException_def ok_access_exception_def schema_iff bind_r_eq_Inr intro: schema_sound)

lemma optionalException_enc [schema_enc]:
  "optionalException date_parse (opt_js enc_access_exception x) path = Inr y \<longleftrightarrow>
     pred_option (ok_access_exception date_parse) x \<and> y = x"
  by (cases x) (auto simp: optionalException_def read_access_exception bind_r_eq_Inr, simp_all add: enc_access_exception_def)

lemma optionalException_sound [schema_sound]:
  "optionalException date_parse v path = Inr y \<Longrightarrow> pred_option (ok_access_exception date_parse) y"
  by (auto simp: optionalException_def bind_r_eq_Inr intro: sound_access_exception split: if_splits)

lemma read_identity_grant [schema_enc]: "pred_option obj_wf (gr_conditions x) \<Longrightarrow> parseGrant date_parse (enc_identity_grant x) path = Inr y \<longleftrightarrow> ok_identity_grant date_parse x \<and> y = x"
  by (cases x) (auto simp: parseGrant_def enc_identity_grant_def ok_identity_grant_def schema_enc bind_r_eq_Inr)

lemma sound_identity_grant [schema_sound]: "parseGrant date_parse v path = Inr y \<Longrightarrow> ok_identity_grant date_parse y"
  by (auto simp: parseGrant_def ok_identity_grant_def schema_iff bind_r_eq_Inr intro: schema_sound)

lemma array_identity_grant [schema_enc]:
  "\<forall>x \<in> set xs. pred_option obj_wf (gr_conditions x) \<Longrightarrow> schemaArray (JArr (map enc_identity_grant xs)) path (parseGrant date_parse) = Inr ys \<longleftrightarrow> list_all (ok_identity_grant date_parse) xs \<and> ys = xs"
  by (rule schemaArray_enc) (simp add: read_identity_grant)

lemma sound_array_identity_grant [schema_sound]: "schemaArray v path (parseGrant date_parse) = Inr xs \<Longrightarrow> list_all (ok_identity_grant date_parse) xs"
  by (erule schemaArray_sound) (rule sound_identity_grant)

lemma read_evidence_sink [schema_enc]: "parseEvidenceSink (enc_evidence_sink x) path = Inr y \<longleftrightarrow> ok_evidence_sink x \<and> y = x"
  by (cases x) (auto simp: parseEvidenceSink_def enc_evidence_sink_def ok_evidence_sink_def schema_enc bind_r_eq_Inr)

lemma sound_evidence_sink [schema_sound]: "parseEvidenceSink v path = Inr y \<Longrightarrow> ok_evidence_sink y"
  by (auto simp: parseEvidenceSink_def ok_evidence_sink_def schema_iff bind_r_eq_Inr intro: schema_sound)

lemma array_evidence_sink [schema_enc]:
  "schemaArray (JArr (map enc_evidence_sink xs)) path parseEvidenceSink = Inr ys \<longleftrightarrow> list_all ok_evidence_sink xs \<and> ys = xs"
  by (rule schemaArray_enc) (simp add: read_evidence_sink)

lemma sound_array_evidence_sink [schema_sound]: "schemaArray v path parseEvidenceSink = Inr xs \<Longrightarrow> list_all ok_evidence_sink xs"
  by (erule schemaArray_sound) (rule sound_evidence_sink)

lemma read_evidence_requirement [schema_enc]: "parseEvidenceRequirement (enc_evidence_requirement x) path = Inr y \<longleftrightarrow> ok_evidence_requirement x \<and> y = x"
  by (cases x) (auto simp: parseEvidenceRequirement_def enc_evidence_requirement_def ok_evidence_requirement_def schema_enc bind_r_eq_Inr)

lemma sound_evidence_requirement [schema_sound]: "parseEvidenceRequirement v path = Inr y \<Longrightarrow> ok_evidence_requirement y"
  by (auto simp: parseEvidenceRequirement_def ok_evidence_requirement_def schema_iff bind_r_eq_Inr intro: schema_sound)

lemma array_evidence_requirement [schema_enc]:
  "schemaArray (JArr (map enc_evidence_requirement xs)) path parseEvidenceRequirement = Inr ys \<longleftrightarrow> list_all ok_evidence_requirement xs \<and> ys = xs"
  by (rule schemaArray_enc) (simp add: read_evidence_requirement)

lemma sound_array_evidence_requirement [schema_sound]: "schemaArray v path parseEvidenceRequirement = Inr xs \<Longrightarrow> list_all ok_evidence_requirement xs"
  by (erule schemaArray_sound) (rule sound_evidence_requirement)

subsection \<open>Secret material\<close>

named_theorems secret_simps \<open>no secret material in encoded records\<close>

fun secret_free :: "jsval \<Rightarrow> bool" where
  "secret_free (JArr vs) \<longleftrightarrow> (\<forall>v \<in> set vs. secret_free v)"
| "secret_free (JObj ps) \<longleftrightarrow> (\<forall>e \<in> set ps. fst e \<notin> set forbiddenSecretKeys \<and> secret_free (snd e))"
| "secret_free v \<longleftrightarrow> True"

lemma reject_iff:
  "rejectSecretMaterial v path = Inr u \<longleftrightarrow> secret_free v"
  "reject_elements vs path i = Inr u \<longleftrightarrow> (\<forall>v \<in> set vs. secret_free v)"
  "reject_entries ps path = Inr u \<longleftrightarrow> (\<forall>e \<in> set ps. fst e \<notin> set forbiddenSecretKeys \<and> secret_free (snd e))"
  by (induction v path and vs path i and ps path
      rule: rejectSecretMaterial_reject_elements_reject_entries.induct) (auto simp: result_simps)

lemma secret_get: "secret_free (JObj ps) \<Longrightarrow> secret_free (js_get ps k)"
  by (auto simp: js_get_def split: option.splits dest!: map_of_SomeD)

lemma secret_opt [secret_simps]: "secret_free (opt_js f x) \<longleftrightarrow> (\<forall>y. x = Some y \<longrightarrow> secret_free (f y))"
  by (cases x) auto

lemma secret_scope [secret_simps]: "secret_free (scope_js s)"
  by (cases s) (simp_all add: forbiddenSecretKeys_def)

lemma forbidden_iff [secret_simps]:
  "k \<in> set forbiddenSecretKeys \<longleftrightarrow> k = ''password'' \<or> k = ''privateKey'' \<or> k = ''secret'' \<or> k = ''secretMaterial'' \<or>
     k = ''secretString'' \<or> k = ''secretValue'' \<or> k = ''token''"
  by (auto simp: forbiddenSecretKeys_def)

lemma secret_conditions [secret_simps]:
  "(\<forall>y. c = Some y \<longrightarrow> secret_free (enc_obj JStr y)) \<longleftrightarrow> clean_conditions c"
  by (cases c) (auto simp: enc_obj_def clean_conditions_def)

lemma secret_security_posture [secret_simps]: "secret_free (enc_security_posture x)"
  by (simp add: enc_security_posture_def secret_simps list_all_iff)

lemma secret_trust_zone [secret_simps]: "secret_free (enc_trust_zone x)"
  by (simp add: enc_trust_zone_def secret_simps list_all_iff)

lemma secret_network_domain [secret_simps]: "secret_free (enc_network_domain x)"
  by (simp add: enc_network_domain_def secret_simps list_all_iff)

lemma secret_network_flow [secret_simps]: "secret_free (enc_network_flow x)"
  by (simp add: enc_network_flow_def secret_simps list_all_iff)

lemma secret_workload_plane [secret_simps]: "secret_free (enc_workload_plane x)"
  by (simp add: enc_workload_plane_def secret_simps list_all_iff)

lemma secret_availability [secret_simps]: "secret_free (enc_availability x)"
  by (simp add: enc_availability_def secret_simps list_all_iff)

lemma secret_release_policy [secret_simps]: "secret_free (enc_release_policy x)"
  by (simp add: enc_release_policy_def secret_simps list_all_iff)

lemma secret_application_component [secret_simps]: "secret_free (enc_application_component x)"
  by (simp add: enc_application_component_def secret_simps list_all_iff)

lemma secret_component_dependency [secret_simps]: "secret_free (enc_component_dependency x)"
  by (simp add: enc_component_dependency_def secret_simps list_all_iff)

lemma secret_application_dependency [secret_simps]: "secret_free (enc_application_dependency x)"
  by (simp add: enc_application_dependency_def secret_simps list_all_iff)

lemma secret_application_deployment [secret_simps]: "secret_free (enc_application_deployment x)"
  by (simp add: enc_application_deployment_def secret_simps list_all_iff)

lemma secret_tenant_placement [secret_simps]: "secret_free (enc_tenant_placement x)"
  by (simp add: enc_tenant_placement_def secret_simps list_all_iff)

lemma secret_encryption_requirement [secret_simps]: "secret_free (enc_encryption_requirement x)"
  by (simp add: enc_encryption_requirement_def secret_simps list_all_iff)

lemma secret_recovery_requirement [secret_simps]: "secret_free (enc_recovery_requirement x)"
  by (simp add: enc_recovery_requirement_def secret_simps list_all_iff)

lemma secret_data_boundary [secret_simps]: "secret_free (enc_data_boundary x)"
  by (simp add: enc_data_boundary_def secret_simps list_all_iff)

lemma secret_platform_identity [secret_simps]: "secret_free (enc_platform_identity x)"
  by (simp add: enc_platform_identity_def secret_simps list_all_iff)

lemma secret_identity_delegation [secret_simps]: "secret_free (enc_identity_delegation x) \<longleftrightarrow> clean_conditions (dg_conditions x)"
  by (simp add: enc_identity_delegation_def secret_simps list_all_iff)

lemma secret_access_exception [secret_simps]: "secret_free (enc_access_exception x)"
  by (simp add: enc_access_exception_def secret_simps list_all_iff)

lemma secret_identity_grant [secret_simps]: "secret_free (enc_identity_grant x) \<longleftrightarrow> clean_conditions (gr_conditions x)"
  by (simp add: enc_identity_grant_def secret_simps list_all_iff)

lemma secret_evidence_sink [secret_simps]: "secret_free (enc_evidence_sink x)"
  by (simp add: enc_evidence_sink_def secret_simps list_all_iff)

lemma secret_evidence_requirement [secret_simps]: "secret_free (enc_evidence_requirement x)"
  by (simp add: enc_evidence_requirement_def secret_simps list_all_iff)

lemma obj_from_entries_keys: "set (map fst (obj_from_entries es)) \<subseteq> set (map fst es)"
proof -
  have "set (obj_keys (foldl (\<lambda>ob (k, v). obj_set ob k v) ob es)) \<subseteq> set (obj_keys ob) \<union> set (map fst es)" for ob
  proof (induction es arbitrary: ob)
    case (Cons e es)
    from Cons [of "obj_set ob (fst e) (snd e)"] show ?case by (cases e) (auto simp: obj_keys_set)
  qed simp
  from this [of "[]"] show ?thesis by (simp add: obj_from_entries_def obj_keys_def)
qed

lemma conditions_clean:
  assumes "optionalStringRecord v path = Inr c" "secret_free v"
  shows "clean_conditions c"
proof (cases c)
  case None
  then show ?thesis by (simp add: clean_conditions_def)
next
  case (Some d)
  with assms(1) obtain ps es where es: "v = JObj ps" "map_ix (record_entry path) 0 ps = Inr es" "d = obj_from_entries es"
    by (auto simp: optionalStringRecord_def optional_value_def schema_iff bind_r_eq_Inr split: if_splits)
  have "map_ix (record_entry path) i ps = Inr es \<Longrightarrow> map fst es = map fst ps" for i es
    by (induction ps arbitrary: i es) (auto simp: bind_r_eq_Inr record_entry_def)
  with es(2) have keys: "map fst es = map fst ps" by blast
  have "set (map fst d) \<subseteq> set (map fst ps)" using obj_from_entries_keys [of es] unfolding es(3) keys .
  moreover have "set (map fst ps) \<inter> set forbiddenSecretKeys = {}" using assms(2) unfolding es(1) by auto
  ultimately have "set (map fst d) \<inter> set forbiddenSecretKeys = {}" by blast
  then show ?thesis by (simp only: clean_conditions_def Some or_empty_simps)
qed

lemma delegation_clean: "parseIdentityDelegation v path = Inr d \<Longrightarrow> secret_free v \<Longrightarrow> clean_conditions (dg_conditions d)"
  by (auto simp: parseIdentityDelegation_def bind_r_eq_Inr schemaObject_iff simp del: secret_free.simps
      intro: conditions_clean secret_get)

lemma grant_clean: "parseGrant date_parse v path = Inr g \<Longrightarrow> secret_free v \<Longrightarrow> clean_conditions (gr_conditions g)"
  by (auto simp: parseGrant_def bind_r_eq_Inr schemaObject_iff simp del: secret_free.simps
      intro: conditions_clean secret_get)

lemma schemaArray_sound_free:
  assumes "schemaArray v path parse = Inr xs" "secret_free v" and "\<And>w q x. parse w q = Inr x \<Longrightarrow> secret_free w \<Longrightarrow> P x"
  shows "list_all P xs"
proof -
  obtain vs where vs: "v = JArr vs" "map_ix (\<lambda>index entry. parse entry (quote_path path index)) 0 vs = Inr xs"
    using assms(1) by (auto simp: schemaArray_def split: jsval.splits)
  from map_ix_all [OF vs(2), of P] assms(2,3) vs(1) show ?thesis by (auto simp: list_all_iff)
qed

subsection \<open>The blueprint\<close>

lemma blueprint_sound:
  assumes "parsePlatformBlueprint date_parse v = Inr b"
  shows "ok_platform_blueprint date_parse b \<and> secret_free v"
proof -
  have free: "secret_free v" using assms by (auto simp: parsePlatformBlueprint_def Let_def bind_r_eq_Inr reject_iff)
  from assms obtain ps where v: "v = JObj ps" and
    parts: "schemaArray (js_get ps ''identityDelegations'') (''platformBlueprint'' @ ''.identityDelegations'') parseIdentityDelegation =
       Inr (bp_identityDelegations b)"
    "schemaArray (js_get ps ''grants'') (''platformBlueprint'' @ ''.grants'') (parseGrant date_parse) = Inr (bp_grants b)"
    unfolding parsePlatformBlueprint_def Let_def bind_r_eq_Inr schemaObject_iff by auto
  have "list_all (\<lambda>d. clean_conditions (dg_conditions d)) (bp_identityDelegations b)"
    using parts(1) secret_get [OF free [unfolded v]] by (rule schemaArray_sound_free) (rule delegation_clean)
  moreover have "list_all (\<lambda>g. clean_conditions (gr_conditions g)) (bp_grants b)"
    using parts(2) secret_get [OF free [unfolded v]] by (rule schemaArray_sound_free) (rule grant_clean)
  ultimately have "ok_platform_blueprint date_parse b"
    using assms unfolding parsePlatformBlueprint_def ok_platform_blueprint_def Let_def bind_r_eq_Inr
    by (auto simp: schema_iff intro: schema_sound)
  with free show ?thesis by blast
qed

lemma blueprint_secret:
  "secret_free (enc_platform_blueprint b) \<longleftrightarrow>
     list_all (\<lambda>d. clean_conditions (dg_conditions d)) (bp_identityDelegations b) \<and>
     list_all (\<lambda>g. clean_conditions (gr_conditions g)) (bp_grants b)"
  by (simp add: enc_platform_blueprint_def secret_simps list_all_iff)

lemma blueprint_roundtrip:
  assumes "ok_platform_blueprint date_parse b"
  shows "parsePlatformBlueprint date_parse (enc_platform_blueprint b) = Inr b"
proof -
  have wf: "\<forall>x \<in> set (bp_identityDelegations b). pred_option obj_wf (dg_conditions x)"
    "\<forall>x \<in> set (bp_grants b). pred_option obj_wf (gr_conditions x)"
    using assms by (auto simp: ok_platform_blueprint_def list_all_iff ok_identity_delegation_def ok_identity_grant_def
        ok_conditions_def option.pred_set)
  have free: "rejectSecretMaterial (enc_platform_blueprint b) path = Inr ()" for path
    using assms by (simp add: reject_iff blueprint_secret ok_platform_blueprint_def)
  show ?thesis
    using assms unfolding parsePlatformBlueprint_def Let_def free bind_r_Inr
    by (cases b) (simp add: enc_platform_blueprint_def ok_platform_blueprint_def schema_enc wf bind_r_eq_Inr)
qed

end
