(* ===== verification/SchemaProps.thy ===== *)
theory SchemaProps
  imports SchemaLaws BlueprintExamples
begin

section \<open>Properties of the blueprint parser and loader\<close>

lemma pred_option_code [code]: "pred_option P x \<longleftrightarrow> (case x of None \<Rightarrow> True | Some y \<Rightarrow> P y)"
  by (cases x) auto

lemma bx_storable: "ok_platform_blueprint Date_parse bx"
proof -
  have "nonEmpty (bp_name bx)" "nonEmpty (bp_environment bx)" "ok_security_posture (bp_posture bx)"
    "list_all ok_trust_zone (bp_trustZones bx)" "list_all ok_network_domain (bp_networkDomains bx)"
    "list_all ok_network_flow (bp_flows bx)" "list_all ok_workload_plane (bp_workloadPlanes bx)"
    "list_all ok_application_deployment (bp_applications bx)" "list_all ok_tenant_placement (bp_tenants bx)"
    "list_all ok_data_boundary (bp_dataBoundaries bx)" "list_all ok_platform_identity (bp_identities bx)"
    "list_all ok_identity_delegation (bp_identityDelegations bx)" "list_all (ok_identity_grant Date_parse) (bp_grants bx)"
    "list_all ok_evidence_sink (bp_evidenceSinks bx)" "list_all ok_evidence_requirement (bp_evidenceRequirements bx)"
    "list_all (\<lambda>d. clean_conditions (dg_conditions d)) (bp_identityDelegations bx)"
    "list_all (\<lambda>g. clean_conditions (gr_conditions g)) (bp_grants bx)"
    by code_simp+
  then show ?thesis by (simp add: ok_platform_blueprint_def)
qed

text \<open>C11: The parser reads the object of a blueprint back unchanged exactly when the blueprint satisfies the constraints of the
  schema: identifiers and texts not blank, integers in their ranges, time stamps that parse, dictionaries without forbidden keys.\<close>

theorem schema_roundtrip:
  "parsePlatformBlueprint date_parse (enc_platform_blueprint b) = Inr b \<longleftrightarrow> ok_platform_blueprint date_parse b"
  using blueprint_sound blueprint_roundtrip by blast

text \<open>C34: Whatever the parser accepts has no object with a forbidden key at any depth, and what it returns satisfies the constraints
  of the schema and is accepted again unchanged.\<close>

theorem schema_accepts_sound:
  assumes "parsePlatformBlueprint date_parse v = Inr b"
  shows "secret_free v \<and> ok_platform_blueprint date_parse b \<and>
    parsePlatformBlueprint date_parse (enc_platform_blueprint b) = Inr b"
  using blueprint_sound [OF assms] blueprint_roundtrip by blast

theorem schema_accepts_sound_witness: "secret_free (enc_platform_blueprint bx)"
  using schema_accepts_sound [OF blueprint_roundtrip [OF bx_storable]] by (rule conjunct1)

lemma load_cases:
  assumes "loadPlatformBlueprint date_parse v = Inr r"
  shows "\<exists>ps version w. v = JObj ps \<and> js_get ps ''apiVersion'' = JStr version \<and>
    parsePlatformBlueprint date_parse w = Inr (lb_blueprint r) \<and>
    (version = currentBlueprintApiVersion \<and> \<not> mr_migrated (lb_migrationReport r) \<or>
     version = ''security.deus.dev/v1alpha0'' \<and> mr_migrated (lb_migrationReport r))"
proof (cases v)
  case (JObj ps)
  show ?thesis
  proof (cases "js_get ps ''apiVersion''")
    case (JStr version)
    note load = assms [unfolded loadPlatformBlueprint_def JObj schemaRecord_def jsval.case bind_r_Inr JStr]
    show ?thesis
    proof (cases "version = currentBlueprintApiVersion")
      case True
      from load [unfolded if_P [OF True]] obtain b where
        "parsePlatformBlueprint date_parse (JObj ps) = Inr b" "lb_blueprint r = b" "\<not> mr_migrated (lb_migrationReport r)"
        by (auto simp: bind_r_eq_Inr)
      with True JStr JObj show ?thesis by blast
    next
      case False
      note load = load [unfolded if_not_P [OF False]]
      show ?thesis
      proof (cases "version = ''security.deus.dev/v1alpha0''")
        case True
        from load [unfolded if_P [OF True]] obtain b where
          "parsePlatformBlueprint date_parse (JObj (migrate_v1alpha0 ps)) = Inr b" "lb_blueprint r = b"
          "mr_migrated (lb_migrationReport r)"
          by (auto simp: bind_r_eq_Inr)
        with True JStr JObj show ?thesis by blast
      next
        case no: False
        from load [unfolded if_not_P [OF no]] show ?thesis by simp
      qed
    qed
  qed (use assms JObj in \<open>simp_all add: loadPlatformBlueprint_def schemaRecord_def\<close>)
qed (use assms in \<open>simp_all add: loadPlatformBlueprint_def schemaRecord_def\<close>)

text \<open>Loading is idempotent: what was loaded, from the current or the previous version, loads again to the same blueprint without a
  further migration; and a value of any other version is refused.\<close>

theorem load_idempotent:
  assumes "loadPlatformBlueprint date_parse v = Inr r"
  shows "loadPlatformBlueprint date_parse (enc_platform_blueprint (lb_blueprint r)) =
      Inr \<lparr>lb_blueprint = lb_blueprint r, lb_migrationReport =
        \<lparr>mr_sourceVersion = currentBlueprintApiVersion, mr_targetVersion = currentBlueprintApiVersion, mr_migrated = False,
         mr_changes = []\<rparr>\<rparr> \<and>
    (\<exists>ps version. v = JObj ps \<and> js_get ps ''apiVersion'' = JStr version \<and>
       version \<in> {currentBlueprintApiVersion, ''security.deus.dev/v1alpha0''} \<and>
       (mr_migrated (lb_migrationReport r) \<longleftrightarrow> version \<noteq> currentBlueprintApiVersion))"
proof -
  have "currentBlueprintApiVersion \<noteq> ''security.deus.dev/v1alpha0''" by (simp add: currentBlueprintApiVersion_def)
  moreover from load_cases [OF assms] obtain ps version w where v: "v = JObj ps" "js_get ps ''apiVersion'' = JStr version"
    and w: "parsePlatformBlueprint date_parse w = Inr (lb_blueprint r)"
    and c: "version = currentBlueprintApiVersion \<and> \<not> mr_migrated (lb_migrationReport r) \<or>
     version = ''security.deus.dev/v1alpha0'' \<and> mr_migrated (lb_migrationReport r)" by blast
  ultimately have version: "version \<in> {currentBlueprintApiVersion, ''security.deus.dev/v1alpha0''}"
    "mr_migrated (lb_migrationReport r) \<longleftrightarrow> version \<noteq> currentBlueprintApiVersion" by blast+
  from w have again: "parsePlatformBlueprint date_parse (enc_platform_blueprint (lb_blueprint r)) = Inr (lb_blueprint r)"
    using blueprint_sound blueprint_roundtrip by blast
  have "\<exists>qs. enc_platform_blueprint (lb_blueprint r) = JObj qs \<and> js_get qs ''apiVersion'' = JStr currentBlueprintApiVersion"
    by (simp add: enc_platform_blueprint_def)
  then obtain qs where "enc_platform_blueprint (lb_blueprint r) = JObj qs" "js_get qs ''apiVersion'' = JStr currentBlueprintApiVersion"
    by blast
  with again have "loadPlatformBlueprint date_parse (enc_platform_blueprint (lb_blueprint r)) =
      Inr \<lparr>lb_blueprint = lb_blueprint r, lb_migrationReport =
        \<lparr>mr_sourceVersion = currentBlueprintApiVersion, mr_targetVersion = currentBlueprintApiVersion, mr_migrated = False,
         mr_changes = []\<rparr>\<rparr>"
    by (simp add: loadPlatformBlueprint_def schemaRecord_def)
  with v version show ?thesis by blast
qed

lemma bx_loads: "\<exists>r. loadPlatformBlueprint Date_parse (enc_platform_blueprint bx) = Inr r \<and> lb_blueprint r = bx"
proof -
  have "\<exists>qs. enc_platform_blueprint bx = JObj qs \<and> js_get qs ''apiVersion'' = JStr currentBlueprintApiVersion"
    by (simp add: enc_platform_blueprint_def)
  then obtain qs where "enc_platform_blueprint bx = JObj qs" "js_get qs ''apiVersion'' = JStr currentBlueprintApiVersion" by blast
  with blueprint_roundtrip [OF bx_storable] show ?thesis by (simp add: loadPlatformBlueprint_def schemaRecord_def)
qed

theorem load_idempotent_witness: "\<exists>r. loadPlatformBlueprint Date_parse (enc_platform_blueprint bx) = Inr r \<and> lb_blueprint r = bx"
proof -
  obtain r where r: "loadPlatformBlueprint Date_parse (enc_platform_blueprint bx) = Inr r" "lb_blueprint r = bx"
    using bx_loads by blast
  from load_idempotent [OF r(1)] r(2) show ?thesis by auto
qed

end
