(* ===== verification/InfraReaders.thy ===== *)
theory InfraReaders
  imports JsParse JsonText JsDate
begin

section \<open>The readers of the infrastructure modules\<close>

text \<open>
  The modules of the infrastructure controller read unknown values with the same small functions,
  declared again in each module; they differ in the error they throw.  Here they are stated
  once with the error as an argument \<open>err\<close>; \<open>infra_reads\<close> collects what each accepts.
\<close>

named_theorems infra_reads \<open>what the readers of the infrastructure modules accept\<close>
named_theorems infra_enc \<open>readers applied to encoded values\<close>

definition MAX_SAFE :: int where
  "MAX_SAFE = 9007199254740991"

definition safe_positive :: "int \<Rightarrow> bool" where
  "safe_positive i \<longleftrightarrow> 1 \<le> i \<and> i \<le> MAX_SAFE"

definition read_exact :: "(string \<Rightarrow> 'e) \<Rightarrow> jsval \<Rightarrow> string \<Rightarrow> string list \<Rightarrow> 'e + props" where
  "read_exact err v path allowed =
     (case v of
        JObj ps \<Rightarrow>
          (case List.find (\<lambda>k. k \<notin> set allowed) (map fst ps) of
             Some k \<Rightarrow> Inl (err (path @ ''.'' @ k @ '' is not allowed.''))
           | None \<Rightarrow>
          (case List.find (\<lambda>k. k \<notin> set (map fst ps)) allowed of
             Some k \<Rightarrow> Inl (err (path @ ''.'' @ k @ '' is required.''))
           | None \<Rightarrow> Inr ps))
      | _ \<Rightarrow> Inl (err (path @ '' must be an object.'')))"

definition read_unique ::
  "(string \<Rightarrow> 'e) \<Rightarrow> jsval \<Rightarrow> string \<Rightarrow> (jsval \<Rightarrow> string \<Rightarrow> 'e + 'a) \<Rightarrow> ('a \<Rightarrow> jsval) \<Rightarrow> 'e + 'a list"
where
  "read_unique err v path parse key =
     (case v of
        JArr vs \<Rightarrow>
          bind_r (map_ix (\<lambda>i x. parse x (quote_path path i)) 0 vs) (\<lambda>parsed.
          if distinct (map (\<lambda>x. json_text (key x)) parsed) then Inr parsed
          else Inl (err (path @ '' must not contain duplicates.'')))
      | _ \<Rightarrow> Inl (err (path @ '' must be an array.'')))"

definition read_unique1 ::
  "(string \<Rightarrow> 'e) \<Rightarrow> jsval \<Rightarrow> string \<Rightarrow> (jsval \<Rightarrow> string \<Rightarrow> 'e + 'a) \<Rightarrow> ('a \<Rightarrow> jsval) \<Rightarrow> 'e + 'a list"
where
  "read_unique1 err v path parse key =
     bind_r (read_unique err v path parse key) (\<lambda>parsed.
     if parsed = [] then Inl (err (path @ '' must not be empty.'')) else Inr parsed)"

text \<open>\<open>'${expected}'\<close> prints a string or a boolean.\<close>

definition js_print :: "jsval \<Rightarrow> string" where
  "js_print v = (case v of JStr s \<Rightarrow> s | _ \<Rightarrow> json_text v)"

definition read_literal :: "(string \<Rightarrow> 'e) \<Rightarrow> jsval \<Rightarrow> string \<Rightarrow> jsval \<Rightarrow> 'e + unit" where
  "read_literal err v path expected =
     throw_if (v \<noteq> expected) (err (path @ '' must be '' @ CHR 0x27 # js_print expected @ [CHR 0x27, CHR ''.'']))"

definition read_member :: "(string \<Rightarrow> 'e) \<Rightarrow> jsval \<Rightarrow> string \<Rightarrow> ('a \<Rightarrow> string) \<Rightarrow> 'a list \<Rightarrow> 'e + 'a" where
  "read_member err v path name allowed =
     (let e = err (path @ '' must be one of '' @ join_names (map name allowed) @ ''.'')
      in case v of
           JStr s \<Rightarrow> (case List.find (\<lambda>a. name a = s) allowed of Some a \<Rightarrow> Inr a | None \<Rightarrow> Inl e)
         | _ \<Rightarrow> Inl e)"

text \<open>A string that passes a test, and a safe integer from 1 on.\<close>

definition read_text :: "'e \<Rightarrow> (string \<Rightarrow> bool) \<Rightarrow> jsval \<Rightarrow> 'e + string" where
  "read_text e test v = (case v of JStr s \<Rightarrow> if test s then Inr s else Inl e | _ \<Rightarrow> Inl e)"

definition read_positive :: "'e \<Rightarrow> jsval \<Rightarrow> 'e + int" where
  "read_positive e v = (case v of JNum (NInt i) \<Rightarrow> if safe_positive i then Inr i else Inl e | _ \<Rightarrow> Inl e)"

definition read_bool :: "'e \<Rightarrow> jsval \<Rightarrow> 'e + bool" where
  "read_bool e v = (case v of JBool b \<Rightarrow> Inr b | _ \<Rightarrow> Inl e)"

definition read_nullable :: "jsval \<Rightarrow> (jsval \<Rightarrow> 'e + 'a) \<Rightarrow> 'e + 'a option" where
  "read_nullable v parse = (if v = JNull then Inr None else bind_r (parse v) (\<lambda>x. Inr (Some x)))"

definition null_or :: "('a \<Rightarrow> jsval) \<Rightarrow> 'a option \<Rightarrow> jsval" where
  "null_or enc x = (case x of None \<Rightarrow> JNull | Some y \<Rightarrow> enc y)"

subsection \<open>Patterns\<close>

definition id_first :: "char \<Rightarrow> bool" where
  "id_first c \<longleftrightarrow> in_range CHR ''A'' CHR ''Z'' c \<or> in_range CHR ''a'' CHR ''z'' c \<or> is_digit c"

definition id_char :: "char \<Rightarrow> bool" where
  "id_char c \<longleftrightarrow> id_first c \<or> c \<in> set ''._:-''"

text \<open>\<open>/^[A-Za-z0-9][A-Za-z0-9._:-]{0,127}$/\<close> and \<open>value.includes("*") || value.includes("..")\<close>.\<close>

definition exact_id_rx :: rexp where
  "exact_id_rx = RSeq (RCls id_first) (RRep 0 127 (RCls id_char))"

fun has_dots :: "string \<Rightarrow> bool" where
  "has_dots (c # d # s) = (c = CHR ''.'' \<and> d = CHR ''.'' \<or> has_dots (d # s))"
| "has_dots s = False"

definition wildcard :: "string \<Rightarrow> bool" where
  "wildcard s \<longleftrightarrow> CHR ''*'' \<in> set s \<or> has_dots s"

definition is_exact_id :: "string \<Rightarrow> bool" where
  "is_exact_id s \<longleftrightarrow> rx_test exact_id_rx s \<and> \<not> wildcard s"

definition sha256_rx :: rexp where
  "sha256_rx = rx_times 64 (RCls lower_hex)"

definition is_sha_digest :: "string \<Rightarrow> bool" where
  "is_sha_digest s \<longleftrightarrow> rx_test sha256_rx s"

lemma exact_id_iff:
  "rx_test exact_id_rx s \<longleftrightarrow> s \<noteq> [] \<and> length s \<le> 128 \<and> id_first (hd s) \<and> list_all id_char s"
  by (cases s) (auto simp: exact_id_rx_def rx_test_seq_cls rx_test_rep_cls id_char_def)

lemma is_sha_digest_iff: "is_sha_digest s \<longleftrightarrow> length s = 64 \<and> list_all lower_hex s"
  by (simp add: is_sha_digest_def sha256_rx_def rx_test_times_cls)

subsection \<open>What they accept\<close>

lemma read_exact_iff [infra_reads]:
  "read_exact err v path allowed = Inr ps \<longleftrightarrow> v = JObj ps \<and> set (map fst ps) = set allowed"
  by (cases v) (auto simp: read_exact_def result_simps)

lemma read_unique_iff:
  "read_unique err v path parse key = Inr xs \<longleftrightarrow>
     (\<exists>vs. v = JArr vs \<and> map_ix (\<lambda>i x. parse x (quote_path path i)) 0 vs = Inr xs \<and>
           distinct (map (\<lambda>x. json_text (key x)) xs))"
  by (cases v) (auto simp: read_unique_def result_simps split: if_splits)

lemma read_unique1_iff:
  "read_unique1 err v path parse key = Inr xs \<longleftrightarrow> read_unique err v path parse key = Inr xs \<and> xs \<noteq> []"
  by (auto simp: read_unique1_def result_simps split: if_splits)

lemma read_literal_iff [infra_reads]: "read_literal err v path expected = Inr u \<longleftrightarrow> v = expected"
  by (simp add: read_literal_def result_simps)

lemma read_member_iff:
  "inj_on name (set vals) \<Longrightarrow> read_member err v path name vals = Inr x \<longleftrightarrow> v = JStr (name x) \<and> x \<in> set vals"
  by (auto simp: read_member_def Let_def find_name find_None_iff dest: inj_onD
      split: jsval.splits option.splits)

lemma read_text_iff [infra_reads]: "read_text e test v = Inr s \<longleftrightarrow> v = JStr s \<and> test s"
  by (auto simp: read_text_def split: jsval.splits if_splits)

lemma read_positive_iff [infra_reads]: "read_positive e v = Inr i \<longleftrightarrow> v = JNum (NInt i) \<and> safe_positive i"
  by (auto simp: read_positive_def split: jsval.splits jsnum.splits if_splits)

lemma read_bool_iff [infra_reads]: "read_bool e v = Inr b \<longleftrightarrow> v = JBool b"
  by (auto simp: read_bool_def split: jsval.splits)

lemma read_nullable_iff:
  "read_nullable v parse = Inr x \<longleftrightarrow>
     (case x of None \<Rightarrow> v = JNull | Some y \<Rightarrow> v \<noteq> JNull \<and> parse v = Inr y)"
  by (auto simp: read_nullable_def result_simps split: option.splits if_splits)

lemma json_text_JStr_inj [simp]: "json_text (JStr s) = json_text (JStr t) \<longleftrightarrow> s = t"
  using json_string_inj [of s "[]" t "[]"] by auto

lemma distinct_json_texts [simp]: "distinct (map (\<lambda>x. json_string (f x)) xs) \<longleftrightarrow> distinct (map f xs)"
  by (induction xs) (auto simp: image_iff dest: json_string_inj [where u = "[]" and v = "[]", simplified])

text \<open>Encoded values read back.\<close>

lemma read_unique_enc:
  assumes "\<And>x y p. x \<in> set xs \<Longrightarrow> parse (enc x) p = Inr y \<longleftrightarrow> P x \<and> y = x"
  shows "read_unique err (JArr (map enc xs)) path parse (\<lambda>x. JStr (key x)) = Inr ys \<longleftrightarrow>
     (list_all P xs \<and> distinct (map key xs)) \<and> ys = xs"
proof -
  have "map_ix (\<lambda>i x. parse x (quote_path path i)) 0 (map enc xs) = Inr zs \<longleftrightarrow> (\<forall>x \<in> set xs. P x) \<and> zs = xs" for zs
    by (rule map_ix_encoded) (simp add: assms)
  then show ?thesis by (auto simp: read_unique_iff list_all_iff)
qed

lemma read_unique_sound:
  assumes "read_unique err v path parse (\<lambda>x. JStr (key x)) = Inr xs"
    and "\<And>w p x. parse w p = Inr x \<Longrightarrow> P x"
  shows "list_all P xs \<and> distinct (map key xs)"
proof -
  from assms(1) obtain vs where "map_ix (\<lambda>i x. parse x (quote_path path i)) 0 vs = Inr xs" "distinct (map key xs)"
    by (auto simp: read_unique_iff)
  then show ?thesis using map_ix_all [of _ 0 vs xs P] assms(2) by (auto simp: list_all_iff)
qed

lemma read_unique1_sound:
  "read_unique1 err v path parse (\<lambda>x. JStr (key x)) = Inr xs \<Longrightarrow> (\<And>w p x. parse w p = Inr x \<Longrightarrow> P x) \<Longrightarrow>
   list_all P xs \<and> distinct (map key xs) \<and> xs \<noteq> []"
  using read_unique_sound [of err v path parse key xs P] by (auto simp: read_unique1_iff)

lemma pred_option_cases [code]: "pred_option P x = (case x of None \<Rightarrow> True | Some y \<Rightarrow> P y)"
  by (cases x) simp_all

lemma null_or_simps [simp]: "null_or enc None = JNull" "null_or enc (Some x) = enc x"
  by (simp_all add: null_or_def)

lemma read_nullable_enc:
  assumes "\<And>x y. parse (enc x) = Inr y \<longleftrightarrow> P x \<and> y = x" and "\<And>x. enc x \<noteq> JNull"
  shows "read_nullable (null_or enc x) parse = Inr y \<longleftrightarrow> pred_option P x \<and> y = x"
  by (cases x; cases y) (auto simp: read_nullable_iff assms)

lemma read_nullable_sound:
  "read_nullable v parse = Inr x \<Longrightarrow> (\<And>w y. parse w = Inr y \<Longrightarrow> P y) \<Longrightarrow> pred_option P x"
  by (cases x) (auto simp: read_nullable_iff)

end
