(* ===== verification/InfraController.thy ===== *)
theory InfraController
  imports InfraReaders
begin

section \<open>The infrastructure controller: requests\<close>

text \<open>
  The data of \<open>src/core/infrastructureController.ts\<close> and \<open>parseInfrastructureControllerRequest\<close>.  An
  interface is a record without the properties whose type is a single literal (\<open>apiVersion\<close>, \<open>kind\<close>,
  the \<open>sandbox\<close> of a plugin, the \<open>format\<close> of a capability), which are in the value of the \<open>enc\<close>
  function.  An error is the message that is thrown.  \<open>new_URL\<close> is the constructor \<open>URL\<close> of the
  platform; it gives the parts the source reads, or \<open>None\<close> where it throws.
\<close>

subsection \<open>Data\<close>

datatype infra_operation = OpPlan | OpReconcile | OpObserve | OpCancel | OpDelete

datatype infra_action = ActPlan | ActReconcile | ActObserve | ActCancel | ActDelete

datatype environment_class = NonProduction | PreProduction | Production

datatype infra_auth_method = AuthOidc | AuthMtls

record url_parts =
  url_protocol :: string
  url_username :: string
  url_password :: string
  url_search :: string
  url_hash :: string

record infra_actor =
  ia_principalId :: string
  ia_organizationId :: string
  ia_tenantId :: string
  ia_authenticationMethods :: "infra_auth_method list"

record infra_claim =
  ict_claimId :: string
  ict_tenantId :: string
  ict_contextId :: string
  ict_generation :: int
  ict_desiredStateDigest :: string

record infra_permission =
  ipm_action :: infra_action
  ipm_resourcePrefix :: string

record infra_plugin =
  ipl_pluginId :: string
  ipl_permissions :: "infra_permission list"

record infra_grant =
  igr_grantId :: string
  igr_subjectId :: string
  igr_organizationId :: string
  igr_tenantId :: string
  igr_actions :: "infra_action list"
  igr_resourcePrefixes :: "string list"
  igr_expiresAt :: int

record infra_capability =
  icp_capabilityId :: string
  icp_issuer :: string
  icp_subjectId :: string
  icp_audience :: string
  icp_organizationId :: string
  icp_tenantId :: string
  icp_action :: infra_action
  icp_resource :: string
  icp_claimGeneration :: int
  icp_desiredStateDigest :: string
  icp_planDigest :: "string option"
  icp_issuedAt :: int
  icp_notBefore :: int
  icp_expiresAt :: int
  icp_oneUse :: bool
  icp_cryptographicallyVerified :: bool

record infra_plan =
  ipn_planDigest :: string
  ipn_desiredStateDigest :: string
  ipn_controllerVersion :: string
  ipn_providerId :: string
  ipn_providerVersion :: string
  ipn_createdAt :: int
  ipn_expiresAt :: int
  ipn_policyChecksPassed :: bool
  ipn_destructive :: bool

record infra_approval =
  iap_approvalId :: string
  iap_approverPrincipalId :: string
  iap_planDigest :: string
  iap_approvedAt :: int

record infra_request =
  irq_requestId :: string
  irq_operation :: infra_operation
  irq_environmentClass :: environment_class
  irq_actor :: infra_actor
  irq_claim :: infra_claim
  irq_plugin :: infra_plugin
  irq_grant :: infra_grant
  irq_capability :: infra_capability
  irq_plan :: "infra_plan option"
  irq_approvals :: "infra_approval list"
  irq_idempotencyKey :: "string option"
  irq_deadline :: int

definition INFRASTRUCTURE_CONTROLLER_API_VERSION :: string where
  "INFRASTRUCTURE_CONTROLLER_API_VERSION = ''security.deus.dev/infrastructure-controller/v1alpha1''"

definition INFRASTRUCTURE_STACK_OWNERSHIP_API_VERSION :: string where
  "INFRASTRUCTURE_STACK_OWNERSHIP_API_VERSION = ''security.deus.dev/infrastructure-stack-ownership/v1alpha1''"

primrec infra_operation_name :: "infra_operation \<Rightarrow> string" where
  "infra_operation_name OpPlan = ''plan''"
| "infra_operation_name OpReconcile = ''reconcile''"
| "infra_operation_name OpObserve = ''observe''"
| "infra_operation_name OpCancel = ''cancel''"
| "infra_operation_name OpDelete = ''delete''"

definition infra_operations :: "infra_operation list" where
  "infra_operations = [OpPlan, OpReconcile, OpObserve, OpCancel, OpDelete]"

primrec infra_action_name :: "infra_action \<Rightarrow> string" where
  "infra_action_name ActPlan = ''infra.claim.plan''"
| "infra_action_name ActReconcile = ''infra.claim.reconcile''"
| "infra_action_name ActObserve = ''infra.claim.observe''"
| "infra_action_name ActCancel = ''infra.claim.cancel''"
| "infra_action_name ActDelete = ''infra.claim.delete''"

definition infra_actions :: "infra_action list" where
  "infra_actions = [ActPlan, ActReconcile, ActObserve, ActCancel, ActDelete]"

primrec environment_name :: "environment_class \<Rightarrow> string" where
  "environment_name NonProduction = ''nonproduction''"
| "environment_name PreProduction = ''preproduction''"
| "environment_name Production = ''production''"

definition environment_classes :: "environment_class list" where
  "environment_classes = [NonProduction, PreProduction, Production]"

primrec auth_method_name :: "infra_auth_method \<Rightarrow> string" where
  "auth_method_name AuthOidc = ''oidc''"
| "auth_method_name AuthMtls = ''mtls''"

definition auth_methods :: "infra_auth_method list" where
  "auth_methods = [AuthOidc, AuthMtls]"

primrec infrastructureAction :: "infra_operation \<Rightarrow> infra_action" where
  "infrastructureAction OpPlan = ActPlan"
| "infrastructureAction OpReconcile = ActReconcile"
| "infrastructureAction OpObserve = ActObserve"
| "infrastructureAction OpCancel = ActCancel"
| "infrastructureAction OpDelete = ActDelete"

definition mutationOperations :: "infra_operation list" where
  "mutationOperations = [OpReconcile, OpCancel, OpDelete]"

subsection \<open>Field readers\<close>

definition assertIdentifier :: "string \<Rightarrow> string \<Rightarrow> string + unit" where
  "assertIdentifier s path =
     bind_r (throw_if (\<not> rx_test exact_id_rx s) (path @ '' must be an exact identifier.'')) (\<lambda>_.
     throw_if (wildcard s) (path @ '' must not contain wildcard or traversal syntax.''))"

definition infraIdentifier :: "jsval \<Rightarrow> string \<Rightarrow> string + string" where
  "infraIdentifier v path =
     (case v of
        JStr s \<Rightarrow> bind_r (assertIdentifier s path) (\<lambda>_. Inr s)
      | _ \<Rightarrow> Inl (path @ '' must be a string.''))"

definition resource_segment :: rexp where
  "resource_segment = rx_plus (RCls id_char)"

definition resource_prefix_rx :: rexp where
  "resource_prefix_rx =
     RSeq (rx_str ''organization/'') (RSeq resource_segment
     (RSeq (rx_str ''/tenant/'') (RSeq resource_segment
     (RSeq (rx_str ''/context/'') (RSeq resource_segment (rx_str ''/claim/''))))))"

definition exact_resource_rx :: rexp where
  "exact_resource_rx =
     RSeq (rx_str ''organization/'') (RSeq resource_segment
     (RSeq (rx_str ''/tenant/'') (RSeq resource_segment
     (RSeq (rx_str ''/context/'') (RSeq resource_segment
     (RSeq (rx_str ''/claim/'') resource_segment))))))"

definition is_resource :: "string \<Rightarrow> bool" where
  "is_resource s \<longleftrightarrow> rx_test exact_resource_rx s \<and> \<not> wildcard s"

definition is_prefix :: "string \<Rightarrow> bool" where
  "is_prefix s \<longleftrightarrow> rx_test resource_prefix_rx s \<and> \<not> wildcard s"

definition exactResource :: "jsval \<Rightarrow> string \<Rightarrow> string + string" where
  "exactResource v path = read_text (path @ '' must be an exact infrastructure resource.'') is_resource v"

definition resourcePrefix :: "jsval \<Rightarrow> string \<Rightarrow> string + string" where
  "resourcePrefix v path = read_text (path @ '' must be an exact tenant/context claim prefix.'') is_prefix v"

definition infraSha256 :: "jsval \<Rightarrow> string \<Rightarrow> string + string" where
  "infraSha256 v path = read_text (path @ '' must be a lowercase SHA-256 digest.'') is_sha_digest v"

definition nullableSha256 :: "jsval \<Rightarrow> string \<Rightarrow> string + string option" where
  "nullableSha256 v path = read_nullable v (\<lambda>w. infraSha256 w path)"

definition infraPositive :: "jsval \<Rightarrow> string \<Rightarrow> string + int" where
  "infraPositive v path = read_positive (path @ '' must be a positive integer.'') v"

definition booleanValue :: "jsval \<Rightarrow> string \<Rightarrow> string + bool" where
  "booleanValue v path = read_bool (path @ '' must be boolean.'') v"

definition credential_free_url :: "url_parts \<Rightarrow> bool" where
  "credential_free_url u \<longleftrightarrow>
     url_protocol u = ''https:'' \<and> url_username u = [] \<and> url_password u = [] \<and>
     url_search u = [] \<and> url_hash u = []"

definition credentialFreeHttpsUrl ::
  "(string \<Rightarrow> url_parts option) \<Rightarrow> jsval \<Rightarrow> string \<Rightarrow> string + string"
where
  "credentialFreeHttpsUrl new_URL v path =
     (case v of
        JStr s \<Rightarrow>
          (case new_URL s of
             None \<Rightarrow> Inl (path @ '' must be a valid HTTPS URL.'')
           | Some u \<Rightarrow> if credential_free_url u then Inr s else Inl (path @ '' must be a credential-free HTTPS URL.''))
      | _ \<Rightarrow> Inl (path @ '' must be a URL.''))"

text \<open>\<open>/^\d+\.\d+\.\d+(?:[-+][0-9A-Za-z.-]+)?$/\<close>\<close>

definition version_rx :: rexp where
  "version_rx =
     RSeq (rx_plus (RCls is_digit)) (RSeq (rx_char CHR ''.'')
     (RSeq (rx_plus (RCls is_digit)) (RSeq (rx_char CHR ''.'')
     (RSeq (rx_plus (RCls is_digit))
       (rx_opt (RSeq (RCls (\<lambda>c. c = CHR ''-'' \<or> c = CHR ''+''))
                     (rx_plus (RCls (\<lambda>c. id_first c \<or> c = CHR ''.'' \<or> c = CHR ''-'')))))))))"

definition infraVersion :: "jsval \<Rightarrow> string \<Rightarrow> string + string" where
  "infraVersion v path = read_text (path @ '' must be an exact semantic version.'') (rx_test version_rx) v"

definition infraTimestamp :: "jsval \<Rightarrow> string \<Rightarrow> string + string" where
  "infraTimestamp v path = read_text (path @ '' must be an RFC3339 UTC timestamp.'') is_timestamp v"

definition parseAction :: "jsval \<Rightarrow> string \<Rightarrow> string + infra_action" where
  "parseAction v path = read_member id v path infra_action_name infra_actions"

definition parseMethod :: "jsval \<Rightarrow> string \<Rightarrow> string + infra_auth_method" where
  "parseMethod v path = read_member id v path auth_method_name auth_methods"

subsection \<open>The request\<close>

definition actor_keys :: "string list" where
  "actor_keys = [''principalId'', ''organizationId'', ''tenantId'', ''authenticationMethods'']"

definition actor_fields :: "props \<Rightarrow> string + infra_actor" where
  "actor_fields actor =
     bind_r (infraIdentifier (js_get actor ''principalId'') ''request.actor.principalId'') (\<lambda>p.
     bind_r (infraIdentifier (js_get actor ''organizationId'') ''request.actor.organizationId'') (\<lambda>org.
     bind_r (infraIdentifier (js_get actor ''tenantId'') ''request.actor.tenantId'') (\<lambda>t.
     bind_r (read_unique1 id (js_get actor ''authenticationMethods'') ''request.actor.authenticationMethods''
               parseMethod (\<lambda>m. JStr (auth_method_name m))) (\<lambda>ms.
     Inr \<lparr>ia_principalId = p, ia_organizationId = org, ia_tenantId = t, ia_authenticationMethods = ms\<rparr>))))"

definition claim_keys :: "string list" where
  "claim_keys = [''claimId'', ''tenantId'', ''contextId'', ''generation'', ''desiredStateDigest'']"

definition claim_fields :: "props \<Rightarrow> string + infra_claim" where
  "claim_fields claim =
     bind_r (infraIdentifier (js_get claim ''claimId'') ''request.claim.claimId'') (\<lambda>i.
     bind_r (infraIdentifier (js_get claim ''tenantId'') ''request.claim.tenantId'') (\<lambda>t.
     bind_r (infraIdentifier (js_get claim ''contextId'') ''request.claim.contextId'') (\<lambda>c.
     bind_r (infraPositive (js_get claim ''generation'') ''request.claim.generation'') (\<lambda>g.
     bind_r (infraSha256 (js_get claim ''desiredStateDigest'') ''request.claim.desiredStateDigest'') (\<lambda>d.
     Inr \<lparr>ict_claimId = i, ict_tenantId = t, ict_contextId = c, ict_generation = g, ict_desiredStateDigest = d\<rparr>)))))"

definition parsePluginPermission :: "jsval \<Rightarrow> string \<Rightarrow> string + infra_permission" where
  "parsePluginPermission v path =
     bind_r (read_exact id v path [''action'', ''resourcePrefix'']) (\<lambda>input.
     bind_r (parseAction (js_get input ''action'') (path @ ''.action'')) (\<lambda>a.
     bind_r (resourcePrefix (js_get input ''resourcePrefix'') (path @ ''.resourcePrefix'')) (\<lambda>r.
     Inr \<lparr>ipm_action = a, ipm_resourcePrefix = r\<rparr>)))"

definition permission_key :: "infra_permission \<Rightarrow> string" where
  "permission_key p = infra_action_name (ipm_action p) @ ''|'' @ ipm_resourcePrefix p"

definition plugin_keys :: "string list" where
  "plugin_keys = [''pluginId'', ''kind'', ''sandbox'', ''permissions'']"

definition sandbox_entries :: props where
  "sandbox_entries =
     [(''network'', JStr ''broker-only''), (''providerCredentials'', JBool False),
      (''pulumiBackendAccess'', JBool False), (''kubernetesAdminAccess'', JBool False),
      (''hostAccess'', JBool False), (''unixSockets'', JBool False)]"

text \<open>The properties of the sandbox are literals, read in this order.\<close>

fun literal_fields :: "props \<Rightarrow> string \<Rightarrow> props \<Rightarrow> string + unit" where
  "literal_fields input path [] = Inr ()"
| "literal_fields input path ((k, expected) # es) =
     bind_r (read_literal id (js_get input k) (path @ ''.'' @ k) expected) (\<lambda>_. literal_fields input path es)"

definition plugin_fields :: "props \<Rightarrow> props \<Rightarrow> string + infra_plugin" where
  "plugin_fields plugin sandbox =
     bind_r (infraIdentifier (js_get plugin ''pluginId'') ''request.plugin.pluginId'') (\<lambda>i.
     bind_r (read_literal id (js_get plugin ''kind'') ''request.plugin.kind'' (JStr ''infrastructure-request'')) (\<lambda>_.
     bind_r (literal_fields sandbox ''request.plugin.sandbox'' sandbox_entries) (\<lambda>_.
     bind_r (read_unique1 id (js_get plugin ''permissions'') ''request.plugin.permissions''
               parsePluginPermission (\<lambda>p. JStr (permission_key p))) (\<lambda>ps.
     Inr \<lparr>ipl_pluginId = i, ipl_permissions = ps\<rparr>))))"

definition grant_keys :: "string list" where
  "grant_keys = [''grantId'', ''subjectId'', ''organizationId'', ''tenantId'', ''actions'', ''resourcePrefixes'',
     ''expiresAtEpochSeconds'']"

definition grant_fields :: "props \<Rightarrow> string + infra_grant" where
  "grant_fields grant =
     bind_r (infraIdentifier (js_get grant ''grantId'') ''request.grant.grantId'') (\<lambda>i.
     bind_r (infraIdentifier (js_get grant ''subjectId'') ''request.grant.subjectId'') (\<lambda>s.
     bind_r (infraIdentifier (js_get grant ''organizationId'') ''request.grant.organizationId'') (\<lambda>org.
     bind_r (infraIdentifier (js_get grant ''tenantId'') ''request.grant.tenantId'') (\<lambda>t.
     bind_r (read_unique1 id (js_get grant ''actions'') ''request.grant.actions''
               parseAction (\<lambda>a. JStr (infra_action_name a))) (\<lambda>as.
     bind_r (read_unique1 id (js_get grant ''resourcePrefixes'') ''request.grant.resourcePrefixes''
               resourcePrefix JStr) (\<lambda>rs.
     bind_r (infraPositive (js_get grant ''expiresAtEpochSeconds'') ''request.grant.expiresAtEpochSeconds'') (\<lambda>e.
     Inr \<lparr>igr_grantId = i, igr_subjectId = s, igr_organizationId = org, igr_tenantId = t, igr_actions = as,
          igr_resourcePrefixes = rs, igr_expiresAt = e\<rparr>)))))))"

definition capability_keys :: "string list" where
  "capability_keys = [''capabilityId'', ''format'', ''issuer'', ''subjectId'', ''audience'', ''organizationId'',
     ''tenantId'', ''action'', ''resource'', ''claimGeneration'', ''desiredStateDigest'', ''planDigest'',
     ''issuedAtEpochSeconds'', ''notBeforeEpochSeconds'', ''expiresAtEpochSeconds'', ''oneUse'',
     ''cryptographicallyVerified'']"

definition capability_fields :: "(string \<Rightarrow> url_parts option) \<Rightarrow> props \<Rightarrow> string + infra_capability" where
  "capability_fields new_URL c =
     (let path = ''request.capability'' in
     bind_r (infraIdentifier (js_get c ''capabilityId'') (path @ ''.capabilityId'')) (\<lambda>i.
     bind_r (read_literal id (js_get c ''format'') (path @ ''.format'') (JStr ''v2-ed25519'')) (\<lambda>_.
     bind_r (credentialFreeHttpsUrl new_URL (js_get c ''issuer'') (path @ ''.issuer'')) (\<lambda>iss.
     bind_r (infraIdentifier (js_get c ''subjectId'') (path @ ''.subjectId'')) (\<lambda>sub.
     bind_r (infraIdentifier (js_get c ''audience'') (path @ ''.audience'')) (\<lambda>aud.
     bind_r (infraIdentifier (js_get c ''organizationId'') (path @ ''.organizationId'')) (\<lambda>org.
     bind_r (infraIdentifier (js_get c ''tenantId'') (path @ ''.tenantId'')) (\<lambda>t.
     bind_r (parseAction (js_get c ''action'') (path @ ''.action'')) (\<lambda>act.
     bind_r (exactResource (js_get c ''resource'') (path @ ''.resource'')) (\<lambda>res.
     bind_r (infraPositive (js_get c ''claimGeneration'') (path @ ''.claimGeneration'')) (\<lambda>g.
     bind_r (infraSha256 (js_get c ''desiredStateDigest'') (path @ ''.desiredStateDigest'')) (\<lambda>d.
     bind_r (nullableSha256 (js_get c ''planDigest'') (path @ ''.planDigest'')) (\<lambda>pd.
     bind_r (infraPositive (js_get c ''issuedAtEpochSeconds'') (path @ ''.issuedAtEpochSeconds'')) (\<lambda>ia.
     bind_r (infraPositive (js_get c ''notBeforeEpochSeconds'') (path @ ''.notBeforeEpochSeconds'')) (\<lambda>nb.
     bind_r (infraPositive (js_get c ''expiresAtEpochSeconds'') (path @ ''.expiresAtEpochSeconds'')) (\<lambda>ex.
     bind_r (booleanValue (js_get c ''oneUse'') (path @ ''.oneUse'')) (\<lambda>one.
     bind_r (booleanValue (js_get c ''cryptographicallyVerified'') (path @ ''.cryptographicallyVerified'')) (\<lambda>ver.
     Inr \<lparr>icp_capabilityId = i, icp_issuer = iss, icp_subjectId = sub, icp_audience = aud, icp_organizationId = org,
          icp_tenantId = t, icp_action = act, icp_resource = res, icp_claimGeneration = g, icp_desiredStateDigest = d,
          icp_planDigest = pd, icp_issuedAt = ia, icp_notBefore = nb, icp_expiresAt = ex, icp_oneUse = one,
          icp_cryptographicallyVerified = ver\<rparr>))))))))))))))))))"

definition parsePlanBinding :: "jsval \<Rightarrow> string \<Rightarrow> string + infra_plan" where
  "parsePlanBinding v path =
     bind_r (read_exact id v path [''planDigest'', ''desiredStateDigest'', ''controllerVersion'', ''providerId'',
       ''providerVersion'', ''createdAtEpochSeconds'', ''expiresAtEpochSeconds'', ''policyChecksPassed'',
       ''destructive'']) (\<lambda>input.
     bind_r (infraSha256 (js_get input ''planDigest'') (path @ ''.planDigest'')) (\<lambda>pd.
     bind_r (infraSha256 (js_get input ''desiredStateDigest'') (path @ ''.desiredStateDigest'')) (\<lambda>d.
     bind_r (infraVersion (js_get input ''controllerVersion'') (path @ ''.controllerVersion'')) (\<lambda>cv.
     bind_r (infraIdentifier (js_get input ''providerId'') (path @ ''.providerId'')) (\<lambda>p.
     bind_r (infraVersion (js_get input ''providerVersion'') (path @ ''.providerVersion'')) (\<lambda>pv.
     bind_r (infraPositive (js_get input ''createdAtEpochSeconds'') (path @ ''.createdAtEpochSeconds'')) (\<lambda>ca.
     bind_r (infraPositive (js_get input ''expiresAtEpochSeconds'') (path @ ''.expiresAtEpochSeconds'')) (\<lambda>ea.
     bind_r (booleanValue (js_get input ''policyChecksPassed'') (path @ ''.policyChecksPassed'')) (\<lambda>ok.
     bind_r (booleanValue (js_get input ''destructive'') (path @ ''.destructive'')) (\<lambda>de.
     Inr \<lparr>ipn_planDigest = pd, ipn_desiredStateDigest = d, ipn_controllerVersion = cv, ipn_providerId = p,
          ipn_providerVersion = pv, ipn_createdAt = ca, ipn_expiresAt = ea, ipn_policyChecksPassed = ok,
          ipn_destructive = de\<rparr>))))))))))"

definition parseApproval :: "jsval \<Rightarrow> string \<Rightarrow> string + infra_approval" where
  "parseApproval v path =
     bind_r (read_exact id v path [''approvalId'', ''approverPrincipalId'', ''planDigest'', ''approvedAtEpochSeconds'']) (\<lambda>input.
     bind_r (infraIdentifier (js_get input ''approvalId'') (path @ ''.approvalId'')) (\<lambda>i.
     bind_r (infraIdentifier (js_get input ''approverPrincipalId'') (path @ ''.approverPrincipalId'')) (\<lambda>p.
     bind_r (infraSha256 (js_get input ''planDigest'') (path @ ''.planDigest'')) (\<lambda>d.
     bind_r (infraPositive (js_get input ''approvedAtEpochSeconds'') (path @ ''.approvedAtEpochSeconds'')) (\<lambda>t.
     Inr \<lparr>iap_approvalId = i, iap_approverPrincipalId = p, iap_planDigest = d, iap_approvedAt = t\<rparr>)))))"

definition controller_request_keys :: "string list" where
  "controller_request_keys = [''apiVersion'', ''kind'', ''requestId'', ''operation'', ''environmentClass'', ''actor'', ''claim'',
     ''plugin'', ''grant'', ''capability'', ''plan'', ''approvals'', ''idempotencyKey'', ''deadlineEpochSeconds'']"

definition parseInfrastructureControllerRequest ::
  "(string \<Rightarrow> url_parts option) \<Rightarrow> jsval \<Rightarrow> string + infra_request"
where
  "parseInfrastructureControllerRequest new_URL v =
     bind_r (read_exact id v ''request'' controller_request_keys) (\<lambda>root.
     bind_r (read_exact id (js_get root ''actor'') ''request.actor'' actor_keys) (\<lambda>actor.
     bind_r (read_exact id (js_get root ''claim'') ''request.claim'' claim_keys) (\<lambda>claim.
     bind_r (read_exact id (js_get root ''plugin'') ''request.plugin'' plugin_keys) (\<lambda>plugin.
     bind_r (read_exact id (js_get plugin ''sandbox'') ''request.plugin.sandbox'' (map fst sandbox_entries)) (\<lambda>sandbox.
     bind_r (read_exact id (js_get root ''grant'') ''request.grant'' grant_keys) (\<lambda>grant.
     bind_r (read_exact id (js_get root ''capability'') ''request.capability'' capability_keys) (\<lambda>capability.
     bind_r (read_literal id (js_get root ''apiVersion'') ''request.apiVersion''
               (JStr INFRASTRUCTURE_CONTROLLER_API_VERSION)) (\<lambda>_.
     bind_r (read_literal id (js_get root ''kind'') ''request.kind'' (JStr ''InfrastructureControllerRequest'')) (\<lambda>_.
     bind_r (infraIdentifier (js_get root ''requestId'') ''request.requestId'') (\<lambda>i.
     bind_r (read_member id (js_get root ''operation'') ''request.operation'' infra_operation_name infra_operations) (\<lambda>operation.
     bind_r (read_member id (js_get root ''environmentClass'') ''request.environmentClass'' environment_name environment_classes) (\<lambda>env.
     bind_r (actor_fields actor) (\<lambda>a.
     bind_r (claim_fields claim) (\<lambda>c.
     bind_r (plugin_fields plugin sandbox) (\<lambda>p.
     bind_r (grant_fields grant) (\<lambda>g.
     bind_r (capability_fields new_URL capability) (\<lambda>cap.
     bind_r (read_nullable (js_get root ''plan'') (\<lambda>w. parsePlanBinding w ''request.plan'')) (\<lambda>plan.
     bind_r (read_unique id (js_get root ''approvals'') ''request.approvals'' parseApproval
               (\<lambda>x. JStr (iap_approverPrincipalId x))) (\<lambda>approvals.
     bind_r (read_nullable (js_get root ''idempotencyKey'') (\<lambda>w. infraIdentifier w ''request.idempotencyKey'')) (\<lambda>key.
     bind_r (infraPositive (js_get root ''deadlineEpochSeconds'') ''request.deadlineEpochSeconds'') (\<lambda>deadline.
     Inr \<lparr>irq_requestId = i, irq_operation = operation, irq_environmentClass = env, irq_actor = a, irq_claim = c,
          irq_plugin = p, irq_grant = g, irq_capability = cap, irq_plan = plan, irq_approvals = approvals,
          irq_idempotencyKey = key, irq_deadline = deadline\<rparr>)))))))))))))))))))))"

end
