(* ===== verification/InfraRequest.thy ===== *)
theory InfraRequest
  imports InfraController
begin

section \<open>The infrastructure controller: what the request parser accepts\<close>

text \<open>
  \<open>enc_<record>\<close> is the JavaScript value that a record stands for and \<open>ok_<record>\<close> what the parser
  demands of it.  \<open>parse_request_enc\<close> and \<open>parse_request_sound\<close> together say that the parser reads
  the value of exactly the requests that are \<open>ok\<close>, and returns nothing else.
\<close>

subsection \<open>Field readers\<close>

lemma assertIdentifier_iff [infra_reads]: "assertIdentifier s path = Inr u \<longleftrightarrow> is_exact_id s"
  by (auto simp: assertIdentifier_def is_exact_id_def result_simps)

lemma infraIdentifier_iff [infra_reads]: "infraIdentifier v path = Inr s \<longleftrightarrow> v = JStr s \<and> is_exact_id s"
  by (cases v) (auto simp: infraIdentifier_def infra_reads result_simps)

lemma exactResource_iff [infra_reads]: "exactResource v path = Inr s \<longleftrightarrow> v = JStr s \<and> is_resource s"
  by (simp add: exactResource_def infra_reads)

lemma resourcePrefix_iff [infra_reads]: "resourcePrefix v path = Inr s \<longleftrightarrow> v = JStr s \<and> is_prefix s"
  by (simp add: resourcePrefix_def infra_reads)

lemma infraSha256_iff [infra_reads]: "infraSha256 v path = Inr s \<longleftrightarrow> v = JStr s \<and> is_sha_digest s"
  by (simp add: infraSha256_def infra_reads)

lemma infraPositive_iff [infra_reads]: "infraPositive v path = Inr i \<longleftrightarrow> v = JNum (NInt i) \<and> safe_positive i"
  by (simp add: infraPositive_def infra_reads)

lemma booleanValue_iff [infra_reads]: "booleanValue v path = Inr b \<longleftrightarrow> v = JBool b"
  by (simp add: booleanValue_def infra_reads)

lemma infraVersion_iff [infra_reads]: "infraVersion v path = Inr s \<longleftrightarrow> v = JStr s \<and> rx_test version_rx s"
  by (simp add: infraVersion_def infra_reads)

lemma infraTimestamp_iff [infra_reads]: "infraTimestamp v path = Inr s \<longleftrightarrow> v = JStr s \<and> is_timestamp s"
  by (simp add: infraTimestamp_def infra_reads)

definition is_issuer :: "(string \<Rightarrow> url_parts option) \<Rightarrow> string \<Rightarrow> bool" where
  "is_issuer new_URL s \<longleftrightarrow> (case new_URL s of None \<Rightarrow> False | Some u \<Rightarrow> credential_free_url u)"

lemma credentialFreeHttpsUrl_iff [infra_reads]:
  "credentialFreeHttpsUrl new_URL v path = Inr s \<longleftrightarrow> v = JStr s \<and> is_issuer new_URL s"
  by (cases v) (auto simp: credentialFreeHttpsUrl_def is_issuer_def split: option.splits if_splits)

lemma infra_operations_all [simp]: "x \<in> set infra_operations" by (cases x) (simp_all add: infra_operations_def)
lemma infra_actions_all [simp]: "x \<in> set infra_actions" by (cases x) (simp_all add: infra_actions_def)
lemma environment_all [simp]: "x \<in> set environment_classes" by (cases x) (simp_all add: environment_classes_def)
lemma auth_methods_all [simp]: "x \<in> set auth_methods" by (cases x) (simp_all add: auth_methods_def)

lemma infra_operation_name_eq [simp]: "infra_operation_name x = infra_operation_name y \<longleftrightarrow> x = y"
  by (cases x; cases y) auto
lemma infra_action_name_eq [simp]: "infra_action_name x = infra_action_name y \<longleftrightarrow> x = y"
  by (cases x; cases y) auto
lemma environment_name_eq [simp]: "environment_name x = environment_name y \<longleftrightarrow> x = y"
  by (cases x; cases y) auto
lemma auth_method_name_eq [simp]: "auth_method_name x = auth_method_name y \<longleftrightarrow> x = y"
  by (cases x; cases y) auto

lemma read_member_enum [infra_reads]:
  "read_member err v p infra_operation_name infra_operations = Inr op \<longleftrightarrow> v = JStr (infra_operation_name op)"
  "read_member err v p environment_name environment_classes = Inr env \<longleftrightarrow> v = JStr (environment_name env)"
  by (auto simp: read_member_iff inj_on_def)

lemma parseAction_iff [infra_reads]: "parseAction v path = Inr a \<longleftrightarrow> v = JStr (infra_action_name a)"
  by (simp add: parseAction_def read_member_iff inj_on_def)

lemma parseMethod_iff [infra_reads]: "parseMethod v path = Inr a \<longleftrightarrow> v = JStr (auth_method_name a)"
  by (simp add: parseMethod_def read_member_iff inj_on_def)

subsection \<open>Values and constraints of the records\<close>

definition actor_props :: "infra_actor \<Rightarrow> props" where
  "actor_props x =
     [(''principalId'', JStr (ia_principalId x)), (''organizationId'', JStr (ia_organizationId x)),
      (''tenantId'', JStr (ia_tenantId x)),
      (''authenticationMethods'', JArr (map (\<lambda>m. JStr (auth_method_name m)) (ia_authenticationMethods x)))]"

definition ok_actor :: "infra_actor \<Rightarrow> bool" where
  "ok_actor x \<longleftrightarrow>
     is_exact_id (ia_principalId x) \<and> is_exact_id (ia_organizationId x) \<and> is_exact_id (ia_tenantId x) \<and>
     distinct (ia_authenticationMethods x) \<and> ia_authenticationMethods x \<noteq> []"

definition infra_claim_props :: "infra_claim \<Rightarrow> props" where
  "infra_claim_props x =
     [(''claimId'', JStr (ict_claimId x)), (''tenantId'', JStr (ict_tenantId x)),
      (''contextId'', JStr (ict_contextId x)), (''generation'', JNum (NInt (ict_generation x))),
      (''desiredStateDigest'', JStr (ict_desiredStateDigest x))]"

definition ok_claim :: "infra_claim \<Rightarrow> bool" where
  "ok_claim x \<longleftrightarrow>
     is_exact_id (ict_claimId x) \<and> is_exact_id (ict_tenantId x) \<and> is_exact_id (ict_contextId x) \<and>
     safe_positive (ict_generation x) \<and> is_sha_digest (ict_desiredStateDigest x)"

definition enc_permission :: "infra_permission \<Rightarrow> jsval" where
  "enc_permission x =
     JObj [(''action'', JStr (infra_action_name (ipm_action x))), (''resourcePrefix'', JStr (ipm_resourcePrefix x))]"

definition plugin_props :: "infra_plugin \<Rightarrow> props" where
  "plugin_props x =
     [(''pluginId'', JStr (ipl_pluginId x)), (''kind'', JStr ''infrastructure-request''),
      (''sandbox'', JObj sandbox_entries), (''permissions'', JArr (map enc_permission (ipl_permissions x)))]"

definition ok_plugin :: "infra_plugin \<Rightarrow> bool" where
  "ok_plugin x \<longleftrightarrow>
     is_exact_id (ipl_pluginId x) \<and>
     list_all (\<lambda>p. is_prefix (ipm_resourcePrefix p)) (ipl_permissions x) \<and>
     distinct (map permission_key (ipl_permissions x)) \<and> ipl_permissions x \<noteq> []"

definition grant_props :: "infra_grant \<Rightarrow> props" where
  "grant_props x =
     [(''grantId'', JStr (igr_grantId x)), (''subjectId'', JStr (igr_subjectId x)),
      (''organizationId'', JStr (igr_organizationId x)), (''tenantId'', JStr (igr_tenantId x)),
      (''actions'', JArr (map (\<lambda>a. JStr (infra_action_name a)) (igr_actions x))),
      (''resourcePrefixes'', JArr (map JStr (igr_resourcePrefixes x))),
      (''expiresAtEpochSeconds'', JNum (NInt (igr_expiresAt x)))]"

definition ok_grant :: "infra_grant \<Rightarrow> bool" where
  "ok_grant x \<longleftrightarrow>
     is_exact_id (igr_grantId x) \<and> is_exact_id (igr_subjectId x) \<and> is_exact_id (igr_organizationId x) \<and>
     is_exact_id (igr_tenantId x) \<and> distinct (igr_actions x) \<and> igr_actions x \<noteq> [] \<and>
     list_all is_prefix (igr_resourcePrefixes x) \<and> distinct (igr_resourcePrefixes x) \<and>
     igr_resourcePrefixes x \<noteq> [] \<and> safe_positive (igr_expiresAt x)"

definition capability_props :: "infra_capability \<Rightarrow> props" where
  "capability_props x =
     [(''capabilityId'', JStr (icp_capabilityId x)), (''format'', JStr ''v2-ed25519''),
      (''issuer'', JStr (icp_issuer x)), (''subjectId'', JStr (icp_subjectId x)),
      (''audience'', JStr (icp_audience x)), (''organizationId'', JStr (icp_organizationId x)),
      (''tenantId'', JStr (icp_tenantId x)), (''action'', JStr (infra_action_name (icp_action x))),
      (''resource'', JStr (icp_resource x)), (''claimGeneration'', JNum (NInt (icp_claimGeneration x))),
      (''desiredStateDigest'', JStr (icp_desiredStateDigest x)), (''planDigest'', null_or JStr (icp_planDigest x)),
      (''issuedAtEpochSeconds'', JNum (NInt (icp_issuedAt x))),
      (''notBeforeEpochSeconds'', JNum (NInt (icp_notBefore x))),
      (''expiresAtEpochSeconds'', JNum (NInt (icp_expiresAt x))), (''oneUse'', JBool (icp_oneUse x)),
      (''cryptographicallyVerified'', JBool (icp_cryptographicallyVerified x))]"

definition ok_capability :: "(string \<Rightarrow> url_parts option) \<Rightarrow> infra_capability \<Rightarrow> bool" where
  "ok_capability new_URL x \<longleftrightarrow>
     is_exact_id (icp_capabilityId x) \<and> is_issuer new_URL (icp_issuer x) \<and> is_exact_id (icp_subjectId x) \<and>
     is_exact_id (icp_audience x) \<and> is_exact_id (icp_organizationId x) \<and> is_exact_id (icp_tenantId x) \<and>
     is_resource (icp_resource x) \<and> safe_positive (icp_claimGeneration x) \<and>
     is_sha_digest (icp_desiredStateDigest x) \<and> pred_option is_sha_digest (icp_planDigest x) \<and>
     safe_positive (icp_issuedAt x) \<and> safe_positive (icp_notBefore x) \<and> safe_positive (icp_expiresAt x)"

definition enc_infra_plan :: "infra_plan \<Rightarrow> jsval" where
  "enc_infra_plan x = JObj
     [(''planDigest'', JStr (ipn_planDigest x)), (''desiredStateDigest'', JStr (ipn_desiredStateDigest x)),
      (''controllerVersion'', JStr (ipn_controllerVersion x)), (''providerId'', JStr (ipn_providerId x)),
      (''providerVersion'', JStr (ipn_providerVersion x)),
      (''createdAtEpochSeconds'', JNum (NInt (ipn_createdAt x))),
      (''expiresAtEpochSeconds'', JNum (NInt (ipn_expiresAt x))),
      (''policyChecksPassed'', JBool (ipn_policyChecksPassed x)), (''destructive'', JBool (ipn_destructive x))]"

definition ok_plan :: "infra_plan \<Rightarrow> bool" where
  "ok_plan x \<longleftrightarrow>
     is_sha_digest (ipn_planDigest x) \<and> is_sha_digest (ipn_desiredStateDigest x) \<and>
     rx_test version_rx (ipn_controllerVersion x) \<and> is_exact_id (ipn_providerId x) \<and>
     rx_test version_rx (ipn_providerVersion x) \<and> safe_positive (ipn_createdAt x) \<and> safe_positive (ipn_expiresAt x)"

definition enc_approval :: "infra_approval \<Rightarrow> jsval" where
  "enc_approval x = JObj
     [(''approvalId'', JStr (iap_approvalId x)), (''approverPrincipalId'', JStr (iap_approverPrincipalId x)),
      (''planDigest'', JStr (iap_planDigest x)), (''approvedAtEpochSeconds'', JNum (NInt (iap_approvedAt x)))]"

definition ok_approval :: "infra_approval \<Rightarrow> bool" where
  "ok_approval x \<longleftrightarrow>
     is_exact_id (iap_approvalId x) \<and> is_exact_id (iap_approverPrincipalId x) \<and> is_sha_digest (iap_planDigest x) \<and>
     safe_positive (iap_approvedAt x)"

definition enc_controller_request :: "infra_request \<Rightarrow> jsval" where
  "enc_controller_request x = JObj
     [(''apiVersion'', JStr INFRASTRUCTURE_CONTROLLER_API_VERSION), (''kind'', JStr ''InfrastructureControllerRequest''),
      (''requestId'', JStr (irq_requestId x)), (''operation'', JStr (infra_operation_name (irq_operation x))),
      (''environmentClass'', JStr (environment_name (irq_environmentClass x))),
      (''actor'', JObj (actor_props (irq_actor x))), (''claim'', JObj (infra_claim_props (irq_claim x))),
      (''plugin'', JObj (plugin_props (irq_plugin x))), (''grant'', JObj (grant_props (irq_grant x))),
      (''capability'', JObj (capability_props (irq_capability x))), (''plan'', null_or enc_infra_plan (irq_plan x)),
      (''approvals'', JArr (map enc_approval (irq_approvals x))),
      (''idempotencyKey'', null_or JStr (irq_idempotencyKey x)),
      (''deadlineEpochSeconds'', JNum (NInt (irq_deadline x)))]"

definition ok_request :: "(string \<Rightarrow> url_parts option) \<Rightarrow> infra_request \<Rightarrow> bool" where
  "ok_request new_URL x \<longleftrightarrow>
     is_exact_id (irq_requestId x) \<and> ok_actor (irq_actor x) \<and> ok_claim (irq_claim x) \<and> ok_plugin (irq_plugin x) \<and>
     ok_grant (irq_grant x) \<and> ok_capability new_URL (irq_capability x) \<and> pred_option ok_plan (irq_plan x) \<and>
     list_all ok_approval (irq_approvals x) \<and> distinct (map iap_approverPrincipalId (irq_approvals x)) \<and>
     pred_option is_exact_id (irq_idempotencyKey x) \<and> safe_positive (irq_deadline x)"

subsection \<open>Values read back\<close>

lemma distinct_names: "distinct (map auth_method_name xs) \<longleftrightarrow> distinct xs" "distinct (map infra_action_name ys) \<longleftrightarrow> distinct ys"
  by (simp_all add: distinct_map inj_on_def)

lemma methods_enc [infra_enc]:
  "read_unique1 err (JArr (map (\<lambda>m. JStr (auth_method_name m)) xs)) path parseMethod (\<lambda>m. JStr (auth_method_name m)) = Inr ys \<longleftrightarrow>
     (distinct xs \<and> xs \<noteq> []) \<and> ys = xs"
  unfolding read_unique1_iff
  by (subst read_unique_enc [where P = "\<lambda>_. True"]) (auto simp: parseMethod_iff distinct_names list_all_iff)

lemma actions_enc [infra_enc]:
  "read_unique1 err (JArr (map (\<lambda>a. JStr (infra_action_name a)) xs)) path parseAction (\<lambda>a. JStr (infra_action_name a)) = Inr ys \<longleftrightarrow>
     (distinct xs \<and> xs \<noteq> []) \<and> ys = xs"
  unfolding read_unique1_iff
  by (subst read_unique_enc [where P = "\<lambda>_. True"]) (auto simp: parseAction_iff distinct_names list_all_iff)

lemma prefixes_enc [infra_enc]:
  "read_unique1 err (JArr (map JStr xs)) path resourcePrefix JStr = Inr ys \<longleftrightarrow>
     (list_all is_prefix xs \<and> distinct xs \<and> xs \<noteq> []) \<and> ys = xs"
  using read_unique_enc [where enc = JStr and parse = resourcePrefix and key = "\<lambda>x. x" and P = is_prefix
    and xs = xs and ys = ys and err = err and path = path]
  unfolding read_unique1_iff by (auto simp: resourcePrefix_iff)

lemma permission_enc: "parsePluginPermission (enc_permission x) path = Inr y \<longleftrightarrow> is_prefix (ipm_resourcePrefix x) \<and> y = x"
  by (cases x) (auto simp: parsePluginPermission_def enc_permission_def infra_reads result_simps)

lemma permissions_enc [infra_enc]:
  "read_unique1 err (JArr (map enc_permission xs)) path parsePluginPermission (\<lambda>p. JStr (permission_key p)) = Inr ys \<longleftrightarrow>
     (list_all (\<lambda>p. is_prefix (ipm_resourcePrefix p)) xs \<and> distinct (map permission_key xs) \<and> xs \<noteq> []) \<and> ys = xs"
  unfolding read_unique1_iff
  by (subst read_unique_enc [where P = "\<lambda>p. is_prefix (ipm_resourcePrefix p)"]) (auto simp: permission_enc)

lemma approval_enc: "parseApproval (enc_approval x) path = Inr y \<longleftrightarrow> ok_approval x \<and> y = x"
  by (cases x) (auto simp: parseApproval_def enc_approval_def ok_approval_def infra_reads result_simps)

lemma approvals_enc [infra_enc]:
  "read_unique err (JArr (map enc_approval xs)) path parseApproval (\<lambda>x. JStr (iap_approverPrincipalId x)) = Inr ys \<longleftrightarrow>
     (list_all ok_approval xs \<and> distinct (map iap_approverPrincipalId xs)) \<and> ys = xs"
  by (rule read_unique_enc) (rule approval_enc)

lemma infra_plan_enc: "parsePlanBinding (enc_infra_plan x) path = Inr y \<longleftrightarrow> ok_plan x \<and> y = x"
  by (cases x) (auto simp: parsePlanBinding_def enc_infra_plan_def ok_plan_def infra_reads result_simps)

lemma optional_plan_enc [infra_enc]:
  "read_nullable (null_or enc_infra_plan x) (\<lambda>w. parsePlanBinding w path) = Inr y \<longleftrightarrow> pred_option ok_plan x \<and> y = x"
  by (rule read_nullable_enc) (simp_all add: infra_plan_enc, simp add: enc_infra_plan_def)

lemma optional_identifier_enc [infra_enc]:
  "read_nullable (null_or JStr x) (\<lambda>w. infraIdentifier w path) = Inr y \<longleftrightarrow> pred_option is_exact_id x \<and> y = x"
  by (rule read_nullable_enc) (auto simp: infraIdentifier_iff)

lemma nullableSha256_enc [infra_enc]:
  "nullableSha256 (null_or JStr x) path = Inr y \<longleftrightarrow> pred_option is_sha_digest x \<and> y = x"
  unfolding nullableSha256_def by (rule read_nullable_enc) (auto simp: infraSha256_iff)

lemma actor_enc [infra_enc]: "actor_fields (actor_props x) = Inr y \<longleftrightarrow> ok_actor x \<and> y = x"
  by (cases x) (auto simp: actor_fields_def actor_props_def ok_actor_def infra_reads infra_enc result_simps)

lemma claim_enc [infra_enc]: "claim_fields (infra_claim_props x) = Inr y \<longleftrightarrow> ok_claim x \<and> y = x"
  by (cases x) (auto simp: claim_fields_def infra_claim_props_def ok_claim_def infra_reads result_simps)

lemma sandbox_enc [infra_enc]: "literal_fields sandbox_entries path sandbox_entries = Inr u"
  by (simp add: sandbox_entries_def read_literal_def)

lemma plugin_enc [infra_enc]: "plugin_fields (plugin_props x) sandbox_entries = Inr y \<longleftrightarrow> ok_plugin x \<and> y = x"
  by (cases x) (auto simp: plugin_fields_def plugin_props_def ok_plugin_def infra_reads infra_enc sandbox_enc result_simps)

lemma grant_enc [infra_enc]: "grant_fields (grant_props x) = Inr y \<longleftrightarrow> ok_grant x \<and> y = x"
  by (cases x) (auto simp: grant_fields_def grant_props_def ok_grant_def infra_reads infra_enc result_simps)

lemma capability_enc [infra_enc]:
  "capability_fields new_URL (capability_props x) = Inr y \<longleftrightarrow> ok_capability new_URL x \<and> y = x"
  by (cases x) (auto simp: capability_fields_def capability_props_def ok_capability_def infra_reads infra_enc
      result_simps Let_def)

lemma keys_of_props:
  "map fst (actor_props a) = actor_keys" "map fst (infra_claim_props c) = claim_keys" "map fst (plugin_props p) = plugin_keys"
  "map fst (grant_props g) = grant_keys" "map fst (capability_props k) = capability_keys"
  by (simp_all add: actor_props_def actor_keys_def infra_claim_props_def claim_keys_def plugin_props_def plugin_keys_def
      grant_props_def grant_keys_def capability_props_def capability_keys_def)

lemma read_exact_props: "map fst ps = ks \<Longrightarrow> read_exact err (JObj ps) path ks = Inr qs \<longleftrightarrow> qs = ps"
  by (auto simp: infra_reads simp del: set_map)

lemma sandbox_of_props: "js_get (plugin_props p) ''sandbox'' = JObj sandbox_entries"
  by (simp add: plugin_props_def)

theorem parse_request_enc:
  "parseInfrastructureControllerRequest new_URL (enc_controller_request x) = Inr y \<longleftrightarrow> ok_request new_URL x \<and> y = x"
proof -
  obtain ps where ps: "enc_controller_request x = JObj ps" "map fst ps = controller_request_keys"
    by (simp add: enc_controller_request_def controller_request_keys_def)
  note ps_def = ps(1) [unfolded enc_controller_request_def jsval.inject, symmetric]
  have get: "js_get ps ''actor'' = JObj (actor_props (irq_actor x))" "js_get ps ''claim'' = JObj (infra_claim_props (irq_claim x))"
    "js_get ps ''plugin'' = JObj (plugin_props (irq_plugin x))" "js_get ps ''grant'' = JObj (grant_props (irq_grant x))"
    "js_get ps ''capability'' = JObj (capability_props (irq_capability x))"
    "js_get ps ''apiVersion'' = JStr INFRASTRUCTURE_CONTROLLER_API_VERSION"
    "js_get ps ''kind'' = JStr ''InfrastructureControllerRequest''" "js_get ps ''requestId'' = JStr (irq_requestId x)"
    "js_get ps ''operation'' = JStr (infra_operation_name (irq_operation x))"
    "js_get ps ''environmentClass'' = JStr (environment_name (irq_environmentClass x))"
    "js_get ps ''plan'' = null_or enc_infra_plan (irq_plan x)" "js_get ps ''approvals'' = JArr (map enc_approval (irq_approvals x))"
    "js_get ps ''idempotencyKey'' = null_or JStr (irq_idempotencyKey x)"
    "js_get ps ''deadlineEpochSeconds'' = JNum (NInt (irq_deadline x))"
    by (simp_all add: ps_def)
  show ?thesis
    unfolding parseInfrastructureControllerRequest_def ps(1) ok_request_def
    by (simp only: bind_r_eq_Inr read_exact_props ps(2) keys_of_props sandbox_of_props get infra_enc
        read_member_enum infraIdentifier_iff infraPositive_iff read_literal_iff jsval.inject jsnum.inject
        infra_operation_name_eq environment_name_eq ex_simps simp_thms conj_assoc sum.inject) (cases x, auto)
qed

subsection \<open>Whatever the parser returns\<close>

lemma nullableSha256_sound: "nullableSha256 v path = Inr x \<Longrightarrow> pred_option is_sha_digest x"
  unfolding nullableSha256_def by (erule read_nullable_sound) (simp add: infra_reads)

lemma methods_sound:
  "read_unique1 id v p parseMethod (\<lambda>m. JStr (auth_method_name m)) = Inr ms \<Longrightarrow> distinct ms \<and> ms \<noteq> []"
  using read_unique1_sound [of id v p parseMethod auth_method_name ms "\<lambda>_. True"] by (simp add: distinct_names)

lemma actions_sound:
  "read_unique1 id v p parseAction (\<lambda>a. JStr (infra_action_name a)) = Inr as \<Longrightarrow> distinct as \<and> as \<noteq> []"
  using read_unique1_sound [of id v p parseAction infra_action_name as "\<lambda>_. True"] by (simp add: distinct_names)

lemma prefixes_sound:
  "read_unique1 id v p resourcePrefix JStr = Inr rs \<Longrightarrow> list_all is_prefix rs \<and> distinct rs \<and> rs \<noteq> []"
  using read_unique1_sound [of id v p resourcePrefix "\<lambda>x. x" rs is_prefix] by (simp add: infra_reads)

lemma permission_sound: "parsePluginPermission v path = Inr x \<Longrightarrow> is_prefix (ipm_resourcePrefix x)"
  unfolding parsePluginPermission_def bind_r_eq_Inr by (elim exE conjE) (simp add: infra_reads, clarsimp)

lemma permissions_sound:
  "read_unique1 id v p parsePluginPermission (\<lambda>x. JStr (permission_key x)) = Inr xs \<Longrightarrow>
   list_all (\<lambda>x. is_prefix (ipm_resourcePrefix x)) xs \<and> distinct (map permission_key xs) \<and> xs \<noteq> []"
  by (rule read_unique1_sound) (auto intro: permission_sound)

lemma approval_sound: "parseApproval v path = Inr x \<Longrightarrow> ok_approval x"
  unfolding parseApproval_def bind_r_eq_Inr ok_approval_def by (elim exE conjE) (simp add: infra_reads, clarsimp)

lemma approvals_sound:
  "read_unique id v p parseApproval (\<lambda>x. JStr (iap_approverPrincipalId x)) = Inr ys \<Longrightarrow>
   list_all ok_approval ys \<and> distinct (map iap_approverPrincipalId ys)"
  by (rule read_unique_sound) (auto intro: approval_sound)

lemma actor_sound: "actor_fields ps = Inr x \<Longrightarrow> ok_actor x"
  unfolding actor_fields_def bind_r_eq_Inr ok_actor_def
  by (elim exE conjE) (drule methods_sound, simp add: infra_reads, clarsimp)

lemma claim_sound: "claim_fields ps = Inr x \<Longrightarrow> ok_claim x"
  unfolding claim_fields_def bind_r_eq_Inr ok_claim_def
  by (elim exE conjE) (simp add: infra_reads, clarsimp)

lemma plugin_sound: "plugin_fields ps qs = Inr x \<Longrightarrow> ok_plugin x"
  unfolding plugin_fields_def bind_r_eq_Inr ok_plugin_def
  by (elim exE conjE) (drule permissions_sound, simp add: infra_reads, clarsimp)

lemma grant_sound: "grant_fields ps = Inr x \<Longrightarrow> ok_grant x"
  unfolding grant_fields_def bind_r_eq_Inr ok_grant_def
  by (elim exE conjE) (drule actions_sound, drule prefixes_sound, simp add: infra_reads, clarsimp)

lemma capability_sound: "capability_fields new_URL ps = Inr x \<Longrightarrow> ok_capability new_URL x"
  unfolding capability_fields_def Let_def bind_r_eq_Inr ok_capability_def
  by (elim exE conjE) (drule nullableSha256_sound, simp add: infra_reads, clarsimp)

lemma plan_sound: "parsePlanBinding v path = Inr x \<Longrightarrow> ok_plan x"
  unfolding parsePlanBinding_def bind_r_eq_Inr ok_plan_def
  by (elim exE conjE) (simp add: infra_reads, clarsimp)

lemma optional_plan_sound: "read_nullable w (\<lambda>w. parsePlanBinding w p) = Inr y \<Longrightarrow> pred_option ok_plan y"
  by (erule read_nullable_sound) (rule plan_sound)

lemma optional_identifier_sound: "read_nullable w (\<lambda>w. infraIdentifier w p) = Inr y \<Longrightarrow> pred_option is_exact_id y"
  by (erule read_nullable_sound) (simp add: infra_reads)

theorem parse_request_sound: "parseInfrastructureControllerRequest new_URL v = Inr x \<Longrightarrow> ok_request new_URL x"
  unfolding parseInfrastructureControllerRequest_def bind_r_eq_Inr ok_request_def
  by (elim exE conjE)
    (drule actor_sound, drule claim_sound, drule plugin_sound, drule grant_sound, drule capability_sound,
      drule optional_plan_sound, drule approvals_sound, drule optional_identifier_sound,
      simp add: infraIdentifier_iff infraPositive_iff, clarsimp)

end
