(* ===== verification/InfraAuthorizer.thy ===== *)
theory InfraAuthorizer
  imports InfraRequest
begin

section \<open>The infrastructure controller: authorization and stack ownership\<close>

text \<open>
  \<open>authorizeInfrastructureControllerRequest\<close> of \<open>src/core/infrastructureController.ts\<close> collects the reasons
  to deny a request, in the order of the source and each at most once, and allows it when there is
  none.  \<open>infra_authorized\<close> is the rule it implements, stated without that order.  The second half
  is the ownership record of a stack with its digest; \<open>sha\<close> stands for SHA-256 of \<open>node:crypto\<close>.
\<close>

datatype infra_reason =
    INFRA_REQUEST_INVALID | INFRA_AUTHENTICATION_INSUFFICIENT | INFRA_ORGANIZATION_MISMATCH
  | INFRA_TENANT_MISMATCH | INFRA_PLUGIN_MANIFEST_DENIED | INFRA_ROLE_GRANT_DENIED
  | INFRA_ROLE_GRANT_EXPIRED | INFRA_CAPABILITY_UNVERIFIED | INFRA_CAPABILITY_ISSUER_UNTRUSTED
  | INFRA_CAPABILITY_AUDIENCE_MISMATCH | INFRA_CAPABILITY_BINDING_MISMATCH | INFRA_CAPABILITY_TIME_INVALID
  | INFRA_CAPABILITY_TTL_EXCEEDED | INFRA_CAPABILITY_NOT_ONE_USE | INFRA_CAPABILITY_REPLAYED
  | INFRA_IDEMPOTENCY_KEY_MISSING | INFRA_DEADLINE_INVALID | INFRA_PLAN_REQUIRED | INFRA_PLAN_UNEXPECTED
  | INFRA_PLAN_INVALID | INFRA_PLAN_DIGEST_MISMATCH | INFRA_POLICY_CHECKS_FAILED | INFRA_APPROVAL_INSUFFICIENT

record infra_state =
  ist_now :: int
  ist_expectedAudience :: string
  ist_trustedIssuers :: "string list"
  ist_redeemed :: "string list"
  ist_maxTtl :: int

text \<open>A property of the audit record that may be \<open>null\<close> is an option.\<close>

record infra_audit =
  iau_requestId :: string
  iau_operation :: "infra_operation option"   \<comment> \<open>\<open>None\<close> is the literal \<open>invalid\<close>\<close>
  iau_actor :: "string option"
  iau_organization :: "string option"
  iau_tenant :: "string option"
  iau_context :: "string option"
  iau_claim :: "string option"
  iau_generation :: "int option"
  iau_desiredStateDigest :: "string option"
  iau_planDigest :: "string option"
  iau_capabilityId :: "string option"
  iau_grantId :: "string option"
  iau_allow :: bool
  iau_evaluatedAt :: int
  iau_reasonCodes :: "infra_reason list"

record infra_decision =
  idc_allowed :: bool
  idc_reasonCodes :: "infra_reason list"
  idc_capabilityToRedeem :: "string option"
  idc_audit :: infra_audit

subsection \<open>Resources\<close>

primrec assert_identifiers :: "(string \<times> string) list \<Rightarrow> string + unit" where
  "assert_identifiers [] = Inr ()"
| "assert_identifiers (e # es) = bind_r (assertIdentifier (snd e) (fst e)) (\<lambda>_. assert_identifiers es)"

definition claim_prefix_text :: "string \<Rightarrow> string \<Rightarrow> string \<Rightarrow> string" where
  "claim_prefix_text org tenant context =
     ''organization/'' @ org @ ''/tenant/'' @ tenant @ ''/context/'' @ context @ ''/claim/''"

definition infrastructureClaimResourcePrefix :: "string \<Rightarrow> string \<Rightarrow> string \<Rightarrow> string + string" where
  "infrastructureClaimResourcePrefix org tenant context =
     bind_r (assert_identifiers [(''organizationId'', org), (''tenantId'', tenant), (''contextId'', context)]) (\<lambda>_.
     Inr (claim_prefix_text org tenant context))"

definition infrastructureResource :: "string \<Rightarrow> string \<Rightarrow> string \<Rightarrow> string \<Rightarrow> string + string" where
  "infrastructureResource org tenant context claim =
     bind_r (assert_identifiers [(''organizationId'', org), (''tenantId'', tenant), (''contextId'', context),
       (''claimId'', claim)]) (\<lambda>_.
     Inr (claim_prefix_text org tenant context @ claim))"

definition startsWith :: "string \<Rightarrow> string \<Rightarrow> bool" where
  "startsWith s p \<longleftrightarrow> take (length p) s = p"

lemma startsWith_iff: "startsWith s p \<longleftrightarrow> (\<exists>t. s = p @ t)"
  by (metis append_eq_conv_conj append_take_drop_id startsWith_def)

subsection \<open>Plan and approvals\<close>

definition requires_plan :: "infra_operation \<Rightarrow> bool" where
  "requires_plan op \<longleftrightarrow> op = OpReconcile \<or> op = OpDelete"

definition required_approvals :: "infra_operation \<Rightarrow> environment_class \<Rightarrow> nat" where
  "required_approvals op env = (if op = OpDelete then 2 else if env = Production then 1 else 0)"

text \<open>The conditions under which \<open>deny\<close> is called, with the reason, in the order of the calls.\<close>

definition authorizePlanAndApprovals :: "infra_request \<Rightarrow> infra_state \<Rightarrow> (bool \<times> infra_reason) list" where
  "authorizePlanAndApprovals r st =
     (if \<not> requires_plan (irq_operation r) then
        [(irq_plan r \<noteq> None, INFRA_PLAN_UNEXPECTED),
         (icp_planDigest (irq_capability r) \<noteq> None, INFRA_PLAN_DIGEST_MISMATCH)]
      else
        (case irq_plan r of
           None \<Rightarrow> [(True, INFRA_PLAN_REQUIRED)]
         | Some p \<Rightarrow>
             [(ipn_desiredStateDigest p \<noteq> ict_desiredStateDigest (irq_claim r) \<or> ipn_expiresAt p \<le> ist_now st \<or>
               ipn_createdAt p > ist_now st \<or> ipn_expiresAt p \<le> ipn_createdAt p \<or>
               ipn_destructive p \<noteq> (irq_operation r = OpDelete), INFRA_PLAN_INVALID),
              (icp_planDigest (irq_capability r) \<noteq> Some (ipn_planDigest p) \<or>
               list_ex (\<lambda>a. iap_planDigest a \<noteq> ipn_planDigest p) (irq_approvals r), INFRA_PLAN_DIGEST_MISMATCH),
              (\<not> ipn_policyChecksPassed p, INFRA_POLICY_CHECKS_FAILED),
              (list_ex (\<lambda>a. iap_approverPrincipalId a = ia_principalId (irq_actor r) \<or>
                 iap_approvedAt a < ipn_createdAt p \<or> iap_approvedAt a > ist_now st) (irq_approvals r),
               INFRA_APPROVAL_INSUFFICIENT),
              (length (irq_approvals r) < required_approvals (irq_operation r) (irq_environmentClass r),
               INFRA_APPROVAL_INSUFFICIENT)]))"

subsection \<open>Authorization\<close>

definition collect_reasons :: "(bool \<times> 'r) list \<Rightarrow> 'r list" where
  "collect_reasons cs = foldl (\<lambda>rs (b, r). if b \<and> r \<notin> set rs then rs @ [r] else rs) [] cs"

definition infra_checks :: "infra_request \<Rightarrow> infra_state \<Rightarrow> string \<Rightarrow> (bool \<times> infra_reason) list" where
  "infra_checks r st resource =
     (let a = irq_actor r; c = irq_claim r; g = irq_grant r; k = irq_capability r; now = ist_now st;
          action = infrastructureAction (irq_operation r);
          mutation = irq_operation r \<in> set mutationOperations
      in
     [(AuthOidc \<notin> set (ia_authenticationMethods a) \<or> AuthMtls \<notin> set (ia_authenticationMethods a),
       INFRA_AUTHENTICATION_INSUFFICIENT),
      (ia_organizationId a \<noteq> icp_organizationId k \<or> ia_organizationId a \<noteq> igr_organizationId g,
       INFRA_ORGANIZATION_MISMATCH),
      (ia_tenantId a \<noteq> ict_tenantId c \<or> ia_tenantId a \<noteq> icp_tenantId k \<or> ia_tenantId a \<noteq> igr_tenantId g,
       INFRA_TENANT_MISMATCH),
      (\<not> list_ex (\<lambda>p. ipm_action p = action \<and> startsWith resource (ipm_resourcePrefix p)) (ipl_permissions (irq_plugin r)),
       INFRA_PLUGIN_MANIFEST_DENIED),
      (igr_subjectId g \<noteq> ia_principalId a \<or> action \<notin> set (igr_actions g) \<or>
       \<not> list_ex (startsWith resource) (igr_resourcePrefixes g), INFRA_ROLE_GRANT_DENIED),
      (igr_expiresAt g \<le> now, INFRA_ROLE_GRANT_EXPIRED),
      (\<not> icp_cryptographicallyVerified k, INFRA_CAPABILITY_UNVERIFIED),
      (icp_issuer k \<notin> set (ist_trustedIssuers st), INFRA_CAPABILITY_ISSUER_UNTRUSTED),
      (icp_audience k \<noteq> ist_expectedAudience st, INFRA_CAPABILITY_AUDIENCE_MISMATCH),
      (icp_subjectId k \<noteq> ia_principalId a \<or> icp_action k \<noteq> action \<or> icp_resource k \<noteq> resource \<or>
       icp_claimGeneration k \<noteq> ict_generation c \<or> icp_desiredStateDigest k \<noteq> ict_desiredStateDigest c,
       INFRA_CAPABILITY_BINDING_MISMATCH),
      (icp_issuedAt k > now \<or> icp_notBefore k > now \<or> icp_expiresAt k \<le> now \<or> icp_notBefore k < icp_issuedAt k,
       INFRA_CAPABILITY_TIME_INVALID),
      (icp_expiresAt k - icp_issuedAt k > ist_maxTtl st, INFRA_CAPABILITY_TTL_EXCEEDED),
      (mutation \<and> \<not> icp_oneUse k, INFRA_CAPABILITY_NOT_ONE_USE),
      (icp_capabilityId k \<in> set (ist_redeemed st), INFRA_CAPABILITY_REPLAYED),
      (mutation \<and> irq_idempotencyKey r = None, INFRA_IDEMPOTENCY_KEY_MISSING),
      (irq_deadline r \<le> now \<or> irq_deadline r > icp_expiresAt k, INFRA_DEADLINE_INVALID)]
     @ authorizePlanAndApprovals r st)"

definition invalid_decision :: "infra_state \<Rightarrow> infra_decision" where
  "invalid_decision st =
     \<lparr>idc_allowed = False, idc_reasonCodes = [INFRA_REQUEST_INVALID], idc_capabilityToRedeem = None,
      idc_audit =
        \<lparr>iau_requestId = ''invalid'', iau_operation = None, iau_actor = None, iau_organization = None,
         iau_tenant = None, iau_context = None, iau_claim = None, iau_generation = None,
         iau_desiredStateDigest = None, iau_planDigest = None, iau_capabilityId = None, iau_grantId = None,
         iau_allow = False, iau_evaluatedAt = ist_now st, iau_reasonCodes = [INFRA_REQUEST_INVALID]\<rparr>\<rparr>"

definition decision_of :: "infra_request \<Rightarrow> infra_state \<Rightarrow> infra_reason list \<Rightarrow> infra_decision" where
  "decision_of r st reasons =
     (let allowed = reasons = []; k = irq_capability r; a = irq_actor r; c = irq_claim r in
     \<lparr>idc_allowed = allowed, idc_reasonCodes = reasons,
      idc_capabilityToRedeem =
        (if allowed \<and> irq_operation r \<in> set mutationOperations then Some (icp_capabilityId k) else None),
      idc_audit =
        \<lparr>iau_requestId = irq_requestId r, iau_operation = Some (irq_operation r),
         iau_actor = Some (ia_principalId a), iau_organization = Some (ia_organizationId a),
         iau_tenant = Some (ict_tenantId c), iau_context = Some (ict_contextId c),
         iau_claim = Some (ict_claimId c), iau_generation = Some (ict_generation c),
         iau_desiredStateDigest = Some (ict_desiredStateDigest c),
         iau_planDigest = map_option ipn_planDigest (irq_plan r),
         iau_capabilityId = Some (icp_capabilityId k), iau_grantId = Some (igr_grantId (irq_grant r)),
         iau_allow = allowed, iau_evaluatedAt = ist_now st, iau_reasonCodes = reasons\<rparr>\<rparr>)"

definition authorizeInfrastructureControllerRequest ::
  "(string \<Rightarrow> url_parts option) \<Rightarrow> jsval \<Rightarrow> infra_state \<Rightarrow> string + infra_decision"
where
  "authorizeInfrastructureControllerRequest new_URL v st =
     (case parseInfrastructureControllerRequest new_URL v of
        Inl _ \<Rightarrow> Inr (invalid_decision st)
      | Inr r \<Rightarrow>
          bind_r (infrastructureResource (ia_organizationId (irq_actor r)) (ict_tenantId (irq_claim r))
                    (ict_contextId (irq_claim r)) (ict_claimId (irq_claim r))) (\<lambda>resource.
          Inr (decision_of r st (collect_reasons (infra_checks r st resource)))))"

subsection \<open>The rule\<close>

definition resource_of :: "infra_request \<Rightarrow> string" where
  "resource_of r =
     claim_prefix_text (ia_organizationId (irq_actor r)) (ict_tenantId (irq_claim r)) (ict_contextId (irq_claim r)) @
     ict_claimId (irq_claim r)"

definition plan_authorized :: "infra_request \<Rightarrow> int \<Rightarrow> bool" where
  "plan_authorized r now \<longleftrightarrow>
     (if requires_plan (irq_operation r) then
        (\<exists>p. irq_plan r = Some p \<and> ipn_policyChecksPassed p \<and>
           icp_planDigest (irq_capability r) = Some (ipn_planDigest p) \<and>
           ipn_desiredStateDigest p = ict_desiredStateDigest (irq_claim r) \<and>
           ipn_createdAt p \<le> now \<and> now < ipn_expiresAt p \<and>
           (ipn_destructive p \<longleftrightarrow> irq_operation r = OpDelete) \<and>
           (\<forall>a \<in> set (irq_approvals r). iap_planDigest a = ipn_planDigest p \<and>
              iap_approverPrincipalId a \<noteq> ia_principalId (irq_actor r) \<and>
              ipn_createdAt p \<le> iap_approvedAt a \<and> iap_approvedAt a \<le> now) \<and>
           required_approvals (irq_operation r) (irq_environmentClass r) \<le> length (irq_approvals r))
      else irq_plan r = None \<and> icp_planDigest (irq_capability r) = None)"

definition capability_authorized :: "infra_request \<Rightarrow> infra_state \<Rightarrow> bool" where
  "capability_authorized r st \<longleftrightarrow>
     (let k = irq_capability r; c = irq_claim r; now = ist_now st in
      icp_cryptographicallyVerified k \<and> icp_issuer k \<in> set (ist_trustedIssuers st) \<and>
      icp_audience k = ist_expectedAudience st \<and> icp_subjectId k = ia_principalId (irq_actor r) \<and>
      icp_action k = infrastructureAction (irq_operation r) \<and> icp_resource k = resource_of r \<and>
      icp_claimGeneration k = ict_generation c \<and> icp_desiredStateDigest k = ict_desiredStateDigest c \<and>
      icp_issuedAt k \<le> icp_notBefore k \<and> icp_notBefore k \<le> now \<and> now < icp_expiresAt k \<and>
      icp_expiresAt k \<le> icp_issuedAt k + ist_maxTtl st \<and> icp_capabilityId k \<notin> set (ist_redeemed st) \<and>
      (irq_operation r \<in> set mutationOperations \<longrightarrow> icp_oneUse k \<and> irq_idempotencyKey r \<noteq> None) \<and>
      now < irq_deadline r \<and> irq_deadline r \<le> icp_expiresAt k)"

definition infra_authorized :: "infra_request \<Rightarrow> infra_state \<Rightarrow> bool" where
  "infra_authorized r st \<longleftrightarrow>
     (let a = irq_actor r; g = irq_grant r; k = irq_capability r; action = infrastructureAction (irq_operation r) in
      set (ia_authenticationMethods a) = {AuthOidc, AuthMtls} \<and>
      icp_organizationId k = ia_organizationId a \<and> igr_organizationId g = ia_organizationId a \<and>
      ict_tenantId (irq_claim r) = ia_tenantId a \<and> icp_tenantId k = ia_tenantId a \<and> igr_tenantId g = ia_tenantId a \<and>
      (\<exists>p \<in> set (ipl_permissions (irq_plugin r)). ipm_action p = action \<and> startsWith (resource_of r) (ipm_resourcePrefix p)) \<and>
      igr_subjectId g = ia_principalId a \<and> action \<in> set (igr_actions g) \<and>
      (\<exists>p \<in> set (igr_resourcePrefixes g). startsWith (resource_of r) p) \<and> ist_now st < igr_expiresAt g \<and>
      capability_authorized r st \<and> plan_authorized r (ist_now st))"

subsection \<open>The authorizer decides the rule\<close>

lemma collect_step: "set (foldl (\<lambda>rs (b, r). if b \<and> r \<notin> set rs then rs @ [r] else rs) rs cs) = set rs \<union> {r. (True, r) \<in> set cs}"
  by (induction cs arbitrary: rs) auto

lemma collect_distinct: "distinct rs \<Longrightarrow> distinct (foldl (\<lambda>rs (b, r). if b \<and> r \<notin> set rs then rs @ [r] else rs) rs cs)"
proof (induction cs arbitrary: rs)
  case (Cons c cs)
  obtain b r where "c = (b, r)" by (cases c)
  with Cons show ?case by simp
qed simp

lemma set_collect_reasons: "set (collect_reasons cs) = {r. (True, r) \<in> set cs}"
  unfolding collect_reasons_def by (simp add: collect_step)

lemma distinct_collect_reasons [simp]: "distinct (collect_reasons cs)"
  unfolding collect_reasons_def by (simp add: collect_distinct)

lemma collect_reasons_Nil: "collect_reasons cs = [] \<longleftrightarrow> list_all (\<lambda>(b, r). \<not> b) cs"
proof -
  have "collect_reasons cs = [] \<longleftrightarrow> {r. (True, r) \<in> set cs} = {}"
    by (metis set_collect_reasons set_empty)
  then show ?thesis by (auto simp: list_all_iff)
qed

lemma plan_checks_iff:
  "list_all (\<lambda>(b, r). \<not> b) (authorizePlanAndApprovals r st) \<longleftrightarrow> plan_authorized r (ist_now st)"
proof (cases "requires_plan (irq_operation r)")
  case False
  then show ?thesis by (simp add: authorizePlanAndApprovals_def plan_authorized_def)
next
  case True
  show ?thesis
  proof (cases "irq_plan r")
    case None
    with True show ?thesis by (simp add: authorizePlanAndApprovals_def plan_authorized_def)
  next
    case (Some p)
    have each: "\<not> list_ex (\<lambda>a. P a) as \<longleftrightarrow> (\<forall>a \<in> set as. \<not> P a)" for P and as :: "infra_approval list"
      by (simp add: list_ex_iff)
    have "list_all (\<lambda>(b, r). \<not> b) (authorizePlanAndApprovals r st) \<longleftrightarrow>
        (ipn_desiredStateDigest p = ict_desiredStateDigest (irq_claim r) \<and> ist_now st < ipn_expiresAt p \<and>
         ipn_createdAt p \<le> ist_now st \<and> ipn_createdAt p < ipn_expiresAt p \<and>
         ipn_destructive p = (irq_operation r = OpDelete)) \<and>
        (icp_planDigest (irq_capability r) = Some (ipn_planDigest p) \<and>
         (\<forall>a \<in> set (irq_approvals r). iap_planDigest a = ipn_planDigest p)) \<and>
        ipn_policyChecksPassed p \<and>
        (\<forall>a \<in> set (irq_approvals r). iap_approverPrincipalId a \<noteq> ia_principalId (irq_actor r) \<and>
           ipn_createdAt p \<le> iap_approvedAt a \<and> iap_approvedAt a \<le> ist_now st) \<and>
        required_approvals (irq_operation r) (irq_environmentClass r) \<le> length (irq_approvals r)"
      using True by (simp only: authorizePlanAndApprovals_def Some option.case if_False not_True_eq_False list.pred_inject
          prod.case de_Morgan_disj not_not each not_le not_less simp_thms)
    also have "\<dots> \<longleftrightarrow> plan_authorized r (ist_now st)"
      using True by (simp only: plan_authorized_def Some if_True option.inject ex_simps simp_thms) (auto intro: le_less_trans)
    finally show ?thesis .
  qed
qed

lemma both_methods: "AuthOidc \<in> M \<and> AuthMtls \<in> M \<longleftrightarrow> M = {AuthOidc, AuthMtls}"
proof -
  have "x = AuthOidc \<or> x = AuthMtls" for x by (cases x) auto
  then show ?thesis by blast
qed

lemma infra_checks_iff:
  "list_all (\<lambda>(b, r). \<not> b) (infra_checks r st (resource_of r)) \<longleftrightarrow> infra_authorized r st"
  unfolding infra_checks_def Let_def list_all_append plan_checks_iff infra_authorized_def capability_authorized_def
    both_methods [symmetric]
  by (auto simp: list_ex_iff)

lemma assertIdentifier_ok [simp]: "is_exact_id s \<Longrightarrow> assertIdentifier s p = Inr ()"
  by (simp add: assertIdentifier_iff)

lemma infrastructureResource_eq:
  "is_exact_id org \<Longrightarrow> is_exact_id t \<Longrightarrow> is_exact_id c \<Longrightarrow> is_exact_id i \<Longrightarrow>
   infrastructureResource org t c i = Inr (claim_prefix_text org t c @ i)"
  by (simp add: infrastructureResource_def)

lemma authorize_request:
  assumes "parseInfrastructureControllerRequest new_URL v = Inr r"
  shows "authorizeInfrastructureControllerRequest new_URL v st =
    Inr (decision_of r st (collect_reasons (infra_checks r st (resource_of r))))"
proof -
  have "is_exact_id (ia_organizationId (irq_actor r))" "is_exact_id (ict_tenantId (irq_claim r))"
    "is_exact_id (ict_contextId (irq_claim r))" "is_exact_id (ict_claimId (irq_claim r))"
    using parse_request_sound [OF assms] by (auto simp: ok_request_def ok_actor_def ok_claim_def)
  then show ?thesis
    by (simp add: authorizeInfrastructureControllerRequest_def assms infrastructureResource_eq resource_of_def)
qed

lemma authorize_invalid:
  "parseInfrastructureControllerRequest new_URL v = Inl e \<Longrightarrow>
   authorizeInfrastructureControllerRequest new_URL v st = Inr (invalid_decision st)"
  by (simp add: authorizeInfrastructureControllerRequest_def)

lemma infra_allowed_iff:
  "idc_allowed (decision_of r st (collect_reasons (infra_checks r st (resource_of r)))) \<longleftrightarrow> infra_authorized r st"
  by (simp add: decision_of_def Let_def collect_reasons_Nil infra_checks_iff)

lemma allowed_request:
  assumes "authorizeInfrastructureControllerRequest new_URL v st = Inr d" "idc_allowed d"
  obtains r where "parseInfrastructureControllerRequest new_URL v = Inr r" "ok_request new_URL r" "infra_authorized r st"
    "d = decision_of r st []"
proof (cases "parseInfrastructureControllerRequest new_URL v")
  case (Inl e)
  with assms authorize_invalid [OF Inl] show ?thesis by (auto simp: invalid_decision_def)
next
  case (Inr r)
  from assms authorize_request [OF Inr, of st]
  have d: "d = decision_of r st (collect_reasons (infra_checks r st (resource_of r)))" by simp
  with assms(2) have "infra_authorized r st" by (simp add: infra_allowed_iff)
  moreover from this have "collect_reasons (infra_checks r st (resource_of r)) = []"
    by (simp add: collect_reasons_Nil infra_checks_iff)
  ultimately show ?thesis using that [OF Inr parse_request_sound [OF Inr]] d by simp
qed

subsection \<open>A resource determines its claim\<close>

text \<open>
  A segment has no slash, so a prefix ends at the segment it names: a permission for one tenant or
  context never covers another whose name it begins.
\<close>

lemma id_char_not_slash: "id_char c \<Longrightarrow> c \<noteq> CHR ''/''"
  by (auto simp: id_char_def id_first_def in_range_def is_digit_def less_eq_char_def)

lemma segment_stop:
  assumes "list_all id_char u" "list_all id_char v" "u @ CHR ''/'' # x = v @ CHR ''/'' # y"
  shows "u = v \<and> x = y"
proof -
  have "takeWhile (\<lambda>c. c \<noteq> CHR ''/'') (u @ CHR ''/'' # x) = u" "takeWhile (\<lambda>c. c \<noteq> CHR ''/'') (v @ CHR ''/'' # y) = v"
    using assms(1,2) by (auto simp: takeWhile_append list_all_iff dest: id_char_not_slash)
  with assms(3) show ?thesis by simp
qed

lemma exact_id_chars: "is_exact_id s \<Longrightarrow> list_all id_char s"
  by (simp add: is_exact_id_def exact_id_iff)

lemma claim_prefix_inj:
  assumes "list_all id_char org" "list_all id_char t" "list_all id_char c"
    and "list_all id_char org'" "list_all id_char t'" "list_all id_char c'"
    and "claim_prefix_text org t c @ x = claim_prefix_text org' t' c' @ y"
  shows "org = org' \<and> t = t' \<and> c = c' \<and> x = y"
proof -
  have "org @ CHR ''/'' # (''tenant/'' @ t @ ''/context/'' @ c @ ''/claim/'' @ x) =
      org' @ CHR ''/'' # (''tenant/'' @ t' @ ''/context/'' @ c' @ ''/claim/'' @ y)"
    using assms(7) by (simp add: claim_prefix_text_def)
  from segment_stop [OF assms(1,4) this] have "org = org'"
    and rest: "t @ CHR ''/'' # (''context/'' @ c @ ''/claim/'' @ x) = t' @ CHR ''/'' # (''context/'' @ c' @ ''/claim/'' @ y)"
    by simp_all
  from segment_stop [OF assms(2,5) rest] have "t = t'"
    and rest: "c @ CHR ''/'' # (''claim/'' @ x) = c' @ CHR ''/'' # (''claim/'' @ y)" by simp_all
  from segment_stop [OF assms(3,6) rest] \<open>org = org'\<close> \<open>t = t'\<close> show ?thesis by simp
qed

lemma is_prefix_shape:
  assumes "is_prefix p"
  obtains org t c where "p = claim_prefix_text org t c" "list_all id_char org" "list_all id_char t" "list_all id_char c"
proof -
  from assms have "rx_test resource_prefix_rx p" by (simp add: is_prefix_def)
  then obtain org t c where "p = ''organization/'' @ org @ ''/tenant/'' @ t @ ''/context/'' @ c @ ''/claim/''"
    and "rx_test resource_segment org" "rx_test resource_segment t" "rx_test resource_segment c"
    by (simp only: resource_prefix_rx_def rx_test_seq rx_test_str) blast
  moreover from this(2-4) have "list_all id_char org" "list_all id_char t" "list_all id_char c"
    by (simp_all add: resource_segment_def rx_test_plus_cls)
  ultimately show ?thesis using that [of org t c] by (simp only: claim_prefix_text_def)
qed

lemma prefix_names_claim:
  assumes "is_prefix p" "ok_request new_URL r" "startsWith (resource_of r) p"
  shows "p = claim_prefix_text (ia_organizationId (irq_actor r)) (ict_tenantId (irq_claim r)) (ict_contextId (irq_claim r))"
proof -
  from is_prefix_shape [OF assms(1)] obtain org t c where
    p: "p = claim_prefix_text org t c" and segs: "list_all id_char org" "list_all id_char t" "list_all id_char c" .
  from assms(3) obtain y where y: "resource_of r = p @ y" by (auto simp: startsWith_iff)
  have ids: "list_all id_char (ia_organizationId (irq_actor r))" "list_all id_char (ict_tenantId (irq_claim r))"
    "list_all id_char (ict_contextId (irq_claim r))"
    using assms(2) by (auto simp: ok_request_def ok_actor_def ok_claim_def intro: exact_id_chars)
  have "claim_prefix_text (ia_organizationId (irq_actor r)) (ict_tenantId (irq_claim r)) (ict_contextId (irq_claim r)) @
      ict_claimId (irq_claim r) = claim_prefix_text org t c @ y"
    using y by (simp only: resource_of_def p)
  from claim_prefix_inj [OF ids segs this] show ?thesis by (simp only: p)
qed

end
