(* ===== verification/InfraOwnership.thy ===== *)
theory InfraOwnership
  imports InfraAuthorizer
begin

section \<open>The infrastructure controller: reference requests and stack ownership\<close>

text \<open>
  \<open>createReferenceInfrastructureControllerRequest\<close>, and the ownership record of a stack: its creation
  from a request, its digest and its check.  The fields that the check compares with a literal are
  kept in the record, so that the failing branches are there.  \<open>sha\<close> is SHA-256 in hexadecimal.
\<close>

subsection \<open>Reference requests\<close>

definition reference_now :: int where
  "reference_now = 1800000000"

definition reference_context :: "environment_class \<Rightarrow> string" where
  "reference_context env =
     (if env = Production then ''aws-platform-production''
      else if env = PreProduction then ''aws-platform-staging'' else ''aws-platform-dev'')"

definition reference_digest :: "char \<Rightarrow> string" where
  "reference_digest c = replicate 64 c"

definition reference_plan :: "infra_operation \<Rightarrow> infra_plan" where
  "reference_plan op =
     \<lparr>ipn_planDigest = reference_digest CHR ''b'', ipn_desiredStateDigest = reference_digest CHR ''a'',
      ipn_controllerVersion = ''1.0.0'', ipn_providerId = ''aws-managed-postgres'', ipn_providerVersion = ''1.0.0'',
      ipn_createdAt = reference_now - 60, ipn_expiresAt = reference_now + 300, ipn_policyChecksPassed = True,
      ipn_destructive = (op = OpDelete)\<rparr>"

definition reference_approvals :: "infra_operation \<Rightarrow> environment_class \<Rightarrow> infra_approval list" where
  "reference_approvals op env =
     map (\<lambda>index. \<lparr>iap_approvalId = ''approval-'' @ nat_dec (index + 1),
                   iap_approverPrincipalId = ''approver-'' @ nat_dec (index + 1),
                   iap_planDigest = reference_digest CHR ''b'', iap_approvedAt = reference_now - 5 + int index\<rparr>)
       [0..<(if op = OpDelete then 2 else if op = OpReconcile \<and> env = Production then 1 else 0)]"

definition reference_request :: "infra_operation \<Rightarrow> environment_class \<Rightarrow> string \<Rightarrow> string \<Rightarrow> infra_request" where
  "reference_request op env resource prefix =
     (let action = infrastructureAction op; name = infra_operation_name op; plan = requires_plan op;
          mutation = op \<in> set mutationOperations; a = reference_digest CHR ''a''; now = reference_now in
     \<lparr>irq_requestId = ''request-'' @ name @ ''-1'', irq_operation = op, irq_environmentClass = env,
      irq_actor = \<lparr>ia_principalId = ''operator-1'', ia_organizationId = ''org-deus'', ia_tenantId = ''warden'',
                   ia_authenticationMethods = [AuthOidc, AuthMtls]\<rparr>,
      irq_claim = \<lparr>ict_claimId = ''postgres-warden'', ict_tenantId = ''warden'', ict_contextId = reference_context env,
                   ict_generation = 1, ict_desiredStateDigest = a\<rparr>,
      irq_plugin = \<lparr>ipl_pluginId = ''infrastructure-request-adapter'',
                    ipl_permissions = [\<lparr>ipm_action = action, ipm_resourcePrefix = prefix\<rparr>]\<rparr>,
      irq_grant = \<lparr>igr_grantId = ''grant-'' @ name @ ''-1'', igr_subjectId = ''operator-1'',
                   igr_organizationId = ''org-deus'', igr_tenantId = ''warden'', igr_actions = [action],
                   igr_resourcePrefixes = [prefix], igr_expiresAt = now + 600\<rparr>,
      irq_capability = \<lparr>icp_capabilityId = ''cap-'' @ name @ ''-1'', icp_issuer = ''https://auth.infrastructure.invalid'',
                        icp_subjectId = ''operator-1'', icp_audience = ''infrastructure-controller'',
                        icp_organizationId = ''org-deus'', icp_tenantId = ''warden'', icp_action = action,
                        icp_resource = resource, icp_claimGeneration = 1, icp_desiredStateDigest = a,
                        icp_planDigest = (if plan then Some (reference_digest CHR ''b'') else None),
                        icp_issuedAt = now - 10, icp_notBefore = now - 10, icp_expiresAt = now + 300,
                        icp_oneUse = mutation, icp_cryptographicallyVerified = True\<rparr>,
      irq_plan = (if plan then Some (reference_plan op) else None),
      irq_approvals = reference_approvals op env,
      irq_idempotencyKey = (if mutation then Some (''idempotency-'' @ name @ ''-1'') else None),
      irq_deadline = now + 120\<rparr>)"

definition createReferenceInfrastructureControllerRequest ::
  "(string \<Rightarrow> url_parts option) \<Rightarrow> infra_operation \<Rightarrow> environment_class \<Rightarrow> string + infra_request"
where
  "createReferenceInfrastructureControllerRequest new_URL op env =
     bind_r (infrastructureResource ''org-deus'' ''warden'' (reference_context env) ''postgres-warden'') (\<lambda>resource.
     bind_r (infrastructureClaimResourcePrefix ''org-deus'' ''warden'' (reference_context env)) (\<lambda>prefix.
     parseInfrastructureControllerRequest new_URL (enc_controller_request (reference_request op env resource prefix))))"

subsection \<open>Stack ownership\<close>

record stack_ownership =
  iso_apiVersion :: string
  iso_kind :: string
  iso_stackId :: string
  iso_controllerOfRecord :: string
  iso_providerId :: string
  iso_organizationId :: string
  iso_tenantId :: string
  iso_environmentClass :: environment_class
  iso_contextId :: string
  iso_claimId :: string
  iso_generation :: int
  iso_desiredStateDigest :: string
  iso_controllerVersion :: string
  iso_createdAt :: string
  iso_expiresAt :: "string option"
  iso_deletionProtection :: bool
  iso_ownershipDigest :: string

record ownership_input =
  oin_stackId :: string
  oin_providerId :: string
  oin_controllerVersion :: string
  oin_createdAt :: string
  oin_expiresAt :: "string option"

definition ownership_keys :: "string list" where
  "ownership_keys =
     [''apiVersion'', ''kind'', ''stackId'', ''controllerOfRecord'', ''providerId'', ''organizationId'', ''tenantId'',
      ''environmentClass'', ''contextId'', ''claimId'', ''generation'', ''desiredStateDigest'', ''controllerVersion'',
      ''createdAt'', ''expiresAt'', ''deletionProtection'']"

definition ownership_values :: "stack_ownership \<Rightarrow> jsval list" where
  "ownership_values m =
     [JStr (iso_apiVersion m), JStr (iso_kind m), JStr (iso_stackId m), JStr (iso_controllerOfRecord m),
      JStr (iso_providerId m), JStr (iso_organizationId m), JStr (iso_tenantId m),
      JStr (environment_name (iso_environmentClass m)), JStr (iso_contextId m), JStr (iso_claimId m),
      JNum (NInt (iso_generation m)), JStr (iso_desiredStateDigest m), JStr (iso_controllerVersion m),
      JStr (iso_createdAt m), null_or JStr (iso_expiresAt m), JBool (iso_deletionProtection m)]"

text \<open>The record without its \<open>ownershipDigest\<close>, as the text that is hashed.\<close>

definition ownership_text :: "stack_ownership \<Rightarrow> string" where
  "ownership_text m = stableJson (JObj (zip ownership_keys (ownership_values m)))"

definition infrastructureStackOwnershipDigest :: "(string \<Rightarrow> string) \<Rightarrow> stack_ownership \<Rightarrow> string" where
  "infrastructureStackOwnershipDigest sha m = sha (ownership_text m)"

definition assertInfrastructureStackOwnership :: "(string \<Rightarrow> string) \<Rightarrow> stack_ownership \<Rightarrow> string + unit" where
  "assertInfrastructureStackOwnership sha m =
     bind_r (throw_if (iso_apiVersion m \<noteq> INFRASTRUCTURE_STACK_OWNERSHIP_API_VERSION)
               ''Infrastructure stack ownership API version is invalid.'') (\<lambda>_.
     bind_r (throw_if (iso_kind m \<noteq> ''InfrastructureStackOwnership'')
               ''Infrastructure stack ownership kind is invalid.'') (\<lambda>_.
     bind_r (assert_identifiers [(''stackId'', iso_stackId m), (''providerId'', iso_providerId m),
               (''organizationId'', iso_organizationId m), (''tenantId'', iso_tenantId m),
               (''contextId'', iso_contextId m), (''claimId'', iso_claimId m)]) (\<lambda>_.
     bind_r (infraPositive (JNum (NInt (iso_generation m))) ''generation'') (\<lambda>_.
     bind_r (infraSha256 (JStr (iso_desiredStateDigest m)) ''desiredStateDigest'') (\<lambda>_.
     bind_r (infraVersion (JStr (iso_controllerVersion m)) ''controllerVersion'') (\<lambda>_.
     bind_r (infraTimestamp (JStr (iso_createdAt m)) ''createdAt'') (\<lambda>_.
     bind_r (case iso_expiresAt m of
               None \<Rightarrow> Inr ()
             | Some e \<Rightarrow>
                 bind_r (infraTimestamp (JStr e) ''expiresAt'') (\<lambda>_.
                 throw_if (time_ms e \<le> time_ms (iso_createdAt m))
                   ''Infrastructure stack ownership expiry is not future.'')) (\<lambda>_.
     bind_r (throw_if (\<not> iso_deletionProtection m) ''Infrastructure stack deletion protection must be true.'') (\<lambda>_.
     throw_if (infrastructureStackOwnershipDigest sha m \<noteq> iso_ownershipDigest m)
       ''Infrastructure stack ownership digest does not match.'')))))))))"

definition createInfrastructureStackOwnership ::
  "(string \<Rightarrow> string) \<Rightarrow> infra_request \<Rightarrow> ownership_input \<Rightarrow> string + stack_ownership"
where
  "createInfrastructureStackOwnership sha r input =
     bind_r (infraIdentifier (JStr (oin_stackId input)) ''stackId'') (\<lambda>stack.
     bind_r (infraIdentifier (JStr (oin_providerId input)) ''providerId'') (\<lambda>provider.
     bind_r (infraVersion (JStr (oin_controllerVersion input)) ''controllerVersion'') (\<lambda>version.
     bind_r (infraTimestamp (JStr (oin_createdAt input)) ''createdAt'') (\<lambda>created.
     bind_r (case oin_expiresAt input of
               None \<Rightarrow> Inr None
             | Some e \<Rightarrow> bind_r (infraTimestamp (JStr e) ''expiresAt'') (\<lambda>t. Inr (Some t))) (\<lambda>expires.
     let metadata =
       \<lparr>iso_apiVersion = INFRASTRUCTURE_STACK_OWNERSHIP_API_VERSION, iso_kind = ''InfrastructureStackOwnership'',
        iso_stackId = stack, iso_controllerOfRecord = ''infrastructure-controller'', iso_providerId = provider,
        iso_organizationId = ia_organizationId (irq_actor r), iso_tenantId = ict_tenantId (irq_claim r),
        iso_environmentClass = irq_environmentClass r, iso_contextId = ict_contextId (irq_claim r),
        iso_claimId = ict_claimId (irq_claim r), iso_generation = ict_generation (irq_claim r),
        iso_desiredStateDigest = ict_desiredStateDigest (irq_claim r), iso_controllerVersion = version,
        iso_createdAt = created, iso_expiresAt = expires, iso_deletionProtection = True,
        iso_ownershipDigest = replicate 64 CHR ''0''\<rparr>;
       signed = metadata\<lparr>iso_ownershipDigest := infrastructureStackOwnershipDigest sha metadata\<rparr>
     in bind_r (assertInfrastructureStackOwnership sha signed) (\<lambda>_. Inr signed))))))"

subsection \<open>The digest determines the record\<close>

lemma ownership_leaves: "list_all leaf (ownership_values m)"
  by (simp add: ownership_values_def null_or_def split: option.split)

lemma ownership_text_inj:
  assumes "ownership_text m = ownership_text m'"
  shows "m\<lparr>iso_ownershipDigest := d\<rparr> = m'\<lparr>iso_ownershipDigest := d\<rparr>"
proof -
  have "length ownership_keys = length (ownership_values x)" for x
    by (simp add: ownership_keys_def ownership_values_def)
  then have "ownership_values m = ownership_values m'"
    using assms ownership_leaves unfolding ownership_text_def by (intro stable_object_inj)
  then show ?thesis
    by (cases m; cases m') (auto simp: ownership_values_def null_or_def split: option.splits)
qed

lemma assert_ownership_iff:
  "assertInfrastructureStackOwnership sha m = Inr () \<longleftrightarrow>
     iso_apiVersion m = INFRASTRUCTURE_STACK_OWNERSHIP_API_VERSION \<and> iso_kind m = ''InfrastructureStackOwnership'' \<and>
     list_all is_exact_id [iso_stackId m, iso_providerId m, iso_organizationId m, iso_tenantId m, iso_contextId m,
       iso_claimId m] \<and>
     safe_positive (iso_generation m) \<and> is_sha_digest (iso_desiredStateDigest m) \<and>
     rx_test version_rx (iso_controllerVersion m) \<and> is_timestamp (iso_createdAt m) \<and>
     pred_option (\<lambda>e. is_timestamp e \<and> time_ms (iso_createdAt m) < time_ms e) (iso_expiresAt m) \<and>
     iso_deletionProtection m \<and> iso_ownershipDigest m = sha (ownership_text m)"
  unfolding assertInfrastructureStackOwnership_def infrastructureStackOwnershipDigest_def
  by (cases "iso_expiresAt m") (auto simp: result_simps infra_reads not_le)

lemma ownership_text_update [simp]: "ownership_text (m\<lparr>iso_ownershipDigest := d\<rparr>) = ownership_text m"
  by (simp add: ownership_text_def ownership_values_def)

end
