(* ===== verification/InfraControllerProps.thy ===== *)
theory InfraControllerProps
  imports InfraOwnership
begin

section \<open>Properties of the infrastructure controller\<close>

text \<open>
  The claims about \<open>src/core/infrastructureController.ts\<close>.  The witnesses use the reference requests of the
  source, which the first lemmas show to be well formed and authorized.
\<close>

subsection \<open>The reference requests\<close>

definition https_url :: "string \<Rightarrow> url_parts option" where
  "https_url s =
     Some \<lparr>url_protocol = ''https:'', url_username = [], url_password = [], url_search = [], url_hash = []\<rparr>"

definition reference_state :: infra_state where
  "reference_state =
     \<lparr>ist_now = reference_now, ist_expectedAudience = ''infrastructure-controller'',
      ist_trustedIssuers = [''https://auth.infrastructure.invalid''], ist_redeemed = [], ist_maxTtl = 600\<rparr>"

definition the_reference :: "infra_operation \<Rightarrow> environment_class \<Rightarrow> infra_request" where
  "the_reference op env =
     (let prefix = claim_prefix_text ''org-deus'' ''warden'' (reference_context env)
      in reference_request op env (prefix @ ''postgres-warden'') prefix)"

lemma ok_request_issuer:
  "ok_request V x \<Longrightarrow> is_issuer U (icp_issuer (irq_capability x)) \<Longrightarrow> ok_request U x"
  by (simp add: ok_request_def ok_capability_def)

text \<open>The identifiers and patterns of the reference requests.\<close>

lemma reference_names:
  "list_all is_exact_id [''operator-1'', ''org-deus'', ''warden'', ''postgres-warden'', ''infrastructure-request-adapter'',
     ''infrastructure-controller'', ''aws-managed-postgres'', ''approval-1'', ''approval-2'', ''approver-1'', ''approver-2'']"
  "list_all (\<lambda>op. is_exact_id (''request-'' @ infra_operation_name op @ ''-1'') \<and> is_exact_id (''grant-'' @ infra_operation_name op @ ''-1'') \<and>
     is_exact_id (''cap-'' @ infra_operation_name op @ ''-1'') \<and> is_exact_id (''idempotency-'' @ infra_operation_name op @ ''-1'')) infra_operations"
  "list_all (\<lambda>env. is_exact_id (reference_context env) \<and>
     is_prefix (claim_prefix_text ''org-deus'' ''warden'' (reference_context env)) \<and>
     is_resource (claim_prefix_text ''org-deus'' ''warden'' (reference_context env) @ ''postgres-warden'')) environment_classes"
  "is_sha_digest (reference_digest CHR ''a'')" "is_sha_digest (reference_digest CHR ''b'')" "rx_test version_rx ''1.0.0''"
  by code_simp+

lemma reference_plan_ok: "ok_plan (reference_plan op)"
  using reference_names by (simp add: ok_plan_def reference_plan_def reference_now_def safe_positive_def MAX_SAFE_def)

lemma reference_approvals_ok:
  "list_all ok_approval (reference_approvals op env) \<and> distinct (map iap_approverPrincipalId (reference_approvals op env))"
proof -
  have ids: "is_exact_id (''approval-'' @ nat_dec (i + 1)) \<and> is_exact_id (''approver-'' @ nat_dec (i + 1))" if "i < 2" for i
  proof -
    have "list_all (\<lambda>i. is_exact_id (''approval-'' @ nat_dec (i + 1)) \<and> is_exact_id (''approver-'' @ nat_dec (i + 1))) [0, 1]"
      by code_simp
    moreover from that have "i \<in> set [0, 1]" by auto
    ultimately show ?thesis unfolding list_all_iff by blast
  qed
  define n where "n = (if op = OpDelete then 2 else if op = OpReconcile \<and> env = Production then 1 else 0 :: nat)"
  have "distinct (map (\<lambda>i. ''approver-'' @ nat_dec (i + 1)) [0..<n])"
    by (simp add: distinct_map inj_on_def del: nat_dec.simps)
  moreover have "n \<le> 2" by (simp add: n_def)
  moreover have "i < 2" if "i < n" for i using that by (simp add: n_def split: if_splits)
  ultimately show ?thesis
    using ids reference_names(5)
    by (auto simp: reference_approvals_def n_def [symmetric] ok_approval_def list_all_iff reference_now_def safe_positive_def
        MAX_SAFE_def comp_def simp del: nat_dec.simps)
qed

lemma reference_checks_all:
  "list_all (\<lambda>op. list_all (\<lambda>env.
     list_all (\<lambda>(b, r). \<not> b) (infra_checks (the_reference op env) reference_state (resource_of (the_reference op env))))
     environment_classes) infra_operations"
  by code_simp

lemma reference_wf: "ok_request https_url (the_reference op env)"
proof -
  have names: "is_exact_id (''request-'' @ infra_operation_name op @ ''-1'')" "is_exact_id (''grant-'' @ infra_operation_name op @ ''-1'')"
    "is_exact_id (''cap-'' @ infra_operation_name op @ ''-1'')" "is_exact_id (''idempotency-'' @ infra_operation_name op @ ''-1'')"
    "is_exact_id (reference_context env)" "is_prefix (claim_prefix_text ''org-deus'' ''warden'' (reference_context env))"
    "is_resource (claim_prefix_text ''org-deus'' ''warden'' (reference_context env) @ ''postgres-warden'')"
    using reference_names(2,3) by (simp_all only: list_all_iff infra_operations_all environment_all)
  have issuer: "is_issuer https_url ''https://auth.infrastructure.invalid''" by code_simp
  show ?thesis
    using reference_names(1) reference_plan_ok [of op] reference_approvals_ok [of op env]
    by (simp add: ok_request_def the_reference_def reference_request_def Let_def ok_actor_def ok_claim_def ok_plugin_def
        ok_grant_def ok_capability_def names reference_names(4,5) issuer reference_now_def safe_positive_def MAX_SAFE_def
        del: append.simps)
qed

lemma reference_authorized: "infra_authorized (the_reference op env) reference_state"
  unfolding infra_checks_iff [symmetric] using reference_checks_all by (simp only: list_all_iff) simp

lemma reference_issuer: "icp_issuer (irq_capability (the_reference op env)) = ''https://auth.infrastructure.invalid''"
  by (simp add: the_reference_def reference_request_def Let_def)

lemma reference_context_id: "is_exact_id (reference_context env)"
proof -
  have "list_all (\<lambda>env. is_exact_id (reference_context env)) environment_classes" by code_simp
  then show ?thesis by (simp add: list_all_iff)
qed

lemma reference_created:
  assumes "is_issuer new_URL ''https://auth.infrastructure.invalid''"
  shows "createReferenceInfrastructureControllerRequest new_URL op env = Inr (the_reference op env)"
proof -
  have ids: "is_exact_id ''org-deus''" "is_exact_id ''warden''" "is_exact_id ''postgres-warden''" by code_simp+
  have "ok_request new_URL (the_reference op env)"
    using ok_request_issuer [OF reference_wf] assms by (simp add: reference_issuer)
  then have "parseInfrastructureControllerRequest new_URL (enc_controller_request (the_reference op env)) = Inr (the_reference op env)"
    by (simp add: parse_request_enc)
  then show ?thesis
    using ids reference_context_id [of env]
    by (simp add: createReferenceInfrastructureControllerRequest_def infrastructureResource_def
        infrastructureClaimResourcePrefix_def the_reference_def Let_def)
qed

lemma reference_decided:
  "authorizeInfrastructureControllerRequest https_url (enc_controller_request (the_reference op env)) reference_state =
     Inr (decision_of (the_reference op env) reference_state [])"
proof -
  have parse: "parseInfrastructureControllerRequest https_url (enc_controller_request (the_reference op env)) = Inr (the_reference op env)"
    by (simp add: parse_request_enc reference_wf)
  have "collect_reasons (infra_checks (the_reference op env) reference_state (resource_of (the_reference op env))) = []"
    by (simp add: collect_reasons_Nil infra_checks_iff reference_authorized)
  with authorize_request [OF parse, of reference_state] show ?thesis by simp
qed

lemma reference_allowed: "idc_allowed (decision_of r st [])"
  by (simp add: decision_of_def Let_def)

lemma https_issuer: "is_issuer https_url s"
  by (simp add: is_issuer_def https_url_def credential_free_url_def)


subsection \<open>Requests\<close>

text \<open>The request parser reads back the JSON value of exactly the requests that satisfy the constraints of
  every field, and whatever untrusted value it accepts satisfies them.
\<close>
theorem infra_request_parser:
  "(parseInfrastructureControllerRequest new_URL (enc_controller_request x) = Inr y \<longleftrightarrow> ok_request new_URL x \<and> y = x) \<and>
   (parseInfrastructureControllerRequest new_URL v = Inr r \<longrightarrow> ok_request new_URL r)"
  using parse_request_enc parse_request_sound by blast

theorem infra_request_parser_witness:
  "parseInfrastructureControllerRequest https_url (enc_controller_request (the_reference OpDelete Production)) =
     Inr (the_reference OpDelete Production)"
  using infra_request_parser [of https_url "the_reference OpDelete Production" "the_reference OpDelete Production" JNull]
    reference_wf by blast

text \<open>For every operation and environment the reference request is created without an error, and the
  authorizer allows it at the reference time; a capability is handed out for redemption exactly for the
  operations that change something.
\<close>
theorem infra_reference_allowed:
  assumes "is_issuer new_URL ''https://auth.infrastructure.invalid''"
  shows "\<exists>r d. createReferenceInfrastructureControllerRequest new_URL op env = Inr r \<and>
    authorizeInfrastructureControllerRequest new_URL (enc_controller_request r) reference_state = Inr d \<and>
    idc_allowed d \<and> idc_reasonCodes d = [] \<and>
    (idc_capabilityToRedeem d \<noteq> None \<longleftrightarrow> op = OpReconcile \<or> op = OpCancel \<or> op = OpDelete)"
proof -
  have "ok_request new_URL (the_reference op env)"
    using ok_request_issuer [OF reference_wf] assms by (simp add: reference_issuer)
  then have parse: "parseInfrastructureControllerRequest new_URL (enc_controller_request (the_reference op env)) = Inr (the_reference op env)"
    by (simp add: parse_request_enc)
  have none: "collect_reasons (infra_checks (the_reference op env) reference_state (resource_of (the_reference op env))) = []"
    by (simp add: collect_reasons_Nil infra_checks_iff reference_authorized)
  have "irq_operation (the_reference op env) = op"
    by (simp add: the_reference_def reference_request_def Let_def)
  with authorize_request [OF parse, of reference_state] none reference_created [OF assms] show ?thesis
    by (simp add: decision_of_def Let_def mutationOperations_def)
qed

theorem infra_reference_allowed_witness:
  "\<exists>r d. createReferenceInfrastructureControllerRequest https_url OpCancel Production = Inr r \<and>
    authorizeInfrastructureControllerRequest https_url (enc_controller_request r) reference_state = Inr d \<and> idc_allowed d \<and>
    idc_capabilityToRedeem d \<noteq> None"
  using infra_reference_allowed [of https_url OpCancel Production] https_issuer by blast

subsection \<open>Decisions\<close>

text \<open>The authorizer always returns a decision.  It allows a value exactly when that parses to a request
  that satisfies the declarative rule; the reasons are distinct, and empty exactly for an allowed request;
  the audit record repeats the decision; and only an allowed mutation names a capability to redeem.
\<close>
theorem infra_authorizer_decides:
  "\<exists>d. authorizeInfrastructureControllerRequest new_URL v st = Inr d \<and>
     (idc_allowed d \<longleftrightarrow> (\<exists>r. parseInfrastructureControllerRequest new_URL v = Inr r \<and> infra_authorized r st)) \<and>
     (idc_reasonCodes d = [] \<longleftrightarrow> idc_allowed d) \<and> distinct (idc_reasonCodes d) \<and>
     iau_allow (idc_audit d) = idc_allowed d \<and> iau_reasonCodes (idc_audit d) = idc_reasonCodes d \<and>
     (\<forall>k. idc_capabilityToRedeem d = Some k \<longleftrightarrow>
        idc_allowed d \<and> (\<exists>r. parseInfrastructureControllerRequest new_URL v = Inr r \<and>
          irq_operation r \<in> set mutationOperations \<and> k = icp_capabilityId (irq_capability r)))"
proof (cases "parseInfrastructureControllerRequest new_URL v")
  case (Inl e)
  then show ?thesis by (simp add: authorize_invalid invalid_decision_def)
next
  case (Inr r)
  have "authorizeInfrastructureControllerRequest new_URL v st =
      Inr (decision_of r st (collect_reasons (infra_checks r st (resource_of r))))"
    by (rule authorize_request [OF Inr])
  then show ?thesis
    using Inr infra_allowed_iff [of r st] by (auto simp: decision_of_def Let_def)
qed

text \<open>C40: An allowed request stays in one tenant and context: the grant and the plugin's manifest each name
  exactly the claim prefix of the actor's organization, the actor's tenant and the requested context, and
  the capability names exactly the requested claim.
\<close>
theorem infra_confined:
  assumes "authorizeInfrastructureControllerRequest new_URL v st = Inr d" "idc_allowed d"
  shows "\<exists>r. parseInfrastructureControllerRequest new_URL v = Inr r \<and>
    (let org = ia_organizationId (irq_actor r); tenant = ia_tenantId (irq_actor r); context = ict_contextId (irq_claim r);
         action = infrastructureAction (irq_operation r) in
     ict_tenantId (irq_claim r) = tenant \<and>
     claim_prefix_text org tenant context \<in> set (igr_resourcePrefixes (irq_grant r)) \<and>
     action \<in> set (igr_actions (irq_grant r)) \<and> igr_subjectId (irq_grant r) = ia_principalId (irq_actor r) \<and>
     \<lparr>ipm_action = action, ipm_resourcePrefix = claim_prefix_text org tenant context\<rparr> \<in> set (ipl_permissions (irq_plugin r)) \<and>
     icp_resource (irq_capability r) = claim_prefix_text org tenant context @ ict_claimId (irq_claim r) \<and>
     icp_action (irq_capability r) = action \<and> icp_subjectId (irq_capability r) = ia_principalId (irq_actor r))"
proof -
  from allowed_request [OF assms] obtain r where
    r: "parseInfrastructureControllerRequest new_URL v = Inr r" "ok_request new_URL r" "infra_authorized r st" .
  then obtain p q where
    p: "p \<in> set (ipl_permissions (irq_plugin r))" "ipm_action p = infrastructureAction (irq_operation r)"
      "startsWith (resource_of r) (ipm_resourcePrefix p)"
    and q: "q \<in> set (igr_resourcePrefixes (irq_grant r))" "startsWith (resource_of r) q"
    by (auto simp: infra_authorized_def Let_def)
  from p(1) q(1) r(2) have "is_prefix (ipm_resourcePrefix p)" "is_prefix q"
    by (auto simp: ok_request_def ok_plugin_def ok_grant_def list_all_iff)
  with p(3) q(2) r(2) have names: "ipm_resourcePrefix p =
      claim_prefix_text (ia_organizationId (irq_actor r)) (ict_tenantId (irq_claim r)) (ict_contextId (irq_claim r))"
    "q = claim_prefix_text (ia_organizationId (irq_actor r)) (ict_tenantId (irq_claim r)) (ict_contextId (irq_claim r))"
    by (auto intro: prefix_names_claim)
  from p(2) names(1) have "p = \<lparr>ipm_action = infrastructureAction (irq_operation r), ipm_resourcePrefix =
      claim_prefix_text (ia_organizationId (irq_actor r)) (ict_tenantId (irq_claim r)) (ict_contextId (irq_claim r))\<rparr>"
    by (cases p) simp
  with r(1,3) p(1) q(1) names(2) show ?thesis
    by (auto simp: infra_authorized_def capability_authorized_def resource_of_def Let_def)
qed

theorem infra_confined_witness:
  "\<exists>r. parseInfrastructureControllerRequest https_url (enc_controller_request (the_reference OpObserve Production)) = Inr r \<and>
     icp_resource (irq_capability r) =
       claim_prefix_text (ia_organizationId (irq_actor r)) (ia_tenantId (irq_actor r)) (ict_contextId (irq_claim r)) @
       ict_claimId (irq_claim r)"
  using infra_confined [OF reference_decided reference_allowed, of OpObserve Production] unfolding Let_def by blast

text \<open>C33: An allowed deletion, and an allowed reconciliation, follows one current plan that passed the policy
  checks and whose digest the capability names.  At least as many different people as the operation
  requires (two for a deletion, one for a reconciliation in production) approved exactly this plan, after
  it was made and not in the future, and none of them is the requesting actor.
\<close>
theorem infra_plan_approved:
  assumes "authorizeInfrastructureControllerRequest new_URL v st = Inr d" "idc_allowed d"
    and "parseInfrastructureControllerRequest new_URL v = Inr r" "irq_operation r = OpDelete \<or> irq_operation r = OpReconcile"
  shows "\<exists>p approvers. irq_plan r = Some p \<and> ipn_policyChecksPassed p \<and>
    icp_planDigest (irq_capability r) = Some (ipn_planDigest p) \<and>
    ipn_desiredStateDigest p = ict_desiredStateDigest (irq_claim r) \<and>
    (ipn_destructive p \<longleftrightarrow> irq_operation r = OpDelete) \<and> ipn_createdAt p \<le> ist_now st \<and> ist_now st < ipn_expiresAt p \<and>
    approvers = iap_approverPrincipalId ` set (irq_approvals r) \<and> ia_principalId (irq_actor r) \<notin> approvers \<and>
    (irq_operation r = OpDelete \<longrightarrow> 2 \<le> card approvers) \<and> (irq_environmentClass r = Production \<longrightarrow> 1 \<le> card approvers) \<and>
    (\<forall>a \<in> set (irq_approvals r). iap_planDigest a = ipn_planDigest p \<and>
       ipn_createdAt p \<le> iap_approvedAt a \<and> iap_approvedAt a \<le> ist_now st)"
proof -
  from allowed_request [OF assms(1,2)] assms(3) have r: "ok_request new_URL r" "infra_authorized r st" by auto
  from r(1) have "card (set (map iap_approverPrincipalId (irq_approvals r))) = length (irq_approvals r)"
    by (intro distinct_card [THEN trans]) (simp_all add: ok_request_def)
  then have card: "card (iap_approverPrincipalId ` set (irq_approvals r)) = length (irq_approvals r)" by simp
  have "plan_authorized r (ist_now st)" using r(2) by (simp add: infra_authorized_def Let_def)
  with assms(4) obtain p where p: "irq_plan r = Some p" "ipn_policyChecksPassed p"
    "icp_planDigest (irq_capability r) = Some (ipn_planDigest p)"
    "ipn_desiredStateDigest p = ict_desiredStateDigest (irq_claim r)" "ipn_createdAt p \<le> ist_now st" "ist_now st < ipn_expiresAt p"
    "ipn_destructive p \<longleftrightarrow> irq_operation r = OpDelete"
    "\<forall>a \<in> set (irq_approvals r). iap_planDigest a = ipn_planDigest p \<and> iap_approverPrincipalId a \<noteq> ia_principalId (irq_actor r) \<and>
       ipn_createdAt p \<le> iap_approvedAt a \<and> iap_approvedAt a \<le> ist_now st"
    "required_approvals (irq_operation r) (irq_environmentClass r) \<le> length (irq_approvals r)"
    by (auto simp: plan_authorized_def requires_plan_def)
  from p(9) have "irq_operation r = OpDelete \<Longrightarrow> 2 \<le> length (irq_approvals r)"
    "irq_environmentClass r = Production \<Longrightarrow> 1 \<le> length (irq_approvals r)"
    by (auto simp: required_approvals_def split: if_splits)
  with p card show ?thesis by auto
qed

theorem infra_plan_approved_witness:
  "2 \<le> card (iap_approverPrincipalId ` set (irq_approvals (the_reference OpDelete NonProduction)))"
proof -
  have "parseInfrastructureControllerRequest https_url (enc_controller_request (the_reference OpDelete NonProduction)) =
      Inr (the_reference OpDelete NonProduction)"
    by (simp add: parse_request_enc reference_wf)
  moreover have "irq_operation (the_reference OpDelete NonProduction) = OpDelete"
    by (simp add: the_reference_def reference_request_def Let_def)
  ultimately show ?thesis
    using infra_plan_approved [OF reference_decided reference_allowed, of OpDelete NonProduction] by blast
qed

subsection \<open>One-use capabilities\<close>




subsection \<open>Stack ownership\<close>

definition ownership_input_ok :: "ownership_input \<Rightarrow> bool" where
  "ownership_input_ok i \<longleftrightarrow>
     is_exact_id (oin_stackId i) \<and> is_exact_id (oin_providerId i) \<and> rx_test version_rx (oin_controllerVersion i) \<and>
     is_timestamp (oin_createdAt i) \<and>
     pred_option (\<lambda>e. is_timestamp e \<and> time_ms (oin_createdAt i) < time_ms e) (oin_expiresAt i)"

lemma ownership_created:
  assumes "ok_request new_URL r" "ownership_input_ok i"
  shows "\<exists>m. createInfrastructureStackOwnership sha r i = Inr m \<and> assertInfrastructureStackOwnership sha m = Inr () \<and>
    iso_stackId m = oin_stackId i \<and> iso_claimId m = ict_claimId (irq_claim r) \<and>
    iso_tenantId m = ict_tenantId (irq_claim r) \<and> iso_organizationId m = ia_organizationId (irq_actor r) \<and>
    iso_generation m = ict_generation (irq_claim r) \<and> iso_desiredStateDigest m = ict_desiredStateDigest (irq_claim r)"
proof -
  have ids: "is_exact_id (ia_organizationId (irq_actor r))" "is_exact_id (ict_tenantId (irq_claim r))"
    "is_exact_id (ict_contextId (irq_claim r))" "is_exact_id (ict_claimId (irq_claim r))"
    "safe_positive (ict_generation (irq_claim r))" "is_sha_digest (ict_desiredStateDigest (irq_claim r))"
    using assms(1) by (auto simp: ok_request_def ok_actor_def ok_claim_def)
  have time: "(case oin_expiresAt i of None \<Rightarrow> Inr None
      | Some e \<Rightarrow> bind_r (infraTimestamp (JStr e) ''expiresAt'') (\<lambda>t. Inr (Some t))) = Inr (oin_expiresAt i)"
    using assms(2) infraTimestamp_iff [THEN iffD2]
    by (cases "oin_expiresAt i") (auto simp: ownership_input_ok_def)
  have "infraIdentifier (JStr s) p = Inr s" if "is_exact_id s" for s p
    using that by (simp add: infra_reads)
  moreover have "infraVersion (JStr s) p = Inr s" if "rx_test version_rx s" for s p
    using that by (simp add: infra_reads)
  moreover have "infraTimestamp (JStr s) p = Inr s" if "is_timestamp s" for s p
    using that by (simp add: infra_reads)
  moreover define m where "m =
       \<lparr>iso_apiVersion = INFRASTRUCTURE_STACK_OWNERSHIP_API_VERSION, iso_kind = ''InfrastructureStackOwnership'',
        iso_stackId = oin_stackId i, iso_controllerOfRecord = ''infrastructure-controller'',
        iso_providerId = oin_providerId i, iso_organizationId = ia_organizationId (irq_actor r),
        iso_tenantId = ict_tenantId (irq_claim r), iso_environmentClass = irq_environmentClass r,
        iso_contextId = ict_contextId (irq_claim r), iso_claimId = ict_claimId (irq_claim r),
        iso_generation = ict_generation (irq_claim r), iso_desiredStateDigest = ict_desiredStateDigest (irq_claim r),
        iso_controllerVersion = oin_controllerVersion i, iso_createdAt = oin_createdAt i,
        iso_expiresAt = oin_expiresAt i, iso_deletionProtection = True,
        iso_ownershipDigest = replicate 64 CHR ''0''\<rparr>"
  ultimately have "createInfrastructureStackOwnership sha r i =
      bind_r (assertInfrastructureStackOwnership sha (m\<lparr>iso_ownershipDigest := sha (ownership_text m)\<rparr>))
        (\<lambda>_. Inr (m\<lparr>iso_ownershipDigest := sha (ownership_text m)\<rparr>))"
    using assms(2) time
    by (simp add: createInfrastructureStackOwnership_def ownership_input_ok_def Let_def infrastructureStackOwnershipDigest_def)
  moreover have "assertInfrastructureStackOwnership sha (m\<lparr>iso_ownershipDigest := sha (ownership_text m)\<rparr>) = Inr ()"
    unfolding assert_ownership_iff ownership_text_update
    using assms(2) ids by (simp add: m_def ownership_input_ok_def)
  ultimately show ?thesis by (simp add: m_def)
qed

text \<open>The ownership record of a stack is tamper-evident: as long as the hash has no collision between the two
  texts, a record that differs in any field from one that passes the check, but carries its digest, is
  rejected.
\<close>
theorem ownership_tamper_evident:
  assumes "assertInfrastructureStackOwnership sha m = Inr ()" "iso_ownershipDigest m' = iso_ownershipDigest m" "m' \<noteq> m"
    and "sha (ownership_text m') = sha (ownership_text m) \<Longrightarrow> ownership_text m' = ownership_text m"
  shows "\<exists>e. assertInfrastructureStackOwnership sha m' = Inl e"
proof (rule ccontr)
  assume "\<not> ?thesis"
  then have "assertInfrastructureStackOwnership sha m' = Inr ()"
    by (cases "assertInfrastructureStackOwnership sha m'") auto
  with assms(1,2,4) have "ownership_text m' = ownership_text m" by (simp add: assert_ownership_iff)
  from ownership_text_inj [OF this, of "iso_ownershipDigest m"] assms(2)
  have "m' = m" by (cases m; cases m') simp
  with assms(3) show False by simp
qed

definition example_input :: ownership_input where
  "example_input =
     \<lparr>oin_stackId = ''stack-1'', oin_providerId = ''aws'', oin_controllerVersion = ''1.0.0'',
      oin_createdAt = ''2026-07-16T12:00:00Z'', oin_expiresAt = Some ''2026-07-17T12:00:00Z''\<rparr>"

lemma example_input_ok: "ownership_input_ok example_input"
  by code_simp

theorem ownership_tamper_evident_witness:
  "\<exists>m e. createInfrastructureStackOwnership (\<lambda>t. t) (the_reference OpPlan Production) example_input = Inr m \<and>
     assertInfrastructureStackOwnership (\<lambda>t. t) (m\<lparr>iso_tenantId := ''other''\<rparr>) = Inl e"
proof -
  from ownership_created [OF reference_wf example_input_ok, of "\<lambda>t. t" OpPlan Production] obtain m where
    m: "createInfrastructureStackOwnership (\<lambda>t. t) (the_reference OpPlan Production) example_input = Inr m"
      "assertInfrastructureStackOwnership (\<lambda>t. t) m = Inr ()"
      "iso_tenantId m = ict_tenantId (irq_claim (the_reference OpPlan Production))" by blast
  have "iso_tenantId m = ''warden''" using m(3) by (simp add: the_reference_def reference_request_def Let_def)
  then have "m\<lparr>iso_tenantId := ''other''\<rparr> \<noteq> m" by (cases m) auto
  with ownership_tamper_evident [OF m(2), of "m\<lparr>iso_tenantId := ''other''\<rparr>"] m(1) show ?thesis by auto
qed

end
