(* ===== verification/InfraProtocol.thy ===== *)
theory InfraProtocol
  imports InfraRequest
begin

section \<open>The infrastructure controller protocol: messages\<close>

text \<open>
  \<open>src/core/infrastructureControllerProtocol.ts\<close>: reason codes, readers, version negotiation, and the
  operation and watch messages.  An error is a \<open>protocol_error\<close> with its reason code and message.
  Reason codes are strings, because \<open>reasonCode\<close> tests them with \<open>value in <object>\<close>, which is also true
  of the properties every object inherits.
\<close>

subsection \<open>Reason codes and errors\<close>

definition INFRASTRUCTURE_CONTROLLER_PROTOCOL_API_VERSION :: string where
  "INFRASTRUCTURE_CONTROLLER_PROTOCOL_API_VERSION = ''security.deus.dev/infrastructure-controller-protocol/v1alpha1''"

definition CURRENT_INFRASTRUCTURE_CONTROLLER_PROTOCOL_VERSION :: string where
  "CURRENT_INFRASTRUCTURE_CONTROLLER_PROTOCOL_VERSION = ''2026-07-16''"

text \<open>The codes, in the order of the source, each with its property \<open>retryable\<close>.\<close>

definition INFRASTRUCTURE_PROTOCOL_REASON_CODES :: "(string \<times> bool) list" where
  "INFRASTRUCTURE_PROTOCOL_REASON_CODES =
     [(''INFRA_PROTOCOL_UNSUPPORTED_VERSION'', False), (''INFRA_PROTOCOL_REQUIRED_FEATURE_UNAVAILABLE'', False),
      (''INFRA_PROTOCOL_DEPRECATED_VERSION'', False), (''INFRA_PROTOCOL_VERSION_SUNSET'', False),
      (''INFRA_PROTOCOL_REQUEST_INVALID'', False), (''INFRA_PROTOCOL_AUTHENTICATION_REQUIRED'', False),
      (''INFRA_PROTOCOL_ORGANIZATION_DENIED'', False), (''INFRA_PROTOCOL_TENANT_DENIED'', False),
      (''INFRA_PROTOCOL_OPERATION_DENIED'', False), (''INFRA_PROTOCOL_CLAIM_CONFLICT'', False),
      (''INFRA_PROTOCOL_IDEMPOTENCY_CONFLICT'', False), (''INFRA_PROTOCOL_PLAN_REQUIRED'', False),
      (''INFRA_PROTOCOL_PLAN_STALE'', False), (''INFRA_PROTOCOL_APPROVAL_REQUIRED'', False),
      (''INFRA_PROTOCOL_DEADLINE_EXCEEDED'', True), (''INFRA_PROTOCOL_OPERATION_NOT_FOUND'', False),
      (''INFRA_PROTOCOL_CURSOR_INVALID'', False), (''INFRA_PROTOCOL_CURSOR_EXPIRED'', True),
      (''INFRA_PROTOCOL_CURSOR_SUBJECT_MISMATCH'', False), (''INFRA_PROTOCOL_PROVIDER_UNAVAILABLE'', True),
      (''INFRA_PROTOCOL_POLICY_DENIED'', False), (''INFRA_PROTOCOL_INTERNAL'', True)]"

definition reason_codes :: "string list" where
  "reason_codes = map fst INFRASTRUCTURE_PROTOCOL_REASON_CODES"

text \<open>The properties of \<open>Object.prototype\<close>.\<close>

definition inherited_properties :: "string list" where
  "inherited_properties =
     [''constructor'', ''__defineGetter__'', ''__defineSetter__'', ''hasOwnProperty'', ''__lookupGetter__'',
      ''__lookupSetter__'', ''isPrototypeOf'', ''propertyIsEnumerable'', ''toString'', ''valueOf'', ''__proto__'',
      ''toLocaleString'']"

text \<open>\<open>INFRASTRUCTURE_PROTOCOL_REASON_CODES[code].retryable\<close>; an inherited property has none.\<close>

definition retryable_code :: "string \<Rightarrow> bool" where
  "retryable_code code = (map_of INFRASTRUCTURE_PROTOCOL_REASON_CODES code = Some True)"

datatype protocol_error = InfrastructureProtocolError string string   \<comment> \<open>reason code and message\<close>

definition invalid :: "string \<Rightarrow> protocol_error" where
  "invalid message = InfrastructureProtocolError ''INFRA_PROTOCOL_REQUEST_INVALID'' message"

subsection \<open>Readers\<close>

definition protocolExactObject :: "jsval \<Rightarrow> string \<Rightarrow> string list \<Rightarrow> protocol_error + props" where
  "protocolExactObject = read_exact invalid"

definition protocolUniqueArray ::
  "jsval \<Rightarrow> string \<Rightarrow> (jsval \<Rightarrow> string \<Rightarrow> protocol_error + string) \<Rightarrow> protocol_error + string list"
where
  "protocolUniqueArray v path parse = read_unique invalid v path parse (\<lambda>x. JStr x)"

definition protocolNonEmptyUniqueArray ::
  "jsval \<Rightarrow> string \<Rightarrow> (jsval \<Rightarrow> string \<Rightarrow> protocol_error + string) \<Rightarrow> protocol_error + string list"
where
  "protocolNonEmptyUniqueArray v path parse = read_unique1 invalid v path parse (\<lambda>x. JStr x)"

definition arrayValue :: "jsval \<Rightarrow> string \<Rightarrow> protocol_error + jsval list" where
  "arrayValue v path = (case v of JArr vs \<Rightarrow> Inr vs | _ \<Rightarrow> Inl (invalid (path @ '' must be an array.'')))"

definition protocolLiteral :: "jsval \<Rightarrow> string \<Rightarrow> string \<Rightarrow> protocol_error + unit" where
  "protocolLiteral v path expected = read_literal invalid v path (JStr expected)"

definition protocolEnumeration :: "jsval \<Rightarrow> string \<Rightarrow> ('a \<Rightarrow> string) \<Rightarrow> 'a list \<Rightarrow> protocol_error + 'a" where
  "protocolEnumeration = read_member invalid"

definition protocolIdentifier :: "jsval \<Rightarrow> string \<Rightarrow> protocol_error + string" where
  "protocolIdentifier v path = read_text (invalid (path @ '' must be an exact identifier.'')) is_exact_id v"

text \<open>\<open>/^20[0-9]{2}-[0-9]{2}-[0-9]{2}$/\<close>, and the date survives a round trip through \<open>Date\<close>.\<close>

definition protocolVersion_rx :: rexp where
  "protocolVersion_rx =
     RSeq (rx_str ''20'') (RSeq (rx_times 2 (RCls is_digit)) (RSeq (rx_char CHR ''-'')
     (RSeq (rx_times 2 (RCls is_digit)) (RSeq (rx_char CHR ''-'') (rx_times 2 (RCls is_digit))))))"

definition is_calendar_date :: "string \<Rightarrow> bool" where
  "is_calendar_date s \<longleftrightarrow>
     (case Date_parse (s @ ''T00:00:00.000Z'') of None \<Rightarrow> False | Some t \<Rightarrow> take 10 (toISOString t) = s)"

definition is_protocolVersion :: "string \<Rightarrow> bool" where
  "is_protocolVersion s \<longleftrightarrow> rx_test protocolVersion_rx s \<and> is_calendar_date s"

definition protocolVersion :: "jsval \<Rightarrow> string \<Rightarrow> protocol_error + string" where
  "protocolVersion v path =
     bind_r (read_text (invalid (path @ '' must be a date-version in YYYY-MM-DD form.'')) (rx_test protocolVersion_rx) v) (\<lambda>s.
     if is_calendar_date s then Inr s else Inl (invalid (path @ '' must be a real calendar date.'')))"

definition protocolPositive :: "jsval \<Rightarrow> string \<Rightarrow> protocol_error + int" where
  "protocolPositive v path = read_positive (invalid (path @ '' must be a positive safe integer.'')) v"

definition protocolDigest :: "jsval \<Rightarrow> string \<Rightarrow> protocol_error + string" where
  "protocolDigest v path = read_text (invalid (path @ '' must be a lowercase SHA-256 digest.'')) is_sha_digest v"

definition nullableDigest :: "jsval \<Rightarrow> string \<Rightarrow> protocol_error + string option" where
  "nullableDigest v path = read_nullable v (\<lambda>w. protocolDigest w path)"

definition nullableIdentifier :: "jsval \<Rightarrow> string \<Rightarrow> protocol_error + string option" where
  "nullableIdentifier v path = read_nullable v (\<lambda>w. protocolIdentifier w path)"

text \<open>
  \<open>new Date(value)\<close> for a string in the format of \<open>toISOString\<close>, with a year of four digits or a sign and
  six.  A string in another format may name an instant too, but never prints as itself again, which is what
  \<open>timestamp\<close> asks for; so it may count as no date here.
\<close>

definition new_Date :: "string \<Rightarrow> int option" where
  "new_Date s =
     (case (if length s = 27 \<and> (hd s = CHR ''+'' \<or> hd s = CHR ''-'') \<and> list_all is_digit (take 6 (drop 1 s))
            then (case Date_parse (''2000'' @ drop 7 s) of
                    None \<Rightarrow> None
                  | Some t \<Rightarrow>
                      (let y = (if hd s = CHR ''-'' then - num_at s 1 6 else num_at s 1 6)
                       in Some (t + 86400000 * (make_day y (num_at s 8 2) (num_at s 11 2)
                                              - make_day 2000 (num_at s 8 2) (num_at s 11 2)))))
            else Date_parse s) of
        None \<Rightarrow> None
      | Some t \<Rightarrow> if \<bar>t\<bar> \<le> 8640000000000000 then Some t else None)"

definition is_canonical_time :: "string \<Rightarrow> bool" where
  "is_canonical_time s \<longleftrightarrow> (case new_Date s of None \<Rightarrow> False | Some t \<Rightarrow> toISOString t = s)"

definition protocolTimestamp :: "jsval \<Rightarrow> string \<Rightarrow> protocol_error + string" where
  "protocolTimestamp v path =
     (case v of
        JStr s \<Rightarrow> if is_canonical_time s then Inr s else Inl (invalid (path @ '' must be a canonical RFC 3339 timestamp.''))
      | _ \<Rightarrow> Inl (invalid (path @ '' must be an RFC 3339 timestamp.'')))"

definition protocolBoolean :: "jsval \<Rightarrow> string \<Rightarrow> protocol_error + bool" where
  "protocolBoolean v path = read_bool (invalid (path @ '' must be a boolean.'')) v"

definition base64url_char :: "char \<Rightarrow> bool" where
  "base64url_char c \<longleftrightarrow> id_first c \<or> c = CHR ''_'' \<or> c = CHR ''-''"

text \<open>\<open>/^v1\.[A-Za-z0-9_-]+\.[A-Za-z0-9_-]+$/\<close>\<close>

definition cursor_rx :: rexp where
  "cursor_rx =
     RSeq (rx_str ''v1.'') (RSeq (rx_plus (RCls base64url_char))
     (RSeq (rx_char CHR ''.'') (rx_plus (RCls base64url_char))))"

definition is_cursor :: "string \<Rightarrow> bool" where
  "is_cursor s \<longleftrightarrow> length s \<le> 2048 \<and> rx_test cursor_rx s"

definition cursor :: "jsval \<Rightarrow> string \<Rightarrow> protocol_error + string" where
  "cursor v path =
     read_text (InfrastructureProtocolError ''INFRA_PROTOCOL_CURSOR_INVALID''
       (path @ '' is not a valid opaque operation cursor.'')) is_cursor v"

definition is_reason :: "string \<Rightarrow> bool" where
  "is_reason s \<longleftrightarrow> s \<in> set reason_codes \<or> s \<in> set inherited_properties"

definition protocolReasonCode :: "jsval \<Rightarrow> string \<Rightarrow> protocol_error + string" where
  "protocolReasonCode v path =
     read_text (invalid (path @ '' is not a stable infrastructure protocol reason code.'')) is_reason v"

subsection \<open>Version negotiation\<close>

record version_request =
  vrq_requestId :: string
  vrq_supported :: "string list"
  vrq_features :: "string list"

record version_deprecation =
  vdp_protocolVersion :: string
  vdp_replacement :: string
  vdp_sunset :: int

record version_response =
  vrs_requestId :: string
  vrs_compatible :: bool
  vrs_selected :: "string option"
  vrs_serverVersions :: "string list"
  vrs_features :: "string list"
  vrs_reasonCodes :: "string list"
  vrs_deprecation :: "version_deprecation option"

record version_policy =
  vpl_supported :: "string list"
  vpl_features :: "string list"
  vpl_deprecations :: "version_deprecation list"

definition parseInfrastructureControllerVersionRequest :: "jsval \<Rightarrow> protocol_error + version_request" where
  "parseInfrastructureControllerVersionRequest v =
     bind_r (protocolExactObject v ''versionRequest''
       [''apiVersion'', ''kind'', ''requestId'', ''supportedProtocolVersions'', ''requiredFeatures'']) (\<lambda>root.
     bind_r (protocolLiteral (js_get root ''apiVersion'') ''versionRequest.apiVersion''
       INFRASTRUCTURE_CONTROLLER_PROTOCOL_API_VERSION) (\<lambda>_.
     bind_r (protocolLiteral (js_get root ''kind'') ''versionRequest.kind'' ''InfrastructureControllerVersionRequest'') (\<lambda>_.
     bind_r (protocolIdentifier (js_get root ''requestId'') ''versionRequest.requestId'') (\<lambda>i.
     bind_r (protocolNonEmptyUniqueArray (js_get root ''supportedProtocolVersions'')
       ''versionRequest.supportedProtocolVersions'' protocolVersion) (\<lambda>vs.
     bind_r (protocolUniqueArray (js_get root ''requiredFeatures'') ''versionRequest.requiredFeatures'' protocolIdentifier) (\<lambda>fs.
     Inr \<lparr>vrq_requestId = i, vrq_supported = vs, vrq_features = fs\<rparr>))))))"

definition validateDeprecation :: "version_deprecation \<Rightarrow> string list \<Rightarrow> protocol_error + unit" where
  "validateDeprecation x supported =
     bind_r (protocolVersion (JStr (vdp_protocolVersion x)) ''deprecation.protocolVersion'') (\<lambda>_.
     bind_r (protocolVersion (JStr (vdp_replacement x)) ''deprecation.replacementProtocolVersion'') (\<lambda>_.
     bind_r (protocolPositive (JNum (NInt (vdp_sunset x))) ''deprecation.sunsetEpochSeconds'') (\<lambda>_.
     bind_r (throw_if (vdp_replacement x \<notin> set supported)
       (invalid ''a deprecated version must name a supported replacement.'')) (\<lambda>_.
     throw_if (vdp_protocolVersion x = vdp_replacement x)
       (invalid ''a deprecated version must name a different replacement.'')))))"

definition parseVersionDeprecation :: "jsval \<Rightarrow> string \<Rightarrow> protocol_error + version_deprecation" where
  "parseVersionDeprecation v path =
     bind_r (protocolExactObject v path [''protocolVersion'', ''replacementProtocolVersion'', ''sunsetEpochSeconds'']) (\<lambda>root.
     bind_r (protocolVersion (js_get root ''protocolVersion'') (path @ ''.protocolVersion'')) (\<lambda>p.
     bind_r (protocolVersion (js_get root ''replacementProtocolVersion'') (path @ ''.replacementProtocolVersion'')) (\<lambda>r.
     bind_r (protocolPositive (js_get root ''sunsetEpochSeconds'') (path @ ''.sunsetEpochSeconds'')) (\<lambda>s.
     Inr \<lparr>vdp_protocolVersion = p, vdp_replacement = r, vdp_sunset = s\<rparr>))))"

definition parseInfrastructureControllerVersionResponse :: "jsval \<Rightarrow> protocol_error + version_response" where
  "parseInfrastructureControllerVersionResponse v =
     bind_r (protocolExactObject v ''versionResponse''
       [''apiVersion'', ''kind'', ''requestId'', ''compatible'', ''selectedProtocolVersion'', ''serverProtocolVersions'',
        ''availableFeatures'', ''reasonCodes'', ''deprecation'']) (\<lambda>root.
     bind_r (protocolBoolean (js_get root ''compatible'') ''versionResponse.compatible'') (\<lambda>compatible.
     bind_r (read_nullable (js_get root ''selectedProtocolVersion'')
       (\<lambda>w. protocolVersion w ''versionResponse.selectedProtocolVersion'')) (\<lambda>selected.
     bind_r (protocolNonEmptyUniqueArray (js_get root ''serverProtocolVersions'') ''versionResponse.serverProtocolVersions''
       protocolVersion) (\<lambda>server.
     bind_r (protocolUniqueArray (js_get root ''availableFeatures'') ''versionResponse.availableFeatures'' protocolIdentifier) (\<lambda>features.
     bind_r (protocolUniqueArray (js_get root ''reasonCodes'') ''versionResponse.reasonCodes'' protocolReasonCode) (\<lambda>codes.
     bind_r (read_nullable (js_get root ''deprecation'') (\<lambda>w. parseVersionDeprecation w ''versionResponse.deprecation'')) (\<lambda>deprecation.
     bind_r (throw_if (compatible \<noteq> (selected \<noteq> None))
       (invalid ''versionResponse.compatible must exactly match selection of a protocol version.'')) (\<lambda>_.
     bind_r (throw_if (case selected of None \<Rightarrow> False | Some s \<Rightarrow> s \<notin> set server)
       (invalid ''versionResponse.selectedProtocolVersion must be advertised by the server.'')) (\<lambda>_.
     bind_r (throw_if (\<not> compatible \<and> codes = [])
       (invalid ''an incompatible version response requires a reason code.'')) (\<lambda>_.
     bind_r (case deprecation of
               None \<Rightarrow> Inr ()
             | Some d \<Rightarrow>
                 bind_r (validateDeprecation d server) (\<lambda>_.
                 bind_r (throw_if (compatible \<and> selected \<noteq> Some (vdp_protocolVersion d))
                   (invalid ''versionResponse.deprecation must describe the selected version.'')) (\<lambda>_.
                 throw_if (''INFRA_PROTOCOL_DEPRECATED_VERSION'' \<notin> set codes \<and> ''INFRA_PROTOCOL_VERSION_SUNSET'' \<notin> set codes)
                   (invalid ''versionResponse.deprecation requires a deprecation reason code.'')))) (\<lambda>_.
     bind_r (protocolLiteral (js_get root ''apiVersion'') ''versionResponse.apiVersion''
       INFRASTRUCTURE_CONTROLLER_PROTOCOL_API_VERSION) (\<lambda>_.
     bind_r (protocolLiteral (js_get root ''kind'') ''versionResponse.kind'' ''InfrastructureControllerVersionResponse'') (\<lambda>_.
     bind_r (protocolIdentifier (js_get root ''requestId'') ''versionResponse.requestId'') (\<lambda>i.
     Inr \<lparr>vrs_requestId = i, vrs_compatible = compatible, vrs_selected = selected, vrs_serverVersions = server,
          vrs_features = features, vrs_reasonCodes = codes, vrs_deprecation = deprecation\<rparr>))))))))))))))"

definition versionResponse ::
  "version_request \<Rightarrow> string list \<Rightarrow> string list \<Rightarrow> string option \<Rightarrow> string list \<Rightarrow> version_deprecation option \<Rightarrow> version_response"
where
  "versionResponse r server features selected codes deprecation =
     \<lparr>vrs_requestId = vrq_requestId r, vrs_compatible = (selected \<noteq> None), vrs_selected = selected,
      vrs_serverVersions = server, vrs_features = features, vrs_reasonCodes = codes, vrs_deprecation = deprecation\<rparr>"

definition negotiateInfrastructureControllerVersion ::
  "jsval \<Rightarrow> version_policy \<Rightarrow> int \<Rightarrow> protocol_error + version_response"
where
  "negotiateInfrastructureControllerVersion v policy now =
     bind_r (parseInfrastructureControllerVersionRequest v) (\<lambda>r.
     bind_r (protocolNonEmptyUniqueArray (JArr (map JStr (vpl_supported policy)))
       ''versionPolicy.supportedProtocolVersions'' protocolVersion) (\<lambda>server.
     bind_r (protocolUniqueArray (JArr (map JStr (vpl_features policy))) ''versionPolicy.availableFeatures'' protocolIdentifier) (\<lambda>features.
     case List.find (\<lambda>s. s \<in> set (vrq_supported r)) server of
       None \<Rightarrow> Inr (versionResponse r server features None [''INFRA_PROTOCOL_UNSUPPORTED_VERSION''] None)
     | Some selected \<Rightarrow>
         if list_ex (\<lambda>f. f \<notin> set features) (vrq_features r)
         then Inr (versionResponse r server features None [''INFRA_PROTOCOL_REQUIRED_FEATURE_UNAVAILABLE''] None)
         else
           (let deprecation = List.find (\<lambda>d. vdp_protocolVersion d = selected) (vpl_deprecations policy) in
            bind_r (case deprecation of None \<Rightarrow> Inr () | Some d \<Rightarrow> validateDeprecation d server) (\<lambda>_.
            bind_r (protocolPositive (JNum (NInt now)) ''nowEpochSeconds'') (\<lambda>now.
            case deprecation of
              None \<Rightarrow> Inr (versionResponse r server features (Some selected) [] None)
            | Some d \<Rightarrow>
                if vdp_sunset d \<le> now
                then Inr (versionResponse r server features None [''INFRA_PROTOCOL_VERSION_SUNSET''] (Some d))
                else Inr (versionResponse r server features (Some selected) [''INFRA_PROTOCOL_DEPRECATED_VERSION''] (Some d))))))))"

subsection \<open>Operations\<close>

record operation_target =
  otg_organizationId :: string
  otg_tenantId :: string
  otg_contextId :: string
  otg_claimId :: string
  otg_generation :: int
  otg_desiredStateDigest :: string

record operation_request =
  orq_protocolVersion :: string
  orq_requestId :: string
  orq_authorizationContextId :: string
  orq_target :: operation_target
  orq_operation :: infra_operation
  orq_planDigest :: "string option"
  orq_approvalIds :: "string list"
  orq_idempotencyKey :: "string option"
  orq_deadline :: int

datatype operation_outcome = Accepted | Rejected

primrec outcome_name :: "operation_outcome \<Rightarrow> string" where
  "outcome_name Accepted = ''accepted''"
| "outcome_name Rejected = ''rejected''"

definition outcomes :: "operation_outcome list" where
  "outcomes = [Accepted, Rejected]"

record operation_response =
  ors_protocolVersion :: string
  ors_requestId :: string
  ors_outcome :: operation_outcome
  ors_operationId :: "string option"
  ors_reasonCodes :: "string list"
  ors_retryAfter :: "int option"

record watch_request =
  wrq_protocolVersion :: string
  wrq_requestId :: string
  wrq_authorizationContextId :: string
  wrq_organizationId :: string
  wrq_tenantId :: string
  wrq_operationId :: string
  wrq_cursor :: "string option"
  wrq_maxEvents :: int
  wrq_deadline :: int

definition target_fields :: "props \<Rightarrow> protocol_error + operation_target" where
  "target_fields t =
     (let path = ''operationRequest.target'' in
     bind_r (protocolIdentifier (js_get t ''organizationId'') (path @ ''.organizationId'')) (\<lambda>org.
     bind_r (protocolIdentifier (js_get t ''tenantId'') (path @ ''.tenantId'')) (\<lambda>tenant.
     bind_r (protocolIdentifier (js_get t ''contextId'') (path @ ''.contextId'')) (\<lambda>context.
     bind_r (protocolIdentifier (js_get t ''claimId'') (path @ ''.claimId'')) (\<lambda>claim.
     bind_r (protocolPositive (js_get t ''generation'') (path @ ''.generation'')) (\<lambda>g.
     bind_r (protocolDigest (js_get t ''desiredStateDigest'') (path @ ''.desiredStateDigest'')) (\<lambda>d.
     Inr \<lparr>otg_organizationId = org, otg_tenantId = tenant, otg_contextId = context, otg_claimId = claim,
          otg_generation = g, otg_desiredStateDigest = d\<rparr>)))))))"

definition op_requires_plan :: "infra_operation \<Rightarrow> bool" where
  "op_requires_plan op \<longleftrightarrow> op = OpReconcile \<or> op = OpDelete"

definition op_is_mutation :: "infra_operation \<Rightarrow> bool" where
  "op_is_mutation op \<longleftrightarrow> op = OpReconcile \<or> op = OpCancel \<or> op = OpDelete"

definition parseInfrastructureOperationRequest :: "jsval \<Rightarrow> protocol_error + operation_request" where
  "parseInfrastructureOperationRequest v =
     bind_r (protocolExactObject v ''operationRequest''
       [''apiVersion'', ''kind'', ''protocolVersion'', ''requestId'', ''authorizationContextId'', ''target'', ''operation'',
        ''planDigest'', ''approvalIds'', ''idempotencyKey'', ''deadlineEpochSeconds'']) (\<lambda>root.
     bind_r (protocolExactObject (js_get root ''target'') ''operationRequest.target''
       [''organizationId'', ''tenantId'', ''contextId'', ''claimId'', ''generation'', ''desiredStateDigest'']) (\<lambda>target.
     bind_r (protocolEnumeration (js_get root ''operation'') ''operationRequest.operation'' infra_operation_name infra_operations) (\<lambda>operation.
     bind_r (nullableDigest (js_get root ''planDigest'') ''operationRequest.planDigest'') (\<lambda>planDigest.
     bind_r (protocolUniqueArray (js_get root ''approvalIds'') ''operationRequest.approvalIds'' protocolIdentifier) (\<lambda>approvals.
     bind_r (nullableIdentifier (js_get root ''idempotencyKey'') ''operationRequest.idempotencyKey'') (\<lambda>key.
     bind_r (throw_if (op_requires_plan operation \<noteq> (planDigest \<noteq> None))
       (invalid ''operationRequest.planDigest must be present only for reconcile or delete.'')) (\<lambda>_.
     bind_r (throw_if (\<not> op_requires_plan operation \<and> approvals \<noteq> [])
       (invalid ''operationRequest.approvalIds are allowed only for reconcile or delete.'')) (\<lambda>_.
     bind_r (throw_if (op_is_mutation operation \<noteq> (key \<noteq> None))
       (invalid ''operationRequest.idempotencyKey must be present only for mutations.'')) (\<lambda>_.
     bind_r (protocolLiteral (js_get root ''apiVersion'') ''operationRequest.apiVersion''
       INFRASTRUCTURE_CONTROLLER_PROTOCOL_API_VERSION) (\<lambda>_.
     bind_r (protocolLiteral (js_get root ''kind'') ''operationRequest.kind'' ''InfrastructureOperationRequest'') (\<lambda>_.
     bind_r (protocolVersion (js_get root ''protocolVersion'') ''operationRequest.protocolVersion'') (\<lambda>pv.
     bind_r (protocolIdentifier (js_get root ''requestId'') ''operationRequest.requestId'') (\<lambda>i.
     bind_r (protocolIdentifier (js_get root ''authorizationContextId'') ''operationRequest.authorizationContextId'') (\<lambda>ac.
     bind_r (target_fields target) (\<lambda>tg.
     bind_r (protocolPositive (js_get root ''deadlineEpochSeconds'') ''operationRequest.deadlineEpochSeconds'') (\<lambda>deadline.
     Inr \<lparr>orq_protocolVersion = pv, orq_requestId = i, orq_authorizationContextId = ac, orq_target = tg,
          orq_operation = operation, orq_planDigest = planDigest, orq_approvalIds = approvals,
          orq_idempotencyKey = key, orq_deadline = deadline\<rparr>))))))))))))))))"

definition acceptInfrastructureOperation :: "operation_request \<Rightarrow> string \<Rightarrow> protocol_error + operation_response" where
  "acceptInfrastructureOperation r operationId =
     bind_r (protocolIdentifier (JStr operationId) ''operationId'') (\<lambda>i.
     Inr \<lparr>ors_protocolVersion = orq_protocolVersion r, ors_requestId = orq_requestId r, ors_outcome = Accepted,
          ors_operationId = Some i, ors_reasonCodes = [], ors_retryAfter = None\<rparr>)"

definition parseInfrastructureOperationResponse :: "jsval \<Rightarrow> protocol_error + operation_response" where
  "parseInfrastructureOperationResponse v =
     bind_r (protocolExactObject v ''operationResponse''
       [''apiVersion'', ''kind'', ''protocolVersion'', ''requestId'', ''outcome'', ''operationId'', ''reasonCodes'',
        ''retryAfterSeconds'']) (\<lambda>root.
     bind_r (protocolEnumeration (js_get root ''outcome'') ''operationResponse.outcome'' outcome_name outcomes) (\<lambda>outcome.
     bind_r (read_nullable (js_get root ''operationId'') (\<lambda>w. protocolIdentifier w ''operationResponse.operationId'')) (\<lambda>operationId.
     bind_r (protocolUniqueArray (js_get root ''reasonCodes'') ''operationResponse.reasonCodes'' protocolReasonCode) (\<lambda>codes.
     bind_r (read_nullable (js_get root ''retryAfterSeconds'') (\<lambda>w. protocolPositive w ''operationResponse.retryAfterSeconds'')) (\<lambda>retry.
     bind_r (throw_if (case retry of None \<Rightarrow> False | Some s \<Rightarrow> s > 86400)
       (invalid ''operationResponse.retryAfterSeconds must not exceed 86400.'')) (\<lambda>_.
     bind_r (if outcome = Accepted
             then throw_if (operationId = None \<or> codes \<noteq> [] \<or> retry \<noteq> None)
               (invalid ''an accepted operation requires an operation ID and no rejection metadata.'')
             else
               bind_r (throw_if (operationId \<noteq> None \<or> codes = [])
                 (invalid ''a rejected operation requires reason codes and no operation ID.'')) (\<lambda>_.
               throw_if (retry \<noteq> None \<and> \<not> list_ex retryable_code codes)
                 (invalid ''operationResponse.retryAfterSeconds requires a retryable reason code.''))) (\<lambda>_.
     bind_r (protocolLiteral (js_get root ''apiVersion'') ''operationResponse.apiVersion''
       INFRASTRUCTURE_CONTROLLER_PROTOCOL_API_VERSION) (\<lambda>_.
     bind_r (protocolLiteral (js_get root ''kind'') ''operationResponse.kind'' ''InfrastructureOperationResponse'') (\<lambda>_.
     bind_r (protocolVersion (js_get root ''protocolVersion'') ''operationResponse.protocolVersion'') (\<lambda>pv.
     bind_r (protocolIdentifier (js_get root ''requestId'') ''operationResponse.requestId'') (\<lambda>i.
     Inr \<lparr>ors_protocolVersion = pv, ors_requestId = i, ors_outcome = outcome, ors_operationId = operationId,
          ors_reasonCodes = codes, ors_retryAfter = retry\<rparr>)))))))))))"

text \<open>The number of seconds is any JavaScript number; \<open>Number.isInteger\<close> has no upper bound.\<close>

definition rejectInfrastructureOperation ::
  "string \<Rightarrow> string \<Rightarrow> string list \<Rightarrow> jsnum option \<Rightarrow> protocol_error + operation_response"
where
  "rejectInfrastructureOperation version request codes retryAfter =
     bind_r (protocolNonEmptyUniqueArray (JArr (map JStr codes)) ''reasonCodes'' protocolReasonCode) (\<lambda>reasons.
     bind_r (case retryAfter of
               None \<Rightarrow> Inr None
             | Some (NInt i) \<Rightarrow> if i < 1 then Inl (invalid ''retryAfterSeconds must be a positive integer or null.'') else Inr (Some i)
             | Some _ \<Rightarrow> Inl (invalid ''retryAfterSeconds must be a positive integer or null.'')) (\<lambda>retry.
     bind_r (throw_if (retry \<noteq> None \<and> \<not> list_ex retryable_code reasons)
       (invalid ''retryAfterSeconds requires at least one retryable reason code.'')) (\<lambda>_.
     bind_r (protocolVersion (JStr version) ''operationResponse.protocolVersion'') (\<lambda>pv.
     bind_r (protocolIdentifier (JStr request) ''operationResponse.requestId'') (\<lambda>i.
     Inr \<lparr>ors_protocolVersion = pv, ors_requestId = i, ors_outcome = Rejected, ors_operationId = None,
          ors_reasonCodes = reasons, ors_retryAfter = retry\<rparr>)))))"

definition parseInfrastructureOperationWatchRequest :: "jsval \<Rightarrow> protocol_error + watch_request" where
  "parseInfrastructureOperationWatchRequest v =
     bind_r (protocolExactObject v ''watchRequest''
       [''apiVersion'', ''kind'', ''protocolVersion'', ''requestId'', ''authorizationContextId'', ''organizationId'',
        ''tenantId'', ''operationId'', ''cursor'', ''maxEvents'', ''deadlineEpochSeconds'']) (\<lambda>root.
     bind_r (protocolPositive (js_get root ''maxEvents'') ''watchRequest.maxEvents'') (\<lambda>maxEvents.
     bind_r (throw_if (maxEvents > 100) (invalid ''watchRequest.maxEvents must not exceed 100.'')) (\<lambda>_.
     bind_r (protocolLiteral (js_get root ''apiVersion'') ''watchRequest.apiVersion''
       INFRASTRUCTURE_CONTROLLER_PROTOCOL_API_VERSION) (\<lambda>_.
     bind_r (protocolLiteral (js_get root ''kind'') ''watchRequest.kind'' ''InfrastructureOperationWatchRequest'') (\<lambda>_.
     bind_r (protocolVersion (js_get root ''protocolVersion'') ''watchRequest.protocolVersion'') (\<lambda>pv.
     bind_r (protocolIdentifier (js_get root ''requestId'') ''watchRequest.requestId'') (\<lambda>i.
     bind_r (protocolIdentifier (js_get root ''authorizationContextId'') ''watchRequest.authorizationContextId'') (\<lambda>ac.
     bind_r (protocolIdentifier (js_get root ''organizationId'') ''watchRequest.organizationId'') (\<lambda>org.
     bind_r (protocolIdentifier (js_get root ''tenantId'') ''watchRequest.tenantId'') (\<lambda>t.
     bind_r (protocolIdentifier (js_get root ''operationId'') ''watchRequest.operationId'') (\<lambda>oi.
     bind_r (read_nullable (js_get root ''cursor'') (\<lambda>w. cursor w ''watchRequest.cursor'')) (\<lambda>cur.
     bind_r (protocolPositive (js_get root ''deadlineEpochSeconds'') ''watchRequest.deadlineEpochSeconds'') (\<lambda>deadline.
     Inr \<lparr>wrq_protocolVersion = pv, wrq_requestId = i, wrq_authorizationContextId = ac, wrq_organizationId = org,
          wrq_tenantId = t, wrq_operationId = oi, wrq_cursor = cur, wrq_maxEvents = maxEvents,
          wrq_deadline = deadline\<rparr>)))))))))))))"

end
