(* ===== verification/InfraMessages.thy ===== *)
theory InfraMessages
  imports InfraProtocol
begin

section \<open>The infrastructure controller protocol: what the message parsers accept\<close>

text \<open>
  As for the controller: \<open>enc_<message>\<close> is the JavaScript value of a message, \<open>ok_<message>\<close> what its parser
  demands, and each parser reads back exactly the messages that are \<open>ok\<close>.
\<close>

subsection \<open>Readers\<close>

lemma protocolExactObject_props [infra_reads]:
  "protocolExactObject v path ks = Inr ps \<longleftrightarrow> v = JObj ps \<and> set (map fst ps) = set ks"
  unfolding protocolExactObject_def by (rule read_exact_iff)

lemma protocolLiteral_iff [infra_reads]: "protocolLiteral v path expected = Inr u \<longleftrightarrow> v = JStr expected"
  by (simp add: protocolLiteral_def infra_reads)

lemma protocolIdentifier_iff [infra_reads]: "protocolIdentifier v path = Inr s \<longleftrightarrow> v = JStr s \<and> is_exact_id s"
  by (simp add: protocolIdentifier_def infra_reads)

lemma protocolVersion_iff [infra_reads]: "protocolVersion v path = Inr s \<longleftrightarrow> v = JStr s \<and> is_protocolVersion s"
  by (auto simp: protocolVersion_def is_protocolVersion_def infra_reads result_simps split: if_splits)

lemma protocolPositive_iff [infra_reads]: "protocolPositive v path = Inr i \<longleftrightarrow> v = JNum (NInt i) \<and> safe_positive i"
  by (simp add: protocolPositive_def infra_reads)

lemma protocolDigest_iff [infra_reads]: "protocolDigest v path = Inr s \<longleftrightarrow> v = JStr s \<and> is_sha_digest s"
  by (simp add: protocolDigest_def infra_reads)

lemma protocolTimestamp_iff [infra_reads]: "protocolTimestamp v path = Inr s \<longleftrightarrow> v = JStr s \<and> is_canonical_time s"
  by (cases v) (auto simp: protocolTimestamp_def)

lemma protocolBoolean_iff [infra_reads]: "protocolBoolean v path = Inr b \<longleftrightarrow> v = JBool b"
  by (simp add: protocolBoolean_def infra_reads)

lemma cursor_iff [infra_reads]: "cursor v path = Inr s \<longleftrightarrow> v = JStr s \<and> is_cursor s"
  by (simp add: cursor_def infra_reads)

lemma protocolReasonCode_iff [infra_reads]: "protocolReasonCode v path = Inr s \<longleftrightarrow> v = JStr s \<and> is_reason s"
  by (simp add: protocolReasonCode_def infra_reads)

lemma outcomes_all [simp]: "x \<in> set outcomes" by (cases x) (simp_all add: outcomes_def)

lemma outcome_name_eq [simp]: "outcome_name x = outcome_name y \<longleftrightarrow> x = y" by (cases x; cases y) auto

lemma protocolEnumeration_iff [infra_reads]:
  "protocolEnumeration v p infra_operation_name infra_operations = Inr op \<longleftrightarrow> v = JStr (infra_operation_name op)"
  "protocolEnumeration v p outcome_name outcomes = Inr oc \<longleftrightarrow> v = JStr (outcome_name oc)"
  by (auto simp: protocolEnumeration_def read_member_iff inj_on_def)

subsection \<open>Lists and optional values\<close>

definition ok_strings :: "(string \<Rightarrow> bool) \<Rightarrow> string list \<Rightarrow> bool" where
  "ok_strings P xs \<longleftrightarrow> list_all P xs \<and> distinct xs"

lemma strings_read:
  assumes "\<And>v p s. parse v p = Inr s \<longleftrightarrow> v = JStr s \<and> P s"
  shows "protocolUniqueArray v path parse = Inr ys \<longleftrightarrow> v = JArr (map JStr ys) \<and> ok_strings P ys"
proof -
  have "map_ix (\<lambda>i x. parse x (quote_path path i)) k vs = Inr zs \<longleftrightarrow> vs = map JStr zs \<and> list_all P zs" for k vs zs
  proof (induction vs arbitrary: k zs)
    case Nil
    then show ?case by auto
  next
    case (Cons w vs)
    then show ?case by (cases zs) (auto simp: bind_r_eq_Inr assms)
  qed
  then show ?thesis by (auto simp: protocolUniqueArray_def read_unique_iff ok_strings_def)
qed

lemma protocolNonEmpty_iff:
  "protocolNonEmptyUniqueArray v path parse = Inr ys \<longleftrightarrow> protocolUniqueArray v path parse = Inr ys \<and> ys \<noteq> []"
  by (simp add: protocolNonEmptyUniqueArray_def protocolUniqueArray_def read_unique1_iff)

lemmas protocol_lists [infra_reads] =
  strings_read [OF protocolIdentifier_iff] strings_read [OF protocolVersion_iff] strings_read [OF protocolReasonCode_iff]
  protocolNonEmpty_iff

lemma nullable_read:
  assumes "\<And>s. parse v = Inr s \<longleftrightarrow> v = enc s \<and> P s" "\<And>s. enc s \<noteq> JNull"
  shows "read_nullable v parse = Inr x \<longleftrightarrow> v = null_or enc x \<and> pred_option P x"
  using assms by (cases x) (auto simp: read_nullable_iff)

lemma protocol_nullable [infra_reads]:
  "nullableDigest v path = Inr x \<longleftrightarrow> v = null_or JStr x \<and> pred_option is_sha_digest x"
  "nullableIdentifier v path = Inr x \<longleftrightarrow> v = null_or JStr x \<and> pred_option is_exact_id x"
  "read_nullable v (\<lambda>w. protocolIdentifier w path) = Inr x \<longleftrightarrow> v = null_or JStr x \<and> pred_option is_exact_id x"
  "read_nullable v (\<lambda>w. protocolVersion w path) = Inr x \<longleftrightarrow> v = null_or JStr x \<and> pred_option is_protocolVersion x"
  "read_nullable v (\<lambda>w. cursor w path) = Inr x \<longleftrightarrow> v = null_or JStr x \<and> pred_option is_cursor x"
  "read_nullable v (\<lambda>w. protocolPositive w path) = Inr y \<longleftrightarrow> v = null_or (\<lambda>i. JNum (NInt i)) y \<and> pred_option safe_positive y"
  unfolding nullableDigest_def nullableIdentifier_def
  by (rule nullable_read; simp add: infra_reads)+

lemma null_or_inj [simp]:
  "null_or JStr x = null_or JStr y \<longleftrightarrow> x = y" "null_or (\<lambda>i. JNum (NInt i)) a = null_or (\<lambda>i. JNum (NInt i)) b \<longleftrightarrow> a = b"
  by (cases x; cases y; simp)+ (cases a; cases b; simp)+

lemma map_JStr_inj [simp]: "map JStr xs = map JStr ys \<longleftrightarrow> xs = ys"
  by (simp add: inj_map_eq_map inj_on_def)

text \<open>An object with exactly these properties, read by name, is the encoded one up to order.\<close>

lemma exact_props: "map fst ps = ks \<Longrightarrow> protocolExactObject (JObj ps) path ks = Inr qs \<longleftrightarrow> qs = ps"
  by (auto simp: infra_reads simp del: set_map)

subsection \<open>Version messages\<close>

definition enc_version_request :: "version_request \<Rightarrow> jsval" where
  "enc_version_request x = JObj
     [(''apiVersion'', JStr INFRASTRUCTURE_CONTROLLER_PROTOCOL_API_VERSION),
      (''kind'', JStr ''InfrastructureControllerVersionRequest''), (''requestId'', JStr (vrq_requestId x)),
      (''supportedProtocolVersions'', JArr (map JStr (vrq_supported x))),
      (''requiredFeatures'', JArr (map JStr (vrq_features x)))]"

definition ok_version_request :: "version_request \<Rightarrow> bool" where
  "ok_version_request x \<longleftrightarrow>
     is_exact_id (vrq_requestId x) \<and> ok_strings is_protocolVersion (vrq_supported x) \<and> vrq_supported x \<noteq> [] \<and>
     ok_strings is_exact_id (vrq_features x)"

lemma version_request_enc [infra_enc]:
  "parseInfrastructureControllerVersionRequest (enc_version_request x) = Inr y \<longleftrightarrow> ok_version_request x \<and> y = x"
  by (cases x) (auto simp: parseInfrastructureControllerVersionRequest_def enc_version_request_def ok_version_request_def
      infra_reads bind_r_eq_Inr)

lemma version_request_sound: "parseInfrastructureControllerVersionRequest v = Inr x \<Longrightarrow> ok_version_request x"
  unfolding parseInfrastructureControllerVersionRequest_def bind_r_eq_Inr ok_version_request_def
  by (elim exE conjE) (simp add: infra_reads, clarsimp)

definition enc_deprecation :: "version_deprecation \<Rightarrow> jsval" where
  "enc_deprecation x = JObj
     [(''protocolVersion'', JStr (vdp_protocolVersion x)), (''replacementProtocolVersion'', JStr (vdp_replacement x)),
      (''sunsetEpochSeconds'', JNum (NInt (vdp_sunset x)))]"

definition ok_deprecation :: "string list \<Rightarrow> version_deprecation \<Rightarrow> bool" where
  "ok_deprecation supported x \<longleftrightarrow>
     is_protocolVersion (vdp_protocolVersion x) \<and> is_protocolVersion (vdp_replacement x) \<and> safe_positive (vdp_sunset x) \<and>
     vdp_replacement x \<in> set supported \<and> vdp_protocolVersion x \<noteq> vdp_replacement x"

lemma validateDeprecation_iff [infra_reads]: "validateDeprecation x supported = Inr u \<longleftrightarrow> ok_deprecation supported x"
  by (auto simp: validateDeprecation_def ok_deprecation_def infra_reads result_simps)

lemma deprecation_enc:
  "parseVersionDeprecation (enc_deprecation x) path = Inr y \<longleftrightarrow>
     (is_protocolVersion (vdp_protocolVersion x) \<and> is_protocolVersion (vdp_replacement x) \<and> safe_positive (vdp_sunset x)) \<and> y = x"
  by (cases x) (auto simp: parseVersionDeprecation_def enc_deprecation_def infra_reads bind_r_eq_Inr)

lemma optional_deprecation_enc:
  "read_nullable (null_or enc_deprecation x) (\<lambda>w. parseVersionDeprecation w path) = Inr y \<longleftrightarrow>
     pred_option (\<lambda>x. is_protocolVersion (vdp_protocolVersion x) \<and> is_protocolVersion (vdp_replacement x) \<and> safe_positive (vdp_sunset x)) x \<and> y = x"
  by (rule read_nullable_enc) (simp_all add: deprecation_enc, simp add: enc_deprecation_def)

definition enc_version_response :: "version_response \<Rightarrow> jsval" where
  "enc_version_response x = JObj
     [(''apiVersion'', JStr INFRASTRUCTURE_CONTROLLER_PROTOCOL_API_VERSION),
      (''kind'', JStr ''InfrastructureControllerVersionResponse''), (''requestId'', JStr (vrs_requestId x)),
      (''compatible'', JBool (vrs_compatible x)), (''selectedProtocolVersion'', null_or JStr (vrs_selected x)),
      (''serverProtocolVersions'', JArr (map JStr (vrs_serverVersions x))),
      (''availableFeatures'', JArr (map JStr (vrs_features x))), (''reasonCodes'', JArr (map JStr (vrs_reasonCodes x))),
      (''deprecation'', null_or enc_deprecation (vrs_deprecation x))]"

definition ok_version_response :: "version_response \<Rightarrow> bool" where
  "ok_version_response x \<longleftrightarrow>
     is_exact_id (vrs_requestId x) \<and> pred_option is_protocolVersion (vrs_selected x) \<and>
     ok_strings is_protocolVersion (vrs_serverVersions x) \<and> vrs_serverVersions x \<noteq> [] \<and>
     ok_strings is_exact_id (vrs_features x) \<and> ok_strings is_reason (vrs_reasonCodes x) \<and>
     (vrs_compatible x \<longleftrightarrow> vrs_selected x \<noteq> None) \<and>
     pred_option (\<lambda>s. s \<in> set (vrs_serverVersions x)) (vrs_selected x) \<and>
     (vrs_compatible x \<or> vrs_reasonCodes x \<noteq> []) \<and>
     pred_option (\<lambda>d. ok_deprecation (vrs_serverVersions x) d \<and>
       (vrs_compatible x \<longrightarrow> vrs_selected x = Some (vdp_protocolVersion d)) \<and>
       (''INFRA_PROTOCOL_DEPRECATED_VERSION'' \<in> set (vrs_reasonCodes x) \<or>
        ''INFRA_PROTOCOL_VERSION_SUNSET'' \<in> set (vrs_reasonCodes x))) (vrs_deprecation x)"

lemma version_response_enc [infra_enc]:
  "parseInfrastructureControllerVersionResponse (enc_version_response x) = Inr y \<longleftrightarrow> ok_version_response x \<and> y = x"
proof -
  have sel: "(case s of None \<Rightarrow> False | Some v \<Rightarrow> v \<notin> S) \<longleftrightarrow> \<not> pred_option (\<lambda>v. v \<in> S) s" for s :: "string option" and S
    by (cases s) auto
  have dep: "(case d of None \<Rightarrow> Inr ()
      | Some d \<Rightarrow> bind_r (validateDeprecation d server) (\<lambda>_. bind_r (throw_if (b d) e) (\<lambda>_. throw_if c f))) = Inr u \<longleftrightarrow>
      pred_option (\<lambda>d. ok_deprecation server d \<and> \<not> b d \<and> \<not> c) d" for d server b c e f u
    by (cases d) (auto simp: infra_reads result_simps)
  have weak: "pred_option (\<lambda>d. ok_deprecation s d \<and> Q d) d \<Longrightarrow>
      pred_option (\<lambda>x. is_protocolVersion (vdp_protocolVersion x) \<and> is_protocolVersion (vdp_replacement x) \<and> safe_positive (vdp_sunset x)) d"
    for s Q d by (cases d) (auto simp: ok_deprecation_def)
  show ?thesis
    by (cases x)
      (auto simp: parseInfrastructureControllerVersionResponse_def enc_version_response_def ok_version_response_def
        infra_reads bind_r_eq_Inr throw_if_eq_Inr optional_deprecation_enc sel dep intro: weak)
qed

subsection \<open>Negotiation\<close>

definition ok_policy :: "version_policy \<Rightarrow> bool" where
  "ok_policy p \<longleftrightarrow>
     ok_strings is_protocolVersion (vpl_supported p) \<and> vpl_supported p \<noteq> [] \<and> ok_strings is_exact_id (vpl_features p) \<and>
     list_all (ok_deprecation (vpl_supported p)) (vpl_deprecations p)"

text \<open>The version that the server prefers among those the client supports, if it has all the features.\<close>

definition preferred :: "version_request \<Rightarrow> version_policy \<Rightarrow> string option" where
  "preferred r p =
     (if set (vrq_features r) \<subseteq> set (vpl_features p)
      then List.find (\<lambda>s. s \<in> set (vrq_supported r)) (vpl_supported p) else None)"

definition deprecation_of :: "version_policy \<Rightarrow> string \<Rightarrow> version_deprecation option" where
  "deprecation_of p s = List.find (\<lambda>d. vdp_protocolVersion d = s) (vpl_deprecations p)"

lemma negotiate_ok:
  assumes "ok_version_request r" "ok_policy p" "safe_positive now"
  shows "negotiateInfrastructureControllerVersion (enc_version_request r) p now = Inr
    (case List.find (\<lambda>s. s \<in> set (vrq_supported r)) (vpl_supported p) of
       None \<Rightarrow> versionResponse r (vpl_supported p) (vpl_features p) None [''INFRA_PROTOCOL_UNSUPPORTED_VERSION''] None
     | Some s \<Rightarrow>
         if \<not> set (vrq_features r) \<subseteq> set (vpl_features p)
         then versionResponse r (vpl_supported p) (vpl_features p) None [''INFRA_PROTOCOL_REQUIRED_FEATURE_UNAVAILABLE''] None
         else (case deprecation_of p s of
                 None \<Rightarrow> versionResponse r (vpl_supported p) (vpl_features p) (Some s) [] None
               | Some d \<Rightarrow>
                   if vdp_sunset d \<le> now
                   then versionResponse r (vpl_supported p) (vpl_features p) None [''INFRA_PROTOCOL_VERSION_SUNSET''] (Some d)
                   else versionResponse r (vpl_supported p) (vpl_features p) (Some s) [''INFRA_PROTOCOL_DEPRECATED_VERSION''] (Some d)))"
proof -
  have r: "parseInfrastructureControllerVersionRequest (enc_version_request r) = Inr r"
    using assms(1) by (simp add: version_request_enc)
  have s: "protocolNonEmptyUniqueArray (JArr (map JStr (vpl_supported p))) path protocolVersion = Inr (vpl_supported p)"
    "protocolUniqueArray (JArr (map JStr (vpl_features p))) path protocolIdentifier = Inr (vpl_features p)" for path
    using assms(2) by (simp_all add: infra_reads ok_policy_def)
  have n: "protocolPositive (JNum (NInt now)) path = Inr now" for path
    using assms(3) by (simp add: infra_reads)
  have d: "deprecation_of p t = Some d \<Longrightarrow> validateDeprecation d (vpl_supported p) = Inr ()" for t d
    using assms(2) find_Some_mem by (fastforce simp: deprecation_of_def infra_reads ok_policy_def list_all_iff)
  have f: "list_ex (\<lambda>f. f \<notin> set (vpl_features p)) (vrq_features r) \<longleftrightarrow> \<not> set (vrq_features r) \<subseteq> set (vpl_features p)"
    by (auto simp: list_ex_iff)
  show ?thesis
    unfolding negotiateInfrastructureControllerVersion_def r s bind_r_Inr f deprecation_of_def [symmetric] Let_def n
    by (simp add: n d split: option.split)
qed

lemma reasons_known [simp]:
  "is_reason ''INFRA_PROTOCOL_UNSUPPORTED_VERSION''" "is_reason ''INFRA_PROTOCOL_REQUIRED_FEATURE_UNAVAILABLE''"
  "is_reason ''INFRA_PROTOCOL_VERSION_SUNSET''" "is_reason ''INFRA_PROTOCOL_DEPRECATED_VERSION''"
  by code_simp+

lemma negotiated_readable:
  assumes "ok_version_request r" "ok_policy p" "safe_positive now"
    and "negotiateInfrastructureControllerVersion (enc_version_request r) p now = Inr x"
  shows "ok_version_response x"
proof -
  have mem: "List.find Q xs = Some y \<Longrightarrow> y \<in> set xs" for Q and xs :: "string list" and y
    using find_Some_mem by fast
  have dep: "deprecation_of p s = Some d \<Longrightarrow> vdp_protocolVersion d = s \<and> ok_deprecation (vpl_supported p) d" for s d
    using assms(2) find_Some_mem by (fastforce simp: deprecation_of_def ok_policy_def list_all_iff)
  have pv: "y \<in> set (vpl_supported p) \<Longrightarrow> is_protocolVersion y" for y
    using assms(2) by (auto simp: ok_policy_def ok_strings_def list_all_iff)
  have selected: "List.find Q (vpl_supported p) = Some y \<Longrightarrow> is_protocolVersion y" for Q y
    using mem pv by blast
  show ?thesis
    using assms(1,2,4) unfolding negotiate_ok [OF assms(1-3)]
    by (auto simp: versionResponse_def ok_version_response_def ok_version_request_def ok_policy_def ok_strings_def
        dest: dep mem intro: selected split: option.splits if_splits)
qed

subsection \<open>Operation messages\<close>

definition target_props :: "operation_target \<Rightarrow> props" where
  "target_props x =
     [(''organizationId'', JStr (otg_organizationId x)), (''tenantId'', JStr (otg_tenantId x)),
      (''contextId'', JStr (otg_contextId x)), (''claimId'', JStr (otg_claimId x)),
      (''generation'', JNum (NInt (otg_generation x))), (''desiredStateDigest'', JStr (otg_desiredStateDigest x))]"

definition ok_target :: "operation_target \<Rightarrow> bool" where
  "ok_target x \<longleftrightarrow>
     is_exact_id (otg_organizationId x) \<and> is_exact_id (otg_tenantId x) \<and> is_exact_id (otg_contextId x) \<and>
     is_exact_id (otg_claimId x) \<and> safe_positive (otg_generation x) \<and> is_sha_digest (otg_desiredStateDigest x)"

definition enc_operation_request :: "operation_request \<Rightarrow> jsval" where
  "enc_operation_request x = JObj
     [(''apiVersion'', JStr INFRASTRUCTURE_CONTROLLER_PROTOCOL_API_VERSION),
      (''kind'', JStr ''InfrastructureOperationRequest''), (''protocolVersion'', JStr (orq_protocolVersion x)),
      (''requestId'', JStr (orq_requestId x)), (''authorizationContextId'', JStr (orq_authorizationContextId x)),
      (''target'', JObj (target_props (orq_target x))), (''operation'', JStr (infra_operation_name (orq_operation x))),
      (''planDigest'', null_or JStr (orq_planDigest x)), (''approvalIds'', JArr (map JStr (orq_approvalIds x))),
      (''idempotencyKey'', null_or JStr (orq_idempotencyKey x)), (''deadlineEpochSeconds'', JNum (NInt (orq_deadline x)))]"

definition ok_operation_request :: "operation_request \<Rightarrow> bool" where
  "ok_operation_request x \<longleftrightarrow>
     is_protocolVersion (orq_protocolVersion x) \<and> is_exact_id (orq_requestId x) \<and>
     is_exact_id (orq_authorizationContextId x) \<and> ok_target (orq_target x) \<and>
     pred_option is_sha_digest (orq_planDigest x) \<and> ok_strings is_exact_id (orq_approvalIds x) \<and>
     pred_option is_exact_id (orq_idempotencyKey x) \<and> safe_positive (orq_deadline x) \<and>
     (op_requires_plan (orq_operation x) \<longleftrightarrow> orq_planDigest x \<noteq> None) \<and>
     (op_requires_plan (orq_operation x) \<or> orq_approvalIds x = []) \<and>
     (op_is_mutation (orq_operation x) \<longleftrightarrow> orq_idempotencyKey x \<noteq> None)"

lemma target_enc: "target_fields (target_props x) = Inr y \<longleftrightarrow> ok_target x \<and> y = x"
  by (cases x) (auto simp: target_fields_def target_props_def ok_target_def infra_reads bind_r_eq_Inr Let_def)

lemma target_keys:
  "set (map fst (target_props x)) =
     set [''organizationId'', ''tenantId'', ''contextId'', ''claimId'', ''generation'', ''desiredStateDigest'']"
  by (simp add: target_props_def)

lemma operation_request_enc [infra_enc]:
  "parseInfrastructureOperationRequest (enc_operation_request x) = Inr y \<longleftrightarrow> ok_operation_request x \<and> y = x"
  by (cases x)
    (auto simp: parseInfrastructureOperationRequest_def enc_operation_request_def ok_operation_request_def
      infra_reads bind_r_eq_Inr throw_if_eq_Inr target_enc target_keys [unfolded set_map])

definition enc_operation_response :: "operation_response \<Rightarrow> jsval" where
  "enc_operation_response x = JObj
     [(''apiVersion'', JStr INFRASTRUCTURE_CONTROLLER_PROTOCOL_API_VERSION),
      (''kind'', JStr ''InfrastructureOperationResponse''), (''protocolVersion'', JStr (ors_protocolVersion x)),
      (''requestId'', JStr (ors_requestId x)), (''outcome'', JStr (outcome_name (ors_outcome x))),
      (''operationId'', null_or JStr (ors_operationId x)), (''reasonCodes'', JArr (map JStr (ors_reasonCodes x))),
      (''retryAfterSeconds'', null_or (\<lambda>i. JNum (NInt i)) (ors_retryAfter x))]"

definition ok_operation_response :: "operation_response \<Rightarrow> bool" where
  "ok_operation_response x \<longleftrightarrow>
     is_protocolVersion (ors_protocolVersion x) \<and> is_exact_id (ors_requestId x) \<and>
     pred_option is_exact_id (ors_operationId x) \<and> ok_strings is_reason (ors_reasonCodes x) \<and>
     pred_option (\<lambda>i. 1 \<le> i \<and> i \<le> 86400) (ors_retryAfter x) \<and>
     (if ors_outcome x = Accepted then ors_operationId x \<noteq> None \<and> ors_reasonCodes x = [] \<and> ors_retryAfter x = None
      else ors_operationId x = None \<and> ors_reasonCodes x \<noteq> [] \<and>
        (ors_retryAfter x = None \<or> list_ex retryable_code (ors_reasonCodes x)))"

lemma operation_response_enc [infra_enc]:
  "parseInfrastructureOperationResponse (enc_operation_response x) = Inr y \<longleftrightarrow> ok_operation_response x \<and> y = x"
proof -
  have retry: "pred_option safe_positive t \<and> \<not> (case t of None \<Rightarrow> False | Some s \<Rightarrow> s > 86400) \<longleftrightarrow>
      pred_option (\<lambda>i. 1 \<le> i \<and> i \<le> 86400) t" for t
    by (cases t) (auto simp: safe_positive_def MAX_SAFE_def)
  have guard: "(if b then throw_if p e else bind_r (throw_if q f) (\<lambda>_. throw_if r g)) = Inr u \<longleftrightarrow>
      (if b then \<not> p else \<not> q \<and> \<not> r)" for b p q r e f g u
    by (auto simp: result_simps)
  show ?thesis
    by (cases x)
      (auto simp: parseInfrastructureOperationResponse_def enc_operation_response_def ok_operation_response_def
        infra_reads bind_r_eq_Inr throw_if_eq_Inr guard retry [symmetric] split: if_splits)
qed

definition enc_watch_request :: "watch_request \<Rightarrow> jsval" where
  "enc_watch_request x = JObj
     [(''apiVersion'', JStr INFRASTRUCTURE_CONTROLLER_PROTOCOL_API_VERSION),
      (''kind'', JStr ''InfrastructureOperationWatchRequest''), (''protocolVersion'', JStr (wrq_protocolVersion x)),
      (''requestId'', JStr (wrq_requestId x)), (''authorizationContextId'', JStr (wrq_authorizationContextId x)),
      (''organizationId'', JStr (wrq_organizationId x)), (''tenantId'', JStr (wrq_tenantId x)),
      (''operationId'', JStr (wrq_operationId x)), (''cursor'', null_or JStr (wrq_cursor x)),
      (''maxEvents'', JNum (NInt (wrq_maxEvents x))), (''deadlineEpochSeconds'', JNum (NInt (wrq_deadline x)))]"

definition ok_watch_request :: "watch_request \<Rightarrow> bool" where
  "ok_watch_request x \<longleftrightarrow>
     is_protocolVersion (wrq_protocolVersion x) \<and> is_exact_id (wrq_requestId x) \<and>
     is_exact_id (wrq_authorizationContextId x) \<and> is_exact_id (wrq_organizationId x) \<and> is_exact_id (wrq_tenantId x) \<and>
     is_exact_id (wrq_operationId x) \<and> pred_option is_cursor (wrq_cursor x) \<and>
     1 \<le> wrq_maxEvents x \<and> wrq_maxEvents x \<le> 100 \<and> safe_positive (wrq_deadline x)"

lemma watch_request_enc [infra_enc]:
  "parseInfrastructureOperationWatchRequest (enc_watch_request x) = Inr y \<longleftrightarrow> ok_watch_request x \<and> y = x"
  by (cases x)
    (auto simp: parseInfrastructureOperationWatchRequest_def enc_watch_request_def ok_watch_request_def
      infra_reads bind_r_eq_Inr throw_if_eq_Inr safe_positive_def MAX_SAFE_def)

lemma rejected_iff:
  "rejectInfrastructureOperation version request codes retry = Inr x \<longleftrightarrow>
     ok_strings is_reason codes \<and> codes \<noteq> [] \<and> is_protocolVersion version \<and> is_exact_id request \<and>
     (case retry of None \<Rightarrow> True | Some n \<Rightarrow> \<exists>i \<ge> 1. n = NInt i) \<and>
     (retry = None \<or> list_ex retryable_code codes) \<and>
     x = \<lparr>ors_protocolVersion = version, ors_requestId = request, ors_outcome = Rejected, ors_operationId = None,
          ors_reasonCodes = codes, ors_retryAfter = map_option (\<lambda>n. case n of NInt i \<Rightarrow> i | _ \<Rightarrow> 0) retry\<rparr>"
proof (cases retry)
  case None
  then show ?thesis by (auto simp: rejectInfrastructureOperation_def infra_reads bind_r_eq_Inr throw_if_eq_Inr)
next
  case (Some n)
  then show ?thesis
    by (cases n) (auto simp: rejectInfrastructureOperation_def infra_reads bind_r_eq_Inr throw_if_eq_Inr split: if_splits)
qed

lemma accept_iff:
  "acceptInfrastructureOperation r i = Inr x \<longleftrightarrow>
     is_exact_id i \<and>
     x = \<lparr>ors_protocolVersion = orq_protocolVersion r, ors_requestId = orq_requestId r, ors_outcome = Accepted,
          ors_operationId = Some i, ors_reasonCodes = [], ors_retryAfter = None\<rparr>"
  by (auto simp: acceptInfrastructureOperation_def infra_reads bind_r_eq_Inr)

end
