(* ===== verification/InfraEvents.thy ===== *)
theory InfraEvents
  imports InfraMessages
begin

section \<open>The infrastructure controller protocol: operation events\<close>

text \<open>
  The events of an operation form a chain: each has the next sequence number and the digest of the event
  before it, and its own digest is the hash of all the rest.  \<open>createInfrastructureOperationEvent\<close> makes
  one event after another, \<open>validateInfrastructureOperationEvents\<close> checks a page of them.  \<open>linked\<close> is
  the relation between neighbours and \<open>ok_event\<close> what holds of each event on its own.
\<close>

subsection \<open>Events\<close>

datatype event_phase =
    EvAccepted | EvPlanning | EvPlanned | EvReconciling | EvObserving | EvCancelling | EvDeleting
  | EvSucceeded | EvFailed | EvCancelled

primrec event_phase_name :: "event_phase \<Rightarrow> string" where
  "event_phase_name EvAccepted = ''accepted''"
| "event_phase_name EvPlanning = ''planning''"
| "event_phase_name EvPlanned = ''planned''"
| "event_phase_name EvReconciling = ''reconciling''"
| "event_phase_name EvObserving = ''observing''"
| "event_phase_name EvCancelling = ''cancelling''"
| "event_phase_name EvDeleting = ''deleting''"
| "event_phase_name EvSucceeded = ''succeeded''"
| "event_phase_name EvFailed = ''failed''"
| "event_phase_name EvCancelled = ''cancelled''"

definition event_phases :: "event_phase list" where
  "event_phases =
     [EvAccepted, EvPlanning, EvPlanned, EvReconciling, EvObserving, EvCancelling, EvDeleting, EvSucceeded, EvFailed,
      EvCancelled]"

definition terminal_phase :: "event_phase \<Rightarrow> bool" where
  "terminal_phase p \<longleftrightarrow> p \<in> set [EvSucceeded, EvFailed, EvCancelled]"

record operation_event =
  ev_protocolVersion :: string
  ev_operationId :: string
  ev_organizationId :: string
  ev_tenantId :: string
  ev_eventId :: string
  ev_sequence :: int
  ev_phase :: event_phase
  ev_terminal :: bool
  ev_generation :: int
  ev_desiredStateDigest :: string
  ev_occurredAt :: string
  ev_reasonCodes :: "string list"
  ev_previousDigest :: "string option"
  ev_digest :: string

record event_input =
  ein_protocolVersion :: string
  ein_operationId :: string
  ein_organizationId :: string
  ein_tenantId :: string
  ein_eventId :: string
  ein_sequence :: int
  ein_phase :: event_phase
  ein_generation :: int
  ein_desiredStateDigest :: string
  ein_occurredAt :: string
  ein_reasonCodes :: "string list option"
  ein_previous :: "operation_event option"

text \<open>\<open>canonicalJson\<close> and \<open>sha256\<close> of the module; the first is the function \<open>stableJson\<close> again.\<close>

definition protocolCanonicalJson :: "jsval \<Rightarrow> string" where
  "protocolCanonicalJson = stableJson"

definition event_keys :: "string list" where
  "event_keys =
     [''apiVersion'', ''kind'', ''protocolVersion'', ''operationId'', ''organizationId'', ''tenantId'', ''eventId'',
      ''sequence'', ''phase'', ''terminal'', ''generation'', ''desiredStateDigest'', ''occurredAt'', ''reasonCodes'',
      ''previousEventDigest'']"

definition event_values :: "operation_event \<Rightarrow> jsval list" where
  "event_values e =
     [JStr INFRASTRUCTURE_CONTROLLER_PROTOCOL_API_VERSION, JStr ''InfrastructureOperationEvent'',
      JStr (ev_protocolVersion e), JStr (ev_operationId e), JStr (ev_organizationId e), JStr (ev_tenantId e),
      JStr (ev_eventId e), JNum (NInt (ev_sequence e)), JStr (event_phase_name (ev_phase e)), JBool (ev_terminal e),
      JNum (NInt (ev_generation e)), JStr (ev_desiredStateDigest e), JStr (ev_occurredAt e),
      JArr (map JStr (ev_reasonCodes e)), null_or JStr (ev_previousDigest e)]"

definition event_text :: "operation_event \<Rightarrow> string" where
  "event_text e = protocolCanonicalJson (JObj (zip event_keys (event_values e)))"

definition enc_event :: "operation_event \<Rightarrow> jsval" where
  "enc_event e = JObj (zip event_keys (event_values e) @ [(''eventDigest'', JStr (ev_digest e))])"

definition other_subject :: "operation_event \<Rightarrow> string \<Rightarrow> string \<Rightarrow> string \<Rightarrow> int \<Rightarrow> string \<Rightarrow> bool" where
  "other_subject p operation org tenant generation digest \<longleftrightarrow>
     ev_operationId p \<noteq> operation \<or> ev_organizationId p \<noteq> org \<or> ev_tenantId p \<noteq> tenant \<or>
     ev_generation p \<noteq> generation \<or> ev_desiredStateDigest p \<noteq> digest"

subsection \<open>Creating an event\<close>

definition createInfrastructureOperationEvent ::
  "(string \<Rightarrow> string) \<Rightarrow> event_input \<Rightarrow> protocol_error + operation_event"
where
  "createInfrastructureOperationEvent sha input =
     bind_r (protocolEnumeration (JStr (event_phase_name (ein_phase input))) ''event.phase'' event_phase_name event_phases) (\<lambda>phase.
     bind_r (protocolUniqueArray (JArr (map JStr (case ein_reasonCodes input of None \<Rightarrow> [] | Some rs \<Rightarrow> rs)))
       ''event.reasonCodes'' protocolReasonCode) (\<lambda>reasons.
     bind_r (throw_if (phase = EvFailed \<and> reasons = []) (invalid ''failed events require at least one reason code.'')) (\<lambda>_.
     bind_r (throw_if (phase \<noteq> EvFailed \<and> reasons \<noteq> []) (invalid ''only failed events may contain reason codes.'')) (\<lambda>_.
     bind_r (protocolPositive (JNum (NInt (ein_sequence input))) ''event.sequence'') (\<lambda>sequence.
     bind_r (throw_if (sequence = 1 \<and> ein_previous input \<noteq> None)
       (invalid ''the first event must not declare a previous event.'')) (\<lambda>_.
     bind_r (if sequence > 1
             then (case ein_previous input of
                     None \<Rightarrow> Inl (invalid ''an event must follow the immediately preceding sequence.'')
                   | Some p \<Rightarrow>
                       bind_r (throw_if (ev_sequence p \<noteq> sequence - 1)
                         (invalid ''an event must follow the immediately preceding sequence.'')) (\<lambda>_.
                       bind_r (throw_if (other_subject p (ein_operationId input) (ein_organizationId input)
                           (ein_tenantId input) (ein_generation input) (ein_desiredStateDigest input))
                         (invalid ''an event chain must not change its operation subject.'')) (\<lambda>_.
                       throw_if (ev_terminal p) (invalid ''a terminal event cannot be followed.''))))
             else Inr ()) (\<lambda>_.
     bind_r (protocolVersion (JStr (ein_protocolVersion input)) ''event.protocolVersion'') (\<lambda>pv.
     bind_r (protocolIdentifier (JStr (ein_operationId input)) ''event.operationId'') (\<lambda>operation.
     bind_r (protocolIdentifier (JStr (ein_organizationId input)) ''event.organizationId'') (\<lambda>org.
     bind_r (protocolIdentifier (JStr (ein_tenantId input)) ''event.tenantId'') (\<lambda>tenant.
     bind_r (protocolIdentifier (JStr (ein_eventId input)) ''event.eventId'') (\<lambda>i.
     bind_r (protocolPositive (JNum (NInt (ein_generation input))) ''event.generation'') (\<lambda>generation.
     bind_r (protocolDigest (JStr (ein_desiredStateDigest input)) ''event.desiredStateDigest'') (\<lambda>desired.
     bind_r (protocolTimestamp (JStr (ein_occurredAt input)) ''event.occurredAt'') (\<lambda>occurred.
     let event =
       \<lparr>ev_protocolVersion = pv, ev_operationId = operation, ev_organizationId = org, ev_tenantId = tenant,
        ev_eventId = i, ev_sequence = sequence, ev_phase = phase, ev_terminal = terminal_phase phase,
        ev_generation = generation, ev_desiredStateDigest = desired, ev_occurredAt = occurred,
        ev_reasonCodes = reasons, ev_previousDigest = map_option ev_digest (ein_previous input), ev_digest = []\<rparr>
     in Inr (event\<lparr>ev_digest := sha (event_text event)\<rparr>))))))))))))))))"

subsection \<open>Checking a page of events\<close>

definition parseOperationEvent ::
  "(string \<Rightarrow> string) \<Rightarrow> nat \<Rightarrow> jsval \<Rightarrow> protocol_error + operation_event"
where
  "parseOperationEvent sha index v =
     (let path = quote_path ''events'' index in
     bind_r (protocolExactObject v path (event_keys @ [''eventDigest''])) (\<lambda>root.
     bind_r (protocolEnumeration (js_get root ''phase'') (path @ ''.phase'') event_phase_name event_phases) (\<lambda>phase.
     bind_r (protocolBoolean (js_get root ''terminal'') (path @ ''.terminal'')) (\<lambda>terminal.
     bind_r (protocolUniqueArray (js_get root ''reasonCodes'') (path @ ''.reasonCodes'') protocolReasonCode) (\<lambda>reasons.
     bind_r (throw_if (terminal \<noteq> terminal_phase phase) (invalid (path @ ''.terminal does not match its phase.''))) (\<lambda>_.
     bind_r (throw_if ((phase = EvFailed) \<noteq> (reasons \<noteq> [])) (invalid (path @ ''.reasonCodes do not match its phase.''))) (\<lambda>_.
     bind_r (protocolLiteral (js_get root ''apiVersion'') (path @ ''.apiVersion'')
       INFRASTRUCTURE_CONTROLLER_PROTOCOL_API_VERSION) (\<lambda>_.
     bind_r (protocolLiteral (js_get root ''kind'') (path @ ''.kind'') ''InfrastructureOperationEvent'') (\<lambda>_.
     bind_r (protocolVersion (js_get root ''protocolVersion'') (path @ ''.protocolVersion'')) (\<lambda>pv.
     bind_r (protocolIdentifier (js_get root ''operationId'') (path @ ''.operationId'')) (\<lambda>operation.
     bind_r (protocolIdentifier (js_get root ''organizationId'') (path @ ''.organizationId'')) (\<lambda>org.
     bind_r (protocolIdentifier (js_get root ''tenantId'') (path @ ''.tenantId'')) (\<lambda>tenant.
     bind_r (protocolIdentifier (js_get root ''eventId'') (path @ ''.eventId'')) (\<lambda>i.
     bind_r (protocolPositive (js_get root ''sequence'') (path @ ''.sequence'')) (\<lambda>sequence.
     bind_r (protocolPositive (js_get root ''generation'') (path @ ''.generation'')) (\<lambda>generation.
     bind_r (protocolDigest (js_get root ''desiredStateDigest'') (path @ ''.desiredStateDigest'')) (\<lambda>desired.
     bind_r (protocolTimestamp (js_get root ''occurredAt'') (path @ ''.occurredAt'')) (\<lambda>occurred.
     bind_r (nullableDigest (js_get root ''previousEventDigest'') (path @ ''.previousEventDigest'')) (\<lambda>previous.
     bind_r (protocolDigest (js_get root ''eventDigest'') (path @ ''.eventDigest'')) (\<lambda>d.
     let event =
       \<lparr>ev_protocolVersion = pv, ev_operationId = operation, ev_organizationId = org, ev_tenantId = tenant,
        ev_eventId = i, ev_sequence = sequence, ev_phase = phase, ev_terminal = terminal,
        ev_generation = generation, ev_desiredStateDigest = desired, ev_occurredAt = occurred,
        ev_reasonCodes = reasons, ev_previousDigest = previous, ev_digest = d\<rparr>
     in bind_r (throw_if (d \<noteq> sha (event_text event)) (invalid (path @ ''.eventDigest does not match the event contents.''))) (\<lambda>_.
        Inr event)))))))))))))))))))))"

text \<open>The loop: the sequence and digest expected next, and the event before, if it is on this page.\<close>

fun check_events ::
  "int \<Rightarrow> string option \<Rightarrow> operation_event option \<Rightarrow> operation_event list \<Rightarrow> protocol_error + unit"
where
  "check_events expected previous prior [] = Inr ()"
| "check_events expected previous prior (e # es) =
     bind_r (throw_if (ev_sequence e \<noteq> expected)
       (invalid (''event sequence '' @ int_dec (ev_sequence e) @ '' is not '' @ int_dec expected @ ''.''))) (\<lambda>_.
     bind_r (throw_if (ev_previousDigest e \<noteq> previous)
       (invalid (''event '' @ int_dec (ev_sequence e) @ '' has an invalid previous-event digest.''))) (\<lambda>_.
     bind_r (throw_if (case prior of
                None \<Rightarrow> False
              | Some p \<Rightarrow> ev_terminal p \<or> other_subject p (ev_operationId e) (ev_organizationId e) (ev_tenantId e)
                  (ev_generation e) (ev_desiredStateDigest e))
       (invalid (''event '' @ int_dec (ev_sequence e) @ '' breaks the operation event chain.''))) (\<lambda>_.
     check_events (expected + 1) (Some (ev_digest e)) (Some e) es)))"

definition validateInfrastructureOperationEvents ::
  "(string \<Rightarrow> string) \<Rightarrow> jsval \<Rightarrow> int option \<Rightarrow> string option \<Rightarrow> protocol_error + operation_event list"
where
  "validateInfrastructureOperationEvents sha v expectedFirst expectedPrevious =
     (case v of
        JArr (w # ws) \<Rightarrow>
          bind_r (map_ix (parseOperationEvent sha) 0 (w # ws)) (\<lambda>parsed.
          bind_r (check_events (case expectedFirst of None \<Rightarrow> 1 | Some n \<Rightarrow> n) expectedPrevious None parsed) (\<lambda>_.
          Inr parsed))
      | _ \<Rightarrow> Inl (invalid ''an operation event page must contain at least one event.''))"

subsection \<open>Sound events and links\<close>

definition ok_event :: "(string \<Rightarrow> string) \<Rightarrow> operation_event \<Rightarrow> bool" where
  "ok_event sha e \<longleftrightarrow>
     is_protocolVersion (ev_protocolVersion e) \<and> is_exact_id (ev_operationId e) \<and> is_exact_id (ev_organizationId e) \<and>
     is_exact_id (ev_tenantId e) \<and> is_exact_id (ev_eventId e) \<and> safe_positive (ev_sequence e) \<and>
     (ev_terminal e \<longleftrightarrow> terminal_phase (ev_phase e)) \<and> safe_positive (ev_generation e) \<and>
     is_sha_digest (ev_desiredStateDigest e) \<and> is_canonical_time (ev_occurredAt e) \<and>
     ok_strings is_reason (ev_reasonCodes e) \<and> (ev_phase e = EvFailed \<longleftrightarrow> ev_reasonCodes e \<noteq> []) \<and>
     pred_option is_sha_digest (ev_previousDigest e) \<and> is_sha_digest (ev_digest e) \<and> ev_digest e = sha (event_text e)"

definition same_subject :: "operation_event \<Rightarrow> operation_event \<Rightarrow> bool" where
  "same_subject p e \<longleftrightarrow>
     ev_operationId p = ev_operationId e \<and> ev_organizationId p = ev_organizationId e \<and> ev_tenantId p = ev_tenantId e \<and>
     ev_generation p = ev_generation e \<and> ev_desiredStateDigest p = ev_desiredStateDigest e"

definition linked :: "operation_event \<Rightarrow> operation_event \<Rightarrow> bool" where
  "linked p e \<longleftrightarrow>
     ev_sequence e = ev_sequence p + 1 \<and> ev_previousDigest e = Some (ev_digest p) \<and> \<not> ev_terminal p \<and> same_subject p e"

lemma event_phases_all [simp]: "x \<in> set event_phases" by (cases x) (simp_all add: event_phases_def)

lemma event_phase_name_eq [simp]: "event_phase_name x = event_phase_name y \<longleftrightarrow> x = y"
  by (cases x; cases y) simp_all

lemma protocolPhase_iff [infra_reads]:
  "protocolEnumeration v p event_phase_name event_phases = Inr ph \<longleftrightarrow> v = JStr (event_phase_name ph)"
  by (auto simp: protocolEnumeration_def read_member_iff inj_on_def)

lemma event_lengths: "length event_keys = length (event_values e)"
  by (simp add: event_keys_def event_values_def)

lemma enc_event_keys: "set (map fst (zip event_keys (event_values e) @ [(''eventDigest'', x)])) = set (event_keys @ [''eventDigest''])"
  using event_lengths [of e] by (simp add: zip_map_fst_snd [symmetric])

lemma event_text_update [simp]: "event_text (e\<lparr>ev_digest := d\<rparr>) = event_text e"
  by (simp add: event_text_def event_values_def)

lemma event_text_inj:
  assumes "event_text e = event_text f" "ev_digest e = ev_digest f"
  shows "e = f"
proof -
  have "list_all leaf (event_values x)" for x
    by (auto simp: event_values_def null_or_def list_all_iff split: option.split)
  then have "event_values e = event_values f"
    using assms(1) event_lengths unfolding event_text_def protocolCanonicalJson_def by (intro stable_object_inj)
  with assms(2) show ?thesis
    by (cases e; cases f) (simp add: event_values_def)
qed

subsection \<open>What creation and validation accept\<close>

lemma enc_event_props:
  "enc_event e = JObj
     [(''apiVersion'', JStr INFRASTRUCTURE_CONTROLLER_PROTOCOL_API_VERSION), (''kind'', JStr ''InfrastructureOperationEvent''),
      (''protocolVersion'', JStr (ev_protocolVersion e)), (''operationId'', JStr (ev_operationId e)),
      (''organizationId'', JStr (ev_organizationId e)), (''tenantId'', JStr (ev_tenantId e)),
      (''eventId'', JStr (ev_eventId e)), (''sequence'', JNum (NInt (ev_sequence e))),
      (''phase'', JStr (event_phase_name (ev_phase e))), (''terminal'', JBool (ev_terminal e)),
      (''generation'', JNum (NInt (ev_generation e))), (''desiredStateDigest'', JStr (ev_desiredStateDigest e)),
      (''occurredAt'', JStr (ev_occurredAt e)), (''reasonCodes'', JArr (map JStr (ev_reasonCodes e))),
      (''previousEventDigest'', null_or JStr (ev_previousDigest e)), (''eventDigest'', JStr (ev_digest e))]"
  by (simp add: enc_event_def event_keys_def event_values_def)

lemma event_enc: "parseOperationEvent sha i (enc_event e) = Inr f \<longleftrightarrow> ok_event sha e \<and> f = e"
  by (cases e)
    (auto simp: parseOperationEvent_def enc_event_props ok_event_def infra_reads bind_r_eq_Inr throw_if_eq_Inr Let_def
      event_keys_def)

lemma event_sound: "parseOperationEvent sha i v = Inr e \<Longrightarrow> ok_event sha e"
  unfolding parseOperationEvent_def Let_def bind_r_eq_Inr throw_if_eq_Inr ok_event_def
  by (elim exE conjE) (drule sum.inject(2) [THEN iffD1], hypsubst, simp add: infra_reads)

lemma other_subject_iff:
  "\<not> other_subject p (ev_operationId e) (ev_organizationId e) (ev_tenantId e) (ev_generation e) (ev_desiredStateDigest e) \<longleftrightarrow>
     same_subject p e"
  by (auto simp: other_subject_def same_subject_def)

lemma check_events_iff:
  "check_events n previous prior es = Inr u \<longleftrightarrow>
     (case es of
        [] \<Rightarrow> True
      | e # _ \<Rightarrow> ev_sequence e = n \<and> ev_previousDigest e = previous \<and>
          pred_option (\<lambda>p. \<not> ev_terminal p \<and> same_subject p e) prior \<and> successively linked es)"
proof (induction n previous prior es rule: check_events.induct)
  case (1 n previous prior)
  then show ?case by simp
next
  case (2 n previous prior e es)
  have "(case prior of None \<Rightarrow> False
      | Some p \<Rightarrow> ev_terminal p \<or> other_subject p (ev_operationId e) (ev_organizationId e) (ev_tenantId e)
          (ev_generation e) (ev_desiredStateDigest e)) \<longleftrightarrow>
      \<not> pred_option (\<lambda>p. \<not> ev_terminal p \<and> same_subject p e) prior"
    using other_subject_iff by (cases prior) auto
  then show ?case
    using "2.IH" by (cases es) (auto simp: bind_r_eq_Inr throw_if_eq_Inr linked_def)
qed

definition page_ok :: "(string \<Rightarrow> string) \<Rightarrow> int \<Rightarrow> string option \<Rightarrow> operation_event list \<Rightarrow> bool" where
  "page_ok sha n previous es \<longleftrightarrow>
     es \<noteq> [] \<and> list_all (ok_event sha) es \<and> ev_sequence (hd es) = n \<and> ev_previousDigest (hd es) = previous \<and>
     successively linked es"

lemma check_page:
  "es \<noteq> [] \<Longrightarrow> check_events n previous None es = Inr u \<longleftrightarrow>
     ev_sequence (hd es) = n \<and> ev_previousDigest (hd es) = previous \<and> successively linked es"
  by (cases es) (simp_all add: check_events_iff del: check_events.simps)

theorem validate_enc:
  "validateInfrastructureOperationEvents sha (JArr (map enc_event es)) first previous = Inr fs \<longleftrightarrow>
     page_ok sha (case first of None \<Rightarrow> 1 | Some n \<Rightarrow> n) previous es \<and> fs = es"
proof (cases es)
  case Nil
  then show ?thesis by (simp add: validateInfrastructureOperationEvents_def page_ok_def)
next
  case (Cons e rest)
  have "map_ix (parseOperationEvent sha) 0 (map enc_event es) = Inr gs \<longleftrightarrow> (\<forall>e \<in> set es. ok_event sha e) \<and> gs = es" for gs
    by (rule map_ix_encoded) (rule event_enc)
  then have "validateInfrastructureOperationEvents sha (JArr (map enc_event es)) first previous = Inr fs \<longleftrightarrow>
      (\<exists>u. (\<forall>e \<in> set es. ok_event sha e) \<and> check_events (case first of None \<Rightarrow> 1 | Some n \<Rightarrow> n) previous None es = Inr u \<and> fs = es)"
    using Cons by (auto simp: validateInfrastructureOperationEvents_def bind_r_eq_Inr)
  moreover have "es \<noteq> []" using Cons by simp
  ultimately show ?thesis by (auto simp: check_page page_ok_def list_all_iff)
qed

lemma validate_sound:
  assumes "validateInfrastructureOperationEvents sha v first previous = Inr es"
  shows "page_ok sha (case first of None \<Rightarrow> 1 | Some n \<Rightarrow> n) previous es"
proof -
  from assms obtain w ws u where v: "v = JArr (w # ws)" and es: "map_ix (parseOperationEvent sha) 0 (w # ws) = Inr es"
    and check: "check_events (case first of None \<Rightarrow> 1 | Some n \<Rightarrow> n) previous None es = Inr u"
    unfolding validateInfrastructureOperationEvents_def bind_r_eq_Inr by (auto simp: bind_r_eq_Inr split: jsval.splits list.splits)
  from map_ix_length [OF es] have "es \<noteq> []" by auto
  moreover have "\<forall>e \<in> set es. ok_event sha e" by (rule map_ix_all [OF es]) (rule event_sound)
  ultimately show ?thesis using check by (auto simp: check_page page_ok_def list_all_iff)
qed

definition input_of :: "operation_event option \<Rightarrow> operation_event \<Rightarrow> event_input" where
  "input_of previous e =
     \<lparr>ein_protocolVersion = ev_protocolVersion e, ein_operationId = ev_operationId e,
      ein_organizationId = ev_organizationId e, ein_tenantId = ev_tenantId e, ein_eventId = ev_eventId e,
      ein_sequence = ev_sequence e, ein_phase = ev_phase e, ein_generation = ev_generation e,
      ein_desiredStateDigest = ev_desiredStateDigest e, ein_occurredAt = ev_occurredAt e,
      ein_reasonCodes = Some (ev_reasonCodes e), ein_previous = previous\<rparr>"

lemma ok_previous: "ok_event sha p \<Longrightarrow> is_sha_digest (ev_digest p)"
  unfolding ok_event_def by (elim conjE)

text \<open>Making an event again from its own fields succeeds exactly for a sound event that follows.\<close>

lemma create_first:
  assumes "\<And>t. is_sha_digest (sha t)"
  shows "createInfrastructureOperationEvent sha (input_of None e) = Inr e \<longleftrightarrow>
    ok_event sha e \<and> ev_sequence e = 1 \<and> ev_previousDigest e = None"
  by (cases e)
    (auto simp: createInfrastructureOperationEvent_def input_of_def ok_event_def infra_reads bind_r_eq_Inr
      throw_if_eq_Inr Let_def safe_positive_def assms event_text_def event_values_def)

lemma create_next:
  assumes "\<And>t. is_sha_digest (sha t)" "ok_event sha p"
  shows "createInfrastructureOperationEvent sha (input_of (Some p) e) = Inr e \<longleftrightarrow> ok_event sha e \<and> linked p e"
proof -
  have seq: "1 \<le> ev_sequence p" using assms(2) by (simp add: ok_event_def safe_positive_def)
  have d: "is_sha_digest (ev_digest p)" by (rule ok_previous [OF assms(2)])
  show ?thesis
    using seq d
    by (cases e)
      (auto simp: createInfrastructureOperationEvent_def input_of_def ok_event_def infra_reads bind_r_eq_Inr
        throw_if_eq_Inr Let_def safe_positive_def assms(1) linked_def same_subject_def other_subject_def
        event_text_def event_values_def)
qed

end
