(* ===== verification/JsonParse.thy ===== *)
theory JsonParse
  imports JsParse JsonText
begin

section \<open>Reading JSON and base64url\<close>

text \<open>
  \<open>JSON.parse\<close>, and the encoding \<open>base64url\<close> of \<open>Buffer\<close>.  \<open>json_value\<close> follows the grammar of JSON; its
  fuel bounds the number of nested calls, of which each after the first is made behind a character that was
  read, so twice the length of the text is enough.  A number is exact here, where JavaScript rounds it
  to a double; a character from 256 on, which the model's strings do not have, is read as \<open>0x1A\<close>.
\<close>

subsection \<open>JSON\<close>

definition json_space :: "char \<Rightarrow> bool" where
  "json_space c \<longleftrightarrow> c = CHR '' '' \<or> c = CHR 0x09 \<or> c = CHR 0x0A \<or> c = CHR 0x0D"

definition skip_space :: "string \<Rightarrow> string" where
  "skip_space s = dropWhile json_space s"

definition hex_value :: "char \<Rightarrow> nat option" where
  "hex_value c =
     (if is_digit c then Some (of_char c - 48)
      else if in_range CHR ''a'' CHR ''f'' c then Some (of_char c - 87)
      else if in_range CHR ''A'' CHR ''F'' c then Some (of_char c - 55)
      else None)"

definition hex4 :: "string \<Rightarrow> char option" where
  "hex4 s =
     (case map hex_value s of
        [Some a, Some b, Some c, Some d] \<Rightarrow>
          Some (if a = 0 \<and> b = 0 then char_of (16 * c + d) else CHR 0x1A)
      | _ \<Rightarrow> None)"

definition simple_escape :: "char \<Rightarrow> char option" where
  "simple_escape c =
     map_of [(CHR 0x22, CHR 0x22), (CHR 0x5C, CHR 0x5C), (CHR ''/'', CHR ''/''), (CHR ''b'', CHR 0x08),
             (CHR ''f'', CHR 0x0C), (CHR ''n'', CHR 0x0A), (CHR ''r'', CHR 0x0D), (CHR ''t'', CHR 0x09)] c"

text \<open>The rest of a string literal, after the opening quote.\<close>

fun json_chars :: "string \<Rightarrow> (string \<times> string) option" where
  "json_chars [] = None"
| "json_chars (c # s) =
     (if c = CHR 0x22 then Some ([], s)
      else if c = CHR 0x5C then
        (case s of
           [] \<Rightarrow> None
         | e # t \<Rightarrow>
             if e = CHR ''u'' then
               (case t of
                  h1 # h2 # h3 # h4 # u \<Rightarrow>
                    (case hex4 [h1, h2, h3, h4] of
                       None \<Rightarrow> None
                     | Some d \<Rightarrow> map_option (\<lambda>(w, r). (d # w, r)) (json_chars u))
                | _ \<Rightarrow> None)
             else
               (case simple_escape e of
                  None \<Rightarrow> None
                | Some d \<Rightarrow> map_option (\<lambda>(w, r). (d # w, r)) (json_chars t)))
      else if c < CHR 0x20 then None
      else map_option (\<lambda>(w, r). (c # w, r)) (json_chars s))"

text \<open>The value of \<open>digits * 10 ^ e\<close>.\<close>

definition scaled :: "bool \<Rightarrow> nat \<Rightarrow> int \<Rightarrow> string \<Rightarrow> jsnum" where
  "scaled neg m e text =
     (let sign = (if neg then -1 else 1) in
      if 0 \<le> e then NInt (sign * int m * 10 ^ nat e)
      else if m mod 10 ^ nat (- e) = 0 then NInt (sign * int (m div 10 ^ nat (- e)))
      else NFrac text)"

definition json_exponent :: "string \<Rightarrow> (int \<times> string) option" where
  "json_exponent s =
     (case s of
        c # t \<Rightarrow>
          if c = CHR ''e'' \<or> c = CHR ''E'' then
            (let neg = (t \<noteq> [] \<and> hd t = CHR ''-'');
                 u = (if t \<noteq> [] \<and> (hd t = CHR ''-'' \<or> hd t = CHR ''+'') then tl t else t);
                 ds = takeWhile is_digit u
             in if ds = [] then None
                else Some ((if neg then - 1 else 1) * int (digits_val 0 ds), dropWhile is_digit u))
          else Some (0, s)
      | [] \<Rightarrow> Some (0, s))"

definition json_number :: "string \<Rightarrow> (jsnum \<times> string) option" where
  "json_number s =
     (let neg = (s \<noteq> [] \<and> hd s = CHR ''-''); t = (if neg then tl s else s);
          ds = takeWhile is_digit t; u = dropWhile is_digit t
      in if ds = [] \<or> hd ds = CHR ''0'' \<and> length ds > 1 then None
         else
           (let point = (u \<noteq> [] \<and> hd u = CHR ''.''); fs = (if point then takeWhile is_digit (tl u) else []);
                w = (if point then dropWhile is_digit (tl u) else u)
            in if point \<and> fs = [] then None
               else
                 (case json_exponent w of
                    None \<Rightarrow> None
                  | Some (e, r) \<Rightarrow>
                      Some (scaled neg (digits_val 0 (ds @ fs)) (e - int (length fs)) (take (length s - length r) s), r))))"

definition json_word :: "string \<Rightarrow> (jsval \<times> string) option" where
  "json_word s =
     (if take 4 s = ''null'' then Some (JNull, drop 4 s)
      else if take 4 s = ''true'' then Some (JBool True, drop 4 s)
      else if take 5 s = ''false'' then Some (JBool False, drop 5 s)
      else map_option (\<lambda>(n, r). (JNum n, r)) (json_number s))"

text \<open>A value; the elements of an array and the members of an object, each from its first one on.\<close>

fun json_value :: "nat \<Rightarrow> string \<Rightarrow> (jsval \<times> string) option"
  and json_elements :: "nat \<Rightarrow> string \<Rightarrow> (jsval list \<times> string) option"
  and json_members :: "nat \<Rightarrow> string \<Rightarrow> (props \<times> string) option"
where
  "json_value 0 s = None"
| "json_value (Suc n) s =
     (case skip_space s of
        [] \<Rightarrow> None
      | c # t \<Rightarrow>
          if c = CHR ''{'' then
            (if take 1 (skip_space t) = ''}'' then Some (JObj [], tl (skip_space t))
             else map_option (\<lambda>(ps, r). (JObj (obj_from_entries ps), r)) (json_members n t))
          else if c = CHR ''['' then
            (if take 1 (skip_space t) = '']'' then Some (JArr [], tl (skip_space t))
             else map_option (\<lambda>(vs, r). (JArr vs, r)) (json_elements n t))
          else if c = CHR 0x22 then map_option (\<lambda>(w, r). (JStr w, r)) (json_chars t)
          else json_word (c # t))"
| "json_elements 0 s = None"
| "json_elements (Suc n) s =
     (case json_value n s of
        None \<Rightarrow> None
      | Some (v, r) \<Rightarrow>
          (case skip_space r of
             [] \<Rightarrow> None
           | c # t \<Rightarrow>
               if c = CHR '']'' then Some ([v], t)
               else if c = CHR '','' then map_option (\<lambda>(vs, r). (v # vs, r)) (json_elements n t)
               else None))"
| "json_members 0 s = None"
| "json_members (Suc n) s =
     (case skip_space s of
        [] \<Rightarrow> None
      | q # t \<Rightarrow>
          if q \<noteq> CHR 0x22 then None
          else
            (case json_chars t of
               None \<Rightarrow> None
             | Some (k, r) \<Rightarrow>
                 (case skip_space r of
                    [] \<Rightarrow> None
                  | c # u \<Rightarrow>
                      if c \<noteq> CHR '':'' then None
                      else
                        (case json_value n u of
                           None \<Rightarrow> None
                         | Some (v, r) \<Rightarrow>
                             (case skip_space r of
                                [] \<Rightarrow> None
                              | c # w \<Rightarrow>
                                  if c = CHR ''}'' then Some ([(k, v)], w)
                                  else if c = CHR '','' then map_option (\<lambda>(ps, r). ((k, v) # ps, r)) (json_members n w)
                                  else None)))))"

definition JSON_parse :: "string \<Rightarrow> jsval option" where
  "JSON_parse s =
     (case json_value (2 * length s + 2) s of
        None \<Rightarrow> None
      | Some (v, r) \<Rightarrow> if skip_space r = [] then Some v else None)"

subsection \<open>Flat objects read back\<close>

text \<open>A character that is printed as itself.\<close>

definition plain :: "char \<Rightarrow> bool" where
  "plain c \<longleftrightarrow> c \<noteq> CHR 0x22 \<and> c \<noteq> CHR 0x5C \<and> \<not> c < CHR 0x20"

lemma plain_escape: "plain c \<Longrightarrow> json_escape c = [c]"
proof -
  assume c: "plain c"
  have "\<forall>d \<in> set [CHR 0x08, CHR 0x09, CHR 0x0A, CHR 0x0C, CHR 0x0D]. d < CHR 0x20" by code_simp
  with c show ?thesis by (auto simp: json_escape_def plain_def)
qed

lemma plain_body: "list_all plain s \<Longrightarrow> concat (map json_escape s) = s"
  by (induction s) (simp_all add: plain_escape)

lemma plain_string: "list_all plain s \<Longrightarrow> json_string s = CHR 0x22 # s @ [CHR 0x22]"
  by (simp add: json_string_def plain_body)

lemma json_chars_plain: "list_all plain s \<Longrightarrow> json_chars (s @ CHR 0x22 # r) = Some (s, r)"
  by (induction s) (auto simp: plain_def)

lemma skip_stop: "\<not> json_space c \<Longrightarrow> skip_space (c # s) = c # s"
  by (simp add: skip_space_def)

lemma spaces [simp]: "\<not> json_space CHR ''{''" "\<not> json_space CHR 0x22" "\<not> json_space CHR '':''"
  "\<not> json_space CHR '',''" "\<not> json_space CHR ''}''" "\<not> json_space CHR '']''"
  by (simp_all add: json_space_def)

lemma nat_dec_nonzero: "0 < n \<Longrightarrow> hd (nat_dec n) \<noteq> CHR ''0''"
proof (induction n rule: nat_dec.induct)
  case (1 n)
  show ?case
  proof (cases "n < 10")
    case True
    have "\<forall>k \<in> set [1..<10]. char_of (48 + k :: nat) \<noteq> CHR ''0''" by code_simp
    with True "1.prems" show ?thesis by (subst nat_dec.simps) simp
  next
    case False
    then have "hd (nat_dec (n div 10)) \<noteq> CHR ''0''" using "1.IH" by simp
    with False show ?thesis by (subst nat_dec.simps) (simp add: hd_append)
  qed
qed

lemma json_number_nat:
  assumes "0 < n" "delimiter d"
  shows "json_number (nat_dec n @ d # r) = Some (NInt (int n), d # r)"
proof -
  have digits: "takeWhile is_digit (nat_dec n @ d # r) = nat_dec n" "dropWhile is_digit (nat_dec n @ d # r) = d # r"
    using nat_dec_digits [of n] delimiter_not_digit [OF assms(2)]
    by (auto simp: takeWhile_append dropWhile_append list_all_iff)
  obtain c cs where c: "nat_dec n = c # cs" by (cases "nat_dec n") auto
  have "is_digit c" using nat_dec_head [OF c] .
  then have sign: "hd (nat_dec n @ d # r) \<noteq> CHR ''-''"
    by (auto simp: c is_digit_def less_eq_char_def)
  have d: "d \<noteq> CHR ''.''" "d \<noteq> CHR ''e''" "d \<noteq> CHR ''E''"
    using assms(2) by (auto simp: delimiter_def)
  have "json_exponent (d # r) = Some (0, d # r)"
    using d by (simp add: json_exponent_def)
  then show ?thesis
    using digits sign d nat_dec_nonzero [OF assms(1)]
    by (simp add: json_number_def Let_def scaled_def digits_val_nat_dec)
qed

lemma json_word_nat:
  assumes "0 < n" "delimiter d"
  shows "json_word (nat_dec n @ d # r) = Some (JNum (NInt (int n)), d # r)"
proof -
  obtain c cs where c: "nat_dec n = c # cs" by (cases "nat_dec n") auto
  have "is_digit c" using nat_dec_head [OF c] .
  then have "c \<noteq> CHR ''n''" "c \<noteq> CHR ''t''" "c \<noteq> CHR ''f''" by (auto simp: is_digit_def less_eq_char_def)
  then show ?thesis
    using json_number_nat [OF assms] by (simp add: json_word_def c)
qed

text \<open>The values of the objects that are read back: plain strings and positive integers.\<close>

fun plain_value :: "jsval \<Rightarrow> bool" where
  "plain_value (JStr s) = list_all plain s"
| "plain_value (JNum (NInt i)) = (0 < i)"
| "plain_value v = False"

lemma json_value_plain:
  assumes "plain_value v" "delimiter d"
  shows "json_value (Suc n) (stableJson v @ d # r) = Some (v, d # r)"
proof (cases v rule: plain_value.cases)
  case (1 s)
  with assms show ?thesis by (simp add: plain_string skip_stop json_chars_plain)
next
  case (2 i)
  then have i: "0 < nat i" "int_dec i = nat_dec (nat i)" using assms(1) by (auto simp: int_dec_def)
  obtain c cs where c: "nat_dec (nat i) = c # cs" by (cases "nat_dec (nat i)") auto
  have digit: "is_digit c" using nat_dec_head [OF c] .
  then have "\<not> json_space c" "c \<noteq> CHR ''{''" "c \<noteq> CHR ''[''" "c \<noteq> CHR 0x22"
    by (auto simp: is_digit_def less_eq_char_def json_space_def)
  then show ?thesis
    using json_word_nat [OF i(1) assms(2), of r] 2 i by (simp add: json_num_def c skip_stop)
qed (use assms in auto)

definition member_text :: "string \<times> jsval \<Rightarrow> string" where
  "member_text e = json_string (fst e) @ CHR '':'' # stableJson (snd e)"

lemma json_members_plain:
  assumes "ps \<noteq> []" "length ps < n" "\<forall>(k, v) \<in> set ps. list_all plain k \<and> plain_value v"
  shows "json_members n (comma_join (map member_text ps) @ CHR ''}'' # r) = Some (ps, r)"
  using assms
proof (induction ps arbitrary: n)
  case Nil
  then show ?case by simp
next
  case (Cons e ps)
  obtain k v where e: "e = (k, v)" by (cases e)
  obtain m where n: "n = Suc (Suc m)" using Cons.prems(2) by (cases n; cases "n - 1") auto
  have kv: "list_all plain k" "plain_value v" using Cons.prems(3) e by auto
  show ?case
  proof (cases ps)
    case Nil
    have "json_value (Suc m) (stableJson v @ CHR ''}'' # r) = Some (v, CHR ''}'' # r)"
      by (rule json_value_plain [OF kv(2)]) (simp add: delimiter_def)
    with Nil e n kv show ?thesis
      by (simp add: comma_join_def member_text_def plain_string skip_stop json_chars_plain del: json_value.simps)
  next
    case (Cons f qs)
    define rest where "rest = comma_join (map member_text ps) @ CHR ''}'' # r"
    have split: "comma_join (map member_text (e # ps)) @ CHR ''}'' # r = member_text e @ CHR '','' # rest"
      by (simp add: Cons comma_join_def rest_def)
    have "json_value (Suc m) (stableJson v @ CHR '','' # rest) = Some (v, CHR '','' # rest)"
      by (rule json_value_plain [OF kv(2)]) (simp add: delimiter_def)
    moreover have "json_members (Suc m) rest = Some (ps, r)"
      unfolding rest_def using Cons.IH [of "Suc m"] Cons.prems Cons n by auto
    ultimately show ?thesis
      using e n kv unfolding split
      by (simp add: member_text_def plain_string skip_stop json_chars_plain del: json_value.simps)
  qed
qed

end
