(* ===== verification/InfraCursor.thy ===== *)
theory InfraCursor
  imports InfraMessages JsonParse
begin

section \<open>The infrastructure controller protocol: watch cursors\<close>

text \<open>
  A cursor is \<open>v1.<payload>.<signature>\<close>, both parts in base64url; the payload is the canonical JSON of a
  \<open>cursor_value\<close>.  Bytes are characters.  Parameters: \<open>hmac key text\<close> is HMAC-SHA-256 of \<open>node:crypto\<close>, and
  \<open>utf8_text\<close> is \<open>Buffer.toString("utf8")\<close>, which is the identity on ASCII.
\<close>

subsection \<open>Base64url\<close>

definition sextet_char :: "nat \<Rightarrow> char" where
  "sextet_char n =
     (if n < 26 then char_of (65 + n) else if n < 52 then char_of (71 + n)
      else if n < 62 then char_of (n - 4) else if n = 62 then CHR ''-'' else CHR ''_'')"

definition char_sextet :: "char \<Rightarrow> nat" where
  "char_sextet c =
     (if is_digit c then of_char c + 4 else if in_range CHR ''A'' CHR ''Z'' c then of_char c - 65
      else if in_range CHR ''a'' CHR ''z'' c then of_char c - 71 else if c = CHR ''-'' then 62 else 63)"

text \<open>On bytes as numbers below 256.\<close>

fun encode_sextets :: "nat list \<Rightarrow> nat list" where
  "encode_sextets [] = []"
| "encode_sextets [a] = [a div 4, a mod 4 * 16]"
| "encode_sextets [a, b] = [a div 4, a mod 4 * 16 + b div 16, b mod 16 * 4]"
| "encode_sextets (a # b # c # bs) =
     [a div 4, a mod 4 * 16 + b div 16, b mod 16 * 4 + c div 64, c mod 64] @ encode_sextets bs"

fun decode_sextets :: "nat list \<Rightarrow> nat list" where
  "decode_sextets [] = []"
| "decode_sextets [x] = []"
| "decode_sextets [x, y] = [x * 4 + y div 16]"
| "decode_sextets [x, y, z] = [x * 4 + y div 16, y mod 16 * 16 + z div 4]"
| "decode_sextets (x # y # z # w # s) =
     [x * 4 + y div 16, y mod 16 * 16 + z div 4, z mod 4 * 64 + w] @ decode_sextets s"

definition base64url_encode :: "string \<Rightarrow> string" where
  "base64url_encode bs = map sextet_char (encode_sextets (map of_char bs))"

text \<open>\<open>Buffer.from(s, "base64url")\<close> for a string of the alphabet.\<close>

definition base64url_decode :: "string \<Rightarrow> string" where
  "base64url_decode s = map char_of (decode_sextets (map char_sextet s))"

lemma sextet_round: "n < 64 \<Longrightarrow> char_sextet (sextet_char n) = n"
  by (auto simp: sextet_char_def char_sextet_def is_digit_def in_range_def less_eq_char_def)

lemma sextet_alphabet: "n < 64 \<Longrightarrow> base64url_char (sextet_char n)"
  by (auto simp: sextet_char_def base64url_char_def id_first_def is_digit_def in_range_def less_eq_char_def)

lemma encode_sextets_small: "list_all (\<lambda>b. b < 256) bs \<Longrightarrow> list_all (\<lambda>x. x < 64) (encode_sextets bs)"
proof (induction bs rule: encode_sextets.induct)
  case (4 a b c bs)
  then have "a mod 4 * 16 + b div 16 < 64" "b mod 16 * 4 + c div 64 < 64" "a div 4 < 64"
    using mod_less_divisor [of 4 a] mod_less_divisor [of 16 b] by auto
  with 4 show ?case by simp
next
  case (3 a b)
  then have "a mod 4 * 16 + b div 16 < 64" "b mod 16 * 4 < 64" "a div 4 < 64"
    using mod_less_divisor [of 4 a] mod_less_divisor [of 16 b] by auto
  then show ?case by simp
next
  case (2 a)
  then have "a mod 4 * 16 < 64" "a div 4 < 64" using mod_less_divisor [of 4 a] by auto
  then show ?case by simp
qed simp

lemma sextets_round: "list_all (\<lambda>b. b < 256) bs \<Longrightarrow> decode_sextets (encode_sextets bs) = bs"
proof (induction bs rule: encode_sextets.induct)
  case (4 a b c bs)
  have "a div 4 * 4 + (a mod 4 * 16 + b div 16) div 16 = a"
    "(a mod 4 * 16 + b div 16) mod 16 * 16 + (b mod 16 * 4 + c div 64) div 4 = b"
    "(b mod 16 * 4 + c div 64) mod 4 * 64 + c mod 64 = c"
    using "4.prems" by (auto simp: div_mult_mod_eq mod_mult_div_eq)
  with 4 show ?case by simp
next
  case (3 a b)
  have "a div 4 * 4 + (a mod 4 * 16 + b div 16) div 16 = a"
    "(a mod 4 * 16 + b div 16) mod 16 * 16 + (b mod 16 * 4) div 4 = b"
    using "3.prems" by (auto simp: div_mult_mod_eq)
  then show ?case by simp
qed simp_all

lemma bytes_small: "list_all (\<lambda>b. b < 256) (map of_char (s :: string) :: nat list)"
  by (simp add: list_all_iff nat_of_char_less_256)

theorem base64url_round: "base64url_decode (base64url_encode s) = s"
proof -
  have "map char_sextet (map sextet_char xs) = xs" if "list_all (\<lambda>x. x < 64) xs" for xs
    using that by (induction xs) (simp_all add: sextet_round)
  then show ?thesis
    using encode_sextets_small [OF bytes_small [of s]] sextets_round [OF bytes_small [of s]]
    by (simp add: base64url_encode_def base64url_decode_def comp_def)
qed

lemma base64url_alphabet: "list_all base64url_char (base64url_encode s)"
  using encode_sextets_small [OF bytes_small [of s]]
  by (auto simp: base64url_encode_def list_all_iff sextet_alphabet)

lemma length_encode_sextets: "3 * length (encode_sextets bs) \<le> 4 * length bs + 4"
  by (induction bs rule: encode_sextets.induct) auto

lemma length_base64url: "3 * length (base64url_encode s) \<le> 4 * length s + 4"
  using length_encode_sextets [of "map of_char s"] by (simp add: base64url_encode_def)

lemma base64url_Nil [simp]: "base64url_encode s = [] \<longleftrightarrow> s = []"
  by (cases "map of_char s :: nat list" rule: encode_sextets.cases) (auto simp: base64url_encode_def)

subsection \<open>Cursors\<close>

record cursor_subject =
  csb_organizationId :: string
  csb_tenantId :: string
  csb_operationId :: string

record cursor_value = cursor_subject +
  csv_nextSequence :: int
  csv_expiresAt :: int

datatype signing_key = KeyText string | KeyBytes string

definition utf8_bytes :: "string \<Rightarrow> string" where
  "utf8_bytes s = concat (map (\<lambda>c. if c < CHR 0x80 then [c]
     else [char_of (192 + (of_char c :: nat) div 64), char_of (128 + (of_char c :: nat) mod 64)]) s)"

definition cursor_keys :: "string list" where
  "cursor_keys = [''organizationId'', ''tenantId'', ''operationId'', ''nextSequence'', ''expiresAtEpochSeconds'']"

definition cursor_values :: "cursor_value \<Rightarrow> jsval list" where
  "cursor_values x =
     [JStr (csb_organizationId x), JStr (csb_tenantId x), JStr (csb_operationId x), JNum (NInt (csv_nextSequence x)),
      JNum (NInt (csv_expiresAt x))]"

definition enc_cursor :: "cursor_value \<Rightarrow> jsval" where
  "enc_cursor x = JObj (zip cursor_keys (cursor_values x))"

definition validateCursorValue :: "jsval \<Rightarrow> protocol_error + cursor_value" where
  "validateCursorValue v =
     bind_r (protocolExactObject v ''cursorPayload'' cursor_keys) (\<lambda>root.
     bind_r (protocolIdentifier (js_get root ''organizationId'') ''cursorPayload.organizationId'') (\<lambda>org.
     bind_r (protocolIdentifier (js_get root ''tenantId'') ''cursorPayload.tenantId'') (\<lambda>tenant.
     bind_r (protocolIdentifier (js_get root ''operationId'') ''cursorPayload.operationId'') (\<lambda>operation.
     bind_r (protocolPositive (js_get root ''nextSequence'') ''cursorPayload.nextSequence'') (\<lambda>n.
     bind_r (protocolPositive (js_get root ''expiresAtEpochSeconds'') ''cursorPayload.expiresAtEpochSeconds'') (\<lambda>e.
     Inr \<lparr>csb_organizationId = org, csb_tenantId = tenant, csb_operationId = operation, csv_nextSequence = n,
          csv_expiresAt = e\<rparr>))))))"

definition cursorSigningKey :: "signing_key \<Rightarrow> protocol_error + string" where
  "cursorSigningKey k =
     (let bytes = (case k of KeyText s \<Rightarrow> utf8_bytes s | KeyBytes b \<Rightarrow> b)
      in if length bytes < 32
         then Inl (InfrastructureProtocolError ''INFRA_PROTOCOL_INTERNAL''
                ''The cursor signing key must contain at least 32 bytes.'')
         else Inr bytes)"

definition cursor_invalid :: protocol_error where
  "cursor_invalid = InfrastructureProtocolError ''INFRA_PROTOCOL_CURSOR_INVALID'' ''The operation cursor is invalid.''"

definition decodeBase64Url :: "string \<Rightarrow> protocol_error + string" where
  "decodeBase64Url s =
     bind_r (throw_if (\<not> rx_test (rx_plus (RCls base64url_char)) s) cursor_invalid) (\<lambda>_.
     let decoded = base64url_decode s in
     if base64url_encode decoded \<noteq> s then Inl cursor_invalid else Inr decoded)"

definition createInfrastructureOperationCursor ::
  "(string \<Rightarrow> string \<Rightarrow> string) \<Rightarrow> cursor_value \<Rightarrow> signing_key \<Rightarrow> protocol_error + string"
where
  "createInfrastructureOperationCursor hmac x signingKey =
     bind_r (validateCursorValue (enc_cursor x)) (\<lambda>payload.
     bind_r (cursorSigningKey signingKey) (\<lambda>key.
     let encoded = base64url_encode (utf8_bytes (stableJson (enc_cursor payload)));
         signature = base64url_encode (hmac key encoded)
     in Inr (''v1.'' @ encoded @ ''.'' @ signature)))"

text \<open>\<open>encodedCursor.split(".")\<close>\<close>

fun split_dots :: "string \<Rightarrow> string list" where
  "split_dots [] = [[]]"
| "split_dots (c # s) =
     (if c = CHR ''.'' then [] # split_dots s
      else (case split_dots s of [] \<Rightarrow> [[c]] | p # ps \<Rightarrow> (c # p) # ps))"

definition verifyInfrastructureOperationCursor ::
  "(string \<Rightarrow> string \<Rightarrow> string) \<Rightarrow> (string \<Rightarrow> string) \<Rightarrow> jsval \<Rightarrow> signing_key \<Rightarrow> cursor_subject \<Rightarrow> int \<Rightarrow>
   protocol_error + cursor_value"
where
  "verifyInfrastructureOperationCursor hmac utf8_text v signingKey expected now =
     bind_r (cursor v ''cursor'') (\<lambda>encodedCursor.
     (case split_dots encodedCursor of
        [version, encodedPayload, encodedSignature] \<Rightarrow>
          bind_r (throw_if (version \<noteq> ''v1'') cursor_invalid) (\<lambda>_.
          bind_r (decodeBase64Url encodedSignature) (\<lambda>supplied.
          bind_r (cursorSigningKey signingKey) (\<lambda>key.
          bind_r (throw_if (length supplied \<noteq> length (hmac key encodedPayload) \<or> supplied \<noteq> hmac key encodedPayload)
            cursor_invalid) (\<lambda>_.
          bind_r (case JSON_parse (utf8_text (base64url_decode encodedPayload)) of
                    None \<Rightarrow> Inl cursor_invalid | Some decoded \<Rightarrow> Inr decoded) (\<lambda>decoded.
          bind_r (validateCursorValue decoded) (\<lambda>payload.
          bind_r (protocolIdentifier (JStr (csb_organizationId expected)) ''expected.organizationId'') (\<lambda>org.
          bind_r (protocolIdentifier (JStr (csb_tenantId expected)) ''expected.tenantId'') (\<lambda>tenant.
          bind_r (protocolIdentifier (JStr (csb_operationId expected)) ''expected.operationId'') (\<lambda>operation.
          bind_r (throw_if (csb_organizationId payload \<noteq> org \<or> csb_tenantId payload \<noteq> tenant \<or>
              csb_operationId payload \<noteq> operation)
            (InfrastructureProtocolError ''INFRA_PROTOCOL_CURSOR_SUBJECT_MISMATCH''
              ''The operation cursor is not bound to the requested subject.'')) (\<lambda>_.
          bind_r (protocolPositive (JNum (NInt now)) ''nowEpochSeconds'') (\<lambda>now.
          bind_r (throw_if (csv_expiresAt payload \<le> now)
            (InfrastructureProtocolError ''INFRA_PROTOCOL_CURSOR_EXPIRED'' ''The operation cursor has expired.'')) (\<lambda>_.
          Inr payload))))))))))))
      | _ \<Rightarrow> Inl cursor_invalid))"

end
