(* ===== verification/InfraCursorLaws.thy ===== *)
theory InfraCursorLaws
  imports InfraCursor
begin

section \<open>The infrastructure controller protocol: cursors read back\<close>

text \<open>
  The text of a payload is flat JSON in ASCII, so it survives \<open>base64url\<close>, UTF-8 and \<open>JSON.parse\<close>; the
  properties come back in sorted order, which the reader by name does not see.  \<open>cursor_of\<close> takes a
  verified cursor apart.
\<close>

subsection \<open>Payloads\<close>

definition ok_cursor_value :: "cursor_value \<Rightarrow> bool" where
  "ok_cursor_value x \<longleftrightarrow>
     is_exact_id (csb_organizationId x) \<and> is_exact_id (csb_tenantId x) \<and> is_exact_id (csb_operationId x) \<and>
     safe_positive (csv_nextSequence x) \<and> safe_positive (csv_expiresAt x)"

definition ok_subject :: "cursor_subject \<Rightarrow> bool" where
  "ok_subject s \<longleftrightarrow>
     is_exact_id (csb_organizationId s) \<and> is_exact_id (csb_tenantId s) \<and> is_exact_id (csb_operationId s)"

definition subject_of :: "cursor_value \<Rightarrow> cursor_subject" where
  "subject_of x =
     \<lparr>csb_organizationId = csb_organizationId x, csb_tenantId = csb_tenantId x, csb_operationId = csb_operationId x\<rparr>"

definition sorted_entries :: "cursor_value \<Rightarrow> props" where
  "sorted_entries x =
     [(''expiresAtEpochSeconds'', JNum (NInt (csv_expiresAt x))), (''nextSequence'', JNum (NInt (csv_nextSequence x))),
      (''operationId'', JStr (csb_operationId x)), (''organizationId'', JStr (csb_organizationId x)),
      (''tenantId'', JStr (csb_tenantId x))]"

lemma cursor_key_order: "key_order cursor_keys = [4, 3, 2, 0, 1]"
  by code_simp

lemma cursor_text: "stableJson (enc_cursor x) = ''{'' @ comma_join (map member_text (sorted_entries x)) @ ''}''"
proof -
  have "length cursor_keys = length (cursor_values x)" by (simp add: cursor_keys_def cursor_values_def)
  then have "stableJson (enc_cursor x) = ''{'' @ comma_join (entry_texts cursor_keys (cursor_values x) [4, 3, 2, 0, 1]) @ ''}''"
    by (simp only: enc_cursor_def stable_object cursor_key_order)
  moreover have "entry_texts cursor_keys (cursor_values x) [4, 3, 2, 0, 1] = map member_text (sorted_entries x)"
    by (simp add: entry_texts_def member_text_def sorted_entries_def cursor_keys_def cursor_values_def)
  ultimately show ?thesis by (simp only:)
qed

lemma validate_sorted: "validateCursorValue (JObj (sorted_entries x)) = Inr y \<longleftrightarrow> ok_cursor_value x \<and> y = x"
  by (cases x) (auto simp: validateCursorValue_def sorted_entries_def ok_cursor_value_def cursor_keys_def infra_reads
      bind_r_eq_Inr)

lemma validate_cursor_enc: "validateCursorValue (enc_cursor x) = Inr y \<longleftrightarrow> ok_cursor_value x \<and> y = x"
  by (cases x) (auto simp: validateCursorValue_def enc_cursor_def cursor_values_def ok_cursor_value_def cursor_keys_def
      infra_reads bind_r_eq_Inr)

lemma validate_cursor_sound: "validateCursorValue v = Inr x \<Longrightarrow> ok_cursor_value x"
  unfolding validateCursorValue_def bind_r_eq_Inr ok_cursor_value_def
  by (elim exE conjE) (drule sum.inject(2) [THEN iffD1], hypsubst, simp add: infra_reads)

subsection \<open>The text is ASCII and short\<close>

definition ascii :: "char \<Rightarrow> bool" where
  "ascii c \<longleftrightarrow> c < CHR 0x80"

lemma id_char_plain: "id_char c \<Longrightarrow> plain c \<and> ascii c"
  by (auto simp: id_char_def id_first_def in_range_def is_digit_def plain_def ascii_def less_eq_char_def less_char_def)

lemma digit_ascii: "is_digit c \<Longrightarrow> ascii c"
  by (auto simp: is_digit_def ascii_def less_eq_char_def less_char_def)

lemma exact_id_plain: "is_exact_id s \<Longrightarrow> list_all plain s \<and> list_all ascii s \<and> length s \<le> 128"
  using id_char_plain by (auto simp: is_exact_id_def exact_id_iff list_all_iff)

lemma cursor_plain: "ok_cursor_value x \<Longrightarrow> \<forall>(k, v) \<in> set (sorted_entries x). list_all plain k \<and> plain_value v"
proof -
  have keys: "list_all (list_all plain) (map fst (sorted_entries x))"
    unfolding sorted_entries_def by (simp add: plain_def less_char_def)
  assume "ok_cursor_value x"
  with keys show ?thesis
    by (auto simp: sorted_entries_def ok_cursor_value_def safe_positive_def dest: exact_id_plain)
qed

lemma nat_dec_short: "n < 10 ^ Suc k \<Longrightarrow> length (nat_dec n) \<le> Suc k"
proof (induction k arbitrary: n)
  case 0
  then show ?case by (subst nat_dec.simps) simp
next
  case (Suc k)
  show ?case
  proof (cases "n < 10")
    case True
    then show ?thesis by (subst nat_dec.simps) simp
  next
    case False
    from Suc.prems have "n div 10 < 10 ^ Suc k" by (simp add: less_mult_imp_div_less)
    with Suc.IH False show ?thesis by (subst nat_dec.simps) simp
  qed
qed

lemma safe_text:
  assumes "safe_positive i"
  shows "stableJson (JNum (NInt i)) = nat_dec (nat i)" "length (nat_dec (nat i)) \<le> 16" "list_all ascii (nat_dec (nat i))"
proof -
  have "nat i < 10 ^ Suc 15" using assms by (simp add: safe_positive_def MAX_SAFE_def nat_less_iff)
  from nat_dec_short [OF this] show "length (nat_dec (nat i)) \<le> 16" by simp
  show "stableJson (JNum (NInt i)) = nat_dec (nat i)"
    using assms by (simp add: json_num_def int_dec_def safe_positive_def)
  show "list_all ascii (nat_dec (nat i))"
    using nat_dec_digits [of "nat i"] by (auto simp: list_all_iff digit_ascii)
qed

lemma cursor_text_explicit:
  assumes "ok_cursor_value x"
  shows "stableJson (enc_cursor x) =
    ''{'' @ CHR 0x22 # ''expiresAtEpochSeconds'' @ CHR 0x22 # '':'' @ nat_dec (nat (csv_expiresAt x)) @
    '','' @ CHR 0x22 # ''nextSequence'' @ CHR 0x22 # '':'' @ nat_dec (nat (csv_nextSequence x)) @
    '','' @ CHR 0x22 # ''operationId'' @ CHR 0x22 # '':'' @ CHR 0x22 # csb_operationId x @ CHR 0x22 #
    '','' @ CHR 0x22 # ''organizationId'' @ CHR 0x22 # '':'' @ CHR 0x22 # csb_organizationId x @ CHR 0x22 #
    '','' @ CHR 0x22 # ''tenantId'' @ CHR 0x22 # '':'' @ CHR 0x22 # csb_tenantId x @ CHR 0x22 # ''}''"
proof -
  have ids: "list_all plain (csb_operationId x)" "list_all plain (csb_organizationId x)" "list_all plain (csb_tenantId x)"
    using assms exact_id_plain by (auto simp: ok_cursor_value_def)
  have keys: "list_all (list_all plain) (map fst (sorted_entries x))"
    unfolding sorted_entries_def by (simp add: plain_def less_char_def)
  show ?thesis
    using assms ids keys unfolding cursor_text
    by (simp add: sorted_entries_def comma_join_def member_text_def plain_string safe_text(1) ok_cursor_value_def
        del: stableJson.simps) (simp add: plain_string)
qed

lemma cursor_ascii: "ok_cursor_value x \<Longrightarrow> list_all ascii (stableJson (enc_cursor x)) \<and> length (stableJson (enc_cursor x)) \<le> 600"
proof -
  assume ok: "ok_cursor_value x"
  have punct: "list_all ascii (CHR 0x22 # ''{}:,expiresAtEpochSecondsnextSequenceoperationIdorganizationIdtenantId'')"
    by code_simp
  have ids: "list_all ascii (csb_operationId x)" "list_all ascii (csb_organizationId x)" "list_all ascii (csb_tenantId x)"
    "length (csb_operationId x) \<le> 128" "length (csb_organizationId x) \<le> 128" "length (csb_tenantId x) \<le> 128"
    using ok exact_id_plain by (auto simp: ok_cursor_value_def)
  have nums: "list_all ascii (nat_dec (nat (csv_expiresAt x)))" "list_all ascii (nat_dec (nat (csv_nextSequence x)))"
    "length (nat_dec (nat (csv_expiresAt x))) \<le> 16" "length (nat_dec (nat (csv_nextSequence x))) \<le> 16"
    using ok safe_text by (auto simp: ok_cursor_value_def)
  show ?thesis
    unfolding cursor_text_explicit [OF ok] using punct ids nums by simp
qed

lemma utf8_bytes_ascii: "list_all ascii s \<Longrightarrow> utf8_bytes s = s"
  by (induction s) (simp_all add: utf8_bytes_def ascii_def)

subsection \<open>The payload survives\<close>

lemma sorted_entries_object: "obj_from_entries (sorted_entries x) = sorted_entries x"
proof -
  have "obj_keys (sorted_entries x) = [''expiresAtEpochSeconds'', ''nextSequence'', ''operationId'', ''organizationId'', ''tenantId'']"
    by (simp add: sorted_entries_def obj_keys_def)
  moreover have "sorted_wrt key_before [''expiresAtEpochSeconds'', ''nextSequence'', ''operationId'', ''organizationId'', ''tenantId'']"
    by code_simp
  ultimately have "obj_wf (sorted_entries x)" by (simp add: obj_wf_def)
  then show ?thesis by (rule obj_from_entries_wf)
qed

theorem JSON_parse_cursor:
  assumes "ok_cursor_value x"
  shows "JSON_parse (stableJson (enc_cursor x)) = Some (JObj (sorted_entries x))"
proof -
  define body where "body = comma_join (map member_text (sorted_entries x)) @ ''}''"
  define n where "n = 2 * length (stableJson (enc_cursor x)) + 1"
  have shape: "stableJson (enc_cursor x) = CHR ''{'' # body" by (simp add: cursor_text body_def)
  have len: "5 \<le> length body"
    by (simp add: body_def sorted_entries_def comma_join_def member_text_def json_string_def)
  have members: "json_members n body = Some (sorted_entries x, [])"
    unfolding body_def using cursor_plain [OF assms] len
    by (intro json_members_plain) (auto simp: sorted_entries_def n_def shape)
  have quote: "\<exists>t. body = CHR 0x22 # t"
    by (simp add: body_def sorted_entries_def comma_join_def member_text_def json_string_def)
  then have "take 1 (skip_space body) \<noteq> ''}''" by (auto simp: skip_stop)
  then have "json_value (Suc n) (CHR ''{'' # body) = Some (JObj (sorted_entries x), [])"
    using members by (simp add: skip_stop sorted_entries_object)
  then show ?thesis
    by (simp add: JSON_parse_def n_def shape skip_space_def del: json_value.simps)
qed

subsection \<open>Taking a cursor apart\<close>

lemma split_dots_none: "CHR ''.'' \<notin> set s \<Longrightarrow> split_dots s = [s]"
  by (induction s) auto

lemma split_dots_append: "CHR ''.'' \<notin> set p \<Longrightarrow> split_dots (p @ CHR ''.'' # s) = p # split_dots s"
  by (induction p) auto

lemma alphabet_no_dot: "list_all base64url_char s \<Longrightarrow> CHR ''.'' \<notin> set s"
  by (auto simp: list_all_iff base64url_char_def id_first_def in_range_def is_digit_def less_eq_char_def)

lemma is_cursor_iff:
  "is_cursor c \<longleftrightarrow> length c \<le> 2048 \<and>
     (\<exists>p s. c = ''v1.'' @ p @ ''.'' @ s \<and> p \<noteq> [] \<and> s \<noteq> [] \<and> list_all base64url_char p \<and> list_all base64url_char s)"
  by (simp only: is_cursor_def cursor_rx_def rx_test_seq rx_test_str rx_char_def rx_test_cls rx_test_plus_cls) auto

lemma split_cursor:
  assumes "list_all base64url_char p" "list_all base64url_char s"
  shows "split_dots (''v1.'' @ p @ ''.'' @ s) = [''v1'', p, s]"
proof -
  have "split_dots (''v1'' @ CHR ''.'' # (p @ CHR ''.'' # s)) = ''v1'' # split_dots (p @ CHR ''.'' # s)"
    by (rule split_dots_append) simp
  also have "split_dots (p @ CHR ''.'' # s) = p # split_dots s"
    by (rule split_dots_append [OF alphabet_no_dot [OF assms(1)]])
  also have "split_dots s = [s]" by (rule split_dots_none [OF alphabet_no_dot [OF assms(2)]])
  finally show ?thesis by simp
qed

lemma decodeBase64Url_iff:
  "decodeBase64Url s = Inr b \<longleftrightarrow> s \<noteq> [] \<and> list_all base64url_char s \<and> base64url_encode b = s \<and> base64url_decode s = b"
  by (auto simp: decodeBase64Url_def Let_def result_simps rx_test_plus_cls split: if_splits)

lemma decodeBase64Url_signature: "b \<noteq> [] \<Longrightarrow> decodeBase64Url (base64url_encode b) = Inr b"
  by (simp add: decodeBase64Url_iff base64url_alphabet base64url_round)

definition key_bytes :: "signing_key \<Rightarrow> string" where
  "key_bytes k = (case k of KeyText s \<Rightarrow> utf8_bytes s | KeyBytes b \<Rightarrow> b)"

lemma cursorSigningKey_iff: "cursorSigningKey k = Inr b \<longleftrightarrow> b = key_bytes k \<and> 32 \<le> length b"
  by (auto simp: cursorSigningKey_def key_bytes_def Let_def)

definition payload_text :: "cursor_value \<Rightarrow> string" where
  "payload_text x = base64url_encode (stableJson (enc_cursor x))"

lemma create_cursor_iff:
  "createInfrastructureOperationCursor hmac x k = Inr c \<longleftrightarrow>
     ok_cursor_value x \<and> 32 \<le> length (key_bytes k) \<and>
     c = ''v1.'' @ payload_text x @ ''.'' @ base64url_encode (hmac (key_bytes k) (payload_text x))"
  using cursor_ascii [of x] utf8_bytes_ascii
  by (auto simp: createInfrastructureOperationCursor_def bind_r_eq_Inr validate_cursor_enc cursorSigningKey_iff
      payload_text_def Let_def)

text \<open>What a verified cursor is.\<close>

lemma verify_cursor_iff:
  "verifyInfrastructureOperationCursor hmac utf8_text v k subject now = Inr x \<longleftrightarrow>
     (\<exists>p. v = JStr (''v1.'' @ p @ ''.'' @ base64url_encode (hmac (key_bytes k) p)) \<and>
        is_cursor (''v1.'' @ p @ ''.'' @ base64url_encode (hmac (key_bytes k) p)) \<and> list_all base64url_char p \<and>
        hmac (key_bytes k) p \<noteq> [] \<and> 32 \<le> length (key_bytes k) \<and>
        (\<exists>w. JSON_parse (utf8_text (base64url_decode p)) = Some w \<and> validateCursorValue w = Inr x) \<and>
        ok_subject subject \<and> subject_of x = subject \<and> safe_positive now \<and> now < csv_expiresAt x)"
  (is "?L \<longleftrightarrow> ?R")
proof
  assume ?L
  then obtain c where c: "v = JStr c" "is_cursor c"
    unfolding verifyInfrastructureOperationCursor_def bind_r_eq_Inr by (auto simp: infra_reads)
  then obtain p s where ps: "c = ''v1.'' @ p @ ''.'' @ s" "p \<noteq> []" "s \<noteq> []" "list_all base64url_char p" "list_all base64url_char s"
    by (auto simp: is_cursor_iff)
  have cur: "cursor v ''cursor'' = Inr (''v1.'' @ p @ ''.'' @ s)" using c ps(1) by (simp only: cursor_iff)
  have body: "decodeBase64Url s = Inr (hmac (key_bytes k) p) \<and> 32 \<le> length (key_bytes k) \<and>
    (\<exists>w. JSON_parse (utf8_text (base64url_decode p)) = Some w \<and> validateCursorValue w = Inr x) \<and>
    ok_subject subject \<and> subject_of x = subject \<and> safe_positive now \<and> now < csv_expiresAt x"
    using \<open>?L\<close> unfolding verifyInfrastructureOperationCursor_def cur bind_r_Inr split_cursor [OF ps(4,5)] list.case
    by (auto simp: bind_r_eq_Inr throw_if_eq_Inr cursorSigningKey_iff infra_reads ok_subject_def subject_of_def not_le
        split: option.splits)
  then have "s = base64url_encode (hmac (key_bytes k) p)" by (auto simp: decodeBase64Url_iff)
  with body c ps show ?R by auto
next
  assume ?R
  then obtain p w where
    v: "v = JStr (''v1.'' @ p @ ''.'' @ base64url_encode (hmac (key_bytes k) p))"
    and cur: "is_cursor (''v1.'' @ p @ ''.'' @ base64url_encode (hmac (key_bytes k) p))"
    and p: "list_all base64url_char p" "hmac (key_bytes k) p \<noteq> []" "32 \<le> length (key_bytes k)"
    and w: "JSON_parse (utf8_text (base64url_decode p)) = Some w" "validateCursorValue w = Inr x"
    and sub: "ok_subject subject" "subject_of x = subject" "safe_positive now" "now < csv_expiresAt x" by blast
  have ids: "protocolIdentifier (JStr (csb_organizationId subject)) q = Inr (csb_organizationId subject)"
    "protocolIdentifier (JStr (csb_tenantId subject)) q = Inr (csb_tenantId subject)"
    "protocolIdentifier (JStr (csb_operationId subject)) q = Inr (csb_operationId subject)"
    "protocolPositive (JNum (NInt now)) q = Inr now" for q
    using sub(1,3) by (simp_all add: infra_reads ok_subject_def)
  have cursor: "cursor v ''cursor'' = Inr (''v1.'' @ p @ ''.'' @ base64url_encode (hmac (key_bytes k) p))"
    using cur by (simp only: v cursor_iff)
  have key: "cursorSigningKey k = Inr (key_bytes k)" using p(3) by (simp add: cursorSigningKey_iff)
  have same: "csb_organizationId x = csb_organizationId subject" "csb_tenantId x = csb_tenantId subject"
    "csb_operationId x = csb_operationId subject"
    using sub(2) by (auto simp: subject_of_def)
  show ?L
    unfolding verifyInfrastructureOperationCursor_def cursor bind_r_Inr split_cursor [OF p(1) base64url_alphabet]
      list.case
    using w sub(4) by (simp add: decodeBase64Url_signature [OF p(2)] key ids same)
qed

end
