(* ===== verification/InfraContract.thy ===== *)
theory InfraContract
  imports InfraEvents InfraCursorLaws
begin

section \<open>The infrastructure controller protocol: the published contract\<close>

text \<open>
  The contract publishes the supported versions, the complete catalog of reason codes and one worked
  example of every message, which must belong together.  \<open>createReference\<dots>\<close> makes it with the
  functions of the protocol, \<open>parse\<dots>Contract\<close> checks it.
\<close>

record contract_examples =
  cex_versionRequest :: version_request
  cex_versionResponse :: version_response
  cex_operationRequest :: operation_request
  cex_operationResponse :: operation_response
  cex_watchRequest :: watch_request
  cex_events :: "operation_event list"

record protocol_contract =
  pct_currentProtocolVersion :: string
  pct_supportedProtocolVersions :: "string list"
  pct_reasonCodes :: "string list"
  pct_examples :: contract_examples

definition example_keys :: "string list" where
  "example_keys = [''versionRequest'', ''versionResponse'', ''operationRequest'', ''operationResponse'', ''watchRequest'', ''events'']"

definition contract_keys :: "string list" where
  "contract_keys = [''apiVersion'', ''kind'', ''currentProtocolVersion'', ''supportedProtocolVersions'', ''reasonCodes'', ''examples'']"

definition examples_props :: "contract_examples \<Rightarrow> props" where
  "examples_props x =
     [(''versionRequest'', enc_version_request (cex_versionRequest x)),
      (''versionResponse'', enc_version_response (cex_versionResponse x)),
      (''operationRequest'', enc_operation_request (cex_operationRequest x)),
      (''operationResponse'', enc_operation_response (cex_operationResponse x)),
      (''watchRequest'', enc_watch_request (cex_watchRequest x)), (''events'', JArr (map enc_event (cex_events x)))]"

definition contract_props :: "protocol_contract \<Rightarrow> props" where
  "contract_props x =
     [(''apiVersion'', JStr INFRASTRUCTURE_CONTROLLER_PROTOCOL_API_VERSION),
      (''kind'', JStr ''InfrastructureControllerProtocolContract''),
      (''currentProtocolVersion'', JStr (pct_currentProtocolVersion x)),
      (''supportedProtocolVersions'', JArr (map JStr (pct_supportedProtocolVersions x))),
      (''reasonCodes'', JArr (map JStr (pct_reasonCodes x))), (''examples'', JObj (examples_props (pct_examples x)))]"

definition enc_contract :: "protocol_contract \<Rightarrow> jsval" where
  "enc_contract x = JObj (contract_props x)"

subsection \<open>Checking a contract\<close>

definition version_examples_differ :: "contract_examples \<Rightarrow> string list \<Rightarrow> bool" where
  "version_examples_differ x supported \<longleftrightarrow>
     vrq_requestId (cex_versionRequest x) \<noteq> vrs_requestId (cex_versionResponse x) \<or>
     length (vrs_serverVersions (cex_versionResponse x)) \<noteq> length supported \<or>
     list_ex (\<lambda>s. s \<notin> set supported) (vrs_serverVersions (cex_versionResponse x))"

definition operation_examples_differ :: "contract_examples \<Rightarrow> bool" where
  "operation_examples_differ x \<longleftrightarrow>
     (let r = cex_operationRequest x; a = cex_operationResponse x; w = cex_watchRequest x in
      orq_requestId r \<noteq> ors_requestId a \<or> orq_protocolVersion r \<noteq> ors_protocolVersion a \<or>
      wrq_protocolVersion w \<noteq> orq_protocolVersion r \<or>
      wrq_organizationId w \<noteq> otg_organizationId (orq_target r) \<or> wrq_tenantId w \<noteq> otg_tenantId (orq_target r) \<or>
      Some (wrq_operationId w) \<noteq> ors_operationId a)"

definition event_examples_differ :: "contract_examples \<Rightarrow> bool" where
  "event_examples_differ x \<longleftrightarrow>
     (let r = cex_operationRequest x; t = orq_target r in
      list_ex (\<lambda>e. ev_protocolVersion e \<noteq> orq_protocolVersion r \<or>
          Some (ev_operationId e) \<noteq> ors_operationId (cex_operationResponse x) \<or>
          ev_organizationId e \<noteq> otg_organizationId t \<or> ev_tenantId e \<noteq> otg_tenantId t \<or>
          ev_generation e \<noteq> otg_generation t \<or> ev_desiredStateDigest e \<noteq> otg_desiredStateDigest t) (cex_events x))"

definition parseInfrastructureControllerProtocolContract ::
  "(string \<Rightarrow> string) \<Rightarrow> jsval \<Rightarrow> protocol_error + protocol_contract"
where
  "parseInfrastructureControllerProtocolContract sha v =
     bind_r (protocolExactObject v ''protocolContract'' contract_keys) (\<lambda>root.
     bind_r (protocolExactObject (js_get root ''examples'') ''protocolContract.examples'' example_keys) (\<lambda>examples.
     bind_r (protocolVersion (js_get root ''currentProtocolVersion'') ''protocolContract.currentProtocolVersion'') (\<lambda>current.
     bind_r (protocolNonEmptyUniqueArray (js_get root ''supportedProtocolVersions'')
       ''protocolContract.supportedProtocolVersions'' protocolVersion) (\<lambda>supported.
     bind_r (throw_if (current \<notin> set supported)
       (invalid ''the current protocol version must be in the supported set.'')) (\<lambda>_.
     bind_r (protocolNonEmptyUniqueArray (js_get root ''reasonCodes'') ''protocolContract.reasonCodes'' protocolReasonCode) (\<lambda>codes.
     bind_r (throw_if (length codes \<noteq> length reason_codes \<or> list_ex (\<lambda>c. c \<notin> set codes) reason_codes)
       (invalid ''protocolContract.reasonCodes must publish the complete catalog.'')) (\<lambda>_.
     bind_r (parseInfrastructureControllerVersionRequest (js_get examples ''versionRequest'')) (\<lambda>vq.
     bind_r (parseInfrastructureControllerVersionResponse (js_get examples ''versionResponse'')) (\<lambda>vs.
     bind_r (parseInfrastructureOperationRequest (js_get examples ''operationRequest'')) (\<lambda>oq.
     bind_r (parseInfrastructureOperationResponse (js_get examples ''operationResponse'')) (\<lambda>os.
     bind_r (parseInfrastructureOperationWatchRequest (js_get examples ''watchRequest'')) (\<lambda>wq.
     bind_r (arrayValue (js_get examples ''events'') ''protocolContract.examples.events'') (\<lambda>values.
     bind_r (validateInfrastructureOperationEvents sha (JArr values) None None) (\<lambda>events.
     let ex = \<lparr>cex_versionRequest = vq, cex_versionResponse = vs, cex_operationRequest = oq, cex_operationResponse = os,
               cex_watchRequest = wq, cex_events = events\<rparr> in
     bind_r (throw_if (version_examples_differ ex supported)
       (invalid ''the version examples do not describe the published contract.'')) (\<lambda>_.
     bind_r (throw_if (operation_examples_differ ex)
       (invalid ''the operation examples do not bind one protocol operation.'')) (\<lambda>_.
     bind_r (throw_if (event_examples_differ ex)
       (invalid ''the event examples do not bind the accepted operation subject.'')) (\<lambda>_.
     bind_r (protocolLiteral (js_get root ''apiVersion'') ''protocolContract.apiVersion''
       INFRASTRUCTURE_CONTROLLER_PROTOCOL_API_VERSION) (\<lambda>_.
     bind_r (protocolLiteral (js_get root ''kind'') ''protocolContract.kind'' ''InfrastructureControllerProtocolContract'') (\<lambda>_.
     Inr \<lparr>pct_currentProtocolVersion = current, pct_supportedProtocolVersions = supported, pct_reasonCodes = codes,
          pct_examples = ex\<rparr>)))))))))))))))))))"

subsection \<open>The reference contract\<close>

definition reference_policy :: version_policy where
  "reference_policy =
     \<lparr>vpl_supported = [CURRENT_INFRASTRUCTURE_CONTROLLER_PROTOCOL_VERSION],
      vpl_features = [''operation-events'', ''resumable-watch'', ''stable-reason-codes''], vpl_deprecations = []\<rparr>"

definition reference_version_request :: version_request where
  "reference_version_request =
     \<lparr>vrq_requestId = ''version-request-1'', vrq_supported = [CURRENT_INFRASTRUCTURE_CONTROLLER_PROTOCOL_VERSION],
      vrq_features = [''operation-events'', ''resumable-watch'']\<rparr>"

definition reference_operation_request :: operation_request where
  "reference_operation_request =
     \<lparr>orq_protocolVersion = CURRENT_INFRASTRUCTURE_CONTROLLER_PROTOCOL_VERSION, orq_requestId = ''operation-request-1'',
      orq_authorizationContextId = ''authorization-context-1'',
      orq_target = \<lparr>otg_organizationId = ''organization-a'', otg_tenantId = ''tenant-a'', otg_contextId = ''aws-development'',
                    otg_claimId = ''database-a'', otg_generation = 1, otg_desiredStateDigest = replicate 64 CHR ''a''\<rparr>,
      orq_operation = OpReconcile, orq_planDigest = Some (replicate 64 CHR ''b''), orq_approvalIds = [''approval-1''],
      orq_idempotencyKey = Some ''idempotency-1'', orq_deadline = 1800000120\<rparr>"

definition reference_watch_request :: watch_request where
  "reference_watch_request =
     \<lparr>wrq_protocolVersion = CURRENT_INFRASTRUCTURE_CONTROLLER_PROTOCOL_VERSION, wrq_requestId = ''watch-request-1'',
      wrq_authorizationContextId = ''authorization-context-1'', wrq_organizationId = ''organization-a'',
      wrq_tenantId = ''tenant-a'', wrq_operationId = ''operation-1'', wrq_cursor = None, wrq_maxEvents = 50,
      wrq_deadline = 1800000120\<rparr>"

definition reference_event_input :: "string \<Rightarrow> int \<Rightarrow> event_phase \<Rightarrow> string \<Rightarrow> operation_event option \<Rightarrow> event_input" where
  "reference_event_input i n phase occurred previous =
     \<lparr>ein_protocolVersion = CURRENT_INFRASTRUCTURE_CONTROLLER_PROTOCOL_VERSION, ein_operationId = ''operation-1'',
      ein_organizationId = ''organization-a'', ein_tenantId = ''tenant-a'', ein_eventId = i, ein_sequence = n,
      ein_phase = phase, ein_generation = 1, ein_desiredStateDigest = replicate 64 CHR ''a'', ein_occurredAt = occurred,
      ein_reasonCodes = None, ein_previous = previous\<rparr>"

definition createReferenceInfrastructureControllerProtocolContract ::
  "(string \<Rightarrow> string) \<Rightarrow> protocol_error + protocol_contract"
where
  "createReferenceInfrastructureControllerProtocolContract sha =
     bind_r (negotiateInfrastructureControllerVersion (enc_version_request reference_version_request) reference_policy 1800000000) (\<lambda>vs.
     bind_r (parseInfrastructureOperationRequest (enc_operation_request reference_operation_request)) (\<lambda>oq.
     bind_r (acceptInfrastructureOperation oq ''operation-1'') (\<lambda>os.
     bind_r (createInfrastructureOperationEvent sha
       (reference_event_input ''event-1'' 1 EvAccepted ''2026-07-16T12:00:00.000Z'' None)) (\<lambda>first.
     bind_r (createInfrastructureOperationEvent sha
       (reference_event_input ''event-2'' 2 EvPlanning ''2026-07-16T12:00:01.000Z'' (Some first))) (\<lambda>second.
     bind_r (parseInfrastructureOperationWatchRequest (enc_watch_request reference_watch_request)) (\<lambda>wq.
     Inr \<lparr>pct_currentProtocolVersion = CURRENT_INFRASTRUCTURE_CONTROLLER_PROTOCOL_VERSION,
          pct_supportedProtocolVersions = vpl_supported reference_policy, pct_reasonCodes = reason_codes,
          pct_examples =
            \<lparr>cex_versionRequest = reference_version_request, cex_versionResponse = vs, cex_operationRequest = oq,
             cex_operationResponse = os, cex_watchRequest = wq, cex_events = [first, second]\<rparr>\<rparr>))))))"

subsection \<open>What the check accepts\<close>

definition ok_contract :: "(string \<Rightarrow> string) \<Rightarrow> protocol_contract \<Rightarrow> bool" where
  "ok_contract sha x \<longleftrightarrow>
     (let ex = pct_examples x in
      is_protocolVersion (pct_currentProtocolVersion x) \<and>
      ok_strings is_protocolVersion (pct_supportedProtocolVersions x) \<and>
      pct_currentProtocolVersion x \<in> set (pct_supportedProtocolVersions x) \<and>
      distinct (pct_reasonCodes x) \<and> set (pct_reasonCodes x) = set reason_codes \<and>
      ok_version_request (cex_versionRequest ex) \<and> ok_version_response (cex_versionResponse ex) \<and>
      ok_operation_request (cex_operationRequest ex) \<and> ok_operation_response (cex_operationResponse ex) \<and>
      ok_watch_request (cex_watchRequest ex) \<and> page_ok sha 1 None (cex_events ex) \<and>
      \<not> version_examples_differ ex (pct_supportedProtocolVersions x) \<and> \<not> operation_examples_differ ex \<and>
      \<not> event_examples_differ ex)"

lemma reason_codes_distinct: "distinct reason_codes"
  by code_simp

lemma complete_catalog:
  "ok_strings is_reason codes \<and> codes \<noteq> [] \<and>
     \<not> (length codes \<noteq> length reason_codes \<or> list_ex (\<lambda>c. c \<notin> set codes) reason_codes) \<longleftrightarrow>
   distinct codes \<and> set codes = set reason_codes"
proof -
  have ne: "reason_codes \<noteq> []" by (simp add: reason_codes_def INFRASTRUCTURE_PROTOCOL_REASON_CODES_def)
  have "set codes = set reason_codes \<longleftrightarrow> length codes = length reason_codes \<and> set reason_codes \<subseteq> set codes" if "distinct codes"
  proof
    assume "set codes = set reason_codes"
    with that reason_codes_distinct show "length codes = length reason_codes \<and> set reason_codes \<subseteq> set codes"
      by (metis distinct_card order_refl)
  next
    assume "length codes = length reason_codes \<and> set reason_codes \<subseteq> set codes"
    with that reason_codes_distinct show "set codes = set reason_codes"
      by (metis List.finite_set card_subset_eq distinct_card)
  qed
  then show ?thesis
    using ne by (auto simp: ok_strings_def list_ex_iff list_all_iff is_reason_def)
qed

lemma examples_read:
  "js_get (examples_props x) ''versionRequest'' = enc_version_request (cex_versionRequest x)"
  "js_get (examples_props x) ''versionResponse'' = enc_version_response (cex_versionResponse x)"
  "js_get (examples_props x) ''operationRequest'' = enc_operation_request (cex_operationRequest x)"
  "js_get (examples_props x) ''operationResponse'' = enc_operation_response (cex_operationResponse x)"
  "js_get (examples_props x) ''watchRequest'' = enc_watch_request (cex_watchRequest x)"
  "js_get (examples_props x) ''events'' = JArr (map enc_event (cex_events x))"
  by (simp_all add: examples_props_def)

lemma contract_read:
  "js_get (contract_props x) ''apiVersion'' = JStr INFRASTRUCTURE_CONTROLLER_PROTOCOL_API_VERSION"
  "js_get (contract_props x) ''kind'' = JStr ''InfrastructureControllerProtocolContract''"
  "js_get (contract_props x) ''currentProtocolVersion'' = JStr (pct_currentProtocolVersion x)"
  "js_get (contract_props x) ''supportedProtocolVersions'' = JArr (map JStr (pct_supportedProtocolVersions x))"
  "js_get (contract_props x) ''reasonCodes'' = JArr (map JStr (pct_reasonCodes x))"
  "js_get (contract_props x) ''examples'' = JObj (examples_props (pct_examples x))"
  by (simp_all add: contract_props_def)

lemma exact_contract:
  "protocolExactObject (JObj (contract_props x)) path contract_keys = Inr (contract_props x)"
  "protocolExactObject (JObj (examples_props y)) path example_keys = Inr (examples_props y)"
  by (simp_all add: protocolExactObject_props contract_props_def contract_keys_def examples_props_def example_keys_def)

theorem contract_enc:
  "parseInfrastructureControllerProtocolContract sha (enc_contract x) = Inr y \<longleftrightarrow> ok_contract sha x \<and> y = x"
proof -
  let ?ex = "pct_examples x"
  have "parseInfrastructureControllerProtocolContract sha (enc_contract x) = Inr y \<longleftrightarrow>
    is_protocolVersion (pct_currentProtocolVersion x) \<and> ok_strings is_protocolVersion (pct_supportedProtocolVersions x) \<and>
    pct_supportedProtocolVersions x \<noteq> [] \<and>
    pct_currentProtocolVersion x \<in> set (pct_supportedProtocolVersions x) \<and>
    (ok_strings is_reason (pct_reasonCodes x) \<and> pct_reasonCodes x \<noteq> [] \<and>
     \<not> (length (pct_reasonCodes x) \<noteq> length reason_codes \<or> list_ex (\<lambda>c. c \<notin> set (pct_reasonCodes x)) reason_codes)) \<and>
    ok_version_request (cex_versionRequest ?ex) \<and> ok_version_response (cex_versionResponse ?ex) \<and>
    ok_operation_request (cex_operationRequest ?ex) \<and> ok_operation_response (cex_operationResponse ?ex) \<and>
    ok_watch_request (cex_watchRequest ?ex) \<and> page_ok sha 1 None (cex_events ?ex) \<and>
    \<not> version_examples_differ ?ex (pct_supportedProtocolVersions x) \<and> \<not> operation_examples_differ ?ex \<and>
    \<not> event_examples_differ ?ex \<and> y = x"
    unfolding parseInfrastructureControllerProtocolContract_def enc_contract_def exact_contract bind_r_Inr contract_read
      examples_read Let_def
    by (simp only: bind_r_eq_Inr throw_if_eq_Inr exact_contract protocolVersion_iff infra_enc protocol_lists map_JStr_inj
        arrayValue_def jsval.case validate_enc option.case protocolLiteral_iff jsval.inject sum.inject ex_simps simp_thms conj_assoc not_not)
      (cases x; cases "pct_examples x"; auto)
  then show ?thesis
    unfolding complete_catalog by (auto simp: ok_contract_def Let_def)
qed

end
