(* ===== verification/InfraProtocolProps.thy ===== *)
theory InfraProtocolProps
  imports InfraContract
begin

section \<open>The infrastructure controller protocol: properties\<close>

text \<open>
  The properties of \<open>src/core/infrastructureControllerProtocol.ts\<close>.  The reference messages of the source
  serve as the examples; the first lemmas evaluate them.
\<close>

lemma reference_requests_ok:
  "ok_version_request reference_version_request" "ok_policy reference_policy"
  "ok_operation_request reference_operation_request" "ok_watch_request reference_watch_request"
  by code_simp+

subsection \<open>Version negotiation\<close>

text \<open>Version negotiation, for a well-formed request and a sound policy, always answers, its own parser reads
  the answer back, and it selects the version the server prefers among those the client supports: never a
  later one, never with a feature missing, never one past its sunset.
\<close>

lemma find_prefix:
  "List.find Q xs = Some s \<longleftrightarrow> (\<exists>as bs. xs = as @ s # bs \<and> Q s \<and> (\<forall>a \<in> set as. \<not> Q a))" (is "?L \<longleftrightarrow> ?R")
proof
  show "?L \<Longrightarrow> ?R"
  proof (induction xs)
    case (Cons x xs)
    show ?case
    proof (cases "Q x")
      case True
      with Cons.prems have "x # xs = [] @ s # xs \<and> Q s \<and> (\<forall>a \<in> set []. \<not> Q a)" by simp
      then show ?thesis by blast
    next
      case False
      with Cons obtain as bs where "xs = as @ s # bs" "Q s" "\<forall>a \<in> set as. \<not> Q a" by auto
      with False have "x # xs = (x # as) @ s # bs \<and> Q s \<and> (\<forall>a \<in> set (x # as). \<not> Q a)" by simp
      then show ?thesis by blast
    qed
  qed simp
next
  assume ?R
  then obtain as bs where xs: "xs = as @ s # bs" "Q s" "\<forall>a \<in> set as. \<not> Q a" by blast
  from xs(3) show ?L unfolding xs(1) by (induction as) (simp_all add: xs(2))
qed

definition negotiated ::
  "version_request \<Rightarrow> version_policy \<Rightarrow> int \<Rightarrow> string option \<Rightarrow> version_deprecation option \<Rightarrow> bool \<Rightarrow> version_response"
where
  "negotiated r p now first d features =
     (case first of
       None \<Rightarrow> versionResponse r (vpl_supported p) (vpl_features p) None [''INFRA_PROTOCOL_UNSUPPORTED_VERSION''] None
     | Some s \<Rightarrow>
         if \<not> features
         then versionResponse r (vpl_supported p) (vpl_features p) None [''INFRA_PROTOCOL_REQUIRED_FEATURE_UNAVAILABLE''] None
         else (case d of
                 None \<Rightarrow> versionResponse r (vpl_supported p) (vpl_features p) (Some s) [] None
               | Some d \<Rightarrow>
                   if vdp_sunset d \<le> now
                   then versionResponse r (vpl_supported p) (vpl_features p) None [''INFRA_PROTOCOL_VERSION_SUNSET''] (Some d)
                   else versionResponse r (vpl_supported p) (vpl_features p) (Some s) [''INFRA_PROTOCOL_DEPRECATED_VERSION''] (Some d)))"

lemma negotiated_selected:
  "(vrs_compatible (negotiated r p now first d features) \<longleftrightarrow> vrs_selected (negotiated r p now first d features) \<noteq> None) \<and>
   (vrs_selected (negotiated r p now first d features) = Some s \<longleftrightarrow>
      features \<and> first = Some s \<and> (\<forall>x. d = Some x \<longrightarrow> now < vdp_sunset x))"
  by (cases first; cases d; cases features) (auto simp: negotiated_def versionResponse_def not_le)

theorem negotiation_decides:
  assumes "ok_version_request r" "ok_policy p" "safe_positive now"
  shows "\<exists>x. negotiateInfrastructureControllerVersion (enc_version_request r) p now = Inr x \<and>
    parseInfrastructureControllerVersionResponse (enc_version_response x) = Inr x \<and>
    (vrs_compatible x \<longleftrightarrow> vrs_selected x \<noteq> None) \<and>
    (\<forall>s. vrs_selected x = Some s \<longleftrightarrow>
       set (vrq_features r) \<subseteq> set (vpl_features p) \<and>
       (\<exists>as bs. vpl_supported p = as @ s # bs \<and> s \<in> set (vrq_supported r) \<and> set as \<inter> set (vrq_supported r) = {}) \<and>
       (\<forall>d. deprecation_of p s = Some d \<longrightarrow> now < vdp_sunset d))"
proof -
  let ?first = "List.find (\<lambda>s. s \<in> set (vrq_supported r)) (vpl_supported p)"
  let ?features = "set (vrq_features r) \<subseteq> set (vpl_features p)"
  have first: "?first = Some s \<longleftrightarrow>
    (\<exists>as bs. vpl_supported p = as @ s # bs \<and> s \<in> set (vrq_supported r) \<and> set as \<inter> set (vrq_supported r) = {})" for s
    unfolding find_prefix by blast
  define x where "x = negotiated r p now ?first (Option.bind ?first (deprecation_of p)) ?features"
  have x: "negotiateInfrastructureControllerVersion (enc_version_request r) p now = Inr x"
    unfolding negotiate_ok [OF assms] x_def negotiated_def by (cases ?first) (simp_all only: option.case Option.bind.simps)
  have selected: "vrs_selected x = Some s \<longleftrightarrow> ?features \<and> ?first = Some s \<and>
      (\<forall>d. deprecation_of p s = Some d \<longrightarrow> now < vdp_sunset d)" for s
    unfolding x_def by (subst negotiated_selected [THEN conjunct2]) (cases ?first; auto)
  have compatible: "vrs_compatible x \<longleftrightarrow> vrs_selected x \<noteq> None"
    unfolding x_def by (rule negotiated_selected [THEN conjunct1])
  have "parseInfrastructureControllerVersionResponse (enc_version_response x) = Inr x"
    using negotiated_readable [OF assms x] by (simp add: version_response_enc)
  with x compatible selected show ?thesis unfolding first by blast
qed

definition deprecating_policy :: version_policy where
  "deprecating_policy = reference_policy
     \<lparr>vpl_supported := [''2026-01-01'', CURRENT_INFRASTRUCTURE_CONTROLLER_PROTOCOL_VERSION],
      vpl_deprecations := [\<lparr>vdp_protocolVersion = ''2026-01-01'',
        vdp_replacement = CURRENT_INFRASTRUCTURE_CONTROLLER_PROTOCOL_VERSION, vdp_sunset = 1800000000\<rparr>]\<rparr>"

definition old_client :: version_request where
  "old_client = reference_version_request\<lparr>vrq_supported := [''2026-01-01'']\<rparr>"

theorem negotiation_decides_witness:
  "(\<exists>x. negotiateInfrastructureControllerVersion (enc_version_request old_client) deprecating_policy 1799999999 = Inr x \<and>
     vrs_selected x = Some ''2026-01-01'') \<and>
   (\<exists>x. negotiateInfrastructureControllerVersion (enc_version_request old_client) deprecating_policy 1800000000 = Inr x \<and>
     vrs_selected x \<noteq> Some ''2026-01-01'')"
proof -
  have ok: "ok_version_request old_client" "ok_policy deprecating_policy"
    "safe_positive 1799999999" "safe_positive 1800000000" by code_simp+
  have d: "deprecation_of deprecating_policy ''2026-01-01'' = Some \<lparr>vdp_protocolVersion = ''2026-01-01'',
        vdp_replacement = CURRENT_INFRASTRUCTURE_CONTROLLER_PROTOCOL_VERSION, vdp_sunset = 1800000000\<rparr>"
    by (simp add: deprecation_of_def deprecating_policy_def)
  have s: "\<exists>as bs. vpl_supported deprecating_policy = as @ ''2026-01-01'' # bs \<and> ''2026-01-01'' \<in> set (vrq_supported old_client) \<and>
      set as \<inter> set (vrq_supported old_client) = {}"
    by (rule exI [of _ "[]"]) (simp add: deprecating_policy_def old_client_def)
  have f: "set (vrq_features old_client) \<subseteq> set (vpl_features deprecating_policy)"
    by (simp add: deprecating_policy_def old_client_def reference_version_request_def reference_policy_def)
  have decided: "\<exists>x. negotiateInfrastructureControllerVersion (enc_version_request old_client) deprecating_policy now = Inr x \<and>
      (vrs_selected x = Some ''2026-01-01'' \<longleftrightarrow> now < 1800000000)" if now: "safe_positive now" for now
  proof -
    from negotiation_decides [OF ok(1,2) now] obtain x where
      x: "negotiateInfrastructureControllerVersion (enc_version_request old_client) deprecating_policy now = Inr x"
      and sel: "vrs_selected x = Some ''2026-01-01'' \<longleftrightarrow>
        set (vrq_features old_client) \<subseteq> set (vpl_features deprecating_policy) \<and>
        (\<exists>as bs. vpl_supported deprecating_policy = as @ ''2026-01-01'' # bs \<and> ''2026-01-01'' \<in> set (vrq_supported old_client) \<and>
           set as \<inter> set (vrq_supported old_client) = {}) \<and>
        (\<forall>d. deprecation_of deprecating_policy ''2026-01-01'' = Some d \<longrightarrow> now < vdp_sunset d)"
      by (elim exE conjE) (rule that, assumption, erule spec)
    have "(\<forall>d. deprecation_of deprecating_policy ''2026-01-01'' = Some d \<longrightarrow> now < vdp_sunset d) \<longleftrightarrow> now < 1800000000"
      by (simp add: d)
    then have "vrs_selected x = Some ''2026-01-01'' \<longleftrightarrow> now < 1800000000"
      by (simp only: sel s f simp_thms)
    with x show ?thesis by blast
  qed
  from decided [OF ok(3)] obtain x where
    "negotiateInfrastructureControllerVersion (enc_version_request old_client) deprecating_policy 1799999999 = Inr x"
    "vrs_selected x = Some ''2026-01-01''" by (elim exE conjE) (rule that, assumption, simp)
  moreover from decided [OF ok(4)] obtain y where
    "negotiateInfrastructureControllerVersion (enc_version_request old_client) deprecating_policy 1800000000 = Inr y"
    "vrs_selected y \<noteq> Some ''2026-01-01''" by (elim exE conjE) (rule that, assumption, simp)
  ultimately show ?thesis by blast
qed

subsection \<open>Rejections and reason codes\<close>

text \<open>A rejection made by the controller is read back by the parser of operation responses exactly when its
  retry delay is at most a day: the delay that \<open>rejectInfrastructureOperation\<close> accepts has no upper bound,
  the one that the parser accepts has.
\<close>

theorem rejection_readable:
  assumes "rejectInfrastructureOperation version request codes retry = Inr x"
  shows "parseInfrastructureOperationResponse (enc_operation_response x) = Inr y \<longleftrightarrow>
    y = x \<and> (case retry of Some (NInt i) \<Rightarrow> i \<le> 86400 | _ \<Rightarrow> True)"
  using assms unfolding operation_response_enc rejected_iff
  by (auto simp: ok_operation_response_def split: option.splits jsnum.splits)

theorem rejection_readable_witness:
  "(\<exists>x. rejectInfrastructureOperation ''2026-07-16'' ''request-1'' [''INFRA_PROTOCOL_INTERNAL''] (Some (NInt 86401)) = Inr x \<and>
     (\<nexists>y. parseInfrastructureOperationResponse (enc_operation_response x) = Inr y)) \<and>
   (\<exists>x. rejectInfrastructureOperation ''2026-07-16'' ''request-1'' [''INFRA_PROTOCOL_INTERNAL''] (Some (NInt 86400)) = Inr x \<and>
     parseInfrastructureOperationResponse (enc_operation_response x) = Inr x)"
proof -
  have known: "ok_strings is_reason [''INFRA_PROTOCOL_INTERNAL'']" "is_protocolVersion ''2026-07-16''"
    "is_exact_id ''request-1''" "list_ex retryable_code [''INFRA_PROTOCOL_INTERNAL'']" by code_simp+
  have "\<exists>x. rejectInfrastructureOperation ''2026-07-16'' ''request-1'' [''INFRA_PROTOCOL_INTERNAL''] (Some (NInt i)) = Inr x"
    if "1 \<le> i" for i using that known by (simp add: rejected_iff)
  from this [of 86401] this [of 86400] show ?thesis using rejection_readable by fastforce
qed

text \<open>The catalog of reason codes is not closed: a rejection with a single code is read exactly when the code
  is in the catalog or is the name of a property that every JavaScript object inherits.
\<close>

definition rejected_with :: "string \<Rightarrow> operation_response" where
  "rejected_with code =
     \<lparr>ors_protocolVersion = ''2026-07-16'', ors_requestId = ''request-1'', ors_outcome = Rejected, ors_operationId = None,
      ors_reasonCodes = [code], ors_retryAfter = None\<rparr>"

theorem reason_catalog_open:
  "(parseInfrastructureOperationResponse (enc_operation_response (rejected_with code)) = Inr (rejected_with code) \<longleftrightarrow>
      code \<in> set reason_codes \<or> code \<in> set inherited_properties) \<and>
   set reason_codes \<inter> set inherited_properties = {} \<and> inherited_properties \<noteq> []"
proof -
  have "is_protocolVersion ''2026-07-16''" "is_exact_id ''request-1''" by code_simp+
  moreover have "set reason_codes \<inter> set inherited_properties = {}"
    by (simp add: reason_codes_def INFRASTRUCTURE_PROTOCOL_REASON_CODES_def inherited_properties_def)
  ultimately show ?thesis
    by (simp add: operation_response_enc rejected_with_def ok_operation_response_def ok_strings_def is_reason_def
        inherited_properties_def)
qed

end
