(* ===== verification/InfraEventProps.thy ===== *)
theory InfraEventProps
  imports InfraContract
begin

section \<open>The infrastructure controller protocol: event chains and cursors\<close>

text \<open>
  The properties of operation events, watch cursors and the published contract.  The hash function is a
  parameter: a property of it that a theorem needs is a hypothesis, and where two texts could have one hash
  the theorem says so.
\<close>

subsection \<open>Example chain\<close>

definition example_sha :: "string \<Rightarrow> string" where
  "example_sha s = replicate 64 CHR ''a''"

lemma example_sha_digest: "is_sha_digest (example_sha s)"
  by (simp add: example_sha_def is_sha_digest_iff lower_hex_def is_digit_def in_range_def less_eq_char_def list_all_iff)

definition example_event :: "int \<Rightarrow> event_phase \<Rightarrow> operation_event" where
  "example_event n phase =
     \<lparr>ev_protocolVersion = CURRENT_INFRASTRUCTURE_CONTROLLER_PROTOCOL_VERSION, ev_operationId = ''operation-1'',
      ev_organizationId = ''organization-a'', ev_tenantId = ''tenant-a'', ev_eventId = ''event'', ev_sequence = n,
      ev_phase = phase, ev_terminal = terminal_phase phase, ev_generation = 1,
      ev_desiredStateDigest = replicate 64 CHR ''a'', ev_occurredAt = ''2026-07-16T12:00:00.000Z'', ev_reasonCodes = [],
      ev_previousDigest = (if n = 1 then None else Some (replicate 64 CHR ''a'')), ev_digest = replicate 64 CHR ''a''\<rparr>"

lemma example_fields:
  "is_protocolVersion CURRENT_INFRASTRUCTURE_CONTROLLER_PROTOCOL_VERSION" "is_exact_id ''operation-1''"
  "is_exact_id ''organization-a''" "is_exact_id ''tenant-a''" "is_exact_id ''event''" "is_canonical_time ''2026-07-16T12:00:00.000Z''"
  "is_sha_digest (replicate 64 CHR ''a'')"
  by code_simp+

lemma example_event_ok: "safe_positive n \<Longrightarrow> phase \<noteq> EvFailed \<Longrightarrow> ok_event example_sha (example_event n phase)"
  using example_fields
  by (simp add: ok_event_def example_event_def ok_strings_def example_sha_def safe_positive_def MAX_SAFE_def)

lemma example_linked:
  "1 \<le> n \<Longrightarrow> \<not> terminal_phase p \<Longrightarrow> linked (example_event n p) (example_event (n + 1) q)"
  by (simp add: linked_def example_event_def same_subject_def)

subsection \<open>Making and checking a chain\<close>

text \<open>The events of a list, each made by the module from its own fields and the event before it.\<close>

fun creatable :: "(string \<Rightarrow> string) \<Rightarrow> operation_event option \<Rightarrow> operation_event list \<Rightarrow> bool" where
  "creatable sha previous [] = True"
| "creatable sha previous (e # es) =
     (createInfrastructureOperationEvent sha (input_of previous e) = Inr e \<and> creatable sha (Some e) es)"

lemma creatable_from:
  assumes "\<And>t. is_sha_digest (sha t)" "ok_event sha p"
  shows "creatable sha (Some p) es \<longleftrightarrow> list_all (ok_event sha) es \<and> successively linked (p # es)"
  using assms(2)
proof (induction es arbitrary: p)
  case Nil
  then show ?case by simp
next
  case (Cons e es)
  then show ?case using create_next [OF assms(1) Cons.prems] by auto
qed

text \<open>A page that starts an operation is accepted exactly when its events can be made one after another by
  \<open>createInfrastructureOperationEvent\<close>, each from the one before: the two functions agree on what an event
  chain is.
\<close>

theorem events_created_accepted:
  assumes "\<And>t. is_sha_digest (sha t)"
  shows "validateInfrastructureOperationEvents sha (JArr (map enc_event es)) None None = Inr fs \<longleftrightarrow>
    fs = es \<and> es \<noteq> [] \<and> creatable sha None es"
proof (cases es)
  case Nil
  then show ?thesis by (simp add: validateInfrastructureOperationEvents_def)
next
  case (Cons e rest)
  have "createInfrastructureOperationEvent sha (input_of None e) = Inr e \<longleftrightarrow>
      ok_event sha e \<and> ev_sequence e = 1 \<and> ev_previousDigest e = None"
    by (rule create_first) (rule assms)
  then have made: "creatable sha None es \<longleftrightarrow> ok_event sha e \<and> ev_sequence e = 1 \<and> ev_previousDigest e = None \<and>
      list_all (ok_event sha) rest \<and> successively linked (e # rest)"
    using creatable_from [where sha = sha and p = e and es = rest, OF assms] unfolding Cons creatable.simps by blast
  have page: "page_ok sha 1 None es \<longleftrightarrow> ok_event sha e \<and> ev_sequence e = 1 \<and> ev_previousDigest e = None \<and>
      list_all (ok_event sha) rest \<and> successively linked (e # rest)"
    by (auto simp: page_ok_def Cons)
  show ?thesis unfolding validate_enc option.case page made using Cons by blast
qed

theorem events_created_accepted_witness:
  "validateInfrastructureOperationEvents example_sha
     (JArr (map enc_event [example_event 1 EvAccepted, example_event 2 EvSucceeded])) None None =
     Inr [example_event 1 EvAccepted, example_event 2 EvSucceeded]"
proof -
  have ok: "ok_event example_sha (example_event 1 EvAccepted)" "ok_event example_sha (example_event 2 EvSucceeded)"
    by (rule example_event_ok; simp add: safe_positive_def MAX_SAFE_def)+
  have "createInfrastructureOperationEvent example_sha (input_of None (example_event 1 EvAccepted)) = Inr (example_event 1 EvAccepted)"
    unfolding create_first [OF example_sha_digest] using ok(1) by (simp add: example_event_def)
  moreover have "linked (example_event 1 EvAccepted) (example_event (1 + 1) EvSucceeded)"
    by (rule example_linked) (simp_all add: terminal_phase_def)
  then have "createInfrastructureOperationEvent example_sha (input_of (Some (example_event 1 EvAccepted)) (example_event 2 EvSucceeded)) =
      Inr (example_event 2 EvSucceeded)"
    unfolding create_next [OF example_sha_digest ok(1)] using ok(2) by simp
  ultimately show ?thesis
    by (subst events_created_accepted [OF example_sha_digest]) simp
qed

subsection \<open>Tampering\<close>

lemma chain_step:
  assumes "page_ok sha n previous (es @ [e])" "es \<noteq> []"
  shows "page_ok sha n previous es \<and> linked (last es) e"
  using assms by (auto simp: page_ok_def successively_append_iff)

lemma chain_sequence: "page_ok sha n previous es \<Longrightarrow> ev_sequence (last es) = n + int (length es) - 1"
proof (induction es rule: rev_induct)
  case Nil
  then show ?case by (simp add: page_ok_def)
next
  case (snoc e es)
  show ?case
  proof (cases "es = []")
    case True
    with snoc.prems show ?thesis by (simp add: page_ok_def)
  next
    case False
    with chain_step [OF snoc.prems] snoc.IH show ?thesis by (simp add: linked_def)
  qed
qed

definition collision :: "(string \<Rightarrow> string) \<Rightarrow> operation_event list \<Rightarrow> operation_event list \<Rightarrow> bool" where
  "collision sha es fs \<longleftrightarrow>
     (\<exists>e \<in> set es. \<exists>f \<in> set fs. event_text e \<noteq> event_text f \<and> sha (event_text e) = sha (event_text f))"

lemma chain_determined:
  assumes "page_ok sha n previous es" "page_ok sha n previous fs" "ev_digest (last es) = ev_digest (last fs)"
    "\<not> collision sha es fs"
  shows "es = fs"
  using assms
proof (induction es arbitrary: fs rule: rev_induct)
  case Nil
  then show ?case by (simp add: page_ok_def)
next
  case (snoc e es)
  from snoc.prems(2) have "fs \<noteq> []" by (simp add: page_ok_def)
  then obtain gs f where fs: "fs = gs @ [f]" by (cases fs rule: rev_cases) auto
  have "ev_digest e = sha (event_text e)" "ev_digest f = sha (event_text f)"
    using snoc.prems(1,2) by (simp_all add: page_ok_def ok_event_def fs)
  with snoc.prems(3,4) have "event_text e = event_text f" by (auto simp: collision_def fs)
  with snoc.prems(3) have same: "e = f" by (auto simp: fs intro: event_text_inj)
  have len: "length es = length gs"
    using chain_sequence [OF snoc.prems(1)] chain_sequence [OF snoc.prems(2)] by (simp add: fs same)
  show ?case
  proof (cases "es = []")
    case True
    with len show ?thesis by (simp add: fs same)
  next
    case False
    with len have "gs \<noteq> []" by auto
    with False have e: "page_ok sha n previous es \<and> linked (last es) e" and g: "page_ok sha n previous gs \<and> linked (last gs) f"
      using chain_step [of sha n previous es e] chain_step [of sha n previous gs f] snoc.prems(1,2) by (simp_all add: fs)
    then have "ev_digest (last es) = ev_digest (last gs)" by (simp add: linked_def same)
    moreover have "\<not> collision sha es gs" using snoc.prems(4) by (auto simp: collision_def fs)
    ultimately have "es = gs" using snoc.IH e g by blast
    then show ?thesis by (simp add: fs same)
  qed
qed

text \<open>C35: The digest of its last event fixes a whole chain: two accepted chains that end in the same digest are
  the same chain, event by event, unless they exhibit a collision of the hash function.
\<close>

theorem event_chain_tamper_evident:
  assumes "validateInfrastructureOperationEvents sha v None None = Inr es"
    and "validateInfrastructureOperationEvents sha w None None = Inr fs"
    and "ev_digest (last es) = ev_digest (last fs)"
  shows "es = fs \<or> collision sha es fs"
  using chain_determined [of sha 1 None es fs] validate_sound [OF assms(1)] validate_sound [OF assms(2)] assms(3) by auto

theorem event_chain_tamper_evident_witness:
  "validateInfrastructureOperationEvents example_sha (JArr [enc_event (example_event 1 EvAccepted)]) None None =
     Inr [example_event 1 EvAccepted] \<and>
   validateInfrastructureOperationEvents example_sha (JArr [enc_event (example_event 1 EvSucceeded)]) None None =
     Inr [example_event 1 EvSucceeded] \<and>
   collision example_sha [example_event 1 EvAccepted] [example_event 1 EvSucceeded]"
proof -
  have page: "validateInfrastructureOperationEvents example_sha (JArr [enc_event (example_event 1 p)]) None None =
      Inr [example_event 1 p]" if "p \<noteq> EvFailed" for p
    using validate_enc [of example_sha "[example_event 1 p]" None None "[example_event 1 p]"]
      example_event_ok [of 1 p] that
    by (simp add: page_ok_def safe_positive_def MAX_SAFE_def) (simp add: example_event_def)
  have "ev_digest (last [example_event 1 EvAccepted]) = ev_digest (last [example_event 1 EvSucceeded])"
    by (simp add: example_event_def)
  from event_chain_tamper_evident [OF page page this] show ?thesis
    using page by (auto simp: example_event_def)
qed

text \<open>Pages compose: an event list is an acceptable page exactly when its first part is one, its second part
  is one for the sequence and digest that follow, the first part does not end in a terminal event and the
  subject stays the same.  The last two are what checking page by page, each on its own, does not ensure.
\<close>

theorem event_pages_compose:
  assumes "es \<noteq> []" "fs \<noteq> []"
  shows "validateInfrastructureOperationEvents sha (JArr (map enc_event (es @ fs))) (Some n) previous = Inr (es @ fs) \<longleftrightarrow>
    validateInfrastructureOperationEvents sha (JArr (map enc_event es)) (Some n) previous = Inr es \<and>
    validateInfrastructureOperationEvents sha (JArr (map enc_event fs)) (Some (n + int (length es))) (Some (ev_digest (last es))) = Inr fs \<and>
    \<not> ev_terminal (last es) \<and> same_subject (last es) (hd fs)"
proof -
  have "page_ok sha n previous (es @ fs) \<longleftrightarrow> page_ok sha n previous es \<and>
      page_ok sha (n + int (length es)) (Some (ev_digest (last es))) fs \<and>
      \<not> ev_terminal (last es) \<and> same_subject (last es) (hd fs)"
    using chain_sequence [of sha n previous es] assms
    by (auto simp: page_ok_def successively_append_iff linked_def)
  then show ?thesis by (simp only: validate_enc option.case simp_thms)
qed

theorem event_pages_compose_witness:
  "validateInfrastructureOperationEvents example_sha (JArr (map enc_event [example_event 1 EvSucceeded])) (Some 1) None =
     Inr [example_event 1 EvSucceeded] \<and>
   validateInfrastructureOperationEvents example_sha (JArr (map enc_event [example_event 2 EvPlanning])) (Some 2)
     (Some (ev_digest (example_event 1 EvSucceeded))) = Inr [example_event 2 EvPlanning] \<and>
   validateInfrastructureOperationEvents example_sha (JArr (map enc_event [example_event 1 EvSucceeded, example_event 2 EvPlanning]))
     (Some 1) None \<noteq> Inr [example_event 1 EvSucceeded, example_event 2 EvPlanning]"
proof -
  have ok: "ok_event example_sha (example_event 1 EvSucceeded)" "ok_event example_sha (example_event 2 EvPlanning)"
    by (rule example_event_ok; simp add: safe_positive_def MAX_SAFE_def)+
  have "ev_terminal (example_event 1 EvSucceeded)" by (simp add: example_event_def terminal_phase_def)
  then have "\<not> validateInfrastructureOperationEvents example_sha (JArr (map enc_event ([example_event 1 EvSucceeded] @ [example_event 2 EvPlanning])))
     (Some 1) None = Inr ([example_event 1 EvSucceeded] @ [example_event 2 EvPlanning])"
    by (subst event_pages_compose) simp_all
  moreover have "page_ok example_sha 1 None [example_event 1 EvSucceeded]"
    "page_ok example_sha 2 (Some (ev_digest (example_event 1 EvSucceeded))) [example_event 2 EvPlanning]"
    using ok by (simp_all add: page_ok_def) (simp_all add: example_event_def)
  ultimately show ?thesis by (simp only: validate_enc option.case append.simps simp_thms)
qed

subsection \<open>Cursors\<close>

text \<open>
  The signature has 32 bytes; then a cursor is far below the limit of 2048 characters that its reader sets.
\<close>

lemma created_is_cursor:
  assumes "ok_cursor_value x" "length (m :: string) = 32"
  shows "is_cursor (''v1.'' @ payload_text x @ ''.'' @ base64url_encode m)"
proof -
  have "3 * length (payload_text x) \<le> 4 * 600 + 4"
    using cursor_ascii [OF assms(1)] length_base64url [of "stableJson (enc_cursor x)"] by (simp add: payload_text_def)
  moreover have "3 * length (base64url_encode m) \<le> 4 * 32 + 4" using length_base64url [of m] assms(2) by simp
  ultimately have "length (''v1.'' @ payload_text x @ ''.'' @ base64url_encode m) \<le> 2048" by simp
  moreover have "payload_text x \<noteq> []" by (simp add: payload_text_def cursor_text)
  moreover have "base64url_encode m \<noteq> []" using assms(2) by auto
  ultimately show ?thesis unfolding is_cursor_iff
    using base64url_alphabet [of m] base64url_alphabet [of "stableJson (enc_cursor x)", folded payload_text_def] by blast
qed

lemma payload_decodes: "base64url_decode (payload_text x) = stableJson (enc_cursor x)"
  by (simp add: payload_text_def base64url_round)

text \<open>A cursor that was created is verified to its own value, for any signature function with 32-byte results:
  only for its subject, with the subject mismatch reported otherwise, and only before it expires.
\<close>

theorem cursor_roundtrip:
  assumes "createInfrastructureOperationCursor hmac x k = Inr c" "ok_subject subject" "safe_positive now"
    and "length (hmac (key_bytes k) (payload_text x)) = 32" and "\<And>s. list_all ascii s \<Longrightarrow> utf8_text s = s"
  shows "verifyInfrastructureOperationCursor hmac utf8_text (JStr c) k subject now =
    (if subject_of x \<noteq> subject
     then Inl (InfrastructureProtocolError ''INFRA_PROTOCOL_CURSOR_SUBJECT_MISMATCH''
            ''The operation cursor is not bound to the requested subject.'')
     else if csv_expiresAt x \<le> now
     then Inl (InfrastructureProtocolError ''INFRA_PROTOCOL_CURSOR_EXPIRED'' ''The operation cursor has expired.'')
     else Inr x)"
proof -
  let ?m = "hmac (key_bytes k) (payload_text x)"
  from assms(1) have ok: "ok_cursor_value x" "32 \<le> length (key_bytes k)"
    and c: "c = ''v1.'' @ payload_text x @ ''.'' @ base64url_encode ?m"
    by (simp_all only: create_cursor_iff)
  have cur: "cursor (JStr c) ''cursor'' = Inr (''v1.'' @ payload_text x @ ''.'' @ base64url_encode ?m)"
    using created_is_cursor [OF ok(1) assms(4)] by (simp only: cursor_iff c)
  have split: "split_dots (''v1.'' @ payload_text x @ ''.'' @ base64url_encode ?m) = [''v1'', payload_text x, base64url_encode ?m]"
    unfolding payload_text_def by (rule split_cursor) (rule base64url_alphabet)+
  have m: "decodeBase64Url (base64url_encode ?m) = Inr ?m" using assms(4) by (intro decodeBase64Url_signature) auto
  have key: "cursorSigningKey k = Inr (key_bytes k)" using ok(2) by (simp add: cursorSigningKey_iff)
  have "utf8_text (stableJson (enc_cursor x)) = stableJson (enc_cursor x)"
    using assms(5) cursor_ascii [OF ok(1)] by blast
  then have json: "JSON_parse (utf8_text (base64url_decode (payload_text x))) = Some (JObj (sorted_entries x))"
    by (simp add: payload_decodes JSON_parse_cursor [OF ok(1)])
  have read: "validateCursorValue (JObj (sorted_entries x)) = Inr x" using ok(1) by (simp add: validate_sorted)
  have ids: "protocolIdentifier (JStr (csb_organizationId subject)) q = Inr (csb_organizationId subject)"
    "protocolIdentifier (JStr (csb_tenantId subject)) q = Inr (csb_tenantId subject)"
    "protocolIdentifier (JStr (csb_operationId subject)) q = Inr (csb_operationId subject)"
    "protocolPositive (JNum (NInt now)) q = Inr now" for q
    using assms(2,3) by (simp_all add: infra_reads ok_subject_def)
  have differs: "csb_organizationId x \<noteq> csb_organizationId subject \<or> csb_tenantId x \<noteq> csb_tenantId subject \<or>
      csb_operationId x \<noteq> csb_operationId subject \<longleftrightarrow> subject_of x \<noteq> subject"
    by (cases subject) (auto simp: subject_of_def)
  show ?thesis
    unfolding verifyInfrastructureOperationCursor_def cur bind_r_Inr split list.case m key json option.case read ids differs
    by (simp add: throw_if_def)
qed

definition example_mac :: "string \<Rightarrow> string \<Rightarrow> string" where
  "example_mac key s = take 32 (key @ s)"

definition example_cursor :: cursor_value where
  "example_cursor = \<lparr>csb_organizationId = ''organization-a'', csb_tenantId = ''tenant-a'', csb_operationId = ''operation-1'',
     csv_nextSequence = 3, csv_expiresAt = 1800000600\<rparr>"

definition example_key :: signing_key where
  "example_key = KeyBytes (replicate 32 CHR ''k'')"

lemma example_cursor_made:
  "\<exists>c. createInfrastructureOperationCursor example_mac example_cursor example_key = Inr c"
proof -
  have "ok_cursor_value example_cursor" by code_simp
  then show ?thesis by (simp add: create_cursor_iff example_key_def key_bytes_def)
qed

theorem cursor_roundtrip_witness:
  "\<exists>c. createInfrastructureOperationCursor example_mac example_cursor example_key = Inr c \<and>
     verifyInfrastructureOperationCursor example_mac (\<lambda>s. s) (JStr c) example_key (subject_of example_cursor) 1800000000 =
       Inr example_cursor"
proof -
  obtain c where c: "createInfrastructureOperationCursor example_mac example_cursor example_key = Inr c"
    using example_cursor_made by blast
  have sub: "ok_subject (subject_of example_cursor)" by code_simp
  have now: "safe_positive 1800000000" by code_simp
  have "length (example_mac (key_bytes example_key) (payload_text example_cursor)) = 32"
    by (simp add: example_mac_def key_bytes_def example_key_def)
  from cursor_roundtrip [OF c sub now this, of "\<lambda>s. s"] c show ?thesis
    by (simp add: example_cursor_def)
qed

text \<open>C39: Whatever cursor is verified is authentic: its last part is the signature of its middle part under the
  key, in the only spelling that decodes to it, its subject is the one expected, it has not expired, and if it
  was made by \<open>createInfrastructureOperationCursor\<close>, with whatever key, the value is the one it was made for.
\<close>

theorem cursor_authentic:
  assumes "verifyInfrastructureOperationCursor hmac utf8_text v k subject now = Inr x"
    and "\<And>s. list_all ascii s \<Longrightarrow> utf8_text s = s"
  shows "subject_of x = subject \<and> now < csv_expiresAt x \<and> ok_cursor_value x \<and> 32 \<le> length (key_bytes k) \<and>
    (\<exists>p. v = JStr (''v1.'' @ p @ ''.'' @ base64url_encode (hmac (key_bytes k) p)) \<and>
      (\<forall>y k' c. createInfrastructureOperationCursor hmac y k' = Inr c \<and> v = JStr c \<longrightarrow>
         x = y \<and> p = payload_text y \<and> hmac (key_bytes k') p = hmac (key_bytes k) p))"
proof -
  from assms(1) obtain p w where
    v: "v = JStr (''v1.'' @ p @ ''.'' @ base64url_encode (hmac (key_bytes k) p))"
    and p: "list_all base64url_char p" "32 \<le> length (key_bytes k)"
    and w: "JSON_parse (utf8_text (base64url_decode p)) = Some w" "validateCursorValue w = Inr x"
    and s: "subject_of x = subject" "now < csv_expiresAt x"
    unfolding verify_cursor_iff by blast
  have "x = y \<and> p = payload_text y \<and> hmac (key_bytes k') p = hmac (key_bytes k) p"
    if made: "createInfrastructureOperationCursor hmac y k' = Inr c" and c: "v = JStr c" for y k' c
  proof -
    from made have y: "ok_cursor_value y"
      and cy: "c = ''v1.'' @ payload_text y @ ''.'' @ base64url_encode (hmac (key_bytes k') (payload_text y))"
      by (simp_all only: create_cursor_iff)
    have parts: "[''v1'', p, base64url_encode (hmac (key_bytes k) p)] =
        [''v1'', payload_text y, base64url_encode (hmac (key_bytes k') (payload_text y))]"
    proof -
      have "list_all base64url_char (payload_text y)" by (simp add: payload_text_def base64url_alphabet)
      note parts = split_cursor [OF p(1) base64url_alphabet] split_cursor [OF this base64url_alphabet]
      have "''v1.'' @ p @ ''.'' @ base64url_encode (hmac (key_bytes k) p) =
          ''v1.'' @ payload_text y @ ''.'' @ base64url_encode (hmac (key_bytes k') (payload_text y))"
        by (rule jsval.inject(3) [THEN iffD1]) (simp only: v [symmetric] c cy [symmetric])
      from arg_cong [OF this, of split_dots] show ?thesis by (simp only: parts)
    qed
    then have same: "p = payload_text y" by simp
    with parts have "base64url_decode (base64url_encode (hmac (key_bytes k) p)) =
        base64url_decode (base64url_encode (hmac (key_bytes k') p))" by simp
    then have mac: "hmac (key_bytes k') p = hmac (key_bytes k) p" by (simp add: base64url_round)
    have "utf8_text (stableJson (enc_cursor y)) = stableJson (enc_cursor y)"
      using assms(2) cursor_ascii [OF y] by blast
    with w(1) have "w = JObj (sorted_entries y)"
      by (simp add: same payload_decodes JSON_parse_cursor [OF y])
    with w(2) have "x = y" by (simp add: validate_sorted)
    with same mac show ?thesis by blast
  qed
  with v have "\<exists>p. v = JStr (''v1.'' @ p @ ''.'' @ base64url_encode (hmac (key_bytes k) p)) \<and>
      (\<forall>y k' c. createInfrastructureOperationCursor hmac y k' = Inr c \<and> v = JStr c \<longrightarrow>
         x = y \<and> p = payload_text y \<and> hmac (key_bytes k') p = hmac (key_bytes k) p)"
    by (intro exI [of _ p]) simp
  with p(2) s validate_cursor_sound [OF w(2)] show ?thesis by simp
qed

theorem cursor_authentic_witness:
  "\<exists>c p. createInfrastructureOperationCursor example_mac example_cursor example_key = Inr c \<and>
     c = ''v1.'' @ p @ ''.'' @ base64url_encode (example_mac (key_bytes example_key) p)"
proof -
  obtain c where c: "createInfrastructureOperationCursor example_mac example_cursor example_key = Inr c"
    using example_cursor_made by blast
  then have cc: "c = ''v1.'' @ payload_text example_cursor @ ''.'' @
      base64url_encode (example_mac (key_bytes example_key) (payload_text example_cursor))"
    by (simp only: create_cursor_iff)
  have mac: "length (example_mac (key_bytes example_key) (payload_text example_cursor)) = 32"
    by (simp add: example_mac_def key_bytes_def example_key_def)
  have ok: "ok_cursor_value example_cursor" "ok_subject (subject_of example_cursor)" "safe_positive 1800000000" by code_simp+
  have "verifyInfrastructureOperationCursor example_mac (\<lambda>s. s) (JStr c) example_key (subject_of example_cursor) 1800000000 =
      Inr example_cursor"
    unfolding verify_cursor_iff
  proof (intro exI conjI)
    show "JStr c = JStr (''v1.'' @ payload_text example_cursor @ ''.'' @
      base64url_encode (example_mac (key_bytes example_key) (payload_text example_cursor)))" by (simp only: cc)
    show "validateCursorValue (JObj (sorted_entries example_cursor)) = Inr example_cursor" using ok(1) by (simp add: validate_sorted)
    show "JSON_parse (base64url_decode (payload_text example_cursor)) = Some (JObj (sorted_entries example_cursor))"
      by (simp add: payload_decodes JSON_parse_cursor [OF ok(1)])
    show "example_mac (key_bytes example_key) (payload_text example_cursor) \<noteq> []" using mac by auto
    show "is_cursor (''v1.'' @ payload_text example_cursor @ ''.'' @
      base64url_encode (example_mac (key_bytes example_key) (payload_text example_cursor)))"
      by (rule created_is_cursor [OF ok(1) mac])
  qed (use ok in \<open>simp_all add: payload_text_def base64url_alphabet key_bytes_def example_key_def example_cursor_def\<close>)
  from cursor_authentic [OF this] c show ?thesis by blast
qed

subsection \<open>The published contract\<close>

definition reference_event :: "(string \<Rightarrow> string) \<Rightarrow> string \<Rightarrow> int \<Rightarrow> event_phase \<Rightarrow> string \<Rightarrow> operation_event option \<Rightarrow> operation_event" where
  "reference_event sha i n phase occurred previous =
     (let e = \<lparr>ev_protocolVersion = CURRENT_INFRASTRUCTURE_CONTROLLER_PROTOCOL_VERSION, ev_operationId = ''operation-1'',
      ev_organizationId = ''organization-a'', ev_tenantId = ''tenant-a'', ev_eventId = i, ev_sequence = n,
      ev_phase = phase, ev_terminal = terminal_phase phase, ev_generation = 1,
      ev_desiredStateDigest = replicate 64 CHR ''a'', ev_occurredAt = occurred, ev_reasonCodes = [],
      ev_previousDigest = map_option ev_digest previous, ev_digest = []\<rparr>
      in e\<lparr>ev_digest := sha (event_text e)\<rparr>)"

lemma reference_event_made:
  assumes "is_exact_id i" "is_canonical_time occurred" "phase \<noteq> EvFailed" "n = 1 \<or> n = 2"
    and "previous = (if n = 1 then None else Some p)"
    and "n = 2 \<Longrightarrow> ev_sequence p = 1 \<and> \<not> ev_terminal p \<and>
      \<not> other_subject p ''operation-1'' ''organization-a'' ''tenant-a'' 1 (replicate 64 CHR ''a'')"
  shows "createInfrastructureOperationEvent sha (reference_event_input i n phase occurred previous) =
    Inr (reference_event sha i n phase occurred previous)"
proof -
  have reads: "protocolVersion (JStr CURRENT_INFRASTRUCTURE_CONTROLLER_PROTOCOL_VERSION) q = Inr CURRENT_INFRASTRUCTURE_CONTROLLER_PROTOCOL_VERSION"
    "protocolIdentifier (JStr ''operation-1'') q = Inr ''operation-1''" "protocolIdentifier (JStr ''organization-a'') q = Inr ''organization-a''"
    "protocolIdentifier (JStr ''tenant-a'') q = Inr ''tenant-a''" "protocolIdentifier (JStr i) q = Inr i"
    "protocolPositive (JNum (NInt 1)) q = Inr 1" "protocolPositive (JNum (NInt n)) q = Inr n"
    "protocolDigest (JStr (replicate 64 CHR ''a'')) q = Inr (replicate 64 CHR ''a'')"
    "protocolTimestamp (JStr occurred) q = Inr occurred"
    "protocolEnumeration (JStr (event_phase_name phase)) q event_phase_name event_phases = Inr phase"
    "protocolUniqueArray (JArr []) q protocolReasonCode = Inr []" for q
    using example_fields assms(1,2,4) by (auto simp: infra_reads safe_positive_def MAX_SAFE_def ok_strings_def)
  show ?thesis
    using assms(3-6)
    by (auto simp: createInfrastructureOperationEvent_def reference_event_input_def reads throw_if_def reference_event_def Let_def)
qed

lemma reference_event_ok:
  assumes "\<And>t. is_sha_digest (sha t)" "is_exact_id i" "is_canonical_time occurred" "phase \<noteq> EvFailed" "n = 1 \<or> n = 2"
    and "pred_option (\<lambda>p. is_sha_digest (ev_digest p)) previous"
  shows "ok_event sha (reference_event sha i n phase occurred previous)"
  using assms example_fields
  by (cases previous)
    (auto simp: ok_event_def reference_event_def Let_def ok_strings_def safe_positive_def MAX_SAFE_def event_text_def
      event_values_def)

text \<open>The reference contract of the module can be built for any hash function with proper digests, its own
  check accepts it as it is, and it publishes exactly the catalog of reason codes.
\<close>

theorem reference_contract_accepted:
  assumes "\<And>t. is_sha_digest (sha t)"
  shows "\<exists>x. createReferenceInfrastructureControllerProtocolContract sha = Inr x \<and>
    parseInfrastructureControllerProtocolContract sha (enc_contract x) = Inr x \<and> pct_reasonCodes x = reason_codes"
proof -
  let ?current = "CURRENT_INFRASTRUCTURE_CONTROLLER_PROTOCOL_VERSION"
  let ?e = "reference_event sha ''event-1'' 1 EvAccepted ''2026-07-16T12:00:00.000Z'' None"
  let ?f = "reference_event sha ''event-2'' 2 EvPlanning ''2026-07-16T12:00:01.000Z'' (Some ?e)"
  have ok: "ok_version_request reference_version_request" "ok_policy reference_policy" "safe_positive 1800000000"
    "ok_operation_request reference_operation_request" "ok_watch_request reference_watch_request" "is_exact_id ''operation-1''"
    "is_exact_id ''event-1''" "is_exact_id ''event-2''"
    "is_canonical_time ''2026-07-16T12:00:00.000Z''" "is_canonical_time ''2026-07-16T12:00:01.000Z''"
    by code_simp+
  define vs where "vs = versionResponse reference_version_request [?current] (vpl_features reference_policy) (Some ?current) [] None"
  have vs: "negotiateInfrastructureControllerVersion (enc_version_request reference_version_request) reference_policy 1800000000 = Inr vs"
    unfolding negotiate_ok [OF ok(1-3)]
    by (simp add: vs_def reference_version_request_def reference_policy_def deprecation_of_def)
  define os where "os = \<lparr>ors_protocolVersion = orq_protocolVersion reference_operation_request,
     ors_requestId = orq_requestId reference_operation_request, ors_outcome = Accepted, ors_operationId = Some ''operation-1'',
     ors_reasonCodes = [], ors_retryAfter = None\<rparr>"
  have os: "acceptInfrastructureOperation reference_operation_request ''operation-1'' = Inr os"
    using ok(6) by (simp add: accept_iff os_def)
  have reads: "parseInfrastructureOperationRequest (enc_operation_request reference_operation_request) = Inr reference_operation_request"
    "parseInfrastructureOperationWatchRequest (enc_watch_request reference_watch_request) = Inr reference_watch_request"
    using ok(4,5) by (simp_all add: operation_request_enc watch_request_enc)
  have e: "createInfrastructureOperationEvent sha (reference_event_input ''event-1'' 1 EvAccepted ''2026-07-16T12:00:00.000Z'' None) = Inr ?e"
    by (rule reference_event_made) (use ok in simp_all)
  have f: "createInfrastructureOperationEvent sha (reference_event_input ''event-2'' 2 EvPlanning ''2026-07-16T12:00:01.000Z'' (Some ?e)) = Inr ?f"
    by (rule reference_event_made [where p = ?e]) (use ok in \<open>simp_all add: reference_event_def Let_def other_subject_def terminal_phase_def\<close>)
  define x where "x = \<lparr>pct_currentProtocolVersion = ?current, pct_supportedProtocolVersions = vpl_supported reference_policy,
    pct_reasonCodes = reason_codes, pct_examples =
      \<lparr>cex_versionRequest = reference_version_request, cex_versionResponse = vs, cex_operationRequest = reference_operation_request,
       cex_operationResponse = os, cex_watchRequest = reference_watch_request, cex_events = [?e, ?f]\<rparr>\<rparr>"
  have made: "createReferenceInfrastructureControllerProtocolContract sha = Inr x"
    unfolding createReferenceInfrastructureControllerProtocolContract_def vs reads bind_r_Inr os e f x_def ..
  have ee: "ok_event sha ?e" by (rule reference_event_ok) (use ok assms in simp_all)
  have ff: "ok_event sha ?f" by (rule reference_event_ok) (use ok assms ok_previous [OF ee] in simp_all)
  have page: "page_ok sha 1 None [?e, ?f]"
    using ee ff by (simp add: page_ok_def) (simp add: linked_def same_subject_def reference_event_def Let_def terminal_phase_def)
  have "ok_operation_response os"
    using ok(4,6) by (simp add: os_def ok_operation_response_def ok_operation_request_def ok_strings_def)
  moreover have "ok_version_response vs" by (rule negotiated_readable [OF ok(1-3) vs])
  moreover have "is_protocolVersion ?current" "vpl_supported reference_policy = [?current]"
    using example_fields(1) by (simp_all add: reference_policy_def)
  moreover have "\<not> version_examples_differ (pct_examples x) (vpl_supported reference_policy)"
    by (simp add: version_examples_differ_def x_def vs_def versionResponse_def reference_version_request_def reference_policy_def)
  moreover have "\<not> operation_examples_differ (pct_examples x)"
    by (simp add: operation_examples_differ_def x_def os_def reference_operation_request_def reference_watch_request_def)
  moreover have "\<not> event_examples_differ (pct_examples x)"
    by (simp add: event_examples_differ_def x_def os_def reference_operation_request_def reference_event_def Let_def)
  ultimately have "ok_contract sha x"
    using ok page reason_codes_distinct by (simp add: ok_contract_def x_def ok_strings_def)
  with made show ?thesis by (intro exI [of _ x]) (simp add: contract_enc x_def)
qed

theorem reference_contract_accepted_witness:
  "\<exists>x. createReferenceInfrastructureControllerProtocolContract example_sha = Inr x \<and>
    parseInfrastructureControllerProtocolContract example_sha (enc_contract x) = Inr x"
  using reference_contract_accepted [where sha = example_sha, OF example_sha_digest] by blast

end
