(* ===== verification/Spec2Isabelle.thy ===== *)
theory Spec2Isabelle
  imports ProviderProps PaasProps PaasSecurityProps BlueprintProps SchemaProps InfraControllerProps InfraProtocolProps InfraEventProps
begin

text \<open>
  Verification of the control-plane core of a secure SaaS infrastructure.  Paths are relative to the
  directory \<open>src\<close> of the TypeScript package.

  \<^bold>\<open>The program.\<close>  \<open>core/\<close> decides and records; the rest of the package renders those
  decisions as cloud resources.  Six parts of \<open>core/\<close> are modelled.

  \<^item> The \<^emph>\<open>resource broker\<close> (\<open>core/resourceBroker.ts\<close>) keeps claims for tenant resources.  Clients
    submit and change claims with one-use capabilities; provider workers lease a claim, provision
    it and report back with a fencing token; consumers read the published outputs.
  \<^item> The \<^emph>\<open>PaaS control plane\<close> (\<open>core/paasControlState.ts\<close>, \<open>core/paasAuthorization.ts\<close>,
    \<open>core/paas.ts\<close>) parses and evaluates the security intent of a platform and, under it, authorizes
    requests of tenants, queues jobs, starts them under quotas and environment locks, expires and
    retries them, and keeps the deployment history.
  \<^item> The \<^emph>\<open>blueprint analysis\<close> (\<open>core/model.ts\<close>, \<open>core/graph.ts\<close>, \<open>core/reachability.ts\<close>,
    \<open>core/entitlements.ts\<close>, \<open>core/policy.ts\<close>, \<open>cidr.ts\<close>) checks a declared platform: its network,
    identities, tenants, applications and audit sinks, with nine policies.
  \<^item> The \<^emph>\<open>blueprint loader\<close> (\<open>core/schema.ts\<close>, \<open>core/migrations.ts\<close>) parses an untrusted document
    into a blueprint for that analysis.
  \<^item> The \<^emph>\<open>infrastructure controller\<close> (\<open>core/infrastructureController.ts\<close>) parses requests to change
    cloud infrastructure, authorizes them from identity, grant, capability, plan and approvals, and
    seals the ownership of a stack with a digest.
  \<^item> Its \<^emph>\<open>protocol\<close> (\<open>core/infrastructureControllerProtocol.ts\<close>) negotiates a version, carries requests,
    responses and watches, chains operation events by digests, and signs the cursors of a watch.

  Each part is a pure state transformer or a pure function of its input, so the composition is
  by arguments: the loader's result is the argument of the analysis, the intent that its parser returns is the argument of the PaaS control plane and its authorizer, an authorized PaaS request is
  one of the inputs of an enqueue, the provider adapters call the transitions of the broker, and the set of
  redeemed capabilities that a host keeps is an input of the controller's authorizer.

  \<^bold>\<open>Theories.\<close>
  \<^item> \<open>Prelude\<close>: collections of rules, lists, options and the error monad.  \<open>Regexps\<close>: regular
    expressions with a matcher and its language.  \<open>JsValues\<close>, \<open>JsObjects\<close>, \<open>JsDate\<close>, \<open>JsParse\<close>,
    \<open>JsCollections\<close>: JSON values and text, objects as dictionaries, time stamps, the small validators
    that the modules of \<open>core/\<close> repeat, arrays, maps and sets.  \<open>Versioned\<close>: the locales for stores
    with a revision, idempotency log and redeemed capabilities, interpreted by both state machines.
  \<^item> Broker: \<open>BrokerModel\<close>, \<open>BrokerState\<close> (data, parsers, the state check), \<open>BrokerValid\<close> (what
    they accept), \<open>BrokerOps\<close> (the transitions), \<open>BrokerLifecycle\<close> (the state machine of a claim, the
    abstract specification), \<open>BrokerSteps\<close> (every transition refines it), \<open>BrokerInvariant\<close>,
    \<open>BrokerProgress\<close> (when an operation succeeds), \<open>BrokerHistory\<close>, \<open>BrokerExamples\<close>, \<open>BrokerProps\<close>,
    \<open>BrokerGuarantees\<close>; \<open>ResourceProvider\<close> and \<open>ProviderProps\<close> for the provider adapters.
  \<^item> PaaS: \<open>PaasIntent\<close>, \<open>PaasModel\<close> (data), \<open>PaasOps\<close> (the transitions), \<open>PaasCheck\<close> (what the state
    check decides), \<open>PaasJobs\<close>, \<open>PaasKeep\<close>, \<open>PaasScheduler\<close>, \<open>PaasSteps\<close>, \<open>PaasExpiry\<close>, \<open>PaasInvariant\<close>,
    \<open>PaasRuns\<close>, \<open>PaasHistory\<close>, \<open>PaasLaws\<close> (the abstract job machine, preservation, runs of commands,
    what histories keep), \<open>PaasClock\<close> (schedulers whose clock is behind), \<open>PaasParse\<close> (the state parser), \<open>PaasAuth\<close> (the authorizer),
    \<open>PaasExamples\<close>, \<open>PaasProps\<close>; \<open>PaasSecurity\<close> (parser and evaluation of an intent), \<open>PaasSecurityLaws\<close>
    (what they decide), \<open>PaasSecurityProps\<close> (what an accepted intent means for the control plane).
  \<^item> Blueprint: \<open>Blueprint\<close> (data), \<open>Cidr\<close>, \<open>SecurityGraph\<close>, \<open>Reachability\<close>, \<open>Entitlements\<close>, \<open>PolicyBase\<close>,
    \<open>StructuralPolicy\<close>, \<open>NetworkPolicy\<close>, \<open>ApplicationPolicy\<close>, \<open>TenantPolicy\<close> (the policies),
    \<open>BlueprintGuarantees\<close>, \<open>BlueprintExamples\<close>, \<open>BlueprintProps\<close>; \<open>BlueprintSchema\<close>, \<open>SchemaLaws\<close>, \<open>SchemaProps\<close>
    for the loader.
  \<^item> Infrastructure controller: \<open>JsonText\<close> (JSON text determines its value; the canonical text), \<open>InfraReaders\<close> (the
    readers of both modules), \<open>InfraController\<close>, \<open>InfraRequest\<close> (data and parser, what it accepts),
    \<open>InfraAuthorizer\<close>, \<open>InfraOwnership\<close>, \<open>InfraControllerProps\<close>.  Protocol: \<open>InfraProtocol\<close>, \<open>InfraMessages\<close> (reason
    codes, negotiation, messages), \<open>InfraEvents\<close> (the chain), \<open>JsonParse\<close> (\<open>JSON.parse\<close>), \<open>InfraCursor\<close>,
    \<open>InfraCursorLaws\<close>, \<open>InfraContract\<close>, \<open>InfraProtocolProps\<close>, \<open>InfraEventProps\<close>.

  \<^bold>\<open>How the model corresponds to the code.\<close>  An interface is a record and a union of literals a
  datatype, with the names of the source; a property whose type is a single literal is not kept in
  the record but is in the JSON of the \<open>enc\<close> functions.  A function that throws returns a sum whose
  left side is the error, with the message of the source; the first error is the one the source
  throws first.  A \<open>Record\<close> is its list of entries in the enumeration order of JavaScript.  SHA-256
  is a parameter \<open>sha\<close>; where a property needs it to be a hash, that is the hypothesis \<open>sha_ok\<close>
  (its output is 64 lower-case hexadecimal digits) or injectivity on the texts concerned.
  \<open>Date.parse\<close> is written out for the time-stamp pattern of the broker and the control plane, and is
  a parameter of the blueprint analysis, which uses it on other strings; the clock is an argument.
  The \<open>URL\<close> class, HMAC-SHA-256 and the decoding of UTF-8 are parameters of the controller and its
  protocol; base64url and \<open>JSON.parse\<close> are written out, the latter with fuel linear in the text, which
  the depth of the recursion cannot exceed.
  Numbers are integers, which is what the parsers demand, and have no bound: times, revisions and
  deadlines are exact here, as they are in JavaScript up to \<open>2 ^ 53\<close>; \<open>validEpoch\<close> accepts larger
  times, whose sums JavaScript rounds.  The \<open>Number.isInteger\<close> tests on times that a parser has
  read, or that have the type of an integer, are left out of the authorizers.  Strings have characters
  below 256; the order of strings is by code unit.

  \<^bold>\<open>What is shown.\<close>  For both state machines: every transition is one step of an abstract life
  cycle, capabilities are redeemed once, replays are answered from the log, stale fencing tokens or
  leases change nothing, tenants cannot act on another's records, quotas and locks hold, and work can
  progress to an end.  Every reachable state of the broker passes the program's own check and parses
  back.  The PaaS control plane never throws on a state that commands reach.  Its reachable states pass
  the check under the hypothesis \<open>clock_ok\<close>, that no scheduler runs with a clock behind the creation of
  a queued job: this is part of \<open>paas_reach\<close>, the reachable states that its properties speak of.  The
  code does not check it (\<open>paas_schedule_early\<close>); without it a reached state may fail the check, and then
  every command on it is refused.  A state that passes the check parses back when its fields have the
  stored formats, which the result digest of a deployment need not have (\<open>paas_result_unreadable\<close>).
  An intent is accepted exactly when it is secure, and then the control plane keeps its limits and
  the authorizer confines dangerous operations to the sandboxes of tenants.
  For the blueprint: the path search returns exactly the simple walks within its bounds or an error when
  they are more than its limit, the
  entitlement analysis decides a declarative rule, the policies decide theirs, and an accepted
  blueprint isolates tenants, contains untrusted workloads and inspects egress, for connections
  of any length.  For the controller: the authorizer decides a declarative rule, an allowed request
  stays within its tenant, has a current plan with enough approvals and is allowed once; event
  chains are tamper-evident and exactly what the protocol's own constructor makes; a cursor is
  accepted only with its signature, for its subject and before it expires.  For the loader: whatever it
  accepts is well formed, it reads back the JSON of every well-formed blueprint, and the errors are the
  source's.

  \<^bold>\<open>Gaps in the code.\<close>  Theorems record what the modelling showed: the two about the control plane named
  above; an accepted blueprint may have an unbrokered transit hop into the control plane
  (\<open>transit_hop_unbrokered\<close>); a claim can be stuck in cancelling or deleting (\<open>broker_cancelling_exit\<close>,
  \<open>broker_deleting_exhausted_stuck\<close>); an exception whose expiry does not parse never expires
  (\<open>exception_holds\<close>, after \<open>validAccessException\<close> of \<open>policy.ts\<close>).

  \<^bold>\<open>Bounds and termination.\<close>  All functions are total.  The searches of \<open>reachability.ts\<close> and
  \<open>entitlements.ts\<close> stop with an error at 1000 results; their recursions end by measures on the
  remaining depth and the remaining budget.  The depth of the transitive policy is the
  number of declared zones, which loses no connection because a simple walk visits every zone at
  most once.  The loops of the sweep and of the scheduler end because every pass shortens the queues.

  \<^bold>\<open>Not modelled.\<close>  The Pulumi stacks and adapters (\<open>index.ts\<close>, \<open>config.ts\<close>, \<open>network.ts\<close>, \<open>database.ts\<close>, \<open>eks.ts\<close>
  and their neighbours, \<open>adapters/aws\<close>, \<open>stacks\<close>) construct cloud resources through a third-party library and
  keep no state of their own; the renderers of \<open>adapters/codefly\<close> produce text and manifests; the
  scripts and the policy pack run outside the package.  The modules of \<open>core/\<close> for cloud contexts, managed Postgres, workload identity and deployment admission
  remain to be modelled.
\<close>

end
